(* ===== verification/Prelude.thy ===== *)
theory Prelude
  imports Main "HOL-Library.Word" "HOL-Library.State_Monad"
begin

text \<open>
  Shared material of the development: the names of the code's integer types, the theorem
  collections the component proofs draw on, and the generic lemmas about vectors, option values
  and the state monad that more than one component needs. A C++ vector is a list whose last
  element is the one \<open>back()\<close> returns; a method of a stateful class is a
  \<open>('state, 'result) state\<close> action of HOL-Library's state monad.
\<close>

unbundle bit_operations_syntax

section \<open>Integer types\<close>

type_synonym u8 = "8 word"
type_synonym u32 = "32 word"
type_synonym u64 = "64 word"

section \<open>Theorem collections\<close>

named_theorems codec_simps \<open>unfolding rules of the byte codecs\<close>
named_theorems keeps_intros \<open>rules that an action keeps an invariant\<close>
named_theorems tc_defs \<open>definitions of the type checker's operations\<close>
named_theorems sv_defs \<open>definitions of the shared validator's operations\<close>

section \<open>Vectors\<close>

text \<open>\<open>v[v.size() - d - 1]\<close>: the element at depth \<open>d\<close> below the back.\<close>

definition at_depth :: "'a list \<Rightarrow> nat \<Rightarrow> 'a" where
  "at_depth xs d = xs ! (length xs - d - 1)"

lemma at_depth_0_snoc [simp]: "at_depth (xs @ [x]) 0 = x"
  by (simp add: at_depth_def)

lemma at_depth_append_right [simp]:
  "d < length ys \<Longrightarrow> at_depth (xs @ ys) d = at_depth ys d"
  by (cases ys) (auto simp: at_depth_def nth_append not_less Suc_diff_le)

lemma at_depth_append_left:
  "\<lbrakk>length ys \<le> d; d < length xs + length ys\<rbrakk> \<Longrightarrow> at_depth (xs @ ys) d = at_depth xs (d - length ys)"
  by (auto simp: at_depth_def nth_append intro!: arg_cong [where f = "nth xs"])

lemma at_depth_last: "xs \<noteq> [] \<Longrightarrow> at_depth xs 0 = last xs"
  by (simp add: at_depth_def last_conv_nth)

lemma at_depth_rev: "d < length xs \<Longrightarrow> at_depth xs d = rev xs ! d"
  by (simp add: at_depth_def rev_nth)

text \<open>\<open>v.resize(n)\<close> cuts the vector, or pads it with value-initialised elements.\<close>

definition resize :: "'a \<Rightarrow> nat \<Rightarrow> 'a list \<Rightarrow> 'a list" where
  "resize d n xs = take n xs @ replicate (n - length xs) d"

lemma resize_take: "n \<le> length xs \<Longrightarrow> resize d n xs = take n xs"
  by (simp add: resize_def)

lemma length_resize [simp]: "length (resize d n xs) = n"
  by (simp add: resize_def)

lemma resize_append_exact [simp]: "resize d (length xs) (xs @ ys) = xs"
  by (simp add: resize_def)

lemma butlast_snoc_conv: "xs \<noteq> [] \<Longrightarrow> xs = butlast xs @ [last xs]"
  by simp

section \<open>Searching for a free value\<close>

text \<open>How many of the values from \<open>d\<close> on are taken: a search that ends at the first free one comes to it.\<close>

definition taken :: "(nat \<Rightarrow> 'a) \<Rightarrow> 'a set \<Rightarrow> nat \<Rightarrow> nat" where
  "taken f A d = card {d'. d \<le> d' \<and> f d' \<in> A}"

lemma taken_less:
  assumes "inj f" "finite A" "f d \<in> A"
  shows "taken f A (Suc d) < taken f A d"
proof -
  have "finite (f -` A)" by (rule finite_vimageI) (use assms in simp_all)
  then have "finite {d'. d \<le> d' \<and> f d' \<in> A}" by (rule rev_finite_subset) auto
  moreover have "{d'. Suc d \<le> d' \<and> f d' \<in> A} \<subset> {d'. d \<le> d' \<and> f d' \<in> A}"
  proof (rule psubsetI)
    have "d \<in> {d'. d \<le> d' \<and> f d' \<in> A}" "d \<notin> {d'. Suc d \<le> d' \<and> f d' \<in> A}" using assms(3) by simp_all
    then show "{d'. Suc d \<le> d' \<and> f d' \<in> A} \<noteq> {d'. d \<le> d' \<and> f d' \<in> A}" by blast
  qed auto
  ultimately show ?thesis unfolding taken_def by (rule psubset_card_mono)
qed

section \<open>Numbers as text\<close>

text \<open>\<open>std::to_string\<close> of an unsigned number.\<close>

fun decimal :: "nat \<Rightarrow> u8 list" where
  "decimal n = (if n < 10 then [of_nat (48 + n)] else decimal (n div 10) @ [of_nat (48 + n mod 10)])"

declare decimal.simps [simp del]

lemma decimal_not_Nil [simp]: "decimal n \<noteq> []" "[] \<noteq> decimal n"
  by (subst decimal.simps, simp)+

lemma digit_inject: "m < 10 \<Longrightarrow> n < 10 \<Longrightarrow> (of_nat (48 + m) :: u8) = of_nat (48 + n) \<longleftrightarrow> m = n"
  by (auto simp: word_eq_iff_unsigned [where 'a = nat] unsigned_of_nat take_bit_nat_eq_self simp del: of_nat_add)

lemma decimal_inject: "decimal m = decimal n \<longleftrightarrow> m = n"
proof
  show "decimal m = decimal n \<Longrightarrow> m = n"
  proof (induction m arbitrary: n rule: decimal.induct)
    case (1 m)
    have split: "m = 10 * (m div 10) + m mod 10" "n = 10 * (n div 10) + n mod 10" by simp_all
    show ?case
    proof (cases "m < 10"; cases "n < 10")
      assume "\<not> m < 10" "\<not> n < 10"
      with 1 have "m div 10 = n div 10" "(of_nat (48 + m mod 10) :: u8) = of_nat (48 + n mod 10)"
        by (simp_all add: decimal.simps [of m] decimal.simps [of n])
      then show ?thesis using split digit_inject [of "m mod 10" "n mod 10"] by simp
    qed (use 1(2) digit_inject [of m n] in \<open>auto simp: decimal.simps [of m] decimal.simps [of n]\<close>)
  qed
qed simp

section \<open>Reading and writing a part of the state\<close>

definition gets :: "('s \<Rightarrow> 'a) \<Rightarrow> ('s, 'a) state" where
  "gets f = State (\<lambda>s. (f s, s))"

definition modify :: "('s \<Rightarrow> 's) \<Rightarrow> ('s, unit) state" where
  "modify f = State (\<lambda>s. ((), f s))"

lemma run_state_gets [simp]: "run_state (gets f) s = (f s, s)"
  by (simp add: gets_def)

lemma run_state_modify [simp]: "run_state (modify f) s = ((), f s)"
  by (simp add: modify_def)

section \<open>Actions that keep an invariant\<close>

text \<open>\<open>keeps I m\<close>: from every state that satisfies \<open>I\<close>, the action \<open>m\<close> ends in one.\<close>

definition keeps :: "('s \<Rightarrow> bool) \<Rightarrow> ('s, 'a) state \<Rightarrow> bool" where
  "keeps I m \<longleftrightarrow> (\<forall>s. I s \<longrightarrow> I (snd (run_state m s)))"

lemma keepsI: "(\<And>s. I s \<Longrightarrow> I (snd (run_state m s))) \<Longrightarrow> keeps I m"
  by (simp add: keeps_def)

lemma keepsD: "keeps I m \<Longrightarrow> I s \<Longrightarrow> I (snd (run_state m s))"
  by (simp add: keeps_def)

lemma keeps_return [keeps_intros]: "keeps I (State_Monad.return x)"
  by (simp add: keeps_def)

lemma keeps_get [keeps_intros]: "keeps I State_Monad.get"
  by (simp add: keeps_def)

lemma keeps_gets [keeps_intros]: "keeps I (gets f)"
  by (simp add: keeps_def)

lemma keeps_modify: "(\<And>s. I s \<Longrightarrow> I (f s)) \<Longrightarrow> keeps I (modify f)"
  by (simp add: keeps_def)

lemma keeps_bind [keeps_intros]:
  "keeps I m \<Longrightarrow> (\<And>x. keeps I (f x)) \<Longrightarrow> keeps I (State_Monad.bind m f)"
  by (auto simp: keeps_def split: prod.splits)

lemma keeps_if [keeps_intros]: "keeps I m \<Longrightarrow> keeps I n \<Longrightarrow> keeps I (if b then m else n)"
  by simp

lemma keeps_case_option [keeps_intros]:
  "keeps I m \<Longrightarrow> (\<And>x. keeps I (f x)) \<Longrightarrow> keeps I (case o' of None \<Rightarrow> m | Some x \<Rightarrow> f x)"
  by (simp split: option.splits)

lemma keeps_traverse_list [keeps_intros]:
  "(\<And>x. keeps I (f x)) \<Longrightarrow> keeps I (State_Monad.traverse_list f xs)"
  by (induction xs) (auto intro!: keeps_intros)

text \<open>
  A value read from the state may be needed to see that the rest keeps the invariant, so there
  is a second rule for a \<open>get\<close> in front.
\<close>

lemma keeps_get_bind:
  "(\<And>s. I s \<Longrightarrow> I (snd (run_state (f s) s))) \<Longrightarrow> keeps I (State_Monad.bind State_Monad.get f)"
  by (simp add: keeps_def)

text \<open>The same with an invariant that the action trades for another.\<close>

definition leads :: "('s \<Rightarrow> bool) \<Rightarrow> ('s, 'a) state \<Rightarrow> ('s \<Rightarrow> bool) \<Rightarrow> bool" where
  "leads I m J \<longleftrightarrow> (\<forall>s. I s \<longrightarrow> J (snd (run_state m s)))"

lemma leads_keep: "keeps I m \<Longrightarrow> (\<And>x. leads I (f x) J) \<Longrightarrow> leads I (State_Monad.bind m f) J"
  by (auto simp: keeps_def leads_def split: prod.splits)

lemma leads_exit: "leads I m J \<Longrightarrow> (\<And>x. keeps J (f x)) \<Longrightarrow> leads I (State_Monad.bind m f) J"
  by (auto simp: keeps_def leads_def split: prod.splits)

section \<open>Systems of steps\<close>

text \<open>
  A component as its clients see it: a set of operations on a state, an invariant that holds at
  the start and that every operation keeps. What holds of the reachable states is proved once.
\<close>

primrec runs :: "('e \<Rightarrow> 's \<Rightarrow> 'r \<times> 's) \<Rightarrow> 'e list \<Rightarrow> 's \<Rightarrow> 'r list \<times> 's" where
  "runs step [] s = ([], s)"
| "runs step (e # es) s =
     (let (r, s') = step e s; (rs, s'') = runs step es s' in (r # rs, s''))"

lemma runs_append:
  "runs step (es @ es') s =
     (let (rs, s') = runs step es s; (rs', s'') = runs step es' s' in (rs @ rs', s''))"
  by (induction es arbitrary: s) (auto simp: Let_def split: prod.splits)

lemma length_runs [simp]: "length (fst (runs step es s)) = length es"
  by (induction es arbitrary: s) (simp_all add: Let_def case_prod_beta)

locale step_system =
  fixes step :: "'e \<Rightarrow> 's \<Rightarrow> 'r \<times> 's"
    and inv :: "'s \<Rightarrow> bool"
  assumes step_inv: "inv s \<Longrightarrow> inv (snd (step e s))"
begin

lemma runs_inv: "inv s \<Longrightarrow> inv (snd (runs step es s))"
proof (induction es arbitrary: s)
  case (Cons e es)
  then have "inv (snd (runs step es (snd (step e s))))" by (simp add: step_inv)
  then show ?case by (simp add: Let_def case_prod_beta)
qed simp

end

end
