(* ===== verification/Wabt_Base.thy ===== *)
theory Wabt_Base
  imports Prelude
begin

text \<open>
  The vocabulary the components share: \<open>Result\<close> (include/wabt/result.h), \<open>Type\<close>
  (include/wabt/type.h), \<open>Limits\<close>, \<open>LabelType\<close>, \<open>SegmentKind\<close> and \<open>ExternalKind\<close>
  (include/wabt/common.h) and \<open>Features\<close> (include/wabt/feature.h, src/feature.cc).
\<close>

section \<open>Result\<close>

datatype result = Ok | Error

text \<open>\<open>operator|\<close>, which every check accumulates its outcome with.\<close>

definition result_or :: "result \<Rightarrow> result \<Rightarrow> result" where
  "result_or lhs rhs = (if lhs = Error \<or> rhs = Error then Error else Ok)"

definition Succeeded :: "result \<Rightarrow> bool" where
  "Succeeded r \<longleftrightarrow> r = Ok"

definition Failed :: "result \<Rightarrow> bool" where
  "Failed r \<longleftrightarrow> r = Error"

lemma result_or_Ok_iff [simp]: "result_or a b = Ok \<longleftrightarrow> a = Ok \<and> b = Ok"
  by (cases a; cases b) (simp_all add: result_or_def)

lemma result_or_Error_iff [simp]: "result_or a b = Error \<longleftrightarrow> a = Error \<or> b = Error"
  by (cases a; cases b) (simp_all add: result_or_def)

lemma result_or_Ok_left [simp]: "result_or Ok a = a"
  by (cases a) (simp_all add: result_or_def)

lemma result_or_Ok_right [simp]: "result_or a Ok = a"
  by (cases a) (simp_all add: result_or_def)

lemma result_or_Error [simp]: "result_or Error a = Error" "result_or a Error = Error"
  by (simp_all add: result_or_def)

lemma result_or_assoc: "result_or (result_or a b) c = result_or a (result_or b c)"
  by (simp add: result_or_def)

lemma not_Ok_iff [simp]: "r \<noteq> Ok \<longleftrightarrow> r = Error"
  by (cases r) simp_all

lemma not_Error_iff [simp]: "r \<noteq> Error \<longleftrightarrow> r = Ok"
  by (cases r) simp_all

lemma Succeeded_simps [simp]: "Succeeded Ok" "\<not> Succeeded Error"
  by (simp_all add: Succeeded_def)

lemma Failed_simps [simp]: "Failed Error" "\<not> Failed Ok"
  by (simp_all add: Failed_def)

text \<open>\<open>c ? Result::Ok : Result::Error\<close>\<close>

definition ok_if :: "bool \<Rightarrow> result" where
  "ok_if b = (if b then Ok else Error)"

lemma ok_if_iff [simp]: "ok_if b = Ok \<longleftrightarrow> b" "ok_if b = Error \<longleftrightarrow> \<not> b"
  by (simp_all add: ok_if_def)

lemma ok_if_simps [simp]: "ok_if True = Ok" "ok_if False = Error"
  by (simp_all add: ok_if_def)

text \<open>The early return of \<open>CHECK_RESULT(m); k\<close>, and of a call that yields no value.\<close>

definition CHECK_RESULT :: "('s, result) state \<Rightarrow> ('s, result) state \<Rightarrow> ('s, result) state" where
  "CHECK_RESULT m k = do { r \<leftarrow> m; if Failed r then State_Monad.return Error else k }"

definition CHECK_SOME ::
  "('s, 'a option) state \<Rightarrow> ('a \<Rightarrow> ('s, result) state) \<Rightarrow> ('s, result) state" where
  "CHECK_SOME m k =
     do { x \<leftarrow> m; case x of None \<Rightarrow> State_Monad.return Error | Some y \<Rightarrow> k y }"

lemma run_CHECK_RESULT [simp]:
  "run_state (CHECK_RESULT m k) s =
     (let (r, s') = run_state m s in if r = Error then (Error, s') else run_state k s')"
  by (simp add: CHECK_RESULT_def Failed_def split: prod.splits)

lemma run_CHECK_SOME [simp]:
  "run_state (CHECK_SOME m k) s =
     (case run_state m s of (None, s') \<Rightarrow> (Error, s') | (Some y, s') \<Rightarrow> run_state (k y) s')"
  by (simp add: CHECK_SOME_def split: option.splits prod.splits)

lemma keeps_CHECK_RESULT [keeps_intros]:
  "keeps I m \<Longrightarrow> keeps I k \<Longrightarrow> keeps I (CHECK_RESULT m k)"
  by (auto simp: CHECK_RESULT_def intro!: keeps_intros)

lemma keeps_CHECK_SOME [keeps_intros]:
  "keeps I m \<Longrightarrow> (\<And>x. keeps I (k x)) \<Longrightarrow> keeps I (CHECK_SOME m k)"
  by (auto simp: CHECK_SOME_def intro!: keeps_intros split: option.splits)

section \<open>Type\<close>

type_synonym index = u32
type_synonym address = u64

definition kInvalidIndex :: index where
  "kInvalidIndex = - 1"

text \<open>
  The class holds an \<open>int32_t\<close> enumerator and an index used by \<open>Type::Reference\<close> only. Any
  \<open>int32_t\<close> may be stored: a block signature that names a function type is its index.
\<close>

datatype wtype = WType (type_enum: int) (type_index: index)

abbreviation type_of_code :: "int \<Rightarrow> wtype" where
  "type_of_code c \<equiv> WType c (- 1)"

abbreviation "I32 \<equiv> type_of_code (- 1)"
abbreviation "I64 \<equiv> type_of_code (- 2)"
abbreviation "F32 \<equiv> type_of_code (- 3)"
abbreviation "F64 \<equiv> type_of_code (- 4)"
abbreviation "V128 \<equiv> type_of_code (- 5)"
abbreviation "I8 \<equiv> type_of_code (- 6)"
abbreviation "I16 \<equiv> type_of_code (- 7)"
abbreviation "FuncRef \<equiv> type_of_code (- 16)"
abbreviation "ExternRef \<equiv> type_of_code (- 17)"
abbreviation "Reference i \<equiv> WType (- 21) i"
abbreviation "FuncTy \<equiv> type_of_code (- 32)"
abbreviation "StructTy \<equiv> type_of_code (- 33)"
abbreviation "ArrayTy \<equiv> type_of_code (- 34)"
abbreviation "VoidTy \<equiv> type_of_code (- 64)"
abbreviation "AnyTy \<equiv> type_of_code 0"

type_synonym type_vector = "wtype list"

text \<open>
  Comparisons of two \<open>Type\<close> values convert both to the enumeration, so they do not see the
  reference index.
\<close>

definition type_eq :: "wtype \<Rightarrow> wtype \<Rightarrow> bool" where
  "type_eq a b \<longleftrightarrow> type_enum a = type_enum b"

definition IsRef :: "wtype \<Rightarrow> bool" where
  "IsRef t \<longleftrightarrow> type_enum t = - 17 \<or> type_enum t = - 16 \<or> type_enum t = - 21"

definition IsReferenceWithIndex :: "wtype \<Rightarrow> bool" where
  "IsReferenceWithIndex t \<longleftrightarrow> type_enum t = - 21"

definition IsNullableRef :: "wtype \<Rightarrow> bool" where
  "IsNullableRef t = IsRef t"

definition IsIndex :: "wtype \<Rightarrow> bool" where
  "IsIndex t \<longleftrightarrow> 0 \<le> type_enum t"

definition GetIndex :: "wtype \<Rightarrow> index" where
  "GetIndex t = word_of_int (type_enum t)"

definition GetReferenceIndex :: "wtype \<Rightarrow> index" where
  "GetReferenceIndex t = type_index t"

text \<open>
  \<open>GetInlineVector\<close>: the types an inline block signature stands for. Outside the listed
  enumerators the code is \<open>WABT_UNREACHABLE\<close>, here \<open>None\<close>.
\<close>

definition GetInlineVector :: "wtype \<Rightarrow> type_vector option" where
  "GetInlineVector t =
     (if type_eq t VoidTy then Some []
      else if type_enum t \<in> {- 1, - 2, - 3, - 4, - 5, - 16, - 17, - 21} then Some [t]
      else None)"

text \<open>What every constructor of the class but the two-argument one establishes.\<close>

definition wf_type :: "wtype \<Rightarrow> bool" where
  "wf_type t \<longleftrightarrow> (type_enum t = - 21 \<or> type_index t = - 1)"

section \<open>Limits and the shared enumerations\<close>

record limits =
  initial :: u64
  max_limit :: u64
  has_max :: bool
  is_shared :: bool
  is_64 :: bool

definition default_limits :: limits where
  "default_limits = \<lparr>initial = 0, max_limit = 0, has_max = False, is_shared = False, is_64 = False\<rparr>"

definition IndexType :: "limits \<Rightarrow> wtype" where
  "IndexType l = (if is_64 l then I64 else I32)"

definition WABT_MAX_PAGES32 :: u64 where
  "WABT_MAX_PAGES32 = 0x10000"

definition WABT_MAX_PAGES64 :: u64 where
  "WABT_MAX_PAGES64 = 0x1000000000000"

datatype label_type =
  LtFunc | LtInitExpr | LtBlock | LtLoop | LtIf | LtElse | LtTry | LtCatch

datatype segment_kind = SkActive | SkPassive | SkDeclared

text \<open>The bits of \<open>SegmentFlags\<close>, at every width they are used with.\<close>

definition SegPassive :: "'a::len word" where "SegPassive = 1"
definition SegExplicitIndex :: "'a::len word" where "SegExplicitIndex = 2"
definition SegDeclared :: "'a::len word" where "SegDeclared = 3"
definition SegUseElemExprs :: "'a::len word" where "SegUseElemExprs = 4"

text \<open>Two bits of the flags of a symbol, likewise.\<close>

definition WABT_SYMBOL_FLAG_UNDEFINED :: "'a::len word" where "WABT_SYMBOL_FLAG_UNDEFINED = 0x10"
definition WABT_SYMBOL_FLAG_EXPLICIT_NAME :: "'a::len word" where "WABT_SYMBOL_FLAG_EXPLICIT_NAME = 0x40"

datatype external_kind = EkFunc | EkTable | EkMemory | EkGlobal | EkTag

section \<open>Features\<close>

record features =
  exceptions_enabled :: bool
  mutable_globals_enabled :: bool
  sat_float_to_int_enabled :: bool
  sign_extension_enabled :: bool
  simd_enabled :: bool
  threads_enabled :: bool
  function_references_enabled :: bool
  multi_value_enabled :: bool
  tail_call_enabled :: bool
  bulk_memory_enabled :: bool
  reference_types_enabled :: bool
  annotations_enabled :: bool
  code_metadata_enabled :: bool
  gc_enabled :: bool
  memory64_enabled :: bool
  multi_memory_enabled :: bool
  extended_const_enabled :: bool
  relaxed_simd_enabled :: bool

definition default_features :: features where
  "default_features = \<lparr>
     exceptions_enabled = False, mutable_globals_enabled = True,
     sat_float_to_int_enabled = True, sign_extension_enabled = True, simd_enabled = True,
     threads_enabled = False, function_references_enabled = False,
     multi_value_enabled = True, tail_call_enabled = False, bulk_memory_enabled = True,
     reference_types_enabled = True, annotations_enabled = False,
     code_metadata_enabled = False, gc_enabled = False, memory64_enabled = False,
     multi_memory_enabled = False, extended_const_enabled = False,
     relaxed_simd_enabled = False\<rparr>"

text \<open>\<open>UpdateDependencies\<close>: three assignments in order.\<close>

definition UpdateDependencies :: "features \<Rightarrow> features" where
  "UpdateDependencies f =
     (let f1 = (if exceptions_enabled f then f\<lparr>reference_types_enabled := True\<rparr> else f);
          f2 = (if function_references_enabled f1 then f1\<lparr>reference_types_enabled := True\<rparr> else f1)
      in if \<not> bulk_memory_enabled f2 then f2\<lparr>reference_types_enabled := False\<rparr> else f2)"

datatype feature =
    FtExceptions | FtMutableGlobals | FtSatFloatToInt | FtSignExtension | FtSimd | FtThreads
  | FtFunctionReferences | FtMultiValue | FtTailCall | FtBulkMemory | FtReferenceTypes
  | FtAnnotations | FtCodeMetadata | FtGc | FtMemory64 | FtMultiMemory | FtExtendedConst
  | FtRelaxedSimd

text \<open>The assignment inside \<open>set_<variable>_enabled\<close>, before the dependencies are updated.\<close>

fun assign_feature :: "feature \<Rightarrow> bool \<Rightarrow> features \<Rightarrow> features" where
  "assign_feature FtExceptions b f = f\<lparr>exceptions_enabled := b\<rparr>"
| "assign_feature FtMutableGlobals b f = f\<lparr>mutable_globals_enabled := b\<rparr>"
| "assign_feature FtSatFloatToInt b f = f\<lparr>sat_float_to_int_enabled := b\<rparr>"
| "assign_feature FtSignExtension b f = f\<lparr>sign_extension_enabled := b\<rparr>"
| "assign_feature FtSimd b f = f\<lparr>simd_enabled := b\<rparr>"
| "assign_feature FtThreads b f = f\<lparr>threads_enabled := b\<rparr>"
| "assign_feature FtFunctionReferences b f = f\<lparr>function_references_enabled := b\<rparr>"
| "assign_feature FtMultiValue b f = f\<lparr>multi_value_enabled := b\<rparr>"
| "assign_feature FtTailCall b f = f\<lparr>tail_call_enabled := b\<rparr>"
| "assign_feature FtBulkMemory b f = f\<lparr>bulk_memory_enabled := b\<rparr>"
| "assign_feature FtReferenceTypes b f = f\<lparr>reference_types_enabled := b\<rparr>"
| "assign_feature FtAnnotations b f = f\<lparr>annotations_enabled := b\<rparr>"
| "assign_feature FtCodeMetadata b f = f\<lparr>code_metadata_enabled := b\<rparr>"
| "assign_feature FtGc b f = f\<lparr>gc_enabled := b\<rparr>"
| "assign_feature FtMemory64 b f = f\<lparr>memory64_enabled := b\<rparr>"
| "assign_feature FtMultiMemory b f = f\<lparr>multi_memory_enabled := b\<rparr>"
| "assign_feature FtExtendedConst b f = f\<lparr>extended_const_enabled := b\<rparr>"
| "assign_feature FtRelaxedSimd b f = f\<lparr>relaxed_simd_enabled := b\<rparr>"

definition set_feature :: "feature \<Rightarrow> bool \<Rightarrow> features \<Rightarrow> features" where
  "set_feature ft b f = UpdateDependencies (assign_feature ft b f)"

text \<open>\<open>EnableAll\<close> enables the features one by one, in the order of feature.def.\<close>

definition EnableAll :: "features \<Rightarrow> features" where
  "EnableAll f = fold (\<lambda>ft. set_feature ft True)
     [FtExceptions, FtMutableGlobals, FtSatFloatToInt, FtSignExtension, FtSimd, FtThreads,
      FtFunctionReferences, FtMultiValue, FtTailCall, FtBulkMemory, FtReferenceTypes,
      FtAnnotations, FtCodeMetadata, FtGc, FtMemory64, FtMultiMemory, FtExtendedConst,
      FtRelaxedSimd] f"

text \<open>
  The dependencies as the comments of \<open>UpdateDependencies\<close> state them, and what the setters keep
  true: reference types need bulk memory; and with bulk memory on, exceptions and function
  references bring reference types.
\<close>

definition dependencies_met :: "features \<Rightarrow> bool" where
  "dependencies_met f \<longleftrightarrow>
     (exceptions_enabled f \<longrightarrow> reference_types_enabled f) \<and>
     (function_references_enabled f \<longrightarrow> reference_types_enabled f) \<and>
     (reference_types_enabled f \<longrightarrow> bulk_memory_enabled f)"

definition features_closed :: "features \<Rightarrow> bool" where
  "features_closed f \<longleftrightarrow>
     (reference_types_enabled f \<longrightarrow> bulk_memory_enabled f) \<and>
     (bulk_memory_enabled f \<and> (exceptions_enabled f \<or> function_references_enabled f)
        \<longrightarrow> reference_types_enabled f)"

lemma UpdateDependencies_closed: "features_closed (UpdateDependencies f)"
  by (simp add: UpdateDependencies_def features_closed_def Let_def)

lemma UpdateDependencies_idem: "UpdateDependencies (UpdateDependencies f) = UpdateDependencies f"
  by (simp add: UpdateDependencies_def Let_def)

lemma set_feature_closed: "features_closed (set_feature ft b f)"
  by (simp add: set_feature_def UpdateDependencies_closed)

lemma default_features_closed: "features_closed default_features"
  by (simp add: features_closed_def default_features_def)

interpretation feature_sys: step_system "\<lambda>(ft, b) f. ((), set_feature ft b f)" features_closed
  by unfold_locales (auto simp: set_feature_closed)

text \<open>
  C26. After any sequence of setting and clearing features, starting from the default ones, the
  reference types are never enabled without bulk memory, and the dependencies of the comments
  (exceptions and function references need reference types, reference types need bulk memory) all
  hold exactly if bulk memory is enabled or neither exceptions nor function references are: with
  bulk memory disabled the code turns reference types off and leaves the other two as they are.
\<close>

theorem feature_dependencies_iff:
  defines "after opts \<equiv> snd (runs (\<lambda>(ft, b) f. ((), set_feature ft b f)) opts default_features)"
  shows "(reference_types_enabled (after opts) \<longrightarrow> bulk_memory_enabled (after opts)) \<and>
    (dependencies_met (after opts) \<longleftrightarrow> bulk_memory_enabled (after opts) \<or>
       \<not> exceptions_enabled (after opts) \<and> \<not> function_references_enabled (after opts))"
  using feature_sys.runs_inv [OF default_features_closed, of opts]
  by (auto simp: after_def features_closed_def dependencies_met_def)

theorem feature_dependencies_iff_witness:
  "let f = set_feature FtBulkMemory False (set_feature FtExceptions True default_features)
   in exceptions_enabled f \<and> \<not> dependencies_met f"
  using feature_dependencies_iff [of "[(FtExceptions, True), (FtBulkMemory, False)]"]
  by (simp add: set_feature_def UpdateDependencies_def default_features_def Let_def)

end
