(* ===== verification/Stream_Out.thy ===== *)
theory Stream_Out
  imports Wabt_Base
begin

text \<open>
  The output side: \<open>Stream\<close> and \<open>MemoryStream\<close> (include/wabt/stream.h, src/stream.cc). A stream
  holds the current offset, the result of the writes so far and the output buffer. The optional
  log stream, \<open>FileStream\<close> and the text dump are input and output of the host and are not
  modelled. Sizes and offsets are \<open>size_t\<close>; a buffer never reaches \<open>2^64\<close> bytes, so they are
  \<open>nat\<close>; \<open>AddOffset\<close> takes a signed delta, of which the caller adds no more than the offset has.
\<close>

section \<open>State and operations\<close>

record mem_stream =
  ms_offset :: nat
  ms_result :: result
  ms_data :: "u8 list"

definition new_stream :: mem_stream where
  "new_stream = \<lparr>ms_offset = 0, ms_result = Ok, ms_data = []\<rparr>"

definition ClearOffset :: "mem_stream \<Rightarrow> mem_stream" where
  "ClearOffset s = s\<lparr>ms_offset := 0\<rparr>"

definition AddOffset :: "int \<Rightarrow> mem_stream \<Rightarrow> mem_stream" where
  "AddOffset delta s = s\<lparr>ms_offset := nat (int (ms_offset s) + delta)\<rparr>"

definition Clear :: "mem_stream \<Rightarrow> mem_stream" where
  "Clear s = s\<lparr>ms_data := []\<rparr>"

text \<open>\<open>memcpy\<close> of \<open>src\<close> to position \<open>at\<close>, inside the buffer.\<close>

definition overwrite :: "nat \<Rightarrow> 'a list \<Rightarrow> 'a list \<Rightarrow> 'a list" where
  "overwrite at src xs = take at xs @ src @ drop (at + length src) xs"

definition WriteDataImpl :: "nat \<Rightarrow> u8 list \<Rightarrow> u8 list \<Rightarrow> u8 list \<times> result" where
  "WriteDataImpl dst_offset src buf =
     (if length src = 0 then (buf, Ok)
      else let end' = dst_offset + length src;
               buf' = (if length buf < end' then resize 0 end' buf else buf)
           in (overwrite dst_offset src buf', Ok))"

definition MoveDataImpl :: "nat \<Rightarrow> nat \<Rightarrow> nat \<Rightarrow> u8 list \<Rightarrow> u8 list \<times> result" where
  "MoveDataImpl dst_offset src_offset n buf =
     (if n = 0 then (buf, Ok)
      else let src_end = src_offset + n; dst_end = dst_offset + n;
               end' = (if dst_end < src_end then src_end else dst_end);
               buf' = (if length buf < end' then resize 0 end' buf else buf)
           in (overwrite dst_offset (take n (drop src_offset buf')) buf', Ok))"

definition TruncateImpl :: "nat \<Rightarrow> u8 list \<Rightarrow> u8 list \<times> result" where
  "TruncateImpl n buf = (if length buf < n then (buf, Error) else (resize 0 n buf, Ok))"

definition WriteDataAt :: "nat \<Rightarrow> u8 list \<Rightarrow> mem_stream \<Rightarrow> mem_stream" where
  "WriteDataAt at src s =
     (if Failed (ms_result s) then s
      else let (buf, r) = WriteDataImpl at src (ms_data s)
           in s\<lparr>ms_data := buf, ms_result := r\<rparr>)"

text \<open>The offset advances even when the write was skipped.\<close>

definition WriteData :: "u8 list \<Rightarrow> mem_stream \<Rightarrow> mem_stream" where
  "WriteData src s =
     (let s' = WriteDataAt (ms_offset s) src s
      in s'\<lparr>ms_offset := ms_offset s' + length src\<rparr>)"

definition MoveData :: "nat \<Rightarrow> nat \<Rightarrow> nat \<Rightarrow> mem_stream \<Rightarrow> mem_stream" where
  "MoveData dst_offset src_offset n s =
     (if Failed (ms_result s) then s
      else let (buf, r) = MoveDataImpl dst_offset src_offset n (ms_data s)
           in s\<lparr>ms_data := buf, ms_result := r\<rparr>)"

definition Truncate :: "nat \<Rightarrow> mem_stream \<Rightarrow> mem_stream" where
  "Truncate n s =
     (if Failed (ms_result s) then s
      else let (buf, r) = TruncateImpl n (ms_data s);
               s' = s\<lparr>ms_data := buf, ms_result := r\<rparr>
           in if Succeeded r \<and> n < ms_offset s' then s'\<lparr>ms_offset := n\<rparr> else s')"

text \<open>
  The typed writers. Numbers are written with the least significant byte first, whatever the
  host; \<open>WriteU8\<close> takes a wider number and asserts that it fits.
\<close>

definition to_le :: "nat \<Rightarrow> 'a::len word \<Rightarrow> u8 list" where
  "to_le n v = map (\<lambda>i. ucast (drop_bit (8 * i) v)) [0..<n]"

definition WriteU8 :: "u32 \<Rightarrow> mem_stream \<Rightarrow> mem_stream" where
  "WriteU8 v = WriteData [ucast v]"

definition WriteU32 :: "u32 \<Rightarrow> mem_stream \<Rightarrow> mem_stream" where
  "WriteU32 v = WriteData (to_le 4 v)"

definition WriteU64 :: "u64 \<Rightarrow> mem_stream \<Rightarrow> mem_stream" where
  "WriteU64 v = WriteData (to_le 8 v)"

definition WriteU128 :: "u8 list \<Rightarrow> mem_stream \<Rightarrow> mem_stream" where
  "WriteU128 v = WriteData v"

section \<open>Lemmas\<close>

lemma length_to_le [simp]: "length (to_le n v) = n"
  by (simp add: to_le_def)

lemma length_overwrite [simp]:
  "at + length src \<le> length xs \<Longrightarrow> length (overwrite at src xs) = length xs"
  by (simp add: overwrite_def)

lemma nth_overwrite:
  "\<lbrakk>at + length src \<le> length xs; i < length xs\<rbrakk> \<Longrightarrow>
   overwrite at src xs ! i = (if at \<le> i \<and> i < at + length src then src ! (i - at) else xs ! i)"
  by (auto simp: overwrite_def nth_append min_def)

lemma overwrite_end [simp]: "overwrite (length xs) src (xs @ replicate (length src) d) = xs @ src"
  by (simp add: overwrite_def)

lemma overwrite_mid: "length old = length new \<Longrightarrow>
  overwrite (length pre) new (pre @ old @ post) = pre @ new @ post"
  by (simp add: overwrite_def)

lemma WriteDataAt_result: "ms_result (WriteDataAt at src s) = ms_result s"
  by (cases "ms_result s")
    (simp_all add: WriteDataAt_def WriteDataImpl_def Let_def)

lemma WriteDataAt_offset [simp]: "ms_offset (WriteDataAt at src s) = ms_offset s"
  by (simp add: WriteDataAt_def Let_def split: prod.splits)

text \<open>\<open>at_end s\<close>: the stream is healthy and its offset is the end of its buffer.\<close>

definition at_end :: "mem_stream \<Rightarrow> bool" where
  "at_end s \<longleftrightarrow> ms_result s = Ok \<and> ms_offset s = length (ms_data s)"

lemma new_stream_at_end: "at_end new_stream"
  by (simp add: at_end_def new_stream_def)

lemma WriteData_appends:
  assumes "at_end s"
  shows "ms_data (WriteData src s) = ms_data s @ src \<and> at_end (WriteData src s)"
proof (cases "src = []")
  case True
  with assms show ?thesis
    by (simp add: WriteData_def WriteDataAt_def WriteDataImpl_def at_end_def Let_def)
next
  case False
  have "resize 0 (length (ms_data s) + length src) (ms_data s)
        = ms_data s @ replicate (length src) 0"
    by (simp add: resize_def)
  with False assms show ?thesis
    by (simp add: WriteData_def WriteDataAt_def WriteDataImpl_def at_end_def Let_def)
qed

lemma WriteData_data: "at_end s \<Longrightarrow> ms_data (WriteData src s) = ms_data s @ src"
  using WriteData_appends by blast

lemma WriteData_at_end: "at_end s \<Longrightarrow> at_end (WriteData src s)"
  using WriteData_appends by blast

text \<open>Writing over a region that lies inside the buffer changes that region only.\<close>

lemma WriteDataAt_inside:
  assumes "ms_result s = Ok" and "ms_data s = pre @ old @ post" and "length new = length old"
  shows "WriteDataAt (length pre) new s = s\<lparr>ms_data := pre @ new @ post\<rparr>"
proof (cases "new = []")
  case True
  with assms show ?thesis by (cases s) (simp add: WriteDataAt_def WriteDataImpl_def)
next
  case False
  with assms(3) have "old \<noteq> []" by auto
  with assms False show ?thesis
    by (cases s) (simp add: WriteDataAt_def WriteDataImpl_def Let_def overwrite_mid)
qed

text \<open>
  What readers of a byte store rely on: a read after a write inside the store gives the bytes
  written, and a read outside the written region is what it was. The laws are stated for an
  abstract store and proved once for every pair of operations that satisfies them.
\<close>

locale byte_store =
  fixes store :: "nat \<Rightarrow> 'b list \<Rightarrow> 's \<Rightarrow> 's"
    and size_of :: "'s \<Rightarrow> nat"
    and at :: "'s \<Rightarrow> nat \<Rightarrow> 'b"
    and ok :: "'s \<Rightarrow> bool"
  assumes store_ok: "ok s \<Longrightarrow> p + length bs \<le> size_of s \<Longrightarrow> ok (store p bs s)"
    and store_size: "ok s \<Longrightarrow> p + length bs \<le> size_of s \<Longrightarrow> size_of (store p bs s) = size_of s"
    and store_at: "ok s \<Longrightarrow> p + length bs \<le> size_of s \<Longrightarrow> i < size_of s \<Longrightarrow>
      at (store p bs s) i = (if p \<le> i \<and> i < p + length bs then bs ! (i - p) else at s i)"
begin

lemma read_back: "ok s \<Longrightarrow> p + length bs \<le> size_of s \<Longrightarrow>
  map (at (store p bs s)) [p..<p + length bs] = bs"
  by (rule nth_equalityI) (simp_all add: store_at)

lemma read_other: "ok s \<Longrightarrow> p + length bs \<le> size_of s \<Longrightarrow> q + n \<le> size_of s \<Longrightarrow>
  q + n \<le> p \<or> p + length bs \<le> q \<Longrightarrow>
  map (at (store p bs s)) [q..<q + n] = map (at s) [q..<q + n]"
  by (auto simp: store_at)

lemma stores_commute:
  assumes "ok s" and "p + length bs \<le> size_of s" and "q + length cs \<le> size_of s"
    and "p + length bs \<le> q \<or> q + length cs \<le> p" and "i < size_of s"
  shows "at (store p bs (store q cs s)) i = at (store q cs (store p bs s)) i"
  using assms by (auto simp: store_at store_ok store_size)

end

lemma WriteDataAt_length:
  "\<lbrakk>ms_result s = Ok; p + length bs \<le> length (ms_data s)\<rbrakk> \<Longrightarrow>
   ms_data (WriteDataAt p bs s) = overwrite p bs (ms_data s)"
  by (auto simp: WriteDataAt_def WriteDataImpl_def Let_def overwrite_def)

interpretation ms: byte_store WriteDataAt "\<lambda>s. length (ms_data s)" "\<lambda>s i. ms_data s ! i"
    "\<lambda>s. ms_result s = Ok"
  by unfold_locales (simp_all add: WriteDataAt_result WriteDataAt_length nth_overwrite)

text \<open>
  \<open>MoveData\<close> has the meaning of \<open>memmove\<close>: the destination receives what the source held before
  the call, overlapping or not, and the rest of the buffer stays.
\<close>

lemma MoveData_nth:
  assumes "ms_result s = Ok" and "src + n \<le> length (ms_data s)" and "dst + n \<le> length (ms_data s)"
    and "i < length (ms_data s)"
  shows "ms_data (MoveData dst src n s) ! i =
    (if dst \<le> i \<and> i < dst + n then ms_data s ! (src + (i - dst)) else ms_data s ! i)"
proof (cases "n = 0")
  case True
  with assms show ?thesis by (auto simp: MoveData_def MoveDataImpl_def)
next
  case False
  with assms have "ms_data (MoveData dst src n s)
      = overwrite dst (take n (drop src (ms_data s))) (ms_data s)"
    by (auto simp: MoveData_def MoveDataImpl_def Let_def)
  with assms show ?thesis by (auto simp: nth_overwrite)
qed

end
