(* ===== verification/Leb128.thy ===== *)
theory Leb128
  imports Stream_Out
begin

text \<open>
  Variable-length integers (src/leb128.cc): the writers that emit the shortest encoding, the
  writers that emit five bytes for a value that is patched later, and the four bounds-checked
  readers. A pair of pointers \<open>p, end\<close> is the list of the bytes between them. A reader returns
  the number of bytes consumed, 0 for an error, and the value stored to \<open>*out_value\<close>,
  \<open>None\<close> where the code leaves it alone.
\<close>

section \<open>Writers\<close>

text \<open>
  The macro \<open>LEB128_LOOP_UNTIL(value == 0)\<close> over an unsigned value of any width, then the four
  functions that use it.
\<close>

lemma unat_drop_bit_less:
  "0 < unat (drop_bit 7 (v :: 'a::len word)) \<Longrightarrow> unat (drop_bit 7 v) < unat v"
proof -
  assume "0 < unat (drop_bit 7 v)"
  moreover have "unat (drop_bit 7 v) = unat v div 128"
    by (simp only: unat_drop_bit_eq) (simp add: drop_bit_eq_div)
  ultimately show ?thesis by simp
qed

function uleb_loop :: "'a::len word \<Rightarrow> u8 list" where
  "uleb_loop value =
     (let byte = ucast (value AND 0x7f); value' = drop_bit 7 value
      in if value' = 0 then [byte] else (byte OR 0x80) # uleb_loop value')"
  by pat_completeness auto
termination
  by (relation "measure unat") (auto intro!: unat_drop_bit_less simp: unat_gt_0)

declare uleb_loop.simps [simp del]

definition U32Leb128Bytes :: "u32 \<Rightarrow> u8 list" where
  "U32Leb128Bytes value = uleb_loop value"

definition U64Leb128Bytes :: "u64 \<Rightarrow> u8 list" where
  "U64Leb128Bytes value = uleb_loop value"

text \<open>\<open>U32Leb128Length\<close>: a \<open>do ... while\<close> of its own.\<close>

function U32Leb128Length :: "u32 \<Rightarrow> nat" where
  "U32Leb128Length value =
     (let value' = drop_bit 7 value in if value' \<noteq> 0 then Suc (U32Leb128Length value') else 1)"
  by pat_completeness auto
termination
  by (relation "measure unat") (auto intro!: unat_drop_bit_less simp: unat_gt_0)

declare U32Leb128Length.simps [simp del]

text \<open>
  The signed writers choose the loop by the sign of the value. They are stated on the integer the
  \<open>int32_t\<close> or \<open>int64_t\<close> holds: \<open>value & 0x7f\<close> keeps its seven low bits and the arithmetic
  \<open>value >>= 7\<close> is \<open>drop_bit 7\<close>, which keeps the sign, so testing the sign in every round
  makes the choice the code makes once.
\<close>

definition sleb_done :: "int \<Rightarrow> int \<Rightarrow> u8 \<Rightarrow> bool" where
  "sleb_done value value' byte \<longleftrightarrow>
     (if value < 0 then value' = - 1 \<and> byte AND 0x40 \<noteq> 0 else value' = 0 \<and> byte AND 0x40 = 0)"

function sleb_loop :: "int \<Rightarrow> u8 list" where
  "sleb_loop value =
     (let byte = word_of_int (value AND 0x7f); value' = drop_bit 7 value
      in if sleb_done value value' byte then [byte] else (byte OR 0x80) # sleb_loop value')"
  by pat_completeness auto
termination
proof (relation "measure (\<lambda>v. nat \<bar>v\<bar>)", simp, goal_cases)
  case (1 v byte v')
  have "v \<noteq> 0" "v \<noteq> - 1"
    using 1 by (auto simp: sleb_done_def)
  moreover have "v' = v div 128"
    using 1 by (simp add: drop_bit_eq_div)
  ultimately show ?case by (auto simp: nat_less_iff abs_if)
qed

declare sleb_loop.simps [simp del]

definition S32Leb128Bytes :: "u32 \<Rightarrow> u8 list" where
  "S32Leb128Bytes value = sleb_loop (sint value)"

definition S64Leb128Bytes :: "u64 \<Rightarrow> u8 list" where
  "S64Leb128Bytes value = sleb_loop (sint value)"

text \<open>The fixed-width writers fill an array of five bytes.\<close>

definition FixedU32Leb128Bytes :: "u32 \<Rightarrow> u8 list" where
  "FixedU32Leb128Bytes value =
     [ucast (value AND 0x7f) OR 0x80,
      ucast (drop_bit 7 value AND 0x7f) OR 0x80,
      ucast (drop_bit 14 value AND 0x7f) OR 0x80,
      ucast (drop_bit 21 value AND 0x7f) OR 0x80,
      ucast (drop_bit 28 value AND 0x0f)]"

definition FixedS32Leb128Bytes :: "u32 \<Rightarrow> u8 list" where
  "FixedS32Leb128Bytes value =
     [ucast (value AND 0x7f) OR 0x80,
      ucast (drop_bit 7 value AND 0x7f) OR 0x80,
      ucast (drop_bit 14 value AND 0x7f) OR 0x80,
      ucast (drop_bit 21 value AND 0x7f) OR 0x80,
      ucast (drop_bit 28 value AND 0x0f) OR (if value <s 0 then 0x70 else 0)]"

text \<open>The raw writers copy to a buffer of the caller if its \<open>capacity\<close> suffices, else return 0.\<close>

definition WriteU32Leb128Raw :: "nat \<Rightarrow> u32 \<Rightarrow> u8 list \<times> nat" where
  "WriteU32Leb128Raw capacity value =
     (let data = uleb_loop value
      in if capacity < length data then ([], 0) else (data, length data))"

definition WriteFixedU32Leb128Raw :: "nat \<Rightarrow> u32 \<Rightarrow> u8 list \<times> nat" where
  "WriteFixedU32Leb128Raw capacity value =
     (if capacity < 5 then ([], 0) else (FixedU32Leb128Bytes value, 5))"

text \<open>The stream writers.\<close>

definition WriteU32Leb128 :: "u32 \<Rightarrow> mem_stream \<Rightarrow> mem_stream" where
  "WriteU32Leb128 value s = WriteData (uleb_loop value) s"

definition WriteU64Leb128 :: "u64 \<Rightarrow> mem_stream \<Rightarrow> mem_stream" where
  "WriteU64Leb128 value s = WriteData (uleb_loop value) s"

definition WriteS32Leb128 :: "u32 \<Rightarrow> mem_stream \<Rightarrow> mem_stream" where
  "WriteS32Leb128 value s = WriteData (S32Leb128Bytes value) s"

definition WriteS64Leb128 :: "u64 \<Rightarrow> mem_stream \<Rightarrow> mem_stream" where
  "WriteS64Leb128 value s = WriteData (S64Leb128Bytes value) s"

definition WriteFixedU32Leb128 :: "u32 \<Rightarrow> mem_stream \<Rightarrow> mem_stream" where
  "WriteFixedU32Leb128 value s = WriteData (fst (WriteFixedU32Leb128Raw 5 value)) s"

definition WriteFixedS32Leb128 :: "u32 \<Rightarrow> mem_stream \<Rightarrow> mem_stream" where
  "WriteFixedS32Leb128 value s = WriteData (FixedS32Leb128Bytes value) s"

definition WriteU32Leb128At :: "nat \<Rightarrow> u32 \<Rightarrow> mem_stream \<Rightarrow> mem_stream \<times> nat" where
  "WriteU32Leb128At offset value s =
     (let data = uleb_loop value in (WriteDataAt offset data s, length data))"

definition WriteFixedU32Leb128At :: "nat \<Rightarrow> u32 \<Rightarrow> mem_stream \<Rightarrow> mem_stream \<times> nat" where
  "WriteFixedU32Leb128At offset value s =
     (let (data, n) = WriteFixedU32Leb128Raw 5 value in (WriteDataAt offset data s, n))"

section \<open>Readers\<close>

text \<open>
  \<open>BYTE_AT(type, i, shift)\<close> and the macros \<open>LEB128_1\<close> to \<open>LEB128_10\<close>, each defined from the one
  before it.
\<close>

definition BYTE_AT :: "u8 list \<Rightarrow> nat \<Rightarrow> nat \<Rightarrow> 'a::len word" where
  "BYTE_AT p i shift = push_bit shift (ucast (p ! i) AND 0x7f)"

fun LEB128_n :: "nat \<Rightarrow> u8 list \<Rightarrow> 'a::len word" where
  "LEB128_n 0 p = 0"
| "LEB128_n (Suc k) p = BYTE_AT p k (7 * k) OR LEB128_n k p"

text \<open>\<open>SIGN_EXTEND\<close>: a left shift, then an arithmetic right shift, by the same amount.\<close>

definition SIGN_EXTEND :: "'a::len word \<Rightarrow> nat \<Rightarrow> 'a word" where
  "SIGN_EXTEND value sign_bit =
     (let shift = LENGTH('a) - 1 - sign_bit
      in signed_drop_bit shift (push_bit shift value))"

text \<open>\<open>p + i < end && (p[i] & 0x80) == 0\<close>: byte \<open>i\<close> is there and ends the number.\<close>

definition leb_stops :: "u8 list \<Rightarrow> nat \<Rightarrow> bool" where
  "leb_stops p i \<longleftrightarrow> i < length p \<and> p ! i AND 0x80 = 0"

definition ReadU32Leb128 :: "u8 list \<Rightarrow> nat \<times> u32 option" where
  "ReadU32Leb128 p =
     (if leb_stops p 0 then (1, Some (LEB128_n 1 p))
      else if leb_stops p 1 then (2, Some (LEB128_n 2 p))
      else if leb_stops p 2 then (3, Some (LEB128_n 3 p))
      else if leb_stops p 3 then (4, Some (LEB128_n 4 p))
      else if leb_stops p 4 then
        (if p ! 4 AND 0xf0 \<noteq> 0 then (0, None) else (5, Some (LEB128_n 5 p)))
      else (0, Some 0))"

definition ReadU64Leb128 :: "u8 list \<Rightarrow> nat \<times> u64 option" where
  "ReadU64Leb128 p =
     (if leb_stops p 0 then (1, Some (LEB128_n 1 p))
      else if leb_stops p 1 then (2, Some (LEB128_n 2 p))
      else if leb_stops p 2 then (3, Some (LEB128_n 3 p))
      else if leb_stops p 3 then (4, Some (LEB128_n 4 p))
      else if leb_stops p 4 then (5, Some (LEB128_n 5 p))
      else if leb_stops p 5 then (6, Some (LEB128_n 6 p))
      else if leb_stops p 6 then (7, Some (LEB128_n 7 p))
      else if leb_stops p 7 then (8, Some (LEB128_n 8 p))
      else if leb_stops p 8 then (9, Some (LEB128_n 9 p))
      else if leb_stops p 9 then
        (if p ! 9 AND 0xfe \<noteq> 0 then (0, None) else (10, Some (LEB128_n 10 p)))
      else (0, Some 0))"

definition ReadS32Leb128 :: "u8 list \<Rightarrow> nat \<times> u32 option" where
  "ReadS32Leb128 p =
     (if leb_stops p 0 then (1, Some (SIGN_EXTEND (LEB128_n 1 p) 6))
      else if leb_stops p 1 then (2, Some (SIGN_EXTEND (LEB128_n 2 p) 13))
      else if leb_stops p 2 then (3, Some (SIGN_EXTEND (LEB128_n 3 p) 20))
      else if leb_stops p 3 then (4, Some (SIGN_EXTEND (LEB128_n 4 p) 27))
      else if leb_stops p 4 then
        (let sign_bit_set = (p ! 4 AND 0x8 \<noteq> 0); top_bits = p ! 4 AND 0xf0
         in if (sign_bit_set \<and> top_bits \<noteq> 0x70) \<or> (\<not> sign_bit_set \<and> top_bits \<noteq> 0)
            then (0, None) else (5, Some (LEB128_n 5 p)))
      else (0, None))"

definition ReadS64Leb128 :: "u8 list \<Rightarrow> nat \<times> u64 option" where
  "ReadS64Leb128 p =
     (if leb_stops p 0 then (1, Some (SIGN_EXTEND (LEB128_n 1 p) 6))
      else if leb_stops p 1 then (2, Some (SIGN_EXTEND (LEB128_n 2 p) 13))
      else if leb_stops p 2 then (3, Some (SIGN_EXTEND (LEB128_n 3 p) 20))
      else if leb_stops p 3 then (4, Some (SIGN_EXTEND (LEB128_n 4 p) 27))
      else if leb_stops p 4 then (5, Some (SIGN_EXTEND (LEB128_n 5 p) 34))
      else if leb_stops p 5 then (6, Some (SIGN_EXTEND (LEB128_n 6 p) 41))
      else if leb_stops p 6 then (7, Some (SIGN_EXTEND (LEB128_n 7 p) 48))
      else if leb_stops p 7 then (8, Some (SIGN_EXTEND (LEB128_n 8 p) 55))
      else if leb_stops p 8 then (9, Some (SIGN_EXTEND (LEB128_n 9 p) 62))
      else if leb_stops p 9 then
        (let sign_bit_set = (p ! 9 AND 0x1 \<noteq> 0); top_bits = p ! 9 AND 0xfe
         in if (sign_bit_set \<and> top_bits \<noteq> 0x7e) \<or> (\<not> sign_bit_set \<and> top_bits \<noteq> 0)
            then (0, None) else (10, Some (LEB128_n 10 p)))
      else (0, None))"

section \<open>Bits of the bytes written\<close>

lemma bit_0x7f: "bit (0x7f :: 'a::len word) n \<longleftrightarrow> n < 7 \<and> n < LENGTH('a)"
proof -
  have "(0x7f :: 'a word) = mask 7" by (simp add: mask_eq_exp_minus_1)
  then show ?thesis by (simp only: bit_mask_iff possible_bit_word) auto
qed

lemma bit_0x80: "bit (0x80 :: u8) n \<longleftrightarrow> n = 7"
proof -
  have "(0x80 :: u8) = 2 ^ 7" by simp
  then show ?thesis by (simp only: bit_exp_iff possible_bit_word) auto
qed

lemma and_0x80_eq_0: "(b :: u8) AND 0x80 = 0 \<longleftrightarrow> \<not> bit b 7"
  unfolding bit_eq_iff [where ?'a = "8 word"] bit_and_iff bit_0x80 possible_bit_word
  by (auto dest: spec [of _ 7])

lemma bit_or_0x80: "bit ((b :: u8) OR 0x80) n \<longleftrightarrow> bit b n \<or> n = 7"
  unfolding bit_or_iff bit_0x80 by (rule refl)

lemma uleb_loop_ne [simp]: "uleb_loop v \<noteq> []"
  by (subst uleb_loop.simps) (simp add: Let_def)

lemma bit_uleb_loop:
  "i < length (uleb_loop v) \<Longrightarrow>
   bit (uleb_loop v ! i) j \<longleftrightarrow>
     (if j < 7 then bit v (7 * i + j) else j = 7 \<and> Suc i < length (uleb_loop v))"
proof (induction v arbitrary: i rule: uleb_loop.induct)
  case (1 v)
  have byte: "bit (ucast (v AND 0x7f) :: u8) j \<longleftrightarrow> j < 7 \<and> bit v j"
    unfolding bit_ucast_iff bit_and_iff bit_0x7f by (auto dest: bit_imp_le_length)
  show ?case
  proof (cases "drop_bit 7 v = 0")
    case True
    with "1.prems" byte show ?thesis
      by (auto simp: uleb_loop.simps [of v])
  next
    case False
    with "1" byte show ?thesis
      by (cases i) (auto simp: uleb_loop.simps [of v] bit_drop_bit_eq bit_or_0x80 add.assoc)
  qed
qed

lemma bit_beyond_uleb_loop: "bit v n \<Longrightarrow> n < 7 * length (uleb_loop v)"
proof (induction v arbitrary: n rule: uleb_loop.induct)
  case (1 v)
  show ?case
  proof (cases "drop_bit 7 v = 0")
    case True
    then have "\<not> bit v (7 + m)" for m
      by (metis bit_0_eq bit_drop_bit_eq bot_apply bot_bool_def comp_apply)
    from this [of "n - 7"] "1.prems" have "n < 7" by (cases "n < 7") auto
    with True show ?thesis by (simp add: uleb_loop.simps [of v])
  next
    case False
    show ?thesis
    proof (cases "n < 7")
      case False
      with "1.prems" have "bit (drop_bit 7 v) (n - 7)" by (simp add: bit_drop_bit_eq)
      with "1.IH" [OF refl refl \<open>drop_bit 7 v \<noteq> 0\<close>] have "n - 7 < 7 * length (uleb_loop (drop_bit 7 v))" by simp
      with \<open>drop_bit 7 v \<noteq> 0\<close> show ?thesis by (simp add: uleb_loop.simps [of v])
    qed (simp add: uleb_loop.simps [of v] Let_def)
  qed
qed

lemma length_uleb_loop:
  "unat v < 2 ^ (7 * Suc m) \<Longrightarrow> length (uleb_loop v) \<le> Suc m"
proof (induction m arbitrary: v)
  case 0
  then have "drop_bit 7 v = 0"
    by (simp flip: unat_eq_0 add: unat_drop_bit_eq) (simp add: drop_bit_eq_div)
  then show ?case by (simp add: uleb_loop.simps [of v])
next
  case (Suc m)
  have "unat (drop_bit 7 v) = unat v div 2 ^ 7"
    by (simp only: unat_drop_bit_eq) (simp add: drop_bit_eq_div)
  with Suc.prems have "unat (drop_bit 7 v) < 2 ^ (7 * Suc m)"
    by (simp add: less_mult_imp_div_less power_add)
  with Suc.IH show ?case by (simp add: uleb_loop.simps [of v] Let_def)
qed

lemma U32Leb128Length_eq: "U32Leb128Length v = length (uleb_loop v)"
proof (induction v rule: U32Leb128Length.induct)
  case (1 v)
  then show ?case
    by (subst U32Leb128Length.simps, subst uleb_loop.simps) (simp add: Let_def)
qed

lemma bit_BYTE_AT: "bit (BYTE_AT p k (7 * k) :: 'a::len word) n \<longleftrightarrow>
  n < LENGTH('a) \<and> n div 7 = k \<and> bit (p ! k) (n mod 7)"
  unfolding BYTE_AT_def bit_push_bit_iff bit_and_iff bit_0x7f bit_unsigned_iff
  by (cases "n div 7 = k")
    (auto simp flip: minus_mult_div_eq_mod dest: bit_imp_le_length intro: div_nat_eqI)

lemma bit_LEB128_n:
  "bit (LEB128_n k p :: 'a::len word) n \<longleftrightarrow>
     n < LENGTH('a) \<and> n div 7 < k \<and> bit (p ! (n div 7)) (n mod 7)"
proof (induction k)
  case 0
  then show ?case by simp
next
  case (Suc k)
  show ?case
    by (auto simp: bit_or_iff bit_BYTE_AT Suc less_Suc_eq)
qed

lemma all_less_8: "(\<forall>n<8. P n) \<longleftrightarrow> P 0 \<and> P 1 \<and> P 2 \<and> P 3 \<and> P 4 \<and> P 5 \<and> P 6 \<and> P (7 :: nat)"
  by (auto simp: numeral_eq_Suc All_less_Suc)

lemma u8_eq_bits: "(a :: u8) = b \<longleftrightarrow> (\<forall>n<8. bit a n \<longleftrightarrow> bit b n)"
  unfolding bit_eq_iff [where ?'a = "8 word"] by (simp add: possible_bit_word)

lemma and_0xf0_eq_0: "(b :: u8) AND 0xf0 = 0 \<longleftrightarrow> \<not> bit b 4 \<and> \<not> bit b 5 \<and> \<not> bit b 6 \<and> \<not> bit b 7"
  unfolding u8_eq_bits all_less_8 bit_and_iff by simp

lemma and_0xfe_eq_0: "(b :: u8) AND 0xfe = 0 \<longleftrightarrow>
  \<not> bit b 1 \<and> \<not> bit b 2 \<and> \<not> bit b 3 \<and> \<not> bit b 4 \<and> \<not> bit b 5 \<and> \<not> bit b 6 \<and> \<not> bit b 7"
  unfolding u8_eq_bits all_less_8 bit_and_iff by simp

lemma and_0xf0_eq_0x70: "(b :: u8) AND 0xf0 = 0x70 \<longleftrightarrow> bit b 4 \<and> bit b 5 \<and> bit b 6 \<and> \<not> bit b 7"
  unfolding u8_eq_bits all_less_8 bit_and_iff by simp

lemma and_0xfe_eq_0x7e: "(b :: u8) AND 0xfe = 0x7e \<longleftrightarrow>
  bit b 1 \<and> bit b 2 \<and> bit b 3 \<and> bit b 4 \<and> bit b 5 \<and> bit b 6 \<and> \<not> bit b 7"
  unfolding u8_eq_bits all_less_8 bit_and_iff by simp

lemma and_bit_eq_0: "(b :: u8) AND 1 = 0 \<longleftrightarrow> \<not> bit b 0" "b AND 8 = 0 \<longleftrightarrow> \<not> bit b 3"
  "b AND 0x40 = 0 \<longleftrightarrow> \<not> bit b 6"
  unfolding u8_eq_bits all_less_8 bit_and_iff by simp_all

lemma leb_stops_iff: "leb_stops p i \<longleftrightarrow> i < length p \<and> \<not> bit (p ! i) 7"
  by (simp add: leb_stops_def and_0x80_eq_0)

section \<open>The readers as a search\<close>

text \<open>The readers as a search for the byte that ends the number.\<close>

lemma ReadU32Leb128_find: "ReadU32Leb128 p =
  (case find (leb_stops p) [0..<5] of
     None \<Rightarrow> (0, Some 0)
   | Some i \<Rightarrow> if i = 4 \<and> p ! 4 AND 0xf0 \<noteq> 0 then (0, None) else (Suc i, Some (LEB128_n (Suc i) p)))"
  unfolding ReadU32Leb128_def by (simp add: upt_rec numeral_eq_Suc del: LEB128_n.simps)

lemma ReadU64Leb128_find: "ReadU64Leb128 p =
  (case find (leb_stops p) [0..<10] of
     None \<Rightarrow> (0, Some 0)
   | Some i \<Rightarrow> if i = 9 \<and> p ! 9 AND 0xfe \<noteq> 0 then (0, None) else (Suc i, Some (LEB128_n (Suc i) p)))"
  unfolding ReadU64Leb128_def by (simp add: upt_rec numeral_eq_Suc del: LEB128_n.simps)

lemma ReadS32Leb128_find: "ReadS32Leb128 p =
  (case find (leb_stops p) [0..<5] of
     None \<Rightarrow> (0, None)
   | Some i \<Rightarrow> if i < 4 then (Suc i, Some (SIGN_EXTEND (LEB128_n (Suc i) p) (7 * i + 6)))
       else if p ! 4 AND 0xf0 = (if bit (p ! 4) 3 then 0x70 else 0) then (5, Some (LEB128_n 5 p))
       else (0, None))"
  unfolding ReadS32Leb128_def
  by (simp add: upt_rec numeral_eq_Suc and_bit_eq_0 [simplified numeral_eq_Suc] del: LEB128_n.simps)


lemma ReadS64Leb128_find: "ReadS64Leb128 p =
  (case find (leb_stops p) [0..<10] of
     None \<Rightarrow> (0, None)
   | Some i \<Rightarrow> if i < 9 then (Suc i, Some (SIGN_EXTEND (LEB128_n (Suc i) p) (7 * i + 6)))
       else if p ! 9 AND 0xfe = (if bit (p ! 9) 0 then 0x7e else 0) then (10, Some (LEB128_n 10 p))
       else (0, None))"
  unfolding ReadS64Leb128_def
  by (simp add: upt_rec numeral_eq_Suc and_bit_eq_0 [simplified numeral_eq_Suc] del: LEB128_n.simps)

text \<open>
  \<open>leb_form bs\<close>: the shape every encoding has, a continuation bit on all bytes but the last.
  The reader then stops at the last byte, whatever follows it.
\<close>

definition leb_form :: "u8 list \<Rightarrow> bool" where
  "leb_form bs \<longleftrightarrow> bs \<noteq> [] \<and> (\<forall>i<length bs. bit (bs ! i) 7 \<longleftrightarrow> Suc i < length bs)"

lemma find_leb_form:
  assumes "leb_form bs" and "length bs \<le> m"
  shows "find (leb_stops (bs @ rest)) [0..<m] = Some (length bs - 1)"
proof -
  let ?i = "length bs - 1"
  from assms have "bs \<noteq> []" "?i < m" "\<forall>i<length bs. bit (bs ! i) 7 \<longleftrightarrow> Suc i < length bs"
    by (auto simp: leb_form_def neq_Nil_conv)
  then show ?thesis
    by (auto simp: find_Some_iff leb_stops_iff nth_append intro!: exI [of _ ?i])
qed

lemma uleb_loop_form: "leb_form (uleb_loop v)"
  by (simp add: leb_form_def bit_uleb_loop)

text \<open>The seven-bit groups of an encoding are the bits of the value.\<close>

definition leb_bits :: "u8 list \<Rightarrow> (nat \<Rightarrow> bool) \<Rightarrow> bool" where
  "leb_bits bs f \<longleftrightarrow> (\<forall>i<length bs. \<forall>j<7. bit (bs ! i) j \<longleftrightarrow> f (7 * i + j))"

lemma bit_LEB128_n_bits:
  assumes "leb_bits bs f"
  shows "bit (LEB128_n (length bs) (bs @ rest) :: 'a::len word) n \<longleftrightarrow>
    n < LENGTH('a) \<and> n < 7 * length bs \<and> f n"
proof (cases "n div 7 < length bs")
  case True
  with assms have "bit (bs ! (n div 7)) (n mod 7) \<longleftrightarrow> f n"
    by (auto simp: leb_bits_def)
  with True show ?thesis
    by (auto simp: bit_LEB128_n nth_append)
next
  case False
  then show ?thesis by (auto simp: bit_LEB128_n)
qed

lemma uleb_loop_bits: "leb_bits (uleb_loop v) (bit v)"
  by (simp add: leb_bits_def bit_uleb_loop)

lemma LEB128_n_uleb_loop: "LEB128_n (length (uleb_loop v)) (uleb_loop v @ rest) = v"
  by (rule bit_word_eqI)
    (auto simp: bit_LEB128_n_bits [OF uleb_loop_bits] dest: bit_beyond_uleb_loop)

lemma length_U32Leb128Bytes: "1 \<le> length (U32Leb128Bytes v) \<and> length (U32Leb128Bytes v) \<le> 5"
proof -
  have "unat v < 2 ^ (7 * Suc 4)"
    using unsigned_less [where ?'a = nat and w = v] by simp
  then have "length (uleb_loop v) \<le> Suc 4" by (rule length_uleb_loop)
  then show ?thesis by (simp add: U32Leb128Bytes_def Suc_le_eq)
qed

lemma length_U64Leb128Bytes: "1 \<le> length (U64Leb128Bytes v) \<and> length (U64Leb128Bytes v) \<le> 10"
proof -
  have "unat v < 2 ^ (7 * Suc 9)"
    using unsigned_less [where ?'a = nat and w = v] by simp
  then have "length (uleb_loop v) \<le> Suc 9" by (rule length_uleb_loop)
  then show ?thesis by (simp add: U64Leb128Bytes_def Suc_le_eq)
qed

lemma read_u32: "ReadU32Leb128 (U32Leb128Bytes v @ rest) = (length (U32Leb128Bytes v), Some v)"
proof -
  let ?bs = "uleb_loop v"
  have len: "1 \<le> length ?bs" "length ?bs \<le> 5"
    using length_U32Leb128Bytes [of v] by (simp_all add: U32Leb128Bytes_def)
  have top: "(?bs @ rest) ! 4 AND 0xf0 = 0" if "length ?bs = 5"
    using that by (auto simp: nth_append and_0xf0_eq_0 bit_uleb_loop dest: bit_imp_le_length)
  show ?thesis
    using find_leb_form [OF uleb_loop_form len(2), of rest] len top
    by (auto simp: ReadU32Leb128_find U32Leb128Bytes_def LEB128_n_uleb_loop)
qed

lemma read_u64: "ReadU64Leb128 (U64Leb128Bytes v @ rest) = (length (U64Leb128Bytes v), Some v)"
proof -
  let ?bs = "uleb_loop v"
  have len: "1 \<le> length ?bs" "length ?bs \<le> 10"
    using length_U64Leb128Bytes [of v] by (simp_all add: U64Leb128Bytes_def)
  have top: "(?bs @ rest) ! 9 AND 0xfe = 0" if "length ?bs = 10"
    using that by (auto simp: nth_append and_0xfe_eq_0 bit_uleb_loop dest: bit_imp_le_length)
  show ?thesis
    using find_leb_form [OF uleb_loop_form len(2), of rest] len top
    by (auto simp: ReadU64Leb128_find U64Leb128Bytes_def LEB128_n_uleb_loop)
qed

lemma sleb_loop_ne [simp]: "sleb_loop v \<noteq> []"
  by (subst sleb_loop.simps) (simp add: Let_def)

lemma bit_int_0x7f: "bit (0x7f :: int) n \<longleftrightarrow> n < 7"
proof -
  have "(0x7f :: int) = mask 7" by (simp add: mask_eq_exp_minus_1)
  then show ?thesis by (simp only: bit_mask_iff) simp
qed

lemma sleb_byte: "bit (word_of_int (v AND 0x7f) :: u8) j \<longleftrightarrow> j < 7 \<and> bit v j"
  unfolding bit_word_of_int_iff bit_and_iff bit_int_0x7f by auto

lemma bit_sleb_loop:
  "i < length (sleb_loop v) \<Longrightarrow>
   bit (sleb_loop v ! i) j \<longleftrightarrow>
     (if j < 7 then bit v (7 * i + j) else j = 7 \<and> Suc i < length (sleb_loop v))"
proof (induction v arbitrary: i rule: sleb_loop.induct)
  case (1 v)
  show ?case
  proof (cases "sleb_done v (drop_bit 7 v) (word_of_int (v AND 0x7f))")
    case True
    with "1.prems" show ?thesis
      by (auto simp: sleb_loop.simps [of v] sleb_byte)
  next
    case False
    with "1" show ?thesis
      by (cases i) (auto simp: sleb_loop.simps [of v] bit_drop_bit_eq bit_or_0x80 sleb_byte add.assoc)
  qed
qed

lemma drop_bit_7_sign: "drop_bit 7 (v :: int) < 0 \<longleftrightarrow> v < 0"
  by simp

lemma sleb_done_bits:
  assumes "sleb_done v (drop_bit 7 v) (word_of_int (v AND 0x7f))" and "6 \<le> n"
  shows "bit v n \<longleftrightarrow> v < 0"
proof -
  have b6: "bit v 6 \<longleftrightarrow> v < 0"
    using assms(1) by (auto simp: sleb_done_def and_bit_eq_0 sleb_byte split: if_splits)
  have "bit v (7 + m) \<longleftrightarrow> v < 0" for m
  proof -
    have "bit v (7 + m) \<longleftrightarrow> bit (drop_bit 7 v) m" by (simp add: bit_drop_bit_eq)
    then show ?thesis using assms(1) by (auto simp: sleb_done_def split: if_splits)
  qed
  from this [of "n - 7"] b6 assms(2) show ?thesis by (cases "n = 6") auto
qed

lemma bit_beyond_sleb_loop: "7 * length (sleb_loop v) - 1 \<le> n \<Longrightarrow> bit v n \<longleftrightarrow> v < 0"
proof (induction v arbitrary: n rule: sleb_loop.induct)
  case (1 v)
  show ?case
  proof (cases "sleb_done v (drop_bit 7 v) (word_of_int (v AND 0x7f))")
    case True
    with "1.prems" sleb_done_bits [OF True, of n] show ?thesis
      by (simp add: sleb_loop.simps [of v])
  next
    case False
    with "1.prems" have n: "7 * length (sleb_loop (drop_bit 7 v)) + 7 - 1 \<le> n"
      by (simp add: sleb_loop.simps [of v])
    then have "bit (drop_bit 7 v) (n - 7) \<longleftrightarrow> drop_bit 7 v < 0"
      using False "1.IH" [OF refl refl False, of "n - 7"] by simp
    moreover from n have "7 \<le> n" by (cases "sleb_loop (drop_bit 7 v)") auto
    ultimately show ?thesis by (simp add: bit_drop_bit_eq drop_bit_7_sign)
  qed
qed

lemma length_sleb_loop:
  "\<lbrakk>- (2 ^ (7 * m + 6)) \<le> v; v < 2 ^ (7 * m + 6)\<rbrakk> \<Longrightarrow> length (sleb_loop v) \<le> Suc m"
proof (induction m arbitrary: v)
  case 0
  have "sleb_done v (drop_bit 7 v) (word_of_int (v AND 0x7f))"
  proof (cases "v < 0")
    case True
    with 0 have "v div 128 = - 1" by auto
    moreover have "bit v 6" using True 0 by (simp add: bit_iff_odd) presburger
    ultimately show ?thesis using True
      by (simp add: sleb_done_def and_bit_eq_0 sleb_byte drop_bit_eq_div)
  next
    case False
    with 0 have "v div 128 = 0" by auto
    moreover have "\<not> bit v 6" using False 0 by (simp add: bit_iff_odd)
    ultimately show ?thesis using False
      by (simp add: sleb_done_def and_bit_eq_0 sleb_byte drop_bit_eq_div)
  qed
  then show ?case by (simp add: sleb_loop.simps [of v])
next
  case (Suc m)
  have "- (2 ^ (7 * m + 6)) \<le> drop_bit 7 v" "drop_bit 7 v < 2 ^ (7 * m + 6)"
    using Suc.prems by (simp_all add: drop_bit_eq_div power_add)
  with Suc.IH [of "drop_bit 7 v"] show ?case
    by (simp add: sleb_loop.simps [of v] Let_def)
qed

lemma sleb_loop_form: "leb_form (sleb_loop v)"
  by (simp add: leb_form_def bit_sleb_loop)

lemma sleb_loop_bits: "leb_bits (sleb_loop v) (bit v)"
  by (simp add: leb_bits_def bit_sleb_loop)

lemma bit_SIGN_EXTEND:
  assumes "sb < LENGTH('a)" and "n < LENGTH('a::len)"
  shows "bit (SIGN_EXTEND (w :: 'a word) sb) n \<longleftrightarrow> bit w (min n sb)"
  using assms
  by (auto simp: SIGN_EXTEND_def Let_def bit_signed_drop_bit_iff bit_push_bit_iff min_def)

text \<open>A value of \<open>w\<close> bits read back from its signed encoding, in the two ways the readers do it.\<close>

lemma SIGN_EXTEND_sleb:
  assumes "7 * length (sleb_loop (sint v)) - 1 < LENGTH('a)"
  shows "SIGN_EXTEND (LEB128_n (length (sleb_loop (sint v))) (sleb_loop (sint v) @ rest))
           (7 * length (sleb_loop (sint v)) - 1) = (v :: 'a::len word)"
proof (rule bit_word_eqI)
  fix n assume n: "n < LENGTH('a)"
  let ?bs = "sleb_loop (sint v)"
  have ne: "0 < length ?bs" by simp
  have v: "bit v m \<longleftrightarrow> bit (sint v) m" if "m < LENGTH('a)" for m
    using that by (auto simp: bit_sint_iff)
  show "bit (SIGN_EXTEND (LEB128_n (length ?bs) (?bs @ rest) :: 'a word) (7 * length ?bs - 1)) n
      = bit v n"
  proof (cases "n \<le> 7 * length ?bs - 1")
    case True
    with ne have "n < 7 * length ?bs" by arith
    with True n show ?thesis
      using bit_SIGN_EXTEND [OF assms n, of "LEB128_n (length ?bs) (?bs @ rest)"]
      by (simp add: bit_LEB128_n_bits [OF sleb_loop_bits] v min_def)
  next
    case False
    with n ne assms show ?thesis
      using bit_SIGN_EXTEND [OF assms n, of "LEB128_n (length ?bs) (?bs @ rest)"]
      by (simp add: bit_LEB128_n_bits [OF sleb_loop_bits] v bit_beyond_sleb_loop)
  qed
qed

lemma LEB128_n_sleb:
  assumes "LENGTH('a) \<le> 7 * length (sleb_loop (sint v))"
  shows "LEB128_n (length (sleb_loop (sint v))) (sleb_loop (sint v) @ rest) = (v :: 'a::len word)"
  using assms
  by (intro bit_word_eqI) (auto simp: bit_LEB128_n_bits [OF sleb_loop_bits] bit_sint_iff)

lemma length_S32Leb128Bytes: "1 \<le> length (S32Leb128Bytes v) \<and> length (S32Leb128Bytes v) \<le> 5"
proof -
  have "- (2 ^ (7 * 4 + 6)) \<le> sint v" "sint v < 2 ^ (7 * 4 + 6)"
    using sint_greater_eq [of v] sint_less [of v] by simp_all
  then have "length (sleb_loop (sint v)) \<le> Suc 4" by (rule length_sleb_loop)
  then show ?thesis by (simp add: S32Leb128Bytes_def Suc_le_eq)
qed

lemma length_S64Leb128Bytes: "1 \<le> length (S64Leb128Bytes v) \<and> length (S64Leb128Bytes v) \<le> 10"
proof -
  have "- (2 ^ (7 * 9 + 6)) \<le> sint v" "sint v < 2 ^ (7 * 9 + 6)"
    using sint_greater_eq [of v] sint_less [of v] by simp_all
  then have "length (sleb_loop (sint v)) \<le> Suc 9" by (rule length_sleb_loop)
  then show ?thesis by (simp add: S64Leb128Bytes_def Suc_le_eq)
qed

lemma read_s32: "ReadS32Leb128 (S32Leb128Bytes v @ rest) = (length (S32Leb128Bytes v), Some v)"
proof -
  let ?bs = "sleb_loop (sint v)"
  have len: "1 \<le> length ?bs" "length ?bs \<le> 5"
    using length_S32Leb128Bytes [of v] by (simp_all add: S32Leb128Bytes_def)
  note find = find_leb_form [OF sleb_loop_form len(2), of rest]
  show ?thesis
  proof (cases "length ?bs = 5")
    case True
    have "bit ((?bs @ rest) ! 4) j \<longleftrightarrow> bit (sint v) (28 + j)" if "j < 7" for j
      using that True by (simp add: nth_append bit_sleb_loop)
    moreover have "\<not> bit ((?bs @ rest) ! 4) 7"
      using True by (simp add: nth_append bit_sleb_loop)
    ultimately have "(?bs @ rest) ! 4 AND 0xf0 = (if bit ((?bs @ rest) ! 4) 3 then 0x70 else 0)"
      by (auto simp: and_0xf0_eq_0 and_0xf0_eq_0x70 bit_sint_iff dest: bit_imp_le_length)
    with find True LEB128_n_sleb [of v rest] show ?thesis
      by (simp add: ReadS32Leb128_find S32Leb128Bytes_def)
  next
    case False
    with len have "7 * length ?bs - 1 < LENGTH(32)" by simp
    from find False len SIGN_EXTEND_sleb [OF this, of rest] show ?thesis
      by (simp add: ReadS32Leb128_find S32Leb128Bytes_def diff_mult_distrib2 add.commute)
  qed
qed

lemma read_s64: "ReadS64Leb128 (S64Leb128Bytes v @ rest) = (length (S64Leb128Bytes v), Some v)"
proof -
  let ?bs = "sleb_loop (sint v)"
  have len: "1 \<le> length ?bs" "length ?bs \<le> 10"
    using length_S64Leb128Bytes [of v] by (simp_all add: S64Leb128Bytes_def)
  note find = find_leb_form [OF sleb_loop_form len(2), of rest]
  show ?thesis
  proof (cases "length ?bs = 10")
    case True
    have "bit ((?bs @ rest) ! 9) j \<longleftrightarrow> bit (sint v) (63 + j)" if "j < 7" for j
      using that True by (simp add: nth_append bit_sleb_loop)
    moreover have "\<not> bit ((?bs @ rest) ! 9) 7"
      using True by (simp add: nth_append bit_sleb_loop)
    ultimately have "(?bs @ rest) ! 9 AND 0xfe = (if bit ((?bs @ rest) ! 9) 0 then 0x7e else 0)"
      by (auto simp: and_0xfe_eq_0 and_0xfe_eq_0x7e bit_sint_iff dest: bit_imp_le_length)
    with find True LEB128_n_sleb [of v rest] show ?thesis
      by (simp add: ReadS64Leb128_find S64Leb128Bytes_def)
  next
    case False
    with len have "7 * length ?bs - 1 < LENGTH(64)" by simp
    from find False len SIGN_EXTEND_sleb [OF this, of rest] show ?thesis
      by (simp add: ReadS64Leb128_find S64Leb128Bytes_def diff_mult_distrib2 add.commute)
  qed
qed

section \<open>The five-byte encodings\<close>

lemma bit_int_0x0f: "bit (0x0f :: int) n \<longleftrightarrow> n < 4"
proof -
  have "(0x0f :: int) = mask 4" by (simp add: mask_eq_exp_minus_1)
  then show ?thesis by (simp only: bit_mask_iff) simp
qed

lemma all_less_5: "(\<forall>i<5. P i) \<longleftrightarrow> P 0 \<and> P 1 \<and> P 2 \<and> P 3 \<and> P (4 :: nat)"
  by (auto simp: numeral_eq_Suc All_less_Suc)

lemma FixedU32_length [simp]: "length (FixedU32Leb128Bytes v) = 5"
  by (simp add: FixedU32Leb128Bytes_def)

lemma FixedU32_bits: "leb_form (FixedU32Leb128Bytes v) \<and> leb_bits (FixedU32Leb128Bytes v) (bit v)"
  unfolding leb_form_def leb_bits_def FixedU32_length all_less_5
  unfolding FixedU32Leb128Bytes_def
  by (auto simp: bit_or_0x80 bit_ucast_iff bit_and_iff bit_int_0x7f bit_int_0x0f bit_drop_bit_eq
      dest: bit_imp_le_length)

lemma read_fixed_u32: "ReadU32Leb128 (FixedU32Leb128Bytes v @ rest) = (5, Some v)"
proof -
  let ?bs = "FixedU32Leb128Bytes v"
  have form: "leb_form ?bs" and bits: "leb_bits ?bs (bit v)"
    using FixedU32_bits by auto
  have "(?bs @ rest) ! 4 AND 0xf0 = 0"
    using form bits by (auto simp: leb_form_def leb_bits_def and_0xf0_eq_0 nth_append all_less_5
        dest: bit_imp_le_length)
  moreover have "LEB128_n 5 (?bs @ rest) = v"
    using bit_LEB128_n_bits [OF bits, where 'a = 32 and rest = rest]
    by (intro bit_word_eqI) simp
  ultimately show ?thesis
    using find_leb_form [OF form, of 5 rest] by (simp add: ReadU32Leb128_find)
qed


lemma FixedS32_length [simp]: "length (FixedS32Leb128Bytes v) = 5"
  by (simp add: FixedS32Leb128Bytes_def)


lemma bit_int_0x70: "bit (0x70 :: int) n \<longleftrightarrow> 4 \<le> n \<and> n < 7"
proof -
  have "(0x70 :: int) = push_bit 4 (mask 3)" by (simp add: mask_eq_exp_minus_1)
  then show ?thesis by (simp only: bit_push_bit_iff bit_mask_iff) auto
qed

lemma FixedS32_top: "bit (FixedS32Leb128Bytes v ! 4) j \<longleftrightarrow>
  (j < 4 \<and> bit v (28 + j)) \<or> (4 \<le> j \<and> j < 7 \<and> bit v 31)"
  by (auto simp: FixedS32Leb128Bytes_def bit_or_iff bit_ucast_iff bit_and_iff bit_int_0x0f
      bit_int_0x70 bit_drop_bit_eq word_sless_alt bit_last_iff [where 'a = 32, simplified]
      dest: bit_imp_le_length)

lemma FixedS32_low: "i < 4 \<Longrightarrow> FixedS32Leb128Bytes v ! i = FixedU32Leb128Bytes v ! i"
  by (auto simp: FixedS32Leb128Bytes_def FixedU32Leb128Bytes_def less_Suc_eq numeral_eq_Suc)

lemma less_5_cases: "i < 5 \<longleftrightarrow> i < 4 \<or> i = (4 :: nat)"
  by auto

lemma FixedS32_form: "leb_form (FixedS32Leb128Bytes v)"
proof -
  have "bit (FixedU32Leb128Bytes v ! i) 7" if "i < 4" for i
    using FixedU32_bits [of v] that by (simp add: leb_form_def)
  moreover have "FixedS32Leb128Bytes v \<noteq> []" by (simp add: FixedS32Leb128Bytes_def)
  ultimately show ?thesis
    by (auto simp: leb_form_def less_5_cases FixedS32_top FixedS32_low)
qed

lemma FixedS32_bits: "leb_bits (FixedS32Leb128Bytes v) (bit (sint v))"
proof -
  have "bit (FixedU32Leb128Bytes v ! i) j \<longleftrightarrow> bit v (7 * i + j)" if "i < 4" "j < 7" for i j
    using FixedU32_bits [of v] that by (auto simp: leb_bits_def)
  then show ?thesis
    by (auto simp: leb_bits_def less_5_cases FixedS32_top FixedS32_low bit_sint_iff
        dest: bit_imp_le_length)
qed

lemma read_fixed_s32: "ReadS32Leb128 (FixedS32Leb128Bytes v @ rest) = (5, Some v)"
proof -
  let ?bs = "FixedS32Leb128Bytes v"
  have "(?bs @ rest) ! 4 AND 0xf0 = (if bit ((?bs @ rest) ! 4) 3 then 0x70 else 0)"
    by (simp add: nth_append and_0xf0_eq_0 and_0xf0_eq_0x70 FixedS32_top)
  moreover have "LEB128_n 5 (?bs @ rest) = v"
    using bit_LEB128_n_bits [OF FixedS32_bits, where 'a = 32 and rest = rest]
    by (intro bit_word_eqI) (simp add: bit_sint_iff)
  ultimately show ?thesis
    using find_leb_form [OF FixedS32_form, of v 5 rest] by (simp add: ReadS32Leb128_find)
qed

section \<open>The value a reader returns\<close>

text \<open>What the readers compute, as arithmetic: the base-128 number of the bytes consumed.\<close>

definition leb_value :: "nat \<Rightarrow> u8 list \<Rightarrow> nat" where
  "leb_value k p = (\<Sum>i<k. (unat (p ! i) mod 128) * 128 ^ i)"

lemma leb_value_bound: "leb_value k p < 128 ^ k"
proof (induction k)
  case (Suc k)
  have "(unat (p ! k) mod 128) * 128 ^ k \<le> 127 * 128 ^ k" by (intro mult_right_mono) auto
  with Suc have "leb_value k p + (unat (p ! k) mod 128) * 128 ^ k < 128 ^ k + 127 * 128 ^ k"
    by (rule add_less_le_mono)
  then show ?case by (simp add: leb_value_def)
qed (simp add: leb_value_def)

lemma BYTE_AT_of_nat:
  "(BYTE_AT p k s :: 'a::len word) = of_nat ((unat (p ! k) mod 128) * 2 ^ s)"
proof -
  have "(ucast (p ! k) AND 0x7f :: 'a word) = of_nat (unat (p ! k) mod 128)"
  proof (rule bit_word_eqI)
    fix n assume "n < LENGTH('a)"
    then show "bit (ucast (p ! k) AND 0x7f :: 'a word) n = bit (of_nat (unat (p ! k) mod 128) :: 'a word) n"
      by (simp add: bit_and_iff bit_ucast_iff bit_int_0x7f bit_of_nat_iff
          take_bit_eq_mod [of 7, simplified, symmetric] bit_take_bit_iff bit_unsigned_iff conj_commute)
  qed
  then show ?thesis by (simp add: BYTE_AT_def push_bit_eq_mult)
qed

lemma LEB128_n_value: "(LEB128_n k p :: 'a::len word) = of_nat (leb_value k p)"
proof (induction k)
  case 0
  then show ?case by (simp add: leb_value_def)
next
  case (Suc k)
  have "\<not> bit (BYTE_AT p k (7 * k) :: 'a word) n \<or> \<not> bit (LEB128_n k p :: 'a word) n" for n
    by (auto simp: bit_BYTE_AT bit_LEB128_n)
  then have "(LEB128_n (Suc k) p :: 'a word) = BYTE_AT p k (7 * k) + LEB128_n k p"
    by (simp add: disjunctive_add)
  then show ?case
    by (simp add: Suc BYTE_AT_of_nat leb_value_def power_mult add.commute)
qed


lemma low_bits_bound: "(\<And>n. m \<le> n \<Longrightarrow> \<not> bit (b :: 'a::len word) n) \<Longrightarrow> unat b < 2 ^ m"
proof -
  assume "\<And>n. m \<le> n \<Longrightarrow> \<not> bit b n"
  then have "take_bit m b = b"
    by (intro bit_word_eqI) (metis bit_take_bit_iff linorder_not_less)
  then have "take_bit m (unat b) = unat b" by (metis unsigned_take_bit_eq)
  then show ?thesis by (metis take_bit_nat_less_exp)
qed

lemma and_0xf0_bound: "(b :: u8) AND 0xf0 = 0 \<Longrightarrow> unat b < 16"
proof -
  assume "b AND 0xf0 = 0"
  then have "\<not> bit b n" if "4 \<le> n" for n
    using that bit_imp_le_length [of b n] by (auto simp: and_0xf0_eq_0 numeral_eq_Suc le_Suc_eq less_Suc_eq)
  then show ?thesis using low_bits_bound [of 4 b] by simp
qed

lemma and_0xfe_bound: "(b :: u8) AND 0xfe = 0 \<Longrightarrow> unat b < 2"
proof -
  assume "b AND 0xfe = 0"
  then have "\<not> bit b n" if "1 \<le> n" for n
    using that bit_imp_le_length [of b n] by (auto simp: and_0xfe_eq_0 numeral_eq_Suc le_Suc_eq less_Suc_eq)
  then show ?thesis using low_bits_bound [of 1 b] by simp
qed

lemma leb_value_Suc: "leb_value (Suc k) p = leb_value k p + (unat (p ! k) mod 128) * 128 ^ k"
  by (simp add: leb_value_def)

lemma find_leb_stopsD:
  "find (leb_stops p) [0..<m] = Some i \<Longrightarrow>
   i < m \<and> i < length p \<and> p ! i AND 0x80 = 0 \<and> (\<forall>j<i. p ! j AND 0x80 \<noteq> 0)"
  by (auto simp: find_Some_iff leb_stops_def)

lemma read_u32_value:
  assumes "ReadU32Leb128 p = (n, Some v)" and "0 < n"
  shows "n \<le> 5 \<and> n \<le> length p \<and> unat v = leb_value n p"
proof -
  from assms obtain i where i: "find (leb_stops p) [0..<5] = Some i" "n = Suc i"
      "v = LEB128_n n p" "i = 4 \<longrightarrow> p ! 4 AND 0xf0 = 0"
    by (auto simp: ReadU32Leb128_find split: option.splits if_splits)
  note d = find_leb_stopsD [OF i(1)]
  have "leb_value n p < 2 ^ 32"
  proof (cases "i = 4")
    case True
    with i(4) have "unat (p ! 4) < 16" by (simp add: and_0xf0_bound)
    then have "(unat (p ! 4) mod 128) * 128 ^ 4 \<le> 15 * 128 ^ 4" by (intro mult_right_mono) auto
    moreover have "leb_value 4 p < 128 ^ 4" by (rule leb_value_bound)
    ultimately show ?thesis using True i(2) leb_value_Suc [of 4 p] by simp
  next
    case False
    with d i(2) have "(128 :: nat) ^ n \<le> 128 ^ 4" by (intro power_increasing) auto
    with leb_value_bound [of n p] show ?thesis by simp
  qed
  then have "unat v = leb_value n p"
    by (simp add: i(3) LEB128_n_value unsigned_of_nat take_bit_nat_eq_self)
  with d i(2) show ?thesis by simp
qed

lemma read_u64_value:
  assumes "ReadU64Leb128 p = (n, Some v)" and "0 < n"
  shows "n \<le> 10 \<and> n \<le> length p \<and> unat v = leb_value n p"
proof -
  from assms obtain i where i: "find (leb_stops p) [0..<10] = Some i" "n = Suc i"
      "v = LEB128_n n p" "i = 9 \<longrightarrow> p ! 9 AND 0xfe = 0"
    by (auto simp: ReadU64Leb128_find split: option.splits if_splits)
  note d = find_leb_stopsD [OF i(1)]
  have "leb_value n p < 2 ^ 64"
  proof (cases "i = 9")
    case True
    with i(4) have "unat (p ! 9) < 2" by (simp add: and_0xfe_bound)
    then have "(unat (p ! 9) mod 128) * 128 ^ 9 \<le> 1 * 128 ^ 9" by (intro mult_right_mono) auto
    moreover have "leb_value 9 p < 128 ^ 9" by (rule leb_value_bound)
    ultimately show ?thesis using True i(2) leb_value_Suc [of 9 p] by simp
  next
    case False
    with d i(2) have "(128 :: nat) ^ n \<le> 128 ^ 9" by (intro power_increasing) auto
    with leb_value_bound [of n p] show ?thesis by simp
  qed
  then have "unat v = leb_value n p"
    by (simp add: i(3) LEB128_n_value unsigned_of_nat take_bit_nat_eq_self)
  with d i(2) show ?thesis by simp
qed

text \<open>The other way round: bytes of that form and value are read.\<close>

lemma low_bits_iff: "unat (b :: 'a::len word) < 2 ^ m \<longleftrightarrow> (\<forall>n\<ge>m. \<not> bit b n)"
proof
  assume "unat b < 2 ^ m"
  then have "take_bit m (unat b) = unat b" by (rule take_bit_nat_eq_self)
  then have "bit b n \<longleftrightarrow> n < m \<and> bit b n" for n
    by (metis bit_take_bit_iff bit_unsigned_iff possible_bit_nat bit_imp_le_length possible_bit_less_imp)
  then show "\<forall>n\<ge>m. \<not> bit b n" by (meson linorder_not_less)
qed (auto intro: low_bits_bound)

lemma stop_byte: "(b :: u8) AND 0x80 = 0 \<longleftrightarrow> unat b < 128"
proof -
  have "n = 7" if "7 \<le> n" "bit b n" for n using bit_imp_le_length [OF that(2)] that(1) by simp
  then have "\<not> bit b 7 \<longleftrightarrow> (\<forall>n\<ge>7. \<not> bit b n)" by blast
  then show ?thesis using low_bits_iff [of b 7] by (simp add: and_0x80_eq_0)
qed

lemma small_bytes: "unat (b :: u8) < 16 \<Longrightarrow> b AND 0xf0 = 0" "unat b < 2 \<Longrightarrow> b AND 0xfe = 0"
  using low_bits_iff [of b 4] low_bits_iff [of b 1] by (simp_all add: and_0xf0_eq_0 and_0xfe_eq_0)

lemma find_leb_stops_iff:
  "find (leb_stops p) [0..<m] = Some i \<longleftrightarrow>
     i < m \<and> i < length p \<and> unat (p ! i) < 128 \<and> (\<forall>j<i. 128 \<le> unat (p ! j))"
  by (auto simp: find_Some_iff leb_stops_def stop_byte not_less)

text \<open>\<open>n\<close> bytes at the front of \<open>p\<close> with a continuation bit on all but the last, of the value \<open>v\<close>.\<close>

definition leb_reads :: "u8 list \<Rightarrow> nat \<Rightarrow> nat \<Rightarrow> bool" where
  "leb_reads p n v \<longleftrightarrow> 0 < n \<and> n \<le> length p \<and> (\<forall>i. Suc i < n \<longrightarrow> 128 \<le> unat (p ! i)) \<and>
     unat (p ! (n - 1)) < 128 \<and> v = leb_value n p"

lemma read_u32_iff: "ReadU32Leb128 p = (n, Some v) \<and> 0 < n \<longleftrightarrow> leb_reads p n (unat v) \<and> n \<le> 5"
proof
  assume r: "ReadU32Leb128 p = (n, Some v) \<and> 0 < n"
  then obtain i where "find (leb_stops p) [0..<5] = Some i" "n = Suc i"
    by (auto simp: ReadU32Leb128_find split: option.splits if_splits)
  with r read_u32_value [of p n v] show "leb_reads p n (unat v) \<and> n \<le> 5"
    by (auto simp: leb_reads_def find_leb_stops_iff)
next
  assume l: "leb_reads p n (unat v) \<and> n \<le> 5"
  then obtain i where i: "n = Suc i" by (cases n) (simp_all add: leb_reads_def)
  with l have "find (leb_stops p) [0..<5] = Some i" by (auto simp: leb_reads_def find_leb_stops_iff)
  moreover have "p ! 4 AND 0xf0 = 0" if "i = 4"
  proof (rule small_bytes)
    have n: "n = Suc 4" using i that by simp
    with l have "unat v = leb_value 4 p + (unat (p ! 4) mod 128) * 128 ^ 4" "unat (p ! 4) < 128"
      by (simp_all only: leb_reads_def leb_value_Suc diff_Suc_1)
    then have "unat (p ! 4) * 128 ^ 4 \<le> unat v" by (simp only: mod_less)
    also have "unat v < 16 * 128 ^ 4" by (rule order_less_le_trans [OF unsigned_less]) simp
    finally show "unat (p ! 4) < 16" by simp
  qed
  moreover have "leb_value (Suc i) p = unat v" using l by (simp only: i leb_reads_def)
  then have "LEB128_n (Suc i) p = v" by (simp only: LEB128_n_value) simp
  ultimately show "ReadU32Leb128 p = (n, Some v) \<and> 0 < n"
    using i by (auto simp: ReadU32Leb128_find simp del: LEB128_n.simps)
qed

lemma read_u64_iff: "ReadU64Leb128 p = (n, Some v) \<and> 0 < n \<longleftrightarrow> leb_reads p n (unat v) \<and> n \<le> 10"
proof
  assume r: "ReadU64Leb128 p = (n, Some v) \<and> 0 < n"
  then obtain i where "find (leb_stops p) [0..<10] = Some i" "n = Suc i"
    by (auto simp: ReadU64Leb128_find split: option.splits if_splits)
  with r read_u64_value [of p n v] show "leb_reads p n (unat v) \<and> n \<le> 10"
    by (auto simp: leb_reads_def find_leb_stops_iff)
next
  assume l: "leb_reads p n (unat v) \<and> n \<le> 10"
  then obtain i where i: "n = Suc i" by (cases n) (simp_all add: leb_reads_def)
  with l have "find (leb_stops p) [0..<10] = Some i" by (auto simp: leb_reads_def find_leb_stops_iff)
  moreover have "p ! 9 AND 0xfe = 0" if "i = 9"
  proof (rule small_bytes)
    have n: "n = Suc 9" using i that by simp
    with l have "unat v = leb_value 9 p + (unat (p ! 9) mod 128) * 128 ^ 9" "unat (p ! 9) < 128"
      by (simp_all only: leb_reads_def leb_value_Suc diff_Suc_1)
    then have "unat (p ! 9) * 128 ^ 9 \<le> unat v" by (simp only: mod_less)
    also have "unat v < 2 * 128 ^ 9" by (rule order_less_le_trans [OF unsigned_less]) simp
    finally show "unat (p ! 9) < 2" by simp
  qed
  moreover have "leb_value (Suc i) p = unat v" using l by (simp only: i leb_reads_def)
  then have "LEB128_n (Suc i) p = v" by (simp only: LEB128_n_value) simp
  ultimately show "ReadU64Leb128 p = (n, Some v) \<and> 0 < n"
    using i by (auto simp: ReadU64Leb128_find simp del: LEB128_n.simps)
qed

section \<open>Codecs\<close>

text \<open>
  The interface between a writer and its reader: decoding an encoding, whatever follows it, gives
  back the value and the length. That makes encodings prefix-free, and lets a reader take a
  sequence of values apart.
\<close>

primrec read_many :: "(u8 list \<Rightarrow> nat \<times> 'a option) \<Rightarrow> nat \<Rightarrow> u8 list \<Rightarrow> ('a list \<times> u8 list) option" where
  "read_many dec 0 p = Some ([], p)"
| "read_many dec (Suc k) p =
     (case dec p of
        (n, Some v) \<Rightarrow>
          if n = 0 then None
          else map_option (\<lambda>(vs, rest). (v # vs, rest)) (read_many dec k (drop n p))
      | (n, None) \<Rightarrow> None)"

locale byte_codec =
  fixes enc :: "'a \<Rightarrow> u8 list"
    and dec :: "u8 list \<Rightarrow> nat \<times> 'a option"
  assumes dec_enc: "dec (enc v @ rest) = (length (enc v), Some v)"
    and enc_nonempty: "enc v \<noteq> []"
begin

lemma enc_prefix_free: "enc v @ rest = enc w @ rest' \<Longrightarrow> v = w \<and> rest = rest'"
  using dec_enc [of v rest] dec_enc [of w rest'] by auto

lemma enc_inj: "enc v = enc w \<longleftrightarrow> v = w"
  using enc_prefix_free [of v "[]" w "[]"] by auto

lemma read_many_enc:
  "read_many dec (length vs) (concat (map enc vs) @ rest) = Some (vs, rest)"
  by (induction vs) (simp_all add: dec_enc enc_nonempty)

lemma concat_enc_inj:
  assumes "length vs = length ws" and "concat (map enc vs) = concat (map enc ws)"
  shows "vs = ws"
  using read_many_enc [of vs "[]"] read_many_enc [of ws "[]"] assms by simp

end

interpretation u32: byte_codec U32Leb128Bytes ReadU32Leb128
  by unfold_locales (simp_all add: read_u32, simp add: U32Leb128Bytes_def)

interpretation u64: byte_codec U64Leb128Bytes ReadU64Leb128
  by unfold_locales (simp_all add: read_u64, simp add: U64Leb128Bytes_def)

interpretation s32: byte_codec S32Leb128Bytes ReadS32Leb128
  by unfold_locales (simp_all add: read_s32, simp add: S32Leb128Bytes_def)

interpretation s64: byte_codec S64Leb128Bytes ReadS64Leb128
  by unfold_locales (simp_all add: read_s64, simp add: S64Leb128Bytes_def)

interpretation fixed_u32: byte_codec FixedU32Leb128Bytes ReadU32Leb128
  by unfold_locales (simp_all add: read_fixed_u32, simp add: FixedU32Leb128Bytes_def)

interpretation fixed_s32: byte_codec FixedS32Leb128Bytes ReadS32Leb128
  by unfold_locales (simp_all add: read_fixed_s32, simp add: FixedS32Leb128Bytes_def)

section \<open>Properties\<close>

text \<open>
  C14. Unsigned 32-bit integers round-trip: reading what \<open>WriteU32Leb128\<close> wrote, followed by any
  bytes, returns the value and consumes exactly the bytes written, between 1 and 5.
\<close>

theorem u32_leb128_roundtrip:
  "ReadU32Leb128 (U32Leb128Bytes v @ rest) = (length (U32Leb128Bytes v), Some v)
   \<and> 1 \<le> length (U32Leb128Bytes v) \<and> length (U32Leb128Bytes v) \<le> 5"
  using u32.dec_enc length_U32Leb128Bytes by blast

text \<open>C15. Unsigned 64-bit integers round-trip, in between 1 and 10 bytes.\<close>

theorem u64_leb128_roundtrip:
  "ReadU64Leb128 (U64Leb128Bytes v @ rest) = (length (U64Leb128Bytes v), Some v)
   \<and> 1 \<le> length (U64Leb128Bytes v) \<and> length (U64Leb128Bytes v) \<le> 10"
  using u64.dec_enc length_U64Leb128Bytes by blast

text \<open>
  C16. Signed 32-bit integers round-trip, negative ones included: the sign extension of the
  short encodings and the check of the top bits of the five-byte ones undo what the writer did.
\<close>

theorem s32_leb128_roundtrip:
  "ReadS32Leb128 (S32Leb128Bytes v @ rest) = (length (S32Leb128Bytes v), Some v)
   \<and> 1 \<le> length (S32Leb128Bytes v) \<and> length (S32Leb128Bytes v) \<le> 5"
  using s32.dec_enc length_S32Leb128Bytes by blast

text \<open>C17. Signed 64-bit integers round-trip, in between 1 and 10 bytes.\<close>

theorem s64_leb128_roundtrip:
  "ReadS64Leb128 (S64Leb128Bytes v @ rest) = (length (S64Leb128Bytes v), Some v)
   \<and> 1 \<le> length (S64Leb128Bytes v) \<and> length (S64Leb128Bytes v) \<le> 10"
  using s64.dec_enc length_S64Leb128Bytes by blast

text \<open>
  C12. \<open>ReadU32Leb128\<close> succeeds with \<open>n\<close> bytes and the value \<open>v\<close> exactly if the input begins with \<open>n\<close> bytes,
  1 to 5 of them and none past its end, of which all but the last have the continuation bit and the
  last has not, and \<open>v\<close> is the base-128 number of these bytes. As \<open>v\<close> has 32 bits, an encoding of a larger
  number is not accepted, and every encoding of at most five bytes of a number that fits is.
\<close>

theorem ReadU32Leb128_exact:
  "ReadU32Leb128 p = (n, Some v) \<and> 0 < n \<longleftrightarrow>
     0 < n \<and> n \<le> 5 \<and> n \<le> length p \<and> (\<forall>i. Suc i < n \<longrightarrow> 128 \<le> unat (p ! i)) \<and> unat (p ! (n - 1)) < 128 \<and>
     unat v = (\<Sum>i<n. (unat (p ! i) mod 128) * 128 ^ i)"
  unfolding read_u32_iff leb_reads_def leb_value_def by auto

theorem ReadU32Leb128_exact_witness:
  "ReadU32Leb128 [0xe5, 0x8e, 0x26, 0xff] = (3, Some 624485) \<and>
   unat (624485 :: u32) = (\<Sum>i<3. (unat ([0xe5, 0x8e, 0x26, 0xff :: u8] ! i) mod 128) * 128 ^ i)"
proof -
  have r: "ReadU32Leb128 [0xe5, 0x8e, 0x26, 0xff] = (3, Some 624485)" by code_simp
  from ReadU32Leb128_exact [of "[0xe5, 0x8e, 0x26, 0xff]" 3 624485] r show ?thesis by simp
qed

text \<open>C13. The same for \<open>ReadU64Leb128\<close>, ten bytes and numbers of 64 bits.\<close>

theorem ReadU64Leb128_exact:
  "ReadU64Leb128 p = (n, Some v) \<and> 0 < n \<longleftrightarrow>
     0 < n \<and> n \<le> 10 \<and> n \<le> length p \<and> (\<forall>i. Suc i < n \<longrightarrow> 128 \<le> unat (p ! i)) \<and> unat (p ! (n - 1)) < 128 \<and>
     unat v = (\<Sum>i<n. (unat (p ! i) mod 128) * 128 ^ i)"
  unfolding read_u64_iff leb_reads_def leb_value_def by auto

theorem ReadU64Leb128_exact_witness:
  "ReadU64Leb128 [0x80, 0x80, 0x80, 0x80, 0x10] = (5, Some 4294967296) \<and>
   unat (4294967296 :: u64) =
     (\<Sum>i<5. (unat ([0x80, 0x80, 0x80, 0x80, 0x10 :: u8] ! i) mod 128) * 128 ^ i)"
proof -
  have r: "ReadU64Leb128 [0x80, 0x80, 0x80, 0x80, 0x10] = (5, Some 4294967296)" by code_simp
  from ReadU64Leb128_exact [of "[0x80, 0x80, 0x80, 0x80, 0x10]" 5 4294967296] r show ?thesis by simp
qed

text \<open>
  C18. The writer's encoding is the shortest one the reader accepts, and \<open>U32Leb128Length\<close> is its
  length: any other bytes that read as the same value are at least as many.
\<close>

theorem U32Leb128_shortest:
  assumes "ReadU32Leb128 p = (n, Some v)" and "0 < n"
  shows "U32Leb128Length v = length (U32Leb128Bytes v) \<and> U32Leb128Length v \<le> n"
proof -
  from assms(2) obtain m where m: "n = Suc m" by (cases n) auto
  from read_u32_value [OF assms] leb_value_bound [of n p] have "unat v < 2 ^ (7 * Suc m)"
    by (simp only: m power_mult) simp
  then have "length (uleb_loop v) \<le> Suc m" by (rule length_uleb_loop)
  then show ?thesis by (simp add: U32Leb128Length_eq U32Leb128Bytes_def m)
qed

theorem U32Leb128_shortest_witness:
  "ReadU32Leb128 [0x83, 0x80, 0x00] = (3, Some 3) \<and>
   U32Leb128Length 3 = length (U32Leb128Bytes 3) \<and> U32Leb128Length 3 \<le> 3"
proof -
  have r: "ReadU32Leb128 [0x83, 0x80, 0x00] = (3, Some 3)" by code_simp
  from U32Leb128_shortest [OF r] r show ?thesis by simp
qed

text \<open>
  C19. Patching a size: a five-byte placeholder written at the end of the buffer, then any body,
  then the real value written over the placeholder. The reader finds the value, and the bytes
  before and after it are those written.
\<close>

theorem fixed_u32_patch:
  fixes placeholder v :: u32 and body :: "u8 list" and s :: mem_stream
  assumes "at_end s"
  defines "s1 \<equiv> WriteFixedU32Leb128 placeholder s"
  defines "s2 \<equiv> WriteData body s1"
  defines "s3 \<equiv> fst (WriteFixedU32Leb128At (ms_offset s) v s2)"
  shows "ReadU32Leb128 (drop (ms_offset s) (ms_data s3)) = (5, Some v)
    \<and> take (ms_offset s) (ms_data s3) = ms_data s
    \<and> drop (ms_offset s + 5) (ms_data s3) = body
    \<and> ms_offset s3 = ms_offset s2 \<and> at_end s3"
proof -
  have off: "ms_offset s = length (ms_data s)" using assms(1) by (simp add: at_end_def)
  have s2: "ms_data s2 = ms_data s @ FixedU32Leb128Bytes placeholder @ body" "at_end s2"
    using assms(1) unfolding s2_def s1_def WriteFixedU32Leb128_def WriteFixedU32Leb128Raw_def
    by (simp_all add: WriteData_data WriteData_at_end)
  then have "s3 = s2\<lparr>ms_data := ms_data s @ FixedU32Leb128Bytes v @ body\<rparr>"
    unfolding s3_def WriteFixedU32Leb128At_def WriteFixedU32Leb128Raw_def off
    by (simp add: WriteDataAt_inside at_end_def)
  with s2 off show ?thesis by (simp add: read_fixed_u32 at_end_def)
qed

theorem fixed_u32_patch_witness:
  "at_end new_stream \<and>
   ReadU32Leb128 (ms_data (fst (WriteFixedU32Leb128At 0 300
     (WriteData [1, 2, 3] (WriteFixedU32Leb128 0 new_stream))))) = (5, Some 300)"
  using fixed_u32_patch [OF new_stream_at_end, where placeholder = 0 and v = 300 and body = "[1, 2, 3]"] new_stream_at_end
  by (simp add: new_stream_def)

end
