(* ===== verification/Utf8.thy ===== *)
theory Utf8
  imports Wabt_Base
begin

text \<open>
  UTF-8 validation (src/utf8.cc), which every name of a module goes through, against a
  specification by encoding: a byte string is valid exactly when it is the concatenation of the
  encodings of Unicode scalar values.
\<close>

section \<open>The validator\<close>

text \<open>The table \<open>s_utf8_length\<close>, run by run; the rows 0xc0 and 0xf0 are the ones with two runs.\<close>

definition s_utf8_length :: "nat list" where
  "s_utf8_length =
     replicate 128 1 @ replicate 64 0 @ replicate 2 0 @ replicate 14 2 @ replicate 16 2 @
     replicate 16 3 @ replicate 5 4 @ replicate 11 0"

definition IsCont :: "u8 \<Rightarrow> bool" where
  "IsCont c \<longleftrightarrow> c AND 0xc0 = 0x80"

text \<open>The loop, over the bytes from \<open>p\<close> to \<open>end\<close>.\<close>

function IsValidUtf8 :: "u8 list \<Rightarrow> bool" where
  "IsValidUtf8 p =
     (if p = [] then True
      else let cu0 = p ! 0; len = s_utf8_length ! unat cu0
      in if length p < len then False
         else if len = 1 then IsValidUtf8 (drop 1 p)
         else if len = 2 then
           if \<not> IsCont (p ! 1) then False else IsValidUtf8 (drop 2 p)
         else if len = 3 then
           let cu1 = p ! 1; cu2 = p ! 2
           in if \<not> (IsCont cu1 \<and> IsCont cu2)
                 \<or> (cu0 = 0xe0 \<and> cu1 < 0xa0)
                 \<or> (cu0 = 0xed \<and> 0xa0 \<le> cu1)
              then False else IsValidUtf8 (drop 3 p)
         else if len = 4 then
           let cu1 = p ! 1; cu2 = p ! 2; cu3 = p ! 3
           in if \<not> (IsCont cu1 \<and> IsCont cu2 \<and> IsCont cu3)
                 \<or> (cu0 = 0xf0 \<and> cu1 < 0x90)
                 \<or> (cu0 = 0xf4 \<and> 0x90 \<le> cu1)
              then False else IsValidUtf8 (drop 4 p)
         else False)"
  by pat_completeness auto
termination
  by (relation "measure length") auto

declare IsValidUtf8.simps [simp del]

section \<open>The specification\<close>

text \<open>Unicode scalar values: code points without the surrogates.\<close>

definition scalar_value :: "nat \<Rightarrow> bool" where
  "scalar_value c \<longleftrightarrow> c < 0xd800 \<or> (0xe000 \<le> c \<and> c < 0x110000)"

definition utf8_encode :: "nat \<Rightarrow> u8 list" where
  "utf8_encode c =
     (if c < 0x80 then [of_nat c]
      else if c < 0x800 then [of_nat (0xc0 + c div 64), of_nat (0x80 + c mod 64)]
      else if c < 0x10000 then
        [of_nat (0xe0 + c div 4096), of_nat (0x80 + c div 64 mod 64), of_nat (0x80 + c mod 64)]
      else
        [of_nat (0xf0 + c div 262144), of_nat (0x80 + c div 4096 mod 64),
         of_nat (0x80 + c div 64 mod 64), of_nat (0x80 + c mod 64)])"

section \<open>Bytes as numbers\<close>

lemma u8_num: "(a :: u8) = 0xe0 \<longleftrightarrow> unat a = 224" "a = 0xed \<longleftrightarrow> unat a = 237"
    "a = 0xf0 \<longleftrightarrow> unat a = 240" "a = 0xf4 \<longleftrightarrow> unat a = 244" "a = 2 \<longleftrightarrow> unat a = 2"
    "a < 0xa0 \<longleftrightarrow> unat a < 160" "a < 0x90 \<longleftrightarrow> unat a < 144"
    "0xa0 \<le> a \<longleftrightarrow> 160 \<le> unat a" "0x90 \<le> a \<longleftrightarrow> 144 \<le> unat a"
  by (simp_all only: word_less_nat_alt word_le_nat_alt word_unat_eq_iff) simp_all

lemma IsCont_unat: "IsCont c \<longleftrightarrow> 128 \<le> unat c \<and> unat c < 192"
proof -
  have "c AND 0xc0 = 0x80 \<longleftrightarrow> drop_bit 6 c = 2"
    unfolding bit_eq_iff [where ?'a = "8 word"]
    by (auto simp: bit_and_iff bit_drop_bit_eq possible_bit_word numeral_eq_Suc All_less_Suc
        dest: bit_imp_le_length)
  also have "\<dots> \<longleftrightarrow> unat c div 64 = 2"
  proof -
    have "unat (drop_bit 6 c) = unat c div 64"
      by (simp only: unat_drop_bit_eq) (simp add: drop_bit_eq_div)
    then show ?thesis by (simp only: u8_num)
  qed
  also have "\<dots> \<longleftrightarrow> 128 \<le> unat c \<and> unat c < 192" by auto
  finally show ?thesis by (simp add: IsCont_def)
qed

lemma utf8_length_unat:
  "s_utf8_length ! unat (c :: u8) =
     (let n = unat c in if n < 128 then 1 else if n < 194 then 0 else if n < 224 then 2
      else if n < 240 then 3 else if n < 245 then 4 else 0)"
proof -
  have "unat c < 256" using unsigned_less [where ?'a = nat and w = c] by simp
  then show ?thesis by (auto simp: s_utf8_length_def nth_append Let_def)
qed

lemma unat_u8 [simp]: "n < 256 \<Longrightarrow> unat (of_nat n :: u8) = n"
  by (simp add: unat_of_nat)

lemma u8_eq_of_nat: "unat (b :: u8) = n \<Longrightarrow> b = of_nat n"
  by auto

text \<open>One round of the loop, by the range of the first byte.\<close>

lemma valid_nil [simp]: "IsValidUtf8 []"
  by (subst IsValidUtf8.simps) simp

lemma valid_1: "unat a < 128 \<Longrightarrow> IsValidUtf8 (a # r) = IsValidUtf8 r"
  by (subst IsValidUtf8.simps) (simp add: utf8_length_unat)

lemma valid_0: "(128 \<le> unat a \<and> unat a < 194) \<or> 245 \<le> unat a \<Longrightarrow> \<not> IsValidUtf8 (a # r)"
  by (subst IsValidUtf8.simps) (auto simp: utf8_length_unat)

lemma valid_2: "194 \<le> unat a \<Longrightarrow> unat a < 224 \<Longrightarrow>
  IsValidUtf8 (a # p) \<longleftrightarrow> (\<exists>b r. p = b # r \<and> IsCont b \<and> IsValidUtf8 r)"
  by (subst IsValidUtf8.simps) (cases p; auto simp: utf8_length_unat)

lemma valid_3: "224 \<le> unat a \<Longrightarrow> unat a < 240 \<Longrightarrow>
  IsValidUtf8 (a # p) \<longleftrightarrow> (\<exists>b c r. p = b # c # r \<and> IsCont b \<and> IsCont c \<and>
    (unat a = 224 \<longrightarrow> 160 \<le> unat b) \<and> (unat a = 237 \<longrightarrow> unat b < 160) \<and> IsValidUtf8 r)"
proof -
  assume "224 \<le> unat a" "unat a < 240"
  then have len: "s_utf8_length ! unat a = 3" by (simp add: utf8_length_unat)
  consider "length p < 2" | b c r where "p = b # c # r"
    by (cases p; cases "tl p") auto
  then show ?thesis
  proof cases
    case 1
    then show ?thesis by (subst IsValidUtf8.simps) (auto simp: len)
  next
    case 2
    then show ?thesis
      by (subst IsValidUtf8.simps) (auto simp: len Let_def u8_num)
  qed
qed

lemma valid_4: "240 \<le> unat a \<Longrightarrow> unat a < 245 \<Longrightarrow>
  IsValidUtf8 (a # p) \<longleftrightarrow> (\<exists>b c d r. p = b # c # d # r \<and> IsCont b \<and> IsCont c \<and> IsCont d \<and>
    (unat a = 240 \<longrightarrow> 144 \<le> unat b) \<and> (unat a = 244 \<longrightarrow> unat b < 144) \<and> IsValidUtf8 r)"
proof -
  assume "240 \<le> unat a" "unat a < 245"
  then have len: "s_utf8_length ! unat a = 4" by (simp add: utf8_length_unat)
  consider "length p < 3" | b c d r where "p = b # c # d # r"
    by (cases p; cases "tl p"; cases "tl (tl p)") auto
  then show ?thesis
  proof cases
    case 1
    then show ?thesis by (subst IsValidUtf8.simps) (auto simp: len)
  next
    case 2
    then show ?thesis
      by (subst IsValidUtf8.simps) (auto simp: len Let_def u8_num)
  qed
qed

lemmas valid_heads = valid_1 valid_2 valid_3 valid_4 IsCont_unat

section \<open>The two directions\<close>

lemma valid_encode:
  assumes "scalar_value c"
  shows "IsValidUtf8 (utf8_encode c @ r) = IsValidUtf8 r"
proof -
  consider "c < 0x80" | "0x80 \<le> c" "c < 0x800" | "0x800 \<le> c" "c < 0x10000"
    | "0x10000 \<le> c" "c < 0x110000"
    using assms by (force simp: scalar_value_def)
  then show ?thesis
  proof cases
    case 1
    then show ?thesis by (simp add: utf8_encode_def valid_heads)
  next
    case 2
    moreover from 2 have "2 \<le> c div 64" "c div 64 < 32" by auto
    ultimately show ?thesis by (simp add: utf8_encode_def valid_heads del: of_nat_add)
  next
    case 3
    define d where "d = c div 64"
    have d: "32 \<le> d" "d < 864 \<or> 896 \<le> d" "d < 1024" "c div 4096 = d div 64"
      using 3 assms by (auto simp: d_def scalar_value_def simp flip: div_mult2_eq)
    have e: "utf8_encode c
        = [of_nat (0xe0 + d div 64), of_nat (0x80 + d mod 64), of_nat (0x80 + c mod 64)]"
      using 3 d(4) by (simp add: utf8_encode_def d_def)
    have "d div 64 < 16" "d div 64 = 0 \<longrightarrow> 32 \<le> d mod 64" "d div 64 = 13 \<longrightarrow> d mod 64 < 32"
      using d(1,2,3) mult_div_mod_eq [of 64 d] by linarith+
    then show ?thesis by (simp add: e valid_heads del: of_nat_add)
  next
    case 4
    define d where "d = c div 4096"
    have d: "16 \<le> d" "d < 272" "c div 262144 = d div 64"
      using 4 by (auto simp: d_def simp flip: div_mult2_eq)
    have e: "utf8_encode c = [of_nat (0xf0 + d div 64), of_nat (0x80 + d mod 64),
        of_nat (0x80 + c div 64 mod 64), of_nat (0x80 + c mod 64)]"
      using 4 d(3) by (simp add: utf8_encode_def d_def)
    have "d div 64 < 5" "d div 64 = 0 \<longrightarrow> 16 \<le> d mod 64" "d div 64 = 4 \<longrightarrow> d mod 64 < 16"
      using d(1,2) mult_div_mod_eq [of 64 d] by linarith+
    then show ?thesis by (simp add: e valid_heads del: of_nat_add)
  qed
qed

text \<open>Conversely, a valid non-empty string starts with the encoding of a scalar value.\<close>

lemma low_six: "t < 64 \<Longrightarrow> (x * 64 + t) div 64 = x \<and> (x * 64 + t) mod 64 = (t :: nat)"
  by simp

lemma encode_2: "\<lbrakk>2 \<le> q; q < 32; r < 64\<rbrakk> \<Longrightarrow>
  scalar_value (q * 64 + r) \<and> utf8_encode (q * 64 + r) = [of_nat (192 + q), of_nat (128 + r)]"
  by (auto simp: scalar_value_def utf8_encode_def)

lemma encode_3:
  assumes "q < 16" "r < 64" "t < 64" "q = 0 \<longrightarrow> 32 \<le> r" "q = 13 \<longrightarrow> r < 32"
  shows "scalar_value ((q * 64 + r) * 64 + t) \<and> utf8_encode ((q * 64 + r) * 64 + t)
    = [of_nat (224 + q), of_nat (128 + r), of_nat (128 + t)]"
proof -
  let ?c = "(q * 64 + r) * 64 + t"
  have d: "?c div 64 = q * 64 + r" "?c mod 64 = t" using low_six [of t "q * 64 + r"] assms by auto
  then have "?c div 4096 = q" using assms div_mult2_eq [of ?c 64 64] by simp
  moreover have "q \<le> 12 \<or> q = 13 \<or> 14 \<le> q" by arith
  then have "0x800 \<le> ?c" "?c < 0x10000" "scalar_value ?c"
    using assms by (auto simp: scalar_value_def)
  ultimately show ?thesis using d assms by (simp add: utf8_encode_def del: of_nat_add)
qed

lemma encode_4:
  assumes "q < 5" "r < 64" "t < 64" "u < 64" "q = 0 \<longrightarrow> 16 \<le> r" "q = 4 \<longrightarrow> r < 16"
  shows "scalar_value (((q * 64 + r) * 64 + t) * 64 + u) \<and> utf8_encode (((q * 64 + r) * 64 + t) * 64 + u)
    = [of_nat (240 + q), of_nat (128 + r), of_nat (128 + t), of_nat (128 + u)]"
proof -
  let ?c = "((q * 64 + r) * 64 + t) * 64 + u"
  have d: "?c div 64 = (q * 64 + r) * 64 + t" "?c mod 64 = u"
    using low_six [of u "(q * 64 + r) * 64 + t"] assms by auto
  then have e: "?c div 4096 = q * 64 + r"
    using low_six [of t "q * 64 + r"] assms div_mult2_eq [of ?c 64 64] by simp
  then have "?c div 262144 = q"
    using low_six [of r q] assms div_mult2_eq [of ?c 4096 64] by simp
  moreover have "0x10000 \<le> ?c" "?c < 0x110000"
    using assms by auto
  ultimately show ?thesis using d e assms low_six [of t "q * 64 + r"]
    by (simp add: utf8_encode_def scalar_value_def del: of_nat_add)
qed

lemma byte_offset: "k \<le> unat (b :: u8) \<Longrightarrow> \<exists>y. unat b = k + y \<and> b = of_nat (k + y)"
  by (auto simp: le_iff_add simp del: of_nat_add intro: u8_eq_of_nat)

lemma cont_offset: "IsCont b \<Longrightarrow> \<exists>y<64. unat b = 128 + y \<and> b = of_nat (128 + y)"
  using byte_offset [of 128 b] by (auto simp: IsCont_unat)

text \<open>Conversely, a valid non-empty string starts with the encoding of a scalar value.\<close>

lemma valid_decode:
  assumes "IsValidUtf8 (a # p)"
  shows "\<exists>c r. scalar_value c \<and> a # p = utf8_encode c @ r \<and> IsValidUtf8 r"
proof -
  have "\<not> ((128 \<le> unat a \<and> unat a < 194) \<or> 245 \<le> unat a)" using assms valid_0 by blast
  then consider "unat a < 128" | "194 \<le> unat a" "unat a < 224"
    | "224 \<le> unat a" "unat a < 240" | "240 \<le> unat a" "unat a < 245"
    by linarith
  then show ?thesis
  proof cases
    case 1
    with assms have "scalar_value (unat a) \<and> a # p = utf8_encode (unat a) @ p \<and> IsValidUtf8 p"
      by (simp add: scalar_value_def utf8_encode_def valid_1)
    then show ?thesis by blast
  next
    case 2
    with assms obtain b r where p: "p = b # r" "IsCont b" "IsValidUtf8 r"
      by (auto simp: valid_2)
    from 2 obtain x where x: "unat a = 192 + x" "a = of_nat (192 + x)"
      using byte_offset [of 192 a] by auto
    from cont_offset [OF p(2)] obtain y where y: "y < 64" "b = of_nat (128 + y)" by blast
    from 2 x y encode_2 [of x y] p show ?thesis by fastforce
  next
    case 3
    with assms obtain b c r where p: "p = b # c # r" "IsCont b" "IsCont c" "IsValidUtf8 r"
        "unat a = 224 \<longrightarrow> 160 \<le> unat b" "unat a = 237 \<longrightarrow> unat b < 160"
      by (auto simp: valid_3)
    from 3 obtain x where x: "unat a = 224 + x" "a = of_nat (224 + x)"
      using byte_offset [of 224 a] by auto
    from cont_offset [OF p(2)] obtain y where y: "y < 64" "unat b = 128 + y" "b = of_nat (128 + y)"
      by blast
    from cont_offset [OF p(3)] obtain z where z: "z < 64" "c = of_nat (128 + z)" by blast
    have "scalar_value ((x * 64 + y) * 64 + z) \<and> utf8_encode ((x * 64 + y) * 64 + z) = [a, b, c]"
      unfolding x(2) y(3) z(2) by (rule encode_3) (use 3 x y z p in auto)
    then show ?thesis using p by fastforce
  next
    case 4
    with assms obtain b c d r where p: "p = b # c # d # r" "IsCont b" "IsCont c" "IsCont d"
        "IsValidUtf8 r" "unat a = 240 \<longrightarrow> 144 \<le> unat b" "unat a = 244 \<longrightarrow> unat b < 144"
      by (auto simp: valid_4)
    from 4 obtain x where x: "unat a = 240 + x" "a = of_nat (240 + x)"
      using byte_offset [of 240 a] by auto
    from cont_offset [OF p(2)] obtain y where y: "y < 64" "unat b = 128 + y" "b = of_nat (128 + y)"
      by blast
    from cont_offset [OF p(3)] obtain z where z: "z < 64" "c = of_nat (128 + z)" by blast
    from cont_offset [OF p(4)] obtain u where u: "u < 64" "d = of_nat (128 + u)" by blast
    have "scalar_value (((x * 64 + y) * 64 + z) * 64 + u) \<and>
        utf8_encode (((x * 64 + y) * 64 + z) * 64 + u) = [a, b, c, d]"
      unfolding x(2) y(3) z(2) u(2) by (rule encode_4) (use 4 x y z u p in auto)
    then show ?thesis using p by fastforce
  qed
qed

lemma utf8_encode_ne: "utf8_encode c \<noteq> []"
  by (simp add: utf8_encode_def)

section \<open>Properties\<close>

text \<open>
  C11. \<open>IsValidUtf8\<close> accepts exactly the concatenations of the UTF-8 encodings of Unicode scalar
  values: it rejects overlong forms, surrogate halves, code points above 0x10ffff, stray
  continuation bytes and truncated sequences, and nothing else.
\<close>

theorem IsValidUtf8_iff:
  "IsValidUtf8 p \<longleftrightarrow> (\<exists>cs. (\<forall>c \<in> set cs. scalar_value c) \<and> p = concat (map utf8_encode cs))"
proof
  show "IsValidUtf8 p \<Longrightarrow> \<exists>cs. (\<forall>c \<in> set cs. scalar_value c) \<and> p = concat (map utf8_encode cs)"
  proof (induction p rule: length_induct)
    case (1 p)
    show ?case
    proof (cases p)
      case Nil
      then show ?thesis by (intro exI [of _ "[]"]) simp
    next
      case (Cons a q)
      with 1(2) obtain c r where c: "scalar_value c" "p = utf8_encode c @ r" "IsValidUtf8 r"
        using valid_decode by blast
      then have "length r < length p" by (simp add: utf8_encode_ne)
      with 1(1) c obtain cs where "\<forall>c \<in> set cs. scalar_value c" "r = concat (map utf8_encode cs)"
        by blast
      with c show ?thesis by (intro exI [of _ "c # cs"]) simp
    qed
  qed
next
  assume "\<exists>cs. (\<forall>c \<in> set cs. scalar_value c) \<and> p = concat (map utf8_encode cs)"
  then obtain cs where "\<forall>c \<in> set cs. scalar_value c" "p = concat (map utf8_encode cs)" by blast
  then show "IsValidUtf8 p"
    by (induction cs arbitrary: p) (simp_all add: valid_encode)
qed

theorem IsValidUtf8_iff_witness:
  "IsValidUtf8 [0xe2, 0x82, 0xac] \<and> \<not> IsValidUtf8 [0xed, 0xa0, 0x80]"
proof -
  have "[0xe2, 0x82, 0xac] = concat (map utf8_encode [8364])" by (simp add: utf8_encode_def)
  then have "IsValidUtf8 [0xe2, 0x82, 0xac]"
    by (subst IsValidUtf8_iff) (intro exI [of _ "[8364]"], simp add: scalar_value_def)
  moreover have "\<not> IsValidUtf8 [0xed, 0xa0, 0x80]" by code_simp
  ultimately show ?thesis by simp
qed

end
