(* ===== verification/Opcodes.thy ===== *)
theory Opcodes
  imports Leb128
begin

text \<open>
  Opcodes (include/wabt/opcode.h, include/wabt/opcode.def, src/opcode.cc,
  src/opcode-code-table.c). \<open>Opcode::Enum\<close> numbers the rows of opcode.def in order, so an opcode is
  that number as a \<open>uint32_t\<close>; the enumerators are input abbreviations \<open>Op_<Name>\<close>. The row of an
  opcode holds its types, its memory size, its prefix byte and its code. Names and decompiler
  names, which only appear in messages, are left out of the rows.
\<close>

section \<open>The enumeration and the table of opcode.def\<close>

type_synonym opcode = u32

abbreviation (input) "Op_Unreachable \<equiv> (0 :: opcode)"
abbreviation (input) "Op_Nop \<equiv> (1 :: opcode)"
abbreviation (input) "Op_Block \<equiv> (2 :: opcode)"
abbreviation (input) "Op_Loop \<equiv> (3 :: opcode)"
abbreviation (input) "Op_If \<equiv> (4 :: opcode)"
abbreviation (input) "Op_Else \<equiv> (5 :: opcode)"
abbreviation (input) "Op_Try \<equiv> (6 :: opcode)"
abbreviation (input) "Op_Catch \<equiv> (7 :: opcode)"
abbreviation (input) "Op_Throw \<equiv> (8 :: opcode)"
abbreviation (input) "Op_Rethrow \<equiv> (9 :: opcode)"
abbreviation (input) "Op_End \<equiv> (10 :: opcode)"
abbreviation (input) "Op_Br \<equiv> (11 :: opcode)"
abbreviation (input) "Op_BrIf \<equiv> (12 :: opcode)"
abbreviation (input) "Op_BrTable \<equiv> (13 :: opcode)"
abbreviation (input) "Op_Return \<equiv> (14 :: opcode)"
abbreviation (input) "Op_Call \<equiv> (15 :: opcode)"
abbreviation (input) "Op_CallIndirect \<equiv> (16 :: opcode)"
abbreviation (input) "Op_ReturnCall \<equiv> (17 :: opcode)"
abbreviation (input) "Op_ReturnCallIndirect \<equiv> (18 :: opcode)"
abbreviation (input) "Op_CallRef \<equiv> (19 :: opcode)"
abbreviation (input) "Op_Delegate \<equiv> (20 :: opcode)"
abbreviation (input) "Op_CatchAll \<equiv> (21 :: opcode)"
abbreviation (input) "Op_Drop \<equiv> (22 :: opcode)"
abbreviation (input) "Op_Select \<equiv> (23 :: opcode)"
abbreviation (input) "Op_SelectT \<equiv> (24 :: opcode)"
abbreviation (input) "Op_LocalGet \<equiv> (25 :: opcode)"
abbreviation (input) "Op_LocalSet \<equiv> (26 :: opcode)"
abbreviation (input) "Op_LocalTee \<equiv> (27 :: opcode)"
abbreviation (input) "Op_GlobalGet \<equiv> (28 :: opcode)"
abbreviation (input) "Op_GlobalSet \<equiv> (29 :: opcode)"
abbreviation (input) "Op_I32Load \<equiv> (30 :: opcode)"
abbreviation (input) "Op_I64Load \<equiv> (31 :: opcode)"
abbreviation (input) "Op_F32Load \<equiv> (32 :: opcode)"
abbreviation (input) "Op_F64Load \<equiv> (33 :: opcode)"
abbreviation (input) "Op_I32Load8S \<equiv> (34 :: opcode)"
abbreviation (input) "Op_I32Load8U \<equiv> (35 :: opcode)"
abbreviation (input) "Op_I32Load16S \<equiv> (36 :: opcode)"
abbreviation (input) "Op_I32Load16U \<equiv> (37 :: opcode)"
abbreviation (input) "Op_I64Load8S \<equiv> (38 :: opcode)"
abbreviation (input) "Op_I64Load8U \<equiv> (39 :: opcode)"
abbreviation (input) "Op_I64Load16S \<equiv> (40 :: opcode)"
abbreviation (input) "Op_I64Load16U \<equiv> (41 :: opcode)"
abbreviation (input) "Op_I64Load32S \<equiv> (42 :: opcode)"
abbreviation (input) "Op_I64Load32U \<equiv> (43 :: opcode)"
abbreviation (input) "Op_I32Store \<equiv> (44 :: opcode)"
abbreviation (input) "Op_I64Store \<equiv> (45 :: opcode)"
abbreviation (input) "Op_F32Store \<equiv> (46 :: opcode)"
abbreviation (input) "Op_F64Store \<equiv> (47 :: opcode)"
abbreviation (input) "Op_I32Store8 \<equiv> (48 :: opcode)"
abbreviation (input) "Op_I32Store16 \<equiv> (49 :: opcode)"
abbreviation (input) "Op_I64Store8 \<equiv> (50 :: opcode)"
abbreviation (input) "Op_I64Store16 \<equiv> (51 :: opcode)"
abbreviation (input) "Op_I64Store32 \<equiv> (52 :: opcode)"
abbreviation (input) "Op_MemorySize \<equiv> (53 :: opcode)"
abbreviation (input) "Op_MemoryGrow \<equiv> (54 :: opcode)"
abbreviation (input) "Op_I32Const \<equiv> (55 :: opcode)"
abbreviation (input) "Op_I64Const \<equiv> (56 :: opcode)"
abbreviation (input) "Op_F32Const \<equiv> (57 :: opcode)"
abbreviation (input) "Op_F64Const \<equiv> (58 :: opcode)"
abbreviation (input) "Op_I32Eqz \<equiv> (59 :: opcode)"
abbreviation (input) "Op_I32Eq \<equiv> (60 :: opcode)"
abbreviation (input) "Op_I32Ne \<equiv> (61 :: opcode)"
abbreviation (input) "Op_I32LtS \<equiv> (62 :: opcode)"
abbreviation (input) "Op_I32LtU \<equiv> (63 :: opcode)"
abbreviation (input) "Op_I32GtS \<equiv> (64 :: opcode)"
abbreviation (input) "Op_I32GtU \<equiv> (65 :: opcode)"
abbreviation (input) "Op_I32LeS \<equiv> (66 :: opcode)"
abbreviation (input) "Op_I32LeU \<equiv> (67 :: opcode)"
abbreviation (input) "Op_I32GeS \<equiv> (68 :: opcode)"
abbreviation (input) "Op_I32GeU \<equiv> (69 :: opcode)"
abbreviation (input) "Op_I64Eqz \<equiv> (70 :: opcode)"
abbreviation (input) "Op_I64Eq \<equiv> (71 :: opcode)"
abbreviation (input) "Op_I64Ne \<equiv> (72 :: opcode)"
abbreviation (input) "Op_I64LtS \<equiv> (73 :: opcode)"
abbreviation (input) "Op_I64LtU \<equiv> (74 :: opcode)"
abbreviation (input) "Op_I64GtS \<equiv> (75 :: opcode)"
abbreviation (input) "Op_I64GtU \<equiv> (76 :: opcode)"
abbreviation (input) "Op_I64LeS \<equiv> (77 :: opcode)"
abbreviation (input) "Op_I64LeU \<equiv> (78 :: opcode)"
abbreviation (input) "Op_I64GeS \<equiv> (79 :: opcode)"
abbreviation (input) "Op_I64GeU \<equiv> (80 :: opcode)"
abbreviation (input) "Op_F32Eq \<equiv> (81 :: opcode)"
abbreviation (input) "Op_F32Ne \<equiv> (82 :: opcode)"
abbreviation (input) "Op_F32Lt \<equiv> (83 :: opcode)"
abbreviation (input) "Op_F32Gt \<equiv> (84 :: opcode)"
abbreviation (input) "Op_F32Le \<equiv> (85 :: opcode)"
abbreviation (input) "Op_F32Ge \<equiv> (86 :: opcode)"
abbreviation (input) "Op_F64Eq \<equiv> (87 :: opcode)"
abbreviation (input) "Op_F64Ne \<equiv> (88 :: opcode)"
abbreviation (input) "Op_F64Lt \<equiv> (89 :: opcode)"
abbreviation (input) "Op_F64Gt \<equiv> (90 :: opcode)"
abbreviation (input) "Op_F64Le \<equiv> (91 :: opcode)"
abbreviation (input) "Op_F64Ge \<equiv> (92 :: opcode)"
abbreviation (input) "Op_I32Clz \<equiv> (93 :: opcode)"
abbreviation (input) "Op_I32Ctz \<equiv> (94 :: opcode)"
abbreviation (input) "Op_I32Popcnt \<equiv> (95 :: opcode)"
abbreviation (input) "Op_I32Add \<equiv> (96 :: opcode)"
abbreviation (input) "Op_I32Sub \<equiv> (97 :: opcode)"
abbreviation (input) "Op_I32Mul \<equiv> (98 :: opcode)"
abbreviation (input) "Op_I32DivS \<equiv> (99 :: opcode)"
abbreviation (input) "Op_I32DivU \<equiv> (100 :: opcode)"
abbreviation (input) "Op_I32RemS \<equiv> (101 :: opcode)"
abbreviation (input) "Op_I32RemU \<equiv> (102 :: opcode)"
abbreviation (input) "Op_I32And \<equiv> (103 :: opcode)"
abbreviation (input) "Op_I32Or \<equiv> (104 :: opcode)"
abbreviation (input) "Op_I32Xor \<equiv> (105 :: opcode)"
abbreviation (input) "Op_I32Shl \<equiv> (106 :: opcode)"
abbreviation (input) "Op_I32ShrS \<equiv> (107 :: opcode)"
abbreviation (input) "Op_I32ShrU \<equiv> (108 :: opcode)"
abbreviation (input) "Op_I32Rotl \<equiv> (109 :: opcode)"
abbreviation (input) "Op_I32Rotr \<equiv> (110 :: opcode)"
abbreviation (input) "Op_I64Clz \<equiv> (111 :: opcode)"
abbreviation (input) "Op_I64Ctz \<equiv> (112 :: opcode)"
abbreviation (input) "Op_I64Popcnt \<equiv> (113 :: opcode)"
abbreviation (input) "Op_I64Add \<equiv> (114 :: opcode)"
abbreviation (input) "Op_I64Sub \<equiv> (115 :: opcode)"
abbreviation (input) "Op_I64Mul \<equiv> (116 :: opcode)"
abbreviation (input) "Op_I64DivS \<equiv> (117 :: opcode)"
abbreviation (input) "Op_I64DivU \<equiv> (118 :: opcode)"
abbreviation (input) "Op_I64RemS \<equiv> (119 :: opcode)"
abbreviation (input) "Op_I64RemU \<equiv> (120 :: opcode)"
abbreviation (input) "Op_I64And \<equiv> (121 :: opcode)"
abbreviation (input) "Op_I64Or \<equiv> (122 :: opcode)"
abbreviation (input) "Op_I64Xor \<equiv> (123 :: opcode)"
abbreviation (input) "Op_I64Shl \<equiv> (124 :: opcode)"
abbreviation (input) "Op_I64ShrS \<equiv> (125 :: opcode)"
abbreviation (input) "Op_I64ShrU \<equiv> (126 :: opcode)"
abbreviation (input) "Op_I64Rotl \<equiv> (127 :: opcode)"
abbreviation (input) "Op_I64Rotr \<equiv> (128 :: opcode)"
abbreviation (input) "Op_F32Abs \<equiv> (129 :: opcode)"
abbreviation (input) "Op_F32Neg \<equiv> (130 :: opcode)"
abbreviation (input) "Op_F32Ceil \<equiv> (131 :: opcode)"
abbreviation (input) "Op_F32Floor \<equiv> (132 :: opcode)"
abbreviation (input) "Op_F32Trunc \<equiv> (133 :: opcode)"
abbreviation (input) "Op_F32Nearest \<equiv> (134 :: opcode)"
abbreviation (input) "Op_F32Sqrt \<equiv> (135 :: opcode)"
abbreviation (input) "Op_F32Add \<equiv> (136 :: opcode)"
abbreviation (input) "Op_F32Sub \<equiv> (137 :: opcode)"
abbreviation (input) "Op_F32Mul \<equiv> (138 :: opcode)"
abbreviation (input) "Op_F32Div \<equiv> (139 :: opcode)"
abbreviation (input) "Op_F32Min \<equiv> (140 :: opcode)"
abbreviation (input) "Op_F32Max \<equiv> (141 :: opcode)"
abbreviation (input) "Op_F32Copysign \<equiv> (142 :: opcode)"
abbreviation (input) "Op_F64Abs \<equiv> (143 :: opcode)"
abbreviation (input) "Op_F64Neg \<equiv> (144 :: opcode)"
abbreviation (input) "Op_F64Ceil \<equiv> (145 :: opcode)"
abbreviation (input) "Op_F64Floor \<equiv> (146 :: opcode)"
abbreviation (input) "Op_F64Trunc \<equiv> (147 :: opcode)"
abbreviation (input) "Op_F64Nearest \<equiv> (148 :: opcode)"
abbreviation (input) "Op_F64Sqrt \<equiv> (149 :: opcode)"
abbreviation (input) "Op_F64Add \<equiv> (150 :: opcode)"
abbreviation (input) "Op_F64Sub \<equiv> (151 :: opcode)"
abbreviation (input) "Op_F64Mul \<equiv> (152 :: opcode)"
abbreviation (input) "Op_F64Div \<equiv> (153 :: opcode)"
abbreviation (input) "Op_F64Min \<equiv> (154 :: opcode)"
abbreviation (input) "Op_F64Max \<equiv> (155 :: opcode)"
abbreviation (input) "Op_F64Copysign \<equiv> (156 :: opcode)"
abbreviation (input) "Op_I32WrapI64 \<equiv> (157 :: opcode)"
abbreviation (input) "Op_I32TruncF32S \<equiv> (158 :: opcode)"
abbreviation (input) "Op_I32TruncF32U \<equiv> (159 :: opcode)"
abbreviation (input) "Op_I32TruncF64S \<equiv> (160 :: opcode)"
abbreviation (input) "Op_I32TruncF64U \<equiv> (161 :: opcode)"
abbreviation (input) "Op_I64ExtendI32S \<equiv> (162 :: opcode)"
abbreviation (input) "Op_I64ExtendI32U \<equiv> (163 :: opcode)"
abbreviation (input) "Op_I64TruncF32S \<equiv> (164 :: opcode)"
abbreviation (input) "Op_I64TruncF32U \<equiv> (165 :: opcode)"
abbreviation (input) "Op_I64TruncF64S \<equiv> (166 :: opcode)"
abbreviation (input) "Op_I64TruncF64U \<equiv> (167 :: opcode)"
abbreviation (input) "Op_F32ConvertI32S \<equiv> (168 :: opcode)"
abbreviation (input) "Op_F32ConvertI32U \<equiv> (169 :: opcode)"
abbreviation (input) "Op_F32ConvertI64S \<equiv> (170 :: opcode)"
abbreviation (input) "Op_F32ConvertI64U \<equiv> (171 :: opcode)"
abbreviation (input) "Op_F32DemoteF64 \<equiv> (172 :: opcode)"
abbreviation (input) "Op_F64ConvertI32S \<equiv> (173 :: opcode)"
abbreviation (input) "Op_F64ConvertI32U \<equiv> (174 :: opcode)"
abbreviation (input) "Op_F64ConvertI64S \<equiv> (175 :: opcode)"
abbreviation (input) "Op_F64ConvertI64U \<equiv> (176 :: opcode)"
abbreviation (input) "Op_F64PromoteF32 \<equiv> (177 :: opcode)"
abbreviation (input) "Op_I32ReinterpretF32 \<equiv> (178 :: opcode)"
abbreviation (input) "Op_I64ReinterpretF64 \<equiv> (179 :: opcode)"
abbreviation (input) "Op_F32ReinterpretI32 \<equiv> (180 :: opcode)"
abbreviation (input) "Op_F64ReinterpretI64 \<equiv> (181 :: opcode)"
abbreviation (input) "Op_I32Extend8S \<equiv> (182 :: opcode)"
abbreviation (input) "Op_I32Extend16S \<equiv> (183 :: opcode)"
abbreviation (input) "Op_I64Extend8S \<equiv> (184 :: opcode)"
abbreviation (input) "Op_I64Extend16S \<equiv> (185 :: opcode)"
abbreviation (input) "Op_I64Extend32S \<equiv> (186 :: opcode)"
abbreviation (input) "Op_InterpAlloca \<equiv> (187 :: opcode)"
abbreviation (input) "Op_InterpBrUnless \<equiv> (188 :: opcode)"
abbreviation (input) "Op_InterpCallImport \<equiv> (189 :: opcode)"
abbreviation (input) "Op_InterpData \<equiv> (190 :: opcode)"
abbreviation (input) "Op_InterpDropKeep \<equiv> (191 :: opcode)"
abbreviation (input) "Op_InterpCatchDrop \<equiv> (192 :: opcode)"
abbreviation (input) "Op_InterpAdjustFrameForReturnCall \<equiv> (193 :: opcode)"
abbreviation (input) "Op_I32TruncSatF32S \<equiv> (194 :: opcode)"
abbreviation (input) "Op_I32TruncSatF32U \<equiv> (195 :: opcode)"
abbreviation (input) "Op_I32TruncSatF64S \<equiv> (196 :: opcode)"
abbreviation (input) "Op_I32TruncSatF64U \<equiv> (197 :: opcode)"
abbreviation (input) "Op_I64TruncSatF32S \<equiv> (198 :: opcode)"
abbreviation (input) "Op_I64TruncSatF32U \<equiv> (199 :: opcode)"
abbreviation (input) "Op_I64TruncSatF64S \<equiv> (200 :: opcode)"
abbreviation (input) "Op_I64TruncSatF64U \<equiv> (201 :: opcode)"
abbreviation (input) "Op_MemoryInit \<equiv> (202 :: opcode)"
abbreviation (input) "Op_DataDrop \<equiv> (203 :: opcode)"
abbreviation (input) "Op_MemoryCopy \<equiv> (204 :: opcode)"
abbreviation (input) "Op_MemoryFill \<equiv> (205 :: opcode)"
abbreviation (input) "Op_TableInit \<equiv> (206 :: opcode)"
abbreviation (input) "Op_ElemDrop \<equiv> (207 :: opcode)"
abbreviation (input) "Op_TableCopy \<equiv> (208 :: opcode)"
abbreviation (input) "Op_TableGet \<equiv> (209 :: opcode)"
abbreviation (input) "Op_TableSet \<equiv> (210 :: opcode)"
abbreviation (input) "Op_TableGrow \<equiv> (211 :: opcode)"
abbreviation (input) "Op_TableSize \<equiv> (212 :: opcode)"
abbreviation (input) "Op_TableFill \<equiv> (213 :: opcode)"
abbreviation (input) "Op_RefNull \<equiv> (214 :: opcode)"
abbreviation (input) "Op_RefIsNull \<equiv> (215 :: opcode)"
abbreviation (input) "Op_RefFunc \<equiv> (216 :: opcode)"
abbreviation (input) "Op_V128Load \<equiv> (217 :: opcode)"
abbreviation (input) "Op_V128Load8X8S \<equiv> (218 :: opcode)"
abbreviation (input) "Op_V128Load8X8U \<equiv> (219 :: opcode)"
abbreviation (input) "Op_V128Load16X4S \<equiv> (220 :: opcode)"
abbreviation (input) "Op_V128Load16X4U \<equiv> (221 :: opcode)"
abbreviation (input) "Op_V128Load32X2S \<equiv> (222 :: opcode)"
abbreviation (input) "Op_V128Load32X2U \<equiv> (223 :: opcode)"
abbreviation (input) "Op_V128Load8Splat \<equiv> (224 :: opcode)"
abbreviation (input) "Op_V128Load16Splat \<equiv> (225 :: opcode)"
abbreviation (input) "Op_V128Load32Splat \<equiv> (226 :: opcode)"
abbreviation (input) "Op_V128Load64Splat \<equiv> (227 :: opcode)"
abbreviation (input) "Op_V128Store \<equiv> (228 :: opcode)"
abbreviation (input) "Op_V128Const \<equiv> (229 :: opcode)"
abbreviation (input) "Op_I8X16Shuffle \<equiv> (230 :: opcode)"
abbreviation (input) "Op_I8X16Swizzle \<equiv> (231 :: opcode)"
abbreviation (input) "Op_I8X16Splat \<equiv> (232 :: opcode)"
abbreviation (input) "Op_I16X8Splat \<equiv> (233 :: opcode)"
abbreviation (input) "Op_I32X4Splat \<equiv> (234 :: opcode)"
abbreviation (input) "Op_I64X2Splat \<equiv> (235 :: opcode)"
abbreviation (input) "Op_F32X4Splat \<equiv> (236 :: opcode)"
abbreviation (input) "Op_F64X2Splat \<equiv> (237 :: opcode)"
abbreviation (input) "Op_I8X16ExtractLaneS \<equiv> (238 :: opcode)"
abbreviation (input) "Op_I8X16ExtractLaneU \<equiv> (239 :: opcode)"
abbreviation (input) "Op_I8X16ReplaceLane \<equiv> (240 :: opcode)"
abbreviation (input) "Op_I16X8ExtractLaneS \<equiv> (241 :: opcode)"
abbreviation (input) "Op_I16X8ExtractLaneU \<equiv> (242 :: opcode)"
abbreviation (input) "Op_I16X8ReplaceLane \<equiv> (243 :: opcode)"
abbreviation (input) "Op_I32X4ExtractLane \<equiv> (244 :: opcode)"
abbreviation (input) "Op_I32X4ReplaceLane \<equiv> (245 :: opcode)"
abbreviation (input) "Op_I64X2ExtractLane \<equiv> (246 :: opcode)"
abbreviation (input) "Op_I64X2ReplaceLane \<equiv> (247 :: opcode)"
abbreviation (input) "Op_F32X4ExtractLane \<equiv> (248 :: opcode)"
abbreviation (input) "Op_F32X4ReplaceLane \<equiv> (249 :: opcode)"
abbreviation (input) "Op_F64X2ExtractLane \<equiv> (250 :: opcode)"
abbreviation (input) "Op_F64X2ReplaceLane \<equiv> (251 :: opcode)"
abbreviation (input) "Op_I8X16Eq \<equiv> (252 :: opcode)"
abbreviation (input) "Op_I8X16Ne \<equiv> (253 :: opcode)"
abbreviation (input) "Op_I8X16LtS \<equiv> (254 :: opcode)"
abbreviation (input) "Op_I8X16LtU \<equiv> (255 :: opcode)"
abbreviation (input) "Op_I8X16GtS \<equiv> (256 :: opcode)"
abbreviation (input) "Op_I8X16GtU \<equiv> (257 :: opcode)"
abbreviation (input) "Op_I8X16LeS \<equiv> (258 :: opcode)"
abbreviation (input) "Op_I8X16LeU \<equiv> (259 :: opcode)"
abbreviation (input) "Op_I8X16GeS \<equiv> (260 :: opcode)"
abbreviation (input) "Op_I8X16GeU \<equiv> (261 :: opcode)"
abbreviation (input) "Op_I16X8Eq \<equiv> (262 :: opcode)"
abbreviation (input) "Op_I16X8Ne \<equiv> (263 :: opcode)"
abbreviation (input) "Op_I16X8LtS \<equiv> (264 :: opcode)"
abbreviation (input) "Op_I16X8LtU \<equiv> (265 :: opcode)"
abbreviation (input) "Op_I16X8GtS \<equiv> (266 :: opcode)"
abbreviation (input) "Op_I16X8GtU \<equiv> (267 :: opcode)"
abbreviation (input) "Op_I16X8LeS \<equiv> (268 :: opcode)"
abbreviation (input) "Op_I16X8LeU \<equiv> (269 :: opcode)"
abbreviation (input) "Op_I16X8GeS \<equiv> (270 :: opcode)"
abbreviation (input) "Op_I16X8GeU \<equiv> (271 :: opcode)"
abbreviation (input) "Op_I32X4Eq \<equiv> (272 :: opcode)"
abbreviation (input) "Op_I32X4Ne \<equiv> (273 :: opcode)"
abbreviation (input) "Op_I32X4LtS \<equiv> (274 :: opcode)"
abbreviation (input) "Op_I32X4LtU \<equiv> (275 :: opcode)"
abbreviation (input) "Op_I32X4GtS \<equiv> (276 :: opcode)"
abbreviation (input) "Op_I32X4GtU \<equiv> (277 :: opcode)"
abbreviation (input) "Op_I32X4LeS \<equiv> (278 :: opcode)"
abbreviation (input) "Op_I32X4LeU \<equiv> (279 :: opcode)"
abbreviation (input) "Op_I32X4GeS \<equiv> (280 :: opcode)"
abbreviation (input) "Op_I32X4GeU \<equiv> (281 :: opcode)"
abbreviation (input) "Op_F32X4Eq \<equiv> (282 :: opcode)"
abbreviation (input) "Op_F32X4Ne \<equiv> (283 :: opcode)"
abbreviation (input) "Op_F32X4Lt \<equiv> (284 :: opcode)"
abbreviation (input) "Op_F32X4Gt \<equiv> (285 :: opcode)"
abbreviation (input) "Op_F32X4Le \<equiv> (286 :: opcode)"
abbreviation (input) "Op_F32X4Ge \<equiv> (287 :: opcode)"
abbreviation (input) "Op_F64X2Eq \<equiv> (288 :: opcode)"
abbreviation (input) "Op_F64X2Ne \<equiv> (289 :: opcode)"
abbreviation (input) "Op_F64X2Lt \<equiv> (290 :: opcode)"
abbreviation (input) "Op_F64X2Gt \<equiv> (291 :: opcode)"
abbreviation (input) "Op_F64X2Le \<equiv> (292 :: opcode)"
abbreviation (input) "Op_F64X2Ge \<equiv> (293 :: opcode)"
abbreviation (input) "Op_V128Not \<equiv> (294 :: opcode)"
abbreviation (input) "Op_V128And \<equiv> (295 :: opcode)"
abbreviation (input) "Op_V128Andnot \<equiv> (296 :: opcode)"
abbreviation (input) "Op_V128Or \<equiv> (297 :: opcode)"
abbreviation (input) "Op_V128Xor \<equiv> (298 :: opcode)"
abbreviation (input) "Op_V128BitSelect \<equiv> (299 :: opcode)"
abbreviation (input) "Op_V128AnyTrue \<equiv> (300 :: opcode)"
abbreviation (input) "Op_V128Load8Lane \<equiv> (301 :: opcode)"
abbreviation (input) "Op_V128Load16Lane \<equiv> (302 :: opcode)"
abbreviation (input) "Op_V128Load32Lane \<equiv> (303 :: opcode)"
abbreviation (input) "Op_V128Load64Lane \<equiv> (304 :: opcode)"
abbreviation (input) "Op_V128Store8Lane \<equiv> (305 :: opcode)"
abbreviation (input) "Op_V128Store16Lane \<equiv> (306 :: opcode)"
abbreviation (input) "Op_V128Store32Lane \<equiv> (307 :: opcode)"
abbreviation (input) "Op_V128Store64Lane \<equiv> (308 :: opcode)"
abbreviation (input) "Op_V128Load32Zero \<equiv> (309 :: opcode)"
abbreviation (input) "Op_V128Load64Zero \<equiv> (310 :: opcode)"
abbreviation (input) "Op_F32X4DemoteF64X2Zero \<equiv> (311 :: opcode)"
abbreviation (input) "Op_F64X2PromoteLowF32X4 \<equiv> (312 :: opcode)"
abbreviation (input) "Op_I8X16Abs \<equiv> (313 :: opcode)"
abbreviation (input) "Op_I8X16Neg \<equiv> (314 :: opcode)"
abbreviation (input) "Op_I8X16Popcnt \<equiv> (315 :: opcode)"
abbreviation (input) "Op_I8X16AllTrue \<equiv> (316 :: opcode)"
abbreviation (input) "Op_I8X16Bitmask \<equiv> (317 :: opcode)"
abbreviation (input) "Op_I8X16NarrowI16X8S \<equiv> (318 :: opcode)"
abbreviation (input) "Op_I8X16NarrowI16X8U \<equiv> (319 :: opcode)"
abbreviation (input) "Op_I8X16Shl \<equiv> (320 :: opcode)"
abbreviation (input) "Op_I8X16ShrS \<equiv> (321 :: opcode)"
abbreviation (input) "Op_I8X16ShrU \<equiv> (322 :: opcode)"
abbreviation (input) "Op_I8X16Add \<equiv> (323 :: opcode)"
abbreviation (input) "Op_I8X16AddSatS \<equiv> (324 :: opcode)"
abbreviation (input) "Op_I8X16AddSatU \<equiv> (325 :: opcode)"
abbreviation (input) "Op_I8X16Sub \<equiv> (326 :: opcode)"
abbreviation (input) "Op_I8X16SubSatS \<equiv> (327 :: opcode)"
abbreviation (input) "Op_I8X16SubSatU \<equiv> (328 :: opcode)"
abbreviation (input) "Op_I8X16MinS \<equiv> (329 :: opcode)"
abbreviation (input) "Op_I8X16MinU \<equiv> (330 :: opcode)"
abbreviation (input) "Op_I8X16MaxS \<equiv> (331 :: opcode)"
abbreviation (input) "Op_I8X16MaxU \<equiv> (332 :: opcode)"
abbreviation (input) "Op_I8X16AvgrU \<equiv> (333 :: opcode)"
abbreviation (input) "Op_I16X8ExtaddPairwiseI8X16S \<equiv> (334 :: opcode)"
abbreviation (input) "Op_I16X8ExtaddPairwiseI8X16U \<equiv> (335 :: opcode)"
abbreviation (input) "Op_I32X4ExtaddPairwiseI16X8S \<equiv> (336 :: opcode)"
abbreviation (input) "Op_I32X4ExtaddPairwiseI16X8U \<equiv> (337 :: opcode)"
abbreviation (input) "Op_I16X8Abs \<equiv> (338 :: opcode)"
abbreviation (input) "Op_I16X8Neg \<equiv> (339 :: opcode)"
abbreviation (input) "Op_I16X8Q15mulrSatS \<equiv> (340 :: opcode)"
abbreviation (input) "Op_I16X8AllTrue \<equiv> (341 :: opcode)"
abbreviation (input) "Op_I16X8Bitmask \<equiv> (342 :: opcode)"
abbreviation (input) "Op_I16X8NarrowI32X4S \<equiv> (343 :: opcode)"
abbreviation (input) "Op_I16X8NarrowI32X4U \<equiv> (344 :: opcode)"
abbreviation (input) "Op_I16X8ExtendLowI8X16S \<equiv> (345 :: opcode)"
abbreviation (input) "Op_I16X8ExtendHighI8X16S \<equiv> (346 :: opcode)"
abbreviation (input) "Op_I16X8ExtendLowI8X16U \<equiv> (347 :: opcode)"
abbreviation (input) "Op_I16X8ExtendHighI8X16U \<equiv> (348 :: opcode)"
abbreviation (input) "Op_I16X8Shl \<equiv> (349 :: opcode)"
abbreviation (input) "Op_I16X8ShrS \<equiv> (350 :: opcode)"
abbreviation (input) "Op_I16X8ShrU \<equiv> (351 :: opcode)"
abbreviation (input) "Op_I16X8Add \<equiv> (352 :: opcode)"
abbreviation (input) "Op_I16X8AddSatS \<equiv> (353 :: opcode)"
abbreviation (input) "Op_I16X8AddSatU \<equiv> (354 :: opcode)"
abbreviation (input) "Op_I16X8Sub \<equiv> (355 :: opcode)"
abbreviation (input) "Op_I16X8SubSatS \<equiv> (356 :: opcode)"
abbreviation (input) "Op_I16X8SubSatU \<equiv> (357 :: opcode)"
abbreviation (input) "Op_I16X8Mul \<equiv> (358 :: opcode)"
abbreviation (input) "Op_I16X8MinS \<equiv> (359 :: opcode)"
abbreviation (input) "Op_I16X8MinU \<equiv> (360 :: opcode)"
abbreviation (input) "Op_I16X8MaxS \<equiv> (361 :: opcode)"
abbreviation (input) "Op_I16X8MaxU \<equiv> (362 :: opcode)"
abbreviation (input) "Op_I16X8AvgrU \<equiv> (363 :: opcode)"
abbreviation (input) "Op_I16X8ExtmulLowI8X16S \<equiv> (364 :: opcode)"
abbreviation (input) "Op_I16X8ExtmulHighI8X16S \<equiv> (365 :: opcode)"
abbreviation (input) "Op_I16X8ExtmulLowI8X16U \<equiv> (366 :: opcode)"
abbreviation (input) "Op_I16X8ExtmulHighI8X16U \<equiv> (367 :: opcode)"
abbreviation (input) "Op_I32X4Abs \<equiv> (368 :: opcode)"
abbreviation (input) "Op_I32X4Neg \<equiv> (369 :: opcode)"
abbreviation (input) "Op_I32X4AllTrue \<equiv> (370 :: opcode)"
abbreviation (input) "Op_I32X4Bitmask \<equiv> (371 :: opcode)"
abbreviation (input) "Op_I32X4ExtendLowI16X8S \<equiv> (372 :: opcode)"
abbreviation (input) "Op_I32X4ExtendHighI16X8S \<equiv> (373 :: opcode)"
abbreviation (input) "Op_I32X4ExtendLowI16X8U \<equiv> (374 :: opcode)"
abbreviation (input) "Op_I32X4ExtendHighI16X8U \<equiv> (375 :: opcode)"
abbreviation (input) "Op_I32X4Shl \<equiv> (376 :: opcode)"
abbreviation (input) "Op_I32X4ShrS \<equiv> (377 :: opcode)"
abbreviation (input) "Op_I32X4ShrU \<equiv> (378 :: opcode)"
abbreviation (input) "Op_I32X4Add \<equiv> (379 :: opcode)"
abbreviation (input) "Op_I32X4Sub \<equiv> (380 :: opcode)"
abbreviation (input) "Op_I32X4Mul \<equiv> (381 :: opcode)"
abbreviation (input) "Op_I32X4MinS \<equiv> (382 :: opcode)"
abbreviation (input) "Op_I32X4MinU \<equiv> (383 :: opcode)"
abbreviation (input) "Op_I32X4MaxS \<equiv> (384 :: opcode)"
abbreviation (input) "Op_I32X4MaxU \<equiv> (385 :: opcode)"
abbreviation (input) "Op_I32X4DotI16X8S \<equiv> (386 :: opcode)"
abbreviation (input) "Op_I32X4ExtmulLowI16X8S \<equiv> (387 :: opcode)"
abbreviation (input) "Op_I32X4ExtmulHighI16X8S \<equiv> (388 :: opcode)"
abbreviation (input) "Op_I32X4ExtmulLowI16X8U \<equiv> (389 :: opcode)"
abbreviation (input) "Op_I32X4ExtmulHighI16X8U \<equiv> (390 :: opcode)"
abbreviation (input) "Op_I64X2Abs \<equiv> (391 :: opcode)"
abbreviation (input) "Op_I64X2Neg \<equiv> (392 :: opcode)"
abbreviation (input) "Op_I64X2AllTrue \<equiv> (393 :: opcode)"
abbreviation (input) "Op_I64X2Bitmask \<equiv> (394 :: opcode)"
abbreviation (input) "Op_I64X2ExtendLowI32X4S \<equiv> (395 :: opcode)"
abbreviation (input) "Op_I64X2ExtendHighI32X4S \<equiv> (396 :: opcode)"
abbreviation (input) "Op_I64X2ExtendLowI32X4U \<equiv> (397 :: opcode)"
abbreviation (input) "Op_I64X2ExtendHighI32X4U \<equiv> (398 :: opcode)"
abbreviation (input) "Op_I64X2Shl \<equiv> (399 :: opcode)"
abbreviation (input) "Op_I64X2ShrS \<equiv> (400 :: opcode)"
abbreviation (input) "Op_I64X2ShrU \<equiv> (401 :: opcode)"
abbreviation (input) "Op_I64X2Add \<equiv> (402 :: opcode)"
abbreviation (input) "Op_I64X2Sub \<equiv> (403 :: opcode)"
abbreviation (input) "Op_I64X2Mul \<equiv> (404 :: opcode)"
abbreviation (input) "Op_I64X2Eq \<equiv> (405 :: opcode)"
abbreviation (input) "Op_I64X2Ne \<equiv> (406 :: opcode)"
abbreviation (input) "Op_I64X2LtS \<equiv> (407 :: opcode)"
abbreviation (input) "Op_I64X2GtS \<equiv> (408 :: opcode)"
abbreviation (input) "Op_I64X2LeS \<equiv> (409 :: opcode)"
abbreviation (input) "Op_I64X2GeS \<equiv> (410 :: opcode)"
abbreviation (input) "Op_I64X2ExtmulLowI32X4S \<equiv> (411 :: opcode)"
abbreviation (input) "Op_I64X2ExtmulHighI32X4S \<equiv> (412 :: opcode)"
abbreviation (input) "Op_I64X2ExtmulLowI32X4U \<equiv> (413 :: opcode)"
abbreviation (input) "Op_I64X2ExtmulHighI32X4U \<equiv> (414 :: opcode)"
abbreviation (input) "Op_F32X4Ceil \<equiv> (415 :: opcode)"
abbreviation (input) "Op_F32X4Floor \<equiv> (416 :: opcode)"
abbreviation (input) "Op_F32X4Trunc \<equiv> (417 :: opcode)"
abbreviation (input) "Op_F32X4Nearest \<equiv> (418 :: opcode)"
abbreviation (input) "Op_F64X2Ceil \<equiv> (419 :: opcode)"
abbreviation (input) "Op_F64X2Floor \<equiv> (420 :: opcode)"
abbreviation (input) "Op_F64X2Trunc \<equiv> (421 :: opcode)"
abbreviation (input) "Op_F64X2Nearest \<equiv> (422 :: opcode)"
abbreviation (input) "Op_F32X4Abs \<equiv> (423 :: opcode)"
abbreviation (input) "Op_F32X4Neg \<equiv> (424 :: opcode)"
abbreviation (input) "Op_F32X4Sqrt \<equiv> (425 :: opcode)"
abbreviation (input) "Op_F32X4Add \<equiv> (426 :: opcode)"
abbreviation (input) "Op_F32X4Sub \<equiv> (427 :: opcode)"
abbreviation (input) "Op_F32X4Mul \<equiv> (428 :: opcode)"
abbreviation (input) "Op_F32X4Div \<equiv> (429 :: opcode)"
abbreviation (input) "Op_F32X4Min \<equiv> (430 :: opcode)"
abbreviation (input) "Op_F32X4Max \<equiv> (431 :: opcode)"
abbreviation (input) "Op_F32X4PMin \<equiv> (432 :: opcode)"
abbreviation (input) "Op_F32X4PMax \<equiv> (433 :: opcode)"
abbreviation (input) "Op_F64X2Abs \<equiv> (434 :: opcode)"
abbreviation (input) "Op_F64X2Neg \<equiv> (435 :: opcode)"
abbreviation (input) "Op_F64X2Sqrt \<equiv> (436 :: opcode)"
abbreviation (input) "Op_F64X2Add \<equiv> (437 :: opcode)"
abbreviation (input) "Op_F64X2Sub \<equiv> (438 :: opcode)"
abbreviation (input) "Op_F64X2Mul \<equiv> (439 :: opcode)"
abbreviation (input) "Op_F64X2Div \<equiv> (440 :: opcode)"
abbreviation (input) "Op_F64X2Min \<equiv> (441 :: opcode)"
abbreviation (input) "Op_F64X2Max \<equiv> (442 :: opcode)"
abbreviation (input) "Op_F64X2PMin \<equiv> (443 :: opcode)"
abbreviation (input) "Op_F64X2PMax \<equiv> (444 :: opcode)"
abbreviation (input) "Op_I32X4TruncSatF32X4S \<equiv> (445 :: opcode)"
abbreviation (input) "Op_I32X4TruncSatF32X4U \<equiv> (446 :: opcode)"
abbreviation (input) "Op_F32X4ConvertI32X4S \<equiv> (447 :: opcode)"
abbreviation (input) "Op_F32X4ConvertI32X4U \<equiv> (448 :: opcode)"
abbreviation (input) "Op_I32X4TruncSatF64X2SZero \<equiv> (449 :: opcode)"
abbreviation (input) "Op_I32X4TruncSatF64X2UZero \<equiv> (450 :: opcode)"
abbreviation (input) "Op_F64X2ConvertLowI32X4S \<equiv> (451 :: opcode)"
abbreviation (input) "Op_F64X2ConvertLowI32X4U \<equiv> (452 :: opcode)"
abbreviation (input) "Op_I8X16RelaxedSwizzle \<equiv> (453 :: opcode)"
abbreviation (input) "Op_I32X4RelaxedTruncF32X4S \<equiv> (454 :: opcode)"
abbreviation (input) "Op_I32X4RelaxedTruncF32X4U \<equiv> (455 :: opcode)"
abbreviation (input) "Op_I32X4RelaxedTruncF64X2SZero \<equiv> (456 :: opcode)"
abbreviation (input) "Op_I32X4RelaxedTruncF64X2UZero \<equiv> (457 :: opcode)"
abbreviation (input) "Op_F32X4RelaxedMadd \<equiv> (458 :: opcode)"
abbreviation (input) "Op_F32X4RelaxedNmadd \<equiv> (459 :: opcode)"
abbreviation (input) "Op_F64X2RelaxedMadd \<equiv> (460 :: opcode)"
abbreviation (input) "Op_F64X2RelaxedNmadd \<equiv> (461 :: opcode)"
abbreviation (input) "Op_I8X16RelaxedLaneSelect \<equiv> (462 :: opcode)"
abbreviation (input) "Op_I16X8RelaxedLaneSelect \<equiv> (463 :: opcode)"
abbreviation (input) "Op_I32X4RelaxedLaneSelect \<equiv> (464 :: opcode)"
abbreviation (input) "Op_I64X2RelaxedLaneSelect \<equiv> (465 :: opcode)"
abbreviation (input) "Op_F32X4RelaxedMin \<equiv> (466 :: opcode)"
abbreviation (input) "Op_F32X4RelaxedMax \<equiv> (467 :: opcode)"
abbreviation (input) "Op_F64X2RelaxedMin \<equiv> (468 :: opcode)"
abbreviation (input) "Op_F64X2RelaxedMax \<equiv> (469 :: opcode)"
abbreviation (input) "Op_I16X8RelaxedQ15mulrS \<equiv> (470 :: opcode)"
abbreviation (input) "Op_I16X8DotI8X16I7X16S \<equiv> (471 :: opcode)"
abbreviation (input) "Op_I32X4DotI8X16I7X16AddS \<equiv> (472 :: opcode)"
abbreviation (input) "Op_MemoryAtomicNotify \<equiv> (473 :: opcode)"
abbreviation (input) "Op_MemoryAtomicWait32 \<equiv> (474 :: opcode)"
abbreviation (input) "Op_MemoryAtomicWait64 \<equiv> (475 :: opcode)"
abbreviation (input) "Op_AtomicFence \<equiv> (476 :: opcode)"
abbreviation (input) "Op_I32AtomicLoad \<equiv> (477 :: opcode)"
abbreviation (input) "Op_I64AtomicLoad \<equiv> (478 :: opcode)"
abbreviation (input) "Op_I32AtomicLoad8U \<equiv> (479 :: opcode)"
abbreviation (input) "Op_I32AtomicLoad16U \<equiv> (480 :: opcode)"
abbreviation (input) "Op_I64AtomicLoad8U \<equiv> (481 :: opcode)"
abbreviation (input) "Op_I64AtomicLoad16U \<equiv> (482 :: opcode)"
abbreviation (input) "Op_I64AtomicLoad32U \<equiv> (483 :: opcode)"
abbreviation (input) "Op_I32AtomicStore \<equiv> (484 :: opcode)"
abbreviation (input) "Op_I64AtomicStore \<equiv> (485 :: opcode)"
abbreviation (input) "Op_I32AtomicStore8 \<equiv> (486 :: opcode)"
abbreviation (input) "Op_I32AtomicStore16 \<equiv> (487 :: opcode)"
abbreviation (input) "Op_I64AtomicStore8 \<equiv> (488 :: opcode)"
abbreviation (input) "Op_I64AtomicStore16 \<equiv> (489 :: opcode)"
abbreviation (input) "Op_I64AtomicStore32 \<equiv> (490 :: opcode)"
abbreviation (input) "Op_I32AtomicRmwAdd \<equiv> (491 :: opcode)"
abbreviation (input) "Op_I64AtomicRmwAdd \<equiv> (492 :: opcode)"
abbreviation (input) "Op_I32AtomicRmw8AddU \<equiv> (493 :: opcode)"
abbreviation (input) "Op_I32AtomicRmw16AddU \<equiv> (494 :: opcode)"
abbreviation (input) "Op_I64AtomicRmw8AddU \<equiv> (495 :: opcode)"
abbreviation (input) "Op_I64AtomicRmw16AddU \<equiv> (496 :: opcode)"
abbreviation (input) "Op_I64AtomicRmw32AddU \<equiv> (497 :: opcode)"
abbreviation (input) "Op_I32AtomicRmwSub \<equiv> (498 :: opcode)"
abbreviation (input) "Op_I64AtomicRmwSub \<equiv> (499 :: opcode)"
abbreviation (input) "Op_I32AtomicRmw8SubU \<equiv> (500 :: opcode)"
abbreviation (input) "Op_I32AtomicRmw16SubU \<equiv> (501 :: opcode)"
abbreviation (input) "Op_I64AtomicRmw8SubU \<equiv> (502 :: opcode)"
abbreviation (input) "Op_I64AtomicRmw16SubU \<equiv> (503 :: opcode)"
abbreviation (input) "Op_I64AtomicRmw32SubU \<equiv> (504 :: opcode)"
abbreviation (input) "Op_I32AtomicRmwAnd \<equiv> (505 :: opcode)"
abbreviation (input) "Op_I64AtomicRmwAnd \<equiv> (506 :: opcode)"
abbreviation (input) "Op_I32AtomicRmw8AndU \<equiv> (507 :: opcode)"
abbreviation (input) "Op_I32AtomicRmw16AndU \<equiv> (508 :: opcode)"
abbreviation (input) "Op_I64AtomicRmw8AndU \<equiv> (509 :: opcode)"
abbreviation (input) "Op_I64AtomicRmw16AndU \<equiv> (510 :: opcode)"
abbreviation (input) "Op_I64AtomicRmw32AndU \<equiv> (511 :: opcode)"
abbreviation (input) "Op_I32AtomicRmwOr \<equiv> (512 :: opcode)"
abbreviation (input) "Op_I64AtomicRmwOr \<equiv> (513 :: opcode)"
abbreviation (input) "Op_I32AtomicRmw8OrU \<equiv> (514 :: opcode)"
abbreviation (input) "Op_I32AtomicRmw16OrU \<equiv> (515 :: opcode)"
abbreviation (input) "Op_I64AtomicRmw8OrU \<equiv> (516 :: opcode)"
abbreviation (input) "Op_I64AtomicRmw16OrU \<equiv> (517 :: opcode)"
abbreviation (input) "Op_I64AtomicRmw32OrU \<equiv> (518 :: opcode)"
abbreviation (input) "Op_I32AtomicRmwXor \<equiv> (519 :: opcode)"
abbreviation (input) "Op_I64AtomicRmwXor \<equiv> (520 :: opcode)"
abbreviation (input) "Op_I32AtomicRmw8XorU \<equiv> (521 :: opcode)"
abbreviation (input) "Op_I32AtomicRmw16XorU \<equiv> (522 :: opcode)"
abbreviation (input) "Op_I64AtomicRmw8XorU \<equiv> (523 :: opcode)"
abbreviation (input) "Op_I64AtomicRmw16XorU \<equiv> (524 :: opcode)"
abbreviation (input) "Op_I64AtomicRmw32XorU \<equiv> (525 :: opcode)"
abbreviation (input) "Op_I32AtomicRmwXchg \<equiv> (526 :: opcode)"
abbreviation (input) "Op_I64AtomicRmwXchg \<equiv> (527 :: opcode)"
abbreviation (input) "Op_I32AtomicRmw8XchgU \<equiv> (528 :: opcode)"
abbreviation (input) "Op_I32AtomicRmw16XchgU \<equiv> (529 :: opcode)"
abbreviation (input) "Op_I64AtomicRmw8XchgU \<equiv> (530 :: opcode)"
abbreviation (input) "Op_I64AtomicRmw16XchgU \<equiv> (531 :: opcode)"
abbreviation (input) "Op_I64AtomicRmw32XchgU \<equiv> (532 :: opcode)"
abbreviation (input) "Op_I32AtomicRmwCmpxchg \<equiv> (533 :: opcode)"
abbreviation (input) "Op_I64AtomicRmwCmpxchg \<equiv> (534 :: opcode)"
abbreviation (input) "Op_I32AtomicRmw8CmpxchgU \<equiv> (535 :: opcode)"
abbreviation (input) "Op_I32AtomicRmw16CmpxchgU \<equiv> (536 :: opcode)"
abbreviation (input) "Op_I64AtomicRmw8CmpxchgU \<equiv> (537 :: opcode)"
abbreviation (input) "Op_I64AtomicRmw16CmpxchgU \<equiv> (538 :: opcode)"
abbreviation (input) "Op_I64AtomicRmw32CmpxchgU \<equiv> (539 :: opcode)"

abbreviation (input) "Op_Invalid \<equiv> (540 :: opcode)"

record opcode_info =
  result_type :: wtype
  param_type1 :: wtype
  param_type2 :: wtype
  param_type3 :: wtype
  memory_size :: address
  prefix :: u8
  code :: u32

text \<open>\<open>PrefixCode\<close>: codes of more than \<open>MAX_OPCODE_BITS\<close> bits are clamped to the largest one.\<close>

definition MAX_OPCODE_BITS :: nat where
  "MAX_OPCODE_BITS = 9"

definition PrefixCode :: "u8 \<Rightarrow> u32 \<Rightarrow> u32" where
  "PrefixCode pre c =
     (let c' = (if push_bit MAX_OPCODE_BITS 1 \<le> c then push_bit MAX_OPCODE_BITS 1 - 1 else c)
      in push_bit MAX_OPCODE_BITS (ucast pre) OR c')"

definition WABT_OPCODE ::
  "wtype \<Rightarrow> wtype \<Rightarrow> wtype \<Rightarrow> wtype \<Rightarrow> address \<Rightarrow> u8 \<Rightarrow> u32 \<Rightarrow> opcode_info" where
  "WABT_OPCODE rtype type1 type2 type3 mem_size pre c =
     \<lparr>result_type = rtype, param_type1 = type1, param_type2 = type2, param_type3 = type3,
      memory_size = mem_size, prefix = pre, code = c\<rparr>"

definition opcode_rows :: "opcode_info list" where
  "opcode_rows = [
     WABT_OPCODE VoidTy VoidTy VoidTy VoidTy 0 0 0x00 \<comment> \<open>Unreachable\<close>,
     WABT_OPCODE VoidTy VoidTy VoidTy VoidTy 0 0 0x01 \<comment> \<open>Nop\<close>,
     WABT_OPCODE VoidTy VoidTy VoidTy VoidTy 0 0 0x02 \<comment> \<open>Block\<close>,
     WABT_OPCODE VoidTy VoidTy VoidTy VoidTy 0 0 0x03 \<comment> \<open>Loop\<close>,
     WABT_OPCODE VoidTy VoidTy VoidTy VoidTy 0 0 0x04 \<comment> \<open>If\<close>,
     WABT_OPCODE VoidTy VoidTy VoidTy VoidTy 0 0 0x05 \<comment> \<open>Else\<close>,
     WABT_OPCODE VoidTy VoidTy VoidTy VoidTy 0 0 0x06 \<comment> \<open>Try\<close>,
     WABT_OPCODE VoidTy VoidTy VoidTy VoidTy 0 0 0x07 \<comment> \<open>Catch\<close>,
     WABT_OPCODE VoidTy VoidTy VoidTy VoidTy 0 0 0x08 \<comment> \<open>Throw\<close>,
     WABT_OPCODE VoidTy VoidTy VoidTy VoidTy 0 0 0x09 \<comment> \<open>Rethrow\<close>,
     WABT_OPCODE VoidTy VoidTy VoidTy VoidTy 0 0 0x0b \<comment> \<open>End\<close>,
     WABT_OPCODE VoidTy VoidTy VoidTy VoidTy 0 0 0x0c \<comment> \<open>Br\<close>,
     WABT_OPCODE VoidTy I32 VoidTy VoidTy 0 0 0x0d \<comment> \<open>BrIf\<close>,
     WABT_OPCODE VoidTy I32 VoidTy VoidTy 0 0 0x0e \<comment> \<open>BrTable\<close>,
     WABT_OPCODE VoidTy VoidTy VoidTy VoidTy 0 0 0x0f \<comment> \<open>Return\<close>,
     WABT_OPCODE VoidTy VoidTy VoidTy VoidTy 0 0 0x10 \<comment> \<open>Call\<close>,
     WABT_OPCODE VoidTy VoidTy VoidTy VoidTy 0 0 0x11 \<comment> \<open>CallIndirect\<close>,
     WABT_OPCODE VoidTy VoidTy VoidTy VoidTy 0 0 0x12 \<comment> \<open>ReturnCall\<close>,
     WABT_OPCODE VoidTy VoidTy VoidTy VoidTy 0 0 0x13 \<comment> \<open>ReturnCallIndirect\<close>,
     WABT_OPCODE VoidTy VoidTy VoidTy VoidTy 0 0 0x14 \<comment> \<open>CallRef\<close>,
     WABT_OPCODE VoidTy VoidTy VoidTy VoidTy 0 0 0x18 \<comment> \<open>Delegate\<close>,
     WABT_OPCODE VoidTy VoidTy VoidTy VoidTy 0 0 0x19 \<comment> \<open>CatchAll\<close>,
     WABT_OPCODE VoidTy VoidTy VoidTy VoidTy 0 0 0x1a \<comment> \<open>Drop\<close>,
     WABT_OPCODE VoidTy VoidTy VoidTy I32 0 0 0x1b \<comment> \<open>Select\<close>,
     WABT_OPCODE VoidTy VoidTy VoidTy I32 0 0 0x1c \<comment> \<open>SelectT\<close>,
     WABT_OPCODE VoidTy VoidTy VoidTy VoidTy 0 0 0x20 \<comment> \<open>LocalGet\<close>,
     WABT_OPCODE VoidTy VoidTy VoidTy VoidTy 0 0 0x21 \<comment> \<open>LocalSet\<close>,
     WABT_OPCODE VoidTy VoidTy VoidTy VoidTy 0 0 0x22 \<comment> \<open>LocalTee\<close>,
     WABT_OPCODE VoidTy VoidTy VoidTy VoidTy 0 0 0x23 \<comment> \<open>GlobalGet\<close>,
     WABT_OPCODE VoidTy VoidTy VoidTy VoidTy 0 0 0x24 \<comment> \<open>GlobalSet\<close>,
     WABT_OPCODE I32 I32 VoidTy VoidTy 4 0 0x28 \<comment> \<open>I32Load\<close>,
     WABT_OPCODE I64 I32 VoidTy VoidTy 8 0 0x29 \<comment> \<open>I64Load\<close>,
     WABT_OPCODE F32 I32 VoidTy VoidTy 4 0 0x2a \<comment> \<open>F32Load\<close>,
     WABT_OPCODE F64 I32 VoidTy VoidTy 8 0 0x2b \<comment> \<open>F64Load\<close>,
     WABT_OPCODE I32 I32 VoidTy VoidTy 1 0 0x2c \<comment> \<open>I32Load8S\<close>,
     WABT_OPCODE I32 I32 VoidTy VoidTy 1 0 0x2d \<comment> \<open>I32Load8U\<close>,
     WABT_OPCODE I32 I32 VoidTy VoidTy 2 0 0x2e \<comment> \<open>I32Load16S\<close>,
     WABT_OPCODE I32 I32 VoidTy VoidTy 2 0 0x2f \<comment> \<open>I32Load16U\<close>,
     WABT_OPCODE I64 I32 VoidTy VoidTy 1 0 0x30 \<comment> \<open>I64Load8S\<close>,
     WABT_OPCODE I64 I32 VoidTy VoidTy 1 0 0x31 \<comment> \<open>I64Load8U\<close>,
     WABT_OPCODE I64 I32 VoidTy VoidTy 2 0 0x32 \<comment> \<open>I64Load16S\<close>,
     WABT_OPCODE I64 I32 VoidTy VoidTy 2 0 0x33 \<comment> \<open>I64Load16U\<close>,
     WABT_OPCODE I64 I32 VoidTy VoidTy 4 0 0x34 \<comment> \<open>I64Load32S\<close>,
     WABT_OPCODE I64 I32 VoidTy VoidTy 4 0 0x35 \<comment> \<open>I64Load32U\<close>,
     WABT_OPCODE VoidTy I32 I32 VoidTy 4 0 0x36 \<comment> \<open>I32Store\<close>,
     WABT_OPCODE VoidTy I32 I64 VoidTy 8 0 0x37 \<comment> \<open>I64Store\<close>,
     WABT_OPCODE VoidTy I32 F32 VoidTy 4 0 0x38 \<comment> \<open>F32Store\<close>,
     WABT_OPCODE VoidTy I32 F64 VoidTy 8 0 0x39 \<comment> \<open>F64Store\<close>,
     WABT_OPCODE VoidTy I32 I32 VoidTy 1 0 0x3a \<comment> \<open>I32Store8\<close>,
     WABT_OPCODE VoidTy I32 I32 VoidTy 2 0 0x3b \<comment> \<open>I32Store16\<close>,
     WABT_OPCODE VoidTy I32 I64 VoidTy 1 0 0x3c \<comment> \<open>I64Store8\<close>,
     WABT_OPCODE VoidTy I32 I64 VoidTy 2 0 0x3d \<comment> \<open>I64Store16\<close>,
     WABT_OPCODE VoidTy I32 I64 VoidTy 4 0 0x3e \<comment> \<open>I64Store32\<close>,
     WABT_OPCODE I32 VoidTy VoidTy VoidTy 0 0 0x3f \<comment> \<open>MemorySize\<close>,
     WABT_OPCODE I32 I32 VoidTy VoidTy 0 0 0x40 \<comment> \<open>MemoryGrow\<close>,
     WABT_OPCODE I32 VoidTy VoidTy VoidTy 0 0 0x41 \<comment> \<open>I32Const\<close>,
     WABT_OPCODE I64 VoidTy VoidTy VoidTy 0 0 0x42 \<comment> \<open>I64Const\<close>,
     WABT_OPCODE F32 VoidTy VoidTy VoidTy 0 0 0x43 \<comment> \<open>F32Const\<close>,
     WABT_OPCODE F64 VoidTy VoidTy VoidTy 0 0 0x44 \<comment> \<open>F64Const\<close>,
     WABT_OPCODE I32 I32 VoidTy VoidTy 0 0 0x45 \<comment> \<open>I32Eqz\<close>,
     WABT_OPCODE I32 I32 I32 VoidTy 0 0 0x46 \<comment> \<open>I32Eq\<close>,
     WABT_OPCODE I32 I32 I32 VoidTy 0 0 0x47 \<comment> \<open>I32Ne\<close>,
     WABT_OPCODE I32 I32 I32 VoidTy 0 0 0x48 \<comment> \<open>I32LtS\<close>,
     WABT_OPCODE I32 I32 I32 VoidTy 0 0 0x49 \<comment> \<open>I32LtU\<close>,
     WABT_OPCODE I32 I32 I32 VoidTy 0 0 0x4a \<comment> \<open>I32GtS\<close>,
     WABT_OPCODE I32 I32 I32 VoidTy 0 0 0x4b \<comment> \<open>I32GtU\<close>,
     WABT_OPCODE I32 I32 I32 VoidTy 0 0 0x4c \<comment> \<open>I32LeS\<close>,
     WABT_OPCODE I32 I32 I32 VoidTy 0 0 0x4d \<comment> \<open>I32LeU\<close>,
     WABT_OPCODE I32 I32 I32 VoidTy 0 0 0x4e \<comment> \<open>I32GeS\<close>,
     WABT_OPCODE I32 I32 I32 VoidTy 0 0 0x4f \<comment> \<open>I32GeU\<close>,
     WABT_OPCODE I32 I64 VoidTy VoidTy 0 0 0x50 \<comment> \<open>I64Eqz\<close>,
     WABT_OPCODE I32 I64 I64 VoidTy 0 0 0x51 \<comment> \<open>I64Eq\<close>,
     WABT_OPCODE I32 I64 I64 VoidTy 0 0 0x52 \<comment> \<open>I64Ne\<close>,
     WABT_OPCODE I32 I64 I64 VoidTy 0 0 0x53 \<comment> \<open>I64LtS\<close>,
     WABT_OPCODE I32 I64 I64 VoidTy 0 0 0x54 \<comment> \<open>I64LtU\<close>,
     WABT_OPCODE I32 I64 I64 VoidTy 0 0 0x55 \<comment> \<open>I64GtS\<close>,
     WABT_OPCODE I32 I64 I64 VoidTy 0 0 0x56 \<comment> \<open>I64GtU\<close>,
     WABT_OPCODE I32 I64 I64 VoidTy 0 0 0x57 \<comment> \<open>I64LeS\<close>,
     WABT_OPCODE I32 I64 I64 VoidTy 0 0 0x58 \<comment> \<open>I64LeU\<close>,
     WABT_OPCODE I32 I64 I64 VoidTy 0 0 0x59 \<comment> \<open>I64GeS\<close>,
     WABT_OPCODE I32 I64 I64 VoidTy 0 0 0x5a \<comment> \<open>I64GeU\<close>,
     WABT_OPCODE I32 F32 F32 VoidTy 0 0 0x5b \<comment> \<open>F32Eq\<close>,
     WABT_OPCODE I32 F32 F32 VoidTy 0 0 0x5c \<comment> \<open>F32Ne\<close>,
     WABT_OPCODE I32 F32 F32 VoidTy 0 0 0x5d \<comment> \<open>F32Lt\<close>,
     WABT_OPCODE I32 F32 F32 VoidTy 0 0 0x5e \<comment> \<open>F32Gt\<close>,
     WABT_OPCODE I32 F32 F32 VoidTy 0 0 0x5f \<comment> \<open>F32Le\<close>,
     WABT_OPCODE I32 F32 F32 VoidTy 0 0 0x60 \<comment> \<open>F32Ge\<close>,
     WABT_OPCODE I32 F64 F64 VoidTy 0 0 0x61 \<comment> \<open>F64Eq\<close>,
     WABT_OPCODE I32 F64 F64 VoidTy 0 0 0x62 \<comment> \<open>F64Ne\<close>,
     WABT_OPCODE I32 F64 F64 VoidTy 0 0 0x63 \<comment> \<open>F64Lt\<close>,
     WABT_OPCODE I32 F64 F64 VoidTy 0 0 0x64 \<comment> \<open>F64Gt\<close>,
     WABT_OPCODE I32 F64 F64 VoidTy 0 0 0x65 \<comment> \<open>F64Le\<close>,
     WABT_OPCODE I32 F64 F64 VoidTy 0 0 0x66 \<comment> \<open>F64Ge\<close>,
     WABT_OPCODE I32 I32 VoidTy VoidTy 0 0 0x67 \<comment> \<open>I32Clz\<close>,
     WABT_OPCODE I32 I32 VoidTy VoidTy 0 0 0x68 \<comment> \<open>I32Ctz\<close>,
     WABT_OPCODE I32 I32 VoidTy VoidTy 0 0 0x69 \<comment> \<open>I32Popcnt\<close>,
     WABT_OPCODE I32 I32 I32 VoidTy 0 0 0x6a \<comment> \<open>I32Add\<close>,
     WABT_OPCODE I32 I32 I32 VoidTy 0 0 0x6b \<comment> \<open>I32Sub\<close>,
     WABT_OPCODE I32 I32 I32 VoidTy 0 0 0x6c \<comment> \<open>I32Mul\<close>,
     WABT_OPCODE I32 I32 I32 VoidTy 0 0 0x6d \<comment> \<open>I32DivS\<close>,
     WABT_OPCODE I32 I32 I32 VoidTy 0 0 0x6e \<comment> \<open>I32DivU\<close>,
     WABT_OPCODE I32 I32 I32 VoidTy 0 0 0x6f \<comment> \<open>I32RemS\<close>,
     WABT_OPCODE I32 I32 I32 VoidTy 0 0 0x70 \<comment> \<open>I32RemU\<close>,
     WABT_OPCODE I32 I32 I32 VoidTy 0 0 0x71 \<comment> \<open>I32And\<close>,
     WABT_OPCODE I32 I32 I32 VoidTy 0 0 0x72 \<comment> \<open>I32Or\<close>,
     WABT_OPCODE I32 I32 I32 VoidTy 0 0 0x73 \<comment> \<open>I32Xor\<close>,
     WABT_OPCODE I32 I32 I32 VoidTy 0 0 0x74 \<comment> \<open>I32Shl\<close>,
     WABT_OPCODE I32 I32 I32 VoidTy 0 0 0x75 \<comment> \<open>I32ShrS\<close>,
     WABT_OPCODE I32 I32 I32 VoidTy 0 0 0x76 \<comment> \<open>I32ShrU\<close>,
     WABT_OPCODE I32 I32 I32 VoidTy 0 0 0x77 \<comment> \<open>I32Rotl\<close>,
     WABT_OPCODE I32 I32 I32 VoidTy 0 0 0x78 \<comment> \<open>I32Rotr\<close>,
     WABT_OPCODE I64 I64 VoidTy VoidTy 0 0 0x79 \<comment> \<open>I64Clz\<close>,
     WABT_OPCODE I64 I64 VoidTy VoidTy 0 0 0x7a \<comment> \<open>I64Ctz\<close>,
     WABT_OPCODE I64 I64 VoidTy VoidTy 0 0 0x7b \<comment> \<open>I64Popcnt\<close>,
     WABT_OPCODE I64 I64 I64 VoidTy 0 0 0x7c \<comment> \<open>I64Add\<close>,
     WABT_OPCODE I64 I64 I64 VoidTy 0 0 0x7d \<comment> \<open>I64Sub\<close>,
     WABT_OPCODE I64 I64 I64 VoidTy 0 0 0x7e \<comment> \<open>I64Mul\<close>,
     WABT_OPCODE I64 I64 I64 VoidTy 0 0 0x7f \<comment> \<open>I64DivS\<close>,
     WABT_OPCODE I64 I64 I64 VoidTy 0 0 0x80 \<comment> \<open>I64DivU\<close>,
     WABT_OPCODE I64 I64 I64 VoidTy 0 0 0x81 \<comment> \<open>I64RemS\<close>,
     WABT_OPCODE I64 I64 I64 VoidTy 0 0 0x82 \<comment> \<open>I64RemU\<close>,
     WABT_OPCODE I64 I64 I64 VoidTy 0 0 0x83 \<comment> \<open>I64And\<close>,
     WABT_OPCODE I64 I64 I64 VoidTy 0 0 0x84 \<comment> \<open>I64Or\<close>,
     WABT_OPCODE I64 I64 I64 VoidTy 0 0 0x85 \<comment> \<open>I64Xor\<close>,
     WABT_OPCODE I64 I64 I64 VoidTy 0 0 0x86 \<comment> \<open>I64Shl\<close>,
     WABT_OPCODE I64 I64 I64 VoidTy 0 0 0x87 \<comment> \<open>I64ShrS\<close>,
     WABT_OPCODE I64 I64 I64 VoidTy 0 0 0x88 \<comment> \<open>I64ShrU\<close>,
     WABT_OPCODE I64 I64 I64 VoidTy 0 0 0x89 \<comment> \<open>I64Rotl\<close>,
     WABT_OPCODE I64 I64 I64 VoidTy 0 0 0x8a \<comment> \<open>I64Rotr\<close>,
     WABT_OPCODE F32 F32 VoidTy VoidTy 0 0 0x8b \<comment> \<open>F32Abs\<close>,
     WABT_OPCODE F32 F32 VoidTy VoidTy 0 0 0x8c \<comment> \<open>F32Neg\<close>,
     WABT_OPCODE F32 F32 VoidTy VoidTy 0 0 0x8d \<comment> \<open>F32Ceil\<close>,
     WABT_OPCODE F32 F32 VoidTy VoidTy 0 0 0x8e \<comment> \<open>F32Floor\<close>,
     WABT_OPCODE F32 F32 VoidTy VoidTy 0 0 0x8f \<comment> \<open>F32Trunc\<close>,
     WABT_OPCODE F32 F32 VoidTy VoidTy 0 0 0x90 \<comment> \<open>F32Nearest\<close>,
     WABT_OPCODE F32 F32 VoidTy VoidTy 0 0 0x91 \<comment> \<open>F32Sqrt\<close>,
     WABT_OPCODE F32 F32 F32 VoidTy 0 0 0x92 \<comment> \<open>F32Add\<close>,
     WABT_OPCODE F32 F32 F32 VoidTy 0 0 0x93 \<comment> \<open>F32Sub\<close>,
     WABT_OPCODE F32 F32 F32 VoidTy 0 0 0x94 \<comment> \<open>F32Mul\<close>,
     WABT_OPCODE F32 F32 F32 VoidTy 0 0 0x95 \<comment> \<open>F32Div\<close>,
     WABT_OPCODE F32 F32 F32 VoidTy 0 0 0x96 \<comment> \<open>F32Min\<close>,
     WABT_OPCODE F32 F32 F32 VoidTy 0 0 0x97 \<comment> \<open>F32Max\<close>,
     WABT_OPCODE F32 F32 F32 VoidTy 0 0 0x98 \<comment> \<open>F32Copysign\<close>,
     WABT_OPCODE F64 F64 VoidTy VoidTy 0 0 0x99 \<comment> \<open>F64Abs\<close>,
     WABT_OPCODE F64 F64 VoidTy VoidTy 0 0 0x9a \<comment> \<open>F64Neg\<close>,
     WABT_OPCODE F64 F64 VoidTy VoidTy 0 0 0x9b \<comment> \<open>F64Ceil\<close>,
     WABT_OPCODE F64 F64 VoidTy VoidTy 0 0 0x9c \<comment> \<open>F64Floor\<close>,
     WABT_OPCODE F64 F64 VoidTy VoidTy 0 0 0x9d \<comment> \<open>F64Trunc\<close>,
     WABT_OPCODE F64 F64 VoidTy VoidTy 0 0 0x9e \<comment> \<open>F64Nearest\<close>,
     WABT_OPCODE F64 F64 VoidTy VoidTy 0 0 0x9f \<comment> \<open>F64Sqrt\<close>,
     WABT_OPCODE F64 F64 F64 VoidTy 0 0 0xa0 \<comment> \<open>F64Add\<close>,
     WABT_OPCODE F64 F64 F64 VoidTy 0 0 0xa1 \<comment> \<open>F64Sub\<close>,
     WABT_OPCODE F64 F64 F64 VoidTy 0 0 0xa2 \<comment> \<open>F64Mul\<close>,
     WABT_OPCODE F64 F64 F64 VoidTy 0 0 0xa3 \<comment> \<open>F64Div\<close>,
     WABT_OPCODE F64 F64 F64 VoidTy 0 0 0xa4 \<comment> \<open>F64Min\<close>,
     WABT_OPCODE F64 F64 F64 VoidTy 0 0 0xa5 \<comment> \<open>F64Max\<close>,
     WABT_OPCODE F64 F64 F64 VoidTy 0 0 0xa6 \<comment> \<open>F64Copysign\<close>,
     WABT_OPCODE I32 I64 VoidTy VoidTy 0 0 0xa7 \<comment> \<open>I32WrapI64\<close>,
     WABT_OPCODE I32 F32 VoidTy VoidTy 0 0 0xa8 \<comment> \<open>I32TruncF32S\<close>,
     WABT_OPCODE I32 F32 VoidTy VoidTy 0 0 0xa9 \<comment> \<open>I32TruncF32U\<close>,
     WABT_OPCODE I32 F64 VoidTy VoidTy 0 0 0xaa \<comment> \<open>I32TruncF64S\<close>,
     WABT_OPCODE I32 F64 VoidTy VoidTy 0 0 0xab \<comment> \<open>I32TruncF64U\<close>,
     WABT_OPCODE I64 I32 VoidTy VoidTy 0 0 0xac \<comment> \<open>I64ExtendI32S\<close>,
     WABT_OPCODE I64 I32 VoidTy VoidTy 0 0 0xad \<comment> \<open>I64ExtendI32U\<close>,
     WABT_OPCODE I64 F32 VoidTy VoidTy 0 0 0xae \<comment> \<open>I64TruncF32S\<close>,
     WABT_OPCODE I64 F32 VoidTy VoidTy 0 0 0xaf \<comment> \<open>I64TruncF32U\<close>,
     WABT_OPCODE I64 F64 VoidTy VoidTy 0 0 0xb0 \<comment> \<open>I64TruncF64S\<close>,
     WABT_OPCODE I64 F64 VoidTy VoidTy 0 0 0xb1 \<comment> \<open>I64TruncF64U\<close>,
     WABT_OPCODE F32 I32 VoidTy VoidTy 0 0 0xb2 \<comment> \<open>F32ConvertI32S\<close>,
     WABT_OPCODE F32 I32 VoidTy VoidTy 0 0 0xb3 \<comment> \<open>F32ConvertI32U\<close>,
     WABT_OPCODE F32 I64 VoidTy VoidTy 0 0 0xb4 \<comment> \<open>F32ConvertI64S\<close>,
     WABT_OPCODE F32 I64 VoidTy VoidTy 0 0 0xb5 \<comment> \<open>F32ConvertI64U\<close>,
     WABT_OPCODE F32 F64 VoidTy VoidTy 0 0 0xb6 \<comment> \<open>F32DemoteF64\<close>,
     WABT_OPCODE F64 I32 VoidTy VoidTy 0 0 0xb7 \<comment> \<open>F64ConvertI32S\<close>,
     WABT_OPCODE F64 I32 VoidTy VoidTy 0 0 0xb8 \<comment> \<open>F64ConvertI32U\<close>,
     WABT_OPCODE F64 I64 VoidTy VoidTy 0 0 0xb9 \<comment> \<open>F64ConvertI64S\<close>,
     WABT_OPCODE F64 I64 VoidTy VoidTy 0 0 0xba \<comment> \<open>F64ConvertI64U\<close>,
     WABT_OPCODE F64 F32 VoidTy VoidTy 0 0 0xbb \<comment> \<open>F64PromoteF32\<close>,
     WABT_OPCODE I32 F32 VoidTy VoidTy 0 0 0xbc \<comment> \<open>I32ReinterpretF32\<close>,
     WABT_OPCODE I64 F64 VoidTy VoidTy 0 0 0xbd \<comment> \<open>I64ReinterpretF64\<close>,
     WABT_OPCODE F32 I32 VoidTy VoidTy 0 0 0xbe \<comment> \<open>F32ReinterpretI32\<close>,
     WABT_OPCODE F64 I64 VoidTy VoidTy 0 0 0xbf \<comment> \<open>F64ReinterpretI64\<close>,
     WABT_OPCODE I32 I32 VoidTy VoidTy 0 0 0xc0 \<comment> \<open>I32Extend8S\<close>,
     WABT_OPCODE I32 I32 VoidTy VoidTy 0 0 0xc1 \<comment> \<open>I32Extend16S\<close>,
     WABT_OPCODE I64 I64 VoidTy VoidTy 0 0 0xc2 \<comment> \<open>I64Extend8S\<close>,
     WABT_OPCODE I64 I64 VoidTy VoidTy 0 0 0xc3 \<comment> \<open>I64Extend16S\<close>,
     WABT_OPCODE I64 I64 VoidTy VoidTy 0 0 0xc4 \<comment> \<open>I64Extend32S\<close>,
     WABT_OPCODE VoidTy VoidTy VoidTy VoidTy 0 0 0xe0 \<comment> \<open>InterpAlloca\<close>,
     WABT_OPCODE VoidTy I32 VoidTy VoidTy 0 0 0xe1 \<comment> \<open>InterpBrUnless\<close>,
     WABT_OPCODE VoidTy VoidTy VoidTy VoidTy 0 0 0xe2 \<comment> \<open>InterpCallImport\<close>,
     WABT_OPCODE VoidTy VoidTy VoidTy VoidTy 0 0 0xe3 \<comment> \<open>InterpData\<close>,
     WABT_OPCODE VoidTy VoidTy VoidTy VoidTy 0 0 0xe4 \<comment> \<open>InterpDropKeep\<close>,
     WABT_OPCODE VoidTy VoidTy VoidTy VoidTy 0 0 0xe5 \<comment> \<open>InterpCatchDrop\<close>,
     WABT_OPCODE VoidTy VoidTy VoidTy VoidTy 0 0 0xe6 \<comment> \<open>InterpAdjustFrameForReturnCall\<close>,
     WABT_OPCODE I32 F32 VoidTy VoidTy 0 0xfc 0x00 \<comment> \<open>I32TruncSatF32S\<close>,
     WABT_OPCODE I32 F32 VoidTy VoidTy 0 0xfc 0x01 \<comment> \<open>I32TruncSatF32U\<close>,
     WABT_OPCODE I32 F64 VoidTy VoidTy 0 0xfc 0x02 \<comment> \<open>I32TruncSatF64S\<close>,
     WABT_OPCODE I32 F64 VoidTy VoidTy 0 0xfc 0x03 \<comment> \<open>I32TruncSatF64U\<close>,
     WABT_OPCODE I64 F32 VoidTy VoidTy 0 0xfc 0x04 \<comment> \<open>I64TruncSatF32S\<close>,
     WABT_OPCODE I64 F32 VoidTy VoidTy 0 0xfc 0x05 \<comment> \<open>I64TruncSatF32U\<close>,
     WABT_OPCODE I64 F64 VoidTy VoidTy 0 0xfc 0x06 \<comment> \<open>I64TruncSatF64S\<close>,
     WABT_OPCODE I64 F64 VoidTy VoidTy 0 0xfc 0x07 \<comment> \<open>I64TruncSatF64U\<close>,
     WABT_OPCODE VoidTy I32 I32 I32 0 0xfc 0x08 \<comment> \<open>MemoryInit\<close>,
     WABT_OPCODE VoidTy VoidTy VoidTy VoidTy 0 0xfc 0x09 \<comment> \<open>DataDrop\<close>,
     WABT_OPCODE VoidTy I32 I32 I32 0 0xfc 0x0a \<comment> \<open>MemoryCopy\<close>,
     WABT_OPCODE VoidTy I32 I32 I32 0 0xfc 0x0b \<comment> \<open>MemoryFill\<close>,
     WABT_OPCODE VoidTy I32 I32 I32 0 0xfc 0x0c \<comment> \<open>TableInit\<close>,
     WABT_OPCODE VoidTy VoidTy VoidTy VoidTy 0 0xfc 0x0d \<comment> \<open>ElemDrop\<close>,
     WABT_OPCODE VoidTy I32 I32 I32 0 0xfc 0x0e \<comment> \<open>TableCopy\<close>,
     WABT_OPCODE VoidTy I32 VoidTy VoidTy 0 0 0x25 \<comment> \<open>TableGet\<close>,
     WABT_OPCODE VoidTy I32 VoidTy VoidTy 0 0 0x26 \<comment> \<open>TableSet\<close>,
     WABT_OPCODE VoidTy VoidTy I32 VoidTy 0 0xfc 0x0f \<comment> \<open>TableGrow\<close>,
     WABT_OPCODE VoidTy VoidTy VoidTy VoidTy 0 0xfc 0x10 \<comment> \<open>TableSize\<close>,
     WABT_OPCODE VoidTy I32 VoidTy I32 0 0xfc 0x11 \<comment> \<open>TableFill\<close>,
     WABT_OPCODE VoidTy VoidTy VoidTy VoidTy 0 0 0xd0 \<comment> \<open>RefNull\<close>,
     WABT_OPCODE VoidTy VoidTy VoidTy VoidTy 0 0 0xd1 \<comment> \<open>RefIsNull\<close>,
     WABT_OPCODE VoidTy VoidTy VoidTy VoidTy 0 0 0xd2 \<comment> \<open>RefFunc\<close>,
     WABT_OPCODE V128 I32 VoidTy VoidTy 16 0xfd 0x00 \<comment> \<open>V128Load\<close>,
     WABT_OPCODE V128 I32 VoidTy VoidTy 8 0xfd 0x01 \<comment> \<open>V128Load8X8S\<close>,
     WABT_OPCODE V128 I32 VoidTy VoidTy 8 0xfd 0x02 \<comment> \<open>V128Load8X8U\<close>,
     WABT_OPCODE V128 I32 VoidTy VoidTy 8 0xfd 0x03 \<comment> \<open>V128Load16X4S\<close>,
     WABT_OPCODE V128 I32 VoidTy VoidTy 8 0xfd 0x04 \<comment> \<open>V128Load16X4U\<close>,
     WABT_OPCODE V128 I32 VoidTy VoidTy 8 0xfd 0x05 \<comment> \<open>V128Load32X2S\<close>,
     WABT_OPCODE V128 I32 VoidTy VoidTy 8 0xfd 0x06 \<comment> \<open>V128Load32X2U\<close>,
     WABT_OPCODE V128 I32 VoidTy VoidTy 1 0xfd 0x07 \<comment> \<open>V128Load8Splat\<close>,
     WABT_OPCODE V128 I32 VoidTy VoidTy 2 0xfd 0x08 \<comment> \<open>V128Load16Splat\<close>,
     WABT_OPCODE V128 I32 VoidTy VoidTy 4 0xfd 0x09 \<comment> \<open>V128Load32Splat\<close>,
     WABT_OPCODE V128 I32 VoidTy VoidTy 8 0xfd 0x0a \<comment> \<open>V128Load64Splat\<close>,
     WABT_OPCODE VoidTy I32 V128 VoidTy 16 0xfd 0x0b \<comment> \<open>V128Store\<close>,
     WABT_OPCODE V128 VoidTy VoidTy VoidTy 0 0xfd 0x0c \<comment> \<open>V128Const\<close>,
     WABT_OPCODE V128 V128 V128 VoidTy 0 0xfd 0x0d \<comment> \<open>I8X16Shuffle\<close>,
     WABT_OPCODE V128 V128 V128 VoidTy 0 0xfd 0x0e \<comment> \<open>I8X16Swizzle\<close>,
     WABT_OPCODE V128 I32 VoidTy VoidTy 0 0xfd 0x0f \<comment> \<open>I8X16Splat\<close>,
     WABT_OPCODE V128 I32 VoidTy VoidTy 0 0xfd 0x10 \<comment> \<open>I16X8Splat\<close>,
     WABT_OPCODE V128 I32 VoidTy VoidTy 0 0xfd 0x11 \<comment> \<open>I32X4Splat\<close>,
     WABT_OPCODE V128 I64 VoidTy VoidTy 0 0xfd 0x12 \<comment> \<open>I64X2Splat\<close>,
     WABT_OPCODE V128 F32 VoidTy VoidTy 0 0xfd 0x13 \<comment> \<open>F32X4Splat\<close>,
     WABT_OPCODE V128 F64 VoidTy VoidTy 0 0xfd 0x14 \<comment> \<open>F64X2Splat\<close>,
     WABT_OPCODE I32 V128 VoidTy VoidTy 0 0xfd 0x15 \<comment> \<open>I8X16ExtractLaneS\<close>,
     WABT_OPCODE I32 V128 VoidTy VoidTy 0 0xfd 0x16 \<comment> \<open>I8X16ExtractLaneU\<close>,
     WABT_OPCODE V128 V128 I32 VoidTy 0 0xfd 0x17 \<comment> \<open>I8X16ReplaceLane\<close>,
     WABT_OPCODE I32 V128 VoidTy VoidTy 0 0xfd 0x18 \<comment> \<open>I16X8ExtractLaneS\<close>,
     WABT_OPCODE I32 V128 VoidTy VoidTy 0 0xfd 0x19 \<comment> \<open>I16X8ExtractLaneU\<close>,
     WABT_OPCODE V128 V128 I32 VoidTy 0 0xfd 0x1a \<comment> \<open>I16X8ReplaceLane\<close>,
     WABT_OPCODE I32 V128 VoidTy VoidTy 0 0xfd 0x1b \<comment> \<open>I32X4ExtractLane\<close>,
     WABT_OPCODE V128 V128 I32 VoidTy 0 0xfd 0x1c \<comment> \<open>I32X4ReplaceLane\<close>,
     WABT_OPCODE I64 V128 VoidTy VoidTy 0 0xfd 0x1d \<comment> \<open>I64X2ExtractLane\<close>,
     WABT_OPCODE V128 V128 I64 VoidTy 0 0xfd 0x1e \<comment> \<open>I64X2ReplaceLane\<close>,
     WABT_OPCODE F32 V128 VoidTy VoidTy 0 0xfd 0x1f \<comment> \<open>F32X4ExtractLane\<close>,
     WABT_OPCODE V128 V128 F32 VoidTy 0 0xfd 0x20 \<comment> \<open>F32X4ReplaceLane\<close>,
     WABT_OPCODE F64 V128 VoidTy VoidTy 0 0xfd 0x21 \<comment> \<open>F64X2ExtractLane\<close>,
     WABT_OPCODE V128 V128 F64 VoidTy 0 0xfd 0x22 \<comment> \<open>F64X2ReplaceLane\<close>,
     WABT_OPCODE V128 V128 V128 VoidTy 0 0xfd 0x23 \<comment> \<open>I8X16Eq\<close>,
     WABT_OPCODE V128 V128 V128 VoidTy 0 0xfd 0x24 \<comment> \<open>I8X16Ne\<close>,
     WABT_OPCODE V128 V128 V128 VoidTy 0 0xfd 0x25 \<comment> \<open>I8X16LtS\<close>,
     WABT_OPCODE V128 V128 V128 VoidTy 0 0xfd 0x26 \<comment> \<open>I8X16LtU\<close>,
     WABT_OPCODE V128 V128 V128 VoidTy 0 0xfd 0x27 \<comment> \<open>I8X16GtS\<close>,
     WABT_OPCODE V128 V128 V128 VoidTy 0 0xfd 0x28 \<comment> \<open>I8X16GtU\<close>,
     WABT_OPCODE V128 V128 V128 VoidTy 0 0xfd 0x29 \<comment> \<open>I8X16LeS\<close>,
     WABT_OPCODE V128 V128 V128 VoidTy 0 0xfd 0x2a \<comment> \<open>I8X16LeU\<close>,
     WABT_OPCODE V128 V128 V128 VoidTy 0 0xfd 0x2b \<comment> \<open>I8X16GeS\<close>,
     WABT_OPCODE V128 V128 V128 VoidTy 0 0xfd 0x2c \<comment> \<open>I8X16GeU\<close>,
     WABT_OPCODE V128 V128 V128 VoidTy 0 0xfd 0x2d \<comment> \<open>I16X8Eq\<close>,
     WABT_OPCODE V128 V128 V128 VoidTy 0 0xfd 0x2e \<comment> \<open>I16X8Ne\<close>,
     WABT_OPCODE V128 V128 V128 VoidTy 0 0xfd 0x2f \<comment> \<open>I16X8LtS\<close>,
     WABT_OPCODE V128 V128 V128 VoidTy 0 0xfd 0x30 \<comment> \<open>I16X8LtU\<close>,
     WABT_OPCODE V128 V128 V128 VoidTy 0 0xfd 0x31 \<comment> \<open>I16X8GtS\<close>,
     WABT_OPCODE V128 V128 V128 VoidTy 0 0xfd 0x32 \<comment> \<open>I16X8GtU\<close>,
     WABT_OPCODE V128 V128 V128 VoidTy 0 0xfd 0x33 \<comment> \<open>I16X8LeS\<close>,
     WABT_OPCODE V128 V128 V128 VoidTy 0 0xfd 0x34 \<comment> \<open>I16X8LeU\<close>,
     WABT_OPCODE V128 V128 V128 VoidTy 0 0xfd 0x35 \<comment> \<open>I16X8GeS\<close>,
     WABT_OPCODE V128 V128 V128 VoidTy 0 0xfd 0x36 \<comment> \<open>I16X8GeU\<close>,
     WABT_OPCODE V128 V128 V128 VoidTy 0 0xfd 0x37 \<comment> \<open>I32X4Eq\<close>,
     WABT_OPCODE V128 V128 V128 VoidTy 0 0xfd 0x38 \<comment> \<open>I32X4Ne\<close>,
     WABT_OPCODE V128 V128 V128 VoidTy 0 0xfd 0x39 \<comment> \<open>I32X4LtS\<close>,
     WABT_OPCODE V128 V128 V128 VoidTy 0 0xfd 0x3a \<comment> \<open>I32X4LtU\<close>,
     WABT_OPCODE V128 V128 V128 VoidTy 0 0xfd 0x3b \<comment> \<open>I32X4GtS\<close>,
     WABT_OPCODE V128 V128 V128 VoidTy 0 0xfd 0x3c \<comment> \<open>I32X4GtU\<close>,
     WABT_OPCODE V128 V128 V128 VoidTy 0 0xfd 0x3d \<comment> \<open>I32X4LeS\<close>,
     WABT_OPCODE V128 V128 V128 VoidTy 0 0xfd 0x3e \<comment> \<open>I32X4LeU\<close>,
     WABT_OPCODE V128 V128 V128 VoidTy 0 0xfd 0x3f \<comment> \<open>I32X4GeS\<close>,
     WABT_OPCODE V128 V128 V128 VoidTy 0 0xfd 0x40 \<comment> \<open>I32X4GeU\<close>,
     WABT_OPCODE V128 V128 V128 VoidTy 0 0xfd 0x41 \<comment> \<open>F32X4Eq\<close>,
     WABT_OPCODE V128 V128 V128 VoidTy 0 0xfd 0x42 \<comment> \<open>F32X4Ne\<close>,
     WABT_OPCODE V128 V128 V128 VoidTy 0 0xfd 0x43 \<comment> \<open>F32X4Lt\<close>,
     WABT_OPCODE V128 V128 V128 VoidTy 0 0xfd 0x44 \<comment> \<open>F32X4Gt\<close>,
     WABT_OPCODE V128 V128 V128 VoidTy 0 0xfd 0x45 \<comment> \<open>F32X4Le\<close>,
     WABT_OPCODE V128 V128 V128 VoidTy 0 0xfd 0x46 \<comment> \<open>F32X4Ge\<close>,
     WABT_OPCODE V128 V128 V128 VoidTy 0 0xfd 0x47 \<comment> \<open>F64X2Eq\<close>,
     WABT_OPCODE V128 V128 V128 VoidTy 0 0xfd 0x48 \<comment> \<open>F64X2Ne\<close>,
     WABT_OPCODE V128 V128 V128 VoidTy 0 0xfd 0x49 \<comment> \<open>F64X2Lt\<close>,
     WABT_OPCODE V128 V128 V128 VoidTy 0 0xfd 0x4a \<comment> \<open>F64X2Gt\<close>,
     WABT_OPCODE V128 V128 V128 VoidTy 0 0xfd 0x4b \<comment> \<open>F64X2Le\<close>,
     WABT_OPCODE V128 V128 V128 VoidTy 0 0xfd 0x4c \<comment> \<open>F64X2Ge\<close>,
     WABT_OPCODE V128 V128 VoidTy VoidTy 0 0xfd 0x4d \<comment> \<open>V128Not\<close>,
     WABT_OPCODE V128 V128 V128 VoidTy 0 0xfd 0x4e \<comment> \<open>V128And\<close>,
     WABT_OPCODE V128 V128 V128 VoidTy 0 0xfd 0x4f \<comment> \<open>V128Andnot\<close>,
     WABT_OPCODE V128 V128 V128 VoidTy 0 0xfd 0x50 \<comment> \<open>V128Or\<close>,
     WABT_OPCODE V128 V128 V128 VoidTy 0 0xfd 0x51 \<comment> \<open>V128Xor\<close>,
     WABT_OPCODE V128 V128 V128 V128 0 0xfd 0x52 \<comment> \<open>V128BitSelect\<close>,
     WABT_OPCODE I32 V128 VoidTy VoidTy 0 0xfd 0x53 \<comment> \<open>V128AnyTrue\<close>,
     WABT_OPCODE V128 I32 V128 VoidTy 1 0xfd 0x54 \<comment> \<open>V128Load8Lane\<close>,
     WABT_OPCODE V128 I32 V128 VoidTy 2 0xfd 0x55 \<comment> \<open>V128Load16Lane\<close>,
     WABT_OPCODE V128 I32 V128 VoidTy 4 0xfd 0x56 \<comment> \<open>V128Load32Lane\<close>,
     WABT_OPCODE V128 I32 V128 VoidTy 8 0xfd 0x57 \<comment> \<open>V128Load64Lane\<close>,
     WABT_OPCODE VoidTy I32 V128 VoidTy 1 0xfd 0x58 \<comment> \<open>V128Store8Lane\<close>,
     WABT_OPCODE VoidTy I32 V128 VoidTy 2 0xfd 0x59 \<comment> \<open>V128Store16Lane\<close>,
     WABT_OPCODE VoidTy I32 V128 VoidTy 4 0xfd 0x5a \<comment> \<open>V128Store32Lane\<close>,
     WABT_OPCODE VoidTy I32 V128 VoidTy 8 0xfd 0x5b \<comment> \<open>V128Store64Lane\<close>,
     WABT_OPCODE V128 I32 VoidTy VoidTy 4 0xfd 0x5c \<comment> \<open>V128Load32Zero\<close>,
     WABT_OPCODE V128 I32 VoidTy VoidTy 8 0xfd 0x5d \<comment> \<open>V128Load64Zero\<close>,
     WABT_OPCODE V128 V128 VoidTy VoidTy 0 0xfd 0x5e \<comment> \<open>F32X4DemoteF64X2Zero\<close>,
     WABT_OPCODE V128 V128 VoidTy VoidTy 0 0xfd 0x5f \<comment> \<open>F64X2PromoteLowF32X4\<close>,
     WABT_OPCODE V128 V128 VoidTy VoidTy 0 0xfd 0x60 \<comment> \<open>I8X16Abs\<close>,
     WABT_OPCODE V128 V128 VoidTy VoidTy 0 0xfd 0x61 \<comment> \<open>I8X16Neg\<close>,
     WABT_OPCODE V128 V128 VoidTy VoidTy 0 0xfd 0x62 \<comment> \<open>I8X16Popcnt\<close>,
     WABT_OPCODE I32 V128 VoidTy VoidTy 0 0xfd 0x63 \<comment> \<open>I8X16AllTrue\<close>,
     WABT_OPCODE I32 V128 VoidTy VoidTy 0 0xfd 0x64 \<comment> \<open>I8X16Bitmask\<close>,
     WABT_OPCODE V128 V128 V128 VoidTy 0 0xfd 0x65 \<comment> \<open>I8X16NarrowI16X8S\<close>,
     WABT_OPCODE V128 V128 V128 VoidTy 0 0xfd 0x66 \<comment> \<open>I8X16NarrowI16X8U\<close>,
     WABT_OPCODE V128 V128 I32 VoidTy 0 0xfd 0x6b \<comment> \<open>I8X16Shl\<close>,
     WABT_OPCODE V128 V128 I32 VoidTy 0 0xfd 0x6c \<comment> \<open>I8X16ShrS\<close>,
     WABT_OPCODE V128 V128 I32 VoidTy 0 0xfd 0x6d \<comment> \<open>I8X16ShrU\<close>,
     WABT_OPCODE V128 V128 V128 VoidTy 0 0xfd 0x6e \<comment> \<open>I8X16Add\<close>,
     WABT_OPCODE V128 V128 V128 VoidTy 0 0xfd 0x6f \<comment> \<open>I8X16AddSatS\<close>,
     WABT_OPCODE V128 V128 V128 VoidTy 0 0xfd 0x70 \<comment> \<open>I8X16AddSatU\<close>,
     WABT_OPCODE V128 V128 V128 VoidTy 0 0xfd 0x71 \<comment> \<open>I8X16Sub\<close>,
     WABT_OPCODE V128 V128 V128 VoidTy 0 0xfd 0x72 \<comment> \<open>I8X16SubSatS\<close>,
     WABT_OPCODE V128 V128 V128 VoidTy 0 0xfd 0x73 \<comment> \<open>I8X16SubSatU\<close>,
     WABT_OPCODE V128 V128 V128 VoidTy 0 0xfd 0x76 \<comment> \<open>I8X16MinS\<close>,
     WABT_OPCODE V128 V128 V128 VoidTy 0 0xfd 0x77 \<comment> \<open>I8X16MinU\<close>,
     WABT_OPCODE V128 V128 V128 VoidTy 0 0xfd 0x78 \<comment> \<open>I8X16MaxS\<close>,
     WABT_OPCODE V128 V128 V128 VoidTy 0 0xfd 0x79 \<comment> \<open>I8X16MaxU\<close>,
     WABT_OPCODE V128 V128 V128 VoidTy 0 0xfd 0x7b \<comment> \<open>I8X16AvgrU\<close>,
     WABT_OPCODE V128 V128 VoidTy VoidTy 0 0xfd 0x7c \<comment> \<open>I16X8ExtaddPairwiseI8X16S\<close>,
     WABT_OPCODE V128 V128 VoidTy VoidTy 0 0xfd 0x7d \<comment> \<open>I16X8ExtaddPairwiseI8X16U\<close>,
     WABT_OPCODE V128 V128 VoidTy VoidTy 0 0xfd 0x7e \<comment> \<open>I32X4ExtaddPairwiseI16X8S\<close>,
     WABT_OPCODE V128 V128 VoidTy VoidTy 0 0xfd 0x7f \<comment> \<open>I32X4ExtaddPairwiseI16X8U\<close>,
     WABT_OPCODE V128 V128 VoidTy VoidTy 0 0xfd 0x80 \<comment> \<open>I16X8Abs\<close>,
     WABT_OPCODE V128 V128 VoidTy VoidTy 0 0xfd 0x81 \<comment> \<open>I16X8Neg\<close>,
     WABT_OPCODE V128 V128 V128 VoidTy 0 0xfd 0x82 \<comment> \<open>I16X8Q15mulrSatS\<close>,
     WABT_OPCODE I32 V128 VoidTy VoidTy 0 0xfd 0x83 \<comment> \<open>I16X8AllTrue\<close>,
     WABT_OPCODE I32 V128 VoidTy VoidTy 0 0xfd 0x84 \<comment> \<open>I16X8Bitmask\<close>,
     WABT_OPCODE V128 V128 V128 VoidTy 0 0xfd 0x85 \<comment> \<open>I16X8NarrowI32X4S\<close>,
     WABT_OPCODE V128 V128 V128 VoidTy 0 0xfd 0x86 \<comment> \<open>I16X8NarrowI32X4U\<close>,
     WABT_OPCODE V128 V128 VoidTy VoidTy 0 0xfd 0x87 \<comment> \<open>I16X8ExtendLowI8X16S\<close>,
     WABT_OPCODE V128 V128 VoidTy VoidTy 0 0xfd 0x88 \<comment> \<open>I16X8ExtendHighI8X16S\<close>,
     WABT_OPCODE V128 V128 VoidTy VoidTy 0 0xfd 0x89 \<comment> \<open>I16X8ExtendLowI8X16U\<close>,
     WABT_OPCODE V128 V128 VoidTy VoidTy 0 0xfd 0x8a \<comment> \<open>I16X8ExtendHighI8X16U\<close>,
     WABT_OPCODE V128 V128 I32 VoidTy 0 0xfd 0x8b \<comment> \<open>I16X8Shl\<close>,
     WABT_OPCODE V128 V128 I32 VoidTy 0 0xfd 0x8c \<comment> \<open>I16X8ShrS\<close>,
     WABT_OPCODE V128 V128 I32 VoidTy 0 0xfd 0x8d \<comment> \<open>I16X8ShrU\<close>,
     WABT_OPCODE V128 V128 V128 VoidTy 0 0xfd 0x8e \<comment> \<open>I16X8Add\<close>,
     WABT_OPCODE V128 V128 V128 VoidTy 0 0xfd 0x8f \<comment> \<open>I16X8AddSatS\<close>,
     WABT_OPCODE V128 V128 V128 VoidTy 0 0xfd 0x90 \<comment> \<open>I16X8AddSatU\<close>,
     WABT_OPCODE V128 V128 V128 VoidTy 0 0xfd 0x91 \<comment> \<open>I16X8Sub\<close>,
     WABT_OPCODE V128 V128 V128 VoidTy 0 0xfd 0x92 \<comment> \<open>I16X8SubSatS\<close>,
     WABT_OPCODE V128 V128 V128 VoidTy 0 0xfd 0x93 \<comment> \<open>I16X8SubSatU\<close>,
     WABT_OPCODE V128 V128 V128 VoidTy 0 0xfd 0x95 \<comment> \<open>I16X8Mul\<close>,
     WABT_OPCODE V128 V128 V128 VoidTy 0 0xfd 0x96 \<comment> \<open>I16X8MinS\<close>,
     WABT_OPCODE V128 V128 V128 VoidTy 0 0xfd 0x97 \<comment> \<open>I16X8MinU\<close>,
     WABT_OPCODE V128 V128 V128 VoidTy 0 0xfd 0x98 \<comment> \<open>I16X8MaxS\<close>,
     WABT_OPCODE V128 V128 V128 VoidTy 0 0xfd 0x99 \<comment> \<open>I16X8MaxU\<close>,
     WABT_OPCODE V128 V128 V128 VoidTy 0 0xfd 0x9b \<comment> \<open>I16X8AvgrU\<close>,
     WABT_OPCODE V128 V128 V128 VoidTy 0 0xfd 0x9c \<comment> \<open>I16X8ExtmulLowI8X16S\<close>,
     WABT_OPCODE V128 V128 V128 VoidTy 0 0xfd 0x9d \<comment> \<open>I16X8ExtmulHighI8X16S\<close>,
     WABT_OPCODE V128 V128 V128 VoidTy 0 0xfd 0x9e \<comment> \<open>I16X8ExtmulLowI8X16U\<close>,
     WABT_OPCODE V128 V128 V128 VoidTy 0 0xfd 0x9f \<comment> \<open>I16X8ExtmulHighI8X16U\<close>,
     WABT_OPCODE V128 V128 VoidTy VoidTy 0 0xfd 0xa0 \<comment> \<open>I32X4Abs\<close>,
     WABT_OPCODE V128 V128 VoidTy VoidTy 0 0xfd 0xa1 \<comment> \<open>I32X4Neg\<close>,
     WABT_OPCODE I32 V128 VoidTy VoidTy 0 0xfd 0xa3 \<comment> \<open>I32X4AllTrue\<close>,
     WABT_OPCODE I32 V128 VoidTy VoidTy 0 0xfd 0xa4 \<comment> \<open>I32X4Bitmask\<close>,
     WABT_OPCODE V128 V128 VoidTy VoidTy 0 0xfd 0xa7 \<comment> \<open>I32X4ExtendLowI16X8S\<close>,
     WABT_OPCODE V128 V128 VoidTy VoidTy 0 0xfd 0xa8 \<comment> \<open>I32X4ExtendHighI16X8S\<close>,
     WABT_OPCODE V128 V128 VoidTy VoidTy 0 0xfd 0xa9 \<comment> \<open>I32X4ExtendLowI16X8U\<close>,
     WABT_OPCODE V128 V128 VoidTy VoidTy 0 0xfd 0xaa \<comment> \<open>I32X4ExtendHighI16X8U\<close>,
     WABT_OPCODE V128 V128 I32 VoidTy 0 0xfd 0xab \<comment> \<open>I32X4Shl\<close>,
     WABT_OPCODE V128 V128 I32 VoidTy 0 0xfd 0xac \<comment> \<open>I32X4ShrS\<close>,
     WABT_OPCODE V128 V128 I32 VoidTy 0 0xfd 0xad \<comment> \<open>I32X4ShrU\<close>,
     WABT_OPCODE V128 V128 V128 VoidTy 0 0xfd 0xae \<comment> \<open>I32X4Add\<close>,
     WABT_OPCODE V128 V128 V128 VoidTy 0 0xfd 0xb1 \<comment> \<open>I32X4Sub\<close>,
     WABT_OPCODE V128 V128 V128 VoidTy 0 0xfd 0xb5 \<comment> \<open>I32X4Mul\<close>,
     WABT_OPCODE V128 V128 V128 VoidTy 0 0xfd 0xb6 \<comment> \<open>I32X4MinS\<close>,
     WABT_OPCODE V128 V128 V128 VoidTy 0 0xfd 0xb7 \<comment> \<open>I32X4MinU\<close>,
     WABT_OPCODE V128 V128 V128 VoidTy 0 0xfd 0xb8 \<comment> \<open>I32X4MaxS\<close>,
     WABT_OPCODE V128 V128 V128 VoidTy 0 0xfd 0xb9 \<comment> \<open>I32X4MaxU\<close>,
     WABT_OPCODE V128 V128 V128 VoidTy 0 0xfd 0xba \<comment> \<open>I32X4DotI16X8S\<close>,
     WABT_OPCODE V128 V128 V128 VoidTy 0 0xfd 0xbc \<comment> \<open>I32X4ExtmulLowI16X8S\<close>,
     WABT_OPCODE V128 V128 V128 VoidTy 0 0xfd 0xbd \<comment> \<open>I32X4ExtmulHighI16X8S\<close>,
     WABT_OPCODE V128 V128 V128 VoidTy 0 0xfd 0xbe \<comment> \<open>I32X4ExtmulLowI16X8U\<close>,
     WABT_OPCODE V128 V128 V128 VoidTy 0 0xfd 0xbf \<comment> \<open>I32X4ExtmulHighI16X8U\<close>,
     WABT_OPCODE V128 V128 VoidTy VoidTy 0 0xfd 0xc0 \<comment> \<open>I64X2Abs\<close>,
     WABT_OPCODE V128 V128 VoidTy VoidTy 0 0xfd 0xc1 \<comment> \<open>I64X2Neg\<close>,
     WABT_OPCODE I32 V128 VoidTy VoidTy 0 0xfd 0xc3 \<comment> \<open>I64X2AllTrue\<close>,
     WABT_OPCODE I32 V128 VoidTy VoidTy 0 0xfd 0xc4 \<comment> \<open>I64X2Bitmask\<close>,
     WABT_OPCODE V128 V128 VoidTy VoidTy 0 0xfd 0xc7 \<comment> \<open>I64X2ExtendLowI32X4S\<close>,
     WABT_OPCODE V128 V128 VoidTy VoidTy 0 0xfd 0xc8 \<comment> \<open>I64X2ExtendHighI32X4S\<close>,
     WABT_OPCODE V128 V128 VoidTy VoidTy 0 0xfd 0xc9 \<comment> \<open>I64X2ExtendLowI32X4U\<close>,
     WABT_OPCODE V128 V128 VoidTy VoidTy 0 0xfd 0xca \<comment> \<open>I64X2ExtendHighI32X4U\<close>,
     WABT_OPCODE V128 V128 I32 VoidTy 0 0xfd 0xcb \<comment> \<open>I64X2Shl\<close>,
     WABT_OPCODE V128 V128 I32 VoidTy 0 0xfd 0xcc \<comment> \<open>I64X2ShrS\<close>,
     WABT_OPCODE V128 V128 I32 VoidTy 0 0xfd 0xcd \<comment> \<open>I64X2ShrU\<close>,
     WABT_OPCODE V128 V128 V128 VoidTy 0 0xfd 0xce \<comment> \<open>I64X2Add\<close>,
     WABT_OPCODE V128 V128 V128 VoidTy 0 0xfd 0xd1 \<comment> \<open>I64X2Sub\<close>,
     WABT_OPCODE V128 V128 V128 VoidTy 0 0xfd 0xd5 \<comment> \<open>I64X2Mul\<close>,
     WABT_OPCODE V128 V128 V128 VoidTy 0 0xfd 0xd6 \<comment> \<open>I64X2Eq\<close>,
     WABT_OPCODE V128 V128 V128 VoidTy 0 0xfd 0xd7 \<comment> \<open>I64X2Ne\<close>,
     WABT_OPCODE V128 V128 V128 VoidTy 0 0xfd 0xd8 \<comment> \<open>I64X2LtS\<close>,
     WABT_OPCODE V128 V128 V128 VoidTy 0 0xfd 0xd9 \<comment> \<open>I64X2GtS\<close>,
     WABT_OPCODE V128 V128 V128 VoidTy 0 0xfd 0xda \<comment> \<open>I64X2LeS\<close>,
     WABT_OPCODE V128 V128 V128 VoidTy 0 0xfd 0xdb \<comment> \<open>I64X2GeS\<close>,
     WABT_OPCODE V128 V128 V128 VoidTy 0 0xfd 0xdc \<comment> \<open>I64X2ExtmulLowI32X4S\<close>,
     WABT_OPCODE V128 V128 V128 VoidTy 0 0xfd 0xdd \<comment> \<open>I64X2ExtmulHighI32X4S\<close>,
     WABT_OPCODE V128 V128 V128 VoidTy 0 0xfd 0xde \<comment> \<open>I64X2ExtmulLowI32X4U\<close>,
     WABT_OPCODE V128 V128 V128 VoidTy 0 0xfd 0xdf \<comment> \<open>I64X2ExtmulHighI32X4U\<close>,
     WABT_OPCODE V128 V128 VoidTy VoidTy 0 0xfd 0x67 \<comment> \<open>F32X4Ceil\<close>,
     WABT_OPCODE V128 V128 VoidTy VoidTy 0 0xfd 0x68 \<comment> \<open>F32X4Floor\<close>,
     WABT_OPCODE V128 V128 VoidTy VoidTy 0 0xfd 0x69 \<comment> \<open>F32X4Trunc\<close>,
     WABT_OPCODE V128 V128 VoidTy VoidTy 0 0xfd 0x6a \<comment> \<open>F32X4Nearest\<close>,
     WABT_OPCODE V128 V128 VoidTy VoidTy 0 0xfd 0x74 \<comment> \<open>F64X2Ceil\<close>,
     WABT_OPCODE V128 V128 VoidTy VoidTy 0 0xfd 0x75 \<comment> \<open>F64X2Floor\<close>,
     WABT_OPCODE V128 V128 VoidTy VoidTy 0 0xfd 0x7a \<comment> \<open>F64X2Trunc\<close>,
     WABT_OPCODE V128 V128 VoidTy VoidTy 0 0xfd 0x94 \<comment> \<open>F64X2Nearest\<close>,
     WABT_OPCODE V128 V128 VoidTy VoidTy 0 0xfd 0xe0 \<comment> \<open>F32X4Abs\<close>,
     WABT_OPCODE V128 V128 VoidTy VoidTy 0 0xfd 0xe1 \<comment> \<open>F32X4Neg\<close>,
     WABT_OPCODE V128 V128 VoidTy VoidTy 0 0xfd 0xe3 \<comment> \<open>F32X4Sqrt\<close>,
     WABT_OPCODE V128 V128 V128 VoidTy 0 0xfd 0xe4 \<comment> \<open>F32X4Add\<close>,
     WABT_OPCODE V128 V128 V128 VoidTy 0 0xfd 0xe5 \<comment> \<open>F32X4Sub\<close>,
     WABT_OPCODE V128 V128 V128 VoidTy 0 0xfd 0xe6 \<comment> \<open>F32X4Mul\<close>,
     WABT_OPCODE V128 V128 V128 VoidTy 0 0xfd 0xe7 \<comment> \<open>F32X4Div\<close>,
     WABT_OPCODE V128 V128 V128 VoidTy 0 0xfd 0xe8 \<comment> \<open>F32X4Min\<close>,
     WABT_OPCODE V128 V128 V128 VoidTy 0 0xfd 0xe9 \<comment> \<open>F32X4Max\<close>,
     WABT_OPCODE V128 V128 V128 VoidTy 0 0xfd 0xea \<comment> \<open>F32X4PMin\<close>,
     WABT_OPCODE V128 V128 V128 VoidTy 0 0xfd 0xeb \<comment> \<open>F32X4PMax\<close>,
     WABT_OPCODE V128 V128 VoidTy VoidTy 0 0xfd 0xec \<comment> \<open>F64X2Abs\<close>,
     WABT_OPCODE V128 V128 VoidTy VoidTy 0 0xfd 0xed \<comment> \<open>F64X2Neg\<close>,
     WABT_OPCODE V128 V128 VoidTy VoidTy 0 0xfd 0xef \<comment> \<open>F64X2Sqrt\<close>,
     WABT_OPCODE V128 V128 V128 VoidTy 0 0xfd 0xf0 \<comment> \<open>F64X2Add\<close>,
     WABT_OPCODE V128 V128 V128 VoidTy 0 0xfd 0xf1 \<comment> \<open>F64X2Sub\<close>,
     WABT_OPCODE V128 V128 V128 VoidTy 0 0xfd 0xf2 \<comment> \<open>F64X2Mul\<close>,
     WABT_OPCODE V128 V128 V128 VoidTy 0 0xfd 0xf3 \<comment> \<open>F64X2Div\<close>,
     WABT_OPCODE V128 V128 V128 VoidTy 0 0xfd 0xf4 \<comment> \<open>F64X2Min\<close>,
     WABT_OPCODE V128 V128 V128 VoidTy 0 0xfd 0xf5 \<comment> \<open>F64X2Max\<close>,
     WABT_OPCODE V128 V128 V128 VoidTy 0 0xfd 0xf6 \<comment> \<open>F64X2PMin\<close>,
     WABT_OPCODE V128 V128 V128 VoidTy 0 0xfd 0xf7 \<comment> \<open>F64X2PMax\<close>,
     WABT_OPCODE V128 V128 VoidTy VoidTy 0 0xfd 0xf8 \<comment> \<open>I32X4TruncSatF32X4S\<close>,
     WABT_OPCODE V128 V128 VoidTy VoidTy 0 0xfd 0xf9 \<comment> \<open>I32X4TruncSatF32X4U\<close>,
     WABT_OPCODE V128 V128 VoidTy VoidTy 0 0xfd 0xfa \<comment> \<open>F32X4ConvertI32X4S\<close>,
     WABT_OPCODE V128 V128 VoidTy VoidTy 0 0xfd 0xfb \<comment> \<open>F32X4ConvertI32X4U\<close>,
     WABT_OPCODE V128 V128 VoidTy VoidTy 0 0xfd 0xfc \<comment> \<open>I32X4TruncSatF64X2SZero\<close>,
     WABT_OPCODE V128 V128 VoidTy VoidTy 0 0xfd 0xfd \<comment> \<open>I32X4TruncSatF64X2UZero\<close>,
     WABT_OPCODE V128 V128 VoidTy VoidTy 0 0xfd 0xfe \<comment> \<open>F64X2ConvertLowI32X4S\<close>,
     WABT_OPCODE V128 V128 VoidTy VoidTy 0 0xfd 0xff \<comment> \<open>F64X2ConvertLowI32X4U\<close>,
     WABT_OPCODE V128 V128 V128 VoidTy 0 0xfd 0x100 \<comment> \<open>I8X16RelaxedSwizzle\<close>,
     WABT_OPCODE V128 V128 VoidTy VoidTy 0 0xfd 0x101 \<comment> \<open>I32X4RelaxedTruncF32X4S\<close>,
     WABT_OPCODE V128 V128 VoidTy VoidTy 0 0xfd 0x102 \<comment> \<open>I32X4RelaxedTruncF32X4U\<close>,
     WABT_OPCODE V128 V128 VoidTy VoidTy 0 0xfd 0x103 \<comment> \<open>I32X4RelaxedTruncF64X2SZero\<close>,
     WABT_OPCODE V128 V128 VoidTy VoidTy 0 0xfd 0x104 \<comment> \<open>I32X4RelaxedTruncF64X2UZero\<close>,
     WABT_OPCODE V128 V128 V128 V128 0 0xfd 0x105 \<comment> \<open>F32X4RelaxedMadd\<close>,
     WABT_OPCODE V128 V128 V128 V128 0 0xfd 0x106 \<comment> \<open>F32X4RelaxedNmadd\<close>,
     WABT_OPCODE V128 V128 V128 V128 0 0xfd 0x107 \<comment> \<open>F64X2RelaxedMadd\<close>,
     WABT_OPCODE V128 V128 V128 V128 0 0xfd 0x108 \<comment> \<open>F64X2RelaxedNmadd\<close>,
     WABT_OPCODE V128 V128 V128 V128 0 0xfd 0x109 \<comment> \<open>I8X16RelaxedLaneSelect\<close>,
     WABT_OPCODE V128 V128 V128 V128 0 0xfd 0x10a \<comment> \<open>I16X8RelaxedLaneSelect\<close>,
     WABT_OPCODE V128 V128 V128 V128 0 0xfd 0x10b \<comment> \<open>I32X4RelaxedLaneSelect\<close>,
     WABT_OPCODE V128 V128 V128 V128 0 0xfd 0x10c \<comment> \<open>I64X2RelaxedLaneSelect\<close>,
     WABT_OPCODE V128 V128 V128 VoidTy 0 0xfd 0x10d \<comment> \<open>F32X4RelaxedMin\<close>,
     WABT_OPCODE V128 V128 V128 VoidTy 0 0xfd 0x10e \<comment> \<open>F32X4RelaxedMax\<close>,
     WABT_OPCODE V128 V128 V128 VoidTy 0 0xfd 0x10f \<comment> \<open>F64X2RelaxedMin\<close>,
     WABT_OPCODE V128 V128 V128 VoidTy 0 0xfd 0x110 \<comment> \<open>F64X2RelaxedMax\<close>,
     WABT_OPCODE V128 V128 V128 VoidTy 0 0xfd 0x111 \<comment> \<open>I16X8RelaxedQ15mulrS\<close>,
     WABT_OPCODE V128 V128 V128 VoidTy 0 0xfd 0x112 \<comment> \<open>I16X8DotI8X16I7X16S\<close>,
     WABT_OPCODE V128 V128 V128 V128 0 0xfd 0x113 \<comment> \<open>I32X4DotI8X16I7X16AddS\<close>,
     WABT_OPCODE I32 I32 I32 VoidTy 4 0xfe 0x00 \<comment> \<open>MemoryAtomicNotify\<close>,
     WABT_OPCODE I32 I32 I32 I64 4 0xfe 0x01 \<comment> \<open>MemoryAtomicWait32\<close>,
     WABT_OPCODE I32 I32 I64 I64 8 0xfe 0x02 \<comment> \<open>MemoryAtomicWait64\<close>,
     WABT_OPCODE VoidTy VoidTy VoidTy VoidTy 0 0xfe 0x03 \<comment> \<open>AtomicFence\<close>,
     WABT_OPCODE I32 I32 VoidTy VoidTy 4 0xfe 0x10 \<comment> \<open>I32AtomicLoad\<close>,
     WABT_OPCODE I64 I32 VoidTy VoidTy 8 0xfe 0x11 \<comment> \<open>I64AtomicLoad\<close>,
     WABT_OPCODE I32 I32 VoidTy VoidTy 1 0xfe 0x12 \<comment> \<open>I32AtomicLoad8U\<close>,
     WABT_OPCODE I32 I32 VoidTy VoidTy 2 0xfe 0x13 \<comment> \<open>I32AtomicLoad16U\<close>,
     WABT_OPCODE I64 I32 VoidTy VoidTy 1 0xfe 0x14 \<comment> \<open>I64AtomicLoad8U\<close>,
     WABT_OPCODE I64 I32 VoidTy VoidTy 2 0xfe 0x15 \<comment> \<open>I64AtomicLoad16U\<close>,
     WABT_OPCODE I64 I32 VoidTy VoidTy 4 0xfe 0x16 \<comment> \<open>I64AtomicLoad32U\<close>,
     WABT_OPCODE VoidTy I32 I32 VoidTy 4 0xfe 0x17 \<comment> \<open>I32AtomicStore\<close>,
     WABT_OPCODE VoidTy I32 I64 VoidTy 8 0xfe 0x18 \<comment> \<open>I64AtomicStore\<close>,
     WABT_OPCODE VoidTy I32 I32 VoidTy 1 0xfe 0x19 \<comment> \<open>I32AtomicStore8\<close>,
     WABT_OPCODE VoidTy I32 I32 VoidTy 2 0xfe 0x1a \<comment> \<open>I32AtomicStore16\<close>,
     WABT_OPCODE VoidTy I32 I64 VoidTy 1 0xfe 0x1b \<comment> \<open>I64AtomicStore8\<close>,
     WABT_OPCODE VoidTy I32 I64 VoidTy 2 0xfe 0x1c \<comment> \<open>I64AtomicStore16\<close>,
     WABT_OPCODE VoidTy I32 I64 VoidTy 4 0xfe 0x1d \<comment> \<open>I64AtomicStore32\<close>,
     WABT_OPCODE I32 I32 I32 VoidTy 4 0xfe 0x1e \<comment> \<open>I32AtomicRmwAdd\<close>,
     WABT_OPCODE I64 I32 I64 VoidTy 8 0xfe 0x1f \<comment> \<open>I64AtomicRmwAdd\<close>,
     WABT_OPCODE I32 I32 I32 VoidTy 1 0xfe 0x20 \<comment> \<open>I32AtomicRmw8AddU\<close>,
     WABT_OPCODE I32 I32 I32 VoidTy 2 0xfe 0x21 \<comment> \<open>I32AtomicRmw16AddU\<close>,
     WABT_OPCODE I64 I32 I64 VoidTy 1 0xfe 0x22 \<comment> \<open>I64AtomicRmw8AddU\<close>,
     WABT_OPCODE I64 I32 I64 VoidTy 2 0xfe 0x23 \<comment> \<open>I64AtomicRmw16AddU\<close>,
     WABT_OPCODE I64 I32 I64 VoidTy 4 0xfe 0x24 \<comment> \<open>I64AtomicRmw32AddU\<close>,
     WABT_OPCODE I32 I32 I32 VoidTy 4 0xfe 0x25 \<comment> \<open>I32AtomicRmwSub\<close>,
     WABT_OPCODE I64 I32 I64 VoidTy 8 0xfe 0x26 \<comment> \<open>I64AtomicRmwSub\<close>,
     WABT_OPCODE I32 I32 I32 VoidTy 1 0xfe 0x27 \<comment> \<open>I32AtomicRmw8SubU\<close>,
     WABT_OPCODE I32 I32 I32 VoidTy 2 0xfe 0x28 \<comment> \<open>I32AtomicRmw16SubU\<close>,
     WABT_OPCODE I64 I32 I64 VoidTy 1 0xfe 0x29 \<comment> \<open>I64AtomicRmw8SubU\<close>,
     WABT_OPCODE I64 I32 I64 VoidTy 2 0xfe 0x2a \<comment> \<open>I64AtomicRmw16SubU\<close>,
     WABT_OPCODE I64 I32 I64 VoidTy 4 0xfe 0x2b \<comment> \<open>I64AtomicRmw32SubU\<close>,
     WABT_OPCODE I32 I32 I32 VoidTy 4 0xfe 0x2c \<comment> \<open>I32AtomicRmwAnd\<close>,
     WABT_OPCODE I64 I32 I64 VoidTy 8 0xfe 0x2d \<comment> \<open>I64AtomicRmwAnd\<close>,
     WABT_OPCODE I32 I32 I32 VoidTy 1 0xfe 0x2e \<comment> \<open>I32AtomicRmw8AndU\<close>,
     WABT_OPCODE I32 I32 I32 VoidTy 2 0xfe 0x2f \<comment> \<open>I32AtomicRmw16AndU\<close>,
     WABT_OPCODE I64 I32 I64 VoidTy 1 0xfe 0x30 \<comment> \<open>I64AtomicRmw8AndU\<close>,
     WABT_OPCODE I64 I32 I64 VoidTy 2 0xfe 0x31 \<comment> \<open>I64AtomicRmw16AndU\<close>,
     WABT_OPCODE I64 I32 I64 VoidTy 4 0xfe 0x32 \<comment> \<open>I64AtomicRmw32AndU\<close>,
     WABT_OPCODE I32 I32 I32 VoidTy 4 0xfe 0x33 \<comment> \<open>I32AtomicRmwOr\<close>,
     WABT_OPCODE I64 I32 I64 VoidTy 8 0xfe 0x34 \<comment> \<open>I64AtomicRmwOr\<close>,
     WABT_OPCODE I32 I32 I32 VoidTy 1 0xfe 0x35 \<comment> \<open>I32AtomicRmw8OrU\<close>,
     WABT_OPCODE I32 I32 I32 VoidTy 2 0xfe 0x36 \<comment> \<open>I32AtomicRmw16OrU\<close>,
     WABT_OPCODE I64 I32 I64 VoidTy 1 0xfe 0x37 \<comment> \<open>I64AtomicRmw8OrU\<close>,
     WABT_OPCODE I64 I32 I64 VoidTy 2 0xfe 0x38 \<comment> \<open>I64AtomicRmw16OrU\<close>,
     WABT_OPCODE I64 I32 I64 VoidTy 4 0xfe 0x39 \<comment> \<open>I64AtomicRmw32OrU\<close>,
     WABT_OPCODE I32 I32 I32 VoidTy 4 0xfe 0x3a \<comment> \<open>I32AtomicRmwXor\<close>,
     WABT_OPCODE I64 I32 I64 VoidTy 8 0xfe 0x3b \<comment> \<open>I64AtomicRmwXor\<close>,
     WABT_OPCODE I32 I32 I32 VoidTy 1 0xfe 0x3c \<comment> \<open>I32AtomicRmw8XorU\<close>,
     WABT_OPCODE I32 I32 I32 VoidTy 2 0xfe 0x3d \<comment> \<open>I32AtomicRmw16XorU\<close>,
     WABT_OPCODE I64 I32 I64 VoidTy 1 0xfe 0x3e \<comment> \<open>I64AtomicRmw8XorU\<close>,
     WABT_OPCODE I64 I32 I64 VoidTy 2 0xfe 0x3f \<comment> \<open>I64AtomicRmw16XorU\<close>,
     WABT_OPCODE I64 I32 I64 VoidTy 4 0xfe 0x40 \<comment> \<open>I64AtomicRmw32XorU\<close>,
     WABT_OPCODE I32 I32 I32 VoidTy 4 0xfe 0x41 \<comment> \<open>I32AtomicRmwXchg\<close>,
     WABT_OPCODE I64 I32 I64 VoidTy 8 0xfe 0x42 \<comment> \<open>I64AtomicRmwXchg\<close>,
     WABT_OPCODE I32 I32 I32 VoidTy 1 0xfe 0x43 \<comment> \<open>I32AtomicRmw8XchgU\<close>,
     WABT_OPCODE I32 I32 I32 VoidTy 2 0xfe 0x44 \<comment> \<open>I32AtomicRmw16XchgU\<close>,
     WABT_OPCODE I64 I32 I64 VoidTy 1 0xfe 0x45 \<comment> \<open>I64AtomicRmw8XchgU\<close>,
     WABT_OPCODE I64 I32 I64 VoidTy 2 0xfe 0x46 \<comment> \<open>I64AtomicRmw16XchgU\<close>,
     WABT_OPCODE I64 I32 I64 VoidTy 4 0xfe 0x47 \<comment> \<open>I64AtomicRmw32XchgU\<close>,
     WABT_OPCODE I32 I32 I32 I32 4 0xfe 0x48 \<comment> \<open>I32AtomicRmwCmpxchg\<close>,
     WABT_OPCODE I64 I32 I64 I64 8 0xfe 0x49 \<comment> \<open>I64AtomicRmwCmpxchg\<close>,
     WABT_OPCODE I32 I32 I32 I32 1 0xfe 0x4a \<comment> \<open>I32AtomicRmw8CmpxchgU\<close>,
     WABT_OPCODE I32 I32 I32 I32 2 0xfe 0x4b \<comment> \<open>I32AtomicRmw16CmpxchgU\<close>,
     WABT_OPCODE I64 I32 I64 I64 1 0xfe 0x4c \<comment> \<open>I64AtomicRmw8CmpxchgU\<close>,
     WABT_OPCODE I64 I32 I64 I64 2 0xfe 0x4d \<comment> \<open>I64AtomicRmw16CmpxchgU\<close>,
     WABT_OPCODE I64 I32 I64 I64 4 0xfe 0x4e \<comment> \<open>I64AtomicRmw32CmpxchgU\<close>]"

section \<open>Reading the table\<close>

text \<open>
  An invalid opcode is stored as the negated prefix code, and decoded back for display; the code
  is masked with \<open>0xff\<close>, as in the source.
\<close>

definition EncodeInvalidOpcode :: "u32 \<Rightarrow> opcode" where
  "EncodeInvalidOpcode pc = NOT pc + 1"

definition DecodeInvalidOpcode :: "opcode \<Rightarrow> u8 \<times> u32" where
  "DecodeInvalidOpcode e =
     (let pc = NOT e + 1 in (ucast (drop_bit MAX_OPCODE_BITS pc), pc AND 0xff))"

definition GetInfo :: "opcode \<Rightarrow> opcode_info" where
  "GetInfo e =
     (if e < Op_Invalid then opcode_rows ! unat e
      else let (pre, c) = DecodeInvalidOpcode e
           in WABT_OPCODE VoidTy VoidTy VoidTy VoidTy 0 pre c)"

definition GetResultType :: "opcode \<Rightarrow> wtype" where
  "GetResultType e = result_type (GetInfo e)"

definition GetParamType1 :: "opcode \<Rightarrow> wtype" where
  "GetParamType1 e = param_type1 (GetInfo e)"

definition GetParamType2 :: "opcode \<Rightarrow> wtype" where
  "GetParamType2 e = param_type2 (GetInfo e)"

definition GetParamType3 :: "opcode \<Rightarrow> wtype" where
  "GetParamType3 e = param_type3 (GetInfo e)"

definition GetMemorySize :: "opcode \<Rightarrow> address" where
  "GetMemorySize e = memory_size (GetInfo e)"

definition HasPrefix :: "opcode \<Rightarrow> bool" where
  "HasPrefix e \<longleftrightarrow> prefix (GetInfo e) \<noteq> 0"

definition IsPrefixByte :: "u8 \<Rightarrow> bool" where
  "IsPrefixByte b \<longleftrightarrow> b = 0xfc \<or> b = 0xfe \<or> b = 0xfd"

definition IsInvalid :: "opcode \<Rightarrow> bool" where
  "IsInvalid e \<longleftrightarrow> Op_Invalid \<le> e"

definition WABT_USE_NATURAL_ALIGNMENT :: address where
  "WABT_USE_NATURAL_ALIGNMENT = 0xFFFFFFFFFFFFFFFF"

definition IsNaturallyAligned :: "opcode \<Rightarrow> address \<Rightarrow> bool" where
  "IsNaturallyAligned e alignment \<longleftrightarrow>
     alignment = WABT_USE_NATURAL_ALIGNMENT \<or> alignment = GetMemorySize e"

definition GetAlignment :: "opcode \<Rightarrow> address \<Rightarrow> address" where
  "GetAlignment e alignment =
     (if alignment = WABT_USE_NATURAL_ALIGNMENT then GetMemorySize e else alignment)"

text \<open>
  The code table: entry \<open>(prefix << MAX_OPCODE_BITS) + code\<close> of each row holds its enumerator,
  every other entry is 0.
\<close>

definition code_table_index :: "opcode_info \<Rightarrow> u32" where
  "code_table_index r = push_bit MAX_OPCODE_BITS (ucast (prefix r)) + code r"

definition WabtOpcodeCodeTable :: "u32 \<Rightarrow> u32" where
  "WabtOpcodeCodeTable i =
     (case map_of (zip (map code_table_index opcode_rows) [0..<length opcode_rows]) i of
        None \<Rightarrow> 0
      | Some e \<Rightarrow> of_nat e)"

definition WABT_OPCODE_CODE_TABLE_SIZE :: u32 where
  "WABT_OPCODE_CODE_TABLE_SIZE = 131072"

definition FromCode :: "u8 \<Rightarrow> u32 \<Rightarrow> opcode" where
  "FromCode pre c =
     (let pc = PrefixCode pre c; value = WabtOpcodeCodeTable pc
      in if pc < WABT_OPCODE_CODE_TABLE_SIZE \<and> (value \<noteq> 0 \<or> c = 0) then value
         else EncodeInvalidOpcode pc)"

definition GetBytes :: "opcode \<Rightarrow> u8 list" where
  "GetBytes e =
     (if HasPrefix e then prefix (GetInfo e) # fst (WriteU32Leb128Raw 5 (code (GetInfo e)))
      else [ucast (code (GetInfo e))])"

section \<open>Features\<close>

text \<open>The groups of \<open>case\<close> labels of \<open>IsEnabled\<close>, then the function.\<close>

definition exceptions_opcodes :: "opcode list" where
  "exceptions_opcodes =
     [
      Op_Try, Op_Catch, Op_Delegate, Op_Throw, Op_Rethrow]"

definition tail_call_opcodes :: "opcode list" where
  "tail_call_opcodes =
     [
      Op_ReturnCallIndirect, Op_ReturnCall]"

definition sat_float_to_int_opcodes :: "opcode list" where
  "sat_float_to_int_opcodes =
     [
      Op_I32TruncSatF32S, Op_I32TruncSatF32U, Op_I32TruncSatF64S, Op_I32TruncSatF64U,
      Op_I64TruncSatF32S, Op_I64TruncSatF32U, Op_I64TruncSatF64S, Op_I64TruncSatF64U]"

definition sign_extension_opcodes :: "opcode list" where
  "sign_extension_opcodes =
     [
      Op_I32Extend8S, Op_I32Extend16S, Op_I64Extend8S, Op_I64Extend16S, Op_I64Extend32S]"

definition threads_opcodes :: "opcode list" where
  "threads_opcodes =
     [
      Op_MemoryAtomicNotify, Op_MemoryAtomicWait32, Op_MemoryAtomicWait64, Op_AtomicFence,
      Op_I32AtomicLoad, Op_I64AtomicLoad, Op_I32AtomicLoad8U, Op_I32AtomicLoad16U,
      Op_I64AtomicLoad8U, Op_I64AtomicLoad16U, Op_I64AtomicLoad32U, Op_I32AtomicStore,
      Op_I64AtomicStore, Op_I32AtomicStore8, Op_I32AtomicStore16, Op_I64AtomicStore8,
      Op_I64AtomicStore16, Op_I64AtomicStore32, Op_I32AtomicRmwAdd, Op_I64AtomicRmwAdd,
      Op_I32AtomicRmw8AddU, Op_I32AtomicRmw16AddU, Op_I64AtomicRmw8AddU, Op_I64AtomicRmw16AddU,
      Op_I64AtomicRmw32AddU, Op_I32AtomicRmwSub, Op_I64AtomicRmwSub, Op_I32AtomicRmw8SubU,
      Op_I32AtomicRmw16SubU, Op_I64AtomicRmw8SubU, Op_I64AtomicRmw16SubU, Op_I64AtomicRmw32SubU,
      Op_I32AtomicRmwAnd, Op_I64AtomicRmwAnd, Op_I32AtomicRmw8AndU, Op_I32AtomicRmw16AndU,
      Op_I64AtomicRmw8AndU, Op_I64AtomicRmw16AndU, Op_I64AtomicRmw32AndU, Op_I32AtomicRmwOr,
      Op_I64AtomicRmwOr, Op_I32AtomicRmw8OrU, Op_I32AtomicRmw16OrU, Op_I64AtomicRmw8OrU,
      Op_I64AtomicRmw16OrU, Op_I64AtomicRmw32OrU, Op_I32AtomicRmwXor, Op_I64AtomicRmwXor,
      Op_I32AtomicRmw8XorU, Op_I32AtomicRmw16XorU, Op_I64AtomicRmw8XorU, Op_I64AtomicRmw16XorU,
      Op_I64AtomicRmw32XorU, Op_I32AtomicRmwXchg, Op_I64AtomicRmwXchg, Op_I32AtomicRmw8XchgU,
      Op_I32AtomicRmw16XchgU, Op_I64AtomicRmw8XchgU, Op_I64AtomicRmw16XchgU,
      Op_I64AtomicRmw32XchgU, Op_I32AtomicRmwCmpxchg, Op_I64AtomicRmwCmpxchg,
      Op_I32AtomicRmw8CmpxchgU, Op_I32AtomicRmw16CmpxchgU, Op_I64AtomicRmw8CmpxchgU,
      Op_I64AtomicRmw16CmpxchgU, Op_I64AtomicRmw32CmpxchgU]"

definition simd_opcodes :: "opcode list" where
  "simd_opcodes =
     [
      Op_V128Const, Op_V128Load, Op_V128Store, Op_I8X16Splat, Op_I16X8Splat, Op_I32X4Splat,
      Op_I64X2Splat, Op_F32X4Splat, Op_F64X2Splat, Op_I8X16ExtractLaneS, Op_I8X16ExtractLaneU,
      Op_I16X8ExtractLaneS, Op_I16X8ExtractLaneU, Op_I32X4ExtractLane, Op_I64X2ExtractLane,
      Op_F32X4ExtractLane, Op_F64X2ExtractLane, Op_I8X16ReplaceLane, Op_I16X8ReplaceLane,
      Op_I32X4ReplaceLane, Op_I64X2ReplaceLane, Op_F32X4ReplaceLane, Op_F64X2ReplaceLane,
      Op_I8X16Add, Op_I16X8Add, Op_I32X4Add, Op_I64X2Add, Op_I8X16Sub, Op_I16X8Sub, Op_I32X4Sub,
      Op_I64X2Sub, Op_I16X8Mul, Op_I32X4Mul, Op_I8X16Neg, Op_I16X8Neg, Op_I32X4Neg, Op_I64X2Neg,
      Op_I8X16AddSatS, Op_I8X16AddSatU, Op_I16X8AddSatS, Op_I16X8AddSatU, Op_I8X16SubSatS,
      Op_I8X16SubSatU, Op_I16X8SubSatS, Op_I16X8SubSatU, Op_I8X16Shl, Op_I16X8Shl, Op_I32X4Shl,
      Op_I64X2Shl, Op_I8X16ShrS, Op_I8X16ShrU, Op_I16X8ShrS, Op_I16X8ShrU, Op_I32X4ShrS,
      Op_I32X4ShrU, Op_I64X2ShrS, Op_I64X2ShrU, Op_V128And, Op_V128Or, Op_V128Xor, Op_V128Not,
      Op_V128BitSelect, Op_V128AnyTrue, Op_I8X16Bitmask, Op_I16X8Bitmask, Op_I32X4Bitmask,
      Op_I64X2Bitmask, Op_I8X16AllTrue, Op_I16X8AllTrue, Op_I32X4AllTrue, Op_I64X2AllTrue,
      Op_I8X16Eq, Op_I16X8Eq, Op_I32X4Eq, Op_F32X4Eq, Op_F64X2Eq, Op_I8X16Ne, Op_I16X8Ne,
      Op_I32X4Ne, Op_F32X4Ne, Op_F64X2Ne, Op_I8X16LtS, Op_I8X16LtU, Op_I16X8LtS, Op_I16X8LtU,
      Op_I32X4LtS, Op_I32X4LtU, Op_F32X4Lt, Op_F64X2Lt, Op_I8X16LeS, Op_I8X16LeU, Op_I16X8LeS,
      Op_I16X8LeU, Op_I32X4LeS, Op_I32X4LeU, Op_F32X4Le, Op_F64X2Le, Op_I8X16GtS, Op_I8X16GtU,
      Op_I16X8GtS, Op_I16X8GtU, Op_I32X4GtS, Op_I32X4GtU, Op_F32X4Gt, Op_F64X2Gt, Op_I8X16GeS,
      Op_I8X16GeU, Op_I16X8GeS, Op_I16X8GeU, Op_I32X4GeS, Op_I32X4GeU, Op_F32X4Ge, Op_F64X2Ge,
      Op_F32X4Neg, Op_F64X2Neg, Op_F32X4Abs, Op_F64X2Abs, Op_F32X4Min, Op_F32X4PMin, Op_F64X2Min,
      Op_F64X2PMin, Op_F32X4Max, Op_F32X4PMax, Op_F64X2Max, Op_F64X2PMax, Op_F32X4Add,
      Op_F64X2Add, Op_F32X4Sub, Op_F64X2Sub, Op_F32X4Div, Op_F64X2Div, Op_F32X4Mul, Op_F64X2Mul,
      Op_F32X4Sqrt, Op_F64X2Sqrt, Op_F32X4ConvertI32X4S, Op_F32X4ConvertI32X4U,
      Op_I32X4TruncSatF32X4S, Op_I32X4TruncSatF32X4U, Op_I8X16Swizzle, Op_I8X16Shuffle,
      Op_V128Load8Splat, Op_V128Load16Splat, Op_V128Load32Splat, Op_V128Load64Splat,
      Op_V128Load8Lane, Op_V128Load16Lane, Op_V128Load32Lane, Op_V128Load64Lane,
      Op_V128Store8Lane, Op_V128Store16Lane, Op_V128Store32Lane, Op_V128Store64Lane, Op_I8X16Abs,
      Op_I16X8Abs, Op_I32X4Abs]"

definition relaxed_simd_opcodes :: "opcode list" where
  "relaxed_simd_opcodes =
     [
      Op_I8X16RelaxedSwizzle, Op_I32X4RelaxedTruncF32X4S, Op_I32X4RelaxedTruncF32X4U,
      Op_I32X4RelaxedTruncF64X2SZero, Op_I32X4RelaxedTruncF64X2UZero, Op_F32X4RelaxedMadd,
      Op_F32X4RelaxedNmadd, Op_F64X2RelaxedMadd, Op_F64X2RelaxedNmadd, Op_I8X16RelaxedLaneSelect,
      Op_I16X8RelaxedLaneSelect, Op_I32X4RelaxedLaneSelect, Op_I64X2RelaxedLaneSelect,
      Op_F32X4RelaxedMin, Op_F32X4RelaxedMax, Op_F64X2RelaxedMin, Op_F64X2RelaxedMax,
      Op_I16X8RelaxedQ15mulrS, Op_I16X8DotI8X16I7X16S, Op_I32X4DotI8X16I7X16AddS]"

definition bulk_memory_opcodes :: "opcode list" where
  "bulk_memory_opcodes =
     [
      Op_MemoryInit, Op_DataDrop, Op_MemoryCopy, Op_MemoryFill, Op_TableInit, Op_ElemDrop,
      Op_TableCopy]"

definition reference_types_opcodes :: "opcode list" where
  "reference_types_opcodes =
     [
      Op_TableGet, Op_TableSet, Op_TableGrow, Op_TableSize, Op_RefNull, Op_RefIsNull]"

definition function_references_opcodes :: "opcode list" where
  "function_references_opcodes =
     [
      Op_CallRef]"

definition interp_opcodes :: "opcode list" where
  "interp_opcodes =
     [
      Op_InterpAlloca, Op_InterpBrUnless, Op_InterpCallImport, Op_InterpData, Op_InterpDropKeep]"

definition IsEnabled :: "opcode \<Rightarrow> features \<Rightarrow> bool" where
  "IsEnabled e f =
     (if e \<in> set exceptions_opcodes then exceptions_enabled f
      else if e \<in> set tail_call_opcodes then tail_call_enabled f
      else if e \<in> set sat_float_to_int_opcodes then sat_float_to_int_enabled f
      else if e \<in> set sign_extension_opcodes then sign_extension_enabled f
      else if e \<in> set threads_opcodes then threads_enabled f
      else if e \<in> set simd_opcodes then simd_enabled f
      else if e \<in> set relaxed_simd_opcodes then relaxed_simd_enabled f
      else if e \<in> set bulk_memory_opcodes then bulk_memory_enabled f
      else if e \<in> set reference_types_opcodes then reference_types_enabled f
      else if e \<in> set function_references_opcodes then function_references_enabled f
      else if e \<in> set interp_opcodes then False
      else True)"

text \<open>\<open>GetSimdLaneCount\<close>: \<open>None\<close> stands for \<open>WABT_UNREACHABLE\<close>.\<close>

definition GetSimdLaneCount :: "opcode \<Rightarrow> u32 option" where
  "GetSimdLaneCount e =
     (if e \<in> {Op_I8X16ExtractLaneS, Op_I8X16ExtractLaneU, Op_I8X16ReplaceLane,
              Op_V128Load8Lane, Op_V128Store8Lane} then Some 16
      else if e \<in> {Op_I16X8ExtractLaneS, Op_I16X8ExtractLaneU, Op_I16X8ReplaceLane,
              Op_V128Load16Lane, Op_V128Store16Lane} then Some 8
      else if e \<in> {Op_F32X4ExtractLane, Op_F32X4ReplaceLane, Op_I32X4ExtractLane,
              Op_I32X4ReplaceLane, Op_V128Load32Lane, Op_V128Store32Lane} then Some 4
      else if e \<in> {Op_F64X2ExtractLane, Op_F64X2ReplaceLane, Op_I64X2ExtractLane,
              Op_I64X2ReplaceLane, Op_V128Load64Lane, Op_V128Store64Lane} then Some 2
      else None)"

end
