(* ===== verification/Opcode_Table.thy ===== *)
theory Opcode_Table
  imports Opcodes
begin

text \<open>
  Facts about the table of opcode.def: every row has a short code and one of the four prefixes, no
  two rows share prefix and code, and so the code table that \<open>Opcode::FromCode\<close> searches
  (src/opcode-code-table.c) inverts the opcode table.
\<close>

section \<open>Facts about the table\<close>

lemma length_opcode_rows [simp]: "length opcode_rows = 540"
  by (simp add: opcode_rows_def)

definition row_ok :: "opcode_info \<Rightarrow> bool" where
  "row_ok r \<longleftrightarrow> code r < 512 \<and> memory_size r \<in> {0, 1, 2, 4, 8, 16} \<and>
     (prefix r = 0 \<and> code r < 0xfc \<or> prefix r \<in> {0xfc, 0xfd, 0xfe})"

lemma opcode_rows_ok: "\<forall>r \<in> set opcode_rows. row_ok r"
proof -
  have "list_all row_ok opcode_rows"
    by (simp add: opcode_rows_def row_ok_def WABT_OPCODE_def)
  then show ?thesis by (simp add: list_all_iff)
qed

text \<open>
  No two rows share prefix and code. The rows are nearly sorted by prefix and code (the comment in
  opcode.def asks for a sorted list, but three runs are out of order), so the check walks the list
  once and searches the keys it has passed only for a row that is below the greatest one so far.
\<close>

definition row_key :: "opcode_info \<Rightarrow> nat" where
  "row_key r = 512 * unat (prefix r) + unat (code r)"

primrec fresh_keys :: "nat \<Rightarrow> nat list \<Rightarrow> nat list \<Rightarrow> bool" where
  "fresh_keys m seen [] \<longleftrightarrow> True"
| "fresh_keys m seen (x # xs) \<longleftrightarrow>
     (if m < x then fresh_keys x (x # seen) xs
      else if x \<in> set seen then False else fresh_keys m (x # seen) xs)"

lemma fresh_keys_distinct:
  "fresh_keys m seen xs \<Longrightarrow> \<forall>s \<in> set seen. s \<le> m \<Longrightarrow> distinct xs \<and> set xs \<inter> set seen = {}"
proof (induction xs arbitrary: m seen)
  case (Cons x xs)
  show ?case
  proof (cases "m < x")
    case True
    with Cons.prems have "x \<notin> set seen" by auto
    with True Cons.prems Cons.IH [of x "x # seen"] show ?thesis by force
  next
    case False
    with Cons.prems Cons.IH [of m "x # seen"] show ?thesis by (auto split: if_splits)
  qed
qed simp

lemma opcode_rows_distinct: "distinct (map row_key opcode_rows)"
proof -
  have "fresh_keys 0 [] (0 # tl (map row_key opcode_rows))"
    by (simp add: opcode_rows_def row_key_def WABT_OPCODE_def)
  moreover have "map row_key opcode_rows = 0 # tl (map row_key opcode_rows)"
    by (simp add: opcode_rows_def row_key_def WABT_OPCODE_def)
  ultimately show ?thesis using fresh_keys_distinct [of 0 "[]"] by simp
qed

lemma bit_less_512: "(c :: u32) < 512 \<Longrightarrow> bit c n \<Longrightarrow> n < 9"
proof -
  assume "c < 512"
  then have "unat c < 2 ^ 9" by (simp add: word_less_nat_alt)
  then have "take_bit 9 c = c"
    by (metis take_bit_nat_eq_self unsigned_take_bit_eq word_unat_eq_iff)
  moreover assume "bit c n"
  ultimately show ?thesis by (metis bit_take_bit_iff)
qed

lemma code_table_index_eq:
  "code r < 512 \<Longrightarrow> PrefixCode (prefix r) (code r) = code_table_index r"
proof -
  assume c: "code r < 512"
  then have "push_bit 9 (ucast (prefix r)) OR code r = push_bit 9 (ucast (prefix r)) + code r"
    by (intro disjunctive_add [symmetric]) (auto simp: bit_push_bit_iff dest: bit_less_512)
  moreover have "\<not> 512 \<le> code r" using c by simp
  ultimately show ?thesis
    by (simp add: PrefixCode_def code_table_index_def MAX_OPCODE_BITS_def)
qed

lemma code_table_index_bits:
  "code r < 512 \<Longrightarrow> bit (code_table_index r) n \<longleftrightarrow>
     (if n < 9 then bit (code r) n else bit (prefix r) (n - 9))"
  by (subst code_table_index_eq [symmetric])
    (auto simp: PrefixCode_def MAX_OPCODE_BITS_def linorder_not_le bit_or_iff bit_push_bit_iff
      bit_ucast_iff dest: bit_less_512 bit_imp_le_length)

lemma code_table_index_inj:
  assumes "code r < 512" and "code r' < 512" and "code_table_index r = code_table_index r'"
  shows "prefix r = prefix r' \<and> code r = code r'"
proof
  have eq: "(if n < 9 then bit (code r) n else bit (prefix r) (n - 9)) \<longleftrightarrow>
      (if n < 9 then bit (code r') n else bit (prefix r') (n - 9))" for n
    using assms by (metis code_table_index_bits)
  show "prefix r = prefix r'"
    by (rule bit_word_eqI) (use eq [of "_ + 9"] in simp)
  show "code r = code r'"
  proof (rule bit_word_eqI)
    fix n
    show "bit (code r) n \<longleftrightarrow> bit (code r') n"
      using eq [of n] assms(1,2) by (auto dest: bit_less_512 split: if_splits)
  qed
qed

lemma code_table_distinct: "distinct (map code_table_index opcode_rows)"
proof -
  have "inj_on code_table_index (set opcode_rows)"
  proof (rule inj_onI)
    fix r r' assume "r \<in> set opcode_rows" "r' \<in> set opcode_rows"
      and eq: "code_table_index r = code_table_index r'"
    then have "prefix r = prefix r' \<and> code r = code r'"
      using opcode_rows_ok by (intro code_table_index_inj) (auto simp: row_ok_def)
    then have "row_key r = row_key r'" by (simp add: row_key_def)
    with \<open>r \<in> _\<close> \<open>r' \<in> _\<close> opcode_rows_distinct show "r = r'"
      by (auto simp: distinct_map inj_on_def)
  qed
  moreover have "distinct opcode_rows"
    using opcode_rows_distinct by (simp add: distinct_map)
  ultimately show ?thesis by (simp add: distinct_map)
qed

lemma GetInfo_valid: "e < Op_Invalid \<Longrightarrow> GetInfo e = opcode_rows ! unat e \<and> unat e < 540
    \<and> row_ok (GetInfo e)"
  using opcode_rows_ok by (auto simp: GetInfo_def word_less_nat_alt)

lemma code_table_index_bound:
  assumes "code r < 512"
  shows "code_table_index r < WABT_OPCODE_CODE_TABLE_SIZE"
proof -
  have "\<not> bit (code_table_index r) n" if "17 \<le> n" for n
    using that bit_imp_le_length [of "prefix r" "n - 9"] by (auto simp: code_table_index_bits [OF assms])
  then have "unat (code_table_index r) < 2 ^ 17" by (rule low_bits_bound)
  then show ?thesis by (simp add: WABT_OPCODE_CODE_TABLE_SIZE_def word_less_nat_alt)
qed

lemma only_Unreachable_is_0:
  "e < Op_Invalid \<Longrightarrow> e \<noteq> 0 \<or> code (GetInfo e) = 0"
  by (auto simp: GetInfo_def opcode_rows_def WABT_OPCODE_def)

lemma FromCode_row:
  assumes "e < Op_Invalid"
  shows "FromCode (prefix (GetInfo e)) (code (GetInfo e)) = e"
proof -
  let ?r = "GetInfo e"
  have r: "?r = opcode_rows ! unat e" "unat e < length opcode_rows" and c: "code ?r < 512"
    using GetInfo_valid [OF assms] unfolding row_ok_def length_opcode_rows by blast+
  have "map_of (zip (map code_table_index opcode_rows) [0..<length opcode_rows]) (code_table_index ?r)
      = Some (unat e)"
    using map_of_zip_nth [of "map code_table_index opcode_rows" "[0..<length opcode_rows]" "unat e"]
      code_table_distinct r by simp
  then have tbl: "WabtOpcodeCodeTable (PrefixCode (prefix ?r) (code ?r)) = e"
    using c by (simp add: WabtOpcodeCodeTable_def code_table_index_eq)
  moreover have "PrefixCode (prefix ?r) (code ?r) < WABT_OPCODE_CODE_TABLE_SIZE"
    using c code_table_index_bound by (simp add: code_table_index_eq)
  ultimately show ?thesis
    using only_Unreachable_is_0 [OF assms] by (auto simp: FromCode_def Let_def)
qed

text \<open>
  C20. The code table inverts the opcode table: every opcode is the one that \<open>Opcode::FromCode\<close>
  finds for its prefix byte and code, so no two opcodes share an encoding.
\<close>

theorem FromCode_GetInfo:
  "e < Op_Invalid \<Longrightarrow> FromCode (prefix (GetInfo e)) (code (GetInfo e)) = e"
  by (rule FromCode_row)

theorem FromCode_GetInfo_witness:
  "FromCode (prefix (GetInfo 200)) (code (GetInfo 200)) = 200"
  by (rule FromCode_GetInfo) simp

end
