(* ===== verification/Type_Checker.thy ===== *)
theory Type_Checker
  imports Opcodes
begin

text \<open>
  The type checker (include/wabt/type-checker.h, src/type-checker.cc): the operand type stack, the
  label stack and one operation per instruction. Every method is an action on the state; a
  \<open>Label*\<close> is the value of the label, and a write through it updates the top label, which is the
  only label the code writes to. \<open>WABT_UNREACHABLE\<close> is \<open>None\<close>. The message of an error is kept
  as a structured value. Sizes and depths inside the checker are natural numbers: vectors are taken
  to have fewer than \<open>2 ^ 32\<close> elements.
\<close>

section \<open>State\<close>

record label =
  label_type :: label_type
  param_types :: type_vector
  result_types :: type_vector
  type_stack_limit :: nat
  unreachable :: bool

definition Label :: "label_type \<Rightarrow> type_vector \<Rightarrow> type_vector \<Rightarrow> nat \<Rightarrow> label" where
  "Label lt params results limit =
     \<lparr>label_type = lt, param_types = params, result_types = results, type_stack_limit = limit,
      unreachable = False\<rparr>"

definition br_types :: "label \<Rightarrow> type_vector" where
  "br_types l = (if label_type l = LtLoop then param_types l else result_types l)"

text \<open>What a message says about: an instruction's name or a fixed text.\<close>

datatype tc_desc = DescText string | DescOpcode opcode

datatype tc_error =
    InvalidDepth nat u64
  | RethrowNotInTryCatch
  | InvalidRethrowDepth nat "nat list"
  | TypeMismatch bool tc_desc type_vector type_vector bool
  | BrTableInconsistent type_vector type_vector
  | CallRefMismatch type_vector
  | RefIsNullMismatch type_vector
  | ReturnSignatureMismatch type_vector type_vector
  | LaneIndexTooLarge u32 u64
  | ShuffleLaneTooLarge u8

text \<open>
  \<open>br_table_sig_\<close> points to the signature of the first target's label; the label stack does not
  change between \<open>BeginBrTable\<close> and \<open>EndBrTable\<close>, so the pointed-to signature is kept.
\<close>

record type_checker =
  type_stack :: type_vector
  label_stack :: "label list"
  br_table_sig :: "type_vector option"
  tc_features :: features
  tc_errors :: "tc_error list"

type_synonym 'a tc = "(type_checker, 'a) state"

definition TypeChecker :: "features \<Rightarrow> type_checker" where
  "TypeChecker f =
     \<lparr>type_stack = [], label_stack = [], br_table_sig = None, tc_features = f, tc_errors = []\<rparr>"

section \<open>Labels\<close>

definition PrintError :: "tc_error \<Rightarrow> unit tc" where
  "PrintError e = modify (\<lambda>s. s\<lparr>tc_errors := tc_errors s @ [e]\<rparr>)"

definition GetLabel :: "nat \<Rightarrow> label option tc" where
  "GetLabel depth = do {
     ls \<leftarrow> gets label_stack;
     if length ls \<le> depth then do {
       PrintError (InvalidDepth depth (of_nat (length ls) - 1));
       State_Monad.return None
     } else State_Monad.return (Some (at_depth ls depth))
   }"

definition catch_depths :: "label list \<Rightarrow> nat list" where
  "catch_depths ls = filter (\<lambda>idx. label_type (at_depth ls idx) = LtCatch) [0..<length ls]"

definition GetRethrowLabel :: "nat \<Rightarrow> label option tc" where
  "GetRethrowLabel depth = do {
     out \<leftarrow> GetLabel depth;
     case out of
       None \<Rightarrow> State_Monad.return None
     | Some label \<Rightarrow>
         if label_type label = LtCatch then State_Monad.return (Some label)
         else do {
           candidates \<leftarrow> gets (\<lambda>s. catch_depths (label_stack s));
           PrintError (if candidates = [] then RethrowNotInTryCatch
                       else InvalidRethrowDepth depth candidates);
           State_Monad.return None
         }
   }"

definition GetCatchCount :: "nat \<Rightarrow> index option tc" where
  "GetCatchCount depth = do {
     unused \<leftarrow> GetLabel depth;
     case unused of
       None \<Rightarrow> State_Monad.return None
     | Some label \<Rightarrow> do {
         ls \<leftarrow> gets label_stack;
         State_Monad.return (Some (of_nat (length
           (filter (\<lambda>idx. label_type (at_depth ls idx) = LtCatch) [0..<Suc depth]))))
       }
   }"

definition TopLabel :: "label option tc" where
  "TopLabel = GetLabel 0"

definition IsUnreachable :: "bool tc" where
  "IsUnreachable = do {
     label \<leftarrow> TopLabel;
     State_Monad.return (case label of None \<Rightarrow> True | Some l \<Rightarrow> unreachable l)
   }"

definition UpdateTop :: "(label \<Rightarrow> label) \<Rightarrow> unit tc" where
  "UpdateTop f = modify (\<lambda>s. s\<lparr>label_stack := butlast (label_stack s) @ [f (last (label_stack s))]\<rparr>)"

text \<open>\<open>resize\<close> fills a vector that it lengthens with \<open>Type()\<close>, whose members are zero.\<close>

definition ResetTypeStackToLabel :: "label \<Rightarrow> unit tc" where
  "ResetTypeStackToLabel l =
     modify (\<lambda>s. s\<lparr>type_stack := resize (WType 0 0) (type_stack_limit l) (type_stack s)\<rparr>)"

definition SetUnreachable :: "result tc" where
  "SetUnreachable = CHECK_SOME TopLabel (\<lambda>label. do {
     UpdateTop (\<lambda>l. l\<lparr>unreachable := True\<rparr>);
     ResetTypeStackToLabel label;
     State_Monad.return Ok
   })"

definition PushLabel :: "label_type \<Rightarrow> type_vector \<Rightarrow> type_vector \<Rightarrow> unit tc" where
  "PushLabel lt params results =
     modify (\<lambda>s. s\<lparr>label_stack :=
       label_stack s @ [Label lt params results (length (type_stack s))]\<rparr>)"

definition PopLabel :: "result tc" where
  "PopLabel = do {
     modify (\<lambda>s. s\<lparr>label_stack := butlast (label_stack s)\<rparr>);
     State_Monad.return Ok
   }"

definition CheckLabelType :: "label \<Rightarrow> label_type \<Rightarrow> result" where
  "CheckLabelType l lt = ok_if (label_type l = lt)"

definition Check2LabelTypes :: "label \<Rightarrow> label_type \<Rightarrow> label_type \<Rightarrow> result" where
  "Check2LabelTypes l lt1 lt2 = ok_if (label_type l = lt1 \<or> label_type l = lt2)"

definition GetThisFunctionLabel :: "label option tc" where
  "GetThisFunctionLabel = do {
     n \<leftarrow> gets (\<lambda>s. length (label_stack s));
     GetLabel (n - 1)
   }"

section \<open>The type stack\<close>

text \<open>The first argument of \<open>PeekType\<close> is the type \<open>*out_type\<close> holds before the call.\<close>

definition PeekType :: "nat \<Rightarrow> wtype \<Rightarrow> (result \<times> wtype) tc" where
  "PeekType depth out = do {
     top \<leftarrow> TopLabel;
     case top of
       None \<Rightarrow> State_Monad.return (Error, out)
     | Some label \<Rightarrow> do {
         st \<leftarrow> gets type_stack;
         State_Monad.return
           (if length st \<le> type_stack_limit label + depth
            then (if unreachable label then Ok else Error, AnyTy)
            else (Ok, at_depth st depth))
       }
   }"

definition CheckType :: "wtype \<Rightarrow> wtype \<Rightarrow> result" where
  "CheckType actual expected =
     (if type_eq expected AnyTy \<or> type_eq actual AnyTy then Ok
      else if IsReferenceWithIndex expected \<and> IsReferenceWithIndex actual
      then ok_if (GetReferenceIndex expected = GetReferenceIndex actual)
      else if \<not> type_eq actual expected then Error
      else Ok)"

definition PeekAndCheckType :: "nat \<Rightarrow> wtype \<Rightarrow> result tc" where
  "PeekAndCheckType depth expected = do {
     (result, actual) \<leftarrow> PeekType depth AnyTy;
     State_Monad.return (result_or result (CheckType actual expected))
   }"

definition DropTypes :: "nat \<Rightarrow> result tc" where
  "DropTypes drop_count = CHECK_SOME TopLabel (\<lambda>label. do {
     st \<leftarrow> gets type_stack;
     if length st < type_stack_limit label + drop_count then do {
       ResetTypeStackToLabel label;
       State_Monad.return (if unreachable label then Ok else Error)
     } else do {
       modify (\<lambda>s. s\<lparr>type_stack := take (length st - drop_count) (type_stack s)\<rparr>);
       State_Monad.return Ok
     }
   })"

definition PushType :: "wtype \<Rightarrow> unit tc" where
  "PushType t = modify (\<lambda>s. if \<not> type_eq t VoidTy then s\<lparr>type_stack := type_stack s @ [t]\<rparr> else s)"

primrec PushTypes :: "type_vector \<Rightarrow> unit tc" where
  "PushTypes [] = State_Monad.return ()"
| "PushTypes (t # ts) = do { PushType t; PushTypes ts }"

definition kMaxActualStackToPrint :: nat where
  "kMaxActualStackToPrint = 4"

definition PrintStackIfFailedV :: "result \<Rightarrow> tc_desc \<Rightarrow> type_vector \<Rightarrow> bool \<Rightarrow> unit tc" where
  "PrintStackIfFailedV result desc expected is_end =
     (if Succeeded result then State_Monad.return ()
      else do {
        top \<leftarrow> TopLabel;
        size \<leftarrow> gets (\<lambda>s. length (type_stack s));
        let limit = (case top of None \<Rightarrow> 0 | Some label \<Rightarrow> type_stack_limit label);
        let max_depth = size - limit;
        let actual_size = (if expected = [] then min kMaxActualStackToPrint max_depth
                           else min (length expected) max_depth);
        let incomplete_actual_stack = (actual_size \<noteq> max_depth);
        actual \<leftarrow> State_Monad.traverse_list
          (\<lambda>i. do { (_, type) \<leftarrow> PeekType (actual_size - i - 1) AnyTy; State_Monad.return type })
          [0..<actual_size];
        PrintError (TypeMismatch is_end desc expected actual incomplete_actual_stack)
      })"

text \<open>The template \<open>PrintStackIfFailed\<close>, whose arguments are single types.\<close>

definition PrintStackIfFailed :: "result \<Rightarrow> tc_desc \<Rightarrow> type_vector \<Rightarrow> unit tc" where
  "PrintStackIfFailed result desc args =
     (if Failed result then PrintStackIfFailedV result desc args False else State_Monad.return ())"

definition CheckTypeStackEnd :: "tc_desc \<Rightarrow> result tc" where
  "CheckTypeStackEnd desc = CHECK_SOME TopLabel (\<lambda>label. do {
     st \<leftarrow> gets type_stack;
     let result = ok_if (length st = type_stack_limit label);
     PrintStackIfFailedV result desc [] True;
     State_Monad.return result
   })"

definition CheckTypes :: "type_vector \<Rightarrow> type_vector \<Rightarrow> result" where
  "CheckTypes actual expected =
     (if length actual \<noteq> length expected then Error
      else fold (\<lambda>(a, e) result. result_or result (CheckType a e)) (zip actual expected) Ok)"

text \<open>The loop of \<open>CheckSignature\<close>: the types still to be checked, and the result so far.\<close>

primrec CheckSignature_loop :: "type_vector \<Rightarrow> result \<Rightarrow> result tc" where
  "CheckSignature_loop [] result = State_Monad.return result"
| "CheckSignature_loop (t # ts) result = do {
     r \<leftarrow> PeekAndCheckType (length ts) t;
     CheckSignature_loop ts (result_or result r)
   }"

definition CheckSignature :: "type_vector \<Rightarrow> tc_desc \<Rightarrow> result tc" where
  "CheckSignature sig desc = do {
     result \<leftarrow> CheckSignature_loop sig Ok;
     PrintStackIfFailedV result desc sig False;
     State_Monad.return result
   }"

definition CheckReturnSignature :: "type_vector \<Rightarrow> type_vector \<Rightarrow> tc_desc \<Rightarrow> result tc" where
  "CheckReturnSignature actual expected desc = do {
     let result = CheckTypes actual expected;
     (if Failed result then PrintError (ReturnSignatureMismatch expected actual)
      else State_Monad.return ());
     State_Monad.return result
   }"

definition PopAndCheckSignature :: "type_vector \<Rightarrow> tc_desc \<Rightarrow> result tc" where
  "PopAndCheckSignature sig desc = do {
     result \<leftarrow> CheckSignature sig desc;
     dropped \<leftarrow> DropTypes (length sig);
     State_Monad.return (result_or result dropped)
   }"

definition PopAndCheckCall :: "type_vector \<Rightarrow> type_vector \<Rightarrow> tc_desc \<Rightarrow> result tc" where
  "PopAndCheckCall params results desc = do {
     result \<leftarrow> CheckSignature params desc;
     dropped \<leftarrow> DropTypes (length params);
     PushTypes results;
     State_Monad.return (result_or result dropped)
   }"

definition PopAndCheck1Type :: "wtype \<Rightarrow> tc_desc \<Rightarrow> result tc" where
  "PopAndCheck1Type expected desc = do {
     result \<leftarrow> PeekAndCheckType 0 expected;
     PrintStackIfFailed result desc [expected];
     dropped \<leftarrow> DropTypes 1;
     State_Monad.return (result_or result dropped)
   }"

definition PopAndCheck2Types :: "wtype \<Rightarrow> wtype \<Rightarrow> tc_desc \<Rightarrow> result tc" where
  "PopAndCheck2Types expected1 expected2 desc = do {
     r2 \<leftarrow> PeekAndCheckType 0 expected2;
     r1 \<leftarrow> PeekAndCheckType 1 expected1;
     let result = result_or r2 r1;
     PrintStackIfFailed result desc [expected1, expected2];
     dropped \<leftarrow> DropTypes 2;
     State_Monad.return (result_or result dropped)
   }"

definition PopAndCheck3Types :: "wtype \<Rightarrow> wtype \<Rightarrow> wtype \<Rightarrow> tc_desc \<Rightarrow> result tc" where
  "PopAndCheck3Types expected1 expected2 expected3 desc = do {
     r3 \<leftarrow> PeekAndCheckType 0 expected3;
     r2 \<leftarrow> PeekAndCheckType 1 expected2;
     r1 \<leftarrow> PeekAndCheckType 2 expected1;
     let result = result_or (result_or r3 r2) r1;
     PrintStackIfFailed result desc [expected1, expected2, expected3];
     dropped \<leftarrow> DropTypes 3;
     State_Monad.return (result_or result dropped)
   }"

section \<open>Operations given by the opcode table\<close>

text \<open>A \<open>const Limits*\<close> that may be null is a \<open>limits option\<close>.\<close>

definition GetMemoryParam :: "wtype \<Rightarrow> limits option \<Rightarrow> wtype" where
  "GetMemoryParam param limits = (case limits of Some l \<Rightarrow> IndexType l | None \<Rightarrow> param)"

definition CheckOpcode1 :: "opcode \<Rightarrow> limits option \<Rightarrow> result tc" where
  "CheckOpcode1 opcode limits = do {
     result \<leftarrow> PopAndCheck1Type (GetMemoryParam (GetParamType1 opcode) limits) (DescOpcode opcode);
     PushType (GetResultType opcode);
     State_Monad.return result
   }"

definition CheckOpcode2 :: "opcode \<Rightarrow> limits option \<Rightarrow> result tc" where
  "CheckOpcode2 opcode limits = do {
     result \<leftarrow> PopAndCheck2Types (GetMemoryParam (GetParamType1 opcode) limits)
       (GetParamType2 opcode) (DescOpcode opcode);
     PushType (GetResultType opcode);
     State_Monad.return result
   }"

definition CheckOpcode3 ::
  "opcode \<Rightarrow> limits option \<Rightarrow> limits option \<Rightarrow> limits option \<Rightarrow> result tc" where
  "CheckOpcode3 opcode limits1 limits2 limits3 = do {
     result \<leftarrow> PopAndCheck3Types (GetMemoryParam (GetParamType1 opcode) limits1)
       (GetMemoryParam (GetParamType2 opcode) limits2)
       (GetMemoryParam (GetParamType3 opcode) limits3) (DescOpcode opcode);
     PushType (GetResultType opcode);
     State_Monad.return result
   }"

section \<open>Functions and blocks\<close>

abbreviation "text_block \<equiv> DescText ''block''"
abbreviation "text_loop \<equiv> DescText ''loop''"
abbreviation "text_if \<equiv> DescText ''if''"
abbreviation "text_if_true \<equiv> DescText ''`if true` branch''"
abbreviation "text_try \<equiv> DescText ''try''"
abbreviation "text_try_block \<equiv> DescText ''try block''"
abbreviation "text_init_expr \<equiv> DescText ''initializer expression''"

definition BeginFunction :: "type_vector \<Rightarrow> result tc" where
  "BeginFunction sig = do {
     modify (\<lambda>s. s\<lparr>type_stack := [], label_stack := []\<rparr>);
     PushLabel LtFunc [] sig;
     State_Monad.return Ok
   }"

definition OnBlock :: "type_vector \<Rightarrow> type_vector \<Rightarrow> result tc" where
  "OnBlock params results = do {
     result \<leftarrow> PopAndCheckSignature params text_block;
     PushLabel LtBlock params results;
     PushTypes params;
     State_Monad.return result
   }"

definition OnLoop :: "type_vector \<Rightarrow> type_vector \<Rightarrow> result tc" where
  "OnLoop params results = do {
     result \<leftarrow> PopAndCheckSignature params text_loop;
     PushLabel LtLoop params results;
     PushTypes params;
     State_Monad.return result
   }"

definition OnIf :: "type_vector \<Rightarrow> type_vector \<Rightarrow> result tc" where
  "OnIf params results = do {
     r \<leftarrow> PopAndCheck1Type I32 text_if;
     r' \<leftarrow> PopAndCheckSignature params text_if;
     PushLabel LtIf params results;
     PushTypes params;
     State_Monad.return (result_or r r')
   }"

definition OnTry :: "type_vector \<Rightarrow> type_vector \<Rightarrow> result tc" where
  "OnTry params results = do {
     result \<leftarrow> PopAndCheckSignature params text_try;
     PushLabel LtTry params results;
     PushTypes params;
     State_Monad.return result
   }"

definition OnElse :: "result tc" where
  "OnElse = CHECK_SOME TopLabel (\<lambda>label. do {
     let result = CheckLabelType label LtIf;
     r1 \<leftarrow> PopAndCheckSignature (result_types label) text_if_true;
     r2 \<leftarrow> CheckTypeStackEnd text_if_true;
     ResetTypeStackToLabel label;
     PushTypes (param_types label);
     UpdateTop (\<lambda>l. l\<lparr>label_type := LtElse, unreachable := False\<rparr>);
     State_Monad.return (result_or (result_or result r1) r2)
   })"

definition OnCatch :: "type_vector \<Rightarrow> result tc" where
  "OnCatch sig = CHECK_SOME TopLabel (\<lambda>label. do {
     let result = Check2LabelTypes label LtTry LtCatch;
     r1 \<leftarrow> PopAndCheckSignature (result_types label) text_try_block;
     r2 \<leftarrow> CheckTypeStackEnd text_try_block;
     ResetTypeStackToLabel label;
     UpdateTop (\<lambda>l. l\<lparr>label_type := LtCatch, unreachable := False\<rparr>);
     PushTypes sig;
     State_Monad.return (result_or (result_or result r1) r2)
   })"

definition OnDelegate :: "index \<Rightarrow> result tc" where
  "OnDelegate depth = CHECK_SOME (GetLabel (unat (depth + 1))) (\<lambda>label.
     CHECK_SOME TopLabel (\<lambda>try_label. do {
       let result = CheckLabelType try_label LtTry;
       r1 \<leftarrow> PopAndCheckSignature (result_types try_label) text_try_block;
       r2 \<leftarrow> CheckTypeStackEnd text_try_block;
       ResetTypeStackToLabel try_label;
       PushTypes (result_types try_label);
       PopLabel;
       State_Monad.return (result_or (result_or result r1) r2)
     }))"

text \<open>\<open>OnEnd(Label*, sig_desc, end_desc)\<close>, the part the three ends share.\<close>

definition OnEndLabel :: "label \<Rightarrow> tc_desc \<Rightarrow> tc_desc \<Rightarrow> result tc" where
  "OnEndLabel label sig_desc end_desc = do {
     r1 \<leftarrow> PopAndCheckSignature (result_types label) sig_desc;
     r2 \<leftarrow> CheckTypeStackEnd end_desc;
     ResetTypeStackToLabel label;
     PushTypes (result_types label);
     PopLabel;
     State_Monad.return (result_or r1 r2)
   }"

fun s_label_type_name :: "label_type \<Rightarrow> string" where
  "s_label_type_name LtFunc = ''function''"
| "s_label_type_name LtInitExpr = ''initializer expression''"
| "s_label_type_name LtBlock = ''block''"
| "s_label_type_name LtLoop = ''loop''"
| "s_label_type_name LtIf = ''if''"
| "s_label_type_name LtElse = ''`if false` branch''"
| "s_label_type_name LtTry = ''try''"
| "s_label_type_name LtCatch = ''try catch''"

text \<open>After \<open>OnElse\<close>, the pointer \<open>label\<close> sees the changed top label.\<close>

definition OnEnd :: "result tc" where
  "OnEnd = CHECK_SOME TopLabel (\<lambda>label0.
     CHECK_RESULT (if label_type label0 = LtIf then OnElse else State_Monad.return Ok)
       (CHECK_SOME TopLabel (\<lambda>label. do {
          let desc = DescText (s_label_type_name (label_type label));
          OnEndLabel label desc desc
        })))"

definition EndFunction :: "result tc" where
  "EndFunction = CHECK_SOME TopLabel (\<lambda>label. do {
     let result = CheckLabelType label LtFunc;
     r \<leftarrow> OnEndLabel label (DescText ''implicit return'') (DescText ''function'');
     State_Monad.return (result_or result r)
   })"

definition BeginInitExpr :: "wtype \<Rightarrow> result tc" where
  "BeginInitExpr t = do {
     modify (\<lambda>s. s\<lparr>type_stack := [], label_stack := []\<rparr>);
     PushLabel LtInitExpr [] [t];
     State_Monad.return Ok
   }"

definition EndInitExpr :: "result tc" where
  "EndInitExpr = CHECK_SOME TopLabel (\<lambda>label. do {
     let result = CheckLabelType label LtInitExpr;
     r \<leftarrow> OnEndLabel label text_init_expr text_init_expr;
     State_Monad.return (result_or result r)
   })"

section \<open>Branches, calls and exceptions\<close>

definition OnBr :: "index \<Rightarrow> result tc" where
  "OnBr depth = CHECK_SOME (GetLabel (unat depth)) (\<lambda>label. do {
     result \<leftarrow> CheckSignature (br_types label) (DescText ''br'');
     CHECK_RESULT SetUnreachable (State_Monad.return result)
   })"

definition OnBrIf :: "index \<Rightarrow> result tc" where
  "OnBrIf depth = do {
     r \<leftarrow> PopAndCheck1Type I32 (DescText ''br_if'');
     CHECK_SOME (GetLabel (unat depth)) (\<lambda>label. do {
       r' \<leftarrow> PopAndCheckSignature (br_types label) (DescText ''br_if'');
       PushTypes (br_types label);
       State_Monad.return (result_or r r')
     })
   }"

definition BeginBrTable :: "result tc" where
  "BeginBrTable = do {
     modify (\<lambda>s. s\<lparr>br_table_sig := None\<rparr>);
     PopAndCheck1Type I32 (DescText ''br_table'')
   }"

definition OnBrTableTarget :: "index \<Rightarrow> result tc" where
  "OnBrTableTarget depth = CHECK_SOME (GetLabel (unat depth)) (\<lambda>label. do {
     let label_sig = br_types label;
     result \<leftarrow> CheckSignature label_sig (DescText ''br_table'');
     sig \<leftarrow> gets br_table_sig;
     case sig of
       None \<Rightarrow> do {
         modify (\<lambda>s. s\<lparr>br_table_sig := Some label_sig\<rparr>);
         State_Monad.return result
       }
     | Some expected \<Rightarrow>
         if length expected \<noteq> length label_sig then do {
           PrintError (BrTableInconsistent expected label_sig);
           State_Monad.return Error
         } else State_Monad.return result
   })"

definition EndBrTable :: "result tc" where
  "EndBrTable = SetUnreachable"

definition OnCall :: "type_vector \<Rightarrow> type_vector \<Rightarrow> result tc" where
  "OnCall params results = PopAndCheckCall params results (DescText ''call'')"

definition OnCallIndirect :: "type_vector \<Rightarrow> type_vector \<Rightarrow> limits \<Rightarrow> result tc" where
  "OnCallIndirect params results table_limits = do {
     r \<leftarrow> PopAndCheck1Type (if is_64 table_limits then I64 else I32) (DescText ''call_indirect'');
     r' \<leftarrow> PopAndCheckCall params results (DescText ''call_indirect'');
     State_Monad.return (result_or r r')
   }"

text \<open>The second component is what \<open>*out_index\<close> is set to, if it is.\<close>

definition OnIndexedFuncRef :: "(result \<times> index option) tc" where
  "OnIndexedFuncRef = do {
     (peeked, t) \<leftarrow> PeekType 0 AnyTy;
     if Failed peeked then State_Monad.return (Error, None)
     else do {
       let ok = (type_eq t AnyTy \<or> IsReferenceWithIndex t);
       (if \<not> ok then PrintError (CallRefMismatch [t]) else State_Monad.return ());
       dropped \<leftarrow> DropTypes 1;
       State_Monad.return
         (result_or (ok_if ok) dropped, if ok then Some (GetReferenceIndex t) else None)
     }
   }"

definition OnReturnCall :: "type_vector \<Rightarrow> type_vector \<Rightarrow> result tc" where
  "OnReturnCall params results = do {
     r \<leftarrow> PopAndCheckSignature params (DescText ''return_call'');
     CHECK_SOME GetThisFunctionLabel (\<lambda>func_label. do {
       r' \<leftarrow> CheckReturnSignature results (result_types func_label) (DescText ''return_call'');
       CHECK_RESULT SetUnreachable (State_Monad.return (result_or r r'))
     })
   }"

definition OnReturnCallIndirect :: "type_vector \<Rightarrow> type_vector \<Rightarrow> result tc" where
  "OnReturnCallIndirect params results = do {
     r0 \<leftarrow> PopAndCheck1Type I32 (DescText ''return_call_indirect'');
     r \<leftarrow> PopAndCheckSignature params (DescText ''return_call_indirect'');
     CHECK_SOME GetThisFunctionLabel (\<lambda>func_label. do {
       r' \<leftarrow> CheckReturnSignature results (result_types func_label)
               (DescText ''return_call_indirect'');
       CHECK_RESULT SetUnreachable (State_Monad.return (result_or (result_or r0 r) r'))
     })
   }"

definition OnRethrow :: "index \<Rightarrow> result tc" where
  "OnRethrow depth = CHECK_SOME (GetRethrowLabel (unat depth)) (\<lambda>label.
     CHECK_RESULT SetUnreachable (State_Monad.return Ok))"

definition OnThrow :: "type_vector \<Rightarrow> result tc" where
  "OnThrow sig = do {
     result \<leftarrow> PopAndCheckSignature sig (DescText ''throw'');
     CHECK_RESULT SetUnreachable (State_Monad.return result)
   }"

definition OnReturn :: "result tc" where
  "OnReturn = CHECK_SOME GetThisFunctionLabel (\<lambda>func_label. do {
     result \<leftarrow> PopAndCheckSignature (result_types func_label) (DescText ''return'');
     CHECK_RESULT SetUnreachable (State_Monad.return result)
   })"

definition OnUnreachable :: "result tc" where
  "OnUnreachable = SetUnreachable"

section \<open>Numeric, memory and table instructions\<close>

definition OnAtomicLoad :: "opcode \<Rightarrow> limits \<Rightarrow> result tc" where
  "OnAtomicLoad opcode limits = CheckOpcode1 opcode (Some limits)"

definition OnAtomicStore :: "opcode \<Rightarrow> limits \<Rightarrow> result tc" where
  "OnAtomicStore opcode limits = CheckOpcode2 opcode (Some limits)"

definition OnAtomicRmw :: "opcode \<Rightarrow> limits \<Rightarrow> result tc" where
  "OnAtomicRmw opcode limits = CheckOpcode2 opcode (Some limits)"

definition OnAtomicRmwCmpxchg :: "opcode \<Rightarrow> limits \<Rightarrow> result tc" where
  "OnAtomicRmwCmpxchg opcode limits = CheckOpcode3 opcode (Some limits) None None"

definition OnAtomicWait :: "opcode \<Rightarrow> limits \<Rightarrow> result tc" where
  "OnAtomicWait opcode limits = CheckOpcode3 opcode (Some limits) None None"

definition OnAtomicFence :: "u32 \<Rightarrow> result tc" where
  "OnAtomicFence consistency_model = State_Monad.return Ok"

definition OnAtomicNotify :: "opcode \<Rightarrow> limits \<Rightarrow> result tc" where
  "OnAtomicNotify opcode limits = CheckOpcode2 opcode (Some limits)"

definition OnBinary :: "opcode \<Rightarrow> result tc" where
  "OnBinary opcode = CheckOpcode2 opcode None"

definition OnCompare :: "opcode \<Rightarrow> result tc" where
  "OnCompare opcode = CheckOpcode2 opcode None"

definition OnConvert :: "opcode \<Rightarrow> result tc" where
  "OnConvert opcode = CheckOpcode1 opcode None"

definition OnUnary :: "opcode \<Rightarrow> result tc" where
  "OnUnary opcode = CheckOpcode1 opcode None"

definition OnTernary :: "opcode \<Rightarrow> result tc" where
  "OnTernary opcode = CheckOpcode3 opcode None None None"

definition OnLoad :: "opcode \<Rightarrow> limits \<Rightarrow> result tc" where
  "OnLoad opcode limits = CheckOpcode1 opcode (Some limits)"

definition OnStore :: "opcode \<Rightarrow> limits \<Rightarrow> result tc" where
  "OnStore opcode limits = CheckOpcode2 opcode (Some limits)"

definition OnConst :: "wtype \<Rightarrow> result tc" where
  "OnConst t = do { PushType t; State_Monad.return Ok }"

definition OnGlobalGet :: "wtype \<Rightarrow> result tc" where
  "OnGlobalGet t = do { PushType t; State_Monad.return Ok }"

definition OnLocalGet :: "wtype \<Rightarrow> result tc" where
  "OnLocalGet t = do { PushType t; State_Monad.return Ok }"

definition OnRefNullExpr :: "wtype \<Rightarrow> result tc" where
  "OnRefNullExpr t = do { PushType t; State_Monad.return Ok }"

definition OnGlobalSet :: "wtype \<Rightarrow> result tc" where
  "OnGlobalSet t = PopAndCheck1Type t (DescText ''global.set'')"

definition OnLocalSet :: "wtype \<Rightarrow> result tc" where
  "OnLocalSet t = PopAndCheck1Type t (DescText ''local.set'')"

definition OnLocalTee :: "wtype \<Rightarrow> result tc" where
  "OnLocalTee t = do {
     result \<leftarrow> PopAndCheck1Type t (DescText ''local.tee'');
     PushType t;
     State_Monad.return result
   }"

definition OnDrop :: "result tc" where
  "OnDrop = do {
     result \<leftarrow> DropTypes 1;
     PrintStackIfFailed result (DescText ''drop'') [AnyTy];
     State_Monad.return result
   }"

text \<open>The size operand of a copy has the smaller of the two index types.\<close>

definition copy_size_limits :: "limits \<Rightarrow> limits \<Rightarrow> limits" where
  "copy_size_limits dst_limits src_limits =
     (if is_64 src_limits \<and> \<not> is_64 dst_limits then dst_limits else src_limits)"

definition OnMemoryCopy :: "limits \<Rightarrow> limits \<Rightarrow> result tc" where
  "OnMemoryCopy dst_limits src_limits =
     CheckOpcode3 Op_MemoryCopy (Some dst_limits) (Some src_limits)
       (Some (copy_size_limits dst_limits src_limits))"

definition OnTableCopy :: "limits \<Rightarrow> limits \<Rightarrow> result tc" where
  "OnTableCopy dst_limits src_limits =
     CheckOpcode3 Op_TableCopy (Some dst_limits) (Some src_limits)
       (Some (copy_size_limits dst_limits src_limits))"

definition OnDataDrop :: "u32 \<Rightarrow> result tc" where
  "OnDataDrop segment = State_Monad.return Ok"

definition OnElemDrop :: "u32 \<Rightarrow> result tc" where
  "OnElemDrop segment = State_Monad.return Ok"

definition OnMemoryFill :: "limits \<Rightarrow> result tc" where
  "OnMemoryFill limits = CheckOpcode3 Op_MemoryFill (Some limits) None (Some limits)"

definition OnMemoryGrow :: "limits \<Rightarrow> result tc" where
  "OnMemoryGrow limits = do {
     result \<leftarrow> PopAndCheck1Type (IndexType limits) (DescText ''memory.grow'');
     PushType (IndexType limits);
     State_Monad.return result
   }"

definition OnMemoryInit :: "u32 \<Rightarrow> limits \<Rightarrow> result tc" where
  "OnMemoryInit segment limits = CheckOpcode3 Op_MemoryInit (Some limits) None None"

definition OnMemorySize :: "limits \<Rightarrow> result tc" where
  "OnMemorySize limits = do { PushType (IndexType limits); State_Monad.return Ok }"

definition OnTableInit :: "u32 \<Rightarrow> limits \<Rightarrow> result tc" where
  "OnTableInit segment limits = CheckOpcode3 Op_TableInit (Some limits) None None"

definition OnTableGet :: "wtype \<Rightarrow> limits \<Rightarrow> result tc" where
  "OnTableGet elem_type limits = do {
     result \<leftarrow> CheckOpcode1 Op_TableGet (Some limits);
     PushType elem_type;
     State_Monad.return result
   }"

definition OnTableSet :: "wtype \<Rightarrow> limits \<Rightarrow> result tc" where
  "OnTableSet elem_type limits =
     PopAndCheck2Types (IndexType limits) elem_type (DescText ''table.set'')"

definition OnTableGrow :: "wtype \<Rightarrow> limits \<Rightarrow> result tc" where
  "OnTableGrow elem_type limits = do {
     result \<leftarrow> PopAndCheck2Types elem_type (IndexType limits) (DescText ''table.grow'');
     PushType (IndexType limits);
     State_Monad.return result
   }"

definition OnTableSize :: "limits \<Rightarrow> result tc" where
  "OnTableSize limits = do { PushType (IndexType limits); State_Monad.return Ok }"

definition OnTableFill :: "wtype \<Rightarrow> limits \<Rightarrow> result tc" where
  "OnTableFill elem_type limits =
     PopAndCheck3Types (IndexType limits) elem_type (IndexType limits) (DescText ''table.fill'')"

section \<open>References, select and vector lanes\<close>

definition OnRefFuncExpr :: "index \<Rightarrow> bool \<Rightarrow> result tc" where
  "OnRefFuncExpr func_type force_generic_funcref = do {
     f \<leftarrow> gets tc_features;
     PushType (if function_references_enabled f \<and> \<not> force_generic_funcref
               then Reference func_type else FuncRef);
     State_Monad.return Ok
   }"

definition OnRefIsNullExpr :: "result tc" where
  "OnRefIsNullExpr = do {
     (result, t) \<leftarrow> PeekType 0 (WType 0 0);
     let ok = (type_eq t AnyTy \<or> IsRef t);
     (if \<not> ok then PrintError (RefIsNullMismatch (if Succeeded result then [t] else []))
      else State_Monad.return ());
     dropped \<leftarrow> DropTypes 1;
     PushType I32;
     State_Monad.return (result_or (if ok then result else Error) dropped)
   }"

text \<open>
  A typed select checks both operands against the given type but leaves \<open>result_type\<close> at
  \<open>Type::Any\<close>, so it pushes \<open>Any\<close>.
\<close>

definition OnSelect :: "type_vector \<Rightarrow> result tc" where
  "OnSelect expected = do {
     r0 \<leftarrow> PeekAndCheckType 0 I32;
     (r1, type1) \<leftarrow> PeekType 1 AnyTy;
     (r2, type2) \<leftarrow> PeekType 2 AnyTy;
     let result = result_or (result_or r0 r1) r2;
     let (result, result_type) =
       (if expected = [] then
          if IsRef type1 \<or> IsRef type2 then (Error, AnyTy)
          else (result_or result (CheckType type1 type2), type1)
        else (result_or (result_or result (CheckType type1 (hd expected)))
                (CheckType type2 (hd expected)), AnyTy));
     PrintStackIfFailed result (DescText ''select'') [result_type, result_type, I32];
     dropped \<leftarrow> DropTypes 3;
     PushType result_type;
     State_Monad.return (result_or result dropped)
   }"

text \<open>The lane operations, \<open>None\<close> where the code is \<open>WABT_UNREACHABLE\<close>.\<close>

definition CheckLaneIndex :: "u32 \<Rightarrow> u64 \<Rightarrow> result tc" where
  "CheckLaneIndex lane_count lane_idx =
     (if ucast lane_count \<le> lane_idx
      then do { PrintError (LaneIndexTooLarge lane_count lane_idx); State_Monad.return Error }
      else State_Monad.return Ok)"

definition OnSimdLaneOp :: "opcode \<Rightarrow> u64 \<Rightarrow> result option tc" where
  "OnSimdLaneOp opcode lane_idx =
     (case GetSimdLaneCount opcode of
        None \<Rightarrow> State_Monad.return None
      | Some lane_count \<Rightarrow> do {
          result \<leftarrow> CheckLaneIndex lane_count lane_idx;
          if opcode \<in> {Op_I8X16ExtractLaneS, Op_I8X16ExtractLaneU, Op_I16X8ExtractLaneS,
                       Op_I16X8ExtractLaneU, Op_I32X4ExtractLane, Op_F32X4ExtractLane,
                       Op_I64X2ExtractLane, Op_F64X2ExtractLane} then do {
            r \<leftarrow> CheckOpcode1 opcode None;
            State_Monad.return (Some (result_or result r))
          } else if opcode \<in> {Op_I8X16ReplaceLane, Op_I16X8ReplaceLane, Op_I32X4ReplaceLane,
                       Op_F32X4ReplaceLane, Op_I64X2ReplaceLane, Op_F64X2ReplaceLane} then do {
            r \<leftarrow> CheckOpcode2 opcode None;
            State_Monad.return (Some (result_or result r))
          } else State_Monad.return None
        })"

definition OnSimdLoadLane :: "opcode \<Rightarrow> limits \<Rightarrow> u64 \<Rightarrow> result option tc" where
  "OnSimdLoadLane opcode limits lane_idx =
     (case GetSimdLaneCount opcode of
        None \<Rightarrow> State_Monad.return None
      | Some lane_count \<Rightarrow> do {
          result \<leftarrow> CheckLaneIndex lane_count lane_idx;
          r \<leftarrow> CheckOpcode2 opcode (Some limits);
          State_Monad.return (Some (result_or result r))
        })"

definition OnSimdStoreLane :: "opcode \<Rightarrow> limits \<Rightarrow> u64 \<Rightarrow> result option tc" where
  "OnSimdStoreLane opcode limits lane_idx =
     (case GetSimdLaneCount opcode of
        None \<Rightarrow> State_Monad.return None
      | Some lane_count \<Rightarrow> do {
          result \<leftarrow> CheckLaneIndex lane_count lane_idx;
          r \<leftarrow> CheckOpcode2 opcode (Some limits);
          State_Monad.return (Some (result_or result r))
        })"

text \<open>The bytes of the \<open>v128\<close>, in memory order.\<close>

primrec shuffle_loop :: "u8 list \<Rightarrow> result \<Rightarrow> result tc" where
  "shuffle_loop [] result = State_Monad.return result"
| "shuffle_loop (b # bs) result =
     (if 32 \<le> b then do { PrintError (ShuffleLaneTooLarge b); shuffle_loop bs Error }
      else shuffle_loop bs result)"

definition OnSimdShuffleOp :: "opcode \<Rightarrow> u8 list \<Rightarrow> result tc" where
  "OnSimdShuffleOp opcode lane_idx = do {
     result \<leftarrow> shuffle_loop lane_idx Ok;
     r \<leftarrow> CheckOpcode2 opcode None;
     State_Monad.return (result_or result r)
   }"

section \<open>The interface\<close>

text \<open>
  The public methods as the calls a client can make, grouped by their parameters, and the action of
  each call. A method that yields a value succeeds when it yields one.
\<close>

datatype mem_call = KAtomicLoad | KAtomicNotify | KAtomicStore | KAtomicRmw | KAtomicRmwCmpxchg
  | KAtomicWait | KLoad | KStore

datatype op_call = KBinary | KCompare | KConvert | KTernary | KUnary

datatype type_call = KConst | KGlobalGet | KGlobalSet | KLocalGet | KLocalSet | KLocalTee
  | KRefNullExpr | KBeginInitExpr

datatype limits_call = KMemoryFill | KMemoryGrow | KMemorySize | KTableSize

datatype copy_call = KMemoryCopy | KTableCopy

datatype segment_call = KMemoryInit | KTableInit | KDataDrop | KElemDrop

datatype table_call = KTableGet | KTableSet | KTableGrow | KTableFill

datatype block_call = KBlock | KLoop | KIf | KTry | KCall | KReturnCall | KReturnCallIndirect

datatype sig_call = KBeginFunction | KCatch | KThrow | KSelect

datatype depth_call = KGetLabel | KGetRethrowLabel | KGetCatchCount | KBr | KBrIf | KBrTableTarget
  | KRethrow | KDelegate

datatype plain_call = KBeginBrTable | KEndBrTable | KIndexedFuncRef | KDrop | KElse | KEnd
  | KRefIsNullExpr | KReturn | KUnreachable | KEndFunction | KEndInitExpr

datatype lane_call = KSimdLaneOp | KSimdLoadLane | KSimdStoreLane

datatype tc_call =
    MemCall mem_call opcode limits
  | OpCall op_call opcode
  | TypeCall type_call wtype
  | LimitsCall limits_call limits
  | CopyCall copy_call limits limits
  | SegmentCall segment_call u32 limits
  | TableCall table_call wtype limits
  | BlockCall block_call type_vector type_vector
  | CallIndirectCall type_vector type_vector limits
  | SigCall sig_call type_vector
  | DepthCall depth_call index
  | PlainCall plain_call
  | LaneCall lane_call opcode limits u64
  | ShuffleCall opcode "u8 list"
  | RefFuncCall index bool
  | AtomicFenceCall u32

definition yields :: "'a option tc \<Rightarrow> result tc" where
  "yields m = do { x \<leftarrow> m; State_Monad.return (ok_if (x \<noteq> None)) }"

fun mem_action :: "mem_call \<Rightarrow> opcode \<Rightarrow> limits \<Rightarrow> result tc" where
  "mem_action KAtomicLoad = OnAtomicLoad"
| "mem_action KAtomicNotify = OnAtomicNotify"
| "mem_action KAtomicStore = OnAtomicStore"
| "mem_action KAtomicRmw = OnAtomicRmw"
| "mem_action KAtomicRmwCmpxchg = OnAtomicRmwCmpxchg"
| "mem_action KAtomicWait = OnAtomicWait"
| "mem_action KLoad = OnLoad"
| "mem_action KStore = OnStore"

fun op_action :: "op_call \<Rightarrow> opcode \<Rightarrow> result tc" where
  "op_action KBinary = OnBinary"
| "op_action KCompare = OnCompare"
| "op_action KConvert = OnConvert"
| "op_action KTernary = OnTernary"
| "op_action KUnary = OnUnary"

fun type_action :: "type_call \<Rightarrow> wtype \<Rightarrow> result tc" where
  "type_action KConst = OnConst"
| "type_action KGlobalGet = OnGlobalGet"
| "type_action KGlobalSet = OnGlobalSet"
| "type_action KLocalGet = OnLocalGet"
| "type_action KLocalSet = OnLocalSet"
| "type_action KLocalTee = OnLocalTee"
| "type_action KRefNullExpr = OnRefNullExpr"
| "type_action KBeginInitExpr = BeginInitExpr"

fun limits_action :: "limits_call \<Rightarrow> limits \<Rightarrow> result tc" where
  "limits_action KMemoryFill = OnMemoryFill"
| "limits_action KMemoryGrow = OnMemoryGrow"
| "limits_action KMemorySize = OnMemorySize"
| "limits_action KTableSize = OnTableSize"

fun copy_action :: "copy_call \<Rightarrow> limits \<Rightarrow> limits \<Rightarrow> result tc" where
  "copy_action KMemoryCopy = OnMemoryCopy"
| "copy_action KTableCopy = OnTableCopy"

fun segment_action :: "segment_call \<Rightarrow> u32 \<Rightarrow> limits \<Rightarrow> result tc" where
  "segment_action KMemoryInit segment l = OnMemoryInit segment l"
| "segment_action KTableInit segment l = OnTableInit segment l"
| "segment_action KDataDrop segment l = OnDataDrop segment"
| "segment_action KElemDrop segment l = OnElemDrop segment"

fun table_action :: "table_call \<Rightarrow> wtype \<Rightarrow> limits \<Rightarrow> result tc" where
  "table_action KTableGet = OnTableGet"
| "table_action KTableSet = OnTableSet"
| "table_action KTableGrow = OnTableGrow"
| "table_action KTableFill = OnTableFill"

fun block_action :: "block_call \<Rightarrow> type_vector \<Rightarrow> type_vector \<Rightarrow> result tc" where
  "block_action KBlock = OnBlock"
| "block_action KLoop = OnLoop"
| "block_action KIf = OnIf"
| "block_action KTry = OnTry"
| "block_action KCall = OnCall"
| "block_action KReturnCall = OnReturnCall"
| "block_action KReturnCallIndirect = OnReturnCallIndirect"

fun sig_action :: "sig_call \<Rightarrow> type_vector \<Rightarrow> result tc" where
  "sig_action KBeginFunction = BeginFunction"
| "sig_action KCatch = OnCatch"
| "sig_action KThrow = OnThrow"
| "sig_action KSelect = OnSelect"

fun depth_action :: "depth_call \<Rightarrow> index \<Rightarrow> result tc" where
  "depth_action KGetLabel d = yields (GetLabel (unat d))"
| "depth_action KGetRethrowLabel d = yields (GetRethrowLabel (unat d))"
| "depth_action KGetCatchCount d = yields (GetCatchCount (unat d))"
| "depth_action KBr d = OnBr d"
| "depth_action KBrIf d = OnBrIf d"
| "depth_action KBrTableTarget d = OnBrTableTarget d"
| "depth_action KRethrow d = OnRethrow d"
| "depth_action KDelegate d = OnDelegate d"

fun plain_action :: "plain_call \<Rightarrow> result tc" where
  "plain_action KBeginBrTable = BeginBrTable"
| "plain_action KEndBrTable = EndBrTable"
| "plain_action KIndexedFuncRef = do { (r, out) \<leftarrow> OnIndexedFuncRef; State_Monad.return r }"
| "plain_action KDrop = OnDrop"
| "plain_action KElse = OnElse"
| "plain_action KEnd = OnEnd"
| "plain_action KRefIsNullExpr = OnRefIsNullExpr"
| "plain_action KReturn = OnReturn"
| "plain_action KUnreachable = OnUnreachable"
| "plain_action KEndFunction = EndFunction"
| "plain_action KEndInitExpr = EndInitExpr"

fun lane_action :: "lane_call \<Rightarrow> opcode \<Rightarrow> limits \<Rightarrow> u64 \<Rightarrow> result option tc" where
  "lane_action KSimdLaneOp op l lane = OnSimdLaneOp op lane"
| "lane_action KSimdLoadLane op l lane = OnSimdLoadLane op l lane"
| "lane_action KSimdStoreLane op l lane = OnSimdStoreLane op l lane"

definition returning :: "result tc \<Rightarrow> result option tc" where
  "returning m = do { r \<leftarrow> m; State_Monad.return (Some r) }"

fun tc_action :: "tc_call \<Rightarrow> result option tc" where
  "tc_action (MemCall k op l) = returning (mem_action k op l)"
| "tc_action (OpCall k op) = returning (op_action k op)"
| "tc_action (TypeCall k t) = returning (type_action k t)"
| "tc_action (LimitsCall k l) = returning (limits_action k l)"
| "tc_action (CopyCall k l l') = returning (copy_action k l l')"
| "tc_action (SegmentCall k segment l) = returning (segment_action k segment l)"
| "tc_action (TableCall k t l) = returning (table_action k t l)"
| "tc_action (BlockCall k ps rs) = returning (block_action k ps rs)"
| "tc_action (CallIndirectCall ps rs l) = returning (OnCallIndirect ps rs l)"
| "tc_action (SigCall k ts) = returning (sig_action k ts)"
| "tc_action (DepthCall k d) = returning (depth_action k d)"
| "tc_action (PlainCall k) = returning (plain_action k)"
| "tc_action (LaneCall k op l lane) = lane_action k op l lane"
| "tc_action (ShuffleCall op lanes) = returning (OnSimdShuffleOp op lanes)"
| "tc_action (RefFuncCall i force) = returning (OnRefFuncExpr i force)"
| "tc_action (AtomicFenceCall m) = returning (OnAtomicFence m)"

definition tc_step :: "tc_call \<Rightarrow> type_checker \<Rightarrow> result option \<times> type_checker" where
  "tc_step c = run_state (tc_action c)"

end
