(* ===== verification/Type_Checker_Facts.thy ===== *)
theory Type_Checker_Facts
  imports Type_Checker
begin

text \<open>
  What the type checker's operations compute, in equations over the top label and the type stack,
  and the invariants of its state under every sequence of calls.
\<close>

section \<open>What the primitives compute\<close>

text \<open>
  Under a non-empty label stack every primitive is a function of the top label and the type stack:
  \<open>peek\<close>, \<open>sig_result\<close>, \<open>drop_result\<close> and \<open>drop_stack\<close> are those functions, and \<open>mismatch\<close> the
  messages. The equations below are the rules the other proofs compute with.
\<close>

abbreviation top_label :: "type_checker \<Rightarrow> label" where
  "top_label s \<equiv> last (label_stack s)"

definition peek :: "label \<Rightarrow> type_vector \<Rightarrow> nat \<Rightarrow> result \<times> wtype" where
  "peek l st d =
     (if length st \<le> type_stack_limit l + d then (if unreachable l then Ok else Error, AnyTy)
      else (Ok, at_depth st d))"

definition peek_check :: "label \<Rightarrow> type_vector \<Rightarrow> nat \<Rightarrow> wtype \<Rightarrow> result" where
  "peek_check l st d t = result_or (fst (peek l st d)) (CheckType (snd (peek l st d)) t)"

primrec sig_result :: "label \<Rightarrow> type_vector \<Rightarrow> type_vector \<Rightarrow> result" where
  "sig_result l st [] = Ok"
| "sig_result l st (t # ts) = result_or (peek_check l st (length ts) t) (sig_result l st ts)"

definition drop_result :: "label \<Rightarrow> type_vector \<Rightarrow> nat \<Rightarrow> result" where
  "drop_result l st n = ok_if (type_stack_limit l + n \<le> length st \<or> unreachable l)"

definition drop_stack :: "label \<Rightarrow> type_vector \<Rightarrow> nat \<Rightarrow> type_vector" where
  "drop_stack l st n =
     (if length st < type_stack_limit l + n then resize (WType 0 0) (type_stack_limit l) st
      else take (length st - n) st)"

definition push_types :: "type_vector \<Rightarrow> type_vector" where
  "push_types ts = filter (\<lambda>t. \<not> type_eq t VoidTy) ts"

definition mismatch ::
  "label \<Rightarrow> type_vector \<Rightarrow> result \<Rightarrow> tc_desc \<Rightarrow> type_vector \<Rightarrow> bool \<Rightarrow> tc_error list" where
  "mismatch l st r desc expected is_end =
     (if r = Ok then []
      else let max_depth = length st - type_stack_limit l;
               n = (if expected = [] then min 4 max_depth else min (length expected) max_depth)
           in [TypeMismatch is_end desc expected
                 (map (\<lambda>i. snd (peek l st (n - i - 1))) [0..<n]) (n \<noteq> max_depth)])"

lemma mismatch_Ok [simp]: "mismatch l st Ok desc e i = []"
  by (simp add: mismatch_def)

lemma run_PrintError [simp]:
  "run_state (PrintError e) s = ((), s\<lparr>tc_errors := tc_errors s @ [e]\<rparr>)"
  by (simp add: PrintError_def)

lemma run_GetLabel:
  "run_state (GetLabel d) s =
     (if length (label_stack s) \<le> d
      then (None, s\<lparr>tc_errors := tc_errors s @ [InvalidDepth d (of_nat (length (label_stack s)) - 1)]\<rparr>)
      else (Some (at_depth (label_stack s) d), s))"
  by (simp add: GetLabel_def)

lemma run_TopLabel [simp]:
  "label_stack s \<noteq> [] \<Longrightarrow> run_state TopLabel s = (Some (top_label s), s)"
  by (simp add: TopLabel_def run_GetLabel at_depth_last)

lemma run_GetThisFunctionLabel [simp]:
  "label_stack s \<noteq> [] \<Longrightarrow> run_state GetThisFunctionLabel s = (Some (hd (label_stack s)), s)"
  by (cases "label_stack s") (simp_all add: GetThisFunctionLabel_def run_GetLabel at_depth_def)

lemma run_UpdateTop [simp]:
  "run_state (UpdateTop f) s =
     ((), s\<lparr>label_stack := butlast (label_stack s) @ [f (top_label s)]\<rparr>)"
  by (simp add: UpdateTop_def)

lemma run_Reset [simp]:
  "run_state (ResetTypeStackToLabel l) s =
     ((), s\<lparr>type_stack := resize (WType 0 0) (type_stack_limit l) (type_stack s)\<rparr>)"
  by (simp add: ResetTypeStackToLabel_def)

lemma run_PushLabel [simp]:
  "run_state (PushLabel lt ps rs) s =
     ((), s\<lparr>label_stack := label_stack s @ [Label lt ps rs (length (type_stack s))]\<rparr>)"
  by (simp add: PushLabel_def)

lemma run_PopLabel [simp]:
  "run_state PopLabel s = (Ok, s\<lparr>label_stack := butlast (label_stack s)\<rparr>)"
  by (simp add: PopLabel_def)

lemma run_PeekType [simp]:
  "label_stack s \<noteq> [] \<Longrightarrow> run_state (PeekType d out) s = (peek (top_label s) (type_stack s) d, s)"
  by (simp add: PeekType_def peek_def)

lemma run_PeekAndCheckType [simp]:
  "label_stack s \<noteq> [] \<Longrightarrow>
     run_state (PeekAndCheckType d t) s = (peek_check (top_label s) (type_stack s) d t, s)"
  by (simp add: PeekAndCheckType_def peek_check_def split: prod.splits)

lemma run_DropTypes [simp]:
  "label_stack s \<noteq> [] \<Longrightarrow>
     run_state (DropTypes n) s =
       (drop_result (top_label s) (type_stack s) n,
        s\<lparr>type_stack := drop_stack (top_label s) (type_stack s) n\<rparr>)"
  by (auto simp: DropTypes_def drop_result_def drop_stack_def not_less)

lemma run_PushType [simp]:
  "run_state (PushType t) s = ((), s\<lparr>type_stack := type_stack s @ push_types [t]\<rparr>)"
  by (simp add: PushType_def push_types_def)

lemma push_types_Nil [simp]: "push_types [] = []"
  and push_types_Cons: "push_types (t # ts) = push_types [t] @ push_types ts"
  by (simp_all add: push_types_def)

lemma run_PushTypes [simp]:
  "run_state (PushTypes ts) s = ((), s\<lparr>type_stack := type_stack s @ push_types ts\<rparr>)"
proof (induction ts arbitrary: s)
  case (Cons t ts)
  then show ?case by (simp add: push_types_Cons [of t ts])
qed simp

lemma run_traverse_const:
  "(\<And>x. run_state (f x) s = (g x, s)) \<Longrightarrow>
     run_state (State_Monad.traverse_list f xs) s = (map g xs, s)"
  by (induction xs) simp_all

lemma run_PrintStackIfFailedV [simp]:
  assumes "label_stack s \<noteq> []"
  shows "run_state (PrintStackIfFailedV r desc e is_end) s =
     ((), s\<lparr>tc_errors := tc_errors s @ mismatch (top_label s) (type_stack s) r desc e is_end\<rparr>)"
proof -
  have t: "run_state (State_Monad.traverse_list
      (\<lambda>i. do { (_, t) \<leftarrow> PeekType (n - i - 1) AnyTy; State_Monad.return t }) xs) s =
      (map (\<lambda>i. snd (peek (top_label s) (type_stack s) (n - i - 1))) xs, s)" for n xs
    by (rule run_traverse_const) (use assms in \<open>simp add: case_prod_beta\<close>)
  show ?thesis
    using assms
    by (cases r) (simp_all add: PrintStackIfFailedV_def mismatch_def Let_def kMaxActualStackToPrint_def
        t [simplified] case_prod_beta)
qed

lemma run_PrintStackIfFailed [simp]:
  "label_stack s \<noteq> [] \<Longrightarrow> run_state (PrintStackIfFailed r desc e) s =
     ((), s\<lparr>tc_errors := tc_errors s @ mismatch (top_label s) (type_stack s) r desc e False\<rparr>)"
  by (cases r) (simp_all add: PrintStackIfFailed_def)

lemma run_CheckTypeStackEnd [simp]:
  "label_stack s \<noteq> [] \<Longrightarrow> run_state (CheckTypeStackEnd desc) s =
     (let r = ok_if (length (type_stack s) = type_stack_limit (top_label s))
      in (r, s\<lparr>tc_errors := tc_errors s @ mismatch (top_label s) (type_stack s) r desc [] True\<rparr>))"
  by (simp add: CheckTypeStackEnd_def Let_def)

lemma run_CheckSignature_loop:
  "label_stack s \<noteq> [] \<Longrightarrow>
     run_state (CheckSignature_loop sig r) s =
       (result_or r (sig_result (top_label s) (type_stack s) sig), s)"
  by (induction sig arbitrary: r) (simp_all add: result_or_assoc)

lemma run_CheckSignature [simp]:
  "label_stack s \<noteq> [] \<Longrightarrow>
     run_state (CheckSignature sig desc) s =
       (let r = sig_result (top_label s) (type_stack s) sig
        in (r, s\<lparr>tc_errors := tc_errors s @ mismatch (top_label s) (type_stack s) r desc sig False\<rparr>))"
  by (simp add: CheckSignature_def run_CheckSignature_loop Let_def)

lemma run_PopAndCheckSignature [simp]:
  "label_stack s \<noteq> [] \<Longrightarrow>
     run_state (PopAndCheckSignature sig desc) s =
       (let l = top_label s; st = type_stack s; r = sig_result l st sig
        in (result_or r (drop_result l st (length sig)),
            s\<lparr>type_stack := drop_stack l st (length sig),
              tc_errors := tc_errors s @ mismatch l st r desc sig False\<rparr>))"
  by (simp add: PopAndCheckSignature_def Let_def)

lemma run_SetUnreachable [simp]:
  "label_stack s \<noteq> [] \<Longrightarrow>
     run_state SetUnreachable s =
       (Ok, s\<lparr>label_stack := butlast (label_stack s) @ [(top_label s)\<lparr>unreachable := True\<rparr>],
              type_stack := resize (WType 0 0) (type_stack_limit (top_label s)) (type_stack s)\<rparr>)"
  by (simp add: SetUnreachable_def)

section \<open>The stack invariant\<close>

text \<open>
  The limits of the labels grow from the bottom of the label stack to its top, and the type stack
  is never shorter than the top limit. It is what every index into the type stack, every
  \<open>resize\<close> that is meant to cut it, and the subtraction in \<open>PrintStackIfFailedV\<close> rely on.
\<close>

definition tc_inv :: "type_checker \<Rightarrow> bool" where
  "tc_inv s \<longleftrightarrow> sorted (map type_stack_limit (label_stack s) @ [length (type_stack s)])"

definition tc_inv_at :: "label list \<Rightarrow> type_checker \<Rightarrow> bool" where
  "tc_inv_at ls s \<longleftrightarrow> tc_inv s \<and> label_stack s = ls"

lemma tc_inv_errors [simp]: "tc_inv (s\<lparr>tc_errors := es\<rparr>) = tc_inv s"
  by (simp add: tc_inv_def)

lemma tc_inv_br_table_sig [simp]: "tc_inv (s\<lparr>br_table_sig := sg\<rparr>) = tc_inv s"
  by (simp add: tc_inv_def)

lemma tc_inv_at_simps [simp]:
  "tc_inv_at ls (s\<lparr>tc_errors := es\<rparr>) = tc_inv_at ls s"
  "tc_inv_at ls (s\<lparr>br_table_sig := sg\<rparr>) = tc_inv_at ls s"
  by (simp_all add: tc_inv_at_def)

lemma tc_inv_limit: "tc_inv s \<Longrightarrow> l \<in> set (label_stack s) \<Longrightarrow> type_stack_limit l \<le> length (type_stack s)"
  by (auto simp: tc_inv_def sorted_append)

lemma tc_inv_top: "tc_inv s \<Longrightarrow> label_stack s \<noteq> [] \<Longrightarrow> type_stack_limit (top_label s) \<le> length (type_stack s)"
  by (simp add: tc_inv_limit)

lemma tc_inv_iff:
  "tc_inv s \<longleftrightarrow> sorted (map type_stack_limit (label_stack s)) \<and>
     (label_stack s \<noteq> [] \<longrightarrow> type_stack_limit (top_label s) \<le> length (type_stack s))"
  by (cases "label_stack s" rule: rev_cases) (fastforce simp: tc_inv_def sorted_append)+

lemma tc_inv_set_stack:
  "\<lbrakk>tc_inv s; label_stack s \<noteq> [] \<Longrightarrow> type_stack_limit (top_label s) \<le> length st\<rbrakk> \<Longrightarrow>
     tc_inv (s\<lparr>type_stack := st\<rparr>)"
  by (simp add: tc_inv_iff)

lemma tc_inv_at_set_stack:
  "\<lbrakk>tc_inv_at ls s; ls \<noteq> [] \<Longrightarrow> type_stack_limit (last ls) \<le> length st\<rbrakk> \<Longrightarrow>
     tc_inv_at ls (s\<lparr>type_stack := st\<rparr>)"
  by (auto simp: tc_inv_at_def intro: tc_inv_set_stack)

lemma tc_inv_at_top: "\<lbrakk>tc_inv_at ls s; ls \<noteq> []\<rbrakk> \<Longrightarrow> type_stack_limit (last ls) \<le> length (type_stack s)"
  by (auto simp: tc_inv_at_def tc_inv_top)

lemma length_drop_stack:
  "type_stack_limit l \<le> length st \<Longrightarrow> type_stack_limit l \<le> length (drop_stack l st n)"
  by (auto simp: drop_stack_def)

subsection \<open>Actions that leave the label stack alone\<close>

named_theorems at_intros \<open>actions that keep the invariant and the label stack\<close>

lemmas at_rules = keeps_intros at_intros

lemma at_PrintError [at_intros]: "keeps (tc_inv_at ls) (PrintError e)"
  by (rule keepsI) simp

lemma at_GetLabel [at_intros]: "keeps (tc_inv_at ls) (GetLabel d)"
  by (rule keepsI) (simp add: run_GetLabel)

lemma at_TopLabel [at_intros]: "keeps (tc_inv_at ls) TopLabel"
  by (simp add: TopLabel_def at_GetLabel)

lemma at_PeekType [at_intros]: "keeps (tc_inv_at ls) (PeekType d out)"
  by (auto simp: PeekType_def intro!: keeps_intros at_intros)

lemma at_PeekAndCheckType [at_intros]: "keeps (tc_inv_at ls) (PeekAndCheckType d t)"
  by (auto simp: PeekAndCheckType_def intro!: keeps_intros at_intros split: prod.splits)

lemma at_br_table_sig [at_intros]: "keeps (tc_inv_at ls) (modify (\<lambda>s. s\<lparr>br_table_sig := x\<rparr>))"
  by (rule keeps_modify) simp

lemma at_PushType [at_intros]: "keeps (tc_inv_at ls) (PushType t)"
  by (rule keepsI) (auto intro!: tc_inv_at_set_stack dest: tc_inv_at_top)

lemma at_PushTypes [at_intros]: "keeps (tc_inv_at ls) (PushTypes ts)"
  by (induction ts) (auto intro!: keeps_intros at_intros)

lemma at_DropTypes [at_intros]: "keeps (tc_inv_at ls) (DropTypes n)"
proof (cases "ls = []")
  case True
  then show ?thesis
    by (intro keepsI) (simp add: DropTypes_def TopLabel_def run_GetLabel tc_inv_at_def)
next
  case False
  show ?thesis
  proof (rule keepsI)
    fix s assume s: "tc_inv_at ls s"
    with False show "tc_inv_at ls (snd (run_state (DropTypes n) s))"
      using length_drop_stack [OF tc_inv_at_top [OF s False]]
      by (simp add: tc_inv_at_def tc_inv_set_stack)
  qed
qed

lemma at_PrintStackIfFailedV [at_intros]: "keeps (tc_inv_at ls) (PrintStackIfFailedV r d e i)"
  by (auto simp: PrintStackIfFailedV_def Let_def intro!: keeps_intros at_intros split: prod.splits)

lemma at_PrintStackIfFailed [at_intros]: "keeps (tc_inv_at ls) (PrintStackIfFailed r d e)"
  by (auto simp: PrintStackIfFailed_def intro!: keeps_intros at_intros)

lemma at_CheckTypeStackEnd [at_intros]: "keeps (tc_inv_at ls) (CheckTypeStackEnd d)"
  by (auto simp: CheckTypeStackEnd_def Let_def intro!: keeps_intros at_intros)

lemma at_CheckSignature_loop [at_intros]: "keeps (tc_inv_at ls) (CheckSignature_loop sig r)"
  by (induction sig arbitrary: r) (auto intro!: keeps_intros at_intros)

lemma at_CheckSignature [at_intros]: "keeps (tc_inv_at ls) (CheckSignature sig d)"
  by (auto simp: CheckSignature_def intro!: keeps_intros at_intros)

lemma at_CheckReturnSignature [at_intros]: "keeps (tc_inv_at ls) (CheckReturnSignature a e d)"
  by (auto simp: CheckReturnSignature_def Let_def intro!: keeps_intros at_intros)

lemma at_PopAndCheckSignature [at_intros]: "keeps (tc_inv_at ls) (PopAndCheckSignature sig d)"
  by (auto simp: PopAndCheckSignature_def intro!: keeps_intros at_intros)

lemma at_PopAndCheckCall [at_intros]: "keeps (tc_inv_at ls) (PopAndCheckCall ps rs d)"
  by (auto simp: PopAndCheckCall_def intro!: keeps_intros at_intros)

lemma at_PopAndCheckTypes [at_intros]:
  "keeps (tc_inv_at ls) (PopAndCheck1Type a d)"
  "keeps (tc_inv_at ls) (PopAndCheck2Types a b d)"
  "keeps (tc_inv_at ls) (PopAndCheck3Types a b c d)"
  by (auto simp: PopAndCheck1Type_def PopAndCheck2Types_def PopAndCheck3Types_def Let_def
      intro!: keeps_intros at_intros)

lemma at_CheckOpcode [at_intros]:
  "keeps (tc_inv_at ls) (CheckOpcode1 op l)"
  "keeps (tc_inv_at ls) (CheckOpcode2 op l)"
  "keeps (tc_inv_at ls) (CheckOpcode3 op l l' l'')"
  by (auto simp: CheckOpcode1_def CheckOpcode2_def CheckOpcode3_def intro!: keeps_intros at_intros)

subsection \<open>Actions that change the label stack\<close>

lemma keeps_at: "(\<And>ls. keeps (tc_inv_at ls) m) \<Longrightarrow> keeps tc_inv m"
  by (auto simp: keeps_def tc_inv_at_def)

lemma keeps_tc_inv_leads: "(\<And>ls. leads (tc_inv_at ls) m tc_inv) \<Longrightarrow> keeps tc_inv m"
  by (auto simp: keeps_def leads_def tc_inv_at_def)

lemma keeps_TopLabel_leads:
  assumes "\<And>ls. ls \<noteq> [] \<Longrightarrow> leads (tc_inv_at ls) (k (last ls)) tc_inv"
  shows "keeps tc_inv (CHECK_SOME TopLabel k)"
proof (rule keepsI)
  fix s assume "tc_inv s"
  with assms [of "label_stack s"] show "tc_inv (snd (run_state (CHECK_SOME TopLabel k) s))"
    by (cases "label_stack s = []")
      (auto simp: TopLabel_def run_GetLabel leads_def tc_inv_at_def at_depth_last)
qed

lemma leads_UpdateTop:
  "\<lbrakk>ls \<noteq> []; \<And>l. type_stack_limit (f l) = type_stack_limit l\<rbrakk> \<Longrightarrow>
     leads (tc_inv_at ls) (UpdateTop f) tc_inv"
  by (cases ls rule: rev_cases) (auto simp: leads_def tc_inv_at_def tc_inv_def)

lemma at_Reset: "ls \<noteq> [] \<Longrightarrow> keeps (tc_inv_at ls) (ResetTypeStackToLabel (last ls))"
  by (rule keepsI) (simp add: tc_inv_at_set_stack)

lemma at_Reset_label:
  "ls \<noteq> [] \<Longrightarrow> label = last ls \<Longrightarrow> keeps (tc_inv_at ls) (ResetTypeStackToLabel label)"
  by (simp add: at_Reset)

lemma leads_PopLabel: "leads (tc_inv_at ls) PopLabel tc_inv"
  by (cases ls rule: rev_cases) (auto simp: leads_def tc_inv_at_def tc_inv_def sorted_append)

lemma inv_PushLabel: "keeps tc_inv (PushLabel lt ps rs)"
  by (rule keepsI) (auto simp: tc_inv_def Label_def sorted_append)

lemma leads_exit_UpdateTop:
  "\<lbrakk>ls \<noteq> []; \<And>l. type_stack_limit (g l) = type_stack_limit l; \<And>x. keeps tc_inv (f x)\<rbrakk> \<Longrightarrow>
     leads (tc_inv_at ls) (State_Monad.bind (UpdateTop g) f) tc_inv"
  by (rule leads_exit [OF leads_UpdateTop])

lemma leads_exit_PopLabel:
  "(\<And>x. keeps tc_inv (f x)) \<Longrightarrow> leads (tc_inv_at ls) (State_Monad.bind PopLabel f) tc_inv"
  by (rule leads_exit [OF leads_PopLabel])

lemmas inv_ats = at_intros [THEN keeps_at]

lemmas leads_rules = keeps_TopLabel_leads leads_exit_UpdateTop leads_exit_PopLabel leads_keep
  at_intros at_Reset inv_ats keeps_bind keeps_return

named_theorems inv_intros \<open>actions that keep the stack invariant\<close>

lemma inv_SetUnreachable [inv_intros]: "keeps tc_inv SetUnreachable"
  unfolding SetUnreachable_def
proof (rule keeps_TopLabel_leads)
  fix ls :: "label list" assume "ls \<noteq> []"
  then show "leads (tc_inv_at ls) (do {
      UpdateTop (unreachable_update (\<lambda>_. True)); ResetTypeStackToLabel (last ls);
      State_Monad.return Ok }) tc_inv"
    by (cases ls rule: rev_cases) (auto simp: leads_def tc_inv_at_def tc_inv_def sorted_append)
qed

lemma inv_OnEndLabel: "ls \<noteq> [] \<Longrightarrow> leads (tc_inv_at ls) (OnEndLabel (last ls) d d') tc_inv"
  unfolding OnEndLabel_def by (rule leads_rules | assumption)+

lemma inv_OnElse [inv_intros]: "keeps tc_inv OnElse"
  unfolding OnElse_def Let_def by (rule leads_rules | assumption | simp)+

lemma inv_OnCatch [inv_intros]: "keeps tc_inv (OnCatch sig)"
  unfolding OnCatch_def Let_def by (rule leads_rules | assumption | simp)+

lemma inv_OnDelegate [inv_intros]: "keeps tc_inv (OnDelegate d)"
  unfolding OnDelegate_def Let_def
  by (rule keeps_CHECK_SOME, rule inv_ats) (rule leads_rules | assumption)+

lemma inv_OnEnd [inv_intros]: "keeps tc_inv OnEnd"
  unfolding OnEnd_def Let_def
  by (intro keeps_CHECK_SOME keeps_CHECK_RESULT inv_ats keeps_if inv_OnElse keeps_return
      keeps_TopLabel_leads inv_OnEndLabel)

lemma inv_EndFunction [inv_intros]: "keeps tc_inv EndFunction" "keeps tc_inv EndInitExpr"
  unfolding EndFunction_def EndInitExpr_def Let_def
  by (auto intro!: keeps_TopLabel_leads leads_exit inv_OnEndLabel keeps_return)

lemma inv_Begin [inv_intros]: "keeps tc_inv (BeginFunction sig)" "keeps tc_inv (BeginInitExpr t)"
  unfolding BeginFunction_def BeginInitExpr_def
  by (auto intro!: keeps_bind keeps_modify inv_PushLabel keeps_return simp: tc_inv_def)

lemma inv_blocks [inv_intros]:
  "keeps tc_inv (OnBlock ps rs)" "keeps tc_inv (OnLoop ps rs)"
  "keeps tc_inv (OnIf ps rs)" "keeps tc_inv (OnTry ps rs)"
  unfolding OnBlock_def OnLoop_def OnIf_def OnTry_def
  by (intro keeps_bind inv_ats inv_PushLabel keeps_return)+

lemmas inv_rules = keeps_intros inv_ats inv_intros

lemma inv_branches [inv_intros]:
  "keeps tc_inv (OnBr d)" "keeps tc_inv (OnBrIf d)" "keeps tc_inv BeginBrTable"
  "keeps tc_inv (OnBrTableTarget d)" "keeps tc_inv EndBrTable" "keeps tc_inv (OnRethrow d)"
  "keeps tc_inv (OnThrow ts)" "keeps tc_inv OnReturn" "keeps tc_inv OnUnreachable"
  unfolding OnBr_def OnBrIf_def BeginBrTable_def OnBrTableTarget_def EndBrTable_def OnRethrow_def
    OnThrow_def OnReturn_def OnUnreachable_def GetRethrowLabel_def GetThisFunctionLabel_def Let_def
  by (intro keeps_bind keeps_if keeps_case_option keeps_return keeps_gets keeps_CHECK_SOME
      keeps_CHECK_RESULT inv_ats inv_SetUnreachable)+

lemma inv_calls [inv_intros]:
  "keeps tc_inv (OnCall ps rs)" "keeps tc_inv (OnCallIndirect ps rs l)"
  "keeps tc_inv (OnReturnCall ps rs)" "keeps tc_inv (OnReturnCallIndirect ps rs)"
  unfolding OnCall_def OnCallIndirect_def OnReturnCall_def OnReturnCallIndirect_def
    GetThisFunctionLabel_def
  by (intro keeps_bind keeps_gets keeps_CHECK_SOME keeps_CHECK_RESULT inv_ats inv_SetUnreachable
      keeps_return)+

lemma inv_CheckLaneIndex [inv_intros]: "keeps tc_inv (CheckLaneIndex n i)"
  unfolding CheckLaneIndex_def by (intro keeps_if keeps_bind inv_ats keeps_return)

lemma inv_shuffle_loop [inv_intros]: "keeps tc_inv (shuffle_loop bs r)"
  by (induction bs arbitrary: r) (auto intro!: keeps_bind inv_ats keeps_return)

lemma inv_OnIndexedFuncRef [inv_intros]: "keeps tc_inv OnIndexedFuncRef"
  unfolding OnIndexedFuncRef_def Let_def
  by (auto intro!: keeps_bind keeps_if inv_ats keeps_return split: prod.splits)

lemma inv_OnRefIsNullExpr [inv_intros]: "keeps tc_inv OnRefIsNullExpr"
  unfolding OnRefIsNullExpr_def Let_def
  by (auto intro!: keeps_bind keeps_if inv_ats keeps_return split: prod.splits)

lemma inv_OnSelect [inv_intros]: "keeps tc_inv (OnSelect ts)"
  unfolding OnSelect_def Let_def
  by (auto intro!: keeps_bind keeps_if inv_ats keeps_return split: prod.splits)

lemma inv_GetLabels [inv_intros]:
  "keeps tc_inv (GetLabel d)" "keeps tc_inv (GetRethrowLabel d)" "keeps tc_inv (GetCatchCount d)"
  unfolding GetRethrowLabel_def GetCatchCount_def
  by (intro keeps_bind keeps_if keeps_case_option keeps_return keeps_gets inv_ats)+

lemma inv_tc_action: "keeps tc_inv (tc_action c)"
proof -
  note rules = keeps_bind keeps_if keeps_case_option keeps_return keeps_gets inv_ats inv_intros
  have ret: "keeps tc_inv m \<Longrightarrow> keeps tc_inv (returning m)" for m
    unfolding returning_def by (intro rules)
  have yields: "keeps tc_inv m \<Longrightarrow> keeps tc_inv (yields m)" for m :: "'a option tc"
    unfolding yields_def by (intro rules)
  show ?thesis
  proof (cases c)
    case (MemCall k op l)
    then show ?thesis
      by (cases k) (simp_all, unfold OnAtomicLoad_def OnAtomicNotify_def OnAtomicStore_def
          OnAtomicRmw_def OnAtomicRmwCmpxchg_def OnAtomicWait_def OnLoad_def OnStore_def,
          (intro ret rules)+)
  next
    case (OpCall k op)
    then show ?thesis
      by (cases k) (simp_all, unfold OnBinary_def OnCompare_def OnConvert_def OnTernary_def
          OnUnary_def, (intro ret rules)+)
  next
    case (TypeCall k t)
    then show ?thesis
      by (cases k) (simp_all, unfold OnConst_def OnGlobalGet_def OnGlobalSet_def OnLocalGet_def
          OnLocalSet_def OnLocalTee_def OnRefNullExpr_def, (intro ret rules)+)
  next
    case (LimitsCall k l)
    then show ?thesis
      by (cases k) (simp_all, unfold OnMemoryFill_def OnMemoryGrow_def OnMemorySize_def
          OnTableSize_def, (intro ret rules)+)
  next
    case (CopyCall k l l')
    then show ?thesis
      by (cases k) (simp_all, unfold OnMemoryCopy_def OnTableCopy_def, (intro ret rules)+)
  next
    case (SegmentCall k i l)
    then show ?thesis
      by (cases k) (simp_all, unfold OnMemoryInit_def OnTableInit_def OnDataDrop_def
          OnElemDrop_def, (intro ret rules)+)
  next
    case (TableCall k t l)
    then show ?thesis
      by (cases k) (simp_all, unfold OnTableGet_def OnTableSet_def OnTableGrow_def
          OnTableFill_def, (intro ret rules)+)
  next
    case (BlockCall k ps rs)
    then show ?thesis by (cases k) (simp_all, (intro ret inv_blocks inv_calls)+)
  next
    case (CallIndirectCall ps rs l)
    then show ?thesis by (simp add: ret inv_calls)
  next
    case (SigCall k ts)
    then show ?thesis by (cases k) (simp_all add: ret inv_intros)
  next
    case (DepthCall k d)
    then show ?thesis by (cases k) (simp_all add: ret yields inv_intros)
  next
    case (PlainCall k)
    then show ?thesis
      by (cases k) (simp_all add: ret inv_intros, unfold OnDrop_def case_prod_beta,
          (intro ret rules)+)
  next
    case (LaneCall k op l lane)
    then show ?thesis
      by (cases k) (simp_all, unfold OnSimdLaneOp_def OnSimdLoadLane_def OnSimdStoreLane_def,
          (intro rules)+)
  next
    case (ShuffleCall op lanes)
    then show ?thesis by (simp, unfold OnSimdShuffleOp_def, intro ret rules)
  next
    case (RefFuncCall i force)
    then show ?thesis by (simp, unfold OnRefFuncExpr_def, intro ret rules)
  next
    case (AtomicFenceCall m)
    then show ?thesis by (simp, unfold OnAtomicFence_def, intro ret rules)
  qed
qed

interpretation tc_sys: step_system tc_step tc_inv
  by unfold_locales (simp add: tc_step_def keepsD [OF inv_tc_action])

lemma tc_inv_init: "tc_inv (TypeChecker f)"
  by (simp add: tc_inv_def TypeChecker_def)

text \<open>
  C5. Whatever calls the type checker receives, in whatever order and with whatever outcome, the
  limits of its labels stay sorted and the type stack is never shorter than the top label's limit:
  no index into the type stack is out of range and no \<open>resize\<close> lengthens it.
\<close>

theorem type_checker_stack_invariant:
  "tc_inv (snd (runs tc_step calls (TypeChecker f)))"
  by (rule tc_sys.runs_inv [OF tc_inv_init])

section \<open>Operands above the limit\<close>

text \<open>
  The type stack is a base of \<open>type_stack_limit\<close> types that the current block cannot touch and the
  operands of the block. On the operands, a signature check compares the types from the top down;
  below the operands everything matches if the label is unreachable, and nothing does otherwise.
\<close>

definition matches :: "wtype \<Rightarrow> wtype \<Rightarrow> bool" where
  "matches actual expected \<longleftrightarrow> CheckType actual expected = Ok"

definition pop_ok :: "bool \<Rightarrow> type_vector \<Rightarrow> type_vector \<Rightarrow> bool" where
  "pop_ok u vs sig \<longleftrightarrow>
     (if length sig \<le> length vs then list_all2 matches (drop (length vs - length sig) vs) sig
      else u \<and> list_all2 matches vs (drop (length sig - length vs) sig))"

definition pop_rest :: "type_vector \<Rightarrow> nat \<Rightarrow> type_vector" where
  "pop_rest vs n = take (length vs - n) vs"

lemma CheckType_Any [simp]: "CheckType AnyTy t = Ok" "CheckType t AnyTy = Ok"
  by (simp_all add: CheckType_def type_eq_def)

lemma matches_Any [simp]: "matches AnyTy t" "matches t AnyTy"
  by (simp_all add: matches_def)

lemma peek_check_operand:
  "\<lbrakk>type_stack_limit l = length base; d < length vs\<rbrakk> \<Longrightarrow>
     peek_check l (base @ vs) d t = CheckType (at_depth vs d) t"
  by (simp add: peek_check_def peek_def)

lemma peek_check_below:
  "\<lbrakk>type_stack_limit l = length base; length vs \<le> d\<rbrakk> \<Longrightarrow>
     peek_check l (base @ vs) d t = ok_if (unreachable l)"
  by (simp add: peek_check_def peek_def)

lemma sig_result_iff:
  assumes "type_stack_limit l = length base"
  shows "sig_result l (base @ vs) sig = Ok \<longleftrightarrow> pop_ok (unreachable l) vs sig"
proof (induction sig)
  case Nil
  then show ?case by (simp add: pop_ok_def)
next
  case (Cons t ts)
  show ?case
  proof (cases "length ts < length vs")
    case True
    then have d: "drop (length vs - Suc (length ts)) vs =
        at_depth vs (length ts) # drop (length vs - length ts) vs"
      using Cons_nth_drop_Suc [of "length vs - Suc (length ts)" vs]
      by (simp add: at_depth_def Suc_diff_Suc)
    with True Cons.IH show ?thesis
      by (auto simp: peek_check_operand [OF assms] pop_ok_def matches_def)
  next
    case False
    with Cons.IH show ?thesis
      by (cases "length ts = length vs") (auto simp: peek_check_below [OF assms] pop_ok_def Suc_diff_le)
  qed
qed

lemma drop_result_iff:
  "type_stack_limit l = length base \<Longrightarrow>
     drop_result l (base @ vs) n = Ok \<longleftrightarrow> n \<le> length vs \<or> unreachable l"
  by (simp add: drop_result_def)

lemma pop_ok_length: "pop_ok u vs sig \<Longrightarrow> length sig \<le> length vs \<or> u"
  by (auto simp: pop_ok_def split: if_splits)

lemma drop_stack_operands:
  "type_stack_limit l = length base \<Longrightarrow>
     drop_stack l (base @ vs) n = base @ pop_rest vs n"
  by (auto simp: drop_stack_def pop_rest_def resize_def)

text \<open>
  C9. \<open>PopAndCheckSignature\<close> in full: on a stack of operands \<open>vs\<close> above the top label's limit it
  succeeds exactly when the operands match the signature, it removes as many operands as the
  signature has (or all there are), leaves everything below the limit and all labels alone, and
  reports one error when the check fails and none when it succeeds.
\<close>

theorem PopAndCheckSignature_operands:
  assumes "label_stack s \<noteq> []" and "type_stack s = base @ vs"
    and "length base = type_stack_limit (last (label_stack s))"
  shows "\<exists>es. run_state (PopAndCheckSignature sig desc) s =
    (ok_if (pop_ok (unreachable (last (label_stack s))) vs sig),
     s\<lparr>type_stack := base @ take (length vs - length sig) vs, tc_errors := tc_errors s @ es\<rparr>) \<and>
    length es = (if pop_ok (unreachable (last (label_stack s))) vs sig then 0 else 1)"
proof -
  let ?l = "last (label_stack s)"
  have l: "type_stack_limit ?l = length base" using assms(3) by simp
  have r: "sig_result ?l (base @ vs) sig = ok_if (pop_ok (unreachable ?l) vs sig)"
    using sig_result_iff [OF l, of vs sig] by (cases "pop_ok (unreachable ?l) vs sig") auto
  have "result_or (ok_if (pop_ok (unreachable ?l) vs sig)) (drop_result ?l (base @ vs) (length sig))
      = ok_if (pop_ok (unreachable ?l) vs sig)"
    using drop_result_iff [OF l, of vs "length sig"] pop_ok_length [of "unreachable ?l" vs sig]
    by (cases "pop_ok (unreachable ?l) vs sig") auto
  then show ?thesis
    using assms(1,2) drop_stack_operands [OF l]
    by (auto simp: r Let_def pop_rest_def mismatch_def)
qed

theorem PopAndCheckSignature_operands_witness:
  "\<exists>es. run_state (PopAndCheckSignature [I32] text_block)
     (snd (run_state (PushType I64) (snd (run_state (BeginFunction []) (TypeChecker default_features))))) =
       (Error, snd (run_state (BeginFunction []) (TypeChecker default_features))\<lparr>tc_errors := es\<rparr>) \<and> length es = 1"
  using PopAndCheckSignature_operands
      [of "snd (run_state (PushType I64) (snd (run_state (BeginFunction []) (TypeChecker default_features))))" "[]" "[I64]"
        "[I32]" text_block]
  by (simp add: BeginFunction_def TypeChecker_def push_types_def type_eq_def Label_def pop_ok_def
      matches_def CheckType_def IsReferenceWithIndex_def)

section \<open>One signature check behind every form\<close>

lemma result_or_commute: "result_or a b = result_or b a"
  by (auto simp: result_or_def)

text \<open>
  The checks of one, two and three types agree with the signature check, except for the order in
  which they combine the results.
\<close>

lemma run_PopAndCheck1Type [simp]:
  "label_stack s \<noteq> [] \<Longrightarrow>
     run_state (PopAndCheck1Type t d) s = run_state (PopAndCheckSignature [t] d) s"
  by (simp add: PopAndCheck1Type_def Let_def)

lemma run_PopAndCheck2Types [simp]:
  "label_stack s \<noteq> [] \<Longrightarrow>
     run_state (PopAndCheck2Types t1 t2 d) s = run_state (PopAndCheckSignature [t1, t2] d) s"
  by (simp add: PopAndCheck2Types_def Let_def result_or_commute [of "peek_check _ _ 0 _"] numeral_2_eq_2)

lemma run_PopAndCheck3Types [simp]:
  "label_stack s \<noteq> [] \<Longrightarrow>
     run_state (PopAndCheck3Types t1 t2 t3 d) s = run_state (PopAndCheckSignature [t1, t2, t3] d) s"
proof -
  have "result_or (result_or a b) c = result_or c (result_or b a)" for a b c
    by (metis result_or_commute)
  then show "label_stack s \<noteq> [] \<Longrightarrow> ?thesis"
    by (simp add: PopAndCheck3Types_def Let_def numeral_3_eq_3 numeral_2_eq_2)
qed

lemma run_PopAndCheckCall [simp]:
  "label_stack s \<noteq> [] \<Longrightarrow>
     run_state (PopAndCheckCall ps rs d) s =
       (let (r, s') = run_state (PopAndCheckSignature ps d) s
        in (r, s'\<lparr>type_stack := type_stack s' @ push_types rs\<rparr>))"
  by (simp add: PopAndCheckCall_def Let_def)

lemma run_CheckOpcode:
  assumes "label_stack s \<noteq> []"
  shows "run_state (CheckOpcode1 op l1) s =
           run_state (PopAndCheckCall [GetMemoryParam (GetParamType1 op) l1]
             [GetResultType op] (DescOpcode op)) s"
    and "run_state (CheckOpcode2 op l1) s =
           run_state (PopAndCheckCall [GetMemoryParam (GetParamType1 op) l1, GetParamType2 op]
             [GetResultType op] (DescOpcode op)) s"
    and "run_state (CheckOpcode3 op l1 l2 l3) s =
           run_state (PopAndCheckCall [GetMemoryParam (GetParamType1 op) l1,
             GetMemoryParam (GetParamType2 op) l2, GetMemoryParam (GetParamType3 op) l3]
             [GetResultType op] (DescOpcode op)) s"
  using assms by (simp_all add: CheckOpcode1_def CheckOpcode2_def CheckOpcode3_def case_prod_beta
      del: run_PopAndCheckSignature)

section \<open>The signature of a call\<close>

text \<open>
  Most calls only pop the types of a signature and push the types of another. \<open>call_sig\<close> is that
  pair of signatures; the other calls (control flow, \<open>select\<close>, \<open>drop\<close>, \<open>ref.is_null\<close> and
  \<open>call_ref\<close>) depend on the labels or on the operands.
\<close>

fun mem_params :: "mem_call \<Rightarrow> opcode \<Rightarrow> limits \<Rightarrow> type_vector" where
  "mem_params k op l =
     (if k \<in> {KAtomicLoad, KLoad} then [IndexType l]
      else if k \<in> {KAtomicRmwCmpxchg, KAtomicWait} then [IndexType l, GetParamType2 op, GetParamType3 op]
      else [IndexType l, GetParamType2 op])"

fun op_params :: "op_call \<Rightarrow> opcode \<Rightarrow> type_vector" where
  "op_params k op =
     (if k \<in> {KConvert, KUnary} then [GetParamType1 op]
      else if k = KTernary then [GetParamType1 op, GetParamType2 op, GetParamType3 op]
      else [GetParamType1 op, GetParamType2 op])"

fun call_sig :: "features \<Rightarrow> tc_call \<Rightarrow> (type_vector \<times> type_vector) option" where
  "call_sig f (MemCall k op l) = Some (mem_params k op l, [GetResultType op])"
| "call_sig f (OpCall k op) = Some (op_params k op, [GetResultType op])"
| "call_sig f (TypeCall k t) =
     (if k \<in> {KConst, KGlobalGet, KLocalGet, KRefNullExpr} then Some ([], [t])
      else if k \<in> {KGlobalSet, KLocalSet} then Some ([t], [])
      else if k = KLocalTee then Some ([t], [t])
      else None)"
| "call_sig f (LimitsCall k l) =
     Some (if k = KMemoryFill then [IndexType l, GetParamType2 Op_MemoryFill, IndexType l]
           else if k = KMemoryGrow then [IndexType l] else [],
           if k = KMemoryFill then [GetResultType Op_MemoryFill] else [IndexType l])"
| "call_sig f (CopyCall k dst src) =
     Some ([IndexType dst, IndexType src, IndexType (copy_size_limits dst src)],
           [GetResultType (if k = KMemoryCopy then Op_MemoryCopy else Op_TableCopy)])"
| "call_sig f (SegmentCall k i l) =
     (if k = KMemoryInit
      then Some ([IndexType l, GetParamType2 Op_MemoryInit, GetParamType3 Op_MemoryInit],
                 [GetResultType Op_MemoryInit])
      else if k = KTableInit
      then Some ([IndexType l, GetParamType2 Op_TableInit, GetParamType3 Op_TableInit],
                 [GetResultType Op_TableInit])
      else Some ([], []))"
| "call_sig f (TableCall k t l) =
     Some (if k = KTableGet then [IndexType l]
           else if k = KTableSet then [IndexType l, t]
           else if k = KTableGrow then [t, IndexType l]
           else [IndexType l, t, IndexType l],
           if k = KTableGet then [GetResultType Op_TableGet, t]
           else if k = KTableGrow then [IndexType l] else [])"
| "call_sig f (BlockCall k ps rs) = (if k = KCall then Some (ps, rs) else None)"
| "call_sig f (CallIndirectCall ps rs l) = Some (ps @ [IndexType l], rs)"
| "call_sig f (RefFuncCall i force) =
     Some ([], [if function_references_enabled f \<and> \<not> force then Reference i else FuncRef])"
| "call_sig f (AtomicFenceCall m) = Some ([], [])"
| "call_sig f (ShuffleCall op lanes) = Some ([GetParamType1 op, GetParamType2 op], [GetResultType op])"
| "call_sig f (LaneCall k op l lane) =
     Some (if k = KSimdLaneOp
           then [GetParamType1 op] @ (if op \<in> {Op_I8X16ReplaceLane, Op_I16X8ReplaceLane,
             Op_I32X4ReplaceLane, Op_F32X4ReplaceLane, Op_I64X2ReplaceLane, Op_F64X2ReplaceLane}
             then [GetParamType2 op] else [])
           else [IndexType l, GetParamType2 op],
           [GetResultType op])"
| "call_sig f (SigCall k ts) = None"
| "call_sig f (DepthCall k d) = None"
| "call_sig f (PlainCall k) = None"

text \<open>The lane operands a call must have besides its operand types.\<close>

fun lanes_ok :: "tc_call \<Rightarrow> bool" where
  "lanes_ok (ShuffleCall op lanes) \<longleftrightarrow> (\<forall>b \<in> set lanes. b < 32)"
| "lanes_ok (LaneCall k op l lane) \<longleftrightarrow>
     (case GetSimdLaneCount op of None \<Rightarrow> False | Some n \<Rightarrow> lane < ucast n) \<and>
     (k = KSimdLaneOp \<longrightarrow>
        op \<in> {Op_I8X16ExtractLaneS, Op_I8X16ExtractLaneU, Op_I16X8ExtractLaneS,
          Op_I16X8ExtractLaneU, Op_I32X4ExtractLane, Op_F32X4ExtractLane,
          Op_I64X2ExtractLane, Op_F64X2ExtractLane, Op_I8X16ReplaceLane, Op_I16X8ReplaceLane,
          Op_I32X4ReplaceLane, Op_F32X4ReplaceLane, Op_I64X2ReplaceLane, Op_F64X2ReplaceLane})"
| "lanes_ok c \<longleftrightarrow> True"

text \<open>
  \<open>stacked s base vs\<close>: there is a label, and the operands above its limit are \<open>vs\<close>.
  \<open>checks m P ps rs\<close>: from such a state the action succeeds exactly if \<open>P\<close> holds and the operands
  match \<open>ps\<close>, and then it only replaces them by \<open>rs\<close>.
\<close>

definition stacked :: "type_checker \<Rightarrow> type_vector \<Rightarrow> type_vector \<Rightarrow> bool" where
  "stacked s base vs \<longleftrightarrow>
     label_stack s \<noteq> [] \<and> type_stack s = base @ vs \<and> type_stack_limit (top_label s) = length base"

definition checks :: "result tc \<Rightarrow> bool \<Rightarrow> features \<Rightarrow> type_vector \<Rightarrow> type_vector \<Rightarrow> bool" where
  "checks m P f ps rs \<longleftrightarrow> (\<forall>s base vs. stacked s base vs \<longrightarrow> tc_features s = f \<longrightarrow>
     (fst (run_state m s) = Ok \<longleftrightarrow> P \<and> pop_ok (unreachable (top_label s)) vs ps) \<and>
     (fst (run_state m s) = Ok \<longrightarrow>
        snd (run_state m s) = s\<lparr>type_stack := base @ pop_rest vs (length ps) @ push_types rs\<rparr>))"

lemma pop_ok_Nil [simp]: "pop_ok u vs []"
  by (simp add: pop_ok_def)

lemma pop_rest_0 [simp]: "pop_rest vs 0 = vs"
  by (simp add: pop_rest_def)

lemma pop_rest_pop_rest [simp]: "pop_rest (pop_rest vs n) m = pop_rest vs (m + n)"
  by (auto simp: pop_rest_def add.commute)

lemma pop_ok_append: "pop_ok u vs (as @ bs) \<longleftrightarrow> pop_ok u vs bs \<and> pop_ok u (pop_rest vs (length bs)) as"
proof (cases "length bs \<le> length vs")
  case True
  define xs ys where "xs = take (length vs - length bs) vs" and "ys = drop (length vs - length bs) vs"
  with True have vs: "vs = xs @ ys" "length ys = length bs" by simp_all
  show ?thesis
  proof (cases "length as \<le> length xs")
    case True
    with vs show ?thesis by (auto simp: pop_ok_def pop_rest_def list_all2_append)
  next
    case False
    have "list_all2 matches (xs @ ys) (drop (length as - length xs) as @ bs) \<longleftrightarrow>
        list_all2 matches xs (drop (length as - length xs) as) \<and> list_all2 matches ys bs"
      using vs False by (intro list_all2_append) simp
    with vs False show ?thesis by (auto simp: pop_ok_def pop_rest_def)
  qed
next
  case False
  then show ?thesis by (auto simp: pop_ok_def pop_rest_def)
qed

lemma checks_PopAndCheckSignature: "checks (PopAndCheckSignature ps d) True f ps []"
  unfolding checks_def
proof (intro allI impI)
  fix s base vs
  assume s: "stacked s base vs"
  then have l: "type_stack_limit (top_label s) = length base" by (simp add: stacked_def)
  show "(fst (run_state (PopAndCheckSignature ps d) s) = Ok \<longleftrightarrow>
      True \<and> pop_ok (unreachable (top_label s)) vs ps) \<and>
      (fst (run_state (PopAndCheckSignature ps d) s) = Ok \<longrightarrow>
        snd (run_state (PopAndCheckSignature ps d) s) =
          s\<lparr>type_stack := base @ pop_rest vs (length ps) @ push_types []\<rparr>)"
    using s sig_result_iff [OF l, of vs ps] drop_result_iff [OF l, of vs "length ps"]
      pop_ok_length [of "unreachable (top_label s)" vs ps] drop_stack_operands [OF l, of vs]
    by (auto simp: stacked_def Let_def)
qed

lemma checks_PopAndCheckCall: "checks (PopAndCheckCall ps rs d) True f ps rs"
  using checks_PopAndCheckSignature [of ps d f]
  by (auto simp: checks_def stacked_def case_prod_beta simp del: run_PopAndCheckSignature)

lemma checksI:
  "(\<And>s. label_stack s \<noteq> [] \<Longrightarrow> tc_features s = f \<Longrightarrow> run_state m s = run_state (PopAndCheckCall ps rs d) s) \<Longrightarrow>
     checks m True f ps rs"
  using checks_PopAndCheckCall [of ps rs d f] by (simp add: checks_def stacked_def)

lemma checks_CheckOpcode:
  "checks (CheckOpcode1 op l1) True f [GetMemoryParam (GetParamType1 op) l1] [GetResultType op]"
  "checks (CheckOpcode2 op l1) True f [GetMemoryParam (GetParamType1 op) l1, GetParamType2 op]
     [GetResultType op]"
  "checks (CheckOpcode3 op l1 l2 l3) True f [GetMemoryParam (GetParamType1 op) l1,
     GetMemoryParam (GetParamType2 op) l2, GetMemoryParam (GetParamType3 op) l3] [GetResultType op]"
  by (rule checksI, erule run_CheckOpcode)+

lemma checks_pop:
  "checks (PopAndCheck1Type t d) True f [t] []"
  "checks (PopAndCheck2Types t t' d) True f [t, t'] []"
  "checks (PopAndCheck3Types t t' t'' d) True f [t, t', t''] []"
  using checks_PopAndCheckSignature [of "[t]" d f] checks_PopAndCheckSignature [of "[t, t']" d f]
    checks_PopAndCheckSignature [of "[t, t', t'']" d f]
  by (auto simp: checks_def stacked_def simp del: run_PopAndCheckSignature)

text \<open>Two checks in a row, the second of what lies below the first.\<close>

lemma checks_seq:
  assumes m: "checks m P f bs []" and n: "checks n Q f as rs"
  shows "checks (do { r \<leftarrow> m; r' \<leftarrow> n; State_Monad.return (result_or r r') }) (P \<and> Q) f (as @ bs) rs"
  unfolding checks_def
proof (intro allI impI)
  fix s base vs
  let ?u = "unreachable (top_label s)"
  let ?s' = "s\<lparr>type_stack := base @ pop_rest vs (length bs)\<rparr>"
  assume s: "stacked s base vs" "tc_features s = f"
  with m have 1: "fst (run_state m s) = Ok \<longleftrightarrow> P \<and> pop_ok ?u vs bs"
    "fst (run_state m s) = Ok \<Longrightarrow> snd (run_state m s) = ?s'"
    unfolding checks_def by auto
  from s have "stacked ?s' base (pop_rest vs (length bs))" "tc_features ?s' = f"
    by (simp_all add: stacked_def)
  with n have 2: "fst (run_state n ?s') = Ok \<longleftrightarrow> Q \<and> pop_ok ?u (pop_rest vs (length bs)) as"
    "fst (run_state n ?s') = Ok \<Longrightarrow>
       snd (run_state n ?s') = s\<lparr>type_stack := base @ pop_rest vs (length (as @ bs)) @ push_types rs\<rparr>"
    unfolding checks_def by auto
  show "(fst (run_state (do { r \<leftarrow> m; r' \<leftarrow> n; State_Monad.return (result_or r r') }) s) = Ok \<longleftrightarrow>
      (P \<and> Q) \<and> pop_ok ?u vs (as @ bs)) \<and>
      (fst (run_state (do { r \<leftarrow> m; r' \<leftarrow> n; State_Monad.return (result_or r r') }) s) = Ok \<longrightarrow>
      snd (run_state (do { r \<leftarrow> m; r' \<leftarrow> n; State_Monad.return (result_or r r') }) s) =
        s\<lparr>type_stack := base @ pop_rest vs (length (as @ bs)) @ push_types rs\<rparr>)"
    using 1 2 by (cases "fst (run_state m s)") (auto simp: case_prod_beta pop_ok_append)
qed

lemma push_types_append [simp]: "push_types (xs @ ys) = push_types xs @ push_types ys"
  by (simp add: push_types_def)

lemma checks_push:
  "checks m P f ps rs \<Longrightarrow>
     checks (do { r \<leftarrow> m; PushType t; State_Monad.return r }) P f ps (rs @ [t])"
  unfolding checks_def by (auto simp: case_prod_beta)

lemma checks_push_only: "checks (do { PushType t; State_Monad.return Ok }) True f [] [t]"
  by (auto simp: checks_def stacked_def)

lemma checks_return: "checks (State_Monad.return Ok) True f [] []"
  by (auto simp: checks_def stacked_def)

lemma checks_CheckLaneIndex: "checks (CheckLaneIndex n i) (i < ucast n) f [] []"
  by (auto simp: checks_def stacked_def CheckLaneIndex_def not_less)

lemma checks_shuffle_loop: "checks (shuffle_loop bs r) (r = Ok \<and> (\<forall>b \<in> set bs. b < 32)) f [] []"
proof (induction bs arbitrary: r)
  case (Cons b bs)
  have err: "fst (run_state (shuffle_loop bs Error) s) = Error" for s
  proof -
    have "fst (run_state (shuffle_loop bs Error) s') = Error" for s'
      by (induction bs arbitrary: s') simp_all
    then show ?thesis .
  qed
  show ?case
    using Cons [of r] by (auto simp: checks_def err not_le)
qed (auto simp: checks_def stacked_def)

lemma checks_mem: "checks (mem_action k op l) True f (mem_params k op l) [GetResultType op]"
  using checks_CheckOpcode(1,2) [of op "Some l" f] checks_CheckOpcode(3) [of op "Some l" None None f]
  by (cases k) (simp_all add: GetMemoryParam_def OnAtomicLoad_def OnAtomicNotify_def OnAtomicStore_def
      OnAtomicRmw_def OnAtomicRmwCmpxchg_def OnAtomicWait_def OnLoad_def OnStore_def)

lemma checks_op: "checks (op_action k op) True f (op_params k op) [GetResultType op]"
  using checks_CheckOpcode(1,2) [of op None f] checks_CheckOpcode(3) [of op None None None f]
  by (cases k) (simp_all add: GetMemoryParam_def OnBinary_def OnCompare_def OnConvert_def
      OnTernary_def OnUnary_def)

lemma checks_type:
  "call_sig f (TypeCall k t) = Some (ps, rs) \<Longrightarrow> checks (type_action k t) True f ps rs"
  using checks_push_only [of t f] checks_pop(1) [of t _ f]
    checks_push [OF checks_pop(1) [of t "DescText ''local.tee''" f], of t]
  by (cases k) (auto simp: OnConst_def OnGlobalGet_def OnGlobalSet_def OnLocalGet_def OnLocalSet_def
      OnLocalTee_def OnRefNullExpr_def)

lemma checks_limits:
  "call_sig f (LimitsCall k l) = Some (ps, rs) \<Longrightarrow> checks (limits_action k l) True f ps rs"
  using checks_push_only [of "IndexType l" f]
    checks_push [OF checks_pop(1) [of "IndexType l" "DescText ''memory.grow''" f], of "IndexType l"]
    checks_CheckOpcode(3) [of Op_MemoryFill "Some l" None "Some l" f]
  by (cases k) (auto simp: OnMemoryFill_def OnMemoryGrow_def OnMemorySize_def OnTableSize_def
      GetMemoryParam_def)

lemma checks_copy:
  "call_sig f (CopyCall k dst src) = Some (ps, rs) \<Longrightarrow> checks (copy_action k dst src) True f ps rs"
  using checks_CheckOpcode(3) [of _ "Some dst" "Some src" "Some (copy_size_limits dst src)" f]
  by (cases k) (auto simp: OnMemoryCopy_def OnTableCopy_def GetMemoryParam_def)

lemma checks_segment:
  "call_sig f (SegmentCall k i l) = Some (ps, rs) \<Longrightarrow> checks (segment_action k i l) True f ps rs"
  using checks_CheckOpcode(3) [of _ "Some l" None None f] checks_return [of f]
  by (cases k) (auto simp: OnMemoryInit_def OnTableInit_def OnDataDrop_def OnElemDrop_def
      GetMemoryParam_def)

lemma checks_table:
  "call_sig f (TableCall k t l) = Some (ps, rs) \<Longrightarrow> checks (table_action k t l) True f ps rs"
  using checks_push [OF checks_CheckOpcode(1) [of Op_TableGet "Some l" f], of t]
    checks_pop(2) [of "IndexType l" t _ f] checks_pop(3) [of "IndexType l" t "IndexType l" _ f]
    checks_push [OF checks_pop(2) [of t "IndexType l" "DescText ''table.grow''" f], of "IndexType l"]
  by (cases k) (auto simp: OnTableGet_def OnTableSet_def OnTableGrow_def OnTableFill_def
      GetMemoryParam_def)

lemma checks_call_indirect: "checks (OnCallIndirect ps rs l) True f (ps @ [IndexType l]) rs"
  using checks_seq [OF checks_pop(1) [of "IndexType l"] checks_PopAndCheckCall [of ps rs]]
  by (simp add: OnCallIndirect_def IndexType_def)

lemma checks_ref_func:
  "checks (OnRefFuncExpr i force) True f []
     [if function_references_enabled f \<and> \<not> force then Reference i else FuncRef]"
  using checks_push_only [of "if function_references_enabled f \<and> \<not> force then Reference i else FuncRef" f]
  by (auto simp: OnRefFuncExpr_def checks_def)

lemma checks_shuffle:
  "checks (OnSimdShuffleOp op lanes) (\<forall>b \<in> set lanes. b < 32) f
     [GetParamType1 op, GetParamType2 op] [GetResultType op]"
  using checks_seq [OF checks_shuffle_loop [of lanes Ok] checks_CheckOpcode(2) [of op None f]]
  by (simp add: OnSimdShuffleOp_def GetMemoryParam_def)

text \<open>The same for the lane operations, which may also be \<open>WABT_UNREACHABLE\<close>.\<close>

definition option_checks ::
  "result option tc \<Rightarrow> bool \<Rightarrow> features \<Rightarrow> type_vector \<Rightarrow> type_vector \<Rightarrow> bool" where
  "option_checks m P f ps rs \<longleftrightarrow> (\<forall>s base vs. stacked s base vs \<longrightarrow> tc_features s = f \<longrightarrow>
     (fst (run_state m s) = Some Ok \<longleftrightarrow> P \<and> pop_ok (unreachable (top_label s)) vs ps) \<and>
     (fst (run_state m s) = Some Ok \<longrightarrow>
        snd (run_state m s) = s\<lparr>type_stack := base @ pop_rest vs (length ps) @ push_types rs\<rparr>))"

lemma option_checks_returning: "checks m P f ps rs \<Longrightarrow> option_checks (returning m) P f ps rs"
  by (simp add: checks_def option_checks_def returning_def case_prod_beta)

lemma option_checks_some:
  "checks (do { r \<leftarrow> m; r' \<leftarrow> n; State_Monad.return (result_or r r') }) P f ps rs \<Longrightarrow>
     option_checks (do { r \<leftarrow> m; r' \<leftarrow> n; State_Monad.return (Some (result_or r r')) }) P f ps rs"
  by (simp add: checks_def option_checks_def case_prod_beta)

lemma option_checks_none:
  "\<not> P \<Longrightarrow> (\<And>s. fst (run_state m s) = None) \<Longrightarrow> option_checks m P f ps rs"
  by (simp add: option_checks_def)

lemma checks_lane:
  "call_sig f (LaneCall k op l lane) = Some (ps, rs) \<Longrightarrow>
     option_checks (lane_action k op l lane) (lanes_ok (LaneCall k op l lane)) f ps rs"
proof (cases "GetSimdLaneCount op")
  case None
  then show ?thesis
    by (cases k) (auto simp: OnSimdLaneOp_def OnSimdLoadLane_def OnSimdStoreLane_def
        intro!: option_checks_none)
next
  case (Some n)
  note lane = option_checks_some [OF checks_seq [OF checks_CheckLaneIndex [of n lane f]]]
  assume sg: "call_sig f (LaneCall k op l lane) = Some (ps, rs)"
  show ?thesis
  proof (cases k)
    case KSimdLaneOp
    let ?getlane = "{Op_I8X16ExtractLaneS, Op_I8X16ExtractLaneU, Op_I16X8ExtractLaneS,
        Op_I16X8ExtractLaneU, Op_I32X4ExtractLane, Op_F32X4ExtractLane, Op_I64X2ExtractLane,
        Op_F64X2ExtractLane}"
    let ?replace = "{Op_I8X16ReplaceLane, Op_I16X8ReplaceLane, Op_I32X4ReplaceLane,
        Op_F32X4ReplaceLane, Op_I64X2ReplaceLane, Op_F64X2ReplaceLane}"
    consider (extr) "op \<in> ?getlane" | (repl) "op \<in> ?replace"
      | (other) "\<not> lanes_ok (LaneCall KSimdLaneOp op l lane)" "op \<notin> ?getlane" "op \<notin> ?replace"
      by auto
    then show ?thesis
    proof cases
      case extr
      then have "ps = [GetParamType1 op]" "rs = [GetResultType op]" using sg KSimdLaneOp by auto
      with extr KSimdLaneOp Some lane [OF checks_CheckOpcode(1) [of op None f]] show ?thesis
        by (auto simp: OnSimdLaneOp_def GetMemoryParam_def)
    next
      case repl
      then have "ps = [GetParamType1 op, GetParamType2 op]" "rs = [GetResultType op]"
        using sg KSimdLaneOp by auto
      with repl KSimdLaneOp Some lane [OF checks_CheckOpcode(2) [of op None f]] show ?thesis
        by (auto simp: OnSimdLaneOp_def GetMemoryParam_def)
    next
      case other
      with Some KSimdLaneOp show ?thesis
        by (intro option_checks_none) (simp_all add: OnSimdLaneOp_def case_prod_beta)
    qed
  qed (use sg Some lane [OF checks_CheckOpcode(2) [of op "Some l" f]] in
      \<open>simp_all add: OnSimdLoadLane_def OnSimdStoreLane_def GetMemoryParam_def\<close>)
qed

lemma checks_tc_action:
  assumes "call_sig f c = Some (ps, rs)"
  shows "option_checks (tc_action c) (lanes_ok c) f ps rs"
proof -
  have ret: "checks m (lanes_ok c) f ps rs \<Longrightarrow> tc_action c = returning m \<Longrightarrow> ?thesis" for m
    by (simp add: option_checks_returning)
  show ?thesis
  proof (cases c)
    case (MemCall k op l)
    with assms show ?thesis by (intro ret) (auto simp: checks_mem simp del: mem_params.simps)
  next
    case (OpCall k op)
    with assms show ?thesis by (intro ret) (auto simp: checks_op simp del: op_params.simps)
  next
    case (BlockCall k as bs)
    with assms have "k = KCall" "as = ps" "bs = rs" by (simp_all split: if_splits)
    with BlockCall show ?thesis
      by (intro ret [of "OnCall ps rs"]) (simp_all add: OnCall_def checks_PopAndCheckCall)
  next
    case (TypeCall k t)
    with assms show ?thesis by (intro ret) (simp_all add: checks_type del: call_sig.simps)
  next
    case (LimitsCall k l)
    with assms show ?thesis by (intro ret) (simp_all add: checks_limits del: call_sig.simps)
  next
    case (CopyCall k l l')
    with assms show ?thesis by (intro ret) (simp_all add: checks_copy del: call_sig.simps)
  next
    case (SegmentCall k i l)
    with assms show ?thesis by (intro ret) (simp_all add: checks_segment del: call_sig.simps)
  next
    case (TableCall k t l)
    with assms show ?thesis by (intro ret) (simp_all add: checks_table del: call_sig.simps)
  next
    case (LaneCall k op l lane)
    with assms checks_lane show ?thesis by (simp del: call_sig.simps lanes_ok.simps)
  next
    case (CallIndirectCall as bs l)
    with assms show ?thesis by (auto intro!: option_checks_returning checks_call_indirect)
  next
    case (ShuffleCall op lanes)
    with assms show ?thesis by (auto intro!: option_checks_returning checks_shuffle)
  next
    case (RefFuncCall i force)
    with assms checks_ref_func [of i force f] show ?thesis
      by (auto intro!: option_checks_returning)
  next
    case (AtomicFenceCall m)
    with assms show ?thesis
      by (auto intro!: option_checks_returning checks_return simp: OnAtomicFence_def)
  qed (use assms in simp_all)
qed

text \<open>
  C8. Every call with a signature is checked against exactly that signature: it succeeds if and
  only if its lane operands are in range and the operands on the stack match its parameters, and
  then the parameters are popped and the results pushed, and nothing else of the checker changes.
\<close>

theorem call_checked_by_signature:
  assumes "call_sig (tc_features s) c = Some (ps, rs)"
    and "label_stack s \<noteq> []" and "type_stack s = base @ vs"
    and "length base = type_stack_limit (last (label_stack s))"
  shows "(fst (tc_step c s) = Some Ok \<longleftrightarrow> lanes_ok c \<and> pop_ok (unreachable (last (label_stack s))) vs ps) \<and>
    (fst (tc_step c s) = Some Ok \<longrightarrow> snd (tc_step c s) =
       s\<lparr>type_stack := base @ take (length vs - length ps) vs @ push_types rs\<rparr>)"
  using checks_tc_action [OF assms(1), unfolded option_checks_def, rule_format, of s base vs] assms(2-4)
  by (simp add: stacked_def tc_step_def pop_rest_def)

theorem call_checked_by_signature_witness:
  "fst (tc_step (BlockCall KCall [I32] [I64])
     \<lparr>type_stack = [F32, I32], label_stack = [Label LtFunc [] [] 1], br_table_sig = None,
      tc_features = default_features, tc_errors = []\<rparr>) = Some Ok"
  using call_checked_by_signature [of "\<lparr>type_stack = [F32, I32],
      label_stack = [Label LtFunc [] [] 1], br_table_sig = None, tc_features = default_features,
      tc_errors = []\<rparr>" "BlockCall KCall [I32] [I64]" "[I32]" "[I64]" "[F32]" "[I32]"]
  by (simp add: Label_def pop_ok_def matches_def CheckType_def type_eq_def IsReferenceWithIndex_def)

end
