(* ===== verification/Type_Checker_Runs.thy ===== *)
theory Type_Checker_Runs
  imports Type_Checker_Facts
begin

text \<open>
  Sequences of accepted calls of the type checker, and what each accepted control instruction does
  to the labels and the operands: the forward rules the soundness proof steps with.
\<close>

section \<open>Accepted calls\<close>

text \<open>The state after a sequence of calls that all succeed.\<close>

primrec run_ok :: "tc_call list \<Rightarrow> type_checker \<Rightarrow> type_checker option" where
  "run_ok [] s = Some s"
| "run_ok (c # cs) s =
     (let (r, s') = tc_step c s in if r = Some Ok then run_ok cs s' else None)"

lemma run_ok_append: "run_ok (as @ bs) s = Option.bind (run_ok as s) (run_ok bs)"
  by (induction as arbitrary: s) (simp_all add: Let_def case_prod_beta)

lemma run_ok_runs:
  "run_ok cs s = Some s' \<longleftrightarrow>
     (\<forall>r \<in> set (fst (runs tc_step cs s)). r = Some Ok) \<and> s' = snd (runs tc_step cs s)"
  by (induction cs arbitrary: s) (auto simp: Let_def case_prod_beta)

lemma run_ok_Cons:
  "run_ok (c # cs) s = Some s' \<longleftrightarrow>
     (\<exists>s1. tc_step c s = (Some Ok, s1) \<and> run_ok cs s1 = Some s')"
  by (auto simp: Let_def split: prod.splits)

lemma tc_step_returning:
  "tc_action c = returning m \<Longrightarrow> tc_step c s = (Some Ok, s') \<longleftrightarrow> run_state m s = (Ok, s')"
  by (auto simp: tc_step_def returning_def split: prod.splits)

section \<open>What an accepted control call does\<close>

lemma stackedD:
  "stacked s base vs \<Longrightarrow> label_stack s \<noteq> [] \<and> type_stack s = base @ vs \<and>
     type_stack_limit (top_label s) = length base"
  by (simp add: stacked_def)

lemma PopAndCheckSignature_Ok:
  assumes "stacked s base vs"
  shows "fst (run_state (PopAndCheckSignature ps d) s) = Ok \<longleftrightarrow> pop_ok (unreachable (top_label s)) vs ps"
    and "fst (run_state (PopAndCheckSignature ps d) s) = Ok \<Longrightarrow>
      snd (run_state (PopAndCheckSignature ps d) s) = s\<lparr>type_stack := base @ pop_rest vs (length ps)\<rparr>"
  using checks_PopAndCheckSignature [of ps d "tc_features s"] assms
  unfolding checks_def by simp_all

lemma PopAndCheckSignature_OkE:
  assumes "stacked s base vs" and "run_state (PopAndCheckSignature ps d) s = (Ok, s')"
  shows "pop_ok (unreachable (top_label s)) vs ps"
    and "s' = s\<lparr>type_stack := base @ pop_rest vs (length ps)\<rparr>"
  using PopAndCheckSignature_Ok [OF assms(1), of ps d] assms(2) by simp_all

definition enter :: "label_type \<Rightarrow> type_vector \<Rightarrow> type_vector \<Rightarrow> type_checker \<Rightarrow> type_vector \<Rightarrow> type_checker" where
  "enter lt ps rs s st = s\<lparr>type_stack := st @ push_types ps,
     label_stack := label_stack s @ [Label lt ps rs (length st)]\<rparr>"

lemma PopAndEnter_Ok:
  assumes "stacked s base vs"
    and "run_state (do { r \<leftarrow> PopAndCheckSignature ps d; PushLabel lt ps rs; PushTypes ps;
           State_Monad.return r }) s = (Ok, s')"
  shows "pop_ok (unreachable (top_label s)) vs ps \<and> s' = enter lt ps rs s (base @ pop_rest vs (length ps))"
  using assms(2) PopAndCheckSignature_Ok [OF assms(1), of ps d]
  by (auto simp: case_prod_beta enter_def simp del: run_PopAndCheckSignature)

lemma stacked_pop:
  "stacked s base vs \<Longrightarrow> stacked (s\<lparr>type_stack := base @ vs'\<rparr>) base vs'"
  by (simp add: stacked_def)

lemma PopAndCheck1_PopAndEnter_Ok:
  assumes s: "stacked s base vs"
    and run: "run_state (OnIf ps rs) s = (Ok, s')"
  shows "pop_ok (unreachable (top_label s)) vs (ps @ [I32]) \<and>
     s' = enter LtIf ps rs s (base @ pop_rest vs (length ps + 1))"
proof -
  let ?s1 = "s\<lparr>type_stack := base @ pop_rest vs 1\<rparr>"
  have ls: "label_stack s \<noteq> []" using s by (simp add: stacked_def)
  have 1: "fst (run_state (PopAndCheck1Type I32 text_if) s) = Ok"
    using run by (auto simp: OnIf_def case_prod_beta)
  then have "pop_ok (unreachable (top_label s)) vs [I32]"
    and s1: "snd (run_state (PopAndCheck1Type I32 text_if) s) = ?s1"
    using PopAndCheckSignature_Ok [OF s, of "[I32]" text_if] ls by (simp_all del: run_PopAndCheckSignature)
  moreover have "run_state (do { r \<leftarrow> PopAndCheckSignature ps text_if; PushLabel LtIf ps rs; PushTypes ps;
      State_Monad.return r }) ?s1 = (Ok, s')"
    using run 1 s1 by (auto simp: OnIf_def case_prod_beta simp del: run_PopAndCheckSignature run_PopAndCheck1Type)
  then have "pop_ok (unreachable (top_label ?s1)) (pop_rest vs 1) ps \<and>
      s' = enter LtIf ps rs ?s1 (base @ pop_rest (pop_rest vs 1) (length ps))"
    by (rule PopAndEnter_Ok [OF stacked_pop [OF s]])
  ultimately show ?thesis by (simp add: pop_ok_append enter_def)
qed

lemma OnEndLabel_Ok:
  assumes s: "stacked s base vs" and run: "run_state (OnEndLabel (top_label s) d d') s = (Ok, s')"
  shows "pop_ok (unreachable (top_label s)) vs (result_types (top_label s)) \<and>
     pop_rest vs (length (result_types (top_label s))) = [] \<and>
     s' = s\<lparr>type_stack := base @ push_types (result_types (top_label s)),
            label_stack := butlast (label_stack s)\<rparr>"
proof -
  let ?rs = "result_types (top_label s)"
  let ?m = "run_state (PopAndCheckSignature ?rs d) s"
  have r: "fst ?m = Ok"
    using run by (auto simp: OnEndLabel_def case_prod_beta simp del: run_PopAndCheckSignature)
  note s1 = PopAndCheckSignature_Ok(2) [OF s r]
  have end_ok: "pop_rest vs (length ?rs) = []"
    using run r s by (simp add: OnEndLabel_def case_prod_beta s1 stacked_def Let_def del: run_PopAndCheckSignature)
  have "s' = s\<lparr>type_stack := base @ push_types ?rs, label_stack := butlast (label_stack s)\<rparr>"
    using run s end_ok
    by (simp add: OnEndLabel_def case_prod_beta s1 stacked_def Let_def resize_def del: run_PopAndCheckSignature)
  with r end_ok PopAndCheckSignature_Ok(1) [OF s] show ?thesis by simp
qed

text \<open>The result check that \<open>else\<close>, \<open>catch\<close> and \<open>delegate\<close> share with \<open>end\<close>.\<close>

lemma block_results_Ok:
  assumes s: "stacked s base vs"
    and r1: "run_state (PopAndCheckSignature rs d) s = (Ok, s1)"
    and r2: "run_state (CheckTypeStackEnd d') s1 = (Ok, s2)"
  shows "pop_ok (unreachable (top_label s)) vs rs \<and> pop_rest vs (length rs) = [] \<and>
     s2 = s\<lparr>type_stack := base\<rparr>"
proof -
  note 1 = PopAndCheckSignature_OkE [OF s r1]
  with r2 s have e: "pop_rest vs (length rs) = []" by (simp add: stacked_def Let_def)
  with r2 s have "s2 = s\<lparr>type_stack := base\<rparr>" by (simp add: 1(2) stacked_def Let_def)
  with 1 e show ?thesis by simp
qed

definition retype :: "label_type \<Rightarrow> type_checker \<Rightarrow> type_vector \<Rightarrow> type_checker" where
  "retype lt s st = s\<lparr>type_stack := st, label_stack := butlast (label_stack s) @
     [(top_label s)\<lparr>label_type := lt, unreachable := False\<rparr>]\<rparr>"

lemma OnElse_Ok:
  assumes s: "stacked s base vs" and run: "run_state OnElse s = (Ok, s')"
  shows "label_type (top_label s) = LtIf \<and> pop_ok (unreachable (top_label s)) vs (result_types (top_label s)) \<and>
     pop_rest vs (length (result_types (top_label s))) = [] \<and>
     s' = retype LtElse s (base @ push_types (param_types (top_label s)))"
proof -
  let ?rs = "result_types (top_label s)"
  obtain r1 s1 where 1: "run_state (PopAndCheckSignature ?rs text_if_true) s = (r1, s1)" by force
  obtain r2 s2 where 2: "run_state (CheckTypeStackEnd text_if_true) s1 = (r2, s2)" by force
  have "r1 = Ok" "r2 = Ok" "label_type (top_label s) = LtIf"
    using run s 1 2 by (auto simp: OnElse_def stacked_def CheckLabelType_def
        simp del: run_PopAndCheckSignature run_CheckTypeStackEnd)
  with block_results_Ok [OF s] 1 2
  have "pop_ok (unreachable (top_label s)) vs ?rs" "pop_rest vs (length ?rs) = []"
    and s2: "s2 = s\<lparr>type_stack := base\<rparr>" by simp_all
  moreover have "s' = retype LtElse s (base @ push_types (param_types (top_label s)))"
    using run s 1 2 s2 by (simp add: OnElse_def stacked_def resize_def retype_def
        del: run_PopAndCheckSignature run_CheckTypeStackEnd)
  ultimately show ?thesis using \<open>label_type (top_label s) = LtIf\<close> by simp
qed

lemma OnCatch_Ok:
  assumes s: "stacked s base vs" and run: "run_state (OnCatch sig) s = (Ok, s')"
  shows "label_type (top_label s) \<in> {LtTry, LtCatch} \<and>
     pop_ok (unreachable (top_label s)) vs (result_types (top_label s)) \<and>
     pop_rest vs (length (result_types (top_label s))) = [] \<and>
     s' = retype LtCatch s (base @ push_types sig)"
proof -
  let ?rs = "result_types (top_label s)"
  obtain r1 s1 where 1: "run_state (PopAndCheckSignature ?rs text_try_block) s = (r1, s1)" by force
  obtain r2 s2 where 2: "run_state (CheckTypeStackEnd text_try_block) s1 = (r2, s2)" by force
  have "r1 = Ok" "r2 = Ok" and lt: "label_type (top_label s) \<in> {LtTry, LtCatch}"
    using run s 1 2 by (auto simp: OnCatch_def stacked_def Check2LabelTypes_def
        simp del: run_PopAndCheckSignature run_CheckTypeStackEnd)
  with block_results_Ok [OF s] 1 2
  have "pop_ok (unreachable (top_label s)) vs ?rs" "pop_rest vs (length ?rs) = []"
    and s2: "s2 = s\<lparr>type_stack := base\<rparr>" by simp_all
  moreover have "s' = retype LtCatch s (base @ push_types sig)"
    using run s 1 2 s2 by (auto simp: OnCatch_def stacked_def resize_def retype_def
        simp del: run_PopAndCheckSignature run_CheckTypeStackEnd)
  ultimately show ?thesis using lt by simp
qed

lemma OnDelegate_Ok:
  assumes s: "stacked s base vs" and run: "run_state (OnDelegate depth) s = (Ok, s')"
  shows "unat (depth + 1) < length (label_stack s) \<and> label_type (top_label s) = LtTry \<and>
     pop_ok (unreachable (top_label s)) vs (result_types (top_label s)) \<and>
     pop_rest vs (length (result_types (top_label s))) = [] \<and>
     s' = s\<lparr>type_stack := base @ push_types (result_types (top_label s)),
            label_stack := butlast (label_stack s)\<rparr>"
proof -
  let ?rs = "result_types (top_label s)"
  have d: "unat (depth + 1) < length (label_stack s)"
    using run by (auto simp: OnDelegate_def run_GetLabel split: if_splits)
  obtain r1 s1 where 1: "run_state (PopAndCheckSignature ?rs text_try_block) s = (r1, s1)" by force
  obtain r2 s2 where 2: "run_state (CheckTypeStackEnd text_try_block) s1 = (r2, s2)" by force
  have "r1 = Ok" "r2 = Ok" and lt: "label_type (top_label s) = LtTry"
    using run s d 1 2 by (auto simp: OnDelegate_def run_GetLabel stacked_def CheckLabelType_def
        simp del: run_PopAndCheckSignature run_CheckTypeStackEnd)
  with block_results_Ok [OF s] 1 2
  have "pop_ok (unreachable (top_label s)) vs ?rs" "pop_rest vs (length ?rs) = []"
    and s2: "s2 = s\<lparr>type_stack := base\<rparr>" by simp_all
  moreover have "s' = s\<lparr>type_stack := base @ push_types ?rs, label_stack := butlast (label_stack s)\<rparr>"
    using run s d 1 2 s2 by (simp add: OnDelegate_def run_GetLabel stacked_def resize_def
        del: run_PopAndCheckSignature run_CheckTypeStackEnd)
  ultimately show ?thesis using lt d by simp
qed

lemma OnEnd_Ok:
  assumes s: "stacked s base vs" and lt: "label_type (top_label s) \<noteq> LtIf"
    and run: "run_state OnEnd s = (Ok, s')"
  shows "pop_ok (unreachable (top_label s)) vs (result_types (top_label s)) \<and>
     pop_rest vs (length (result_types (top_label s))) = [] \<and>
     s' = s\<lparr>type_stack := base @ push_types (result_types (top_label s)),
            label_stack := butlast (label_stack s)\<rparr>"
  using run s lt by (intro OnEndLabel_Ok [OF s]) (auto simp: OnEnd_def stacked_def Let_def)

lemma OnEnd_If_Ok:
  assumes s: "stacked s base vs" and lt: "label_type (top_label s) = LtIf"
    and run: "run_state OnEnd s = (Ok, s')"
  shows "\<exists>s1. run_state OnElse s = (Ok, s1) \<and> run_state OnEnd s1 = (Ok, s')"
proof -
  obtain r s1 where 1: "run_state OnElse s = (r, s1)" by force
  have ls: "label_stack s \<noteq> []" using s by (simp add: stacked_def)
  with run lt 1 have r: "r = Ok" by (auto simp: OnEnd_def split: if_splits)
  with OnElse_Ok [OF s] 1 have s1: "label_type (top_label s1) = LtElse" "label_stack s1 \<noteq> []"
    by (simp_all add: retype_def)
  with run ls lt 1 r have "run_state OnEnd s1 = (Ok, s')" by (simp add: OnEnd_def)
  with 1 r show ?thesis by simp
qed

lemma EndFunction_Ok:
  assumes s: "stacked s base vs" and run: "run_state EndFunction s = (Ok, s')"
  shows "label_type (top_label s) = LtFunc \<and>
     pop_ok (unreachable (top_label s)) vs (result_types (top_label s)) \<and>
     pop_rest vs (length (result_types (top_label s))) = []"
proof -
  let ?d = "DescText ''implicit return''" and ?d' = "DescText ''function''"
  obtain r s1 where 1: "run_state (OnEndLabel (top_label s) ?d ?d') s = (r, s1)" by force
  with run s have "r = Ok" "label_type (top_label s) = LtFunc"
    by (auto simp: EndFunction_def stacked_def CheckLabelType_def)
  with OnEndLabel_Ok [OF s, of ?d ?d' s1] 1 show ?thesis by simp
qed

section \<open>What an accepted branch does\<close>

definition stop :: "type_checker \<Rightarrow> type_vector \<Rightarrow> type_checker" where
  "stop s base = s\<lparr>type_stack := base,
     label_stack := butlast (label_stack s) @ [(top_label s)\<lparr>unreachable := True\<rparr>]\<rparr>"

lemma run_SetUnreachable_stacked:
  "stacked s base vs \<Longrightarrow> run_state SetUnreachable s = (Ok, stop s base)"
  by (simp add: stacked_def stop_def resize_def)

lemma stop_pop [simp]: "stop (s\<lparr>type_stack := st\<rparr>) base = stop s base"
  by (simp add: stop_def)

lemma CheckSignature_Ok:
  assumes "stacked s base vs"
  shows "fst (run_state (CheckSignature sig d) s) = Ok \<longleftrightarrow> pop_ok (unreachable (top_label s)) vs sig"
    and "fst (run_state (CheckSignature sig d) s) = Ok \<Longrightarrow> snd (run_state (CheckSignature sig d) s) = s"
  using assms sig_result_iff [of "top_label s" base vs sig] by (simp_all add: stacked_def Let_def)

lemma OnBr_Ok:
  assumes s: "stacked s base vs" and run: "run_state (OnBr d) s = (Ok, s')"
  shows "unat d < length (label_stack s) \<and>
     pop_ok (unreachable (top_label s)) vs (br_types (at_depth (label_stack s) (unat d))) \<and>
     s' = stop s base"
proof -
  let ?sig = "br_types (at_depth (label_stack s) (unat d))"
  have d: "unat d < length (label_stack s)"
    using run by (auto simp: OnBr_def run_GetLabel split: if_splits)
  let ?m = "run_state (CheckSignature ?sig (DescText ''br'')) s"
  have r: "fst ?m = Ok"
    using run d by (auto simp: OnBr_def run_GetLabel case_prod_beta Let_def split: if_splits simp del: run_CheckSignature)
  with run d s have "s' = stop s base"
    by (auto simp: OnBr_def run_GetLabel case_prod_beta CheckSignature_Ok(2) [OF s] run_SetUnreachable_stacked
        simp del: run_CheckSignature run_SetUnreachable)
  with r d CheckSignature_Ok(1) [OF s] show ?thesis by simp
qed

lemma OnBrIf_Ok:
  assumes s: "stacked s base vs" and run: "run_state (OnBrIf d) s = (Ok, s')"
  shows "unat d < length (label_stack s) \<and>
     (let sig = br_types (at_depth (label_stack s) (unat d))
      in pop_ok (unreachable (top_label s)) vs (sig @ [I32]) \<and>
         s' = s\<lparr>type_stack := base @ pop_rest vs (length sig + 1) @ push_types sig\<rparr>)"
proof -
  let ?sig = "br_types (at_depth (label_stack s) (unat d))"
  let ?s1 = "s\<lparr>type_stack := base @ pop_rest vs 1\<rparr>"
  have ls: "label_stack s \<noteq> []" using s by (simp add: stacked_def)
  obtain r1 s1 where 1: "run_state (PopAndCheck1Type I32 (DescText ''br_if'')) s = (r1, s1)" by force
  have "label_stack s1 = label_stack s"
    using 1 ls by (auto simp: Let_def)
  with run 1 have d: "unat d < length (label_stack s)"
    by (auto simp: OnBrIf_def run_GetLabel simp del: run_PopAndCheck1Type split: if_splits)
  obtain r2 s2 where 2: "run_state (PopAndCheckSignature ?sig (DescText ''br_if'')) s1 = (r2, s2)" by force
  have r: "r1 = Ok" "r2 = Ok"
    using run d 1 2 \<open>label_stack s1 = _\<close> by (auto simp: OnBrIf_def run_GetLabel
        simp del: run_PopAndCheck1Type run_PopAndCheckSignature)
  with 1 ls have "run_state (PopAndCheckSignature [I32] (DescText ''br_if'')) s = (Ok, s1)"
    by (simp del: run_PopAndCheckSignature)
  note 3 = PopAndCheckSignature_OkE [OF s this]
  then have s1: "s1 = ?s1" by simp
  note 4 = PopAndCheckSignature_OkE [OF stacked_pop [OF s], of ?sig "DescText ''br_if''" "pop_rest vs 1" s2]
  have "run_state (PopAndCheckSignature ?sig (DescText ''br_if'')) ?s1 = (Ok, s2)" using 2 r s1 by simp
  note 5 = 4 [OF this]
  have "s' = s\<lparr>type_stack := base @ pop_rest vs (length ?sig + 1) @ push_types ?sig\<rparr>"
    using run d 1 2 5 r s1 by (auto simp: OnBrIf_def run_GetLabel
        simp del: run_PopAndCheck1Type run_PopAndCheckSignature)
  with d 3 5 show ?thesis by (simp add: pop_ok_append Let_def)
qed

lemma stop_simps [simp]: "stop (s\<lparr>tc_errors := e\<rparr>) b = (stop s b)\<lparr>tc_errors := e\<rparr>"
  by (simp add: stop_def)

lemma pop_and_stop_Ok:
  assumes s: "stacked s base vs"
    and run: "run_state (do { r \<leftarrow> PopAndCheckSignature sig d;
      CHECK_RESULT SetUnreachable (State_Monad.return r) }) s = (Ok, s')"
  shows "pop_ok (unreachable (top_label s)) vs sig \<and> s' = stop s base"
proof -
  have r: "fst (run_state (PopAndCheckSignature sig d) s) = Ok"
    using run by (auto simp: case_prod_beta Let_def split: if_splits simp del: run_PopAndCheckSignature)
  with run s have "s' = stop s base"
    by (auto simp: case_prod_beta PopAndCheckSignature_Ok(2) [OF s]
        run_SetUnreachable_stacked [OF stacked_pop [OF s]]
        simp del: run_PopAndCheckSignature run_SetUnreachable)
  with r PopAndCheckSignature_Ok(1) [OF s] show ?thesis by simp
qed

lemma OnReturn_Ok:
  assumes s: "stacked s base vs" and run: "run_state OnReturn s = (Ok, s')"
  shows "pop_ok (unreachable (top_label s)) vs (result_types (hd (label_stack s))) \<and> s' = stop s base"
  using run s by (intro pop_and_stop_Ok [OF s, of _ "DescText ''return''"])
    (simp add: OnReturn_def stacked_def)

lemma OnThrow_Ok:
  "stacked s base vs \<Longrightarrow> run_state (OnThrow sig) s = (Ok, s') \<Longrightarrow>
     pop_ok (unreachable (top_label s)) vs sig \<and> s' = stop s base"
  unfolding OnThrow_def by (rule pop_and_stop_Ok)

lemma OnRethrow_Ok:
  assumes s: "stacked s base vs" and run: "run_state (OnRethrow d) s = (Ok, s')"
  shows "unat d < length (label_stack s) \<and> label_type (at_depth (label_stack s) (unat d)) = LtCatch \<and>
     s' = stop s base"
  using run run_SetUnreachable_stacked [OF s]
  by (auto simp: OnRethrow_def GetRethrowLabel_def run_GetLabel simp del: run_SetUnreachable
      split: if_splits)

lemma return_call_Ok:
  assumes s: "stacked s base vs"
    and run: "run_state (do { r \<leftarrow> PopAndCheckSignature ps d;
      CHECK_SOME GetThisFunctionLabel (\<lambda>fl. do {
        r' \<leftarrow> CheckReturnSignature rs (result_types fl) d;
        CHECK_RESULT SetUnreachable (State_Monad.return (result_or (f r) r')) }) }) s = (Ok, s')"
    and strict: "f Error = Error"
  shows "pop_ok (unreachable (top_label s)) vs ps \<and> f Ok = Ok \<and>
     CheckTypes rs (result_types (hd (label_stack s))) = Ok \<and> s' = stop s base"
proof -
  let ?m = "run_state (PopAndCheckSignature ps d) s"
  have ls: "label_stack s \<noteq> []" using s by (simp add: stacked_def)
  have ls1: "label_stack (snd ?m) = label_stack s" using ls by (simp add: Let_def)
  have r: "fst ?m = Ok"
  proof (rule ccontr)
    assume "fst ?m \<noteq> Ok"
    then have "fst ?m = Error" by simp
    with run ls ls1 strict show False
      by (auto simp: case_prod_beta CheckReturnSignature_def Let_def
          simp del: run_PopAndCheckSignature run_SetUnreachable split: if_splits)
  qed
  have s1: "snd ?m = s\<lparr>type_stack := base @ pop_rest vs (length ps)\<rparr>"
    by (rule PopAndCheckSignature_Ok(2) [OF s r])
  have c: "CheckTypes rs (result_types (hd (label_stack s))) = Ok"
  proof (rule ccontr)
    assume "CheckTypes rs (result_types (hd (label_stack s))) \<noteq> Ok"
    then have "CheckTypes rs (result_types (hd (label_stack s))) = Error" by simp
    with run ls r s1 show False
      by (auto simp: case_prod_beta CheckReturnSignature_def Let_def
          simp del: run_PopAndCheckSignature run_SetUnreachable split: if_splits)
  qed
  with run ls r s1 have "f Ok = Ok \<and> s' = stop s base"
    by (auto simp: case_prod_beta CheckReturnSignature_def Let_def
        run_SetUnreachable_stacked [OF stacked_pop [OF s]]
        simp del: run_PopAndCheckSignature run_SetUnreachable split: if_splits)
  with c r PopAndCheckSignature_Ok(1) [OF s] show ?thesis by simp
qed

lemma OnReturnCall_Ok:
  assumes s: "stacked s base vs" and run: "run_state (OnReturnCall ps rs) s = (Ok, s')"
  shows "pop_ok (unreachable (top_label s)) vs ps \<and>
     CheckTypes rs (result_types (hd (label_stack s))) = Ok \<and> s' = stop s base"
  using return_call_Ok [OF s, of ps "DescText ''return_call''" rs "\<lambda>r. r" s'] run
  by (simp add: OnReturnCall_def del: run_PopAndCheckSignature)

lemma OnReturnCallIndirect_Ok:
  assumes s: "stacked s base vs" and run: "run_state (OnReturnCallIndirect ps rs) s = (Ok, s')"
  shows "pop_ok (unreachable (top_label s)) vs (ps @ [I32]) \<and>
     CheckTypes rs (result_types (hd (label_stack s))) = Ok \<and> s' = stop s base"
proof -
  let ?d = "DescText ''return_call_indirect''"
  have ls: "label_stack s \<noteq> []" using s by (simp add: stacked_def)
  obtain r0 s0 where 0: "run_state (PopAndCheckSignature [I32] ?d) s = (r0, s0)" by force
  have ls0: "label_stack s0 = label_stack s" "label_stack s0 \<noteq> []"
    using 0 ls by (auto simp: Let_def)
  have r0: "r0 = Ok"
  proof (rule ccontr)
    assume "r0 \<noteq> Ok"
    moreover have "label_stack (snd (run_state (PopAndCheckSignature ps ?d) s0)) = label_stack s"
      using ls0 by (simp add: Let_def)
    ultimately show False using run 0 ls ls0
      by (auto simp: OnReturnCallIndirect_def case_prod_beta CheckReturnSignature_def Let_def
          simp del: run_SetUnreachable run_PopAndCheckSignature split: if_splits)
  qed
  note 1 = PopAndCheckSignature_OkE [OF s 0 [unfolded r0]]
  then have p0: "pop_ok (unreachable (top_label s)) vs [I32]"
    and s0: "s0 = s\<lparr>type_stack := base @ pop_rest vs 1\<rparr>" by simp_all
  have "run_state (do { r \<leftarrow> PopAndCheckSignature ps ?d;
      CHECK_SOME GetThisFunctionLabel (\<lambda>fl. do {
        r' \<leftarrow> CheckReturnSignature rs (result_types fl) ?d;
        CHECK_RESULT SetUnreachable (State_Monad.return (result_or (result_or Ok r) r')) }) }) s0 = (Ok, s')"
    using run 0 r0 ls
    by (simp add: OnReturnCallIndirect_def del: run_PopAndCheckSignature result_or_Ok_left)
  from return_call_Ok [OF stacked_pop [OF s], where f = "result_or Ok", OF this [unfolded s0]] p0
  show ?thesis by (simp add: pop_ok_append)
qed

section \<open>What the remaining accepted calls do\<close>

lemma peek_operand:
  assumes "stacked s base vs"
  shows "peek (top_label s) (type_stack s) d =
    (if d < length vs then (Ok, at_depth vs d)
     else (if unreachable (top_label s) then Ok else Error, AnyTy))"
  using assms by (auto simp: stacked_def peek_def)

lemma drop_operands:
  assumes "stacked s base vs"
  shows "drop_result (top_label s) (type_stack s) n = ok_if (n \<le> length vs \<or> unreachable (top_label s))"
    and "drop_stack (top_label s) (type_stack s) n = base @ pop_rest vs n"
  using assms by (auto simp: stacked_def drop_result_def drop_stack_operands)

lemma OnDrop_Ok:
  assumes s: "stacked s base vs" and run: "run_state OnDrop s = (Ok, s')"
  shows "pop_ok (unreachable (top_label s)) vs [AnyTy] \<and> s' = s\<lparr>type_stack := base @ pop_rest vs 1\<rparr>"
proof -
  have ls: "label_stack s \<noteq> []" using s by (simp add: stacked_def)
  have d: "1 \<le> length vs \<or> unreachable (top_label s)"
    using run ls by (auto simp: OnDrop_def drop_operands [OF s] Suc_le_eq)
  then have "ok_if (1 \<le> length vs \<or> unreachable (top_label s)) = Ok" by simp
  with run ls have "s' = s\<lparr>type_stack := base @ pop_rest vs 1\<rparr>"
    by (auto simp: OnDrop_def drop_operands [OF s])
  moreover have "list_all2 matches (drop (length vs - 1) vs) [AnyTy]" if "1 \<le> length vs"
    using that by (cases vs rule: rev_cases) auto
  ultimately show ?thesis using d by (cases vs) (auto simp: pop_ok_def)
qed

lemma OnRefIsNull_Ok:
  assumes s: "stacked s base vs" and run: "run_state OnRefIsNullExpr s = (Ok, s')"
  shows "(if vs = [] then unreachable (top_label s) else type_eq (last vs) AnyTy \<or> IsRef (last vs)) \<and>
     s' = s\<lparr>type_stack := base @ pop_rest vs 1 @ [I32]\<rparr>"
proof -
  have ls: "label_stack s \<noteq> []" using s by (simp add: stacked_def)
  have I: "push_types [I32] = [I32]" by (simp add: push_types_def type_eq_def)
  show ?thesis
  proof (cases "vs = []")
    case True
    then show ?thesis
      using run ls by (auto simp: OnRefIsNullExpr_def Let_def peek_operand [OF s] drop_operands [OF s]
          type_eq_def I split: if_splits)
  next
    case False
    then have *: "0 < length vs" "at_depth vs 0 = last vs" "Suc 0 \<le> length vs"
      by (simp_all add: at_depth_last Suc_le_eq)
    with False show ?thesis
      using run ls by (auto simp: OnRefIsNullExpr_def Let_def peek_operand [OF s] drop_operands [OF s]
          I split: if_splits)
  qed
qed

text \<open>The untyped \<open>select\<close>: what it sees at depths 0, 1 and 2 and what it pushes.\<close>

definition operand :: "type_vector \<Rightarrow> nat \<Rightarrow> wtype" where
  "operand vs d = (if d < length vs then at_depth vs d else AnyTy)"

lemma OnSelect_Ok:
  assumes s: "stacked s base vs" and run: "run_state (OnSelect []) s = (Ok, s')"
  shows "(3 \<le> length vs \<or> unreachable (top_label s)) \<and> matches (operand vs 0) I32 \<and>
     \<not> IsRef (operand vs 1) \<and> \<not> IsRef (operand vs 2) \<and> matches (operand vs 1) (operand vs 2) \<and>
     s' = s\<lparr>type_stack := base @ pop_rest vs 3 @ push_types [operand vs 1]\<rparr>"
proof -
  have ls: "label_stack s \<noteq> []" using s by (simp add: stacked_def)
  let ?u = "unreachable (top_label s)"
  have p: "peek (top_label s) (type_stack s) d = (if d < length vs \<or> ?u then Ok else Error, operand vs d)" for d
    by (simp add: peek_operand [OF s] operand_def)
  have nr: "\<not> IsRef (operand vs 1)" "\<not> IsRef (operand vs 2)"
    using run ls by (auto simp: OnSelect_def p Let_def split: if_splits)
  have ok: "3 \<le> length vs \<or> ?u" "matches (operand vs 0) I32" "matches (operand vs 1) (operand vs 2)"
    using run ls nr by (auto simp: OnSelect_def p Let_def peek_check_def matches_def split: if_splits)
  with run ls nr have "s' = s\<lparr>type_stack := base @ pop_rest vs 3 @ push_types [operand vs 1]\<rparr>"
    by (auto simp: OnSelect_def p Let_def peek_check_def matches_def drop_operands [OF s] split: if_splits)
  with ok nr show ?thesis by simp
qed

lemma OnBrTableTarget_Ok:
  assumes s: "stacked s base vs" and run: "run_state (OnBrTableTarget d) s = (Ok, s')"
  shows "unat d < length (label_stack s) \<and>
     (let sig = br_types (at_depth (label_stack s) (unat d))
      in pop_ok (unreachable (top_label s)) vs sig \<and>
         (\<forall>e. br_table_sig s = Some e \<longrightarrow> length e = length sig) \<and>
         s' = s\<lparr>br_table_sig := Some (if br_table_sig s = None then sig else the (br_table_sig s))\<rparr>)"
proof -
  let ?sig = "br_types (at_depth (label_stack s) (unat d))"
  have d: "unat d < length (label_stack s)"
    using run by (auto simp: OnBrTableTarget_def run_GetLabel split: if_splits)
  let ?m = "run_state (CheckSignature ?sig (DescText ''br_table'')) s"
  have r: "fst ?m = Ok"
    using run d by (auto simp: OnBrTableTarget_def run_GetLabel case_prod_beta Let_def
        simp del: run_CheckSignature split: if_splits option.splits)
  note s1 = CheckSignature_Ok(2) [OF s r]
  have "(\<forall>e. br_table_sig s = Some e \<longrightarrow> length e = length ?sig) \<and>
      s' = s\<lparr>br_table_sig := Some (if br_table_sig s = None then ?sig else the (br_table_sig s))\<rparr>"
    using run d r s1 by (auto simp: OnBrTableTarget_def run_GetLabel case_prod_beta Let_def
        simp del: run_CheckSignature split: if_splits option.splits)
  with d r CheckSignature_Ok(1) [OF s] show ?thesis by (simp add: Let_def)
qed

lemma BeginBrTable_Ok:
  assumes s: "stacked s base vs" and run: "run_state BeginBrTable s = (Ok, s')"
  shows "pop_ok (unreachable (top_label s)) vs [I32] \<and>
     s' = s\<lparr>br_table_sig := None, type_stack := base @ pop_rest vs 1\<rparr>"
proof -
  let ?s0 = "s\<lparr>br_table_sig := None\<rparr>"
  have s0: "stacked ?s0 base vs" using s by (simp add: stacked_def)
  have "run_state (PopAndCheckSignature [I32] (DescText ''br_table'')) ?s0 = (Ok, s')"
    using run s0 by (simp add: BeginBrTable_def stacked_def del: run_PopAndCheckSignature)
  from PopAndCheckSignature_OkE [OF s0 this] show ?thesis by simp
qed

end
