(* ===== verification/Type_Soundness.thy ===== *)
theory Type_Soundness
  imports Type_Checker_Runs
begin

text \<open>
  Structured instructions, the calls of the type checker they stand for, the typing rules of the
  specification for them, and the proof that what the type checker accepts has a typing.
\<close>

section \<open>Structured instructions\<close>

text \<open>
  Instruction sequences with their nesting, and the calls a reader makes for them: one call per
  instruction, with \<open>else\<close>, \<open>catch\<close>, \<open>delegate\<close> and \<open>end\<close> where the block is split or closed.
\<close>

datatype instr =
    Simple tc_call
  | BrTable "index list" index
  | Block type_vector type_vector "instr list"
  | Loop type_vector type_vector "instr list"
  | IfThen type_vector type_vector "instr list"
  | IfElse type_vector type_vector "instr list" "instr list"
  | Try type_vector type_vector "instr list" "(type_vector \<times> instr list) list"
  | TryDelegate type_vector type_vector "instr list" index

fun instr_calls :: "instr \<Rightarrow> tc_call list" where
  "instr_calls (Simple c) = [c]"
| "instr_calls (BrTable ds d) =
     PlainCall KBeginBrTable # map (DepthCall KBrTableTarget) (ds @ [d]) @ [PlainCall KEndBrTable]"
| "instr_calls (Block ps rs es) =
     BlockCall KBlock ps rs # concat (map instr_calls es) @ [PlainCall KEnd]"
| "instr_calls (Loop ps rs es) =
     BlockCall KLoop ps rs # concat (map instr_calls es) @ [PlainCall KEnd]"
| "instr_calls (IfThen ps rs es) =
     BlockCall KIf ps rs # concat (map instr_calls es) @ [PlainCall KEnd]"
| "instr_calls (IfElse ps rs es es') =
     BlockCall KIf ps rs # concat (map instr_calls es) @ [PlainCall KElse] @
       concat (map instr_calls es') @ [PlainCall KEnd]"
| "instr_calls (Try ps rs es cs) =
     BlockCall KTry ps rs # concat (map instr_calls es) @
       concat (map (\<lambda>(sig, es'). SigCall KCatch sig # concat (map instr_calls es')) cs) @
       [PlainCall KEnd]"
| "instr_calls (TryDelegate ps rs es d) =
     BlockCall KTry ps rs # concat (map instr_calls es) @ [DepthCall KDelegate d]"

definition body_calls :: "instr list \<Rightarrow> tc_call list" where
  "body_calls es = concat (map instr_calls es)"

section \<open>Declarative typing\<close>

text \<open>
  The typing rules of the specification, with \<open>Type::Any\<close> as the bottom type that is below every
  type: an operand \<open>a\<close> may be used where \<open>e\<close> is expected if \<open>sub a e\<close>. A frame of the context is
  a label's kind, parameters and results; the bottom frame is the function's.
\<close>

type_synonym frame = "label_type \<times> type_vector \<times> type_vector"

fun br_sig :: "frame \<Rightarrow> type_vector" where
  "br_sig (lt, ps, rs) = (if lt = LtLoop then ps else rs)"

definition sub :: "wtype \<Rightarrow> wtype \<Rightarrow> bool" where
  "sub a e \<longleftrightarrow> a = AnyTy \<or> a = e"

abbreviation subs :: "type_vector \<Rightarrow> type_vector \<Rightarrow> bool" where
  "subs \<equiv> list_all2 sub"

inductive simple_typing ::
  "features \<Rightarrow> frame list \<Rightarrow> tc_call \<Rightarrow> type_vector \<Rightarrow> type_vector \<Rightarrow> bool" for f C where
  by_signature: "\<lbrakk>call_sig f c = Some (ps, rs); lanes_ok c; subs as ps\<rbrakk> \<Longrightarrow>
     simple_typing f C c as (push_types rs)"
| drop: "simple_typing f C (PlainCall KDrop) [a] []"
| select: "\<lbrakk>\<not> IsRef a; \<not> IsRef b; sub b a; sub i I32\<rbrakk> \<Longrightarrow>
     simple_typing f C (SigCall KSelect []) [b, a, i] [a]"
| ref_is_null: "\<lbrakk>a = AnyTy \<or> IsRef a\<rbrakk> \<Longrightarrow> simple_typing f C (PlainCall KRefIsNullExpr) [a] [I32]"
| unreachable: "simple_typing f C (PlainCall KUnreachable) xs bs"
| br: "\<lbrakk>unat d < length C; subs as (br_sig (at_depth C (unat d)))\<rbrakk> \<Longrightarrow>
     simple_typing f C (DepthCall KBr d) (xs @ as) bs"
| br_if: "\<lbrakk>unat d < length C; subs as (br_sig (at_depth C (unat d))); sub i I32\<rbrakk> \<Longrightarrow>
     simple_typing f C (DepthCall KBrIf d) (as @ [i]) (br_sig (at_depth C (unat d)))"
| return: "subs as (snd (snd (hd C))) \<Longrightarrow> simple_typing f C (PlainCall KReturn) (xs @ as) bs"
| throw: "subs as sig \<Longrightarrow> simple_typing f C (SigCall KThrow sig) (xs @ as) bs"
| rethrow: "\<lbrakk>unat d < length C; fst (at_depth C (unat d)) = LtCatch\<rbrakk> \<Longrightarrow>
     simple_typing f C (DepthCall KRethrow d) xs bs"
| return_call: "\<lbrakk>subs as ps; rs = snd (snd (hd C))\<rbrakk> \<Longrightarrow>
     simple_typing f C (BlockCall KReturnCall ps rs) (xs @ as) bs"
| return_call_indirect: "\<lbrakk>subs as ps; sub i I32; rs = snd (snd (hd C))\<rbrakk> \<Longrightarrow>
     simple_typing f C (BlockCall KReturnCallIndirect ps rs) (xs @ as @ [i]) bs"

inductive typing ::
  "features \<Rightarrow> frame list \<Rightarrow> instr list \<Rightarrow> type_vector \<Rightarrow> type_vector \<Rightarrow> bool" for f where
  empty: "typing f C [] ts ts"
| simple: "\<lbrakk>simple_typing f C c as bs; typing f C es (fr @ bs) ts\<rbrakk> \<Longrightarrow>
     typing f C (Simple c # es) (fr @ as) ts"
| br_table: "\<lbrakk>\<forall>d' \<in> set (ds @ [d]). unat d' < length C \<and> subs as (br_sig (at_depth C (unat d')));
      sub i I32; typing f C es bs ts\<rbrakk> \<Longrightarrow>
     typing f C (BrTable ds d # es) (xs @ as @ [i]) ts"
| block: "\<lbrakk>subs as ps; typing f (C @ [(LtBlock, ps, rs)]) body ps qs; subs qs rs;
      typing f C es (fr @ rs) ts\<rbrakk> \<Longrightarrow>
     typing f C (Block ps rs body # es) (fr @ as) ts"
| loop: "\<lbrakk>subs as ps; typing f (C @ [(LtLoop, ps, rs)]) body ps qs; subs qs rs;
      typing f C es (fr @ rs) ts\<rbrakk> \<Longrightarrow>
     typing f C (Loop ps rs body # es) (fr @ as) ts"
| if_then: "\<lbrakk>subs as ps; sub i I32; typing f (C @ [(LtIf, ps, rs)]) body ps qs; subs qs rs;
      ps = rs; typing f C es (fr @ rs) ts\<rbrakk> \<Longrightarrow>
     typing f C (IfThen ps rs body # es) (fr @ as @ [i]) ts"
| if_else: "\<lbrakk>subs as ps; sub i I32; typing f (C @ [(LtIf, ps, rs)]) body ps qs; subs qs rs;
      typing f (C @ [(LtElse, ps, rs)]) body' ps qs'; subs qs' rs;
      typing f C es (fr @ rs) ts\<rbrakk> \<Longrightarrow>
     typing f C (IfElse ps rs body body' # es) (fr @ as @ [i]) ts"
| try_catch: "\<lbrakk>subs as ps; typing f (C @ [(LtTry, ps, rs)]) body ps qs; subs qs rs;
      \<forall>(sig, body') \<in> set cs. \<exists>qs'. typing f (C @ [(LtCatch, ps, rs)]) body' sig qs' \<and> subs qs' rs;
      typing f C es (fr @ rs) ts\<rbrakk> \<Longrightarrow>
     typing f C (Try ps rs body cs # es) (fr @ as) ts"
| try_delegate: "\<lbrakk>subs as ps; typing f (C @ [(LtTry, ps, rs)]) body ps qs; subs qs rs;
      unat d < length C; typing f C es (fr @ rs) ts\<rbrakk> \<Longrightarrow>
     typing f C (TryDelegate ps rs body d # es) (fr @ as) ts"

section \<open>Well-formed instructions\<close>

text \<open>
  A value type is neither \<open>Any\<close> nor \<open>Void\<close>. The types that instructions carry are value types;
  the typed \<open>select\<close>, which pushes \<open>Any\<close>, is left out, and so is the depth \<open>0xffffffff\<close> of a
  \<open>delegate\<close>, which wraps around in \<open>OnDelegate\<close>.
\<close>

definition proper :: "wtype \<Rightarrow> bool" where
  "proper t \<longleftrightarrow> wf_type t \<and> type_enum t \<noteq> 0 \<and> type_enum t \<noteq> - 64"

fun wf_control :: "tc_call \<Rightarrow> bool" where
  "wf_control (SigCall k ts) \<longleftrightarrow> k = KThrow \<and> list_all proper ts \<or> k = KSelect \<and> ts = []"
| "wf_control (BlockCall k ps rs) \<longleftrightarrow>
     k \<in> {KReturnCall, KReturnCallIndirect} \<and> list_all proper ps \<and> list_all proper rs"
| "wf_control (DepthCall k d) \<longleftrightarrow> k \<in> {KBr, KBrIf, KRethrow}"
| "wf_control (PlainCall k) \<longleftrightarrow> k \<in> {KDrop, KRefIsNullExpr, KReturn, KUnreachable}"
| "wf_control _ \<longleftrightarrow> False"

definition wf_call :: "features \<Rightarrow> tc_call \<Rightarrow> bool" where
  "wf_call f c \<longleftrightarrow>
     (case call_sig f c of
        Some (ps, rs) \<Rightarrow> list_all proper ps \<and> list_all proper (push_types rs)
      | None \<Rightarrow> wf_control c)"

fun wf_instr :: "features \<Rightarrow> instr \<Rightarrow> bool" where
  "wf_instr f (Simple c) \<longleftrightarrow> wf_call f c"
| "wf_instr f (BrTable ds d) \<longleftrightarrow> True"
| "wf_instr f (Block ps rs es) \<longleftrightarrow>
     list_all proper ps \<and> list_all proper rs \<and> list_all (wf_instr f) es"
| "wf_instr f (Loop ps rs es) \<longleftrightarrow>
     list_all proper ps \<and> list_all proper rs \<and> list_all (wf_instr f) es"
| "wf_instr f (IfThen ps rs es) \<longleftrightarrow>
     list_all proper ps \<and> list_all proper rs \<and> list_all (wf_instr f) es"
| "wf_instr f (IfElse ps rs es es') \<longleftrightarrow>
     list_all proper ps \<and> list_all proper rs \<and> list_all (wf_instr f) es \<and> list_all (wf_instr f) es'"
| "wf_instr f (Try ps rs es cs) \<longleftrightarrow>
     list_all proper ps \<and> list_all proper rs \<and> list_all (wf_instr f) es \<and>
     list_all (\<lambda>(sig, es'). list_all proper sig \<and> list_all (wf_instr f) es') cs"
| "wf_instr f (TryDelegate ps rs es d) \<longleftrightarrow>
     list_all proper ps \<and> list_all proper rs \<and> list_all (wf_instr f) es \<and> d \<noteq> 0xffffffff"

section \<open>Operands the checker keeps\<close>

text \<open>
  Operands are value types, but for one \<open>Any\<close> at the bottom of unreachable operands, which a
  \<open>select\<close> with unknown operands leaves there.
\<close>

definition vals :: "bool \<Rightarrow> type_vector \<Rightarrow> bool" where
  "vals u vs \<longleftrightarrow> list_all proper vs \<or> u \<and> vs \<noteq> [] \<and> hd vs = AnyTy \<and> list_all proper (tl vs)"

lemma proper_simps [simp]: "proper I32" "proper I64" "\<not> proper AnyTy" "\<not> proper VoidTy"
  by (simp_all add: proper_def wf_type_def)

lemma proper_push [simp]: "proper t \<Longrightarrow> push_types [t] = [t]"
  by (simp add: proper_def push_types_def type_eq_def)

lemma proper_pushs: "list_all proper ts \<Longrightarrow> push_types ts = ts"
proof (induction ts)
  case (Cons t ts)
  then show ?case by (simp add: push_types_Cons [of t ts])
qed simp

lemma proper_enum_eq:
  "\<lbrakk>proper a; proper e; type_enum a = type_enum e; type_enum a = - 21 \<Longrightarrow> type_index a = type_index e\<rbrakk> \<Longrightarrow> a = e"
  by (cases a; cases e) (auto simp: proper_def wf_type_def)

lemma matches_sub: "\<lbrakk>matches a e; proper e; proper a \<or> a = AnyTy\<rbrakk> \<Longrightarrow> sub a e"
  by (auto simp: matches_def CheckType_def sub_def type_eq_def IsReferenceWithIndex_def
      GetReferenceIndex_def proper_def wf_type_def split: if_splits intro: proper_enum_eq)

lemma sub_Any [simp]: "sub AnyTy e"
  by (simp add: sub_def)

lemma sub_refl [simp]: "sub a a"
  by (simp add: sub_def)

lemma vals_elem: "vals u vs \<Longrightarrow> a \<in> set vs \<Longrightarrow> proper a \<or> a = AnyTy"
  by (cases vs) (auto simp: vals_def list_all_iff)

lemma vals_proper [simp]: "list_all proper vs \<Longrightarrow> vals u vs"
  by (simp add: vals_def)

lemma vals_Any [simp]: "vals True [AnyTy]"
  by (simp add: vals_def)

lemma vals_take: "vals u vs \<Longrightarrow> vals u (take n vs)"
  by (cases n; cases vs) (auto simp: vals_def list_all_iff dest: in_set_takeD)

lemma vals_pop_rest [simp]: "vals u vs \<Longrightarrow> vals u (pop_rest vs n)"
  by (simp add: pop_rest_def vals_take)

lemma vals_append [simp]: "vals u vs \<Longrightarrow> list_all proper ws \<Longrightarrow> vals u (vs @ ws)"
  by (auto simp: vals_def)

lemma matches_subs:
  "\<lbrakk>list_all2 matches vs sig; list_all proper sig; \<forall>a \<in> set vs. proper a \<or> a = AnyTy\<rbrakk> \<Longrightarrow> subs vs sig"
  by (induction rule: list_all2_induct) (auto intro: matches_sub)

text \<open>
  The step behind every rule: operands that match a signature are, under a suitable stack of
  unknown types below them, the rest and an instance of the signature.
\<close>

definition below :: "bool \<Rightarrow> type_vector \<Rightarrow> bool" where
  "below u x \<longleftrightarrow> x = [] \<or> u"

lemma below_simps [simp]: "below u []" "below True x"
  by (simp_all add: below_def)

definition unknowns :: "nat \<Rightarrow> type_vector \<Rightarrow> type_vector" where
  "unknowns n vs = replicate (n - length vs) AnyTy"

definition popped :: "type_vector \<Rightarrow> nat \<Rightarrow> type_vector" where
  "popped vs n = unknowns n vs @ drop (length vs - n) vs"

lemma popped_split: "unknowns n vs @ vs = pop_rest vs n @ popped vs n"
  by (cases "n \<le> length vs") (simp_all add: unknowns_def popped_def pop_rest_def)

lemma subs_popped:
  assumes "pop_ok u vs sig" and "vals u vs" and "list_all proper sig"
  shows "subs (popped vs (length sig)) sig"
proof -
  let ?k = "length sig - length vs"
  have "list_all2 matches (drop (length vs - length sig) vs) (drop ?k sig)"
    using assms(1) by (auto simp: pop_ok_def split: if_splits)
  then have "subs (drop (length vs - length sig) vs) (drop ?k sig)"
    using assms(2,3) by (intro matches_subs) (auto simp: list_all_iff dest!: in_set_dropD dest: vals_elem)
  moreover have "subs (replicate ?k AnyTy) (take ?k sig)"
    by (rule list_all2_all_nthI) simp_all
  ultimately have "subs (replicate ?k AnyTy @ drop (length vs - length sig) vs) (take ?k sig @ drop ?k sig)"
    by (intro list_all2_appendI)
  then show ?thesis by (simp add: popped_def unknowns_def)
qed

lemma below_unknowns: "pop_ok u vs sig \<Longrightarrow> below u (unknowns (length sig) vs)"
  using pop_ok_length [of u vs sig] by (auto simp: below_def unknowns_def)

lemma pop_subs:
  assumes "pop_ok u vs sig" and "vals u vs" and "list_all proper sig" and "below u y"
  shows "\<exists>x as. below u x \<and> subs as sig \<and> x @ vs = y @ pop_rest vs (length sig) @ as"
proof (intro exI conjI)
  show "below u (y @ unknowns (length sig) vs)"
    using below_unknowns [OF assms(1)] assms(4) by (auto simp: below_def)
  show "subs (popped vs (length sig)) sig" by (rule subs_popped [OF assms(1-3)])
  show "(y @ unknowns (length sig) vs) @ vs = y @ pop_rest vs (length sig) @ popped vs (length sig)"
    by (simp add: popped_split)
qed

section \<open>The state of a block\<close>

definition label_sig :: "label \<Rightarrow> frame" where
  "label_sig l = (label_type l, param_types l, result_types l)"

lemma br_sig_label_sig [simp]: "br_sig (label_sig l) = br_types l"
  by (simp add: label_sig_def br_types_def)

definition is_unreachable :: "type_checker \<Rightarrow> bool" where
  "is_unreachable s \<longleftrightarrow> unreachable (top_label s)"

text \<open>The checker is in a block with context \<open>C\<close>, base \<open>base\<close> and operands \<open>vs\<close>.\<close>

definition in_block ::
  "features \<Rightarrow> frame list \<Rightarrow> type_checker \<Rightarrow> type_vector \<Rightarrow> type_vector \<Rightarrow> bool" where
  "in_block f C s base vs \<longleftrightarrow> stacked s base vs \<and> map label_sig (label_stack s) = C \<and>
     tc_features s = f \<and> vals (is_unreachable s) vs"

text \<open>Only the operands and the top label's \<open>unreachable\<close> flag differ.\<close>

definition same_block :: "type_checker \<Rightarrow> type_checker \<Rightarrow> bool" where
  "same_block s s' \<longleftrightarrow> tc_features s' = tc_features s \<and>
     (\<exists>u. label_stack s' = butlast (label_stack s) @ [(top_label s)\<lparr>unreachable := u\<rparr>])"

definition ctx_ok :: "frame list \<Rightarrow> bool" where
  "ctx_ok C \<longleftrightarrow> C \<noteq> [] \<and> (\<forall>(lt, ps, rs) \<in> set C. list_all proper ps \<and> list_all proper rs)"

lemma ctx_ok_snoc: "ctx_ok C \<Longrightarrow> list_all proper ps \<Longrightarrow> list_all proper rs \<Longrightarrow> ctx_ok (C @ [(lt, ps, rs)])"
  by (auto simp: ctx_ok_def)

lemma at_depth_map: "d < length xs \<Longrightarrow> at_depth (map g xs) d = g (at_depth xs d)"
  by (simp add: at_depth_def)

lemma at_depth_in_set: "d < length xs \<Longrightarrow> at_depth xs d \<in> set xs"
  by (simp add: at_depth_def)

lemma ctx_br_sig: "ctx_ok C \<Longrightarrow> d < length C \<Longrightarrow> list_all proper (br_sig (at_depth C d))"
  by (cases "at_depth C d") (use at_depth_in_set [of d C] in \<open>auto simp: ctx_ok_def\<close>)

lemma ctx_hd: "ctx_ok C \<Longrightarrow> list_all proper (snd (snd (hd C)))"
  by (cases C) (auto simp: ctx_ok_def split: prod.splits)

lemma same_block_trans: "same_block s s1 \<Longrightarrow> same_block s1 s2 \<Longrightarrow> same_block s s2"
  by (auto simp: same_block_def)

lemma same_block_refl: "label_stack s \<noteq> [] \<Longrightarrow> same_block s s"
  by (auto simp: same_block_def intro!: exI [of _ "unreachable (top_label s)"])

lemma same_block_stack: "same_block s (s1\<lparr>type_stack := st\<rparr>) \<longleftrightarrow> same_block s s1"
  by (simp add: same_block_def)

lemma same_block_stop: "label_stack s \<noteq> [] \<Longrightarrow> same_block s (stop s st)"
  by (auto simp: same_block_def stop_def)

section \<open>Simple instructions\<close>

text \<open>
  \<open>progress f C P s s' base vs\<close>: the checker went from operands \<open>vs\<close> to some \<open>vs'\<close> in the same
  block, and whatever unknown types \<open>y\<close> lie below \<open>vs'\<close>, there are types \<open>x\<close> to put below \<open>vs\<close>
  such that \<open>P (x @ vs) (y @ vs')\<close>.
\<close>

definition progress ::
  "features \<Rightarrow> frame list \<Rightarrow> (type_vector \<Rightarrow> type_vector \<Rightarrow> bool) \<Rightarrow> type_checker \<Rightarrow> type_checker \<Rightarrow>
     type_vector \<Rightarrow> type_vector \<Rightarrow> bool" where
  "progress f C P s s' base vs \<longleftrightarrow> (\<exists>vs'. in_block f C s' base vs' \<and> same_block s s' \<and>
     (\<forall>y. below (is_unreachable s') y \<longrightarrow>
        (\<exists>x. below (is_unreachable s) x \<and> P (x @ vs) (y @ vs'))))"

definition framed :: "(type_vector \<Rightarrow> type_vector \<Rightarrow> bool) \<Rightarrow> type_vector \<Rightarrow> type_vector \<Rightarrow> bool" where
  "framed T ts ts' \<longleftrightarrow> (\<exists>fr as bs. ts = fr @ as \<and> ts' = fr @ bs \<and> T as bs)"

lemma in_block_stack:
  "in_block f C s base vs \<Longrightarrow> vals (is_unreachable s) vs' \<Longrightarrow>
     in_block f C (s\<lparr>type_stack := base @ vs'\<rparr>) base vs'"
  by (simp add: in_block_def stacked_def is_unreachable_def)

lemma is_unreachable_stack [simp]: "is_unreachable (s\<lparr>type_stack := st\<rparr>) = is_unreachable s"
  by (simp add: is_unreachable_def)

lemma in_block_ne: "in_block f C s base vs \<Longrightarrow> label_stack s \<noteq> []"
  by (simp add: in_block_def stacked_def)

lemma label_sig_unreachable [simp]: "label_sig (l\<lparr>unreachable := u\<rparr>) = label_sig l"
  by (simp add: label_sig_def)

lemma map_label_sig_top:
  "label_stack s \<noteq> [] \<Longrightarrow>
     map label_sig (butlast (label_stack s) @ [(top_label s)\<lparr>unreachable := u\<rparr>]) = map label_sig (label_stack s)"
  by (cases "label_stack s" rule: rev_cases) simp_all

lemma in_block_stop: "in_block f C s base vs \<Longrightarrow> in_block f C (stop s base) base []"
  using map_label_sig_top [of s True]
  by (auto simp: in_block_def stacked_def stop_def is_unreachable_def)

lemma is_unreachable_stop [simp]: "is_unreachable (stop s base)"
  by (simp add: is_unreachable_def stop_def)

text \<open>Popping a signature and pushing value types.\<close>

lemma progress_sig:
  assumes s: "in_block f C s base vs" and pop: "pop_ok (is_unreachable s) vs sig" "list_all proper sig"
    and rs: "list_all proper rs" and T: "\<And>as. subs as sig \<Longrightarrow> T as rs"
  shows "progress f C (framed T) s (s\<lparr>type_stack := base @ pop_rest vs (length sig) @ rs\<rparr>) base vs"
proof -
  let ?vs' = "pop_rest vs (length sig) @ rs"
  let ?s' = "s\<lparr>type_stack := base @ ?vs'\<rparr>"
  have v: "vals (is_unreachable s) vs" using s by (simp add: in_block_def)
  have "\<exists>x. below (is_unreachable s) x \<and> framed T (x @ vs) (y @ ?vs')" if y: "below (is_unreachable s) y" for y
  proof -
    from pop_subs [OF pop(1) v pop(2) y] obtain x as where x: "below (is_unreachable s) x"
      "subs as sig" "x @ vs = (y @ pop_rest vs (length sig)) @ as" by auto
    have "y @ ?vs' = (y @ pop_rest vs (length sig)) @ rs" by simp
    with x T show ?thesis unfolding framed_def by blast
  qed
  moreover have "in_block f C ?s' base ?vs'" using s v rs by (intro in_block_stack) simp_all
  moreover have "same_block s ?s'" using in_block_ne [OF s] by (simp add: same_block_stack same_block_refl)
  ultimately show ?thesis unfolding progress_def by auto
qed

text \<open>Popping a signature and leaving the rest of the block unreachable.\<close>

lemma progress_stop:
  assumes s: "in_block f C s base vs" and pop: "pop_ok (is_unreachable s) vs sig" "list_all proper sig"
    and T: "\<And>as xs bs. subs as sig \<Longrightarrow> T (xs @ as) bs"
  shows "progress f C (framed T) s (stop s base) base vs"
proof -
  have v: "vals (is_unreachable s) vs" using s by (simp add: in_block_def)
  from pop_subs [OF pop(1) v pop(2), of "[]"] obtain x as where x: "below (is_unreachable s) x"
    "subs as sig" "x @ vs = pop_rest vs (length sig) @ as" by auto
  then have "framed T (x @ vs) (y @ [])" for y
    unfolding framed_def using T by (metis append_Nil append_Nil2)
  with x in_block_stop [OF s] same_block_stop [OF in_block_ne [OF s]] show ?thesis
    unfolding progress_def by blast
qed

lemma in_block_stacked: "in_block f C s base vs \<Longrightarrow> stacked s base vs"
  by (simp add: in_block_def)

lemma in_block_depth:
  "in_block f C s base vs \<Longrightarrow> d < length (label_stack s) \<Longrightarrow>
     br_types (at_depth (label_stack s) d) = br_sig (at_depth C d) \<and>
     label_type (at_depth (label_stack s) d) = fst (at_depth C d) \<and> d < length C"
  by (auto simp: in_block_def at_depth_map label_sig_def br_types_def)

lemma in_block_hd:
  "in_block f C s base vs \<Longrightarrow> result_types (hd (label_stack s)) = snd (snd (hd C))"
  by (auto simp: in_block_def stacked_def hd_map label_sig_def)

lemma CheckTypes_proper:
  "\<lbrakk>CheckTypes as es = Ok; list_all proper as; list_all proper es\<rbrakk> \<Longrightarrow> as = es"
proof -
  assume *: "CheckTypes as es = Ok" "list_all proper as" "list_all proper es"
  have fold: "fold (\<lambda>(a, e) r. result_or r (CheckType a e)) xs r = Ok \<longleftrightarrow>
      r = Ok \<and> (\<forall>(a, e) \<in> set xs. matches a e)" for xs r
    by (induction xs arbitrary: r) (auto simp: matches_def)
  from * have "length as = length es" "\<forall>(a, e) \<in> set (zip as es). matches a e"
    by (auto simp: CheckTypes_def fold split: if_splits)
  from this *(2,3) show ?thesis
  proof (induction as es rule: list_induct2)
    case (Cons a as e es)
    then have "sub a e" by (intro matches_sub) auto
    with Cons show ?case by (auto simp: sub_def)
  qed simp
qed

lemma OnUnreachable_Ok:
  "stacked s base vs \<Longrightarrow> run_state OnUnreachable s = (Ok, s') \<Longrightarrow> s' = stop s base"
  by (simp add: OnUnreachable_def run_SetUnreachable_stacked del: run_SetUnreachable)

lemma proper_sub_proper: "list_all2 sub as sig \<Longrightarrow> list_all proper sig \<Longrightarrow> length as = length sig"
  by (simp add: list_all2_lengthD)

lemma progress_drop:
  assumes s: "in_block f C s base vs" and p: "pop_ok (is_unreachable s) vs [AnyTy]"
    and T: "\<And>a. T [a] []"
  shows "progress f C (framed T) s (s\<lparr>type_stack := base @ pop_rest vs 1\<rparr>) base vs"
proof -
  let ?s' = "s\<lparr>type_stack := base @ pop_rest vs 1\<rparr>"
  have v: "vals (is_unreachable s) vs" using s by (simp add: in_block_def)
  have "\<exists>x. below (is_unreachable s) x \<and> framed T (x @ vs) (y @ pop_rest vs 1)"
    if y: "below (is_unreachable s) y" for y
  proof (cases vs rule: rev_cases)
    case Nil
    with p have "is_unreachable s" by (simp add: pop_ok_def)
    moreover have "framed T ((y @ [AnyTy]) @ vs) (y @ pop_rest vs 1)"
      unfolding framed_def using T [of AnyTy] Nil
      by (intro exI [of _ y] exI [of _ "[AnyTy]"] exI [of _ "[]"]) (auto simp: pop_rest_def)
    ultimately show ?thesis by (metis below_simps(2))
  next
    case (snoc ws a)
    have "framed T (y @ vs) (y @ pop_rest vs 1)"
      unfolding framed_def using T [of a] snoc
      by (intro exI [of _ "y @ ws"] exI [of _ "[a]"] exI [of _ "[]"]) (auto simp: pop_rest_def)
    with y show ?thesis by blast
  qed
  moreover have "in_block f C ?s' base (pop_rest vs 1)" using s v by (intro in_block_stack) simp_all
  moreover have "same_block s ?s'" using in_block_ne [OF s] by (simp add: same_block_stack same_block_refl)
  ultimately show ?thesis unfolding progress_def by auto
qed

lemma progress_is_null:
  assumes s: "in_block f C s base vs"
    and p: "if vs = [] then is_unreachable s else type_eq (last vs) AnyTy \<or> IsRef (last vs)"
    and T: "\<And>a. a = AnyTy \<or> IsRef a \<Longrightarrow> T [a] [I32]"
  shows "progress f C (framed T) s (s\<lparr>type_stack := base @ pop_rest vs 1 @ [I32]\<rparr>) base vs"
proof -
  let ?s' = "s\<lparr>type_stack := base @ pop_rest vs 1 @ [I32]\<rparr>"
  have v: "vals (is_unreachable s) vs" using s by (simp add: in_block_def)
  have "\<exists>x. below (is_unreachable s) x \<and> framed T (x @ vs) (y @ pop_rest vs 1 @ [I32])"
    if y: "below (is_unreachable s) y" for y
  proof (cases vs rule: rev_cases)
    case Nil
    with p have "is_unreachable s" by simp
    moreover have "framed T ((y @ [AnyTy]) @ vs) (y @ pop_rest vs 1 @ [I32])"
      unfolding framed_def using T [of AnyTy] Nil
      by (intro exI [of _ y] exI [of _ "[AnyTy]"] exI [of _ "[I32]"]) (auto simp: pop_rest_def)
    ultimately show ?thesis by (metis below_simps(2))
  next
    case (snoc ws a)
    with vals_elem [OF v, of a] p have "a = AnyTy \<or> IsRef a"
      by (auto simp: type_eq_def proper_def)
    then have "framed T (y @ vs) (y @ pop_rest vs 1 @ [I32])"
      unfolding framed_def using T [of a] snoc
      by (intro exI [of _ "y @ ws"] exI [of _ "[a]"] exI [of _ "[I32]"]) (auto simp: pop_rest_def)
    with y show ?thesis by blast
  qed
  moreover have "in_block f C ?s' base (pop_rest vs 1 @ [I32])" using s v by (intro in_block_stack) simp_all
  moreover have "same_block s ?s'" using in_block_ne [OF s] by (simp add: same_block_stack same_block_refl)
  ultimately show ?thesis unfolding progress_def by auto
qed

text \<open>The three operands of \<open>select\<close>, those below the stack being unknown.\<close>

lemma three_operands:
  assumes "3 \<le> length vs \<or> u" and "below u y"
  shows "\<exists>x. below u x \<and> x @ vs = (y @ pop_rest vs 3) @ [operand vs 2, operand vs 1, operand vs 0]"
proof (cases "3 \<le> length vs")
  case True
  then obtain ws b a i where "vs = ws @ [b, a, i]"
    by (metis append_assoc append_Cons append_Nil length_0_conv length_append_singleton not_less_eq_eq
        numeral_3_eq_3 rev_exhaust Suc_le_mono le_zero_eq nat.simps(3))
  then have "y @ vs = (y @ pop_rest vs 3) @ [operand vs 2, operand vs 1, operand vs 0]"
    by (simp add: pop_rest_def operand_def at_depth_def nth_append numeral_2_eq_2)
  with assms show ?thesis by blast
next
  case False
  then consider "vs = []" | i where "vs = [i]" | a i where "vs = [a, i]"
    by (cases vs rule: remdups_adj.cases) (auto simp: Suc_le_eq numeral_3_eq_3)
  then have "(y @ replicate (3 - length vs) AnyTy) @ vs =
      (y @ pop_rest vs 3) @ [operand vs 2, operand vs 1, operand vs 0]"
    by cases (auto simp: pop_rest_def operand_def at_depth_def numeral_3_eq_3 numeral_2_eq_2)
  with assms False show ?thesis by (metis below_simps(2))
qed

lemma vals_operand: "vals u vs \<Longrightarrow> proper (operand vs d) \<or> operand vs d = AnyTy"
  using at_depth_in_set [of d vs] vals_elem [of u vs] by (auto simp: operand_def)

lemma vals_operand_Any:
  assumes "vals u vs" and "operand vs d = AnyTy" and "d < e"
  shows "operand vs e = AnyTy \<and> pop_rest vs e = []"
proof (cases "e < length vs")
  case True
  with assms have "at_depth vs d = AnyTy" by (simp add: operand_def)
  moreover have "proper (at_depth vs d)"
  proof -
    have "at_depth vs d = tl vs ! (length vs - d - 2)" and "length vs - d - 2 < length (tl vs)"
      using True assms(3) by (auto simp: at_depth_def nth_tl intro!: arg_cong [where f = "nth vs"])
    then have "at_depth vs d \<in> set (tl vs)" by (metis nth_mem)
    moreover have "list_all proper (tl vs)" using assms(1) by (cases vs) (auto simp: vals_def)
    ultimately show ?thesis by (simp add: list_all_iff)
  qed
  ultimately show ?thesis by simp
qed (simp add: operand_def pop_rest_def)

lemma progress_select:
  assumes s: "in_block f C s base vs"
    and n: "3 \<le> length vs \<or> is_unreachable s" and i: "matches (operand vs 0) I32"
    and nr: "\<not> IsRef (operand vs 1)" "\<not> IsRef (operand vs 2)"
    and m: "matches (operand vs 1) (operand vs 2)"
    and T: "\<And>a b i. \<lbrakk>\<not> IsRef a; \<not> IsRef b; sub b a; sub i I32\<rbrakk> \<Longrightarrow> T [b, a, i] [a]"
  shows "progress f C (framed T) s
    (s\<lparr>type_stack := base @ pop_rest vs 3 @ push_types [operand vs 1]\<rparr>) base vs"
proof -
  let ?a = "operand vs 1" and ?b = "operand vs 2"
  let ?vs' = "pop_rest vs 3 @ [?a]"
  have v: "vals (is_unreachable s) vs" using s by (simp add: in_block_def)
  have push: "push_types [?a] = [?a]"
    using vals_operand [OF v, of 1] by (auto simp: push_types_def type_eq_def proper_def)
  have ba: "sub ?b ?a"
  proof (cases "?a = AnyTy")
    case True
    then show ?thesis using vals_operand_Any [OF v, of 1 2] by simp
  next
    case False
    with m vals_operand [OF v, of 1] vals_operand [OF v, of 2] matches_sub [of ?a ?b] show ?thesis
      by (auto simp: sub_def)
  qed
  have v': "vals (is_unreachable s) ?vs'"
  proof (cases "?a = AnyTy")
    case True
    then have rest: "operand vs 3 = AnyTy \<and> pop_rest vs 3 = []" by (intro vals_operand_Any [OF v]) auto
    have "\<not> 3 \<le> length vs" if u: "\<not> is_unreachable s"
    proof
      assume "3 \<le> length vs"
      then have "operand vs 1 \<in> set vs" by (simp add: operand_def at_depth_in_set)
      with u v True show False by (auto simp: vals_def list_all_iff)
    qed
    with n have "is_unreachable s" by auto
    with rest True show ?thesis by (simp add: vals_def)
  next
    case False
    with vals_operand [OF v, of 1] v show ?thesis by simp
  qed
  have "\<exists>x. below (is_unreachable s) x \<and> framed T (x @ vs) (y @ ?vs')"
    if y: "below (is_unreachable s) y" for y
  proof -
    from three_operands [OF n y] obtain x where x: "below (is_unreachable s) x"
      "x @ vs = (y @ pop_rest vs 3) @ [?b, ?a, operand vs 0]" by blast
    have "sub (operand vs 0) I32" using matches_sub [OF i] vals_operand [OF v] by simp
    with T [OF nr ba] have "T [?b, ?a, operand vs 0] [?a]" by simp
    with x show ?thesis unfolding framed_def by (metis append_assoc)
  qed
  moreover have "in_block f C (s\<lparr>type_stack := base @ ?vs'\<rparr>) base ?vs'"
    using s v' by (intro in_block_stack) simp_all
  moreover have "same_block s (s\<lparr>type_stack := base @ ?vs'\<rparr>)"
    using in_block_ne [OF s] by (simp add: same_block_stack same_block_refl)
  ultimately show ?thesis unfolding progress_def push by auto
qed

text \<open>Every accepted simple call is an instance of its typing rule.\<close>

lemma simple_progress:
  assumes s: "in_block f C s base vs" and C: "ctx_ok C" and wf: "wf_call f c"
    and run: "tc_step c s = (Some Ok, s')"
  shows "progress f C (framed (simple_typing f C c)) s s' base vs"
proof (cases "call_sig f c")
  case (Some sg)
  obtain ps rs where sg: "call_sig f c = Some (ps, rs)" using Some by (cases sg) simp
  have st: "stacked s base vs" "tc_features s = f" using s by (simp_all add: in_block_def)
  from wf sg have pr: "list_all proper ps" "list_all proper (push_types rs)"
    by (simp_all add: wf_call_def)
  from checks_tc_action [OF sg] st run
  have "lanes_ok c" "pop_ok (is_unreachable s) vs ps"
    "s' = s\<lparr>type_stack := base @ pop_rest vs (length ps) @ push_types rs\<rparr>"
    unfolding option_checks_def tc_step_def is_unreachable_def by (metis fst_conv snd_conv)+
  with progress_sig [OF s _ pr] simple_typing.by_signature [OF sg] show ?thesis by simp
next
  case None
  then have wf: "wf_control c" using wf by (simp add: wf_call_def)
  note st = in_block_stacked [OF s]
  note uf = is_unreachable_def [of s, symmetric]
  show ?thesis
  proof (cases c)
    case (SigCall k ts)
    show ?thesis
    proof (cases "k = KThrow")
      case True
      with SigCall wf have ts: "list_all proper ts" by simp
      from SigCall True run have "run_state (OnThrow ts) s = (Ok, s')"
        by (simp add: tc_step_returning)
      from OnThrow_Ok [OF st this] progress_stop [OF s _ ts] SigCall True show ?thesis
        by (simp add: uf simple_typing.throw)
    next
      case False
      with SigCall wf have c: "c = SigCall KSelect []" by simp
      with run have "run_state (OnSelect []) s = (Ok, s')" by (simp add: tc_step_returning)
      from OnSelect_Ok [OF st this] show ?thesis
        unfolding c uf by (elim conjE, simp only:)
          (rule progress_select [OF s], simp_all add: simple_typing.select)
    qed
  next
    case (BlockCall k ps rs)
    with wf have pr: "list_all proper ps" "list_all proper rs" by simp_all
    have hd: "list_all proper (snd (snd (hd C)))" by (rule ctx_hd [OF C])
    show ?thesis
    proof (cases "k = KReturnCall")
      case True
      with BlockCall run have "run_state (OnReturnCall ps rs) s = (Ok, s')" by (simp add: tc_step_returning)
      note 1 = OnReturnCall_Ok [OF st this, unfolded in_block_hd [OF s] uf]
      with CheckTypes_proper [OF _ pr(2) hd] have "rs = snd (snd (hd C))" by simp
      with 1 progress_stop [OF s _ pr(1)] BlockCall True show ?thesis
        by (simp add: simple_typing.return_call)
    next
      case False
      with BlockCall wf have k: "k = KReturnCallIndirect" by simp
      with BlockCall run have "run_state (OnReturnCallIndirect ps rs) s = (Ok, s')"
        by (simp add: tc_step_returning)
      note 1 = OnReturnCallIndirect_Ok [OF st this, unfolded in_block_hd [OF s] uf]
      with CheckTypes_proper [OF _ pr(2) hd] have rs: "rs = snd (snd (hd C))" by simp
      have T: "simple_typing f C c (xs @ as) bs" if "subs as (ps @ [I32])" for as xs bs
        using that simple_typing.return_call_indirect [of _ ps _ rs C f] rs BlockCall k
        by (auto simp: list_all2_append2 list_all2_Cons2)
      have "progress f C (framed (simple_typing f C c)) s (stop s base) base vs"
        by (rule progress_stop [OF s, of "ps @ [I32]"]) (use 1 pr T in simp_all)
      with 1 show ?thesis by simp
    qed
  next
    case (DepthCall k d)
    consider "k = KBr" | "k = KBrIf" | "k = KRethrow" using wf DepthCall by auto
    then show ?thesis
    proof cases
      case 1
      with DepthCall run have "run_state (OnBr d) s = (Ok, s')" by (simp add: tc_step_returning)
      note br = OnBr_Ok [OF st this]
      note d = in_block_depth [OF s, of "unat d"]
      have "list_all proper (br_sig (at_depth C (unat d)))" using C br d by (intro ctx_br_sig) auto
      moreover have "progress f C (framed (simple_typing f C c)) s (stop s base) base vs"
        by (rule progress_stop [OF s, of "br_sig (at_depth C (unat d))"])
          (use br d uf DepthCall 1 calculation in \<open>simp_all add: simple_typing.br\<close>)
      ultimately show ?thesis using br by simp
    next
      case 2
      with DepthCall run have "run_state (OnBrIf d) s = (Ok, s')" by (simp add: tc_step_returning)
      note br = OnBrIf_Ok [OF st this, unfolded Let_def uf]
      note d = in_block_depth [OF s, of "unat d"]
      let ?sig = "br_sig (at_depth C (unat d))"
      have sg: "list_all proper ?sig" using C br d by (intro ctx_br_sig) auto
      have T: "simple_typing f C c as ?sig" if "subs as (?sig @ [I32])" for as
        using that simple_typing.br_if [of d C _ _ f] br d DepthCall 2
        by (auto simp: list_all2_append2 list_all2_Cons2)
      have "progress f C (framed (simple_typing f C c)) s
          (s\<lparr>type_stack := base @ pop_rest vs (length (?sig @ [I32])) @ ?sig\<rparr>) base vs"
        by (rule progress_sig [OF s]) (use br d sg T in simp_all)
      with br d sg show ?thesis by (simp add: proper_pushs)
    next
      case 3
      with DepthCall run have "run_state (OnRethrow d) s = (Ok, s')" by (simp add: tc_step_returning)
      note br = OnRethrow_Ok [OF st this]
      note d = in_block_depth [OF s, of "unat d"]
      have "progress f C (framed (simple_typing f C c)) s (stop s base) base vs"
        by (rule progress_stop [OF s, of "[]"]) (use br d DepthCall 3 in \<open>simp_all add: simple_typing.rethrow\<close>)
      with br show ?thesis by simp
    qed
  next
    case (PlainCall k)
    consider "k = KDrop" | "k = KRefIsNullExpr" | "k = KReturn" | "k = KUnreachable"
      using wf PlainCall by auto
    then show ?thesis
    proof cases
      case 1
      with PlainCall run have "run_state OnDrop s = (Ok, s')" by (simp add: tc_step_returning)
      from OnDrop_Ok [OF st this] progress_drop [OF s] PlainCall 1 show ?thesis
        by (simp add: uf simple_typing.drop)
    next
      case 2
      with PlainCall run have "run_state OnRefIsNullExpr s = (Ok, s')" by (simp add: tc_step_returning)
      note null = OnRefIsNull_Ok [OF st this, unfolded uf]
      have "progress f C (framed (simple_typing f C c)) s
          (s\<lparr>type_stack := base @ pop_rest vs 1 @ [I32]\<rparr>) base vs"
        by (rule progress_is_null [OF s null [THEN conjunct1]])
          (simp add: PlainCall 2 simple_typing.ref_is_null)
      with null show ?thesis by simp
    next
      case 3
      with PlainCall run have "run_state OnReturn s = (Ok, s')" by (simp add: tc_step_returning)
      from OnReturn_Ok [OF st this] progress_stop [OF s _ ctx_hd [OF C]] PlainCall 3 in_block_hd [OF s]
      show ?thesis by (simp add: uf simple_typing.return)
    next
      case 4
      with PlainCall run have "run_state OnUnreachable s = (Ok, s')" by (simp add: tc_step_returning)
      with OnUnreachable_Ok [OF st] progress_stop [OF s, of "[]"] PlainCall 4 show ?thesis
        by (simp add: simple_typing.unreachable)
    qed
  qed (use wf in simp_all)
qed

section \<open>Blocks\<close>

text \<open>
  \<open>opened s0 s base lt ps rs vs\<close>: since the state \<open>s0\<close> a block of kind \<open>lt\<close> was opened, and
  \<open>vs\<close> are its operands now.
\<close>

definition opened ::
  "type_checker \<Rightarrow> type_checker \<Rightarrow> type_vector \<Rightarrow> label_type \<Rightarrow> type_vector \<Rightarrow> type_vector \<Rightarrow> type_vector \<Rightarrow> bool"
where
  "opened s0 s base lt ps rs vs \<longleftrightarrow> (\<exists>l. label_stack s = label_stack s0 @ [l] \<and>
     label_sig l = (lt, ps, rs) \<and> type_stack_limit l = length base \<and> vals (unreachable l) vs) \<and>
     tc_features s = tc_features s0 \<and> type_stack s = base @ vs"

definition body_sound :: "features \<Rightarrow> instr list \<Rightarrow> bool" where
  "body_sound f es \<longleftrightarrow> (\<forall>C s base vs s'. list_all (wf_instr f) es \<longrightarrow> ctx_ok C \<longrightarrow>
     in_block f C s base vs \<longrightarrow> run_ok (body_calls es) s = Some s' \<longrightarrow>
     progress f C (typing f C es) s s' base vs)"

definition extends :: "features \<Rightarrow> frame list \<Rightarrow> instr \<Rightarrow> type_vector \<Rightarrow> type_vector \<Rightarrow> bool" where
  "extends f C e ts ts1 \<longleftrightarrow> (\<forall>es ts'. typing f C es ts1 ts' \<longrightarrow> typing f C (e # es) ts ts')"

lemma opened_in_block:
  "\<lbrakk>opened s0 s base lt ps rs vs; map label_sig (label_stack s0) = C; tc_features s0 = f\<rbrakk> \<Longrightarrow>
     in_block f (C @ [(lt, ps, rs)]) s base vs"
  by (auto simp: opened_def in_block_def stacked_def is_unreachable_def)

lemma opened_same:
  "\<lbrakk>opened s0 s1 base lt ps rs vs1; same_block s1 s2; in_block f C s2 base vs2\<rbrakk> \<Longrightarrow>
     opened s0 s2 base lt ps rs vs2"
  by (auto simp: opened_def in_block_def stacked_def is_unreachable_def same_block_def)

lemma opened_stacked: "opened s0 s base lt ps rs vs \<Longrightarrow> stacked s base vs"
  by (auto simp: opened_def stacked_def)

lemma opened_top:
  "opened s0 s base lt ps rs vs \<Longrightarrow> label_type (top_label s) = lt \<and> param_types (top_label s) = ps \<and>
     result_types (top_label s) = rs \<and> butlast (label_stack s) = label_stack s0 \<and>
     unreachable (top_label s) = is_unreachable s"
  by (auto simp: opened_def label_sig_def is_unreachable_def)

lemma enter_opened:
  "list_all proper ps \<Longrightarrow> opened s (enter lt ps rs s st) st lt ps rs ps \<and> \<not> is_unreachable (enter lt ps rs s st)"
  by (simp add: opened_def enter_def Label_def label_sig_def is_unreachable_def proper_pushs)

lemma retype_opened:
  "\<lbrakk>opened s0 s base lt ps rs vs; list_all proper ws\<rbrakk> \<Longrightarrow>
     opened s0 (retype lt' s (base @ ws)) base lt' ps rs ws \<and> \<not> is_unreachable (retype lt' s (base @ ws))"
  by (auto simp: opened_def retype_def label_sig_def is_unreachable_def)

lemma body_typed:
  assumes body: "body_sound f body" "list_all (wf_instr f) body"
    and s0: "map label_sig (label_stack s0) = C" "tc_features s0 = f" "ctx_ok C"
    and rs: "list_all proper ps" "list_all proper rs"
    and s1: "opened s0 s1 base lt ps rs ws \<and> \<not> is_unreachable s1"
    and run: "run_ok (body_calls body) s1 = Some s2"
  shows "\<exists>vs. opened s0 s2 base lt ps rs vs \<and>
    (pop_ok (is_unreachable s2) vs rs \<longrightarrow> pop_rest vs (length rs) = [] \<longrightarrow>
       (\<exists>qs. typing f (C @ [(lt, ps, rs)]) body ws qs \<and> subs qs rs))"
proof -
  let ?C = "C @ [(lt, ps, rs)]"
  have "in_block f ?C s1 base ws" using opened_in_block s1 s0 by blast
  moreover have "ctx_ok ?C" using s0 rs by (simp add: ctx_ok_snoc)
  ultimately have p: "progress f ?C (typing f ?C body) s1 s2 base ws"
    using body run by (simp add: body_sound_def)
  then obtain vs where vs: "in_block f ?C s2 base vs" "same_block s1 s2"
    and all: "\<And>y. below (is_unreachable s2) y \<Longrightarrow>
      \<exists>x. below (is_unreachable s1) x \<and> typing f ?C body (x @ ws) (y @ vs)"
    unfolding progress_def by blast
  have T: "typing f ?C body ws (y @ vs)" if "below (is_unreachable s2) y" for y
    using all [OF that] s1 by (auto simp: below_def)
  have "\<exists>qs. typing f ?C body ws qs \<and> subs qs rs"
    if pop: "pop_ok (is_unreachable s2) vs rs" and rest: "pop_rest vs (length rs) = []"
  proof -
    have "vals (is_unreachable s2) vs" using vs(1) by (simp add: in_block_def)
    from pop_subs [OF pop this rs(2), of "[]"] obtain x as where
      "below (is_unreachable s2) x" "subs as rs" "x @ vs = as" using rest by auto
    with T [of x] show ?thesis by auto
  qed
  with opened_same [OF _ vs(2,1)] s1 show ?thesis by blast
qed

lemma progress_mono:
  assumes "progress f C P s s1 base vs" and "\<And>ts ts'. P ts ts' \<Longrightarrow> Q ts ts'"
    and "label_stack s' = label_stack s1" "tc_features s' = tc_features s1" "type_stack s' = type_stack s1"
  shows "progress f C Q s s' base vs"
proof -
  from assms(1) obtain vs' where v: "in_block f C s1 base vs'" "same_block s s1"
    and all: "\<And>y. below (is_unreachable s1) y \<Longrightarrow> \<exists>x. below (is_unreachable s) x \<and> P (x @ vs) (y @ vs')"
    unfolding progress_def by blast
  have s': "in_block f C s' base vs'" "same_block s s'" "is_unreachable s' = is_unreachable s1"
    using assms(3-5) v by (simp_all add: in_block_def stacked_def same_block_def is_unreachable_def)
  have "\<exists>x. below (is_unreachable s) x \<and> Q (x @ vs) (y @ vs')" if "below (is_unreachable s') y" for y
    using all [of y] that s'(3) assms(2) by auto
  with s'(1,2) show ?thesis unfolding progress_def by blast
qed

text \<open>The whole block, from the state before its opening to the one after its end.\<close>

lemma progress_block:
  assumes s: "in_block f C s base vs" and pop: "pop_ok (is_unreachable s) vs sig" "list_all proper sig"
    and rs: "list_all proper rs"
    and s': "label_stack s' = label_stack s" "tc_features s' = tc_features s"
      "type_stack s' = base @ pop_rest vs (length sig) @ rs"
    and T: "\<And>fr as. subs as sig \<Longrightarrow> extends f C e (fr @ as) (fr @ rs)"
  shows "progress f C (extends f C e) s s' base vs"
proof -
  let ?s1 = "s\<lparr>type_stack := base @ pop_rest vs (length sig) @ rs\<rparr>"
  let ?T = "\<lambda>as bs. bs = rs \<and> (\<forall>fr. extends f C e (fr @ as) (fr @ rs))"
  have "progress f C (framed ?T) s ?s1 base vs"
    by (rule progress_sig [OF s pop rs]) (simp add: T)
  then show ?thesis
    by (rule progress_mono) (use s' in \<open>auto simp: framed_def\<close>)
qed

lemma OnEnd_opened:
  assumes s: "opened s0 s base lt ps rs vs" and lt: "lt \<noteq> LtIf" and rs: "list_all proper rs"
    and run: "run_state OnEnd s = (Ok, s')"
  shows "pop_ok (is_unreachable s) vs rs \<and> pop_rest vs (length rs) = [] \<and>
    label_stack s' = label_stack s0 \<and> tc_features s' = tc_features s0 \<and> type_stack s' = base @ rs"
  using OnEnd_Ok [OF opened_stacked [OF s] _ run] opened_top [OF s] lt s rs
  by (auto simp: proper_pushs opened_def)

lemma OnElse_opened:
  assumes s: "opened s0 s base lt ps rs vs" and ps: "list_all proper ps"
    and run: "run_state OnElse s = (Ok, s')"
  shows "pop_ok (is_unreachable s) vs rs \<and> pop_rest vs (length rs) = [] \<and>
    opened s0 s' base LtElse ps rs ps \<and> \<not> is_unreachable s'"
  using OnElse_Ok [OF opened_stacked [OF s] run] opened_top [OF s] retype_opened [OF s ps, of LtElse] ps
  by (auto simp: proper_pushs)

lemma OnCatch_opened:
  assumes s: "opened s0 s base lt ps rs vs" and sig: "list_all proper sig"
    and run: "run_state (OnCatch sig) s = (Ok, s')"
  shows "pop_ok (is_unreachable s) vs rs \<and> pop_rest vs (length rs) = [] \<and>
    opened s0 s' base LtCatch ps rs sig \<and> \<not> is_unreachable s'"
  using OnCatch_Ok [OF opened_stacked [OF s] run] opened_top [OF s] retype_opened [OF s sig, of LtCatch] sig
  by (auto simp: proper_pushs)

lemma pop_ok_reachable:
  "\<lbrakk>pop_ok False vs rs; pop_rest vs (length rs) = []; list_all proper vs; list_all proper rs\<rbrakk> \<Longrightarrow> vs = rs"
proof -
  assume *: "pop_ok False vs rs" "pop_rest vs (length rs) = []" "list_all proper vs" "list_all proper rs"
  then have "list_all2 matches vs rs" by (auto simp: pop_ok_def pop_rest_def split: if_splits)
  then have "subs vs rs" using * by (intro matches_subs) (simp_all add: list_all_iff)
  then show "vs = rs" using *(3)
    by (induction rule: list_all2_induct) (auto simp: sub_def)
qed

section \<open>Soundness of the structured instructions\<close>

definition instr_sound :: "features \<Rightarrow> instr \<Rightarrow> bool" where
  "instr_sound f e \<longleftrightarrow> (\<forall>C s base vs s'. wf_instr f e \<longrightarrow> ctx_ok C \<longrightarrow> in_block f C s base vs \<longrightarrow>
     run_ok (instr_calls e) s = Some s' \<longrightarrow> progress f C (extends f C e) s s' base vs)"

lemma instr_sound_Simple: "instr_sound f (Simple c)"
  unfolding instr_sound_def
proof (intro allI impI)
  fix C s base vs s'
  assume "wf_instr f (Simple c)" "ctx_ok C" and s: "in_block f C s base vs"
    and "run_ok (instr_calls (Simple c)) s = Some s'"
  then have "progress f C (framed (simple_typing f C c)) s s' base vs"
    by (intro simple_progress) (auto simp: Let_def split: prod.splits if_splits)
  then show "progress f C (extends f C (Simple c)) s s' base vs"
    by (rule progress_mono) (auto simp: framed_def extends_def intro: typing.simple)
qed

text \<open>A block with one body: what is left is to see that the body's typing makes the block's.\<close>

lemma one_body:
  assumes s: "in_block f C s base vs" and C: "ctx_ok C"
    and wf: "list_all proper ps" "list_all proper rs" "list_all (wf_instr f) body"
    and body: "body_sound f body" and lt: "lt \<noteq> LtIf"
    and pop: "pop_ok (is_unreachable s) vs ps" "s1 = enter lt ps rs s (base @ pop_rest vs (length ps))"
    and run: "run_ok (body_calls body) s1 = Some s2" "run_state OnEnd s2 = (Ok, s')"
    and T: "\<And>as fr qs. \<lbrakk>subs as ps; typing f (C @ [(lt, ps, rs)]) body ps qs; subs qs rs\<rbrakk> \<Longrightarrow>
      extends f C e (fr @ as) (fr @ rs)"
  shows "progress f C (extends f C e) s s' base vs"
proof -
  have s0: "map label_sig (label_stack s) = C" "tc_features s = f" using s by (simp_all add: in_block_def)
  let ?base = "base @ pop_rest vs (length ps)"
  from body_typed [OF body wf(3) s0 C wf(1,2) enter_opened [OF wf(1)] run(1) [unfolded pop(2)]]
  obtain vs2 where o: "opened s s2 ?base lt ps rs vs2"
    and typed: "pop_ok (is_unreachable s2) vs2 rs \<Longrightarrow> pop_rest vs2 (length rs) = [] \<Longrightarrow>
      \<exists>qs. typing f (C @ [(lt, ps, rs)]) body ps qs \<and> subs qs rs" by blast
  note e = OnEnd_opened [OF o lt wf(2) run(2)]
  with typed obtain qs where qs: "typing f (C @ [(lt, ps, rs)]) body ps qs" "subs qs rs" by blast
  show ?thesis
    by (rule progress_block [OF s pop(1) wf(1,2)]) (use e T [OF _ qs] in simp_all)
qed

lemma run_ok_split:
  "run_ok (as @ bs) s = Some s' \<longleftrightarrow> (\<exists>s1. run_ok as s = Some s1 \<and> run_ok bs s1 = Some s')"
  by (cases "run_ok as s") (simp_all add: run_ok_append)

lemma run_ok_single: "run_ok [c] s = Some s' \<longleftrightarrow> tc_step c s = (Some Ok, s')"
  by (auto simp: Let_def split: prod.splits)

lemma enter_run:
  assumes s: "in_block f C s base vs"
  shows "run_state (OnBlock ps rs) s = (Ok, s1) \<Longrightarrow>
      pop_ok (is_unreachable s) vs ps \<and> s1 = enter LtBlock ps rs s (base @ pop_rest vs (length ps))"
    and "run_state (OnLoop ps rs) s = (Ok, s1) \<Longrightarrow>
      pop_ok (is_unreachable s) vs ps \<and> s1 = enter LtLoop ps rs s (base @ pop_rest vs (length ps))"
    and "run_state (OnTry ps rs) s = (Ok, s1) \<Longrightarrow>
      pop_ok (is_unreachable s) vs ps \<and> s1 = enter LtTry ps rs s (base @ pop_rest vs (length ps))"
  using PopAndEnter_Ok [OF in_block_stacked [OF s]]
  unfolding OnBlock_def OnLoop_def OnTry_def is_unreachable_def by metis+

lemma instr_sound_Block:
  assumes body: "body_sound f body"
  shows "instr_sound f (Block ps rs body)"
  unfolding instr_sound_def
proof (intro allI impI)
  fix C s base vs s'
  assume wf: "wf_instr f (Block ps rs body)" and C: "ctx_ok C" and s: "in_block f C s base vs"
    and "run_ok (instr_calls (Block ps rs body)) s = Some s'"
  then obtain s1 s2 where run: "run_state (OnBlock ps rs) s = (Ok, s1)"
    "run_ok (body_calls body) s1 = Some s2" "run_state OnEnd s2 = (Ok, s')"
    by (auto simp: run_ok_Cons run_ok_split body_calls_def tc_step_returning simp del: run_ok.simps(2))
  note e = enter_run(1) [OF s run(1)]
  show "progress f C (extends f C (Block ps rs body)) s s' base vs"
    by (rule one_body [OF s C _ _ _ body _ e [THEN conjunct1] e [THEN conjunct2] run(2,3)])
      (use wf in \<open>auto simp: extends_def intro: typing.block\<close>)
qed

lemma instr_sound_Loop:
  assumes body: "body_sound f body"
  shows "instr_sound f (Loop ps rs body)"
  unfolding instr_sound_def
proof (intro allI impI)
  fix C s base vs s'
  assume wf: "wf_instr f (Loop ps rs body)" and C: "ctx_ok C" and s: "in_block f C s base vs"
    and "run_ok (instr_calls (Loop ps rs body)) s = Some s'"
  then obtain s1 s2 where run: "run_state (OnLoop ps rs) s = (Ok, s1)"
    "run_ok (body_calls body) s1 = Some s2" "run_state OnEnd s2 = (Ok, s')"
    by (auto simp: run_ok_Cons run_ok_split body_calls_def tc_step_returning simp del: run_ok.simps(2))
  note e = enter_run(2) [OF s run(1)]
  show "progress f C (extends f C (Loop ps rs body)) s s' base vs"
    by (rule one_body [OF s C _ _ _ body _ e [THEN conjunct1] e [THEN conjunct2] run(2,3)])
      (use wf in \<open>auto simp: extends_def intro: typing.loop\<close>)
qed

text \<open>The then-branch of an \<open>if\<close>, up to the state its results are checked in.\<close>

lemma then_branch:
  assumes s: "in_block f C s base vs" and C: "ctx_ok C"
    and wf: "list_all proper ps" "list_all proper rs" "list_all (wf_instr f) body"
    and body: "body_sound f body"
    and run: "run_state (OnIf ps rs) s = (Ok, s1)" "run_ok (body_calls body) s1 = Some s2"
      "run_state OnElse s2 = (Ok, s3)"
  shows "pop_ok (is_unreachable s) vs (ps @ [I32]) \<and>
    (\<exists>qs. typing f (C @ [(LtIf, ps, rs)]) body ps qs \<and> subs qs rs) \<and>
    opened s s3 (base @ pop_rest vs (length ps + 1)) LtElse ps rs ps \<and> \<not> is_unreachable s3"
proof -
  have s0: "map label_sig (label_stack s) = C" "tc_features s = f" using s by (simp_all add: in_block_def)
  let ?base = "base @ pop_rest vs (length ps + 1)"
  note e = PopAndCheck1_PopAndEnter_Ok [OF in_block_stacked [OF s] run(1), folded is_unreachable_def]
  from body_typed [OF body wf(3) s0 C wf(1,2) enter_opened [OF wf(1)] run(2) [unfolded e [THEN conjunct2]]]
  obtain vs2 where o: "opened s s2 ?base LtIf ps rs vs2"
    and typed: "pop_ok (is_unreachable s2) vs2 rs \<Longrightarrow> pop_rest vs2 (length rs) = [] \<Longrightarrow>
      \<exists>qs. typing f (C @ [(LtIf, ps, rs)]) body ps qs \<and> subs qs rs" by blast
  note b = OnElse_opened [OF o wf(1) run(3)]
  with typed e show ?thesis by simp
qed

lemma instr_sound_IfElse:
  assumes body: "body_sound f body" "body_sound f body'"
  shows "instr_sound f (IfElse ps rs body body')"
  unfolding instr_sound_def
proof (intro allI impI)
  fix C s base vs s'
  assume "wf_instr f (IfElse ps rs body body')" and C: "ctx_ok C" and s: "in_block f C s base vs"
    and "run_ok (instr_calls (IfElse ps rs body body')) s = Some s'"
  then obtain s1 s2 s3 s4 where run: "run_state (OnIf ps rs) s = (Ok, s1)"
      "run_ok (body_calls body) s1 = Some s2" "run_state OnElse s2 = (Ok, s3)"
      "run_ok (body_calls body') s3 = Some s4" "run_state OnEnd s4 = (Ok, s')"
    and wf: "list_all proper ps" "list_all proper rs" "list_all (wf_instr f) body" "list_all (wf_instr f) body'"
    by (auto simp: run_ok_Cons run_ok_split body_calls_def tc_step_returning simp del: run_ok.simps(2))
  have s0: "map label_sig (label_stack s) = C" "tc_features s = f" using s by (simp_all add: in_block_def)
  note t = then_branch [OF s C wf(1-3) body(1) run(1-3)]
  from body_typed [OF body(2) wf(4) s0 C wf(1,2) t [THEN conjunct2, THEN conjunct2] run(4)]
  obtain vs4 where o: "opened s s4 (base @ pop_rest vs (length ps + 1)) LtElse ps rs vs4"
    and typed: "pop_ok (is_unreachable s4) vs4 rs \<Longrightarrow> pop_rest vs4 (length rs) = [] \<Longrightarrow>
      \<exists>qs. typing f (C @ [(LtElse, ps, rs)]) body' ps qs \<and> subs qs rs" by blast
  note e = OnEnd_opened [OF o _ wf(2) run(5), simplified]
  from t typed e have q: "\<exists>qs. typing f (C @ [(LtIf, ps, rs)]) body ps qs \<and> subs qs rs"
    "\<exists>qs. typing f (C @ [(LtElse, ps, rs)]) body' ps qs \<and> subs qs rs" by simp_all
  show "progress f C (extends f C (IfElse ps rs body body')) s s' base vs"
    by (rule progress_block [OF s t [THEN conjunct1] _ wf(2)])
      (use e wf q in \<open>auto simp: extends_def list_all2_append2 list_all2_Cons2 intro: typing.if_else\<close>)
qed

lemma instr_sound_IfThen:
  assumes body: "body_sound f body"
  shows "instr_sound f (IfThen ps rs body)"
  unfolding instr_sound_def
proof (intro allI impI)
  fix C s base vs s'
  assume "wf_instr f (IfThen ps rs body)" and C: "ctx_ok C" and s: "in_block f C s base vs"
    and "run_ok (instr_calls (IfThen ps rs body)) s = Some s'"
  then obtain s1 s2 where run: "run_state (OnIf ps rs) s = (Ok, s1)"
      "run_ok (body_calls body) s1 = Some s2" "run_state OnEnd s2 = (Ok, s')"
    and wf: "list_all proper ps" "list_all proper rs" "list_all (wf_instr f) body"
    by (auto simp: run_ok_Cons run_ok_split body_calls_def tc_step_returning simp del: run_ok.simps(2))
  have s0: "map label_sig (label_stack s) = C" "tc_features s = f" using s by (simp_all add: in_block_def)
  note e = PopAndCheck1_PopAndEnter_Ok [OF in_block_stacked [OF s] run(1), folded is_unreachable_def]
  from body_typed [OF body wf(3) s0 C wf(1,2) enter_opened [OF wf(1)] run(2) [unfolded e [THEN conjunct2]]]
  obtain vs2 where o2: "opened s s2 (base @ pop_rest vs (length ps + 1)) LtIf ps rs vs2" by blast
  from OnEnd_If_Ok [OF opened_stacked [OF o2] _ run(3)] opened_top [OF o2]
  obtain s3 where run3: "run_state OnElse s2 = (Ok, s3)" "run_state OnEnd s3 = (Ok, s')" by auto
  note t = then_branch [OF s C wf body run(1,2) run3(1)]
  note o = t [THEN conjunct2, THEN conjunct2]
  note e' = OnEnd_opened [OF o [THEN conjunct1] _ wf(2) run3(2), simplified]
  have "ps = rs" using pop_ok_reachable [OF _ _ wf(1,2)] e' o by simp
  moreover from t have "\<exists>qs. typing f (C @ [(LtIf, ps, rs)]) body ps qs \<and> subs qs rs" by simp
  ultimately show "progress f C (extends f C (IfThen ps rs body)) s s' base vs"
    by (intro progress_block [OF s t [THEN conjunct1] _ wf(2)])
      (use e' wf in \<open>auto simp: extends_def list_all2_append2 list_all2_Cons2 intro: typing.if_then\<close>)
qed

lemma OnDelegate_opened:
  assumes s: "opened s0 s base lt ps rs vs" and rs: "list_all proper rs"
    and run: "run_state (OnDelegate d) s = (Ok, s')"
  shows "pop_ok (is_unreachable s) vs rs \<and> pop_rest vs (length rs) = [] \<and>
    label_stack s' = label_stack s0 \<and> tc_features s' = tc_features s0 \<and> type_stack s' = base @ rs \<and>
    unat (d + 1) < length (label_stack s0) + 1"
  using OnDelegate_Ok [OF opened_stacked [OF s] run] opened_top [OF s] s rs
  by (auto simp: proper_pushs opened_def)

lemma unat_plus_1: "(d :: index) \<noteq> 0xffffffff \<Longrightarrow> unat (d + 1) = unat d + 1"
proof -
  assume d: "d \<noteq> 0xffffffff"
  have "1 + d \<noteq> 0"
  proof
    assume "1 + d = 0"
    then have "d = - 1" by (simp add: add_eq_0_iff)
    with d show False by simp
  qed
  then show ?thesis using unatSuc [of d] by (simp add: add.commute)
qed

lemma instr_sound_TryDelegate:
  assumes body: "body_sound f body"
  shows "instr_sound f (TryDelegate ps rs body d)"
  unfolding instr_sound_def
proof (intro allI impI)
  fix C s base vs s'
  assume "wf_instr f (TryDelegate ps rs body d)" and C: "ctx_ok C" and s: "in_block f C s base vs"
    and "run_ok (instr_calls (TryDelegate ps rs body d)) s = Some s'"
  then obtain s1 s2 where run: "run_state (OnTry ps rs) s = (Ok, s1)"
      "run_ok (body_calls body) s1 = Some s2" "run_state (OnDelegate d) s2 = (Ok, s')"
    and wf: "list_all proper ps" "list_all proper rs" "list_all (wf_instr f) body" "d \<noteq> 0xffffffff"
    by (auto simp: run_ok_Cons run_ok_split body_calls_def tc_step_returning simp del: run_ok.simps(2))
  have s0: "map label_sig (label_stack s) = C" "tc_features s = f" using s by (simp_all add: in_block_def)
  note e = enter_run(3) [OF s run(1)]
  from body_typed [OF body wf(3) s0 C wf(1,2) enter_opened [OF wf(1)] run(2) [unfolded e [THEN conjunct2]]]
  obtain vs2 where o: "opened s s2 (base @ pop_rest vs (length ps)) LtTry ps rs vs2"
    and typed: "pop_ok (is_unreachable s2) vs2 rs \<Longrightarrow> pop_rest vs2 (length rs) = [] \<Longrightarrow>
      \<exists>qs. typing f (C @ [(LtTry, ps, rs)]) body ps qs \<and> subs qs rs" by blast
  note e' = OnDelegate_opened [OF o wf(2) run(3)]
  have "unat d < length C" using e' unat_plus_1 [OF wf(4)] s0 by auto
  moreover from typed e' have "\<exists>qs. typing f (C @ [(LtTry, ps, rs)]) body ps qs \<and> subs qs rs" by simp
  ultimately show "progress f C (extends f C (TryDelegate ps rs body d)) s s' base vs"
    by (intro progress_block [OF s e [THEN conjunct1] wf(1,2)])
      (use e' in \<open>auto simp: extends_def intro: typing.try_delegate\<close>)
qed

text \<open>The catches of a \<open>try\<close>, one after the other, and its \<open>end\<close>.\<close>

definition catch_calls :: "type_vector \<times> instr list \<Rightarrow> tc_call list" where
  "catch_calls = (\<lambda>(sig, es). SigCall KCatch sig # body_calls es)"

lemma catches_typed:
  assumes s0: "map label_sig (label_stack s0) = C" "tc_features s0 = f" "ctx_ok C"
    and rs: "list_all proper ps" "list_all proper rs"
  shows "\<lbrakk>opened s0 s base lt ps rs vs; lt \<noteq> LtIf;
     list_all (\<lambda>(sig, es). list_all proper sig \<and> list_all (wf_instr f) es) cs;
     \<forall>(sig, es) \<in> set cs. body_sound f es;
     run_ok (concat (map catch_calls cs) @ [PlainCall KEnd]) s = Some s'\<rbrakk> \<Longrightarrow>
   pop_ok (is_unreachable s) vs rs \<and> pop_rest vs (length rs) = [] \<and>
   (\<forall>(sig, es) \<in> set cs. \<exists>qs. typing f (C @ [(LtCatch, ps, rs)]) es sig qs \<and> subs qs rs) \<and>
   label_stack s' = label_stack s0 \<and> tc_features s' = tc_features s0 \<and> type_stack s' = base @ rs"
proof (induction cs arbitrary: s lt vs)
  case Nil
  then have "run_state OnEnd s = (Ok, s')" by (simp add: run_ok_single tc_step_returning del: run_ok.simps(2))
  from OnEnd_opened [OF Nil.prems(1,2) rs(2) this] show ?case by simp
next
  case (Cons c cs)
  obtain sig es where c: "c = (sig, es)" by (cases c)
  from Cons.prems(5) obtain s1 s2 where run: "run_state (OnCatch sig) s = (Ok, s1)"
    "run_ok (body_calls es) s1 = Some s2" "run_ok (concat (map catch_calls cs) @ [PlainCall KEnd]) s2 = Some s'"
    by (auto simp: c catch_calls_def run_ok_Cons run_ok_split tc_step_returning simp del: run_ok.simps(2))
  have wf: "list_all proper sig" "list_all (wf_instr f) es" "body_sound f es"
    using Cons.prems(3,4) c by simp_all
  note 1 = OnCatch_opened [OF Cons.prems(1) wf(1) run(1)]
  from body_typed [OF wf(3,2) s0 rs 1 [THEN conjunct2, THEN conjunct2] run(2)]
  obtain vs2 where o: "opened s0 s2 base LtCatch ps rs vs2"
    and typed: "pop_ok (is_unreachable s2) vs2 rs \<Longrightarrow> pop_rest vs2 (length rs) = [] \<Longrightarrow>
      \<exists>qs. typing f (C @ [(LtCatch, ps, rs)]) es sig qs \<and> subs qs rs" by blast
  have "pop_ok (is_unreachable s2) vs2 rs \<and> pop_rest vs2 (length rs) = [] \<and>
   (\<forall>(sig, es) \<in> set cs. \<exists>qs. typing f (C @ [(LtCatch, ps, rs)]) es sig qs \<and> subs qs rs) \<and>
   label_stack s' = label_stack s0 \<and> tc_features s' = tc_features s0 \<and> type_stack s' = base @ rs"
    by (rule Cons.IH [OF o]) (use Cons.prems(3,4) run(3) in simp_all)
  with 1 typed c show ?case by auto
qed

lemma instr_sound_Try:
  assumes body: "body_sound f body" and cs: "\<forall>(sig, es) \<in> set cs. body_sound f es"
  shows "instr_sound f (Try ps rs body cs)"
  unfolding instr_sound_def
proof (intro allI impI)
  fix C s base vs s'
  assume "wf_instr f (Try ps rs body cs)" and C: "ctx_ok C" and s: "in_block f C s base vs"
    and run0: "run_ok (instr_calls (Try ps rs body cs)) s = Some s'"
  then have wf: "list_all proper ps" "list_all proper rs" "list_all (wf_instr f) body"
    "list_all (\<lambda>(sig, es). list_all proper sig \<and> list_all (wf_instr f) es) cs" by simp_all
  have "instr_calls (Try ps rs body cs) =
      BlockCall KTry ps rs # body_calls body @ concat (map catch_calls cs) @ [PlainCall KEnd]"
    by (simp add: body_calls_def catch_calls_def)
  with run0 obtain s1 s2 where run: "run_state (OnTry ps rs) s = (Ok, s1)"
      "run_ok (body_calls body) s1 = Some s2"
      "run_ok (concat (map catch_calls cs) @ [PlainCall KEnd]) s2 = Some s'"
    by (auto simp: run_ok_Cons run_ok_split tc_step_returning simp del: run_ok.simps(2) instr_calls.simps)
  have s0: "map label_sig (label_stack s) = C" "tc_features s = f" using s by (simp_all add: in_block_def)
  note e = enter_run(3) [OF s run(1)]
  from body_typed [OF body wf(3) s0 C wf(1,2) enter_opened [OF wf(1)] run(2) [unfolded e [THEN conjunct2]]]
  obtain vs2 where o: "opened s s2 (base @ pop_rest vs (length ps)) LtTry ps rs vs2"
    and typed: "pop_ok (is_unreachable s2) vs2 rs \<Longrightarrow> pop_rest vs2 (length rs) = [] \<Longrightarrow>
      \<exists>qs. typing f (C @ [(LtTry, ps, rs)]) body ps qs \<and> subs qs rs" by blast
  note e' = catches_typed [OF s0 C wf(1,2) o _ wf(4) cs run(3), simplified]
  from typed e' obtain qs where "typing f (C @ [(LtTry, ps, rs)]) body ps qs" "subs qs rs" by blast
  with e' have T: "extends f C (Try ps rs body cs) (fr @ as) (fr @ rs)" if "subs as ps" for fr as
    using that unfolding extends_def by (auto intro!: typing.try_catch)
  show "progress f C (extends f C (Try ps rs body cs)) s s' base vs"
    by (rule progress_block [OF s e [THEN conjunct1] wf(1,2)]) (use e' T in simp_all)
qed

text \<open>The targets of a \<open>br_table\<close>: all match the operands, and all have the same length.\<close>

lemma targets_ok:
  assumes "in_block f C s base vs" and "run_ok (map (DepthCall KBrTableTarget) ds) s = Some s'"
    and "\<forall>e. br_table_sig s = Some e \<longrightarrow> length e = n"
    and "br_table_sig s = None \<longrightarrow> ds \<noteq> [] \<longrightarrow> n = length (br_sig (at_depth C (unat (hd ds))))"
  shows "in_block f C s' base vs \<and> same_block s s' \<and> is_unreachable s' = is_unreachable s \<and>
    (\<forall>d \<in> set ds. unat d < length C \<and> pop_ok (is_unreachable s) vs (br_sig (at_depth C (unat d))) \<and>
       length (br_sig (at_depth C (unat d))) = n)"
  using assms
proof (induction ds arbitrary: s)
  case Nil
  then show ?case by (simp add: same_block_refl in_block_ne)
next
  case (Cons d ds)
  note st = in_block_stacked [OF Cons.prems(1)]
  from Cons.prems(2) obtain s1 where run: "run_state (OnBrTableTarget d) s = (Ok, s1)"
    "run_ok (map (DepthCall KBrTableTarget) ds) s1 = Some s'"
    by (auto simp: run_ok_Cons tc_step_returning simp del: run_ok.simps(2))
  let ?sig = "br_sig (at_depth C (unat d))"
  note t = OnBrTableTarget_Ok [OF st run(1), unfolded Let_def]
  note d = in_block_depth [OF Cons.prems(1) t [THEN conjunct1]]
  note t' = t [unfolded d [THEN conjunct1] is_unreachable_def [symmetric]]
  note 1 = d [THEN conjunct2, THEN conjunct2] t' [THEN conjunct2, THEN conjunct1]
  note len = t' [THEN conjunct2, THEN conjunct2, THEN conjunct1]
  note s1 = t' [THEN conjunct2, THEN conjunct2, THEN conjunct2]
  have n: "length ?sig = n"
  proof (cases "br_table_sig s")
    case None
    with Cons.prems(4) show ?thesis by simp
  next
    case (Some e)
    then have "length e = length ?sig" "length e = n" using len Cons.prems(3) by blast+
    then show ?thesis by simp
  qed
  have in1: "in_block f C s1 base vs" "same_block s s1" "is_unreachable s1 = is_unreachable s"
    using Cons.prems(1) same_block_refl [of s] in_block_ne [OF Cons.prems(1)]
    by (simp_all add: s1 in_block_def stacked_def is_unreachable_def same_block_def)
  have "in_block f C s' base vs \<and> same_block s1 s' \<and> is_unreachable s' = is_unreachable s1 \<and>
    (\<forall>d \<in> set ds. unat d < length C \<and> pop_ok (is_unreachable s1) vs (br_sig (at_depth C (unat d))) \<and>
       length (br_sig (at_depth C (unat d))) = n)"
  proof (rule Cons.IH [OF in1(1) run(2)])
    show "\<forall>e. br_table_sig s1 = Some e \<longrightarrow> length e = n"
      using n Cons.prems(3) unfolding s1 by (cases "br_table_sig s") auto
  qed (simp add: s1)
  with 1 n in1 same_block_trans show ?case by auto
qed

lemma instr_sound_BrTable: "instr_sound f (BrTable ds d)"
  unfolding instr_sound_def
proof (intro allI impI)
  fix C s base vs s'
  assume C: "ctx_ok C" and s: "in_block f C s base vs"
    and "run_ok (instr_calls (BrTable ds d)) s = Some s'"
  then obtain s1 s2 where run: "run_state BeginBrTable s = (Ok, s1)"
    "run_ok (map (DepthCall KBrTableTarget) (ds @ [d])) s1 = Some s2" "run_state EndBrTable s2 = (Ok, s')"
    by (auto simp: run_ok_Cons run_ok_split tc_step_returning simp del: run_ok.simps(2) map_append)
  let ?vs1 = "pop_rest vs 1" and ?e = "BrTable ds d"
  have v: "vals (is_unreachable s) vs" using s by (simp add: in_block_def)
  note b = BeginBrTable_Ok [OF in_block_stacked [OF s] run(1), folded is_unreachable_def]
  then have s1: "in_block f C s1 base ?vs1" "is_unreachable s1 = is_unreachable s" "br_table_sig s1 = None"
    "same_block s s1"
    using s v same_block_refl [of s] in_block_ne [OF s]
    by (simp_all add: in_block_def stacked_def is_unreachable_def same_block_def)
  let ?n = "length (br_sig (at_depth C (unat (hd (ds @ [d])))))"
  note t = targets_ok [OF s1(1) run(2), of ?n, unfolded s1(2)]
  then have t: "in_block f C s2 base ?vs1" "same_block s1 s2" "is_unreachable s2 = is_unreachable s"
    "\<forall>d' \<in> set (ds @ [d]). unat d' < length C \<and>
       pop_ok (is_unreachable s) ?vs1 (br_sig (at_depth C (unat d'))) \<and>
       length (br_sig (at_depth C (unat d'))) = ?n"
    using s1(3) by auto
  let ?as = "popped ?vs1 ?n"
  have as: "\<forall>d' \<in> set (ds @ [d]). unat d' < length C \<and> subs ?as (br_sig (at_depth C (unat d')))"
  proof
    fix d' assume d': "d' \<in> set (ds @ [d])"
    with t(4) have p: "unat d' < length C" "pop_ok (is_unreachable s) ?vs1 (br_sig (at_depth C (unat d')))"
      and len: "length (br_sig (at_depth C (unat d'))) = ?n" by blast+
    have "subs (popped ?vs1 (length (br_sig (at_depth C (unat d'))))) (br_sig (at_depth C (unat d')))"
      using p v ctx_br_sig [OF C] by (intro subs_popped) auto
    with p len show "unat d' < length C \<and> subs ?as (br_sig (at_depth C (unat d')))" by simp
  qed
  have "d \<in> set (ds @ [d])" by simp
  with t(4) have "below (is_unreachable s) (unknowns ?n ?vs1)"
    using below_unknowns by (metis (no_types, lifting))
  from pop_subs [OF b [THEN conjunct1] v _ this] obtain x bs where x: "below (is_unreachable s) x"
    "subs bs [I32]" "x @ vs = (unknowns ?n ?vs1 @ ?vs1) @ bs" by auto
  then obtain i where i: "bs = [i]" "sub i I32" by (auto simp: list_all2_Cons2)
  have "x @ vs = pop_rest ?vs1 ?n @ ?as @ [i]"
    by (simp only: x(3) i(1) popped_split append_assoc)
  then have T: "extends f C ?e (x @ vs) ts" for ts
    unfolding extends_def using typing.br_table [OF as i(2)] by simp
  have s': "s' = stop s2 base"
    using run(3) run_SetUnreachable_stacked [OF in_block_stacked [OF t(1)]]
    by (simp add: EndBrTable_def del: run_SetUnreachable)
  have "in_block f C s' base []" using in_block_stop [OF t(1)] s' by simp
  moreover have "same_block s s'"
    using same_block_stop [OF in_block_ne [OF t(1)]] s' s1(4) t(2) same_block_trans by blast
  ultimately show "progress f C (extends f C ?e) s s' base vs"
    unfolding progress_def using x(1) T by blast
qed

section \<open>Soundness\<close>

lemma body_sound_Nil: "body_sound f []"
  unfolding body_sound_def
proof (intro allI impI)
  fix C s base vs s'
  assume s: "in_block f C s base vs" and "run_ok (body_calls []) s = Some s'"
  then have "s' = s" by (simp add: body_calls_def)
  moreover have "\<exists>x. below (is_unreachable s) x \<and> typing f C [] (x @ vs) (y @ vs)"
    if "below (is_unreachable s) y" for y
    using that typing.empty by blast
  ultimately show "progress f C (typing f C []) s s' base vs"
    unfolding progress_def using s same_block_refl [OF in_block_ne [OF s]] by blast
qed

lemma body_sound_Cons:
  assumes e: "instr_sound f e" and es: "body_sound f es"
  shows "body_sound f (e # es)"
  unfolding body_sound_def
proof (intro allI impI)
  fix C s base vs s'
  assume wf: "list_all (wf_instr f) (e # es)" and C: "ctx_ok C" and s: "in_block f C s base vs"
    and "run_ok (body_calls (e # es)) s = Some s'"
  then obtain s1 where run: "run_ok (instr_calls e) s = Some s1" "run_ok (body_calls es) s1 = Some s'"
    by (auto simp: body_calls_def run_ok_split)
  have "progress f C (extends f C e) s s1 base vs"
    using e wf C s run(1) unfolding instr_sound_def by simp
  then obtain vs1 where 1: "in_block f C s1 base vs1" "same_block s s1"
    "\<And>y. below (is_unreachable s1) y \<Longrightarrow> \<exists>x. below (is_unreachable s) x \<and> extends f C e (x @ vs) (y @ vs1)"
    unfolding progress_def by blast
  have "progress f C (typing f C es) s1 s' base vs1"
    using es wf C 1(1) run(2) unfolding body_sound_def by simp
  then obtain vs' where 2: "in_block f C s' base vs'" "same_block s1 s'"
    "\<And>y. below (is_unreachable s') y \<Longrightarrow> \<exists>x. below (is_unreachable s1) x \<and> typing f C es (x @ vs1) (y @ vs')"
    unfolding progress_def by blast
  have "\<exists>x. below (is_unreachable s) x \<and> typing f C (e # es) (x @ vs) (y @ vs')"
    if "below (is_unreachable s') y" for y
    using 2(3) [OF that] 1(3) unfolding extends_def by blast
  with 2 same_block_trans [OF 1(2)] show "progress f C (typing f C (e # es)) s s' base vs"
    unfolding progress_def by blast
qed

lemma instr_soundness: "instr_sound f e" and body_soundness: "body_sound f es"
proof -
  have body: "(\<And>e. e \<in> set es \<Longrightarrow> instr_sound f e) \<Longrightarrow> body_sound f es" for es
    by (induction es) (simp_all add: body_sound_Nil body_sound_Cons)
  have i: "instr_sound f e" for e
  proof (induction e)
    case (Try ps rs es cs)
    then show ?case by (intro instr_sound_Try body) (auto intro!: body split: prod.splits)
  qed (auto intro!: instr_sound_Simple instr_sound_BrTable instr_sound_Block instr_sound_Loop
      instr_sound_IfThen instr_sound_IfElse instr_sound_TryDelegate body)
  then show "instr_sound f e" .
  show "body_sound f es" by (rule body) (rule i)
qed

text \<open>A run of the calls for one body, from any state that earlier calls have left behind.\<close>

lemma body_run_typed:
  assumes "list_all (wf_instr (tc_features t)) body" and "list_all proper results"
    and "run_ok (SigCall KBeginFunction results # body_calls body @ [PlainCall KEndFunction]) t = Some s'"
  shows "\<exists>ts. typing (tc_features t) [(LtFunc, [], results)] body [] ts \<and> list_all2 sub ts results"
proof -
  let ?C = "[(LtFunc, [], results)]"
  let ?f = "tc_features t"
  from assms(3) obtain s1 s2 where run: "run_state (BeginFunction results) t = (Ok, s1)"
    "run_ok (body_calls body) s1 = Some s2" "run_state EndFunction s2 = (Ok, s')"
    by (auto simp: run_ok_Cons run_ok_split tc_step_returning simp del: run_ok.simps(2))
  have s1: "s1 = t\<lparr>type_stack := [], label_stack := [Label LtFunc [] results 0]\<rparr>"
    using run(1) by (auto simp: BeginFunction_def)
  then have in1: "in_block ?f ?C s1 [] []" "\<not> is_unreachable s1"
    by (simp_all add: in_block_def stacked_def Label_def label_sig_def is_unreachable_def)
  have "ctx_ok ?C" using assms(2) by (simp add: ctx_ok_def)
  with body_soundness [of ?f body] assms(1) in1 run(2)
  have "progress ?f ?C (typing ?f ?C body) s1 s2 [] []" unfolding body_sound_def by blast
  then obtain vs where vs: "in_block ?f ?C s2 [] vs"
    and T: "\<And>y. below (is_unreachable s2) y \<Longrightarrow>
      \<exists>x. below (is_unreachable s1) x \<and> typing ?f ?C body (x @ []) (y @ vs)"
    unfolding progress_def by blast
  have "result_types (top_label s2) = results"
    using vs by (cases "label_stack s2" rule: rev_cases) (auto simp: in_block_def label_sig_def stacked_def)
  with EndFunction_Ok [OF in_block_stacked [OF vs] run(3)]
  have e: "pop_ok (is_unreachable s2) vs results" "pop_rest vs (length results) = []"
    by (simp_all add: is_unreachable_def)
  have "vals (is_unreachable s2) vs" using vs by (simp add: in_block_def)
  from pop_subs [OF e(1) this assms(2), of "[]"] e(2) obtain x as where
    "below (is_unreachable s2) x" "subs as results" "x @ vs = as" by auto
  with T [of x] in1(2) show ?thesis by (auto simp: below_def)
qed

text \<open>
  C1. The type checker is sound: if \<open>BeginFunction\<close> with the result types of a function, the calls
  for the instructions of its body and \<open>EndFunction\<close> all succeed, then the body has a typing under
  the rules of the specification, from no operands to the results of the function. The body may
  nest blocks, loops, conditionals and exception handlers to any depth and may contain unreachable
  code. Assumed are that the results are value types and that the instructions are well-formed
  (\<open>wf_instr\<close>): the types they carry are value types, a \<open>select\<close> has no type annotation, the depth of
  a \<open>delegate\<close> is not \<open>0xffffffff\<close>, and \<open>call_ref\<close> does not occur. Without the second and the third
  it is not sound (\<open>typed_select_result_is_Any\<close>, \<open>delegate_depth_wraps\<close>).
\<close>

theorem type_checker_sound:
  assumes "list_all (wf_instr f) body" and "list_all proper results"
    and "\<forall>r \<in> set (fst (runs tc_step
      (SigCall KBeginFunction results # concat (map instr_calls body) @ [PlainCall KEndFunction])
      (TypeChecker f))). r = Some Ok"
  shows "\<exists>ts. typing f [(LtFunc, [], results)] body [] ts \<and> list_all2 sub ts results"
proof -
  from assms(3) obtain s' where "run_ok (SigCall KBeginFunction results # body_calls body @
      [PlainCall KEndFunction]) (TypeChecker f) = Some s'"
    unfolding body_calls_def by (metis run_ok_runs)
  with body_run_typed [of "TypeChecker f"] assms(1,2) show ?thesis by (simp add: TypeChecker_def)
qed

theorem type_checker_sound_witness:
  "\<exists>ts. typing default_features [(LtFunc, [], [I32])]
     [Simple (TypeCall KConst I32), Block [I32] [I32] [Simple (DepthCall KBr 0)]] [] ts \<and>
     list_all2 sub ts [I32]"
proof (rule type_checker_sound)
  let ?body = "[Simple (TypeCall KConst I32), Block [I32] [I32] [Simple (DepthCall KBr 0)]]"
  show "list_all (wf_instr default_features) ?body"
    by (simp add: wf_call_def push_types_def type_eq_def)
  show "list_all proper [I32]" by simp
  show "\<forall>r \<in> set (fst (runs tc_step (SigCall KBeginFunction [I32] # concat (map instr_calls ?body) @
      [PlainCall KEndFunction]) (TypeChecker default_features))). r = Some Ok"
    by (simp add: tc_step_def returning_def BeginFunction_def OnConst_def OnBlock_def OnBr_def OnEnd_def
        EndFunction_def OnEndLabel_def CheckLabelType_def Let_def TypeChecker_def Label_def push_types_def
        type_eq_def run_GetLabel at_depth_def br_types_def peek_check_def peek_def CheckType_def
        IsReferenceWithIndex_def drop_result_def drop_stack_def resize_def)
qed

section \<open>Where the checker accepts too much\<close>

text \<open>
  The two instructions left out above are accepted where the specification has no typing: after a
  typed \<open>select\<close> of \<open>i32\<close> operands the result passes as an \<open>f32\<close>, and a \<open>delegate\<close> to depth
  \<open>0xffffffff\<close> passes as one to the enclosing function.
\<close>

lemma typed_select_result_is_Any:
  "run_ok [SigCall KBeginFunction [F32], TypeCall KConst I32, TypeCall KConst I32, TypeCall KConst I32,
     SigCall KSelect [I32], PlainCall KEndFunction] (TypeChecker f) \<noteq> None"
  by (simp add: tc_step_def returning_def BeginFunction_def OnConst_def OnSelect_def
      EndFunction_def OnEndLabel_def CheckLabelType_def Let_def TypeChecker_def Label_def push_types_def
      type_eq_def peek_check_def peek_def CheckType_def at_depth_def
      IsReferenceWithIndex_def drop_result_def drop_stack_def resize_def)

lemma delegate_depth_wraps:
  "run_ok [SigCall KBeginFunction [], BlockCall KTry [] [], DepthCall KDelegate 0xffffffff,
     PlainCall KEndFunction] (TypeChecker f) \<noteq> None"
  by (simp add: tc_step_def returning_def BeginFunction_def OnTry_def OnDelegate_def run_GetLabel
      EndFunction_def OnEndLabel_def CheckLabelType_def Let_def TypeChecker_def Label_def push_types_def
      drop_result_def drop_stack_def resize_def at_depth_def)

end
