(* ===== verification/Shared_Validator.thy ===== *)
theory Shared_Validator
  imports Type_Checker
begin

text \<open>
  The validator that the binary reader and the text validator share (include/wabt/shared-validator.h,
  src/shared-validator.cc). It keeps the index spaces of the module, the locals of the current
  function and the type checker, and checks one module entry or one instruction per call. The
  operations whose names the type checker also uses carry the suffix \<open>_sv\<close>. A location is the
  offset the reader passes, a \<open>Var\<close> an index with its location; an error is kept with its location
  and its format and arguments. An output parameter is a component of the result, and
  \<open>WABT_UNREACHABLE\<close> is \<open>None\<close>.
\<close>

section \<open>State\<close>

type_synonym location = u64

definition kInvalidOffset :: location where
  "kInvalidOffset = - 1"

record var =
  var_index :: index
  var_loc :: location

definition Var :: "index \<Rightarrow> location \<Rightarrow> var" where
  "Var i loc = \<lparr>var_index = i, var_loc = loc\<rparr>"

record type_mut =
  tm_type :: wtype
  tm_mutable :: bool

text \<open>A default \<open>FuncType\<close> has no parameters, no results and an unset type index, here 0.\<close>

record func_type =
  ft_params :: type_vector
  ft_results :: type_vector
  ft_type_index :: index

definition default_func_type :: func_type where
  "default_func_type = \<lparr>ft_params = [], ft_results = [], ft_type_index = 0\<rparr>"

record table_type =
  tt_element :: wtype
  tt_limits :: limits

definition default_table_type :: table_type where
  "default_table_type = \<lparr>tt_element = AnyTy, tt_limits = default_limits\<rparr>"

record memory_type =
  mt_limits :: limits

definition default_memory_type :: memory_type where
  "default_memory_type = \<lparr>mt_limits = default_limits\<rparr>"

record global_type =
  gt_type :: wtype
  gt_mutable :: bool

definition default_global_type :: global_type where
  "default_global_type = \<lparr>gt_type = AnyTy, gt_mutable = True\<rparr>"

record tag_type =
  tg_params :: type_vector

definition default_tag_type :: tag_type where
  "default_tag_type = \<lparr>tg_params = []\<rparr>"

record elem_type =
  et_element :: wtype
  et_is_active :: bool
  et_table_type :: wtype

definition default_elem_type :: elem_type where
  "default_elem_type = \<lparr>et_element = WType 0 0, et_is_active = False, et_table_type = WType 0 0\<rparr>"

record local_decl =
  ld_type :: wtype
  ld_end :: index

datatype sv_message =
    FromTypeChecker tc_error
  | Message string "u64 list"
  | NotValidInInitExpr opcode
  | BlockParamsUnsupported opcode
  | TypeMismatchAt string wtype wtype
  | DuplicateExport "u8 list"

record shared_validator =
  sv_features :: features
  sv_errors :: "(location \<times> sv_message) list"
  typechecker :: type_checker
  expr_loc :: location
  in_init_expr :: bool
  num_types :: index
  func_types :: "index \<rightharpoonup> func_type"
  struct_types :: "index \<rightharpoonup> type_mut list"
  array_types :: "index \<rightharpoonup> type_mut"
  funcs :: "func_type list"
  tables :: "table_type list"
  memories :: "memory_type list"
  globals :: "global_type list"
  tags :: "tag_type list"
  elems :: "elem_type list"
  starts :: index
  num_imported_globals :: index
  data_segments :: index
  locals :: "local_decl list"
  export_names :: "u8 list set"
  declared_funcs :: "index set"
  check_declared_funcs :: "var list"

type_synonym 'a sv = "(shared_validator, 'a) state"

definition SharedValidator :: "features \<Rightarrow> shared_validator" where
  "SharedValidator f =
     \<lparr>sv_features = f, sv_errors = [], typechecker = TypeChecker f, expr_loc = kInvalidOffset,
      in_init_expr = False, num_types = 0, func_types = Map.empty, struct_types = Map.empty,
      array_types = Map.empty, funcs = [], tables = [], memories = [], globals = [], tags = [],
      elems = [], starts = 0, num_imported_globals = 0, data_segments = 0, locals = [],
      export_names = {}, declared_funcs = {}, check_declared_funcs = []\<rparr>"

definition PrintError_sv :: "location \<Rightarrow> sv_message \<Rightarrow> result sv" where
  "PrintError_sv loc msg = do {
     modify (\<lambda>s. s\<lparr>sv_errors := sv_errors s @ [(loc, msg)]\<rparr>);
     State_Monad.return Error
   }"

text \<open>\<open>result |= PrintError(...)\<close> under a condition.\<close>

definition error_if :: "bool \<Rightarrow> location \<Rightarrow> sv_message \<Rightarrow> result sv" where
  "error_if b loc msg = (if b then PrintError_sv loc msg else State_Monad.return Ok)"

text \<open>The value of a \<open>Result\<close> after a row of \<open>|=\<close>.\<close>

definition results :: "result list \<Rightarrow> result" where
  "results rs = foldr result_or rs Ok"

text \<open>
  A call of the type checker: the messages it reports through the error callback
  (\<open>OnTypecheckerError\<close>) become errors at the location of the current expression.
\<close>

definition call_tc :: "'a tc \<Rightarrow> 'a sv" where
  "call_tc m = State (\<lambda>s.
     let (r, t) = run_state m (typechecker s)
     in (r, s\<lparr>typechecker := t\<lparr>tc_errors := []\<rparr>,
              sv_errors := sv_errors s @ map (\<lambda>e. (expr_loc s, FromTypeChecker e)) (tc_errors t)\<rparr>))"

section \<open>Indices\<close>

definition CheckIndex :: "var \<Rightarrow> index \<Rightarrow> string \<Rightarrow> result sv" where
  "CheckIndex v max_index desc =
     error_if (max_index \<le> var_index v) (var_loc v)
       (Message (desc @ '' variable out of range: %PRIindex (max %PRIindex)'')
          [ucast (var_index v), ucast max_index])"

definition CheckIndexWithValue :: "var \<Rightarrow> 'a list \<Rightarrow> 'a \<Rightarrow> string \<Rightarrow> (result \<times> 'a) sv" where
  "CheckIndexWithValue v values no_value desc = do {
     result \<leftarrow> CheckIndex v (of_nat (length values)) desc;
     State_Monad.return
       (result, if Succeeded result then values ! unat (var_index v) else no_value)
   }"

definition CheckFuncTypeIndex :: "var \<Rightarrow> (result \<times> func_type) sv" where
  "CheckFuncTypeIndex sig_var = do {
     n \<leftarrow> gets num_types;
     result \<leftarrow> CheckIndex sig_var n ''function type'';
     if Failed result then State_Monad.return (Error, default_func_type)
     else do {
       types \<leftarrow> gets func_types;
       case types (var_index sig_var) of
         None \<Rightarrow> do {
           r \<leftarrow> PrintError_sv (var_loc sig_var)
             (Message ''type %d is not a function'' [ucast (var_index sig_var)]);
           State_Monad.return (r, default_func_type)
         }
       | Some t \<Rightarrow> State_Monad.return (Ok, t)
     }
   }"

definition CheckFuncIndex :: "var \<Rightarrow> (result \<times> func_type) sv" where
  "CheckFuncIndex v = do {
     values \<leftarrow> gets funcs;
     CheckIndexWithValue v values default_func_type ''function''
   }"

definition CheckMemoryIndex :: "var \<Rightarrow> (result \<times> memory_type) sv" where
  "CheckMemoryIndex v = do {
     values \<leftarrow> gets memories;
     CheckIndexWithValue v values default_memory_type ''memory''
   }"

definition CheckTableIndex :: "var \<Rightarrow> (result \<times> table_type) sv" where
  "CheckTableIndex v = do {
     values \<leftarrow> gets tables;
     CheckIndexWithValue v values default_table_type ''table''
   }"

definition CheckGlobalIndex :: "var \<Rightarrow> (result \<times> global_type) sv" where
  "CheckGlobalIndex v = do {
     values \<leftarrow> gets globals;
     CheckIndexWithValue v values default_global_type ''global''
   }"

definition CheckTagIndex :: "var \<Rightarrow> (result \<times> tag_type) sv" where
  "CheckTagIndex v = do {
     values \<leftarrow> gets tags;
     CheckIndexWithValue v values default_tag_type ''tag''
   }"

definition CheckElemSegmentIndex :: "var \<Rightarrow> (result \<times> elem_type) sv" where
  "CheckElemSegmentIndex v = do {
     values \<leftarrow> gets elems;
     CheckIndexWithValue v values default_elem_type ''elem_segment''
   }"

definition CheckDataSegmentIndex :: "var \<Rightarrow> result sv" where
  "CheckDataSegmentIndex v = do {
     n \<leftarrow> gets data_segments;
     CheckIndex v n ''data_segment''
   }"

definition GetLocalCount :: "shared_validator \<Rightarrow> index" where
  "GetLocalCount s = (if locals s = [] then 0 else ld_end (last (locals s)))"

text \<open>
  \<open>std::upper_bound\<close> on the ends of the declarations: a binary search for the first declaration
  whose end is greater than the index. \<open>first\<close> and \<open>count\<close> are the bounds the search narrows.
\<close>

function upper_bound :: "local_decl list \<Rightarrow> index \<Rightarrow> nat \<Rightarrow> nat \<Rightarrow> nat" where
  "upper_bound decls i first count =
     (if count = 0 then first
      else let step = count div 2; it = first + step
           in if \<not> i < ld_end (decls ! it)
              then upper_bound decls i (it + 1) (count - (step + 1))
              else upper_bound decls i first step)"
  by pat_completeness auto
termination
  by (relation "measure (\<lambda>(decls, i, first, count). count)") auto

text \<open>The second component is \<open>*out_type\<close>, which starts as \<open>Any\<close>.\<close>

definition CheckLocalIndex :: "var \<Rightarrow> (result \<times> wtype) sv" where
  "CheckLocalIndex local_var = do {
     s \<leftarrow> State_Monad.get;
     let iter = upper_bound (locals s) (var_index local_var) 0 (length (locals s));
     if iter = length (locals s) then do {
       r \<leftarrow> PrintError_sv (var_loc local_var)
         (Message ''local variable out of range (max %u)'' [ucast (GetLocalCount s)]);
       State_Monad.return (r, AnyTy)
     } else State_Monad.return (Ok, ld_type (locals s ! iter))
   }"

definition CheckDeclaredFunc :: "var \<Rightarrow> result sv" where
  "CheckDeclaredFunc func_var = do {
     declared \<leftarrow> gets declared_funcs;
     error_if (var_index func_var \<notin> declared) (var_loc func_var)
       (Message ''function %PRIindex is not declared in any elem sections''
          [ucast (var_index func_var)])
   }"

section \<open>Module entries\<close>

definition OnFuncType :: "location \<Rightarrow> type_vector \<Rightarrow> type_vector \<Rightarrow> index \<Rightarrow> result sv" where
  "OnFuncType loc params results_ty ty_index = do {
     f \<leftarrow> gets sv_features;
     result \<leftarrow> error_if (\<not> multi_value_enabled f \<and> 1 < length results_ty) loc
       (Message ''multiple result values are not supported without multi-value enabled.'' []);
     modify (\<lambda>s. s\<lparr>func_types := (func_types s)(num_types s \<mapsto>
         \<lparr>ft_params = params, ft_results = results_ty, ft_type_index = ty_index\<rparr>),
       num_types := num_types s + 1\<rparr>);
     State_Monad.return result
   }"

definition OnStructType :: "location \<Rightarrow> type_mut list \<Rightarrow> result sv" where
  "OnStructType loc field_types = do {
     modify (\<lambda>s. s\<lparr>struct_types := (struct_types s)(num_types s \<mapsto> field_types),
       num_types := num_types s + 1\<rparr>);
     State_Monad.return Ok
   }"

definition OnArrayType :: "location \<Rightarrow> type_mut \<Rightarrow> result sv" where
  "OnArrayType loc field = do {
     modify (\<lambda>s. s\<lparr>array_types := (array_types s)(num_types s \<mapsto> field),
       num_types := num_types s + 1\<rparr>);
     State_Monad.return Ok
   }"

definition OnFunction :: "location \<Rightarrow> var \<Rightarrow> result sv" where
  "OnFunction loc sig_var = do {
     (result, type) \<leftarrow> CheckFuncTypeIndex sig_var;
     modify (\<lambda>s. s\<lparr>funcs := funcs s @ [type]\<rparr>);
     State_Monad.return result
   }"

definition CheckLimits :: "location \<Rightarrow> limits \<Rightarrow> u64 \<Rightarrow> string \<Rightarrow> result sv" where
  "CheckLimits loc limits absolute_max desc = do {
     r1 \<leftarrow> error_if (absolute_max < initial limits) loc
       (Message (''initial '' @ desc @ '' (%PRIu64) must be <= (%PRIu64)'')
          [initial limits, absolute_max]);
     if has_max limits then do {
       r2 \<leftarrow> error_if (absolute_max < max_limit limits) loc
         (Message (''max '' @ desc @ '' (%PRIu64) must be <= (%PRIu64)'')
            [max_limit limits, absolute_max]);
       r3 \<leftarrow> error_if (max_limit limits < initial limits) loc
         (Message (''max '' @ desc @ '' (%PRIu64) must be >= initial '' @ desc @ '' (%PRIu64)'')
            [max_limit limits, initial limits]);
       State_Monad.return (results [r1, r2, r3])
     } else State_Monad.return r1
   }"

definition OnTable :: "location \<Rightarrow> wtype \<Rightarrow> limits \<Rightarrow> result sv" where
  "OnTable loc elem_ty limits = do {
     s \<leftarrow> State_Monad.get;
     let refs = reference_types_enabled (sv_features s);
     r1 \<leftarrow> error_if (tables s \<noteq> [] \<and> \<not> refs) loc (Message ''only one table allowed'' []);
     r2 \<leftarrow> CheckLimits loc limits 0xffffffff ''elems'';
     r3 \<leftarrow> error_if (is_shared limits) loc (Message ''tables may not be shared'' []);
     r4 \<leftarrow> error_if (\<not> type_eq elem_ty FuncRef \<and> \<not> refs) loc
       (Message ''tables must have funcref type'' []);
     r5 \<leftarrow> error_if (\<not> IsRef elem_ty) loc (Message ''tables must have reference types'' []);
     modify (\<lambda>s. s\<lparr>tables := tables s @ [\<lparr>tt_element = elem_ty, tt_limits = limits\<rparr>]\<rparr>);
     State_Monad.return (results [r1, r2, r3, r4, r5])
   }"

definition OnMemory :: "location \<Rightarrow> limits \<Rightarrow> result sv" where
  "OnMemory loc limits = do {
     s \<leftarrow> State_Monad.get;
     r1 \<leftarrow> error_if (memories s \<noteq> [] \<and> \<not> multi_memory_enabled (sv_features s)) loc
       (Message ''only one memory block allowed'' []);
     r2 \<leftarrow> CheckLimits loc limits
       (if is_64 limits then WABT_MAX_PAGES64 else WABT_MAX_PAGES32) ''pages'';
     r3 \<leftarrow> (if is_shared limits then
             if \<not> threads_enabled (sv_features s)
             then PrintError_sv loc (Message ''memories may not be shared'' [])
             else error_if (\<not> has_max limits) loc
               (Message ''shared memories must have max sizes'' [])
           else State_Monad.return Ok);
     modify (\<lambda>s. s\<lparr>memories := memories s @ [\<lparr>mt_limits = limits\<rparr>]\<rparr>);
     State_Monad.return (results [r1, r2, r3])
   }"

definition OnGlobalImport :: "location \<Rightarrow> wtype \<Rightarrow> bool \<Rightarrow> result sv" where
  "OnGlobalImport loc type mutable = do {
     f \<leftarrow> gets sv_features;
     result \<leftarrow> error_if (mutable \<and> \<not> mutable_globals_enabled f) loc
       (Message ''mutable globals cannot be imported'' []);
     modify (\<lambda>s. s\<lparr>globals := globals s @ [\<lparr>gt_type = type, gt_mutable = mutable\<rparr>],
       num_imported_globals := num_imported_globals s + 1\<rparr>);
     State_Monad.return result
   }"

definition OnGlobal :: "location \<Rightarrow> wtype \<Rightarrow> bool \<Rightarrow> result sv" where
  "OnGlobal loc type mutable = do {
     modify (\<lambda>s. s\<lparr>globals := globals s @ [\<lparr>gt_type = type, gt_mutable = mutable\<rparr>]\<rparr>);
     State_Monad.return Ok
   }"

definition CheckType_sv :: "location \<Rightarrow> wtype \<Rightarrow> wtype \<Rightarrow> string \<Rightarrow> result sv" where
  "CheckType_sv loc actual expected desc =
     error_if (Failed (CheckType actual expected)) loc (TypeMismatchAt desc actual expected)"

definition OnTag :: "location \<Rightarrow> var \<Rightarrow> result sv" where
  "OnTag loc sig_var = do {
     (r1, type) \<leftarrow> CheckFuncTypeIndex sig_var;
     r2 \<leftarrow> error_if (ft_results type \<noteq> []) loc (Message ''Tag signature must have 0 results.'' []);
     modify (\<lambda>s. s\<lparr>tags := tags s @ [\<lparr>tg_params = ft_params type\<rparr>]\<rparr>);
     State_Monad.return (results [r1, r2])
   }"

definition OnExport :: "location \<Rightarrow> external_kind \<Rightarrow> var \<Rightarrow> u8 list \<Rightarrow> result sv" where
  "OnExport loc kind item_var name = do {
     names \<leftarrow> gets export_names;
     r1 \<leftarrow> error_if (name \<in> names) loc (DuplicateExport name);
     modify (\<lambda>s. s\<lparr>export_names := insert name (export_names s)\<rparr>);
     r2 \<leftarrow> (case kind of
         EkFunc \<Rightarrow> do {
           (r, unused) \<leftarrow> CheckFuncIndex item_var;
           modify (\<lambda>s. s\<lparr>declared_funcs := insert (var_index item_var) (declared_funcs s)\<rparr>);
           State_Monad.return r
         }
       | EkTable \<Rightarrow> do { (r, unused) \<leftarrow> CheckTableIndex item_var; State_Monad.return r }
       | EkMemory \<Rightarrow> do { (r, unused) \<leftarrow> CheckMemoryIndex item_var; State_Monad.return r }
       | EkGlobal \<Rightarrow> do { (r, unused) \<leftarrow> CheckGlobalIndex item_var; State_Monad.return r }
       | EkTag \<Rightarrow> do { (r, unused) \<leftarrow> CheckTagIndex item_var; State_Monad.return r });
     State_Monad.return (result_or r1 r2)
   }"

definition OnStart :: "location \<Rightarrow> var \<Rightarrow> result sv" where
  "OnStart loc func_var = do {
     n \<leftarrow> gets starts;
     modify (\<lambda>s. s\<lparr>starts := starts s + 1\<rparr>);
     r1 \<leftarrow> error_if (0 < n) loc (Message ''only one start function allowed'' []);
     (r2, type) \<leftarrow> CheckFuncIndex func_var;
     r3 \<leftarrow> error_if (ft_params type \<noteq> []) loc (Message ''start function must be nullary'' []);
     r4 \<leftarrow> error_if (ft_results type \<noteq> []) loc
       (Message ''start function must not return anything'' []);
     State_Monad.return (results [r1, r2, r3, r4])
   }"

definition OnElemSegment :: "location \<Rightarrow> var \<Rightarrow> segment_kind \<Rightarrow> result sv" where
  "OnElemSegment loc table_var kind = do {
     (result, table) \<leftarrow> (if kind = SkActive then CheckTableIndex table_var
                        else State_Monad.return (Ok, default_table_type));
     modify (\<lambda>s. s\<lparr>elems := elems s @ [\<lparr>et_element = VoidTy, et_is_active = (kind = SkActive),
       et_table_type = tt_element table\<rparr>]\<rparr>);
     State_Monad.return result
   }"

text \<open>\<open>elems_.back()\<close>, the segment \<open>OnElemSegment\<close> was called for last.\<close>

definition OnElemSegmentElemType :: "location \<Rightarrow> wtype \<Rightarrow> result sv" where
  "OnElemSegmentElemType loc elem_ty = do {
     elem \<leftarrow> gets (\<lambda>s. last (elems s));
     result \<leftarrow> (if et_is_active elem
               then CheckType_sv loc (et_table_type elem) elem_ty ''elem segment''
               else State_Monad.return Ok);
     modify (\<lambda>s. s\<lparr>elems := butlast (elems s) @ [elem\<lparr>et_element := elem_ty\<rparr>]\<rparr>);
     State_Monad.return result
   }"

definition OnDataCount :: "index \<Rightarrow> unit sv" where
  "OnDataCount count = modify (\<lambda>s. s\<lparr>data_segments := count\<rparr>)"

definition OnDataSegment :: "location \<Rightarrow> var \<Rightarrow> segment_kind \<Rightarrow> result sv" where
  "OnDataSegment loc memory_var kind =
     (if kind = SkActive
      then do { (r, unused) \<leftarrow> CheckMemoryIndex memory_var; State_Monad.return r }
      else State_Monad.return Ok)"

primrec check_declared_loop :: "var list \<Rightarrow> result \<Rightarrow> result sv" where
  "check_declared_loop [] result = State_Monad.return result"
| "check_declared_loop (v # vs) result = do {
     r \<leftarrow> CheckDeclaredFunc v;
     check_declared_loop vs (result_or result r)
   }"

definition EndModule :: "result sv" where
  "EndModule = do {
     vs \<leftarrow> gets check_declared_funcs;
     check_declared_loop vs Ok
   }"

section \<open>Bodies and initializer expressions\<close>

definition BeginInitExpr_sv :: "location \<Rightarrow> wtype \<Rightarrow> result sv" where
  "BeginInitExpr_sv loc type = do {
     modify (\<lambda>s. s\<lparr>expr_loc := loc, in_init_expr := True\<rparr>);
     call_tc (BeginInitExpr type)
   }"

definition EndInitExpr_sv :: "result sv" where
  "EndInitExpr_sv = do {
     modify (\<lambda>s. s\<lparr>in_init_expr := False\<rparr>);
     call_tc EndInitExpr
   }"

primrec add_params :: "type_vector \<Rightarrow> local_decl list \<Rightarrow> local_decl list" where
  "add_params [] decls = decls"
| "add_params (t # ts) decls =
     add_params ts (decls @ [\<lparr>ld_type = t,
       ld_end = (if decls = [] then 0 else ld_end (last decls)) + 1\<rparr>])"

definition BeginFunctionBody :: "location \<Rightarrow> index \<Rightarrow> result sv" where
  "BeginFunctionBody loc func_index = do {
     modify (\<lambda>s. s\<lparr>expr_loc := loc, locals := []\<rparr>);
     fs \<leftarrow> gets funcs;
     if unat func_index < length fs then do {
       let f = fs ! unat func_index;
       modify (\<lambda>s. s\<lparr>locals := add_params (ft_params f) (locals s)\<rparr>);
       call_tc (BeginFunction (ft_results f))
     } else call_tc (BeginFunction [])
   }"

definition EndFunctionBody :: "location \<Rightarrow> result sv" where
  "EndFunctionBody loc = do {
     modify (\<lambda>s. s\<lparr>expr_loc := loc\<rparr>);
     call_tc EndFunction
   }"

definition OnLocalDecl :: "location \<Rightarrow> index \<Rightarrow> wtype \<Rightarrow> result sv" where
  "OnLocalDecl loc count type = do {
     n \<leftarrow> gets GetLocalCount;
     if 0xffffffff - n < count
     then PrintError_sv loc (Message ''local count must be < 0x10000000'' [])
     else do {
       modify (\<lambda>s. s\<lparr>locals := locals s @ [\<lparr>ld_type = type, ld_end = n + count\<rparr>]\<rparr>);
       State_Monad.return Ok
     }
   }"

section \<open>Checks of an instruction's immediates\<close>

text \<open>The argument is a \<open>uint32_t\<close>: an alignment is truncated when it is passed.\<close>

definition is_power_of_two :: "u32 \<Rightarrow> bool" where
  "is_power_of_two x \<longleftrightarrow> x \<noteq> 0 \<and> x AND (x - 1) = 0"

definition CheckAlign :: "location \<Rightarrow> address \<Rightarrow> address \<Rightarrow> result sv" where
  "CheckAlign loc alignment natural_alignment =
     (if \<not> is_power_of_two (ucast alignment)
      then PrintError_sv loc (Message ''alignment (%PRIaddress) must be a power of 2'' [alignment])
      else error_if (natural_alignment < alignment) loc
        (Message ''alignment must not be larger than natural alignment (%PRIaddress)''
           [natural_alignment]))"

definition CheckOffset :: "location \<Rightarrow> address \<Rightarrow> limits \<Rightarrow> result sv" where
  "CheckOffset loc offset limits =
     error_if (\<not> is_64 limits \<and> 0xffffffff < offset) loc
       (Message ''offset must be less than or equal to 0xffffffff'' [])"

definition CheckAtomicAlign :: "location \<Rightarrow> address \<Rightarrow> address \<Rightarrow> result sv" where
  "CheckAtomicAlign loc alignment natural_alignment =
     (if \<not> is_power_of_two (ucast alignment)
      then PrintError_sv loc (Message ''alignment (%PRIaddress) must be a power of 2'' [alignment])
      else error_if (alignment \<noteq> natural_alignment) loc
        (Message ''alignment must be equal to natural alignment (%PRIaddress)''
           [natural_alignment]))"

definition ValidInitOpcode :: "features \<Rightarrow> opcode \<Rightarrow> bool" where
  "ValidInitOpcode f op \<longleftrightarrow>
     op \<in> {Op_GlobalGet, Op_I32Const, Op_I64Const, Op_F32Const, Op_F64Const, Op_RefFunc, Op_RefNull}
     \<or> extended_const_enabled f \<and>
       op \<in> {Op_I32Mul, Op_I64Mul, Op_I32Sub, Op_I64Sub, Op_I32Add, Op_I64Add}"

definition CheckInstr :: "opcode \<Rightarrow> location \<Rightarrow> result sv" where
  "CheckInstr op loc = do {
     modify (\<lambda>s. s\<lparr>expr_loc := loc\<rparr>);
     s \<leftarrow> State_Monad.get;
     error_if (in_init_expr s \<and> \<not> ValidInitOpcode (sv_features s) op) loc (NotValidInInitExpr op)
   }"

text \<open>
  The signature of a block: \<open>None\<close> where \<open>GetInlineVector\<close> is \<open>WABT_UNREACHABLE\<close>.
\<close>

definition CheckBlockSignature ::
  "location \<Rightarrow> opcode \<Rightarrow> wtype \<Rightarrow> (result \<times> type_vector \<times> type_vector) option sv" where
  "CheckBlockSignature loc op sig_type =
     (if IsIndex sig_type then do {
        (r1, ft) \<leftarrow> CheckFuncTypeIndex (Var (GetIndex sig_type) loc);
        f \<leftarrow> gets sv_features;
        r2 \<leftarrow> error_if (ft_params ft \<noteq> [] \<and> \<not> multi_value_enabled f) loc (BlockParamsUnsupported op);
        State_Monad.return (Some (result_or r1 r2, ft_params ft, ft_results ft))
      } else case GetInlineVector sig_type of
          None \<Rightarrow> State_Monad.return None
        | Some ts \<Rightarrow> State_Monad.return (Some (Ok, [], ts)))"

text \<open>\<open>None\<close> where the assertion that the index is in range would fail.\<close>

definition GetFunctionTypeIndex :: "index \<Rightarrow> shared_validator \<Rightarrow> index option" where
  "GetFunctionTypeIndex func_index s =
     (if unat func_index < length (funcs s)
      then Some (ft_type_index (funcs s ! unat func_index)) else None)"

section \<open>Instructions\<close>

definition OnAtomicLoad_sv :: "location \<Rightarrow> opcode \<Rightarrow> var \<Rightarrow> address \<Rightarrow> address \<Rightarrow> result sv" where
  "OnAtomicLoad_sv loc op memidx alignment offset = do {
     r0 \<leftarrow> CheckInstr op loc;
     (r1, mt) \<leftarrow> CheckMemoryIndex memidx;
     r2 \<leftarrow> CheckAtomicAlign loc alignment (GetMemorySize op);
     r3 \<leftarrow> CheckOffset loc offset (mt_limits mt);
     r4 \<leftarrow> call_tc (OnAtomicLoad op (mt_limits mt));
     State_Monad.return (results [r0, r1, r2, r3, r4])
   }"

definition OnAtomicNotify_sv :: "location \<Rightarrow> opcode \<Rightarrow> var \<Rightarrow> address \<Rightarrow> address \<Rightarrow> result sv" where
  "OnAtomicNotify_sv loc op memidx alignment offset = do {
     r0 \<leftarrow> CheckInstr op loc;
     (r1, mt) \<leftarrow> CheckMemoryIndex memidx;
     r2 \<leftarrow> CheckAtomicAlign loc alignment (GetMemorySize op);
     r3 \<leftarrow> CheckOffset loc offset (mt_limits mt);
     r4 \<leftarrow> call_tc (OnAtomicNotify op (mt_limits mt));
     State_Monad.return (results [r0, r1, r2, r3, r4])
   }"

definition OnAtomicRmwCmpxchg_sv :: "location \<Rightarrow> opcode \<Rightarrow> var \<Rightarrow> address \<Rightarrow> address \<Rightarrow> result sv" where
  "OnAtomicRmwCmpxchg_sv loc op memidx alignment offset = do {
     r0 \<leftarrow> CheckInstr op loc;
     (r1, mt) \<leftarrow> CheckMemoryIndex memidx;
     r2 \<leftarrow> CheckAtomicAlign loc alignment (GetMemorySize op);
     r3 \<leftarrow> CheckOffset loc offset (mt_limits mt);
     r4 \<leftarrow> call_tc (OnAtomicRmwCmpxchg op (mt_limits mt));
     State_Monad.return (results [r0, r1, r2, r3, r4])
   }"

definition OnAtomicRmw_sv :: "location \<Rightarrow> opcode \<Rightarrow> var \<Rightarrow> address \<Rightarrow> address \<Rightarrow> result sv" where
  "OnAtomicRmw_sv loc op memidx alignment offset = do {
     r0 \<leftarrow> CheckInstr op loc;
     (r1, mt) \<leftarrow> CheckMemoryIndex memidx;
     r2 \<leftarrow> CheckAtomicAlign loc alignment (GetMemorySize op);
     r3 \<leftarrow> CheckOffset loc offset (mt_limits mt);
     r4 \<leftarrow> call_tc (OnAtomicRmw op (mt_limits mt));
     State_Monad.return (results [r0, r1, r2, r3, r4])
   }"

definition OnAtomicStore_sv :: "location \<Rightarrow> opcode \<Rightarrow> var \<Rightarrow> address \<Rightarrow> address \<Rightarrow> result sv" where
  "OnAtomicStore_sv loc op memidx alignment offset = do {
     r0 \<leftarrow> CheckInstr op loc;
     (r1, mt) \<leftarrow> CheckMemoryIndex memidx;
     r2 \<leftarrow> CheckAtomicAlign loc alignment (GetMemorySize op);
     r3 \<leftarrow> CheckOffset loc offset (mt_limits mt);
     r4 \<leftarrow> call_tc (OnAtomicStore op (mt_limits mt));
     State_Monad.return (results [r0, r1, r2, r3, r4])
   }"

definition OnAtomicWait_sv :: "location \<Rightarrow> opcode \<Rightarrow> var \<Rightarrow> address \<Rightarrow> address \<Rightarrow> result sv" where
  "OnAtomicWait_sv loc op memidx alignment offset = do {
     r0 \<leftarrow> CheckInstr op loc;
     (r1, mt) \<leftarrow> CheckMemoryIndex memidx;
     r2 \<leftarrow> CheckAtomicAlign loc alignment (GetMemorySize op);
     r3 \<leftarrow> CheckOffset loc offset (mt_limits mt);
     r4 \<leftarrow> call_tc (OnAtomicWait op (mt_limits mt));
     State_Monad.return (results [r0, r1, r2, r3, r4])
   }"

definition OnLoad_sv :: "location \<Rightarrow> opcode \<Rightarrow> var \<Rightarrow> address \<Rightarrow> address \<Rightarrow> result sv" where
  "OnLoad_sv loc op memidx alignment offset = do {
     r0 \<leftarrow> CheckInstr op loc;
     (r1, mt) \<leftarrow> CheckMemoryIndex memidx;
     r2 \<leftarrow> CheckAlign loc alignment (GetMemorySize op);
     r3 \<leftarrow> CheckOffset loc offset (mt_limits mt);
     r4 \<leftarrow> call_tc (OnLoad op (mt_limits mt));
     State_Monad.return (results [r0, r1, r2, r3, r4])
   }"

definition OnLoadSplat_sv :: "location \<Rightarrow> opcode \<Rightarrow> var \<Rightarrow> address \<Rightarrow> address \<Rightarrow> result sv" where
  "OnLoadSplat_sv loc op memidx alignment offset = do {
     r0 \<leftarrow> CheckInstr op loc;
     (r1, mt) \<leftarrow> CheckMemoryIndex memidx;
     r2 \<leftarrow> CheckAlign loc alignment (GetMemorySize op);
     r3 \<leftarrow> CheckOffset loc offset (mt_limits mt);
     r4 \<leftarrow> call_tc (OnLoad op (mt_limits mt));
     State_Monad.return (results [r0, r1, r2, r3, r4])
   }"

definition OnLoadZero_sv :: "location \<Rightarrow> opcode \<Rightarrow> var \<Rightarrow> address \<Rightarrow> address \<Rightarrow> result sv" where
  "OnLoadZero_sv loc op memidx alignment offset = do {
     r0 \<leftarrow> CheckInstr op loc;
     (r1, mt) \<leftarrow> CheckMemoryIndex memidx;
     r2 \<leftarrow> CheckAlign loc alignment (GetMemorySize op);
     r3 \<leftarrow> CheckOffset loc offset (mt_limits mt);
     r4 \<leftarrow> call_tc (OnLoad op (mt_limits mt));
     State_Monad.return (results [r0, r1, r2, r3, r4])
   }"

definition OnStore_sv :: "location \<Rightarrow> opcode \<Rightarrow> var \<Rightarrow> address \<Rightarrow> address \<Rightarrow> result sv" where
  "OnStore_sv loc op memidx alignment offset = do {
     r0 \<leftarrow> CheckInstr op loc;
     (r1, mt) \<leftarrow> CheckMemoryIndex memidx;
     r2 \<leftarrow> CheckAlign loc alignment (GetMemorySize op);
     r3 \<leftarrow> CheckOffset loc offset (mt_limits mt);
     r4 \<leftarrow> call_tc (OnStore op (mt_limits mt));
     State_Monad.return (results [r0, r1, r2, r3, r4])
   }"

definition OnSimdLoadLane_sv :: "location \<Rightarrow> opcode \<Rightarrow> var \<Rightarrow> address \<Rightarrow> address \<Rightarrow> u64 \<Rightarrow> result option sv" where
  "OnSimdLoadLane_sv loc op memidx alignment offset lane = do {
     r0 \<leftarrow> CheckInstr op loc;
     (r1, mt) \<leftarrow> CheckMemoryIndex memidx;
     r2 \<leftarrow> CheckAlign loc alignment (GetMemorySize op);
     r3 \<leftarrow> CheckOffset loc offset (mt_limits mt);
     r4 \<leftarrow> call_tc (OnSimdLoadLane op (mt_limits mt) lane);
     State_Monad.return (map_option (\<lambda>r. results [r0, r1, r2, r3, r]) r4)
   }"

definition OnSimdStoreLane_sv :: "location \<Rightarrow> opcode \<Rightarrow> var \<Rightarrow> address \<Rightarrow> address \<Rightarrow> u64 \<Rightarrow> result option sv" where
  "OnSimdStoreLane_sv loc op memidx alignment offset lane = do {
     r0 \<leftarrow> CheckInstr op loc;
     (r1, mt) \<leftarrow> CheckMemoryIndex memidx;
     r2 \<leftarrow> CheckAlign loc alignment (GetMemorySize op);
     r3 \<leftarrow> CheckOffset loc offset (mt_limits mt);
     r4 \<leftarrow> call_tc (OnSimdStoreLane op (mt_limits mt) lane);
     State_Monad.return (map_option (\<lambda>r. results [r0, r1, r2, r3, r]) r4)
   }"

definition OnAtomicFence_sv :: "location \<Rightarrow> u32 \<Rightarrow> result sv" where
  "OnAtomicFence_sv loc consistency_model = do {
     r0 \<leftarrow> CheckInstr Op_AtomicFence loc;
     r1 \<leftarrow> error_if (consistency_model \<noteq> 0) loc
       (Message ''unexpected atomic.fence consistency model (expected 0): %u''
          [ucast consistency_model]);
     r2 \<leftarrow> call_tc (OnAtomicFence consistency_model);
     State_Monad.return (results [r0, r1, r2])
   }"

definition OnBinary_sv :: "location \<Rightarrow> opcode \<Rightarrow> result sv" where
  "OnBinary_sv loc op = do {
     r0 \<leftarrow> CheckInstr op loc;
     r1 \<leftarrow> call_tc (OnBinary op);
     State_Monad.return (results [r0, r1])
   }"

definition OnCompare_sv :: "location \<Rightarrow> opcode \<Rightarrow> result sv" where
  "OnCompare_sv loc op = do {
     r0 \<leftarrow> CheckInstr op loc;
     r1 \<leftarrow> call_tc (OnCompare op);
     State_Monad.return (results [r0, r1])
   }"

definition OnConvert_sv :: "location \<Rightarrow> opcode \<Rightarrow> result sv" where
  "OnConvert_sv loc op = do {
     r0 \<leftarrow> CheckInstr op loc;
     r1 \<leftarrow> call_tc (OnConvert op);
     State_Monad.return (results [r0, r1])
   }"

definition OnTernary_sv :: "location \<Rightarrow> opcode \<Rightarrow> result sv" where
  "OnTernary_sv loc op = do {
     r0 \<leftarrow> CheckInstr op loc;
     r1 \<leftarrow> call_tc (OnTernary op);
     State_Monad.return (results [r0, r1])
   }"

definition OnUnary_sv :: "location \<Rightarrow> opcode \<Rightarrow> result sv" where
  "OnUnary_sv loc op = do {
     r0 \<leftarrow> CheckInstr op loc;
     r1 \<leftarrow> call_tc (OnUnary op);
     State_Monad.return (results [r0, r1])
   }"

definition OnBr_sv :: "location \<Rightarrow> var \<Rightarrow> result sv" where
  "OnBr_sv loc depth = do {
     r0 \<leftarrow> CheckInstr Op_Br loc;
     r1 \<leftarrow> call_tc (OnBr (var_index depth));
     State_Monad.return (results [r0, r1])
   }"

definition OnBrIf_sv :: "location \<Rightarrow> var \<Rightarrow> result sv" where
  "OnBrIf_sv loc depth = do {
     r0 \<leftarrow> CheckInstr Op_BrIf loc;
     r1 \<leftarrow> call_tc (OnBrIf (var_index depth));
     State_Monad.return (results [r0, r1])
   }"

definition OnDelegate_sv :: "location \<Rightarrow> var \<Rightarrow> result sv" where
  "OnDelegate_sv loc depth = do {
     r0 \<leftarrow> CheckInstr Op_Delegate loc;
     r1 \<leftarrow> call_tc (OnDelegate (var_index depth));
     State_Monad.return (results [r0, r1])
   }"

definition OnRethrow_sv :: "location \<Rightarrow> var \<Rightarrow> result sv" where
  "OnRethrow_sv loc depth = do {
     r0 \<leftarrow> CheckInstr Op_Rethrow loc;
     r1 \<leftarrow> call_tc (OnRethrow (var_index depth));
     State_Monad.return (results [r0, r1])
   }"

definition BeginBrTable_sv :: "location \<Rightarrow> result sv" where
  "BeginBrTable_sv loc = do {
     r0 \<leftarrow> CheckInstr Op_BrTable loc;
     r1 \<leftarrow> call_tc BeginBrTable;
     State_Monad.return (results [r0, r1])
   }"

definition EndBrTable_sv :: "location \<Rightarrow> result sv" where
  "EndBrTable_sv loc = do {
     r0 \<leftarrow> CheckInstr Op_BrTable loc;
     r1 \<leftarrow> call_tc EndBrTable;
     State_Monad.return (results [r0, r1])
   }"

definition OnDrop_sv :: "location \<Rightarrow> result sv" where
  "OnDrop_sv loc = do {
     r0 \<leftarrow> CheckInstr Op_Drop loc;
     r1 \<leftarrow> call_tc OnDrop;
     State_Monad.return (results [r0, r1])
   }"

definition OnEnd_sv :: "location \<Rightarrow> result sv" where
  "OnEnd_sv loc = do {
     r0 \<leftarrow> CheckInstr Op_End loc;
     r1 \<leftarrow> call_tc OnEnd;
     State_Monad.return (results [r0, r1])
   }"

definition OnReturn_sv :: "location \<Rightarrow> result sv" where
  "OnReturn_sv loc = do {
     r0 \<leftarrow> CheckInstr Op_Return loc;
     r1 \<leftarrow> call_tc OnReturn;
     State_Monad.return (results [r0, r1])
   }"

definition OnUnreachable_sv :: "location \<Rightarrow> result sv" where
  "OnUnreachable_sv loc = do {
     r0 \<leftarrow> CheckInstr Op_Unreachable loc;
     r1 \<leftarrow> call_tc OnUnreachable;
     State_Monad.return (results [r0, r1])
   }"

definition OnRefIsNull :: "location \<Rightarrow> result sv" where
  "OnRefIsNull loc = do {
     r0 \<leftarrow> CheckInstr Op_RefIsNull loc;
     r1 \<leftarrow> call_tc OnRefIsNullExpr;
     State_Monad.return (results [r0, r1])
   }"

definition OnRefNull :: "location \<Rightarrow> wtype \<Rightarrow> result sv" where
  "OnRefNull loc t = do {
     r0 \<leftarrow> CheckInstr Op_RefNull loc;
     r1 \<leftarrow> call_tc (OnRefNullExpr t);
     State_Monad.return (results [r0, r1])
   }"

definition OnNop :: "location \<Rightarrow> result sv" where
  "OnNop loc = CheckInstr Op_Nop loc"

definition OnBrTableTarget_sv :: "location \<Rightarrow> var \<Rightarrow> result sv" where
  "OnBrTableTarget_sv loc depth = do {
     modify (\<lambda>s. s\<lparr>expr_loc := loc\<rparr>);
     call_tc (OnBrTableTarget (var_index depth))
   }"

definition OnConst_sv :: "location \<Rightarrow> wtype \<Rightarrow> result sv" where
  "OnConst_sv loc t = do {
     modify (\<lambda>s. s\<lparr>expr_loc := loc\<rparr>);
     call_tc (OnConst t)
   }"

definition OnElse_sv :: "location \<Rightarrow> result sv" where
  "OnElse_sv loc = call_tc OnElse"

text \<open>The four instructions with a block signature differ in the opcode and the type checker's operation.\<close>

definition OnBlock_sv :: "location \<Rightarrow> wtype \<Rightarrow> result option sv" where
  "OnBlock_sv loc sig_type = do {
     r0 \<leftarrow> CheckInstr Op_Block loc;
     sig \<leftarrow> CheckBlockSignature loc Op_Block sig_type;
     case sig of
       None \<Rightarrow> State_Monad.return None
     | Some (r1, params, res) \<Rightarrow> do {
         r2 \<leftarrow> call_tc (OnBlock params res);
         State_Monad.return (Some (results [r0, r1, r2]))
       }
   }"

definition OnIf_sv :: "location \<Rightarrow> wtype \<Rightarrow> result option sv" where
  "OnIf_sv loc sig_type = do {
     r0 \<leftarrow> CheckInstr Op_If loc;
     sig \<leftarrow> CheckBlockSignature loc Op_If sig_type;
     case sig of
       None \<Rightarrow> State_Monad.return None
     | Some (r1, params, res) \<Rightarrow> do {
         r2 \<leftarrow> call_tc (OnIf params res);
         State_Monad.return (Some (results [r0, r1, r2]))
       }
   }"

definition OnLoop_sv :: "location \<Rightarrow> wtype \<Rightarrow> result option sv" where
  "OnLoop_sv loc sig_type = do {
     r0 \<leftarrow> CheckInstr Op_Loop loc;
     sig \<leftarrow> CheckBlockSignature loc Op_Loop sig_type;
     case sig of
       None \<Rightarrow> State_Monad.return None
     | Some (r1, params, res) \<Rightarrow> do {
         r2 \<leftarrow> call_tc (OnLoop params res);
         State_Monad.return (Some (results [r0, r1, r2]))
       }
   }"

definition OnTry_sv :: "location \<Rightarrow> wtype \<Rightarrow> result option sv" where
  "OnTry_sv loc sig_type = do {
     r0 \<leftarrow> CheckInstr Op_Try loc;
     sig \<leftarrow> CheckBlockSignature loc Op_Try sig_type;
     case sig of
       None \<Rightarrow> State_Monad.return None
     | Some (r1, params, res) \<Rightarrow> do {
         r2 \<leftarrow> call_tc (OnTry params res);
         State_Monad.return (Some (results [r0, r1, r2]))
       }
   }"

definition OnCall_sv :: "location \<Rightarrow> var \<Rightarrow> result sv" where
  "OnCall_sv loc func_var = do {
     r0 \<leftarrow> CheckInstr Op_Call loc;
     (r1, ft) \<leftarrow> CheckFuncIndex func_var;
     r2 \<leftarrow> call_tc (OnCall (ft_params ft) (ft_results ft));
     State_Monad.return (results [r0, r1, r2])
   }"

definition OnCallIndirect_sv :: "location \<Rightarrow> var \<Rightarrow> var \<Rightarrow> result sv" where
  "OnCallIndirect_sv loc sig_var table_var = do {
     r0 \<leftarrow> CheckInstr Op_CallIndirect loc;
     (r1, ft) \<leftarrow> CheckFuncTypeIndex sig_var;
     (r2, tt) \<leftarrow> CheckTableIndex table_var;
     r3 \<leftarrow> call_tc (OnCallIndirect (ft_params ft) (ft_results ft) (tt_limits tt));
     State_Monad.return (results [r0, r1, r2, r3])
   }"

text \<open>The second component is what \<open>*function_type_index\<close> is set to, if it is.\<close>

definition OnCallRef :: "location \<Rightarrow> (result \<times> index option) sv" where
  "OnCallRef loc = do {
     r0 \<leftarrow> CheckInstr Op_CallRef loc;
     (r1, out) \<leftarrow> call_tc OnIndexedFuncRef;
     case (if Failed (result_or r0 r1) then None else out) of
       None \<Rightarrow> State_Monad.return (Error, None)
     | Some func_index \<Rightarrow> do {
         (r2, ft) \<leftarrow> CheckFuncTypeIndex (Var func_index loc);
         r3 \<leftarrow> call_tc (OnCall (ft_params ft) (ft_results ft));
         let result = results [r0, r1, r2, r3];
         State_Monad.return (result, if Succeeded result then Some func_index else None)
       }
   }"

definition OnCatch_sv :: "location \<Rightarrow> var \<Rightarrow> bool \<Rightarrow> result sv" where
  "OnCatch_sv loc tag_var is_catch_all = do {
     r0 \<leftarrow> CheckInstr Op_Catch loc;
     if is_catch_all then do {
       r1 \<leftarrow> call_tc (OnCatch []);
       State_Monad.return (results [r0, r1])
     } else do {
       (r1, tg) \<leftarrow> CheckTagIndex tag_var;
       r2 \<leftarrow> call_tc (OnCatch (tg_params tg));
       State_Monad.return (results [r0, r1, r2])
     }
   }"

definition OnDataDrop_sv :: "location \<Rightarrow> var \<Rightarrow> result sv" where
  "OnDataDrop_sv loc segment_var = do {
     r0 \<leftarrow> CheckInstr Op_DataDrop loc;
     r1 \<leftarrow> CheckDataSegmentIndex segment_var;
     r2 \<leftarrow> call_tc (OnDataDrop (var_index segment_var));
     State_Monad.return (results [r0, r1, r2])
   }"

definition OnElemDrop_sv :: "location \<Rightarrow> var \<Rightarrow> result sv" where
  "OnElemDrop_sv loc segment_var = do {
     r0 \<leftarrow> CheckInstr Op_ElemDrop loc;
     (r1, unused) \<leftarrow> CheckElemSegmentIndex segment_var;
     r2 \<leftarrow> call_tc (OnElemDrop (var_index segment_var));
     State_Monad.return (results [r0, r1, r2])
   }"

definition OnGlobalGet_sv :: "location \<Rightarrow> var \<Rightarrow> result sv" where
  "OnGlobalGet_sv loc global_var = do {
     r0 \<leftarrow> CheckInstr Op_GlobalGet loc;
     (r1, gt) \<leftarrow> CheckGlobalIndex global_var;
     r2 \<leftarrow> call_tc (OnGlobalGet (gt_type gt));
     let result = results [r0, r1, r2];
     s \<leftarrow> State_Monad.get;
     if Succeeded result \<and> in_init_expr s then do {
       r3 \<leftarrow> error_if (num_imported_globals s \<le> var_index global_var) (var_loc global_var)
         (Message ''initializer expression can only reference an imported global'' []);
       r4 \<leftarrow> error_if (gt_mutable gt) loc
         (Message ''initializer expression cannot reference a mutable global'' []);
       State_Monad.return (results [result, r3, r4])
     } else State_Monad.return result
   }"

definition OnGlobalSet_sv :: "location \<Rightarrow> var \<Rightarrow> result sv" where
  "OnGlobalSet_sv loc global_var = do {
     r0 \<leftarrow> CheckInstr Op_GlobalSet loc;
     (r1, gt) \<leftarrow> CheckGlobalIndex global_var;
     r2 \<leftarrow> error_if (\<not> gt_mutable gt) loc
       (Message ''can't global.set on immutable global at index %PRIindex.''
          [ucast (var_index global_var)]);
     r3 \<leftarrow> call_tc (OnGlobalSet (gt_type gt));
     State_Monad.return (results [r0, r1, r2, r3])
   }"

definition OnLocalGet_sv :: "location \<Rightarrow> var \<Rightarrow> result sv" where
  "OnLocalGet_sv loc local_var = CHECK_RESULT (CheckInstr Op_LocalGet loc) (do {
     (r1, t) \<leftarrow> CheckLocalIndex local_var;
     r2 \<leftarrow> call_tc (OnLocalGet t);
     State_Monad.return (results [r1, r2])
   })"

definition OnLocalSet_sv :: "location \<Rightarrow> var \<Rightarrow> result sv" where
  "OnLocalSet_sv loc local_var = CHECK_RESULT (CheckInstr Op_LocalSet loc) (do {
     (r1, t) \<leftarrow> CheckLocalIndex local_var;
     r2 \<leftarrow> call_tc (OnLocalSet t);
     State_Monad.return (results [r1, r2])
   })"

definition OnLocalTee_sv :: "location \<Rightarrow> var \<Rightarrow> result sv" where
  "OnLocalTee_sv loc local_var = CHECK_RESULT (CheckInstr Op_LocalTee loc) (do {
     (r1, t) \<leftarrow> CheckLocalIndex local_var;
     r2 \<leftarrow> call_tc (OnLocalTee t);
     State_Monad.return (results [r1, r2])
   })"

definition OnMemoryCopy_sv :: "location \<Rightarrow> var \<Rightarrow> var \<Rightarrow> result sv" where
  "OnMemoryCopy_sv loc destmemidx srcmemidx = do {
     r0 \<leftarrow> CheckInstr Op_MemoryCopy loc;
     (r1, dstmt) \<leftarrow> CheckMemoryIndex destmemidx;
     (r2, srcmt) \<leftarrow> CheckMemoryIndex srcmemidx;
     r3 \<leftarrow> call_tc (OnMemoryCopy (mt_limits dstmt) (mt_limits srcmt));
     State_Monad.return (results [r0, r1, r2, r3])
   }"

definition OnMemoryFill_sv :: "location \<Rightarrow> var \<Rightarrow> result sv" where
  "OnMemoryFill_sv loc memidx = do {
     r0 \<leftarrow> CheckInstr Op_MemoryFill loc;
     (r1, mt) \<leftarrow> CheckMemoryIndex memidx;
     r2 \<leftarrow> call_tc (OnMemoryFill (mt_limits mt));
     State_Monad.return (results [r0, r1, r2])
   }"

definition OnMemoryGrow_sv :: "location \<Rightarrow> var \<Rightarrow> result sv" where
  "OnMemoryGrow_sv loc memidx = do {
     r0 \<leftarrow> CheckInstr Op_MemoryGrow loc;
     (r1, mt) \<leftarrow> CheckMemoryIndex memidx;
     r2 \<leftarrow> call_tc (OnMemoryGrow (mt_limits mt));
     State_Monad.return (results [r0, r1, r2])
   }"

definition OnMemorySize_sv :: "location \<Rightarrow> var \<Rightarrow> result sv" where
  "OnMemorySize_sv loc memidx = do {
     r0 \<leftarrow> CheckInstr Op_MemorySize loc;
     (r1, mt) \<leftarrow> CheckMemoryIndex memidx;
     r2 \<leftarrow> call_tc (OnMemorySize (mt_limits mt));
     State_Monad.return (results [r0, r1, r2])
   }"

definition OnMemoryInit_sv :: "location \<Rightarrow> var \<Rightarrow> var \<Rightarrow> result sv" where
  "OnMemoryInit_sv loc segment_var memidx = do {
     r0 \<leftarrow> CheckInstr Op_MemoryInit loc;
     (r1, mt) \<leftarrow> CheckMemoryIndex memidx;
     r2 \<leftarrow> CheckDataSegmentIndex segment_var;
     r3 \<leftarrow> call_tc (OnMemoryInit (var_index segment_var) (mt_limits mt));
     State_Monad.return (results [r0, r1, r2, r3])
   }"

definition OnRefFunc :: "location \<Rightarrow> var \<Rightarrow> result sv" where
  "OnRefFunc loc func_var = do {
     r0 \<leftarrow> CheckInstr Op_RefFunc loc;
     (r1, unused) \<leftarrow> CheckFuncIndex func_var;
     if Succeeded (result_or r0 r1) then do {
       modify (\<lambda>s. if in_init_expr s
         then s\<lparr>declared_funcs := insert (var_index func_var) (declared_funcs s)\<rparr>
         else s\<lparr>check_declared_funcs := check_declared_funcs s @ [func_var]\<rparr>);
       s \<leftarrow> State_Monad.get;
       r2 \<leftarrow> call_tc (OnRefFuncExpr (the (GetFunctionTypeIndex (var_index func_var) s)) (in_init_expr s));
       State_Monad.return (results [r0, r1, r2])
     } else State_Monad.return Error
   }"

definition OnReturnCall_sv :: "location \<Rightarrow> var \<Rightarrow> result sv" where
  "OnReturnCall_sv loc func_var = do {
     r0 \<leftarrow> CheckInstr Op_ReturnCall loc;
     (r1, ft) \<leftarrow> CheckFuncIndex func_var;
     r2 \<leftarrow> call_tc (OnReturnCall (ft_params ft) (ft_results ft));
     State_Monad.return (results [r0, r1, r2])
   }"

definition OnReturnCallIndirect_sv :: "location \<Rightarrow> var \<Rightarrow> var \<Rightarrow> result sv" where
  "OnReturnCallIndirect_sv loc sig_var table_var = do {
     r0 \<leftarrow> CheckInstr Op_CallIndirect loc;
     (r1, unused) \<leftarrow> CheckTableIndex table_var;
     (r2, ft) \<leftarrow> CheckFuncTypeIndex sig_var;
     r3 \<leftarrow> call_tc (OnReturnCallIndirect (ft_params ft) (ft_results ft));
     State_Monad.return (results [r0, r1, r2, r3])
   }"

definition OnSelect_sv :: "location \<Rightarrow> type_vector \<Rightarrow> result sv" where
  "OnSelect_sv loc result_tys = do {
     r0 \<leftarrow> CheckInstr Op_Select loc;
     r1 \<leftarrow> (if 1 < length result_tys
           then PrintError_sv loc (Message ''invalid arity in select instruction: %PRIindex.''
             [of_nat (length result_tys)])
           else call_tc (OnSelect result_tys));
     State_Monad.return (results [r0, r1])
   }"

definition OnSimdLaneOp_sv :: "location \<Rightarrow> opcode \<Rightarrow> u64 \<Rightarrow> result option sv" where
  "OnSimdLaneOp_sv loc op lane = do {
     r0 \<leftarrow> CheckInstr op loc;
     r1 \<leftarrow> call_tc (OnSimdLaneOp op lane);
     State_Monad.return (map_option (\<lambda>r. results [r0, r]) r1)
   }"

definition OnSimdShuffleOp_sv :: "location \<Rightarrow> opcode \<Rightarrow> u8 list \<Rightarrow> result sv" where
  "OnSimdShuffleOp_sv loc op lanes = do {
     r0 \<leftarrow> CheckInstr op loc;
     r1 \<leftarrow> call_tc (OnSimdShuffleOp op lanes);
     State_Monad.return (results [r0, r1])
   }"

definition OnTableCopy_sv :: "location \<Rightarrow> var \<Rightarrow> var \<Rightarrow> result sv" where
  "OnTableCopy_sv loc dst_var src_var = do {
     r0 \<leftarrow> CheckInstr Op_TableCopy loc;
     (r1, dst) \<leftarrow> CheckTableIndex dst_var;
     (r2, src) \<leftarrow> CheckTableIndex src_var;
     r3 \<leftarrow> call_tc (OnTableCopy (tt_limits dst) (tt_limits src));
     r4 \<leftarrow> CheckType_sv loc (tt_element src) (tt_element dst) ''table.copy'';
     State_Monad.return (results [r0, r1, r2, r3, r4])
   }"

definition OnTableFill_sv :: "location \<Rightarrow> var \<Rightarrow> result sv" where
  "OnTableFill_sv loc table_var = do {
     r0 \<leftarrow> CheckInstr Op_TableFill loc;
     (r1, tt) \<leftarrow> CheckTableIndex table_var;
     r2 \<leftarrow> call_tc (OnTableFill (tt_element tt) (tt_limits tt));
     State_Monad.return (results [r0, r1, r2])
   }"

definition OnTableGet_sv :: "location \<Rightarrow> var \<Rightarrow> result sv" where
  "OnTableGet_sv loc table_var = do {
     r0 \<leftarrow> CheckInstr Op_TableGet loc;
     (r1, tt) \<leftarrow> CheckTableIndex table_var;
     r2 \<leftarrow> call_tc (OnTableGet (tt_element tt) (tt_limits tt));
     State_Monad.return (results [r0, r1, r2])
   }"

definition OnTableGrow_sv :: "location \<Rightarrow> var \<Rightarrow> result sv" where
  "OnTableGrow_sv loc table_var = do {
     r0 \<leftarrow> CheckInstr Op_TableGrow loc;
     (r1, tt) \<leftarrow> CheckTableIndex table_var;
     r2 \<leftarrow> call_tc (OnTableGrow (tt_element tt) (tt_limits tt));
     State_Monad.return (results [r0, r1, r2])
   }"

definition OnTableSet_sv :: "location \<Rightarrow> var \<Rightarrow> result sv" where
  "OnTableSet_sv loc table_var = do {
     r0 \<leftarrow> CheckInstr Op_TableSet loc;
     (r1, tt) \<leftarrow> CheckTableIndex table_var;
     r2 \<leftarrow> call_tc (OnTableSet (tt_element tt) (tt_limits tt));
     State_Monad.return (results [r0, r1, r2])
   }"

definition OnTableInit_sv :: "location \<Rightarrow> var \<Rightarrow> var \<Rightarrow> result sv" where
  "OnTableInit_sv loc segment_var table_var = do {
     r0 \<leftarrow> CheckInstr Op_TableInit loc;
     (r1, tt) \<leftarrow> CheckTableIndex table_var;
     (r2, et) \<leftarrow> CheckElemSegmentIndex segment_var;
     r3 \<leftarrow> call_tc (OnTableInit (var_index segment_var) (tt_limits tt));
     r4 \<leftarrow> CheckType_sv loc (et_element et) (tt_element tt) ''table.init'';
     State_Monad.return (results [r0, r1, r2, r3, r4])
   }"

definition OnTableSize_sv :: "location \<Rightarrow> var \<Rightarrow> result sv" where
  "OnTableSize_sv loc table_var = do {
     r0 \<leftarrow> CheckInstr Op_TableSize loc;
     (r1, tt) \<leftarrow> CheckTableIndex table_var;
     r2 \<leftarrow> call_tc (OnTableSize (tt_limits tt));
     State_Monad.return (results [r0, r1, r2])
   }"

definition OnThrow_sv :: "location \<Rightarrow> var \<Rightarrow> result sv" where
  "OnThrow_sv loc tag_var = do {
     r0 \<leftarrow> CheckInstr Op_Throw loc;
     (r1, tg) \<leftarrow> CheckTagIndex tag_var;
     r2 \<leftarrow> call_tc (OnThrow (tg_params tg));
     State_Monad.return (results [r0, r1, r2])
   }"

section \<open>The interface\<close>

text \<open>The public methods as the calls a reader can make, grouped by their parameters.\<close>

datatype mem_sv_call = SvAtomicLoad | SvAtomicNotify | SvAtomicRmwCmpxchg | SvAtomicRmw
    | SvAtomicStore | SvAtomicWait | SvLoad | SvLoadSplat | SvLoadZero | SvStore

datatype op_sv_call = SvBinary | SvCompare | SvConvert | SvTernary | SvUnary

datatype depth_sv_call = SvBr | SvBrIf | SvBrTableTarget | SvDelegate | SvRethrow

datatype plain_sv_call = SvBeginBrTable | SvEndBrTable | SvDrop | SvElse | SvEnd | SvReturn
    | SvUnreachable | SvRefIsNull | SvNop | SvEndFunctionBody

datatype type_sv_call = SvConst | SvRefNull | SvElemSegmentElemType | SvBeginInitExpr

datatype block_sv_call = SvBlock | SvIf | SvLoop | SvTry

datatype index_sv_call = SvCall | SvReturnCall | SvDataDrop | SvElemDrop | SvGlobalGet
    | SvGlobalSet | SvLocalGet | SvLocalSet | SvLocalTee | SvRefFunc | SvThrow

datatype space_sv_call = SvMemoryFill | SvMemoryGrow | SvMemorySize | SvTableFill | SvTableGet
    | SvTableGrow | SvTableSet | SvTableSize

datatype pair_sv_call = SvCallIndirect | SvReturnCallIndirect | SvMemoryCopy | SvMemoryInit
    | SvTableCopy | SvTableInit

datatype entry_sv_call = SvFunction | SvTag | SvStart

datatype segment_sv_call = SvElemSegment | SvDataSegment

datatype global_sv_call = SvGlobalImport | SvGlobal

datatype lane_sv_call = SvSimdLoadLane | SvSimdStoreLane

datatype sv_call =
    MemSv mem_sv_call location opcode var address address
  | OpSv op_sv_call location opcode
  | DepthSv depth_sv_call location var
  | PlainSv plain_sv_call location
  | TypeSv type_sv_call location wtype
  | BlockSv block_sv_call location wtype
  | IndexSv index_sv_call location var
  | SpaceSv space_sv_call location var
  | PairSv pair_sv_call location var var
  | EntrySv entry_sv_call location var
  | SegmentSv segment_sv_call location var segment_kind
  | GlobalSv global_sv_call location wtype bool
  | LaneSv lane_sv_call location opcode var address address u64
  | FuncTypeSv location type_vector type_vector index
  | StructTypeSv location "type_mut list"
  | ArrayTypeSv location type_mut
  | TableSv location wtype limits
  | MemorySv location limits
  | ExportSv location external_kind var "u8 list"
  | DataCountSv index
  | LocalDeclSv location index wtype
  | FunctionBodySv location index
  | EndInitExprSv
  | EndModuleSv
  | AtomicFenceSv location u32
  | CatchSv location var bool
  | CallRefSv location
  | SelectSv location type_vector
  | LaneOpSv location opcode u64
  | ShuffleSv location opcode "u8 list"

definition returning_sv :: "result sv \<Rightarrow> result option sv" where
  "returning_sv m = do { r \<leftarrow> m; State_Monad.return (Some r) }"

fun mem_sv_action :: "mem_sv_call \<Rightarrow> location \<Rightarrow> opcode \<Rightarrow> var \<Rightarrow> address \<Rightarrow> address \<Rightarrow> result sv" where
  "mem_sv_action SvAtomicLoad = OnAtomicLoad_sv"
| "mem_sv_action SvAtomicNotify = OnAtomicNotify_sv"
| "mem_sv_action SvAtomicRmwCmpxchg = OnAtomicRmwCmpxchg_sv"
| "mem_sv_action SvAtomicRmw = OnAtomicRmw_sv"
| "mem_sv_action SvAtomicStore = OnAtomicStore_sv"
| "mem_sv_action SvAtomicWait = OnAtomicWait_sv"
| "mem_sv_action SvLoad = OnLoad_sv"
| "mem_sv_action SvLoadSplat = OnLoadSplat_sv"
| "mem_sv_action SvLoadZero = OnLoadZero_sv"
| "mem_sv_action SvStore = OnStore_sv"

fun op_sv_action :: "op_sv_call \<Rightarrow> location \<Rightarrow> opcode \<Rightarrow> result sv" where
  "op_sv_action SvBinary = OnBinary_sv"
| "op_sv_action SvCompare = OnCompare_sv"
| "op_sv_action SvConvert = OnConvert_sv"
| "op_sv_action SvTernary = OnTernary_sv"
| "op_sv_action SvUnary = OnUnary_sv"

fun depth_sv_action :: "depth_sv_call \<Rightarrow> location \<Rightarrow> var \<Rightarrow> result sv" where
  "depth_sv_action SvBr = OnBr_sv"
| "depth_sv_action SvBrIf = OnBrIf_sv"
| "depth_sv_action SvBrTableTarget = OnBrTableTarget_sv"
| "depth_sv_action SvDelegate = OnDelegate_sv"
| "depth_sv_action SvRethrow = OnRethrow_sv"

fun plain_sv_action :: "plain_sv_call \<Rightarrow> location \<Rightarrow> result sv" where
  "plain_sv_action SvBeginBrTable = BeginBrTable_sv"
| "plain_sv_action SvEndBrTable = EndBrTable_sv"
| "plain_sv_action SvDrop = OnDrop_sv"
| "plain_sv_action SvElse = OnElse_sv"
| "plain_sv_action SvEnd = OnEnd_sv"
| "plain_sv_action SvReturn = OnReturn_sv"
| "plain_sv_action SvUnreachable = OnUnreachable_sv"
| "plain_sv_action SvRefIsNull = OnRefIsNull"
| "plain_sv_action SvNop = OnNop"
| "plain_sv_action SvEndFunctionBody = EndFunctionBody"

fun type_sv_action :: "type_sv_call \<Rightarrow> location \<Rightarrow> wtype \<Rightarrow> result sv" where
  "type_sv_action SvConst = OnConst_sv"
| "type_sv_action SvRefNull = OnRefNull"
| "type_sv_action SvElemSegmentElemType = OnElemSegmentElemType"
| "type_sv_action SvBeginInitExpr = BeginInitExpr_sv"

fun block_sv_action :: "block_sv_call \<Rightarrow> location \<Rightarrow> wtype \<Rightarrow> result option sv" where
  "block_sv_action SvBlock = OnBlock_sv"
| "block_sv_action SvIf = OnIf_sv"
| "block_sv_action SvLoop = OnLoop_sv"
| "block_sv_action SvTry = OnTry_sv"

fun index_sv_action :: "index_sv_call \<Rightarrow> location \<Rightarrow> var \<Rightarrow> result sv" where
  "index_sv_action SvCall = OnCall_sv"
| "index_sv_action SvReturnCall = OnReturnCall_sv"
| "index_sv_action SvDataDrop = OnDataDrop_sv"
| "index_sv_action SvElemDrop = OnElemDrop_sv"
| "index_sv_action SvGlobalGet = OnGlobalGet_sv"
| "index_sv_action SvGlobalSet = OnGlobalSet_sv"
| "index_sv_action SvLocalGet = OnLocalGet_sv"
| "index_sv_action SvLocalSet = OnLocalSet_sv"
| "index_sv_action SvLocalTee = OnLocalTee_sv"
| "index_sv_action SvRefFunc = OnRefFunc"
| "index_sv_action SvThrow = OnThrow_sv"

fun space_sv_action :: "space_sv_call \<Rightarrow> location \<Rightarrow> var \<Rightarrow> result sv" where
  "space_sv_action SvMemoryFill = OnMemoryFill_sv"
| "space_sv_action SvMemoryGrow = OnMemoryGrow_sv"
| "space_sv_action SvMemorySize = OnMemorySize_sv"
| "space_sv_action SvTableFill = OnTableFill_sv"
| "space_sv_action SvTableGet = OnTableGet_sv"
| "space_sv_action SvTableGrow = OnTableGrow_sv"
| "space_sv_action SvTableSet = OnTableSet_sv"
| "space_sv_action SvTableSize = OnTableSize_sv"

fun pair_sv_action :: "pair_sv_call \<Rightarrow> location \<Rightarrow> var \<Rightarrow> var \<Rightarrow> result sv" where
  "pair_sv_action SvCallIndirect = OnCallIndirect_sv"
| "pair_sv_action SvReturnCallIndirect = OnReturnCallIndirect_sv"
| "pair_sv_action SvMemoryCopy = OnMemoryCopy_sv"
| "pair_sv_action SvMemoryInit = OnMemoryInit_sv"
| "pair_sv_action SvTableCopy = OnTableCopy_sv"
| "pair_sv_action SvTableInit = OnTableInit_sv"

fun entry_sv_action :: "entry_sv_call \<Rightarrow> location \<Rightarrow> var \<Rightarrow> result sv" where
  "entry_sv_action SvFunction = OnFunction"
| "entry_sv_action SvTag = OnTag"
| "entry_sv_action SvStart = OnStart"

fun segment_sv_action :: "segment_sv_call \<Rightarrow> location \<Rightarrow> var \<Rightarrow> segment_kind \<Rightarrow> result sv" where
  "segment_sv_action SvElemSegment = OnElemSegment"
| "segment_sv_action SvDataSegment = OnDataSegment"

fun global_sv_action :: "global_sv_call \<Rightarrow> location \<Rightarrow> wtype \<Rightarrow> bool \<Rightarrow> result sv" where
  "global_sv_action SvGlobalImport = OnGlobalImport"
| "global_sv_action SvGlobal = OnGlobal"

fun lane_sv_action :: "lane_sv_call \<Rightarrow> location \<Rightarrow> opcode \<Rightarrow> var \<Rightarrow> address \<Rightarrow> address \<Rightarrow> u64 \<Rightarrow> result option sv" where
  "lane_sv_action SvSimdLoadLane = OnSimdLoadLane_sv"
| "lane_sv_action SvSimdStoreLane = OnSimdStoreLane_sv"

fun sv_action :: "sv_call \<Rightarrow> result option sv" where
  "sv_action (MemSv k loc a b c d) = returning_sv (mem_sv_action k loc a b c d)"
| "sv_action (OpSv k loc a) = returning_sv (op_sv_action k loc a)"
| "sv_action (DepthSv k loc a) = returning_sv (depth_sv_action k loc a)"
| "sv_action (PlainSv k loc) = returning_sv (plain_sv_action k loc)"
| "sv_action (TypeSv k loc a) = returning_sv (type_sv_action k loc a)"
| "sv_action (BlockSv k loc a) = block_sv_action k loc a"
| "sv_action (IndexSv k loc a) = returning_sv (index_sv_action k loc a)"
| "sv_action (SpaceSv k loc a) = returning_sv (space_sv_action k loc a)"
| "sv_action (PairSv k loc a b) = returning_sv (pair_sv_action k loc a b)"
| "sv_action (EntrySv k loc a) = returning_sv (entry_sv_action k loc a)"
| "sv_action (SegmentSv k loc a b) = returning_sv (segment_sv_action k loc a b)"
| "sv_action (GlobalSv k loc a b) = returning_sv (global_sv_action k loc a b)"
| "sv_action (LaneSv k loc a b c d e) = lane_sv_action k loc a b c d e"
| "sv_action (FuncTypeSv loc ps rs i) = returning_sv (OnFuncType loc ps rs i)"
| "sv_action (StructTypeSv loc fs) = returning_sv (OnStructType loc fs)"
| "sv_action (ArrayTypeSv loc f) = returning_sv (OnArrayType loc f)"
| "sv_action (TableSv loc t l) = returning_sv (OnTable loc t l)"
| "sv_action (MemorySv loc l) = returning_sv (OnMemory loc l)"
| "sv_action (ExportSv loc k v n) = returning_sv (OnExport loc k v n)"
| "sv_action (DataCountSv n) = returning_sv (do { OnDataCount n; State_Monad.return Ok })"
| "sv_action (LocalDeclSv loc n t) = returning_sv (OnLocalDecl loc n t)"
| "sv_action (FunctionBodySv loc i) = returning_sv (BeginFunctionBody loc i)"
| "sv_action EndInitExprSv = returning_sv (EndInitExpr_sv)"
| "sv_action EndModuleSv = returning_sv (EndModule)"
| "sv_action (AtomicFenceSv loc m) = returning_sv (OnAtomicFence_sv loc m)"
| "sv_action (CatchSv loc v b) = returning_sv (OnCatch_sv loc v b)"
| "sv_action (CallRefSv loc) = returning_sv (do { (r, out) \<leftarrow> OnCallRef loc; State_Monad.return r })"
| "sv_action (SelectSv loc ts) = returning_sv (OnSelect_sv loc ts)"
| "sv_action (ShuffleSv loc op bs) = returning_sv (OnSimdShuffleOp_sv loc op bs)"
| "sv_action (LaneOpSv loc op n) = OnSimdLaneOp_sv loc op n"

definition sv_step :: "sv_call \<Rightarrow> shared_validator \<Rightarrow> result option \<times> shared_validator" where
  "sv_step c = run_state (sv_action c)"

end
