(* ===== verification/Shared_Validator_Facts.thy ===== *)
theory Shared_Validator_Facts
  imports Shared_Validator
begin

text \<open>
  What the checks of the shared validator decide: limits, alignments, indices, locals, exports,
  declared functions and initializer expressions.
\<close>

section \<open>Reports\<close>

lemma run_PrintError_sv [simp]:
  "run_state (PrintError_sv loc m) s = (Error, s\<lparr>sv_errors := sv_errors s @ [(loc, m)]\<rparr>)"
  by (simp add: PrintError_sv_def)

lemma run_error_if [simp]:
  "run_state (error_if b loc m) s =
     (if b then (Error, s\<lparr>sv_errors := sv_errors s @ [(loc, m)]\<rparr>) else (Ok, s))"
  by (simp add: error_if_def)

lemma results_simps [simp]: "results [] = Ok" "results (r # rs) = result_or r (results rs)"
  by (simp_all add: results_def)

section \<open>Limits and alignment\<close>

text \<open>
  C21. \<open>CheckLimits\<close> accepts exactly the limits the specification allows: an initial size within
  the bound and, if there is a maximum, one within the bound and not below the initial size.
\<close>

theorem CheckLimits_iff:
  "fst (run_state (CheckLimits loc l absolute_max desc) s) = Ok \<longleftrightarrow>
     initial l \<le> absolute_max \<and>
     (has_max l \<longrightarrow> max_limit l \<le> absolute_max \<and> initial l \<le> max_limit l)"
  by (auto simp: CheckLimits_def not_less)

theorem CheckLimits_iff_witness:
  "fst (run_state (CheckLimits 0 \<lparr>initial = 1, max_limit = 2, has_max = True, is_shared = False, is_64 = False\<rparr>
     65536 ''pages'') (SharedValidator default_features)) = Ok"
  by (subst CheckLimits_iff) simp

lemma top_bit: "\<lbrakk>2 ^ j \<le> n; n < 2 ^ Suc j\<rbrakk> \<Longrightarrow> bit (n :: nat) j"
proof -
  assume "2 ^ j \<le> n" "n < 2 ^ Suc j"
  then have "n div 2 ^ j = 1" by (intro div_nat_eqI) simp_all
  then show ?thesis by (simp add: bit_iff_odd)
qed

lemma is_power_of_two_iff: "is_power_of_two x \<longleftrightarrow> (\<exists>k. unat x = 2 ^ k)"
proof
  assume p: "is_power_of_two x"
  let ?n = "unat x"
  from p have x: "x \<noteq> 0" "x AND (x - 1) = 0" by (simp_all add: is_power_of_two_def)
  then have n: "1 \<le> ?n" by (metis Suc_leI One_nat_def unat_eq_zero gr0I)
  then obtain j where j: "2 ^ j \<le> ?n" "?n < 2 ^ (j + 1)" using ex_power_ivl1 [of 2 ?n] by auto
  have m: "unat (x - 1) = ?n - 1" using x(1) by (simp add: unat_minus_one)
  have "?n = 2 ^ j"
  proof (rule ccontr)
    assume "?n \<noteq> 2 ^ j"
    with j have "2 ^ j \<le> ?n - 1" "?n - 1 < 2 ^ Suc j" by simp_all
    then have "bit (unat (x - 1)) j" "bit ?n j" using top_bit j m by simp_all
    then have "bit (x AND (x - 1)) j" by (simp add: bit_and_iff bit_unsigned_iff)
    with x(2) show False by simp
  qed
  then show "\<exists>k. ?n = 2 ^ k" by blast
next
  assume "\<exists>k. unat x = 2 ^ k"
  then obtain k where k: "unat x = 2 ^ k" by blast
  then have "x \<noteq> 0" by auto
  moreover have "unat (x AND (x - 1)) = 2 ^ k AND mask k"
    using k \<open>x \<noteq> 0\<close> by (simp add: unsigned_and_eq unat_minus_one mask_eq_exp_minus_1)
  then have "unat (x AND (x - 1)) = 0"
    by (simp add: take_bit_eq_mask [symmetric] take_bit_eq_mod)
  then have "x AND (x - 1) = 0" by (metis unat_eq_zero)
  ultimately show "is_power_of_two x" by (simp add: is_power_of_two_def)
qed

text \<open>
  C22. \<open>CheckAlign\<close> accepts an alignment exactly if it is a power of two that does not exceed the
  natural alignment, although \<open>is_power_of_two\<close> only sees the low 32 bits of the alignment.
\<close>

theorem CheckAlign_iff:
  assumes "natural_alignment < 2 ^ 32"
  shows "fst (run_state (CheckAlign loc alignment natural_alignment) s) = Ok \<longleftrightarrow>
    (\<exists>k. unat alignment = 2 ^ k) \<and> alignment \<le> natural_alignment"
proof -
  have "unat (ucast alignment :: u32) = unat alignment" if "alignment \<le> natural_alignment"
  proof -
    have "unat alignment < 2 ^ 32" using that assms by (simp add: word_le_nat_alt word_less_nat_alt)
    then show ?thesis by (simp add: unsigned_ucast_eq take_bit_eq_mod)
  qed
  then show ?thesis by (auto simp: CheckAlign_def is_power_of_two_iff not_less)
qed

theorem CheckAlign_iff_witness:
  "fst (run_state (CheckAlign 0 4 8) (SharedValidator default_features)) = Ok"
  using CheckAlign_iff [of 8 0 4 "SharedValidator default_features"]
  by (auto intro: exI [of _ 2])

section \<open>Indices\<close>

lemma run_CheckIndex:
  "run_state (CheckIndex v n d) s =
     (if var_index v < n then (Ok, s)
      else (Error, s\<lparr>sv_errors := sv_errors s @
        [(var_loc v, Message (d @ '' variable out of range: %PRIindex (max %PRIindex)'')
           [ucast (var_index v), ucast n])]\<rparr>))"
  by (auto simp: CheckIndex_def not_le)

lemma CheckIndexWithValue_ok:
  assumes "length values < 2 ^ 32"
  shows "run_state (CheckIndexWithValue v values z d) s = ((Ok, x), s') \<longleftrightarrow>
     unat (var_index v) < length values \<and> x = values ! unat (var_index v) \<and> s' = s"
  using assms
  by (auto simp: CheckIndexWithValue_def run_CheckIndex word_less_nat_alt unsigned_of_nat take_bit_nat_eq_self)

section \<open>Locals\<close>

text \<open>
  The declarations are kept run-length encoded by their ends. \<open>expand_locals\<close> is the list of types
  they stand for, \<open>decls_ok\<close> that the ends do not decrease, which the binary search relies on.
\<close>

primrec expand_locals :: "nat \<Rightarrow> local_decl list \<Rightarrow> type_vector" where
  "expand_locals p [] = []"
| "expand_locals p (d # ds) =
     replicate (unat (ld_end d) - p) (ld_type d) @ expand_locals (unat (ld_end d)) ds"

primrec decls_ok :: "nat \<Rightarrow> local_decl list \<Rightarrow> bool" where
  "decls_ok p [] \<longleftrightarrow> True"
| "decls_ok p (d # ds) \<longleftrightarrow> p \<le> unat (ld_end d) \<and> decls_ok (unat (ld_end d)) ds"

definition last_end :: "nat \<Rightarrow> local_decl list \<Rightarrow> nat" where
  "last_end p ds = (if ds = [] then p else unat (ld_end (last ds)))"

lemma decls_ok_snoc: "decls_ok p (ds @ [d]) \<longleftrightarrow> decls_ok p ds \<and> last_end p ds \<le> unat (ld_end d)"
  by (induction ds arbitrary: p) (auto simp: last_end_def)

lemma expand_locals_snoc:
  "expand_locals p (ds @ [d]) = expand_locals p ds @ replicate (unat (ld_end d) - last_end p ds) (ld_type d)"
  by (induction ds arbitrary: p) (auto simp: last_end_def)

lemma decls_ok_ge: "decls_ok p ds \<Longrightarrow> d \<in> set ds \<Longrightarrow> p \<le> unat (ld_end d)"
  by (induction ds arbitrary: p) (auto dest: order_trans)

lemma decls_ok_sorted: "decls_ok p ds \<Longrightarrow> sorted (map ld_end ds)"
  by (induction ds arbitrary: p) (auto simp: word_le_nat_alt dest: decls_ok_ge)

lemma length_expand_locals: "decls_ok p ds \<Longrightarrow> length (expand_locals p ds) = last_end p ds - p"
proof (induction ds arbitrary: p)
  case (Cons d ds)
  then have "unat (ld_end d) \<le> last_end (unat (ld_end d)) ds"
    using decls_ok_ge [of "unat (ld_end d)" ds "last ds"] by (simp add: last_end_def)
  with Cons show ?case by (auto simp: last_end_def)
qed (simp add: last_end_def)

lemma unat_GetLocalCount: "unat (GetLocalCount s) = last_end 0 (locals s)"
  by (simp add: GetLocalCount_def last_end_def)

text \<open>The binary search finds the first declaration that ends behind the index.\<close>

lemma upper_bound_correct:
  "\<lbrakk>sorted (map ld_end ds); first + count \<le> length ds; \<forall>j < first. ld_end (ds ! j) \<le> i;
     \<forall>j. first + count \<le> j \<longrightarrow> j < length ds \<longrightarrow> i < ld_end (ds ! j)\<rbrakk> \<Longrightarrow>
   upper_bound ds i first count \<le> length ds \<and>
   (\<forall>j < upper_bound ds i first count. ld_end (ds ! j) \<le> i) \<and>
   (\<forall>j. upper_bound ds i first count \<le> j \<longrightarrow> j < length ds \<longrightarrow> i < ld_end (ds ! j))"
proof (induction ds i first count rule: upper_bound.induct)
  case (1 ds i first count)
  show ?case
  proof (cases "count = 0")
    case True
    with "1.prems" show ?thesis by (subst (1 2 3) upper_bound.simps) simp
  next
    case False
    define it where "it = first + count div 2"
    have it: "it < length ds" "it < first + count" using False "1.prems"(2) by (simp_all add: it_def)
    have mono: "ld_end (ds ! j) \<le> ld_end (ds ! k)" if "j \<le> k" "k < length ds" for j k
      using sorted_nth_mono [OF "1.prems"(1), of j k] that by simp
    show ?thesis
    proof (cases "i < ld_end (ds ! it)")
      case True
      have eq: "upper_bound ds i first count = upper_bound ds i first (count div 2)"
        using False True by (subst upper_bound.simps) (simp add: Let_def it_def)
      have "\<forall>j. first + count div 2 \<le> j \<longrightarrow> j < length ds \<longrightarrow> i < ld_end (ds ! j)"
        using mono [of it] True by (auto simp: it_def dest: less_le_trans)
      then show ?thesis
        unfolding eq using True "1.prems"(1-3) it
        by (intro "1.IH"(2) [OF False refl refl]) (simp_all add: it_def)
    next
      case ge: False
      have eq: "upper_bound ds i first count =
          upper_bound ds i (first + count div 2 + 1) (count - (count div 2 + 1))"
        using False ge by (subst upper_bound.simps) (simp add: Let_def it_def)
      have "\<forall>j < first + count div 2 + 1. ld_end (ds ! j) \<le> i"
        using mono [of _ it] ge it by (auto simp: it_def not_less less_Suc_eq_le dest: order_trans)
      moreover have "first + count div 2 + 1 + (count - (count div 2 + 1)) = first + count"
        using False by simp
      ultimately show ?thesis
        unfolding eq using ge "1.prems"(1,2,4) it
        by (intro "1.IH"(1) [OF False refl refl]) (simp_all only: it_def simp_thms)
    qed
  qed
qed

lemma expand_locals_nth:
  "\<lbrakk>decls_ok p ds; r < length ds; \<forall>j < r. unat (ld_end (ds ! j)) \<le> n; n < unat (ld_end (ds ! r)); p \<le> n\<rbrakk> \<Longrightarrow>
     n - p < length (expand_locals p ds) \<and> expand_locals p ds ! (n - p) = ld_type (ds ! r)"
proof (induction ds arbitrary: p r)
  case (Cons d ds)
  show ?case
  proof (cases r)
    case 0
    with Cons.prems have "n - p < unat (ld_end d) - p" by (auto intro: diff_less_mono)
    with 0 show ?thesis by (simp add: nth_append)
  next
    case (Suc r')
    then have e: "unat (ld_end d) \<le> n" using Cons.prems(3) by auto
    have "n - unat (ld_end d) < length (expand_locals (unat (ld_end d)) ds) \<and>
        expand_locals (unat (ld_end d)) ds ! (n - unat (ld_end d)) = ld_type (ds ! r')"
      using Cons.prems Suc e by (intro Cons.IH) auto
    with Suc e Cons.prems show ?thesis by (auto simp: nth_append)
  qed
qed simp

lemma CheckLocalIndex_expand:
  assumes ok: "decls_ok 0 (locals s)"
  shows "fst (run_state (CheckLocalIndex v) s) =
    (let ts = expand_locals 0 (locals s); n = unat (var_index v)
     in if n < length ts then (Ok, ts ! n) else (Error, AnyTy))"
proof -
  let ?ds = "locals s" and ?i = "var_index v"
  let ?r = "upper_bound ?ds ?i 0 (length ?ds)"
  have r: "?r \<le> length ?ds" "\<forall>j < ?r. ld_end (?ds ! j) \<le> ?i"
      "\<forall>j. ?r \<le> j \<longrightarrow> j < length ?ds \<longrightarrow> ?i < ld_end (?ds ! j)"
    using upper_bound_correct [OF decls_ok_sorted [OF ok], of 0 "length ?ds" ?i] by auto
  show ?thesis
  proof (cases "?r = length ?ds")
    case True
    then have "last_end 0 ?ds \<le> unat ?i"
      using r(2) by (cases "?ds = []") (auto simp: last_end_def last_conv_nth word_le_nat_alt)
    with True length_expand_locals [OF ok] show ?thesis
      by (simp add: CheckLocalIndex_def Let_def)
  next
    case False
    with r have lt: "?r < length ?ds" by simp
    have "unat ?i - 0 < length (expand_locals 0 ?ds) \<and> expand_locals 0 ?ds ! (unat ?i - 0) = ld_type (?ds ! ?r)"
      using r lt by (intro expand_locals_nth [OF ok lt]) (auto simp: word_le_nat_alt word_less_nat_alt)
    with False show ?thesis by (simp add: CheckLocalIndex_def Let_def)
  qed
qed

lemma call_tc_fields [simp]:
  "locals (snd (run_state (call_tc m) s)) = locals s"
  "funcs (snd (run_state (call_tc m) s)) = funcs s"
  "export_names (snd (run_state (call_tc m) s)) = export_names s"
  "declared_funcs (snd (run_state (call_tc m) s)) = declared_funcs s"
  "check_declared_funcs (snd (run_state (call_tc m) s)) = check_declared_funcs s"
  "expr_loc (snd (run_state (call_tc m) s)) = expr_loc s"
  by (simp_all add: call_tc_def case_prod_beta Let_def)

lemma add_params_expand:
  "\<lbrakk>decls_ok 0 ds; last_end 0 ds + length ts < 2 ^ 32\<rbrakk> \<Longrightarrow>
     decls_ok 0 (add_params ts ds) \<and> last_end 0 (add_params ts ds) = last_end 0 ds + length ts \<and>
     expand_locals 0 (add_params ts ds) = expand_locals 0 ds @ ts"
proof (induction ts arbitrary: ds)
  case (Cons t ts)
  let ?d = "\<lparr>ld_type = t, ld_end = (if ds = [] then 0 else ld_end (last ds)) + 1\<rparr>"
  have e: "unat (ld_end ?d) = last_end 0 ds + 1"
    using Cons.prems(2) by (auto simp: last_end_def unat_word_ariths)
  have "last_end 0 (ds @ [?d]) = unat (ld_end ?d)" by (simp add: last_end_def)
  with e have "decls_ok 0 (ds @ [?d])" "last_end 0 (ds @ [?d]) = last_end 0 ds + 1"
    using Cons.prems(1) by (simp_all only: decls_ok_snoc le_add1 simp_thms)
  moreover have "expand_locals 0 (ds @ [?d]) = expand_locals 0 ds @ [t]"
    using e by (simp add: expand_locals_snoc)
  ultimately show ?case using Cons.IH [of "ds @ [?d]"] Cons.prems(2) by simp
qed simp

lemma OnLocalDecl_expand:
  assumes "decls_ok 0 (locals s)" and "run_state (OnLocalDecl loc n t) s = (Ok, s')"
  shows "decls_ok 0 (locals s') \<and>
    expand_locals 0 (locals s') = expand_locals 0 (locals s) @ replicate (unat n) t"
proof -
  let ?m = "GetLocalCount s"
  have le: "n \<le> 0xffffffff - ?m" and s': "locals s' = locals s @ [\<lparr>ld_type = t, ld_end = ?m + n\<rparr>]"
    using assms(2) by (auto simp: OnLocalDecl_def not_less split: if_splits)
  have "unat (0xffffffff - ?m) = 0xffffffff - unat ?m"
    using unsigned_less [where ?'a = nat and w = "?m"]
    by (subst unat_sub) (simp_all add: word_le_nat_alt)
  with le have "unat ?m + unat n < 2 ^ 32"
    using unsigned_less [where ?'a = nat and w = "?m"] by (auto simp: word_le_nat_alt)
  then have "unat (?m + n) = unat ?m + unat n" by (simp add: unat_word_ariths)
  with assms(1) show ?thesis
    unfolding s' by (simp add: decls_ok_snoc expand_locals_snoc unat_GetLocalCount)
qed

text \<open>The local declarations of a body, each of which must be accepted.\<close>

primrec declare_locals :: "(index \<times> wtype) list \<Rightarrow> shared_validator \<Rightarrow> shared_validator option" where
  "declare_locals [] s = Some s"
| "declare_locals (d # ds) s =
     (let (r, s') = run_state (OnLocalDecl 0 (fst d) (snd d)) s
      in if r = Ok then declare_locals ds s' else None)"

lemma declare_locals_expand:
  "\<lbrakk>decls_ok 0 (locals s); declare_locals ds s = Some s'\<rbrakk> \<Longrightarrow>
     decls_ok 0 (locals s') \<and> expand_locals 0 (locals s') =
       expand_locals 0 (locals s) @ concat (map (\<lambda>(n, t). replicate (unat n) t) ds)"
proof (induction ds arbitrary: s)
  case (Cons d ds)
  obtain n t where d: "d = (n, t)" by (cases d)
  from Cons.prems(2) obtain s1 where s1: "run_state (OnLocalDecl 0 n t) s = (Ok, s1)"
    "declare_locals ds s1 = Some s'" by (auto simp: d Let_def split: prod.splits if_splits)
  from OnLocalDecl_expand [OF Cons.prems(1) s1(1)] Cons.IH [OF _ s1(2)] d show ?case by simp
qed simp

text \<open>
  C10. The locals of a function are its parameters followed by its declared locals, each repeated
  as often as it was declared: although the validator keeps only the end of each run and searches
  these ends, \<open>CheckLocalIndex\<close> finds for every index the type at that position, and an error for
  every index past the end, for any declarations it has accepted.
\<close>

theorem locals_of_function:
  assumes "unat func_index < length (funcs s)"
    and "length (ft_params (funcs s ! unat func_index)) < 2 ^ 32"
    and "declare_locals decls (snd (run_state (BeginFunctionBody loc func_index) s)) = Some s'"
  shows "fst (run_state (CheckLocalIndex v) s') =
    (let types = ft_params (funcs s ! unat func_index) @
                 concat (map (\<lambda>(n, t). replicate (unat n) t) decls)
     in if unat (var_index v) < length types then (Ok, types ! unat (var_index v))
        else (Error, AnyTy))"
proof -
  let ?ps = "ft_params (funcs s ! unat func_index)"
  let ?s1 = "snd (run_state (BeginFunctionBody loc func_index) s)"
  have "locals ?s1 = add_params ?ps []"
    using assms(1) by (simp add: BeginFunctionBody_def Let_def case_prod_beta)
  moreover have "decls_ok 0 (add_params ?ps [])" "expand_locals 0 (add_params ?ps []) = ?ps"
    using add_params_expand [of "[]" ?ps] assms(2) by (simp_all add: last_end_def)
  ultimately have "decls_ok 0 (locals s')" "expand_locals 0 (locals s') =
      ?ps @ concat (map (\<lambda>(n, t). replicate (unat n) t) decls)"
    using declare_locals_expand [OF _ assms(3)] by simp_all
  then show ?thesis using CheckLocalIndex_expand [of s' v] by (simp add: Let_def)
qed

theorem locals_of_function_witness:
  "let s = (SharedValidator default_features)
        \<lparr>funcs := [\<lparr>ft_params = [F32], ft_results = [], ft_type_index = 0\<rparr>]\<rparr>;
      s1 = snd (run_state (BeginFunctionBody 0 0) s)
   in fst (run_state (CheckLocalIndex (Var 2 0)) (the (declare_locals [(2, I64)] s1))) = (Ok, I64)"
proof -
  let ?s = "(SharedValidator default_features)\<lparr>funcs := [\<lparr>ft_params = [F32], ft_results = [], ft_type_index = 0\<rparr>]\<rparr>"
  have "declare_locals [(2, I64)] (snd (run_state (BeginFunctionBody 0 0) ?s)) =
    Some (the (declare_locals [(2, I64)] (snd (run_state (BeginFunctionBody 0 0) ?s))))"
    by (simp add: BeginFunctionBody_def OnLocalDecl_def GetLocalCount_def SharedValidator_def
        case_prod_beta Let_def)
  from locals_of_function [OF _ _ this, of "Var 2 0"] show ?thesis
    by (simp add: Var_def Let_def SharedValidator_def nth_Cons' del: declare_locals.simps)
qed

section \<open>Declared functions\<close>

lemma check_declared_loop_iff:
  "fst (run_state (check_declared_loop vs r) s) = Ok \<longleftrightarrow>
     r = Ok \<and> (\<forall>v \<in> set vs. var_index v \<in> declared_funcs s)"
  by (induction vs arbitrary: r s) (auto simp: CheckDeclaredFunc_def)

lemma check_declared_loop_same:
  "(\<forall>v \<in> set vs. var_index v \<in> declared_funcs s) \<Longrightarrow> run_state (check_declared_loop vs r) s = (r, s)"
  by (induction vs arbitrary: r) (simp_all add: CheckDeclaredFunc_def)

lemma EndModule_iff:
  "fst (run_state EndModule s) = Ok \<longleftrightarrow> var_index ` set (check_declared_funcs s) \<subseteq> declared_funcs s"
  by (auto simp: EndModule_def check_declared_loop_iff)

lemma EndModule_same:
  "var_index ` set (check_declared_funcs s) \<subseteq> declared_funcs s \<Longrightarrow> run_state EndModule s = (Ok, s)"
  by (simp add: EndModule_def image_subset_iff check_declared_loop_same)

end
