(* ===== verification/Binary_Reader.thy ===== *)
theory Binary_Reader
  imports Leb128 Utf8 Opcodes
begin

text \<open>
  The reader of the binary format (src/binary-reader.cc, include/wabt/binary-reader.h): its state,
  the way it calls its delegate and reports errors, and the readers of the values that sections
  are made of.

  The reader calls a delegate, a class of its client with one virtual method for every kind of
  thing in a module. What a delegate answers can only depend on the calls it has received, so it
  is a function from the list of all calls, the current one last, to its answer. A call is the
  name of the member, as the \<open>CALLBACK\<close> macro prints it, with its arguments, and the offset that
  the delegate reads in the state of the reader.

  An action yields \<open>None\<close> where the code returns \<open>Result::Error\<close>, and otherwise what it writes to
  its output parameters.
\<close>

section \<open>Sections\<close>

text \<open>
  \<open>BinarySection\<close> is numbered as in the format; \<open>GetSectionOrder\<close> is the position in the list of
  include/wabt/binary.h, where the later sections stand in the place the format requires.
\<close>

datatype binary_section =
    SecCustom | SecType | SecImport | SecFunction | SecTable | SecMemory | SecGlobal | SecExport
  | SecStart | SecElem | SecCode | SecData | SecDataCount | SecTag

definition binary_sections :: "binary_section list" where
  "binary_sections =
     [SecCustom, SecType, SecImport, SecFunction, SecTable, SecMemory, SecGlobal, SecExport,
      SecStart, SecElem, SecCode, SecData, SecDataCount, SecTag]"

primrec GetSectionCode :: "binary_section \<Rightarrow> nat" where
  "GetSectionCode SecCustom = 0"
| "GetSectionCode SecType = 1"
| "GetSectionCode SecImport = 2"
| "GetSectionCode SecFunction = 3"
| "GetSectionCode SecTable = 4"
| "GetSectionCode SecMemory = 5"
| "GetSectionCode SecGlobal = 6"
| "GetSectionCode SecExport = 7"
| "GetSectionCode SecStart = 8"
| "GetSectionCode SecElem = 9"
| "GetSectionCode SecCode = 10"
| "GetSectionCode SecData = 11"
| "GetSectionCode SecDataCount = 12"
| "GetSectionCode SecTag = 13"

definition kBinarySectionCount :: u8 where
  "kBinarySectionCount = 14"

fun GetSectionOrder :: "binary_section \<Rightarrow> nat" where
  "GetSectionOrder SecCustom = 0"
| "GetSectionOrder SecType = 1"
| "GetSectionOrder SecImport = 2"
| "GetSectionOrder SecFunction = 3"
| "GetSectionOrder SecTable = 4"
| "GetSectionOrder SecMemory = 5"
| "GetSectionOrder SecTag = 6"
| "GetSectionOrder SecGlobal = 7"
| "GetSectionOrder SecExport = 8"
| "GetSectionOrder SecStart = 9"
| "GetSectionOrder SecElem = 10"
| "GetSectionOrder SecDataCount = 11"
| "GetSectionOrder SecCode = 12"
| "GetSectionOrder SecData = 13"

fun GetSectionName :: "binary_section \<Rightarrow> string" where
  "GetSectionName SecCustom = ''Custom''"
| "GetSectionName SecType = ''Type''"
| "GetSectionName SecImport = ''Import''"
| "GetSectionName SecFunction = ''Function''"
| "GetSectionName SecTable = ''Table''"
| "GetSectionName SecMemory = ''Memory''"
| "GetSectionName SecTag = ''Tag''"
| "GetSectionName SecGlobal = ''Global''"
| "GetSectionName SecExport = ''Export''"
| "GetSectionName SecStart = ''Start''"
| "GetSectionName SecElem = ''Elem''"
| "GetSectionName SecDataCount = ''DataCount''"
| "GetSectionName SecCode = ''Code''"
| "GetSectionName SecData = ''Data''"

section \<open>The delegate\<close>

record type_mut_br =
  field_type :: wtype
  field_mutable :: bool

datatype arg =
    AU8 u8 | AU32 u32 | AU64 u64 | ASize nat | ABool bool | AOpcode opcode
  | AType wtype | ATypes type_vector | AIndices "index list"
  | AStr "u8 list" | ABytes "u8 list" | ALimits limits
  | AField type_mut_br | AFields "type_mut_br list" | AText string
  | AKind external_kind | ASection binary_section

datatype error_level = LevelWarning | LevelError

datatype event =
    Call nat string "arg list"
  | OnError error_level nat string "arg list"

section \<open>State\<close>

record read_options =
  opt_features :: features
  read_debug_names :: bool
  stop_on_first_error :: bool
  fail_on_custom_section_error :: bool
  skip_function_bodies :: bool

definition default_read_options :: read_options where
  "default_read_options = \<lparr>opt_features = default_features, read_debug_names = False,
     stop_on_first_error = True, fail_on_custom_section_error = True,
     skip_function_bodies = False\<rparr>"

text \<open>
  The vectors \<open>param_types_\<close>, \<open>result_types_\<close>, \<open>fields_\<close> and \<open>target_depths_\<close> only carry values from
  the loop that reads them to the callback after it, so they are results here. Offsets and sizes
  are natural numbers: with data of less than \<open>2 ^ 63\<close> bytes no sum of them wraps. \<open>last_known_section\<close>
  is \<open>None\<close> for \<open>BinarySection::Invalid\<close>. \<open>rd_calls\<close> is the history of the delegate, \<open>rd_stuck\<close> tells
  that a loop ran out of the steps the model gives it; it is proved to remain \<open>False\<close>.
\<close>

record reader =
  rd_data :: "u8 list"
  rd_offset :: nat
  read_end :: nat
  rd_options :: read_options
  rd_delegate :: "event list \<Rightarrow> result"
  rd_calls :: "event list"
  last_known_section :: "binary_section option"
  did_read_names_section :: bool
  reading_custom_section :: bool
  num_func_imports :: index
  num_table_imports :: index
  num_memory_imports :: index
  num_global_imports :: index
  num_tag_imports :: index
  num_function_signatures :: index
  num_function_bodies :: index
  data_count :: index
  rd_stuck :: bool

definition BinaryReader :: "u8 list \<Rightarrow> (event list \<Rightarrow> result) \<Rightarrow> read_options \<Rightarrow> reader" where
  "BinaryReader data delegate options = \<lparr>rd_data = data, rd_offset = 0, read_end = length data,
     rd_options = options, rd_delegate = delegate, rd_calls = [], last_known_section = None,
     did_read_names_section = False, reading_custom_section = False, num_func_imports = 0,
     num_table_imports = 0, num_memory_imports = 0, num_global_imports = 0, num_tag_imports = 0,
     num_function_signatures = 0, num_function_bodies = 0, data_count = kInvalidIndex,
     rd_stuck = False\<rparr>"

section \<open>Actions\<close>

type_synonym 'a rd = "(reader, 'a option) state"

definition yield :: "'a \<Rightarrow> 'a rd" where
  "yield x = State_Monad.return (Some x)"

definition fail :: "unit \<Rightarrow> 'a rd" where
  "fail u = State_Monad.return None"

text \<open>\<open>CHECK_RESULT\<close> of a reader with an output parameter, and of one without.\<close>

definition CHECK :: "'a rd \<Rightarrow> ('a \<Rightarrow> 'b rd) \<Rightarrow> 'b rd" where
  "CHECK m k =
     do { r \<leftarrow> m; case r of None \<Rightarrow> State_Monad.return None | Some x \<Rightarrow> k x }"

definition look :: "(reader \<Rightarrow> 'a) \<Rightarrow> 'a rd" where
  "look f = State (\<lambda>s. (Some (f s), s))"

definition update :: "(reader \<Rightarrow> reader) \<Rightarrow> unit rd" where
  "update f = State (\<lambda>s. (Some (), f s))"

text \<open>\<open>state_.offset += n\<close> and \<open>state_.offset = n\<close>.\<close>

definition advance :: "nat \<Rightarrow> unit rd" where
  "advance n = update (\<lambda>s. s\<lparr>rd_offset := rd_offset s + n\<rparr>)"

definition jump :: "nat \<Rightarrow> unit rd" where
  "jump n = update (\<lambda>s. s\<lparr>rd_offset := n\<rparr>)"

definition the_level :: "reader \<Rightarrow> error_level" where
  "the_level s =
     (if reading_custom_section s \<and> \<not> fail_on_custom_section_error (rd_options s)
      then LevelWarning else LevelError)"

definition PrintError_br :: "string \<Rightarrow> arg list \<Rightarrow> unit rd" where
  "PrintError_br fmt args = update (\<lambda>s.
     s\<lparr>rd_calls := rd_calls s @ [OnError (the_level s) (rd_offset s) fmt args]\<rparr>)"

definition ERROR_IF :: "bool \<Rightarrow> string \<Rightarrow> arg list \<Rightarrow> unit rd" where
  "ERROR_IF b fmt args =
     (if b then CHECK (PrintError_br fmt args) (\<lambda>_. fail ()) else yield ())"

definition ERROR_UNLESS :: "bool \<Rightarrow> string \<Rightarrow> arg list \<Rightarrow> unit rd" where
  "ERROR_UNLESS b fmt args = ERROR_IF (\<not> b) fmt args"

definition CALLBACK :: "string \<Rightarrow> arg list \<Rightarrow> unit rd" where
  "CALLBACK member args =
     CHECK (update (\<lambda>s. s\<lparr>rd_calls := rd_calls s @ [Call (rd_offset s) member args]\<rparr>)) (\<lambda>_.
     CHECK (look (\<lambda>s. rd_delegate s (rd_calls s))) (\<lambda>r.
     ERROR_UNLESS (Succeeded r) (member @ '' callback failed'') []))"

text \<open>
  The guards that restore a member when the scope ends, however it ends: \<open>read_end_\<close>,
  \<open>reading_custom_section_\<close> and the whole of \<open>state_\<close>, of which only the offset changes.
\<close>

definition with_read_end :: "nat \<Rightarrow> 'a rd \<Rightarrow> 'a rd" where
  "with_read_end n m = do {
     old \<leftarrow> gets read_end;
     modify (\<lambda>s. s\<lparr>read_end := n\<rparr>);
     r \<leftarrow> m;
     modify (\<lambda>s. s\<lparr>read_end := old\<rparr>);
     State_Monad.return r
   }"

definition with_reading_custom_section :: "'a rd \<Rightarrow> 'a rd" where
  "with_reading_custom_section m = do {
     old \<leftarrow> gets reading_custom_section;
     modify (\<lambda>s. s\<lparr>reading_custom_section := True\<rparr>);
     r \<leftarrow> m;
     modify (\<lambda>s. s\<lparr>reading_custom_section := old\<rparr>);
     State_Monad.return r
   }"

definition backtrack :: "'a rd \<Rightarrow> 'a rd" where
  "backtrack m = do {
     old \<leftarrow> gets rd_offset;
     r \<leftarrow> m;
     modify (\<lambda>s. s\<lparr>rd_offset := old\<rparr>);
     State_Monad.return r
   }"

text \<open>
  \<open>for (i = start; i < start + n; ++i)\<close> with a variable that the body carries along, and the loop
  that collects the values its body reads.
\<close>

primrec for_each :: "nat \<Rightarrow> index \<Rightarrow> (index \<Rightarrow> 'k \<Rightarrow> 'k rd) \<Rightarrow> 'k \<Rightarrow> 'k rd" where
  "for_each 0 i body k = yield k"
| "for_each (Suc n) i body k = CHECK (body i k) (\<lambda>k'. for_each n (i + 1) body k')"

definition for_count :: "index \<Rightarrow> (index \<Rightarrow> unit rd) \<Rightarrow> unit rd" where
  "for_count n body = for_each (unat n) 0 (\<lambda>i _. body i) ()"

definition collect :: "index \<Rightarrow> 'a rd \<Rightarrow> 'a list rd" where
  "collect n m = for_each (unat n) 0 (\<lambda>_ xs. CHECK m (\<lambda>x. yield (xs @ [x]))) []"

text \<open>
  \<open>while (state_.offset < limit)\<close>, where the body goes on with new loop variables (\<open>Inl\<close>) or returns
  from the function (\<open>Inr\<close>). The first argument bounds the number of rounds. Every body reads at
  least one byte, so one more than the bytes that are left are enough.
\<close>

primrec while_below ::
  "nat \<Rightarrow> (reader \<Rightarrow> nat) \<Rightarrow> ('k \<Rightarrow> ('k + 'r) rd) \<Rightarrow> 'k \<Rightarrow> ('k + 'r) rd" where
  "while_below 0 limit body k = CHECK (update (\<lambda>s. s\<lparr>rd_stuck := True\<rparr>)) (\<lambda>_. fail ())"
| "while_below (Suc fuel) limit body k =
     CHECK (look (\<lambda>s. rd_offset s < limit s)) (\<lambda>more.
     if more
     then CHECK (body k) (\<lambda>x.
       case x of Inl k' \<Rightarrow> while_below fuel limit body k' | Inr r \<Rightarrow> yield (Inr r))
     else yield (Inl k))"

definition while_more :: "(reader \<Rightarrow> nat) \<Rightarrow> ('k \<Rightarrow> ('k + 'r) rd) \<Rightarrow> 'k \<Rightarrow> ('k + 'r) rd" where
  "while_more limit body k =
     CHECK (look (\<lambda>s. Suc (limit s - rd_offset s))) (\<lambda>fuel. while_below fuel limit body k)"

section \<open>Values\<close>

definition ReportUnexpectedOpcode :: "opcode \<Rightarrow> 'a rd" where
  "ReportUnexpectedOpcode opcode =
     CHECK (PrintError_br ''unexpected opcode:'' [ABytes (GetBytes opcode)]) (\<lambda>_.
     fail ())"

primrec from_le :: "u8 list \<Rightarrow> 'a::len word" where
  "from_le [] = 0"
| "from_le (b # bs) = ucast b OR push_bit 8 (from_le bs)"

definition ReadT :: "nat \<Rightarrow> string \<Rightarrow> string \<Rightarrow> u8 list rd" where
  "ReadT n type_name desc =
     CHECK (look rd_offset) (\<lambda>off.
     CHECK (look read_end) (\<lambda>end.
     CHECK (ERROR_IF (end < off + n) ''unable to read %s: %s'' [AText type_name, AText desc]) (\<lambda>_.
     CHECK (look (\<lambda>s. take n (drop off (rd_data s)))) (\<lambda>bytes.
     CHECK (advance n) (\<lambda>_.
     yield bytes)))))"

definition ReadU8 :: "string \<Rightarrow> u8 rd" where
  "ReadU8 desc =
     CHECK (ReadT 1 ''uint8_t'' desc) (\<lambda>bytes.
     yield (from_le bytes))"

definition ReadU32 :: "string \<Rightarrow> u32 rd" where
  "ReadU32 desc =
     CHECK (ReadT 4 ''uint32_t'' desc) (\<lambda>bytes.
     yield (from_le bytes))"

definition ReadF32 :: "string \<Rightarrow> u32 rd" where
  "ReadF32 desc =
     CHECK (ReadT 4 ''float'' desc) (\<lambda>bytes.
     yield (from_le bytes))"

definition ReadF64 :: "string \<Rightarrow> u64 rd" where
  "ReadF64 desc =
     CHECK (ReadT 8 ''double'' desc) (\<lambda>bytes.
     yield (from_le bytes))"

definition ReadV128 :: "string \<Rightarrow> u8 list rd" where
  "ReadV128 desc =
     ReadT 16 ''v128'' desc"

definition ReadU32Leb128_br :: "string \<Rightarrow> u32 rd" where
  "ReadU32Leb128_br desc =
     CHECK (look (\<lambda>s. drop (rd_offset s) (take (read_end s) (rd_data s)))) (\<lambda>p.
     let (n, v) = ReadU32Leb128 p in
     CHECK (ERROR_UNLESS (0 < n) ''unable to read u32 leb128: %s'' [AText desc]) (\<lambda>_.
     CHECK (advance n) (\<lambda>_.
     yield (the v))))"

definition ReadU64Leb128_br :: "string \<Rightarrow> u64 rd" where
  "ReadU64Leb128_br desc =
     CHECK (look (\<lambda>s. drop (rd_offset s) (take (read_end s) (rd_data s)))) (\<lambda>p.
     let (n, v) = ReadU64Leb128 p in
     CHECK (ERROR_UNLESS (0 < n) ''unable to read u64 leb128: %s'' [AText desc]) (\<lambda>_.
     CHECK (advance n) (\<lambda>_.
     yield (the v))))"

definition ReadS32Leb128_br :: "string \<Rightarrow> u32 rd" where
  "ReadS32Leb128_br desc =
     CHECK (look (\<lambda>s. drop (rd_offset s) (take (read_end s) (rd_data s)))) (\<lambda>p.
     let (n, v) = ReadS32Leb128 p in
     CHECK (ERROR_UNLESS (0 < n) ''unable to read i32 leb128: %s'' [AText desc]) (\<lambda>_.
     CHECK (advance n) (\<lambda>_.
     yield (the v))))"

definition ReadS64Leb128_br :: "string \<Rightarrow> u64 rd" where
  "ReadS64Leb128_br desc =
     CHECK (look (\<lambda>s. drop (rd_offset s) (take (read_end s) (rd_data s)))) (\<lambda>p.
     let (n, v) = ReadS64Leb128 p in
     CHECK (ERROR_UNLESS (0 < n) ''unable to read i64 leb128: %s'' [AText desc]) (\<lambda>_.
     CHECK (advance n) (\<lambda>_.
     yield (the v))))"

definition ReadOpcode :: "string \<Rightarrow> opcode rd" where
  "ReadOpcode desc =
     CHECK (ReadU8 desc) (\<lambda>byte.
     if IsPrefixByte byte
       then
         CHECK (ReadU32Leb128_br desc) (\<lambda>c.
         yield (FromCode byte c))
       else yield (FromCode 0 (ucast byte)))"

text \<open>A \<open>Type\<close> is a signed number; a reference to a type carries its index.\<close>

definition ReadType :: "string \<Rightarrow> wtype rd" where
  "ReadType desc =
     CHECK (ReadS32Leb128_br desc) (\<lambda>t.
     if sint t = - 21
       then
         CHECK (ReadS32Leb128_br desc) (\<lambda>heap_type.
         yield (Reference heap_type))
       else yield (type_of_code (sint t)))"

definition ReadRefType :: "string \<Rightarrow> wtype rd" where
  "ReadRefType desc =
     CHECK (ReadS32Leb128_br desc) (\<lambda>t.
     CHECK (ERROR_UNLESS (IsRef (type_of_code (sint t))) ''%s must be a reference type'' [AText desc]) (\<lambda>_.
     yield (type_of_code (sint t))))"

definition external_kinds :: "external_kind list" where
  "external_kinds = [EkFunc, EkTable, EkMemory, EkGlobal, EkTag]"

definition ReadExternalKind :: "string \<Rightarrow> external_kind rd" where
  "ReadExternalKind desc =
     CHECK (ReadU8 desc) (\<lambda>v.
     CHECK (ERROR_UNLESS (v < 5) ''invalid export external kind: %d'' [AU8 v]) (\<lambda>_.
     yield (external_kinds ! unat v)))"

definition ReadStr :: "string \<Rightarrow> u8 list rd" where
  "ReadStr desc =
     CHECK (ReadU32Leb128_br ''string length'') (\<lambda>str_len.
     CHECK (look rd_offset) (\<lambda>off.
     CHECK (look read_end) (\<lambda>end.
     CHECK (ERROR_UNLESS (off + unat str_len \<le> end) ''unable to read string: %s'' [AText desc]) (\<lambda>_.
     CHECK (look (\<lambda>s. take (unat str_len) (drop off (rd_data s)))) (\<lambda>str.
     CHECK (advance (unat str_len)) (\<lambda>_.
     CHECK (ERROR_UNLESS (IsValidUtf8 str) ''invalid utf-8 encoding: %s'' [AText desc]) (\<lambda>_.
     yield str)))))))"

definition ReadBytesWithSize :: "nat \<Rightarrow> string \<Rightarrow> u8 list rd" where
  "ReadBytesWithSize n desc =
     CHECK (look rd_offset) (\<lambda>off.
     CHECK (look read_end) (\<lambda>end.
     CHECK (ERROR_UNLESS (off + n \<le> end) ''unable to read data: %s'' [AText desc]) (\<lambda>_.
     CHECK (look (\<lambda>s. take n (drop off (rd_data s)))) (\<lambda>bytes.
     CHECK (advance n) (\<lambda>_.
     yield bytes)))))"

definition ReadBytes :: "string \<Rightarrow> u8 list rd" where
  "ReadBytes desc =
     CHECK (ReadU32Leb128_br ''data size'') (\<lambda>data_size.
     ReadBytesWithSize (unat data_size) desc)"

definition ReadIndex :: "string \<Rightarrow> index rd" where
  "ReadIndex desc =
     ReadU32Leb128_br desc"

definition ReadOffset :: "string \<Rightarrow> nat rd" where
  "ReadOffset desc =
     CHECK (ReadU32Leb128_br desc) (\<lambda>v.
     yield (unat v))"

definition ReadAlignment :: "string \<Rightarrow> address rd" where
  "ReadAlignment desc =
     CHECK (ReadU32Leb128_br desc) (\<lambda>v.
     yield (ucast v))"

definition CheckAlignment :: "address \<Rightarrow> string \<Rightarrow> unit rd" where
  "CheckAlignment align_log2 desc =
     (let v = (ucast align_log2 :: u32) in
      ERROR_IF (32 \<le> v) ''invalid %s: %'' [AText desc, AU32 v])"

definition TakeHasMemidx :: "address \<Rightarrow> address \<times> bool" where
  "TakeHasMemidx align_log2 = (align_log2 AND NOT (push_bit 6 1), drop_bit 6 align_log2 AND 1 = 1)"

definition ReadMemidx :: "string \<Rightarrow> index rd" where
  "ReadMemidx desc =
     ReadIndex desc"

definition ReadAddress :: "index \<Rightarrow> string \<Rightarrow> address rd" where
  "ReadAddress memory desc =
     CHECK (look (\<lambda>s. memory64_enabled (opt_features (rd_options s)))) (\<lambda>memory64.
     if memory64 then ReadU64Leb128_br desc
       else
         CHECK (ReadU32Leb128_br desc) (\<lambda>val.
         yield (ucast val)))"

text \<open>With \<open>lane\<close> the reader also takes the lane index; without, the last component is unused and 0.\<close>

definition ReadMemLocation :: "bool \<Rightarrow> string \<Rightarrow> string \<Rightarrow> string \<Rightarrow> (address \<times> index \<times> address \<times> u8) rd" where
  "ReadMemLocation lane desc_align desc_memidx desc_offset =
     CHECK (ReadAlignment desc_align) (\<lambda>alignment.
     let (alignment_log2, has_memidx) = TakeHasMemidx alignment in
     CHECK (CheckAlignment alignment_log2 desc_align) (\<lambda>_.
     CHECK (if has_memidx
       then
         CHECK (look (\<lambda>s. multi_memory_enabled (opt_features (rd_options s)))) (\<lambda>multi_memory.
         CHECK (ERROR_IF (\<not> (multi_memory)) ''multi_memory not allowed'' []) (\<lambda>_.
         ReadMemidx desc_memidx))
       else yield 0) (\<lambda>memidx.
     CHECK (ReadAddress 0 desc_offset) (\<lambda>mem_offset.
     CHECK (if lane then ReadU8 ''Lane idx'' else yield 0) (\<lambda>lane_val.
     yield (alignment_log2, memidx, mem_offset, lane_val))))))"

text \<open>The callbacks take 32-bit numbers, so offsets past \<open>2 ^ 32\<close> are truncated.\<close>

definition CallbackMemLocation :: "address \<Rightarrow> index \<Rightarrow> address \<Rightarrow> u8 option \<Rightarrow> unit rd" where
  "CallbackMemLocation alignment_log2 memidx mem_offset lane =
     (let a = AU32 (ucast alignment_log2) in
      let f = AU32 (ucast mem_offset) in
      (case lane of
        Some v \<Rightarrow> if memidx \<noteq> 0
        then CALLBACK ''OnOpcodeUint32Uint32Uint32Uint32'' [a, AU32 memidx, f, AU32 (ucast v)]
        else CALLBACK ''OnOpcodeUint32Uint32Uint32'' [a, f, AU32 (ucast v)]
        | None \<Rightarrow> if memidx \<noteq> 0
        then CALLBACK ''OnOpcodeUint32Uint32Uint32'' [a, AU32 memidx, f]
        else CALLBACK ''OnOpcodeUint32Uint32'' [a, f]))"

text \<open>
  \<open>ReadCount\<close> stores the count before it checks it: where it goes to a member of the reader, the
  caller below stores it between \<open>ReadIndex\<close> and \<open>CheckCount\<close>. \<open>read_end_ - state_.offset\<close> is
  unsigned, of 64 bits.
\<close>

definition CheckCount :: "string \<Rightarrow> index \<Rightarrow> unit rd" where
  "CheckCount desc count =
     CHECK (look (\<lambda>s. of_nat (read_end s) - of_nat (rd_offset s) :: u64)) (\<lambda>section_remaining.
     ERROR_IF (section_remaining < ucast count) ''invalid %s %u, only %zd bytes left in section''
       [AText desc, AU32 count, AU64 section_remaining])"

definition ReadCount :: "string \<Rightarrow> index rd" where
  "ReadCount desc =
     CHECK (ReadIndex desc) (\<lambda>count.
     CHECK (CheckCount desc count) (\<lambda>_.
     yield count))"

definition IsConcreteType :: "features \<Rightarrow> wtype \<Rightarrow> bool" where
  "IsConcreteType f t =
     (if type_enum t \<in> {- 1, - 2, - 3, - 4} then True
      else if type_enum t = - 5 then simd_enabled f
      else if type_enum t \<in> {- 16, - 17} then reference_types_enabled f
      else if type_enum t = - 21 then function_references_enabled f
      else False)"

definition IsBlockType :: "features \<Rightarrow> wtype \<Rightarrow> bool" where
  "IsBlockType f t =
     (if IsConcreteType f t \<or> type_eq t VoidTy then True
      else if \<not> (multi_value_enabled f \<and> IsIndex t) then False
      else True)"

definition NumTotalFuncs :: "reader \<Rightarrow> index" where
  "NumTotalFuncs s = num_func_imports s + num_function_signatures s"

definition ReadField :: "type_mut_br rd" where
  "ReadField =
     CHECK (ReadType ''field type'') (\<lambda>t.
     CHECK (look (\<lambda>s. opt_features (rd_options s))) (\<lambda>f.
     CHECK (ERROR_UNLESS (IsConcreteType f t) ''expected valid field type (got %)'' [AType t]) (\<lambda>_.
     CHECK (ReadU8 ''field mutability'') (\<lambda>mut.
     CHECK (ERROR_UNLESS (mut \<le> 1) ''field mutability must be 0 or 1'' []) (\<lambda>_.
     yield \<lparr>field_type = t, field_mutable = mut \<noteq> 0\<rparr>)))))"

text \<open>The bits of the limits flags.\<close>

definition WABT_BINARY_LIMITS_HAS_MAX_FLAG :: u8 where "WABT_BINARY_LIMITS_HAS_MAX_FLAG = 0x1"
definition WABT_BINARY_LIMITS_IS_SHARED_FLAG :: u8 where "WABT_BINARY_LIMITS_IS_SHARED_FLAG = 0x2"
definition WABT_BINARY_LIMITS_IS_64_FLAG :: u8 where "WABT_BINARY_LIMITS_IS_64_FLAG = 0x4"

definition WABT_BINARY_LIMITS_ALL_FLAGS :: u8 where
  "WABT_BINARY_LIMITS_ALL_FLAGS =
     WABT_BINARY_LIMITS_HAS_MAX_FLAG OR WABT_BINARY_LIMITS_IS_SHARED_FLAG OR
     WABT_BINARY_LIMITS_IS_64_FLAG"

definition ReadTable :: "(wtype \<times> limits) rd" where
  "ReadTable =
     CHECK (ReadRefType ''table elem type'') (\<lambda>elem_type.
     CHECK (ReadU8 ''table flags'') (\<lambda>flags.
     let max_flag = flags AND WABT_BINARY_LIMITS_HAS_MAX_FLAG \<noteq> 0 in
     let shared_flag = flags AND WABT_BINARY_LIMITS_IS_SHARED_FLAG \<noteq> 0 in
     let flag_64 = flags AND WABT_BINARY_LIMITS_IS_64_FLAG \<noteq> 0 in
     let unknown_flags = flags AND NOT WABT_BINARY_LIMITS_ALL_FLAGS in
     CHECK (ERROR_IF shared_flag ''tables may not be shared'' []) (\<lambda>_.
     CHECK (look (\<lambda>s. opt_features (rd_options s))) (\<lambda>f.
     CHECK (ERROR_IF (flag_64 \<and> \<not> (memory64_enabled f)) ''memory64 not allowed'' []) (\<lambda>_.
     CHECK (ERROR_UNLESS (unknown_flags = 0) ''malformed table limits flag: %d'' [AU8 flags]) (\<lambda>_.
     CHECK (ReadU32Leb128_br ''table initial elem count'') (\<lambda>init.
     CHECK (if max_flag then ReadU32Leb128_br ''table max elem count'' else yield 0) (\<lambda>maximum.
     yield (elem_type, \<lparr>initial = ucast init, max_limit = ucast maximum, has_max = max_flag,
       is_shared = False, is_64 = flag_64\<rparr>)))))))))"

definition ReadMemory :: "limits rd" where
  "ReadMemory =
     CHECK (ReadU8 ''memory flags'') (\<lambda>flags.
     let max_flag = flags AND WABT_BINARY_LIMITS_HAS_MAX_FLAG \<noteq> 0 in
     let shared_flag = flags AND WABT_BINARY_LIMITS_IS_SHARED_FLAG \<noteq> 0 in
     let flag_64 = flags AND WABT_BINARY_LIMITS_IS_64_FLAG \<noteq> 0 in
     let unknown_flags = flags AND NOT WABT_BINARY_LIMITS_ALL_FLAGS in
     CHECK (ERROR_UNLESS (unknown_flags = 0) ''malformed memory limits flag: %d'' [AU8 flags]) (\<lambda>_.
     CHECK (look (\<lambda>s. opt_features (rd_options s))) (\<lambda>f.
     CHECK (ERROR_IF (shared_flag \<and> \<not> (threads_enabled f))
       ''memory may not be shared: threads not allowed'' []) (\<lambda>_.
     CHECK (ERROR_IF (flag_64 \<and> \<not> (memory64_enabled f)) ''memory64 not allowed'' []) (\<lambda>_.
     CHECK (if memory64_enabled f
       then
         CHECK (ReadU64Leb128_br ''memory initial page count'') (\<lambda>init.
         CHECK (if max_flag then ReadU64Leb128_br ''memory max page count'' else yield 0) (\<lambda>maximum.
         yield (init, maximum)))
       else
         CHECK (ReadU32Leb128_br ''memory initial page count'') (\<lambda>init32.
         CHECK (if max_flag then ReadU32Leb128_br ''memory max page count'' else yield 0) (\<lambda>max32.
         yield (ucast init32, ucast max32)))) (\<lambda>(init, maximum).
     yield \<lparr>initial = init, max_limit = maximum, has_max = max_flag, is_shared = shared_flag,
       is_64 = flag_64\<rparr>))))))"

definition ReadGlobalHeader :: "(wtype \<times> bool) rd" where
  "ReadGlobalHeader =
     CHECK (ReadType ''global type'') (\<lambda>t.
     CHECK (look (\<lambda>s. opt_features (rd_options s))) (\<lambda>f.
     CHECK (ERROR_UNLESS (IsConcreteType f t) ''invalid global type: %#x'' [AType t]) (\<lambda>_.
     CHECK (ReadU8 ''global mutability'') (\<lambda>mut.
     CHECK (ERROR_UNLESS (mut \<le> 1) ''global mutability must be 0 or 1'' []) (\<lambda>_.
     yield (t, mut \<noteq> 0))))))"

definition ReadTagType :: "index rd" where
  "ReadTagType =
     CHECK (ReadU8 ''tag attribute'') (\<lambda>attribute.
     CHECK (ERROR_UNLESS (attribute = 0) ''tag attribute must be 0'' []) (\<lambda>_.
     ReadIndex ''tag signature index''))"

end
