(* ===== verification/Binary_Reader_Code.thy ===== *)
theory Binary_Reader_Code
  imports Binary_Reader
begin

text \<open>
  \<open>ReadInstructions\<close> (src/binary-reader.cc): the loop that reads the instructions of a function body
  or an initializer expression and calls the delegate for each. The \<open>switch\<close> on the opcode is cut
  into groups of cases; a group either handles the opcode or goes on with the next, and the last
  one is the \<open>default\<close>. A case yields \<open>Inl\<close> with the stack of open blocks where the code breaks
  out of the switch, and \<open>Inr\<close> where it returns \<open>Result::Ok\<close>.
\<close>

section \<open>Control\<close>

text \<open>
  A memory index that is a reserved zero byte unless there may be several memories, and a table
  index that is one unless there are reference types.
\<close>

definition ReadReserved :: "string \<Rightarrow> string \<Rightarrow> unit rd" where
  "ReadReserved desc message =
     CHECK (ReadU8 desc) (\<lambda>reserved.
     ERROR_UNLESS (reserved = 0) message [])"

definition ReadMemidxOrReserved :: "string \<Rightarrow> string \<Rightarrow> string \<Rightarrow> index rd" where
  "ReadMemidxOrReserved desc_reserved message desc_memidx =
     CHECK (look (\<lambda>s. multi_memory_enabled (opt_features (rd_options s)))) (\<lambda>multi_memory.
     if \<not> (multi_memory)
       then
         CHECK (ReadReserved desc_reserved message) (\<lambda>_.
         yield 0)
       else ReadMemidx desc_memidx)"

definition ReadTableIndexOrReserved :: "string \<Rightarrow> string \<Rightarrow> string \<Rightarrow> index rd" where
  "ReadTableIndexOrReserved desc_table desc_reserved message =
     CHECK (look (\<lambda>s. reference_types_enabled (opt_features (rd_options s)))) (\<lambda>reference_types.
     if reference_types then ReadIndex desc_table
       else
         CHECK (ReadReserved desc_reserved message) (\<lambda>_.
         yield 0))"

text \<open>Blocks, branches, selection.\<close>

definition switch_control ::
  "opcode \<Rightarrow> opcode list \<Rightarrow> (opcode list + unit) rd \<Rightarrow> (opcode list + unit) rd" where
  "switch_control opcode nested other =
     (if opcode = Op_Unreachable then
        CHECK (CALLBACK ''OnUnreachableExpr'' []) (\<lambda>_.
        CHECK (CALLBACK ''OnOpcodeBare'' []) (\<lambda>_.
        yield (Inl nested)))
      else if opcode = Op_Block then
        CHECK (ReadType ''block signature type'') (\<lambda>t.
        CHECK (look (\<lambda>s. opt_features (rd_options s))) (\<lambda>f.
        CHECK (ERROR_UNLESS (IsBlockType f t) ''expected valid block signature type'' []) (\<lambda>_.
        CHECK (CALLBACK ''OnBlockExpr'' [AType t]) (\<lambda>_.
        CHECK (CALLBACK ''OnOpcodeBlockSig'' [AType t]) (\<lambda>_.
        yield (Inl (nested @ [opcode])))))))
      else if opcode = Op_Loop then
        CHECK (ReadType ''loop signature type'') (\<lambda>t.
        CHECK (look (\<lambda>s. opt_features (rd_options s))) (\<lambda>f.
        CHECK (ERROR_UNLESS (IsBlockType f t) ''expected valid block signature type'' []) (\<lambda>_.
        CHECK (CALLBACK ''OnLoopExpr'' [AType t]) (\<lambda>_.
        CHECK (CALLBACK ''OnOpcodeBlockSig'' [AType t]) (\<lambda>_.
        yield (Inl (nested @ [opcode])))))))
      else if opcode = Op_If then
        CHECK (ReadType ''if signature type'') (\<lambda>t.
        CHECK (look (\<lambda>s. opt_features (rd_options s))) (\<lambda>f.
        CHECK (ERROR_UNLESS (IsBlockType f t) ''expected valid block signature type'' []) (\<lambda>_.
        CHECK (CALLBACK ''OnIfExpr'' [AType t]) (\<lambda>_.
        CHECK (CALLBACK ''OnOpcodeBlockSig'' [AType t]) (\<lambda>_.
        yield (Inl (nested @ [opcode])))))))
      else if opcode = Op_Else then
        CHECK (ERROR_IF (nested = [] \<or> last nested \<noteq> Op_If) ''else outside if block'' []) (\<lambda>_.
        CHECK (CALLBACK ''OnElseExpr'' []) (\<lambda>_.
        CHECK (CALLBACK ''OnOpcodeBare'' []) (\<lambda>_.
        yield (Inl nested))))
      else if opcode = Op_SelectT then
        CHECK (ReadCount ''num result types'') (\<lambda>num_results.
        CHECK (look (\<lambda>s. opt_features (rd_options s))) (\<lambda>f.
        CHECK (collect num_results (
            CHECK (ReadType ''select result type'') (\<lambda>t.
            CHECK (ERROR_UNLESS (IsConcreteType f t) ''expected valid select result type (got %)'' [AType t]) (\<lambda>_.
            yield t)))) (\<lambda>types.
        CHECK (if num_results \<noteq> 0
          then
            CHECK (CALLBACK ''OnSelectExpr'' [AU32 num_results, ATypes types]) (\<lambda>_.
            CALLBACK ''OnOpcodeType'' [AType (types ! 0)])
          else
            CHECK (CALLBACK ''OnSelectExpr'' [AU32 0, ATypes []]) (\<lambda>_.
            CALLBACK ''OnOpcodeBare'' [])) (\<lambda>_.
        yield (Inl nested)))))
      else if opcode = Op_Select then
        CHECK (CALLBACK ''OnSelectExpr'' [AU32 0, ATypes []]) (\<lambda>_.
        CHECK (CALLBACK ''OnOpcodeBare'' []) (\<lambda>_.
        yield (Inl nested)))
      else if opcode = Op_Br then
        CHECK (ReadIndex ''br depth'') (\<lambda>i.
        CHECK (CALLBACK ''OnBrExpr'' [AU32 i]) (\<lambda>_.
        CHECK (CALLBACK ''OnOpcodeIndex'' [AU32 i]) (\<lambda>_.
        yield (Inl nested))))
      else if opcode = Op_BrIf then
        CHECK (ReadIndex ''br_if depth'') (\<lambda>i.
        CHECK (CALLBACK ''OnBrIfExpr'' [AU32 i]) (\<lambda>_.
        CHECK (CALLBACK ''OnOpcodeIndex'' [AU32 i]) (\<lambda>_.
        yield (Inl nested))))
      else if opcode = Op_BrTable then
        CHECK (ReadCount ''br_table target count'') (\<lambda>num_targets.
        CHECK (collect num_targets (ReadIndex ''br_table target depth'')) (\<lambda>targets.
        CHECK (ReadIndex ''br_table default target depth'') (\<lambda>default_target.
        CHECK (CALLBACK ''OnBrTableExpr'' [AU32 num_targets, AIndices targets, AU32 default_target]) (\<lambda>_.
        yield (Inl nested)))))
      else if opcode = Op_Return then
        CHECK (CALLBACK ''OnReturnExpr'' []) (\<lambda>_.
        CHECK (CALLBACK ''OnOpcodeBare'' []) (\<lambda>_.
        yield (Inl nested)))
      else if opcode = Op_Nop then
        CHECK (CALLBACK ''OnNopExpr'' []) (\<lambda>_.
        CHECK (CALLBACK ''OnOpcodeBare'' []) (\<lambda>_.
        yield (Inl nested)))
      else if opcode = Op_Drop then
        CHECK (CALLBACK ''OnDropExpr'' []) (\<lambda>_.
        CHECK (CALLBACK ''OnOpcodeBare'' []) (\<lambda>_.
        yield (Inl nested)))
      else if opcode = Op_End then
        CHECK (CALLBACK ''OnEndExpr'' []) (\<lambda>_.
        if nested = [] then yield (Inr ()) else yield (Inl (butlast nested)))
      else other)"

section \<open>Constants, variables and calls\<close>

definition switch_const ::
  "opcode \<Rightarrow> opcode list \<Rightarrow> (opcode list + unit) rd \<Rightarrow> (opcode list + unit) rd" where
  "switch_const opcode nested other =
     (if opcode = Op_I32Const then
        CHECK (ReadS32Leb128_br ''i32.const value'') (\<lambda>v.
        CHECK (CALLBACK ''OnI32ConstExpr'' [AU32 v]) (\<lambda>_.
        CHECK (CALLBACK ''OnOpcodeUint32'' [AU32 v]) (\<lambda>_.
        yield (Inl nested))))
      else if opcode = Op_I64Const then
        CHECK (ReadS64Leb128_br ''i64.const value'') (\<lambda>v.
        CHECK (CALLBACK ''OnI64ConstExpr'' [AU64 v]) (\<lambda>_.
        CHECK (CALLBACK ''OnOpcodeUint64'' [AU64 v]) (\<lambda>_.
        yield (Inl nested))))
      else if opcode = Op_F32Const then
        CHECK (ReadF32 ''f32.const value'') (\<lambda>v.
        CHECK (CALLBACK ''OnF32ConstExpr'' [AU32 v]) (\<lambda>_.
        CHECK (CALLBACK ''OnOpcodeF32'' [AU32 v]) (\<lambda>_.
        yield (Inl nested))))
      else if opcode = Op_F64Const then
        CHECK (ReadF64 ''f64.const value'') (\<lambda>v.
        CHECK (CALLBACK ''OnF64ConstExpr'' [AU64 v]) (\<lambda>_.
        CHECK (CALLBACK ''OnOpcodeF64'' [AU64 v]) (\<lambda>_.
        yield (Inl nested))))
      else if opcode = Op_V128Const then
        CHECK (ReadV128 ''v128.const value'') (\<lambda>v.
        CHECK (CALLBACK ''OnV128ConstExpr'' [ABytes v]) (\<lambda>_.
        CHECK (CALLBACK ''OnOpcodeV128'' [ABytes v]) (\<lambda>_.
        yield (Inl nested))))
      else other)"

definition switch_variable ::
  "opcode \<Rightarrow> opcode list \<Rightarrow> (opcode list + unit) rd \<Rightarrow> (opcode list + unit) rd" where
  "switch_variable opcode nested other =
     (if opcode = Op_GlobalGet then
        CHECK (ReadIndex ''global.get global index'') (\<lambda>i.
        CHECK (CALLBACK ''OnGlobalGetExpr'' [AU32 i]) (\<lambda>_.
        CHECK (CALLBACK ''OnOpcodeIndex'' [AU32 i]) (\<lambda>_.
        yield (Inl nested))))
      else if opcode = Op_LocalGet then
        CHECK (ReadIndex ''local.get local index'') (\<lambda>i.
        CHECK (CALLBACK ''OnLocalGetExpr'' [AU32 i]) (\<lambda>_.
        CHECK (CALLBACK ''OnOpcodeIndex'' [AU32 i]) (\<lambda>_.
        yield (Inl nested))))
      else if opcode = Op_GlobalSet then
        CHECK (ReadIndex ''global.set global index'') (\<lambda>i.
        CHECK (CALLBACK ''OnGlobalSetExpr'' [AU32 i]) (\<lambda>_.
        CHECK (CALLBACK ''OnOpcodeIndex'' [AU32 i]) (\<lambda>_.
        yield (Inl nested))))
      else if opcode = Op_LocalSet then
        CHECK (ReadIndex ''local.set local index'') (\<lambda>i.
        CHECK (CALLBACK ''OnLocalSetExpr'' [AU32 i]) (\<lambda>_.
        CHECK (CALLBACK ''OnOpcodeIndex'' [AU32 i]) (\<lambda>_.
        yield (Inl nested))))
      else if opcode = Op_Call then
        CHECK (ReadIndex ''call function index'') (\<lambda>i.
        CHECK (CALLBACK ''OnCallExpr'' [AU32 i]) (\<lambda>_.
        CHECK (CALLBACK ''OnOpcodeIndex'' [AU32 i]) (\<lambda>_.
        yield (Inl nested))))
      else if opcode = Op_CallIndirect then
        CHECK (ReadIndex ''call_indirect signature index'') (\<lambda>sig_index.
        CHECK (ReadTableIndexOrReserved ''call_indirect table index'' ''call_indirect reserved'' ''call_indirect reserved value must be 0'') (\<lambda>table_index.
        CHECK (CALLBACK ''OnCallIndirectExpr'' [AU32 sig_index, AU32 table_index]) (\<lambda>_.
        CHECK (CALLBACK ''OnOpcodeUint32Uint32'' [AU32 sig_index, AU32 table_index]) (\<lambda>_.
        yield (Inl nested)))))
      else if opcode = Op_ReturnCall then
        CHECK (ReadIndex ''return_call'') (\<lambda>i.
        CHECK (CALLBACK ''OnReturnCallExpr'' [AU32 i]) (\<lambda>_.
        CHECK (CALLBACK ''OnOpcodeIndex'' [AU32 i]) (\<lambda>_.
        yield (Inl nested))))
      else if opcode = Op_ReturnCallIndirect then
        CHECK (ReadIndex ''return_call_indirect'') (\<lambda>sig_index.
        CHECK (ReadTableIndexOrReserved ''return_call_indirect table index'' ''return_call_indirect reserved'' ''return_call_indirect reserved value must be 0'') (\<lambda>table_index.
        CHECK (CALLBACK ''OnReturnCallIndirectExpr'' [AU32 sig_index, AU32 table_index]) (\<lambda>_.
        CHECK (CALLBACK ''OnOpcodeUint32Uint32'' [AU32 sig_index, AU32 table_index]) (\<lambda>_.
        yield (Inl nested)))))
      else if opcode = Op_LocalTee then
        CHECK (ReadIndex ''local.tee local index'') (\<lambda>i.
        CHECK (CALLBACK ''OnLocalTeeExpr'' [AU32 i]) (\<lambda>_.
        CHECK (CALLBACK ''OnOpcodeIndex'' [AU32 i]) (\<lambda>_.
        yield (Inl nested))))
      else other)"

section \<open>Memory\<close>

definition load_labels :: "opcode list" where
  "load_labels =
     [
      Op_I32Load8S, Op_I32Load8U, Op_I32Load16S, Op_I32Load16U, Op_I64Load8S, Op_I64Load8U,
      Op_I64Load16S, Op_I64Load16U, Op_I64Load32S, Op_I64Load32U, Op_I32Load, Op_I64Load,
      Op_F32Load, Op_F64Load, Op_V128Load, Op_V128Load8X8S, Op_V128Load8X8U, Op_V128Load16X4S,
      Op_V128Load16X4U, Op_V128Load32X2S, Op_V128Load32X2U]"

definition store_labels :: "opcode list" where
  "store_labels =
     [
      Op_I32Store8, Op_I32Store16, Op_I64Store8, Op_I64Store16, Op_I64Store32, Op_I32Store,
      Op_I64Store, Op_F32Store, Op_F64Store, Op_V128Store]"

definition switch_memory ::
  "opcode \<Rightarrow> opcode list \<Rightarrow> (opcode list + unit) rd \<Rightarrow> (opcode list + unit) rd" where
  "switch_memory opcode nested other =
     (if opcode \<in> set load_labels then
        CHECK (ReadMemLocation False ''load alignment'' ''load memidx'' ''load offset'') (\<lambda>(a, m, off, lane).
        CHECK (CALLBACK ''OnLoadExpr'' [AOpcode opcode, AU32 m, AU64 a, AU64 off]) (\<lambda>_.
        CHECK (CallbackMemLocation a m off None) (\<lambda>_.
        yield (Inl nested))))
      else if opcode \<in> set store_labels then
        CHECK (ReadMemLocation False ''store alignment'' ''store memidx'' ''store offset'') (\<lambda>(a, m, off, lane).
        CHECK (CALLBACK ''OnStoreExpr'' [AOpcode opcode, AU32 m, AU64 a, AU64 off]) (\<lambda>_.
        CHECK (CallbackMemLocation a m off None) (\<lambda>_.
        yield (Inl nested))))
      else if opcode = Op_MemorySize then
        CHECK (ReadMemidxOrReserved ''memory.size reserved'' ''memory.size reserved value must be 0'' ''memory.size memidx'') (\<lambda>m.
        CHECK (CALLBACK ''OnMemorySizeExpr'' [AU32 m]) (\<lambda>_.
        CHECK (CALLBACK ''OnOpcodeUint32'' [AU32 m]) (\<lambda>_.
        yield (Inl nested))))
      else if opcode = Op_MemoryGrow then
        CHECK (ReadMemidxOrReserved ''memory.grow reserved'' ''memory.grow reserved value must be 0'' ''memory.grow memidx'') (\<lambda>m.
        CHECK (CALLBACK ''OnMemoryGrowExpr'' [AU32 m]) (\<lambda>_.
        CHECK (CALLBACK ''OnOpcodeUint32'' [AU32 m]) (\<lambda>_.
        yield (Inl nested))))
      else other)"

section \<open>Arithmetic\<close>

definition binary_labels :: "opcode list" where
  "binary_labels =
     [
      Op_I32Add, Op_I32Sub, Op_I32Mul, Op_I32DivS, Op_I32DivU, Op_I32RemS, Op_I32RemU,
      Op_I32And, Op_I32Or, Op_I32Xor, Op_I32Shl, Op_I32ShrU, Op_I32ShrS, Op_I32Rotr,
      Op_I32Rotl, Op_I64Add, Op_I64Sub, Op_I64Mul, Op_I64DivS, Op_I64DivU, Op_I64RemS,
      Op_I64RemU, Op_I64And, Op_I64Or, Op_I64Xor, Op_I64Shl, Op_I64ShrU, Op_I64ShrS,
      Op_I64Rotr, Op_I64Rotl, Op_F32Add, Op_F32Sub, Op_F32Mul, Op_F32Div, Op_F32Min, Op_F32Max,
      Op_F32Copysign, Op_F64Add, Op_F64Sub, Op_F64Mul, Op_F64Div, Op_F64Min, Op_F64Max,
      Op_F64Copysign, Op_I8X16Add, Op_I16X8Add, Op_I32X4Add, Op_I64X2Add, Op_I8X16Sub,
      Op_I16X8Sub, Op_I32X4Sub, Op_I64X2Sub, Op_I16X8Mul, Op_I32X4Mul, Op_I64X2Mul,
      Op_I8X16AddSatS, Op_I8X16AddSatU, Op_I16X8AddSatS, Op_I16X8AddSatU, Op_I8X16SubSatS,
      Op_I8X16SubSatU, Op_I16X8SubSatS, Op_I16X8SubSatU, Op_I8X16MinS, Op_I16X8MinS,
      Op_I32X4MinS, Op_I8X16MinU, Op_I16X8MinU, Op_I32X4MinU, Op_I8X16MaxS, Op_I16X8MaxS,
      Op_I32X4MaxS, Op_I8X16MaxU, Op_I16X8MaxU, Op_I32X4MaxU, Op_I8X16Shl, Op_I16X8Shl,
      Op_I32X4Shl, Op_I64X2Shl, Op_I8X16ShrS, Op_I8X16ShrU, Op_I16X8ShrS, Op_I16X8ShrU,
      Op_I32X4ShrS, Op_I32X4ShrU, Op_I64X2ShrS, Op_I64X2ShrU, Op_V128And, Op_V128Or,
      Op_V128Xor, Op_F32X4Min, Op_F32X4PMin, Op_F64X2Min, Op_F64X2PMin, Op_F32X4Max,
      Op_F32X4PMax, Op_F64X2Max, Op_F64X2PMax, Op_F32X4Add, Op_F64X2Add, Op_F32X4Sub,
      Op_F64X2Sub, Op_F32X4Div, Op_F64X2Div, Op_F32X4Mul, Op_F64X2Mul, Op_I8X16Swizzle,
      Op_I8X16NarrowI16X8S, Op_I8X16NarrowI16X8U, Op_I16X8NarrowI32X4S, Op_I16X8NarrowI32X4U,
      Op_V128Andnot, Op_I8X16AvgrU, Op_I16X8AvgrU, Op_I16X8ExtmulLowI8X16S,
      Op_I16X8ExtmulHighI8X16S, Op_I16X8ExtmulLowI8X16U, Op_I16X8ExtmulHighI8X16U,
      Op_I32X4ExtmulLowI16X8S, Op_I32X4ExtmulHighI16X8S, Op_I32X4ExtmulLowI16X8U,
      Op_I32X4ExtmulHighI16X8U, Op_I64X2ExtmulLowI32X4S, Op_I64X2ExtmulHighI32X4S,
      Op_I64X2ExtmulLowI32X4U, Op_I64X2ExtmulHighI32X4U, Op_I16X8Q15mulrSatS,
      Op_I32X4DotI16X8S, Op_I8X16RelaxedSwizzle, Op_F32X4RelaxedMin, Op_F32X4RelaxedMax,
      Op_F64X2RelaxedMin, Op_F64X2RelaxedMax, Op_I16X8RelaxedQ15mulrS, Op_I16X8DotI8X16I7X16S]"

definition compare_labels :: "opcode list" where
  "compare_labels =
     [
      Op_I32Eq, Op_I32Ne, Op_I32LtS, Op_I32LeS, Op_I32LtU, Op_I32LeU, Op_I32GtS, Op_I32GeS,
      Op_I32GtU, Op_I32GeU, Op_I64Eq, Op_I64Ne, Op_I64LtS, Op_I64LeS, Op_I64LtU, Op_I64LeU,
      Op_I64GtS, Op_I64GeS, Op_I64GtU, Op_I64GeU, Op_F32Eq, Op_F32Ne, Op_F32Lt, Op_F32Le,
      Op_F32Gt, Op_F32Ge, Op_F64Eq, Op_F64Ne, Op_F64Lt, Op_F64Le, Op_F64Gt, Op_F64Ge,
      Op_I8X16Eq, Op_I16X8Eq, Op_I32X4Eq, Op_I64X2Eq, Op_F32X4Eq, Op_F64X2Eq, Op_I8X16Ne,
      Op_I16X8Ne, Op_I32X4Ne, Op_I64X2Ne, Op_F32X4Ne, Op_F64X2Ne, Op_I8X16LtS, Op_I8X16LtU,
      Op_I16X8LtS, Op_I16X8LtU, Op_I32X4LtS, Op_I32X4LtU, Op_I64X2LtS, Op_F32X4Lt, Op_F64X2Lt,
      Op_I8X16LeS, Op_I8X16LeU, Op_I16X8LeS, Op_I16X8LeU, Op_I32X4LeS, Op_I32X4LeU,
      Op_I64X2LeS, Op_F32X4Le, Op_F64X2Le, Op_I8X16GtS, Op_I8X16GtU, Op_I16X8GtS, Op_I16X8GtU,
      Op_I32X4GtS, Op_I32X4GtU, Op_I64X2GtS, Op_F32X4Gt, Op_F64X2Gt, Op_I8X16GeS, Op_I8X16GeU,
      Op_I16X8GeS, Op_I16X8GeU, Op_I32X4GeS, Op_I32X4GeU, Op_I64X2GeS, Op_F32X4Ge, Op_F64X2Ge]"

definition unary_labels :: "opcode list" where
  "unary_labels =
     [
      Op_I32Clz, Op_I32Ctz, Op_I32Popcnt, Op_I64Clz, Op_I64Ctz, Op_I64Popcnt, Op_F32Abs,
      Op_F32Neg, Op_F32Ceil, Op_F32Floor, Op_F32Trunc, Op_F32Nearest, Op_F32Sqrt, Op_F64Abs,
      Op_F64Neg, Op_F64Ceil, Op_F64Floor, Op_F64Trunc, Op_F64Nearest, Op_F64Sqrt,
      Op_I8X16Splat, Op_I16X8Splat, Op_I32X4Splat, Op_I64X2Splat, Op_F32X4Splat, Op_F64X2Splat,
      Op_I8X16Neg, Op_I16X8Neg, Op_I32X4Neg, Op_I64X2Neg, Op_V128Not, Op_V128AnyTrue,
      Op_I8X16Bitmask, Op_I16X8Bitmask, Op_I32X4Bitmask, Op_I64X2Bitmask, Op_I8X16AllTrue,
      Op_I16X8AllTrue, Op_I32X4AllTrue, Op_I64X2AllTrue, Op_F32X4Ceil, Op_F64X2Ceil,
      Op_F32X4Floor, Op_F64X2Floor, Op_F32X4Trunc, Op_F64X2Trunc, Op_F32X4Nearest,
      Op_F64X2Nearest, Op_F32X4Neg, Op_F64X2Neg, Op_F32X4Abs, Op_F64X2Abs, Op_F32X4Sqrt,
      Op_F64X2Sqrt, Op_I16X8ExtendLowI8X16S, Op_I16X8ExtendHighI8X16S, Op_I16X8ExtendLowI8X16U,
      Op_I16X8ExtendHighI8X16U, Op_I32X4ExtendLowI16X8S, Op_I32X4ExtendHighI16X8S,
      Op_I32X4ExtendLowI16X8U, Op_I32X4ExtendHighI16X8U, Op_I64X2ExtendLowI32X4S,
      Op_I64X2ExtendHighI32X4S, Op_I64X2ExtendLowI32X4U, Op_I64X2ExtendHighI32X4U, Op_I8X16Abs,
      Op_I16X8Abs, Op_I32X4Abs, Op_I64X2Abs, Op_I8X16Popcnt, Op_I16X8ExtaddPairwiseI8X16S,
      Op_I16X8ExtaddPairwiseI8X16U, Op_I32X4ExtaddPairwiseI16X8S, Op_I32X4ExtaddPairwiseI16X8U,
      Op_I32X4RelaxedTruncF32X4S, Op_I32X4RelaxedTruncF32X4U, Op_I32X4RelaxedTruncF64X2SZero,
      Op_I32X4RelaxedTruncF64X2UZero]"

definition ternary_labels :: "opcode list" where
  "ternary_labels =
     [
      Op_V128BitSelect, Op_F32X4RelaxedMadd, Op_F32X4RelaxedNmadd, Op_F64X2RelaxedMadd,
      Op_F64X2RelaxedNmadd, Op_I8X16RelaxedLaneSelect, Op_I16X8RelaxedLaneSelect,
      Op_I32X4RelaxedLaneSelect, Op_I64X2RelaxedLaneSelect, Op_I32X4DotI8X16I7X16AddS]"

definition convert_labels :: "opcode list" where
  "convert_labels =
     [
      Op_I32TruncF32S, Op_I32TruncF64S, Op_I32TruncF32U, Op_I32TruncF64U, Op_I32WrapI64,
      Op_I64TruncF32S, Op_I64TruncF64S, Op_I64TruncF32U, Op_I64TruncF64U, Op_I64ExtendI32S,
      Op_I64ExtendI32U, Op_F32ConvertI32S, Op_F32ConvertI32U, Op_F32ConvertI64S,
      Op_F32ConvertI64U, Op_F32DemoteF64, Op_F32ReinterpretI32, Op_F64ConvertI32S,
      Op_F64ConvertI32U, Op_F64ConvertI64S, Op_F64ConvertI64U, Op_F64PromoteF32,
      Op_F64ReinterpretI64, Op_I32ReinterpretF32, Op_I64ReinterpretF64, Op_I32Eqz, Op_I64Eqz,
      Op_F32X4ConvertI32X4S, Op_F32X4ConvertI32X4U, Op_I32X4TruncSatF32X4S,
      Op_I32X4TruncSatF32X4U, Op_F32X4DemoteF64X2Zero, Op_F64X2PromoteLowF32X4,
      Op_I32X4TruncSatF64X2SZero, Op_I32X4TruncSatF64X2UZero, Op_F64X2ConvertLowI32X4S,
      Op_F64X2ConvertLowI32X4U]"

definition extend_labels :: "opcode list" where
  "extend_labels =
     [
      Op_I32Extend8S, Op_I32Extend16S, Op_I64Extend8S, Op_I64Extend16S, Op_I64Extend32S]"

definition trunc_sat_labels :: "opcode list" where
  "trunc_sat_labels =
     [
      Op_I32TruncSatF32S, Op_I32TruncSatF32U, Op_I32TruncSatF64S, Op_I32TruncSatF64U,
      Op_I64TruncSatF32S, Op_I64TruncSatF32U, Op_I64TruncSatF64S, Op_I64TruncSatF64U]"

definition switch_arithmetic ::
  "opcode \<Rightarrow> opcode list \<Rightarrow> (opcode list + unit) rd \<Rightarrow> (opcode list + unit) rd" where
  "switch_arithmetic opcode nested other =
     (if opcode \<in> set binary_labels then
        CHECK (CALLBACK ''OnBinaryExpr'' [AOpcode opcode]) (\<lambda>_.
        CHECK (CALLBACK ''OnOpcodeBare'' []) (\<lambda>_.
        yield (Inl nested)))
      else if opcode \<in> set compare_labels then
        CHECK (CALLBACK ''OnCompareExpr'' [AOpcode opcode]) (\<lambda>_.
        CHECK (CALLBACK ''OnOpcodeBare'' []) (\<lambda>_.
        yield (Inl nested)))
      else if opcode \<in> set unary_labels then
        CHECK (CALLBACK ''OnUnaryExpr'' [AOpcode opcode]) (\<lambda>_.
        CHECK (CALLBACK ''OnOpcodeBare'' []) (\<lambda>_.
        yield (Inl nested)))
      else if opcode \<in> set ternary_labels then
        CHECK (CALLBACK ''OnTernaryExpr'' [AOpcode opcode]) (\<lambda>_.
        CHECK (CALLBACK ''OnOpcodeBare'' []) (\<lambda>_.
        yield (Inl nested)))
      else other)"

definition switch_convert ::
  "opcode \<Rightarrow> opcode list \<Rightarrow> (opcode list + unit) rd \<Rightarrow> (opcode list + unit) rd" where
  "switch_convert opcode nested other =
     (if opcode \<in> set convert_labels then
        CHECK (CALLBACK ''OnConvertExpr'' [AOpcode opcode]) (\<lambda>_.
        CHECK (CALLBACK ''OnOpcodeBare'' []) (\<lambda>_.
        yield (Inl nested)))
      else if opcode \<in> set extend_labels then
        CHECK (CALLBACK ''OnUnaryExpr'' [AOpcode opcode]) (\<lambda>_.
        CHECK (CALLBACK ''OnOpcodeBare'' []) (\<lambda>_.
        yield (Inl nested)))
      else if opcode \<in> set trunc_sat_labels then
        CHECK (CALLBACK ''OnConvertExpr'' [AOpcode opcode]) (\<lambda>_.
        CHECK (CALLBACK ''OnOpcodeBare'' []) (\<lambda>_.
        yield (Inl nested)))
      else other)"

section \<open>SIMD\<close>

definition lane_labels :: "opcode list" where
  "lane_labels =
     [
      Op_I8X16ExtractLaneS, Op_I8X16ExtractLaneU, Op_I16X8ExtractLaneS, Op_I16X8ExtractLaneU,
      Op_I32X4ExtractLane, Op_I64X2ExtractLane, Op_F32X4ExtractLane, Op_F64X2ExtractLane,
      Op_I8X16ReplaceLane, Op_I16X8ReplaceLane, Op_I32X4ReplaceLane, Op_I64X2ReplaceLane,
      Op_F32X4ReplaceLane, Op_F64X2ReplaceLane]"

definition splat_labels :: "opcode list" where
  "splat_labels =
     [
      Op_V128Load8Splat, Op_V128Load16Splat, Op_V128Load32Splat, Op_V128Load64Splat]"

definition load_lane_labels :: "opcode list" where
  "load_lane_labels =
     [
      Op_V128Load8Lane, Op_V128Load16Lane, Op_V128Load32Lane, Op_V128Load64Lane]"

definition store_lane_labels :: "opcode list" where
  "store_lane_labels =
     [
      Op_V128Store8Lane, Op_V128Store16Lane, Op_V128Store32Lane, Op_V128Store64Lane]"

definition load_zero_labels :: "opcode list" where
  "load_zero_labels =
     [
      Op_V128Load32Zero, Op_V128Load64Zero]"

definition switch_simd ::
  "opcode \<Rightarrow> opcode list \<Rightarrow> (opcode list + unit) rd \<Rightarrow> (opcode list + unit) rd" where
  "switch_simd opcode nested other =
     (if opcode \<in> set lane_labels then
        CHECK (ReadU8 ''Lane idx'') (\<lambda>lane.
        CHECK (CALLBACK ''OnSimdLaneOpExpr'' [AOpcode opcode, AU64 (ucast lane)]) (\<lambda>_.
        CHECK (CALLBACK ''OnOpcodeUint64'' [AU64 (ucast lane)]) (\<lambda>_.
        yield (Inl nested))))
      else if opcode = Op_I8X16Shuffle then
        CHECK (ReadV128 ''Lane idx [16]'') (\<lambda>v.
        CHECK (CALLBACK ''OnSimdShuffleOpExpr'' [AOpcode opcode, ABytes v]) (\<lambda>_.
        CHECK (CALLBACK ''OnOpcodeV128'' [ABytes v]) (\<lambda>_.
        yield (Inl nested))))
      else if opcode \<in> set splat_labels then
        CHECK (ReadMemLocation False ''load alignment'' ''load memidx'' ''load offset'') (\<lambda>(a, m, off, lane).
        CHECK (CALLBACK ''OnLoadSplatExpr'' [AOpcode opcode, AU32 m, AU64 a, AU64 off]) (\<lambda>_.
        CHECK (CallbackMemLocation a m off None) (\<lambda>_.
        yield (Inl nested))))
      else if opcode \<in> set load_lane_labels then
        CHECK (ReadMemLocation True ''load alignment'' ''load memidx'' ''load offset'') (\<lambda>(a, m, off, lane).
        CHECK (CALLBACK ''OnSimdLoadLaneExpr'' [AOpcode opcode, AU32 m, AU64 a, AU64 off, AU64 (ucast lane)]) (\<lambda>_.
        CHECK (CallbackMemLocation a m off (Some lane)) (\<lambda>_.
        yield (Inl nested))))
      else if opcode \<in> set store_lane_labels then
        CHECK (ReadMemLocation True ''store alignment'' ''store memidx'' ''store offset'') (\<lambda>(a, m, off, lane).
        CHECK (CALLBACK ''OnSimdStoreLaneExpr'' [AOpcode opcode, AU32 m, AU64 a, AU64 off, AU64 (ucast lane)]) (\<lambda>_.
        CHECK (CallbackMemLocation a m off (Some lane)) (\<lambda>_.
        yield (Inl nested))))
      else if opcode \<in> set load_zero_labels then
        CHECK (ReadMemLocation False ''load alignment'' ''load memidx'' ''load offset'') (\<lambda>(a, m, off, lane).
        CHECK (CALLBACK ''OnLoadZeroExpr'' [AOpcode opcode, AU32 m, AU64 a, AU64 off]) (\<lambda>_.
        CHECK (CallbackMemLocation a m off None) (\<lambda>_.
        yield (Inl nested))))
      else other)"

section \<open>Exceptions\<close>

definition switch_exceptions ::
  "opcode \<Rightarrow> opcode list \<Rightarrow> (opcode list + unit) rd \<Rightarrow> (opcode list + unit) rd" where
  "switch_exceptions opcode nested other =
     (if opcode = Op_Try then
        CHECK (ReadType ''try signature type'') (\<lambda>t.
        CHECK (look (\<lambda>s. opt_features (rd_options s))) (\<lambda>f.
        CHECK (ERROR_UNLESS (IsBlockType f t) ''expected valid block signature type'' []) (\<lambda>_.
        CHECK (CALLBACK ''OnTryExpr'' [AType t]) (\<lambda>_.
        CHECK (CALLBACK ''OnOpcodeBlockSig'' [AType t]) (\<lambda>_.
        yield (Inl (nested @ [opcode])))))))
      else if opcode = Op_Catch then
        CHECK (ReadIndex ''tag index'') (\<lambda>i.
        CHECK (CALLBACK ''OnCatchExpr'' [AU32 i]) (\<lambda>_.
        CHECK (CALLBACK ''OnOpcodeIndex'' [AU32 i]) (\<lambda>_.
        yield (Inl nested))))
      else if opcode = Op_CatchAll then
        CHECK (CALLBACK ''OnCatchAllExpr'' []) (\<lambda>_.
        CHECK (CALLBACK ''OnOpcodeBare'' []) (\<lambda>_.
        yield (Inl nested)))
      else if opcode = Op_Delegate then
        CHECK (ERROR_IF (nested = [] \<or> last nested \<noteq> Op_Try) ''delegate outside try block'' []) (\<lambda>_.
        CHECK (ReadIndex ''depth'') (\<lambda>i.
        CHECK (CALLBACK ''OnDelegateExpr'' [AU32 i]) (\<lambda>_.
        CHECK (CALLBACK ''OnOpcodeIndex'' [AU32 i]) (\<lambda>_.
        yield (Inl (butlast nested))))))
      else if opcode = Op_Rethrow then
        CHECK (ReadIndex ''catch depth'') (\<lambda>i.
        CHECK (CALLBACK ''OnRethrowExpr'' [AU32 i]) (\<lambda>_.
        CHECK (CALLBACK ''OnOpcodeIndex'' [AU32 i]) (\<lambda>_.
        yield (Inl nested))))
      else if opcode = Op_Throw then
        CHECK (ReadIndex ''tag index'') (\<lambda>i.
        CHECK (CALLBACK ''OnThrowExpr'' [AU32 i]) (\<lambda>_.
        CHECK (CALLBACK ''OnOpcodeIndex'' [AU32 i]) (\<lambda>_.
        yield (Inl nested))))
      else other)"

section \<open>Atomics\<close>

definition wait_labels :: "opcode list" where
  "wait_labels =
     [
      Op_MemoryAtomicWait32, Op_MemoryAtomicWait64]"

definition atomic_load_labels :: "opcode list" where
  "atomic_load_labels =
     [
      Op_I32AtomicLoad8U, Op_I32AtomicLoad16U, Op_I64AtomicLoad8U, Op_I64AtomicLoad16U,
      Op_I64AtomicLoad32U, Op_I32AtomicLoad, Op_I64AtomicLoad]"

definition atomic_store_labels :: "opcode list" where
  "atomic_store_labels =
     [
      Op_I32AtomicStore8, Op_I32AtomicStore16, Op_I64AtomicStore8, Op_I64AtomicStore16,
      Op_I64AtomicStore32, Op_I32AtomicStore, Op_I64AtomicStore]"

definition rmw_labels :: "opcode list" where
  "rmw_labels =
     [
      Op_I32AtomicRmwAdd, Op_I64AtomicRmwAdd, Op_I32AtomicRmw8AddU, Op_I32AtomicRmw16AddU,
      Op_I64AtomicRmw8AddU, Op_I64AtomicRmw16AddU, Op_I64AtomicRmw32AddU, Op_I32AtomicRmwSub,
      Op_I64AtomicRmwSub, Op_I32AtomicRmw8SubU, Op_I32AtomicRmw16SubU, Op_I64AtomicRmw8SubU,
      Op_I64AtomicRmw16SubU, Op_I64AtomicRmw32SubU, Op_I32AtomicRmwAnd, Op_I64AtomicRmwAnd,
      Op_I32AtomicRmw8AndU, Op_I32AtomicRmw16AndU, Op_I64AtomicRmw8AndU, Op_I64AtomicRmw16AndU,
      Op_I64AtomicRmw32AndU, Op_I32AtomicRmwOr, Op_I64AtomicRmwOr, Op_I32AtomicRmw8OrU,
      Op_I32AtomicRmw16OrU, Op_I64AtomicRmw8OrU, Op_I64AtomicRmw16OrU, Op_I64AtomicRmw32OrU,
      Op_I32AtomicRmwXor, Op_I64AtomicRmwXor, Op_I32AtomicRmw8XorU, Op_I32AtomicRmw16XorU,
      Op_I64AtomicRmw8XorU, Op_I64AtomicRmw16XorU, Op_I64AtomicRmw32XorU, Op_I32AtomicRmwXchg,
      Op_I64AtomicRmwXchg, Op_I32AtomicRmw8XchgU, Op_I32AtomicRmw16XchgU,
      Op_I64AtomicRmw8XchgU, Op_I64AtomicRmw16XchgU, Op_I64AtomicRmw32XchgU]"

definition cmpxchg_labels :: "opcode list" where
  "cmpxchg_labels =
     [
      Op_I32AtomicRmwCmpxchg, Op_I64AtomicRmwCmpxchg, Op_I32AtomicRmw8CmpxchgU,
      Op_I32AtomicRmw16CmpxchgU, Op_I64AtomicRmw8CmpxchgU, Op_I64AtomicRmw16CmpxchgU,
      Op_I64AtomicRmw32CmpxchgU]"

definition switch_atomics ::
  "opcode \<Rightarrow> opcode list \<Rightarrow> (opcode list + unit) rd \<Rightarrow> (opcode list + unit) rd" where
  "switch_atomics opcode nested other =
     (if opcode = Op_MemoryAtomicNotify then
        CHECK (ReadMemLocation False ''notify alignment'' ''notify memidx'' ''notify offset'') (\<lambda>(a, m, off, lane).
        CHECK (CALLBACK ''OnAtomicNotifyExpr'' [AOpcode opcode, AU32 m, AU64 a, AU64 off]) (\<lambda>_.
        CHECK (CallbackMemLocation a m off None) (\<lambda>_.
        yield (Inl nested))))
      else if opcode \<in> set wait_labels then
        CHECK (ReadMemLocation False ''wait alignment'' ''wait memidx'' ''wait offset'') (\<lambda>(a, m, off, lane).
        CHECK (CALLBACK ''OnAtomicWaitExpr'' [AOpcode opcode, AU32 m, AU64 a, AU64 off]) (\<lambda>_.
        CHECK (CallbackMemLocation a m off None) (\<lambda>_.
        yield (Inl nested))))
      else if opcode = Op_AtomicFence then
        CHECK (ReadU8 ''consistency model'') (\<lambda>m.
        CHECK (ERROR_UNLESS (m = 0) ''atomic.fence consistency model must be 0'' []) (\<lambda>_.
        CHECK (CALLBACK ''OnAtomicFenceExpr'' [AU32 (ucast m)]) (\<lambda>_.
        CHECK (CALLBACK ''OnOpcodeUint32'' [AU32 (ucast m)]) (\<lambda>_.
        yield (Inl nested)))))
      else if opcode \<in> set atomic_load_labels then
        CHECK (ReadMemLocation False ''load alignment'' ''load memidx'' ''load offset'') (\<lambda>(a, m, off, lane).
        CHECK (CALLBACK ''OnAtomicLoadExpr'' [AOpcode opcode, AU32 m, AU64 a, AU64 off]) (\<lambda>_.
        CHECK (CallbackMemLocation a m off None) (\<lambda>_.
        yield (Inl nested))))
      else if opcode \<in> set atomic_store_labels then
        CHECK (ReadMemLocation False ''store alignment'' ''store memidx'' ''store offset'') (\<lambda>(a, m, off, lane).
        CHECK (CALLBACK ''OnAtomicStoreExpr'' [AOpcode opcode, AU32 m, AU64 a, AU64 off]) (\<lambda>_.
        CHECK (CallbackMemLocation a m off None) (\<lambda>_.
        yield (Inl nested))))
      else if opcode \<in> set rmw_labels then
        CHECK (ReadMemLocation False ''memory alignment'' ''memory memidx'' ''memory offset'') (\<lambda>(a, m, off, lane).
        CHECK (CALLBACK ''OnAtomicRmwExpr'' [AOpcode opcode, AU32 m, AU64 a, AU64 off]) (\<lambda>_.
        CHECK (CallbackMemLocation a m off None) (\<lambda>_.
        yield (Inl nested))))
      else if opcode \<in> set cmpxchg_labels then
        CHECK (ReadMemLocation False ''memory alignment'' ''memory memidx'' ''memory offset'') (\<lambda>(a, m, off, lane).
        CHECK (CALLBACK ''OnAtomicRmwCmpxchgExpr'' [AOpcode opcode, AU32 m, AU64 a, AU64 off]) (\<lambda>_.
        CHECK (CallbackMemLocation a m off None) (\<lambda>_.
        yield (Inl nested))))
      else other)"

section \<open>Bulk memory, tables and references\<close>

definition switch_bulk ::
  "opcode \<Rightarrow> opcode list \<Rightarrow> (opcode list + unit) rd \<Rightarrow> (opcode list + unit) rd" where
  "switch_bulk opcode nested other =
     (if opcode = Op_TableInit then
        CHECK (ReadIndex ''elem segment index'') (\<lambda>i.
        CHECK (ReadIndex ''reserved table index'') (\<lambda>j.
        CHECK (CALLBACK ''OnTableInitExpr'' [AU32 i, AU32 j]) (\<lambda>_.
        CHECK (CALLBACK ''OnOpcodeUint32Uint32'' [AU32 i, AU32 j]) (\<lambda>_.
        yield (Inl nested)))))
      else if opcode = Op_MemoryInit then
        CHECK (look data_count) (\<lambda>count.
        CHECK (ERROR_IF (count = kInvalidIndex) ''memory.init requires data count section'' []) (\<lambda>_.
        CHECK (ReadIndex ''elem segment index'') (\<lambda>segment.
        CHECK (ReadMemidxOrReserved ''reserved memory index'' ''reserved value must be 0'' ''memory.init memidx'') (\<lambda>m.
        CHECK (CALLBACK ''OnMemoryInitExpr'' [AU32 segment, AU32 m]) (\<lambda>_.
        CHECK (CALLBACK ''OnOpcodeUint32Uint32'' [AU32 segment, AU32 m]) (\<lambda>_.
        yield (Inl nested)))))))
      else if opcode = Op_DataDrop \<or> opcode = Op_ElemDrop then
        CHECK (look data_count) (\<lambda>count.
        CHECK (ERROR_IF (opcode = Op_DataDrop \<and> count = kInvalidIndex) ''data.drop requires data count section'' []) (\<lambda>_.
        CHECK (ReadIndex ''segment index'') (\<lambda>segment.
        CHECK (CALLBACK (if opcode = Op_DataDrop then ''OnDataDropExpr'' else ''OnElemDropExpr'') [AU32 segment]) (\<lambda>_.
        CHECK (CALLBACK ''OnOpcodeUint32'' [AU32 segment]) (\<lambda>_.
        yield (Inl nested))))))
      else if opcode = Op_MemoryFill then
        CHECK (ReadMemidxOrReserved ''memory.fill reserved'' ''memory.fill reserved value must be 0'' ''memory.fill memidx'') (\<lambda>m.
        CHECK (CALLBACK ''OnMemoryFillExpr'' [AU32 m]) (\<lambda>_.
        CHECK (CALLBACK ''OnOpcodeUint32'' [AU32 m]) (\<lambda>_.
        yield (Inl nested))))
      else if opcode = Op_MemoryCopy then
        CHECK (look (\<lambda>s. multi_memory_enabled (opt_features (rd_options s)))) (\<lambda>multi_memory.
        CHECK (if \<not> (multi_memory)
          then
            CHECK (ReadReserved ''reserved memory index'' ''reserved value must be 0'') (\<lambda>_.
            CHECK (ReadReserved ''reserved memory index'' ''reserved value must be 0'') (\<lambda>_.
            yield (0, 0)))
          else
            CHECK (ReadMemidx ''memory.copy destmemindex'') (\<lambda>dst.
            CHECK (ReadMemidx ''memory.copy srcmemidx'') (\<lambda>src.
            yield (dst, src)))) (\<lambda>(dst, src).
        CHECK (CALLBACK ''OnMemoryCopyExpr'' [AU32 dst, AU32 src]) (\<lambda>_.
        CHECK (CALLBACK ''OnOpcodeUint32Uint32'' [AU32 dst, AU32 src]) (\<lambda>_.
        yield (Inl nested)))))
      else if opcode = Op_TableCopy then
        CHECK (ReadIndex ''reserved table index'') (\<lambda>i.
        CHECK (ReadIndex ''table src'') (\<lambda>j.
        CHECK (CALLBACK ''OnTableCopyExpr'' [AU32 i, AU32 j]) (\<lambda>_.
        CHECK (CALLBACK ''OnOpcodeUint32Uint32'' [AU32 i, AU32 j]) (\<lambda>_.
        yield (Inl nested)))))
      else other)"

definition switch_reference ::
  "opcode \<Rightarrow> opcode list \<Rightarrow> (opcode list + unit) rd \<Rightarrow> (opcode list + unit) rd" where
  "switch_reference opcode nested other =
     (if opcode = Op_TableGet then
        CHECK (ReadIndex ''table index'') (\<lambda>i.
        CHECK (CALLBACK ''OnTableGetExpr'' [AU32 i]) (\<lambda>_.
        CHECK (CALLBACK ''OnOpcodeUint32'' [AU32 i]) (\<lambda>_.
        yield (Inl nested))))
      else if opcode = Op_TableSet then
        CHECK (ReadIndex ''table index'') (\<lambda>i.
        CHECK (CALLBACK ''OnTableSetExpr'' [AU32 i]) (\<lambda>_.
        CHECK (CALLBACK ''OnOpcodeUint32'' [AU32 i]) (\<lambda>_.
        yield (Inl nested))))
      else if opcode = Op_TableGrow then
        CHECK (ReadIndex ''table index'') (\<lambda>i.
        CHECK (CALLBACK ''OnTableGrowExpr'' [AU32 i]) (\<lambda>_.
        CHECK (CALLBACK ''OnOpcodeUint32'' [AU32 i]) (\<lambda>_.
        yield (Inl nested))))
      else if opcode = Op_TableSize then
        CHECK (ReadIndex ''table index'') (\<lambda>i.
        CHECK (CALLBACK ''OnTableSizeExpr'' [AU32 i]) (\<lambda>_.
        CHECK (CALLBACK ''OnOpcodeUint32'' [AU32 i]) (\<lambda>_.
        yield (Inl nested))))
      else if opcode = Op_TableFill then
        CHECK (ReadIndex ''table index'') (\<lambda>i.
        CHECK (CALLBACK ''OnTableFillExpr'' [AU32 i]) (\<lambda>_.
        CHECK (CALLBACK ''OnOpcodeUint32'' [AU32 i]) (\<lambda>_.
        yield (Inl nested))))
      else if opcode = Op_RefFunc then
        CHECK (ReadIndex ''func index'') (\<lambda>i.
        CHECK (CALLBACK ''OnRefFuncExpr'' [AU32 i]) (\<lambda>_.
        CHECK (CALLBACK ''OnOpcodeUint32'' [AU32 i]) (\<lambda>_.
        yield (Inl nested))))
      else if opcode = Op_RefNull then
        CHECK (ReadRefType ''ref.null type'') (\<lambda>t.
        CHECK (CALLBACK ''OnRefNullExpr'' [AType t]) (\<lambda>_.
        CHECK (CALLBACK ''OnOpcodeType'' [AType t]) (\<lambda>_.
        yield (Inl nested))))
      else if opcode = Op_RefIsNull then
        CHECK (CALLBACK ''OnRefIsNullExpr'' []) (\<lambda>_.
        CHECK (CALLBACK ''OnOpcodeBare'' []) (\<lambda>_.
        yield (Inl nested)))
      else if opcode = Op_CallRef then
        CHECK (CALLBACK ''OnCallRefExpr'' []) (\<lambda>_.
        CHECK (CALLBACK ''OnOpcodeBare'' []) (\<lambda>_.
        yield (Inl nested)))
      else other)"

section \<open>The loop\<close>

definition switch_opcode :: "opcode \<Rightarrow> opcode list \<Rightarrow> (opcode list + unit) rd" where
  "switch_opcode opcode nested =
     switch_control opcode nested (switch_const opcode nested (switch_variable opcode nested
     (switch_memory opcode nested (switch_arithmetic opcode nested (switch_simd opcode nested
     (switch_convert opcode nested (switch_exceptions opcode nested (switch_atomics opcode nested
     (switch_bulk opcode nested (switch_reference opcode nested
     (ReportUnexpectedOpcode opcode)))))))))))"

definition ReadInstruction :: "opcode list \<Rightarrow> (opcode list + unit) rd" where
  "ReadInstruction nested =
     CHECK (ReadOpcode ''opcode'') (\<lambda>opcode.
     CHECK (CALLBACK ''OnOpcode'' [AOpcode opcode]) (\<lambda>_.
     CHECK (look (\<lambda>s. opt_features (rd_options s))) (\<lambda>f.
     if \<not> (IsEnabled opcode f) then ReportUnexpectedOpcode opcode
       else switch_opcode opcode nested)))"

definition ReadInstructions :: "nat \<Rightarrow> string \<Rightarrow> unit rd" where
  "ReadInstructions end_offset context_name =
     CHECK (while_more (\<lambda>s. end_offset) ReadInstruction []) (\<lambda>x.
     (case x of
       Inr u \<Rightarrow> yield ()
       | Inl nested =>
         CHECK (PrintError_br ''%s must end with END opcode'' [AText context_name]) (\<lambda>_.
         fail ())))"

definition ReadInitExpr :: "unit rd" where
  "ReadInitExpr =
     CHECK (look read_end) (\<lambda>end.
     ReadInstructions end ''init expression'')"

definition ReadFunctionBody :: "nat \<Rightarrow> unit rd" where
  "ReadFunctionBody end_offset =
     CHECK (ReadInstructions end_offset ''function body'') (\<lambda>_.
     CHECK (look rd_offset) (\<lambda>off.
     ERROR_UNLESS (off = end_offset) ''function body shorter than given size'' []))"

end
