(* ===== verification/Binary_Reader_Sections.thy ===== *)
theory Binary_Reader_Sections
  imports Binary_Reader_Code
begin

text \<open>
  The sections of a module (src/binary-reader.cc from \<open>ReadNameSection\<close> on), the loop over them and
  \<open>ReadModule\<close>. The bodies of nested loops are definitions of their own, and so are the cases of the
  larger switches.
\<close>

definition ascii :: "string \<Rightarrow> u8 list" where
  "ascii = map of_char"

definition kNoOffset :: nat where
  "kNoOffset = 2 ^ 64 - 1"

section \<open>The name section\<close>

definition ReadModuleNames :: "index \<Rightarrow> u32 \<Rightarrow> nat \<Rightarrow> unit rd" where
  "ReadModuleNames i name_type subsection_size =
     CHECK (CALLBACK ''OnModuleNameSubsection'' [AU32 i, AU32 name_type, ASize subsection_size]) (\<lambda>_.
     if subsection_size \<noteq> 0
       then
         CHECK (ReadStr ''module name'') (\<lambda>name.
         CALLBACK ''OnModuleName'' [AStr name])
       else yield ())"

text \<open>The loops over names carry the last index, which the next one must exceed.\<close>

definition ReadFunctionName :: "index \<Rightarrow> index rd" where
  "ReadFunctionName last_function_index =
     CHECK (ReadIndex ''function index'') (\<lambda>function_index.
     CHECK (ERROR_UNLESS (function_index \<noteq> last_function_index) ''duplicate function name: %u'' [AU32 function_index]) (\<lambda>_.
     CHECK (ERROR_UNLESS (last_function_index = kInvalidIndex \<or> last_function_index < function_index)
       ''function index out of order: %u'' [AU32 function_index]) (\<lambda>_.
     CHECK (look NumTotalFuncs) (\<lambda>total.
     CHECK (ERROR_UNLESS (function_index < total) ''invalid function index: %'' [AU32 function_index]) (\<lambda>_.
     CHECK (ReadStr ''function name'') (\<lambda>name.
     CHECK (CALLBACK ''OnFunctionName'' [AU32 function_index, AStr name]) (\<lambda>_.
     yield function_index)))))))"

definition ReadFunctionNames :: "index \<Rightarrow> u32 \<Rightarrow> nat \<Rightarrow> unit rd" where
  "ReadFunctionNames i name_type subsection_size =
     CHECK (CALLBACK ''OnFunctionNameSubsection'' [AU32 i, AU32 name_type, ASize subsection_size]) (\<lambda>_.
     if subsection_size \<noteq> 0
       then
         CHECK (ReadCount ''name count'') (\<lambda>num_names.
         CHECK (CALLBACK ''OnFunctionNamesCount'' [AU32 num_names]) (\<lambda>_.
         CHECK (for_each (unat num_names) 0 (\<lambda>_. ReadFunctionName) kInvalidIndex) (\<lambda>last_index.
         yield ())))
       else yield ())"

definition ReadLocalName :: "index \<Rightarrow> index \<Rightarrow> index rd" where
  "ReadLocalName function_index last_local_index =
     CHECK (ReadIndex ''named index'') (\<lambda>local_index.
     CHECK (ERROR_UNLESS (local_index \<noteq> last_local_index) ''duplicate local index: %u'' [AU32 local_index]) (\<lambda>_.
     CHECK (ERROR_UNLESS (last_local_index = kInvalidIndex \<or> last_local_index < local_index)
       ''local index out of order: %u'' [AU32 local_index]) (\<lambda>_.
     CHECK (ReadStr ''name'') (\<lambda>name.
     CHECK (CALLBACK ''OnLocalName'' [AU32 function_index, AU32 local_index, AStr name]) (\<lambda>_.
     yield local_index)))))"

definition ReadLocalNamesOfFunction :: "index \<Rightarrow> index rd" where
  "ReadLocalNamesOfFunction last_function_index =
     CHECK (ReadIndex ''function index'') (\<lambda>function_index.
     CHECK (look NumTotalFuncs) (\<lambda>total.
     CHECK (ERROR_UNLESS (function_index < total) ''invalid function index: %u'' [AU32 function_index]) (\<lambda>_.
     CHECK (ERROR_UNLESS (last_function_index = kInvalidIndex \<or> last_function_index < function_index)
       ''locals function index out of order: %u'' [AU32 function_index]) (\<lambda>_.
     CHECK (ReadCount ''local count'') (\<lambda>num_locals.
     CHECK (CALLBACK ''OnLocalNameLocalCount'' [AU32 function_index, AU32 num_locals]) (\<lambda>_.
     CHECK (for_each (unat num_locals) 0 (\<lambda>_. ReadLocalName function_index) kInvalidIndex) (\<lambda>last_local_index.
     yield function_index)))))))"

definition ReadLocalNames :: "index \<Rightarrow> u32 \<Rightarrow> nat \<Rightarrow> unit rd" where
  "ReadLocalNames i name_type subsection_size =
     CHECK (CALLBACK ''OnLocalNameSubsection'' [AU32 i, AU32 name_type, ASize subsection_size]) (\<lambda>_.
     if subsection_size \<noteq> 0
       then
         CHECK (ReadCount ''function count'') (\<lambda>num_funcs.
         CHECK (CALLBACK ''OnLocalNameFunctionCount'' [AU32 num_funcs]) (\<lambda>_.
         CHECK (for_each (unat num_funcs) 0 (\<lambda>_. ReadLocalNamesOfFunction) kInvalidIndex) (\<lambda>last_index.
         yield ())))
       else yield ())"

definition ReadNameEntries :: "u32 \<Rightarrow> nat \<Rightarrow> nat \<Rightarrow> unit rd" where
  "ReadNameEntries name_type subsection_size subsection_end =
     CHECK ((if subsection_size \<noteq> 0
       then
         CHECK (ReadCount ''name count'') (\<lambda>num_names.
         CHECK (CALLBACK ''OnNameCount'' [AU32 num_names]) (\<lambda>_.
         for_count num_names (\<lambda>_.
             CHECK (ReadIndex ''index'') (\<lambda>i.
             CHECK (ReadStr ''name'') (\<lambda>name.
             CALLBACK ''OnNameEntry'' [AU32 name_type, AU32 i, AStr name])))))
       else yield ())) (\<lambda>_.
     jump subsection_end)"

text \<open>The cast to the enumeration is signed, so the comparison with its last member is, too.\<close>

definition ReadNameSubsection :: "index \<times> u32 \<Rightarrow> ((index \<times> u32) + unit) rd" where
  "ReadNameSubsection k =
     (let (i, previous_subsection_type) = k in
      CHECK (ReadU32Leb128_br ''name type'') (\<lambda>name_type.
      CHECK (ERROR_UNLESS (i = 0 \<or> name_type \<noteq> previous_subsection_type) ''duplicate sub-section'' []) (\<lambda>_.
      CHECK (ERROR_UNLESS (i = 0 \<or> previous_subsection_type \<le> name_type) ''out-of-order sub-section'' []) (\<lambda>_.
      CHECK (ReadOffset ''subsection size'') (\<lambda>subsection_size.
      CHECK (look rd_offset) (\<lambda>off.
      CHECK (look read_end) (\<lambda>end.
      let subsection_end = off + subsection_size in
      CHECK (ERROR_UNLESS (subsection_end \<le> end) ''invalid sub-section size: extends past end'' []) (\<lambda>_.
      CHECK (with_read_end subsection_end (
          CHECK ((if sint name_type \<le> 11
            then CALLBACK ''OnNameSubsection'' [AU32 i, AU32 name_type, ASize subsection_size]
            else yield ())) (\<lambda>_.
          CHECK ((if name_type = 0 then ReadModuleNames i name_type subsection_size
            else if name_type = 1 then ReadFunctionNames i name_type subsection_size
            else if name_type = 2 then ReadLocalNames i name_type subsection_size
            else if name_type = 3 then jump subsection_end
            else if name_type \<in> {4, 5, 6, 7, 8, 9, 11} then ReadNameEntries name_type subsection_size subsection_end
            else jump subsection_end)) (\<lambda>_.
          CHECK (look rd_offset) (\<lambda>off'.
          ERROR_UNLESS (off' = subsection_end) ''unfinished sub-section (expected end: 0x%zx)'' [ASize subsection_end]))))) (\<lambda>_.
      yield (Inl (i + 1, name_type)))))))))))"

definition ReadNameSection :: "nat \<Rightarrow> unit rd" where
  "ReadNameSection section_size =
     CHECK (CALLBACK ''BeginNamesSection'' [ASize section_size]) (\<lambda>_.
     CHECK (while_more read_end ReadNameSubsection (0, 0)) (\<lambda>loop_end.
     CALLBACK ''EndNamesSection'' []))"

section \<open>Relocations and linking\<close>

text \<open>The kinds of relocation, by the code that \<open>RelocType\<close> gives them, with and without an addend.\<close>

definition relocs_with_addend :: "u32 list" where
  "relocs_with_addend = [3, 14, 4, 15, 11, 17, 5, 16, 23, 8, 22, 9, 21, 25]"

definition relocs_without_addend :: "u32 list" where
  "relocs_without_addend = [0, 26, 1, 18, 2, 19, 6, 7, 13, 10, 12, 24, 20]"

definition ReadReloc :: "unit rd" where
  "ReadReloc =
     CHECK (ReadU32Leb128_br ''relocation type'') (\<lambda>reloc_type.
     CHECK (ReadOffset ''offset'') (\<lambda>off.
     CHECK (ReadIndex ''index'') (\<lambda>i.
     CHECK (if reloc_type \<in> set relocs_with_addend then ReadS32Leb128_br ''addend''
       else if reloc_type \<in> set relocs_without_addend then yield 0
       else
         CHECK (PrintError_br ''unknown reloc type: %s'' [AU32 reloc_type]) (\<lambda>_.
         fail ())) (\<lambda>addend.
     CALLBACK ''OnReloc'' [AU32 reloc_type, ASize off, AU32 i, AU32 addend]))))"

definition ReadRelocSection :: "nat \<Rightarrow> unit rd" where
  "ReadRelocSection section_size =
     CHECK (CALLBACK ''BeginRelocSection'' [ASize section_size]) (\<lambda>_.
     CHECK (ReadU32Leb128_br ''section index'') (\<lambda>section_index.
     CHECK (ReadCount ''relocation count'') (\<lambda>num_relocs.
     CHECK (CALLBACK ''OnRelocCount'' [AU32 num_relocs, AU32 section_index]) (\<lambda>_.
     CHECK (for_count num_relocs (\<lambda>_. ReadReloc)) (\<lambda>_.
     CALLBACK ''EndRelocSection'' [])))))"

text \<open>The frame that dylink and linking sub-sections share: a type, a size, and a body that must end where the size says.\<close>

definition ReadSubsection :: "(u32 \<Rightarrow> nat \<Rightarrow> unit rd) \<Rightarrow> (unit + unit) rd" where
  "ReadSubsection body =
     CHECK (ReadU32Leb128_br ''type'') (\<lambda>subsection_type.
     CHECK (ReadOffset ''subsection size'') (\<lambda>subsection_size.
     CHECK (look rd_offset) (\<lambda>off.
     CHECK (look read_end) (\<lambda>end.
     let subsection_end = off + subsection_size in
     CHECK (ERROR_UNLESS (subsection_end \<le> end) ''invalid sub-section size: extends past end'' []) (\<lambda>_.
     CHECK (with_read_end subsection_end (
         CHECK (body subsection_type subsection_end) (\<lambda>_.
         CHECK (look rd_offset) (\<lambda>off'.
         ERROR_UNLESS (off' = subsection_end) ''unfinished sub-section (expected end: 0x%zx)'' [ASize subsection_end])))) (\<lambda>_.
     yield (Inl ())))))))"

definition ReadDylinkInfo :: "unit rd" where
  "ReadDylinkInfo =
     CHECK (ReadU32Leb128_br ''mem_size'') (\<lambda>mem_size.
     CHECK (ReadU32Leb128_br ''mem_align'') (\<lambda>mem_align.
     CHECK (ReadU32Leb128_br ''table_size'') (\<lambda>table_size.
     CHECK (ReadU32Leb128_br ''table_align'') (\<lambda>table_align.
     CALLBACK ''OnDylinkInfo'' [AU32 mem_size, AU32 mem_align, AU32 table_size, AU32 table_align]))))"

definition ReadDylinkNeeded :: "unit rd" where
  "ReadDylinkNeeded =
     CHECK (ReadU32Leb128_br ''needed_dynlibs'') (\<lambda>count.
     CHECK (CALLBACK ''OnDylinkNeededCount'' [AU32 count]) (\<lambda>_.
     for_count count (\<lambda>_.
         CHECK (ReadStr ''dylib so_name'') (\<lambda>so_name.
         CALLBACK ''OnDylinkNeeded'' [AStr so_name]))))"

definition ReadDylinkImports :: "unit rd" where
  "ReadDylinkImports =
     CHECK (ReadU32Leb128_br ''count'') (\<lambda>count.
     CHECK (CALLBACK ''OnDylinkImportCount'' [AU32 count]) (\<lambda>_.
     for_count count (\<lambda>_.
         CHECK (ReadStr ''module'') (\<lambda>module.
         CHECK (ReadStr ''field'') (\<lambda>field.
         CHECK (ReadU32Leb128_br ''flags'') (\<lambda>flags.
         CALLBACK ''OnDylinkImport'' [AStr module, AStr field, AU32 flags]))))))"

definition ReadDylinkExports :: "unit rd" where
  "ReadDylinkExports =
     CHECK (ReadU32Leb128_br ''count'') (\<lambda>count.
     CHECK (CALLBACK ''OnDylinkExportCount'' [AU32 count]) (\<lambda>_.
     for_count count (\<lambda>_.
         CHECK (ReadStr ''name'') (\<lambda>name.
         CHECK (ReadU32Leb128_br ''flags'') (\<lambda>flags.
         CALLBACK ''OnDylinkExport'' [AStr name, AU32 flags])))))"

definition ReadDylinkSubsection :: "u32 \<Rightarrow> nat \<Rightarrow> unit rd" where
  "ReadDylinkSubsection dylink_type subsection_end =
     (if dylink_type = 1 then ReadDylinkInfo
        else if dylink_type = 2 then ReadDylinkNeeded
        else if dylink_type = 4 then ReadDylinkImports
        else if dylink_type = 3 then ReadDylinkExports
        else jump subsection_end)"

definition ReadDylink0Section :: "nat \<Rightarrow> unit rd" where
  "ReadDylink0Section section_size =
     CHECK (CALLBACK ''BeginDylinkSection'' [ASize section_size]) (\<lambda>_.
     CHECK (while_more read_end (\<lambda>_. ReadSubsection ReadDylinkSubsection) ()) (\<lambda>loop_end.
     CALLBACK ''EndDylinkSection'' []))"

definition ReadDylinkSection :: "nat \<Rightarrow> unit rd" where
  "ReadDylinkSection section_size =
     CHECK (CALLBACK ''BeginDylinkSection'' [ASize section_size]) (\<lambda>_.
     CHECK (ReadDylinkInfo) (\<lambda>_.
     CHECK (ReadDylinkNeeded) (\<lambda>_.
     CALLBACK ''EndDylinkSection'' [])))"

definition ReadTargetFeaturesSections :: "nat \<Rightarrow> unit rd" where
  "ReadTargetFeaturesSections section_size =
     CHECK (CALLBACK ''BeginTargetFeaturesSection'' [ASize section_size]) (\<lambda>_.
     CHECK (ReadU32Leb128_br ''sym count'') (\<lambda>count.
     CHECK (CALLBACK ''OnFeatureCount'' [AU32 count]) (\<lambda>_.
     CHECK (for_count count (\<lambda>_.
         CHECK (ReadU8 ''prefix'') (\<lambda>prefix_byte.
         CHECK (ReadStr ''feature name'') (\<lambda>name.
         CALLBACK ''OnFeature'' [AU8 prefix_byte, AStr name])))) (\<lambda>_.
     CALLBACK ''EndTargetFeaturesSection'' []))))"

definition ReadGenericCustomSection :: "u8 list \<Rightarrow> nat \<Rightarrow> unit rd" where
  "ReadGenericCustomSection name section_size =
     CHECK (CALLBACK ''BeginGenericCustomSection'' [ASize section_size]) (\<lambda>_.
     CHECK (look (\<lambda>s. read_end s - rd_offset s)) (\<lambda>custom_data_size.
     CHECK (ReadBytesWithSize custom_data_size ''custom section data'') (\<lambda>bytes.
     CHECK (CALLBACK ''OnGenericCustomSection'' [AStr name, ABytes bytes, ASize custom_data_size]) (\<lambda>_.
     CALLBACK ''EndGenericCustomSection'' []))))"


text \<open>A symbol of another kind than the six is passed over without a word.\<close>

definition ReadSymbol :: "index \<Rightarrow> unit rd" where
  "ReadSymbol i =
     CHECK (ReadU32Leb128_br ''sym type'') (\<lambda>kind.
     CHECK (ReadU32Leb128_br ''sym flags'') (\<lambda>flags.
     let undefined_symbol = flags AND WABT_SYMBOL_FLAG_UNDEFINED \<noteq> 0 in
     if kind \<in> {0, 2, 4, 5}
       then
         CHECK (ReadU32Leb128_br ''index'') (\<lambda>symbol_index.
         CHECK (if \<not> (undefined_symbol) \<or> flags AND WABT_SYMBOL_FLAG_EXPLICIT_NAME \<noteq> 0
           then ReadStr ''symbol name'' else yield []) (\<lambda>name.
         CALLBACK (if kind = 0 then ''OnFunctionSymbol'' else if kind = 2 then ''OnGlobalSymbol''
           else if kind = 4 then ''OnTagSymbol'' else ''OnTableSymbol'')
           [AU32 i, AU32 flags, AStr name, AU32 symbol_index]))
       else if kind = 1
       then
         CHECK (ReadStr ''symbol name'') (\<lambda>name.
         CHECK (if \<not> (undefined_symbol)
           then
             CHECK (ReadU32Leb128_br ''segment'') (\<lambda>segment.
             CHECK (ReadU32Leb128_br ''offset'') (\<lambda>off.
             CHECK (ReadU32Leb128_br ''size'') (\<lambda>sz.
             yield (segment, off, sz))))
           else yield (0, 0, 0)) (\<lambda>(segment, off, sz).
         CALLBACK ''OnDataSymbol'' [AU32 i, AU32 flags, AStr name, AU32 segment, AU32 off, AU32 sz]))
       else if kind = 3
       then
         CHECK (ReadU32Leb128_br ''index'') (\<lambda>symbol_index.
         CALLBACK ''OnSectionSymbol'' [AU32 i, AU32 flags, AU32 symbol_index])
       else yield ()))"

definition ReadSymbolTable :: "unit rd" where
  "ReadSymbolTable =
     CHECK (ReadU32Leb128_br ''sym count'') (\<lambda>count.
     CHECK (CALLBACK ''OnSymbolCount'' [AU32 count]) (\<lambda>_.
     for_count count ReadSymbol))"

definition ReadSegmentInfos :: "unit rd" where
  "ReadSegmentInfos =
     CHECK (ReadU32Leb128_br ''info count'') (\<lambda>count.
     CHECK (CALLBACK ''OnSegmentInfoCount'' [AU32 count]) (\<lambda>_.
     for_count count (\<lambda>i.
         CHECK (ReadStr ''segment name'') (\<lambda>name.
         CHECK (ReadAlignment ''segment alignment'') (\<lambda>alignment_log2.
         CHECK (CheckAlignment alignment_log2 ''segment alignment'') (\<lambda>_.
         CHECK (ReadU32Leb128_br ''segment flags'') (\<lambda>flags.
         CALLBACK ''OnSegmentInfo'' [AU32 i, AStr name, AU64 alignment_log2, AU32 flags])))))))"

definition ReadInitFunctions :: "unit rd" where
  "ReadInitFunctions =
     CHECK (ReadU32Leb128_br ''info count'') (\<lambda>count.
     CHECK (CALLBACK ''OnInitFunctionCount'' [AU32 count]) (\<lambda>_.
     for_count count (\<lambda>_.
         CHECK (ReadU32Leb128_br ''priority'') (\<lambda>priority.
         CHECK (ReadU32Leb128_br ''symbol index'') (\<lambda>symbol.
         CALLBACK ''OnInitFunction'' [AU32 priority, AU32 symbol])))))"

definition ReadComdats :: "unit rd" where
  "ReadComdats =
     CHECK (ReadU32Leb128_br ''count'') (\<lambda>count.
     CHECK (CALLBACK ''OnComdatCount'' [AU32 count]) (\<lambda>_.
     for_count count (\<lambda>_.
         CHECK (ReadStr ''comdat name'') (\<lambda>name.
         CHECK (ReadU32Leb128_br ''flags'') (\<lambda>flags.
         CHECK (ReadU32Leb128_br ''entry count'') (\<lambda>entry_count.
         CHECK (CALLBACK ''OnComdatBegin'' [AStr name, AU32 flags, AU32 entry_count]) (\<lambda>_.
         for_count entry_count (\<lambda>_.
             CHECK (ReadU32Leb128_br ''kind'') (\<lambda>kind.
             CHECK (ReadU32Leb128_br ''index'') (\<lambda>i.
             CALLBACK ''OnComdatEntry'' [AU32 kind, AU32 i]))))))))))"

definition ReadLinkingSubsection :: "u32 \<Rightarrow> nat \<Rightarrow> unit rd" where
  "ReadLinkingSubsection linking_type subsection_end =
     (if linking_type = 8 then ReadSymbolTable
        else if linking_type = 5 then ReadSegmentInfos
        else if linking_type = 6 then ReadInitFunctions
        else if linking_type = 7 then ReadComdats
        else jump subsection_end)"

definition ReadLinkingSection :: "nat \<Rightarrow> unit rd" where
  "ReadLinkingSection section_size =
     CHECK (CALLBACK ''BeginLinkingSection'' [ASize section_size]) (\<lambda>_.
     CHECK (ReadU32Leb128_br ''version'') (\<lambda>version.
     CHECK (ERROR_UNLESS (version = 2) ''invalid linking metadata version: %u'' [AU32 version]) (\<lambda>_.
     CHECK (while_more read_end (\<lambda>_. ReadSubsection ReadLinkingSubsection) ()) (\<lambda>loop_end.
     CALLBACK ''EndLinkingSection'' []))))"

section \<open>Custom sections\<close>

definition ReadCodeMetadataInstance :: "nat \<Rightarrow> nat rd" where
  "ReadCodeMetadataInstance last_code_offset =
     CHECK (ReadOffset ''code offset'') (\<lambda>code_offset.
     CHECK (ERROR_UNLESS (code_offset \<noteq> last_code_offset) ''duplicate code offset: %zx'' [ASize code_offset]) (\<lambda>_.
     CHECK (ERROR_UNLESS (last_code_offset = kNoOffset \<or> last_code_offset < code_offset)
       ''code offset out of order: %zx'' [ASize code_offset]) (\<lambda>_.
     CHECK (ReadBytes ''instance data'') (\<lambda>bytes.
     CHECK (CALLBACK ''OnCodeMetadata'' [ASize code_offset, ABytes bytes, ASize (length bytes)]) (\<lambda>_.
     yield code_offset)))))"

text \<open>The function index is read by \<open>ReadCount\<close>, so it must not exceed the bytes that are left.\<close>

definition ReadCodeMetadataFunction :: "index \<Rightarrow> index rd" where
  "ReadCodeMetadataFunction last_function_index =
     CHECK (ReadCount ''function index'') (\<lambda>function_index.
     CHECK (look num_func_imports) (\<lambda>imports.
     CHECK (ERROR_UNLESS (imports \<le> function_index) ''function import can't have metadata (got %)'' [AU32 function_index]) (\<lambda>_.
     CHECK (look NumTotalFuncs) (\<lambda>total.
     CHECK (ERROR_UNLESS (function_index < total) ''invalid function index: %'' [AU32 function_index]) (\<lambda>_.
     CHECK (ERROR_UNLESS (function_index \<noteq> last_function_index) ''duplicate function index: %'' [AU32 function_index]) (\<lambda>_.
     CHECK (ERROR_UNLESS (last_function_index = kInvalidIndex \<or> last_function_index < function_index)
       ''function index out of order: %'' [AU32 function_index]) (\<lambda>_.
     CHECK (ReadCount ''metadata instances count'') (\<lambda>num_metadata.
     CHECK (CALLBACK ''OnCodeMetadataCount'' [AU32 function_index, AU32 num_metadata]) (\<lambda>_.
     CHECK (for_each (unat num_metadata) 0 (\<lambda>_. ReadCodeMetadataInstance) kNoOffset) (\<lambda>last_offset.
     yield function_index))))))))))"

definition ReadCodeMetadataSection :: "u8 list \<Rightarrow> nat \<Rightarrow> unit rd" where
  "ReadCodeMetadataSection name section_size =
     CHECK (CALLBACK ''BeginCodeMetadataSection'' [AStr name, ASize section_size]) (\<lambda>_.
     CHECK (ReadCount ''function count'') (\<lambda>num_functions.
     CHECK (CALLBACK ''OnCodeMetadataFuncCount'' [AU32 num_functions]) (\<lambda>_.
     CHECK (for_each (unat num_functions) 0 (\<lambda>_. ReadCodeMetadataFunction) kInvalidIndex) (\<lambda>last_index.
     CALLBACK ''EndCodeMetadataSection'' []))))"

definition ReadKnownCustomSection :: "u8 list \<Rightarrow> nat \<Rightarrow> unit rd" where
  "ReadKnownCustomSection section_name section_size =
     CHECK (look (\<lambda>s. read_debug_names (rd_options s))) (\<lambda>debug_names.
     CHECK (look (\<lambda>s. opt_features (rd_options s))) (\<lambda>f.
     if debug_names \<and> section_name = ascii ''name''
       then
         CHECK (ReadNameSection section_size) (\<lambda>_.
         update (\<lambda>s. s\<lparr>did_read_names_section := True\<rparr>))
       else if section_name = ascii ''dylink.0'' then ReadDylink0Section section_size
       else if section_name = ascii ''dylink'' then ReadDylinkSection section_size
       else if take 5 section_name = ascii ''reloc'' then ReadRelocSection section_size
       else if section_name = ascii ''target_features'' then ReadTargetFeaturesSections section_size
       else if section_name = ascii ''linking'' then ReadLinkingSection section_size
       else if code_metadata_enabled f \<and> take 14 section_name = ascii ''metadata.code.''
       then ReadCodeMetadataSection (drop 14 section_name) section_size
       else
         CHECK (look read_end) (\<lambda>end.
         jump end)))"

definition ReadCustomSection :: "index \<Rightarrow> nat \<Rightarrow> unit rd" where
  "ReadCustomSection section_index section_size =
     CHECK (ReadStr ''section name'') (\<lambda>section_name.
     CHECK (CALLBACK ''BeginCustomSection'' [AU32 section_index, ASize section_size, AStr section_name]) (\<lambda>_.
     with_reading_custom_section (
         CHECK (backtrack (ReadGenericCustomSection section_name section_size)) (\<lambda>_.
         CHECK (ReadKnownCustomSection section_name section_size) (\<lambda>_.
         CALLBACK ''EndCustomSection'' [])))))"

section \<open>Types and imports\<close>

definition ReadConcreteTypes :: "string \<Rightarrow> string \<Rightarrow> index \<Rightarrow> type_vector rd" where
  "ReadConcreteTypes desc message n =
     CHECK (look (\<lambda>s. opt_features (rd_options s))) (\<lambda>f.
     collect n (
         CHECK (ReadType desc) (\<lambda>t.
         CHECK (ERROR_UNLESS (IsConcreteType f t) message [AType t]) (\<lambda>_.
         yield t))))"

definition ReadTypeForm :: "wtype rd" where
  "ReadTypeForm =
     CHECK (look (\<lambda>s. opt_features (rd_options s))) (\<lambda>f.
     if gc_enabled f then ReadType ''type form''
       else
         CHECK (ReadU8 ''type form'') (\<lambda>t.
         CHECK (ERROR_UNLESS (t = 0x60) ''unexpected type form (got %#x)'' [AU8 t]) (\<lambda>_.
         yield FuncTy)))"

definition ReadTypeEntry :: "index \<Rightarrow> unit rd" where
  "ReadTypeEntry i =
     CHECK (ReadTypeForm) (\<lambda>form.
     CHECK (look (\<lambda>s. opt_features (rd_options s))) (\<lambda>f.
     if type_eq form FuncTy
       then
         CHECK (ReadCount ''function param count'') (\<lambda>num_params.
         CHECK (ReadConcreteTypes ''function param type'' ''expected valid param type (got %)'' num_params) (\<lambda>params.
         CHECK (ReadCount ''function result count'') (\<lambda>num_results.
         CHECK (ReadConcreteTypes ''function result type'' ''expected valid result type (got %)'' num_results) (\<lambda>results.
         CALLBACK ''OnFuncType'' [AU32 i, AU32 num_params, ATypes params, AU32 num_results, ATypes results]))))
       else if type_eq form StructTy
       then
         CHECK (ERROR_UNLESS (gc_enabled f) ''invalid type form: struct not allowed'' []) (\<lambda>_.
         CHECK (ReadCount ''field count'') (\<lambda>num_fields.
         CHECK (collect num_fields ReadField) (\<lambda>fields_read.
         CALLBACK ''OnStructType'' [AU32 i, AU32 num_fields, AFields fields_read])))
       else if type_eq form ArrayTy
       then
         CHECK (ERROR_UNLESS (gc_enabled f) ''invalid type form: array not allowed'' []) (\<lambda>_.
         CHECK (ReadField) (\<lambda>field.
         CALLBACK ''OnArrayType'' [AU32 i, AField field]))
       else
         CHECK (PrintError_br ''unexpected type form (got %)'' [AType form]) (\<lambda>_.
         fail ())))"

definition ReadTypeSection :: "nat \<Rightarrow> unit rd" where
  "ReadTypeSection section_size =
     CHECK (CALLBACK ''BeginTypeSection'' [ASize section_size]) (\<lambda>_.
     CHECK (ReadCount ''type count'') (\<lambda>n.
     CHECK (CALLBACK ''OnTypeCount'' [AU32 n]) (\<lambda>_.
     CHECK (for_count n (ReadTypeEntry)) (\<lambda>_.
     CALLBACK ''EndTypeSection'' []))))"

definition ReadImport :: "index \<Rightarrow> unit rd" where
  "ReadImport i =
     CHECK (ReadStr ''import module name'') (\<lambda>module_name.
     CHECK (ReadStr ''import field name'') (\<lambda>field_name.
     CHECK (ReadU8 ''import kind'') (\<lambda>kind.
     CHECK (CALLBACK ''OnImport'' [AU32 i, AU8 kind, AStr module_name, AStr field_name]) (\<lambda>_.
     if kind = 0
       then
         CHECK (ReadIndex ''import signature index'') (\<lambda>sig_index.
         CHECK (look num_func_imports) (\<lambda>n.
         CHECK (CALLBACK ''OnImportFunc'' [AU32 i, AStr module_name, AStr field_name, AU32 n, AU32 sig_index]) (\<lambda>_.
         update (\<lambda>s. s\<lparr>num_func_imports := num_func_imports s + 1\<rparr>))))
       else if kind = 1
       then
         CHECK (ReadTable) (\<lambda>(elem_type, elem_limits).
         CHECK (look num_table_imports) (\<lambda>n.
         CHECK (CALLBACK ''OnImportTable'' [AU32 i, AStr module_name, AStr field_name, AU32 n, AType elem_type, ALimits elem_limits]) (\<lambda>_.
         update (\<lambda>s. s\<lparr>num_table_imports := num_table_imports s + 1\<rparr>))))
       else if kind = 2
       then
         CHECK (ReadMemory) (\<lambda>page_limits.
         CHECK (look num_memory_imports) (\<lambda>n.
         CHECK (CALLBACK ''OnImportMemory'' [AU32 i, AStr module_name, AStr field_name, AU32 n, ALimits page_limits]) (\<lambda>_.
         update (\<lambda>s. s\<lparr>num_memory_imports := num_memory_imports s + 1\<rparr>))))
       else if kind = 3
       then
         CHECK (ReadGlobalHeader) (\<lambda>(t, mut).
         CHECK (look num_global_imports) (\<lambda>n.
         CHECK (CALLBACK ''OnImportGlobal'' [AU32 i, AStr module_name, AStr field_name, AU32 n, AType t, ABool mut]) (\<lambda>_.
         update (\<lambda>s. s\<lparr>num_global_imports := num_global_imports s + 1\<rparr>))))
       else if kind = 4
       then
         CHECK (look (\<lambda>s. opt_features (rd_options s))) (\<lambda>f.
         CHECK (ERROR_UNLESS (exceptions_enabled f) ''invalid import tag kind: exceptions not allowed'' []) (\<lambda>_.
         CHECK (ReadTagType) (\<lambda>sig_index.
         CHECK (look num_tag_imports) (\<lambda>n.
         CHECK (CALLBACK ''OnImportTag'' [AU32 i, AStr module_name, AStr field_name, AU32 n, AU32 sig_index]) (\<lambda>_.
         update (\<lambda>s. s\<lparr>num_tag_imports := num_tag_imports s + 1\<rparr>))))))
       else
         CHECK (PrintError_br ''malformed import kind: %d'' [AU8 kind]) (\<lambda>_.
         fail ())))))"

definition ReadImportSection :: "nat \<Rightarrow> unit rd" where
  "ReadImportSection section_size =
     CHECK (CALLBACK ''BeginImportSection'' [ASize section_size]) (\<lambda>_.
     CHECK (ReadCount ''import count'') (\<lambda>n.
     CHECK (CALLBACK ''OnImportCount'' [AU32 n]) (\<lambda>_.
     CHECK (for_count n (ReadImport)) (\<lambda>_.
     CALLBACK ''EndImportSection'' []))))"

section \<open>The other sections of definitions\<close>

definition ReadFunctionSection :: "nat \<Rightarrow> unit rd" where
  "ReadFunctionSection section_size =
     CHECK (CALLBACK ''BeginFunctionSection'' [ASize section_size]) (\<lambda>_.
     CHECK (ReadIndex ''function signature count'') (\<lambda>n.
     CHECK (update (\<lambda>s. s\<lparr>num_function_signatures := n\<rparr>)) (\<lambda>_.
     CHECK (CheckCount ''function signature count'' n) (\<lambda>_.
     CHECK (CALLBACK ''OnFunctionCount'' [AU32 n]) (\<lambda>_.
     CHECK (for_count n (\<lambda>i.
         CHECK (look num_func_imports) (\<lambda>imports.
         CHECK (ReadIndex ''function signature index'') (\<lambda>sig_index.
         CALLBACK ''OnFunction'' [AU32 (imports + i), AU32 sig_index])))) (\<lambda>_.
     CALLBACK ''EndFunctionSection'' []))))))"

definition ReadTableSection :: "nat \<Rightarrow> unit rd" where
  "ReadTableSection section_size =
     CHECK (CALLBACK ''BeginTableSection'' [ASize section_size]) (\<lambda>_.
     CHECK (ReadCount ''table count'') (\<lambda>n.
     CHECK (CALLBACK ''OnTableCount'' [AU32 n]) (\<lambda>_.
     CHECK (for_count n (\<lambda>i.
         CHECK (look num_table_imports) (\<lambda>imports.
         CHECK (ReadTable) (\<lambda>(elem_type, elem_limits).
         CALLBACK ''OnTable'' [AU32 (imports + i), AType elem_type, ALimits elem_limits])))) (\<lambda>_.
     CALLBACK ''EndTableSection'' []))))"

definition ReadMemorySection :: "nat \<Rightarrow> unit rd" where
  "ReadMemorySection section_size =
     CHECK (CALLBACK ''BeginMemorySection'' [ASize section_size]) (\<lambda>_.
     CHECK (ReadCount ''memory count'') (\<lambda>n.
     CHECK (CALLBACK ''OnMemoryCount'' [AU32 n]) (\<lambda>_.
     CHECK (for_count n (\<lambda>i.
         CHECK (look num_memory_imports) (\<lambda>imports.
         CHECK (ReadMemory) (\<lambda>page_limits.
         CALLBACK ''OnMemory'' [AU32 (imports + i), ALimits page_limits])))) (\<lambda>_.
     CALLBACK ''EndMemorySection'' []))))"

definition ReadGlobalSection :: "nat \<Rightarrow> unit rd" where
  "ReadGlobalSection section_size =
     CHECK (CALLBACK ''BeginGlobalSection'' [ASize section_size]) (\<lambda>_.
     CHECK (ReadCount ''global count'') (\<lambda>n.
     CHECK (CALLBACK ''OnGlobalCount'' [AU32 n]) (\<lambda>_.
     CHECK (for_count n (\<lambda>i.
         CHECK (look num_global_imports) (\<lambda>imports.
         let global_index = imports + i in
         CHECK (ReadGlobalHeader) (\<lambda>(t, mut).
         CHECK (CALLBACK ''BeginGlobal'' [AU32 global_index, AType t, ABool mut]) (\<lambda>_.
         CHECK (CALLBACK ''BeginGlobalInitExpr'' [AU32 global_index]) (\<lambda>_.
         CHECK (ReadInitExpr) (\<lambda>_.
         CHECK (CALLBACK ''EndGlobalInitExpr'' [AU32 global_index]) (\<lambda>_.
         CALLBACK ''EndGlobal'' [AU32 global_index])))))))) (\<lambda>_.
     CALLBACK ''EndGlobalSection'' []))))"

definition ReadExportSection :: "nat \<Rightarrow> unit rd" where
  "ReadExportSection section_size =
     CHECK (CALLBACK ''BeginExportSection'' [ASize section_size]) (\<lambda>_.
     CHECK (ReadCount ''export count'') (\<lambda>n.
     CHECK (CALLBACK ''OnExportCount'' [AU32 n]) (\<lambda>_.
     CHECK (for_count n (\<lambda>i.
         CHECK (ReadStr ''export item name'') (\<lambda>name.
         CHECK (ReadExternalKind ''export kind'') (\<lambda>kind.
         CHECK (ReadIndex ''export item index'') (\<lambda>item_index.
         CHECK (look (\<lambda>s. opt_features (rd_options s))) (\<lambda>f.
         CHECK (ERROR_UNLESS (kind \<noteq> EkTag \<or> exceptions_enabled f) ''invalid export tag kind: exceptions not allowed'' []) (\<lambda>_.
         CALLBACK ''OnExport'' [AU32 i, AKind kind, AU32 item_index, AStr name]))))))) (\<lambda>_.
     CALLBACK ''EndExportSection'' []))))"

definition ReadStartSection :: "nat \<Rightarrow> unit rd" where
  "ReadStartSection section_size =
     CHECK (CALLBACK ''BeginStartSection'' [ASize section_size]) (\<lambda>_.
     CHECK (ReadIndex ''start function index'') (\<lambda>func_index.
     CHECK (CALLBACK ''OnStartFunction'' [AU32 func_index]) (\<lambda>_.
     CALLBACK ''EndStartSection'' [])))"

definition ReadTagSection :: "nat \<Rightarrow> unit rd" where
  "ReadTagSection section_size =
     CHECK (CALLBACK ''BeginTagSection'' [ASize section_size]) (\<lambda>_.
     CHECK (ReadCount ''tag count'') (\<lambda>n.
     CHECK (CALLBACK ''OnTagCount'' [AU32 n]) (\<lambda>_.
     CHECK (for_count n (\<lambda>i.
         CHECK (look num_tag_imports) (\<lambda>imports.
         CHECK (ReadTagType) (\<lambda>sig_index.
         CALLBACK ''OnTagType'' [AU32 (imports + i), AU32 sig_index])))) (\<lambda>_.
     CALLBACK ''EndTagSection'' []))))"

section \<open>Segments\<close>

definition SegFlagMax :: u32 where "SegFlagMax = push_bit 1 SegUseElemExprs - 1"

definition ReadElemExpr :: "index \<Rightarrow> u32 \<Rightarrow> index \<Rightarrow> unit rd" where
  "ReadElemExpr i flags j =
     CHECK (CALLBACK ''BeginElemExpr'' [AU32 i, AU32 j]) (\<lambda>_.
     CHECK ((if flags AND SegUseElemExprs \<noteq> 0 then ReadInitExpr
       else
         CHECK (ReadIndex ''elem expr func index'') (\<lambda>func_index.
         CHECK (CALLBACK ''OnOpcode'' [AOpcode Op_RefFunc]) (\<lambda>_.
         CHECK (CALLBACK ''OnRefFuncExpr'' [AU32 func_index]) (\<lambda>_.
         CHECK (CALLBACK ''OnOpcodeUint32'' [AU32 func_index]) (\<lambda>_.
         CALLBACK ''OnEndExpr'' [])))))) (\<lambda>_.
     CALLBACK ''EndElemExpr'' [AU32 i, AU32 j]))"

definition ReadElemSegment :: "index \<Rightarrow> unit rd" where
  "ReadElemSegment i =
     CHECK (ReadU32Leb128_br ''elem segment flags'') (\<lambda>flags.
     CHECK (ERROR_IF (SegFlagMax < flags) ''invalid elem segment flags: %#x'' [AU32 flags]) (\<lambda>_.
     CHECK (if flags AND (SegPassive OR SegExplicitIndex) = SegExplicitIndex
       then ReadIndex ''elem segment table index'' else yield 0) (\<lambda>table_index.
     CHECK (CALLBACK ''BeginElemSegment'' [AU32 i, AU32 table_index, AU8 (ucast flags)]) (\<lambda>_.
     CHECK ((if flags AND SegPassive = 0
       then
         CHECK (CALLBACK ''BeginElemSegmentInitExpr'' [AU32 i]) (\<lambda>_.
         CHECK (ReadInitExpr) (\<lambda>_.
         CALLBACK ''EndElemSegmentInitExpr'' [AU32 i]))
       else yield ())) (\<lambda>_.
     CHECK (if flags AND (SegPassive OR SegExplicitIndex) \<noteq> 0
       then (if flags AND SegUseElemExprs \<noteq> 0 then ReadRefType ''table elem type''
       else
         CHECK (ReadExternalKind ''export kind'') (\<lambda>kind.
         CHECK (ERROR_UNLESS (kind = EkFunc) ''segment elem type must be func (%s)'' [AType FuncRef]) (\<lambda>_.
         yield FuncRef)))
       else yield FuncRef) (\<lambda>elem_type.
     CHECK (CALLBACK ''OnElemSegmentElemType'' [AU32 i, AType elem_type]) (\<lambda>_.
     CHECK (ReadCount ''elem count'') (\<lambda>num_elem_exprs.
     CHECK (CALLBACK ''OnElemSegmentElemExprCount'' [AU32 i, AU32 num_elem_exprs]) (\<lambda>_.
     CHECK (for_count num_elem_exprs (ReadElemExpr i flags)) (\<lambda>_.
     CALLBACK ''EndElemSegment'' [AU32 i]))))))))))"

definition ReadElemSection :: "nat \<Rightarrow> unit rd" where
  "ReadElemSection section_size =
     CHECK (CALLBACK ''BeginElemSection'' [ASize section_size]) (\<lambda>_.
     CHECK (ReadCount ''elem segment count'') (\<lambda>n.
     CHECK (CALLBACK ''OnElemSegmentCount'' [AU32 n]) (\<lambda>_.
     CHECK (for_count n (ReadElemSegment)) (\<lambda>_.
     CALLBACK ''EndElemSection'' []))))"

definition ReadDataSegment :: "index \<Rightarrow> unit rd" where
  "ReadDataSegment i =
     CHECK (ReadU32Leb128_br ''data segment flags'') (\<lambda>flags.
     CHECK (look (\<lambda>s. opt_features (rd_options s))) (\<lambda>f.
     CHECK (ERROR_IF (flags \<noteq> 0 \<and> \<not> (bulk_memory_enabled f)) ''invalid memory index %d: bulk memory not allowed'' [AU32 flags]) (\<lambda>_.
     CHECK (ERROR_IF (SegFlagMax < flags) ''invalid data segment flags: %#x'' [AU32 flags]) (\<lambda>_.
     CHECK (if flags AND SegExplicitIndex \<noteq> 0 then ReadIndex ''data segment memory index'' else yield 0) (\<lambda>memory_index.
     CHECK (CALLBACK ''BeginDataSegment'' [AU32 i, AU32 memory_index, AU8 (ucast flags)]) (\<lambda>_.
     CHECK ((if flags AND SegPassive = 0
       then
         CHECK (CALLBACK ''BeginDataSegmentInitExpr'' [AU32 i]) (\<lambda>_.
         CHECK (ReadInitExpr) (\<lambda>_.
         CALLBACK ''EndDataSegmentInitExpr'' [AU32 i]))
       else yield ())) (\<lambda>_.
     CHECK (ReadBytes ''data segment data'') (\<lambda>bytes.
     CHECK (CALLBACK ''OnDataSegmentData'' [AU32 i, ABytes bytes, AU64 (of_nat (length bytes))]) (\<lambda>_.
     CALLBACK ''EndDataSegment'' [AU32 i])))))))))"

definition ReadDataSection :: "nat \<Rightarrow> unit rd" where
  "ReadDataSection section_size =
     CHECK (CALLBACK ''BeginDataSection'' [ASize section_size]) (\<lambda>_.
     CHECK (ReadCount ''data segment count'') (\<lambda>n.
     CHECK (CALLBACK ''OnDataSegmentCount'' [AU32 n]) (\<lambda>_.
     CHECK (look data_count) (\<lambda>expected.
     CHECK (ERROR_UNLESS (expected = kInvalidIndex \<or> expected = n)
       ''data segment count does not equal count in DataCount section'' []) (\<lambda>_.
     CHECK (for_count n (ReadDataSegment)) (\<lambda>_.
     CALLBACK ''EndDataSection'' []))))))"

definition ReadDataCountSection :: "nat \<Rightarrow> unit rd" where
  "ReadDataCountSection section_size =
     CHECK (CALLBACK ''BeginDataCountSection'' [ASize section_size]) (\<lambda>_.
     CHECK (ReadIndex ''data count'') (\<lambda>n.
     CHECK (CALLBACK ''OnDataCount'' [AU32 n]) (\<lambda>_.
     CHECK (CALLBACK ''EndDataCountSection'' []) (\<lambda>_.
     update (\<lambda>s. s\<lparr>data_count := n\<rparr>)))))"

section \<open>Code\<close>

definition ReadLocalDecl :: "index \<Rightarrow> u64 \<Rightarrow> u64 rd" where
  "ReadLocalDecl k total_locals =
     CHECK (ReadIndex ''local type count'') (\<lambda>num_local_types.
     let total = total_locals + ucast num_local_types in
     CHECK (ERROR_UNLESS (total \<le> 0xffffffff) ''local count must be <= 0x%x'' [AU32 0xffffffff]) (\<lambda>_.
     CHECK (ReadType ''local type'') (\<lambda>local_type.
     CHECK (look (\<lambda>s. opt_features (rd_options s))) (\<lambda>f.
     CHECK (ERROR_UNLESS (IsConcreteType f local_type) ''expected valid local type'' []) (\<lambda>_.
     CHECK (CALLBACK ''OnLocalDecl'' [AU32 k, AU32 num_local_types, AType local_type]) (\<lambda>_.
     yield total))))))"

definition ReadCodeEntry :: "index \<Rightarrow> unit rd" where
  "ReadCodeEntry i =
     CHECK (look num_func_imports) (\<lambda>imports.
     let func_index = imports + i in
     CHECK (ReadU32Leb128_br ''function body size'') (\<lambda>body_size.
     CHECK (look rd_offset) (\<lambda>body_start_offset.
     let end_offset = body_start_offset + unat body_size in
     CHECK (CALLBACK ''BeginFunctionBody'' [AU32 func_index, ASize (unat body_size)]) (\<lambda>_.
     CHECK (ReadCount ''local declaration count'') (\<lambda>num_local_decls.
     CHECK (CALLBACK ''OnLocalDeclCount'' [AU32 num_local_decls]) (\<lambda>_.
     CHECK (for_each (unat num_local_decls) 0 ReadLocalDecl 0) (\<lambda>total_locals.
     CHECK (look (\<lambda>s. skip_function_bodies (rd_options s))) (\<lambda>skip.
     CHECK ((if skip then jump end_offset else ReadFunctionBody end_offset)) (\<lambda>_.
     CALLBACK ''EndFunctionBody'' [AU32 func_index])))))))))"

definition ReadCodeSection :: "nat \<Rightarrow> unit rd" where
  "ReadCodeSection section_size =
     CHECK (CALLBACK ''BeginCodeSection'' [ASize section_size]) (\<lambda>_.
     CHECK (ReadIndex ''function body count'') (\<lambda>n.
     CHECK (update (\<lambda>s. s\<lparr>num_function_bodies := n\<rparr>)) (\<lambda>_.
     CHECK (CheckCount ''function body count'' n) (\<lambda>_.
     CHECK (look num_function_signatures) (\<lambda>signatures.
     CHECK (ERROR_UNLESS (signatures = n) ''function signature count != function body count'' []) (\<lambda>_.
     CHECK (CALLBACK ''OnFunctionBodyCount'' [AU32 n]) (\<lambda>_.
     CHECK (for_count n ReadCodeEntry) (\<lambda>_.
     CALLBACK ''EndCodeSection'' []))))))))"

section \<open>The module\<close>

text \<open>The result of a section, which the loop goes on with.\<close>

definition attempt :: "'a rd \<Rightarrow> result rd" where
  "attempt m =
     do { r \<leftarrow> m; State_Monad.return (Some (case r of None \<Rightarrow> Error | Some _ \<Rightarrow> Ok)) }"

fun ReadSection :: "binary_section \<Rightarrow> index \<Rightarrow> nat \<Rightarrow> unit rd" where
  "ReadSection SecCustom i n = ReadCustomSection i n"
| "ReadSection SecType i n = ReadTypeSection n"
| "ReadSection SecImport i n = ReadImportSection n"
| "ReadSection SecFunction i n = ReadFunctionSection n"
| "ReadSection SecTable i n = ReadTableSection n"
| "ReadSection SecMemory i n = ReadMemorySection n"
| "ReadSection SecGlobal i n = ReadGlobalSection n"
| "ReadSection SecExport i n = ReadExportSection n"
| "ReadSection SecStart i n = ReadStartSection n"
| "ReadSection SecElem i n = ReadElemSection n"
| "ReadSection SecCode i n = ReadCodeSection n"
| "ReadSection SecData i n = ReadDataSection n"
| "ReadSection SecTag i n = ReadTagSection n"
| "ReadSection SecDataCount i n = ReadDataCountSection n"

text \<open>What is checked before the body of a section is read.\<close>

definition CheckSection :: "binary_section \<Rightarrow> bool list \<Rightarrow> unit rd" where
  "CheckSection sec seen =
     CHECK (ERROR_IF (sec \<noteq> SecCustom \<and> seen ! GetSectionCode sec) ''multiple %s sections'' [AText (GetSectionName sec)]) (\<lambda>_.
     CHECK (look read_end) (\<lambda>end.
     CHECK (look (\<lambda>s. length (rd_data s))) (\<lambda>total.
     CHECK (ERROR_UNLESS (end \<le> total) ''invalid section size: extends past end'' []) (\<lambda>_.
     CHECK (look last_known_section) (\<lambda>known.
     CHECK (ERROR_UNLESS (known = None \<or> sec = SecCustom \<or> GetSectionOrder (the known) < GetSectionOrder sec)
       ''section %s out of order'' [AText (GetSectionName sec)]) (\<lambda>_.
     CHECK (look did_read_names_section) (\<lambda>did_names.
     ERROR_UNLESS (\<not> (did_names) \<or> sec = SecCustom) ''%s section can not occur after Name section'' [AText (GetSectionName sec)])))))))"

definition OpenSection :: "index \<Rightarrow> binary_section \<Rightarrow> bool list \<Rightarrow> nat \<Rightarrow> unit rd" where
  "OpenSection section_index sec seen section_size =
     CHECK (CheckSection sec seen) (\<lambda>_.
     CHECK (CALLBACK ''BeginSection'' [AU32 section_index, ASection sec, ASize section_size]) (\<lambda>_.
     CHECK (look (\<lambda>s. opt_features (rd_options s))) (\<lambda>f.
     CHECK (ERROR_UNLESS (sec \<noteq> SecTag \<or> exceptions_enabled f) ''invalid section code: %u'' [ASection sec]) (\<lambda>_.
     ERROR_UNLESS (sec \<noteq> SecDataCount \<or> bulk_memory_enabled f) ''invalid section code: %u'' [ASection sec]))))"

text \<open>
  What follows the body of a section: an unfinished section is an error, and after an error the
  loop goes on at the end of the section if it may. The errors of a custom section may be forgiven.
\<close>

definition FinishSection :: "index \<times> bool list \<times> result \<Rightarrow> binary_section \<Rightarrow> result \<Rightarrow> ((index \<times> bool list \<times> result) + unit) rd" where
  "FinishSection k sec section_result =
     (let (section_index, seen, result) = k in
      CHECK (look rd_options) (\<lambda>options.
      let forgiving = (sec = SecCustom \<and> \<not> (fail_on_custom_section_error options)) in
      let result1 = (if forgiving then result else result_or result section_result) in
      CHECK (look rd_offset) (\<lambda>off.
      CHECK (look read_end) (\<lambda>end.
      CHECK (if Succeeded section_result \<and> off \<noteq> end
        then
          CHECK (PrintError_br ''unfinished section (expected end: 0x%zx)'' [ASize end]) (\<lambda>_.
          yield (Error, Error))
        else yield (section_result, result1)) (\<lambda>(section_result', result2).
      CHECK ((if Failed section_result'
        then (if stop_on_first_error options \<and> \<not> (forgiving) then fail () else jump end)
        else yield ())) (\<lambda>_.
      CHECK (update (\<lambda>s. if sec = SecCustom then s else s\<lparr>last_known_section := Some sec\<rparr>)) (\<lambda>_.
      yield (Inl (section_index + 1, (if sec = SecCustom then seen else seen[GetSectionCode sec := True]), result2)))))))))"

definition ReadOneSection :: "index \<times> bool list \<times> result \<Rightarrow> binary_section \<Rightarrow> nat \<Rightarrow> ((index \<times> bool list \<times> result) + unit) rd" where
  "ReadOneSection k sec section_size =
     (let (section_index, seen, result) = k in
      CHECK (OpenSection section_index sec seen section_size) (\<lambda>_.
      CHECK (attempt (ReadSection sec section_index section_size)) (\<lambda>section_result.
      FinishSection k sec section_result)))"

definition ReadSectionHeader :: "index \<times> bool list \<times> result \<Rightarrow> ((index \<times> bool list \<times> result) + unit) rd" where
  "ReadSectionHeader k =
     CHECK (ReadU8 ''section code'') (\<lambda>section_code.
     CHECK (ReadOffset ''section size'') (\<lambda>section_size.
     CHECK (look rd_offset) (\<lambda>off.
     with_read_end (off + section_size) (
         if kBinarySectionCount \<le> section_code
           then
             CHECK (PrintError_br ''invalid section code: %u'' [AU8 section_code]) (\<lambda>_.
             CHECK (look (\<lambda>s. stop_on_first_error (rd_options s))) (\<lambda>stop.
             CHECK ((if stop then fail () else jump (off + section_size))) (\<lambda>_.
             yield (Inl (fst k + 1, fst (snd k), Error)))))
           else ReadOneSection k (binary_sections ! unat section_code) section_size))))"

definition ReadSections :: "unit rd" where
  "ReadSections =
     CHECK (while_more (\<lambda>s. length (rd_data s)) ReadSectionHeader (0, replicate 14 False, Ok)) (\<lambda>x.
     (case x of
       Inl (section_index, seen, result) \<Rightarrow> if Succeeded result then yield () else fail ()
       | Inr u \<Rightarrow> yield ()))"

definition WABT_BINARY_MAGIC :: u32 where "WABT_BINARY_MAGIC = 0x6d736100"
definition WABT_BINARY_VERSION :: u32 where "WABT_BINARY_VERSION = 1"

definition ReadModuleHeader :: "unit rd" where
  "ReadModuleHeader =
     CHECK (ReadU32 ''magic'') (\<lambda>magic.
     CHECK (ERROR_UNLESS (magic = WABT_BINARY_MAGIC) ''bad magic value'' []) (\<lambda>_.
     CHECK (ReadU32 ''version'') (\<lambda>version.
     CHECK (ERROR_UNLESS (version = WABT_BINARY_VERSION) ''bad wasm file version: %#x (expected %#x)'' [AU32 version, AU32 WABT_BINARY_VERSION]) (\<lambda>_.
     CALLBACK ''BeginModule'' [AU32 version]))))"

text \<open>
  The counts of signatures and bodies are compared once more, for modules without a code section.
\<close>

definition ReadModule :: "unit rd" where
  "ReadModule =
     CHECK (ReadModuleHeader) (\<lambda>_.
     CHECK (ReadSections) (\<lambda>_.
     CHECK (look num_function_signatures) (\<lambda>signatures.
     CHECK (look num_function_bodies) (\<lambda>bodies.
     CHECK (ERROR_UNLESS (signatures = bodies) ''function signature count != function body count'' []) (\<lambda>_.
     CALLBACK ''EndModule'' [])))))"

text \<open>\<open>ReadBinary\<close>: the result, and all the calls that the delegate has received.\<close>

definition ReadBinary ::
  "u8 list \<Rightarrow> (event list \<Rightarrow> result) \<Rightarrow> read_options \<Rightarrow> result \<times> event list" where
  "ReadBinary data delegate options =
     (let (r, s) = run_state ReadModule (BinaryReader data delegate options)
      in (if r = None then Error else Ok, rd_calls s))"

end
