(* ===== verification/Binary_Reader_Facts.thy ===== *)
theory Binary_Reader_Facts
  imports Binary_Reader_Sections
begin

text \<open>
  What every part of the binary reader keeps: the frame of the reader, the bounds of the offset,
  and the agreement of results and reports. The rules are proved once for the combinators and the
  value readers, for any bound on the offset that advancing within the section keeps.
\<close>

named_theorems good_intros \<open>rules that a reader action keeps a bound and reports its failures\<close>

section \<open>Runs\<close>

lemma run_yield [simp]: "run_state (yield x) s = (Some x, s)"
  by (simp add: yield_def)

lemma run_fail [simp]: "run_state (fail u) s = (None, s)"
  by (simp add: fail_def)

lemma run_look [simp]: "run_state (look f) s = (Some (f s), s)"
  by (simp add: look_def)

lemma run_update [simp]: "run_state (update f) s = (Some (), f s)"
  by (simp add: update_def)

lemma run_CHECK [simp]:
  "run_state (CHECK m k) s =
     (case run_state m s of (None, s') \<Rightarrow> (None, s') | (Some x, s') \<Rightarrow> run_state (k x) s')"
  by (simp add: CHECK_def split: prod.splits option.splits)

lemma run_advance [simp]: "run_state (advance n) s = (Some (), s\<lparr>rd_offset := rd_offset s + n\<rparr>)"
  by (simp add: advance_def)

lemma run_jump [simp]: "run_state (jump n) s = (Some (), s\<lparr>rd_offset := n\<rparr>)"
  by (simp add: jump_def)

lemma run_PrintError_br [simp]:
  "run_state (PrintError_br fmt args) s =
     (Some (), s\<lparr>rd_calls := rd_calls s @ [OnError (the_level s) (rd_offset s) fmt args]\<rparr>)"
  by (simp add: PrintError_br_def)

lemma run_ERROR_IF [simp]:
  "run_state (ERROR_IF b fmt args) s =
     (if b then (None, s\<lparr>rd_calls := rd_calls s @ [OnError (the_level s) (rd_offset s) fmt args]\<rparr>)
      else (Some (), s))"
  by (simp add: ERROR_IF_def)

lemma run_ERROR_UNLESS [simp]:
  "run_state (ERROR_UNLESS b fmt args) s =
     (if b then (Some (), s)
      else (None, s\<lparr>rd_calls := rd_calls s @ [OnError (the_level s) (rd_offset s) fmt args]\<rparr>))"
  by (simp add: ERROR_UNLESS_def)

section \<open>The judgement\<close>

text \<open>The levels of the reports among the calls.\<close>

fun err_level :: "event \<Rightarrow> error_level option" where
  "err_level (Call off member args) = None"
| "err_level (OnError l off fmt args) = Some l"

definition errs :: "event list \<Rightarrow> error_level list" where
  "errs es = List.map_filter err_level es"

lemma errs_simps [simp]:
  "errs [] = []"
  "errs (Call off member args # es) = errs es"
  "errs (OnError l off fmt args # es) = l # errs es"
  "errs (es @ es') = errs es @ errs es'"
  by (simp_all add: errs_def List.map_filter_def)

definition same_frame :: "reader \<Rightarrow> reader \<Rightarrow> bool" where
  "same_frame s s' \<longleftrightarrow>
     rd_data s' = rd_data s \<and> rd_options s' = rd_options s \<and> rd_delegate s' = rd_delegate s \<and>
     read_end s' = read_end s \<and> reading_custom_section s' = reading_custom_section s \<and>
     rd_stuck s' = rd_stuck s"

lemma same_frame_refl [simp]: "same_frame s s"
  by (simp add: same_frame_def)

lemma same_frame_trans: "same_frame s s' \<Longrightarrow> same_frame s' s'' \<Longrightarrow> same_frame s s''"
  by (simp add: same_frame_def)

lemma same_frame_level: "same_frame s s' \<Longrightarrow> the_level s' = the_level s"
  by (simp add: same_frame_def the_level_def)

lemma same_frame_updates [simp]:
  "same_frame s (s'\<lparr>rd_calls := c\<rparr>) = same_frame s s'"
  "same_frame s (s'\<lparr>rd_offset := n\<rparr>) = same_frame s s'"
  "same_frame s (s'\<lparr>did_read_names_section := b\<rparr>) = same_frame s s'"
  "same_frame s (s'\<lparr>last_known_section := l\<rparr>) = same_frame s s'"
  "same_frame s (s'\<lparr>num_func_imports := i\<rparr>) = same_frame s s'"
  "same_frame s (s'\<lparr>num_table_imports := i\<rparr>) = same_frame s s'"
  "same_frame s (s'\<lparr>num_memory_imports := i\<rparr>) = same_frame s s'"
  "same_frame s (s'\<lparr>num_global_imports := i\<rparr>) = same_frame s s'"
  "same_frame s (s'\<lparr>num_tag_imports := i\<rparr>) = same_frame s s'"
  "same_frame s (s'\<lparr>num_function_signatures := i\<rparr>) = same_frame s s'"
  "same_frame s (s'\<lparr>num_function_bodies := i\<rparr>) = same_frame s s'"
  "same_frame s (s'\<lparr>data_count := i\<rparr>) = same_frame s s'"
  by (simp_all add: same_frame_def)

text \<open>
  What a run from \<open>s\<close> to \<open>s'\<close> with result \<open>r\<close> adds to the calls: it fails if and only if it reports,
  and all its reports have the level of the state it starts in.
\<close>

definition reports :: "reader \<Rightarrow> 'a option \<Rightarrow> reader \<Rightarrow> bool" where
  "reports s r s' \<longleftrightarrow>
     (\<exists>es. rd_calls s' = rd_calls s @ es \<and> set (errs es) \<subseteq> {the_level s} \<and> (errs es \<noteq> [] \<longleftrightarrow> r = None))"

definition good_at :: "(reader \<Rightarrow> bool) \<Rightarrow> 'a rd \<Rightarrow> reader \<Rightarrow> bool" where
  "good_at B m s \<longleftrightarrow>
     (let (r, s') = run_state m s in same_frame s s' \<and> B s' \<and> reports s r s')"

definition good :: "(reader \<Rightarrow> bool) \<Rightarrow> 'a rd \<Rightarrow> bool" where
  "good B m \<longleftrightarrow> (\<forall>s. B s \<longrightarrow> good_at B m s)"

text \<open>A success of the action has read at least one byte.\<close>

definition moves :: "(reader \<Rightarrow> bool) \<Rightarrow> 'a rd \<Rightarrow> bool" where
  "moves B m \<longleftrightarrow> (\<forall>s x s'. B s \<longrightarrow> run_state m s = (Some x, s') \<longrightarrow> rd_offset s < rd_offset s')"

lemma goodI:
  "(\<And>s r s'. \<lbrakk>B s; run_state m s = (r, s')\<rbrakk> \<Longrightarrow> same_frame s s' \<and> B s' \<and> reports s r s') \<Longrightarrow> good B m"
  by (auto simp: good_def good_at_def)

lemma goodD:
  "\<lbrakk>good B m; B s; run_state m s = (r, s')\<rbrakk> \<Longrightarrow> same_frame s s' \<and> B s' \<and> reports s r s'"
  by (auto simp: good_def good_at_def)

lemma reports_refl: "reports s (Some x) s"
  by (simp add: reports_def)

lemma reports_trans:
  "\<lbrakk>reports s (Some x) s1; the_level s1 = the_level s; reports s1 r s2\<rbrakk> \<Longrightarrow> reports s r s2"
  by (auto simp: reports_def)

lemma reports_error: "reports s None (s\<lparr>rd_calls := rd_calls s @ [OnError (the_level s) n f a]\<rparr>)"
  by (simp add: reports_def)

lemma reports_same_calls: "rd_calls s' = rd_calls s \<Longrightarrow> reports s (Some x) s'"
  by (simp add: reports_def)

lemma reports_None: "reports s (None :: 'a option) s' \<Longrightarrow> reports s (None :: 'b option) s'"
  by (simp add: reports_def)

lemma reports_Some: "reports s (Some x) s' \<Longrightarrow> reports s (Some y) s'"
  by (simp add: reports_def)

lemma good_at_CHECK:
  assumes "good_at B m s" and "\<And>x s'. run_state m s = (Some x, s') \<Longrightarrow> B s' \<Longrightarrow> same_frame s s' \<Longrightarrow> good_at B (k x) s'"
  shows "good_at B (CHECK m k) s"
proof (cases "run_state m s")
  case (Pair r s1)
  with assms(1) have 1: "same_frame s s1" "B s1" "reports s r s1" by (simp_all add: good_at_def)
  show ?thesis
  proof (cases r)
    case None
    with Pair 1 reports_None show ?thesis by (auto simp: good_at_def)
  next
    case (Some x)
    with assms(2) Pair 1 have "good_at B (k x) s1" by simp
    with Some Pair 1 show ?thesis
      by (auto simp: good_at_def same_frame_level intro: same_frame_trans reports_trans)
  qed
qed

lemma good_CHECK [good_intros]:
  "good B m \<Longrightarrow> (\<And>x. good B (k x)) \<Longrightarrow> good B (CHECK m k)"
  unfolding good_def by (blast intro: good_at_CHECK)

lemma good_yield [good_intros]: "good B (yield x)"
  by (rule goodI) (auto simp: reports_refl)

lemma good_at_yield [simp]: "good_at B (yield x) s = B s"
  by (simp add: good_at_def reports_refl)

lemma good_look [good_intros]: "good B (look f)"
  by (rule goodI) (auto simp: reports_refl)

lemma good_if [good_intros]: "good B m \<Longrightarrow> good B n \<Longrightarrow> good B (if b then m else n)"
  by simp

lemma good_case_option [good_intros]:
  "good B m \<Longrightarrow> (\<And>x. good B (f x)) \<Longrightarrow> good B (case o' of None \<Rightarrow> m | Some x \<Rightarrow> f x)"
  by (cases o') simp_all

lemma good_case_prod [good_intros]: "(\<And>x y. good B (f x y)) \<Longrightarrow> good B (case p of (x, y) \<Rightarrow> f x y)"
  by (cases p) simp

lemma good_case_sum [good_intros]:
  "(\<And>x. good B (f x)) \<Longrightarrow> (\<And>y. good B (g y)) \<Longrightarrow> good B (case v of Inl x \<Rightarrow> f x | Inr y \<Rightarrow> g y)"
  by (cases v) simp_all

lemma good_Let [good_intros]: "(\<And>x. good B (f x)) \<Longrightarrow> good B (let x = v in f x)"
  by (simp add: Let_def)

lemma good_for_each [good_intros]:
  "(\<And>i k. good B (body i k)) \<Longrightarrow> good B (for_each n i body k)"
  by (induction n arbitrary: i k) (auto intro!: good_intros)

lemma good_for_count [good_intros]: "(\<And>i. good B (body i)) \<Longrightarrow> good B (for_count n body)"
  by (simp add: for_count_def good_for_each)

lemma good_collect [good_intros]: "good B m \<Longrightarrow> good B (collect n m)"
  by (auto simp: collect_def intro!: good_intros)

text \<open>The loop never runs out of rounds if every round reads a byte.\<close>

lemma good_at_while_below:
  assumes body: "\<And>k. good B (body k)" "\<And>k. moves B (body k)"
    and limit: "\<And>s s'. same_frame s s' \<Longrightarrow> limit s' = limit s"
  shows "B s \<Longrightarrow> limit s - rd_offset s < fuel \<Longrightarrow> good_at B (while_below fuel limit body k) s"
proof (induction fuel arbitrary: s k)
  case (Suc fuel)
  have "good_at B (if more
      then CHECK (body k) (\<lambda>x. case x of Inl k' \<Rightarrow> while_below fuel limit body k' | Inr r \<Rightarrow> yield (Inr r))
      else yield (Inl k)) s'"
    if m: "run_state (look (\<lambda>s. rd_offset s < limit s)) s = (Some more, s')" "B s'" for more s'
  proof (cases more)
    case True
    with m have s': "s' = s" "rd_offset s < limit s" by auto
    have "good_at B (case x of Inl k' \<Rightarrow> while_below fuel limit body k' | Inr r \<Rightarrow> yield (Inr r)) s1"
      if x: "run_state (body k) s = (Some x, s1)" "B s1" "same_frame s s1" for x s1
    proof (cases x)
      case (Inl k')
      have "rd_offset s < rd_offset s1" using body(2) x(1) Suc.prems(1) by (auto simp: moves_def)
      then have "limit s1 - rd_offset s1 < fuel" using Suc.prems(2) limit [OF x(3)] s'(2) by simp
      with Inl Suc.IH x(2) show ?thesis by simp
    qed (use x(2) in simp)
    then have "good_at B (CHECK (body k) (\<lambda>x. case x of Inl k' \<Rightarrow> while_below fuel limit body k' | Inr r \<Rightarrow> yield (Inr r))) s"
      using body(1) [of k] Suc.prems(1) by (intro good_at_CHECK) (auto simp: good_def)
    with True s' show ?thesis by simp
  qed (use m in simp)
  then show ?case
    using good_look [of B "\<lambda>s. rd_offset s < limit s"] Suc.prems(1)
    by (simp only: while_below.simps, intro good_at_CHECK) (auto simp: good_def)
qed simp

lemma good_while_more:
  assumes "\<And>k. good B (body k)" "\<And>k. moves B (body k)"
    and "\<And>s s'. same_frame s s' \<Longrightarrow> limit s' = limit s"
  shows "good B (while_more limit body k)"
  unfolding good_def
proof (intro allI impI)
  fix s
  assume "B s"
  have "good_at B (while_below (Suc (limit s - rd_offset s)) limit body k) s"
  proof (rule good_at_while_below)
    show "B s" by fact
  qed (use assms in simp_all)
  then show "good_at B (while_more limit body k) s"
    by (simp add: while_more_def good_at_def del: while_below.simps)
qed

lemma leb_stops_length: "leb_stops p i \<Longrightarrow> i < length p"
  by (simp add: leb_stops_def)

lemma fst_if_le:
  "\<lbrakk>b \<Longrightarrow> fst x \<le> n; \<not> b \<Longrightarrow> fst y \<le> n\<rbrakk> \<Longrightarrow> fst (if b then x else y) \<le> (n :: nat)"
  by simp

lemma leb_bytes:
  "fst (ReadU32Leb128 p) \<le> length p" "fst (ReadU64Leb128 p) \<le> length p"
  "fst (ReadS32Leb128 p) \<le> length p" "fst (ReadS64Leb128 p) \<le> length p"
  unfolding ReadU32Leb128_def ReadU64Leb128_def ReadS32Leb128_def ReadS64Leb128_def Let_def
  by (rule fst_if_le | simp only: fst_conv le0 | (drule leb_stops_length, linarith))+

definition unread :: "reader \<Rightarrow> u8 list" where
  "unread s = drop (rd_offset s) (take (read_end s) (rd_data s))"

lemma advance_unread:
  "\<lbrakk>n \<le> length (unread s); 0 < n\<rbrakk> \<Longrightarrow> rd_offset s + n \<le> read_end s"
  by (auto simp: unread_def)

section \<open>Value readers under any bound\<close>

locale reader_bound =
  fixes B :: "reader \<Rightarrow> bool"
  assumes B_cong: "\<lbrakk>rd_offset s' = rd_offset s; read_end s' = read_end s; B s\<rbrakk> \<Longrightarrow> B s'"
    and B_advance: "\<lbrakk>B s; rd_offset s + n \<le> read_end s\<rbrakk> \<Longrightarrow> B (s\<lparr>rd_offset := rd_offset s + n\<rparr>)"
begin

lemma B_calls: "B s \<Longrightarrow> B (s\<lparr>rd_calls := c\<rparr>)"
  by (erule B_cong [rotated 2]) simp_all

lemma good_ERROR_IF [good_intros]: "good B (ERROR_IF b fmt args)"
  by (rule goodI) (auto simp: reports_refl reports_error B_calls split: if_splits)

lemma good_ERROR_UNLESS [good_intros]: "good B (ERROR_UNLESS b fmt args)"
  by (simp add: ERROR_UNLESS_def good_ERROR_IF)

lemma good_report [good_intros]: "good B (CHECK (PrintError_br fmt args) (\<lambda>_. fail ()))"
  by (rule goodI) (auto simp: reports_error B_calls)

lemma good_ReportUnexpectedOpcode [good_intros]: "good B (ReportUnexpectedOpcode opcode)"
  unfolding ReportUnexpectedOpcode_def by (rule good_report)

lemma good_CALLBACK [good_intros]: "good B (CALLBACK member args)"
  by (rule goodI) (auto simp: CALLBACK_def reports_def the_level_def B_calls split: if_splits)

lemma good_update:
  assumes "\<And>s. rd_offset (f s) = rd_offset s" "\<And>s. rd_calls (f s) = rd_calls s" "\<And>s. same_frame s (f s)"
  shows "good B (update f)"
  using assms by (intro goodI) (auto simp: reports_same_calls same_frame_def intro: B_cong)

lemma good_counters [good_intros]:
  "good B (update (\<lambda>s. s\<lparr>did_read_names_section := b\<rparr>))"
  "good B (update (\<lambda>s. s\<lparr>num_func_imports := g s\<rparr>))"
  "good B (update (\<lambda>s. s\<lparr>num_table_imports := g s\<rparr>))"
  "good B (update (\<lambda>s. s\<lparr>num_memory_imports := g s\<rparr>))"
  "good B (update (\<lambda>s. s\<lparr>num_global_imports := g s\<rparr>))"
  "good B (update (\<lambda>s. s\<lparr>num_tag_imports := g s\<rparr>))"
  "good B (update (\<lambda>s. s\<lparr>num_function_signatures := g s\<rparr>))"
  "good B (update (\<lambda>s. s\<lparr>num_function_bodies := g s\<rparr>))"
  "good B (update (\<lambda>s. s\<lparr>data_count := g s\<rparr>))"
  by (rule good_update; simp)+

text \<open>A guarded advance: the check, the value and the advance together.\<close>

lemma good_take:
  "good B (CHECK (look rd_offset) (\<lambda>off. CHECK (look read_end) (\<lambda>end.
     CHECK (ERROR_IF (end < off + n) fmt args) (\<lambda>_. CHECK (look (f off)) (\<lambda>x.
     CHECK (advance n) (\<lambda>_. yield (g x)))))))"
  by (rule goodI)
    (auto simp: reports_error B_calls reports_same_calls not_less intro: B_advance split: if_splits)

lemma good_ReadT [good_intros]: "good B (ReadT n type_name desc)"
  unfolding ReadT_def by (rule good_take)

lemma good_ReadBytesWithSize [good_intros]: "good B (ReadBytesWithSize n desc)"
  unfolding ReadBytesWithSize_def ERROR_UNLESS_def not_le by (rule good_take)

lemma good_leb:
  assumes "\<And>p. fst (f p) \<le> length p"
  shows "good B (CHECK (look (\<lambda>s. drop (rd_offset s) (take (read_end s) (rd_data s)))) (\<lambda>p.
    let (n, v) = f p in CHECK (ERROR_UNLESS (0 < n) fmt args) (\<lambda>_.
    CHECK (advance n) (\<lambda>_. yield (the v)))))"
proof (rule goodI)
  fix s r s'
  assume "B s" and run: "run_state (CHECK (look (\<lambda>s. drop (rd_offset s) (take (read_end s) (rd_data s)))) (\<lambda>p.
    let (n, v) = f p in CHECK (ERROR_UNLESS (0 < n) fmt args) (\<lambda>_.
    CHECK (advance n) (\<lambda>_. yield (the v))))) s = (r, s')"
  obtain n v where nv: "f (unread s) = (n, v)" by fastforce
  with assms [of "unread s"] have "0 < n \<Longrightarrow> rd_offset s + n \<le> read_end s"
    by (auto intro: advance_unread)
  with run nv \<open>B s\<close> show "same_frame s s' \<and> B s' \<and> reports s r s'"
    by (auto simp: unread_def [symmetric] reports_error B_calls reports_same_calls B_advance
        split: if_splits)
qed

lemma good_lebs [good_intros]:
  "good B (ReadU32Leb128_br desc)" "good B (ReadU64Leb128_br desc)"
  "good B (ReadS32Leb128_br desc)" "good B (ReadS64Leb128_br desc)"
  unfolding ReadU32Leb128_br_def ReadU64Leb128_br_def ReadS32Leb128_br_def ReadS64Leb128_br_def
  by (rule good_leb, rule leb_bytes)+

lemma good_fixed [good_intros]:
  "good B (ReadU8 desc)" "good B (ReadU32 desc)" "good B (ReadF32 desc)" "good B (ReadF64 desc)"
  "good B (ReadV128 desc)"
  by (auto simp: ReadU8_def ReadU32_def ReadF32_def ReadF64_def ReadV128_def intro!: good_intros)

lemma good_ReadOpcode [good_intros]: "good B (ReadOpcode desc)"
  by (auto simp: ReadOpcode_def intro!: good_intros)

lemma good_ReadStr [good_intros]: "good B (ReadStr desc)"
proof -
  have "good B (CHECK (look rd_offset) (\<lambda>off. CHECK (look read_end) (\<lambda>end.
     CHECK (ERROR_UNLESS (off + n \<le> end) fmt args) (\<lambda>_.
     CHECK (look (\<lambda>s. take n (drop off (rd_data s)))) (\<lambda>str.
     CHECK (advance n) (\<lambda>_. CHECK (ERROR_UNLESS (ok str) fmt' args') (\<lambda>_. yield str)))))))"
    for n fmt args ok fmt' args'
    by (rule goodI)
      (auto simp: reports_def the_level_def B_calls not_less intro!: B_calls B_advance split: if_splits)
  then show ?thesis unfolding ReadStr_def by (rule good_CHECK [OF good_lebs(1)])
qed

lemma good_values [good_intros]:
  "good B (ReadType desc)" "good B (ReadRefType desc)" "good B (ReadExternalKind desc)"
  "good B (ReadBytes desc)" "good B (ReadIndex desc)" "good B (ReadOffset desc)"
  "good B (ReadAlignment desc)" "good B (CheckAlignment a desc)" "good B (ReadMemidx desc)"
  "good B (ReadAddress i desc)" "good B (CheckCount desc n)" "good B (ReadCount desc)"
  by (auto simp: ReadType_def ReadRefType_def ReadExternalKind_def ReadBytes_def ReadIndex_def
      ReadOffset_def ReadAlignment_def CheckAlignment_def ReadMemidx_def ReadAddress_def
      CheckCount_def ReadCount_def intro!: good_intros)

lemma good_locations [good_intros]:
  "good B (ReadMemLocation lane d1 d2 d3)" "good B (CallbackMemLocation a m f l)"
  by (auto simp: ReadMemLocation_def CallbackMemLocation_def intro!: good_intros)

lemma good_entities [good_intros]:
  "good B ReadField" "good B ReadTable" "good B ReadMemory" "good B ReadGlobalHeader"
  "good B ReadTagType"
  by (auto simp: ReadField_def ReadTable_def ReadMemory_def ReadGlobalHeader_def ReadTagType_def
      intro!: good_intros)

end

section \<open>The bounds\<close>

text \<open>
  The offset is at least \<open>b\<close>; and, within a section or sub-section that ends at \<open>e\<close>, also at
  most \<open>e\<close>.
\<close>

definition past :: "nat \<Rightarrow> reader \<Rightarrow> bool" where
  "past b s \<longleftrightarrow> b \<le> rd_offset s"

definition span :: "nat \<Rightarrow> nat \<Rightarrow> reader \<Rightarrow> bool" where
  "span b e s \<longleftrightarrow> b \<le> rd_offset s \<and> rd_offset s \<le> e \<and> read_end s = e"

interpretation past: reader_bound "past b" for b
  by unfold_locales (auto simp: past_def)

interpretation span: reader_bound "span b e" for b e
  by unfold_locales (auto simp: span_def)

end
