(* ===== verification/Binary_Reader_Bounds.thy ===== *)
theory Binary_Reader_Bounds
  imports Binary_Reader_Facts
begin

text \<open>
  The judgement of Binary_Reader_Facts for the instruction reader and for every section: the offset
  stays between the start and the end of the section, each failure is reported once, every
  round of a loop moves on.
\<close>

section \<open>Instructions\<close>

context reader_bound
begin

lemma good_reserved [good_intros]:
  "good B (ReadReserved desc message)" "good B (ReadMemidxOrReserved d1 m d2)"
  "good B (ReadTableIndexOrReserved d1 d2 m)"
  by (auto simp: ReadReserved_def ReadMemidxOrReserved_def ReadTableIndexOrReserved_def intro!: good_intros)

lemma good_switch_control: "good B other \<Longrightarrow> good B (switch_control opcode nested other)"
  unfolding switch_control_def by (intro good_intros; assumption)

lemma good_switch_const: "good B other \<Longrightarrow> good B (switch_const opcode nested other)"
  unfolding switch_const_def by (intro good_intros; assumption)

lemma good_switch_variable: "good B other \<Longrightarrow> good B (switch_variable opcode nested other)"
  unfolding switch_variable_def by (intro good_intros; assumption)

lemma good_switch_memory: "good B other \<Longrightarrow> good B (switch_memory opcode nested other)"
  unfolding switch_memory_def by (intro good_intros; assumption)

lemma good_switch_arithmetic: "good B other \<Longrightarrow> good B (switch_arithmetic opcode nested other)"
  unfolding switch_arithmetic_def by (intro good_intros; assumption)

lemma good_switch_simd: "good B other \<Longrightarrow> good B (switch_simd opcode nested other)"
  unfolding switch_simd_def by (intro good_intros; assumption)

lemma good_switch_convert: "good B other \<Longrightarrow> good B (switch_convert opcode nested other)"
  unfolding switch_convert_def by (intro good_intros; assumption)

lemma good_switch_exceptions: "good B other \<Longrightarrow> good B (switch_exceptions opcode nested other)"
  unfolding switch_exceptions_def by (intro good_intros; assumption)

lemma good_switch_atomics: "good B other \<Longrightarrow> good B (switch_atomics opcode nested other)"
  unfolding switch_atomics_def by (intro good_intros; assumption)

lemma good_switch_bulk: "good B other \<Longrightarrow> good B (switch_bulk opcode nested other)"
  unfolding switch_bulk_def by (intro good_intros; assumption)

lemma good_switch_reference: "good B other \<Longrightarrow> good B (switch_reference opcode nested other)"
  unfolding switch_reference_def by (intro good_intros; assumption)

lemma good_switch_opcode [good_intros]: "good B (switch_opcode opcode nested)"
  unfolding switch_opcode_def
  by (intro good_switch_control good_switch_const good_switch_variable good_switch_memory
      good_switch_arithmetic good_switch_simd good_switch_convert good_switch_exceptions
      good_switch_atomics good_switch_bulk good_switch_reference good_ReportUnexpectedOpcode)

lemma good_ReadInstruction [good_intros]: "good B (ReadInstruction nested)"
  unfolding ReadInstruction_def by (intro good_intros)

end

lemma moves_ReadU8: "moves B (ReadU8 desc)"
  by (auto simp: moves_def ReadU8_def ReadT_def split: if_splits)

lemma moves_leb:
  "moves B (ReadU32Leb128_br desc)" "moves B (ReadOffset desc)"
  by (auto simp: moves_def ReadOffset_def ReadU32Leb128_br_def split: if_splits prod.splits option.splits)

lemma moves_CHECK_past:
  assumes "moves (past 0) m" "\<And>x b. good (past b) (k x)"
  shows "moves (past 0) (CHECK m k)"
  unfolding moves_def
proof (intro allI impI)
  fix s x s'
  assume "run_state (CHECK m k) s = (Some x, s')"
  then obtain y s1 where m: "run_state m s = (Some y, s1)" and k: "run_state (k y) s1 = (Some x, s')"
    by (auto split: prod.splits option.splits)
  have "rd_offset s < rd_offset s1" using assms(1) m by (auto simp: moves_def past_def)
  moreover have "past (rd_offset s1) s'"
    using goodD [OF assms(2) _ k] by (auto simp: past_def)
  ultimately show "rd_offset s < rd_offset s'" by (simp add: past_def)
qed

lemma moves_CHECK_span:
  assumes "moves (span 0 e) m" "good (span 0 e) m" "\<And>x b. good (span b e) (k x)"
  shows "moves (span 0 e) (CHECK m k)"
  unfolding moves_def
proof (intro allI impI)
  fix s x s'
  assume s: "span 0 e s" and "run_state (CHECK m k) s = (Some x, s')"
  then obtain y s1 where m: "run_state m s = (Some y, s1)" and k: "run_state (k y) s1 = (Some x, s')"
    by (auto split: prod.splits option.splits)
  have "rd_offset s < rd_offset s1" using assms(1) m s by (auto simp: moves_def)
  moreover have "span 0 e s1" using goodD [OF assms(2) s m] by simp
  then have "span (rd_offset s1) e s'"
    using goodD [OF assms(3) _ k] by (auto simp: span_def)
  ultimately show "rd_offset s < rd_offset s'" by (simp add: span_def)
qed

lemma moves_weaken: "moves B m \<Longrightarrow> (\<And>s. C s \<Longrightarrow> B s) \<Longrightarrow> moves C m"
  by (auto simp: moves_def)

lemma moves_past_0: "moves (past 0) m \<Longrightarrow> moves B m"
  by (auto simp: moves_def past_def)

lemma moves_ReadOpcode: "moves B (ReadOpcode desc)"
  unfolding ReadOpcode_def
  by (rule moves_past_0, rule moves_CHECK_past, rule moves_ReadU8, intro good_intros)

lemma moves_ReadInstruction: "moves B (ReadInstruction nested)"
  unfolding ReadInstruction_def
  by (rule moves_past_0, rule moves_CHECK_past, rule moves_ReadOpcode, intro good_intros)

context reader_bound
begin

lemma good_ReadInstructions [good_intros]: "good B (ReadInstructions end_offset what)"
  unfolding ReadInstructions_def
  by (intro good_intros good_while_more moves_ReadInstruction refl)

lemma good_bodies [good_intros]: "good B ReadInitExpr" "good B (ReadFunctionBody end_offset)"
  by (auto simp: ReadInitExpr_def ReadFunctionBody_def intro!: good_intros)

end

section \<open>Scopes\<close>

lemma good_jump_past [good_intros]: "b \<le> n \<Longrightarrow> good (past b) (jump n)"
  by (rule goodI) (auto simp: past_def reports_same_calls)

lemma good_jump_span [good_intros]: "b \<le> e \<Longrightarrow> good (span b e) (jump e)"
  by (rule goodI) (auto simp: span_def reports_same_calls)

lemma good_backtrack [good_intros]: "good (span b e) m \<Longrightarrow> good (span b e) (backtrack m)"
  by (rule goodI) (auto simp: backtrack_def span_def reports_def dest!: goodD split: prod.splits)

lemma good_with_read_end:
  assumes "\<And>b. good (span b n) m" "n \<le> e" "rd_offset s \<le> n" "span b e s"
  shows "good_at (span b e) (with_read_end n m) s"
proof -
  let ?s = "s\<lparr>read_end := n\<rparr>"
  obtain r s1 where run: "run_state m ?s = (r, s1)" by fastforce
  have "span b n ?s" using assms(3,4) by (simp add: span_def)
  from goodD [OF assms(1) this run] run assms show ?thesis
    by (auto simp: good_at_def with_read_end_def same_frame_def span_def reports_def the_level_def)
qed

text \<open>The frame of a sub-section.\<close>

lemma good_subsection:
  assumes m: "\<And>b' e'. b' \<le> e' \<Longrightarrow> good (span b' e') (m e')" and k: "good (span b e) k"
  shows "good (span b e) (CHECK (look rd_offset) (\<lambda>off. CHECK (look read_end) (\<lambda>end.
    let se = off + n in CHECK (ERROR_UNLESS (se \<le> end) fmt (args se)) (\<lambda>_.
    CHECK (with_read_end se (m se)) (\<lambda>_. k)))))"
  unfolding good_def
proof (intro allI impI)
  fix s
  assume s: "span b e s"
  let ?se = "rd_offset s + n"
  have "good_at (span b e) (CHECK (ERROR_UNLESS (?se \<le> e) fmt (args ?se)) (\<lambda>_.
    CHECK (with_read_end ?se (m ?se)) (\<lambda>_. k))) s"
  proof (rule good_at_CHECK)
    show "good_at (span b e) (ERROR_UNLESS (?se \<le> e) fmt (args ?se)) s"
      using s span.good_ERROR_UNLESS by (simp add: good_def)
    fix u s'
    assume "run_state (ERROR_UNLESS (?se \<le> e) fmt (args ?se)) s = (Some u, s')"
    then have [simp]: "s' = s" and le: "?se \<le> e" by (auto split: if_splits)
    have "good_at (span b e) (with_read_end ?se (m ?se)) s"
    proof (rule good_with_read_end [OF _ le _ s])
      show "good (span b ?se) (m ?se)" for b
      proof (cases "b \<le> ?se")
        case False
        then show ?thesis by (auto simp: good_def span_def)
      qed (rule m)
    qed simp
    then show "good_at (span b e) (CHECK (with_read_end ?se (m ?se)) (\<lambda>_. k)) s'"
      using k by (auto intro!: good_at_CHECK simp: good_def)
  qed
  with s show "good_at (span b e) (CHECK (look rd_offset) (\<lambda>off. CHECK (look read_end) (\<lambda>end.
    let se = off + n in CHECK (ERROR_UNLESS (se \<le> end) fmt (args se)) (\<lambda>_.
    CHECK (with_read_end se (m se)) (\<lambda>_. k))))) s"
    by (simp only: good_at_def run_CHECK run_look prod.case option.case Let_def span_def)
qed


section \<open>Sections without sub-sections\<close>

context reader_bound
begin

lemma good_names [good_intros]:
  "good B (ReadModuleNames i t n)" "good B (ReadFunctionName l)" "good B (ReadLocalName fi l)"
  by (auto simp: ReadModuleNames_def ReadFunctionName_def ReadLocalName_def intro!: good_intros)

lemma good_local_names [good_intros]:
  "good B (ReadLocalNamesOfFunction l)" "good B (ReadFunctionNames i t n)" "good B (ReadLocalNames i t n)"
  by (auto simp: ReadLocalNamesOfFunction_def ReadFunctionNames_def ReadLocalNames_def intro!: good_intros)

lemma good_ReadReloc [good_intros]: "good B ReadReloc"
  unfolding ReadReloc_def by (intro good_intros)

lemma good_dylink [good_intros]:
  "good B ReadDylinkInfo" "good B ReadDylinkNeeded" "good B ReadDylinkImports" "good B ReadDylinkExports"
  unfolding ReadDylinkInfo_def ReadDylinkNeeded_def ReadDylinkImports_def ReadDylinkExports_def
  by (intro good_intros)+

lemma good_ReadSymbol [good_intros]: "good B (ReadSymbol i)"
  unfolding ReadSymbol_def by (intro good_intros)

lemma good_linking [good_intros]:
  "good B ReadSymbolTable" "good B ReadSegmentInfos" "good B ReadInitFunctions" "good B ReadComdats"
  unfolding ReadSymbolTable_def ReadSegmentInfos_def ReadInitFunctions_def ReadComdats_def
  by (intro good_intros)+

lemma good_metadata [good_intros]:
  "good B (ReadCodeMetadataInstance l)" "good B (ReadCodeMetadataFunction l')"
  by (auto simp: ReadCodeMetadataInstance_def ReadCodeMetadataFunction_def intro!: good_intros)

lemma good_custom_sections [good_intros]:
  "good B (ReadRelocSection n)" "good B (ReadDylinkSection n)" "good B (ReadTargetFeaturesSections n)"
  "good B (ReadGenericCustomSection name n)" "good B (ReadCodeMetadataSection name n)"
  unfolding ReadRelocSection_def ReadDylinkSection_def ReadTargetFeaturesSections_def
    ReadGenericCustomSection_def ReadCodeMetadataSection_def
  by (intro good_intros)+

lemma good_types [good_intros]:
  "good B (ReadConcreteTypes desc message n)" "good B ReadTypeForm" "good B (ReadTypeEntry i)"
  by (auto simp: ReadConcreteTypes_def ReadTypeForm_def ReadTypeEntry_def intro!: good_intros)

lemma good_ReadImport [good_intros]: "good B (ReadImport i)"
  unfolding ReadImport_def by (intro good_intros)

lemma good_segments [good_intros]:
  "good B (ReadElemExpr i flags j)" "good B (ReadElemSegment i)" "good B (ReadDataSegment i)"
  by (auto simp: ReadElemExpr_def ReadElemSegment_def ReadDataSegment_def intro!: good_intros)

lemma good_sections [good_intros]:
  "good B (ReadTypeSection n)" "good B (ReadImportSection n)" "good B (ReadFunctionSection n)"
  "good B (ReadTableSection n)" "good B (ReadMemorySection n)" "good B (ReadGlobalSection n)"
  "good B (ReadExportSection n)" "good B (ReadStartSection n)" "good B (ReadElemSection n)"
  "good B (ReadDataSection n)" "good B (ReadTagSection n)" "good B (ReadDataCountSection n)"
  unfolding ReadTypeSection_def ReadImportSection_def ReadFunctionSection_def ReadTableSection_def
    ReadMemorySection_def ReadGlobalSection_def ReadExportSection_def ReadStartSection_def
    ReadElemSection_def ReadDataSection_def ReadTagSection_def ReadDataCountSection_def
  by (intro good_intros)+

lemma good_ReadLocalDecl [good_intros]: "good B (ReadLocalDecl k t)"
  unfolding ReadLocalDecl_def by (intro good_intros)

end

section \<open>Sections of sub-sections\<close>

lemma good_ReadNameEntries: "b \<le> e \<Longrightarrow> good (span b e) (ReadNameEntries t n e)"
  unfolding ReadNameEntries_def by (intro good_intros)

lemma good_ReadDylinkSubsection: "b \<le> e \<Longrightarrow> good (span b e) (ReadDylinkSubsection t e)"
  unfolding ReadDylinkSubsection_def by (intro good_intros)

lemma good_ReadLinkingSubsection: "b \<le> e \<Longrightarrow> good (span b e) (ReadLinkingSubsection t e)"
  unfolding ReadLinkingSubsection_def by (intro good_intros)

lemma good_ReadSubsection:
  assumes "\<And>t b e. b \<le> e \<Longrightarrow> good (span b e) (body t e)"
  shows "good (span b e) (ReadSubsection body)"
  unfolding ReadSubsection_def
  by (intro good_intros good_subsection assms)

lemma good_ReadNameSubsection: "good (span b e) (ReadNameSubsection k)"
  unfolding ReadNameSubsection_def
  by (intro good_intros good_subsection good_ReadNameEntries; assumption)

lemma span_0: "span b e s \<Longrightarrow> span 0 e s"
  by (simp add: span_def)

lemma moves_ReadSubsection:
  assumes "\<And>t b e. b \<le> e \<Longrightarrow> good (span b e) (body t e)"
  shows "moves (span b e) (ReadSubsection body)"
proof (rule moves_weaken [OF _ span_0])
  show "moves (span 0 e) (ReadSubsection body)"
    unfolding ReadSubsection_def
    by (rule moves_CHECK_span) (intro moves_leb good_intros good_subsection assms)+
qed

lemma moves_ReadNameSubsection: "moves (span b e) (ReadNameSubsection k)"
proof (rule moves_weaken [OF _ span_0], cases k)
  show "moves (span 0 e) (ReadNameSubsection k)" if "k = (i, t)" for i t
    unfolding that ReadNameSubsection_def Let_def prod.case
    by (rule moves_CHECK_span, rule moves_leb, intro good_intros,
        intro good_intros good_subsection [unfolded Let_def] good_ReadNameEntries; assumption)
qed

lemma good_ReadNameSection [good_intros]: "good (span b e) (ReadNameSection n)"
  unfolding ReadNameSection_def
  by (intro good_intros good_while_more good_ReadNameSubsection moves_ReadNameSubsection)
    (simp add: same_frame_def)

lemma good_ReadDylink0Section [good_intros]: "good (span b e) (ReadDylink0Section n)"
  unfolding ReadDylink0Section_def
  by (intro good_intros good_while_more good_ReadSubsection moves_ReadSubsection
      good_ReadDylinkSubsection; assumption?)
    (simp add: same_frame_def)

lemma good_ReadLinkingSection [good_intros]: "good (span b e) (ReadLinkingSection n)"
  unfolding ReadLinkingSection_def
  by (intro good_intros good_while_more good_ReadSubsection moves_ReadSubsection
      good_ReadLinkingSubsection; assumption?)
    (simp add: same_frame_def)

section \<open>Code and custom sections\<close>

lemma good_look_offset:
  assumes "\<And>off. b \<le> off \<Longrightarrow> good (past b) (k off)"
  shows "good (past b) (CHECK (look rd_offset) k)"
  unfolding good_def
proof (intro allI impI)
  fix s
  assume s: "past b s"
  with assms [of "rd_offset s"] have "good_at (past b) (k (rd_offset s)) s"
    by (simp add: good_def past_def)
  then show "good_at (past b) (CHECK (look rd_offset) k) s" by (simp add: good_at_def)
qed

lemma good_look_end:
  assumes "b \<le> e \<Longrightarrow> good (span b e) (k e)"
  shows "good (span b e) (CHECK (look read_end) k)"
  unfolding good_def
proof (intro allI impI)
  fix s
  assume s: "span b e s"
  with assms have "good_at (span b e) (k e) s" by (simp add: good_def span_def)
  with s show "good_at (span b e) (CHECK (look read_end) k) s" by (simp add: good_at_def span_def)
qed

lemma good_ReadCodeEntry [good_intros]: "good (past b) (ReadCodeEntry i)"
  unfolding ReadCodeEntry_def Let_def
  by (intro good_intros good_look_offset | simp)+

lemma good_ReadCodeSection [good_intros]: "good (past b) (ReadCodeSection n)"
  unfolding ReadCodeSection_def by (intro good_intros)

lemma good_ReadKnownCustomSection: "good (span b e) (ReadKnownCustomSection name n)"
  unfolding ReadKnownCustomSection_def
  by (intro good_intros good_look_end; assumption)

end
