(* ===== verification/Binary_Reader_Module.thy ===== *)
theory Binary_Reader_Module
  imports Binary_Reader_Bounds
begin

text \<open>
  The loop over the sections and the whole reader: it ends for every input and every delegate, its
  result agrees with its reports, and an accepted module has been read to the end.
\<close>

section \<open>One section\<close>

text \<open>
  What the reading of a section adds to the calls: a report if and only if it fails, and warnings
  only from a custom section whose errors are to be forgiven.
\<close>

definition settled :: "bool \<Rightarrow> reader \<Rightarrow> 'a option \<Rightarrow> reader \<Rightarrow> bool" where
  "settled forgiving s r s' \<longleftrightarrow> same_frame s s' \<and>
     (\<exists>es. rd_calls s' = rd_calls s @ es \<and> (LevelWarning \<in> set (errs es) \<longrightarrow> forgiving) \<and>
           (errs es \<noteq> [] \<longleftrightarrow> r = None))"

definition forgives :: "reader \<Rightarrow> binary_section \<Rightarrow> bool" where
  "forgives s sec \<longleftrightarrow> sec = SecCustom \<and> \<not> fail_on_custom_section_error (rd_options s)"

lemma reports_settled:
  "\<lbrakk>reports s r s'; same_frame s s'; \<not> reading_custom_section s\<rbrakk> \<Longrightarrow> settled forgiving s r s'"
  by (auto simp: reports_def settled_def the_level_def)

lemma settled_good:
  "\<lbrakk>good B m; B s; run_state m s = (r, s'); \<not> reading_custom_section s\<rbrakk> \<Longrightarrow> settled forgiving s r s'"
  by (drule (2) goodD) (simp add: reports_settled)

lemma run_with_reading_custom_section:
  "run_state (with_reading_custom_section m) s =
     (let (r, s') = run_state m (s\<lparr>reading_custom_section := True\<rparr>)
      in (r, s'\<lparr>reading_custom_section := reading_custom_section s\<rparr>))"
  by (simp add: with_reading_custom_section_def split: prod.splits)

lemma settled_custom:
  assumes "good (span b e) m" "span b e s" "run_state (with_reading_custom_section m) s = (r, s')"
  shows "settled (forgives s SecCustom) s r s'"
proof -
  let ?t = "s\<lparr>reading_custom_section := True\<rparr>"
  obtain t' where t': "run_state m ?t = (r, t')" "s' = t'\<lparr>reading_custom_section := reading_custom_section s\<rparr>"
    using assms(3) by (auto simp: run_with_reading_custom_section split: prod.splits)
  moreover have "span b e ?t" using assms(2) by (simp add: span_def)
  ultimately have "same_frame ?t t' \<and> reports ?t r t'" using goodD [OF assms(1)] by blast
  with t' show ?thesis
    by (auto simp: settled_def same_frame_def reports_def the_level_def forgives_def split: if_splits)
qed

lemma settled_CHECK:
  assumes run: "run_state (CHECK m k) s = (r, s')"
    and m: "\<And>x s1. run_state m s = (x, s1) \<Longrightarrow> settled fg s x s1 \<and> B s1"
    and k: "\<And>x s1. \<lbrakk>run_state (k x) s1 = (r, s'); same_frame s s1; B s1\<rbrakk> \<Longrightarrow> settled fg s1 r s'"
  shows "settled fg s r s'"
proof -
  obtain x s1 where x: "run_state m s = (x, s1)" by fastforce
  show ?thesis
  proof (cases x)
    case None
    with run x have "r = None" "s' = s1" by simp_all
    with m [OF x] None show ?thesis by (simp add: settled_def)
  next
    case (Some y)
    with run x have "run_state (k y) s1 = (r, s')" by simp
    from k [OF this] m [OF x] Some show ?thesis
      by (auto simp: settled_def intro: same_frame_trans)
  qed
qed

lemma settled_ReadCustomSection:
  assumes "span b e s" "\<not> reading_custom_section s" "run_state (ReadCustomSection i n) s = (r, s')"
  shows "settled (forgives s SecCustom) s r s'"
proof (rule settled_CHECK [OF assms(3) [unfolded ReadCustomSection_def], where B = "span b e"])
  fix name s1
  assume "run_state (ReadStr ''section name'') s = (name, s1)"
  from goodD [OF span.good_ReadStr assms(1) this] assms(2) reports_settled
  show "settled (forgives s SecCustom) s name s1 \<and> span b e s1" by blast
next
  fix name s1
  assume run: "run_state (CHECK (CALLBACK ''BeginCustomSection'' [AU32 i, ASize n, AStr name]) (\<lambda>_.
     with_reading_custom_section (CHECK (backtrack (ReadGenericCustomSection name n)) (\<lambda>_.
       CHECK (ReadKnownCustomSection name n) (\<lambda>_. CALLBACK ''EndCustomSection'' []))))) s1 = (r, s')"
    and f: "same_frame s s1" and s1: "span b e s1"
  from f assms(2) have not: "\<not> reading_custom_section s1" by (simp add: same_frame_def)
  from f have fg: "forgives s1 SecCustom = forgives s SecCustom" by (simp add: same_frame_def forgives_def)
  from run show "settled (forgives s SecCustom) s1 r s'"
  proof (rule settled_CHECK [where B = "span b e"])
    fix u s2
    assume "run_state (CALLBACK ''BeginCustomSection'' [AU32 i, ASize n, AStr name]) s1 = (u, s2)"
    from goodD [OF span.good_CALLBACK s1 this] not reports_settled
    show "settled (forgives s SecCustom) s1 u s2 \<and> span b e s2" by blast
  next
    fix u s2
    assume r2: "run_state (with_reading_custom_section (CHECK (backtrack (ReadGenericCustomSection name n)) (\<lambda>_.
       CHECK (ReadKnownCustomSection name n) (\<lambda>_. CALLBACK ''EndCustomSection'' [])))) s2 = (r, s')"
      and f2: "same_frame s1 s2" and s2: "span b e s2"
    have "settled (forgives s2 SecCustom) s2 r s'"
      by (rule settled_custom [OF _ s2 r2]) (intro good_intros good_ReadKnownCustomSection)
    moreover have "forgives s2 SecCustom = forgives s SecCustom"
      using f2 fg by (simp add: same_frame_def forgives_def)
    ultimately show "settled (forgives s SecCustom) s2 r s'" by simp
  qed
qed

lemma settled_ReadSection:
  assumes s: "span b e s" "\<not> reading_custom_section s" and run: "run_state (ReadSection sec i n) s = (r, s')"
  shows "settled (forgives s sec) s r s'"
proof -
  have past: "past b s" using s(1) by (simp add: span_def past_def)
  show ?thesis
  proof (cases sec)
    case SecCustom
    with settled_ReadCustomSection s run show ?thesis by simp
  next
    case SecCode
    with run have "run_state (ReadCodeSection n) s = (r, s')" by simp
    from settled_good [OF good_ReadCodeSection past this s(2)] show ?thesis .
  qed (rule settled_good [where B = "span b e", OF _ s(1) run s(2)], simp only: ReadSection.simps,
      intro good_intros)+
qed

section \<open>The loop over the sections\<close>

type_synonym loop_state = "index \<times> bool list \<times> result"

fun verdict :: "(loop_state + unit) option \<Rightarrow> result" where
  "verdict None = Error"
| "verdict (Some (Inl (i, seen, res))) = res"
| "verdict (Some (Inr u)) = Ok"

text \<open>
  A round that starts with the result \<open>res\<close>: errors add up, an error comes with a report, and with
  strict custom sections a report with an error.
\<close>

definition judged :: "reader \<Rightarrow> result \<Rightarrow> result \<Rightarrow> reader \<Rightarrow> bool" where
  "judged s res res' s' \<longleftrightarrow> same_frame s s' \<and> (res = Error \<longrightarrow> res' = Error) \<and>
     (\<exists>es. rd_calls s' = rd_calls s @ es \<and>
       (res' = Error \<longrightarrow> res = Error \<or> LevelError \<in> set (errs es)) \<and>
       (fail_on_custom_section_error (rd_options s) \<and> res' = Ok \<longrightarrow> errs es = []))"

lemma judged_trans:
  assumes "judged s res res1 s1" "judged s1 res1 res2 s2"
  shows "judged s res res2 s2"
proof -
  have f: "same_frame s s2" using assms unfolding judged_def by (blast intro: same_frame_trans)
  have o': "rd_options s1 = rd_options s" using assms(1) by (simp add: judged_def same_frame_def)
  obtain es1 where 1: "rd_calls s1 = rd_calls s @ es1" "res = Error \<longrightarrow> res1 = Error"
    "res1 = Error \<longrightarrow> res = Error \<or> LevelError \<in> set (errs es1)"
    "fail_on_custom_section_error (rd_options s) \<and> res1 = Ok \<longrightarrow> errs es1 = []"
    using assms(1) unfolding judged_def by blast
  obtain es2 where 2: "rd_calls s2 = rd_calls s1 @ es2" "res1 = Error \<longrightarrow> res2 = Error"
    "res2 = Error \<longrightarrow> res1 = Error \<or> LevelError \<in> set (errs es2)"
    "fail_on_custom_section_error (rd_options s) \<and> res2 = Ok \<longrightarrow> errs es2 = []"
    using assms(2) o' unfolding judged_def by metis
  have "rd_calls s2 = rd_calls s @ es1 @ es2" using 1 2 by simp
  moreover have "res2 = Error \<longrightarrow> res = Error \<or> LevelError \<in> set (errs (es1 @ es2))" using 1 2 by auto
  moreover have "fail_on_custom_section_error (rd_options s) \<and> res2 = Ok \<longrightarrow> errs (es1 @ es2) = []"
    using 1 2 by (cases res1) auto
  ultimately show ?thesis unfolding judged_def using f 1(2) 2(2) by blast
qed

lemma reports_judged:
  "\<lbrakk>reports s r s'; same_frame s s'; \<not> reading_custom_section s\<rbrakk> \<Longrightarrow>
     judged s res (if r = None then Error else res) s'"
  by (cases r) (auto simp: reports_def judged_def the_level_def subset_singleton_iff)

lemma judged_CHECK:
  assumes run: "run_state (CHECK m k) s = (r, s')" and m: "good (span b e) m"
    and s: "span b e s" "\<not> reading_custom_section s"
    and k: "\<And>x s1. \<lbrakk>run_state m s = (Some x, s1); run_state (k x) s1 = (r, s'); span b e s1; same_frame s s1\<rbrakk> \<Longrightarrow>
      judged s1 res (verdict r) s' \<and> (\<forall>y. r = Some y \<longrightarrow> P y)"
  shows "judged s res (verdict r) s' \<and> (\<forall>y. r = Some y \<longrightarrow> P y)"
proof -
  obtain x s1 where x: "run_state m s = (x, s1)" by fastforce
  from goodD [OF m s(1) x] have 1: "same_frame s s1" "span b e s1" "reports s x s1" by auto
  show ?thesis
  proof (cases x)
    case None
    with run x have "r = None" "s' = s1" by simp_all
    with reports_judged [OF 1(3,1) s(2)] None show ?thesis by simp
  next
    case (Some y)
    with run x have "run_state (k y) s1 = (r, s')" by simp
    with k [OF _ this 1(2,1)] x Some reports_judged [OF 1(3,1) s(2), of res] show ?thesis
      by (auto intro: judged_trans)
  qed
qed

lemma good_OpenSection: "good (span b e) (OpenSection i sec seen n)"
  unfolding OpenSection_def CheckSection_def by (intro good_intros)

lemma OpenSection_fits: "run_state (OpenSection i sec seen n) s = (Some u, s') \<Longrightarrow> read_end s \<le> length (rd_data s)"
  by (auto simp: OpenSection_def CheckSection_def split: if_splits)

lemma run_attempt:
  "run_state (attempt m) s = (let (r, s') = run_state m s in (Some (case r of None \<Rightarrow> Error | Some _ \<Rightarrow> Ok), s'))"
  by (simp add: attempt_def split: prod.splits)

lemma not_warning: "LevelWarning \<noteq> l \<longleftrightarrow> l = LevelError" "l \<noteq> LevelWarning \<longleftrightarrow> l = LevelError"
  by (cases l; simp)+

lemma judged_settled:
  assumes "settled (forgives s sec) s (if sr = Error then None else Some ()) s1"
  shows "judged s res (if forgives s sec then res else result_or res sr) s1"
proof -
  obtain es where es: "rd_calls s1 = rd_calls s @ es" "LevelWarning \<in> set (errs es) \<longrightarrow> forgives s sec"
    "errs es \<noteq> [] \<longleftrightarrow> sr = Error" and f: "same_frame s s1"
    using assms by (auto simp: settled_def split: if_splits)
  have "LevelError \<in> set (errs es)" if "sr = Error" "\<not> forgives s sec"
    using that es(2,3) by (cases "errs es") (auto simp: not_warning)
  with es f show ?thesis
    by (cases sr) (auto simp: judged_def forgives_def)
qed

lemma judged_unfinished:
  assumes "judged s res res' s1" "\<not> reading_custom_section s"
  shows "judged s res Error (s1\<lparr>rd_calls := rd_calls s1 @ [OnError (the_level s1) n fmt args]\<rparr>)"
  using assms by (auto simp: judged_def the_level_def same_frame_def)

lemma judged_updates [simp]:
  "judged s res res' (s'\<lparr>rd_offset := n\<rparr>) = judged s res res' s'"
  "judged s res res' (s'\<lparr>last_known_section := l\<rparr>) = judged s res res' s'"
  by (simp_all add: judged_def same_frame_def)

text \<open>How a round ends: at the end of the section.\<close>

definition ended :: "nat \<Rightarrow> index \<Rightarrow> (loop_state + unit) option \<Rightarrow> reader \<Rightarrow> bool" where
  "ended e i r s' \<longleftrightarrow> (\<forall>y. r = Some y \<longrightarrow> rd_offset s' = e \<and> (\<exists>seen res. y = Inl (i + 1, seen, res)))"

lemma judged_FinishSection:
  assumes run: "run_state (FinishSection (i, seen, res) sec sr) s1 = (r, s')"
    and st: "settled (forgives s sec) s (if sr = Error then None else Some ()) s1"
    and "\<not> reading_custom_section s"
  shows "judged s res (verdict r) s' \<and> ended (read_end s) i r s'"
proof -
  note j = judged_settled [OF st, of res]
  have e: "read_end s1 = read_end s" and o': "rd_options s1 = rd_options s"
    using st by (simp_all add: settled_def same_frame_def)
  have fg: "sec = SecCustom \<and> \<not> fail_on_custom_section_error (rd_options s) \<longleftrightarrow> forgives s sec"
    by (simp add: forgives_def)
  show ?thesis
  proof (cases "sr = Ok \<and> rd_offset s1 \<noteq> read_end s1")
    case True
    let ?t = "s1\<lparr>rd_calls := rd_calls s1 @ [OnError (the_level s1) (rd_offset s1)
      ''unfinished section (expected end: 0x%zx)'' [ASize (read_end s1)]]\<rparr>"
    have "judged s res Error ?t" by (rule judged_unfinished [OF j assms(3)])
    moreover have "\<exists>seen'. run_state (FinishSection (i, seen, res) sec sr) s1 =
      (if stop_on_first_error (rd_options s) \<and> \<not> forgives s sec then (None, ?t)
       else (Some (Inl (i + 1, seen', Error)), (if sec = SecCustom then ?t\<lparr>rd_offset := read_end s1\<rparr>
         else ?t\<lparr>rd_offset := read_end s1, last_known_section := Some sec\<rparr>)))"
      using True by (simp add: FinishSection_def o' fg Let_def)
    ultimately show ?thesis using run e by (auto simp: ended_def split: if_splits)
  next
    case False
    have "\<exists>seen'. run_state (FinishSection (i, seen, res) sec sr) s1 =
      (let s2 = s1\<lparr>rd_offset := read_end s1\<rparr> in
       if sr = Error \<and> stop_on_first_error (rd_options s) \<and> \<not> forgives s sec then (None, s1)
       else (Some (Inl (i + 1, seen', if forgives s sec then res else result_or res sr)),
         (if sec = SecCustom then s2 else s2\<lparr>last_known_section := Some sec\<rparr>)))"
      using False by (cases sr) (auto simp add: FinishSection_def o' fg Let_def)
    with run j e show ?thesis by (auto simp: Let_def ended_def split: if_splits)
  qed
qed

lemma judged_ReadOneSection:
  assumes s: "span b e s" "\<not> reading_custom_section s"
    and run: "run_state (ReadOneSection (i, seen, res) sec n) s = (r, s')"
  shows "judged s res (verdict r) s' \<and> ended e i r s' \<and> (r \<noteq> None \<longrightarrow> e \<le> length (rd_data s))"
proof -
  obtain u s1 where 1: "run_state (OpenSection i sec seen n) s = (u, s1)" by fastforce
  from goodD [OF good_OpenSection s(1) 1]
  have s1: "same_frame s s1" "span b e s1" "reports s u s1" by auto
  have not: "\<not> reading_custom_section s1" using s1(1) s(2) by (simp add: same_frame_def)
  note j1 = reports_judged [OF s1(3,1) s(2), of res]
  show ?thesis
  proof (cases u)
    case None
    with run 1 have "r = None" "s' = s1" by (simp_all add: ReadOneSection_def)
    with j1 None show ?thesis by (simp add: ended_def)
  next
    case (Some v)
    obtain sr s2 where 2: "run_state (ReadSection sec i n) s1 = (sr, s2)" by fastforce
    let ?sr = "case sr of None \<Rightarrow> Error | Some _ \<Rightarrow> Ok"
    from run 1 2 Some have "run_state (FinishSection (i, seen, res) sec ?sr) s2 = (r, s')"
      by (simp add: ReadOneSection_def run_attempt)
    moreover from settled_ReadSection [OF s1(2) not 2]
    have "settled (forgives s1 sec) s1 (if ?sr = Error then None else Some ()) s2"
      by (cases sr) (auto simp: settled_def)
    ultimately have "judged s1 res (verdict r) s' \<and> ended e i r s'"
      using judged_FinishSection not s1(2) by (metis span_def)
    moreover have "e \<le> length (rd_data s)"
      using OpenSection_fits 1 Some s(1) by (auto simp: span_def)
    ultimately show ?thesis using j1 Some judged_trans by auto
  qed
qed

lemma run_with_read_end:
  "run_state (with_read_end n m) s =
     (let (r, s') = run_state m (s\<lparr>read_end := n\<rparr>) in (r, s'\<lparr>read_end := read_end s\<rparr>))"
  by (simp add: with_read_end_def split: prod.splits)

lemma judged_with_read_end:
  assumes "run_state (with_read_end n m) s = (r, s')"
    and "\<And>t. run_state m (s\<lparr>read_end := n\<rparr>) = (r, t) \<Longrightarrow> judged (s\<lparr>read_end := n\<rparr>) res res' t"
  shows "judged s res res' s'"
proof -
  obtain t where t: "run_state m (s\<lparr>read_end := n\<rparr>) = (r, t)" "s' = t\<lparr>read_end := read_end s\<rparr>"
    using assms(1) by (auto simp: run_with_read_end split: prod.splits)
  from assms(2) [OF t(1)] t(2) show ?thesis by (simp add: judged_def same_frame_def)
qed

text \<open>
  What the loop may rely on between two rounds, and what a round gives: the offset moves on, and it
  is within the data unless there was an error.
\<close>

definition at_header :: "reader \<Rightarrow> result \<Rightarrow> bool" where
  "at_header s res \<longleftrightarrow> read_end s = length (rd_data s) \<and> \<not> reading_custom_section s \<and>
     (res = Ok \<longrightarrow> rd_offset s \<le> length (rd_data s))"

definition advanced :: "nat \<Rightarrow> (loop_state + unit) option \<Rightarrow> reader \<Rightarrow> bool" where
  "advanced b r s' \<longleftrightarrow> (\<forall>y. r = Some y \<longrightarrow> b < rd_offset s' \<and>
     (\<exists>i seen res. y = Inl (i, seen, res) \<and> (res = Ok \<longrightarrow> rd_offset s' \<le> length (rd_data s'))))"

text \<open>The part of a round that knows the end of the section.\<close>

lemma judged_body:
  assumes s: "b < rd_offset s" "\<not> reading_custom_section s"
    and run: "run_state (with_read_end (rd_offset s + n) (if kBinarySectionCount \<le> c
        then CHECK (PrintError_br fmt args) (\<lambda>_. CHECK (look (\<lambda>s. stop_on_first_error (rd_options s))) (\<lambda>stop.
          CHECK (if stop then fail () else jump (rd_offset s + n)) (\<lambda>_. yield (Inl (i + 1, seen, Error)))))
        else ReadOneSection (i, seen, res) sec n)) s = (r, s')"
  shows "judged s res (verdict r) s' \<and> advanced b r s'"
proof -
  let ?t = "s\<lparr>read_end := rd_offset s + n\<rparr>"
  show ?thesis
  proof (cases "kBinarySectionCount \<le> c")
    case True
    with run s show ?thesis
      by (auto simp: run_with_read_end judged_def advanced_def the_level_def same_frame_def split: if_splits)
  next
    case False
    with run have run': "run_state (with_read_end (rd_offset s + n) (ReadOneSection (i, seen, res) sec n)) s = (r, s')"
      by simp
    have t: "span (rd_offset s) (rd_offset s + n) ?t" "\<not> reading_custom_section ?t"
      using s(2) by (simp_all add: span_def)
    note one = judged_ReadOneSection [OF t]
    have j: "judged s res (verdict r) s'"
      by (rule judged_with_read_end [OF run']) (drule one, simp)
    from run' obtain t' where "run_state (ReadOneSection (i, seen, res) sec n) ?t = (r, t')"
      "s' = t'\<lparr>read_end := read_end s\<rparr>"
      by (auto simp: run_with_read_end split: prod.splits)
    with one [OF this(1)] s(1) have "advanced b r s'"
      by (auto simp: advanced_def ended_def judged_def same_frame_def)
    with j show ?thesis by simp
  qed
qed

lemma judged_good:
  assumes run: "run_state (CHECK m k) s = (r, s')" and m: "good (past 0) m" "\<not> reading_custom_section s"
    and k: "\<And>x s1. \<lbrakk>run_state m s = (Some x, s1); run_state (k x) s1 = (r, s'); same_frame s s1\<rbrakk> \<Longrightarrow>
      judged s1 res (verdict r) s' \<and> advanced b r s'"
  shows "judged s res (verdict r) s' \<and> advanced b r s'"
proof -
  obtain x s1 where x: "run_state m s = (x, s1)" by fastforce
  have "past 0 s" by (simp add: past_def)
  from goodD [OF m(1) this x] have 1: "same_frame s s1" "reports s x s1" by auto
  note j = reports_judged [OF 1(2,1) m(2), of res]
  show ?thesis
  proof (cases x)
    case None
    with run x have "r = None" "s' = s1" by simp_all
    with j None show ?thesis by (simp add: advanced_def)
  next
    case (Some y)
    with run x have "run_state (k y) s1 = (r, s')" by simp
    with k [OF _ this 1(1)] x Some j show ?thesis by (auto intro: judged_trans)
  qed
qed

lemma judged_ReadSectionHeader:
  assumes s: "\<not> reading_custom_section s" and run: "run_state (ReadSectionHeader (i, seen, res)) s = (r, s')"
  shows "judged s res (verdict r) s' \<and> advanced (rd_offset s) r s'"
proof (rule judged_good [OF run [unfolded ReadSectionHeader_def] _ s])
  fix c s1
  assume 1: "run_state (ReadU8 ''section code'') s = (Some c, s1)" "same_frame s s1"
    and run1: "run_state (CHECK (ReadOffset ''section size'') (\<lambda>section_size. CHECK (look rd_offset) (\<lambda>off.
     with_read_end (off + section_size) (if kBinarySectionCount \<le> c
        then CHECK (PrintError_br ''invalid section code: %u'' [AU8 c]) (\<lambda>_.
          CHECK (look (\<lambda>s. stop_on_first_error (rd_options s))) (\<lambda>stop.
          CHECK (if stop then fail () else jump (off + section_size)) (\<lambda>_.
          yield (Inl (fst (i, seen, res) + 1, fst (snd (i, seen, res)), Error)))))
        else ReadOneSection (i, seen, res) (binary_sections ! unat c) section_size)))) s1 = (r, s')"
  have less: "rd_offset s < rd_offset s1" using moves_ReadU8 [of "past 0"] 1(1) by (auto simp: moves_def past_def)
  show "judged s1 res (verdict r) s' \<and> advanced (rd_offset s) r s'"
  proof (rule judged_good [OF run1])
    fix n s2
    assume 2: "run_state (ReadOffset ''section size'') s1 = (Some n, s2)" "same_frame s1 s2"
      and run2: "run_state (CHECK (look rd_offset) (\<lambda>off.
     with_read_end (off + n) (if kBinarySectionCount \<le> c
        then CHECK (PrintError_br ''invalid section code: %u'' [AU8 c]) (\<lambda>_.
          CHECK (look (\<lambda>s. stop_on_first_error (rd_options s))) (\<lambda>stop.
          CHECK (if stop then fail () else jump (off + n)) (\<lambda>_.
          yield (Inl (fst (i, seen, res) + 1, fst (snd (i, seen, res)), Error)))))
        else ReadOneSection (i, seen, res) (binary_sections ! unat c) n))) s2 = (r, s')"
    have "rd_offset s1 < rd_offset s2" using moves_leb(2) [of "past 0"] 2(1) by (auto simp: moves_def past_def)
    with less have less': "rd_offset s < rd_offset s2" by simp
    have not: "\<not> reading_custom_section s2" using s 1(2) 2(2) by (simp add: same_frame_def)
    from run2 show "judged s2 res (verdict r) s' \<and> advanced (rd_offset s) r s'"
      by (intro judged_body [OF less' not]) (simp only: run_CHECK run_look prod.case option.case fst_conv snd_conv)
  qed (use s 1(2) in \<open>intro good_intros\<close>, use s 1(2) in \<open>simp add: same_frame_def\<close>)
qed (intro good_intros)

text \<open>The loop: it has rounds enough, and ends at the end of the data or with an error.\<close>

lemma judged_sections:
  "\<lbrakk>at_header s res; length (rd_data s) - rd_offset s < fuel;
    run_state (while_below fuel (\<lambda>s. length (rd_data s)) ReadSectionHeader (i, seen, res)) s = (r, s')\<rbrakk> \<Longrightarrow>
   judged s res (verdict r) s' \<and> (\<forall>y. r = Some y \<longrightarrow> (\<exists>i seen res. y = Inl (i, seen, res))) \<and>
   (verdict r = Ok \<longrightarrow> rd_offset s' = length (rd_data s))"
proof (induction fuel arbitrary: s i seen res)
  case (Suc fuel)
  show ?case
  proof (cases "rd_offset s < length (rd_data s)")
    case False
    with Suc.prems show ?thesis by (auto simp: judged_def at_header_def)
  next
    case True
    obtain x s1 where x: "run_state (ReadSectionHeader (i, seen, res)) s = (x, s1)" by fastforce
    have "\<not> reading_custom_section s" using Suc.prems(1) by (simp add: at_header_def)
    from judged_ReadSectionHeader [OF this x]
    have j: "judged s res (verdict x) s1" "advanced (rd_offset s) x s1" by auto
    then have f: "same_frame s s1" by (simp add: judged_def)
    show ?thesis
    proof (cases x)
      case None
      with x True Suc.prems(3) have "r = None" "s' = s1" by simp_all
      with j None show ?thesis by simp
    next
      case (Some y)
      with j(2) obtain i' seen' res' where y: "y = Inl (i', seen', res')" and less: "rd_offset s < rd_offset s1"
        and le: "res' = Ok \<longrightarrow> rd_offset s1 \<le> length (rd_data s1)"
        by (auto simp: advanced_def)
      have "at_header s1 res'" using Suc.prems(1) f le by (auto simp: at_header_def same_frame_def)
      moreover have "length (rd_data s1) - rd_offset s1 < fuel"
        using Suc.prems(2) f less True by (simp add: same_frame_def)
      moreover have "run_state (while_below fuel (\<lambda>s. length (rd_data s)) ReadSectionHeader (i', seen', res')) s1 = (r, s')"
        using Suc.prems(3) x True Some y by simp
      ultimately have "judged s1 res' (verdict r) s' \<and> (\<forall>y. r = Some y \<longrightarrow> (\<exists>i seen res. y = Inl (i, seen, res))) \<and>
        (verdict r = Ok \<longrightarrow> rd_offset s' = length (rd_data s1))"
        by (rule Suc.IH)
      moreover have "judged s res res' s1" using j(1) Some y by simp
      ultimately show ?thesis using f judged_trans by (auto simp: same_frame_def)
    qed
  qed
qed simp

definition outcome :: "'a option \<Rightarrow> result" where
  "outcome r = (if r = None then Error else Ok)"

lemma judged_ReadSections:
  assumes s: "at_header s Ok" and run: "run_state ReadSections s = (r, s')"
  shows "judged s Ok (outcome r) s' \<and> (r \<noteq> None \<longrightarrow> rd_offset s' = length (rd_data s))"
proof -
  obtain x where x: "run_state (while_below (Suc (length (rd_data s) - rd_offset s)) (\<lambda>s. length (rd_data s))
      ReadSectionHeader (0, replicate 14 False, Ok)) s = (x, s')"
    and r: "outcome r = verdict x"
    using run by (auto simp: ReadSections_def while_more_def outcome_def Succeeded_def simp del: while_below.simps
        split: prod.splits option.splits sum.splits if_splits)
  from judged_sections [OF s _ x] r show ?thesis by (auto simp: outcome_def)
qed

text \<open>The module.\<close>

lemma judged_CHECK_outcome:
  assumes run: "run_state (CHECK m k) s = (r, s')"
    and m: "\<And>x s1. run_state m s = (x, s1) \<Longrightarrow> judged s Ok (outcome x) s1"
    and k: "\<And>x s1. \<lbrakk>run_state m s = (Some x, s1); judged s Ok Ok s1; run_state (k x) s1 = (r, s')\<rbrakk> \<Longrightarrow>
      judged s1 Ok (outcome r) s' \<and> (r \<noteq> None \<longrightarrow> P s')"
  shows "judged s Ok (outcome r) s' \<and> (r \<noteq> None \<longrightarrow> P s')"
proof -
  obtain x s1 where x: "run_state m s = (x, s1)" by fastforce
  show ?thesis
  proof (cases x)
    case None
    with run x have "r = None" "s' = s1" by simp_all
    with m [OF x] None show ?thesis by (simp add: outcome_def)
  next
    case (Some y)
    with run x have "run_state (k y) s1 = (r, s')" by simp
    with k [of y s1] x Some m [OF x] show ?thesis by (auto simp: outcome_def intro: judged_trans)
  qed
qed

lemma judged_outcome:
  "\<lbrakk>good (past 0) m; \<not> reading_custom_section s; run_state m s = (r, s')\<rbrakk> \<Longrightarrow> judged s Ok (outcome r) s'"
  using goodD [of "past 0" m s r s'] reports_judged [of s r s' Ok] by (auto simp: outcome_def past_def)

lemma judged_ReadModule:
  assumes s: "at_header s Ok" "rd_offset s = 0" and run: "run_state ReadModule s = (r, s')"
  shows "judged s Ok (outcome r) s' \<and> (r \<noteq> None \<longrightarrow> rd_offset s' = length (rd_data s))"
proof -
  have header: "good (span 0 (length (rd_data s))) ReadModuleHeader"
    unfolding ReadModuleHeader_def by (intro good_intros)
  have not: "\<not> reading_custom_section s" and sp: "span 0 (length (rd_data s)) s"
    using s by (simp_all add: at_header_def span_def)
  show ?thesis
  proof (rule judged_CHECK_outcome [OF run [unfolded ReadModule_def]])
    show "judged s Ok (outcome x) s1" if x: "run_state ReadModuleHeader s = (x, s1)" for x s1
      using goodD [OF header sp x] reports_judged [OF _ _ not, of x s1 Ok] by (auto simp: outcome_def)
  next
    fix u s1
    assume 1: "run_state ReadModuleHeader s = (Some u, s1)" and j: "judged s Ok Ok s1"
      and run1: "run_state (CHECK ReadSections (\<lambda>_. CHECK (look num_function_signatures) (\<lambda>signatures.
        CHECK (look num_function_bodies) (\<lambda>bodies. CHECK (ERROR_UNLESS (signatures = bodies)
        ''function signature count != function body count'' []) (\<lambda>_. CALLBACK ''EndModule'' []))))) s1 = (r, s')"
    have h1: "at_header s1 Ok"
      using goodD [OF header sp 1] not s(1) by (auto simp: at_header_def span_def same_frame_def)
    have data: "rd_data s1 = rd_data s" using j by (simp add: judged_def same_frame_def)
    show "judged s1 Ok (outcome r) s' \<and> (r \<noteq> None \<longrightarrow> rd_offset s' = length (rd_data s))"
    proof (rule judged_CHECK_outcome [OF run1])
      show "judged s1 Ok (outcome x) s2" if "run_state ReadSections s1 = (x, s2)" for x s2
        using judged_ReadSections [OF h1 that] by simp
    next
      fix u s2
      assume 2: "run_state ReadSections s1 = (Some u, s2)" and j2: "judged s1 Ok Ok s2"
        and run2: "run_state (CHECK (look num_function_signatures) (\<lambda>signatures.
        CHECK (look num_function_bodies) (\<lambda>bodies. CHECK (ERROR_UNLESS (signatures = bodies)
        ''function signature count != function body count'' []) (\<lambda>_. CALLBACK ''EndModule'' [])))) s2 = (r, s')"
      have sp2: "span (length (rd_data s)) (length (rd_data s)) s2"
        using judged_ReadSections [OF h1 2] data h1 j2 by (auto simp: span_def at_header_def judged_def same_frame_def)
      have "good (span (length (rd_data s)) (length (rd_data s))) (CHECK (look num_function_signatures) (\<lambda>signatures.
        CHECK (look num_function_bodies) (\<lambda>bodies. CHECK (ERROR_UNLESS (signatures = bodies)
        ''function signature count != function body count'' []) (\<lambda>_. CALLBACK ''EndModule'' []))))"
        by (intro good_intros)
      from goodD [OF this sp2 run2] have "same_frame s2 s' \<and> span (length (rd_data s)) (length (rd_data s)) s' \<and> reports s2 r s'"
        .
      moreover have "\<not> reading_custom_section s2"
        using h1 j2 by (simp add: at_header_def judged_def same_frame_def)
      ultimately show "judged s2 Ok (outcome r) s' \<and> (r \<noteq> None \<longrightarrow> rd_offset s' = length (rd_data s))"
        using reports_judged [of s2 r s' Ok] by (auto simp: outcome_def span_def)
    qed
  qed
qed

lemma at_header_start: "at_header (BinaryReader data delegate options) Ok"
  by (simp add: at_header_def BinaryReader_def)

text \<open>A module with one function, for the witnesses.\<close>

definition sample :: "u8 list" where
  "sample = [0x00, 0x61, 0x73, 0x6d, 1, 0, 0, 0,
     1, 4, 1, 0x60, 0, 0,
     3, 2, 1, 0,
     10, 4, 1, 2, 0, 0x0b]"

lemma sample_run: "fst (run_state ReadModule (BinaryReader sample (\<lambda>_. Ok) default_read_options)) = Some ()"
  by code_simp

section \<open>Properties\<close>

text \<open>C6. Termination: whatever the bytes, the delegate's answers and the options, no loop of the
  reader runs out of the rounds that the bytes left to read allow it, so \<open>ReadModule\<close> returns.\<close>

theorem ReadModule_total: "\<not> rd_stuck (snd (run_state ReadModule (BinaryReader data delegate options)))"
proof -
  obtain r s' where run: "run_state ReadModule (BinaryReader data delegate options) = (r, s')" by fastforce
  from judged_ReadModule [OF at_header_start _ run] show ?thesis
    using run by (auto simp: judged_def same_frame_def BinaryReader_def)
qed

text \<open>C33. A rejected module is never rejected in silence: when \<open>ReadBinary\<close> returns \<open>Result::Error\<close>, the
  delegate has received a report of level error (not only warnings).\<close>

theorem ReadBinary_reports:
  "ReadBinary data delegate options = (Error, calls) \<Longrightarrow> LevelError \<in> set (errs calls)"
proof -
  assume "ReadBinary data delegate options = (Error, calls)"
  then obtain r s' where run: "run_state ReadModule (BinaryReader data delegate options) = (r, s')"
    and r: "outcome r = Error" and s': "rd_calls s' = calls"
    by (auto simp: ReadBinary_def outcome_def split: prod.splits if_splits)
  from judged_ReadModule [OF at_header_start _ run] r s' show ?thesis
    by (auto simp: judged_def BinaryReader_def)
qed

theorem ReadBinary_reports_witness:
  "\<exists>calls. ReadBinary [0x00, 0x61] (\<lambda>_. Ok) default_read_options = (Error, calls) \<and> LevelError \<in> set (errs calls)"
proof -
  have "fst (ReadBinary [0x00, 0x61] (\<lambda>_. Ok) default_read_options) = Error" by code_simp
  then have r: "ReadBinary [0x00, 0x61] (\<lambda>_. Ok) default_read_options =
      (Error, snd (ReadBinary [0x00, 0x61] (\<lambda>_. Ok) default_read_options))" by (metis prod.collapse)
  from ReadBinary_reports [OF r] r show ?thesis by blast
qed

text \<open>C4. With \<open>fail_on_custom_section_error\<close>, the result is \<open>Result::Ok\<close> if and only if nothing at all
  has been reported, whether the reader stops at the first error or goes on with the next section.\<close>

theorem ReadBinary_silent:
  assumes "fail_on_custom_section_error options"
  shows "fst (ReadBinary data delegate options) = Ok \<longleftrightarrow> errs (snd (ReadBinary data delegate options)) = []"
proof -
  obtain r s' where run: "run_state ReadModule (BinaryReader data delegate options) = (r, s')" by fastforce
  from judged_ReadModule [OF at_header_start _ run] assms run show ?thesis
    by (cases "outcome r") (auto simp: judged_def BinaryReader_def ReadBinary_def outcome_def)
qed

theorem ReadBinary_silent_witness:
  "fst (ReadBinary [0x00, 0x61] (\<lambda>_. Ok) default_read_options) = Error \<and>
   errs (snd (ReadBinary [0x00, 0x61] (\<lambda>_. Ok) default_read_options)) \<noteq> []"
proof -
  have "fst (ReadBinary [0x00, 0x61] (\<lambda>_. Ok) default_read_options) = Error" by code_simp
  then show ?thesis
    using ReadBinary_silent [of default_read_options "[0x00, 0x61]" "\<lambda>_. Ok"]
    by (simp add: default_read_options_def)
qed

text \<open>C34. A module is accepted only if it has been read to its last byte and not beyond, also when
  \<open>skip_function_bodies\<close> moves the offset by sizes that the data claims.\<close>

theorem ReadModule_reads_all:
  assumes "run_state ReadModule (BinaryReader data delegate options) = (Some u, s)"
  shows "rd_offset s = length data"
  using judged_ReadModule [OF at_header_start _ assms] by (simp add: BinaryReader_def)

theorem ReadModule_reads_all_witness:
  "\<exists>s. run_state ReadModule (BinaryReader sample (\<lambda>_. Ok) default_read_options) = (Some (), s) \<and> rd_offset s = 24"
proof -
  obtain s where s: "run_state ReadModule (BinaryReader sample (\<lambda>_. Ok) default_read_options) = (Some (), s)"
    using sample_run by (metis prod.collapse)
  from ReadModule_reads_all [OF this] s show ?thesis by (simp add: sample_def)
qed

end
