(* ===== verification/Binary_Reader_Protocol.thy ===== *)
theory Binary_Reader_Protocol
  imports Binary_Reader_Module
begin

text \<open>
  The protocol that a delegate may rely on: the calls for an accepted module open and close
  sections, bodies and blocks in a properly nested way, sections come in their order.
\<close>

named_theorems nests_intros \<open>rules for the calls of a successful reader action\<close>

section \<open>The automaton\<close>

text \<open>
  Its state is the stack of what is open, innermost first, and the position of the last section
  that is not a custom section.
\<close>

type_synonym protocol = "string list \<times> nat"

definition label_names :: "string list" where
  "label_names = [''Block'', ''Loop'', ''If'', ''Try'']"

definition code_names :: "string list" where
  "code_names = [''FunctionBody'', ''GlobalInitExpr'', ''ElemSegmentInitExpr'', ''DataSegmentInitExpr'', ''ElemExpr'']"

text \<open>What a call opens: an expression comes with the block that its last \<open>end\<close> closes.\<close>

definition opened :: "string \<Rightarrow> string list" where
  "opened member =
     (if take 5 member = ''Begin''
      then (if drop 5 member \<in> set code_names then [''Block'', drop 5 member] else [drop 5 member])
      else if member = ''OnBlockExpr'' then [''Block'']
      else if member = ''OnLoopExpr'' then [''Loop'']
      else if member = ''OnIfExpr'' then [''If'']
      else if member = ''OnTryExpr'' then [''Try'']
      else [])"

definition close :: "string list \<Rightarrow> protocol \<Rightarrow> protocol option" where
  "close names p = (case p of
     (name # st, n) \<Rightarrow> if name \<in> set names then Some (st, n) else None
   | ([], n) \<Rightarrow> None)"

definition begin_section :: "arg list \<Rightarrow> protocol \<Rightarrow> protocol option" where
  "begin_section args p = (case (args, p) of
     ([i, ASection sec, sz], (st, n)) \<Rightarrow>
       if st \<noteq> [''Module''] then None
       else if sec = SecCustom then Some p
       else if n < GetSectionOrder sec then Some (st, GetSectionOrder sec) else None
   | _ \<Rightarrow> None)"

definition step_call :: "protocol \<Rightarrow> string \<Rightarrow> arg list \<Rightarrow> protocol option" where
  "step_call p member args =
     (if member = ''BeginSection'' then begin_section args p
      else if member = ''OnElseExpr'' then (if fst p \<noteq> [] \<and> hd (fst p) = ''If'' then Some p else None)
      else if member = ''OnEndExpr'' then close label_names p
      else if member = ''OnDelegateExpr'' then close [''Try''] p
      else if take 3 member = ''End'' then close [drop 3 member] p
      else Some (opened member @ fst p, snd p))"

fun protocol_run :: "protocol \<Rightarrow> event list \<Rightarrow> protocol option" where
  "protocol_run p [] = Some p"
| "protocol_run p (Call off member args # es) =
     (case step_call p member args of None \<Rightarrow> None | Some p' \<Rightarrow> protocol_run p' es)"
| "protocol_run p (OnError l off fmt args # es) = None"

lemma protocol_run_append:
  "protocol_run p (es @ fs) = (case protocol_run p es of None \<Rightarrow> None | Some p' \<Rightarrow> protocol_run p' fs)"
  by (induction p es rule: protocol_run.induct) (auto split: option.splits)

section \<open>The judgement\<close>

definition follows :: "reader \<Rightarrow> protocol \<Rightarrow> reader \<Rightarrow> protocol \<Rightarrow> bool" where
  "follows s p s' p' \<longleftrightarrow> rd_options s' = rd_options s \<and> last_known_section s' = last_known_section s \<and>
     (\<exists>es. rd_calls s' = rd_calls s @ es \<and> protocol_run p es = Some p')"

lemma follows_refl [simp]: "follows s p s p"
  by (simp add: follows_def)

lemma follows_trans: "follows s p s1 p1 \<Longrightarrow> follows s1 p1 s2 p2 \<Longrightarrow> follows s p s2 p2"
  by (auto simp: follows_def protocol_run_append)

definition nests :: "protocol \<Rightarrow> 'a rd \<Rightarrow> ('a \<Rightarrow> protocol) \<Rightarrow> bool" where
  "nests p m f \<longleftrightarrow> (\<forall>s x s'. run_state m s = (Some x, s') \<longrightarrow>
     \<not> skip_function_bodies (rd_options s) \<longrightarrow> follows s p s' (f x))"

lemma nestsI:
  "(\<And>s x s'. \<lbrakk>run_state m s = (Some x, s'); \<not> skip_function_bodies (rd_options s)\<rbrakk> \<Longrightarrow> follows s p s' (f x)) \<Longrightarrow>
     nests p m f"
  by (simp add: nests_def)

lemma nestsD:
  "\<lbrakk>nests p m f; run_state m s = (Some x, s'); \<not> skip_function_bodies (rd_options s)\<rbrakk> \<Longrightarrow> follows s p s' (f x)"
  by (simp add: nests_def)

lemma nests_CHECK [nests_intros]:
  assumes "nests p m f" "\<And>x. nests (f x) (k x) g"
  shows "nests p (CHECK m k) g"
proof (rule nestsI)
  fix s y s'
  assume "run_state (CHECK m k) s = (Some y, s')" and skip: "\<not> skip_function_bodies (rd_options s)"
  then obtain x s1 where 1: "run_state m s = (Some x, s1)" "run_state (k x) s1 = (Some y, s')"
    by (auto split: prod.splits option.splits)
  from nestsD [OF assms(1) 1(1) skip] have 2: "follows s p s1 (f x)" .
  with skip have "\<not> skip_function_bodies (rd_options s1)" by (simp add: follows_def)
  from follows_trans [OF 2 nestsD [OF assms(2) 1(2) this]] show "follows s p s' (g y)" .
qed

lemma nests_yield [nests_intros]: "f x = p \<Longrightarrow> nests p (yield x) f"
  by (simp add: nests_def)

lemma nests_yield_quiet: "nests p (yield x) (\<lambda>_. p)"
  by (simp add: nests_yield)

lemma nests_fail [nests_intros]: "nests p (fail u) f"
  by (simp add: nests_def)

lemma nests_quiet:
  "(\<And>s x s'. run_state m s = (Some x, s') \<Longrightarrow> rd_calls s' = rd_calls s \<and>
      rd_options s' = rd_options s \<and> last_known_section s' = last_known_section s) \<Longrightarrow>
     nests p m (\<lambda>_. p)"
  by (auto simp: nests_def follows_def)

lemma nests_look [nests_intros]: "nests p (look g) (\<lambda>_. p)"
  by (rule nests_quiet) auto

lemma nests_skip:
  "nests p (CHECK n k) g \<Longrightarrow> nests p (CHECK (look (\<lambda>s. skip_function_bodies (rd_options s))) (\<lambda>skip.
     CHECK (if skip then m else n) k)) g"
  by (auto simp: nests_def)

lemma nests_moves [nests_intros]: "nests p (advance n) (\<lambda>_. p)" "nests p (jump n) (\<lambda>_. p)"
  by (rule nests_quiet; auto)+

lemma nests_update:
  "(\<And>s. rd_calls (g s) = rd_calls s \<and> rd_options (g s) = rd_options s \<and>
     last_known_section (g s) = last_known_section s) \<Longrightarrow> nests p (update g) (\<lambda>_. p)"
  by (rule nests_quiet) auto

lemma nests_counters [nests_intros]:
  "nests p (update (\<lambda>s. s\<lparr>did_read_names_section := b\<rparr>)) (\<lambda>_. p)"
  "nests p (update (\<lambda>s. s\<lparr>num_func_imports := g s\<rparr>)) (\<lambda>_. p)"
  "nests p (update (\<lambda>s. s\<lparr>num_table_imports := g s\<rparr>)) (\<lambda>_. p)"
  "nests p (update (\<lambda>s. s\<lparr>num_memory_imports := g s\<rparr>)) (\<lambda>_. p)"
  "nests p (update (\<lambda>s. s\<lparr>num_global_imports := g s\<rparr>)) (\<lambda>_. p)"
  "nests p (update (\<lambda>s. s\<lparr>num_tag_imports := g s\<rparr>)) (\<lambda>_. p)"
  "nests p (update (\<lambda>s. s\<lparr>num_function_signatures := g s\<rparr>)) (\<lambda>_. p)"
  "nests p (update (\<lambda>s. s\<lparr>num_function_bodies := g s\<rparr>)) (\<lambda>_. p)"
  "nests p (update (\<lambda>s. s\<lparr>data_count := g s\<rparr>)) (\<lambda>_. p)"
  by (rule nests_update; simp)+

lemma nests_ERROR_IF [nests_intros]: "nests p (ERROR_IF b fmt args) (\<lambda>_. p)"
  by (rule nests_quiet) (auto split: if_splits)

lemma nests_ERROR_UNLESS [nests_intros]: "nests p (ERROR_UNLESS b fmt args) (\<lambda>_. p)"
  by (rule nests_quiet) (auto split: if_splits)

lemma nests_guard:
  "(\<not> b \<Longrightarrow> nests p (k ()) f) \<Longrightarrow> nests p (CHECK (ERROR_IF b fmt args) k) f"
  by (auto simp: nests_def)

lemma nests_report [nests_intros]: "nests p (CHECK (PrintError_br fmt args) (\<lambda>_. fail ())) f"
  by (simp add: nests_def)

lemma nests_ReportUnexpectedOpcode [nests_intros]: "nests p (ReportUnexpectedOpcode opcode) f"
  unfolding ReportUnexpectedOpcode_def by (rule nests_report)

lemma nests_CALLBACK [nests_intros]:
  "step_call p member args = Some p' \<Longrightarrow> nests p (CALLBACK member args) (\<lambda>_. p')"
  by (rule nestsI) (auto simp: CALLBACK_def follows_def split: if_splits)

lemma nests_if [nests_intros]:
  "(b \<Longrightarrow> nests p m f) \<Longrightarrow> (\<not> b \<Longrightarrow> nests p n f) \<Longrightarrow> nests p (if b then m else n) f"
  by simp

lemma nests_case_option [nests_intros]:
  "nests p m f \<Longrightarrow> (\<And>x. nests p (g x) f) \<Longrightarrow> nests p (case o' of None \<Rightarrow> m | Some x \<Rightarrow> g x) f"
  by (cases o') simp_all

lemma nests_case_prod [nests_intros]: "(\<And>x y. nests p (g x y) f) \<Longrightarrow> nests p (case z of (x, y) \<Rightarrow> g x y) f"
  by (cases z) simp

lemma nests_Let [nests_intros]: "(\<And>x. nests p (g x) f) \<Longrightarrow> nests p (let x = v in g x) f"
  by (simp add: Let_def)

lemma nests_for_each [nests_intros]:
  "(\<And>i k. nests p (body i k) (\<lambda>_. p)) \<Longrightarrow> nests p (for_each n i body k) (\<lambda>_. p)"
  by (induction n arbitrary: i k) (auto intro!: nests_intros)

lemma nests_for_count [nests_intros]:
  "(\<And>i. nests p (body i) (\<lambda>_. p)) \<Longrightarrow> nests p (for_count n body) (\<lambda>_. p)"
  by (simp add: for_count_def nests_for_each)

lemma nests_collect [nests_intros]: "nests p m (\<lambda>_. p) \<Longrightarrow> nests p (collect n m) (\<lambda>_. p)"
  by (auto simp: collect_def intro!: nests_for_each nests_intros)

lemma nests_while_below:
  assumes "\<And>k. nests (f (Inl k)) (body k) f"
  shows "nests (f (Inl k)) (while_below fuel limit body k) f"
proof (induction fuel arbitrary: k)
  case (Suc fuel)
  have "nests (f x) (case x of Inl k' \<Rightarrow> while_below fuel limit body k' | Inr r \<Rightarrow> yield (Inr r)) f" for x
    by (cases x) (auto intro: Suc nests_yield)
  with assms show ?case by (auto intro!: nests_intros)
qed (auto intro!: nests_intros nests_update)

lemma nests_while_more:
  "(\<And>k. nests (f (Inl k)) (body k) f) \<Longrightarrow> nests (f (Inl k)) (while_more limit body k) f"
  unfolding while_more_def
  by (rule nests_CHECK, rule nests_look, rule nests_while_below)

lemma nests_loop [nests_intros]:
  "(\<And>k. nests p (body k) (\<lambda>_. p)) \<Longrightarrow> nests p (while_more limit body k) (\<lambda>_. p)"
  by (rule nests_while_more)

lemma nests_with_read_end [nests_intros]: "nests p m f \<Longrightarrow> nests p (with_read_end n m) f"
  by (rule nestsI) (auto simp: run_with_read_end follows_def dest!: nestsD split: prod.splits)

lemma nests_with_reading_custom_section [nests_intros]:
  "nests p m f \<Longrightarrow> nests p (with_reading_custom_section m) f"
  by (rule nestsI) (auto simp: run_with_reading_custom_section follows_def dest!: nestsD split: prod.splits)

lemma nests_backtrack [nests_intros]: "nests p m f \<Longrightarrow> nests p (backtrack m) f"
  by (rule nestsI) (auto simp: backtrack_def follows_def dest!: nestsD split: prod.splits)


lemma step_call_if:
  "step_call p m args = Some p' \<Longrightarrow> step_call p n args = Some p' \<Longrightarrow>
   step_call p (if b then m else n) args = Some p'"
  by simp

lemmas step_simps = step_call_def opened_def code_names_def label_names_def close_def

section \<open>Values\<close>

lemma nests_ReadT [nests_intros]: "nests p (ReadT n type_name desc) (\<lambda>_. p)"
  unfolding ReadT_def by (rule nests_intros refl)+

lemma nests_fixed [nests_intros]:
  "nests p (ReadU8 desc) (\<lambda>_. p)" "nests p (ReadU32 desc) (\<lambda>_. p)" "nests p (ReadF32 desc) (\<lambda>_. p)"
  "nests p (ReadF64 desc) (\<lambda>_. p)" "nests p (ReadV128 desc) (\<lambda>_. p)"
  unfolding ReadU8_def ReadU32_def ReadF32_def ReadF64_def ReadV128_def
  by (rule nests_intros refl)+

lemma nests_leb [nests_intros]:
  "nests p (ReadU32Leb128_br desc) (\<lambda>_. p)" "nests p (ReadU64Leb128_br desc) (\<lambda>_. p)"
  "nests p (ReadS32Leb128_br desc) (\<lambda>_. p)" "nests p (ReadS64Leb128_br desc) (\<lambda>_. p)"
  unfolding ReadU32Leb128_br_def ReadU64Leb128_br_def ReadS32Leb128_br_def ReadS64Leb128_br_def
  by (rule nests_intros refl)+

lemma nests_ReadOpcode [nests_intros]: "nests p (ReadOpcode desc) (\<lambda>_. p)"
  unfolding ReadOpcode_def by (rule nests_intros refl)+

lemma nests_strings [nests_intros]:
  "nests p (ReadStr desc) (\<lambda>_. p)" "nests p (ReadBytesWithSize n desc) (\<lambda>_. p)"
  unfolding ReadStr_def ReadBytesWithSize_def by (rule nests_intros refl)+

lemma nests_names [nests_intros]:
  "nests p (ReadType desc) (\<lambda>_. p)" "nests p (ReadRefType desc) (\<lambda>_. p)"
  "nests p (ReadExternalKind desc) (\<lambda>_. p)" "nests p (ReadBytes desc) (\<lambda>_. p)"
  "nests p (ReadIndex desc) (\<lambda>_. p)" "nests p (ReadOffset desc) (\<lambda>_. p)"
  "nests p (ReadAlignment desc) (\<lambda>_. p)" "nests p (CheckAlignment a desc) (\<lambda>_. p)"
  unfolding ReadType_def ReadRefType_def ReadExternalKind_def ReadBytes_def ReadIndex_def
    ReadOffset_def ReadAlignment_def CheckAlignment_def
  by (rule nests_report nests_yield_quiet step_call_if nests_intros refl)+

lemma nests_counts [nests_intros]:
  "nests p (ReadMemidx desc) (\<lambda>_. p)" "nests p (ReadAddress i desc) (\<lambda>_. p)"
  "nests p (CheckCount desc n) (\<lambda>_. p)" "nests p (ReadCount desc) (\<lambda>_. p)"
  unfolding ReadMemidx_def ReadAddress_def CheckCount_def ReadCount_def
  by (rule nests_report nests_yield_quiet step_call_if nests_intros refl)+

lemma nests_locations [nests_intros]:
  "nests p (ReadMemLocation lane d1 d2 d3) (\<lambda>_. p)" "nests p (CallbackMemLocation a m f l) (\<lambda>_. p)"
  unfolding ReadMemLocation_def CallbackMemLocation_def
  by (rule nests_report nests_yield_quiet step_call_if nests_intros refl | simp add: step_simps)+

lemma nests_entities [nests_intros]:
  "nests p ReadField (\<lambda>_. p)" "nests p ReadTable (\<lambda>_. p)" "nests p ReadMemory (\<lambda>_. p)"
  "nests p ReadGlobalHeader (\<lambda>_. p)" "nests p ReadTagType (\<lambda>_. p)"
  unfolding ReadField_def ReadTable_def ReadMemory_def ReadGlobalHeader_def ReadTagType_def
  by (rule nests_report nests_yield_quiet step_call_if nests_intros refl | simp add: step_simps)+

section \<open>Instructions\<close>

definition label_name :: "opcode \<Rightarrow> string" where
  "label_name opcode =
     (if opcode = Op_Loop then ''Loop'' else if opcode = Op_If then ''If''
      else if opcode = Op_Try then ''Try'' else ''Block'')"

text \<open>The state of the automaton while the labels \<open>nested\<close> are open in an expression.\<close>

definition inside :: "protocol \<Rightarrow> opcode list + unit \<Rightarrow> protocol" where
  "inside p x = (case x of
     Inl nested \<Rightarrow> (rev (map label_name nested) @ ''Block'' # fst p, snd p)
   | Inr u \<Rightarrow> p)"

lemma inside_simps [simp]:
  "inside p (Inr u) = p"
  "inside p (Inl []) = (''Block'' # fst p, snd p)"
  "inside p (Inl (nested @ [opcode])) = (label_name opcode # fst (inside p (Inl nested)), snd (inside p (Inl nested)))"
  by (simp_all add: inside_def)

lemma label_names_member: "label_name opcode \<in> set label_names"
  by (simp add: label_name_def label_names_def)

lemma inside_end:
  "step_call (inside p (Inl nested)) ''OnEndExpr'' args =
     Some (if nested = [] then inside p (Inr ()) else inside p (Inl (butlast nested)))"
proof (cases nested rule: rev_cases)
  case Nil
  then show ?thesis by (simp add: step_simps)
next
  case (snoc ys y)
  with label_names_member show ?thesis by (simp add: step_call_def close_def)
qed

lemma inside_else:
  "\<not> (nested = [] \<or> last nested \<noteq> Op_If) \<Longrightarrow>
     step_call (inside p (Inl nested)) ''OnElseExpr'' args = Some (inside p (Inl nested))"
  by (cases nested rule: rev_cases) (simp_all add: step_call_def label_name_def)

lemma inside_delegate:
  "\<not> (nested = [] \<or> last nested \<noteq> Op_Try) \<Longrightarrow>
     step_call (inside p (Inl nested)) ''OnDelegateExpr'' args = Some (inside p (Inl (butlast nested)))"
  by (cases nested rule: rev_cases) (simp_all add: step_call_def label_name_def close_def)

lemma nests_reserved [nests_intros]:
  "nests p (ReadReserved desc message) (\<lambda>_. p)" "nests p (ReadMemidxOrReserved d1 m d2) (\<lambda>_. p)"
  "nests p (ReadTableIndexOrReserved d1 d2 m) (\<lambda>_. p)"
  unfolding ReadReserved_def ReadMemidxOrReserved_def ReadTableIndexOrReserved_def
  by (rule nests_report nests_yield_quiet step_call_if nests_intros refl)+

lemma nests_switch_const:
  "nests (inside p (Inl nested)) other (inside p) \<Longrightarrow>
   nests (inside p (Inl nested)) (switch_const opcode nested other) (inside p)"
  unfolding switch_const_def
  by (rule nests_report nests_yield_quiet step_call_if nests_intros refl | assumption | simp add: step_simps)+

lemma nests_switch_variable:
  "nests (inside p (Inl nested)) other (inside p) \<Longrightarrow>
   nests (inside p (Inl nested)) (switch_variable opcode nested other) (inside p)"
  unfolding switch_variable_def
  by (rule nests_report nests_yield_quiet step_call_if nests_intros refl | assumption | simp add: step_simps)+

lemma nests_switch_memory:
  "nests (inside p (Inl nested)) other (inside p) \<Longrightarrow>
   nests (inside p (Inl nested)) (switch_memory opcode nested other) (inside p)"
  unfolding switch_memory_def
  by (rule nests_report nests_yield_quiet step_call_if nests_intros refl | assumption | simp add: step_simps)+

lemma nests_switch_arithmetic:
  "nests (inside p (Inl nested)) other (inside p) \<Longrightarrow>
   nests (inside p (Inl nested)) (switch_arithmetic opcode nested other) (inside p)"
  unfolding switch_arithmetic_def
  by (rule nests_report nests_yield_quiet step_call_if nests_intros refl | assumption | simp add: step_simps)+

lemma nests_switch_simd:
  "nests (inside p (Inl nested)) other (inside p) \<Longrightarrow>
   nests (inside p (Inl nested)) (switch_simd opcode nested other) (inside p)"
  unfolding switch_simd_def
  by (rule nests_report nests_yield_quiet step_call_if nests_intros refl | assumption | simp add: step_simps)+

lemma nests_switch_convert:
  "nests (inside p (Inl nested)) other (inside p) \<Longrightarrow>
   nests (inside p (Inl nested)) (switch_convert opcode nested other) (inside p)"
  unfolding switch_convert_def
  by (rule nests_report nests_yield_quiet step_call_if nests_intros refl | assumption | simp add: step_simps)+

lemma nests_switch_atomics:
  "nests (inside p (Inl nested)) other (inside p) \<Longrightarrow>
   nests (inside p (Inl nested)) (switch_atomics opcode nested other) (inside p)"
  unfolding switch_atomics_def
  by (rule nests_report nests_yield_quiet step_call_if nests_intros refl | assumption | simp add: step_simps)+

lemma nests_switch_bulk:
  "nests (inside p (Inl nested)) other (inside p) \<Longrightarrow>
   nests (inside p (Inl nested)) (switch_bulk opcode nested other) (inside p)"
  unfolding switch_bulk_def
  by (rule nests_report nests_yield_quiet step_call_if nests_intros refl | assumption | simp add: step_simps)+

lemma nests_switch_reference:
  "nests (inside p (Inl nested)) other (inside p) \<Longrightarrow>
   nests (inside p (Inl nested)) (switch_reference opcode nested other) (inside p)"
  unfolding switch_reference_def
  by (rule nests_report nests_yield_quiet step_call_if nests_intros refl | assumption | simp add: step_simps)+

lemma nests_End:
  "nests (inside p (Inl nested)) (CHECK (CALLBACK ''OnEndExpr'' []) (\<lambda>_.
     if nested = [] then yield (Inr ()) else yield (Inl (butlast nested)))) (inside p)"
  by (rule nests_CHECK, rule nests_CALLBACK, rule inside_end) (auto intro: nests_yield)

lemma nests_switch_exceptions:
  "nests (inside p (Inl nested)) other (inside p) \<Longrightarrow>
   nests (inside p (Inl nested)) (switch_exceptions opcode nested other) (inside p)"
  unfolding switch_exceptions_def
  by (rule nests_report nests_guard nests_yield_quiet step_call_if nests_intros refl | assumption
    | simp add: inside_delegate | simp add: step_simps label_name_def)+

lemma nests_switch_control:
  "nests (inside p (Inl nested)) other (inside p) \<Longrightarrow>
   nests (inside p (Inl nested)) (switch_control opcode nested other) (inside p)"
  unfolding switch_control_def
  by (rule nests_report nests_End nests_guard nests_yield_quiet step_call_if nests_intros refl | assumption
    | simp add: inside_else | simp add: step_simps label_name_def)+

lemma nests_switch_opcode:
  "nests (inside p (Inl nested)) (switch_opcode opcode nested) (inside p)"
  unfolding switch_opcode_def
  by (intro nests_switch_control nests_switch_const nests_switch_variable nests_switch_memory
      nests_switch_arithmetic nests_switch_simd nests_switch_convert nests_switch_exceptions
      nests_switch_atomics nests_switch_bulk nests_switch_reference nests_ReportUnexpectedOpcode)

lemma nests_ReadInstruction: "nests (inside p (Inl nested)) (ReadInstruction nested) (inside p)"
  unfolding ReadInstruction_def
  by (rule nests_switch_opcode nests_report nests_yield_quiet nests_intros refl | simp add: step_simps)+

text \<open>An expression closes its own block.\<close>

lemma nests_ReadInstructions [nests_intros]:
  "nests (''Block'' # st, n) (ReadInstructions end_offset what) (\<lambda>_. (st, n))"
proof -
  have "nests (inside (st, n) (Inl [])) (ReadInstructions end_offset what) (\<lambda>_. (st, n))"
    unfolding ReadInstructions_def
  proof (rule nests_CHECK)
    show "nests (inside (st, n) (Inl [])) (while_more (\<lambda>s. end_offset) ReadInstruction []) (inside (st, n))"
      by (rule nests_while_more) (rule nests_ReadInstruction)
    show "nests (inside (st, n) x) (case x of Inl nested \<Rightarrow>
        CHECK (PrintError_br ''%s must end with END opcode'' [AText what]) (\<lambda>_. fail ())
      | Inr u \<Rightarrow> yield ()) (\<lambda>_. (st, n))" for x
    proof (cases x)
      case (Inl nested)
      show ?thesis unfolding Inl sum.case by (rule nests_report)
    qed (simp add: nests_yield)
  qed
  then show ?thesis by simp
qed

lemma nests_bodies [nests_intros]:
  "nests (''Block'' # st, n) ReadInitExpr (\<lambda>_. (st, n))"
  "nests (''Block'' # st, n) (ReadFunctionBody end_offset) (\<lambda>_. (st, n))"
  unfolding ReadInitExpr_def ReadFunctionBody_def
  by (rule nests_intros refl)+

section \<open>Sections\<close>

lemma nests_name_section [nests_intros]:
  "nests p (ReadModuleNames i t n) (\<lambda>_. p)" "nests p (ReadFunctionName l) (\<lambda>_. p)"
  "nests p (ReadLocalName fi l) (\<lambda>_. p)"
  unfolding ReadModuleNames_def ReadFunctionName_def ReadLocalName_def
  by (rule nests_report nests_yield_quiet step_call_if nests_intros refl | simp add: step_simps)+

lemma nests_local_names [nests_intros]:
  "nests p (ReadLocalNamesOfFunction l) (\<lambda>_. p)" "nests p (ReadFunctionNames i t n) (\<lambda>_. p)"
  unfolding ReadLocalNamesOfFunction_def ReadFunctionNames_def
  by (rule nests_report nests_yield_quiet step_call_if nests_intros refl | simp add: step_simps)+

lemma nests_ReadLocalNames [nests_intros]:
  "nests p (ReadLocalNames i t n) (\<lambda>_. p)" "nests p (ReadNameEntries t n e) (\<lambda>_. p)"
  unfolding ReadLocalNames_def ReadNameEntries_def
  by (rule nests_report nests_yield_quiet step_call_if nests_intros refl | simp add: step_simps)+

lemma nests_ReadNameSubsection [nests_intros]: "nests p (ReadNameSubsection k) (\<lambda>_. p)"
  unfolding ReadNameSubsection_def
  by (rule nests_report nests_yield_quiet step_call_if nests_intros refl | simp add: step_simps)+

lemma nests_ReadReloc [nests_intros]: "nests p ReadReloc (\<lambda>_. p)"
  unfolding ReadReloc_def
  by (rule nests_report nests_yield_quiet step_call_if nests_intros refl | simp add: step_simps)+

lemma nests_dylink [nests_intros]:
  "nests p ReadDylinkInfo (\<lambda>_. p)" "nests p ReadDylinkNeeded (\<lambda>_. p)"
  "nests p ReadDylinkImports (\<lambda>_. p)" "nests p ReadDylinkExports (\<lambda>_. p)"
  unfolding ReadDylinkInfo_def ReadDylinkNeeded_def ReadDylinkImports_def ReadDylinkExports_def
  by (rule nests_report nests_yield_quiet step_call_if nests_intros refl | simp add: step_simps)+

lemma nests_ReadSymbol [nests_intros]: "nests p (ReadSymbol i) (\<lambda>_. p)"
  unfolding ReadSymbol_def
  by (rule nests_report nests_yield_quiet step_call_if nests_intros refl | simp add: step_simps)+

lemma nests_linking [nests_intros]:
  "nests p ReadSymbolTable (\<lambda>_. p)" "nests p ReadSegmentInfos (\<lambda>_. p)"
  "nests p ReadInitFunctions (\<lambda>_. p)" "nests p ReadComdats (\<lambda>_. p)"
  unfolding ReadSymbolTable_def ReadSegmentInfos_def ReadInitFunctions_def ReadComdats_def
  by (rule nests_report nests_yield_quiet step_call_if nests_intros refl | simp add: step_simps)+

lemma nests_subsections [nests_intros]:
  "nests p (ReadDylinkSubsection t e) (\<lambda>_. p)" "nests p (ReadLinkingSubsection t e) (\<lambda>_. p)"
  unfolding ReadDylinkSubsection_def ReadLinkingSubsection_def
  by (rule nests_report nests_yield_quiet step_call_if nests_intros refl | simp add: step_simps)+

lemma nests_ReadSubsection [nests_intros]:
  "(\<And>t e. nests p (body t e) (\<lambda>_. p)) \<Longrightarrow> nests p (ReadSubsection body) (\<lambda>_. p)"
  unfolding ReadSubsection_def
  by (rule nests_report nests_yield_quiet step_call_if nests_intros refl | assumption)+

lemma nests_name_linking [nests_intros]:
  "nests p (ReadNameSection n) (\<lambda>_. p)" "nests p (ReadDylink0Section n) (\<lambda>_. p)"
  "nests p (ReadLinkingSection n) (\<lambda>_. p)"
  unfolding ReadNameSection_def ReadDylink0Section_def ReadLinkingSection_def
  by (rule nests_report nests_yield_quiet step_call_if nests_intros refl | simp add: step_simps)+

lemma nests_metadata [nests_intros]:
  "nests p (ReadCodeMetadataInstance l) (\<lambda>_. p)" "nests p (ReadCodeMetadataFunction l') (\<lambda>_. p)"
  unfolding ReadCodeMetadataInstance_def ReadCodeMetadataFunction_def
  by (rule nests_report nests_yield_quiet step_call_if nests_intros refl | simp add: step_simps)+

lemma nests_custom [nests_intros]:
  "nests p (ReadRelocSection n) (\<lambda>_. p)" "nests p (ReadDylinkSection n) (\<lambda>_. p)"
  "nests p (ReadTargetFeaturesSections n) (\<lambda>_. p)" "nests p (ReadGenericCustomSection name n) (\<lambda>_. p)"
  "nests p (ReadCodeMetadataSection name n) (\<lambda>_. p)"
  unfolding ReadRelocSection_def ReadDylinkSection_def ReadTargetFeaturesSections_def ReadGenericCustomSection_def ReadCodeMetadataSection_def
  by (rule nests_report nests_yield_quiet step_call_if nests_intros refl | simp add: step_simps)+

lemma nests_ReadKnownCustomSection [nests_intros]:
  "nests p (ReadKnownCustomSection name n) (\<lambda>_. p)"
  unfolding ReadKnownCustomSection_def
  by (rule nests_report nests_yield_quiet step_call_if nests_intros refl | simp add: step_simps)+

lemma nests_ReadCustomSection [nests_intros]:
  "nests p (ReadCustomSection i n) (\<lambda>_. p)"
  unfolding ReadCustomSection_def
  by (rule nests_report nests_yield_quiet step_call_if nests_intros refl | simp add: step_simps)+

lemma nests_types [nests_intros]:
  "nests p (ReadConcreteTypes desc message n) (\<lambda>_. p)" "nests p ReadTypeForm (\<lambda>_. p)"
  unfolding ReadConcreteTypes_def ReadTypeForm_def
  by (rule nests_report nests_yield_quiet step_call_if nests_intros refl | simp add: step_simps)+

lemma nests_ReadTypeEntry [nests_intros]:
  "nests p (ReadTypeEntry i) (\<lambda>_. p)"
  unfolding ReadTypeEntry_def
  by (rule nests_report nests_yield_quiet step_call_if nests_intros refl | simp add: step_simps)+

lemma nests_ReadImport [nests_intros]:
  "nests p (ReadImport i) (\<lambda>_. p)"
  unfolding ReadImport_def
  by (rule nests_report nests_yield_quiet step_call_if nests_intros refl | simp add: step_simps)+

lemma nests_ReadElemExpr [nests_intros]:
  "nests p (ReadElemExpr i flags j) (\<lambda>_. p)"
  unfolding ReadElemExpr_def
  by (rule nests_report nests_yield_quiet step_call_if nests_intros refl | simp add: step_simps)+

lemma nests_segments [nests_intros]:
  "nests p (ReadElemSegment i) (\<lambda>_. p)" "nests p (ReadDataSegment i) (\<lambda>_. p)"
  unfolding ReadElemSegment_def ReadDataSegment_def
  by (rule nests_report nests_yield_quiet step_call_if nests_intros refl | simp add: step_simps)+

lemma nests_code [nests_intros]:
  "nests p (ReadLocalDecl k t) (\<lambda>_. p)"
  unfolding ReadLocalDecl_def
  by (rule nests_report nests_yield_quiet step_call_if nests_intros refl | simp add: step_simps)+

lemma nests_definitions [nests_intros]:
  "nests p (ReadTypeSection n) (\<lambda>_. p)" "nests p (ReadImportSection n) (\<lambda>_. p)"
  "nests p (ReadFunctionSection n) (\<lambda>_. p)" "nests p (ReadTableSection n) (\<lambda>_. p)"
  "nests p (ReadMemorySection n) (\<lambda>_. p)" "nests p (ReadGlobalSection n) (\<lambda>_. p)"
  "nests p (ReadExportSection n) (\<lambda>_. p)" "nests p (ReadStartSection n) (\<lambda>_. p)"
  "nests p (ReadElemSection n) (\<lambda>_. p)" "nests p (ReadDataSection n) (\<lambda>_. p)"
  "nests p (ReadTagSection n) (\<lambda>_. p)" "nests p (ReadDataCountSection n) (\<lambda>_. p)"
  unfolding ReadTypeSection_def ReadImportSection_def ReadFunctionSection_def ReadTableSection_def ReadMemorySection_def ReadGlobalSection_def ReadExportSection_def ReadStartSection_def ReadElemSection_def ReadDataSection_def ReadTagSection_def ReadDataCountSection_def
  by (rule nests_report nests_yield_quiet step_call_if nests_intros refl | simp add: step_simps)+

lemma nests_ReadCodeEntry [nests_intros]: "nests p (ReadCodeEntry i) (\<lambda>_. p)"
  unfolding ReadCodeEntry_def
  by (rule nests_report nests_skip nests_yield_quiet step_call_if nests_intros refl | simp add: step_simps)+

lemma nests_ReadCodeSection [nests_intros]: "nests p (ReadCodeSection n) (\<lambda>_. p)"
  unfolding ReadCodeSection_def
  by (rule nests_report nests_yield_quiet step_call_if nests_intros refl | simp add: step_simps)+

lemma nests_ReadSection: "nests p (ReadSection sec i n) (\<lambda>_. p)"
  by (cases sec; simp only: ReadSection.simps; rule nests_intros)

section \<open>The sections in order\<close>

definition strict :: "reader \<Rightarrow> bool" where
  "strict s \<longleftrightarrow> \<not> skip_function_bodies (rd_options s) \<and> fail_on_custom_section_error (rd_options s)"

text \<open>The state of the automaton between two sections.\<close>

definition between :: "reader \<Rightarrow> protocol" where
  "between s = ([''Module''], case last_known_section s of None \<Rightarrow> 0 | Some sec \<Rightarrow> GetSectionOrder sec)"

definition in_step :: "reader \<Rightarrow> reader \<Rightarrow> bool" where
  "in_step s s' \<longleftrightarrow> rd_options s' = rd_options s \<and>
     (\<exists>es. rd_calls s' = rd_calls s @ es \<and> protocol_run (between s) es = Some (between s'))"

lemma in_step_refl [simp]: "in_step s s"
  by (simp add: in_step_def)

lemma in_step_trans: "in_step s s1 \<Longrightarrow> in_step s1 s2 \<Longrightarrow> in_step s s2"
  by (auto simp: in_step_def protocol_run_append)

definition after :: "reader \<Rightarrow> binary_section \<Rightarrow> protocol" where
  "after s sec = (if sec = SecCustom then between s else ([''Module''], GetSectionOrder sec))"

lemma OpenSection_calls:
  assumes "run_state (OpenSection i sec seen n) s = (Some u, s')"
  shows "follows s (between s) s' (after s sec)"
proof -
  have "last_known_section s = None \<or> sec = SecCustom \<or>
      GetSectionOrder (the (last_known_section s)) < GetSectionOrder sec"
    and s': "s' = s\<lparr>rd_calls := rd_calls s @ [Call (rd_offset s) ''BeginSection'' [AU32 i, ASection sec, ASize n]]\<rparr>"
    using assms by (auto simp: OpenSection_def CheckSection_def CALLBACK_def split: if_splits)
  moreover have "GetSectionOrder sec = 0 \<longleftrightarrow> sec = SecCustom" by (cases sec) simp_all
  ultimately have "step_call (between s) ''BeginSection'' [AU32 i, ASection sec, ASize n] = Some (after s sec)"
    by (auto simp: step_call_def begin_section_def between_def after_def split: option.splits)
  with s' show ?thesis by (simp add: follows_def)
qed

lemma FinishSection_calls:
  assumes "run_state (FinishSection (i, seen, res) sec sr) s = (Some (Inl (i', seen', Ok)), s')"
    and "fail_on_custom_section_error (rd_options s)"
  shows "sr = Ok \<and> res = Ok \<and> rd_calls s' = rd_calls s \<and> rd_options s' = rd_options s \<and>
    last_known_section s' = (if sec = SecCustom then last_known_section s else Some sec)"
  using assms by (cases sr) (auto simp: FinishSection_def Let_def split: if_splits)

lemma in_step_ReadOneSection:
  assumes run: "run_state (ReadOneSection (i, seen, res) sec n) s = (Some (Inl (i', seen', Ok)), s')"
    and s: "strict s" "span b e s" "\<not> reading_custom_section s"
  shows "in_step s s' \<and> res = Ok"
proof -
  obtain u s1 sr s2 where 1: "run_state (OpenSection i sec seen n) s = (Some u, s1)"
    and 2: "run_state (ReadSection sec i n) s1 = (sr, s2)"
    and 3: "run_state (FinishSection (i, seen, res) sec (case sr of None \<Rightarrow> Error | Some _ \<Rightarrow> Ok)) s2 =
      (Some (Inl (i', seen', Ok)), s')"
    using run by (auto simp: ReadOneSection_def run_attempt split: prod.splits option.splits)
  note f1 = OpenSection_calls [OF 1]
  have o1: "rd_options s1 = rd_options s" using f1 by (simp add: follows_def)
  from goodD [OF good_OpenSection s(2) 1] s(3)
  have "span b e s1" "\<not> reading_custom_section s1" by (auto simp: same_frame_def)
  from settled_ReadSection [OF this 2] have o2: "rd_options s2 = rd_options s1"
    by (simp add: settled_def same_frame_def)
  have 4: "sr \<noteq> None" "res = Ok" "rd_calls s' = rd_calls s2" "rd_options s' = rd_options s2"
    "last_known_section s' = (if sec = SecCustom then last_known_section s2 else Some sec)"
    using FinishSection_calls [OF 3] o1 o2 s by (auto simp: strict_def split: option.splits)
  then obtain v where "sr = Some v" by blast
  with nestsD [OF nests_ReadSection, of sec i n s1 v s2] 2 o1 s have "follows s1 (after s sec) s2 (after s sec)"
    by (simp add: strict_def)
  with follows_trans [OF f1] have "follows s (between s) s2 (after s sec)" .
  with 4 show ?thesis by (auto simp: in_step_def follows_def after_def between_def)
qed

lemma nests_in_step:
  "\<lbrakk>nests (between s) m (\<lambda>_. between s); run_state m s = (Some x, s'); strict s\<rbrakk> \<Longrightarrow>
     in_step s s' \<and> last_known_section s' = last_known_section s"
  using nestsD [of "between s" m "\<lambda>_. between s" s x s']
  by (auto simp: strict_def in_step_def follows_def between_def)

lemma in_step_ReadSectionHeader:
  assumes run: "run_state (ReadSectionHeader (i, seen, res)) s = (Some (Inl (i', seen', Ok)), s')"
    and s: "strict s" "\<not> reading_custom_section s"
  shows "in_step s s' \<and> res = Ok"
proof -
  obtain c s1 n s2 where 1: "run_state (ReadU8 ''section code'') s = (Some c, s1)"
    and 2: "run_state (ReadOffset ''section size'') s1 = (Some n, s2)"
    and 3: "run_state (with_read_end (rd_offset s2 + n) (if kBinarySectionCount \<le> c
        then CHECK (PrintError_br ''invalid section code: %u'' [AU8 c]) (\<lambda>_.
          CHECK (look (\<lambda>s. stop_on_first_error (rd_options s))) (\<lambda>stop.
          CHECK (if stop then fail () else jump (rd_offset s2 + n)) (\<lambda>_.
          yield (Inl (fst (i, seen, res) + 1, fst (snd (i, seen, res)), Error)))))
        else ReadOneSection (i, seen, res) (binary_sections ! unat c) n)) s2 = (Some (Inl (i', seen', Ok)), s')"
    using run by (auto simp: ReadSectionHeader_def split: prod.splits option.splits)
  have past: "past 0 s" "past 0 s1" by (simp_all add: past_def)
  from goodD [OF past.good_fixed(1) past(1) 1] goodD [OF past.good_values(6) past(2) 2] s(2)
  have not: "\<not> reading_custom_section s2" by (auto simp: same_frame_def)
  have i1: "in_step s s1" using nests_in_step [OF nests_fixed(1) 1 s(1)] by simp
  then have st1: "strict s1" using s(1) by (simp add: strict_def in_step_def)
  have i2: "in_step s1 s2" using nests_in_step [OF nests_names(6) 2 st1] by simp
  let ?t = "s2\<lparr>read_end := rd_offset s2 + n\<rparr>"
  have "\<not> kBinarySectionCount \<le> c"
    using 3 by (auto simp: run_with_read_end split: prod.splits if_splits)
  then obtain t' where t': "run_state (ReadOneSection (i, seen, res) (binary_sections ! unat c) n) ?t =
      (Some (Inl (i', seen', Ok)), t')" "s' = t'\<lparr>read_end := read_end s2\<rparr>"
    using 3 by (auto simp: run_with_read_end split: prod.splits)
  have "strict ?t" "span (rd_offset s2) (rd_offset s2 + n) ?t" "\<not> reading_custom_section ?t"
    using st1 i2 not by (simp_all add: strict_def in_step_def span_def)
  from in_step_ReadOneSection [OF t'(1) this] t'(2) have "in_step s2 s' \<and> res = Ok"
    by (auto simp: in_step_def between_def)
  with i1 i2 show ?thesis by (blast intro: in_step_trans)
qed

lemma in_step_sections:
  "\<lbrakk>run_state (while_below fuel (\<lambda>s. length (rd_data s)) ReadSectionHeader (i, seen, res)) s =
      (Some (Inl (i', seen', Ok)), s'); strict s; \<not> reading_custom_section s\<rbrakk> \<Longrightarrow> in_step s s' \<and> res = Ok"
proof (induction fuel arbitrary: s i seen res)
  case (Suc fuel)
  show ?case
  proof (cases "rd_offset s < length (rd_data s)")
    case True
    with Suc.prems(1) obtain x s1 where x: "run_state (ReadSectionHeader (i, seen, res)) s = (Some x, s1)"
      and rest: "run_state (case x of Inl k' \<Rightarrow> while_below fuel (\<lambda>s. length (rd_data s)) ReadSectionHeader k'
        | Inr r \<Rightarrow> yield (Inr ())) s1 = (Some (Inl (i', seen', Ok)), s')"
      by (auto split: prod.splits option.splits)
    from judged_ReadSectionHeader [OF Suc.prems(3) x]
    have f: "same_frame s s1" and ad: "advanced (rd_offset s) (Some x) s1" by (auto simp: judged_def)
    then obtain j seen1 res1 where "x = Inl (j, seen1, res1)" by (auto simp: advanced_def)
    with rest x have rest': "run_state (while_below fuel (\<lambda>s. length (rd_data s)) ReadSectionHeader (j, seen1, res1)) s1 =
        (Some (Inl (i', seen', Ok)), s')"
      and x': "run_state (ReadSectionHeader (i, seen, res)) s = (Some (Inl (j, seen1, res1)), s1)" by simp_all
    have "strict s1" "\<not> reading_custom_section s1"
      using f Suc.prems(2,3) by (simp_all add: strict_def same_frame_def)
    from Suc.IH [OF rest' this] have rest_ok: "in_step s1 s'" "res1 = Ok" by simp_all
    with x' have "run_state (ReadSectionHeader (i, seen, res)) s = (Some (Inl (j, seen1, Ok)), s1)" by simp
    from in_step_ReadSectionHeader [OF this Suc.prems(2,3)] rest_ok(1) show ?thesis
      by (auto intro: in_step_trans)
  qed (use Suc.prems(1) in simp)
qed simp

lemma in_step_ReadSections:
  assumes run: "run_state ReadSections s = (Some u, s')" and s: "strict s" "at_header s Ok"
  shows "in_step s s'"
proof -
  obtain x where x: "run_state (while_below (Suc (length (rd_data s) - rd_offset s)) (\<lambda>s. length (rd_data s))
      ReadSectionHeader (0, replicate 14 False, Ok)) s = (Some x, s')"
    and ok: "run_state (case x of Inl (section_index, seen, result) \<Rightarrow> if Succeeded result then yield () else fail ()
      | Inr u \<Rightarrow> yield ()) s' = (Some u, s')"
    using run by (auto simp: ReadSections_def while_more_def simp del: while_below.simps
        split: prod.splits option.splits sum.splits if_splits)
  from judged_sections [OF s(2) _ x] obtain i' seen' res' where "x = Inl (i', seen', res')" by auto
  with x ok have "run_state (while_below (Suc (length (rd_data s) - rd_offset s)) (\<lambda>s. length (rd_data s))
      ReadSectionHeader (0, replicate 14 False, Ok)) s = (Some (Inl (i', seen', Ok)), s')"
    by (auto simp: Succeeded_def simp del: while_below.simps split: if_splits)
  from in_step_sections [OF this s(1)] s(2) show ?thesis by (simp add: at_header_def)
qed

section \<open>Properties\<close>

text \<open>
  C2. With the options that make errors in custom sections fatal and that do not skip function
  bodies, the calls for an accepted module follow the protocol: every \<open>Begin\<close> member is matched by
  its \<open>End\<close> member, blocks close inside the expression that opens them, every expression ends with
  the \<open>end\<close> of its own block, \<open>else\<close> only occurs in an \<open>if\<close> and \<open>delegate\<close> only ends a \<open>try\<close>, and the
  known sections come at most once each, in the order of the format. (With other options the \<open>End\<close>
  of a custom section with an error, and the calls for the bodies, are missing.)
\<close>

theorem ReadBinary_protocol:
  assumes "ReadBinary data delegate options = (Ok, calls)"
    and "fail_on_custom_section_error options" "\<not> skip_function_bodies options"
  shows "\<exists>n. protocol_run ([], 0) calls = Some ([], n)"
proof -
  let ?s = "BinaryReader data delegate options"
  obtain u s' where run: "run_state ReadModule ?s = (Some u, s')" and calls: "rd_calls s' = calls"
    using assms(1) by (auto simp: ReadBinary_def split: prod.splits if_splits)
  then obtain u1 s1 u2 s2 where 1: "run_state ReadModuleHeader ?s = (Some u1, s1)"
    and 2: "run_state ReadSections s1 = (Some u2, s2)"
    and 3: "run_state (CALLBACK ''EndModule'' []) s2 = (Some u, s')"
    by (auto simp: ReadModule_def split: prod.splits option.splits if_splits)
  have header: "nests ([], 0) ReadModuleHeader (\<lambda>_. ([''Module''], 0))"
    unfolding ReadModuleHeader_def
    by (rule nests_report nests_yield_quiet step_call_if nests_intros refl | simp add: step_simps)+
  have f1: "follows ?s ([], 0) s1 ([''Module''], 0)"
    using nestsD [OF header 1] assms(3) by (simp add: BinaryReader_def)
  then have b1: "between s1 = ([''Module''], 0)" and st: "strict s1"
    using assms(2,3) by (simp_all add: follows_def between_def strict_def BinaryReader_def)
  have "good (span 0 (length data)) ReadModuleHeader" unfolding ReadModuleHeader_def by (intro good_intros)
  from goodD [OF this _ 1] have "at_header s1 Ok"
    by (auto simp: span_def same_frame_def BinaryReader_def at_header_def)
  from in_step_ReadSections [OF 2 st this] have f2: "in_step s1 s2" .
  have "nests (between s2) (CALLBACK ''EndModule'' []) (\<lambda>_. ([], snd (between s2)))"
    by (rule nests_CALLBACK) (simp add: step_simps between_def)
  from nestsD [OF this 3] f2 st have f3: "follows s2 (between s2) s' ([], snd (between s2))"
    by (simp add: strict_def in_step_def)
  from f1 f2 f3 b1 calls show ?thesis
    by (auto simp: follows_def in_step_def protocol_run_append BinaryReader_def)
qed

theorem ReadBinary_protocol_witness:
  "\<exists>calls n. ReadBinary sample (\<lambda>_. Ok) default_read_options = (Ok, calls) \<and>
     protocol_run ([], 0) calls = Some ([], n)"
proof -
  obtain s where "run_state ReadModule (BinaryReader sample (\<lambda>_. Ok) default_read_options) = (Some (), s)"
    using sample_run by (metis prod.collapse)
  then have r: "ReadBinary sample (\<lambda>_. Ok) default_read_options = (Ok, rd_calls s)" by (simp add: ReadBinary_def)
  from ReadBinary_protocol [OF this] r show ?thesis by (auto simp: default_read_options_def)
qed

end
