(* ===== verification/Binary_Reader_Values.thy ===== *)
theory Binary_Reader_Values
  imports Binary_Reader_Protocol Opcode_Table
begin

text \<open>
  What the value readers make of bytes that a writer has produced, and the counts that the reader
  of local declarations keeps.
\<close>

section \<open>Reading what has been written\<close>

text \<open>
  \<open>reads m bs v\<close>: if the bytes that follow within the section start with \<open>bs\<close>, the action \<open>m\<close>
  yields \<open>v\<close>, leaves them behind, and does nothing else.
\<close>

definition reads :: "'a rd \<Rightarrow> u8 list \<Rightarrow> 'a \<Rightarrow> bool" where
  "reads m bs v \<longleftrightarrow> (\<forall>s rest. unread s = bs @ rest \<longrightarrow> rd_offset s \<le> read_end s \<longrightarrow>
     run_state m s = (Some v, s\<lparr>rd_offset := rd_offset s + length bs\<rparr>))"

lemma readsD:
  "\<lbrakk>reads m bs v; unread s = bs @ rest; rd_offset s \<le> read_end s\<rbrakk> \<Longrightarrow>
     run_state m s = (Some v, s\<lparr>rd_offset := rd_offset s + length bs\<rparr>)"
  unfolding reads_def by blast

lemma unread_length: "length (unread s) = min (length (rd_data s)) (read_end s) - rd_offset s"
  by (simp add: unread_def)

lemma unread_advance:
  assumes "unread s = bs @ rest" "rd_offset s \<le> read_end s"
  shows "unread (s\<lparr>rd_offset := rd_offset s + length bs\<rparr>) = rest"
    and "rd_offset s + length bs \<le> read_end s"
    and "take (length bs) (drop (rd_offset s) (rd_data s)) = bs"
proof -
  have u: "take (read_end s - rd_offset s) (drop (rd_offset s) (rd_data s)) = bs @ rest"
    using assms(1) by (simp add: unread_def drop_take)
  have len: "length bs + length rest \<le> read_end s - rd_offset s"
    using arg_cong [OF u, of length] by simp
  then show "rd_offset s + length bs \<le> read_end s" using assms(2) by simp
  have "drop (length bs) (unread s) = rest" using assms(1) by simp
  then show "unread (s\<lparr>rd_offset := rd_offset s + length bs\<rparr>) = rest"
    by (simp add: unread_def add.commute)
  from arg_cong [OF u, of "take (length bs)"] len
  show "take (length bs) (drop (rd_offset s) (rd_data s)) = bs" by (simp add: min_def)
qed

lemma reads_CHECK:
  assumes "reads m bs v" "reads (k v) cs w"
  shows "reads (CHECK m k) (bs @ cs) w"
  unfolding reads_def
proof (intro allI impI)
  fix s rest
  assume u: "unread s = (bs @ cs) @ rest" and le: "rd_offset s \<le> read_end s"
  then have "unread s = bs @ cs @ rest" by simp
  note 1 = unread_advance [OF this le]
  have "run_state (k v) (s\<lparr>rd_offset := rd_offset s + length bs\<rparr>) =
      (Some w, s\<lparr>rd_offset := rd_offset s + length bs + length cs\<rparr>)"
    using readsD [OF assms(2) 1(1)] 1(2) by simp
  moreover have "run_state m s = (Some v, s\<lparr>rd_offset := rd_offset s + length bs\<rparr>)"
    using readsD [OF assms(1)] u le by simp
  ultimately show "run_state (CHECK m k) s = (Some w, s\<lparr>rd_offset := rd_offset s + length (bs @ cs)\<rparr>)"
    by (simp add: add.assoc)
qed

lemma reads_yield: "reads (yield v) [] v"
  by (simp add: reads_def)

lemma reads_ERROR_UNLESS: "b \<Longrightarrow> reads (ERROR_UNLESS b fmt args) [] ()"
  by (simp add: reads_def)

lemma reads_then: "reads m bs v \<Longrightarrow> reads (CHECK m (\<lambda>x. yield (f x))) bs (f v)"
  using reads_CHECK [of m bs v "\<lambda>x. yield (f x)" "[]" "f v"] by (simp add: reads_yield)

lemma reads_ReadT:
  assumes "length bs = n"
  shows "reads (ReadT n type_name desc) bs bs"
  unfolding reads_def
proof (intro allI impI)
  fix s rest
  assume "unread s = bs @ rest" "rd_offset s \<le> read_end s"
  note 1 = unread_advance [OF this]
  with assms show "run_state (ReadT n type_name desc) s = (Some bs, s\<lparr>rd_offset := rd_offset s + length bs\<rparr>)"
    by (simp add: ReadT_def not_less)
qed

lemma reads_ReadU8: "reads (ReadU8 desc) [b] b"
proof -
  have "reads (ReadU8 desc) [b] (from_le [b])"
    unfolding ReadU8_def by (intro reads_then reads_ReadT) simp
  then show ?thesis by simp
qed

lemma reads_leb:
  assumes "\<And>rest. f (bs @ rest) = (length bs, Some v)" "bs \<noteq> []"
  shows "reads (CHECK (look (\<lambda>s. drop (rd_offset s) (take (read_end s) (rd_data s)))) (\<lambda>p.
    let (n, v) = f p in CHECK (ERROR_UNLESS (0 < n) fmt args) (\<lambda>_.
    CHECK (advance n) (\<lambda>_. yield (the v))))) bs v"
  using assms by (auto simp: reads_def unread_def [symmetric])

lemma U32Leb128Bytes_nonempty: "U32Leb128Bytes v \<noteq> []"
  using length_U32Leb128Bytes [of v] by auto

lemma reads_ReadU32Leb128: "reads (ReadU32Leb128_br desc) (U32Leb128Bytes v) v"
  unfolding ReadU32Leb128_br_def
  by (rule reads_leb) (simp_all add: read_u32 U32Leb128Bytes_nonempty)

lemma reads_ReadIndex: "reads (ReadIndex desc) (U32Leb128Bytes v) v"
  by (simp add: ReadIndex_def reads_ReadU32Leb128)

lemma reads_ReadStr:
  assumes "IsValidUtf8 str" "length str < 2 ^ 32"
  shows "reads (ReadStr desc) (U32Leb128Bytes (of_nat (length str)) @ str) str"
  unfolding ReadStr_def
proof (rule reads_CHECK [OF reads_ReadU32Leb128])
  have n: "unat (of_nat (length str) :: u32) = length str"
    using assms(2) by (simp add: unsigned_of_nat take_bit_nat_eq_self)
  show "reads (CHECK (look rd_offset) (\<lambda>off. CHECK (look read_end) (\<lambda>end.
      CHECK (ERROR_UNLESS (off + unat (of_nat (length str) :: u32) \<le> end) ''unable to read string: %s'' [AText desc]) (\<lambda>_.
      CHECK (look (\<lambda>s. take (unat (of_nat (length str) :: u32)) (drop off (rd_data s)))) (\<lambda>str'.
      CHECK (advance (unat (of_nat (length str) :: u32))) (\<lambda>_.
      CHECK (ERROR_UNLESS (IsValidUtf8 str') ''invalid utf-8 encoding: %s'' [AText desc]) (\<lambda>_. yield str'))))))) str str"
    unfolding reads_def n
  proof (intro allI impI)
    fix s rest
    assume "unread s = str @ rest" "rd_offset s \<le> read_end s"
    from unread_advance [OF this] assms(1)
    show "run_state (CHECK (look rd_offset) (\<lambda>off. CHECK (look read_end) (\<lambda>end.
        CHECK (ERROR_UNLESS (off + length str \<le> end) ''unable to read string: %s'' [AText desc]) (\<lambda>_.
        CHECK (look (\<lambda>s. take (length str) (drop off (rd_data s)))) (\<lambda>str'.
        CHECK (advance (length str)) (\<lambda>_.
        CHECK (ERROR_UNLESS (IsValidUtf8 str') ''invalid utf-8 encoding: %s'' [AText desc]) (\<lambda>_. yield str'))))))) s =
        (Some str, s\<lparr>rd_offset := rd_offset s + length str\<rparr>)"
      by simp
  qed
qed

section \<open>Opcodes\<close>

text \<open>A row without prefix has a code of one byte, which is no prefix; the others have one of the prefixes.\<close>

definition one_byte :: "opcode_info \<Rightarrow> bool" where
  "one_byte r \<longleftrightarrow> (if prefix r = 0 then code r < 256 \<and> \<not> IsPrefixByte (ucast (code r)) else IsPrefixByte (prefix r))"

lemma opcode_rows_one_byte: "\<forall>r \<in> set opcode_rows. one_byte r"
proof -
  have "list_all one_byte opcode_rows"
    by (simp add: opcode_rows_def one_byte_def WABT_OPCODE_def IsPrefixByte_def)
  then show ?thesis by (simp add: list_all_iff)
qed

lemma ucast_back: "(c :: u32) < 256 \<Longrightarrow> ucast (ucast c :: u8) = c"
proof -
  assume "c < 256"
  then have "unat c < 256" by (simp add: word_less_nat_alt)
  then show ?thesis by (simp add: word_unat_eq_iff unsigned_ucast_eq unsigned_take_bit_eq take_bit_nat_eq_self)
qed

lemma reads_ReadOpcode:
  assumes "e < Op_Invalid"
  shows "reads (ReadOpcode desc) (GetBytes e) e"
proof -
  have row: "GetInfo e \<in> set opcode_rows"
    using GetInfo_valid [OF assms] by (metis length_opcode_rows nth_mem)
  show ?thesis
  proof (cases "HasPrefix e")
    case True
    have "reads (CHECK (ReadU32Leb128_br desc) (\<lambda>c. yield (FromCode (prefix (GetInfo e)) c)))
        (U32Leb128Bytes (code (GetInfo e))) (FromCode (prefix (GetInfo e)) (code (GetInfo e)))"
      by (rule reads_then [OF reads_ReadU32Leb128])
    then have "reads (if IsPrefixByte (prefix (GetInfo e))
        then CHECK (ReadU32Leb128_br desc) (\<lambda>c. yield (FromCode (prefix (GetInfo e)) c))
        else yield (FromCode 0 (ucast (prefix (GetInfo e))))) (U32Leb128Bytes (code (GetInfo e))) e"
      using True row opcode_rows_one_byte FromCode_row [OF assms] by (auto simp: HasPrefix_def one_byte_def)
    then have "reads (ReadOpcode desc) ([prefix (GetInfo e)] @ U32Leb128Bytes (code (GetInfo e))) e"
      unfolding ReadOpcode_def by (rule reads_CHECK [OF reads_ReadU8])
    with True show ?thesis
      using length_U32Leb128Bytes [of "code (GetInfo e)"]
      by (simp add: GetBytes_def WriteU32Leb128Raw_def U32Leb128Bytes_def Let_def)
  next
    case False
    let ?b = "ucast (code (GetInfo e)) :: u8"
    have "reads (if IsPrefixByte ?b
        then CHECK (ReadU32Leb128_br desc) (\<lambda>c. yield (FromCode ?b c))
        else yield (FromCode 0 (ucast ?b))) [] e"
      using False row opcode_rows_one_byte FromCode_row [OF assms]
      by (auto simp: HasPrefix_def one_byte_def ucast_back reads_yield)
    then have "reads (ReadOpcode desc) ([?b] @ []) e"
      unfolding ReadOpcode_def by (rule reads_CHECK [OF reads_ReadU8])
    with False show ?thesis by (simp add: GetBytes_def)
  qed
qed

section \<open>Counts\<close>

text \<open>The locals that the calls declare.\<close>

fun declared :: "event \<Rightarrow> nat" where
  "declared (Call off member [AU32 k, AU32 n, AType t]) = (if member = ''OnLocalDecl'' then unat n else 0)"
| "declared e = 0"

lemma values_silent:
  "run_state (ReadU32Leb128_br desc) s = (Some v, s') \<Longrightarrow> rd_calls s' = rd_calls s"
  "run_state (ReadS32Leb128_br desc) s = (Some w, s') \<Longrightarrow> rd_calls s' = rd_calls s"
  by (auto simp: ReadU32Leb128_br_def ReadS32Leb128_br_def split: if_splits prod.splits option.splits)

lemma ReadType_silent: "run_state (ReadType desc) s = (Some t, s') \<Longrightarrow> rd_calls s' = rd_calls s"
  by (auto simp: ReadType_def dest!: values_silent split: if_splits prod.splits option.splits)

lemma ReadLocalDecl_counts:
  assumes run: "run_state (ReadLocalDecl k t) s = (Some t', s')" and t: "t \<le> 0xffffffff"
  shows "t' \<le> 0xffffffff \<and> (\<exists>es. rd_calls s' = rd_calls s @ es \<and>
    unat t + sum_list (map declared es) = unat t')"
proof -
  obtain n s1 lt s2 where 1: "run_state (ReadIndex ''local type count'') s = (Some n, s1)"
    and 2: "run_state (ReadType ''local type'') s1 = (Some lt, s2)"
    and t': "t' = t + ucast n" "t' \<le> 0xffffffff"
    and s': "rd_calls s' = rd_calls s2 @ [Call (rd_offset s2) ''OnLocalDecl'' [AU32 k, AU32 n, AType lt]]"
    using run by (auto simp: ReadLocalDecl_def CALLBACK_def Let_def split: prod.splits option.splits if_splits)
  have "unat t \<le> 0xffffffff" using t by (simp add: word_le_nat_alt)
  moreover have "unat n < 2 ^ 32" by (rule order_less_le_trans [OF unsigned_less]) simp
  ultimately have "unat t' = unat t + unat n"
    using t'(1) by (simp add: unat_word_ariths unsigned_ucast_eq unsigned_take_bit_eq take_bit_nat_eq_self)
  moreover have "rd_calls s' = rd_calls s @ [Call (rd_offset s2) ''OnLocalDecl'' [AU32 k, AU32 n, AType lt]]"
    using s' values_silent(1) ReadType_silent 1 2 by (simp add: ReadIndex_def)
  ultimately show ?thesis using t'(2) by auto
qed

lemma ReadLocalDecls_counts:
  "\<lbrakk>run_state (for_each n k ReadLocalDecl t) s = (Some t', s'); t \<le> 0xffffffff\<rbrakk> \<Longrightarrow>
   t' \<le> 0xffffffff \<and> (\<exists>es. rd_calls s' = rd_calls s @ es \<and> unat t + sum_list (map declared es) = unat t')"
proof (induction n arbitrary: k t s)
  case (Suc n)
  then obtain t1 s1 where 1: "run_state (ReadLocalDecl k t) s = (Some t1, s1)"
    and 2: "run_state (for_each n (k + 1) ReadLocalDecl t1) s1 = (Some t', s')"
    by (auto split: prod.splits option.splits)
  from ReadLocalDecl_counts [OF 1 Suc.prems(2)] Suc.IH [OF 2] show ?case
    by (force simp: add.assoc)
qed simp

section \<open>Properties\<close>

text \<open>C35. \<open>ReadOpcode\<close> reads back what \<open>Opcode::GetBytes\<close> gives, for every opcode of the table, with a
  prefix or without, and consumes just these bytes.\<close>

theorem ReadOpcode_GetBytes:
  assumes "e < Op_Invalid" "unread s = GetBytes e @ rest" "rd_offset s \<le> read_end s"
  shows "run_state (ReadOpcode desc) s = (Some e, s\<lparr>rd_offset := rd_offset s + length (GetBytes e)\<rparr>)"
  using reads_ReadOpcode [OF assms(1)] assms(2,3) by (rule readsD)

theorem ReadOpcode_GetBytes_witness:
  "run_state (ReadOpcode ''opcode'') (BinaryReader [0xfc, 0x0a, 0x00] (\<lambda>_. Ok) default_read_options) =
     (Some Op_MemoryCopy, (BinaryReader [0xfc, 0x0a, 0x00] (\<lambda>_. Ok) default_read_options)\<lparr>rd_offset := 2\<rparr>)"
proof -
  have g: "GetBytes Op_MemoryCopy = [0xfc, 0x0a]" by code_simp
  show ?thesis
    using ReadOpcode_GetBytes [of Op_MemoryCopy "BinaryReader [0xfc, 0x0a, 0x00] (\<lambda>_. Ok) default_read_options" "[0]" "''opcode''"]
    by (simp add: g BinaryReader_def unread_def)
qed

text \<open>C36. The local declarations of an accepted function body declare at most \<open>UINT32_MAX\<close> locals
  altogether: the 64-bit sum that the reader keeps does not wrap, and it is the sum of the
  counts that the delegate has been told.\<close>

theorem locals_bounded:
  assumes "run_state (for_each (unat n) 0 ReadLocalDecl 0) s = (Some t, s')"
  shows "\<exists>es. rd_calls s' = rd_calls s @ es \<and> sum_list (map declared es) = unat t \<and>
    sum_list (map declared es) \<le> 4294967295"
  using ReadLocalDecls_counts [OF assms] by (auto simp: word_le_nat_alt)

theorem locals_bounded_witness:
  "\<exists>s' es. run_state (for_each (unat (2 :: u32)) 0 ReadLocalDecl 0)
      (BinaryReader [5, 0x7f, 3, 0x7e] (\<lambda>_. Ok) default_read_options) = (Some 8, s') \<and>
    rd_calls s' = es \<and> sum_list (map declared es) = 8 \<and> sum_list (map declared es) \<le> 4294967295"
proof -
  let ?s = "BinaryReader [5, 0x7f, 3, 0x7e] (\<lambda>_. Ok) default_read_options"
  have "fst (run_state (for_each (unat (2 :: u32)) 0 ReadLocalDecl 0) ?s) = Some 8" by code_simp
  then have run: "run_state (for_each (unat (2 :: u32)) 0 ReadLocalDecl 0) ?s =
      (Some 8, snd (run_state (for_each (unat (2 :: u32)) 0 ReadLocalDecl 0) ?s))"
    by (metis prod.collapse)
  from locals_bounded [OF this] run show ?thesis by (fastforce simp: BinaryReader_def)
qed

end
