(* ===== verification/IR.thy ===== *)
theory IR
  imports Opcodes
begin

text \<open>
  The intermediate representation of a module (include/wabt/ir.h, src/ir.cc): variables, bindings,
  expressions, the entities of a module, and the look-ups by variable. Source locations are left
  out, and so are the scripts of the test format, the names of types in signatures that only name
  resolution reads, and the record of the features a function uses. The vectors of a \<open>Module\<close> hold pointers to
  entities that its fields own; nothing modelled here changes an entity through them, so they
  are lists of the entities.

  The constructors of \<open>expr\<close> are the classes and class templates of the code; a template instance is
  the constructor with the \<open>ExprType\<close> it is instantiated with.
\<close>

section \<open>Variables and bindings\<close>

type_synonym name = "u8 list"

datatype var = VIndex index | VName name

text \<open>
  A \<open>BindingHash\<close> is an unordered multimap; here it is the list of its bindings in the order in which
  they were made, and \<open>find\<close> gives the first of a name. Which of several bindings of one name the
  container finds is not specified, so this order is one choice among those it may make: the
  property of look-ups (\<open>AppendFields_lookup\<close>) is stated for every order of the bindings, and where
  all names are bound once the order does not matter.
\<close>

type_synonym binding_hash = "(name \<times> index) list"

definition emplace :: "name \<Rightarrow> index \<Rightarrow> binding_hash \<Rightarrow> binding_hash" where
  "emplace nm i bindings = bindings @ [(nm, i)]"

definition FindIndex_name :: "binding_hash \<Rightarrow> name \<Rightarrow> index" where
  "FindIndex_name bindings nm = (case map_of bindings nm of Some i \<Rightarrow> i | None \<Rightarrow> kInvalidIndex)"

primrec FindIndex :: "binding_hash \<Rightarrow> var \<Rightarrow> index" where
  "FindIndex bindings (VName nm) = FindIndex_name bindings nm"
| "FindIndex bindings (VIndex i) = i"

text \<open>
  The names by index: a vector of \<open>num_types\<close> strings, empty where nothing is bound. The code
  asserts that the indices are in range; an assignment out of range has no effect here.
\<close>

definition MakeTypeBindingReverseMapping :: "nat \<Rightarrow> binding_hash \<Rightarrow> name list" where
  "MakeTypeBindingReverseMapping num_types bindings =
     fold (\<lambda>(nm, i) names. names[unat i := nm]) bindings (replicate num_types [])"

section \<open>Expressions\<close>

record func_signature =
  param_types :: type_vector
  result_types :: type_vector

definition types_eq :: "type_vector \<Rightarrow> type_vector \<Rightarrow> bool" where
  "types_eq = list_all2 type_eq"

definition sig_eq :: "func_signature \<Rightarrow> func_signature \<Rightarrow> bool" where
  "sig_eq a b \<longleftrightarrow> types_eq (param_types a) (param_types b) \<and> types_eq (result_types a) (result_types b)"

record func_declaration =
  has_func_type :: bool
  type_var :: var
  decl_sig :: func_signature

text \<open>The types of a constant and its bits; a vector is its 16 bytes.\<close>

datatype const_value = CI32 u32 | CI64 u64 | CF32 u32 | CF64 u64 | CV128 "u8 list"

datatype simple_type = DropT | NopT | ReturnT | UnreachableT | RefIsNullT
datatype memory_expr_type = MemoryGrowT | MemorySizeT | MemoryFillT
datatype opcode_type = BinaryT | CompareT | ConvertT | UnaryT | TernaryT
datatype var_type =
    BrT | BrIfT | CallT | RefFuncT | GlobalGetT | GlobalSetT | LocalGetT | LocalSetT | LocalTeeT
  | ReturnCallT | ThrowT | RethrowT | DataDropT | ElemDropT | TableGetT | TableSetT | TableGrowT
  | TableSizeT | TableFillT
datatype load_store_type =
    LoadT | StoreT | AtomicLoadT | AtomicStoreT | AtomicRmwT | AtomicRmwCmpxchgT | AtomicWaitT
  | AtomicNotifyT | LoadSplatT | LoadZeroT
datatype lane_type = SimdLoadLaneT | SimdStoreLaneT
datatype block_type = BlockT | LoopT
datatype indirect_type = CallIndirectT | ReturnCallIndirectT
datatype try_kind = TryPlain | TryCatch | TryDelegate

datatype expr =
    SimpleExpr simple_type
  | MemoryExpr memory_expr_type var
  | MemoryCopyExpr var var
  | MemoryInitExpr var var
  | OpcodeExpr opcode_type opcode
  | VarExpr var_type var
  | LoadStoreExpr load_store_type opcode var address address
  | SimdLaneMemoryExpr lane_type opcode var address address u64
  | SimdLaneOpExpr opcode u64
  | SimdShuffleOpExpr opcode "u8 list"
  | ConstExpr const_value
  | SelectExpr type_vector
  | RefNullExpr wtype
  | TableInitExpr var var
  | TableCopyExpr var var
  | IndirectExpr indirect_type func_declaration var
  | CallRefExpr var
  | BrTableExpr "var list" var
  | AtomicFenceExpr u32
  | CodeMetadataExpr name "u8 list"
  | BlockExprBase block_type block
  | IfExpr block "expr list"
  | TryExpr try_kind block "catch list" var
and block = Block (block_label: name) (block_decl: func_declaration) (block_exprs: "expr list")
and catch = Catch (catch_var: var) (catch_exprs: "expr list")

definition IsCatchAll :: "catch \<Rightarrow> bool" where
  "IsCatchAll c \<longleftrightarrow> catch_var c = VIndex kInvalidIndex"

section \<open>Entities\<close>

text \<open>\<open>LocalTypes\<close>: runs of locals of one type.\<close>

type_synonym local_types = "(wtype \<times> index) list"

definition AppendDecl :: "wtype \<Rightarrow> index \<Rightarrow> local_types \<Rightarrow> local_types" where
  "AppendDecl t count decls = (if count \<noteq> 0 then decls @ [(t, count)] else decls)"

text \<open>
  \<open>Set\<close> groups equal neighbours; the loop keeps the current type and the length of its run. As
  \<open>Type\<close> is compared by its enumerator, neighbouring references with different indices are grouped
  as well, under the type of the first.
\<close>

fun Set_loop :: "wtype list \<Rightarrow> wtype \<Rightarrow> index \<Rightarrow> local_types \<Rightarrow> local_types" where
  "Set_loop [] t count decls = decls @ [(t, count)]"
| "Set_loop (x # xs) t count decls =
     (if \<not> type_eq x t then Set_loop xs x 1 (decls @ [(t, count)])
      else Set_loop xs t (count + 1) decls)"

definition LocalTypes_Set :: "type_vector \<Rightarrow> local_types" where
  "LocalTypes_Set ts = (case ts of [] \<Rightarrow> [] | t # ts' \<Rightarrow> Set_loop ts' t 1 [])"

definition LocalTypes_size :: "local_types \<Rightarrow> index" where
  "LocalTypes_size decls = foldl (\<lambda>sum d. sum + snd d) 0 decls"

text \<open>The subscript operator; past the end, after an assertion, it is \<open>Type::Any\<close>.\<close>

fun LocalTypes_at_loop :: "local_types \<Rightarrow> index \<Rightarrow> index \<Rightarrow> wtype" where
  "LocalTypes_at_loop [] count i = AnyTy"
| "LocalTypes_at_loop ((t, n) # decls) count i =
     (if i < count + n then t else LocalTypes_at_loop decls (count + n) i)"

definition LocalTypes_at :: "local_types \<Rightarrow> index \<Rightarrow> wtype" where
  "LocalTypes_at decls i = LocalTypes_at_loop decls 0 i"

record func =
  func_name :: name
  func_decl :: func_declaration
  local_types :: local_types
  bindings :: binding_hash
  func_exprs :: "expr list"

definition GetNumParams :: "func \<Rightarrow> index" where
  "GetNumParams f = of_nat (length (param_types (decl_sig (func_decl f))))"

definition GetNumParamsAndLocals :: "func \<Rightarrow> index" where
  "GetNumParamsAndLocals f = GetNumParams f + LocalTypes_size (local_types f)"

definition GetLocalType_ir :: "func \<Rightarrow> index \<Rightarrow> wtype" where
  "GetLocalType_ir f i =
     (let num_params = GetNumParams f in
      if i < num_params then param_types (decl_sig (func_decl f)) ! unat i
      else LocalTypes_at (local_types f) (i - num_params))"

definition GetLocalIndex :: "func \<Rightarrow> var \<Rightarrow> index" where
  "GetLocalIndex f v = (case v of VIndex i \<Rightarrow> i | VName nm \<Rightarrow> FindIndex (bindings f) v)"

record global =
  global_name :: name
  global_type :: wtype
  global_mutable :: bool
  init_expr :: "expr list"

record table =
  table_name :: name
  elem_limits :: limits
  table_elem_type :: wtype

record memory =
  memory_name :: name
  page_limits :: limits

record tag =
  tag_name :: name
  tag_decl :: func_declaration

record elem_segment =
  elem_kind :: segment_kind
  elem_name :: name
  table_var :: var
  segment_elem_type :: wtype
  elem_offset :: "expr list"
  elem_exprs :: "expr list list"

record data_segment =
  data_kind :: segment_kind
  data_name :: name
  memory_var :: var
  data_offset :: "expr list"
  segment_data :: "u8 list"

record field =
  field_name :: name
  field_wtype :: wtype
  field_mut :: bool

datatype type_entry =
    FuncType (entry_name: name) (entry_sig: func_signature)
  | StructType (entry_name: name) (entry_fields: "field list")
  | ArrayType (entry_name: name) (entry_field: field)

datatype import_desc =
    FuncImport func | TableImport table | MemoryImport memory | GlobalImport global | TagImport tag

record import =
  import_module :: name
  import_field :: name
  import_desc :: import_desc

record export =
  export_name :: name
  export_kind :: external_kind
  export_var :: var

record custom =
  custom_name :: name
  custom_data :: "u8 list"

datatype module_field =
    FuncField func
  | GlobalField global
  | ImportField import
  | ExportField export
  | TypeField type_entry
  | TableField table
  | ElemSegmentField elem_segment
  | MemoryField memory
  | DataSegmentField data_segment
  | StartField var
  | TagField tag

record module =
  mod_name :: name
  fields_of :: "module_field list"
  tags :: "tag list"
  funcs :: "func list"
  globals :: "global list"
  mod_imports :: "import list"
  exports :: "export list"
  types :: "type_entry list"
  tables :: "table list"
  elem_segments :: "elem_segment list"
  memories :: "memory list"
  data_segments :: "data_segment list"
  starts :: "var list"
  customs :: "custom list"
  tag_imports_count :: index
  func_imports_count :: index
  table_imports_count :: index
  memory_imports_count :: index
  global_imports_count :: index
  tag_bindings :: binding_hash
  func_bindings :: binding_hash
  global_bindings :: binding_hash
  export_bindings :: binding_hash
  type_bindings :: binding_hash
  table_bindings :: binding_hash
  memory_bindings :: binding_hash
  data_segment_bindings :: binding_hash
  elem_segment_bindings :: binding_hash

section \<open>Look-ups\<close>

definition GetFuncIndex :: "module \<Rightarrow> var \<Rightarrow> index" where
  "GetFuncIndex m = FindIndex (func_bindings m)"

definition GetGlobalIndex :: "module \<Rightarrow> var \<Rightarrow> index" where
  "GetGlobalIndex m = FindIndex (global_bindings m)"

definition GetTableIndex :: "module \<Rightarrow> var \<Rightarrow> index" where
  "GetTableIndex m = FindIndex (table_bindings m)"

definition GetMemoryIndex :: "module \<Rightarrow> var \<Rightarrow> index" where
  "GetMemoryIndex m = FindIndex (memory_bindings m)"

definition GetTagIndex :: "module \<Rightarrow> var \<Rightarrow> index" where
  "GetTagIndex m = FindIndex (tag_bindings m)"

definition GetDataSegmentIndex :: "module \<Rightarrow> var \<Rightarrow> index" where
  "GetDataSegmentIndex m = FindIndex (data_segment_bindings m)"

definition GetElemSegmentIndex :: "module \<Rightarrow> var \<Rightarrow> index" where
  "GetElemSegmentIndex m = FindIndex (elem_segment_bindings m)"

definition GetFuncTypeIndex_var :: "module \<Rightarrow> var \<Rightarrow> index" where
  "GetFuncTypeIndex_var m = FindIndex (type_bindings m)"

fun is_func_type_of :: "func_signature \<Rightarrow> type_entry \<Rightarrow> bool" where
  "is_func_type_of sig (FuncType nm sig') = sig_eq sig' sig"
| "is_func_type_of sig other = False"

definition GetFuncTypeIndex_sig :: "module \<Rightarrow> func_signature \<Rightarrow> index" where
  "GetFuncTypeIndex_sig m sig =
     (case find (\<lambda>i. is_func_type_of sig (types m ! i)) [0..<length (types m)] of
        Some i \<Rightarrow> of_nat i
      | None \<Rightarrow> kInvalidIndex)"

definition GetFuncTypeIndex :: "module \<Rightarrow> func_declaration \<Rightarrow> index" where
  "GetFuncTypeIndex m decl =
     (if has_func_type decl then GetFuncTypeIndex_var m (type_var decl)
      else GetFuncTypeIndex_sig m (decl_sig decl))"

text \<open>The look-ups of entities: a null pointer if the index is out of range.\<close>

definition entity :: "'a list \<Rightarrow> index \<Rightarrow> 'a option" where
  "entity xs i = (if of_nat (length xs) \<le> (ucast i :: u64) then None else Some (xs ! unat i))"

definition GetFunc :: "module \<Rightarrow> var \<Rightarrow> func option" where
  "GetFunc m v = entity (funcs m) (GetFuncIndex m v)"

definition GetGlobal :: "module \<Rightarrow> var \<Rightarrow> global option" where
  "GetGlobal m v = entity (globals m) (GetGlobalIndex m v)"

definition GetTable :: "module \<Rightarrow> var \<Rightarrow> table option" where
  "GetTable m v = entity (tables m) (GetTableIndex m v)"

definition GetMemory :: "module \<Rightarrow> var \<Rightarrow> memory option" where
  "GetMemory m v = entity (memories m) (GetMemoryIndex m v)"

definition GetTag :: "module \<Rightarrow> var \<Rightarrow> tag option" where
  "GetTag m v = entity (tags m) (GetTagIndex m v)"

definition GetDataSegment :: "module \<Rightarrow> var \<Rightarrow> data_segment option" where
  "GetDataSegment m v = entity (data_segments m) (GetDataSegmentIndex m v)"

definition GetElemSegment :: "module \<Rightarrow> var \<Rightarrow> elem_segment option" where
  "GetElemSegment m v = entity (elem_segments m) (GetElemSegmentIndex m v)"

definition GetFuncType :: "module \<Rightarrow> var \<Rightarrow> func_signature option" where
  "GetFuncType m v =
     (case entity (types m) (GetFuncTypeIndex_var m v) of
        Some (FuncType nm sig) \<Rightarrow> Some sig
      | _ \<Rightarrow> None)"

definition GetExport :: "module \<Rightarrow> name \<Rightarrow> export option" where
  "GetExport m nm = entity (exports m) (FindIndex_name (export_bindings m) nm)"

definition IsImport :: "module \<Rightarrow> external_kind \<Rightarrow> var \<Rightarrow> bool" where
  "IsImport m kind v =
     (case kind of
        EkFunc \<Rightarrow> GetFuncIndex m v < func_imports_count m
      | EkGlobal \<Rightarrow> GetGlobalIndex m v < global_imports_count m
      | EkMemory \<Rightarrow> GetMemoryIndex m v < memory_imports_count m
      | EkTable \<Rightarrow> GetTableIndex m v < table_imports_count m
      | EkTag \<Rightarrow> GetTagIndex m v < tag_imports_count m)"

section \<open>Building a module\<close>

definition empty_module :: module where
  "empty_module = \<lparr>mod_name = [], fields_of = [], tags = [], funcs = [], globals = [],
     mod_imports = [], exports = [], types = [], tables = [], elem_segments = [], memories = [],
     data_segments = [], starts = [], customs = [], tag_imports_count = 0, func_imports_count = 0,
     table_imports_count = 0, memory_imports_count = 0, global_imports_count = 0,
     tag_bindings = [], func_bindings = [], global_bindings = [], export_bindings = [],
     type_bindings = [], table_bindings = [], memory_bindings = [], data_segment_bindings = [],
     elem_segment_bindings = []\<rparr>"

text \<open>\<open>if (!name.empty()) bindings.emplace(name, Binding(loc, entities.size()))\<close>\<close>

definition bind_name :: "name \<Rightarrow> nat \<Rightarrow> binding_hash \<Rightarrow> binding_hash" where
  "bind_name nm n b = (if nm \<noteq> [] then emplace nm (of_nat n) b else b)"

text \<open>The overload of \<open>AppendField\<close> for imports.\<close>

definition AppendImport :: "import \<Rightarrow> module \<Rightarrow> module" where
  "AppendImport i m =
     (let m' = (case import_desc i of
          FuncImport f \<Rightarrow>
            m\<lparr>funcs := funcs m @ [f], func_imports_count := func_imports_count m + 1,
              func_bindings := bind_name (func_name f) (length (funcs m)) (func_bindings m)\<rparr>
        | TableImport t \<Rightarrow>
            m\<lparr>tables := tables m @ [t], table_imports_count := table_imports_count m + 1,
              table_bindings := bind_name (table_name t) (length (tables m)) (table_bindings m)\<rparr>
        | MemoryImport x \<Rightarrow>
            m\<lparr>memories := memories m @ [x], memory_imports_count := memory_imports_count m + 1,
              memory_bindings := bind_name (memory_name x) (length (memories m)) (memory_bindings m)\<rparr>
        | GlobalImport g \<Rightarrow>
            m\<lparr>globals := globals m @ [g], global_imports_count := global_imports_count m + 1,
              global_bindings := bind_name (global_name g) (length (globals m)) (global_bindings m)\<rparr>
        | TagImport t \<Rightarrow>
            m\<lparr>tags := tags m @ [t], tag_imports_count := tag_imports_count m + 1,
              tag_bindings := bind_name (tag_name t) (length (tags m)) (tag_bindings m)\<rparr>)
      in m'\<lparr>mod_imports := mod_imports m' @ [i], fields_of := fields_of m' @ [ImportField i]\<rparr>)"

fun AppendField :: "module_field \<Rightarrow> module \<Rightarrow> module" where
  "AppendField (DataSegmentField d) m =
     m\<lparr>data_segment_bindings :=
         bind_name (data_name d) (length (data_segments m)) (data_segment_bindings m),
       data_segments := data_segments m @ [d], fields_of := fields_of m @ [DataSegmentField d]\<rparr>"
| "AppendField (ElemSegmentField e) m =
     m\<lparr>elem_segment_bindings :=
         bind_name (elem_name e) (length (elem_segments m)) (elem_segment_bindings m),
       elem_segments := elem_segments m @ [e], fields_of := fields_of m @ [ElemSegmentField e]\<rparr>"
| "AppendField (TagField t) m =
     m\<lparr>tag_bindings := bind_name (tag_name t) (length (tags m)) (tag_bindings m),
       tags := tags m @ [t], fields_of := fields_of m @ [TagField t]\<rparr>"
| "AppendField (ExportField e) m =
     m\<lparr>export_bindings := emplace (export_name e) (of_nat (length (exports m))) (export_bindings m),
       exports := exports m @ [e], fields_of := fields_of m @ [ExportField e]\<rparr>"
| "AppendField (FuncField f) m =
     m\<lparr>func_bindings := bind_name (func_name f) (length (funcs m)) (func_bindings m),
       funcs := funcs m @ [f], fields_of := fields_of m @ [FuncField f]\<rparr>"
| "AppendField (TypeField t) m =
     m\<lparr>type_bindings := bind_name (entry_name t) (length (types m)) (type_bindings m),
       types := types m @ [t], fields_of := fields_of m @ [TypeField t]\<rparr>"
| "AppendField (GlobalField g) m =
     m\<lparr>global_bindings := bind_name (global_name g) (length (globals m)) (global_bindings m),
       globals := globals m @ [g], fields_of := fields_of m @ [GlobalField g]\<rparr>"
| "AppendField (ImportField i) m = AppendImport i m"
| "AppendField (MemoryField x) m =
     m\<lparr>memory_bindings := bind_name (memory_name x) (length (memories m)) (memory_bindings m),
       memories := memories m @ [x], fields_of := fields_of m @ [MemoryField x]\<rparr>"
| "AppendField (StartField v) m =
     m\<lparr>starts := starts m @ [v], fields_of := fields_of m @ [StartField v]\<rparr>"
| "AppendField (TableField t) m =
     m\<lparr>table_bindings := bind_name (table_name t) (length (tables m)) (table_bindings m),
       tables := tables m @ [t], fields_of := fields_of m @ [TableField t]\<rparr>"

definition AppendFields :: "module_field list \<Rightarrow> module \<Rightarrow> module" where
  "AppendFields fs m = fold AppendField fs m"

section \<open>Segment flags\<close>

text \<open>
  Whether an element is a single function reference is seen from its first instruction; an
  element without instructions, on which \<open>front()\<close> is undefined, counts as none here.
\<close>

fun front_is_ref_func :: "expr list \<Rightarrow> bool" where
  "front_is_ref_func (VarExpr RefFuncT v # es) = True"
| "front_is_ref_func es = False"

definition ElemSegment_GetFlags :: "module \<Rightarrow> elem_segment \<Rightarrow> u8" where
  "ElemSegment_GetFlags m seg =
     (let flags = (case elem_kind seg of
          SkActive \<Rightarrow>
            (if \<not> type_eq (segment_elem_type seg) FuncRef \<or> GetTableIndex m (table_var seg) \<noteq> 0
             then SegExplicitIndex else 0)
        | SkPassive \<Rightarrow> SegPassive
        | SkDeclared \<Rightarrow> SegDeclared);
        all_ref_func = type_eq (segment_elem_type seg) FuncRef \<and>
          list_all front_is_ref_func (elem_exprs seg)
      in if \<not> all_ref_func then flags OR SegUseElemExprs else flags)"

definition DataSegment_GetFlags :: "module \<Rightarrow> data_segment \<Rightarrow> u8" where
  "DataSegment_GetFlags m seg =
     (let flags = (if data_kind seg = SkPassive then SegPassive else 0)
      in if GetMemoryIndex m (memory_var seg) \<noteq> 0 then flags OR SegExplicitIndex else flags)"

end
