(* ===== verification/Binary_Writer.thy ===== *)
theory Binary_Writer
  imports IR Binary_Reader_Sections
begin

text \<open>
  The writer of the binary format (src/binary-writer.cc, include/wabt/binary-writer.h), from the
  values up to the instructions: the state of \<open>BinaryWriter\<close>, sizes that are guessed and fixed up,
  sections, relocations and \<open>WriteExpr\<close>. A method is an action of the state monad on the writer;
  the module and the options, which a writer never changes, are arguments. The log that a stream
  may keep of what is written is left out, and with it \<open>WriteHeader\<close> and the descriptions.
\<close>

section \<open>Options and values\<close>

record write_options =
  wo_features :: features
  canonicalize_lebs :: bool
  relocatable :: bool
  write_debug_names :: bool

definition default_write_options :: write_options where
  "default_write_options = \<lparr>wo_features = default_features, canonicalize_lebs = True,
     relocatable = False, write_debug_names = False\<rparr>"

definition WriteStr :: "u8 list \<Rightarrow> mem_stream \<Rightarrow> mem_stream" where
  "WriteStr s = WriteData s \<circ> WriteU32Leb128 (of_nat (length s))"

definition WriteOpcode :: "opcode \<Rightarrow> mem_stream \<Rightarrow> mem_stream" where
  "WriteOpcode opcode =
     (if HasPrefix opcode
      then WriteU32Leb128 (code (GetInfo opcode)) \<circ> WriteU8 (ucast (prefix (GetInfo opcode)))
      else WriteU8 (code (GetInfo opcode)))"

definition WriteType :: "wtype \<Rightarrow> mem_stream \<Rightarrow> mem_stream" where
  "WriteType t =
     (if IsReferenceWithIndex t then WriteS32Leb128 (GetReferenceIndex t) else id) \<circ>
     WriteS32Leb128 (word_of_int (type_enum t))"

definition limits_flags :: "limits \<Rightarrow> u8" where
  "limits_flags l =
     (if has_max l then WABT_BINARY_LIMITS_HAS_MAX_FLAG else 0) OR
     (if is_shared l then WABT_BINARY_LIMITS_IS_SHARED_FLAG else 0) OR
     (if is_64 l then WABT_BINARY_LIMITS_IS_64_FLAG else 0)"

definition WriteLimits :: "limits \<Rightarrow> mem_stream \<Rightarrow> mem_stream" where
  "WriteLimits l =
     (if is_64 l
      then (if has_max l then WriteU64Leb128 (max_limit l) else id) \<circ> WriteU64Leb128 (initial l)
      else (if has_max l then WriteU32Leb128 (ucast (max_limit l)) else id) \<circ>
           WriteU32Leb128 (ucast (initial l))) \<circ>
     WriteU32Leb128 (ucast (limits_flags l))"

text \<open>The leading dollar of a name is not written.\<close>

definition WriteDebugName :: "name \<Rightarrow> mem_stream \<Rightarrow> mem_stream" where
  "WriteDebugName nm = WriteStr (if nm \<noteq> [] then tl nm else nm)"

section \<open>Relocations and symbols\<close>

text \<open>The kinds of relocation that the writer makes, by the code of \<open>RelocType\<close>.\<close>

definition FuncIndexLEB :: u32 where "FuncIndexLEB = 0"
definition TypeIndexLEB :: u32 where "TypeIndexLEB = 6"
definition GlobalIndexLEB :: u32 where "GlobalIndexLEB = 7"
definition TableNumberLEB :: u32 where "TableNumberLEB = 20"

record reloc =
  reloc_type :: u32
  reloc_offset :: nat
  reloc_index :: index
  reloc_addend :: u32

definition Reloc :: "u32 \<Rightarrow> nat \<Rightarrow> index \<Rightarrow> reloc" where
  "Reloc t offset i = \<lparr>reloc_type = t, reloc_offset = offset, reloc_index = i, reloc_addend = 0\<rparr>"

record reloc_section =
  section_name :: "u8 list"
  section_index :: index
  relocations :: "reloc list"

datatype symbol_kind =
    SymFunction index
  | SymData index nat address
  | SymGlobal index
  | SymSection index
  | SymTag index
  | SymTable index

primrec symbol_type :: "symbol_kind \<Rightarrow> u8" where
  "symbol_type (SymFunction i) = 0"
| "symbol_type (SymData i offset n) = 1"
| "symbol_type (SymGlobal i) = 2"
| "symbol_type (SymSection i) = 3"
| "symbol_type (SymTag i) = 4"
| "symbol_type (SymTable i) = 5"

record symbol =
  sym_name :: name
  sym_flags :: u8
  sym_kind :: symbol_kind

definition WABT_SYMBOL_FLAG_EXPORTED :: u8 where "WABT_SYMBOL_FLAG_EXPORTED = 0x20"
definition WABT_SYMBOL_FLAG_NO_STRIP :: u8 where "WABT_SYMBOL_FLAG_NO_STRIP = 0x80"
definition SymbolBinding_Local :: u8 where "SymbolBinding_Local = 2"
definition SymbolVisibility_Hidden :: u8 where "SymbolVisibility_Hidden = 4"

definition defined :: "symbol \<Rightarrow> bool" where
  "defined s \<longleftrightarrow> sym_flags s AND WABT_SYMBOL_FLAG_UNDEFINED = 0"

definition explicit_name :: "symbol \<Rightarrow> bool" where
  "explicit_name s \<longleftrightarrow> sym_flags s AND WABT_SYMBOL_FLAG_EXPLICIT_NAME \<noteq> 0"

record symbol_table =
  symbols :: "symbol list"
  functions_map :: "index list"
  tables_map :: "index list"
  globals_map :: "index list"
  seen_names :: "name set"

definition empty_symbol_table :: symbol_table where
  "empty_symbol_table =
     \<lparr>symbols = [], functions_map = [], tables_map = [], globals_map = [], seen_names = {}\<rparr>"

definition EnsureUnique :: "name \<Rightarrow> (symbol_table, result) state" where
  "EnsureUnique nm = do {
     seen \<leftarrow> gets seen_names;
     if nm \<in> seen then State_Monad.return Error
     else do {
       modify (\<lambda>t. t\<lparr>seen_names := insert nm (seen_names t)\<rparr>);
       State_Monad.return Ok
     }
   }"

text \<open>
  \<open>AddSymbol\<close>; its first argument appends to the map that the code passes a pointer to. The name
  and the flags are assigned in the order of the code; the name is unique only among the exported
  symbols.
\<close>

definition symbol_name :: "name \<Rightarrow> bool \<Rightarrow> name" where
  "symbol_name nm imported = (if imported \<or> nm = [] then [] else tl nm)"

definition symbol_flags :: "name \<Rightarrow> bool \<Rightarrow> bool \<Rightarrow> u8" where
  "symbol_flags nm imported exported =
     (if imported then WABT_SYMBOL_FLAG_UNDEFINED
      else (if nm = [] then SymbolBinding_Local OR SymbolVisibility_Hidden else 0) OR
           (if exported then SymbolVisibility_Hidden OR WABT_SYMBOL_FLAG_NO_STRIP else 0)) OR
     (if exported then WABT_SYMBOL_FLAG_EXPORTED else 0)"

definition AddSymbol ::
  "(index \<Rightarrow> symbol_table \<Rightarrow> symbol_table) \<Rightarrow> name \<Rightarrow> bool \<Rightarrow> bool \<Rightarrow> symbol_kind \<Rightarrow>
   (symbol_table, result) state" where
  "AddSymbol push nm imported exported kind =
     CHECK_RESULT
       (if \<not> imported \<and> exported then EnsureUnique (symbol_name nm imported)
        else State_Monad.return Ok)
       (do {
          modify (\<lambda>t. push (of_nat (length (symbols t))) t);
          modify (\<lambda>t. t\<lparr>symbols := symbols t @
            [\<lparr>sym_name = symbol_name nm imported, sym_flags = symbol_flags nm imported exported,
              sym_kind = kind\<rparr>]\<rparr>);
          State_Monad.return Ok
        })"

definition SymbolIndex :: "index list \<Rightarrow> index \<Rightarrow> index" where
  "SymbolIndex table i =
     (if (ucast i :: u64) < of_nat (length table) then table ! unat i else kInvalidIndex)"

text \<open>One of the three loops of \<open>Populate\<close>: the names of the entities, and what \<open>T{Index(i)}\<close> is.\<close>

primrec AddSymbols ::
  "(index \<Rightarrow> symbol_table \<Rightarrow> symbol_table) \<Rightarrow> (index \<Rightarrow> symbol_kind) \<Rightarrow> index \<Rightarrow> index list \<Rightarrow> nat \<Rightarrow>
   name list \<Rightarrow> (symbol_table, result) state" where
  "AddSymbols push kind num_imports exported i [] = State_Monad.return Ok"
| "AddSymbols push kind num_imports exported i (nm # names) =
     CHECK_RESULT
       (AddSymbol push nm (i < unat num_imports) (of_nat i \<in> set exported) (kind (of_nat i)))
       (AddSymbols push kind num_imports exported (Suc i) names)"

definition exported_indices :: "module \<Rightarrow> external_kind \<Rightarrow> (var \<Rightarrow> index) \<Rightarrow> index list" where
  "exported_indices m kind look_up =
     map (look_up \<circ> export_var) (filter (\<lambda>e. export_kind e = kind) (exports m))"

definition Populate :: "module \<Rightarrow> (symbol_table, result) state" where
  "Populate m =
     CHECK_RESULT
       (AddSymbols (\<lambda>i t. t\<lparr>functions_map := functions_map t @ [i]\<rparr>) SymFunction
          (func_imports_count m) (exported_indices m EkFunc (GetFuncIndex m)) 0
          (map func_name (funcs m)))
    (CHECK_RESULT
       (AddSymbols (\<lambda>i t. t\<lparr>tables_map := tables_map t @ [i]\<rparr>) SymTable
          (table_imports_count m) (exported_indices m EkTable (GetTableIndex m)) 0
          (map table_name (tables m)))
       (AddSymbols (\<lambda>i t. t\<lparr>globals_map := globals_map t @ [i]\<rparr>) SymGlobal
          (global_imports_count m) (exported_indices m EkGlobal (GetGlobalIndex m)) 0
          (map global_name (globals m))))"

section \<open>The writer\<close>

record code_metadata =
  cm_offset :: nat
  cm_data :: "u8 list"

record func_code_metadata =
  func_idx :: index
  cm_entries :: "code_metadata list"

text \<open>
  \<open>code_metadata_sections\<close> is an unordered map: here, the list of its entries in the order they
  were made. \<open>current_reloc_section\<close> is a position in \<open>reloc_sections\<close>, \<open>None\<close> for the null pointer,
  and \<open>last_section_type\<close> is \<open>None\<close> for \<open>BinarySection::Invalid\<close>. The last two fields are not
  initialized by the code; they are set before every function body.
\<close>

record binary_writer =
  bw_stream :: mem_stream
  symtab :: symbol_table
  reloc_sections :: "reloc_section list"
  current_reloc_section :: "nat option"
  section_count :: index
  last_section_offset :: nat
  last_section_leb_size_guess :: nat
  last_section_type :: "binary_section option"
  last_section_payload_offset :: nat
  last_subsection_offset :: nat
  last_subsection_leb_size_guess :: nat
  last_subsection_payload_offset :: nat
  code_start :: nat
  data_count_start :: nat
  data_count_end :: nat
  has_data_segment_instruction :: bool
  code_metadata_sections :: "(name \<times> func_code_metadata list) list"
  cur_func_start_offset :: nat
  cur_func_index :: index

definition BinaryWriter :: "mem_stream \<Rightarrow> binary_writer" where
  "BinaryWriter stream = \<lparr>bw_stream = stream, symtab = empty_symbol_table, reloc_sections = [],
     current_reloc_section = None, section_count = 0, last_section_offset = 0,
     last_section_leb_size_guess = 0, last_section_type = None, last_section_payload_offset = 0,
     last_subsection_offset = 0, last_subsection_leb_size_guess = 0,
     last_subsection_payload_offset = 0, code_start = 0, data_count_start = 0, data_count_end = 0,
     has_data_segment_instruction = False, code_metadata_sections = [], cur_func_start_offset = 0,
     cur_func_index = 0\<rparr>"

type_synonym 'a bw = "(binary_writer, 'a) state"

text \<open>A write to the stream, and a loop over a vector.\<close>

definition out :: "(mem_stream \<Rightarrow> mem_stream) \<Rightarrow> unit bw" where
  "out f = modify (\<lambda>w. w\<lparr>bw_stream := f (bw_stream w)\<rparr>)"

definition skip :: "unit bw" where
  "skip = State_Monad.return ()"

primrec write_each :: "('x \<Rightarrow> unit bw) \<Rightarrow> 'x list \<Rightarrow> unit bw" where
  "write_each f [] = skip"
| "write_each f (x # xs) = do { f x; write_each f xs }"

fun log2_loop :: "nat \<Rightarrow> u32 \<Rightarrow> u8 \<Rightarrow> u8" where
  "log2_loop 0 x result = result"
| "log2_loop (Suc n) x result =
     (if 1 < x then log2_loop n (drop_bit 1 x) (result + 1) else result)"

text \<open>The loop shifts a 32-bit number until it is at most 1, which takes at most 31 rounds.\<close>

definition log2_u32 :: "u32 \<Rightarrow> u8" where
  "log2_u32 x = log2_loop 32 x 0"

section \<open>Sizes and sections\<close>

definition MAX_U32_LEB128_BYTES :: nat where "MAX_U32_LEB128_BYTES = 5"
definition LEB_SECTION_SIZE_GUESS :: nat where "LEB_SECTION_SIZE_GUESS = 1"

definition WriteU32Leb128Space :: "write_options \<Rightarrow> nat \<Rightarrow> nat bw" where
  "WriteU32Leb128Space opts leb_size_guess = do {
     result \<leftarrow> gets (\<lambda>w. ms_offset (bw_stream w));
     let bytes_to_write = (if canonicalize_lebs opts then leb_size_guess else MAX_U32_LEB128_BYTES);
     out (WriteData (take bytes_to_write (replicate MAX_U32_LEB128_BYTES 0)));
     State_Monad.return result
   }"

text \<open>The size is passed on as a 32-bit number.\<close>

definition WriteFixupU32Leb128Size :: "write_options \<Rightarrow> nat \<Rightarrow> nat \<Rightarrow> int bw" where
  "WriteFixupU32Leb128Size opts offset leb_size_guess =
     (if canonicalize_lebs opts then do {
        size \<leftarrow> gets (\<lambda>w. ms_offset (bw_stream w) - offset - leb_size_guess);
        let leb_size = U32Leb128Length (of_nat size);
        let delta = int leb_size - int leb_size_guess;
        (if delta \<noteq> 0 then out (MoveData (offset + leb_size) (offset + leb_size_guess) size)
         else skip);
        out (\<lambda>s. fst (WriteU32Leb128At offset (of_nat size) s));
        out (AddOffset delta);
        State_Monad.return delta
      } else do {
        size \<leftarrow> gets (\<lambda>w. ms_offset (bw_stream w) - offset - MAX_U32_LEB128_BYTES);
        out (\<lambda>s. fst (WriteFixedU32Leb128At offset (of_nat size) s));
        State_Monad.return 0
      })"

definition WriteSectionHeader :: "write_options \<Rightarrow> binary_section \<Rightarrow> unit bw" where
  "WriteSectionHeader opts section_code = do {
     out (WriteU8 (of_nat (GetSectionCode section_code)));
     modify (\<lambda>w. w\<lparr>last_section_type := Some section_code,
                   last_section_leb_size_guess := LEB_SECTION_SIZE_GUESS\<rparr>);
     off \<leftarrow> WriteU32Leb128Space opts LEB_SECTION_SIZE_GUESS;
     modify (\<lambda>w. w\<lparr>last_section_offset := off,
                   last_section_payload_offset := ms_offset (bw_stream w)\<rparr>)
   }"

definition BeginKnownSection :: "write_options \<Rightarrow> binary_section \<Rightarrow> unit bw" where
  "BeginKnownSection opts section_code = WriteSectionHeader opts section_code"

text \<open>The name is a C string: it ends at the first zero byte.\<close>

definition c_str :: "u8 list \<Rightarrow> u8 list" where
  "c_str = takeWhile (\<lambda>b. b \<noteq> 0)"

definition BeginCustomSection :: "write_options \<Rightarrow> u8 list \<Rightarrow> unit bw" where
  "BeginCustomSection opts nm = do {
     WriteSectionHeader opts SecCustom;
     out (WriteStr (c_str nm))
   }"

definition EndSection :: "write_options \<Rightarrow> unit bw" where
  "EndSection opts = do {
     off \<leftarrow> gets last_section_offset;
     guess \<leftarrow> gets last_section_leb_size_guess;
     WriteFixupU32Leb128Size opts off guess;
     modify (\<lambda>w. w\<lparr>last_section_leb_size_guess := 0, section_count := section_count w + 1\<rparr>)
   }"

definition BeginSubsection :: "write_options \<Rightarrow> unit bw" where
  "BeginSubsection opts = do {
     modify (\<lambda>w. w\<lparr>last_subsection_leb_size_guess := LEB_SECTION_SIZE_GUESS\<rparr>);
     off \<leftarrow> WriteU32Leb128Space opts LEB_SECTION_SIZE_GUESS;
     modify (\<lambda>w. w\<lparr>last_subsection_offset := off,
                   last_subsection_payload_offset := ms_offset (bw_stream w)\<rparr>)
   }"

definition EndSubsection :: "write_options \<Rightarrow> unit bw" where
  "EndSubsection opts = do {
     off \<leftarrow> gets last_subsection_offset;
     guess \<leftarrow> gets last_subsection_leb_size_guess;
     WriteFixupU32Leb128Size opts off guess;
     modify (\<lambda>w. w\<lparr>last_subsection_leb_size_guess := 0\<rparr>)
   }"

text \<open>A section or a sub-section around what is written in it.\<close>

definition in_section :: "write_options \<Rightarrow> binary_section \<Rightarrow> unit bw \<Rightarrow> unit bw" where
  "in_section opts section_code body = do {
     BeginKnownSection opts section_code;
     body;
     EndSection opts
   }"

definition in_custom_section :: "write_options \<Rightarrow> u8 list \<Rightarrow> unit bw \<Rightarrow> unit bw" where
  "in_custom_section opts nm body = do {
     BeginCustomSection opts nm;
     body;
     EndSection opts
   }"

definition in_subsection :: "write_options \<Rightarrow> unit bw \<Rightarrow> unit bw" where
  "in_subsection opts body = do {
     BeginSubsection opts;
     body;
     EndSubsection opts
   }"

section \<open>Relocated indices\<close>

text \<open>Other kinds of relocation, on which the code warns, do not occur.\<close>

definition GetSymbolIndex :: "symbol_table \<Rightarrow> u32 \<Rightarrow> index \<Rightarrow> index" where
  "GetSymbolIndex t rtype i =
     (if rtype = FuncIndexLEB then SymbolIndex (functions_map t) i
      else if rtype = TableNumberLEB then SymbolIndex (tables_map t) i
      else if rtype = GlobalIndexLEB then SymbolIndex (globals_map t) i
      else if rtype = TypeIndexLEB then i
      else kInvalidIndex)"

text \<open>The name of a section is asked for when one has begun, so the type is not \<open>Invalid\<close>.\<close>

definition GetRelocSection :: "unit bw" where
  "GetRelocSection = modify (\<lambda>w.
     (let needed = (case current_reloc_section w of
          None \<Rightarrow> True
        | Some k \<Rightarrow> section_index (reloc_sections w ! k) \<noteq> section_count w)
      in if needed
         then w\<lparr>reloc_sections := reloc_sections w @
                  [\<lparr>section_name = ascii (case last_section_type w of
                       Some t \<Rightarrow> GetSectionName t | None \<Rightarrow> []),
                    section_index = section_count w, relocations = []\<rparr>],
                current_reloc_section := Some (length (reloc_sections w))\<rparr>
         else w))"

definition on_current_reloc_section ::
  "(reloc list \<Rightarrow> reloc list) \<Rightarrow> binary_writer \<Rightarrow> binary_writer" where
  "on_current_reloc_section f w =
     (case current_reloc_section w of
        None \<Rightarrow> w
      | Some k \<Rightarrow>
          w\<lparr>reloc_sections := (reloc_sections w)[k := (reloc_sections w ! k)
              \<lparr>relocations := f (relocations (reloc_sections w ! k))\<rparr>]\<rparr>)"

definition AddReloc :: "u32 \<Rightarrow> index \<Rightarrow> unit bw" where
  "AddReloc rtype i = do {
     GetRelocSection;
     offset \<leftarrow> gets (\<lambda>w. ms_offset (bw_stream w) - last_section_payload_offset w);
     symbol_index \<leftarrow> gets (\<lambda>w. GetSymbolIndex (symtab w) rtype i);
     if symbol_index = kInvalidIndex then skip
     else modify (on_current_reloc_section (\<lambda>rs. rs @ [Reloc rtype offset symbol_index]))
   }"

definition WriteU32Leb128WithReloc :: "write_options \<Rightarrow> index \<Rightarrow> u32 \<Rightarrow> unit bw" where
  "WriteU32Leb128WithReloc opts i rtype =
     (if relocatable opts then do {
        AddReloc rtype i;
        out (WriteFixedU32Leb128 i)
      } else out (WriteU32Leb128 i))"

definition WriteS32Leb128WithReloc :: "write_options \<Rightarrow> u32 \<Rightarrow> u32 \<Rightarrow> unit bw" where
  "WriteS32Leb128WithReloc opts v rtype =
     (if relocatable opts then do {
        AddReloc rtype v;
        out (WriteFixedS32Leb128 v)
      } else out (WriteS32Leb128 v))"

definition WriteTableNumberWithReloc :: "write_options \<Rightarrow> index \<Rightarrow> unit bw" where
  "WriteTableNumberWithReloc opts v =
     (if relocatable opts \<and> reference_types_enabled (wo_features opts) then do {
        AddReloc TableNumberLEB v;
        out (WriteFixedS32Leb128 v)
      } else out (WriteS32Leb128 v))"

section \<open>Instructions\<close>

text \<open>
  A one-result block with an inline type, and otherwise the index of a function type, that must
  exist.
\<close>

definition WriteBlockDecl :: "write_options \<Rightarrow> module \<Rightarrow> func_declaration \<Rightarrow> unit bw" where
  "WriteBlockDecl opts m decl =
     (case (param_types (decl_sig decl), result_types (decl_sig decl)) of
        ([], []) \<Rightarrow> out (WriteType VoidTy)
      | ([], [t]) \<Rightarrow> out (WriteType t)
      | _ \<Rightarrow> WriteS32Leb128WithReloc opts (GetFuncTypeIndex m decl) TypeIndexLEB)"

text \<open>
  \<open>var->index()\<close> asserts that the variable is an index: names of labels and tags are resolved
  before. A variable that is still a name has no index to read.
\<close>

definition var_index :: "var \<Rightarrow> index" where
  "var_index v = (case v of VIndex i \<Rightarrow> i | VName nm \<Rightarrow> kInvalidIndex)"

definition GetLabelVarDepth :: "var \<Rightarrow> index" where
  "GetLabelVarDepth v = var_index v"

definition GetTagVarDepth :: "var \<Rightarrow> index" where
  "GetTagVarDepth v = var_index v"

text \<open>There is no function around an initializer expression.\<close>

definition GetLocalIndex_bw :: "func option \<Rightarrow> var \<Rightarrow> index" where
  "GetLocalIndex_bw func v =
     (case func of
        Some f \<Rightarrow> GetLocalIndex f v
      | None \<Rightarrow> (case v of VIndex i \<Rightarrow> i | VName nm \<Rightarrow> kInvalidIndex))"

definition WriteLoadStoreExpr ::
  "module \<Rightarrow> opcode \<Rightarrow> var \<Rightarrow> address \<Rightarrow> address \<Rightarrow> unit bw" where
  "WriteLoadStoreExpr m opcode memidx align offset = do {
     out (WriteOpcode opcode);
     let align_log2 = log2_u32 (ucast (GetAlignment opcode align));
     let memidx = GetMemoryIndex m memidx;
     (if memidx \<noteq> 0 then do {
        out (WriteU8 (ucast align_log2 OR push_bit 6 1));
        out (WriteU32Leb128 memidx)
      } else out (WriteU8 (ucast align_log2)));
     out (WriteU64Leb128 offset)
   }"

definition WriteSimdLoadStoreLaneExpr ::
  "module \<Rightarrow> opcode \<Rightarrow> var \<Rightarrow> address \<Rightarrow> address \<Rightarrow> u64 \<Rightarrow> unit bw" where
  "WriteSimdLoadStoreLaneExpr m opcode memidx align offset val = do {
     WriteLoadStoreExpr m opcode memidx align offset;
     out (WriteU8 (ucast (ucast val :: u8)))
   }"

end
