(* ===== verification/Binary_Writer_Code.thy ===== *)
theory Binary_Writer_Code
  imports Binary_Writer
begin

text \<open>
  \<open>WriteExpr\<close> (src/binary-writer.cc): the cases of its \<open>switch\<close>. The cases that write no nested
  expressions are definitions of their own, one for each class template; the recursion over
  blocks, \<open>if\<close> and \<open>try\<close> follows.
\<close>

section \<open>Expressions without nested expressions\<close>

fun WriteSimpleExpr :: "simple_type \<Rightarrow> unit bw" where
  "WriteSimpleExpr DropT = out (WriteOpcode Op_Drop)"
| "WriteSimpleExpr NopT = out (WriteOpcode Op_Nop)"
| "WriteSimpleExpr ReturnT = out (WriteOpcode Op_Return)"
| "WriteSimpleExpr UnreachableT = out (WriteOpcode Op_Unreachable)"
| "WriteSimpleExpr RefIsNullT = out (WriteOpcode Op_RefIsNull)"

fun WriteMemoryExpr :: "module \<Rightarrow> memory_expr_type \<Rightarrow> var \<Rightarrow> unit bw" where
  "WriteMemoryExpr m MemoryFillT v = do {
     out (WriteOpcode Op_MemoryFill);
     out (WriteU32Leb128 (GetMemoryIndex m v))
   }"
| "WriteMemoryExpr m MemoryGrowT v = do {
     out (WriteOpcode Op_MemoryGrow);
     out (WriteU32Leb128 (GetMemoryIndex m v))
   }"
| "WriteMemoryExpr m MemorySizeT v = do {
     out (WriteOpcode Op_MemorySize);
     out (WriteU32Leb128 (GetMemoryIndex m v))
   }"

definition WriteMemoryCopyExpr :: "module \<Rightarrow> var \<Rightarrow> var \<Rightarrow> unit bw" where
  "WriteMemoryCopyExpr m dest src = do {
     out (WriteOpcode Op_MemoryCopy);
     out (WriteU32Leb128 (GetMemoryIndex m dest));
     out (WriteU32Leb128 (GetMemoryIndex m src))
   }"

definition uses_data_segment :: "unit bw" where
  "uses_data_segment = modify (\<lambda>w. w\<lparr>has_data_segment_instruction := True\<rparr>)"

definition WriteMemoryInitExpr :: "module \<Rightarrow> var \<Rightarrow> var \<Rightarrow> unit bw" where
  "WriteMemoryInitExpr m segment memidx = do {
     out (WriteOpcode Op_MemoryInit);
     out (WriteU32Leb128 (GetDataSegmentIndex m segment));
     out (WriteU32Leb128 (GetMemoryIndex m memidx));
     uses_data_segment
   }"

text \<open>The expressions with one variable: a label, a function, a global, a local, a tag, a segment or a table.\<close>

definition WriteLabelExpr :: "opcode \<Rightarrow> var \<Rightarrow> unit bw" where
  "WriteLabelExpr opcode v = do {
     out (WriteOpcode opcode);
     out (WriteU32Leb128 (GetLabelVarDepth v))
   }"

definition WriteFuncExpr :: "write_options \<Rightarrow> module \<Rightarrow> opcode \<Rightarrow> var \<Rightarrow> unit bw" where
  "WriteFuncExpr opts m opcode v = do {
     out (WriteOpcode opcode);
     WriteU32Leb128WithReloc opts (GetFuncIndex m v) FuncIndexLEB
   }"

definition WriteGlobalExpr :: "write_options \<Rightarrow> module \<Rightarrow> opcode \<Rightarrow> var \<Rightarrow> unit bw" where
  "WriteGlobalExpr opts m opcode v = do {
     out (WriteOpcode opcode);
     WriteU32Leb128WithReloc opts (GetGlobalIndex m v) GlobalIndexLEB
   }"

definition WriteLocalExpr :: "func option \<Rightarrow> opcode \<Rightarrow> var \<Rightarrow> unit bw" where
  "WriteLocalExpr func opcode v = do {
     out (WriteOpcode opcode);
     out (WriteU32Leb128 (GetLocalIndex_bw func v))
   }"

definition WriteTableExpr :: "write_options \<Rightarrow> module \<Rightarrow> opcode \<Rightarrow> var \<Rightarrow> unit bw" where
  "WriteTableExpr opts m opcode v = do {
     out (WriteOpcode opcode);
     WriteTableNumberWithReloc opts (GetTableIndex m v)
   }"

fun WriteVarExpr :: "write_options \<Rightarrow> module \<Rightarrow> func option \<Rightarrow> var_type \<Rightarrow> var \<Rightarrow> unit bw" where
  "WriteVarExpr opts m func BrT v = WriteLabelExpr Op_Br v"
| "WriteVarExpr opts m func BrIfT v = WriteLabelExpr Op_BrIf v"
| "WriteVarExpr opts m func CallT v = WriteFuncExpr opts m Op_Call v"
| "WriteVarExpr opts m func ReturnCallT v = WriteFuncExpr opts m Op_ReturnCall v"
| "WriteVarExpr opts m func GlobalGetT v = WriteGlobalExpr opts m Op_GlobalGet v"
| "WriteVarExpr opts m func GlobalSetT v = WriteGlobalExpr opts m Op_GlobalSet v"
| "WriteVarExpr opts m func LocalGetT v = WriteLocalExpr func Op_LocalGet v"
| "WriteVarExpr opts m func LocalSetT v = WriteLocalExpr func Op_LocalSet v"
| "WriteVarExpr opts m func LocalTeeT v = WriteLocalExpr func Op_LocalTee v"
| "WriteVarExpr opts m func DataDropT v = do {
     out (WriteOpcode Op_DataDrop);
     out (WriteU32Leb128 (GetDataSegmentIndex m v));
     uses_data_segment
   }"
| "WriteVarExpr opts m func ElemDropT v = do {
     out (WriteOpcode Op_ElemDrop);
     out (WriteU32Leb128 (GetElemSegmentIndex m v))
   }"
| "WriteVarExpr opts m func TableGetT v = WriteTableExpr opts m Op_TableGet v"
| "WriteVarExpr opts m func TableSetT v = WriteTableExpr opts m Op_TableSet v"
| "WriteVarExpr opts m func TableGrowT v = WriteTableExpr opts m Op_TableGrow v"
| "WriteVarExpr opts m func TableSizeT v = WriteTableExpr opts m Op_TableSize v"
| "WriteVarExpr opts m func TableFillT v = WriteTableExpr opts m Op_TableFill v"
| "WriteVarExpr opts m func RefFuncT v = WriteFuncExpr opts m Op_RefFunc v"
| "WriteVarExpr opts m func RethrowT v = WriteLabelExpr Op_Rethrow v"
| "WriteVarExpr opts m func ThrowT v = do {
     out (WriteOpcode Op_Throw);
     out (WriteU32Leb128 (GetTagVarDepth v))
   }"

definition WriteIndirectExpr ::
  "write_options \<Rightarrow> module \<Rightarrow> opcode \<Rightarrow> func_declaration \<Rightarrow> var \<Rightarrow> unit bw" where
  "WriteIndirectExpr opts m opcode decl table = do {
     out (WriteOpcode opcode);
     WriteU32Leb128WithReloc opts (GetFuncTypeIndex m decl) TypeIndexLEB;
     WriteTableNumberWithReloc opts (GetTableIndex m table)
   }"

definition WriteTableCopyExpr :: "write_options \<Rightarrow> module \<Rightarrow> var \<Rightarrow> var \<Rightarrow> unit bw" where
  "WriteTableCopyExpr opts m dst src = do {
     out (WriteOpcode Op_TableCopy);
     WriteTableNumberWithReloc opts (GetTableIndex m dst);
     WriteTableNumberWithReloc opts (GetTableIndex m src)
   }"

definition WriteTableInitExpr :: "write_options \<Rightarrow> module \<Rightarrow> var \<Rightarrow> var \<Rightarrow> unit bw" where
  "WriteTableInitExpr opts m segment table = do {
     out (WriteOpcode Op_TableInit);
     out (WriteU32Leb128 (GetElemSegmentIndex m segment));
     WriteTableNumberWithReloc opts (GetTableIndex m table)
   }"

definition WriteBrTableExpr :: "var list \<Rightarrow> var \<Rightarrow> unit bw" where
  "WriteBrTableExpr targets default_target = do {
     out (WriteOpcode Op_BrTable);
     out (WriteU32Leb128 (of_nat (length targets)));
     write_each (\<lambda>v. out (WriteU32Leb128 (GetLabelVarDepth v))) targets;
     out (WriteU32Leb128 (GetLabelVarDepth default_target))
   }"

fun WriteConstExpr :: "const_value \<Rightarrow> unit bw" where
  "WriteConstExpr (CI32 v) = do { out (WriteOpcode Op_I32Const); out (WriteS32Leb128 v) }"
| "WriteConstExpr (CI64 v) = do { out (WriteOpcode Op_I64Const); out (WriteS64Leb128 v) }"
| "WriteConstExpr (CF32 v) = do { out (WriteOpcode Op_F32Const); out (WriteU32 v) }"
| "WriteConstExpr (CF64 v) = do { out (WriteOpcode Op_F64Const); out (WriteU64 v) }"
| "WriteConstExpr (CV128 v) = do { out (WriteOpcode Op_V128Const); out (WriteU128 v) }"

definition WriteSelectExpr :: "type_vector \<Rightarrow> unit bw" where
  "WriteSelectExpr ts =
     (if ts = [] then out (WriteOpcode Op_Select)
      else do {
        out (WriteOpcode Op_SelectT);
        out (WriteU32Leb128 (of_nat (length ts)));
        write_each (\<lambda>t. out (WriteType t)) ts
      })"

text \<open>
  Metadata is not written where it stands: its offset from the start of the function body is
  noted, under its name and the function.
\<close>

definition add_entry ::
  "index \<Rightarrow> code_metadata \<Rightarrow> func_code_metadata list \<Rightarrow> func_code_metadata list" where
  "add_entry i entry entries =
     (let entries' = (if entries = [] \<or> func_idx (last entries) \<noteq> i
                      then entries @ [\<lparr>func_idx = i, cm_entries = []\<rparr>] else entries)
      in butlast entries' @ [(last entries')\<lparr>cm_entries := cm_entries (last entries') @ [entry]\<rparr>])"

fun at_name :: "name \<Rightarrow> ('x list \<Rightarrow> 'x list) \<Rightarrow> (name \<times> 'x list) list \<Rightarrow> (name \<times> 'x list) list" where
  "at_name nm f [] = [(nm, f [])]"
| "at_name nm f ((nm', xs) # rest) =
     (if nm' = nm then (nm', f xs) # rest else (nm', xs) # at_name nm f rest)"

definition WriteCodeMetadataExpr :: "name \<Rightarrow> u8 list \<Rightarrow> unit bw" where
  "WriteCodeMetadataExpr nm data = modify (\<lambda>w.
     w\<lparr>code_metadata_sections :=
         at_name nm
           (add_entry (cur_func_index w)
              \<lparr>cm_offset = ms_offset (bw_stream w) - cur_func_start_offset w, cm_data = data\<rparr>)
           (code_metadata_sections w)\<rparr>)"

section \<open>\<open>WriteExpr\<close>\<close>

fun WriteExpr :: "write_options \<Rightarrow> module \<Rightarrow> func option \<Rightarrow> expr \<Rightarrow> unit bw"
  and WriteExprList :: "write_options \<Rightarrow> module \<Rightarrow> func option \<Rightarrow> expr list \<Rightarrow> unit bw"
  and WriteCatches :: "write_options \<Rightarrow> module \<Rightarrow> func option \<Rightarrow> catch list \<Rightarrow> unit bw"
where
  "WriteExpr opts m func (SimpleExpr k) = WriteSimpleExpr k"
| "WriteExpr opts m func (MemoryExpr k v) = WriteMemoryExpr m k v"
| "WriteExpr opts m func (MemoryCopyExpr dest src) = WriteMemoryCopyExpr m dest src"
| "WriteExpr opts m func (MemoryInitExpr v memidx) = WriteMemoryInitExpr m v memidx"
| "WriteExpr opts m func (OpcodeExpr k opcode) = out (WriteOpcode opcode)"
| "WriteExpr opts m func (VarExpr k v) = WriteVarExpr opts m func k v"
| "WriteExpr opts m func (LoadStoreExpr k opcode memidx align offset) =
     WriteLoadStoreExpr m opcode memidx align offset"
| "WriteExpr opts m func (SimdLaneMemoryExpr k opcode memidx align offset val) =
     WriteSimdLoadStoreLaneExpr m opcode memidx align offset val"
| "WriteExpr opts m func (SimdLaneOpExpr opcode val) = do {
     out (WriteOpcode opcode);
     out (WriteU8 (ucast (ucast val :: u8)))
   }"
| "WriteExpr opts m func (SimdShuffleOpExpr opcode val) = do {
     out (WriteOpcode opcode);
     out (WriteU128 val)
   }"
| "WriteExpr opts m func (ConstExpr c) = WriteConstExpr c"
| "WriteExpr opts m func (SelectExpr ts) = WriteSelectExpr ts"
| "WriteExpr opts m func (RefNullExpr t) = do {
     out (WriteOpcode Op_RefNull);
     out (WriteType t)
   }"
| "WriteExpr opts m func (TableInitExpr segment table) = WriteTableInitExpr opts m segment table"
| "WriteExpr opts m func (TableCopyExpr dst src) = WriteTableCopyExpr opts m dst src"
| "WriteExpr opts m func (IndirectExpr k decl table) =
     WriteIndirectExpr opts m
       (case k of CallIndirectT \<Rightarrow> Op_CallIndirect | ReturnCallIndirectT \<Rightarrow> Op_ReturnCallIndirect)
       decl table"
| "WriteExpr opts m func (CallRefExpr v) = out (WriteOpcode Op_CallRef)"
| "WriteExpr opts m func (BrTableExpr targets default_target) =
     WriteBrTableExpr targets default_target"
| "WriteExpr opts m func (AtomicFenceExpr consistency_model) = do {
     out (WriteOpcode Op_AtomicFence);
     out (WriteU32Leb128 consistency_model)
   }"
| "WriteExpr opts m func (CodeMetadataExpr nm data) = WriteCodeMetadataExpr nm data"
| "WriteExpr opts m func (BlockExprBase k (Block lbl decl es)) = do {
     out (WriteOpcode (case k of BlockT \<Rightarrow> Op_Block | LoopT \<Rightarrow> Op_Loop));
     WriteBlockDecl opts m decl;
     WriteExprList opts m func es;
     out (WriteOpcode Op_End)
   }"
| "WriteExpr opts m func (IfExpr (Block lbl decl es) false_es) = do {
     out (WriteOpcode Op_If);
     WriteBlockDecl opts m decl;
     WriteExprList opts m func es;
     (if false_es \<noteq> [] then do {
        out (WriteOpcode Op_Else);
        WriteExprList opts m func false_es
      } else skip);
     out (WriteOpcode Op_End)
   }"
| "WriteExpr opts m func (TryExpr kind (Block lbl decl es) catches delegate_target) = do {
     out (WriteOpcode Op_Try);
     WriteBlockDecl opts m decl;
     WriteExprList opts m func es;
     (case kind of
        TryCatch \<Rightarrow> do {
          WriteCatches opts m func catches;
          out (WriteOpcode Op_End)
        }
      | TryDelegate \<Rightarrow> do {
          out (WriteOpcode Op_Delegate);
          out (WriteU32Leb128 (GetLabelVarDepth delegate_target))
        }
      | TryPlain \<Rightarrow> out (WriteOpcode Op_End))
   }"
| "WriteExprList opts m func [] = skip"
| "WriteExprList opts m func (e # es) = do {
     WriteExpr opts m func e;
     WriteExprList opts m func es
   }"
| "WriteCatches opts m func [] = skip"
| "WriteCatches opts m func (Catch v es # catches) = do {
     (if IsCatchAll (Catch v es) then out (WriteOpcode Op_CatchAll)
      else do {
        out (WriteOpcode Op_Catch);
        out (WriteU32Leb128 (GetTagVarDepth v))
      });
     WriteExprList opts m func es;
     WriteCatches opts m func catches
   }"

definition WriteInitExpr :: "write_options \<Rightarrow> module \<Rightarrow> expr list \<Rightarrow> unit bw" where
  "WriteInitExpr opts m es = do {
     WriteExprList opts m None es;
     out (WriteOpcode Op_End)
   }"

section \<open>Function bodies\<close>

definition WriteFuncLocals :: "local_types \<Rightarrow> unit bw" where
  "WriteFuncLocals decls =
     (if LocalTypes_size decls = 0 then out (WriteU32Leb128 0)
      else do {
        out (WriteU32Leb128 (of_nat (length decls)));
        write_each (\<lambda>(t, n). do {
          out (WriteU32Leb128 n);
          out (WriteType t)
        }) decls
      })"

definition WriteFunc :: "write_options \<Rightarrow> module \<Rightarrow> func \<Rightarrow> unit bw" where
  "WriteFunc opts m f = do {
     WriteFuncLocals (local_types f);
     WriteExprList opts m (Some f) (func_exprs f);
     out (WriteOpcode Op_End)
   }"

end
