(* ===== verification/Binary_Writer_Module.thy ===== *)
theory Binary_Writer_Module
  imports Binary_Writer_Code
begin

text \<open>
  \<open>WriteModule\<close> (src/binary-writer.cc): one definition for each section, in the order they are
  written, then the removal of the DataCount section, the code metadata sections that go in front of
  the code, and the custom sections.
\<close>

section \<open>Entities\<close>

text \<open>The entities a module defines itself stand behind the imported ones.\<close>

definition num_defined :: "'a list \<Rightarrow> index \<Rightarrow> index" where
  "num_defined xs num_imports = of_nat (length xs) - num_imports"

definition defined_entities :: "'a list \<Rightarrow> index \<Rightarrow> 'a list" where
  "defined_entities xs num_imports =
     map (\<lambda>i. xs ! (i + unat num_imports)) [0..<unat (num_defined xs num_imports)]"

definition WriteTable :: "table \<Rightarrow> mem_stream \<Rightarrow> mem_stream" where
  "WriteTable t = WriteLimits (elem_limits t) \<circ> WriteType (table_elem_type t)"

definition WriteMemory :: "memory \<Rightarrow> mem_stream \<Rightarrow> mem_stream" where
  "WriteMemory x = WriteLimits (page_limits x)"

definition WriteGlobalHeader :: "global \<Rightarrow> mem_stream \<Rightarrow> mem_stream" where
  "WriteGlobalHeader g = WriteU8 (of_bool (global_mutable g)) \<circ> WriteType (global_type g)"

definition WriteTagType :: "module \<Rightarrow> tag \<Rightarrow> mem_stream \<Rightarrow> mem_stream" where
  "WriteTagType m t = WriteU32Leb128 (GetFuncTypeIndex m (tag_decl t)) \<circ> WriteU8 0"

section \<open>Sections\<close>

definition WriteField :: "field \<Rightarrow> unit bw" where
  "WriteField f = do {
     out (WriteType (field_wtype f));
     out (WriteU8 (of_bool (field_mut f)))
   }"

fun WriteTypeEntry :: "type_entry \<Rightarrow> unit bw" where
  "WriteTypeEntry (FuncType nm sig) = do {
     out (WriteType FuncTy);
     out (WriteU32Leb128 (of_nat (length (param_types sig))));
     write_each (\<lambda>t. out (WriteType t)) (param_types sig);
     out (WriteU32Leb128 (of_nat (length (result_types sig))));
     write_each (\<lambda>t. out (WriteType t)) (result_types sig)
   }"
| "WriteTypeEntry (StructType nm fs) = do {
     out (WriteType StructTy);
     out (WriteU32Leb128 (of_nat (length fs)));
     write_each WriteField fs
   }"
| "WriteTypeEntry (ArrayType nm f) = do {
     out (WriteType ArrayTy);
     WriteField f
   }"

definition WriteTypeSection :: "write_options \<Rightarrow> module \<Rightarrow> unit bw" where
  "WriteTypeSection opts m =
     (if types m \<noteq> [] then in_section opts SecType (do {
        out (WriteU32Leb128 (of_nat (length (types m))));
        write_each WriteTypeEntry (types m)
      }) else skip)"

primrec external_code :: "external_kind \<Rightarrow> u32" where
  "external_code EkFunc = 0"
| "external_code EkTable = 1"
| "external_code EkMemory = 2"
| "external_code EkGlobal = 3"
| "external_code EkTag = 4"

primrec import_kind :: "import_desc \<Rightarrow> external_kind" where
  "import_kind (FuncImport f) = EkFunc"
| "import_kind (TableImport t) = EkTable"
| "import_kind (MemoryImport x) = EkMemory"
| "import_kind (GlobalImport g) = EkGlobal"
| "import_kind (TagImport t) = EkTag"

definition WriteImport :: "module \<Rightarrow> import \<Rightarrow> unit bw" where
  "WriteImport m i = do {
     out (WriteStr (import_module i));
     out (WriteStr (import_field i));
     out (WriteU8 (external_code (import_kind (import_desc i))));
     (case import_desc i of
        FuncImport f \<Rightarrow> out (WriteU32Leb128 (GetFuncTypeIndex m (func_decl f)))
      | TableImport t \<Rightarrow> out (WriteTable t)
      | MemoryImport x \<Rightarrow> out (WriteMemory x)
      | GlobalImport g \<Rightarrow> out (WriteGlobalHeader g)
      | TagImport t \<Rightarrow> out (WriteTagType m t))
   }"

definition WriteImportSection :: "write_options \<Rightarrow> module \<Rightarrow> unit bw" where
  "WriteImportSection opts m =
     (if mod_imports m \<noteq> [] then in_section opts SecImport (do {
        out (WriteU32Leb128 (of_nat (length (mod_imports m))));
        write_each (WriteImport m) (mod_imports m)
      }) else skip)"

text \<open>The function, table, memory, tag and global sections: a count and the defined entities.\<close>

definition defined_section ::
  "write_options \<Rightarrow> binary_section \<Rightarrow> 'x list \<Rightarrow> index \<Rightarrow> ('x \<Rightarrow> unit bw) \<Rightarrow> unit bw" where
  "defined_section opts sec xs num_imports f =
     (if num_defined xs num_imports \<noteq> 0 then in_section opts sec (do {
        out (WriteU32Leb128 (num_defined xs num_imports));
        write_each f (defined_entities xs num_imports)
      }) else skip)"

definition WriteFunctionSection :: "write_options \<Rightarrow> module \<Rightarrow> unit bw" where
  "WriteFunctionSection opts m =
     defined_section opts SecFunction (funcs m) (func_imports_count m)
       (\<lambda>f. out (WriteU32Leb128 (GetFuncTypeIndex m (func_decl f))))"

definition WriteTableSection :: "write_options \<Rightarrow> module \<Rightarrow> unit bw" where
  "WriteTableSection opts m =
     defined_section opts SecTable (tables m) (table_imports_count m) (\<lambda>t. out (WriteTable t))"

definition WriteMemorySection :: "write_options \<Rightarrow> module \<Rightarrow> unit bw" where
  "WriteMemorySection opts m =
     defined_section opts SecMemory (memories m) (memory_imports_count m) (\<lambda>x. out (WriteMemory x))"

definition WriteTagSection :: "write_options \<Rightarrow> module \<Rightarrow> unit bw" where
  "WriteTagSection opts m =
     defined_section opts SecTag (tags m) (tag_imports_count m) (\<lambda>t. out (WriteTagType m t))"

definition WriteGlobalSection :: "write_options \<Rightarrow> module \<Rightarrow> unit bw" where
  "WriteGlobalSection opts m =
     defined_section opts SecGlobal (globals m) (global_imports_count m) (\<lambda>g. do {
       out (WriteGlobalHeader g);
       WriteInitExpr opts m (init_expr g)
     })"

definition export_index :: "module \<Rightarrow> export \<Rightarrow> index" where
  "export_index m e =
     (case export_kind e of
        EkFunc \<Rightarrow> GetFuncIndex m (export_var e)
      | EkTable \<Rightarrow> GetTableIndex m (export_var e)
      | EkMemory \<Rightarrow> GetMemoryIndex m (export_var e)
      | EkGlobal \<Rightarrow> GetGlobalIndex m (export_var e)
      | EkTag \<Rightarrow> GetTagIndex m (export_var e))"

definition WriteExport :: "module \<Rightarrow> export \<Rightarrow> unit bw" where
  "WriteExport m e = do {
     out (WriteStr (export_name e));
     out (WriteU8 (external_code (export_kind e)));
     out (WriteU32Leb128 (export_index m e))
   }"

definition WriteExportSection :: "write_options \<Rightarrow> module \<Rightarrow> unit bw" where
  "WriteExportSection opts m =
     (if exports m \<noteq> [] then in_section opts SecExport (do {
        out (WriteU32Leb128 (of_nat (length (exports m))));
        write_each (WriteExport m) (exports m)
      }) else skip)"

text \<open>Of several start fields, which validation rejects, the first is written.\<close>

definition WriteStartSection :: "write_options \<Rightarrow> module \<Rightarrow> unit bw" where
  "WriteStartSection opts m =
     (case starts m of
        [] \<Rightarrow> skip
      | v # vs \<Rightarrow>
          (if GetFuncIndex m v \<noteq> kInvalidIndex
           then in_section opts SecStart (out (WriteU32Leb128 (GetFuncIndex m v)))
           else skip))"

text \<open>
  The function of an element that is written as an index. The code asserts that the element is a
  single \<open>ref.func\<close>; the flags say so for every element when indices are written.
\<close>

fun elem_func :: "expr list \<Rightarrow> var" where
  "elem_func (VarExpr RefFuncT v # es) = v"
| "elem_func es = VIndex kInvalidIndex"

definition WriteElemSegment :: "write_options \<Rightarrow> module \<Rightarrow> elem_segment \<Rightarrow> unit bw" where
  "WriteElemSegment opts m seg = do {
     let flags = ElemSegment_GetFlags m seg;
     out (WriteU8 (ucast flags));
     (if flags AND SegExplicitIndex \<noteq> 0 \<and> elem_kind seg \<noteq> SkDeclared
      then out (WriteU32Leb128 (GetTableIndex m (table_var seg))) else skip);
     (if flags AND SegPassive = 0 then WriteInitExpr opts m (elem_offset seg) else skip);
     (if flags AND (SegPassive OR SegExplicitIndex) \<noteq> 0
      then if flags AND SegUseElemExprs \<noteq> 0 then out (WriteType (segment_elem_type seg))
           else out (WriteU8 (external_code EkFunc))
      else skip);
     out (WriteU32Leb128 (of_nat (length (elem_exprs seg))));
     (if flags AND SegUseElemExprs \<noteq> 0 then write_each (WriteInitExpr opts m) (elem_exprs seg)
      else write_each (\<lambda>es. out (WriteU32Leb128 (GetFuncIndex m (elem_func es)))) (elem_exprs seg))
   }"

definition WriteElemSection :: "write_options \<Rightarrow> module \<Rightarrow> unit bw" where
  "WriteElemSection opts m =
     (if elem_segments m \<noteq> [] then in_section opts SecElem (do {
        out (WriteU32Leb128 (of_nat (length (elem_segments m))));
        write_each (WriteElemSegment opts m) (elem_segments m)
      }) else skip)"

section \<open>Data count and code\<close>

definition needs_data_count :: "write_options \<Rightarrow> module \<Rightarrow> bool" where
  "needs_data_count opts m \<longleftrightarrow> bulk_memory_enabled (wo_features opts) \<and> data_segments m \<noteq> []"

definition WriteDataCountSection :: "write_options \<Rightarrow> module \<Rightarrow> unit bw" where
  "WriteDataCountSection opts m =
     (if needs_data_count opts m then do {
        modify (\<lambda>w. w\<lparr>data_count_start := ms_offset (bw_stream w)\<rparr>);
        in_section opts SecDataCount (out (WriteU32Leb128 (of_nat (length (data_segments m)))));
        modify (\<lambda>w. w\<lparr>data_count_end := ms_offset (bw_stream w)\<rparr>)
      } else skip)"

text \<open>The relocations within a function body move when its size takes more than one byte.\<close>

definition move_relocs :: "nat \<Rightarrow> nat \<Rightarrow> int \<Rightarrow> reloc list \<Rightarrow> reloc list" where
  "move_relocs first last' delta = map (\<lambda>r.
     if first \<le> reloc_offset r \<and> reloc_offset r \<le> last'
     then r\<lparr>reloc_offset := nat (int (reloc_offset r) + delta)\<rparr> else r)"

definition WriteFuncBody :: "write_options \<Rightarrow> module \<Rightarrow> nat \<Rightarrow> unit bw" where
  "WriteFuncBody opts m i = do {
     modify (\<lambda>w. w\<lparr>cur_func_index := of_nat i + func_imports_count m\<rparr>);
     f \<leftarrow> gets (\<lambda>w. funcs m ! unat (cur_func_index w));
     let leb_size_guess = 1;
     body_size_offset \<leftarrow> WriteU32Leb128Space opts leb_size_guess;
     modify (\<lambda>w. w\<lparr>cur_func_start_offset := ms_offset (bw_stream w)\<rparr>);
     WriteFunc opts m f;
     func_start_offset \<leftarrow> gets (\<lambda>w. body_size_offset - last_section_payload_offset w);
     func_end_offset \<leftarrow> gets (\<lambda>w. ms_offset (bw_stream w) - last_section_payload_offset w);
     delta \<leftarrow> WriteFixupU32Leb128Size opts body_size_offset leb_size_guess;
     (if delta \<noteq> 0
      then modify (on_current_reloc_section (move_relocs func_start_offset func_end_offset delta))
      else skip)
   }"

definition WriteCodeSection :: "write_options \<Rightarrow> module \<Rightarrow> unit bw" where
  "WriteCodeSection opts m =
     (let num_funcs = num_defined (funcs m) (func_imports_count m) in
      if num_funcs \<noteq> 0 then do {
        modify (\<lambda>w. w\<lparr>code_start := ms_offset (bw_stream w)\<rparr>);
        in_section opts SecCode (do {
          out (WriteU32Leb128 num_funcs);
          write_each (WriteFuncBody opts m) [0..<unat num_funcs]
        })
      } else skip)"

definition shift_section :: "index \<Rightarrow> index \<Rightarrow> reloc_section list \<Rightarrow> reloc_section list" where
  "shift_section i by' = map (\<lambda>r.
     if section_index r = i then r\<lparr>section_index := section_index r + by'\<rparr> else r)"

definition RemoveDataCount :: "write_options \<Rightarrow> module \<Rightarrow> unit bw" where
  "RemoveDataCount opts m = do {
     used \<leftarrow> gets has_data_segment_instruction;
     if needs_data_count opts m \<and> \<not> used then do {
       start \<leftarrow> gets data_count_start;
       end' \<leftarrow> gets data_count_end;
       n \<leftarrow> gets (\<lambda>w. ms_offset (bw_stream w) - end');
       (if n \<noteq> 0 then do {
          out (MoveData start end' n);
          modify (\<lambda>w. w\<lparr>code_start := start\<rparr>)
        } else skip);
       out (Truncate (start + n));
       modify (\<lambda>w. w\<lparr>section_count := section_count w - 1\<rparr>);
       modify (\<lambda>w. w\<lparr>reloc_sections := shift_section (section_count w) (- 1) (reloc_sections w)\<rparr>)
     } else skip
   }"

section \<open>Code metadata\<close>

definition WriteCodeMetadataEntry :: "code_metadata \<Rightarrow> unit bw" where
  "WriteCodeMetadataEntry a = do {
     out (WriteU32Leb128 (of_nat (cm_offset a)));
     out (WriteU32Leb128 (of_nat (length (cm_data a))));
     out (WriteData (cm_data a))
   }"

definition WriteFuncCodeMetadata :: "write_options \<Rightarrow> func_code_metadata \<Rightarrow> unit bw" where
  "WriteFuncCodeMetadata opts f = do {
     WriteU32Leb128WithReloc opts (func_idx f) FuncIndexLEB;
     out (WriteU32Leb128 (of_nat (length (cm_entries f))));
     write_each WriteCodeMetadataEntry (cm_entries f)
   }"

definition WriteCodeMetadataSection ::
  "write_options \<Rightarrow> name \<times> func_code_metadata list \<Rightarrow> unit bw" where
  "WriteCodeMetadataSection opts s =
     in_custom_section opts (ascii ''metadata.code.'' @ fst s) (do {
       out (WriteU32Leb128 (of_nat (length (snd s))));
       write_each (WriteFuncCodeMetadata opts) (snd s)
     })"

text \<open>
  An unordered map is iterated over in an order of its own: \<open>iterate\<close> arranges the entries. The
  sections are written to a temporary stream, for which room is made in front of the code.
\<close>

type_synonym iteration =
  "(name \<times> func_code_metadata list) list \<Rightarrow> (name \<times> func_code_metadata list) list"

definition WriteCodeMetadataSections :: "iteration \<Rightarrow> write_options \<Rightarrow> unit bw" where
  "WriteCodeMetadataSections iterate opts = do {
     sections \<leftarrow> gets code_metadata_sections;
     if sections = [] then skip
     else do {
       modify (\<lambda>w. w\<lparr>section_count := section_count w - 1\<rparr>);
       modify (\<lambda>w. w\<lparr>reloc_sections :=
         shift_section (section_count w) (of_nat (length sections)) (reloc_sections w)\<rparr>);
       main_stream \<leftarrow> gets bw_stream;
       modify (\<lambda>w. w\<lparr>bw_stream := new_stream\<rparr>);
       write_each (WriteCodeMetadataSection opts) (iterate sections);
       buf \<leftarrow> gets (\<lambda>w. ms_data (bw_stream w));
       modify (\<lambda>w. w\<lparr>bw_stream := main_stream\<rparr>);
       start \<leftarrow> gets code_start;
       off \<leftarrow> gets (\<lambda>w. ms_offset (bw_stream w));
       out (MoveData (start + length buf) start (off - start));
       out (WriteDataAt start buf);
       out (AddOffset (int (length buf)));
       modify (\<lambda>w. w\<lparr>code_start := code_start w + length buf\<rparr>);
       modify (\<lambda>w. w\<lparr>section_count := section_count w + 1, last_section_type := Some SecCode\<rparr>)
     }
   }"

section \<open>Data and custom sections\<close>

definition WriteDataSegment :: "write_options \<Rightarrow> module \<Rightarrow> data_segment \<Rightarrow> unit bw" where
  "WriteDataSegment opts m seg = do {
     let flags = DataSegment_GetFlags m seg;
     out (WriteU8 (ucast flags));
     (if flags AND SegPassive = 0 then do {
        (if multi_memory_enabled (wo_features opts) \<and> flags AND SegExplicitIndex \<noteq> 0
         then out (WriteU32Leb128 (GetMemoryIndex m (memory_var seg))) else skip);
        WriteInitExpr opts m (data_offset seg)
      } else skip);
     out (WriteU32Leb128 (of_nat (length (segment_data seg))));
     out (WriteData (segment_data seg))
   }"

definition WriteDataSection :: "write_options \<Rightarrow> module \<Rightarrow> unit bw" where
  "WriteDataSection opts m =
     (if data_segments m \<noteq> [] then in_section opts SecData (do {
        out (WriteU32Leb128 (of_nat (length (data_segments m))));
        write_each (WriteDataSegment opts m) (data_segments m)
      }) else skip)"

text \<open>
  \<open>name.find(s) == 0\<close> finds the first occurrence of \<open>s\<close>, and \<open>name.rfind(s) == 0\<close> the last one.
\<close>

definition starts_with :: "u8 list \<Rightarrow> u8 list \<Rightarrow> bool" where
  "starts_with pat nm \<longleftrightarrow> take (length pat) nm = pat"

definition find_is_0 :: "u8 list \<Rightarrow> u8 list \<Rightarrow> bool" where
  "find_is_0 pat nm \<longleftrightarrow> starts_with pat nm"

definition rfind_is_0 :: "u8 list \<Rightarrow> u8 list \<Rightarrow> bool" where
  "rfind_is_0 pat nm \<longleftrightarrow>
     starts_with pat nm \<and> \<not> list_ex (\<lambda>i. starts_with pat (drop i nm)) [1..<length nm + 1]"

text \<open>The custom sections that the writer makes itself are not copied.\<close>

definition is_own_custom :: "write_options \<Rightarrow> name \<Rightarrow> bool" where
  "is_own_custom opts nm \<longleftrightarrow>
     (nm = ascii ''name'' \<and> write_debug_names opts) \<or>
     (rfind_is_0 (ascii ''reloc'') nm \<and> relocatable opts) \<or>
     (nm = ascii ''linking'' \<and> relocatable opts) \<or>
     (find_is_0 (ascii ''metadata.code.'') nm \<and> code_metadata_enabled (wo_features opts))"

definition WriteCustom :: "write_options \<Rightarrow> custom \<Rightarrow> unit bw" where
  "WriteCustom opts c =
     (if is_own_custom opts (custom_name c) then skip
      else in_custom_section opts (custom_name c) (out (WriteData (custom_data c))))"

section \<open>Names\<close>

text \<open>The names that are not empty, with their positions, counted from \<open>i\<close>.\<close>

fun WriteNameEntries :: "nat \<Rightarrow> name list \<Rightarrow> unit bw" where
  "WriteNameEntries i [] = skip"
| "WriteNameEntries i (nm # names) = do {
     (if nm = [] then skip
      else do {
        out (WriteU32Leb128 (of_nat i));
        out (WriteDebugName nm)
      });
     WriteNameEntries (Suc i) names
   }"

definition num_named :: "name list \<Rightarrow> nat" where
  "num_named names = length (filter (\<lambda>nm. nm \<noteq> []) names)"

definition WriteNames :: "write_options \<Rightarrow> name list \<Rightarrow> u32 \<Rightarrow> unit bw" where
  "WriteNames opts names subsection_type =
     (if num_named names = 0 then skip
      else do {
        out (WriteU32Leb128 subsection_type);
        in_subsection opts (do {
          out (WriteU32Leb128 (of_nat (num_named names)));
          WriteNameEntries 0 names
        })
      })"

definition WriteLocalNames :: "nat \<times> func \<Rightarrow> unit bw" where
  "WriteLocalNames = (\<lambda>(i, f). do {
     let index_to_name = MakeTypeBindingReverseMapping (unat (GetNumParamsAndLocals f)) (bindings f);
     out (WriteU32Leb128 (of_nat i));
     out (WriteU32Leb128 (of_nat (num_named index_to_name)));
     WriteNameEntries 0 index_to_name
   })"

text \<open>The sub-sections are numbered as in \<open>NameSectionSubsection\<close>.\<close>

definition WriteNameSection :: "write_options \<Rightarrow> module \<Rightarrow> unit bw" where
  "WriteNameSection opts m =
     in_custom_section opts (ascii ''name'') (do {
       (if mod_name m \<noteq> [] then do {
          out (WriteU32Leb128 0);
          in_subsection opts (out (WriteDebugName (mod_name m)))
        } else skip);
       WriteNames opts (map func_name (funcs m)) 1;
       out (WriteU32Leb128 2);
       in_subsection opts (do {
         out (WriteU32Leb128 (of_nat (length (funcs m))));
         write_each WriteLocalNames (enumerate 0 (funcs m))
       });
       WriteNames opts (map entry_name (types m)) 4;
       WriteNames opts (map table_name (tables m)) 5;
       WriteNames opts (map memory_name (memories m)) 6;
       WriteNames opts (map global_name (globals m)) 7;
       WriteNames opts (map elem_name (elem_segments m)) 8;
       WriteNames opts (map data_name (data_segments m)) 9;
       WriteNames opts (map tag_name (tags m)) 11
     })"

section \<open>Linking\<close>

definition WriteSymbol :: "symbol \<Rightarrow> unit bw" where
  "WriteSymbol s = do {
     out (WriteU8 (ucast (symbol_type (sym_kind s))));
     out (WriteU32Leb128 (ucast (sym_flags s)));
     let named = (defined s \<or> explicit_name s);
     (case sym_kind s of
        SymFunction i \<Rightarrow> do {
          out (WriteU32Leb128 i);
          (if named then out (WriteStr (sym_name s)) else skip)
        }
      | SymData i offset n \<Rightarrow> do {
          out (WriteStr (sym_name s));
          (if defined s then do {
             out (WriteU32Leb128 i);
             out (WriteU32Leb128 (of_nat offset));
             out (WriteU32Leb128 (ucast n))
           } else skip)
        }
      | SymGlobal i \<Rightarrow> do {
          out (WriteU32Leb128 i);
          (if named then out (WriteStr (sym_name s)) else skip)
        }
      | SymSection i \<Rightarrow> out (WriteU32Leb128 i)
      | SymTag i \<Rightarrow> do {
          out (WriteU32Leb128 i);
          (if named then out (WriteStr (sym_name s)) else skip)
        }
      | SymTable i \<Rightarrow> do {
          out (WriteU32Leb128 i);
          (if named then out (WriteStr (sym_name s)) else skip)
        })
   }"

definition WriteLinkingSection :: "write_options \<Rightarrow> unit bw" where
  "WriteLinkingSection opts = do {
     syms \<leftarrow> gets (\<lambda>w. symbols (symtab w));
     in_custom_section opts (ascii ''linking'') (do {
       out (WriteU32Leb128 2);
       (if syms \<noteq> [] then do {
          out (WriteU8 8);
          in_subsection opts (do {
            out (WriteU32Leb128 (of_nat (length syms)));
            write_each WriteSymbol syms
          })
        } else skip)
     })
   }"

definition WriteReloc :: "reloc \<Rightarrow> unit bw" where
  "WriteReloc r = do {
     out (WriteU32Leb128 (reloc_type r));
     out (WriteU32Leb128 (of_nat (reloc_offset r)));
     out (WriteU32Leb128 (reloc_index r));
     (if reloc_type r \<in> set relocs_with_addend then out (WriteU32Leb128 (reloc_addend r)) else skip)
   }"

definition WriteRelocSection :: "write_options \<Rightarrow> reloc_section \<Rightarrow> unit bw" where
  "WriteRelocSection opts rs =
     in_custom_section opts (ascii ''reloc.'' @ section_name rs) (do {
       out (WriteU32Leb128 (section_index rs));
       out (WriteU32Leb128 (of_nat (length (relocations rs))));
       write_each WriteReloc (relocations rs)
     })"

section \<open>The module\<close>

definition PopulateSymbols :: "module \<Rightarrow> result bw" where
  "PopulateSymbols m = State (\<lambda>w.
     (let (r, t) = run_state (Populate m) (symtab w) in (r, w\<lparr>symtab := t\<rparr>)))"

definition WriteSectionsBeforeCode :: "write_options \<Rightarrow> module \<Rightarrow> unit bw" where
  "WriteSectionsBeforeCode opts m = do {
     WriteTypeSection opts m;
     WriteImportSection opts m;
     WriteFunctionSection opts m;
     WriteTableSection opts m;
     WriteMemorySection opts m;
     WriteTagSection opts m;
     WriteGlobalSection opts m;
     WriteExportSection opts m;
     WriteStartSection opts m;
     WriteElemSection opts m
   }"

definition WriteSectionsAfterCode :: "write_options \<Rightarrow> module \<Rightarrow> unit bw" where
  "WriteSectionsAfterCode opts m = do {
     WriteDataSection opts m;
     write_each (WriteCustom opts) (customs m);
     (if write_debug_names opts then WriteNameSection opts m else skip)
   }"

definition WriteSections :: "iteration \<Rightarrow> write_options \<Rightarrow> module \<Rightarrow> unit bw" where
  "WriteSections iterate opts m = do {
     WriteSectionsBeforeCode opts m;
     WriteDataCountSection opts m;
     WriteCodeSection opts m;
     RemoveDataCount opts m;
     WriteCodeMetadataSections iterate opts;
     WriteSectionsAfterCode opts m
   }"

definition WriteLinking :: "write_options \<Rightarrow> unit bw" where
  "WriteLinking opts = do {
     WriteLinkingSection opts;
     relocs \<leftarrow> gets reloc_sections;
     write_each (WriteRelocSection opts) relocs
   }"

definition WriteModule :: "iteration \<Rightarrow> write_options \<Rightarrow> module \<Rightarrow> result bw" where
  "WriteModule iterate opts m = do {
     out (WriteU32 WABT_BINARY_MAGIC);
     out (WriteU32 WABT_BINARY_VERSION);
     CHECK_RESULT (if relocatable opts then PopulateSymbols m else State_Monad.return Ok) (do {
       WriteSections iterate opts m;
       (if relocatable opts then WriteLinking opts else skip);
       gets (\<lambda>w. ms_result (bw_stream w))
     })
   }"

definition WriteBinaryModule ::
  "iteration \<Rightarrow> mem_stream \<Rightarrow> module \<Rightarrow> write_options \<Rightarrow> result \<times> mem_stream" where
  "WriteBinaryModule iterate stream m opts =
     (let (r, w) = run_state (WriteModule iterate opts m) (BinaryWriter stream)
      in (r, bw_stream w))"

end
