(* ===== verification/Binary_Encoding.thy ===== *)
theory Binary_Encoding
  imports Binary_Writer_Module
begin

text \<open>
  The encoding of a module as a function: what the bytes of every part are, without a stream,
  offsets, guesses and fixups. \<open>Binary_Writer_Facts\<close> proves that the writer produces it.
\<close>

section \<open>Emissions\<close>

text \<open>
  What writing code amounts to: the bytes, whether an instruction refers to a data segment, and
  the metadata with their positions in the bytes. Emissions in sequence form a monoid.
\<close>

datatype emission =
  Emission (bytes: "u8 list") (uses_data: bool) (metas: "(nat \<times> name \<times> u8 list) list")

definition shift_metas :: "nat \<Rightarrow> (nat \<times> name \<times> u8 list) list \<Rightarrow> (nat \<times> name \<times> u8 list) list" where
  "shift_metas n = map (\<lambda>(p, note). (n + p, note))"

instantiation emission :: monoid_add
begin

definition zero_emission :: emission where
  "zero_emission = Emission [] False []"

fun plus_emission :: "emission \<Rightarrow> emission \<Rightarrow> emission" where
  "Emission a u ns + Emission b v ms =
     Emission (a @ b) (u \<or> v) (ns @ shift_metas (length a) ms)"

instance
proof
  fix a b c :: emission
  show "a + b + c = a + (b + c)"
    by (cases a; cases b; cases c) (simp add: shift_metas_def add.assoc case_prod_beta comp_def)
  show "0 + a = a" by (cases a) (simp add: zero_emission_def shift_metas_def case_prod_beta)
  show "a + 0 = a" by (cases a) (simp add: zero_emission_def shift_metas_def)
qed

end

lemma bytes_plus [simp]: "bytes (a + b) = bytes a @ bytes b"
  by (cases a; cases b) simp

lemma uses_data_plus [simp]: "uses_data (a + b) \<longleftrightarrow> uses_data a \<or> uses_data b"
  by (cases a; cases b) simp

lemma metas_plus: "metas (a + b) = metas a @ shift_metas (length (bytes a)) (metas b)"
  by (cases a; cases b) simp

lemma zero_parts [simp]: "bytes 0 = []" "\<not> uses_data 0" "metas 0 = []"
  by (simp_all add: zero_emission_def)

lemma shift_metas_Nil_iff [simp]: "shift_metas n ms = [] \<longleftrightarrow> ms = []"
  by (simp add: shift_metas_def)

lemma shift_metas_Nil [simp]: "shift_metas n [] = []"
  by (simp add: shift_metas_def)

definition lit :: "u8 list \<Rightarrow> emission" where
  "lit bs = Emission bs False []"

lemma lit_parts [simp]: "bytes (lit bs) = bs" "\<not> uses_data (lit bs)" "metas (lit bs) = []"
  by (simp_all add: lit_def)

lemma lit_append: "lit (as @ bs) = lit as + lit bs"
  by (simp add: lit_def)

lemma lit_Nil [simp]: "lit [] = 0"
  by (simp add: lit_def zero_emission_def)

lemma bytes_sum_list [simp]: "bytes (sum_list es) = concat (map bytes es)"
  by (induction es) simp_all

lemma uses_data_sum_list [simp]: "uses_data (sum_list es) \<longleftrightarrow> list_ex uses_data es"
  by (induction es) simp_all

lemma metas_sum_list: "list_all (\<lambda>e. metas e = []) es \<Longrightarrow> metas (sum_list es) = []"
  by (induction es) (simp_all add: metas_plus)

section \<open>Values\<close>

definition enc_str :: "u8 list \<Rightarrow> u8 list" where
  "enc_str s = U32Leb128Bytes (of_nat (length s)) @ s"

definition enc_type :: "wtype \<Rightarrow> u8 list" where
  "enc_type t = S32Leb128Bytes (word_of_int (type_enum t)) @
     (if IsReferenceWithIndex t then S32Leb128Bytes (type_index t) else [])"

definition enc_limits :: "limits \<Rightarrow> u8 list" where
  "enc_limits l = U32Leb128Bytes (ucast (limits_flags l)) @
     (if is_64 l
      then U64Leb128Bytes (initial l) @ (if has_max l then U64Leb128Bytes (max_limit l) else [])
      else U32Leb128Bytes (ucast (initial l)) @
           (if has_max l then U32Leb128Bytes (ucast (max_limit l)) else []))"

definition enc_vec :: "('a \<Rightarrow> u8 list) \<Rightarrow> 'a list \<Rightarrow> u8 list" where
  "enc_vec f xs = U32Leb128Bytes (of_nat (length xs)) @ concat (map f xs)"

definition enc_debug_name :: "name \<Rightarrow> u8 list" where
  "enc_debug_name nm = enc_str (if nm \<noteq> [] then tl nm else nm)"

text \<open>A size is padded unless LEB128 values are to be canonical.\<close>

definition enc_size :: "write_options \<Rightarrow> nat \<Rightarrow> u8 list" where
  "enc_size opts n =
     (if canonicalize_lebs opts then U32Leb128Bytes (of_nat n) else FixedU32Leb128Bytes (of_nat n))"

definition sized :: "write_options \<Rightarrow> u8 list \<Rightarrow> u8 list" where
  "sized opts bs = enc_size opts (length bs) @ bs"

definition sized_emission :: "write_options \<Rightarrow> emission \<Rightarrow> emission" where
  "sized_emission opts e = Emission (sized opts (bytes e)) (uses_data e) []"

definition enc_section :: "write_options \<Rightarrow> binary_section \<Rightarrow> emission \<Rightarrow> emission" where
  "enc_section opts sec e = lit [of_nat (GetSectionCode sec)] + sized_emission opts e"

definition enc_custom :: "write_options \<Rightarrow> u8 list \<Rightarrow> emission \<Rightarrow> emission" where
  "enc_custom opts nm e = enc_section opts SecCustom (lit (enc_str (c_str nm)) + e)"

text \<open>Indices that may be relocated are padded in a relocatable module.\<close>

definition enc_index :: "write_options \<Rightarrow> index \<Rightarrow> u8 list" where
  "enc_index opts i = (if relocatable opts then FixedU32Leb128Bytes i else U32Leb128Bytes i)"

definition enc_table_number :: "write_options \<Rightarrow> index \<Rightarrow> u8 list" where
  "enc_table_number opts i =
     (if relocatable opts \<and> reference_types_enabled (wo_features opts)
      then FixedS32Leb128Bytes i else S32Leb128Bytes i)"

definition enc_block_decl :: "write_options \<Rightarrow> module \<Rightarrow> func_declaration \<Rightarrow> u8 list" where
  "enc_block_decl opts m decl =
     (case (param_types (decl_sig decl), result_types (decl_sig decl)) of
        ([], []) \<Rightarrow> enc_type VoidTy
      | ([], [t]) \<Rightarrow> enc_type t
      | _ \<Rightarrow> if relocatable opts then FixedS32Leb128Bytes (GetFuncTypeIndex m decl)
            else S32Leb128Bytes (GetFuncTypeIndex m decl))"

section \<open>Instructions\<close>

fun enc_simple :: "simple_type \<Rightarrow> u8 list" where
  "enc_simple DropT = GetBytes Op_Drop"
| "enc_simple NopT = GetBytes Op_Nop"
| "enc_simple ReturnT = GetBytes Op_Return"
| "enc_simple UnreachableT = GetBytes Op_Unreachable"
| "enc_simple RefIsNullT = GetBytes Op_RefIsNull"

fun enc_memory :: "module \<Rightarrow> memory_expr_type \<Rightarrow> var \<Rightarrow> u8 list" where
  "enc_memory m MemoryFillT v = GetBytes Op_MemoryFill @ U32Leb128Bytes (GetMemoryIndex m v)"
| "enc_memory m MemoryGrowT v = GetBytes Op_MemoryGrow @ U32Leb128Bytes (GetMemoryIndex m v)"
| "enc_memory m MemorySizeT v = GetBytes Op_MemorySize @ U32Leb128Bytes (GetMemoryIndex m v)"

fun enc_var :: "write_options \<Rightarrow> module \<Rightarrow> func option \<Rightarrow> var_type \<Rightarrow> var \<Rightarrow> u8 list" where
  "enc_var opts m func BrT v = GetBytes Op_Br @ U32Leb128Bytes (var_index v)"
| "enc_var opts m func BrIfT v = GetBytes Op_BrIf @ U32Leb128Bytes (var_index v)"
| "enc_var opts m func CallT v = GetBytes Op_Call @ enc_index opts (GetFuncIndex m v)"
| "enc_var opts m func ReturnCallT v = GetBytes Op_ReturnCall @ enc_index opts (GetFuncIndex m v)"
| "enc_var opts m func GlobalGetT v = GetBytes Op_GlobalGet @ enc_index opts (GetGlobalIndex m v)"
| "enc_var opts m func GlobalSetT v = GetBytes Op_GlobalSet @ enc_index opts (GetGlobalIndex m v)"
| "enc_var opts m func LocalGetT v = GetBytes Op_LocalGet @ U32Leb128Bytes (GetLocalIndex_bw func v)"
| "enc_var opts m func LocalSetT v = GetBytes Op_LocalSet @ U32Leb128Bytes (GetLocalIndex_bw func v)"
| "enc_var opts m func LocalTeeT v = GetBytes Op_LocalTee @ U32Leb128Bytes (GetLocalIndex_bw func v)"
| "enc_var opts m func DataDropT v = GetBytes Op_DataDrop @ U32Leb128Bytes (GetDataSegmentIndex m v)"
| "enc_var opts m func ElemDropT v = GetBytes Op_ElemDrop @ U32Leb128Bytes (GetElemSegmentIndex m v)"
| "enc_var opts m func TableGetT v = GetBytes Op_TableGet @ enc_table_number opts (GetTableIndex m v)"
| "enc_var opts m func TableSetT v = GetBytes Op_TableSet @ enc_table_number opts (GetTableIndex m v)"
| "enc_var opts m func TableGrowT v = GetBytes Op_TableGrow @ enc_table_number opts (GetTableIndex m v)"
| "enc_var opts m func TableSizeT v = GetBytes Op_TableSize @ enc_table_number opts (GetTableIndex m v)"
| "enc_var opts m func TableFillT v = GetBytes Op_TableFill @ enc_table_number opts (GetTableIndex m v)"
| "enc_var opts m func RefFuncT v = GetBytes Op_RefFunc @ enc_index opts (GetFuncIndex m v)"
| "enc_var opts m func RethrowT v = GetBytes Op_Rethrow @ U32Leb128Bytes (var_index v)"
| "enc_var opts m func ThrowT v = GetBytes Op_Throw @ U32Leb128Bytes (var_index v)"

text \<open>The alignment is written as its logarithm, with bit 6 set if a memory index follows.\<close>

definition enc_memarg :: "module \<Rightarrow> opcode \<Rightarrow> var \<Rightarrow> address \<Rightarrow> address \<Rightarrow> u8 list" where
  "enc_memarg m opcode memidx align offset =
     (let align_log2 = log2_u32 (ucast (GetAlignment opcode align)) in
      if GetMemoryIndex m memidx \<noteq> 0
      then [align_log2 OR push_bit 6 1] @ U32Leb128Bytes (GetMemoryIndex m memidx)
      else [align_log2]) @ U64Leb128Bytes offset"

fun enc_const :: "const_value \<Rightarrow> u8 list" where
  "enc_const (CI32 v) = GetBytes Op_I32Const @ S32Leb128Bytes v"
| "enc_const (CI64 v) = GetBytes Op_I64Const @ S64Leb128Bytes v"
| "enc_const (CF32 v) = GetBytes Op_F32Const @ to_le 4 v"
| "enc_const (CF64 v) = GetBytes Op_F64Const @ to_le 8 v"
| "enc_const (CV128 v) = GetBytes Op_V128Const @ v"

definition indirect_opcode :: "indirect_type \<Rightarrow> opcode" where
  "indirect_opcode k =
     (case k of CallIndirectT \<Rightarrow> Op_CallIndirect | ReturnCallIndirectT \<Rightarrow> Op_ReturnCallIndirect)"

definition block_opcode :: "block_type \<Rightarrow> opcode" where
  "block_opcode k = (case k of BlockT \<Rightarrow> Op_Block | LoopT \<Rightarrow> Op_Loop)"

fun enc_expr :: "write_options \<Rightarrow> module \<Rightarrow> func option \<Rightarrow> expr \<Rightarrow> emission"
  and enc_exprs :: "write_options \<Rightarrow> module \<Rightarrow> func option \<Rightarrow> expr list \<Rightarrow> emission"
  and enc_catches :: "write_options \<Rightarrow> module \<Rightarrow> func option \<Rightarrow> catch list \<Rightarrow> emission"
where
  "enc_expr opts m func (SimpleExpr k) = lit (enc_simple k)"
| "enc_expr opts m func (MemoryExpr k v) = lit (enc_memory m k v)"
| "enc_expr opts m func (MemoryCopyExpr dest src) =
     lit (GetBytes Op_MemoryCopy @ U32Leb128Bytes (GetMemoryIndex m dest) @
       U32Leb128Bytes (GetMemoryIndex m src))"
| "enc_expr opts m func (MemoryInitExpr v memidx) =
     Emission (GetBytes Op_MemoryInit @ U32Leb128Bytes (GetDataSegmentIndex m v) @
       U32Leb128Bytes (GetMemoryIndex m memidx)) True []"
| "enc_expr opts m func (OpcodeExpr k opcode) = lit (GetBytes opcode)"
| "enc_expr opts m func (VarExpr k v) = Emission (enc_var opts m func k v) (k = DataDropT) []"
| "enc_expr opts m func (LoadStoreExpr k opcode memidx align offset) =
     lit (GetBytes opcode @ enc_memarg m opcode memidx align offset)"
| "enc_expr opts m func (SimdLaneMemoryExpr k opcode memidx align offset val) =
     lit (GetBytes opcode @ enc_memarg m opcode memidx align offset @ [ucast val])"
| "enc_expr opts m func (SimdLaneOpExpr opcode val) = lit (GetBytes opcode @ [ucast val])"
| "enc_expr opts m func (SimdShuffleOpExpr opcode val) = lit (GetBytes opcode @ val)"
| "enc_expr opts m func (ConstExpr c) = lit (enc_const c)"
| "enc_expr opts m func (SelectExpr ts) =
     lit (if ts = [] then GetBytes Op_Select else GetBytes Op_SelectT @ enc_vec enc_type ts)"
| "enc_expr opts m func (RefNullExpr t) = lit (GetBytes Op_RefNull @ enc_type t)"
| "enc_expr opts m func (TableInitExpr segment table) =
     lit (GetBytes Op_TableInit @ U32Leb128Bytes (GetElemSegmentIndex m segment) @
       enc_table_number opts (GetTableIndex m table))"
| "enc_expr opts m func (TableCopyExpr dst src) =
     lit (GetBytes Op_TableCopy @ enc_table_number opts (GetTableIndex m dst) @
       enc_table_number opts (GetTableIndex m src))"
| "enc_expr opts m func (IndirectExpr k decl table) =
     lit (GetBytes (indirect_opcode k) @ enc_index opts (GetFuncTypeIndex m decl) @
       enc_table_number opts (GetTableIndex m table))"
| "enc_expr opts m func (CallRefExpr v) = lit (GetBytes Op_CallRef)"
| "enc_expr opts m func (BrTableExpr targets default_target) =
     lit (GetBytes Op_BrTable @ enc_vec (\<lambda>v. U32Leb128Bytes (var_index v)) targets @
       U32Leb128Bytes (var_index default_target))"
| "enc_expr opts m func (AtomicFenceExpr consistency_model) =
     lit (GetBytes Op_AtomicFence @ U32Leb128Bytes consistency_model)"
| "enc_expr opts m func (CodeMetadataExpr nm data) = Emission [] False [(0, nm, data)]"
| "enc_expr opts m func (BlockExprBase k (Block lbl decl es)) =
     lit (GetBytes (block_opcode k) @ enc_block_decl opts m decl) + enc_exprs opts m func es +
     lit (GetBytes Op_End)"
| "enc_expr opts m func (IfExpr (Block lbl decl es) false_es) =
     lit (GetBytes Op_If @ enc_block_decl opts m decl) + enc_exprs opts m func es +
     (if false_es \<noteq> [] then lit (GetBytes Op_Else) + enc_exprs opts m func false_es else 0) +
     lit (GetBytes Op_End)"
| "enc_expr opts m func (TryExpr kind (Block lbl decl es) catches delegate_target) =
     lit (GetBytes Op_Try @ enc_block_decl opts m decl) + enc_exprs opts m func es +
     (case kind of
        TryCatch \<Rightarrow> enc_catches opts m func catches + lit (GetBytes Op_End)
      | TryDelegate \<Rightarrow> lit (GetBytes Op_Delegate @ U32Leb128Bytes (var_index delegate_target))
      | TryPlain \<Rightarrow> lit (GetBytes Op_End))"
| "enc_exprs opts m func [] = 0"
| "enc_exprs opts m func (e # es) = enc_expr opts m func e + enc_exprs opts m func es"
| "enc_catches opts m func [] = 0"
| "enc_catches opts m func (Catch v es # catches) =
     lit (if v = VIndex kInvalidIndex then GetBytes Op_CatchAll
          else GetBytes Op_Catch @ U32Leb128Bytes (var_index v)) +
     enc_exprs opts m func es + enc_catches opts m func catches"

definition enc_init :: "write_options \<Rightarrow> module \<Rightarrow> expr list \<Rightarrow> emission" where
  "enc_init opts m es = enc_exprs opts m None es + lit (GetBytes Op_End)"

definition enc_locals :: "local_types \<Rightarrow> u8 list" where
  "enc_locals decls =
     (if LocalTypes_size decls = 0 then U32Leb128Bytes 0
      else enc_vec (\<lambda>(t, n). U32Leb128Bytes n @ enc_type t) decls)"

definition enc_func :: "write_options \<Rightarrow> module \<Rightarrow> func \<Rightarrow> emission" where
  "enc_func opts m f =
     lit (enc_locals (local_types f)) + enc_exprs opts m (Some f) (func_exprs f) +
     lit (GetBytes Op_End)"

section \<open>Sections\<close>

definition enc_field :: "field \<Rightarrow> u8 list" where
  "enc_field f = enc_type (field_wtype f) @ [of_bool (field_mut f)]"

fun enc_type_entry :: "type_entry \<Rightarrow> u8 list" where
  "enc_type_entry (FuncType nm sig) =
     enc_type FuncTy @ enc_vec enc_type (param_types sig) @ enc_vec enc_type (result_types sig)"
| "enc_type_entry (StructType nm fs) = enc_type StructTy @ enc_vec enc_field fs"
| "enc_type_entry (ArrayType nm f) = enc_type ArrayTy @ enc_field f"

definition enc_table :: "table \<Rightarrow> u8 list" where
  "enc_table t = enc_type (table_elem_type t) @ enc_limits (elem_limits t)"

definition enc_global_header :: "global \<Rightarrow> u8 list" where
  "enc_global_header g = enc_type (global_type g) @ [of_bool (global_mutable g)]"

definition enc_tag :: "module \<Rightarrow> tag \<Rightarrow> u8 list" where
  "enc_tag m t = [0] @ U32Leb128Bytes (GetFuncTypeIndex m (tag_decl t))"

definition enc_import :: "module \<Rightarrow> import \<Rightarrow> u8 list" where
  "enc_import m i =
     enc_str (import_module i) @ enc_str (import_field i) @
     [ucast (external_code (import_kind (import_desc i)))] @
     (case import_desc i of
        FuncImport f \<Rightarrow> U32Leb128Bytes (GetFuncTypeIndex m (func_decl f))
      | TableImport t \<Rightarrow> enc_table t
      | MemoryImport x \<Rightarrow> enc_limits (page_limits x)
      | GlobalImport g \<Rightarrow> enc_global_header g
      | TagImport t \<Rightarrow> enc_tag m t)"

definition enc_export :: "module \<Rightarrow> export \<Rightarrow> u8 list" where
  "enc_export m e =
     enc_str (export_name e) @ [ucast (external_code (export_kind e))] @
     U32Leb128Bytes (export_index m e)"

definition enc_elem_segment :: "write_options \<Rightarrow> module \<Rightarrow> elem_segment \<Rightarrow> emission" where
  "enc_elem_segment opts m seg =
     (let flags = ElemSegment_GetFlags m seg in
      lit [flags] +
      lit (if flags AND SegExplicitIndex \<noteq> 0 \<and> elem_kind seg \<noteq> SkDeclared
           then U32Leb128Bytes (GetTableIndex m (table_var seg)) else []) +
      (if flags AND SegPassive = 0 then enc_init opts m (elem_offset seg) else 0) +
      lit (if flags AND (SegPassive OR SegExplicitIndex) \<noteq> 0
           then if flags AND SegUseElemExprs \<noteq> 0 then enc_type (segment_elem_type seg) else [0]
           else []) +
      lit (U32Leb128Bytes (of_nat (length (elem_exprs seg)))) +
      (if flags AND SegUseElemExprs \<noteq> 0
       then sum_list (map (enc_init opts m) (elem_exprs seg))
       else lit (concat (map (\<lambda>es. U32Leb128Bytes (GetFuncIndex m (elem_func es))) (elem_exprs seg)))))"

definition enc_data_segment :: "write_options \<Rightarrow> module \<Rightarrow> data_segment \<Rightarrow> emission" where
  "enc_data_segment opts m seg =
     (let flags = DataSegment_GetFlags m seg in
      lit [flags] +
      (if flags AND SegPassive = 0
       then lit (if multi_memory_enabled (wo_features opts) \<and> flags AND SegExplicitIndex \<noteq> 0
                 then U32Leb128Bytes (GetMemoryIndex m (memory_var seg)) else []) +
            enc_init opts m (data_offset seg)
       else 0) +
      lit (enc_str (segment_data seg)))"

text \<open>A section with a vector in it, that is left out if the vector is empty.\<close>

definition vec_section :: "write_options \<Rightarrow> binary_section \<Rightarrow> ('a \<Rightarrow> emission) \<Rightarrow> 'a list \<Rightarrow> emission" where
  "vec_section opts sec f xs =
     (if xs = [] then 0
      else enc_section opts sec (lit (U32Leb128Bytes (of_nat (length xs))) + sum_list (map f xs)))"

definition enc_start :: "write_options \<Rightarrow> module \<Rightarrow> emission" where
  "enc_start opts m =
     (case starts m of
        [] \<Rightarrow> 0
      | v # vs \<Rightarrow>
          if GetFuncIndex m v \<noteq> kInvalidIndex
          then enc_section opts SecStart (lit (U32Leb128Bytes (GetFuncIndex m v))) else 0)"

text \<open>The defined entities of a module: those behind the imported ones.\<close>

definition enc_before_code :: "write_options \<Rightarrow> module \<Rightarrow> emission" where
  "enc_before_code opts m =
     vec_section opts SecType (lit \<circ> enc_type_entry) (types m) +
     vec_section opts SecImport (lit \<circ> enc_import m) (mod_imports m) +
     vec_section opts SecFunction (\<lambda>f. lit (U32Leb128Bytes (GetFuncTypeIndex m (func_decl f))))
       (drop (unat (func_imports_count m)) (funcs m)) +
     vec_section opts SecTable (lit \<circ> enc_table) (drop (unat (table_imports_count m)) (tables m)) +
     vec_section opts SecMemory (\<lambda>x. lit (enc_limits (page_limits x)))
       (drop (unat (memory_imports_count m)) (memories m)) +
     vec_section opts SecTag (lit \<circ> enc_tag m) (drop (unat (tag_imports_count m)) (tags m)) +
     vec_section opts SecGlobal (\<lambda>g. lit (enc_global_header g) + enc_init opts m (init_expr g))
       (drop (unat (global_imports_count m)) (globals m)) +
     vec_section opts SecExport (lit \<circ> enc_export m) (exports m) +
     enc_start opts m +
     vec_section opts SecElem (enc_elem_segment opts m) (elem_segments m)"

definition enc_data_count :: "write_options \<Rightarrow> module \<Rightarrow> emission" where
  "enc_data_count opts m =
     enc_section opts SecDataCount (lit (U32Leb128Bytes (of_nat (length (data_segments m)))))"

definition enc_code :: "write_options \<Rightarrow> module \<Rightarrow> emission" where
  "enc_code opts m =
     vec_section opts SecCode (\<lambda>f. sized_emission opts (enc_func opts m f))
       (drop (unat (func_imports_count m)) (funcs m))"

section \<open>Code metadata\<close>

text \<open>The metadata of all functions, by name, with their functions and their offsets in them.\<close>

definition func_metas ::
  "index \<Rightarrow> (nat \<times> name \<times> u8 list) list \<Rightarrow> (name \<times> func_code_metadata list) list \<Rightarrow>
   (name \<times> func_code_metadata list) list" where
  "func_metas i ns = fold (\<lambda>(p, nm, data). at_name nm (add_entry i \<lparr>cm_offset = p, cm_data = data\<rparr>)) ns"

definition module_metadata :: "write_options \<Rightarrow> module \<Rightarrow> (name \<times> func_code_metadata list) list" where
  "module_metadata opts m =
     fold (\<lambda>i. func_metas (of_nat i) (metas (enc_func opts m (funcs m ! i))))
       [unat (func_imports_count m)..<length (funcs m)] []"

definition enc_func_metadata :: "write_options \<Rightarrow> func_code_metadata \<Rightarrow> u8 list" where
  "enc_func_metadata opts f =
     enc_index opts (func_idx f) @
     enc_vec (\<lambda>a. U32Leb128Bytes (of_nat (cm_offset a)) @ enc_str (cm_data a)) (cm_entries f)"

definition enc_metadata :: "write_options \<Rightarrow> name \<times> func_code_metadata list \<Rightarrow> emission" where
  "enc_metadata opts s =
     enc_custom opts (ascii ''metadata.code.'' @ fst s) (lit (enc_vec (enc_func_metadata opts) (snd s)))"

section \<open>Names\<close>

definition named_entries :: "name list \<Rightarrow> (nat \<times> name) list" where
  "named_entries names = filter (\<lambda>(i, nm). nm \<noteq> []) (enumerate 0 names)"

definition enc_name_entries :: "name list \<Rightarrow> u8 list" where
  "enc_name_entries names =
     enc_vec (\<lambda>(i, nm). U32Leb128Bytes (of_nat i) @ enc_debug_name nm) (named_entries names)"

definition enc_names :: "write_options \<Rightarrow> name list \<Rightarrow> u32 \<Rightarrow> u8 list" where
  "enc_names opts names subsection_type =
     (if named_entries names = [] then []
      else U32Leb128Bytes subsection_type @ sized opts (enc_name_entries names))"

definition enc_local_names :: "nat \<times> func \<Rightarrow> u8 list" where
  "enc_local_names = (\<lambda>(i, f). U32Leb128Bytes (of_nat i) @
     enc_name_entries (MakeTypeBindingReverseMapping (unat (GetNumParamsAndLocals f)) (bindings f)))"

definition enc_name_section :: "write_options \<Rightarrow> module \<Rightarrow> emission" where
  "enc_name_section opts m =
     enc_custom opts (ascii ''name'') (lit
       ((if mod_name m \<noteq> [] then U32Leb128Bytes 0 @ sized opts (enc_debug_name (mod_name m)) else []) @
        enc_names opts (map func_name (funcs m)) 1 @
        U32Leb128Bytes 2 @ sized opts (enc_vec enc_local_names (enumerate 0 (funcs m))) @
        enc_names opts (map entry_name (types m)) 4 @
        enc_names opts (map table_name (tables m)) 5 @
        enc_names opts (map memory_name (memories m)) 6 @
        enc_names opts (map global_name (globals m)) 7 @
        enc_names opts (map elem_name (elem_segments m)) 8 @
        enc_names opts (map data_name (data_segments m)) 9 @
        enc_names opts (map tag_name (tags m)) 11))"

section \<open>The module\<close>

text \<open>The DataCount section is there if an instruction needs it.\<close>

definition has_data_count :: "write_options \<Rightarrow> module \<Rightarrow> bool" where
  "has_data_count opts m \<longleftrightarrow> needs_data_count opts m \<and>
     (uses_data (enc_before_code opts m) \<or> uses_data (enc_code opts m))"

definition enc_after_code :: "write_options \<Rightarrow> module \<Rightarrow> emission" where
  "enc_after_code opts m =
     vec_section opts SecData (enc_data_segment opts m) (data_segments m) +
     sum_list (map (\<lambda>c. enc_custom opts (custom_name c) (lit (custom_data c)))
       (filter (\<lambda>c. \<not> is_own_custom opts (custom_name c)) (customs m))) +
     (if write_debug_names opts then enc_name_section opts m else 0)"

definition enc_module :: "iteration \<Rightarrow> write_options \<Rightarrow> module \<Rightarrow> u8 list" where
  "enc_module iterate opts m =
     to_le 4 WABT_BINARY_MAGIC @ to_le 4 WABT_BINARY_VERSION @
     bytes (enc_before_code opts m) @
     (if has_data_count opts m then bytes (enc_data_count opts m) else []) @
     (if module_metadata opts m = [] then []
      else concat (map (\<lambda>s. bytes (enc_metadata opts s)) (iterate (module_metadata opts m)))) @
     bytes (enc_code opts m) @
     bytes (enc_after_code opts m)"

end
