(* ===== verification/Binary_Writer_Facts.thy ===== *)
theory Binary_Writer_Facts
  imports Binary_Encoding
begin

text \<open>
  The writer produces the encoding: a judgement for stream functions, one for the actions of the
  writer, and the rules that carry it from values to sections. Guessing a size, moving the bytes
  behind it and fixing it up is done once, in \<open>WriteFixup_run\<close>.
\<close>

lemma ucast_wide [simp]: "ucast (ucast (b :: u8) :: u32) = b"
  by (rule bit_word_eqI) (auto simp: bit_ucast_iff)

lemma ucast_of_bool [simp]: "ucast (of_bool b :: u32) = (of_bool b :: u8)"
  by (cases b) simp_all

section \<open>Stream functions\<close>

definition puts :: "(mem_stream \<Rightarrow> mem_stream) \<Rightarrow> u8 list \<Rightarrow> bool" where
  "puts f bs \<longleftrightarrow> (\<forall>s. at_end s \<longrightarrow> at_end (f s) \<and> ms_data (f s) = ms_data s @ bs)"

named_theorems puts_intros \<open>what the stream functions write\<close>

lemma puts_comp: "puts f as \<Longrightarrow> puts g bs \<Longrightarrow> puts (g \<circ> f) (as @ bs)"
  by (simp add: puts_def)

lemma puts_id: "puts id []"
  by (simp add: puts_def)

lemma puts_WriteData [puts_intros]: "puts (WriteData bs) bs"
  by (simp add: puts_def WriteData_data WriteData_at_end)

lemma puts_leb [puts_intros]:
  "puts (WriteU32Leb128 v) (U32Leb128Bytes v)"
  "puts (WriteU64Leb128 w) (U64Leb128Bytes w)"
  "puts (WriteS32Leb128 v) (S32Leb128Bytes v)"
  "puts (WriteS64Leb128 w) (S64Leb128Bytes w)"
  "puts (WriteFixedU32Leb128 v) (FixedU32Leb128Bytes v)"
  "puts (WriteFixedS32Leb128 v) (FixedS32Leb128Bytes v)"
  using puts_WriteData
  by (auto simp: puts_def WriteU32Leb128_def WriteU64Leb128_def WriteS32Leb128_def
    WriteS64Leb128_def WriteFixedU32Leb128_def WriteFixedS32Leb128_def U32Leb128Bytes_def
    U64Leb128Bytes_def WriteFixedU32Leb128Raw_def)

lemma puts_numbers [puts_intros]:
  "puts (WriteU8 v) [ucast v]" "puts (WriteU32 v) (to_le 4 v)" "puts (WriteU64 w) (to_le 8 w)"
  "puts (WriteU128 bs) bs"
  by (simp_all add: WriteU8_def WriteU32_def WriteU64_def WriteU128_def puts_WriteData)

lemma puts_WriteStr [puts_intros]: "puts (WriteStr s) (enc_str s)"
  unfolding WriteStr_def enc_str_def by (intro puts_comp puts_intros)

lemma puts_WriteOpcode [puts_intros]: "puts (WriteOpcode e) (GetBytes e)"
proof (cases "HasPrefix e")
  case True
  have "puts (WriteOpcode e) ([ucast (ucast (prefix (GetInfo e)) :: u32)] @ U32Leb128Bytes (code (GetInfo e)))"
    using True by (simp only: WriteOpcode_def if_True) (intro puts_comp puts_intros)
  moreover have "length (uleb_loop (code (GetInfo e))) \<le> 5"
    using length_U32Leb128Bytes by (simp add: U32Leb128Bytes_def)
  ultimately show ?thesis
    using True by (simp add: GetBytes_def WriteU32Leb128Raw_def U32Leb128Bytes_def Let_def)
next
  case False
  then show ?thesis by (simp add: WriteOpcode_def GetBytes_def puts_numbers)
qed

lemma puts_if: "puts f as \<Longrightarrow> puts g bs \<Longrightarrow> puts (if c then f else g) (if c then as else bs)"
  by simp

lemma puts_WriteType [puts_intros]: "puts (WriteType t) (enc_type t)"
  unfolding WriteType_def enc_type_def GetReferenceIndex_def
  by (intro puts_comp puts_if puts_id puts_intros)

lemma puts_WriteLimits [puts_intros]: "puts (WriteLimits l) (enc_limits l)"
  unfolding WriteLimits_def enc_limits_def by (intro puts_comp puts_if puts_id puts_intros)

lemma puts_WriteDebugName [puts_intros]: "puts (WriteDebugName nm) (enc_debug_name nm)"
  unfolding WriteDebugName_def enc_debug_name_def by (rule puts_WriteStr)

lemma puts_entities [puts_intros]:
  "puts (WriteTable t) (enc_table t)"
  "puts (WriteMemory x) (enc_limits (page_limits x))"
  "puts (WriteGlobalHeader g) (enc_global_header g)"
  "puts (WriteTagType m tg) (enc_tag m tg)"
proof -
  show "puts (WriteTable t) (enc_table t)"
    unfolding WriteTable_def enc_table_def by (intro puts_comp puts_intros)
  show "puts (WriteMemory x) (enc_limits (page_limits x))"
    unfolding WriteMemory_def by (intro puts_intros)
  have "puts (WriteGlobalHeader g) (enc_type (global_type g) @ [ucast (of_bool (global_mutable g) :: u32)])"
    unfolding WriteGlobalHeader_def by (intro puts_comp puts_intros)
  then show "puts (WriteGlobalHeader g) (enc_global_header g)" by (simp add: enc_global_header_def)
  have "puts (WriteTagType m tg) ([ucast (0 :: u32)] @ U32Leb128Bytes (GetFuncTypeIndex m (tag_decl tg)))"
    unfolding WriteTagType_def by (intro puts_comp puts_intros)
  then show "puts (WriteTagType m tg) (enc_tag m tg)" by (simp add: enc_tag_def)
qed

section \<open>Actions of the writer\<close>

text \<open>
  What an action leaves alone: within the contents of a sub-section (level 0), of a section
  (level 1), and between sections (level 2). The relocations are not followed.
\<close>

definition kept :: "nat \<Rightarrow> binary_writer \<Rightarrow>
  (symbol_table \<times> nat \<times> nat \<times> nat \<times> nat \<times> index) \<times>
  (index \<times> nat \<times> nat \<times> nat) option \<times> (nat \<times> nat) option" where
  "kept level w =
     ((symtab w, code_start w, data_count_start w, data_count_end w, cur_func_start_offset w,
       cur_func_index w),
      (if level \<le> 1
       then Some (section_count w, last_section_offset w, last_section_leb_size_guess w,
                  last_section_payload_offset w) else None),
      (if level = 0
       then Some (last_subsection_offset w, last_subsection_leb_size_guess w) else None))"

definition add_metas :: "index \<Rightarrow> nat \<Rightarrow> nat \<Rightarrow> (nat \<times> name \<times> u8 list) list \<Rightarrow>
  (name \<times> func_code_metadata list) list \<Rightarrow> (name \<times> func_code_metadata list) list" where
  "add_metas i base start ns =
     fold (\<lambda>(p, nm, data). at_name nm (add_entry i \<lparr>cm_offset = base + p - start, cm_data = data\<rparr>)) ns"

lemma add_metas_Nil [simp]: "add_metas i base start [] ms = ms"
  by (simp add: add_metas_def)

lemma add_metas_append: "add_metas i base start (ns @ shift_metas k ns') ms =
  add_metas i (base + k) start ns' (add_metas i base start ns ms)"
proof (induction ns' arbitrary: ns ms)
  case (Cons n ns')
  obtain p nm data where "n = (p, nm, data)" by (cases n)
  with Cons [of "ns @ [(k + p, nm, data)]"] show ?case
    by (simp add: add_metas_def shift_metas_def add.assoc)
qed (simp add: add_metas_def)

definition wrote :: "nat \<Rightarrow> emission \<Rightarrow> binary_writer \<Rightarrow> binary_writer \<Rightarrow> bool" where
  "wrote level e w w' \<longleftrightarrow>
     at_end (bw_stream w') \<and>
     ms_data (bw_stream w') = ms_data (bw_stream w) @ bytes e \<and>
     kept level w' = kept level w \<and>
     has_data_segment_instruction w' = (has_data_segment_instruction w \<or> uses_data e) \<and>
     code_metadata_sections w' =
       add_metas (cur_func_index w) (length (ms_data (bw_stream w))) (cur_func_start_offset w)
         (metas e) (code_metadata_sections w)"

definition writes :: "nat \<Rightarrow> unit bw \<Rightarrow> emission \<Rightarrow> bool" where
  "writes level m e \<longleftrightarrow>
     (\<forall>w. at_end (bw_stream w) \<longrightarrow> wrote level e w (snd (run_state m w)))"

named_theorems writes_intros \<open>what the actions of the writer write\<close>

lemma kept_mono: "kept a w = kept a w' \<Longrightarrow> a \<le> b \<Longrightarrow> kept b w = kept b w'"
  by (auto simp: kept_def split: if_splits)

lemma writes_mono: "writes a m e \<Longrightarrow> a \<le> b \<Longrightarrow> writes b m e"
  by (fastforce simp: writes_def wrote_def dest: kept_mono)

lemma wrote_trans:
  assumes "wrote level a w w1" "wrote level b w1 w2"
  shows "wrote level (a + b) w w2"
proof -
  have "cur_func_index w1 = cur_func_index w" "cur_func_start_offset w1 = cur_func_start_offset w"
    using assms(1) by (auto simp: wrote_def kept_def)
  with assms show ?thesis by (auto simp: wrote_def metas_plus add_metas_append)
qed

lemma wrote_0: "at_end (bw_stream w) \<Longrightarrow> wrote level 0 w w"
  by (simp add: wrote_def)

lemma writes_bind [writes_intros]:
  assumes "writes level m a" "\<And>x. writes level (k x) b"
  shows "writes level (State_Monad.bind m k) (a + b)"
proof -
  have "wrote level (a + b) w (snd (run_state (State_Monad.bind m k) w))" if "at_end (bw_stream w)" for w
  proof -
    obtain x w1 where 1: "run_state m w = (x, w1)" by (cases "run_state m w")
    with assms(1) that have w1: "wrote level a w w1" by (metis snd_conv writes_def)
    then have "wrote level b w1 (snd (run_state (k x) w1))"
      using assms(2) by (simp add: wrote_def writes_def)
    with w1 1 show ?thesis by (simp add: wrote_trans)
  qed
  then show ?thesis by (simp add: writes_def)
qed

lemma writes_skip [writes_intros]: "writes level skip 0"
  by (simp add: writes_def skip_def wrote_0)

lemma writes_out: "puts f bs \<Longrightarrow> writes level (out f) (lit bs)"
  by (auto simp: writes_def wrote_def puts_def out_def kept_def)

lemma writes_if [writes_intros]:
  "writes level m a \<Longrightarrow> writes level n b \<Longrightarrow> writes level (if c then m else n) (if c then a else b)"
  by simp

lemma writes_each:
  assumes "\<And>x. x \<in> set xs \<Longrightarrow> writes level (f x) (e x)"
  shows "writes level (write_each f xs) (sum_list (map e xs))"
  using assms by (induction xs) (auto intro!: writes_intros)

lemma sum_list_lit: "sum_list (map (\<lambda>x. lit (f x)) xs) = lit (concat (map f xs))"
  by (induction xs) (simp_all add: lit_append)

lemma writes_each_lit:
  assumes "\<And>x. x \<in> set xs \<Longrightarrow> writes level (f x) (lit (e x))"
  shows "writes level (write_each f xs) (lit (concat (map e xs)))"
  using writes_each [of xs level f "\<lambda>x. lit (e x)"] assms by (simp add: sum_list_lit)

lemma writes_eq: "writes level m a \<Longrightarrow> a = b \<Longrightarrow> writes level m b"
  by simp

section \<open>Instructions\<close>

text \<open>Relocations are recorded beside the stream.\<close>

lemma writes_AddReloc: "writes level (AddReloc t i) 0"
proof -
  have "wrote level 0 w (snd (run_state (AddReloc t i) w))" if "at_end (bw_stream w)" for w
    using that
    by (auto simp: wrote_def kept_def AddReloc_def GetRelocSection_def on_current_reloc_section_def
      skip_def Let_def split: option.splits)
  then show ?thesis by (simp add: writes_def)
qed

lemma writes_WithReloc [writes_intros]:
  "writes level (WriteU32Leb128WithReloc opts i t) (lit (enc_index opts i))"
  "writes level (WriteS32Leb128WithReloc opts v t)
     (lit (if relocatable opts then FixedS32Leb128Bytes v else S32Leb128Bytes v))"
  "writes level (WriteTableNumberWithReloc opts i) (lit (enc_table_number opts i))"
proof -
  have add: "writes level (do { AddReloc t i; out f }) (lit bs)" if "puts f bs" for t i f bs
    using writes_bind [OF writes_AddReloc writes_out [OF that]] by simp
  show "writes level (WriteU32Leb128WithReloc opts i t) (lit (enc_index opts i))"
    by (simp add: WriteU32Leb128WithReloc_def enc_index_def add writes_out puts_leb)
  show "writes level (WriteS32Leb128WithReloc opts v t)
     (lit (if relocatable opts then FixedS32Leb128Bytes v else S32Leb128Bytes v))"
    by (simp add: WriteS32Leb128WithReloc_def add writes_out puts_leb)
  show "writes level (WriteTableNumberWithReloc opts i) (lit (enc_table_number opts i))"
    by (simp add: WriteTableNumberWithReloc_def enc_table_number_def add writes_out puts_leb)
qed

lemma writes_out_intros [writes_intros]:
  "puts f bs \<Longrightarrow> writes level (out f) (lit bs)"
  by (rule writes_out)

lemma writes_uses_data_segment [writes_intros]: "writes level uses_data_segment (Emission [] True [])"
  by (simp add: writes_def wrote_def kept_def uses_data_segment_def)

lemma writes_WriteBlockDecl [writes_intros]:
  "writes level (WriteBlockDecl opts m decl) (lit (enc_block_decl opts m decl))"
  using writes_WithReloc(2) [of level opts "GetFuncTypeIndex m decl" TypeIndexLEB]
  unfolding WriteBlockDecl_def enc_block_decl_def
  by (cases "relocatable opts") (simp_all add: writes_out puts_WriteType split: list.splits)

lemma emission_eqs: "lit as + lit bs = lit (as @ bs)" "lit as + Emission bs u [] = Emission (as @ bs) u []"
  by (simp_all add: lit_def)

lemma writes_simple: "writes level (WriteSimpleExpr k) (lit (enc_simple k))"
  by (cases k) (auto intro: writes_out puts_WriteOpcode)

lemma writes_memory: "writes level (WriteMemoryExpr m k v) (lit (enc_memory m k v))"
  by (cases k; simp only: WriteMemoryExpr.simps enc_memory.simps lit_append)
    (intro writes_intros puts_intros)+

lemma writes_LoadStore:
  "writes level (WriteLoadStoreExpr m opcode memidx align offset)
     (lit (GetBytes opcode @ enc_memarg m opcode memidx align offset))"
proof -
  let ?l = "log2_u32 (ucast (GetAlignment opcode align))" and ?i = "GetMemoryIndex m memidx"
  have "writes level (WriteLoadStoreExpr m opcode memidx align offset)
      (lit (GetBytes opcode) +
       ((if ?i \<noteq> 0 then lit [ucast (ucast ?l OR push_bit 6 1 :: u32)] + lit (U32Leb128Bytes ?i)
         else lit [ucast (ucast ?l :: u32)]) + lit (U64Leb128Bytes offset)))"
    unfolding WriteLoadStoreExpr_def Let_def by (intro writes_intros puts_intros)
  moreover have "ucast (ucast ?l OR push_bit 6 1 :: u32) = ?l OR push_bit 6 1"
    by (rule bit_word_eqI) (auto simp: bit_simps)
  ultimately show ?thesis
    by (simp add: enc_memarg_def Let_def emission_eqs split: if_splits)
qed

lemma writes_const: "writes level (WriteConstExpr c) (lit (enc_const c))"
  by (cases c; simp only: WriteConstExpr.simps enc_const.simps lit_append)
    (intro writes_intros puts_intros)+

lemma writes_var:
  "writes level (WriteVarExpr opts m func k v) (Emission (enc_var opts m func k v) (k = DataDropT) [])"
proof -
  have op: "writes level (do { out (WriteOpcode e); n }) (lit (GetBytes e @ bs))" if "writes level n (lit bs)" for e n bs
    using writes_bind [OF writes_out [OF puts_WriteOpcode] that] by (simp add: lit_append)
  have drop: "writes level (do { out (WriteOpcode e); out f; uses_data_segment })
      (Emission (GetBytes e @ bs) True [])" if "puts f bs" for e f bs
    using writes_bind [OF writes_out [OF puts_WriteOpcode]
        writes_bind [OF writes_out [OF that] writes_uses_data_segment]]
    by (simp add: lit_def)
  show ?thesis
    by (cases k) (simp_all only: WriteVarExpr.simps enc_var.simps WriteLabelExpr_def WriteFuncExpr_def
      WriteGlobalExpr_def WriteLocalExpr_def WriteTableExpr_def GetLabelVarDepth_def
      GetTagVarDepth_def lit_def [symmetric] var_type.distinct simp_thms op drop writes_out puts_leb
      writes_WithReloc)
qed

lemma writes_select:
  "writes level (WriteSelectExpr ts)
     (lit (if ts = [] then GetBytes Op_Select else GetBytes Op_SelectT @ enc_vec enc_type ts))"
  by (auto simp: WriteSelectExpr_def enc_vec_def lit_append
    intro!: writes_intros puts_intros writes_each_lit)

lemma writes_BrTable:
  "writes level (WriteBrTableExpr targets d)
     (lit (GetBytes Op_BrTable @ enc_vec (\<lambda>v. U32Leb128Bytes (var_index v)) targets @
       U32Leb128Bytes (var_index d)))"
  unfolding WriteBrTableExpr_def enc_vec_def lit_append GetLabelVarDepth_def
  by (simp only: add.assoc) (intro writes_intros puts_intros writes_each_lit)

lemma writes_metadata:
  "writes level (WriteCodeMetadataExpr nm data) (Emission [] False [(0, nm, data)])"
  by (auto simp: writes_def wrote_def kept_def WriteCodeMetadataExpr_def add_metas_def at_end_def)

lemma writes_MemoryInit:
  "writes level (WriteMemoryInitExpr m v memidx)
     (Emission (GetBytes Op_MemoryInit @ U32Leb128Bytes (GetDataSegmentIndex m v) @
       U32Leb128Bytes (GetMemoryIndex m memidx)) True [])"
proof -
  have "writes level (WriteMemoryInitExpr m v memidx)
      (lit (GetBytes Op_MemoryInit) + (lit (U32Leb128Bytes (GetDataSegmentIndex m v)) +
       (lit (U32Leb128Bytes (GetMemoryIndex m memidx)) + Emission [] True [])))"
    unfolding WriteMemoryInitExpr_def by (intro writes_intros puts_intros)
  then show ?thesis by (simp add: lit_def)
qed

lemma writes_lane:
  "writes level (out (WriteU8 (ucast (ucast val :: u8)))) (lit [ucast val])"
  using writes_out [OF puts_numbers(1)] by (metis ucast_wide)

lemma writes_TableOps:
  "writes level (WriteIndirectExpr opts m e decl table)
     (lit (GetBytes e @ enc_index opts (GetFuncTypeIndex m decl) @
       enc_table_number opts (GetTableIndex m table)))"
  "writes level (WriteTableCopyExpr opts m dst src)
     (lit (GetBytes Op_TableCopy @ enc_table_number opts (GetTableIndex m dst) @
       enc_table_number opts (GetTableIndex m src)))"
  "writes level (WriteTableInitExpr opts m segment table)
     (lit (GetBytes Op_TableInit @ U32Leb128Bytes (GetElemSegmentIndex m segment) @
       enc_table_number opts (GetTableIndex m table)))"
  "writes level (WriteMemoryCopyExpr m dst src)
     (lit (GetBytes Op_MemoryCopy @ U32Leb128Bytes (GetMemoryIndex m dst) @
       U32Leb128Bytes (GetMemoryIndex m src)))"
  unfolding WriteIndirectExpr_def WriteTableCopyExpr_def WriteTableInitExpr_def
    WriteMemoryCopyExpr_def lit_append
  by (intro writes_intros puts_intros)+

lemmas writes_leaf = writes_simple writes_memory writes_MemoryInit writes_var writes_LoadStore
  writes_const writes_select writes_BrTable writes_metadata writes_lane writes_TableOps

lemma writes_exprs:
  "writes level (WriteExpr opts m func e) (enc_expr opts m func e)"
  "writes level (WriteExprList opts m func es) (enc_exprs opts m func es)"
  "writes level (WriteCatches opts m func cs) (enc_catches opts m func cs)"
proof (induction opts m func e and opts m func es and opts m func cs
    rule: WriteExpr_WriteExprList_WriteCatches.induct)
  case (8 opts m func k opcode memidx align offset val)
  have "writes level (WriteSimdLoadStoreLaneExpr m opcode memidx align offset val)
      (lit (GetBytes opcode @ enc_memarg m opcode memidx align offset) + lit [ucast val])"
    unfolding WriteSimdLoadStoreLaneExpr_def by (intro writes_intros writes_leaf)
  then show ?case by (simp add: emission_eqs)
next
  case (21 opts m func k lbl decl es)
  then show ?case
    unfolding WriteExpr.simps enc_expr.simps lit_append add.assoc block_opcode_def
    by (intro writes_bind writes_WriteBlockDecl writes_out puts_WriteOpcode)
next
  case (22 opts m func lbl decl es false_es)
  have "writes level (if false_es \<noteq> [] then do { out (WriteOpcode Op_Else);
        WriteExprList opts m func false_es } else skip)
      (if false_es \<noteq> [] then lit (GetBytes Op_Else) + enc_exprs opts m func false_es else 0)"
    using 22 by (auto intro!: writes_intros puts_intros)
  with 22 show ?case
    unfolding WriteExpr.simps enc_expr.simps lit_append add.assoc
    by (intro writes_bind writes_WriteBlockDecl writes_out puts_WriteOpcode)
next
  case (23 opts m func kind lbl decl es catches delegate_target)
  then show ?case
    unfolding WriteExpr.simps enc_expr.simps lit_append add.assoc GetLabelVarDepth_def
    by (cases kind) (simp_all only: try_kind.case, (rule writes_intros puts_intros | assumption | simp)+)
next
  case (27 opts m func v es catches)
  have "writes level (if IsCatchAll (Catch v es) then out (WriteOpcode Op_CatchAll)
      else do { out (WriteOpcode Op_Catch); out (WriteU32Leb128 (GetTagVarDepth v)) })
    (lit (if v = VIndex kInvalidIndex then GetBytes Op_CatchAll
          else GetBytes Op_Catch @ U32Leb128Bytes (var_index v)))"
    by (auto simp: IsCatchAll_def GetTagVarDepth_def lit_append intro!: writes_intros puts_intros)
  then show ?case
    unfolding WriteCatches.simps enc_catches.simps add.assoc by (intro writes_bind 27)
next
  case (25 opts m func e es)
  then show ?case unfolding WriteExprList.simps enc_exprs.simps by (intro writes_bind)
qed ((unfold WriteExpr.simps WriteExprList.simps WriteCatches.simps enc_expr.simps enc_exprs.simps
      enc_catches.simps indirect_opcode_def;
    (rule writes_leaf writes_skip | rule writes_out, rule puts_intros |
      unfold lit_append, (rule writes_leaf writes_bind | rule writes_out, rule puts_intros)+))+)

end
