(* ===== verification/Binary_Writer_Correct.thy ===== *)
theory Binary_Writer_Correct
  imports Binary_Writer_Facts
begin

text \<open>
  From the contents of sections to whole modules: sizes that are fixed up, sections, the removal of
  the DataCount section, the code metadata that is moved in front of the code, and the theorem that
  \<open>WriteModule\<close> produces the encoding of the module.
\<close>

section \<open>Sizes\<close>

definition space :: "write_options \<Rightarrow> nat" where
  "space opts = (if canonicalize_lebs opts then 1 else 5)"

definition filled :: "u8 list \<Rightarrow> mem_stream" where
  "filled bs = \<lparr>ms_offset = length bs, ms_result = Ok, ms_data = bs\<rparr>"

lemma at_end_filled: "at_end s \<longleftrightarrow> s = filled (ms_data s)"
  by (cases s) (auto simp: at_end_def filled_def)

lemma filled_parts [simp]:
  "ms_offset (filled bs) = length bs" "ms_result (filled bs) = Ok" "ms_data (filled bs) = bs"
  "at_end (filled bs)"
  by (simp_all add: filled_def at_end_def)

lemma puts_filled: "puts f bs \<Longrightarrow> f (filled as) = filled (as @ bs)"
  by (metis at_end_filled filled_parts(3,4) puts_def)

lemma run_Space:
  "bw_stream w = filled bs \<Longrightarrow> run_state (WriteU32Leb128Space opts 1) w =
    (length bs, w\<lparr>bw_stream := filled (bs @ replicate (space opts) 0)\<rparr>)"
  by (simp add: WriteU32Leb128Space_def space_def MAX_U32_LEB128_BYTES_def out_def
    puts_filled [OF puts_WriteData])

lemma MoveData_up:
  assumes "0 < k" "body \<noteq> []"
  shows "MoveData (length pre + 1 + k) (length pre + 1) (length body) (filled (pre @ [x] @ body)) =
    (filled (pre @ take (Suc k) (x # body @ replicate k 0) @ body))
      \<lparr>ms_offset := length (pre @ [x] @ body)\<rparr>"
  using assms
  by (simp add: MoveData_def MoveDataImpl_def Let_def filled_def resize_def overwrite_def)

lemma length_uleb_loop_pos: "0 < length (uleb_loop v)"
  using uleb_loop_ne length_greater_0_conv by blast

lemma run_Fixup:
  assumes "bw_stream w = filled (pre @ replicate (space opts) 0 @ body)"
  shows "run_state (WriteFixupU32Leb128Size opts (length pre) 1) w =
    (int (length (enc_size opts (length body))) - int (space opts),
     w\<lparr>bw_stream := filled (pre @ sized opts body)\<rparr>)"
proof (cases "canonicalize_lebs opts")
  case True
  let ?u = "uleb_loop (of_nat (length body) :: u32)"
  let ?k = "length ?u - 1"
  have u: "length ?u = Suc ?k" using length_uleb_loop_pos [of "of_nat (length body) :: u32"] by simp
  have small: "body \<noteq> []" if "0 < ?k"
    using that by (cases body) (auto simp: uleb_loop.simps)
  have fill: "fst (WriteU32Leb128At (length pre) (of_nat (length body)) s)
      = s\<lparr>ms_data := pre @ ?u @ post\<rparr>"
    if "ms_result s = Ok" "ms_data s = pre @ old @ post" "length old = Suc ?k" for s old post
    using WriteDataAt_inside [of s pre old post ?u] that u
    by (simp add: WriteU32Leb128At_def Let_def)
  show ?thesis
  proof (cases "0 < ?k")
    case True
    note mv = MoveData_up [OF True small [OF True], of pre 0]
    have "fst (WriteU32Leb128At (length pre) (of_nat (length body))
        (MoveData (length pre + 1 + ?k) (length pre + 1) (length body) (filled (pre @ [0] @ body)))) =
      (filled (pre @ ?u @ body))\<lparr>ms_offset := length pre + 1 + length body\<rparr>"
      unfolding mv
      by (subst fill [where old = "take (Suc ?k) (0 # body @ replicate ?k 0)" and post = body])
        (use True in \<open>auto simp: filled_def\<close>)
    then show ?thesis
      using assms \<open>canonicalize_lebs opts\<close> u True
      by (simp add: WriteFixupU32Leb128Size_def space_def U32Leb128Length_eq out_def AddOffset_def
        sized_def enc_size_def U32Leb128Bytes_def filled_def Let_def)
  next
    case False
    then have "fst (WriteU32Leb128At (length pre) (of_nat (length body)) (filled (pre @ [0] @ body))) =
        filled (pre @ ?u @ body)"
      using u by (subst fill [where old = "[0]" and post = body]) (auto simp: filled_def)
    then show ?thesis
      using assms \<open>canonicalize_lebs opts\<close> u False
      by (simp add: WriteFixupU32Leb128Size_def space_def U32Leb128Length_eq out_def AddOffset_def
        sized_def enc_size_def U32Leb128Bytes_def filled_def Let_def skip_def)
  qed
next
  case False
  then show ?thesis
    using assms WriteDataAt_inside [of "filled (pre @ replicate 5 0 @ body)" pre "replicate 5 0" body
        "FixedU32Leb128Bytes (of_nat (length body))"]
    by (simp add: WriteFixupU32Leb128Size_def space_def MAX_U32_LEB128_BYTES_def out_def
      WriteFixedU32Leb128At_def WriteFixedU32Leb128Raw_def sized_def enc_size_def filled_def)
qed

section \<open>Sections\<close>

definition section_begun :: "write_options \<Rightarrow> binary_section \<Rightarrow> u8 list \<Rightarrow> binary_writer \<Rightarrow> binary_writer" where
  "section_begun opts sec bs w = w\<lparr>
     bw_stream := filled (bs @ [of_nat (GetSectionCode sec)] @ replicate (space opts) 0),
     last_section_type := Some sec, last_section_leb_size_guess := 1,
     last_section_offset := length bs + 1,
     last_section_payload_offset := length bs + 1 + space opts\<rparr>"

definition section_ended :: "u8 list \<Rightarrow> binary_writer \<Rightarrow> binary_writer" where
  "section_ended bs w = w\<lparr>bw_stream := filled bs, last_section_leb_size_guess := 0,
     section_count := section_count w + 1\<rparr>"

lemma section_code_u8: "ucast (of_nat (GetSectionCode sec) :: u32) = (of_nat (GetSectionCode sec) :: u8)"
  by (cases sec) simp_all

lemma run_SectionHeader:
  "bw_stream w = filled bs \<Longrightarrow>
   snd (run_state (WriteSectionHeader opts sec) w) = section_begun opts sec bs w"
  by (simp add: WriteSectionHeader_def section_begun_def out_def LEB_SECTION_SIZE_GUESS_def
      puts_filled [OF puts_numbers(1)] section_code_u8 run_Space del: One_nat_def)

lemma run_EndSection:
  assumes "bw_stream w = filled (pre @ replicate (space opts) 0 @ body)"
    "last_section_offset w = length pre" "last_section_leb_size_guess w = 1"
  shows "snd (run_state (EndSection opts) w) = section_ended (pre @ sized opts body) w"
  using run_Fixup [OF assms(1)] assms(2,3)
  by (simp add: EndSection_def section_ended_def split_beta del: One_nat_def)

lemma run_in_section:
  assumes "bw_stream w = filled bs"
    "bw_stream (snd (run_state m (section_begun opts sec bs w))) =
      filled (bs @ [of_nat (GetSectionCode sec)] @ replicate (space opts) 0 @ body)"
    "last_section_offset (snd (run_state m (section_begun opts sec bs w))) = length bs + 1"
    "last_section_leb_size_guess (snd (run_state m (section_begun opts sec bs w))) = 1"
  shows "snd (run_state (in_section opts sec m) w) =
    section_ended (bs @ [of_nat (GetSectionCode sec)] @ sized opts body)
      (snd (run_state m (section_begun opts sec bs w)))"
  using run_EndSection [of "snd (run_state m (section_begun opts sec bs w))"
      "bs @ [of_nat (GetSectionCode sec)]" opts body] assms
  by (simp add: in_section_def BeginKnownSection_def split_beta run_SectionHeader)

lemma wrote_filled: "wrote level e w w' \<Longrightarrow> bw_stream w' = filled (ms_data (bw_stream w) @ bytes e)"
  by (metis at_end_filled wrote_def)

lemma writes_in_section [writes_intros]:
  assumes "writes 1 m e" "metas e = []"
  shows "writes 2 (in_section opts sec m) (enc_section opts sec e)"
proof -
  have "wrote 2 (enc_section opts sec e) w (snd (run_state (in_section opts sec m) w))"
    if "at_end (bw_stream w)" for w
  proof -
    let ?bs = "ms_data (bw_stream w)" and ?w1 = "section_begun opts sec (ms_data (bw_stream w)) w"
    have fill: "bw_stream w = filled ?bs" using that by (rule at_end_filled [THEN iffD1])
    have w2: "wrote 1 e ?w1 (snd (run_state m ?w1))"
      using assms(1) by (simp add: writes_def section_begun_def)
    then have "snd (run_state (in_section opts sec m) w) =
        section_ended (?bs @ [of_nat (GetSectionCode sec)] @ sized opts (bytes e)) (snd (run_state m ?w1))"
      using assms by (intro run_in_section [OF fill])
        (simp_all add: wrote_filled [OF w2], auto simp: wrote_def kept_def section_begun_def)
    with w2 assms(2) show ?thesis
      by (auto simp: wrote_def kept_def section_begun_def section_ended_def enc_section_def
        sized_emission_def metas_plus)
  qed
  then show ?thesis by (simp add: writes_def)
qed

lemma in_custom_section_alt:
  "in_custom_section opts nm m = in_section opts SecCustom (do { out (WriteStr (c_str nm)); m })"
  by (simp add: in_custom_section_def in_section_def BeginCustomSection_def BeginKnownSection_def)

lemma writes_in_custom_section [writes_intros]:
  "writes 1 m e \<Longrightarrow> metas e = [] \<Longrightarrow> writes 2 (in_custom_section opts nm m) (enc_custom opts nm e)"
  unfolding in_custom_section_alt enc_custom_def
  by (intro writes_intros puts_intros) (simp_all add: metas_plus)

lemma writes_in_subsection [writes_intros]:
  assumes "writes 0 m e" "metas e = []" "\<not> uses_data e"
  shows "writes 1 (in_subsection opts m) (lit (sized opts (bytes e)))"
proof -
  have "wrote 1 (lit (sized opts (bytes e))) w (snd (run_state (in_subsection opts m) w))"
    if "at_end (bw_stream w)" for w
  proof -
    let ?bs = "ms_data (bw_stream w)"
    let ?w1 = "w\<lparr>bw_stream := filled (?bs @ replicate (space opts) 0),
      last_subsection_leb_size_guess := 1, last_subsection_offset := length ?bs,
      last_subsection_payload_offset := length ?bs + space opts\<rparr>"
    have fill: "bw_stream w = filled ?bs" using that by (rule at_end_filled [THEN iffD1])
    have opened: "snd (run_state (BeginSubsection opts) w) = ?w1"
      using fill by (simp add: BeginSubsection_def LEB_SECTION_SIZE_GUESS_def run_Space [where bs = ?bs]
          del: One_nat_def)
    have w2: "wrote 0 e ?w1 (snd (run_state m ?w1))"
      using assms(1) by (simp add: writes_def)
    then have "bw_stream (snd (run_state m ?w1)) = filled (?bs @ replicate (space opts) 0 @ bytes e)"
      by (simp add: wrote_filled)
    from run_Fixup [OF this] w2
    have "snd (run_state (in_subsection opts m) w) = (snd (run_state m ?w1))
        \<lparr>bw_stream := filled (?bs @ sized opts (bytes e)), last_subsection_leb_size_guess := 0\<rparr>"
      by (simp add: in_subsection_def split_beta opened EndSubsection_def wrote_def kept_def del: One_nat_def)
    with w2 assms(2,3) show ?thesis by (auto simp: wrote_def kept_def)
  qed
  then show ?thesis by (simp add: writes_def)
qed

section \<open>The sections before the code\<close>

text \<open>
  The imported entities of a module come first in its vectors, and a vector has less than \<open>2 ^ 32\<close>
  elements. Initializer expressions carry no code metadata, for they are in no function.
\<close>

definition counts_ok :: "'a list \<Rightarrow> index \<Rightarrow> bool" where
  "counts_ok xs num_imports \<longleftrightarrow> length xs < 2 ^ 32 \<and> unat num_imports \<le> length xs"

definition entities_ok :: "module \<Rightarrow> bool" where
  "entities_ok m \<longleftrightarrow>
     counts_ok (funcs m) (func_imports_count m) \<and> counts_ok (tables m) (table_imports_count m) \<and>
     counts_ok (memories m) (memory_imports_count m) \<and> counts_ok (tags m) (tag_imports_count m) \<and>
     counts_ok (globals m) (global_imports_count m)"

definition plain_init :: "write_options \<Rightarrow> module \<Rightarrow> expr list \<Rightarrow> bool" where
  "plain_init opts m es \<longleftrightarrow> metas (enc_init opts m es) = []"

definition inits_plain :: "write_options \<Rightarrow> module \<Rightarrow> bool" where
  "inits_plain opts m \<longleftrightarrow>
     list_all (\<lambda>g. plain_init opts m (init_expr g)) (globals m) \<and>
     list_all (\<lambda>e. plain_init opts m (elem_offset e) \<and> list_all (plain_init opts m) (elem_exprs e))
       (elem_segments m) \<and>
     list_all (\<lambda>d. plain_init opts m (data_offset d)) (data_segments m)"

lemma num_defined_ok:
  "counts_ok xs n \<Longrightarrow> num_defined xs n = of_nat (length (drop (unat n) xs))"
  by (simp add: counts_ok_def num_defined_def of_nat_diff)

lemma unat_of_nat_less: "k < 2 ^ 32 \<Longrightarrow> unat (of_nat k :: u32) = k"
  by (simp add: unsigned_of_nat take_bit_nat_eq_self)

lemma unat_num_defined: "counts_ok xs n \<Longrightarrow> unat (num_defined xs n) = length (drop (unat n) xs)"
  unfolding num_defined_ok by (rule unat_of_nat_less) (auto simp: counts_ok_def)

lemma num_defined_0: "counts_ok xs n \<Longrightarrow> num_defined xs n = 0 \<longleftrightarrow> drop (unat n) xs = []"
  using unat_num_defined [of xs n] by (metis length_0_conv unsigned_eq_0_iff)

lemma defined_entities_ok: "counts_ok xs n \<Longrightarrow> defined_entities xs n = drop (unat n) xs"
  by (rule nth_equalityI) (simp_all add: defined_entities_def unat_num_defined counts_ok_def add.commute)

lemma writes_vec_section:
  assumes "\<And>x. x \<in> set xs \<Longrightarrow> writes 1 (f x) (e x) \<and> metas (e x) = []"
  shows "writes 2 (if xs \<noteq> [] then in_section opts sec (do {
       out (WriteU32Leb128 (of_nat (length xs)));
       write_each f xs }) else skip) (vec_section opts sec e xs)"
  using assms
  by (auto simp: vec_section_def metas_plus list_all_iff
    intro!: writes_intros puts_intros writes_each metas_sum_list)

lemma writes_defined_section:
  assumes "counts_ok xs n" "\<And>x. x \<in> set xs \<Longrightarrow> writes 1 (f x) (e x) \<and> metas (e x) = []"
  shows "writes 2 (defined_section opts sec xs n f) (vec_section opts sec e (drop (unat n) xs))"
proof -
  have "writes 2 (if drop (unat n) xs \<noteq> [] then in_section opts sec (do {
       out (WriteU32Leb128 (of_nat (length (drop (unat n) xs))));
       write_each f (drop (unat n) xs) }) else skip) (vec_section opts sec e (drop (unat n) xs))"
    by (rule writes_vec_section) (use assms(2) in \<open>blast dest: in_set_dropD\<close>)
  then show ?thesis
    unfolding defined_section_def num_defined_0 [OF assms(1)] defined_entities_ok [OF assms(1)]
    by (simp only: num_defined_ok [OF assms(1)])
qed

lemma puts_byte: "b = ucast v \<Longrightarrow> puts (WriteU8 v) [b]"
  by (simp add: puts_numbers)

lemma writes_WriteField: "writes level (WriteField f) (lit (enc_field f))"
  unfolding WriteField_def enc_field_def lit_append by (intro writes_intros puts_intros puts_byte) simp

lemma writes_WriteTypeEntry: "writes level (WriteTypeEntry t) (lit (enc_type_entry t))"
  by (cases t) (auto simp: enc_vec_def lit_append add.assoc
    intro!: writes_intros puts_intros writes_each_lit writes_WriteField)

lemma writes_WriteImport: "writes level (WriteImport m i) (lit (enc_import m i))"
  unfolding WriteImport_def enc_import_def lit_append
  by (cases "import_desc i"; simp only: import_desc.case) (intro writes_intros puts_intros)+

lemma writes_WriteExport: "writes level (WriteExport m e) (lit (enc_export m e))"
  unfolding WriteExport_def enc_export_def lit_append by (intro writes_intros puts_intros)

lemma writes_WriteInitExpr [writes_intros]: "writes level (WriteInitExpr opts m es) (enc_init opts m es)"
  unfolding WriteInitExpr_def enc_init_def by (intro writes_intros puts_intros writes_exprs)

lemma writes_WriteElemSegment: "writes level (WriteElemSegment opts m seg) (enc_elem_segment opts m seg)"
proof -
  let ?fl = "ElemSegment_GetFlags m seg"
  have 1: "writes level (out (WriteU8 (ucast ?fl))) (lit [?fl])"
    by (rule writes_out [OF puts_byte]) simp
  have 2: "writes level (if ?fl AND SegExplicitIndex \<noteq> 0 \<and> elem_kind seg \<noteq> SkDeclared
      then out (WriteU32Leb128 (GetTableIndex m (table_var seg))) else skip)
    (lit (if ?fl AND SegExplicitIndex \<noteq> 0 \<and> elem_kind seg \<noteq> SkDeclared
           then U32Leb128Bytes (GetTableIndex m (table_var seg)) else []))"
    by (auto intro!: writes_intros puts_intros)
  have 3: "writes level (if ?fl AND (SegPassive OR SegExplicitIndex) \<noteq> 0
      then if ?fl AND SegUseElemExprs \<noteq> 0 then out (WriteType (segment_elem_type seg))
           else out (WriteU8 (external_code EkFunc))
      else skip)
    (lit (if ?fl AND (SegPassive OR SegExplicitIndex) \<noteq> 0
           then if ?fl AND SegUseElemExprs \<noteq> 0 then enc_type (segment_elem_type seg) else [0]
           else []))"
    using writes_out [OF puts_byte [of 0 "external_code EkFunc"]]
    by (auto intro!: writes_skip writes_out puts_WriteType)
  show ?thesis
    unfolding WriteElemSegment_def enc_elem_segment_def Let_def add.assoc
    by (rule 1 2 3 writes_bind writes_if writes_WriteInitExpr writes_skip writes_each writes_each_lit
      | rule writes_out, rule puts_leb)+
qed

lemma inits_plainD:
  assumes "inits_plain opts m"
  shows "g \<in> set (globals m) \<Longrightarrow> metas (lit bs + enc_init opts m (init_expr g)) = []"
    and "e \<in> set (elem_segments m) \<Longrightarrow> metas (enc_elem_segment opts m e) = []"
    and "d \<in> set (data_segments m) \<Longrightarrow> metas (enc_data_segment opts m d) = []"
  using assms
  by (auto simp: inits_plain_def plain_init_def list_all_iff metas_plus enc_elem_segment_def
    enc_data_segment_def Let_def intro!: metas_sum_list)

lemma writes_start: "writes 2 (WriteStartSection opts m) (enc_start opts m)"
  by (auto simp: WriteStartSection_def enc_start_def intro!: writes_intros puts_intros split: list.splits)

lemma writes_before_code:
  assumes "entities_ok m" "inits_plain opts m"
  shows "writes 2 (WriteSectionsBeforeCode opts m) (enc_before_code opts m)"
proof -
  show ?thesis
    unfolding WriteSectionsBeforeCode_def enc_before_code_def add.assoc WriteTypeSection_def
      WriteImportSection_def WriteFunctionSection_def WriteTableSection_def WriteMemorySection_def
      WriteTagSection_def WriteGlobalSection_def WriteExportSection_def WriteElemSection_def
    by (intro writes_bind writes_vec_section writes_defined_section writes_start conjI)
      (use assms in \<open>simp_all add: entities_ok_def writes_WriteTypeEntry writes_WriteImport
        writes_WriteExport writes_WriteElemSegment writes_WriteInitExpr inits_plainD writes_out puts_intros\<close>)
qed

section \<open>The code section\<close>

text \<open>What writing a number of function bodies amounts to.\<close>

definition kept_code :: "binary_writer \<Rightarrow>
  symbol_table \<times> nat \<times> nat \<times> nat \<times> index \<times> nat \<times> nat \<times> nat" where
  "kept_code w = (symtab w, code_start w, data_count_start w, data_count_end w, section_count w,
     last_section_offset w, last_section_leb_size_guess w, last_section_payload_offset w)"

definition wrote_bodies :: "u8 list \<Rightarrow> bool \<Rightarrow>
  ((name \<times> func_code_metadata list) list \<Rightarrow> (name \<times> func_code_metadata list) list) \<Rightarrow>
  binary_writer \<Rightarrow> binary_writer \<Rightarrow> bool" where
  "wrote_bodies bs u g w w' \<longleftrightarrow>
     bw_stream w' = filled (ms_data (bw_stream w) @ bs) \<and> kept_code w' = kept_code w \<and>
     has_data_segment_instruction w' = (has_data_segment_instruction w \<or> u) \<and>
     code_metadata_sections w' = g (code_metadata_sections w)"

lemma wrote_bodies_trans:
  "\<lbrakk>wrote_bodies bs u g w w1; wrote_bodies bs' u' g' w1 w2\<rbrakk> \<Longrightarrow>
   wrote_bodies (bs @ bs') (u \<or> u') (g' \<circ> g) w w2"
  by (simp add: wrote_bodies_def)

lemma add_metas_func: "add_metas i base base ns = func_metas i ns"
  by (simp add: add_metas_def func_metas_def fun_eq_iff)

lemma writes_locals: "writes level (WriteFuncLocals decls) (lit (enc_locals decls))"
  by (auto simp: WriteFuncLocals_def enc_locals_def enc_vec_def lit_append case_prod_beta
    intro!: writes_intros puts_intros writes_each_lit)

lemma writes_WriteFunc: "writes level (WriteFunc opts m f) (enc_func opts m f)"
  unfolding WriteFunc_def enc_func_def add.assoc
  by (intro writes_intros puts_intros writes_locals writes_exprs)

lemma on_current_frame [simp]:
  "bw_stream (on_current_reloc_section f w) = bw_stream w"
  "kept_code (on_current_reloc_section f w) = kept_code w"
  "has_data_segment_instruction (on_current_reloc_section f w) = has_data_segment_instruction w"
  "code_metadata_sections (on_current_reloc_section f w) = code_metadata_sections w"
  by (auto simp: on_current_reloc_section_def kept_code_def split: option.splits)

lemma WriteFuncBody_wrote:
  fixes opts m
  assumes fill: "bw_stream w = filled bs"
    and ix: "unat (of_nat i + func_imports_count m) = i + unat (func_imports_count m)"
  defines "e \<equiv> enc_func opts m (funcs m ! (i + unat (func_imports_count m)))"
  shows "wrote_bodies (sized opts (bytes e)) (uses_data e)
    (func_metas (of_nat i + func_imports_count m) (metas e)) w
    (snd (run_state (WriteFuncBody opts m i) w))"
proof -
  let ?i = "of_nat i + func_imports_count m"
  let ?w1 = "w\<lparr>cur_func_index := ?i, bw_stream := filled (bs @ replicate (space opts) 0),
    cur_func_start_offset := length bs + space opts\<rparr>"
  let ?f = "funcs m ! (i + unat (func_imports_count m))"
  let ?w2 = "snd (run_state (WriteFunc opts m ?f) ?w1)"
  have w2: "wrote 1 e ?w1 ?w2"
    using writes_WriteFunc [of 1 opts m ?f] by (simp add: writes_def e_def)
  have "bw_stream ?w2 = filled (bs @ replicate (space opts) 0 @ bytes e)"
    using wrote_filled [OF w2] by simp
  note fx = run_Fixup [OF this]
  have "wrote_bodies (sized opts (bytes e)) (uses_data e) (func_metas ?i (metas e)) w
      (?w2\<lparr>bw_stream := filled (bs @ sized opts (bytes e))\<rparr>)"
    using w2 fill by (simp add: wrote_bodies_def wrote_def kept_def kept_code_def add_metas_func)
  with fx fill ix show ?thesis
    by (simp add: WriteFuncBody_def run_Space split_beta skip_def wrote_bodies_def del: One_nat_def)
qed

definition func_emission :: "write_options \<Rightarrow> module \<Rightarrow> nat \<Rightarrow> emission" where
  "func_emission opts m i = enc_func opts m (funcs m ! (i + unat (func_imports_count m)))"

lemma func_index_ok:
  "counts_ok (funcs m) n \<Longrightarrow> i + unat n < length (funcs m) \<Longrightarrow> unat (of_nat i + n) = i + unat n"
  by (simp add: counts_ok_def unat_word_ariths unat_of_nat_less)

lemma WriteFuncBodies_wrote:
  assumes "bw_stream w = filled bs" "counts_ok (funcs m) (func_imports_count m)"
    "\<And>i. i \<in> set is \<Longrightarrow> i + unat (func_imports_count m) < length (funcs m)"
  shows "wrote_bodies (concat (map (\<lambda>i. sized opts (bytes (func_emission opts m i))) is))
    (list_ex (\<lambda>i. uses_data (func_emission opts m i)) is)
    (fold (\<lambda>i. func_metas (of_nat i + func_imports_count m) (metas (func_emission opts m i))) is) w
    (snd (run_state (write_each (WriteFuncBody opts m) is) w))"
  using assms
proof (induction "is" arbitrary: w bs)
  case (Cons i "is")
  let ?w1 = "snd (run_state (WriteFuncBody opts m i) w)"
  have 1: "wrote_bodies (sized opts (bytes (func_emission opts m i))) (uses_data (func_emission opts m i))
      (func_metas (of_nat i + func_imports_count m) (metas (func_emission opts m i))) w ?w1"
    unfolding func_emission_def
    by (rule WriteFuncBody_wrote [OF Cons.prems(1)]) (rule func_index_ok [OF Cons.prems(2)], rule Cons.prems(3), simp)
  then have "bw_stream ?w1 = filled (ms_data (bw_stream ?w1))" by (simp add: wrote_bodies_def)
  from wrote_bodies_trans [OF 1 Cons.IH [OF this Cons.prems(2)]] Cons.prems(3) show ?case
    by (simp add: split_beta comp_def)
qed (simp add: wrote_bodies_def skip_def)

text \<open>What the code section leaves behind.\<close>

definition wrote_code :: "write_options \<Rightarrow> module \<Rightarrow> binary_writer \<Rightarrow> binary_writer \<Rightarrow> bool" where
  "wrote_code opts m w w' \<longleftrightarrow>
     bw_stream w' = filled (ms_data (bw_stream w) @ bytes (enc_code opts m)) \<and>
     symtab w' = symtab w \<and>
     data_count_start w' = data_count_start w \<and> data_count_end w' = data_count_end w \<and>
     has_data_segment_instruction w' =
       (has_data_segment_instruction w \<or> uses_data (enc_code opts m)) \<and>
     (code_metadata_sections w = [] \<longrightarrow> code_metadata_sections w' = module_metadata opts m) \<and>
     (module_metadata opts m \<noteq> [] \<longrightarrow> code_start w' = length (ms_data (bw_stream w)))"

lemma defined_funcs: "counts_ok (funcs m) n \<Longrightarrow>
  drop (unat n) (funcs m) = map (\<lambda>i. funcs m ! (i + unat n)) [0..<length (funcs m) - unat n]"
  by (rule nth_equalityI) (simp_all add: counts_ok_def add.commute)

lemma module_metadata_alt: "counts_ok (funcs m) (func_imports_count m) \<Longrightarrow>
  module_metadata opts m = fold (\<lambda>i. func_metas (of_nat i + func_imports_count m)
    (metas (func_emission opts m i))) [0..<length (funcs m) - unat (func_imports_count m)] []"
proof -
  assume "counts_ok (funcs m) (func_imports_count m)"
  then have "[unat (func_imports_count m)..<length (funcs m)] =
      map (\<lambda>i. i + unat (func_imports_count m)) [0..<length (funcs m) - unat (func_imports_count m)]"
    by (simp add: map_add_upt counts_ok_def)
  then show ?thesis by (simp add: module_metadata_def fold_map comp_def func_emission_def)
qed

lemma WriteCodeSection_wrote:
  assumes fill: "bw_stream w = filled bs" and ok: "counts_ok (funcs m) (func_imports_count m)"
  shows "wrote_code opts m w (snd (run_state (WriteCodeSection opts m) w))"
proof (cases "drop (unat (func_imports_count m)) (funcs m) = []")
  case True
  then have "num_defined (funcs m) (func_imports_count m) = 0" using num_defined_0 [OF ok] by blast
  moreover have "module_metadata opts m = []" using True by (simp add: module_metadata_alt [OF ok])
  ultimately show ?thesis
    using True fill by (simp add: WriteCodeSection_def wrote_code_def enc_code_def vec_section_def skip_def)
next
  case False
  let ?n = "num_defined (funcs m) (func_imports_count m)"
  let ?is = "[0..<length (funcs m) - unat (func_imports_count m)]"
  have n: "?n \<noteq> 0" "unat ?n = length (funcs m) - unat (func_imports_count m)"
    using num_defined_0 [OF ok] unat_num_defined [OF ok] False by simp_all
  let ?w0 = "section_begun opts SecCode bs (w\<lparr>code_start := length bs\<rparr>)"
  let ?head = "bs @ [10] @ replicate (space opts) 0 @ U32Leb128Bytes ?n"
  let ?w1 = "?w0\<lparr>bw_stream := filled ?head\<rparr>"
  let ?w2 = "snd (run_state (write_each (WriteFuncBody opts m) ?is) ?w1)"
  let ?body = "do { out (WriteU32Leb128 ?n); write_each (WriteFuncBody opts m) ?is }"
  have w2: "wrote_bodies (concat (map (\<lambda>i. sized opts (bytes (func_emission opts m i))) ?is))
      (list_ex (\<lambda>i. uses_data (func_emission opts m i)) ?is)
      (fold (\<lambda>i. func_metas (of_nat i + func_imports_count m) (metas (func_emission opts m i))) ?is) ?w1 ?w2"
    by (rule WriteFuncBodies_wrote [OF _ ok]) auto
  have run: "snd (run_state ?body ?w0) = ?w2"
    by (simp add: out_def section_begun_def puts_filled [OF puts_leb(1)])
  let ?P = "U32Leb128Bytes ?n @ concat (map (\<lambda>i. sized opts (bytes (func_emission opts m i))) ?is)"
  have sec: "snd (run_state (in_section opts SecCode ?body) (w\<lparr>code_start := length bs\<rparr>)) =
      section_ended (bs @ [10] @ sized opts ?P) ?w2"
    using run_in_section [of "w\<lparr>code_start := length bs\<rparr>" bs ?body opts SecCode ?P] fill run w2
    by (simp add: wrote_bodies_def kept_code_def section_begun_def)
  have C: "enc_code opts m = Emission ([10] @ sized opts ?P) (list_ex (\<lambda>i. uses_data (func_emission opts m i)) ?is) []"
    using False n(2) num_defined_ok [OF ok]
    by (simp add: enc_code_def vec_section_def enc_section_def sized_emission_def lit_def
      defined_funcs [OF ok] comp_def func_emission_def list_ex_iff)
  show ?thesis
    using n(1) sec w2 fill
    by (simp add: WriteCodeSection_def Let_def n(2) wrote_code_def C section_ended_def wrote_bodies_def
      kept_code_def section_begun_def module_metadata_alt [OF ok])
qed

section \<open>DataCount and metadata\<close>

text \<open>Cutting bytes out of the middle of a stream, and making room for bytes in it.\<close>

lemma cut_end: "Truncate (length pre) (filled (pre @ post)) = filled pre"
  by (auto simp: Truncate_def TruncateImpl_def filled_def resize_def Let_def)

lemma cut_out:
  assumes "body \<noteq> []"
  shows "Truncate (length pre + length body)
    (MoveData (length pre) (length (pre @ mid)) (length body) (filled (pre @ mid @ body))) =
    filled (pre @ body)"
proof -
  have "overwrite (length pre) body (pre @ mid @ body) = pre @ body @ drop (length body) (mid @ body)"
    by (simp add: overwrite_def)
  then have mv: "MoveData (length pre) (length (pre @ mid)) (length body) (filled (pre @ mid @ body)) =
      filled (pre @ body @ drop (length body) (mid @ body))"
    using assms by (simp add: MoveData_def MoveDataImpl_def filled_def Let_def) arith
  show ?thesis
    unfolding mv using cut_end [of "pre @ body" "drop (length body) (mid @ body)"] by simp
qed

lemma put_in:
  "AddOffset (int (length new)) (WriteDataAt (length pre) new
     (MoveData (length pre + length new) (length pre) (length body) (filled (pre @ body)))) =
   filled (pre @ new @ body)"
proof (cases "new = [] \<or> body = []")
  case True
  then show ?thesis
  proof
    assume "new = []"
    then show ?thesis
      by (simp add: MoveData_def MoveDataImpl_def WriteDataAt_def WriteDataImpl_def AddOffset_def
        filled_def overwrite_def Let_def)
  next
    assume "body = []"
    then show ?thesis
      by (simp add: MoveData_def MoveDataImpl_def WriteDataAt_def WriteDataImpl_def AddOffset_def
        filled_def resize_def overwrite_def Let_def nat_int_add)
  qed
next
  case False
  then have "MoveData (length pre + length new) (length pre) (length body) (filled (pre @ body)) =
      (filled (pre @ take (length new) (body @ replicate (length new) 0) @ body))
        \<lparr>ms_offset := length (pre @ body)\<rparr>"
    by (simp add: MoveData_def MoveDataImpl_def filled_def resize_def overwrite_def Let_def)
  then show ?thesis
    using WriteDataAt_inside [of "(filled (pre @ take (length new) (body @ replicate (length new) 0) @ body))
        \<lparr>ms_offset := length (pre @ body)\<rparr>" pre "take (length new) (body @ replicate (length new) 0)" body new]
    by (simp add: AddOffset_def filled_def nat_int_add)
qed

lemma writes_WriteCodeMetadataSection:
  "writes 2 (WriteCodeMetadataSection opts s) (enc_metadata opts s)"
proof -
  have entry: "writes level (WriteCodeMetadataEntry a)
      (lit (U32Leb128Bytes (of_nat (cm_offset a)) @ enc_str (cm_data a)))" for level a
    unfolding WriteCodeMetadataEntry_def enc_str_def lit_append by (intro writes_intros puts_intros)
  have func: "writes level (WriteFuncCodeMetadata opts f) (lit (enc_func_metadata opts f))" for level f
    unfolding WriteFuncCodeMetadata_def enc_func_metadata_def enc_vec_def lit_append
    by (intro writes_bind writes_WithReloc writes_out puts_leb writes_each_lit entry)
  show ?thesis
    unfolding WriteCodeMetadataSection_def enc_metadata_def enc_vec_def
    by (intro writes_in_custom_section)
      (simp_all only: lit_append metas_plus lit_parts shift_metas_Nil append_Nil,
       intro writes_bind writes_out puts_leb writes_each_lit func)
qed

definition enc_metadata_sections :: "iteration \<Rightarrow> write_options \<Rightarrow> module \<Rightarrow> u8 list" where
  "enc_metadata_sections iterate opts m =
     (if module_metadata opts m = [] then []
      else concat (map (\<lambda>s. bytes (enc_metadata opts s)) (iterate (module_metadata opts m))))"

text \<open>The state between the code section and the data section, up to what no longer matters.\<close>

lemma RemoveDataCount_run:
  assumes "bw_stream w = filled (pre @ dc @ cs)"
    "needs_data_count opts m \<Longrightarrow> data_count_start w = length pre \<and> data_count_end w = length (pre @ dc)"
    "\<not> needs_data_count opts m \<Longrightarrow> dc = []"
  shows "\<exists>w'. snd (run_state (RemoveDataCount opts m) w) = w' \<and>
    code_metadata_sections w' = code_metadata_sections w \<and> symtab w' = symtab w \<and>
    (if needs_data_count opts m \<and> \<not> has_data_segment_instruction w
     then bw_stream w' = filled (pre @ cs) \<and> (cs \<noteq> [] \<longrightarrow> code_start w' = length pre)
     else w' = w)"
  using assms cut_out [of cs pre dc] cut_end [of pre dc]
  by (auto simp: RemoveDataCount_def out_def skip_def split_beta)

lemma WriteCodeMetadataSections_run:
  assumes "bw_stream w = filled (pre @ cs)" "code_metadata_sections w = secs"
    "secs \<noteq> [] \<Longrightarrow> code_start w = length pre"
  shows "bw_stream (snd (run_state (WriteCodeMetadataSections iterate opts) w)) =
    filled (pre @ (if secs = [] then [] else concat (map (\<lambda>s. bytes (enc_metadata opts s)) (iterate secs))) @ cs)"
proof (cases "secs = []")
  case True
  then show ?thesis using assms by (simp add: WriteCodeMetadataSections_def skip_def)
next
  case False
  define w1 where "w1 = w\<lparr>section_count := section_count w - 1,
    reloc_sections := shift_section (section_count w - 1) (of_nat (length secs)) (reloc_sections w),
    bw_stream := new_stream\<rparr>"
  define w2 where "w2 = snd (run_state (write_each (WriteCodeMetadataSection opts) (iterate secs)) w1)"
  let ?buf = "concat (map (\<lambda>s. bytes (enc_metadata opts s)) (iterate secs))"
  have "wrote 2 (sum_list (map (enc_metadata opts) (iterate secs))) w1 w2"
    using writes_each [of "iterate secs" 2 "WriteCodeMetadataSection opts" "enc_metadata opts"]
      writes_WriteCodeMetadataSection
    by (simp add: w1_def w2_def writes_def new_stream_at_end)
  then have buf: "ms_data (bw_stream w2) = ?buf" and start: "code_start w2 = length pre"
    using False assms(3) by (simp_all add: wrote_def kept_def w1_def new_stream_def comp_def)
  have "bw_stream (snd (run_state (WriteCodeMetadataSections iterate opts) w)) =
      AddOffset (int (length ?buf)) (WriteDataAt (length pre) ?buf
        (MoveData (length pre + length ?buf) (length pre) (length cs) (filled (pre @ cs))))"
    using False assms buf start unfolding w1_def w2_def
    by (simp add: WriteCodeMetadataSections_def out_def split_beta)
  then show ?thesis using False by (simp only: put_in if_False)
qed

section \<open>The sections after the code\<close>

lemma writes_WriteDataSegment:
  "writes level (WriteDataSegment opts m seg) (enc_data_segment opts m seg)"
proof -
  let ?fl = "DataSegment_GetFlags m seg"
  have 1: "writes level (out (WriteU8 (ucast ?fl))) (lit [?fl])"
    by (rule writes_out [OF puts_byte]) simp
  have 2: "writes level (if multi_memory_enabled (wo_features opts) \<and> ?fl AND SegExplicitIndex \<noteq> 0
      then out (WriteU32Leb128 (GetMemoryIndex m (memory_var seg))) else skip)
    (lit (if multi_memory_enabled (wo_features opts) \<and> ?fl AND SegExplicitIndex \<noteq> 0
      then U32Leb128Bytes (GetMemoryIndex m (memory_var seg)) else []))"
    by (auto intro!: writes_intros puts_intros)
  show ?thesis
    unfolding WriteDataSegment_def enc_data_segment_def enc_str_def lit_append Let_def add.assoc
    by (rule 1 2 writes_bind writes_if writes_WriteInitExpr writes_skip
      | rule writes_out, rule puts_leb puts_WriteData)+
qed

lemma writes_customs:
  "writes 2 (write_each (WriteCustom opts) cs)
     (sum_list (map (\<lambda>c. enc_custom opts (custom_name c) (lit (custom_data c)))
       (filter (\<lambda>c. \<not> is_own_custom opts (custom_name c)) cs)))"
proof (induction cs)
  case (Cons c cs)
  have "writes 2 (in_custom_section opts (custom_name c) (out (WriteData (custom_data c))))
      (enc_custom opts (custom_name c) (lit (custom_data c)))"
    by (intro writes_intros puts_intros) simp
  from writes_bind [OF this Cons] writes_bind [OF writes_skip Cons] show ?case
    by (simp add: WriteCustom_def)
qed (simp add: writes_skip)

lemma writes_WriteNameEntries:
  "writes level (WriteNameEntries i names)
     (lit (concat (map (\<lambda>(i, nm). U32Leb128Bytes (of_nat i) @ enc_debug_name nm)
       (filter (\<lambda>(i, nm). nm \<noteq> []) (enumerate i names)))))"
proof (induction names arbitrary: i)
  case (Cons nm names)
  have "writes level (do { out (WriteU32Leb128 (of_nat i)); out (WriteDebugName nm) })
      (lit (U32Leb128Bytes (of_nat i) @ enc_debug_name nm))"
    unfolding lit_append by (intro writes_intros puts_intros)
  from writes_bind [OF this Cons] writes_bind [OF writes_skip Cons] show ?case
    by (simp add: lit_append add.assoc)
qed (simp add: writes_skip)

lemma num_named_entries: "num_named names = length (named_entries names)"
proof -
  have "length (filter (\<lambda>(i, nm). nm \<noteq> []) (enumerate k names)) = length (filter (\<lambda>nm. nm \<noteq> []) names)" for k
    by (induction names arbitrary: k) simp_all
  then show ?thesis by (simp add: num_named_def named_entries_def)
qed

lemma writes_name_entries:
  "writes level (do { out (WriteU32Leb128 (of_nat (num_named names))); WriteNameEntries 0 names })
     (lit (enc_name_entries names))"
  unfolding enc_name_entries_def enc_vec_def lit_append num_named_entries named_entries_def
  by (intro writes_bind writes_out puts_leb writes_WriteNameEntries)

lemma writes_sub:
  "writes 0 m (lit bs) \<Longrightarrow> writes 1 (in_subsection opts m) (lit (sized opts bs))"
  using writes_in_subsection [of m "lit bs"] by simp

lemma writes_WriteNames: "writes 1 (WriteNames opts names k) (lit (enc_names opts names k))"
  using writes_bind [OF writes_out [OF puts_leb(1)] writes_sub [OF writes_name_entries]]
  by (auto simp: WriteNames_def enc_names_def num_named_entries lit_append writes_skip)

lemma writes_WriteLocalNames: "writes level (WriteLocalNames x) (lit (enc_local_names x))"
  unfolding WriteLocalNames_def enc_local_names_def case_prod_beta lit_append Let_def
  by (intro writes_bind writes_out puts_leb writes_name_entries)

lemma writes_WriteNameSection: "writes 2 (WriteNameSection opts m) (enc_name_section opts m)"
proof -
  have "writes 1 (if mod_name m \<noteq> [] then do {
         out (WriteU32Leb128 0);
         in_subsection opts (out (WriteDebugName (mod_name m)))
       } else skip)
     (lit (if mod_name m \<noteq> [] then U32Leb128Bytes 0 @ sized opts (enc_debug_name (mod_name m)) else []))"
    using writes_sub [OF writes_out [OF puts_WriteDebugName [of "mod_name m"]], of opts]
    by (auto simp: lit_append intro!: writes_bind writes_out puts_leb writes_skip)
  moreover have "writes 1 (in_subsection opts (do {
         out (WriteU32Leb128 (of_nat (length (funcs m))));
         write_each WriteLocalNames (enumerate 0 (funcs m)) }))
     (lit (sized opts (enc_vec enc_local_names (enumerate 0 (funcs m)))))"
    unfolding enc_vec_def length_enumerate
    by (intro writes_sub) (simp only: lit_append, intro writes_bind writes_out puts_leb writes_each_lit
        writes_WriteLocalNames)
  ultimately show ?thesis
    unfolding WriteNameSection_def enc_name_section_def
    by (intro writes_in_custom_section)
      (simp_all only: lit_append lit_parts metas_plus shift_metas_Nil append_Nil,
       (rule writes_bind writes_WriteNames | assumption | rule writes_out, rule puts_leb)+)
qed

lemma writes_after_code:
  assumes "inits_plain opts m"
  shows "writes 2 (WriteSectionsAfterCode opts m) (enc_after_code opts m)"
  unfolding WriteSectionsAfterCode_def enc_after_code_def add.assoc WriteDataSection_def
  by (intro writes_bind writes_vec_section writes_customs writes_if writes_WriteNameSection writes_skip)
    (use assms in \<open>simp add: writes_WriteDataSegment inits_plainD\<close>)

section \<open>The module\<close>

definition module_header :: "u8 list" where
  "module_header = to_le 4 WABT_BINARY_MAGIC @ to_le 4 WABT_BINARY_VERSION"

lemma metas_section [simp]: "metas (enc_section opts sec e) = []"
  by (simp add: enc_section_def sized_emission_def metas_plus)

lemma metas_before_code: "metas (enc_before_code opts m) = []"
  by (auto simp: enc_before_code_def vec_section_def enc_start_def metas_plus split: list.split)

lemma WriteSections_wrote:
  assumes ok: "entities_ok m" "inits_plain opts m" "bw_stream w = filled bs"
    "\<not> has_data_segment_instruction w" "code_metadata_sections w = []"
  shows "bw_stream (snd (run_state (WriteSections iterate opts m) w)) =
    filled (bs @ bytes (enc_before_code opts m) @
      (if has_data_count opts m then bytes (enc_data_count opts m) else []) @
      enc_metadata_sections iterate opts m @ bytes (enc_code opts m) @ bytes (enc_after_code opts m))"
proof -
  let ?B = "enc_before_code opts m" and ?C = "enc_code opts m"
  define w1 where "w1 = snd (run_state (WriteSectionsBeforeCode opts m) w)"
  define w2 where "w2 = snd (run_state (WriteDataCountSection opts m) w1)"
  define w3 where "w3 = snd (run_state (WriteCodeSection opts m) w2)"
  define w4 where "w4 = snd (run_state (RemoveDataCount opts m) w3)"
  define w5 where "w5 = snd (run_state (WriteCodeMetadataSections iterate opts) w4)"
  let ?dc = "if needs_data_count opts m then bytes (enc_data_count opts m) else []"
  have 1: "wrote 2 ?B w w1"
    using writes_before_code [OF ok(1,2)] ok(3) by (simp add: writes_def w1_def)
  then have s1: "bw_stream w1 = filled (bs @ bytes ?B)" using ok(3) by (simp add: wrote_filled)
  have f1: "has_data_segment_instruction w1 = uses_data ?B" "code_metadata_sections w1 = []"
    using 1 ok(4,5) metas_before_code [of opts m] by (simp_all add: wrote_def)
  have dcw: "writes 2 (in_section opts SecDataCount (out (WriteU32Leb128 (of_nat (length (data_segments m))))))
      (enc_data_count opts m)"
    unfolding enc_data_count_def by (intro writes_in_section writes_out puts_leb) simp
  have 2: "bw_stream w2 = filled ((bs @ bytes ?B) @ ?dc)"
    "has_data_segment_instruction w2 = uses_data ?B" "code_metadata_sections w2 = []"
    "needs_data_count opts m \<Longrightarrow> data_count_start w2 = length (bs @ bytes ?B) \<and>
      data_count_end w2 = length ((bs @ bytes ?B) @ ?dc)"
  proof -
    let ?m = "in_section opts SecDataCount (out (WriteU32Leb128 (of_nat (length (data_segments m)))))"
    let ?w = "w1\<lparr>data_count_start := length (bs @ bytes ?B)\<rparr>"
    have "wrote 2 (enc_data_count opts m) ?w (snd (run_state ?m ?w))"
      using dcw s1 by (simp add: writes_def)
    note wr = this wrote_filled [OF this]
    show "bw_stream w2 = filled ((bs @ bytes ?B) @ ?dc)"
      "has_data_segment_instruction w2 = uses_data ?B" "code_metadata_sections w2 = []"
      "needs_data_count opts m \<Longrightarrow> data_count_start w2 = length (bs @ bytes ?B) \<and>
        data_count_end w2 = length ((bs @ bytes ?B) @ ?dc)"
      using wr s1 f1 unfolding w2_def
      by (simp_all add: WriteDataCountSection_def split_beta skip_def wrote_def kept_def
        enc_data_count_def) (simp add: enc_section_def sized_emission_def)
  qed
  have "counts_ok (funcs m) (func_imports_count m)" using ok(1) by (simp add: entities_ok_def)
  note 3 = WriteCodeSection_wrote [OF 2(1) this, of opts, folded w3_def]
  have s3: "bw_stream w3 = filled ((bs @ bytes ?B) @ ?dc @ bytes ?C)" and
    f3: "has_data_segment_instruction w3 \<longleftrightarrow> uses_data ?B \<or> uses_data ?C"
      "code_metadata_sections w3 = module_metadata opts m"
      "module_metadata opts m \<noteq> [] \<Longrightarrow> code_start w3 = length ((bs @ bytes ?B) @ ?dc)"
    using 3 2(1,2,3) by (simp_all add: wrote_code_def)
  obtain w4' where w4': "w4 = w4'" "code_metadata_sections w4' = code_metadata_sections w3"
    "if needs_data_count opts m \<and> \<not> has_data_segment_instruction w3
     then bw_stream w4' = filled ((bs @ bytes ?B) @ bytes ?C) \<and>
       (bytes ?C \<noteq> [] \<longrightarrow> code_start w4' = length (bs @ bytes ?B)) else w4' = w3"
    using RemoveDataCount_run [OF s3, of opts m] 2(4) 3 by (auto simp: wrote_code_def w4_def)
  let ?dc' = "if has_data_count opts m then bytes (enc_data_count opts m) else []"
  have C: "bytes ?C \<noteq> []" if "module_metadata opts m \<noteq> []"
    using that \<open>counts_ok (funcs m) (func_imports_count m)\<close>
    by (auto simp: enc_code_def vec_section_def enc_section_def sized_emission_def module_metadata_alt)
  have 4: "bw_stream w4 = filled (((bs @ bytes ?B) @ ?dc') @ bytes ?C)"
    "code_metadata_sections w4 = module_metadata opts m"
    "module_metadata opts m \<noteq> [] \<Longrightarrow> code_start w4 = length ((bs @ bytes ?B) @ ?dc')"
    using w4' s3 f3 C by (auto simp: has_data_count_def split: if_splits)
  note 5 = WriteCodeMetadataSections_run [OF 4, of iterate opts, folded w5_def]
  have "wrote 2 (enc_after_code opts m) w5 (snd (run_state (WriteSectionsAfterCode opts m) w5))"
    using writes_after_code [OF ok(2)] 5 by (simp add: writes_def)
  from wrote_filled [OF this] 5 show ?thesis
    by (simp add: WriteSections_def split_beta w1_def w2_def w3_def w4_def w5_def
      enc_metadata_sections_def)
qed

text \<open>
  C7. Without relocations, \<open>WriteBinaryModule\<close> succeeds and the stream holds the encoding of the
  module: the size of every section, sub-section and function body in front of it, the DataCount
  section only if an instruction refers to a data segment, and the code metadata between it and
  the code, at whatever size the writer guessed and whatever it moved. Assumed are that each vector
  of functions, tables, memories, globals and tags has fewer than \<open>2 ^ 32\<close> elements and no fewer than
  its import count says, and that no initializer expression carries code metadata (\<open>inits_plain\<close>):
  for such a one the writer emits metadata sections that the encoding does not have.
\<close>

theorem WriteBinaryModule_encodes:
  assumes "entities_ok m" "inits_plain opts m" "\<not> relocatable opts"
  shows "WriteBinaryModule iterate new_stream m opts =
    (Ok, \<lparr>ms_offset = length (enc_module iterate opts m), ms_result = Ok,
          ms_data = enc_module iterate opts m\<rparr>)"
proof -
  let ?w = "(BinaryWriter new_stream)\<lparr>bw_stream := filled module_header\<rparr>"
  have "bw_stream (snd (run_state (WriteSections iterate opts m) ?w)) =
      filled (enc_module iterate opts m)"
    using WriteSections_wrote [OF assms(1,2), of ?w module_header iterate]
    by (simp add: BinaryWriter_def enc_module_def module_header_def enc_metadata_sections_def)
  moreover have "WriteU32 WABT_BINARY_VERSION (WriteU32 WABT_BINARY_MAGIC new_stream) = filled module_header"
  proof -
    have new: "new_stream = filled []" by (simp add: new_stream_def filled_def)
    show ?thesis unfolding new by (simp add: puts_filled [OF puts_numbers(2)] module_header_def)
  qed
  then have "run_state (WriteModule iterate opts m) (BinaryWriter new_stream) =
      (let w' = snd (run_state (WriteSections iterate opts m) ?w) in (ms_result (bw_stream w'), w'))"
    using assms(3) by (simp add: WriteModule_def out_def split_beta skip_def BinaryWriter_def Let_def)
  ultimately show ?thesis
    by (simp add: WriteBinaryModule_def Let_def filled_def)
qed

definition sample_module :: module where
  "sample_module = AppendFields
     [TypeField (FuncType [] \<lparr>param_types = [I32], result_types = []\<rparr>),
      FuncField \<lparr>func_name = [],
        func_decl = \<lparr>has_func_type = True, type_var = VIndex 0,
          decl_sig = \<lparr>param_types = [I32], result_types = []\<rparr>\<rparr>,
        local_types = [(I64, 2)], bindings = [],
        func_exprs = [CodeMetadataExpr [0x68] [7], VarExpr DataDropT (VIndex 0)]\<rparr>,
      DataSegmentField \<lparr>data_kind = SkPassive, data_name = [], memory_var = VIndex 0,
        data_offset = [], segment_data = [1, 2, 3]\<rparr>] empty_module"

theorem WriteBinaryModule_encodes_witness:
  "ms_data (snd (WriteBinaryModule id new_stream sample_module default_write_options)) =
    [0, 0x61, 0x73, 0x6d, 1, 0, 0, 0, 1, 5, 1, 0x60, 1, 0x7f, 0, 3, 2, 1, 0, 12, 1, 1,
     0, 22, 15, 0x6d, 0x65, 0x74, 0x61, 0x64, 0x61, 0x74, 0x61, 0x2e, 0x63, 0x6f, 0x64, 0x65, 0x2e, 0x68,
     1, 0, 1, 3, 1, 7, 10, 9, 1, 7, 1, 2, 0x7e, 0xfc, 9, 0, 11, 11, 6, 1, 1, 3, 1, 2, 3]"
proof -
  have ok: "entities_ok sample_module"
    by (simp add: entities_ok_def counts_ok_def sample_module_def AppendFields_def empty_module_def
      bind_name_def)
  have plain: "inits_plain default_write_options sample_module" by code_simp
  have bytes: "enc_module id default_write_options sample_module =
    [0, 0x61, 0x73, 0x6d, 1, 0, 0, 0, 1, 5, 1, 0x60, 1, 0x7f, 0, 3, 2, 1, 0, 12, 1, 1,
     0, 22, 15, 0x6d, 0x65, 0x74, 0x61, 0x64, 0x61, 0x74, 0x61, 0x2e, 0x63, 0x6f, 0x64, 0x65, 0x2e, 0x68,
     1, 0, 1, 3, 1, 7, 10, 9, 1, 7, 1, 2, 0x7e, 0xfc, 9, 0, 11, 11, 6, 1, 1, 3, 1, 2, 3]"
    by code_simp
  show ?thesis
    using WriteBinaryModule_encodes [OF ok plain, of id] bytes by (simp add: default_write_options_def)
qed

end
