(* ===== verification/IR_Facts.thy ===== *)
theory IR_Facts
  imports IR "HOL-Library.Multiset"
begin

text \<open>
  What building a module field by field keeps true: the bindings name exactly the entities that
  have a name, so a look-up by name gives one of those that have it, in whatever order the container
  yields bindings of one name; and the import counters count the imports of their kind.
\<close>

section \<open>Bindings\<close>

text \<open>The bindings of a vector of entities.\<close>

definition binds :: "('a \<Rightarrow> name) \<Rightarrow> 'a list \<Rightarrow> binding_hash" where
  "binds name_of xs = map (\<lambda>(i, x). (name_of x, of_nat i))
     (filter (\<lambda>(i, x). name_of x \<noteq> []) (enumerate 0 xs))"

lemma enumerate_snoc: "enumerate n (xs @ [x]) = enumerate n xs @ [(n + length xs, x)]"
  by (simp add: enumerate_append_eq)

lemma binds_Nil [simp]: "binds name_of [] = []"
  by (simp add: binds_def)

lemma binds_snoc [simp]:
  "binds name_of (xs @ [x]) = bind_name (name_of x) (length xs) (binds name_of xs)"
  by (simp add: binds_def bind_name_def emplace_def enumerate_snoc)

text \<open>
  \<open>BindingHash\<close> is an unordered multimap: which binding of a name it finds is up to its order of equal
  keys. So a look-up is stated for every order of the bindings: it gives no entity if none has the
  name, and otherwise one that has it.
\<close>

definition finds :: "('a \<Rightarrow> bool) \<Rightarrow> 'a list \<Rightarrow> 'a option \<Rightarrow> bool" where
  "finds P xs r = (case r of None \<Rightarrow> list_all (\<lambda>x. \<not> P x) xs | Some x \<Rightarrow> x \<in> set xs \<and> P x)"

lemma finds_unique:
  assumes "finds P xs r" "x \<in> set xs" "P x" "\<And>y. y \<in> set xs \<Longrightarrow> P y \<Longrightarrow> y = x"
  shows "r = Some x"
proof (cases r)
  case None
  with assms(1-3) show ?thesis by (simp add: finds_def list_all_iff)
next
  case (Some y)
  with assms(1) have "y \<in> set xs" "P y" by (simp_all add: finds_def)
  from assms(4) [OF this] Some show ?thesis by simp
qed

lemma binds_pairs:
  "(nm, i) \<in> set (binds name_of xs) \<longleftrightarrow>
     (\<exists>n < length xs. i = of_nat n \<and> name_of (xs ! n) = nm \<and> nm \<noteq> [])"
proof
  assume "(nm, i) \<in> set (binds name_of xs)"
  then obtain n x where "(n, x) \<in> set (enumerate 0 xs)" "name_of x \<noteq> []" "nm = name_of x" "i = of_nat n"
    by (auto simp: binds_def)
  then show "\<exists>n < length xs. i = of_nat n \<and> name_of (xs ! n) = nm \<and> nm \<noteq> []"
    by (auto simp: in_set_enumerate_eq)
next
  assume "\<exists>n < length xs. i = of_nat n \<and> name_of (xs ! n) = nm \<and> nm \<noteq> []"
  then obtain n where n: "n < length xs" "i = of_nat n" "name_of (xs ! n) = nm" "nm \<noteq> []" by blast
  then have "(n, xs ! n) \<in> set (enumerate 0 xs)" by (simp add: in_set_enumerate_eq)
  with n show "(nm, i) \<in> set (binds name_of xs)" by (force simp: binds_def)
qed

lemma lookup_by_name:
  assumes "nm \<noteq> []" "length xs < 2 ^ 32" "mset b = mset (binds name_of xs)"
  shows "(case map_of b nm of None \<Rightarrow> \<forall>x \<in> set xs. name_of x \<noteq> nm
    | Some i \<Rightarrow> unat i < length xs \<and> name_of (xs ! unat i) = nm)"
proof -
  have b: "set b = set (binds name_of xs)" using assms(3) by (metis set_mset_mset)
  have n: "unat (of_nat n :: index) = n" if "n < length xs" for n
    using that assms(2) by (simp add: unsigned_of_nat take_bit_nat_eq_self)
  show ?thesis
  proof (cases "map_of b nm")
    case None
    then have "(nm, i) \<notin> set (binds name_of xs)" for i by (force simp: map_of_eq_None_iff b)
    then have "\<forall>n < length xs. name_of (xs ! n) \<noteq> nm" using assms(1) by (auto simp: binds_pairs)
    with None show ?thesis by (auto simp: in_set_conv_nth)
  next
    case (Some i)
    then have "(nm, i) \<in> set (binds name_of xs)" by (auto simp: b [symmetric] dest: map_of_SomeD)
    then obtain k where "k < length xs" "i = of_nat k" "name_of (xs ! k) = nm" by (auto simp: binds_pairs)
    with Some n show ?thesis by simp
  qed
qed

lemma entity_by_name:
  assumes "nm \<noteq> []" "length xs < 2 ^ 32 - 1" "mset b = mset (binds name_of xs)"
  shows "finds (\<lambda>x. name_of x = nm) xs (entity xs (FindIndex b (VName nm)))"
proof -
  have len: "unat (of_nat (length xs) :: u64) = length xs"
    using assms(2) by (simp add: unsigned_of_nat take_bit_nat_eq_self)
  have "unat (kInvalidIndex :: index) = 2 ^ 32 - 1" by (simp add: kInvalidIndex_def unsigned_minus_1_eq_mask mask_eq_exp_minus_1)
  then have "entity xs kInvalidIndex = None"
    using assms(2) len by (simp add: entity_def word_le_nat_alt unsigned_ucast_eq unsigned_take_bit_eq take_bit_nat_eq_self)
  moreover have "entity xs i = Some (xs ! unat i)" if "unat i < length xs" for i
  proof -
    have "unat (ucast i :: u64) = unat i"
      using unsigned_less [of i, where 'a = nat]
      by (simp add: unsigned_ucast_eq unsigned_take_bit_eq take_bit_nat_eq_self)
    then show ?thesis using that len by (simp add: entity_def word_le_nat_alt not_le)
  qed
  ultimately show ?thesis
    using lookup_by_name [OF assms(1) _ assms(3)] assms(2)
    by (auto simp: FindIndex_name_def finds_def list_all_iff split: option.splits)
qed

section \<open>Building a module\<close>

definition bindings_named :: "module \<Rightarrow> bool" where
  "bindings_named m \<longleftrightarrow>
     func_bindings m = binds func_name (funcs m) \<and> table_bindings m = binds table_name (tables m) \<and>
     memory_bindings m = binds memory_name (memories m) \<and>
     global_bindings m = binds global_name (globals m) \<and> tag_bindings m = binds tag_name (tags m) \<and>
     type_bindings m = binds entry_name (types m) \<and>
     elem_segment_bindings m = binds elem_name (elem_segments m) \<and>
     data_segment_bindings m = binds data_name (data_segments m)"

definition num_imports_of :: "external_kind \<Rightarrow> module \<Rightarrow> index" where
  "num_imports_of kind m = of_nat (length (filter (\<lambda>i. case import_desc i of
      FuncImport f \<Rightarrow> kind = EkFunc | TableImport t \<Rightarrow> kind = EkTable | MemoryImport x \<Rightarrow> kind = EkMemory
    | GlobalImport g \<Rightarrow> kind = EkGlobal | TagImport t \<Rightarrow> kind = EkTag) (mod_imports m)))"

definition imports_counted :: "module \<Rightarrow> bool" where
  "imports_counted m \<longleftrightarrow>
     func_imports_count m = num_imports_of EkFunc m \<and>
     table_imports_count m = num_imports_of EkTable m \<and>
     memory_imports_count m = num_imports_of EkMemory m \<and>
     global_imports_count m = num_imports_of EkGlobal m \<and>
     tag_imports_count m = num_imports_of EkTag m"

definition well_built :: "module \<Rightarrow> bool" where
  "well_built m \<longleftrightarrow> bindings_named m \<and> imports_counted m"

lemma AppendImport_well_built: "well_built m \<Longrightarrow> well_built (AppendImport i m)"
  by (cases "import_desc i")
    (simp_all add: well_built_def bindings_named_def imports_counted_def num_imports_of_def
      AppendImport_def Let_def)

lemma AppendField_well_built: "well_built m \<Longrightarrow> well_built (AppendField f m)"
  by (cases f)
    (simp_all add: AppendImport_well_built,
     simp_all add: well_built_def bindings_named_def imports_counted_def num_imports_of_def)

interpretation module_sys: step_system "\<lambda>f m. ((), AppendField f m)" well_built
  by unfold_locales (simp add: AppendField_well_built)

lemma AppendFields_runs: "AppendFields fs m = snd (runs (\<lambda>f m. ((), AppendField f m)) fs m)"
  by (induction fs arbitrary: m) (simp_all add: AppendFields_def split_beta)

lemma empty_well_built: "well_built empty_module"
  by (simp add: well_built_def bindings_named_def imports_counted_def num_imports_of_def empty_module_def)

lemma AppendFields_well_built: "well_built (AppendFields fs empty_module)"
  unfolding AppendFields_runs by (rule module_sys.runs_inv [OF empty_well_built])

section \<open>Properties\<close>

text \<open>A module that differs from another at most in the order of its bindings.\<close>

definition reordered :: "module \<Rightarrow> module \<Rightarrow> bool" where
  "reordered m m' \<longleftrightarrow>
     funcs m' = funcs m \<and> mset (func_bindings m') = mset (func_bindings m) \<and>
     tables m' = tables m \<and> mset (table_bindings m') = mset (table_bindings m) \<and>
     memories m' = memories m \<and> mset (memory_bindings m') = mset (memory_bindings m) \<and>
     globals m' = globals m \<and> mset (global_bindings m') = mset (global_bindings m) \<and>
     tags m' = tags m \<and> mset (tag_bindings m') = mset (tag_bindings m) \<and>
     data_segments m' = data_segments m \<and>
     mset (data_segment_bindings m') = mset (data_segment_bindings m) \<and>
     elem_segments m' = elem_segments m \<and>
     mset (elem_segment_bindings m') = mset (elem_segment_bindings m)"

text \<open>C27. In a module built with \<open>AppendFields\<close>, whatever the order of its bindings, a look-up by a
  non-empty name yields no entity exactly if none of its kind, imported or defined, has that name,
  and otherwise one that has it: the entity itself if its name is unique. The vectors must have
  fewer than \<open>2 ^ 32 - 1\<close> elements. The import counts are the numbers of imports of each kind.\<close>

theorem AppendFields_lookup:
  fixes fs m'
  defines "m \<equiv> AppendFields fs empty_module"
  assumes "reordered m m'" "nm \<noteq> []"
    "length (funcs m) < 2 ^ 32 - 1" "length (tables m) < 2 ^ 32 - 1"
    "length (memories m) < 2 ^ 32 - 1" "length (globals m) < 2 ^ 32 - 1"
    "length (tags m) < 2 ^ 32 - 1" "length (data_segments m) < 2 ^ 32 - 1"
    "length (elem_segments m) < 2 ^ 32 - 1"
  shows "finds (\<lambda>f. func_name f = nm) (funcs m) (GetFunc m' (VName nm)) \<and>
    finds (\<lambda>t. table_name t = nm) (tables m) (GetTable m' (VName nm)) \<and>
    finds (\<lambda>x. memory_name x = nm) (memories m) (GetMemory m' (VName nm)) \<and>
    finds (\<lambda>g. global_name g = nm) (globals m) (GetGlobal m' (VName nm)) \<and>
    finds (\<lambda>t. tag_name t = nm) (tags m) (GetTag m' (VName nm)) \<and>
    finds (\<lambda>d. data_name d = nm) (data_segments m) (GetDataSegment m' (VName nm)) \<and>
    finds (\<lambda>e. elem_name e = nm) (elem_segments m) (GetElemSegment m' (VName nm)) \<and>
    imports_counted m"
proof -
  have "bindings_named m" and count: "imports_counted m"
    using AppendFields_well_built by (simp_all add: m_def well_built_def)
  then have b: "mset (func_bindings m') = mset (binds func_name (funcs m))"
    "mset (table_bindings m') = mset (binds table_name (tables m))"
    "mset (memory_bindings m') = mset (binds memory_name (memories m))"
    "mset (global_bindings m') = mset (binds global_name (globals m))"
    "mset (tag_bindings m') = mset (binds tag_name (tags m))"
    "mset (data_segment_bindings m') = mset (binds data_name (data_segments m))"
    "mset (elem_segment_bindings m') = mset (binds elem_name (elem_segments m))"
    and same: "funcs m' = funcs m" "tables m' = tables m" "memories m' = memories m" "globals m' = globals m"
    "tags m' = tags m" "data_segments m' = data_segments m" "elem_segments m' = elem_segments m"
    using assms(2) by (simp_all add: bindings_named_def reordered_def)
  note found = entity_by_name [OF assms(3)]
  show ?thesis
    unfolding GetFunc_def GetTable_def GetMemory_def GetGlobal_def GetTag_def
      GetDataSegment_def GetElemSegment_def GetFuncIndex_def GetTableIndex_def GetMemoryIndex_def
      GetGlobalIndex_def GetTagIndex_def GetDataSegmentIndex_def GetElemSegmentIndex_def same
    using found [OF assms(4) b(1)] found [OF assms(5) b(2)] found [OF assms(6) b(3)]
      found [OF assms(7) b(4)] found [OF assms(8) b(5)] found [OF assms(9) b(6)]
      found [OF assms(10) b(7)] count by blast
qed

definition named_func :: "name \<Rightarrow> local_types \<Rightarrow> func" where
  "named_func nm decls = \<lparr>func_name = nm,
     func_decl = \<lparr>has_func_type = False, type_var = VIndex kInvalidIndex,
       decl_sig = \<lparr>param_types = [], result_types = []\<rparr>\<rparr>,
     local_types = decls, bindings = [], func_exprs = []\<rparr>"

text \<open>Two named functions, with the bindings in the other order.\<close>

theorem AppendFields_lookup_witness:
  "let m = AppendFields [FuncField (named_func [0x24, 0x66] [(I32, 1)]),
       FuncField (named_func [0x24, 0x67] [])] empty_module
   in GetFunc (m\<lparr>func_bindings := rev (func_bindings m)\<rparr>) (VName [0x24, 0x67]) = Some (named_func [0x24, 0x67] [])"
proof -
  let ?fs = "[FuncField (named_func [0x24, 0x66] [(I32, 1)]), FuncField (named_func [0x24, 0x67] [])]"
  let ?m = "AppendFields ?fs empty_module"
  have m: "?m = empty_module
      \<lparr>funcs := [named_func [0x24, 0x66] [(I32, 1)], named_func [0x24, 0x67] []],
       fields_of := ?fs, func_bindings := [([0x24, 0x66], 0), ([0x24, 0x67], 1)]\<rparr>"
    by (simp add: AppendFields_def empty_module_def bind_name_def emplace_def named_func_def)
  have fns: "funcs ?m = [named_func [0x24, 0x66] [(I32, 1)], named_func [0x24, 0x67] []]"
    unfolding m by simp
  have sizes: "tables ?m = []" "memories ?m = []" "globals ?m = []" "tags ?m = []" "data_segments ?m = []"
    "elem_segments ?m = []" unfolding m by (simp_all add: empty_module_def)
  have "reordered ?m (?m\<lparr>func_bindings := rev (func_bindings ?m)\<rparr>)" by (simp add: reordered_def)
  from AppendFields_lookup [OF this, of "[0x24, 0x67]"]
  have "finds (\<lambda>f. func_name f = [0x24, 0x67]) (funcs ?m)
      (GetFunc (?m\<lparr>func_bindings := rev (func_bindings ?m)\<rparr>) (VName [0x24, 0x67]))"
    by (simp only: fns sizes) simp
  then have "GetFunc (?m\<lparr>func_bindings := rev (func_bindings ?m)\<rparr>) (VName [0x24, 0x67]) =
      Some (named_func [0x24, 0x67] [])"
    unfolding fns by (rule finds_unique) (auto simp: named_func_def)
  then show ?thesis by (simp add: Let_def)
qed

end
