(* ===== verification/Expr_Visitor.thy ===== *)
theory Expr_Visitor
  imports IR
begin

text \<open>
  The expression visitor (src/expr-visitor.cc): an iterative depth-first traversal that tells a
  delegate about each expression. The stacks of the class are lists with the back at the head; an
  iterator into an expression list is the rest of that list, so it is at the end when it is empty.
  The delegate is an action of its own state for each of its member functions, called \<open>visit_call\<close>.
\<close>

section \<open>The delegate\<close>

text \<open>
  \<open>OnExpr e\<close> stands for the member functions for expressions without sub-expressions, one for each
  type of \<open>e\<close>: \<open>OnBinaryExpr\<close>, \<open>OnBrExpr\<close> and so on.
\<close>

datatype visit_call =
    OnExpr expr
  | BeginBlockExpr expr | EndBlockExpr expr
  | BeginIfExpr expr | AfterIfTrueExpr expr | EndIfExpr expr
  | BeginLoopExpr expr | EndLoopExpr expr
  | BeginTryExpr expr | OnCatchExpr expr catch | OnDelegateExpr expr | EndTryExpr expr

type_synonym 's delegate = "visit_call \<Rightarrow> ('s, result) state"

section \<open>The stacks\<close>

datatype visit_state = VsDefault | VsBlock | VsIfTrue | VsIfFalse | VsLoop | VsTry | VsCatch

record expr_visitor =
  state_stack :: "visit_state list"
  expr_stack :: "expr list"
  expr_iter_stack :: "expr list list"
  catch_index_stack :: "nat list"

definition empty_visitor :: expr_visitor where
  "empty_visitor =
     \<lparr>state_stack = [], expr_stack = [], expr_iter_stack = [], catch_index_stack = []\<rparr>"

definition PushDefault :: "expr \<Rightarrow> expr_visitor \<Rightarrow> expr_visitor" where
  "PushDefault e v = v\<lparr>state_stack := VsDefault # state_stack v, expr_stack := e # expr_stack v\<rparr>"

definition PopDefault :: "expr_visitor \<Rightarrow> expr_visitor" where
  "PopDefault v = v\<lparr>state_stack := tl (state_stack v), expr_stack := tl (expr_stack v)\<rparr>"

definition PushExprlist :: "visit_state \<Rightarrow> expr \<Rightarrow> expr list \<Rightarrow> expr_visitor \<Rightarrow> expr_visitor" where
  "PushExprlist st e es v =
     v\<lparr>state_stack := st # state_stack v, expr_stack := e # expr_stack v,
       expr_iter_stack := es # expr_iter_stack v\<rparr>"

definition PopExprlist :: "expr_visitor \<Rightarrow> expr_visitor" where
  "PopExprlist v =
     v\<lparr>state_stack := tl (state_stack v), expr_stack := tl (expr_stack v),
       expr_iter_stack := tl (expr_iter_stack v)\<rparr>"

definition PushCatch :: "expr \<Rightarrow> nat \<Rightarrow> expr list \<Rightarrow> expr_visitor \<Rightarrow> expr_visitor" where
  "PushCatch e catch_index es v =
     v\<lparr>state_stack := VsCatch # state_stack v, expr_stack := e # expr_stack v,
       expr_iter_stack := es # expr_iter_stack v,
       catch_index_stack := catch_index # catch_index_stack v\<rparr>"

definition PopCatch :: "expr_visitor \<Rightarrow> expr_visitor" where
  "PopCatch v =
     v\<lparr>state_stack := tl (state_stack v), expr_stack := tl (expr_stack v),
       expr_iter_stack := tl (expr_iter_stack v), catch_index_stack := tl (catch_index_stack v)\<rparr>"

text \<open>\<open>*iter++\<close> on the iterator at the back.\<close>

definition AdvanceIter :: "expr_visitor \<Rightarrow> expr_visitor" where
  "AdvanceIter v =
     v\<lparr>expr_iter_stack := tl (hd (expr_iter_stack v)) # tl (expr_iter_stack v)\<rparr>"

section \<open>The loop\<close>

text \<open>
  A step yields a result and the visitor after it, which is of no account after an error:
  \<open>CHECK_RESULT\<close> then leaves \<open>VisitExpr\<close>.
\<close>

definition and_then :: "('s, result) state \<Rightarrow> expr_visitor \<Rightarrow> ('s, result \<times> expr_visitor) state" where
  "and_then m v = do { r \<leftarrow> m; State_Monad.return (r, v) }"

fun HandleDefaultState ::
  "'s delegate \<Rightarrow> expr \<Rightarrow> expr_visitor \<Rightarrow> ('s, result \<times> expr_visitor) state" where
  "HandleDefaultState d (BlockExprBase BlockT b) v =
     and_then (d (BeginBlockExpr (BlockExprBase BlockT b)))
       (PushExprlist VsBlock (BlockExprBase BlockT b) (block_exprs b) v)"
| "HandleDefaultState d (BlockExprBase LoopT b) v =
     and_then (d (BeginLoopExpr (BlockExprBase LoopT b)))
       (PushExprlist VsLoop (BlockExprBase LoopT b) (block_exprs b) v)"
| "HandleDefaultState d (IfExpr b es) v =
     and_then (d (BeginIfExpr (IfExpr b es))) (PushExprlist VsIfTrue (IfExpr b es) (block_exprs b) v)"
| "HandleDefaultState d (TryExpr kind b cs t) v =
     and_then (d (BeginTryExpr (TryExpr kind b cs t)))
       (PushExprlist VsTry (TryExpr kind b cs t) (block_exprs b) v)"
| "HandleDefaultState d e v = and_then (d (OnExpr e)) v"

text \<open>The first of the catches from \<open>catch_index\<close> on, or the end of the expression.\<close>

definition NextCatch ::
  "'s delegate \<Rightarrow> expr \<Rightarrow> catch list \<Rightarrow> nat \<Rightarrow> expr_visitor \<Rightarrow> ('s, result \<times> expr_visitor) state" where
  "NextCatch d e catches catch_index v =
     (if catch_index < length catches
      then and_then (d (OnCatchExpr e (catches ! catch_index)))
             (PushCatch e catch_index (catch_exprs (catches ! catch_index)) v)
      else and_then (d (EndTryExpr e)) v)"

fun if_false :: "expr \<Rightarrow> expr list" where
  "if_false (IfExpr b es) = es"
| "if_false e = []"

fun try_catches :: "expr \<Rightarrow> catch list" where
  "try_catches (TryExpr kind b cs t) = cs"
| "try_catches e = []"

fun try_kind_of :: "expr \<Rightarrow> try_kind" where
  "try_kind_of (TryExpr kind b cs t) = kind"
| "try_kind_of e = TryPlain"

text \<open>What a state does once its iterator is at the end.\<close>

primrec LeaveState ::
  "'s delegate \<Rightarrow> visit_state \<Rightarrow> expr \<Rightarrow> expr_visitor \<Rightarrow> ('s, result \<times> expr_visitor) state" where
  "LeaveState d VsDefault e v = State_Monad.return (Ok, v)"
| "LeaveState d VsBlock e v = and_then (d (EndBlockExpr e)) (PopExprlist v)"
| "LeaveState d VsIfTrue e v =
     and_then (d (AfterIfTrueExpr e)) (PushExprlist VsIfFalse e (if_false e) (PopExprlist v))"
| "LeaveState d VsIfFalse e v = and_then (d (EndIfExpr e)) (PopExprlist v)"
| "LeaveState d VsLoop e v = and_then (d (EndLoopExpr e)) (PopExprlist v)"
| "LeaveState d VsTry e v =
     (case try_kind_of e of
        TryCatch \<Rightarrow> NextCatch d e (try_catches e) 0 (PopExprlist v)
      | TryDelegate \<Rightarrow> and_then (d (OnDelegateExpr e)) (PopExprlist v)
      | TryPlain \<Rightarrow> and_then (d (EndTryExpr e)) (PopExprlist v))"
| "LeaveState d VsCatch e v =
     NextCatch d e (try_catches e) (hd (catch_index_stack v) + 1) (PopCatch v)"

definition VisitStep :: "'s delegate \<Rightarrow> expr_visitor \<Rightarrow> ('s, result \<times> expr_visitor) state" where
  "VisitStep d v =
     (let st = hd (state_stack v); e = hd (expr_stack v) in
      if st = VsDefault then HandleDefaultState d e (PopDefault v)
      else if hd (expr_iter_stack v) \<noteq> []
      then State_Monad.return (Ok, PushDefault (hd (hd (expr_iter_stack v))) (AdvanceIter v))
      else LeaveState d st e v)"

text \<open>The loop may not end for all we know at this point: then it has no value.\<close>

partial_function (option) VisitLoop ::
  "'s delegate \<Rightarrow> expr_visitor \<Rightarrow> 's \<Rightarrow> (result \<times> 's) option" where
  "VisitLoop d v s =
     (if state_stack v = [] then Some (Ok, s)
      else case run_state (VisitStep d v) s of
        ((r, v'), s') \<Rightarrow> (if r = Ok then VisitLoop d v' s' else Some (Error, s')))"

declare VisitLoop.simps [code]

definition VisitExpr :: "'s delegate \<Rightarrow> expr \<Rightarrow> 's \<Rightarrow> (result \<times> 's) option" where
  "VisitExpr d root_expr s = VisitLoop d (PushDefault root_expr empty_visitor) s"

fun VisitExprList :: "'s delegate \<Rightarrow> expr list \<Rightarrow> 's \<Rightarrow> (result \<times> 's) option" where
  "VisitExprList d [] s = Some (Ok, s)"
| "VisitExprList d (e # es) s =
     (case VisitExpr d e s of
        None \<Rightarrow> None
      | Some (r, s') \<Rightarrow> (if r = Ok then VisitExprList d es s' else Some (Error, s')))"

definition VisitFunc :: "'s delegate \<Rightarrow> func \<Rightarrow> 's \<Rightarrow> (result \<times> 's) option" where
  "VisitFunc d f s = VisitExprList d (func_exprs f) s"

text \<open>
  The declaration and the label of the block of an expression and the target of a delegate; the last
  equations are for expressions that a delegate does not ask for them.
\<close>

definition no_decl :: func_declaration where
  "no_decl = \<lparr>has_func_type = False, type_var = VIndex kInvalidIndex,
     decl_sig = \<lparr>param_types = [], result_types = []\<rparr>\<rparr>"

fun expr_decl :: "expr \<Rightarrow> func_declaration" where
  "expr_decl (BlockExprBase k b) = block_decl b"
| "expr_decl (IfExpr b es) = block_decl b"
| "expr_decl (TryExpr k b cs t) = block_decl b"
| "expr_decl e = no_decl"

fun delegate_target :: "expr \<Rightarrow> IR.var" where
  "delegate_target (TryExpr k b cs t) = t"
| "delegate_target e = VIndex kInvalidIndex"

fun expr_label :: "expr \<Rightarrow> name" where
  "expr_label (BlockExprBase k b) = block_label b"
| "expr_label (IfExpr b es) = block_label b"
| "expr_label (TryExpr k b cs t) = block_label b"
| "expr_label e = []"

section \<open>The recursive traversal\<close>

text \<open>
  The calls that the delegate is to receive, by recursion on the expressions; an error of the
  delegate ends the traversal.
\<close>

fun traverse_expr :: "'s delegate \<Rightarrow> expr \<Rightarrow> ('s, result) state"
  and traverse_exprs :: "'s delegate \<Rightarrow> expr list \<Rightarrow> ('s, result) state"
  and traverse_catches :: "'s delegate \<Rightarrow> expr \<Rightarrow> catch list \<Rightarrow> ('s, result) state"
where
  "traverse_expr d (BlockExprBase BlockT (Block l decl es)) =
     CHECK_RESULT (d (BeginBlockExpr (BlockExprBase BlockT (Block l decl es))))
    (CHECK_RESULT (traverse_exprs d es)
     (d (EndBlockExpr (BlockExprBase BlockT (Block l decl es)))))"
| "traverse_expr d (BlockExprBase LoopT (Block l decl es)) =
     CHECK_RESULT (d (BeginLoopExpr (BlockExprBase LoopT (Block l decl es))))
    (CHECK_RESULT (traverse_exprs d es)
     (d (EndLoopExpr (BlockExprBase LoopT (Block l decl es)))))"
| "traverse_expr d (IfExpr (Block l decl es) es') =
     CHECK_RESULT (d (BeginIfExpr (IfExpr (Block l decl es) es')))
    (CHECK_RESULT (traverse_exprs d es)
    (CHECK_RESULT (d (AfterIfTrueExpr (IfExpr (Block l decl es) es')))
    (CHECK_RESULT (traverse_exprs d es')
     (d (EndIfExpr (IfExpr (Block l decl es) es'))))))"
| "traverse_expr d (TryExpr kind (Block l decl es) cs t) =
     CHECK_RESULT (d (BeginTryExpr (TryExpr kind (Block l decl es) cs t)))
    (CHECK_RESULT (traverse_exprs d es)
     (case kind of
        TryCatch \<Rightarrow>
          CHECK_RESULT (traverse_catches d (TryExpr kind (Block l decl es) cs t) cs)
            (d (EndTryExpr (TryExpr kind (Block l decl es) cs t)))
      | TryDelegate \<Rightarrow> d (OnDelegateExpr (TryExpr kind (Block l decl es) cs t))
      | TryPlain \<Rightarrow> d (EndTryExpr (TryExpr kind (Block l decl es) cs t))))"
| "traverse_expr d e = d (OnExpr e)"
| "traverse_exprs d [] = State_Monad.return Ok"
| "traverse_exprs d (e # es) = CHECK_RESULT (traverse_expr d e) (traverse_exprs d es)"
| "traverse_catches d e [] = State_Monad.return Ok"
| "traverse_catches d e (Catch v es # cs) =
     CHECK_RESULT (d (OnCatchExpr e (Catch v es)))
    (CHECK_RESULT (traverse_exprs d es) (traverse_catches d e cs))"

text \<open>An invariant of every call of the delegate is one of the traversal.\<close>

lemma keeps_traverse:
  assumes "\<And>c. keeps I (d c)"
  shows "keeps I (traverse_expr d e)" "keeps I (traverse_exprs d es)"
    "keeps I (traverse_catches d e' cs)"
  using assms
  by (induction d e and d es and d e' cs rule: traverse_expr_traverse_exprs_traverse_catches.induct)
    (auto intro!: keeps_CHECK_RESULT keeps_return split: try_kind.splits)

section \<open>The visitor traverses\<close>

definition resume :: "'s delegate \<Rightarrow> expr_visitor \<Rightarrow> result \<times> 's \<Rightarrow> (result \<times> 's) option" where
  "resume d v = (\<lambda>(r, s). if r = Ok then VisitLoop d v s else Some (Error, s))"

definition proceed ::
  "'s delegate \<Rightarrow> ('s, result \<times> expr_visitor) state \<Rightarrow> 's \<Rightarrow> (result \<times> 's) option" where
  "proceed d m s = (case run_state m s of ((r, v), s') \<Rightarrow> resume d v (r, s'))"

lemma VisitLoop_step: "state_stack v \<noteq> [] \<Longrightarrow> VisitLoop d v s = proceed d (VisitStep d v) s"
  by (subst VisitLoop.simps) (simp add: proceed_def resume_def split: prod.splits)

lemma proceed_and_then: "proceed d (and_then m v) s = resume d v (run_state m s)"
  by (simp add: proceed_def and_then_def split: prod.splits)

lemma proceed_return: "proceed d (State_Monad.return (Ok, v)) s = VisitLoop d v s"
  by (simp add: proceed_def resume_def)

lemma resume_simps [simp]:
  "resume d v (Ok, s) = VisitLoop d v s"
  "resume d v (Error, s) = Some (Error, s)"
  by (simp_all add: resume_def)

lemma resume_if:
  "resume d v (run_state m s) =
     (case run_state m s of (r, s') \<Rightarrow> if r = Ok then VisitLoop d v s' else Some (Error, s'))"
  by (simp add: resume_def split: prod.splits)

lemma PushCatch_frame:
  "PushCatch e i es v =
     PushExprlist VsCatch e es (v\<lparr>catch_index_stack := i # catch_index_stack v\<rparr>)"
  by (simp add: PushCatch_def PushExprlist_def)

lemma pop_simps [simp]:
  "PopDefault (PushDefault e v) = v"
  "PopExprlist (PushExprlist st e es v) = v"
  "PopCatch (PushExprlist VsCatch e es (v\<lparr>catch_index_stack := i # catch_index_stack v\<rparr>)) = v"
  by (simp_all add: PopDefault_def PushDefault_def PopExprlist_def PushExprlist_def PopCatch_def)

text \<open>The loop at an expression, inside an expression list, and at the end of one.\<close>

lemma VisitLoop_default:
  "VisitLoop d (PushDefault e v) s = proceed d (HandleDefaultState d e v) s"
  by (subst VisitLoop_step) (simp_all add: PushDefault_def VisitStep_def PopDefault_def)

lemma VisitLoop_next:
  "st \<noteq> VsDefault \<Longrightarrow> VisitLoop d (PushExprlist st e (x # es) v) s =
     VisitLoop d (PushDefault x (PushExprlist st e es v)) s"
  by (subst VisitLoop_step)
    (simp_all add: VisitStep_def Let_def PushExprlist_def AdvanceIter_def proceed_return)

lemma VisitLoop_leave:
  "st \<noteq> VsDefault \<Longrightarrow> VisitLoop d (PushExprlist st e [] v) s =
     proceed d (LeaveState d st e (PushExprlist st e [] v)) s"
  by (subst VisitLoop_step) (simp_all add: VisitStep_def Let_def, simp_all add: PushExprlist_def)

lemmas visit_loop = VisitLoop_default VisitLoop_next VisitLoop_leave proceed_and_then resume_if

lemma NextCatch_cons:
  "NextCatch d e (pre @ Catch v es # cs) (length pre) w =
     and_then (d (OnCatchExpr e (Catch v es)))
       (PushExprlist VsCatch e es (w\<lparr>catch_index_stack := length pre # catch_index_stack w\<rparr>))"
  by (simp add: NextCatch_def PushCatch_frame)

lemma LeaveState_catch:
  "LeaveState d VsCatch e (PushExprlist VsCatch e es (w\<lparr>catch_index_stack := i # catch_index_stack w\<rparr>)) =
     NextCatch d e (try_catches e) (Suc i) w"
  by (simp add: PushExprlist_def PopCatch_def)

lemma VisitLoop_traverses:
  "VisitLoop d (PushDefault e v) s = resume d v (run_state (traverse_expr d e) s)"
  "st \<noteq> VsDefault \<Longrightarrow> VisitLoop d (PushExprlist st parent es v) s =
     resume d (PushExprlist st parent [] v) (run_state (traverse_exprs d es) s)"
  "try_catches e' = pre @ cs \<Longrightarrow> proceed d (NextCatch d e' (pre @ cs) (length pre) v) s =
     resume d v (run_state (CHECK_RESULT (traverse_catches d e' cs) (d (EndTryExpr e'))) s)"
proof (induction d e and d es and d e' cs arbitrary: v s and st parent v s and pre v s
    rule: traverse_expr_traverse_exprs_traverse_catches.induct)
  case (4 d kind l decl es cs t)
  show ?case
    using 4(2) [of "[]"] 4(1)
    by (cases kind) (simp_all add: visit_loop split: prod.splits)
next
  fix d e v es cs pre w s
  assume body: "\<And>st parent w s. st \<noteq> VsDefault \<Longrightarrow>
      VisitLoop d (PushExprlist st parent es w) s =
      resume d (PushExprlist st parent [] w) (run_state (traverse_exprs d es) s)"
    and rest: "\<And>pre w s. try_catches e = pre @ cs \<Longrightarrow>
      proceed d (NextCatch d e (pre @ cs) (length pre) w) s =
      resume d w (run_state (CHECK_RESULT (traverse_catches d e cs) (d (EndTryExpr e))) s)"
    and "try_catches e = pre @ Catch v es # cs"
  from this(3) show "proceed d (NextCatch d e (pre @ Catch v es # cs) (length pre) w) s =
      resume d w (run_state
        (CHECK_RESULT (traverse_catches d e (Catch v es # cs)) (d (EndTryExpr e))) s)"
    using rest [of "pre @ [Catch v es]" w]
    by (simp add: NextCatch_cons body visit_loop LeaveState_catch del: LeaveState.simps
        split: prod.splits)
qed (simp_all add: visit_loop NextCatch_def split: prod.splits)

lemma VisitExpr_traverses: "VisitExpr d e s = Some (run_state (traverse_expr d e) s)"
proof -
  have "VisitLoop d empty_visitor s' = Some (Ok, s')" for s'
    by (subst VisitLoop.simps) (simp add: empty_visitor_def)
  then show ?thesis
    unfolding VisitExpr_def VisitLoop_traverses(1) resume_def
    by (auto split: prod.splits)
qed

lemma VisitExprList_traverses:
  "VisitExprList d es s = Some (run_state (traverse_exprs d es) s)"
  by (induction es arbitrary: s) (auto simp: VisitExpr_traverses split: prod.splits)

text \<open>
  C28. The traversal of a function with explicit stacks ends for every function and every delegate,
  and makes exactly the calls of the recursive traversal, in its order, up to the first error: each
  construct is opened before its parts and closed after them, the parts of a conditional and the
  catches come in order, and nothing is skipped or visited twice.
\<close>

theorem VisitFunc_traverses:
  "VisitFunc d f s = Some (run_state (traverse_exprs d (func_exprs f)) s)"
  by (simp add: VisitFunc_def VisitExprList_traverses)

end
