(* ===== verification/Validator.thy ===== *)
theory Validator
  imports Shared_Validator Expr_Visitor
begin

text \<open>
  The validator of modules in the intermediate representation (\<open>Validator\<close> of src/validator.cc): a
  delegate of the expression visitor that passes every expression to the shared validator, and
  \<open>CheckModule\<close>, which passes the fields of the module section by section. The definitions with the
  suffix \<open>_v\<close> are the member functions of the delegate. The representation has no source
  locations here, so all errors carry the same one. The validator of test scripts is left out.
\<close>

section \<open>State\<close>

text \<open>
  \<open>vd_call_ref\<close> are the type indices that \<open>OnCallRefExpr\<close> stores in the \<open>call_ref\<close> expressions it
  sees, in their order. \<open>vd_aborted\<close> is set where the shared validator is \<open>WABT_UNREACHABLE\<close> and the
  process aborts; the state after that is of no account.
\<close>

record validator =
  vd_validator :: shared_validator
  vd_result :: result
  vd_call_ref :: "index list"
  vd_aborted :: bool

type_synonym 'a vd = "(validator, 'a) state"

definition Validator :: "features \<Rightarrow> validator" where
  "Validator f =
     \<lparr>vd_validator = SharedValidator f, vd_result = Ok, vd_call_ref = [], vd_aborted = False\<rparr>"

text \<open>\<open>result_ |= validator_.m\<close>\<close>

definition accrue :: "result sv \<Rightarrow> unit vd" where
  "accrue m = State (\<lambda>s.
     (let (r, v) = run_state m (vd_validator s)
      in ((), s\<lparr>vd_validator := v, vd_result := result_or (vd_result s) r\<rparr>)))"

definition accrue_option :: "result option sv \<Rightarrow> unit vd" where
  "accrue_option m = State (\<lambda>s.
     (case run_state m (vd_validator s) of
        (Some r, v) \<Rightarrow> ((), s\<lparr>vd_validator := v, vd_result := result_or (vd_result s) r\<rparr>)
      | (None, v) \<Rightarrow> ((), s\<lparr>vd_validator := v, vd_aborted := True\<rparr>)))"

text \<open>The body \<open>result_ |= validator_.m; return Result::Ok;\<close> of a member function.\<close>

definition passes :: "result sv \<Rightarrow> result vd" where
  "passes m = do { accrue m; State_Monad.return Ok }"

definition passes_option :: "result option sv \<Rightarrow> result vd" where
  "passes_option m = do { accrue_option m; State_Monad.return Ok }"

definition no_location :: location where
  "no_location = 0"

text \<open>
  A \<open>Var\<close> as the shared validator reads it: names have been resolved before. On a name that is
  left, \<open>var.index()\<close> is an assertion failure; here it counts as the invalid index.
\<close>

fun sv_var :: "IR.var \<Rightarrow> Shared_Validator.var" where
  "sv_var (VIndex i) = Var i no_location"
| "sv_var (VName nm) = Var kInvalidIndex no_location"

section \<open>Signatures\<close>

text \<open>\<open>Type(index)\<close> converts the index to \<open>int32_t\<close>.\<close>

definition GetDeclarationType :: "module \<Rightarrow> func_declaration \<Rightarrow> wtype" where
  "GetDeclarationType m decl =
     (if has_func_type decl then type_of_code (sint (var_index (sv_var (type_var decl))))
      else case (param_types (decl_sig decl), IR.result_types (decl_sig decl)) of
        ([], []) \<Rightarrow> VoidTy
      | ([], [t]) \<Rightarrow> t
      | _ \<Rightarrow> type_of_code (sint (IR.GetFuncTypeIndex m decl)))"

definition GetFuncTypeIndex_v :: "module \<Rightarrow> func_declaration \<Rightarrow> Shared_Validator.var" where
  "GetFuncTypeIndex_v m decl =
     (if has_func_type decl then sv_var (type_var decl)
      else Var (IR.GetFuncTypeIndex m decl) no_location)"

section \<open>The delegate\<close>

definition OnBinaryExpr_v :: "opcode \<Rightarrow> result vd" where
  "OnBinaryExpr_v op = passes (OnBinary_sv no_location op)"

definition BeginBlockExpr_v :: "module \<Rightarrow> func_declaration \<Rightarrow> result vd" where
  "BeginBlockExpr_v m decl = passes_option (OnBlock_sv no_location (GetDeclarationType m decl))"

definition EndBlockExpr_v :: "result vd" where
  "EndBlockExpr_v = passes (OnEnd_sv no_location)"

definition OnBrExpr_v :: "IR.var \<Rightarrow> result vd" where
  "OnBrExpr_v v = passes (OnBr_sv no_location (sv_var v))"

definition OnBrIfExpr_v :: "IR.var \<Rightarrow> result vd" where
  "OnBrIfExpr_v v = passes (OnBrIf_sv no_location (sv_var v))"

primrec br_table_targets :: "IR.var list \<Rightarrow> unit vd" where
  "br_table_targets [] = State_Monad.return ()"
| "br_table_targets (v # vs) = do {
     accrue (OnBrTableTarget_sv no_location (sv_var v));
     br_table_targets vs
   }"

definition OnBrTableExpr_v :: "IR.var list \<Rightarrow> IR.var \<Rightarrow> result vd" where
  "OnBrTableExpr_v targets default_target = do {
     accrue (BeginBrTable_sv no_location);
     br_table_targets targets;
     accrue (OnBrTableTarget_sv no_location (sv_var default_target));
     passes (EndBrTable_sv no_location)
   }"

definition OnCallExpr_v :: "IR.var \<Rightarrow> result vd" where
  "OnCallExpr_v v = passes (OnCall_sv no_location (sv_var v))"

definition OnCallIndirectExpr_v :: "module \<Rightarrow> func_declaration \<Rightarrow> IR.var \<Rightarrow> result vd" where
  "OnCallIndirectExpr_v m decl table = 
     passes (OnCallIndirect_sv no_location (GetFuncTypeIndex_v m decl) (sv_var table))"

definition OnCallRefExpr_v :: "result vd" where
  "OnCallRefExpr_v = do {
     function_type_index \<leftarrow> State (\<lambda>s.
       (let ((r, out), v) = run_state (OnCallRef no_location) (vd_validator s)
        in (out, s\<lparr>vd_validator := v, vd_result := result_or (vd_result s) r\<rparr>)));
     result \<leftarrow> gets vd_result;
     if Succeeded result then do {
       modify (\<lambda>s. s\<lparr>vd_call_ref := vd_call_ref s @ [the function_type_index]\<rparr>);
       State_Monad.return Ok
     } else State_Monad.return Error
   }"

definition OnCodeMetadataExpr_v :: "result vd" where
  "OnCodeMetadataExpr_v = State_Monad.return Ok"

definition OnCompareExpr_v :: "opcode \<Rightarrow> result vd" where
  "OnCompareExpr_v op = passes (OnCompare_sv no_location op)"

text \<open>\<open>Const::type\<close>\<close>

primrec const_type :: "const_value \<Rightarrow> wtype" where
  "const_type (CI32 x) = I32"
| "const_type (CI64 x) = I64"
| "const_type (CF32 x) = F32"
| "const_type (CF64 x) = F64"
| "const_type (CV128 bs) = V128"

definition OnConstExpr_v :: "const_value \<Rightarrow> result vd" where
  "OnConstExpr_v c = passes (OnConst_sv no_location (const_type c))"

definition OnConvertExpr_v :: "opcode \<Rightarrow> result vd" where
  "OnConvertExpr_v op = passes (OnConvert_sv no_location op)"

definition OnDropExpr_v :: "result vd" where
  "OnDropExpr_v = passes (OnDrop_sv no_location)"

definition OnGlobalGetExpr_v :: "IR.var \<Rightarrow> result vd" where
  "OnGlobalGetExpr_v v = passes (OnGlobalGet_sv no_location (sv_var v))"

definition OnGlobalSetExpr_v :: "IR.var \<Rightarrow> result vd" where
  "OnGlobalSetExpr_v v = passes (OnGlobalSet_sv no_location (sv_var v))"

definition BeginIfExpr_v :: "module \<Rightarrow> func_declaration \<Rightarrow> result vd" where
  "BeginIfExpr_v m decl = passes_option (OnIf_sv no_location (GetDeclarationType m decl))"

definition AfterIfTrueExpr_v :: "expr list \<Rightarrow> result vd" where
  "AfterIfTrueExpr_v false_es = 
     (if false_es \<noteq> [] then passes (OnElse_sv no_location) else State_Monad.return Ok)"

definition EndIfExpr_v :: "result vd" where
  "EndIfExpr_v = passes (OnEnd_sv no_location)"

definition OnLoadExpr_v :: "opcode \<Rightarrow> IR.var \<Rightarrow> address \<Rightarrow> address \<Rightarrow> result vd" where
  "OnLoadExpr_v op memidx align offset = 
     passes (OnLoad_sv no_location op (sv_var memidx) (GetAlignment op align) offset)"

definition OnLocalGetExpr_v :: "IR.var \<Rightarrow> result vd" where
  "OnLocalGetExpr_v v = passes (OnLocalGet_sv no_location (sv_var v))"

definition OnLocalSetExpr_v :: "IR.var \<Rightarrow> result vd" where
  "OnLocalSetExpr_v v = passes (OnLocalSet_sv no_location (sv_var v))"

definition OnLocalTeeExpr_v :: "IR.var \<Rightarrow> result vd" where
  "OnLocalTeeExpr_v v = passes (OnLocalTee_sv no_location (sv_var v))"

definition BeginLoopExpr_v :: "module \<Rightarrow> func_declaration \<Rightarrow> result vd" where
  "BeginLoopExpr_v m decl = passes_option (OnLoop_sv no_location (GetDeclarationType m decl))"

definition EndLoopExpr_v :: "result vd" where
  "EndLoopExpr_v = passes (OnEnd_sv no_location)"

definition OnMemoryCopyExpr_v :: "IR.var \<Rightarrow> IR.var \<Rightarrow> result vd" where
  "OnMemoryCopyExpr_v destmemidx srcmemidx = passes (OnMemoryCopy_sv no_location (sv_var destmemidx) (sv_var srcmemidx))"

definition OnDataDropExpr_v :: "IR.var \<Rightarrow> result vd" where
  "OnDataDropExpr_v v = passes (OnDataDrop_sv no_location (sv_var v))"

definition OnMemoryFillExpr_v :: "IR.var \<Rightarrow> result vd" where
  "OnMemoryFillExpr_v v = passes (OnMemoryFill_sv no_location (sv_var v))"

definition OnMemoryGrowExpr_v :: "IR.var \<Rightarrow> result vd" where
  "OnMemoryGrowExpr_v v = passes (OnMemoryGrow_sv no_location (sv_var v))"

definition OnMemoryInitExpr_v :: "IR.var \<Rightarrow> IR.var \<Rightarrow> result vd" where
  "OnMemoryInitExpr_v v memidx = passes (OnMemoryInit_sv no_location (sv_var v) (sv_var memidx))"

definition OnMemorySizeExpr_v :: "IR.var \<Rightarrow> result vd" where
  "OnMemorySizeExpr_v v = passes (OnMemorySize_sv no_location (sv_var v))"

definition OnTableCopyExpr_v :: "IR.var \<Rightarrow> IR.var \<Rightarrow> result vd" where
  "OnTableCopyExpr_v dst_table src_table = passes (OnTableCopy_sv no_location (sv_var dst_table) (sv_var src_table))"

definition OnElemDropExpr_v :: "IR.var \<Rightarrow> result vd" where
  "OnElemDropExpr_v v = passes (OnElemDrop_sv no_location (sv_var v))"

definition OnTableInitExpr_v :: "IR.var \<Rightarrow> IR.var \<Rightarrow> result vd" where
  "OnTableInitExpr_v segment_index table_index = passes (OnTableInit_sv no_location (sv_var segment_index) (sv_var table_index))"

definition OnTableGetExpr_v :: "IR.var \<Rightarrow> result vd" where
  "OnTableGetExpr_v v = passes (OnTableGet_sv no_location (sv_var v))"

definition OnTableSetExpr_v :: "IR.var \<Rightarrow> result vd" where
  "OnTableSetExpr_v v = passes (OnTableSet_sv no_location (sv_var v))"

definition OnTableGrowExpr_v :: "IR.var \<Rightarrow> result vd" where
  "OnTableGrowExpr_v v = passes (OnTableGrow_sv no_location (sv_var v))"

definition OnTableSizeExpr_v :: "IR.var \<Rightarrow> result vd" where
  "OnTableSizeExpr_v v = passes (OnTableSize_sv no_location (sv_var v))"

definition OnTableFillExpr_v :: "IR.var \<Rightarrow> result vd" where
  "OnTableFillExpr_v v = passes (OnTableFill_sv no_location (sv_var v))"

definition OnRefFuncExpr_v :: "IR.var \<Rightarrow> result vd" where
  "OnRefFuncExpr_v v = passes (OnRefFunc no_location (sv_var v))"

definition OnRefNullExpr_v :: "wtype \<Rightarrow> result vd" where
  "OnRefNullExpr_v t = passes (OnRefNull no_location t)"

definition OnRefIsNullExpr_v :: "result vd" where
  "OnRefIsNullExpr_v = passes (OnRefIsNull no_location)"

definition OnNopExpr_v :: "result vd" where
  "OnNopExpr_v = passes (OnNop no_location)"

definition OnReturnExpr_v :: "result vd" where
  "OnReturnExpr_v = passes (OnReturn_sv no_location)"

definition OnReturnCallExpr_v :: "IR.var \<Rightarrow> result vd" where
  "OnReturnCallExpr_v v = passes (OnReturnCall_sv no_location (sv_var v))"

definition OnReturnCallIndirectExpr_v :: "module \<Rightarrow> func_declaration \<Rightarrow> IR.var \<Rightarrow> result vd" where
  "OnReturnCallIndirectExpr_v m decl table = 
     passes (OnReturnCallIndirect_sv no_location (GetFuncTypeIndex_v m decl) (sv_var table))"

definition OnSelectExpr_v :: "type_vector \<Rightarrow> result vd" where
  "OnSelectExpr_v ts = passes (OnSelect_sv no_location ts)"

definition OnStoreExpr_v :: "opcode \<Rightarrow> IR.var \<Rightarrow> address \<Rightarrow> address \<Rightarrow> result vd" where
  "OnStoreExpr_v op memidx align offset = 
     passes (OnStore_sv no_location op (sv_var memidx) (GetAlignment op align) offset)"

definition OnUnaryExpr_v :: "opcode \<Rightarrow> result vd" where
  "OnUnaryExpr_v op = passes (OnUnary_sv no_location op)"

definition OnUnreachableExpr_v :: "result vd" where
  "OnUnreachableExpr_v = passes (OnUnreachable_sv no_location)"

definition BeginTryExpr_v :: "module \<Rightarrow> func_declaration \<Rightarrow> result vd" where
  "BeginTryExpr_v m decl = passes_option (OnTry_sv no_location (GetDeclarationType m decl))"

definition OnCatchExpr_v :: "catch \<Rightarrow> result vd" where
  "OnCatchExpr_v c = 
     passes (OnCatch_sv no_location (sv_var (catch_var c)) (IsCatchAll c))"

definition OnDelegateExpr_v :: "IR.var \<Rightarrow> result vd" where
  "OnDelegateExpr_v v = passes (OnDelegate_sv no_location (sv_var v))"

definition EndTryExpr_v :: "result vd" where
  "EndTryExpr_v = passes (OnEnd_sv no_location)"

definition OnThrowExpr_v :: "IR.var \<Rightarrow> result vd" where
  "OnThrowExpr_v v = passes (OnThrow_sv no_location (sv_var v))"

definition OnRethrowExpr_v :: "IR.var \<Rightarrow> result vd" where
  "OnRethrowExpr_v v = passes (OnRethrow_sv no_location (sv_var v))"

definition OnAtomicWaitExpr_v :: "opcode \<Rightarrow> IR.var \<Rightarrow> address \<Rightarrow> address \<Rightarrow> result vd" where
  "OnAtomicWaitExpr_v op memidx align offset = 
     passes (OnAtomicWait_sv no_location op (sv_var memidx) (GetAlignment op align) offset)"

definition OnAtomicFenceExpr_v :: "u32 \<Rightarrow> result vd" where
  "OnAtomicFenceExpr_v consistency_model = passes (OnAtomicFence_sv no_location consistency_model)"

definition OnAtomicNotifyExpr_v :: "opcode \<Rightarrow> IR.var \<Rightarrow> address \<Rightarrow> address \<Rightarrow> result vd" where
  "OnAtomicNotifyExpr_v op memidx align offset = 
     passes (OnAtomicNotify_sv no_location op (sv_var memidx) (GetAlignment op align) offset)"

definition OnAtomicLoadExpr_v :: "opcode \<Rightarrow> IR.var \<Rightarrow> address \<Rightarrow> address \<Rightarrow> result vd" where
  "OnAtomicLoadExpr_v op memidx align offset = 
     passes (OnAtomicLoad_sv no_location op (sv_var memidx) (GetAlignment op align) offset)"

definition OnAtomicStoreExpr_v :: "opcode \<Rightarrow> IR.var \<Rightarrow> address \<Rightarrow> address \<Rightarrow> result vd" where
  "OnAtomicStoreExpr_v op memidx align offset = 
     passes (OnAtomicStore_sv no_location op (sv_var memidx) (GetAlignment op align) offset)"

definition OnAtomicRmwExpr_v :: "opcode \<Rightarrow> IR.var \<Rightarrow> address \<Rightarrow> address \<Rightarrow> result vd" where
  "OnAtomicRmwExpr_v op memidx align offset = 
     passes (OnAtomicRmw_sv no_location op (sv_var memidx) (GetAlignment op align) offset)"

definition OnAtomicRmwCmpxchgExpr_v :: "opcode \<Rightarrow> IR.var \<Rightarrow> address \<Rightarrow> address \<Rightarrow> result vd" where
  "OnAtomicRmwCmpxchgExpr_v op memidx align offset = 
     passes (OnAtomicRmwCmpxchg_sv no_location op (sv_var memidx) (GetAlignment op align) offset)"

definition OnTernaryExpr_v :: "opcode \<Rightarrow> result vd" where
  "OnTernaryExpr_v op = passes (OnTernary_sv no_location op)"

definition OnSimdLaneOpExpr_v :: "opcode \<Rightarrow> u64 \<Rightarrow> result vd" where
  "OnSimdLaneOpExpr_v op val = passes_option (OnSimdLaneOp_sv no_location op val)"

definition OnSimdLoadLaneExpr_v :: "opcode \<Rightarrow> IR.var \<Rightarrow> address \<Rightarrow> address \<Rightarrow> u64 \<Rightarrow> result vd" where
  "OnSimdLoadLaneExpr_v op memidx align offset val = 
     passes_option (OnSimdLoadLane_sv no_location op (sv_var memidx) (GetAlignment op align) offset val)"

definition OnSimdStoreLaneExpr_v :: "opcode \<Rightarrow> IR.var \<Rightarrow> address \<Rightarrow> address \<Rightarrow> u64 \<Rightarrow> result vd" where
  "OnSimdStoreLaneExpr_v op memidx align offset val = 
     passes_option (OnSimdStoreLane_sv no_location op (sv_var memidx) (GetAlignment op align) offset val)"

definition OnSimdShuffleOpExpr_v :: "opcode \<Rightarrow> u8 list \<Rightarrow> result vd" where
  "OnSimdShuffleOpExpr_v op val = passes (OnSimdShuffleOp_sv no_location op val)"

definition OnLoadSplatExpr_v :: "opcode \<Rightarrow> IR.var \<Rightarrow> address \<Rightarrow> address \<Rightarrow> result vd" where
  "OnLoadSplatExpr_v op memidx align offset = 
     passes (OnLoadSplat_sv no_location op (sv_var memidx) (GetAlignment op align) offset)"

definition OnLoadZeroExpr_v :: "opcode \<Rightarrow> IR.var \<Rightarrow> address \<Rightarrow> address \<Rightarrow> result vd" where
  "OnLoadZeroExpr_v op memidx align offset = 
     passes (OnLoadZero_sv no_location op (sv_var memidx) (GetAlignment op align) offset)"

text \<open>The member functions by the type of the expression.\<close>

primrec simple_expr_v :: "simple_type \<Rightarrow> result vd" where
  "simple_expr_v DropT = OnDropExpr_v"
| "simple_expr_v NopT = OnNopExpr_v"
| "simple_expr_v ReturnT = OnReturnExpr_v"
| "simple_expr_v UnreachableT = OnUnreachableExpr_v"
| "simple_expr_v RefIsNullT = OnRefIsNullExpr_v"

text \<open>Expressions with a memory.\<close>

primrec memory_expr_v :: "memory_expr_type \<Rightarrow> IR.var \<Rightarrow> result vd" where
  "memory_expr_v MemoryGrowT = OnMemoryGrowExpr_v"
| "memory_expr_v MemorySizeT = OnMemorySizeExpr_v"
| "memory_expr_v MemoryFillT = OnMemoryFillExpr_v"

text \<open>Operators.\<close>

primrec opcode_expr_v :: "opcode_type \<Rightarrow> opcode \<Rightarrow> result vd" where
  "opcode_expr_v BinaryT = OnBinaryExpr_v"
| "opcode_expr_v CompareT = OnCompareExpr_v"
| "opcode_expr_v ConvertT = OnConvertExpr_v"
| "opcode_expr_v UnaryT = OnUnaryExpr_v"
| "opcode_expr_v TernaryT = OnTernaryExpr_v"

text \<open>Expressions with one variable.\<close>

primrec var_expr_v :: "var_type \<Rightarrow> IR.var \<Rightarrow> result vd" where
  "var_expr_v BrT = OnBrExpr_v"
| "var_expr_v BrIfT = OnBrIfExpr_v"
| "var_expr_v CallT = OnCallExpr_v"
| "var_expr_v RefFuncT = OnRefFuncExpr_v"
| "var_expr_v GlobalGetT = OnGlobalGetExpr_v"
| "var_expr_v GlobalSetT = OnGlobalSetExpr_v"
| "var_expr_v LocalGetT = OnLocalGetExpr_v"
| "var_expr_v LocalSetT = OnLocalSetExpr_v"
| "var_expr_v LocalTeeT = OnLocalTeeExpr_v"
| "var_expr_v ReturnCallT = OnReturnCallExpr_v"
| "var_expr_v ThrowT = OnThrowExpr_v"
| "var_expr_v RethrowT = OnRethrowExpr_v"
| "var_expr_v DataDropT = OnDataDropExpr_v"
| "var_expr_v ElemDropT = OnElemDropExpr_v"
| "var_expr_v TableGetT = OnTableGetExpr_v"
| "var_expr_v TableSetT = OnTableSetExpr_v"
| "var_expr_v TableGrowT = OnTableGrowExpr_v"
| "var_expr_v TableSizeT = OnTableSizeExpr_v"
| "var_expr_v TableFillT = OnTableFillExpr_v"

text \<open>Loads, stores and atomics.\<close>

primrec load_store_expr_v :: "load_store_type \<Rightarrow> opcode \<Rightarrow> IR.var \<Rightarrow> address \<Rightarrow> address \<Rightarrow> result vd" where
  "load_store_expr_v LoadT = OnLoadExpr_v"
| "load_store_expr_v StoreT = OnStoreExpr_v"
| "load_store_expr_v AtomicLoadT = OnAtomicLoadExpr_v"
| "load_store_expr_v AtomicStoreT = OnAtomicStoreExpr_v"
| "load_store_expr_v AtomicRmwT = OnAtomicRmwExpr_v"
| "load_store_expr_v AtomicRmwCmpxchgT = OnAtomicRmwCmpxchgExpr_v"
| "load_store_expr_v AtomicWaitT = OnAtomicWaitExpr_v"
| "load_store_expr_v AtomicNotifyT = OnAtomicNotifyExpr_v"
| "load_store_expr_v LoadSplatT = OnLoadSplatExpr_v"
| "load_store_expr_v LoadZeroT = OnLoadZeroExpr_v"

fun OnExpr_v :: "module \<Rightarrow> expr \<Rightarrow> result vd" where
  "OnExpr_v m (SimpleExpr k) = simple_expr_v k"
| "OnExpr_v m (MemoryExpr k memidx) = memory_expr_v k memidx"
| "OnExpr_v m (MemoryCopyExpr dest src) = OnMemoryCopyExpr_v dest src"
| "OnExpr_v m (MemoryInitExpr v memidx) = OnMemoryInitExpr_v v memidx"
| "OnExpr_v m (OpcodeExpr k op) = opcode_expr_v k op"
| "OnExpr_v m (VarExpr k v) = var_expr_v k v"
| "OnExpr_v m (LoadStoreExpr k op memidx align offset) = load_store_expr_v k op memidx align offset"
| "OnExpr_v m (SimdLaneMemoryExpr k op memidx align offset val) =
     (case k of SimdLoadLaneT \<Rightarrow> OnSimdLoadLaneExpr_v | SimdStoreLaneT \<Rightarrow> OnSimdStoreLaneExpr_v)
       op memidx align offset val"
| "OnExpr_v m (SimdLaneOpExpr op val) = OnSimdLaneOpExpr_v op val"
| "OnExpr_v m (SimdShuffleOpExpr op val) = OnSimdShuffleOpExpr_v op val"
| "OnExpr_v m (ConstExpr c) = OnConstExpr_v c"
| "OnExpr_v m (SelectExpr ts) = OnSelectExpr_v ts"
| "OnExpr_v m (RefNullExpr t) = OnRefNullExpr_v t"
| "OnExpr_v m (TableInitExpr segment table) = OnTableInitExpr_v segment table"
| "OnExpr_v m (TableCopyExpr dst src) = OnTableCopyExpr_v dst src"
| "OnExpr_v m (IndirectExpr k decl table) =
     (case k of CallIndirectT \<Rightarrow> OnCallIndirectExpr_v m | ReturnCallIndirectT \<Rightarrow> OnReturnCallIndirectExpr_v m)
       decl table"
| "OnExpr_v m (CallRefExpr v) = OnCallRefExpr_v"
| "OnExpr_v m (BrTableExpr targets default_target) = OnBrTableExpr_v targets default_target"
| "OnExpr_v m (AtomicFenceExpr consistency_model) = OnAtomicFenceExpr_v consistency_model"
| "OnExpr_v m (CodeMetadataExpr nm data) = OnCodeMetadataExpr_v"
| "OnExpr_v m e = State_Monad.return Ok"

text \<open>
  The delegate as the visitor sees it. The last equation of \<open>OnExpr_v\<close> is for expressions that the
  visitor does not pass to it.
\<close>

primrec validator_delegate :: "module \<Rightarrow> validator delegate" where
  "validator_delegate m (OnExpr e) = OnExpr_v m e"
| "validator_delegate m (BeginBlockExpr e) = BeginBlockExpr_v m (expr_decl e)"
| "validator_delegate m (EndBlockExpr e) = EndBlockExpr_v"
| "validator_delegate m (BeginIfExpr e) = BeginIfExpr_v m (expr_decl e)"
| "validator_delegate m (AfterIfTrueExpr e) = AfterIfTrueExpr_v (if_false e)"
| "validator_delegate m (EndIfExpr e) = EndIfExpr_v"
| "validator_delegate m (BeginLoopExpr e) = BeginLoopExpr_v m (expr_decl e)"
| "validator_delegate m (EndLoopExpr e) = EndLoopExpr_v"
| "validator_delegate m (BeginTryExpr e) = BeginTryExpr_v m (expr_decl e)"
| "validator_delegate m (OnCatchExpr e c) = OnCatchExpr_v c"
| "validator_delegate m (OnDelegateExpr e) = OnDelegateExpr_v (delegate_target e)"
| "validator_delegate m (EndTryExpr e) = EndTryExpr_v"

section \<open>The module\<close>

text \<open>
  \<open>result_ |= visitor.VisitExprList(exprs)\<close>. The visitor always returns, so the case without a
  value does not occur (\<open>VisitExprList_traverses\<close>).
\<close>

definition visit_exprs :: "module \<Rightarrow> expr list \<Rightarrow> unit vd" where
  "visit_exprs m es = State (\<lambda>s.
     (case VisitExprList (validator_delegate m) es s of
        Some (r, s') \<Rightarrow> ((), s'\<lparr>vd_result := result_or (vd_result s') r\<rparr>)
      | None \<Rightarrow> ((), s\<lparr>vd_aborted := True\<rparr>)))"

definition check_init_expr :: "module \<Rightarrow> wtype \<Rightarrow> expr list \<Rightarrow> unit vd" where
  "check_init_expr m t es = do {
     accrue (BeginInitExpr_sv no_location t);
     visit_exprs m es;
     accrue EndInitExpr_sv
   }"

text \<open>One loop over the fields of the module, with a body for the fields of one type.\<close>

primrec for_each :: "('a \<Rightarrow> unit vd) \<Rightarrow> 'a list \<Rightarrow> unit vd" where
  "for_each f [] = State_Monad.return ()"
| "for_each f (x # xs) = do { f x; for_each f xs }"

definition type_mut_of :: "field \<Rightarrow> type_mut" where
  "type_mut_of x = \<lparr>tm_type = field_wtype x, tm_mutable = field_mut x\<rparr>"

fun check_type_field :: "module \<Rightarrow> module_field \<Rightarrow> unit vd" where
  "check_type_field m (TypeField (IR.FuncType nm sig)) =
     accrue (OnFuncType no_location (param_types sig) (IR.result_types sig) (GetFuncTypeIndex_sig m sig))"
| "check_type_field m (TypeField (StructType nm fs)) =
     accrue (OnStructType no_location (map type_mut_of fs))"
| "check_type_field m (TypeField (ArrayType nm f)) = accrue (OnArrayType no_location (type_mut_of f))"
| "check_type_field m f = State_Monad.return ()"

fun check_import_field :: "module \<Rightarrow> module_field \<Rightarrow> unit vd" where
  "check_import_field m (ImportField i) =
     (case import_desc i of
        FuncImport f \<Rightarrow> accrue (OnFunction no_location (GetFuncTypeIndex_v m (func_decl f)))
      | TableImport t \<Rightarrow> accrue (OnTable no_location (table_elem_type t) (elem_limits t))
      | MemoryImport x \<Rightarrow> accrue (OnMemory no_location (page_limits x))
      | GlobalImport g \<Rightarrow> accrue (OnGlobalImport no_location (global_type g) (global_mutable g))
      | TagImport t \<Rightarrow> accrue (OnTag no_location (GetFuncTypeIndex_v m (tag_decl t))))"
| "check_import_field m f = State_Monad.return ()"

fun check_func_field :: "module \<Rightarrow> module_field \<Rightarrow> unit vd" where
  "check_func_field m (FuncField f) = accrue (OnFunction no_location (GetFuncTypeIndex_v m (func_decl f)))"
| "check_func_field m f = State_Monad.return ()"

fun check_table_field :: "module_field \<Rightarrow> unit vd" where
  "check_table_field (TableField t) = accrue (OnTable no_location (table_elem_type t) (elem_limits t))"
| "check_table_field f = State_Monad.return ()"

fun check_memory_field :: "module_field \<Rightarrow> unit vd" where
  "check_memory_field (MemoryField x) = accrue (OnMemory no_location (page_limits x))"
| "check_memory_field f = State_Monad.return ()"

fun check_global_field :: "module \<Rightarrow> module_field \<Rightarrow> unit vd" where
  "check_global_field m (GlobalField g) = do {
     accrue (OnGlobal no_location (global_type g) (global_mutable g));
     check_init_expr m (global_type g) (init_expr g)
   }"
| "check_global_field m f = State_Monad.return ()"

fun check_tag_field :: "module \<Rightarrow> module_field \<Rightarrow> unit vd" where
  "check_tag_field m (TagField t) = accrue (OnTag no_location (GetFuncTypeIndex_v m (tag_decl t)))"
| "check_tag_field m f = State_Monad.return ()"

fun check_export_field :: "module_field \<Rightarrow> unit vd" where
  "check_export_field (ExportField e) =
     accrue (OnExport no_location (export_kind e) (sv_var (export_var e)) (export_name e))"
| "check_export_field f = State_Monad.return ()"

fun check_start_field :: "module_field \<Rightarrow> unit vd" where
  "check_start_field (StartField v) = accrue (OnStart no_location (sv_var v))"
| "check_start_field f = State_Monad.return ()"

text \<open>The type of an offset: \<open>i64\<close> for a table or memory with 64-bit indices.\<close>

definition offset_type :: "limits option \<Rightarrow> wtype" where
  "offset_type l = (case l of Some l' \<Rightarrow> if is_64 l' then I64 else I32 | None \<Rightarrow> I32)"

fun check_elem_field :: "module \<Rightarrow> module_field \<Rightarrow> unit vd" where
  "check_elem_field m (ElemSegmentField seg) = do {
     accrue (OnElemSegment no_location (sv_var (table_var seg)) (elem_kind seg));
     accrue (OnElemSegmentElemType no_location (segment_elem_type seg));
     (if elem_kind seg = SkActive
      then check_init_expr m
        (offset_type (map_option elem_limits (entity (IR.tables m) (IR.GetTableIndex m (table_var seg)))))
        (elem_offset seg)
      else State_Monad.return ());
     for_each (check_init_expr m (segment_elem_type seg)) (elem_exprs seg)
   }"
| "check_elem_field m f = State_Monad.return ()"

fun check_body_field :: "module \<Rightarrow> index \<times> func \<Rightarrow> unit vd" where
  "check_body_field m (func_index, f) = do {
     accrue (BeginFunctionBody no_location func_index);
     for_each (\<lambda>(t, count). accrue (OnLocalDecl no_location count t)) (IR.local_types f);
     visit_exprs m (func_exprs f);
     accrue (EndFunctionBody no_location)
   }"

text \<open>The functions of the module with their indices: \<open>func_index++\<close> from the number of imports on.\<close>

fun func_fields :: "module_field list \<Rightarrow> func list" where
  "func_fields [] = []"
| "func_fields (FuncField f # fs) = f # func_fields fs"
| "func_fields (f # fs) = func_fields fs"

definition numbered_funcs :: "module \<Rightarrow> (index \<times> func) list" where
  "numbered_funcs m =
     map (\<lambda>(i, f). (func_imports_count m + of_nat i, f)) (enumerate 0 (func_fields (fields_of m)))"

fun check_data_field :: "module \<Rightarrow> module_field \<Rightarrow> unit vd" where
  "check_data_field m (DataSegmentField seg) = do {
     accrue (OnDataSegment no_location (sv_var (memory_var seg)) (data_kind seg));
     (if data_kind seg = SkActive
      then check_init_expr m
        (offset_type (map_option page_limits (entity (IR.memories m) (IR.GetMemoryIndex m (memory_var seg)))))
        (data_offset seg)
      else State_Monad.return ())
   }"
| "check_data_field m f = State_Monad.return ()"

definition CheckModule :: "module \<Rightarrow> result vd" where
  "CheckModule m = do {
     for_each (check_type_field m) (fields_of m);
     for_each (check_import_field m) (fields_of m);
     for_each (check_func_field m) (fields_of m);
     for_each check_table_field (fields_of m);
     for_each check_memory_field (fields_of m);
     for_each (check_global_field m) (fields_of m);
     for_each (check_tag_field m) (fields_of m);
     for_each check_export_field (fields_of m);
     for_each check_start_field (fields_of m);
     for_each (check_elem_field m) (fields_of m);
     accrue (do { OnDataCount (of_nat (length (IR.data_segments m))); State_Monad.return Ok });
     for_each (check_body_field m) (numbered_funcs m);
     for_each (check_data_field m) (fields_of m);
     accrue EndModule;
     gets vd_result
   }"

text \<open>The result and the errors; no value where the process aborts.\<close>

definition ValidateModule ::
  "module \<Rightarrow> features \<Rightarrow> (result \<times> (location \<times> sv_message) list) option" where
  "ValidateModule m f =
     (let (r, s) = run_state (CheckModule m) (Validator f)
      in if vd_aborted s then None else Some (r, sv_errors (vd_validator s)))"

end
