(* ===== verification/Type_Checker_Frame.thy ===== *)
theory Type_Checker_Frame
  imports Type_Checker_Runs
begin

text \<open>
  The reports of the type checker are only written: no operation depends on the reports made
  before it. A client that takes the reports away between two calls, as the shared validator does,
  therefore sees the same results as one that leaves them. Nor does any operation change the
  features.
\<close>

section \<open>Actions that do not look at the reports\<close>

named_theorems blind_intros

definition blind :: "'a tc \<Rightarrow> bool" where
  "blind m \<longleftrightarrow> (\<forall>t. tc_features (snd (run_state m t)) = tc_features t) \<and>
     (\<forall>t e. \<exists>e'. run_state m (t\<lparr>tc_errors := e\<rparr>) =
       (fst (run_state m t), (snd (run_state m t))\<lparr>tc_errors := e'\<rparr>))"

lemma blind_return [blind_intros]: "blind (State_Monad.return x)"
  by (auto simp: blind_def)

lemma blind_bind [blind_intros]:
  assumes "blind m" "\<And>x. blind (k x)"
  shows "blind (State_Monad.bind m k)"
  unfolding blind_def
proof (intro conjI allI)
  fix t
  show "tc_features (snd (run_state (State_Monad.bind m k) t)) = tc_features t"
    using assms unfolding blind_def by (cases "run_state m t") (simp, metis snd_conv)
next
  fix t e
  obtain a t1 where m: "run_state m t = (a, t1)" by (cases "run_state m t")
  then obtain e1 where m': "run_state m (t\<lparr>tc_errors := e\<rparr>) = (a, t1\<lparr>tc_errors := e1\<rparr>)"
    using assms(1) unfolding blind_def by (metis fst_conv snd_conv)
  obtain e2 where "run_state (k a) (t1\<lparr>tc_errors := e1\<rparr>) =
      (fst (run_state (k a) t1), (snd (run_state (k a) t1))\<lparr>tc_errors := e2\<rparr>)"
    using assms(2) unfolding blind_def by blast
  then show "\<exists>e'. run_state (State_Monad.bind m k) (t\<lparr>tc_errors := e\<rparr>) =
      (fst (run_state (State_Monad.bind m k) t),
       (snd (run_state (State_Monad.bind m k) t))\<lparr>tc_errors := e'\<rparr>)"
    by (auto simp: m m')
qed

lemma blind_gets [blind_intros]: "(\<And>t e. f (t\<lparr>tc_errors := e\<rparr>) = f t) \<Longrightarrow> blind (gets f)"
  by (auto simp: blind_def intro: exI [of _ "_"])

lemma blind_modify [blind_intros]:
  "(\<And>t e. \<exists>e'. f (t\<lparr>tc_errors := e\<rparr>) = (f t)\<lparr>tc_errors := e'\<rparr>) \<Longrightarrow>
     (\<And>t. tc_features (f t) = tc_features t) \<Longrightarrow> blind (modify f)"
  by (auto simp: blind_def)

lemma blind_if [blind_intros]: "blind m \<Longrightarrow> blind n \<Longrightarrow> blind (if b then m else n)"
  by simp

lemma blind_case_option [blind_intros]:
  "blind m \<Longrightarrow> (\<And>x. blind (f x)) \<Longrightarrow> blind (case z of None \<Rightarrow> m | Some x \<Rightarrow> f x)"
  by (cases z) simp_all

lemma blind_case_prod [blind_intros]: "(\<And>a b. blind (f a b)) \<Longrightarrow> blind (case p of (a, b) \<Rightarrow> f a b)"
  by (cases p) simp

lemma blind_CHECK_RESULT [blind_intros]: "blind m \<Longrightarrow> blind k \<Longrightarrow> blind (CHECK_RESULT m k)"
  unfolding CHECK_RESULT_def by (intro blind_intros)

lemma blind_CHECK_SOME [blind_intros]:
  "blind m \<Longrightarrow> (\<And>x. blind (k x)) \<Longrightarrow> blind (CHECK_SOME m k)"
  unfolding CHECK_SOME_def by (intro blind_intros)

lemma blind_traverse_list [blind_intros]:
  "(\<And>x. blind (f x)) \<Longrightarrow> blind (State_Monad.traverse_list f xs)"
  by (induction xs) (auto intro!: blind_intros)

section \<open>The operations\<close>

lemma blind_PrintError [blind_intros]: "blind (PrintError e)"
proof -
  have "\<exists>e'. t\<lparr>tc_errors := a @ [e]\<rparr> = t\<lparr>tc_errors := e'\<rparr>" for t :: type_checker and a by blast
  then show ?thesis unfolding PrintError_def by (auto intro!: blind_modify)
qed

lemma same_errors: "\<exists>e'. t\<lparr>tc_errors := e\<rparr> = t\<lparr>tc_errors := e'\<rparr>" for t :: type_checker
  by blast

lemma blind_modify_stacks [blind_intros]:
  "blind (modify (\<lambda>s. s\<lparr>label_stack := f (label_stack s) (type_stack s)\<rparr>))"
  "blind (modify (\<lambda>s. s\<lparr>type_stack := g (type_stack s)\<rparr>))"
  "blind (modify (\<lambda>s. s\<lparr>type_stack := [], label_stack := []\<rparr>))"
  "blind (modify (\<lambda>s. s\<lparr>br_table_sig := z\<rparr>))"
  "blind (modify (\<lambda>s. if b then s\<lparr>type_stack := g (type_stack s)\<rparr> else s))"
proof -
  have *: "s\<lparr>tc_errors := e, label_stack := x\<rparr> = s\<lparr>label_stack := x, tc_errors := e\<rparr>"
    "s\<lparr>tc_errors := e, type_stack := y\<rparr> = s\<lparr>type_stack := y, tc_errors := e\<rparr>"
    "s\<lparr>tc_errors := e, br_table_sig := w\<rparr> = s\<lparr>br_table_sig := w, tc_errors := e\<rparr>"
    for s :: type_checker and e x y w by simp_all
  show "blind (modify (\<lambda>s. s\<lparr>label_stack := f (label_stack s) (type_stack s)\<rparr>))"
    "blind (modify (\<lambda>s. s\<lparr>type_stack := g (type_stack s)\<rparr>))"
    "blind (modify (\<lambda>s. s\<lparr>type_stack := [], label_stack := []\<rparr>))"
    "blind (modify (\<lambda>s. s\<lparr>br_table_sig := z\<rparr>))"
    "blind (modify (\<lambda>s. if b then s\<lparr>type_stack := g (type_stack s)\<rparr> else s))"
    by (auto intro!: blind_modify simp: * same_errors)
qed

lemma blind_labels [blind_intros]:
  "blind (GetLabel d)" "blind (GetRethrowLabel d)" "blind (GetCatchCount d)" "blind TopLabel"
  "blind GetThisFunctionLabel" "blind (PushLabel lt ps rs)" "blind PopLabel"
  "blind (UpdateTop f)" "blind (ResetTypeStackToLabel l)" "blind SetUnreachable"
  unfolding GetRethrowLabel_def GetCatchCount_def TopLabel_def GetThisFunctionLabel_def
    PushLabel_def PopLabel_def UpdateTop_def ResetTypeStackToLabel_def SetUnreachable_def GetLabel_def
  by (intro blind_intros; simp)+

lemma blind_stack [blind_intros]:
  "blind (PeekType d t)" "blind (PeekAndCheckType d t)" "blind (DropTypes n)" "blind (PushType t)"
  unfolding PeekAndCheckType_def PeekType_def DropTypes_def PushType_def
  by (intro blind_intros; simp)+

lemma blind_PushTypes [blind_intros]: "blind (PushTypes ts)"
  by (induction ts) (auto intro!: blind_intros)

lemma blind_signatures [blind_intros]:
  "blind (PrintStackIfFailedV r d ts b)" "blind (PrintStackIfFailed r d ts)" "blind (CheckTypeStackEnd d)"
  unfolding PrintStackIfFailed_def PrintStackIfFailedV_def CheckTypeStackEnd_def Let_def
  by (intro blind_intros; simp)+

lemma blind_CheckSignature_loop [blind_intros]: "blind (CheckSignature_loop ts r)"
  by (induction ts arbitrary: r) (auto intro!: blind_intros)

lemma blind_pops [blind_intros]:
  "blind (CheckSignature ts d)" "blind (CheckReturnSignature as es d)" "blind (PopAndCheckSignature ts d)"
  "blind (PopAndCheckCall ps rs d)" "blind (PopAndCheck1Type t d)" "blind (PopAndCheck2Types t u d)"
  "blind (PopAndCheck3Types t u v d)" "blind (CheckOpcode1 op l)" "blind (CheckOpcode2 op l)"
  "blind (CheckOpcode3 op l1 l2 l3)"
  unfolding CheckSignature_def CheckReturnSignature_def PopAndCheckSignature_def PopAndCheckCall_def
    PopAndCheck1Type_def PopAndCheck2Types_def PopAndCheck3Types_def CheckOpcode1_def CheckOpcode2_def
    CheckOpcode3_def Let_def
  by (intro blind_intros; simp)+

lemma blind_control [blind_intros]:
  "blind (BeginFunction ts)" "blind (OnBlock ps rs)" "blind (OnLoop ps rs)" "blind (OnIf ps rs)"
  "blind (OnTry ps rs)" "blind OnElse" "blind (OnCatch ts)" "blind (OnDelegate i)"
  "blind (OnEndLabel l d d')" "blind OnEnd" "blind EndFunction" "blind (BeginInitExpr t)"
  "blind EndInitExpr"
  unfolding BeginFunction_def OnBlock_def OnLoop_def OnIf_def OnTry_def OnElse_def OnCatch_def
    OnDelegate_def OnEnd_def EndFunction_def BeginInitExpr_def EndInitExpr_def OnEndLabel_def Let_def
  by (intro blind_intros; simp)+

lemma blind_branches [blind_intros]:
  "blind (OnBr d)" "blind (OnBrIf d)" "blind BeginBrTable" "blind (OnBrTableTarget d)" "blind EndBrTable"
  "blind (OnCall ps rs)" "blind (OnCallIndirect ps rs l)" "blind OnIndexedFuncRef"
  "blind (OnReturnCall ps rs)" "blind (OnReturnCallIndirect ps rs)" "blind (OnRethrow d)"
  "blind (OnThrow ts)" "blind OnReturn" "blind OnUnreachable"
  unfolding OnBr_def OnBrIf_def BeginBrTable_def OnBrTableTarget_def EndBrTable_def OnCall_def
    OnCallIndirect_def OnIndexedFuncRef_def OnReturnCall_def OnReturnCallIndirect_def OnRethrow_def
    OnThrow_def OnReturn_def OnUnreachable_def Let_def
  by (intro blind_intros; simp)+

lemma blind_shuffle_loop [blind_intros]: "blind (shuffle_loop bs r)"
  by (induction bs arbitrary: r) (auto intro!: blind_intros)

lemma blind_operands [blind_intros]:
  "blind OnDrop" "blind (OnRefFuncExpr x b)" "blind OnRefIsNullExpr" "blind (OnSelect ts)"
  "blind (CheckLaneIndex n i)" "blind (OnSimdLaneOp op i)" "blind (OnSimdLoadLane op l i)"
  "blind (OnSimdStoreLane op l i)" "blind (OnSimdShuffleOp op bs)"
  unfolding OnDrop_def OnRefFuncExpr_def OnRefIsNullExpr_def OnSelect_def OnSimdLaneOp_def
    OnSimdLoadLane_def OnSimdStoreLane_def OnSimdShuffleOp_def CheckLaneIndex_def Let_def
  by (intro blind_intros; simp)+

lemma blind_mem_action [blind_intros]: "blind (mem_action k op l)"
  by (cases k) (auto simp: OnAtomicLoad_def OnAtomicNotify_def OnAtomicStore_def OnAtomicRmw_def
      OnAtomicRmwCmpxchg_def OnAtomicWait_def OnLoad_def OnStore_def intro!: blind_intros)

lemma blind_op_action [blind_intros]: "blind (op_action k op)"
  by (cases k) (auto simp: OnBinary_def OnCompare_def OnConvert_def OnTernary_def OnUnary_def
      intro!: blind_intros)

lemma blind_type_action [blind_intros]: "blind (type_action k t)"
  by (cases k) (auto simp: OnConst_def OnGlobalGet_def OnGlobalSet_def OnLocalGet_def OnLocalSet_def
      OnLocalTee_def OnRefNullExpr_def intro!: blind_intros)

lemma blind_limits_action [blind_intros]: "blind (limits_action k l)"
  by (cases k) (auto simp: OnMemoryFill_def OnMemoryGrow_def OnMemorySize_def OnTableSize_def
      intro!: blind_intros)

lemma blind_copy_action [blind_intros]: "blind (copy_action k l l')"
  by (cases k) (auto simp: OnMemoryCopy_def OnTableCopy_def Let_def intro!: blind_intros)

lemma blind_segment_action [blind_intros]: "blind (segment_action k i l)"
  by (cases k) (auto simp: OnMemoryInit_def OnTableInit_def OnDataDrop_def OnElemDrop_def
      intro!: blind_intros)

lemma blind_table_action [blind_intros]: "blind (table_action k t l)"
  by (cases k) (auto simp: OnTableGet_def OnTableSet_def OnTableGrow_def OnTableFill_def
      intro!: blind_intros)

lemma blind_block_action [blind_intros]: "blind (block_action k ps rs)"
  by (cases k) (auto intro!: blind_intros)

lemma blind_sig_action [blind_intros]: "blind (sig_action k ts)"
  by (cases k) (auto intro!: blind_intros)

lemma blind_depth_action [blind_intros]: "blind (depth_action k d)"
  by (cases k) (auto simp: yields_def intro!: blind_intros)

lemma blind_plain_action [blind_intros]: "blind (plain_action k)"
  by (cases k) (auto intro!: blind_intros)

lemma blind_lane_action [blind_intros]: "blind (lane_action k op l i)"
  by (cases k) (auto intro!: blind_intros)

lemma blind_tc_action: "blind (tc_action c)"
  by (cases c) (auto simp: returning_def OnAtomicFence_def intro!: blind_intros)

lemma tc_step_features: "tc_features (snd (tc_step c t)) = tc_features t"
  using blind_tc_action [of c] by (simp add: blind_def tc_step_def)

section \<open>Runs up to reports\<close>

text \<open>\<open>steps cs t t'\<close>: the calls \<open>cs\<close> all succeed and lead from \<open>t\<close> to \<open>t'\<close>, up to reports.\<close>

definition same_tc :: "type_checker \<Rightarrow> type_checker \<Rightarrow> bool" where
  "same_tc t t' \<longleftrightarrow> (\<exists>e. t' = t\<lparr>tc_errors := e\<rparr>)"

definition steps :: "tc_call list \<Rightarrow> type_checker \<Rightarrow> type_checker \<Rightarrow> bool" where
  "steps cs t t' \<longleftrightarrow> (\<exists>t1. run_ok cs t = Some t1 \<and> same_tc t1 t')"

lemma same_tc_refl [simp]: "same_tc t t"
  unfolding same_tc_def by (rule exI [of _ "tc_errors t"]) simp

lemma same_tc_sym: "same_tc t t' \<Longrightarrow> same_tc t' t"
  unfolding same_tc_def by (erule exE, rule exI [of _ "tc_errors t"]) simp

lemma same_tc_trans: "same_tc t t' \<Longrightarrow> same_tc t' t'' \<Longrightarrow> same_tc t t''"
  by (auto simp: same_tc_def)

lemma tc_step_same:
  assumes "tc_step c t = (r, t1)" "same_tc t t'"
  shows "\<exists>t1'. tc_step c t' = (r, t1') \<and> same_tc t1 t1'"
proof -
  obtain e where e: "t' = t\<lparr>tc_errors := e\<rparr>" using assms(2) by (auto simp: same_tc_def)
  obtain e' where "run_state (tc_action c) (t\<lparr>tc_errors := e\<rparr>) =
      (fst (run_state (tc_action c) t), (snd (run_state (tc_action c) t))\<lparr>tc_errors := e'\<rparr>)"
    using blind_tc_action [of c] unfolding blind_def by blast
  with assms(1) show ?thesis by (auto simp: e tc_step_def same_tc_def)
qed

lemma run_ok_same:
  "run_ok cs t = Some t1 \<Longrightarrow> same_tc t t' \<Longrightarrow> \<exists>t1'. run_ok cs t' = Some t1' \<and> same_tc t1 t1'"
proof (induction cs arbitrary: t t')
  case (Cons c cs)
  from Cons.prems(1) obtain t2 where t2: "tc_step c t = (Some Ok, t2)" "run_ok cs t2 = Some t1"
    by (auto simp: run_ok_Cons simp del: run_ok.simps(2))
  from tc_step_same [OF t2(1) Cons.prems(2)] obtain t2' where
    "tc_step c t' = (Some Ok, t2')" "same_tc t2 t2'" by blast
  with Cons.IH [OF t2(2)] show ?case
    by (auto simp: run_ok_Cons simp del: run_ok.simps(2))
qed simp

lemma steps_Nil [simp]: "steps [] t t"
  by (simp add: steps_def)

lemma steps_step: "tc_step c t = (Some Ok, t1) \<Longrightarrow> same_tc t1 t' \<Longrightarrow> steps [c] t t'"
  by (auto simp: steps_def)

lemma steps_append: "steps as t t1 \<Longrightarrow> steps bs t1 t2 \<Longrightarrow> steps (as @ bs) t t2"
proof -
  assume "steps as t t1" "steps bs t1 t2"
  then obtain a b where a: "run_ok as t = Some a" "same_tc a t1"
    and b: "run_ok bs t1 = Some b" "same_tc b t2" by (auto simp: steps_def)
  from run_ok_same [OF b(1) same_tc_sym [OF a(2)]] obtain b' where
    "run_ok bs a = Some b'" "same_tc b b'" by blast
  with a(1) b(2) show ?thesis
    by (auto simp: steps_def run_ok_append intro: same_tc_trans [OF same_tc_sym])
qed

end
