(* ===== verification/Shared_Validator_Runs.thy ===== *)
theory Shared_Validator_Runs
  imports Shared_Validator_Facts Type_Checker_Frame
begin

text \<open>
  What an accepted instruction means: when an operation of the shared validator returns \<open>Ok\<close>, the
  indices it was given are in range, and the type checker has accepted one call with the types that
  the index spaces give for these indices. The module's entries and the locals stay as they are.
\<close>

section \<open>Accepted actions\<close>

text \<open>
  Checking an instruction changes five of the fields, and keeps the features of the type checker.
\<close>

definition frozen :: "shared_validator \<Rightarrow> shared_validator \<times> features" where
  "frozen s = (s\<lparr>sv_errors := [], typechecker := TypeChecker default_features, expr_loc := 0,
     check_declared_funcs := [], declared_funcs := {}\<rparr>, tc_features (typechecker s))"

definition steady :: "shared_validator \<Rightarrow> shared_validator \<Rightarrow> bool" where
  "steady s s' \<longleftrightarrow> frozen s' = frozen s"

lemma steady_refl [simp]: "steady s s"
  by (simp add: steady_def)

lemma steady_trans: "steady s s' \<Longrightarrow> steady s' s'' \<Longrightarrow> steady s s''"
  by (simp add: steady_def)

lemma steady_fields:
  assumes "steady s s'"
  shows "sv_features s' = sv_features s" "in_init_expr s' = in_init_expr s" "num_types s' = num_types s"
    "func_types s' = func_types s" "funcs s' = funcs s" "tables s' = tables s"
    "memories s' = memories s" "globals s' = globals s" "tags s' = tags s" "elems s' = elems s"
    "data_segments s' = data_segments s" "locals s' = locals s"
    "num_imported_globals s' = num_imported_globals s"
    "tc_features (typechecker s') = tc_features (typechecker s)"
  using assms by (cases s; cases s'; simp add: steady_def frozen_def)+

lemma steady_modify [simp]:
  "steady s (s\<lparr>expr_loc := l\<rparr>)" "steady s (s\<lparr>sv_errors := e\<rparr>)"
  "steady s (s\<lparr>declared_funcs := d\<rparr>)" "steady s (s\<lparr>check_declared_funcs := c\<rparr>)"
  "tc_features t = tc_features (typechecker s) \<Longrightarrow> steady s (s\<lparr>typechecker := t, sv_errors := e\<rparr>)"
  by (simp_all add: steady_def frozen_def)

definition accepted :: "tc_call list \<Rightarrow> shared_validator \<Rightarrow> shared_validator \<Rightarrow> bool" where
  "accepted cs s s' \<longleftrightarrow> steady s s' \<and> steps cs (typechecker s) (typechecker s')"

lemma accepted_Nil [simp]: "accepted [] s s"
  by (simp add: accepted_def)

lemma accepted_append: "accepted as s s1 \<Longrightarrow> accepted bs s1 s2 \<Longrightarrow> accepted (as @ bs) s s2"
  by (auto simp: accepted_def intro: steady_trans steps_append)

lemma accepted_Cons: "accepted [c] s s1 \<Longrightarrow> accepted cs s1 s2 \<Longrightarrow> accepted (c # cs) s s2"
  using accepted_append [of "[c]"] by simp

lemma accepted_modify [simp]:
  "accepted [] s (s\<lparr>expr_loc := l\<rparr>)" "accepted [] s (s\<lparr>declared_funcs := d\<rparr>)"
  "accepted [] s (s\<lparr>check_declared_funcs := c\<rparr>)"
  by (simp_all add: accepted_def)

section \<open>Running the checks\<close>

lemma run_bind_iff:
  "run_state (State_Monad.bind m k) s = (r, s') \<longleftrightarrow>
     (\<exists>a s1. run_state m s = (a, s1) \<and> run_state (k a) s1 = (r, s'))"
  by (auto split: prod.splits)

definition lookup :: "'a list \<Rightarrow> index \<Rightarrow> 'a option" where
  "lookup xs i = (if unat i < length xs then Some (xs ! unat i) else None)"

lemma less_of_nat_length: "i < (of_nat n :: index) \<Longrightarrow> unat i < n"
  using take_bit_nat_less_eq_self [of 32 n]
  by (auto simp: word_less_nat_alt unsigned_of_nat intro: less_le_trans)

lemma CheckInstr_Ok: "run_state (CheckInstr op loc) s = (Ok, s') \<Longrightarrow> s' = s\<lparr>expr_loc := loc\<rparr>"
  by (auto simp: CheckInstr_def split: if_splits)

lemma accepted_expr_loc [simp]:
  "accepted cs (s\<lparr>expr_loc := l\<rparr>) s' \<longleftrightarrow> accepted cs s s'"
  "accepted cs (s\<lparr>expr_loc := l, declared_funcs := d\<rparr>) s' \<longleftrightarrow> accepted cs s s'"
  "accepted cs (s\<lparr>expr_loc := l, check_declared_funcs := c\<rparr>) s' \<longleftrightarrow> accepted cs s s'"
  by (simp_all add: accepted_def steady_def frozen_def)

lemma error_if_Ok: "run_state (error_if b loc msg) s = (Ok, s') \<Longrightarrow> \<not> b \<and> s' = s"
  by (auto split: if_splits)

lemma CheckIndex_Ok: "run_state (CheckIndex v n d) s = (Ok, s') \<Longrightarrow> var_index v < n \<and> s' = s"
  by (simp add: run_CheckIndex split: if_splits)

lemma CheckIndexWithValue_Ok:
  "run_state (CheckIndexWithValue v xs z d) s = ((Ok, x), s') \<Longrightarrow>
     lookup xs (var_index v) = Some x \<and> s' = s"
  by (auto simp: CheckIndexWithValue_def run_CheckIndex lookup_def dest: less_of_nat_length
      split: if_splits)

lemma Check_entries_Ok:
  "run_state (CheckFuncIndex v) s = ((Ok, ft), s') \<Longrightarrow> lookup (funcs s) (var_index v) = Some ft \<and> s' = s"
  "run_state (CheckMemoryIndex v) s = ((Ok, mt), s') \<Longrightarrow> lookup (memories s) (var_index v) = Some mt \<and> s' = s"
  "run_state (CheckTableIndex v) s = ((Ok, tt), s') \<Longrightarrow> lookup (tables s) (var_index v) = Some tt \<and> s' = s"
  "run_state (CheckGlobalIndex v) s = ((Ok, gt), s') \<Longrightarrow> lookup (globals s) (var_index v) = Some gt \<and> s' = s"
  "run_state (CheckTagIndex v) s = ((Ok, tg), s') \<Longrightarrow> lookup (tags s) (var_index v) = Some tg \<and> s' = s"
  "run_state (CheckElemSegmentIndex v) s = ((Ok, et), s') \<Longrightarrow>
     lookup (elems s) (var_index v) = Some et \<and> s' = s"
  by (auto simp: CheckFuncIndex_def CheckMemoryIndex_def CheckTableIndex_def CheckGlobalIndex_def
      CheckTagIndex_def CheckElemSegmentIndex_def dest: CheckIndexWithValue_Ok)

lemma CheckDataSegmentIndex_Ok:
  "run_state (CheckDataSegmentIndex v) s = (Ok, s') \<Longrightarrow> var_index v < data_segments s \<and> s' = s"
  by (auto simp: CheckDataSegmentIndex_def dest: CheckIndex_Ok)

lemma CheckFuncTypeIndex_Ok:
  "run_state (CheckFuncTypeIndex v) s = ((Ok, ft), s') \<Longrightarrow>
     var_index v < num_types s \<and> func_types s (var_index v) = Some ft \<and> s' = s"
  by (auto simp: CheckFuncTypeIndex_def run_CheckIndex split: if_splits option.splits)

lemma CheckLocalIndex_Ok:
  assumes "decls_ok 0 (locals s)" "run_state (CheckLocalIndex v) s = ((Ok, t), s')"
  shows "lookup (expand_locals 0 (locals s)) (var_index v) = Some t \<and> s' = s"
proof -
  have "s' = s" using assms(2) by (auto simp: CheckLocalIndex_def Let_def split: if_splits)
  moreover have "fst (run_state (CheckLocalIndex v) s) = (Ok, t)" using assms(2) by simp
  ultimately show ?thesis
    using CheckLocalIndex_expand [OF assms(1), of v] by (auto simp: lookup_def Let_def split: if_splits)
qed

lemma CheckAligns_Ok:
  "run_state (CheckAlign loc a n) s = (Ok, s') \<Longrightarrow> s' = s"
  "run_state (CheckAtomicAlign loc a n) s = (Ok, s') \<Longrightarrow> s' = s"
  "run_state (CheckOffset loc z l) s = (Ok, s') \<Longrightarrow> s' = s"
  "run_state (CheckType_sv loc t u d) s = (Ok, s') \<Longrightarrow> s' = s"
  by (auto simp: CheckAlign_def CheckAtomicAlign_def CheckOffset_def CheckType_sv_def split: if_splits)

lemma call_tc_Ok:
  assumes "run_state (call_tc m) s = (Ok, s')" "tc_action c = returning m"
  shows "accepted [c] s s'"
proof -
  obtain t where t: "run_state m (typechecker s) = (Ok, t)"
    and s': "s' = s\<lparr>typechecker := t\<lparr>tc_errors := []\<rparr>, sv_errors := sv_errors s @
      map (\<lambda>e. (expr_loc s, FromTypeChecker e)) (tc_errors t)\<rparr>"
    using assms(1) by (auto simp: call_tc_def split: prod.splits)
  have step: "tc_step c (typechecker s) = (Some Ok, t)"
    using t by (simp add: tc_step_def assms(2) returning_def)
  then have "steps [c] (typechecker s) (typechecker s')"
    by (rule steps_step) (auto simp: s' same_tc_def)
  moreover have "steady s s'"
    using tc_step_features [of c "typechecker s"] step by (simp add: s')
  ultimately show ?thesis by (simp add: accepted_def)
qed

lemma call_tc_option_Ok:
  assumes "run_state (call_tc m) s = (Some Ok, s')" "tc_action c = m"
  shows "accepted [c] s s'"
proof -
  obtain t where t: "run_state m (typechecker s) = (Some Ok, t)"
    and s': "s' = s\<lparr>typechecker := t\<lparr>tc_errors := []\<rparr>, sv_errors := sv_errors s @
      map (\<lambda>e. (expr_loc s, FromTypeChecker e)) (tc_errors t)\<rparr>"
    using assms(1) by (auto simp: call_tc_def split: prod.splits)
  have step: "tc_step c (typechecker s) = (Some Ok, t)"
    using t by (simp add: tc_step_def assms(2))
  then have "steps [c] (typechecker s) (typechecker s')"
    by (rule steps_step) (auto simp: s' same_tc_def)
  moreover have "steady s s'"
    using tc_step_features [of c "typechecker s"] step by (simp add: s')
  ultimately show ?thesis by (simp add: accepted_def)
qed

lemma accepted_first: "accepted [] s s1 \<Longrightarrow> accepted cs s1 s2 \<Longrightarrow> accepted cs s s2"
  using accepted_append [of "[]"] by simp

lemma accepted_fields:
  assumes "accepted cs s s'"
  shows "func_types s' = func_types s" "num_types s' = num_types s" "funcs s' = funcs s"
    "tables s' = tables s" "memories s' = memories s" "globals s' = globals s" "tags s' = tags s"
    "elems s' = elems s" "locals s' = locals s" "in_init_expr s' = in_init_expr s"
    "sv_features s' = sv_features s" "data_segments s' = data_segments s"
  using assms by (auto simp: accepted_def dest: steady_fields)

section \<open>Every outcome\<close>

text \<open>
  What an instruction leaves alone. An invariant that does not read the location, the errors and the
  state of the type checker, apart from its features, is kept by every operation for instructions
  except \<open>OnRefFunc\<close>, and by that one too if it does not read the two collections of functions.
\<close>

named_theorems steady_intros

locale instruction_frame =
  fixes I :: "shared_validator \<Rightarrow> bool"
  assumes at_location: "I s \<Longrightarrow> I (s\<lparr>expr_loc := l\<rparr>)"
    and with_errors: "I s \<Longrightarrow> I (s\<lparr>sv_errors := e\<rparr>)"
    and with_typechecker:
      "\<lbrakk>I s; tc_features t = tc_features (typechecker s)\<rbrakk> \<Longrightarrow> I (s\<lparr>typechecker := t, sv_errors := e\<rparr>)"
begin

lemma on_return [steady_intros]: "keeps I (State_Monad.return x)"
  by (rule keeps_return)

lemma on_expr_loc [steady_intros]: "keeps I (modify (\<lambda>s. s\<lparr>expr_loc := l\<rparr>))"
  by (intro keeps_modify at_location)

lemma on_PrintError [steady_intros]: "keeps I (PrintError_sv loc msg)"
  by (rule keepsI) (simp add: with_errors)

lemma on_error_if [steady_intros]: "keeps I (error_if b loc msg)"
  unfolding error_if_def by (intro keeps_if steady_intros)

lemma on_CheckInstr [steady_intros]: "keeps I (CheckInstr op loc)"
  unfolding CheckInstr_def by (intro keeps_bind keeps_get steady_intros)

lemma on_case_prod [steady_intros]:
  "(\<And>a b. keeps I (f a b)) \<Longrightarrow> keeps I (case p of (a, b) \<Rightarrow> f a b)"
  by (cases p) simp

lemma on_indices [steady_intros]:
  "keeps I (CheckIndex v n d)" "keeps I (CheckIndexWithValue v xs z d)"
  "keeps I (CheckFuncTypeIndex v)" "keeps I (CheckFuncIndex v)"
  "keeps I (CheckMemoryIndex v)" "keeps I (CheckTableIndex v)"
  "keeps I (CheckGlobalIndex v)" "keeps I (CheckTagIndex v)"
  "keeps I (CheckElemSegmentIndex v)" "keeps I (CheckDataSegmentIndex v)"
  "keeps I (CheckLocalIndex v)" "keeps I (CheckAlign loc a z)"
  "keeps I (CheckAtomicAlign loc a z)" "keeps I (CheckOffset loc a l)"
  "keeps I (CheckType_sv loc t u d)"
  unfolding CheckFuncTypeIndex_def CheckFuncIndex_def CheckMemoryIndex_def CheckTableIndex_def
    CheckGlobalIndex_def CheckTagIndex_def CheckElemSegmentIndex_def CheckDataSegmentIndex_def
    CheckLocalIndex_def CheckAlign_def CheckAtomicAlign_def CheckOffset_def CheckType_sv_def
    CheckIndexWithValue_def CheckIndex_def Let_def
  by (intro keeps_bind keeps_get keeps_gets keeps_if keeps_case_option steady_intros)+

lemma on_call_tc [steady_intros]: "blind m \<Longrightarrow> keeps I (call_tc m)"
  by (rule keepsI)
    (auto simp: call_tc_def blind_def split: prod.splits intro!: with_typechecker, metis snd_conv)

lemmas on_rules = keeps_bind keeps_get keeps_gets keeps_if keeps_case_option steady_intros
  blind_intros

section \<open>Operations whatever their outcome\<close>

lemma on_memory [steady_intros]:
  "keeps I (OnLoad_sv loc op v a z)"
  "keeps I (OnLoadSplat_sv loc op v a z)"
  "keeps I (OnLoadZero_sv loc op v a z)"
  "keeps I (OnStore_sv loc op v a z)"
  "keeps I (OnAtomicLoad_sv loc op v a z)"
  "keeps I (OnAtomicNotify_sv loc op v a z)"
  "keeps I (OnAtomicRmw_sv loc op v a z)"
  "keeps I (OnAtomicRmwCmpxchg_sv loc op v a z)"
  "keeps I (OnAtomicStore_sv loc op v a z)"
  "keeps I (OnAtomicWait_sv loc op v a z)"
  "keeps I (OnSimdLoadLane_sv loc op v a z i)"
  "keeps I (OnSimdStoreLane_sv loc op v a z i)"
  unfolding OnLoad_sv_def OnLoadSplat_sv_def OnLoadZero_sv_def OnStore_sv_def OnAtomicLoad_sv_def
    OnAtomicNotify_sv_def OnAtomicRmw_sv_def OnAtomicRmwCmpxchg_sv_def OnAtomicStore_sv_def
    OnAtomicWait_sv_def OnSimdLoadLane_sv_def OnSimdStoreLane_sv_def
    OnLoad_def OnStore_def OnAtomicLoad_def OnAtomicNotify_def OnAtomicRmw_def
    OnAtomicRmwCmpxchg_def OnAtomicStore_def OnAtomicWait_def Let_def
  by (intro on_rules steady_intros)+

lemma on_operators [steady_intros]:
  "keeps I (OnBinary_sv loc op)"
  "keeps I (OnCompare_sv loc op)"
  "keeps I (OnConvert_sv loc op)"
  "keeps I (OnTernary_sv loc op)"
  "keeps I (OnUnary_sv loc op)"
  "keeps I (OnConst_sv loc t)"
  "keeps I (OnRefNull loc t)"
  "keeps I (OnNop loc)"
  "keeps I (OnSelect_sv loc ts)"
  "keeps I (OnSimdLaneOp_sv loc op i)"
  "keeps I (OnSimdShuffleOp_sv loc op bs)"
  "keeps I (OnAtomicFence_sv loc n)"
  unfolding OnBinary_sv_def OnCompare_sv_def OnConvert_sv_def OnTernary_sv_def OnUnary_sv_def
    OnConst_sv_def OnRefNull_def OnNop_def OnSelect_sv_def OnSimdLaneOp_sv_def
    OnSimdShuffleOp_sv_def OnAtomicFence_sv_def
    OnBinary_def OnCompare_def OnConvert_def OnTernary_def OnUnary_def OnConst_def OnRefNullExpr_def
    OnAtomicFence_def Let_def
  by (intro on_rules steady_intros)+

lemma on_control [steady_intros]:
  "keeps I (OnBr_sv loc v)"
  "keeps I (OnBrIf_sv loc v)"
  "keeps I (OnDelegate_sv loc v)"
  "keeps I (OnRethrow_sv loc v)"
  "keeps I (OnBrTableTarget_sv loc v)"
  "keeps I (BeginBrTable_sv loc)"
  "keeps I (EndBrTable_sv loc)"
  "keeps I (OnDrop_sv loc)"
  "keeps I (OnEnd_sv loc)"
  "keeps I (OnReturn_sv loc)"
  "keeps I (OnUnreachable_sv loc)"
  "keeps I (OnElse_sv loc)"
  "keeps I (OnRefIsNull loc)"
  "keeps I (OnCatch_sv loc v b)"
  "keeps I (OnThrow_sv loc v)"
  unfolding OnBr_sv_def OnBrIf_sv_def OnDelegate_sv_def OnRethrow_sv_def OnBrTableTarget_sv_def
    BeginBrTable_sv_def EndBrTable_sv_def OnDrop_sv_def OnEnd_sv_def OnReturn_sv_def
    OnUnreachable_sv_def OnElse_sv_def OnRefIsNull_def OnCatch_sv_def OnThrow_sv_def
    Let_def
  by (intro on_rules steady_intros)+

lemma on_CheckBlockSignature [steady_intros]: "keeps I (CheckBlockSignature loc op t)"
  unfolding CheckBlockSignature_def by (intro on_rules)+

lemma on_blocks [steady_intros]:
  "keeps I (OnBlock_sv loc t)"
  "keeps I (OnIf_sv loc t)"
  "keeps I (OnLoop_sv loc t)"
  "keeps I (OnTry_sv loc t)"
  unfolding OnBlock_sv_def OnIf_sv_def OnLoop_sv_def OnTry_sv_def
    Let_def
  by (intro on_rules steady_intros)+

lemma on_calls [steady_intros]:
  "keeps I (OnCall_sv loc v)"
  "keeps I (OnCallIndirect_sv loc v u)"
  "keeps I (OnReturnCall_sv loc v)"
  "keeps I (OnReturnCallIndirect_sv loc v u)"
  "keeps I (OnCallRef loc)"
  unfolding OnCall_sv_def OnCallIndirect_sv_def OnReturnCall_sv_def OnReturnCallIndirect_sv_def
    OnCallRef_def
    Let_def
  by (intro on_rules steady_intros)+

lemma on_variables [steady_intros]:
  "keeps I (OnGlobalGet_sv loc v)"
  "keeps I (OnGlobalSet_sv loc v)"
  "keeps I (OnLocalGet_sv loc v)"
  "keeps I (OnLocalSet_sv loc v)"
  "keeps I (OnLocalTee_sv loc v)"
  unfolding OnGlobalGet_sv_def OnGlobalSet_sv_def OnLocalGet_sv_def OnLocalSet_sv_def
    OnLocalTee_sv_def
    OnGlobalGet_def OnGlobalSet_def OnLocalGet_def OnLocalSet_def OnLocalTee_def
    CHECK_RESULT_def Let_def
  by (intro on_rules steady_intros)+

lemma on_entities [steady_intros]:
  "keeps I (OnMemoryCopy_sv loc v u)"
  "keeps I (OnMemoryFill_sv loc v)"
  "keeps I (OnMemoryGrow_sv loc v)"
  "keeps I (OnMemorySize_sv loc v)"
  "keeps I (OnMemoryInit_sv loc v u)"
  "keeps I (OnDataDrop_sv loc v)"
  "keeps I (OnElemDrop_sv loc v)"
  "keeps I (OnTableCopy_sv loc v u)"
  "keeps I (OnTableFill_sv loc v)"
  "keeps I (OnTableGet_sv loc v)"
  "keeps I (OnTableGrow_sv loc v)"
  "keeps I (OnTableSet_sv loc v)"
  "keeps I (OnTableInit_sv loc v u)"
  "keeps I (OnTableSize_sv loc v)"
  unfolding OnMemoryCopy_sv_def OnMemoryFill_sv_def OnMemoryGrow_sv_def OnMemorySize_sv_def
    OnMemoryInit_sv_def OnDataDrop_sv_def OnElemDrop_sv_def OnTableCopy_sv_def
    OnTableFill_sv_def OnTableGet_sv_def OnTableGrow_sv_def OnTableSet_sv_def
    OnTableInit_sv_def OnTableSize_sv_def
    OnMemoryCopy_def OnMemoryFill_def OnMemoryGrow_def OnMemorySize_def OnMemoryInit_def
    OnDataDrop_def OnElemDrop_def OnTableCopy_def OnTableFill_def OnTableGet_def OnTableGrow_def
    OnTableSet_def OnTableInit_def OnTableSize_def Let_def
  by (intro on_rules steady_intros)+

end

locale module_frame = instruction_frame +
  assumes with_declared: "I s \<Longrightarrow> I (s\<lparr>declared_funcs := d\<rparr>)"
    and with_check_declared: "I s \<Longrightarrow> I (s\<lparr>check_declared_funcs := c\<rparr>)"
begin

lemma on_OnRefFunc [steady_intros]: "keeps I (OnRefFunc loc v)"
proof -
  have "keeps I (modify (\<lambda>s. if in_init_expr s
      then s\<lparr>declared_funcs := insert (var_index v) (declared_funcs s)\<rparr>
      else s\<lparr>check_declared_funcs := check_declared_funcs s @ [v]\<rparr>))"
    by (intro keeps_modify) (simp add: with_declared with_check_declared)
  then show ?thesis unfolding OnRefFunc_def by (intro on_rules)
qed

end

interpretation steady: module_frame "steady s0" for s0
  by unfold_locales (auto elim!: steady_trans)

section \<open>Accepted operations\<close>

lemma call_tc_ops:
  "run_state (call_tc (OnLoad op l)) s = (Ok, s') \<Longrightarrow> accepted [MemCall KLoad op l] s s'"
  "run_state (call_tc (OnStore op l)) s = (Ok, s') \<Longrightarrow> accepted [MemCall KStore op l] s s'"
  "run_state (call_tc (OnAtomicLoad op l)) s = (Ok, s') \<Longrightarrow> accepted [MemCall KAtomicLoad op l] s s'"
  "run_state (call_tc (OnAtomicNotify op l)) s = (Ok, s') \<Longrightarrow> accepted [MemCall KAtomicNotify op l] s s'"
  "run_state (call_tc (OnAtomicRmw op l)) s = (Ok, s') \<Longrightarrow> accepted [MemCall KAtomicRmw op l] s s'"
  "run_state (call_tc (OnAtomicRmwCmpxchg op l)) s = (Ok, s') \<Longrightarrow> accepted [MemCall KAtomicRmwCmpxchg op l] s s'"
  "run_state (call_tc (OnAtomicStore op l)) s = (Ok, s') \<Longrightarrow> accepted [MemCall KAtomicStore op l] s s'"
  "run_state (call_tc (OnAtomicWait op l)) s = (Ok, s') \<Longrightarrow> accepted [MemCall KAtomicWait op l] s s'"
  "run_state (call_tc (OnBinary op)) s = (Ok, s') \<Longrightarrow> accepted [OpCall KBinary op] s s'"
  "run_state (call_tc (OnCompare op)) s = (Ok, s') \<Longrightarrow> accepted [OpCall KCompare op] s s'"
  "run_state (call_tc (OnConvert op)) s = (Ok, s') \<Longrightarrow> accepted [OpCall KConvert op] s s'"
  "run_state (call_tc (OnTernary op)) s = (Ok, s') \<Longrightarrow> accepted [OpCall KTernary op] s s'"
  "run_state (call_tc (OnUnary op)) s = (Ok, s') \<Longrightarrow> accepted [OpCall KUnary op] s s'"
  "run_state (call_tc (OnConst t)) s = (Ok, s') \<Longrightarrow> accepted [TypeCall KConst t] s s'"
  "run_state (call_tc (OnGlobalGet t)) s = (Ok, s') \<Longrightarrow> accepted [TypeCall KGlobalGet t] s s'"
  "run_state (call_tc (OnGlobalSet t)) s = (Ok, s') \<Longrightarrow> accepted [TypeCall KGlobalSet t] s s'"
  "run_state (call_tc (OnLocalGet t)) s = (Ok, s') \<Longrightarrow> accepted [TypeCall KLocalGet t] s s'"
  "run_state (call_tc (OnLocalSet t)) s = (Ok, s') \<Longrightarrow> accepted [TypeCall KLocalSet t] s s'"
  "run_state (call_tc (OnLocalTee t)) s = (Ok, s') \<Longrightarrow> accepted [TypeCall KLocalTee t] s s'"
  "run_state (call_tc (OnRefNullExpr t)) s = (Ok, s') \<Longrightarrow> accepted [TypeCall KRefNullExpr t] s s'"
  "run_state (call_tc (OnMemoryFill l)) s = (Ok, s') \<Longrightarrow> accepted [LimitsCall KMemoryFill l] s s'"
  "run_state (call_tc (OnMemoryGrow l)) s = (Ok, s') \<Longrightarrow> accepted [LimitsCall KMemoryGrow l] s s'"
  "run_state (call_tc (OnMemorySize l)) s = (Ok, s') \<Longrightarrow> accepted [LimitsCall KMemorySize l] s s'"
  "run_state (call_tc (OnTableSize l)) s = (Ok, s') \<Longrightarrow> accepted [LimitsCall KTableSize l] s s'"
  "run_state (call_tc (OnMemoryCopy l l2)) s = (Ok, s') \<Longrightarrow> accepted [CopyCall KMemoryCopy l l2] s s'"
  "run_state (call_tc (OnTableCopy l l2)) s = (Ok, s') \<Longrightarrow> accepted [CopyCall KTableCopy l l2] s s'"
  "run_state (call_tc (OnMemoryInit i l)) s = (Ok, s') \<Longrightarrow> accepted [SegmentCall KMemoryInit i l] s s'"
  "run_state (call_tc (OnTableInit i l)) s = (Ok, s') \<Longrightarrow> accepted [SegmentCall KTableInit i l] s s'"
  "run_state (call_tc (OnDataDrop i)) s = (Ok, s') \<Longrightarrow> accepted [SegmentCall KDataDrop i default_limits] s s'"
  "run_state (call_tc (OnElemDrop i)) s = (Ok, s') \<Longrightarrow> accepted [SegmentCall KElemDrop i default_limits] s s'"
  "run_state (call_tc (OnTableGet t l)) s = (Ok, s') \<Longrightarrow> accepted [TableCall KTableGet t l] s s'"
  "run_state (call_tc (OnTableSet t l)) s = (Ok, s') \<Longrightarrow> accepted [TableCall KTableSet t l] s s'"
  "run_state (call_tc (OnTableGrow t l)) s = (Ok, s') \<Longrightarrow> accepted [TableCall KTableGrow t l] s s'"
  "run_state (call_tc (OnTableFill t l)) s = (Ok, s') \<Longrightarrow> accepted [TableCall KTableFill t l] s s'"
  "run_state (call_tc (OnBlock ps rs)) s = (Ok, s') \<Longrightarrow> accepted [BlockCall KBlock ps rs] s s'"
  "run_state (call_tc (OnLoop ps rs)) s = (Ok, s') \<Longrightarrow> accepted [BlockCall KLoop ps rs] s s'"
  "run_state (call_tc (OnIf ps rs)) s = (Ok, s') \<Longrightarrow> accepted [BlockCall KIf ps rs] s s'"
  "run_state (call_tc (OnTry ps rs)) s = (Ok, s') \<Longrightarrow> accepted [BlockCall KTry ps rs] s s'"
  "run_state (call_tc (OnCall ps rs)) s = (Ok, s') \<Longrightarrow> accepted [BlockCall KCall ps rs] s s'"
  "run_state (call_tc (OnReturnCall ps rs)) s = (Ok, s') \<Longrightarrow> accepted [BlockCall KReturnCall ps rs] s s'"
  "run_state (call_tc (OnReturnCallIndirect ps rs)) s = (Ok, s') \<Longrightarrow> accepted [BlockCall KReturnCallIndirect ps rs] s s'"
  "run_state (call_tc (OnCallIndirect ps rs l)) s = (Ok, s') \<Longrightarrow> accepted [CallIndirectCall ps rs l] s s'"
  "run_state (call_tc (BeginFunction ps)) s = (Ok, s') \<Longrightarrow> accepted [SigCall KBeginFunction ps] s s'"
  "run_state (call_tc (OnCatch ps)) s = (Ok, s') \<Longrightarrow> accepted [SigCall KCatch ps] s s'"
  "run_state (call_tc (OnThrow ps)) s = (Ok, s') \<Longrightarrow> accepted [SigCall KThrow ps] s s'"
  "run_state (call_tc (OnSelect ps)) s = (Ok, s') \<Longrightarrow> accepted [SigCall KSelect ps] s s'"
  "run_state (call_tc (OnBr d)) s = (Ok, s') \<Longrightarrow> accepted [DepthCall KBr d] s s'"
  "run_state (call_tc (OnBrIf d)) s = (Ok, s') \<Longrightarrow> accepted [DepthCall KBrIf d] s s'"
  "run_state (call_tc (OnBrTableTarget d)) s = (Ok, s') \<Longrightarrow> accepted [DepthCall KBrTableTarget d] s s'"
  "run_state (call_tc (OnRethrow d)) s = (Ok, s') \<Longrightarrow> accepted [DepthCall KRethrow d] s s'"
  "run_state (call_tc (OnDelegate d)) s = (Ok, s') \<Longrightarrow> accepted [DepthCall KDelegate d] s s'"
  "run_state (call_tc (BeginBrTable)) s = (Ok, s') \<Longrightarrow> accepted [PlainCall KBeginBrTable] s s'"
  "run_state (call_tc (EndBrTable)) s = (Ok, s') \<Longrightarrow> accepted [PlainCall KEndBrTable] s s'"
  "run_state (call_tc (OnDrop)) s = (Ok, s') \<Longrightarrow> accepted [PlainCall KDrop] s s'"
  "run_state (call_tc (OnElse)) s = (Ok, s') \<Longrightarrow> accepted [PlainCall KElse] s s'"
  "run_state (call_tc (OnEnd)) s = (Ok, s') \<Longrightarrow> accepted [PlainCall KEnd] s s'"
  "run_state (call_tc (OnRefIsNullExpr)) s = (Ok, s') \<Longrightarrow> accepted [PlainCall KRefIsNullExpr] s s'"
  "run_state (call_tc (OnReturn)) s = (Ok, s') \<Longrightarrow> accepted [PlainCall KReturn] s s'"
  "run_state (call_tc (OnUnreachable)) s = (Ok, s') \<Longrightarrow> accepted [PlainCall KUnreachable] s s'"
  "run_state (call_tc (EndFunction)) s = (Ok, s') \<Longrightarrow> accepted [PlainCall KEndFunction] s s'"
  "run_state (call_tc (OnSimdShuffleOp op bs)) s = (Ok, s') \<Longrightarrow> accepted [ShuffleCall op bs] s s'"
  "run_state (call_tc (OnRefFuncExpr i b)) s = (Ok, s') \<Longrightarrow> accepted [RefFuncCall i b] s s'"
  "run_state (call_tc (OnAtomicFence m)) s = (Ok, s') \<Longrightarrow> accepted [AtomicFenceCall m] s s'"
  by (erule call_tc_Ok, simp)+

lemma call_tc_lanes:
  "run_state (call_tc (OnSimdLaneOp op x)) s = (Some Ok, s') \<Longrightarrow> accepted [LaneCall KSimdLaneOp op default_limits x] s s'"
  "run_state (call_tc (OnSimdLoadLane op l x)) s = (Some Ok, s') \<Longrightarrow> accepted [LaneCall KSimdLoadLane op l x] s s'"
  "run_state (call_tc (OnSimdStoreLane op l x)) s = (Some Ok, s') \<Longrightarrow> accepted [LaneCall KSimdStoreLane op l x] s s'"
  by (erule call_tc_option_Ok, simp)+

lemmas checks_Ok = CheckInstr_Ok error_if_Ok CheckIndex_Ok Check_entries_Ok CheckDataSegmentIndex_Ok
  CheckFuncTypeIndex_Ok CheckAligns_Ok call_tc_ops call_tc_lanes

lemma memory_Ok:
  "run_state (OnLoad_sv loc op v a z) s = (Ok, s') \<Longrightarrow>
     \<exists>mt. lookup (memories s) (var_index v) = Some mt \<and> accepted [MemCall KLoad op (mt_limits mt)] s s'"
  "run_state (OnLoadSplat_sv loc op v a z) s = (Ok, s') \<Longrightarrow>
     \<exists>mt. lookup (memories s) (var_index v) = Some mt \<and> accepted [MemCall KLoad op (mt_limits mt)] s s'"
  "run_state (OnLoadZero_sv loc op v a z) s = (Ok, s') \<Longrightarrow>
     \<exists>mt. lookup (memories s) (var_index v) = Some mt \<and> accepted [MemCall KLoad op (mt_limits mt)] s s'"
  "run_state (OnStore_sv loc op v a z) s = (Ok, s') \<Longrightarrow>
     \<exists>mt. lookup (memories s) (var_index v) = Some mt \<and> accepted [MemCall KStore op (mt_limits mt)] s s'"
  "run_state (OnAtomicLoad_sv loc op v a z) s = (Ok, s') \<Longrightarrow>
     \<exists>mt. lookup (memories s) (var_index v) = Some mt \<and> accepted [MemCall KAtomicLoad op (mt_limits mt)] s s'"
  "run_state (OnAtomicNotify_sv loc op v a z) s = (Ok, s') \<Longrightarrow>
     \<exists>mt. lookup (memories s) (var_index v) = Some mt \<and> accepted [MemCall KAtomicNotify op (mt_limits mt)] s s'"
  "run_state (OnAtomicRmw_sv loc op v a z) s = (Ok, s') \<Longrightarrow>
     \<exists>mt. lookup (memories s) (var_index v) = Some mt \<and> accepted [MemCall KAtomicRmw op (mt_limits mt)] s s'"
  "run_state (OnAtomicRmwCmpxchg_sv loc op v a z) s = (Ok, s') \<Longrightarrow>
     \<exists>mt. lookup (memories s) (var_index v) = Some mt \<and> accepted [MemCall KAtomicRmwCmpxchg op (mt_limits mt)] s s'"
  "run_state (OnAtomicStore_sv loc op v a z) s = (Ok, s') \<Longrightarrow>
     \<exists>mt. lookup (memories s) (var_index v) = Some mt \<and> accepted [MemCall KAtomicStore op (mt_limits mt)] s s'"
  "run_state (OnAtomicWait_sv loc op v a z) s = (Ok, s') \<Longrightarrow>
     \<exists>mt. lookup (memories s) (var_index v) = Some mt \<and> accepted [MemCall KAtomicWait op (mt_limits mt)] s s'"
  by (auto simp: OnLoad_sv_def OnLoadSplat_sv_def OnLoadZero_sv_def OnStore_sv_def OnAtomicLoad_sv_def
      OnAtomicNotify_sv_def OnAtomicRmw_sv_def OnAtomicRmwCmpxchg_sv_def
      OnAtomicStore_sv_def OnAtomicWait_sv_def dest!: checks_Ok split: prod.splits if_splits)

lemma lane_Ok:
  "run_state (OnSimdLaneOp_sv loc op i) s = (Some Ok, s') \<Longrightarrow>
     accepted [LaneCall KSimdLaneOp op default_limits i] s s'"
  "run_state (OnSimdLoadLane_sv loc op v a z i) s = (Some Ok, s') \<Longrightarrow>
     \<exists>mt. lookup (memories s) (var_index v) = Some mt \<and> accepted [LaneCall KSimdLoadLane op (mt_limits mt) i] s s'"
  "run_state (OnSimdStoreLane_sv loc op v a z i) s = (Some Ok, s') \<Longrightarrow>
     \<exists>mt. lookup (memories s) (var_index v) = Some mt \<and> accepted [LaneCall KSimdStoreLane op (mt_limits mt) i] s s'"
  by (auto simp: OnSimdLaneOp_sv_def OnSimdLoadLane_sv_def OnSimdStoreLane_sv_def dest!: checks_Ok split: prod.splits if_splits)

lemma operator_Ok:
  "run_state (OnBinary_sv loc op) s = (Ok, s') \<Longrightarrow>
     accepted [OpCall KBinary op] s s'"
  "run_state (OnCompare_sv loc op) s = (Ok, s') \<Longrightarrow>
     accepted [OpCall KCompare op] s s'"
  "run_state (OnConvert_sv loc op) s = (Ok, s') \<Longrightarrow>
     accepted [OpCall KConvert op] s s'"
  "run_state (OnTernary_sv loc op) s = (Ok, s') \<Longrightarrow>
     accepted [OpCall KTernary op] s s'"
  "run_state (OnUnary_sv loc op) s = (Ok, s') \<Longrightarrow>
     accepted [OpCall KUnary op] s s'"
  "run_state (OnConst_sv loc t) s = (Ok, s') \<Longrightarrow>
     accepted [TypeCall KConst t] s s'"
  "run_state (OnRefNull loc t) s = (Ok, s') \<Longrightarrow>
     accepted [TypeCall KRefNullExpr t] s s'"
  "run_state (OnNop loc) s = (Ok, s') \<Longrightarrow>
     accepted [] s s'"
  "run_state (OnSelect_sv loc ts) s = (Ok, s') \<Longrightarrow>
     accepted [SigCall KSelect ts] s s'"
  "run_state (OnSimdShuffleOp_sv loc op bs) s = (Ok, s') \<Longrightarrow>
     accepted [ShuffleCall op bs] s s'"
  "run_state (OnAtomicFence_sv loc n) s = (Ok, s') \<Longrightarrow>
     accepted [AtomicFenceCall n] s s'"
  by (auto simp: OnBinary_sv_def OnCompare_sv_def OnConvert_sv_def OnTernary_sv_def OnUnary_sv_def
      OnConst_sv_def OnRefNull_def OnNop_def OnSelect_sv_def OnSimdShuffleOp_sv_def
      OnAtomicFence_sv_def dest!: checks_Ok split: prod.splits if_splits)

lemma control_Ok:
  "run_state (OnBr_sv loc v) s = (Ok, s') \<Longrightarrow>
     accepted [DepthCall KBr (var_index v)] s s'"
  "run_state (OnBrIf_sv loc v) s = (Ok, s') \<Longrightarrow>
     accepted [DepthCall KBrIf (var_index v)] s s'"
  "run_state (OnDelegate_sv loc v) s = (Ok, s') \<Longrightarrow>
     accepted [DepthCall KDelegate (var_index v)] s s'"
  "run_state (OnRethrow_sv loc v) s = (Ok, s') \<Longrightarrow>
     accepted [DepthCall KRethrow (var_index v)] s s'"
  "run_state (OnBrTableTarget_sv loc v) s = (Ok, s') \<Longrightarrow>
     accepted [DepthCall KBrTableTarget (var_index v)] s s'"
  "run_state (BeginBrTable_sv loc) s = (Ok, s') \<Longrightarrow>
     accepted [PlainCall KBeginBrTable] s s'"
  "run_state (EndBrTable_sv loc) s = (Ok, s') \<Longrightarrow>
     accepted [PlainCall KEndBrTable] s s'"
  "run_state (OnDrop_sv loc) s = (Ok, s') \<Longrightarrow>
     accepted [PlainCall KDrop] s s'"
  "run_state (OnEnd_sv loc) s = (Ok, s') \<Longrightarrow>
     accepted [PlainCall KEnd] s s'"
  "run_state (OnReturn_sv loc) s = (Ok, s') \<Longrightarrow>
     accepted [PlainCall KReturn] s s'"
  "run_state (OnUnreachable_sv loc) s = (Ok, s') \<Longrightarrow>
     accepted [PlainCall KUnreachable] s s'"
  "run_state (OnElse_sv loc) s = (Ok, s') \<Longrightarrow>
     accepted [PlainCall KElse] s s'"
  "run_state (OnRefIsNull loc) s = (Ok, s') \<Longrightarrow>
     accepted [PlainCall KRefIsNullExpr] s s'"
  "run_state (OnThrow_sv loc v) s = (Ok, s') \<Longrightarrow>
     \<exists>tg. lookup (tags s) (var_index v) = Some tg \<and> accepted [SigCall KThrow (tg_params tg)] s s'"
  "run_state (OnCatch_sv loc v True) s = (Ok, s') \<Longrightarrow>
     accepted [SigCall KCatch []] s s'"
  "run_state (OnCatch_sv loc v False) s = (Ok, s') \<Longrightarrow>
     \<exists>tg. lookup (tags s) (var_index v) = Some tg \<and> accepted [SigCall KCatch (tg_params tg)] s s'"
  by (auto simp: OnBr_sv_def OnBrIf_sv_def OnDelegate_sv_def OnRethrow_sv_def OnBrTableTarget_sv_def
      BeginBrTable_sv_def EndBrTable_sv_def OnDrop_sv_def OnEnd_sv_def OnReturn_sv_def
      OnUnreachable_sv_def OnElse_sv_def OnRefIsNull_def OnThrow_sv_def OnCatch_sv_def dest!: checks_Ok split: prod.splits if_splits)

text \<open>The parameters and results that a block signature stands for.\<close>

definition block_types :: "shared_validator \<Rightarrow> wtype \<Rightarrow> (type_vector \<times> type_vector) option" where
  "block_types s t =
     (if IsIndex t then map_option (\<lambda>ft. (ft_params ft, ft_results ft)) (func_types s (GetIndex t))
      else map_option (Pair []) (GetInlineVector t))"

lemma block_types_expr_loc [simp]: "block_types (s\<lparr>expr_loc := l\<rparr>) t = block_types s t"
  by (simp add: block_types_def)

lemma CheckBlockSignature_Ok:
  "run_state (CheckBlockSignature loc op t) s = (Some (Ok, ps, rs), s') \<Longrightarrow>
     block_types s t = Some (ps, rs) \<and> s' = s"
  by (auto simp: CheckBlockSignature_def block_types_def Var_def dest!: checks_Ok
      split: if_splits option.splits prod.splits)

lemma block_Ok:
  "run_state (OnBlock_sv loc t) s = (Some Ok, s') \<Longrightarrow>
     \<exists>ps rs. block_types s t = Some (ps, rs) \<and> accepted [BlockCall KBlock ps rs] s s'"
  "run_state (OnIf_sv loc t) s = (Some Ok, s') \<Longrightarrow>
     \<exists>ps rs. block_types s t = Some (ps, rs) \<and> accepted [BlockCall KIf ps rs] s s'"
  "run_state (OnLoop_sv loc t) s = (Some Ok, s') \<Longrightarrow>
     \<exists>ps rs. block_types s t = Some (ps, rs) \<and> accepted [BlockCall KLoop ps rs] s s'"
  "run_state (OnTry_sv loc t) s = (Some Ok, s') \<Longrightarrow>
     \<exists>ps rs. block_types s t = Some (ps, rs) \<and> accepted [BlockCall KTry ps rs] s s'"
  by (auto simp: OnBlock_sv_def OnIf_sv_def OnLoop_sv_def OnTry_sv_def
      dest!: checks_Ok CheckBlockSignature_Ok split: prod.splits if_splits option.splits)

lemma call_Ok:
  "run_state (OnCall_sv loc v) s = (Ok, s') \<Longrightarrow>
     \<exists>ft. lookup (funcs s) (var_index v) = Some ft \<and> accepted [BlockCall KCall (ft_params ft) (ft_results ft)] s s'"
  "run_state (OnReturnCall_sv loc v) s = (Ok, s') \<Longrightarrow>
     \<exists>ft. lookup (funcs s) (var_index v) = Some ft \<and> accepted [BlockCall KReturnCall (ft_params ft) (ft_results ft)] s s'"
  "run_state (OnCallIndirect_sv loc v u) s = (Ok, s') \<Longrightarrow>
     \<exists>ft tt. func_types s (var_index v) = Some ft \<and> lookup (tables s) (var_index u) = Some tt
        \<and> accepted [CallIndirectCall (ft_params ft) (ft_results ft) (tt_limits tt)] s s'"
  "run_state (OnReturnCallIndirect_sv loc v u) s = (Ok, s') \<Longrightarrow>
     \<exists>ft tt. func_types s (var_index v) = Some ft \<and> lookup (tables s) (var_index u) = Some tt
        \<and> accepted [BlockCall KReturnCallIndirect (ft_params ft) (ft_results ft)] s s'"
  by (auto simp: OnCall_sv_def OnReturnCall_sv_def OnCallIndirect_sv_def OnReturnCallIndirect_sv_def dest!: checks_Ok split: prod.splits if_splits)

lemma ref_func_Ok:
  "run_state (OnRefFunc loc v) s = (Ok, s') \<Longrightarrow>
     \<exists>ft. lookup (funcs s) (var_index v) = Some ft \<and> accepted [RefFuncCall (ft_type_index ft) (in_init_expr s)] s s'"
  by (auto simp: OnRefFunc_def GetFunctionTypeIndex_def lookup_def dest!: checks_Ok split: prod.splits if_splits)

lemma global_Ok:
  "run_state (OnGlobalGet_sv loc v) s = (Ok, s') \<Longrightarrow>
     \<exists>gt. lookup (globals s) (var_index v) = Some gt \<and> accepted [TypeCall KGlobalGet (gt_type gt)] s s'"
  "run_state (OnGlobalSet_sv loc v) s = (Ok, s') \<Longrightarrow>
     \<exists>gt. lookup (globals s) (var_index v) = Some gt \<and> accepted [TypeCall KGlobalSet (gt_type gt)] s s'"
  by (auto simp: OnGlobalGet_sv_def OnGlobalSet_sv_def Let_def dest!: checks_Ok split: prod.splits if_splits)

lemma local_Ok:
  assumes "decls_ok 0 (locals s)"
  shows
    "run_state (OnLocalGet_sv loc v) s = (Ok, s') \<Longrightarrow> \<exists>t. lookup (expand_locals 0 (locals s)) (var_index v) = Some t \<and>
       accepted [TypeCall KLocalGet t] s s'"
    "run_state (OnLocalSet_sv loc v) s = (Ok, s') \<Longrightarrow> \<exists>t. lookup (expand_locals 0 (locals s)) (var_index v) = Some t \<and>
       accepted [TypeCall KLocalSet t] s s'"
    "run_state (OnLocalTee_sv loc v) s = (Ok, s') \<Longrightarrow> \<exists>t. lookup (expand_locals 0 (locals s)) (var_index v) = Some t \<and>
       accepted [TypeCall KLocalTee t] s s'"
  using assms
  by (auto simp: OnLocalGet_sv_def OnLocalSet_sv_def OnLocalTee_sv_def CHECK_RESULT_def Failed_def
      dest!: checks_Ok CheckLocalIndex_Ok [rotated] split: prod.splits if_splits)

lemma entity_Ok:
  "run_state (OnMemoryCopy_sv loc v u) s = (Ok, s') \<Longrightarrow>
     \<exists>mt mt2. lookup (memories s) (var_index v) = Some mt \<and> lookup (memories s) (var_index u) = Some mt2
        \<and> accepted [CopyCall KMemoryCopy (mt_limits mt) (mt_limits mt2)] s s'"
  "run_state (OnMemoryFill_sv loc v) s = (Ok, s') \<Longrightarrow>
     \<exists>mt. lookup (memories s) (var_index v) = Some mt \<and> accepted [LimitsCall KMemoryFill (mt_limits mt)] s s'"
  "run_state (OnMemoryGrow_sv loc v) s = (Ok, s') \<Longrightarrow>
     \<exists>mt. lookup (memories s) (var_index v) = Some mt \<and> accepted [LimitsCall KMemoryGrow (mt_limits mt)] s s'"
  "run_state (OnMemorySize_sv loc v) s = (Ok, s') \<Longrightarrow>
     \<exists>mt. lookup (memories s) (var_index v) = Some mt \<and> accepted [LimitsCall KMemorySize (mt_limits mt)] s s'"
  "run_state (OnMemoryInit_sv loc u v) s = (Ok, s') \<Longrightarrow>
     \<exists>mt. lookup (memories s) (var_index v) = Some mt \<and> accepted [SegmentCall KMemoryInit (var_index u) (mt_limits mt)] s s'"
  "run_state (OnDataDrop_sv loc v) s = (Ok, s') \<Longrightarrow>
     accepted [SegmentCall KDataDrop (var_index v) default_limits] s s'"
  "run_state (OnElemDrop_sv loc v) s = (Ok, s') \<Longrightarrow>
     accepted [SegmentCall KElemDrop (var_index v) default_limits] s s'"
  "run_state (OnTableCopy_sv loc v u) s = (Ok, s') \<Longrightarrow>
     \<exists>tt tt2. lookup (tables s) (var_index v) = Some tt \<and> lookup (tables s) (var_index u) = Some tt2
        \<and> accepted [CopyCall KTableCopy (tt_limits tt) (tt_limits tt2)] s s'"
  "run_state (OnTableInit_sv loc u v) s = (Ok, s') \<Longrightarrow>
     \<exists>tt. lookup (tables s) (var_index v) = Some tt \<and> accepted [SegmentCall KTableInit (var_index u) (tt_limits tt)] s s'"
  "run_state (OnTableSize_sv loc v) s = (Ok, s') \<Longrightarrow>
     \<exists>tt. lookup (tables s) (var_index v) = Some tt \<and> accepted [LimitsCall KTableSize (tt_limits tt)] s s'"
  "run_state (OnTableGet_sv loc v) s = (Ok, s') \<Longrightarrow>
     \<exists>tt. lookup (tables s) (var_index v) = Some tt \<and> accepted [TableCall KTableGet (tt_element tt) (tt_limits tt)] s s'"
  "run_state (OnTableSet_sv loc v) s = (Ok, s') \<Longrightarrow>
     \<exists>tt. lookup (tables s) (var_index v) = Some tt \<and> accepted [TableCall KTableSet (tt_element tt) (tt_limits tt)] s s'"
  "run_state (OnTableGrow_sv loc v) s = (Ok, s') \<Longrightarrow>
     \<exists>tt. lookup (tables s) (var_index v) = Some tt \<and> accepted [TableCall KTableGrow (tt_element tt) (tt_limits tt)] s s'"
  "run_state (OnTableFill_sv loc v) s = (Ok, s') \<Longrightarrow>
     \<exists>tt. lookup (tables s) (var_index v) = Some tt \<and> accepted [TableCall KTableFill (tt_element tt) (tt_limits tt)] s s'"
  by (auto simp: OnMemoryCopy_sv_def OnMemoryFill_sv_def OnMemoryGrow_sv_def OnMemorySize_sv_def
      OnMemoryInit_sv_def OnDataDrop_sv_def OnElemDrop_sv_def OnTableCopy_sv_def
      OnTableInit_sv_def OnTableSize_sv_def OnTableGet_sv_def OnTableSet_sv_def
      OnTableGrow_sv_def OnTableFill_sv_def dest!: checks_Ok split: prod.splits if_splits)

end
