(* ===== verification/Validator_Instructions.thy ===== *)
theory Validator_Instructions
  imports Validator Shared_Validator_Runs Type_Soundness
begin

text \<open>
  The instructions of an expression: the expressions of the intermediate representation, which name
  entities by index, are translated to the instructions of \<open>Type_Soundness\<close>, which carry types, with
  the index spaces of the module. For every expression without a block, a member function of the
  validator that finds no error has had the calls of the type checker for these instructions accepted.
\<close>

section \<open>Environments\<close>

text \<open>
  The index spaces: the function types with their type index, the types of functions, tables and
  so on. \<open>env_of\<close> is the environment that a state of the shared validator stands for.
\<close>

record env =
  env_types :: "index \<Rightarrow> func_type option"
  env_funcs :: "func_type list"
  env_tables :: "(wtype \<times> limits) list"
  env_memories :: "limits list"
  env_globals :: "type_vector"
  env_tags :: "type_vector list"
  env_locals :: "type_vector"

definition env_of :: "shared_validator \<Rightarrow> env" where
  "env_of s = \<lparr>env_types = func_types s, env_funcs = Shared_Validator.funcs s,
     env_tables = map (\<lambda>t. (tt_element t, tt_limits t)) (Shared_Validator.tables s),
     env_memories = map mt_limits (Shared_Validator.memories s),
     env_globals = map gt_type (Shared_Validator.globals s),
     env_tags = map tg_params (Shared_Validator.tags s),
     env_locals = expand_locals 0 (locals s)\<rparr>"

lemma lookup_map: "lookup (map f xs) i = map_option f (lookup xs i)"
  by (simp add: lookup_def)

lemma env_of_accepted: "accepted cs s s' \<Longrightarrow> env_of s' = env_of s"
  by (simp add: env_of_def accepted_fields)

section \<open>Instructions with types\<close>

definition idx :: "IR.var \<Rightarrow> index" where
  "idx v = var_index (sv_var v)"

definition env_type_of :: "module \<Rightarrow> env \<Rightarrow> func_declaration \<Rightarrow> func_type option" where
  "env_type_of m E decl = env_types E (var_index (GetFuncTypeIndex_v m decl))"

definition env_block :: "module \<Rightarrow> env \<Rightarrow> func_declaration \<Rightarrow> (type_vector \<times> type_vector) option" where
  "env_block m E decl =
     (let t = GetDeclarationType m decl in
      if IsIndex t then map_option (\<lambda>ft. (ft_params ft, ft_results ft)) (env_types E (GetIndex t))
      else map_option (Pair []) (GetInlineVector t))"

abbreviation one :: "tc_call \<Rightarrow> instr list" where
  "one c \<equiv> [Simple c]"

primrec simple_instrs :: "simple_type \<Rightarrow> instr list" where
  "simple_instrs DropT = one (PlainCall KDrop)"
| "simple_instrs NopT = []"
| "simple_instrs ReturnT = one (PlainCall KReturn)"
| "simple_instrs UnreachableT = one (PlainCall KUnreachable)"
| "simple_instrs RefIsNullT = one (PlainCall KRefIsNullExpr)"

primrec memory_call :: "memory_expr_type \<Rightarrow> limits_call" where
  "memory_call MemoryGrowT = KMemoryGrow"
| "memory_call MemorySizeT = KMemorySize"
| "memory_call MemoryFillT = KMemoryFill"

primrec opcode_call :: "opcode_type \<Rightarrow> op_call" where
  "opcode_call BinaryT = KBinary"
| "opcode_call CompareT = KCompare"
| "opcode_call ConvertT = KConvert"
| "opcode_call UnaryT = KUnary"
| "opcode_call TernaryT = KTernary"

primrec load_store_call :: "load_store_type \<Rightarrow> mem_call" where
  "load_store_call LoadT = KLoad"
| "load_store_call StoreT = KStore"
| "load_store_call AtomicLoadT = KAtomicLoad"
| "load_store_call AtomicStoreT = KAtomicStore"
| "load_store_call AtomicRmwT = KAtomicRmw"
| "load_store_call AtomicRmwCmpxchgT = KAtomicRmwCmpxchg"
| "load_store_call AtomicWaitT = KAtomicWait"
| "load_store_call AtomicNotifyT = KAtomicNotify"
| "load_store_call LoadSplatT = KLoad"
| "load_store_call LoadZeroT = KLoad"

definition local_instr :: "type_call \<Rightarrow> env \<Rightarrow> IR.var \<Rightarrow> instr list option" where
  "local_instr k E v = map_option (\<lambda>t. one (TypeCall k t)) (lookup (env_locals E) (idx v))"

definition global_instr :: "type_call \<Rightarrow> env \<Rightarrow> IR.var \<Rightarrow> instr list option" where
  "global_instr k E v = map_option (\<lambda>t. one (TypeCall k t)) (lookup (env_globals E) (idx v))"

definition table_instr :: "table_call \<Rightarrow> env \<Rightarrow> IR.var \<Rightarrow> instr list option" where
  "table_instr k E v = map_option (\<lambda>(t, l). one (TableCall k t l)) (lookup (env_tables E) (idx v))"

definition func_instr :: "block_call \<Rightarrow> env \<Rightarrow> IR.var \<Rightarrow> instr list option" where
  "func_instr k E v =
     map_option (\<lambda>ft. one (BlockCall k (ft_params ft) (ft_results ft))) (lookup (env_funcs E) (idx v))"

primrec var_instrs :: "var_type \<Rightarrow> env \<Rightarrow> IR.var \<Rightarrow> instr list option" where
  "var_instrs BrT E v = Some (one (DepthCall KBr (idx v)))"
| "var_instrs BrIfT E v = Some (one (DepthCall KBrIf (idx v)))"
| "var_instrs CallT E v = func_instr KCall E v"
| "var_instrs RefFuncT E v =
     map_option (\<lambda>ft. one (RefFuncCall (ft_type_index ft) False)) (lookup (env_funcs E) (idx v))"
| "var_instrs GlobalGetT E v = global_instr KGlobalGet E v"
| "var_instrs GlobalSetT E v = global_instr KGlobalSet E v"
| "var_instrs LocalGetT E v = local_instr KLocalGet E v"
| "var_instrs LocalSetT E v = local_instr KLocalSet E v"
| "var_instrs LocalTeeT E v = local_instr KLocalTee E v"
| "var_instrs ReturnCallT E v = func_instr KReturnCall E v"
| "var_instrs ThrowT E v =
     map_option (\<lambda>ps. one (SigCall KThrow ps)) (lookup (env_tags E) (idx v))"
| "var_instrs RethrowT E v = Some (one (DepthCall KRethrow (idx v)))"
| "var_instrs DataDropT E v = Some (one (SegmentCall KDataDrop (idx v) default_limits))"
| "var_instrs ElemDropT E v = Some (one (SegmentCall KElemDrop (idx v) default_limits))"
| "var_instrs TableGetT E v = table_instr KTableGet E v"
| "var_instrs TableSetT E v = table_instr KTableSet E v"
| "var_instrs TableGrowT E v = table_instr KTableGrow E v"
| "var_instrs TableSizeT E v =
     map_option (\<lambda>(t, l). one (LimitsCall KTableSize l)) (lookup (env_tables E) (idx v))"
| "var_instrs TableFillT E v = table_instr KTableFill E v"

definition both :: "('a \<Rightarrow> 'b \<Rightarrow> 'c) \<Rightarrow> 'a option \<Rightarrow> 'b option \<Rightarrow> 'c option" where
  "both f a b = Option.bind a (\<lambda>x. map_option (f x) b)"

text \<open>
  The instructions of an expression, if all its indices are in range. \<open>call_ref\<close>, whose type is
  that of its operand, has none here.
\<close>

fun expr_instrs :: "module \<Rightarrow> env \<Rightarrow> expr \<Rightarrow> instr list option"
  and exprs_instrs :: "module \<Rightarrow> env \<Rightarrow> expr list \<Rightarrow> instr list option"
  and catches_instrs :: "module \<Rightarrow> env \<Rightarrow> catch list \<Rightarrow> (type_vector \<times> instr list) list option"
where
  "expr_instrs m E (SimpleExpr k) = Some (simple_instrs k)"
| "expr_instrs m E (MemoryExpr k v) =
     map_option (\<lambda>l. one (LimitsCall (memory_call k) l)) (lookup (env_memories E) (idx v))"
| "expr_instrs m E (MemoryCopyExpr dest src) =
     both (\<lambda>l l'. one (CopyCall KMemoryCopy l l'))
       (lookup (env_memories E) (idx dest)) (lookup (env_memories E) (idx src))"
| "expr_instrs m E (MemoryInitExpr v memidx) =
     map_option (\<lambda>l. one (SegmentCall KMemoryInit (idx v) l)) (lookup (env_memories E) (idx memidx))"
| "expr_instrs m E (OpcodeExpr k op) = Some (one (OpCall (opcode_call k) op))"
| "expr_instrs m E (VarExpr k v) = var_instrs k E v"
| "expr_instrs m E (LoadStoreExpr k op memidx align offset) =
     map_option (\<lambda>l. one (MemCall (load_store_call k) op l)) (lookup (env_memories E) (idx memidx))"
| "expr_instrs m E (SimdLaneMemoryExpr k op memidx align offset val) =
     map_option (\<lambda>l. one (LaneCall (case k of SimdLoadLaneT \<Rightarrow> KSimdLoadLane
       | SimdStoreLaneT \<Rightarrow> KSimdStoreLane) op l val)) (lookup (env_memories E) (idx memidx))"
| "expr_instrs m E (SimdLaneOpExpr op val) = Some (one (LaneCall KSimdLaneOp op default_limits val))"
| "expr_instrs m E (SimdShuffleOpExpr op val) = Some (one (ShuffleCall op val))"
| "expr_instrs m E (ConstExpr c) = Some (one (TypeCall KConst (const_type c)))"
| "expr_instrs m E (SelectExpr ts) = Some (one (SigCall KSelect ts))"
| "expr_instrs m E (RefNullExpr t) = Some (one (TypeCall KRefNullExpr t))"
| "expr_instrs m E (TableInitExpr segment table) =
     map_option (\<lambda>(t, l). one (SegmentCall KTableInit (idx segment) l)) (lookup (env_tables E) (idx table))"
| "expr_instrs m E (TableCopyExpr dst src) =
     both (\<lambda>(t, l) (t', l'). one (CopyCall KTableCopy l l'))
       (lookup (env_tables E) (idx dst)) (lookup (env_tables E) (idx src))"
| "expr_instrs m E (IndirectExpr k decl table) =
     both (\<lambda>ft (t, l). one (case k of
         CallIndirectT \<Rightarrow> CallIndirectCall (ft_params ft) (ft_results ft) l
       | ReturnCallIndirectT \<Rightarrow> BlockCall KReturnCallIndirect (ft_params ft) (ft_results ft)))
       (env_type_of m E decl) (lookup (env_tables E) (idx table))"
| "expr_instrs m E (CallRefExpr v) = None"
| "expr_instrs m E (BrTableExpr targets default_target) =
     Some [BrTable (map idx targets) (idx default_target)]"
| "expr_instrs m E (AtomicFenceExpr consistency_model) = Some (one (AtomicFenceCall consistency_model))"
| "expr_instrs m E (CodeMetadataExpr nm data) = Some []"
| "expr_instrs m E (BlockExprBase k (IR.Block l decl es)) =
     both (\<lambda>(ps, rs) is. [case k of BlockT \<Rightarrow> Type_Soundness.Block ps rs is | LoopT \<Rightarrow> Loop ps rs is])
       (env_block m E decl) (exprs_instrs m E es)"
| "expr_instrs m E (IfExpr (IR.Block l decl es) es') =
     both (\<lambda>(ps, rs) (is, is'). [if es' = [] then IfThen ps rs is else IfElse ps rs is is'])
       (env_block m E decl) (both Pair (exprs_instrs m E es) (exprs_instrs m E es'))"
| "expr_instrs m E (TryExpr kind (IR.Block l decl es) cs t) =
     both (\<lambda>(ps, rs) (is, cis). [case kind of
         TryPlain \<Rightarrow> Try ps rs is []
       | TryCatch \<Rightarrow> Try ps rs is cis
       | IR.TryDelegate \<Rightarrow> Type_Soundness.TryDelegate ps rs is (idx t)])
       (env_block m E decl)
       (both Pair (exprs_instrs m E es)
         (if kind = TryCatch then catches_instrs m E cs else Some []))"
| "exprs_instrs m E [] = Some []"
| "exprs_instrs m E (e # es) = both (@) (expr_instrs m E e) (exprs_instrs m E es)"
| "catches_instrs m E [] = Some []"
| "catches_instrs m E (Catch v es # cs) =
     both (\<lambda>ps (is, cis). (ps, is) # cis)
       (if IsCatchAll (Catch v es) then Some [] else lookup (env_tags E) (idx v))
       (both Pair (exprs_instrs m E es) (catches_instrs m E cs))"

fun call_ref_free :: "expr \<Rightarrow> bool"
  and call_ref_free_list :: "expr list \<Rightarrow> bool"
  and call_ref_free_catches :: "catch list \<Rightarrow> bool"
where
  "call_ref_free (CallRefExpr v) \<longleftrightarrow> False"
| "call_ref_free (BlockExprBase k (IR.Block l decl es)) \<longleftrightarrow> call_ref_free_list es"
| "call_ref_free (IfExpr (IR.Block l decl es) es') \<longleftrightarrow> call_ref_free_list es \<and> call_ref_free_list es'"
| "call_ref_free (TryExpr kind (IR.Block l decl es) cs t) \<longleftrightarrow>
     call_ref_free_list es \<and> call_ref_free_catches cs"
| "call_ref_free e \<longleftrightarrow> True"
| "call_ref_free_list [] \<longleftrightarrow> True"
| "call_ref_free_list (e # es) \<longleftrightarrow> call_ref_free e \<and> call_ref_free_list es"
| "call_ref_free_catches [] \<longleftrightarrow> True"
| "call_ref_free_catches (Catch v es # cs) \<longleftrightarrow> call_ref_free_list es \<and> call_ref_free_catches cs"

section \<open>Single expressions\<close>

text \<open>So far no error has been found and the process has not aborted.\<close>

definition fine :: "validator \<Rightarrow> bool" where
  "fine s \<longleftrightarrow> vd_result s = Ok \<and> \<not> vd_aborted s"

lemma accrue_fine:
  "run_state (accrue M) s = (u, s') \<Longrightarrow> fine s' \<Longrightarrow>
     fine s \<and> run_state M (vd_validator s) = (Ok, vd_validator s') \<and>
     s' = s\<lparr>vd_validator := vd_validator s'\<rparr>"
  by (auto simp: accrue_def fine_def split: prod.splits)

lemma accrue_option_fine:
  "run_state (accrue_option M) s = (u, s') \<Longrightarrow> fine s' \<Longrightarrow>
     fine s \<and> run_state M (vd_validator s) = (Some Ok, vd_validator s') \<and>
     s' = s\<lparr>vd_validator := vd_validator s'\<rparr>"
  by (auto simp: accrue_option_def fine_def split: prod.splits option.splits)

lemma passes_fine:
  "run_state (passes M) s = (r, s') \<Longrightarrow> fine s' \<Longrightarrow>
     r = Ok \<and> fine s \<and> run_state M (vd_validator s) = (Ok, vd_validator s')"
  by (auto simp: passes_def dest: accrue_fine split: prod.splits)

lemma passes_option_fine:
  "run_state (passes_option M) s = (r, s') \<Longrightarrow> fine s' \<Longrightarrow>
     r = Ok \<and> fine s \<and> run_state M (vd_validator s) = (Some Ok, vd_validator s')"
  by (auto simp: passes_option_def dest: accrue_option_fine split: prod.splits)

definition did :: "tc_call list \<Rightarrow> validator \<Rightarrow> validator \<Rightarrow> bool" where
  "did cs s s' \<longleftrightarrow> fine s \<and> accepted cs (vd_validator s) (vd_validator s')"

lemma did_append: "did as s s1 \<Longrightarrow> did bs s1 s2 \<Longrightarrow> did (as @ bs) s s2"
  by (auto simp: did_def intro: accepted_append)

lemma sv_var_index [simp]: "var_index (sv_var v) = idx v"
  by (simp add: idx_def)

lemma GetFuncTypeIndex_v_index:
  "env_type_of m (env_of s) decl = func_types s (var_index (GetFuncTypeIndex_v m decl))"
  by (simp add: env_type_of_def env_of_def)

lemma env_block_types: "env_block m (env_of s) decl = block_types s (GetDeclarationType m decl)"
  by (simp add: env_block_def block_types_def env_of_def Let_def)

lemma body_calls_one [simp]: "body_calls (one c) = [c]" "body_calls [] = []"
  by (simp_all add: body_calls_def)

lemmas env_lookups = env_of_def lookup_map both_def

lemma memory_expr_did:
  "run_state (memory_expr_v k v) s = (r, s') \<Longrightarrow> fine s' \<Longrightarrow> r = Ok \<and> fine s \<and>
     (\<exists>mt. lookup (Shared_Validator.memories (vd_validator s)) (idx v) = Some mt \<and>
       accepted [LimitsCall (memory_call k) (mt_limits mt)] (vd_validator s) (vd_validator s'))"
  by (cases k) (auto simp: OnMemoryGrowExpr_v_def OnMemorySizeExpr_v_def OnMemoryFillExpr_v_def
      dest!: passes_fine entity_Ok)

lemma opcode_expr_did:
  "run_state (opcode_expr_v k op) s = (r, s') \<Longrightarrow> fine s' \<Longrightarrow> r = Ok \<and> fine s \<and>
     accepted [OpCall (opcode_call k) op] (vd_validator s) (vd_validator s')"
  by (cases k) (auto simp: OnBinaryExpr_v_def OnCompareExpr_v_def OnConvertExpr_v_def
      OnUnaryExpr_v_def OnTernaryExpr_v_def dest!: passes_fine operator_Ok)

lemma simple_expr_did:
  "run_state (simple_expr_v k) s = (r, s') \<Longrightarrow> fine s' \<Longrightarrow> r = Ok \<and> fine s \<and>
     accepted (body_calls (simple_instrs k)) (vd_validator s) (vd_validator s')"
  by (cases k) (auto simp: OnDropExpr_v_def OnNopExpr_v_def OnReturnExpr_v_def
      OnUnreachableExpr_v_def OnRefIsNullExpr_v_def dest!: passes_fine control_Ok operator_Ok)

lemma load_store_expr_did:
  "run_state (load_store_expr_v k op v a z) s = (r, s') \<Longrightarrow> fine s' \<Longrightarrow> r = Ok \<and> fine s \<and>
     (\<exists>mt. lookup (Shared_Validator.memories (vd_validator s)) (idx v) = Some mt \<and>
       accepted [MemCall (load_store_call k) op (mt_limits mt)] (vd_validator s) (vd_validator s'))"
  by (cases k) (auto simp: OnLoadExpr_v_def OnStoreExpr_v_def OnAtomicLoadExpr_v_def
      OnAtomicStoreExpr_v_def OnAtomicRmwExpr_v_def OnAtomicRmwCmpxchgExpr_v_def
      OnAtomicWaitExpr_v_def OnAtomicNotifyExpr_v_def OnLoadSplatExpr_v_def OnLoadZeroExpr_v_def
      dest!: passes_fine memory_Ok)

lemma var_expr_did:
  assumes "run_state (var_expr_v k v) s = (r, s')" "fine s'"
    and "decls_ok 0 (locals (vd_validator s))" "\<not> in_init_expr (vd_validator s)"
  shows "r = Ok \<and> (\<exists>is. var_instrs k (env_of (vd_validator s)) v = Some is \<and> did (body_calls is) s s')"
  using assms
  by (cases k)
    (auto simp: OnBrExpr_v_def OnBrIfExpr_v_def OnCallExpr_v_def OnRefFuncExpr_v_def
      OnGlobalGetExpr_v_def OnGlobalSetExpr_v_def OnLocalGetExpr_v_def OnLocalSetExpr_v_def
      OnLocalTeeExpr_v_def OnReturnCallExpr_v_def OnThrowExpr_v_def OnRethrowExpr_v_def
      OnDataDropExpr_v_def OnElemDropExpr_v_def OnTableGetExpr_v_def OnTableSetExpr_v_def
      OnTableGrowExpr_v_def OnTableSizeExpr_v_def OnTableFillExpr_v_def did_def env_lookups
      local_instr_def global_instr_def table_instr_def func_instr_def
      dest!: passes_fine control_Ok call_Ok ref_func_Ok global_Ok local_Ok [rotated] entity_Ok)

section \<open>Expressions without blocks\<close>

lemma br_table_targets_did:
  "run_state (br_table_targets vs) s = (u, s') \<Longrightarrow> fine s' \<Longrightarrow>
     fine s \<and> accepted (map (DepthCall KBrTableTarget) (map idx vs)) (vd_validator s) (vd_validator s')"
proof (induction vs arbitrary: s)
  case (Cons v vs)
  from Cons.prems(1) obtain s1 where s1:
    "run_state (accrue (OnBrTableTarget_sv no_location (sv_var v))) s = ((), s1)"
    "run_state (br_table_targets vs) s1 = (u, s')" by (auto split: prod.splits)
  from Cons.IH [OF s1(2) Cons.prems(2)] have rest: "fine s1"
    "accepted (map (DepthCall KBrTableTarget) (map idx vs)) (vd_validator s1) (vd_validator s')" by auto
  from accrue_fine [OF s1(1) rest(1)] have "fine s"
    "accepted [DepthCall KBrTableTarget (idx v)] (vd_validator s) (vd_validator s1)"
    by (auto dest: control_Ok)
  with rest(2) show ?case using accepted_Cons by auto
qed auto

lemma br_table_did:
  assumes "run_state (OnBrTableExpr_v targets default_target) s = (r, s')" "fine s'"
  shows "r = Ok \<and> did (instr_calls (BrTable (map idx targets) (idx default_target))) s s'"
proof -
  let ?target = "\<lambda>v. accrue (OnBrTableTarget_sv no_location (sv_var v))"
  from assms(1) obtain s1 s2 s3 where run:
    "run_state (accrue (BeginBrTable_sv no_location)) s = ((), s1)"
    "run_state (br_table_targets targets) s1 = ((), s2)"
    "run_state (?target default_target) s2 = ((), s3)"
    "run_state (passes (EndBrTable_sv no_location)) s3 = (r, s')"
    by (auto simp: OnBrTableExpr_v_def split: prod.splits)
  from passes_fine [OF run(4) assms(2)] have r: "r = Ok" and f3: "fine s3"
    and a4: "accepted [PlainCall KEndBrTable] (vd_validator s3) (vd_validator s')"
    by (auto dest: control_Ok)
  from accrue_fine [OF run(3) f3] have f2: "fine s2"
    and a3: "accepted [DepthCall KBrTableTarget (idx default_target)] (vd_validator s2) (vd_validator s3)"
    by (auto dest: control_Ok)
  from br_table_targets_did [OF run(2) f2] have f1: "fine s1"
    and a2: "accepted (map (DepthCall KBrTableTarget) (map idx targets)) (vd_validator s1) (vd_validator s2)"
    by auto
  from accrue_fine [OF run(1) f1] have f: "fine s"
    and a1: "accepted [PlainCall KBeginBrTable] (vd_validator s) (vd_validator s1)"
    by (auto dest: control_Ok)
  have "accepted (([PlainCall KBeginBrTable] @ map (DepthCall KBrTableTarget) (map idx targets)) @
      ([DepthCall KBrTableTarget (idx default_target)] @ [PlainCall KEndBrTable]))
      (vd_validator s) (vd_validator s')"
    by (rule accepted_append [OF accepted_append [OF a1 a2] accepted_append [OF a3 a4]])
  with f r show ?thesis by (simp add: did_def)
qed

fun structured :: "expr \<Rightarrow> bool" where
  "structured (BlockExprBase k b) \<longleftrightarrow> True"
| "structured (IfExpr b es) \<longleftrightarrow> True"
| "structured (TryExpr k b cs t) \<longleftrightarrow> True"
| "structured e \<longleftrightarrow> False"

lemma OnExpr_did:
  assumes "run_state (OnExpr_v m e) s = (r, s')" "fine s'"
    and "decls_ok 0 (locals (vd_validator s))" "\<not> in_init_expr (vd_validator s)"
    and "call_ref_free e" "\<not> structured e"
  shows "r = Ok \<and> (\<exists>is. expr_instrs m (env_of (vd_validator s)) e = Some is \<and> did (body_calls is) s s')"
proof (cases e)
  case (BrTableExpr targets default_target)
  with assms show ?thesis by (auto simp: body_calls_def dest!: br_table_did)
next
  case (VarExpr k v)
  with assms show ?thesis by (auto dest: var_expr_did)
next
  case (IndirectExpr k decl table)
  with assms(1,2) show ?thesis
    by (cases k) (auto simp: OnCallIndirectExpr_v_def OnReturnCallIndirectExpr_v_def did_def both_def
      GetFuncTypeIndex_v_index lookup_map dest!: passes_fine call_Ok, auto simp: env_of_def lookup_map)
qed (use assms in \<open>auto simp: did_def env_lookups body_calls_def [of "[]"]
      OnMemoryCopyExpr_v_def OnMemoryInitExpr_v_def OnSimdLoadLaneExpr_v_def
      OnSimdStoreLaneExpr_v_def OnSimdLaneOpExpr_v_def OnSimdShuffleOpExpr_v_def OnConstExpr_v_def
      OnSelectExpr_v_def OnRefNullExpr_v_def OnTableInitExpr_v_def OnTableCopyExpr_v_def
      OnAtomicFenceExpr_v_def OnCodeMetadataExpr_v_def
      dest!: passes_fine passes_option_fine simple_expr_did memory_expr_did opcode_expr_did
        load_store_expr_did lane_Ok operator_Ok entity_Ok
      split: lane_type.splits\<close>)

end
