(* ===== verification/Validator_Bodies.thy ===== *)
theory Validator_Bodies
  imports Validator_Instructions
begin

text \<open>
  Bodies: the visitor, the validator and the shared validator are followed down to the calls of the
  type checker. \<open>holds\<close> is the frame of every call of the delegate, \<open>lost\<close> says that an error is never
  forgotten, and \<open>performs\<close>, proved by induction on the traversal, that a body without errors has
  had exactly the calls of its instructions accepted. With \<open>body_run_typed\<close> this gives its type.
\<close>

section \<open>What every call of the delegate keeps\<close>

text \<open>
  Whatever the outcome, a call of the delegate keeps what its operation of the shared validator
  keeps; and \<open>holds v\<close>: the module's entries and the locals stay as \<open>v\<close> has them.
\<close>

definition of_validator :: "(shared_validator \<Rightarrow> bool) \<Rightarrow> validator \<Rightarrow> bool" where
  "of_validator I s \<longleftrightarrow> I (vd_validator s)"

abbreviation holds :: "shared_validator \<Rightarrow> validator \<Rightarrow> bool" where
  "holds v \<equiv> of_validator (steady v)"

lemmas holds_def = of_validator_def

lemma accrue_validator:
  "vd_validator (snd (run_state (accrue M) s)) = snd (run_state M (vd_validator s))"
  "vd_validator (snd (run_state (accrue_option N) s)) = snd (run_state N (vd_validator s))"
  by (auto simp: accrue_def accrue_option_def split: prod.splits option.splits)

lemma keeps_accrue: "keeps I M \<Longrightarrow> keeps (of_validator I) (accrue M)"
  by (simp add: keeps_def of_validator_def accrue_validator)

lemma keeps_accrue_option: "keeps I M \<Longrightarrow> keeps (of_validator I) (accrue_option M)"
  by (simp add: keeps_def of_validator_def accrue_validator)

lemma keeps_passes: "keeps I M \<Longrightarrow> keeps (of_validator I) (passes M)"
  unfolding passes_def by (intro keeps_bind keeps_accrue keeps_return)

lemma keeps_passes_option: "keeps I M \<Longrightarrow> keeps (of_validator I) (passes_option M)"
  unfolding passes_option_def by (intro keeps_bind keeps_accrue_option keeps_return)

lemmas passes_rules = keeps_passes keeps_passes_option keeps_accrue keeps_bind keeps_return

context instruction_frame
begin

lemma on_br_table_targets: "keeps (of_validator I) (br_table_targets vs)"
  by (induction vs) (auto intro!: passes_rules steady_intros)

lemma on_OnCallRefExpr: "keeps (of_validator I) OnCallRefExpr_v"
proof -
  have "keeps (of_validator I) (State (\<lambda>s.
       (let ((r, out), v) = run_state (OnCallRef no_location) (vd_validator s)
        in (out, s\<lparr>vd_validator := v, vd_result := result_or (vd_result s) r\<rparr>))))"
    using on_calls(5) [of no_location]
    by (simp add: keeps_def of_validator_def split: prod.splits) (metis snd_conv)
  then show ?thesis unfolding OnCallRefExpr_v_def
    by (intro keeps_bind keeps_gets keeps_if keeps_return keeps_modify) (simp_all add: of_validator_def)
qed

lemma on_simple: "keeps (of_validator I) (simple_expr_v k)"
  by (cases k) (auto simp: OnDropExpr_v_def OnNopExpr_v_def OnReturnExpr_v_def
      OnUnreachableExpr_v_def OnRefIsNullExpr_v_def intro!: passes_rules steady_intros)

lemma on_memory_expr: "keeps (of_validator I) (memory_expr_v k w)"
  by (cases k) (auto simp: OnMemoryGrowExpr_v_def OnMemorySizeExpr_v_def OnMemoryFillExpr_v_def
      intro!: passes_rules steady_intros)

lemma on_opcode: "keeps (of_validator I) (opcode_expr_v k op)"
  by (cases k) (auto simp: OnBinaryExpr_v_def OnCompareExpr_v_def OnConvertExpr_v_def
      OnUnaryExpr_v_def OnTernaryExpr_v_def intro!: passes_rules steady_intros)

lemma on_load_store: "keeps (of_validator I) (load_store_expr_v k op w a z)"
  by (cases k) (auto simp: OnLoadExpr_v_def OnStoreExpr_v_def OnAtomicLoadExpr_v_def
      OnAtomicStoreExpr_v_def OnAtomicRmwExpr_v_def OnAtomicRmwCmpxchgExpr_v_def
      OnAtomicWaitExpr_v_def OnAtomicNotifyExpr_v_def OnLoadSplatExpr_v_def OnLoadZeroExpr_v_def
      intro!: passes_rules steady_intros)

lemma on_var: "k \<noteq> RefFuncT \<Longrightarrow> keeps (of_validator I) (var_expr_v k w)"
  by (cases k) (auto simp: OnBrExpr_v_def OnBrIfExpr_v_def OnCallExpr_v_def OnRefFuncExpr_v_def
      OnGlobalGetExpr_v_def OnGlobalSetExpr_v_def OnLocalGetExpr_v_def OnLocalSetExpr_v_def
      OnLocalTeeExpr_v_def OnReturnCallExpr_v_def OnThrowExpr_v_def OnRethrowExpr_v_def
      OnDataDropExpr_v_def OnElemDropExpr_v_def OnTableGetExpr_v_def OnTableSetExpr_v_def
      OnTableGrowExpr_v_def OnTableSizeExpr_v_def OnTableFillExpr_v_def
      intro!: passes_rules steady_intros)

lemma on_OnExpr: "(\<forall>w. e \<noteq> VarExpr RefFuncT w) \<Longrightarrow> keeps (of_validator I) (OnExpr_v m e)"
  by (cases e)
    (auto simp: OnMemoryCopyExpr_v_def OnMemoryInitExpr_v_def OnSimdLoadLaneExpr_v_def
      OnSimdStoreLaneExpr_v_def OnSimdLaneOpExpr_v_def OnSimdShuffleOpExpr_v_def OnConstExpr_v_def
      OnSelectExpr_v_def OnRefNullExpr_v_def OnTableInitExpr_v_def OnTableCopyExpr_v_def
      OnCallIndirectExpr_v_def OnReturnCallIndirectExpr_v_def OnBrTableExpr_v_def
      OnAtomicFenceExpr_v_def OnCodeMetadataExpr_v_def
      intro!: passes_rules steady_intros on_br_table_targets on_OnCallRefExpr on_simple on_memory_expr
        on_opcode on_load_store on_var
      split: lane_type.splits indirect_type.splits)

lemma on_events: "(\<forall>e. c \<noteq> OnExpr e) \<Longrightarrow> keeps (of_validator I) (validator_delegate m c)"
  by (cases c)
    (auto simp: BeginBlockExpr_v_def EndBlockExpr_v_def BeginIfExpr_v_def AfterIfTrueExpr_v_def
      EndIfExpr_v_def BeginLoopExpr_v_def EndLoopExpr_v_def BeginTryExpr_v_def OnCatchExpr_v_def
      OnDelegateExpr_v_def EndTryExpr_v_def intro!: passes_rules steady_intros)

end

context module_frame
begin

lemma on_every_OnExpr: "keeps (of_validator I) (OnExpr_v m e)"
proof (cases "\<exists>w. e = VarExpr RefFuncT w")
  case True
  then show ?thesis by (auto simp: OnRefFuncExpr_v_def intro!: passes_rules steady_intros)
next
  case False
  then show ?thesis by (intro on_OnExpr) blast
qed

lemma on_delegate: "keeps (of_validator I) (validator_delegate m c)"
  using on_every_OnExpr [of m] on_events [of c m] by (cases "\<exists>e. c = OnExpr e") auto

end

lemmas holds_delegate = steady.on_delegate

section \<open>Accepted bodies\<close>

text \<open>
  From here on \<open>v\<close> is the state of the shared validator before the body. As every call keeps the
  entries and the locals of \<open>v\<close>, all expressions of the body are read in the environment of \<open>v\<close>.
\<close>

definition ready :: "shared_validator \<Rightarrow> bool" where
  "ready v \<longleftrightarrow> decls_ok 0 (locals v) \<and> \<not> in_init_expr v"

lemma holds_env: "holds v s \<Longrightarrow> env_of (vd_validator s) = env_of v"
  by (simp add: holds_def env_of_def steady_fields)

lemma holds_ready: "holds v s \<Longrightarrow> ready v \<Longrightarrow>
    decls_ok 0 (locals (vd_validator s)) \<and> \<not> in_init_expr (vd_validator s)"
  by (simp add: holds_def ready_def steady_fields)

lemma holds_run: "holds v s \<Longrightarrow> keeps (holds v) M \<Longrightarrow> run_state M s = (r, s') \<Longrightarrow> holds v s'"
  by (metis keepsD snd_conv)

text \<open>\<open>performs\<close>: if all is fine afterwards, the action has made exactly the calls \<open>cs\<close>, all accepted.\<close>

definition performs :: "shared_validator \<Rightarrow> result vd \<Rightarrow> tc_call list option \<Rightarrow> bool" where
  "performs v M cs \<longleftrightarrow> keeps (holds v) M \<and>
     (\<forall>s r s'. run_state M s = (r, s') \<longrightarrow> holds v s \<longrightarrow> fine s' \<longrightarrow>
        r = Ok \<and> (\<exists>cs'. cs = Some cs' \<and> did cs' s s'))"

lemma performs_CHECK_RESULT:
  assumes "performs v M cs" "performs v N ds"
  shows "performs v (CHECK_RESULT M N) (both (@) cs ds)"
  unfolding performs_def
proof (intro conjI allI impI)
  show "keeps (holds v) (CHECK_RESULT M N)"
    using assms by (intro keeps_CHECK_RESULT) (simp_all add: performs_def)
next
  fix s r s'
  assume run: "run_state (CHECK_RESULT M N) s = (r, s')" and s: "holds v s" and f: "fine s'"
  obtain r1 s1 where M: "run_state M s = (r1, s1)" by force
  have s1: "holds v s1" by (rule holds_run [OF s _ M]) (use assms(1) in \<open>simp add: performs_def\<close>)
  have "r1 = Ok"
  proof (rule ccontr)
    assume "r1 \<noteq> Ok"
    then have "s' = s1" using run M by (cases r1) auto
    then show False using assms(1) M s f \<open>r1 \<noteq> Ok\<close> unfolding performs_def by blast
  qed
  then have N: "run_state N s1 = (r, s')" using run M by simp
  from assms(2) N s1 f obtain ds' where r: "r = Ok" "ds = Some ds'" "did ds' s1 s'"
    unfolding performs_def by blast
  then have "fine s1" by (simp add: did_def)
  with assms(1) M s obtain cs' where "cs = Some cs'" "did cs' s s1" unfolding performs_def by blast
  with r show "r = Ok" "\<exists>xs. both (@) cs ds = Some xs \<and> did xs s s'"
    by (auto simp: both_def intro: did_append)
qed

lemma performs_return: "performs v (State_Monad.return Ok) (Some [])"
  by (auto simp: performs_def did_def intro: keeps_return)

lemma performs_passes:
  assumes "keeps (steady v) M" "\<And>s s'. run_state M s = (Ok, s') \<Longrightarrow> steady v s \<Longrightarrow>
      \<exists>cs'. cs = Some cs' \<and> accepted cs' s s'"
  shows "performs v (passes M) cs"
  using assms keeps_passes [OF assms(1)]
  by (fastforce simp: performs_def did_def holds_def dest: passes_fine)

lemma performs_passes_option:
  assumes "keeps (steady v) M" "\<And>s s'. run_state M s = (Some Ok, s') \<Longrightarrow> steady v s \<Longrightarrow>
      \<exists>cs'. cs = Some cs' \<and> accepted cs' s s'"
  shows "performs v (passes_option M) cs"
  using assms keeps_passes_option [OF assms(1)]
  by (fastforce simp: performs_def did_def holds_def dest: passes_option_fine)

lemma performs_OnExpr:
  "ready v \<Longrightarrow> call_ref_free e \<Longrightarrow> \<not> structured e \<Longrightarrow>
     performs v (OnExpr_v m e) (map_option body_calls (expr_instrs m (env_of v) e))"
  using OnExpr_did [of m e] steady.on_every_OnExpr [of v m e]
  by (fastforce simp: performs_def holds_env dest: holds_ready)

lemma performs_ends:
  "performs v EndBlockExpr_v (Some [PlainCall KEnd])"
  "performs v EndLoopExpr_v (Some [PlainCall KEnd])"
  "performs v EndIfExpr_v (Some [PlainCall KEnd])"
  "performs v EndTryExpr_v (Some [PlainCall KEnd])"
  "performs v (OnDelegateExpr_v t) (Some [DepthCall KDelegate (idx t)])"
  "performs v (AfterIfTrueExpr_v es) (Some (if es = [] then [] else [PlainCall KElse]))"
  by (auto simp: EndBlockExpr_v_def EndLoopExpr_v_def EndIfExpr_v_def EndTryExpr_v_def
      OnDelegateExpr_v_def AfterIfTrueExpr_v_def
      intro!: performs_passes performs_return steady_intros dest: control_Ok)

definition block_call :: "block_call \<Rightarrow> (type_vector \<times> type_vector) option \<Rightarrow> tc_call list option" where
  "block_call k = map_option (\<lambda>(ps, rs). [BlockCall k ps rs])"

lemma steady_block_types: "steady v s \<Longrightarrow> block_types s t = block_types v t"
  by (simp add: block_types_def steady_fields)

lemma performs_begins:
  "performs v (BeginBlockExpr_v m decl) (block_call KBlock (env_block m (env_of v) decl))"
  "performs v (BeginLoopExpr_v m decl) (block_call KLoop (env_block m (env_of v) decl))"
  "performs v (BeginIfExpr_v m decl) (block_call KIf (env_block m (env_of v) decl))"
  "performs v (BeginTryExpr_v m decl) (block_call KTry (env_block m (env_of v) decl))"
  by (auto simp: BeginBlockExpr_v_def BeginLoopExpr_v_def BeginIfExpr_v_def BeginTryExpr_v_def
      env_block_types block_call_def steady_block_types
      intro!: performs_passes_option steady_intros dest!: block_Ok)

definition catch_params :: "env \<Rightarrow> catch \<Rightarrow> type_vector option" where
  "catch_params E c = (if IsCatchAll c then Some [] else lookup (env_tags E) (idx (catch_var c)))"

lemma performs_catch:
  "performs v (OnCatchExpr_v c) (map_option (\<lambda>ps. [SigCall KCatch ps]) (catch_params (env_of v) c))"
  by (cases "IsCatchAll c")
    (auto simp: OnCatchExpr_v_def catch_params_def env_of_def lookup_map steady_fields
      intro!: performs_passes steady_intros dest!: control_Ok)

definition catches_calls :: "(type_vector \<times> instr list) list \<Rightarrow> tc_call list" where
  "catches_calls cs = concat (map (\<lambda>(sig, es). SigCall KCatch sig # body_calls es) cs)"

lemma performs_cong: "performs v M cs \<Longrightarrow> cs = ds \<Longrightarrow> performs v M ds"
  by simp

lemma body_calls_blocks:
  "body_calls [Type_Soundness.Block ps rs is] = BlockCall KBlock ps rs # body_calls is @ [PlainCall KEnd]"
  "body_calls [Loop ps rs is] = BlockCall KLoop ps rs # body_calls is @ [PlainCall KEnd]"
  "body_calls [IfThen ps rs is] = BlockCall KIf ps rs # body_calls is @ [PlainCall KEnd]"
  "body_calls [IfElse ps rs is js] =
     BlockCall KIf ps rs # body_calls is @ [PlainCall KElse] @ body_calls js @ [PlainCall KEnd]"
  "body_calls [Try ps rs is cs] =
     BlockCall KTry ps rs # body_calls is @ catches_calls cs @ [PlainCall KEnd]"
  "body_calls [Type_Soundness.TryDelegate ps rs is d] =
     BlockCall KTry ps rs # body_calls is @ [DepthCall KDelegate d]"
  by (simp_all add: body_calls_def catches_calls_def)

lemma body_calls_append: "body_calls (as @ bs) = body_calls as @ body_calls bs"
  by (simp add: body_calls_def)

lemma both_case:
  "both f a b = (case a of None \<Rightarrow> None | Some x \<Rightarrow> (case b of None \<Rightarrow> None | Some y \<Rightarrow> Some (f x y)))"
  by (simp add: both_def split: option.splits)

lemmas block_cases = block_call_def both_case map_option_case body_calls_blocks

lemma performs_plain:
  "ready v \<Longrightarrow> call_ref_free e \<Longrightarrow> \<not> structured e \<Longrightarrow>
     performs v (traverse_expr (validator_delegate m) e) (map_option body_calls (expr_instrs m (env_of v) e))"
  using performs_OnExpr [of v e m] by (cases e) simp_all

lemma performs_traverse:
  assumes "ready v"
  shows "call_ref_free e \<Longrightarrow>
      performs v (traverse_expr (validator_delegate m) e) (map_option body_calls (expr_instrs m (env_of v) e))"
    and "call_ref_free_list es \<Longrightarrow>
      performs v (traverse_exprs (validator_delegate m) es) (map_option body_calls (exprs_instrs m (env_of v) es))"
    and "call_ref_free_catches cs \<Longrightarrow>
      performs v (traverse_catches (validator_delegate m) e' cs)
        (map_option catches_calls (catches_instrs m (env_of v) cs))"
proof (induction "validator_delegate m" e and "validator_delegate m" es and "validator_delegate m" e' cs
    rule: traverse_expr_traverse_exprs_traverse_catches.induct)
  case (1 l decl es)
  then show ?case
    by (auto intro!: performs_cong [OF performs_CHECK_RESULT [OF performs_begins(1)
          performs_CHECK_RESULT [OF _ performs_ends(1)]]]
        simp: block_cases split: option.splits)
next
  case (2 l decl es)
  then show ?case
    by (auto intro!: performs_cong [OF performs_CHECK_RESULT [OF performs_begins(2)
          performs_CHECK_RESULT [OF _ performs_ends(2)]]]
        simp: block_cases split: option.splits)
next
  case (3 l decl es es')
  then show ?case
    by (cases "es' = []") (auto intro!: performs_cong [OF performs_CHECK_RESULT [OF performs_begins(3)
          performs_CHECK_RESULT [OF _ performs_CHECK_RESULT [OF performs_ends(6)
          performs_CHECK_RESULT [OF _ performs_ends(3)]]]]]
        simp: block_cases split: option.splits)
next
  case (4 kind l decl es cs t)
  show ?case
  proof (cases kind)
    case TryPlain
    with 4 show ?thesis
      by (auto intro!: performs_cong [OF performs_CHECK_RESULT [OF performs_begins(4)
          performs_CHECK_RESULT [OF _ performs_ends(4)]]]
        simp: block_cases catches_calls_def split: option.splits)
  next
    case TryCatch
    with 4 show ?thesis
      by (auto intro!: performs_cong [OF performs_CHECK_RESULT [OF performs_begins(4)
          performs_CHECK_RESULT [OF _ performs_CHECK_RESULT [OF _ performs_ends(4)]]]]
        simp: block_cases split: option.splits)
  next
    case TryDelegate
    with 4 show ?thesis
      by (auto intro!: performs_cong [OF performs_CHECK_RESULT [OF performs_begins(4)
          performs_CHECK_RESULT [OF _ performs_ends(5)]]]
        simp: block_cases split: option.splits)
  qed

next
  case (7 e es)
  then show ?case
    by (auto intro!: performs_cong [OF performs_CHECK_RESULT]
        simp: both_case map_option_case body_calls_append split: option.splits)
next
  case (9 e' c es cs)
  then show ?case
    by (auto intro!: performs_cong [OF performs_CHECK_RESULT [OF performs_catch performs_CHECK_RESULT]]
        simp: both_case map_option_case catch_params_def catches_calls_def split: option.splits)
qed ((rule performs_plain [OF assms]; simp)+, simp_all add: performs_return catches_calls_def)

section \<open>Errors stay\<close>

abbreviation lost :: "validator \<Rightarrow> bool" where
  "lost s \<equiv> \<not> fine s"

lemma lost_accrue: "keeps lost (accrue M)" "keeps lost (accrue_option N)"
  by (auto simp: keeps_def fine_def accrue_def accrue_option_def split: prod.splits option.splits)

lemma lost_passes: "keeps lost (passes M)" "keeps lost (passes_option N)"
  unfolding passes_def passes_option_def by (intro keeps_bind lost_accrue keeps_return)+

lemma lost_OnCallRefExpr: "keeps lost OnCallRefExpr_v"
proof -
  have "keeps lost (State (\<lambda>s.
       (let ((r, out), v) = run_state (OnCallRef no_location) (vd_validator s)
        in (out, s\<lparr>vd_validator := v, vd_result := result_or (vd_result s) r\<rparr>))))"
    by (auto simp: keeps_def fine_def split: prod.splits)
  then show ?thesis unfolding OnCallRefExpr_v_def
    by (intro keeps_bind keeps_gets keeps_if keeps_return keeps_modify) (simp_all add: fine_def)
qed

lemma lost_br_table_targets: "keeps lost (br_table_targets vs)"
  by (induction vs) (auto intro!: keeps_bind lost_accrue keeps_return)

lemma lost_delegate: "keeps lost (validator_delegate m c)"
proof (cases c)
  case (OnExpr e)
  have "keeps lost (OnExpr_v m e)"
  proof (cases e)
    case (SimpleExpr k)
    then show ?thesis by (cases k) (simp_all add: OnDropExpr_v_def OnNopExpr_v_def OnReturnExpr_v_def
      OnUnreachableExpr_v_def OnRefIsNullExpr_v_def lost_passes)
  next
    case (MemoryExpr k v)
    then show ?thesis by (cases k) (simp_all add: OnMemoryGrowExpr_v_def OnMemorySizeExpr_v_def
      OnMemoryFillExpr_v_def lost_passes)
  next
    case (OpcodeExpr k op)
    then show ?thesis by (cases k) (simp_all add: OnBinaryExpr_v_def OnCompareExpr_v_def
      OnConvertExpr_v_def OnUnaryExpr_v_def OnTernaryExpr_v_def lost_passes)
  next
    case (LoadStoreExpr k op v a z)
    then show ?thesis by (cases k) (simp_all add: OnLoadExpr_v_def OnStoreExpr_v_def
      OnAtomicLoadExpr_v_def OnAtomicStoreExpr_v_def OnAtomicRmwExpr_v_def OnAtomicRmwCmpxchgExpr_v_def
      OnAtomicWaitExpr_v_def OnAtomicNotifyExpr_v_def OnLoadSplatExpr_v_def OnLoadZeroExpr_v_def lost_passes)
  next
    case (VarExpr k v)
    then show ?thesis by (cases k) (simp_all add: OnBrExpr_v_def OnBrIfExpr_v_def OnCallExpr_v_def
      OnRefFuncExpr_v_def OnGlobalGetExpr_v_def OnGlobalSetExpr_v_def OnLocalGetExpr_v_def
      OnLocalSetExpr_v_def OnLocalTeeExpr_v_def OnReturnCallExpr_v_def OnThrowExpr_v_def
      OnRethrowExpr_v_def OnDataDropExpr_v_def OnElemDropExpr_v_def OnTableGetExpr_v_def
      OnTableSetExpr_v_def OnTableGrowExpr_v_def OnTableSizeExpr_v_def OnTableFillExpr_v_def lost_passes)
  qed (auto simp: OnMemoryCopyExpr_v_def OnMemoryInitExpr_v_def OnSimdLoadLaneExpr_v_def
      OnSimdStoreLaneExpr_v_def OnSimdLaneOpExpr_v_def OnSimdShuffleOpExpr_v_def OnConstExpr_v_def
      OnSelectExpr_v_def OnRefNullExpr_v_def OnTableInitExpr_v_def OnTableCopyExpr_v_def
      OnCallIndirectExpr_v_def OnReturnCallIndirectExpr_v_def OnBrTableExpr_v_def
      OnAtomicFenceExpr_v_def OnCodeMetadataExpr_v_def
      intro!: keeps_bind keeps_return lost_passes lost_accrue lost_br_table_targets lost_OnCallRefExpr
      split: lane_type.splits indirect_type.splits)
  then show ?thesis by (simp add: OnExpr)
qed (auto simp: BeginBlockExpr_v_def EndBlockExpr_v_def BeginIfExpr_v_def AfterIfTrueExpr_v_def
      EndIfExpr_v_def BeginLoopExpr_v_def EndLoopExpr_v_def BeginTryExpr_v_def OnCatchExpr_v_def
      OnDelegateExpr_v_def EndTryExpr_v_def intro!: lost_passes keeps_return)

lemma run_visit_exprs:
  "run_state (visit_exprs m es) s =
     (let (r, s') = run_state (traverse_exprs (validator_delegate m) es) s
      in ((), s'\<lparr>vd_result := result_or (vd_result s') r\<rparr>))"
  by (simp add: visit_exprs_def VisitExprList_traverses Let_def split_beta)

lemma lost_visit_exprs: "keeps lost (visit_exprs m es)"
  using keeps_traverse(2) [of lost "validator_delegate m" es, OF lost_delegate]
  by (auto simp: keeps_def run_visit_exprs fine_def Let_def split_beta)

lemma holds_visit_exprs: "keeps (holds v) (visit_exprs m es)"
  using keeps_traverse(2) [of "holds v" "validator_delegate m" es, OF holds_delegate]
  by (auto simp: keeps_def run_visit_exprs holds_def Let_def split_beta)

lemma fine_before: "keeps lost M \<Longrightarrow> run_state M s = (u, s') \<Longrightarrow> fine s' \<Longrightarrow> fine s"
  by (metis keepsD snd_conv)

lemma keeps_for_each: "(\<And>x. keeps I (f x)) \<Longrightarrow> keeps I (for_each f xs)"
  by (induction xs) (auto intro!: keeps_bind keeps_return)

section \<open>Functions\<close>

lemma visit_exprs_fine:
  assumes "run_state (visit_exprs m es) s = ((), s')" "fine s'"
  shows "\<exists>s1. run_state (traverse_exprs (validator_delegate m) es) s = (Ok, s1) \<and> fine s1 \<and>
    vd_validator s' = vd_validator s1"
  using assms by (auto simp: visit_exprs_def VisitExprList_traverses fine_def split: prod.splits)

lemma visit_exprs_did:
  assumes "run_state (visit_exprs m es) s = ((), s')" "fine s'"
    and "ready (vd_validator s)" "call_ref_free_list es"
  shows "\<exists>body. exprs_instrs m (env_of (vd_validator s)) es = Some body \<and> did (body_calls body) s s'"
proof -
  obtain s1 where s1: "run_state (traverse_exprs (validator_delegate m) es) s = (Ok, s1)" "fine s1"
    "vd_validator s' = vd_validator s1" using visit_exprs_fine [OF assms(1,2)] by blast
  have "performs (vd_validator s) (traverse_exprs (validator_delegate m) es)
      (map_option body_calls (exprs_instrs m (env_of (vd_validator s)) es))"
    by (rule performs_traverse(2) [OF assms(3,4)])
  moreover have "holds (vd_validator s) s" by (simp add: holds_def)
  ultimately obtain body where "exprs_instrs m (env_of (vd_validator s)) es = Some body"
    "did (body_calls body) s s1" using s1(1,2) unfolding performs_def by blast
  then show ?thesis using s1(3) by (auto simp: did_def)
qed

definition declared_locals :: "func \<Rightarrow> type_vector" where
  "declared_locals f = concat (map (\<lambda>(t, n). replicate (unat n) t) (IR.local_types f))"

text \<open>The declarations of the locals change nothing but the locals.\<close>

abbreviation declare_all :: "(wtype \<times> index) list \<Rightarrow> unit vd" where
  "declare_all \<equiv> for_each (\<lambda>(t, count). accrue (OnLocalDecl no_location count t))"

text \<open>What the module has entered so far, and the type checker, without the locals.\<close>

definition entries :: "shared_validator \<Rightarrow> env" where
  "entries s = (env_of s)\<lparr>env_locals := []\<rparr>"

definition apart_locals :: "validator \<Rightarrow> env \<times> bool \<times> type_checker" where
  "apart_locals s = (entries (vd_validator s), in_init_expr (vd_validator s), typechecker (vd_validator s))"

lemma OnLocalDecl_frame:
  "run_state (OnLocalDecl loc n t) s = (Ok, s') \<Longrightarrow>
     entries s' = entries s \<and> in_init_expr s' = in_init_expr s \<and> typechecker s' = typechecker s"
  by (auto simp: OnLocalDecl_def entries_def env_of_def split: if_splits)

lemma local_decls_fine:
  "run_state (declare_all ds) s = (u, s') \<Longrightarrow> fine s' \<Longrightarrow> fine s \<and> apart_locals s' = apart_locals s \<and>
     (decls_ok 0 (locals (vd_validator s)) \<longrightarrow> decls_ok 0 (locals (vd_validator s')) \<and>
     expand_locals 0 (locals (vd_validator s')) = expand_locals 0 (locals (vd_validator s)) @
       concat (map (\<lambda>(t, n). replicate (unat n) t) ds))"
proof (induction ds arbitrary: s)
  case (Cons d ds)
  obtain t n where d: "d = (t, n)" by (cases d)
  from Cons.prems(1) obtain s1 where s1:
    "run_state (accrue (OnLocalDecl no_location n t)) s = ((), s1)"
    "run_state (declare_all ds) s1 = (u, s')" by (auto simp: d split: prod.splits)
  note rest = Cons.IH [OF s1(2) Cons.prems(2)]
  then have "fine s1" by blast
  from accrue_fine [OF s1(1) this] have f: "fine s"
    and run: "run_state (OnLocalDecl no_location n t) (vd_validator s) = (Ok, vd_validator s1)" by auto
  with rest show ?case
    using OnLocalDecl_frame [OF run] OnLocalDecl_expand [OF _ run] by (auto simp: d apart_locals_def)
qed auto

definition decl_env :: "env \<Rightarrow> func_type \<Rightarrow> func \<Rightarrow> env" where
  "decl_env E ft fn = E\<lparr>env_locals := ft_params ft @ declared_locals fn\<rparr>"

lemma BeginFunctionBody_Ok:
  assumes "run_state (BeginFunctionBody loc i) s = (Ok, s')"
    and "lookup (env_funcs (entries s)) i = Some ft" "length (ft_params ft) < 2 ^ 32"
  shows "steps [SigCall KBeginFunction (ft_results ft)] (typechecker s) (typechecker s') \<and>
    entries s' = entries s \<and> in_init_expr s' = in_init_expr s \<and>
    decls_ok 0 (locals s') \<and> expand_locals 0 (locals s') = ft_params ft"
proof -
  let ?s = "s\<lparr>expr_loc := loc, locals := add_params (ft_params ft) []\<rparr>"
  have i: "unat i < length (Shared_Validator.funcs s)" "Shared_Validator.funcs s ! unat i = ft"
    using assms(2) by (auto simp: lookup_def entries_def env_of_def split: if_splits)
  with assms(1) have "run_state (call_tc (BeginFunction (ft_results ft))) ?s = (Ok, s')"
    by (simp add: BeginFunctionBody_def)
  then have a: "accepted [SigCall KBeginFunction (ft_results ft)] ?s s'" by (rule call_tc_ops)
  have "decls_ok 0 (add_params (ft_params ft) [])" "expand_locals 0 (add_params (ft_params ft) []) = ft_params ft"
    using add_params_expand [of "[]" "ft_params ft"] assms(3) by (simp_all add: last_end_def)
  with a show ?thesis by (auto simp: accepted_def entries_def env_of_def steady_fields)
qed

lemma check_body_typed:
  assumes run: "run_state (check_body_field m (i, fn)) s = (u, s')" "fine s'"
    and "\<not> in_init_expr (vd_validator s)"
    and "lookup (env_funcs (entries (vd_validator s))) i = Some ft" "length (ft_params ft) < 2 ^ 32"
    and "call_ref_free_list (func_exprs fn)" "tc_features (typechecker (vd_validator s)) = f"
  shows "\<exists>body. exprs_instrs m (decl_env (entries (vd_validator s)) ft fn) (func_exprs fn) = Some body \<and>
    (list_all (wf_instr f) body \<longrightarrow> list_all proper (ft_results ft) \<longrightarrow>
      (\<exists>ts. typing f [(LtFunc, [], ft_results ft)] body [] ts \<and> list_all2 sub ts (ft_results ft)))"
proof -
  let ?v = "vd_validator"
  obtain s1 s2 s3 where run:
    "run_state (accrue (BeginFunctionBody no_location i)) s = ((), s1)"
    "run_state (declare_all (IR.local_types fn)) s1 = ((), s2)"
    "run_state (visit_exprs m (func_exprs fn)) s2 = ((), s3)"
    "run_state (accrue (EndFunctionBody no_location)) s3 = ((), s')"
    using run(1) by (auto split: prod.splits)
  from accrue_fine [OF run(4) assms(2)] have f3: "fine s3"
    and e: "run_state (EndFunctionBody no_location) (?v s3) = (Ok, ?v s')" by auto
  from run(3) f3 have f2: "fine s2" by (rule fine_before [OF lost_visit_exprs])
  from local_decls_fine [OF run(2) f2] have f1: "fine s1"
    and l2: "apart_locals s2 = apart_locals s1"
    and d2: "decls_ok 0 (locals (?v s1)) \<Longrightarrow> decls_ok 0 (locals (?v s2)) \<and>
      expand_locals 0 (locals (?v s2)) = expand_locals 0 (locals (?v s1)) @ declared_locals fn"
    by (auto simp: declared_locals_def)
  from accrue_fine [OF run(1) f1] have b: "run_state (BeginFunctionBody no_location i) (?v s) = (Ok, ?v s1)"
    by auto
  note b1 = BeginFunctionBody_Ok [OF b assms(4,5)]
  have E: "env_of (?v s2) = decl_env (entries (?v s)) ft fn"
    using b1 d2 l2 by (auto simp: entries_def env_of_def decl_env_def apart_locals_def)
  have "ready (?v s2)" using b1 d2 l2 assms(3) by (auto simp: ready_def apart_locals_def)
  from visit_exprs_did [OF run(3) f3 this assms(6)] obtain body where
    body: "exprs_instrs m (decl_env (entries (?v s)) ft fn) (func_exprs fn) = Some body"
    and a3: "accepted (body_calls body) (?v s2) (?v s3)" by (auto simp: did_def E)
  have "accepted [PlainCall KEndFunction] (?v s3\<lparr>expr_loc := no_location\<rparr>) (?v s')"
    using e by (auto simp: EndFunctionBody_def dest: call_tc_ops)
  then have "steps (body_calls body @ [PlainCall KEndFunction]) (typechecker (?v s2)) (typechecker (?v s'))"
    using a3 by (auto simp: accepted_def intro: steps_append)
  then have "steps ([SigCall KBeginFunction (ft_results ft)] @ body_calls body @ [PlainCall KEndFunction])
      (typechecker (?v s)) (typechecker (?v s'))"
    using b1 l2 by (auto simp: apart_locals_def intro: steps_append simp del: append_Cons append.append_Nil)
  then obtain t where "run_ok (SigCall KBeginFunction (ft_results ft) # body_calls body @
      [PlainCall KEndFunction]) (typechecker (?v s)) = Some t" by (auto simp: steps_def)
  with body show ?thesis using body_run_typed [of "typechecker (?v s)" body "ft_results ft"] assms(7)
    by blast
qed

end
