(* ===== verification/Validator_Soundness.thy ===== *)
theory Validator_Soundness
  imports Validator_Bodies
begin

text \<open>
  The validator of modules is sound: the body of every function of a module that it accepts has a
  type, in the index spaces of the module. These are stated without the validator (\<open>module_env\<close>),
  and the loops over the fields are shown to enter exactly them; the locale \<open>module_frame\<close> has what holds
  of each invariant that does not read the fields which checking an instruction changes.
\<close>

section \<open>The entries of a module\<close>

fun type_fields :: "module_field list \<Rightarrow> type_entry list" where
  "type_fields [] = []"
| "type_fields (TypeField t # fs) = t # type_fields fs"
| "type_fields (f # fs) = type_fields fs"

fun entry_type :: "module \<Rightarrow> type_entry \<Rightarrow> func_type option" where
  "entry_type m (IR.FuncType nm sig) = Some \<lparr>ft_params = param_types sig,
     ft_results = IR.result_types sig, ft_type_index = GetFuncTypeIndex_sig m sig\<rparr>"
| "entry_type m t = None"

definition types_from :: "module \<Rightarrow> type_entry list \<Rightarrow> index \<Rightarrow> func_type option" where
  "types_from m ts i = (if unat i < length ts then entry_type m (ts ! unat i) else None)"

definition module_types :: "module \<Rightarrow> index \<Rightarrow> func_type option" where
  "module_types m = types_from m (type_fields (fields_of m))"

definition sig_of :: "(index \<Rightarrow> func_type option) \<Rightarrow> module \<Rightarrow> func_declaration \<Rightarrow> func_type" where
  "sig_of T m decl =
     (case T (var_index (GetFuncTypeIndex_v m decl)) of Some ft \<Rightarrow> ft | None \<Rightarrow> default_func_type)"

text \<open>What one field adds to the index spaces: as an import, or as a definition of its kind.\<close>

definition no_entries :: env where
  "no_entries = \<lparr>env_types = Map.empty, env_funcs = [], env_tables = [], env_memories = [],
     env_globals = [], env_tags = [], env_locals = []\<rparr>"

type_synonym types = "index \<Rightarrow> func_type option"

fun import_entries :: "module \<Rightarrow> types \<Rightarrow> module_field \<Rightarrow> env" where
  "import_entries m T (ImportField i) =
     (case import_desc i of
        FuncImport f \<Rightarrow> no_entries\<lparr>env_funcs := [sig_of T m (func_decl f)]\<rparr>
      | TableImport t \<Rightarrow> no_entries\<lparr>env_tables := [(table_elem_type t, elem_limits t)]\<rparr>
      | MemoryImport x \<Rightarrow> no_entries\<lparr>env_memories := [page_limits x]\<rparr>
      | GlobalImport g \<Rightarrow> no_entries\<lparr>env_globals := [global_type g]\<rparr>
      | TagImport t \<Rightarrow> no_entries\<lparr>env_tags := [ft_params (sig_of T m (tag_decl t))]\<rparr>)"
| "import_entries m T f = no_entries"

fun func_entries :: "module \<Rightarrow> types \<Rightarrow> module_field \<Rightarrow> env" where
  "func_entries m T (FuncField f) = no_entries\<lparr>env_funcs := [sig_of T m (func_decl f)]\<rparr>"
| "func_entries m T f = no_entries"

fun table_entries :: "module_field \<Rightarrow> env" where
  "table_entries (TableField t) = no_entries\<lparr>env_tables := [(table_elem_type t, elem_limits t)]\<rparr>"
| "table_entries f = no_entries"

fun memory_entries :: "module_field \<Rightarrow> env" where
  "memory_entries (MemoryField x) = no_entries\<lparr>env_memories := [page_limits x]\<rparr>"
| "memory_entries f = no_entries"

fun global_entries :: "module_field \<Rightarrow> env" where
  "global_entries (GlobalField g) = no_entries\<lparr>env_globals := [global_type g]\<rparr>"
| "global_entries f = no_entries"

fun tag_entries :: "module \<Rightarrow> types \<Rightarrow> module_field \<Rightarrow> env" where
  "tag_entries m T (TagField t) = no_entries\<lparr>env_tags := [ft_params (sig_of T m (tag_decl t))]\<rparr>"
| "tag_entries m T f = no_entries"

definition add_entries :: "env \<Rightarrow> env \<Rightarrow> env" where
  "add_entries E D = E\<lparr>env_funcs := env_funcs E @ env_funcs D, env_tables := env_tables E @ env_tables D,
     env_memories := env_memories E @ env_memories D, env_globals := env_globals E @ env_globals D,
     env_tags := env_tags E @ env_tags D\<rparr>"

definition add_all :: "(module_field \<Rightarrow> env) \<Rightarrow> module_field list \<Rightarrow> env \<Rightarrow> env" where
  "add_all d fs E = fold (\<lambda>x E. add_entries E (d x)) fs E"

text \<open>The index spaces of a module: the imports come first, then the definitions.\<close>

definition module_env :: "module \<Rightarrow> env" where
  "module_env m = (let T = module_types m; fs = fields_of m in
     add_all (tag_entries m T) fs (add_all global_entries fs (add_all memory_entries fs
     (add_all table_entries fs (add_all (func_entries m T) fs (add_all (import_entries m T) fs
       (no_entries\<lparr>env_types := T\<rparr>)))))))"

lemma add_entries_none [simp]: "add_entries E no_entries = E"
  by (simp add: add_entries_def no_entries_def)

lemma env_types_add [simp]: "env_types (add_entries E D) = env_types E" "env_types (add_all d fs E) = env_types E"
proof -
  show *: "env_types (add_entries E D) = env_types E" for E D by (simp add: add_entries_def)
  show "env_types (add_all d fs E) = env_types E"
    by (induction fs arbitrary: E) (simp_all add: add_all_def *)
qed

lemma env_funcs_add_all:
  "env_funcs (add_all d fs E) = env_funcs E @ concat (map (\<lambda>x. env_funcs (d x)) fs)"
  by (induction fs arbitrary: E) (simp_all add: add_all_def add_entries_def)

section \<open>Phases\<close>

text \<open>More operations that keep what instructions keep.\<close>

context instruction_frame
begin

lemma on_case_kind:
  "\<lbrakk>keeps I a; keeps I b; keeps I c; keeps I d; keeps I e\<rbrakk> \<Longrightarrow>
     keeps I (case k of EkFunc \<Rightarrow> a | EkTable \<Rightarrow> b | EkMemory \<Rightarrow> c | EkGlobal \<Rightarrow> d | EkTag \<Rightarrow> e)"
  by (cases k) simp_all

lemma on_CheckLimits: "keeps I (CheckLimits loc l n d)"
  unfolding CheckLimits_def by (intro keeps_bind keeps_if on_error_if keeps_return)

lemma on_EndModule: "keeps I EndModule"
proof -
  have "keeps I (check_declared_loop vs r)" for vs r
    by (induction vs arbitrary: r)
      (auto simp: CheckDeclaredFunc_def intro!: keeps_bind keeps_gets keeps_return on_error_if)
  then show ?thesis unfolding EndModule_def by (intro keeps_bind keeps_gets)
qed

lemmas rules = keeps_bind keeps_get keeps_gets keeps_if keeps_return on_error_if on_PrintError
  on_indices on_call_tc on_case_prod on_case_kind on_CheckLimits

end

definition calm :: "features \<Rightarrow> shared_validator \<Rightarrow> bool" where
  "calm f s \<longleftrightarrow> tc_features (typechecker s) = f \<and> \<not> in_init_expr s"

interpretation calm: module_frame "calm f" for f
  by unfold_locales (simp_all add: calm_def)

lemma entries_update [simp]:
  "entries (s\<lparr>expr_loc := l\<rparr>) = entries s" "entries (s\<lparr>in_init_expr := b\<rparr>) = entries s"
  "entries (s\<lparr>locals := ls\<rparr>) = entries s" "entries (s\<lparr>elems := es\<rparr>) = entries s"
  "entries (s\<lparr>shared_validator.starts := i\<rparr>) = entries s" "entries (s\<lparr>shared_validator.data_segments := i\<rparr>) = entries s"
  "entries (s\<lparr>export_names := ns\<rparr>) = entries s" "entries (s\<lparr>declared_funcs := d\<rparr>) = entries s"
  "entries (s\<lparr>expr_loc := l, locals := ls\<rparr>) = entries s"
  "entries (s\<lparr>expr_loc := l, in_init_expr := b\<rparr>) = entries s"
  "entries (s\<lparr>sv_errors := e\<rparr>) = entries s" "entries (s\<lparr>typechecker := tc\<rparr>) = entries s"
  "entries (s\<lparr>check_declared_funcs := vs\<rparr>) = entries s"
  by (simp_all add: entries_def env_of_def)

definition entered :: "env \<Rightarrow> features \<Rightarrow> shared_validator \<Rightarrow> bool" where
  "entered E f s \<longleftrightarrow> entries s = E \<and> tc_features (typechecker s) = f"

interpretation entered: module_frame "entered E f" for E f
  by unfold_locales (simp_all add: entered_def)


lemma calm_operations:
  "keeps (calm f) (OnFuncType loc ps rs i)" "keeps (calm f) (OnStructType loc fs)"
  "keeps (calm f) (OnArrayType loc x)" "keeps (calm f) (OnFunction loc v)"
  "keeps (calm f) (OnTable loc t l)" "keeps (calm f) (OnMemory loc l)"
  "keeps (calm f) (OnGlobalImport loc t b)" "keeps (calm f) (OnGlobal loc t b)"
  "keeps (calm f) (OnTag loc v)" "keeps (calm f) (OnExport loc k v nm)" "keeps (calm f) (OnStart loc v)"
  "keeps (calm f) (OnElemSegment loc v sk)" "keeps (calm f) (OnElemSegmentElemType loc t)"
  "keeps (calm f) (OnDataSegment loc v sk)" "keeps (calm f) (OnLocalDecl loc n t)"
  "keeps (calm f) (BeginFunctionBody loc i)" "keeps (calm f) (EndFunctionBody loc)"
  unfolding OnFuncType_def OnStructType_def OnArrayType_def OnFunction_def OnTable_def OnMemory_def
    OnGlobalImport_def OnGlobal_def OnTag_def OnExport_def OnStart_def OnElemSegment_def
    OnElemSegmentElemType_def OnDataSegment_def OnLocalDecl_def BeginFunctionBody_def
    EndFunctionBody_def Let_def
  by (intro calm.rules keeps_modify blind_intros; simp add: calm_def)+

lemma entered_operations:
  "keeps (entered E f) (OnExport loc k v nm)" "keeps (entered E f) (OnStart loc v)"
  "keeps (entered E f) (OnElemSegment loc v sk)" "keeps (entered E f) (OnElemSegmentElemType loc t)"
  "keeps (entered E f) (OnDataSegment loc v sk)" "keeps (entered E f) (OnLocalDecl loc n t)"
  "keeps (entered E f) (BeginFunctionBody loc i)" "keeps (entered E f) (EndFunctionBody loc)"
  "keeps (entered E f) (BeginInitExpr_sv loc t)" "keeps (entered E f) EndInitExpr_sv"
  "keeps (entered E f) (OnDataCount n)"
  unfolding OnExport_def OnStart_def OnElemSegment_def OnElemSegmentElemType_def OnDataSegment_def
    OnLocalDecl_def BeginFunctionBody_def EndFunctionBody_def BeginInitExpr_sv_def EndInitExpr_sv_def
    OnDataCount_def Let_def
  by (intro entered.rules keeps_modify blind_intros;
      simp add: entered_def)+


section \<open>The loops over the fields\<close>

abbreviation quiet :: "features \<Rightarrow> validator \<Rightarrow> bool" where
  "quiet f \<equiv> of_validator (calm f)"

abbreviation settled :: "env \<Rightarrow> features \<Rightarrow> validator \<Rightarrow> bool" where
  "settled E f \<equiv> of_validator (entered E f)"

text \<open>Phases that enter nothing.\<close>

context module_frame
begin

lemma on_visit_exprs: "keeps (of_validator I) (visit_exprs m es)"
  using keeps_traverse(2) [of "of_validator I" "validator_delegate m" es, OF on_delegate]
  by (auto simp: keeps_def run_visit_exprs of_validator_def Let_def split_beta)

end

lemma entered_init_expr: "keeps (settled E f) (check_init_expr m t es)"
  unfolding check_init_expr_def by (intro keeps_bind keeps_accrue entered_operations entered.on_visit_exprs)

lemma calm_init_expr: "keeps (quiet f) (check_init_expr m t es)"
proof (rule keepsI)
  fix s :: validator
  assume "quiet f s"
  then have "settled (entries (vd_validator s)) f s" by (simp add: of_validator_def entered_def calm_def)
  with entered_init_expr have "settled (entries (vd_validator s)) f (snd (run_state (check_init_expr m t es) s))"
    by (rule keepsD)
  moreover have "\<not> in_init_expr (vd_validator (snd (run_state (check_init_expr m t es) s)))"
  proof -
    have end_init: "\<not> in_init_expr (snd (run_state EndInitExpr_sv v))" for v
      by (simp add: EndInitExpr_sv_def call_tc_def Let_def split_beta)
    show ?thesis
      by (simp add: check_init_expr_def split_beta accrue_validator end_init)
  qed
  ultimately show "quiet f (snd (run_state (check_init_expr m t es) s))"
    by (simp add: of_validator_def calm_def entered_def)
qed


lemma keeps_split: "(\<And>a b. keeps J (g a b)) \<Longrightarrow> keeps J (case p of (a, b) \<Rightarrow> g a b)"
  by (cases p) simp

lemma lost_init_expr: "keeps lost (check_init_expr m t es)"
  unfolding check_init_expr_def by (intro keeps_bind lost_accrue lost_visit_exprs)

lemmas lost_rules = keeps_bind keeps_if keeps_return keeps_for_each keeps_split lost_accrue
  lost_visit_exprs lost_init_expr

lemma lost_fields:
  "keeps lost (check_type_field m x)" "keeps lost (check_import_field m x)"
  "keeps lost (check_func_field m x)" "keeps lost (check_table_field x)"
  "keeps lost (check_memory_field x)" "keeps lost (check_global_field m x)"
  "keeps lost (check_tag_field m x)" "keeps lost (check_export_field x)"
  "keeps lost (check_start_field x)" "keeps lost (check_elem_field m x)"
  "keeps lost (check_data_field m x)"
  subgoal by (cases "(m, x)" rule: check_type_field.cases) (auto intro!: lost_rules)
  subgoal by (cases x) (auto intro!: lost_rules split: import_desc.splits)
  by (cases x; simp split del: if_split; intro lost_rules)+

lemma lost_body: "keeps lost (check_body_field m x)"
  by (cases x) (simp, intro lost_rules)

text \<open>In each loop the flag and the features of the type checker stay as they are.\<close>

lemmas quiet_rules = keeps_bind keeps_if keeps_return keeps_for_each keeps_split keeps_accrue
  calm_operations calm.on_visit_exprs calm_init_expr calm.on_EndModule

lemma quiet_fields:
  "keeps (quiet f) (check_type_field m x)" "keeps (quiet f) (check_import_field m x)"
  "keeps (quiet f) (check_func_field m x)" "keeps (quiet f) (check_table_field x)"
  "keeps (quiet f) (check_memory_field x)" "keeps (quiet f) (check_global_field m x)"
  "keeps (quiet f) (check_tag_field m x)" "keeps (quiet f) (check_export_field x)"
  "keeps (quiet f) (check_start_field x)" "keeps (quiet f) (check_elem_field m x)"
  "keeps (quiet f) (check_data_field m x)"
  subgoal by (cases "(m, x)" rule: check_type_field.cases) (auto intro!: quiet_rules)
  subgoal by (cases x) (auto intro!: quiet_rules split: import_desc.splits)
  by (cases x; simp split del: if_split; intro quiet_rules)+

lemma quiet_body: "keeps (quiet f) (check_body_field m x)"
  by (cases x) (simp, intro quiet_rules)

lemmas settled_rules = keeps_bind keeps_if keeps_return keeps_for_each keeps_split keeps_accrue
  entered_operations entered.on_visit_exprs entered_init_expr entered.on_EndModule

lemma settled_fields:
  "keeps (settled E f) (check_export_field x)" "keeps (settled E f) (check_start_field x)"
  "keeps (settled E f) (check_elem_field m x)"
  by (cases x; simp split del: if_split; intro settled_rules)+

lemma settled_body: "keeps (settled E f) (check_body_field m x)"
  by (cases x) (simp, intro settled_rules)


text \<open>Phases that enter something.\<close>

lemma types_from_snoc:
  assumes "length ts < 2 ^ 32"
  shows "types_from m (ts @ [t]) = (types_from m ts)(of_nat (length ts) := entry_type m t)"
proof
  fix i :: index
  have "i = of_nat (length ts) \<longleftrightarrow> unat i = length ts"
    using assms by (simp add: word_eq_iff_unsigned [where 'a = nat] unsigned_of_nat take_bit_nat_eq_self)
  then show "types_from m (ts @ [t]) i = ((types_from m ts)(of_nat (length ts) := entry_type m t)) i"
    by (auto simp: types_from_def nth_append)
qed

lemma types_from_past: "length ts < 2 ^ 32 \<Longrightarrow> types_from m ts (of_nat (length ts)) = None"
  by (simp add: types_from_def unsigned_of_nat take_bit_nat_eq_self)

lemma types_from_Nil [simp]: "types_from m [] = Map.empty"
  by (simp add: types_from_def fun_eq_iff)

lemma OnType_enters:
  "run_state (OnFuncType loc ps rs i) v = (Ok, v') \<Longrightarrow> num_types v' = num_types v + 1 \<and>
     entries v' = (entries v)\<lparr>env_types := (env_types (entries v))(num_types v \<mapsto>
       \<lparr>ft_params = ps, ft_results = rs, ft_type_index = i\<rparr>)\<rparr>"
  "run_state (OnStructType loc xs) v = (Ok, v') \<Longrightarrow>
     num_types v' = num_types v + 1 \<and> entries v' = entries v"
  "run_state (OnArrayType loc x) v = (Ok, v') \<Longrightarrow>
     num_types v' = num_types v + 1 \<and> entries v' = entries v"
  by (auto simp: OnFuncType_def OnStructType_def OnArrayType_def entries_def env_of_def split: if_splits)

lemma check_type_field_enters:
  assumes "run_state (check_type_field m (TypeField t)) s = (u, s')" "fine s'"
    and "entries (vd_validator s) = no_entries\<lparr>env_types := types_from m ts\<rparr>"
    and "num_types (vd_validator s) = of_nat (length ts)" "length ts < 2 ^ 32"
  shows "entries (vd_validator s') = no_entries\<lparr>env_types := types_from m (ts @ [t])\<rparr> \<and>
    num_types (vd_validator s') = of_nat (length (ts @ [t]))"
proof -
  have "(types_from m ts)(of_nat (length ts) := None) = types_from m ts"
    using types_from_past [OF assms(5), of m] by (simp add: fun_upd_idem)
  then show ?thesis
    using assms(1,2,3,4)
    by (cases t) (auto simp: types_from_snoc [OF assms(5)] dest!: accrue_fine OnType_enters)
qed

lemma check_types_enter:
  "run_state (for_each (check_type_field m) fs) s = (u, s') \<Longrightarrow> fine s' \<Longrightarrow>
     entries (vd_validator s) = no_entries\<lparr>env_types := types_from m ts\<rparr> \<Longrightarrow>
     num_types (vd_validator s) = of_nat (length ts) \<Longrightarrow> length ts + length fs < 2 ^ 32 \<Longrightarrow>
     entries (vd_validator s') = no_entries\<lparr>env_types := types_from m (ts @ type_fields fs)\<rparr>"
proof (induction fs arbitrary: s ts)
  case (Cons x fs)
  from Cons.prems(1) obtain s1 where s1: "run_state (check_type_field m x) s = ((), s1)"
    "run_state (for_each (check_type_field m) fs) s1 = (u, s')" by (auto split: prod.splits)
  have f1: "fine s1"
    by (rule fine_before [OF _ s1(2) Cons.prems(2)]) (intro keeps_for_each lost_fields)
  show ?case
  proof (cases "\<exists>t. x = TypeField t")
    case True
    then obtain t where t: "x = TypeField t" ..
    show ?thesis
      using check_type_field_enters [OF s1(1) [unfolded t] f1 Cons.prems(3,4)]
        Cons.IH [OF s1(2) Cons.prems(2), of "ts @ [t]"] Cons.prems(5) by (simp add: t)
  next
    case False
    then have "s1 = s" "type_fields (x # fs) = type_fields fs" using s1(1) by (cases x; simp)+
    then show ?thesis using Cons.IH [OF s1(2) Cons.prems(2)] Cons.prems by simp
  qed
qed simp

lemma for_each_enters:
  assumes step: "\<And>x s s'. run_state (f x) s = ((), s') \<Longrightarrow> fine s' \<Longrightarrow> env_types (entries (vd_validator s)) = T \<Longrightarrow>
      entries (vd_validator s') = add_entries (entries (vd_validator s)) (d x)"
    and lost: "\<And>x. keeps lost (f x)"
  shows "run_state (for_each f xs) s = (u, s') \<Longrightarrow> fine s' \<Longrightarrow> env_types (entries (vd_validator s)) = T \<Longrightarrow>
     entries (vd_validator s') = add_all d xs (entries (vd_validator s))"
proof (induction xs arbitrary: s)
  case (Cons x xs)
  from Cons.prems(1) obtain s1 where s1: "run_state (f x) s = ((), s1)"
    "run_state (for_each f xs) s1 = (u, s')" by (auto split: prod.splits)
  have "fine s1" by (rule fine_before [OF keeps_for_each [OF lost] s1(2) Cons.prems(2)])
  from step [OF s1(1) this Cons.prems(3)] Cons.IH [OF s1(2) Cons.prems(2)] Cons.prems(3)
  show ?case by (simp add: add_all_def)
qed (simp add: add_all_def)

lemma OnFunction_enters:
  "run_state (OnFunction loc v) s = (Ok, s') \<Longrightarrow> \<exists>ft. func_types s (var_index v) = Some ft \<and>
     entries s' = add_entries (entries s) (no_entries\<lparr>env_funcs := [ft]\<rparr>)"
  by (auto simp: OnFunction_def entries_def env_of_def add_entries_def no_entries_def
      dest!: CheckFuncTypeIndex_Ok split: prod.splits)

lemma OnTag_enters:
  "run_state (OnTag loc v) s = (Ok, s') \<Longrightarrow> \<exists>ft. func_types s (var_index v) = Some ft \<and>
     entries s' = add_entries (entries s) (no_entries\<lparr>env_tags := [ft_params ft]\<rparr>)"
  by (auto simp: OnTag_def entries_def env_of_def add_entries_def no_entries_def
      dest!: CheckFuncTypeIndex_Ok split: prod.splits if_splits)

lemma entered_run: "run_state M s = (r, s1) \<Longrightarrow> (\<And>E f. keeps (entered E f) M) \<Longrightarrow> entries s1 = entries s"
  by (metis (mono_tags) entered_def of_validator_def keepsD snd_conv)

lemma entered_checks: "run_state (error_if b loc msg) s = (r, s1) \<Longrightarrow> entries s1 = entries s"
  "run_state (CheckLimits loc l n d) s = (r, s1) \<Longrightarrow> entries s1 = entries s"
  "run_state (PrintError_sv loc msg) s = (r, s1) \<Longrightarrow> entries s1 = entries s"
  by (erule entered_run, rule entered.on_error_if entered.on_CheckLimits entered.on_PrintError)+

lemma entries_modify:
  "entries (s\<lparr>shared_validator.tables := Shared_Validator.tables s @ [t]\<rparr>) =
     add_entries (entries s) (no_entries\<lparr>env_tables := [(tt_element t, tt_limits t)]\<rparr>)"
  "entries (s\<lparr>shared_validator.memories := Shared_Validator.memories s @ [x]\<rparr>) =
     add_entries (entries s) (no_entries\<lparr>env_memories := [mt_limits x]\<rparr>)"
  "entries (s\<lparr>shared_validator.globals := Shared_Validator.globals s @ [g]\<rparr>) =
     add_entries (entries s) (no_entries\<lparr>env_globals := [gt_type g]\<rparr>)"
  "entries (s\<lparr>shared_validator.globals := Shared_Validator.globals s @ [g], num_imported_globals := n\<rparr>) =
     add_entries (entries s) (no_entries\<lparr>env_globals := [gt_type g]\<rparr>)"
  by (simp_all add: entries_def env_of_def add_entries_def no_entries_def)

lemma On_entries_enter:
  "run_state (OnTable loc t l) s = (Ok, s') \<Longrightarrow>
     entries s' = add_entries (entries s) (no_entries\<lparr>env_tables := [(t, l)]\<rparr>)"
  "run_state (OnMemory loc l) s = (Ok, s') \<Longrightarrow>
     entries s' = add_entries (entries s) (no_entries\<lparr>env_memories := [l]\<rparr>)"
  "run_state (OnGlobalImport loc t b) s = (Ok, s') \<Longrightarrow>
     entries s' = add_entries (entries s) (no_entries\<lparr>env_globals := [t]\<rparr>)"
  "run_state (OnGlobal loc t b) s = (Ok, s') \<Longrightarrow>
     entries s' = add_entries (entries s) (no_entries\<lparr>env_globals := [t]\<rparr>)"
  by (auto simp: OnTable_def OnMemory_def OnGlobalImport_def OnGlobal_def entries_modify Let_def
    simp del: run_error_if run_PrintError
    dest!: entered_checks split: prod.splits if_splits)


lemma sig_of_Some: "func_types (vd_validator s) (var_index (GetFuncTypeIndex_v m decl)) = Some ft \<Longrightarrow>
    env_types (entries (vd_validator s)) = T \<Longrightarrow> sig_of T m decl = ft"
  by (auto simp: sig_of_def entries_def env_of_def)

lemma fields_enter:
  "run_state (check_import_field m x) s = ((), s') \<Longrightarrow> fine s' \<Longrightarrow> env_types (entries (vd_validator s)) = T \<Longrightarrow>
     entries (vd_validator s') = add_entries (entries (vd_validator s)) (import_entries m T x)"
  "run_state (check_func_field m x) s = ((), s') \<Longrightarrow> fine s' \<Longrightarrow> env_types (entries (vd_validator s)) = T \<Longrightarrow>
     entries (vd_validator s') = add_entries (entries (vd_validator s)) (func_entries m T x)"
  "run_state (check_table_field x) s = ((), s') \<Longrightarrow> fine s' \<Longrightarrow> env_types (entries (vd_validator s)) = T \<Longrightarrow>
     entries (vd_validator s') = add_entries (entries (vd_validator s)) (table_entries x)"
  "run_state (check_memory_field x) s = ((), s') \<Longrightarrow> fine s' \<Longrightarrow> env_types (entries (vd_validator s)) = T \<Longrightarrow>
     entries (vd_validator s') = add_entries (entries (vd_validator s)) (memory_entries x)"
  "run_state (check_tag_field m x) s = ((), s') \<Longrightarrow> fine s' \<Longrightarrow> env_types (entries (vd_validator s)) = T \<Longrightarrow>
     entries (vd_validator s') = add_entries (entries (vd_validator s)) (tag_entries m T x)"
  subgoal
    by (cases x) (auto split: import_desc.splits
      dest!: accrue_fine OnFunction_enters OnTag_enters On_entries_enter dest: sig_of_Some)
  by (cases x; force dest!: accrue_fine OnFunction_enters OnTag_enters On_entries_enter dest: sig_of_Some)+

lemma settled_run: "run_state M s = (u, s') \<Longrightarrow> (\<And>E f. keeps (settled E f) M) \<Longrightarrow>
    entries (vd_validator s') = entries (vd_validator s)"
  by (metis (mono_tags) entered_def of_validator_def keepsD snd_conv)

lemma global_field_enters:
  assumes "run_state (check_global_field m x) s = ((), s')" "fine s'"
  shows "entries (vd_validator s') = add_entries (entries (vd_validator s)) (global_entries x)"
proof (cases "\<exists>g. x = GlobalField g")
  case True
  then obtain g where g: "x = GlobalField g" ..
  from assms(1) obtain s1 where s1:
    "run_state (accrue (OnGlobal no_location (global_type g) (global_mutable g))) s = ((), s1)"
    "run_state (check_init_expr m (global_type g) (init_expr g)) s1 = ((), s')"
    by (auto simp: g split: prod.splits)
  from fine_before [OF lost_init_expr s1(2) assms(2)] have "fine s1" .
  with s1(1) have "entries (vd_validator s1) = add_entries (entries (vd_validator s)) (global_entries x)"
    by (auto simp: g dest!: accrue_fine On_entries_enter)
  moreover have "entries (vd_validator s') = entries (vd_validator s1)"
    by (rule settled_run [OF s1(2) entered_init_expr])
  ultimately show ?thesis by simp
next
  case False
  then show ?thesis using assms(1) by (cases x) simp_all
qed

text \<open>The module up to the bodies; the initializer expressions come after the first five loops.\<close>

definition CheckSpaces :: "module \<Rightarrow> unit vd" where
  "CheckSpaces m = do {
     for_each (check_type_field m) (fields_of m);
     for_each (check_import_field m) (fields_of m);
     for_each (check_func_field m) (fields_of m);
     for_each check_table_field (fields_of m);
     for_each check_memory_field (fields_of m)
   }"

definition CheckEntries :: "module \<Rightarrow> unit vd" where
  "CheckEntries m = do {
     CheckSpaces m;
     for_each (check_global_field m) (fields_of m);
     for_each (check_tag_field m) (fields_of m);
     for_each check_export_field (fields_of m);
     for_each check_start_field (fields_of m);
     for_each (check_elem_field m) (fields_of m);
     accrue (do { OnDataCount (of_nat (length (IR.data_segments m))); State_Monad.return Ok })
   }"

lemma CheckModule_entries:
  "CheckModule m = do {
     CheckEntries m;
     for_each (check_body_field m) (numbered_funcs m);
     for_each (check_data_field m) (fields_of m);
     accrue EndModule;
     gets vd_result
   }"
  by (simp add: CheckModule_def CheckEntries_def CheckSpaces_def)

text \<open>All of \<open>CheckModule\<close> before \<open>EndModule\<close>.\<close>

definition CheckFields :: "module \<Rightarrow> unit vd" where
  "CheckFields m = do {
     CheckEntries m;
     for_each (check_body_field m) (numbered_funcs m);
     for_each (check_data_field m) (fields_of m)
   }"

lemma CheckModule_fields: "CheckModule m = do { CheckFields m; accrue EndModule; gets vd_result }"
  by (simp add: CheckModule_entries CheckFields_def)

lemma run_unit_bind: "run_state (State_Monad.bind M (\<lambda>_. N)) s = (r, s') \<Longrightarrow>
    \<exists>s1. run_state M s = ((), s1) \<and> run_state N s1 = (r, s')" for M :: "unit vd"
  by (auto split: prod.splits)

lemma lost_loops:
  "keeps lost (for_each (check_import_field m) fs)" "keeps lost (for_each (check_func_field m) fs)"
  "keeps lost (for_each check_table_field fs)" "keeps lost (for_each check_memory_field fs)"
  "keeps lost (for_each (check_global_field m) fs)" "keeps lost (for_each (check_tag_field m) fs)"
  "keeps lost (for_each check_export_field fs)" "keeps lost (for_each check_start_field fs)"
  "keeps lost (for_each (check_elem_field m) fs)" "keeps lost (for_each (check_data_field m) fs)"
  "keeps lost (for_each (check_body_field m) bs)"
  by (intro keeps_for_each lost_fields lost_body)+

lemma settled_loops:
  "keeps (settled E f) (for_each check_export_field fs)" "keeps (settled E f) (for_each check_start_field fs)"
  "keeps (settled E f) (for_each (check_elem_field m) fs)" "keeps (settled E f) (for_each (check_body_field m) bs)"
  "keeps (settled E f) (accrue (do { OnDataCount n; State_Monad.return Ok }))"
  by (intro keeps_for_each settled_fields settled_body keeps_accrue keeps_bind keeps_return
      entered_operations)+

text \<open>The index spaces when the initializer expressions come: all but the defined globals and the tags.\<close>

definition first_entries :: "module \<Rightarrow> env" where
  "first_entries m = (let T = module_types m; fs = fields_of m in
     add_all memory_entries fs (add_all table_entries fs (add_all (func_entries m T) fs
       (add_all (import_entries m T) fs (no_entries\<lparr>env_types := T\<rparr>)))))"

lemma module_env_first: "module_env m = add_all (tag_entries m (module_types m)) (fields_of m)
    (add_all global_entries (fields_of m) (first_entries m))"
  by (simp add: module_env_def first_entries_def Let_def)

lemma env_types_first: "env_types (first_entries m) = module_types m"
  by (simp add: first_entries_def Let_def)

lemma CheckSpaces_enter:
  assumes "run_state (CheckSpaces m) (Validator f) = ((), s5)" "fine s5" "length (fields_of m) < 2 ^ 32"
  shows "entries (vd_validator s5) = first_entries m"
proof -
  let ?fs = "fields_of m" and ?e = "\<lambda>s. entries (vd_validator s)" and ?T = "module_types m"
  obtain s1 s2 s3 s4 where run:
    "run_state (for_each (check_type_field m) ?fs) (Validator f) = ((), s1)"
    "run_state (for_each (check_import_field m) ?fs) s1 = ((), s2)"
    "run_state (for_each (check_func_field m) ?fs) s2 = ((), s3)"
    "run_state (for_each check_table_field ?fs) s3 = ((), s4)"
    "run_state (for_each check_memory_field ?fs) s4 = ((), s5)"
    using assms(1) unfolding CheckSpaces_def by (blast dest!: run_unit_bind)
  note f4 = fine_before [OF lost_loops(4) run(5) assms(2)]
  note f3 = fine_before [OF lost_loops(3) run(4) f4]
  note f2 = fine_before [OF lost_loops(2) run(3) f3]
  note f1 = fine_before [OF lost_loops(1) run(2) f2]
  have e1: "?e s1 = no_entries\<lparr>env_types := ?T\<rparr>"
    using check_types_enter [OF run(1) f1, of "[]"] assms(3)
    by (simp add: module_types_def Validator_def SharedValidator_def entries_def env_of_def no_entries_def)
  have "?e s2 = add_all (import_entries m ?T) ?fs (?e s1)"
    by (rule for_each_enters [OF fields_enter(1) lost_fields(2) run(2) f2]) (simp_all add: e1)
  moreover from this have "?e s3 = add_all (func_entries m ?T) ?fs (?e s2)"
    by (intro for_each_enters [OF fields_enter(2) lost_fields(3) run(3) f3]) (simp_all add: e1)
  moreover from calculation have "?e s4 = add_all table_entries ?fs (?e s3)"
    by (intro for_each_enters [OF fields_enter(3) lost_fields(4) run(4) f4]) (simp_all add: e1)
  moreover from calculation have "?e s5 = add_all memory_entries ?fs (?e s4)"
    by (intro for_each_enters [OF fields_enter(4) lost_fields(5) run(5) assms(2)]) (simp_all add: e1)
  ultimately show ?thesis by (simp add: first_entries_def e1 Let_def)
qed

lemma lost_CheckSpaces: "keeps lost (CheckSpaces m)"
  unfolding CheckSpaces_def by (intro keeps_bind keeps_for_each lost_fields)

text \<open>At the exports everything has been entered.\<close>

lemma CheckEntries_states:
  assumes "run_state (CheckEntries m) (Validator f) = ((), s')" "fine s'" "length (fields_of m) < 2 ^ 32"
  shows "\<exists>s7 s8. run_state (for_each check_export_field (fields_of m)) s7 = ((), s8) \<and> fine s8 \<and>
    entries (vd_validator s7) = module_env m \<and> entries (vd_validator s') = module_env m"
proof -
  let ?fs = "fields_of m" and ?e = "\<lambda>s. entries (vd_validator s)" and ?T = "module_types m"
  obtain s5 s6 s7 s8 s9 s10 where run:
    "run_state (CheckSpaces m) (Validator f) = ((), s5)"
    "run_state (for_each (check_global_field m) ?fs) s5 = ((), s6)"
    "run_state (for_each (check_tag_field m) ?fs) s6 = ((), s7)"
    "run_state (for_each check_export_field ?fs) s7 = ((), s8)"
    "run_state (for_each check_start_field ?fs) s8 = ((), s9)"
    "run_state (for_each (check_elem_field m) ?fs) s9 = ((), s10)"
    "run_state (accrue (do { OnDataCount (of_nat (length (IR.data_segments m))); State_Monad.return Ok })) s10
       = ((), s')"
    using assms(1) unfolding CheckEntries_def by (blast dest!: run_unit_bind)
  note f10 = fine_before [OF lost_accrue(1) run(7) assms(2)]
  note f9 = fine_before [OF lost_loops(9) run(6) f10]
  note f8 = fine_before [OF lost_loops(8) run(5) f9]
  note f7 = fine_before [OF lost_loops(7) run(4) f8]
  note f6 = fine_before [OF lost_loops(6) run(3) f7]
  note f5 = fine_before [OF lost_loops(5) run(2) f6]
  note e5 = CheckSpaces_enter [OF run(1) f5 assms(3)]
  have "?e s6 = add_all global_entries ?fs (?e s5)"
    by (rule for_each_enters [OF global_field_enters lost_fields(6) run(2) f6]) simp_all
  moreover from this have "?e s7 = add_all (tag_entries m ?T) ?fs (?e s6)"
    by (intro for_each_enters [OF fields_enter(5) lost_fields(7) run(3) f7])
      (simp_all add: e5 env_types_first)
  ultimately have e7: "?e s7 = module_env m" by (simp add: e5 module_env_first)
  moreover have "?e s' = ?e s7"
    using settled_run [OF run(7) settled_loops(5)] settled_run [OF run(6) settled_loops(3)]
      settled_run [OF run(5) settled_loops(2)] settled_run [OF run(4) settled_loops(1)] by simp
  ultimately show ?thesis using run(4) f8 by metis
qed

lemma CheckEntries_enter:
  assumes "run_state (CheckEntries m) (Validator f) = ((), s')" "fine s'" "length (fields_of m) < 2 ^ 32"
  shows "entries (vd_validator s') = module_env m"
  using CheckEntries_states [OF assms] by blast

section \<open>Bodies in a module\<close>

lemma AppendFields_Cons: "AppendFields (x # fs) m = AppendFields fs (AppendField x m)"
  by (simp add: AppendFields_def)

lemma fields_of_AppendFields: "fields_of (AppendFields fs m) = fields_of m @ fs"
proof (induction fs arbitrary: m)
  case (Cons x fs)
  have "fields_of (AppendField x m) = fields_of m @ [x]"
    by (cases x) (simp_all add: AppendImport_def Let_def split: import_desc.splits)
  with Cons show ?case by (simp add: AppendFields_Cons)
qed (simp add: AppendFields_def)

lemma func_imports_count_AppendFields:
  "func_imports_count (AppendFields fs m) =
     func_imports_count m + of_nat (length (concat (map (\<lambda>x. env_funcs (import_entries m' T x)) fs)))"
proof (induction fs arbitrary: m)
  case (Cons x fs)
  have "func_imports_count (AppendField x m) =
      func_imports_count m + of_nat (length (env_funcs (import_entries m' T x)))"
    by (cases x) (simp_all add: AppendImport_def Let_def no_entries_def split: import_desc.splits)
  with Cons show ?case by (simp add: AppendFields_Cons)
qed (simp add: AppendFields_def)

lemma env_funcs_others:
  "concat (map (\<lambda>x. env_funcs (table_entries x)) fs) = []" "concat (map (\<lambda>x. env_funcs (memory_entries x)) fs) = []"
  "concat (map (\<lambda>x. env_funcs (global_entries x)) fs) = []" "concat (map (\<lambda>x. env_funcs (tag_entries m T x)) fs) = []"
proof -
  have "env_funcs (table_entries x) = []" "env_funcs (memory_entries x) = []"
    "env_funcs (global_entries x) = []" "env_funcs (tag_entries m T x) = []" for x
    by (cases x; simp add: no_entries_def)+
  then show "concat (map (\<lambda>x. env_funcs (table_entries x)) fs) = []"
    "concat (map (\<lambda>x. env_funcs (memory_entries x)) fs) = []"
    "concat (map (\<lambda>x. env_funcs (global_entries x)) fs) = []"
    "concat (map (\<lambda>x. env_funcs (tag_entries m T x)) fs) = []" by simp_all
qed

lemma env_funcs_defined:
  "concat (map (\<lambda>x. env_funcs (func_entries m T x)) fs) = map (\<lambda>f. sig_of T m (func_decl f)) (func_fields fs)"
  by (induction fs rule: func_fields.induct) (simp_all add: no_entries_def)

definition imported_sigs :: "module \<Rightarrow> func_type list" where
  "imported_sigs m = concat (map (\<lambda>x. env_funcs (import_entries m (module_types m) x)) (fields_of m))"

lemma env_funcs_module:
  "env_funcs (module_env m) =
     imported_sigs m @ map (\<lambda>f. sig_of (module_types m) m (func_decl f)) (func_fields (fields_of m))"
  by (simp add: module_env_def Let_def env_funcs_add_all env_funcs_others env_funcs_defined
      imported_sigs_def no_entries_def)

lemma length_sigs: "length (concat (map (\<lambda>x. env_funcs (import_entries m T x)) fs)) + length (func_fields fs) \<le> length fs"
proof (induction fs)
  case (Cons x fs)
  then show ?case by (cases x) (simp_all add: no_entries_def split: import_desc.splits)
qed simp

lemma numbered_lookup:
  assumes "m = AppendFields fs empty_module" "length fs < 2 ^ 32" "(i, fn) \<in> set (numbered_funcs m)"
  shows "lookup (env_funcs (module_env m)) i = Some (sig_of (module_types m) m (func_decl fn))"
proof -
  obtain j where j: "j < length (func_fields (fields_of m))" "fn = func_fields (fields_of m) ! j"
    "i = func_imports_count m + of_nat j"
    using assms(3) by (auto simp: numbered_funcs_def in_set_enumerate_eq)
  have fs: "fields_of m = fs" by (simp add: assms(1) fields_of_AppendFields empty_module_def)
  have "func_imports_count m = of_nat (length (imported_sigs m))"
    unfolding imported_sigs_def fs
    by (subst assms(1), subst func_imports_count_AppendFields [where m' = m and T = "module_types m"])
      (simp add: empty_module_def)
  with j(3) have "i = of_nat (length (imported_sigs m) + j)" by simp
  moreover have "length (imported_sigs m) + j < 2 ^ 32"
    using length_sigs [of m "module_types m" fs] j(1) assms(2) by (simp add: imported_sigs_def fs)
  ultimately have "unat i = length (imported_sigs m) + j"
    by (simp only: unsigned_of_nat) (simp add: take_bit_nat_eq_self)
  then show ?thesis using j(1,2) by (simp add: lookup_def env_funcs_module nth_append)
qed

lemma for_each_split:
  "x \<in> set xs \<Longrightarrow> run_state (for_each f xs) s = ((), s') \<Longrightarrow> \<exists>ys zs s1 s2. xs = ys @ x # zs \<and>
     run_state (for_each f ys) s = ((), s1) \<and> run_state (f x) s1 = ((), s2) \<and>
     run_state (for_each f zs) s2 = ((), s')"
proof (induction xs arbitrary: s)
  case (Cons a xs)
  from Cons.prems(2) obtain s0 where s0: "run_state (f a) s = ((), s0)"
    "run_state (for_each f xs) s0 = ((), s')" by (auto split: prod.splits)
  show ?case
  proof (cases "x = a")
    case True
    with s0 show ?thesis
      by (intro exI [of _ "[]"] exI [of _ xs] exI [of _ s] exI [of _ s0]) simp
  next
    case False
    with Cons.prems(1) have "x \<in> set xs" by simp
    from Cons.IH [OF this s0(2)] obtain ys zs s1 s2 where "xs = ys @ x # zs"
      "run_state (for_each f ys) s0 = ((), s1)" "run_state (f x) s1 = ((), s2)"
      "run_state (for_each f zs) s2 = ((), s')" by blast
    with s0 show ?thesis
      by (intro exI [of _ "a # ys"] exI [of _ zs] exI [of _ s1] exI [of _ s2]) simp
  qed
qed simp


lemma calm_Validator: "calm f (vd_validator (Validator f))"
  by (simp add: calm_def Validator_def SharedValidator_def TypeChecker_def)

lemma ValidateModule_fine:
  assumes "ValidateModule m f = Some (Ok, errs)"
  shows "\<exists>s. run_state (CheckModule m) (Validator f) = (Ok, s) \<and> fine s"
proof -
  obtain r s where run: "run_state (CheckModule m) (Validator f) = (r, s)" by force
  then have "r = vd_result s" by (auto simp: CheckModule_def split: prod.splits)
  with run assms show ?thesis by (auto simp: ValidateModule_def fine_def split: if_splits)
qed

lemma numbered_func_in:
  assumes "fn \<in> set (func_fields (fields_of m))"
  shows "\<exists>i. (i, fn) \<in> set (numbered_funcs m)"
proof -
  obtain j where "j < length (func_fields (fields_of m))" "fn = func_fields (fields_of m) ! j"
    using assms by (auto simp: in_set_conv_nth)
  then have "(j, fn) \<in> set (enumerate 0 (func_fields (fields_of m)))" by (simp add: in_set_enumerate_eq)
  then show ?thesis unfolding numbered_funcs_def by force
qed

lemma func_field_in: "FuncField fn \<in> set fs \<Longrightarrow> fn \<in> set (func_fields fs)"
  by (induction fs rule: func_fields.induct) auto

text \<open>
  C3. If \<open>ValidateModule\<close> accepts a module built from fewer than \<open>2 ^ 32\<close> fields, then the body of
  every function that has no \<open>call_ref\<close>, fewer than \<open>2 ^ 32\<close> parameters and value types as results
  stands for instructions in the index spaces of the module: each index of a type, function, table,
  memory, global, tag or local in it is in range. And if these instructions are well-formed
  (\<open>wf_instr\<close>: no annotated \<open>select\<close>, no \<open>delegate\<close> of depth \<open>0xffffffff\<close>, value types only), they have
  a typing with the results of the signature. Indices of data and element segments are not covered.
\<close>

theorem validated_bodies_typed:
  fixes fs fn
  defines "m \<equiv> AppendFields fs empty_module"
  defines "ft \<equiv> sig_of (module_types m) m (func_decl fn)"
  assumes "ValidateModule m f = Some (Ok, errs)" and "length fs < 2 ^ 32"
    and "FuncField fn \<in> set fs" "call_ref_free_list (func_exprs fn)"
    and "length (ft_params ft) < 2 ^ 32" "list_all proper (ft_results ft)"
  shows "\<exists>body. exprs_instrs m (decl_env (module_env m) ft fn) (func_exprs fn) = Some body \<and>
    (list_all (wf_instr f) body \<longrightarrow>
      (\<exists>ts. typing f [(LtFunc, [], ft_results ft)] body [] ts \<and> list_all2 sub ts (ft_results ft)))"
proof -
  have fs: "fields_of m = fs" by (simp add: m_def fields_of_AppendFields empty_module_def)
  obtain i where i: "(i, fn) \<in> set (numbered_funcs m)"
    using numbered_func_in [of fn m] func_field_in [OF assms(5)] fs by auto
  obtain s where s: "run_state (CheckModule m) (Validator f) = (Ok, s)" "fine s"
    using ValidateModule_fine [OF assms(3)] by blast
  obtain s1 s2 s3 where run: "run_state (CheckEntries m) (Validator f) = ((), s1)"
    "run_state (for_each (check_body_field m) (numbered_funcs m)) s1 = ((), s2)"
    "run_state (for_each (check_data_field m) (fields_of m)) s2 = ((), s3)"
    "run_state (accrue EndModule) s3 = ((), s)"
    using s(1) unfolding CheckModule_entries by (auto split: prod.splits)
  note f3 = fine_before [OF lost_accrue(1) run(4) s(2)]
  note f2 = fine_before [OF lost_loops(10) run(3) f3]
  note f1 = fine_before [OF lost_loops(11) run(2) f2]
  obtain ys zs t t' where split: "run_state (for_each (check_body_field m) ys) s1 = ((), t)"
    "run_state (check_body_field m (i, fn)) t = ((), t')"
    "run_state (for_each (check_body_field m) zs) t' = ((), s2)"
    using for_each_split [OF i run(2)] by blast
  have ft': "fine t'" by (rule fine_before [OF lost_loops(11) split(3) f2])
  have "entries (vd_validator s1) = module_env m"
    using CheckEntries_enter [OF run(1) f1] assms(4) fs by simp
  then have e: "entries (vd_validator t) = module_env m"
    using settled_run [OF split(1) settled_loops(4)] by simp
  have "keeps (quiet f) (do { CheckEntries m; for_each (check_body_field m) ys })"
    unfolding CheckEntries_def CheckSpaces_def by (intro keeps_bind keeps_for_each quiet_fields quiet_body keeps_accrue)
      (auto simp: OnDataCount_def calm_def intro!: keeps_bind keeps_modify keeps_return)
  then have "quiet f t"
    using calm_Validator run(1) split(1) by (auto simp: keeps_def of_validator_def split: prod.splits)
      (metis run(1) snd_conv split(1))
  with check_body_typed [OF split(2) ft', of ft f] e numbered_lookup [of m fs i fn] i assms(4,6-8)
  show ?thesis by (auto simp: m_def ft_def calm_def of_validator_def)
qed

text \<open>A function with a parameter, a local and a block, as an example.\<close>

definition example_func :: func where
  "example_func = func.make [] (func_declaration.make True (VIndex 0) (func_signature.make [I32] [I32]))
     [(I64, 2)] []
     [VarExpr LocalGetT (VIndex 0),
      BlockExprBase BlockT (IR.Block [] (func_declaration.make True (VIndex 0) (func_signature.make [I32] [I32]))
        [ConstExpr (CI32 4), OpcodeExpr BinaryT Op_I32Add])]"

definition example_fields :: "module_field list" where
  "example_fields = [TypeField (IR.FuncType [] (func_signature.make [I32] [I32])), FuncField example_func]"

lemma example_valid: "ValidateModule (AppendFields example_fields empty_module) default_features = Some (Ok, [])"
  by code_simp


abbreviation "example_module \<equiv> AppendFields example_fields empty_module"

lemma example_sig: "sig_of (module_types example_module) example_module (func_decl example_func) =
    \<lparr>ft_params = [I32], ft_results = [I32], ft_type_index = 0\<rparr>"
  by code_simp

lemma example_body: "exprs_instrs example_module (decl_env (module_env example_module)
      \<lparr>ft_params = [I32], ft_results = [I32], ft_type_index = 0\<rparr> example_func) (func_exprs example_func) =
    Some [Simple (TypeCall KLocalGet I32), Type_Soundness.Block [I32] [I32]
      [Simple (TypeCall KConst I32), Simple (OpCall KBinary Op_I32Add)]]"
  by code_simp

lemma example_wf: "list_all (wf_instr default_features) [Simple (TypeCall KLocalGet I32),
    Type_Soundness.Block [I32] [I32] [Simple (TypeCall KConst I32), Simple (OpCall KBinary Op_I32Add)]]"
  by code_simp

theorem validated_bodies_typed_witness:
  "\<exists>ts. typing default_features [(LtFunc, [], [I32])] [Simple (TypeCall KLocalGet I32),
     Type_Soundness.Block [I32] [I32] [Simple (TypeCall KConst I32), Simple (OpCall KBinary Op_I32Add)]] [] ts \<and>
     list_all2 sub ts [I32]"
proof -
  have "FuncField example_func \<in> set example_fields" "length example_fields < 2 ^ 32"
    "call_ref_free_list (func_exprs example_func)"
    by (simp_all add: example_fields_def example_func_def func.make_def)
  from validated_bodies_typed [OF example_valid this(2,1,3)] show ?thesis
    using example_wf unfolding example_sig by (simp add: example_body)
qed

end
