(* ===== verification/Validator_Checks.thy ===== *)
theory Validator_Checks
  imports Validator_Soundness
begin

text \<open>
  What the validator of modules says of the parts of a module outside the bodies: its exports, its
  initializer expressions, and the functions that \<open>ref.func\<close> refers to. The locale \<open>trail\<close> follows a
  delegate along the expressions that it sees; \<open>collects\<close> follows the loops over the fields.
\<close>

section \<open>The expressions a delegate sees\<close>

text \<open>All expressions of a list in the order of the visit, blocks before their contents.\<close>

fun sub_exprs :: "expr \<Rightarrow> expr list"
  and all_exprs :: "expr list \<Rightarrow> expr list"
  and catch_all_exprs :: "catch list \<Rightarrow> expr list"
where
  "sub_exprs (BlockExprBase k (IR.Block l decl es)) = BlockExprBase k (IR.Block l decl es) # all_exprs es"
| "sub_exprs (IfExpr (IR.Block l decl es) es') = IfExpr (IR.Block l decl es) es' # all_exprs es @ all_exprs es'"
| "sub_exprs (TryExpr kind (IR.Block l decl es) cs t) = TryExpr kind (IR.Block l decl es) cs t # all_exprs es @
     (if kind = TryCatch then catch_all_exprs cs else [])"
| "sub_exprs e = [e]"
| "all_exprs [] = []"
| "all_exprs (e # es) = sub_exprs e @ all_exprs es"
| "catch_all_exprs [] = []"
| "catch_all_exprs (Catch v es # cs) = all_exprs es @ catch_all_exprs cs"

text \<open>The expression that a call of the delegate is the first for, and the calls the visitor makes.\<close>

primrec opened :: "visit_call \<Rightarrow> expr list" where
  "opened (OnExpr e) = [e]"
| "opened (BeginBlockExpr e) = [e]"
| "opened (EndBlockExpr e) = []"
| "opened (BeginIfExpr e) = [e]"
| "opened (AfterIfTrueExpr e) = []"
| "opened (EndIfExpr e) = []"
| "opened (BeginLoopExpr e) = [e]"
| "opened (EndLoopExpr e) = []"
| "opened (BeginTryExpr e) = [e]"
| "opened (OnCatchExpr e c) = []"
| "opened (OnDelegateExpr e) = []"
| "opened (EndTryExpr e) = []"

primrec real_call :: "visit_call \<Rightarrow> bool" where
  "real_call (OnExpr e) \<longleftrightarrow> \<not> structured e"
| "real_call (BeginBlockExpr e) \<longleftrightarrow> structured e"
| "real_call (EndBlockExpr e) \<longleftrightarrow> True"
| "real_call (BeginIfExpr e) \<longleftrightarrow> structured e"
| "real_call (AfterIfTrueExpr e) \<longleftrightarrow> True"
| "real_call (EndIfExpr e) \<longleftrightarrow> True"
| "real_call (BeginLoopExpr e) \<longleftrightarrow> structured e"
| "real_call (EndLoopExpr e) \<longleftrightarrow> True"
| "real_call (BeginTryExpr e) \<longleftrightarrow> structured e"
| "real_call (OnCatchExpr e c) \<longleftrightarrow> True"
| "real_call (OnDelegateExpr e) \<longleftrightarrow> True"
| "real_call (EndTryExpr e) \<longleftrightarrow> True"

lemma expr_in_sub_exprs: "e \<in> set (sub_exprs e)"
  by (cases e rule: sub_exprs.cases) simp_all

lemma set_all_exprs: "set es \<subseteq> set (all_exprs es)"
  using expr_in_sub_exprs by (induction es) auto

text \<open>
  A delegate that goes on while all is \<open>good\<close> and for which \<open>P xs\<close> holds of the state after it has
  seen the expressions \<open>xs\<close>.
\<close>

locale trail =
  fixes d :: "'s delegate" and good :: "'s \<Rightarrow> bool" and P :: "expr list \<Rightarrow> 's \<Rightarrow> bool"
  assumes stays_bad: "keeps (\<lambda>s. \<not> good s) (d c)"
    and sees: "\<lbrakk>run_state (d c) s = (r, s'); good s'; P xs s; real_call c\<rbrakk> \<Longrightarrow> r = Ok \<and> P (xs @ opened c) s'"
begin

definition follows :: "('s, result) state \<Rightarrow> expr list \<Rightarrow> bool" where
  "follows M ys \<longleftrightarrow> keeps (\<lambda>s. \<not> good s) M \<and>
     (\<forall>s r s' xs. run_state M s = (r, s') \<longrightarrow> good s' \<longrightarrow> P xs s \<longrightarrow> r = Ok \<and> P (xs @ ys) s')"

lemma follows_call: "real_call c \<Longrightarrow> follows (d c) (opened c)"
  using stays_bad sees unfolding follows_def by blast

lemma follows_return: "follows (State_Monad.return Ok) []"
  by (auto simp: follows_def intro: keeps_return)

lemma follows_CHECK_RESULT:
  assumes "follows M ys" "follows N zs"
  shows "follows (CHECK_RESULT M N) (ys @ zs)"
  unfolding follows_def
proof (intro conjI allI impI)
  show bad: "keeps (\<lambda>s. \<not> good s) (CHECK_RESULT M N)"
    using assms by (intro keeps_CHECK_RESULT) (simp_all add: follows_def)
  fix s r s' xs
  assume run: "run_state (CHECK_RESULT M N) s = (r, s')" and good: "good s'" and P: "P xs s"
  obtain r1 s1 where M: "run_state M s = (r1, s1)" by force
  have "good s1"
  proof (rule ccontr)
    assume bad: "\<not> good s1"
    have "\<not> good (snd (run_state N s1))" using assms(2) bad by (auto simp: follows_def dest: keepsD)
    then show False using run M good bad by (auto split: if_splits)
  qed
  with assms(1) M P have r1: "r1 = Ok" and P1: "P (xs @ ys) s1" unfolding follows_def by blast+
  with run M have N: "run_state N s1 = (r, s')" by simp
  from assms(2) N good P1 have "r = Ok \<and> P ((xs @ ys) @ zs) s'" unfolding follows_def by blast
  then show "r = Ok" "P (xs @ ys @ zs) s'" by simp_all
qed

lemma follows_cong: "follows M ys \<Longrightarrow> ys = zs \<Longrightarrow> follows M zs"
  by simp

lemmas follows_block = follows_cong [OF follows_CHECK_RESULT [OF follows_call follows_CHECK_RESULT]]

lemma follows_traverse:
  "follows (traverse_expr d e) (sub_exprs e)"
  "follows (traverse_exprs d es) (all_exprs es)"
  "\<forall>e'. follows (traverse_catches d e' cs) (catch_all_exprs cs)"
proof (induction e and es and cs rule: sub_exprs_all_exprs_catch_all_exprs.induct)
  case (1 k l decl es)
  then show ?case by (cases k) (auto intro!: follows_block follows_call)
next
  case (2 l decl es es')
  then show ?case by (auto intro!: follows_block follows_CHECK_RESULT follows_call)
next
  case (3 kind l decl es cs t)
  then show ?case
    by (cases kind) (auto intro!: follows_block follows_call follows_cong [OF follows_CHECK_RESULT [OF _ follows_call]])
next
  case (8 v es cs)
  then show ?case by (auto intro!: follows_block)
qed (auto intro: follows_return follows_cong [OF follows_call] follows_CHECK_RESULT)

end

section \<open>The delegate of the validator\<close>

text \<open>The member functions that pass an expression to the shared validator.\<close>

lemmas expr_v_defs = OnDropExpr_v_def OnNopExpr_v_def OnReturnExpr_v_def OnUnreachableExpr_v_def
  OnRefIsNullExpr_v_def OnMemoryGrowExpr_v_def OnMemorySizeExpr_v_def OnMemoryFillExpr_v_def
  OnBinaryExpr_v_def OnCompareExpr_v_def OnConvertExpr_v_def OnUnaryExpr_v_def OnTernaryExpr_v_def
  OnLoadExpr_v_def OnStoreExpr_v_def OnAtomicLoadExpr_v_def OnAtomicStoreExpr_v_def
  OnAtomicRmwExpr_v_def OnAtomicRmwCmpxchgExpr_v_def OnAtomicWaitExpr_v_def OnAtomicNotifyExpr_v_def
  OnLoadSplatExpr_v_def OnLoadZeroExpr_v_def OnBrExpr_v_def OnBrIfExpr_v_def OnCallExpr_v_def
  OnRefFuncExpr_v_def OnGlobalGetExpr_v_def OnGlobalSetExpr_v_def OnLocalGetExpr_v_def
  OnLocalSetExpr_v_def OnLocalTeeExpr_v_def OnReturnCallExpr_v_def OnThrowExpr_v_def
  OnRethrowExpr_v_def OnDataDropExpr_v_def OnElemDropExpr_v_def OnTableGetExpr_v_def
  OnTableSetExpr_v_def OnTableGrowExpr_v_def OnTableSizeExpr_v_def OnTableFillExpr_v_def
  OnMemoryCopyExpr_v_def OnMemoryInitExpr_v_def OnSimdLoadLaneExpr_v_def OnSimdStoreLaneExpr_v_def
  OnSimdLaneOpExpr_v_def OnSimdShuffleOpExpr_v_def OnConstExpr_v_def OnSelectExpr_v_def
  OnRefNullExpr_v_def OnTableInitExpr_v_def OnTableCopyExpr_v_def OnCallIndirectExpr_v_def
  OnReturnCallIndirectExpr_v_def OnBrTableExpr_v_def OnAtomicFenceExpr_v_def OnCodeMetadataExpr_v_def

lemmas event_v_defs = BeginBlockExpr_v_def EndBlockExpr_v_def BeginIfExpr_v_def AfterIfTrueExpr_v_def
  EndIfExpr_v_def BeginLoopExpr_v_def EndLoopExpr_v_def BeginTryExpr_v_def OnCatchExpr_v_def
  OnDelegateExpr_v_def EndTryExpr_v_def

lemma OnCallRefExpr_fine: "run_state OnCallRefExpr_v s = (r, s') \<Longrightarrow> fine s' \<Longrightarrow>
    r = Ok \<and> (\<exists>out v. run_state (OnCallRef no_location) (vd_validator s) = ((Ok, out), v))"
  by (auto simp: OnCallRefExpr_v_def fine_def Let_def split_beta prod_eq_iff split: if_splits)

lemma expr_call_Ok:
  assumes "run_state (OnExpr_v m e) s = (r, s')" "fine s'"
  shows "r = Ok"
proof (cases e)
  case (SimpleExpr k)
  with assms show ?thesis by (cases k) (auto simp: expr_v_defs dest: passes_fine)
next
  case (MemoryExpr k v)
  with assms show ?thesis by (cases k) (auto simp: expr_v_defs dest: passes_fine)
next
  case (OpcodeExpr k op)
  with assms show ?thesis by (cases k) (auto simp: expr_v_defs dest: passes_fine)
next
  case (LoadStoreExpr k op v a z)
  with assms show ?thesis by (cases k) (auto simp: expr_v_defs dest: passes_fine)
next
  case (VarExpr k v)
  with assms show ?thesis by (cases k) (auto simp: expr_v_defs dest: passes_fine)
qed (use assms in \<open>auto simp: expr_v_defs dest: passes_fine passes_option_fine OnCallRefExpr_fine
  split: lane_type.splits indirect_type.splits prod.splits\<close>)

lemma delegate_call_Ok:
  "run_state (validator_delegate m c) s = (r, s') \<Longrightarrow> fine s' \<Longrightarrow> r = Ok"
  by (cases c) (auto simp: event_v_defs dest: expr_call_Ok passes_fine passes_option_fine split: if_splits)

section \<open>Constant expressions\<close>

lemma CheckInstr_valid: "run_state (CheckInstr op loc) s = (Ok, s') \<Longrightarrow>
    s' = s\<lparr>expr_loc := loc\<rparr> \<and> (in_init_expr s \<longrightarrow> ValidInitOpcode (sv_features s) op)"
  by (auto simp: CheckInstr_def split: if_splits)

text \<open>An instruction that is accepted in an initializer expression has a valid opcode.\<close>

lemma valid_operators:
  "run_state (OnBinary_sv loc op) s = (Ok, s') \<Longrightarrow> in_init_expr s \<Longrightarrow> ValidInitOpcode (sv_features s) op"
  "run_state (OnCompare_sv loc op) s = (Ok, s') \<Longrightarrow> in_init_expr s \<Longrightarrow> ValidInitOpcode (sv_features s) op"
  "run_state (OnConvert_sv loc op) s = (Ok, s') \<Longrightarrow> in_init_expr s \<Longrightarrow> ValidInitOpcode (sv_features s) op"
  "run_state (OnTernary_sv loc op) s = (Ok, s') \<Longrightarrow> in_init_expr s \<Longrightarrow> ValidInitOpcode (sv_features s) op"
  "run_state (OnUnary_sv loc op) s = (Ok, s') \<Longrightarrow> in_init_expr s \<Longrightarrow> ValidInitOpcode (sv_features s) op"
  "run_state (OnSimdLaneOp_sv loc op i) s = (Some Ok, s') \<Longrightarrow> in_init_expr s \<Longrightarrow> ValidInitOpcode (sv_features s) op"
  "run_state (OnSimdShuffleOp_sv loc op bs) s = (Ok, s') \<Longrightarrow> in_init_expr s \<Longrightarrow> ValidInitOpcode (sv_features s) op"
  by (auto simp: OnBinary_sv_def OnCompare_sv_def OnConvert_sv_def OnTernary_sv_def OnUnary_sv_def
      OnSimdLaneOp_sv_def OnSimdShuffleOp_sv_def dest!: CheckInstr_valid split: prod.splits)

lemma valid_memory:
  "run_state (OnLoad_sv loc op v a z) s = (Ok, s') \<Longrightarrow> in_init_expr s \<Longrightarrow> ValidInitOpcode (sv_features s) op"
  "run_state (OnLoadSplat_sv loc op v a z) s = (Ok, s') \<Longrightarrow> in_init_expr s \<Longrightarrow> ValidInitOpcode (sv_features s) op"
  "run_state (OnLoadZero_sv loc op v a z) s = (Ok, s') \<Longrightarrow> in_init_expr s \<Longrightarrow> ValidInitOpcode (sv_features s) op"
  "run_state (OnStore_sv loc op v a z) s = (Ok, s') \<Longrightarrow> in_init_expr s \<Longrightarrow> ValidInitOpcode (sv_features s) op"
  "run_state (OnAtomicLoad_sv loc op v a z) s = (Ok, s') \<Longrightarrow> in_init_expr s \<Longrightarrow> ValidInitOpcode (sv_features s) op"
  "run_state (OnAtomicNotify_sv loc op v a z) s = (Ok, s') \<Longrightarrow> in_init_expr s \<Longrightarrow> ValidInitOpcode (sv_features s) op"
  "run_state (OnAtomicRmw_sv loc op v a z) s = (Ok, s') \<Longrightarrow> in_init_expr s \<Longrightarrow> ValidInitOpcode (sv_features s) op"
  "run_state (OnAtomicRmwCmpxchg_sv loc op v a z) s = (Ok, s') \<Longrightarrow> in_init_expr s \<Longrightarrow> ValidInitOpcode (sv_features s) op"
  "run_state (OnAtomicStore_sv loc op v a z) s = (Ok, s') \<Longrightarrow> in_init_expr s \<Longrightarrow> ValidInitOpcode (sv_features s) op"
  "run_state (OnAtomicWait_sv loc op v a z) s = (Ok, s') \<Longrightarrow> in_init_expr s \<Longrightarrow> ValidInitOpcode (sv_features s) op"
  "run_state (OnSimdLoadLane_sv loc op v a z i) s = (Some Ok, s') \<Longrightarrow> in_init_expr s \<Longrightarrow> ValidInitOpcode (sv_features s) op"
  "run_state (OnSimdStoreLane_sv loc op v a z i) s = (Some Ok, s') \<Longrightarrow> in_init_expr s \<Longrightarrow> ValidInitOpcode (sv_features s) op"
  by (auto simp: OnLoad_sv_def OnLoadSplat_sv_def OnLoadZero_sv_def OnStore_sv_def OnAtomicLoad_sv_def OnAtomicNotify_sv_def OnAtomicRmw_sv_def OnAtomicRmwCmpxchg_sv_def OnAtomicStore_sv_def OnAtomicWait_sv_def OnSimdLoadLane_sv_def OnSimdStoreLane_sv_def
      Let_def dest!: CheckInstr_valid split: prod.splits)

text \<open>All others are accepted in bodies only.\<close>

lemma invalid_in_init:
  "run_state (OnBr_sv loc v) s = (Ok, s') \<Longrightarrow> \<not> in_init_expr s"
  "run_state (OnBrIf_sv loc v) s = (Ok, s') \<Longrightarrow> \<not> in_init_expr s"
  "run_state (OnDelegate_sv loc v) s = (Ok, s') \<Longrightarrow> \<not> in_init_expr s"
  "run_state (OnRethrow_sv loc v) s = (Ok, s') \<Longrightarrow> \<not> in_init_expr s"
  "run_state (BeginBrTable_sv loc) s = (Ok, s') \<Longrightarrow> \<not> in_init_expr s"
  "run_state (OnDrop_sv loc) s = (Ok, s') \<Longrightarrow> \<not> in_init_expr s"
  "run_state (OnReturn_sv loc) s = (Ok, s') \<Longrightarrow> \<not> in_init_expr s"
  "run_state (OnUnreachable_sv loc) s = (Ok, s') \<Longrightarrow> \<not> in_init_expr s"
  "run_state (OnNop loc) s = (Ok, s') \<Longrightarrow> \<not> in_init_expr s"
  "run_state (OnSelect_sv loc ts) s = (Ok, s') \<Longrightarrow> \<not> in_init_expr s"
  "run_state (OnAtomicFence_sv loc n) s = (Ok, s') \<Longrightarrow> \<not> in_init_expr s"
  "run_state (OnRefIsNull loc) s = (Ok, s') \<Longrightarrow> \<not> in_init_expr s"
  "run_state (OnThrow_sv loc v) s = (Ok, s') \<Longrightarrow> \<not> in_init_expr s"
  "run_state (OnCall_sv loc v) s = (Ok, s') \<Longrightarrow> \<not> in_init_expr s"
  "run_state (OnCallIndirect_sv loc v u) s = (Ok, s') \<Longrightarrow> \<not> in_init_expr s"
  "run_state (OnReturnCall_sv loc v) s = (Ok, s') \<Longrightarrow> \<not> in_init_expr s"
  "run_state (OnReturnCallIndirect_sv loc v u) s = (Ok, s') \<Longrightarrow> \<not> in_init_expr s"
  "run_state (OnGlobalSet_sv loc v) s = (Ok, s') \<Longrightarrow> \<not> in_init_expr s"
  "run_state (OnLocalGet_sv loc v) s = (Ok, s') \<Longrightarrow> \<not> in_init_expr s"
  "run_state (OnLocalSet_sv loc v) s = (Ok, s') \<Longrightarrow> \<not> in_init_expr s"
  "run_state (OnLocalTee_sv loc v) s = (Ok, s') \<Longrightarrow> \<not> in_init_expr s"
  "run_state (OnMemoryCopy_sv loc v u) s = (Ok, s') \<Longrightarrow> \<not> in_init_expr s"
  "run_state (OnMemoryFill_sv loc v) s = (Ok, s') \<Longrightarrow> \<not> in_init_expr s"
  "run_state (OnMemoryGrow_sv loc v) s = (Ok, s') \<Longrightarrow> \<not> in_init_expr s"
  "run_state (OnMemorySize_sv loc v) s = (Ok, s') \<Longrightarrow> \<not> in_init_expr s"
  "run_state (OnMemoryInit_sv loc v u) s = (Ok, s') \<Longrightarrow> \<not> in_init_expr s"
  "run_state (OnDataDrop_sv loc v) s = (Ok, s') \<Longrightarrow> \<not> in_init_expr s"
  "run_state (OnElemDrop_sv loc v) s = (Ok, s') \<Longrightarrow> \<not> in_init_expr s"
  "run_state (OnTableCopy_sv loc v u) s = (Ok, s') \<Longrightarrow> \<not> in_init_expr s"
  "run_state (OnTableFill_sv loc v) s = (Ok, s') \<Longrightarrow> \<not> in_init_expr s"
  "run_state (OnTableGet_sv loc v) s = (Ok, s') \<Longrightarrow> \<not> in_init_expr s"
  "run_state (OnTableGrow_sv loc v) s = (Ok, s') \<Longrightarrow> \<not> in_init_expr s"
  "run_state (OnTableSet_sv loc v) s = (Ok, s') \<Longrightarrow> \<not> in_init_expr s"
  "run_state (OnTableInit_sv loc v u) s = (Ok, s') \<Longrightarrow> \<not> in_init_expr s"
  "run_state (OnTableSize_sv loc v) s = (Ok, s') \<Longrightarrow> \<not> in_init_expr s"
  "run_state (OnBlock_sv loc t) s = (Some Ok, s') \<Longrightarrow> \<not> in_init_expr s"
  "run_state (OnIf_sv loc t) s = (Some Ok, s') \<Longrightarrow> \<not> in_init_expr s"
  "run_state (OnLoop_sv loc t) s = (Some Ok, s') \<Longrightarrow> \<not> in_init_expr s"
  "run_state (OnTry_sv loc t) s = (Some Ok, s') \<Longrightarrow> \<not> in_init_expr s"
  "run_state (OnCallRef loc) s = ((Ok, out), s') \<Longrightarrow> \<not> in_init_expr s"
  by (auto simp: BeginBrTable_sv_def OnAtomicFence_sv_def OnBlock_sv_def OnBrIf_sv_def OnBr_sv_def
      OnCallIndirect_sv_def OnCallRef_def OnCall_sv_def OnDataDrop_sv_def OnDelegate_sv_def
      OnDrop_sv_def OnElemDrop_sv_def OnGlobalSet_sv_def OnIf_sv_def OnLocalGet_sv_def
      OnLocalSet_sv_def OnLocalTee_sv_def OnLoop_sv_def OnMemoryCopy_sv_def
      OnMemoryFill_sv_def OnMemoryGrow_sv_def OnMemoryInit_sv_def OnMemorySize_sv_def
      OnNop_def OnRefIsNull_def OnRethrow_sv_def OnReturnCallIndirect_sv_def
      OnReturnCall_sv_def OnReturn_sv_def OnSelect_sv_def OnTableCopy_sv_def
      OnTableFill_sv_def OnTableGet_sv_def OnTableGrow_sv_def OnTableInit_sv_def
      OnTableSet_sv_def OnTableSize_sv_def OnThrow_sv_def OnTry_sv_def OnUnreachable_sv_def
      ValidInitOpcode_def CHECK_RESULT_def Failed_def Let_def dest!: CheckInstr_valid split: prod.splits if_splits option.splits)

text \<open>
  The constant expressions, given the functions and the imported globals: constants, null
  references, references to functions, reads of immutable imported globals and, with extended
  constants, some operators. Of an expression with an opcode the code looks at the opcode only.
\<close>

definition constant_expr :: "features \<Rightarrow> func_type list \<Rightarrow> global_type list \<Rightarrow> expr \<Rightarrow> bool" where
  "constant_expr f fts gts e =
     (case e of
        ConstExpr c \<Rightarrow> True
      | RefNullExpr t \<Rightarrow> True
      | CodeMetadataExpr nm bs \<Rightarrow> True
      | VarExpr RefFuncT v \<Rightarrow> unat (idx v) < length fts
      | VarExpr GlobalGetT v \<Rightarrow>
          (case lookup gts (idx v) of Some gt \<Rightarrow> \<not> gt_mutable gt | None \<Rightarrow> False)
      | OpcodeExpr k op \<Rightarrow> ValidInitOpcode f op
      | LoadStoreExpr k op v a z \<Rightarrow> ValidInitOpcode f op
      | SimdLaneMemoryExpr k op v a z i \<Rightarrow> ValidInitOpcode f op
      | SimdLaneOpExpr op i \<Rightarrow> ValidInitOpcode f op
      | SimdShuffleOpExpr op bs \<Rightarrow> ValidInitOpcode f op
      | _ \<Rightarrow> False)"

text \<open>The functions and the imported globals are \<open>fts\<close> and \<open>gts\<close>; other globals may follow.\<close>

definition placed :: "features \<Rightarrow> func_type list \<Rightarrow> global_type list \<Rightarrow> shared_validator \<Rightarrow> bool" where
  "placed f fts gts s \<longleftrightarrow> sv_features s = f \<and> Shared_Validator.funcs s = fts \<and> length gts < 2 ^ 32 \<and>
     num_imported_globals s = of_nat (length gts) \<and> take (length gts) (Shared_Validator.globals s) = gts \<and>
     length gts \<le> length (Shared_Validator.globals s)"

lemma init_global:
  assumes "run_state (OnGlobalGet_sv loc v) s = (Ok, s')" "in_init_expr s" "placed f fts gts s"
  shows "\<exists>gt. lookup gts (var_index v) = Some gt \<and> \<not> gt_mutable gt"
proof -
  from assms(1,2) obtain gt where gt: "lookup (Shared_Validator.globals s) (var_index v) = Some gt"
    "var_index v < num_imported_globals s" "\<not> gt_mutable gt"
    by (fastforce simp: OnGlobalGet_sv_def Let_def not_le call_tc_def dest!: checks_Ok split: prod.splits if_splits)
  with assms(3) have "unat (var_index v) < length gts"
    by (simp add: placed_def word_less_nat_alt unsigned_of_nat take_bit_nat_eq_self)
  with gt assms(3) show ?thesis
    by (auto simp: placed_def lookup_def split: if_splits) (metis nth_take)
qed

lemma init_var_expr:
  assumes "run_state (var_expr_v k v) s = (r, s')" "fine s'"
    and "in_init_expr (vd_validator s)" "placed f fts gts (vd_validator s)"
  shows "constant_expr f fts gts (VarExpr k v)"
  using assms
  by (cases k) (auto simp: expr_v_defs constant_expr_def placed_def lookup_def
      dest!: passes_fine dest: invalid_in_init ref_func_Ok split: if_splits
      dest: init_global [OF _ _ assms(4)])

lemma br_table_in_init:
  assumes "run_state (OnBrTableExpr_v vs v) s = (r, s')" "fine s'"
  shows "\<not> in_init_expr (vd_validator s)"
proof -
  from assms(1) obtain s1 where run: "run_state (accrue (BeginBrTable_sv no_location)) s = ((), s1)"
    "run_state (do { br_table_targets vs; accrue (OnBrTableTarget_sv no_location (sv_var v));
       passes (EndBrTable_sv no_location) }) s1 = (r, s')"
    unfolding OnBrTableExpr_v_def by (auto split: prod.splits)
  have "fine s1"
    by (rule fine_before [OF _ run(2) assms(2)])
      (intro keeps_bind lost_br_table_targets lost_accrue lost_passes)
  from accrue_fine [OF run(1) this] show ?thesis by (auto dest: invalid_in_init)
qed

lemma init_expr_call:
  assumes "run_state (OnExpr_v m e) s = (r, s')" "fine s'"
    and "in_init_expr (vd_validator s)" "placed f fts gts (vd_validator s)" "\<not> structured e"
  shows "constant_expr f fts gts e"
proof -
  have f: "sv_features (vd_validator s) = f" using assms(4) by (simp add: placed_def)
  show ?thesis
  proof (cases e)
    case (SimpleExpr k)
    with assms show ?thesis by (cases k) (auto simp: expr_v_defs dest!: passes_fine dest: invalid_in_init)
  next
    case (MemoryExpr k v)
    with assms show ?thesis by (cases k) (auto simp: expr_v_defs dest!: passes_fine dest: invalid_in_init)
  next
    case (OpcodeExpr k op)
    with assms f show ?thesis
      by (cases k) (auto simp: constant_expr_def expr_v_defs dest!: passes_fine dest: valid_operators)
  next
    case (LoadStoreExpr k op v a z)
    with assms f show ?thesis
      by (cases k) (auto simp: constant_expr_def expr_v_defs dest!: passes_fine dest: valid_memory)
  next
    case (VarExpr k v)
    with assms show ?thesis by (auto dest: init_var_expr)
  next
    case (IndirectExpr k decl table)
    with assms show ?thesis by (cases k) (auto simp: expr_v_defs dest!: passes_fine dest: invalid_in_init)
  next
    case (SimdLaneMemoryExpr k op v a z i)
    with assms f show ?thesis
      by (cases k) (auto simp: constant_expr_def expr_v_defs dest!: passes_option_fine dest: valid_memory)
  next
    case (BrTableExpr vs v)
    with assms show ?thesis by (auto dest: br_table_in_init)
  next
    case (CallRefExpr v)
    with assms show ?thesis by (auto simp: dest!: OnCallRefExpr_fine dest: invalid_in_init)
  next
    case (SimdLaneOpExpr op i)
    with assms f show ?thesis
      by (auto simp: constant_expr_def expr_v_defs dest!: passes_option_fine dest: valid_operators)
  next
    case (SimdShuffleOpExpr op i)
    with assms f show ?thesis
      by (auto simp: constant_expr_def expr_v_defs dest!: passes_fine dest: valid_operators)
  qed (use assms in \<open>auto simp: constant_expr_def expr_v_defs dest!: passes_fine dest: invalid_in_init\<close>)
qed

lemma init_begin:
  assumes "run_state (validator_delegate m c) s = (r, s')" "fine s'"
    and "in_init_expr (vd_validator s)" "opened c \<noteq> []"
  shows "\<exists>e. c = OnExpr e"
  using assms by (cases c) (auto simp: event_v_defs dest!: passes_option_fine dest: invalid_in_init)

section \<open>References to functions\<close>

definition ref_func :: "expr \<Rightarrow> index list" where
  "ref_func e = (case e of VarExpr RefFuncT v \<Rightarrow> [idx v] | _ \<Rightarrow> [])"

definition ref_funcs :: "expr list \<Rightarrow> index list" where
  "ref_funcs es = concat (map ref_func es)"

lemma ref_funcs_append [simp]: "ref_funcs (xs @ ys) = ref_funcs xs @ ref_funcs ys"
  by (simp add: ref_funcs_def)

lemma ref_func_None: "\<forall>w. e \<noteq> VarExpr RefFuncT w \<Longrightarrow> ref_funcs [e] = []"
  by (simp add: ref_funcs_def ref_func_def split: expr.split var_type.split)

lemma ref_funcs_simps [simp]: "ref_funcs [] = []" "ref_funcs [VarExpr RefFuncT w] = [idx w]"
  by (simp_all add: ref_funcs_def ref_func_def)

text \<open>The functions declared so far and those that must be.\<close>

definition ledger :: "index set \<Rightarrow> index set \<Rightarrow> shared_validator \<Rightarrow> bool" where
  "ledger D C s \<longleftrightarrow> declared_funcs s = D \<and> var_index ` set (check_declared_funcs s) = C"

interpretation ledger: instruction_frame "ledger D C" for D C
  by unfold_locales (simp_all add: ledger_def)

text \<open>What \<open>OnRefFunc\<close> writes down: in an initializer expression it declares its function.\<close>

lemma OnRefFunc_ledger:
  assumes "run_state (OnRefFunc loc v) s = (Ok, s')" "ledger D C s"
  shows "ledger (if in_init_expr s then insert (var_index v) D else D)
    (if in_init_expr s then C else insert (var_index v) C) s'"
proof -
  let ?s = "if in_init_expr s then s\<lparr>expr_loc := loc, declared_funcs := insert (var_index v) (declared_funcs s)\<rparr>
    else s\<lparr>expr_loc := loc, check_declared_funcs := check_declared_funcs s @ [v]\<rparr>"
  have "\<exists>M :: result tc. run_state (call_tc M) ?s = (Ok, s')"
    using assms(1) by (auto simp: OnRefFunc_def dest!: CheckInstr_Ok Check_entries_Ok split: prod.splits if_splits)
  then obtain M :: "result tc" where M: "run_state (call_tc M) ?s = (Ok, s')" ..
  have "declared_funcs s' = declared_funcs ?s" "check_declared_funcs s' = check_declared_funcs ?s"
    using call_tc_fields [of M ?s] unfolding M by simp_all
  with assms(2) show ?thesis by (simp add: ledger_def)
qed

text \<open>The states in an initializer expression and in a body, after the expressions \<open>xs\<close>.\<close>

definition in_init ::
  "features \<Rightarrow> func_type list \<Rightarrow> global_type list \<Rightarrow> index set \<Rightarrow> index set \<Rightarrow> expr list \<Rightarrow> validator \<Rightarrow> bool" where
  "in_init f fts gts D C xs s \<longleftrightarrow> in_init_expr (vd_validator s) \<and> placed f fts gts (vd_validator s) \<and>
     ledger (D \<union> set (ref_funcs xs)) C (vd_validator s) \<and> list_all (constant_expr f fts gts) xs"

definition in_body ::
  "features \<Rightarrow> func_type list \<Rightarrow> global_type list \<Rightarrow> index set \<Rightarrow> index set \<Rightarrow> expr list \<Rightarrow> validator \<Rightarrow> bool" where
  "in_body f fts gts D C xs s \<longleftrightarrow> \<not> in_init_expr (vd_validator s) \<and> placed f fts gts (vd_validator s) \<and>
     ledger D (C \<union> set (ref_funcs xs)) (vd_validator s)"

lemma delegate_steady: "run_state (validator_delegate m c) s = (r, s') \<Longrightarrow> steady (vd_validator s) (vd_validator s')"
  using holds_run [OF _ holds_delegate, of "vd_validator s" s m c r s'] by (simp add: holds_def)

lemma placed_steady: "steady s s' \<Longrightarrow> placed f fts gts s \<Longrightarrow> placed f fts gts s'"
  by (simp add: placed_def steady_fields)

text \<open>What a call of the delegate writes down.\<close>

lemma delegate_ledger:
  assumes run: "run_state (validator_delegate m c) s = (r, s')" "fine s'" "real_call c"
    and "ledger D C (vd_validator s)"
  shows "ledger (if in_init_expr (vd_validator s) then D \<union> set (ref_funcs (opened c)) else D)
    (if in_init_expr (vd_validator s) then C else C \<union> set (ref_funcs (opened c))) (vd_validator s')"
proof (cases "\<exists>w. c = OnExpr (VarExpr RefFuncT w)")
  case True
  then obtain w where c: "c = OnExpr (VarExpr RefFuncT w)" ..
  with run have "run_state (OnRefFunc no_location (sv_var w)) (vd_validator s) = (Ok, vd_validator s')"
    by (auto simp: expr_v_defs dest: passes_fine)
  from OnRefFunc_ledger [OF this assms(4)] show ?thesis
    by (cases "in_init_expr (vd_validator s)") (simp_all add: c)
next
  case False
  then have none: "ref_funcs (opened c) = []" using run(3) by (cases c) (auto intro!: ref_func_None)
  have "keeps (of_validator (ledger D C)) (validator_delegate m c)"
    using ledger.on_events [of c D C m] ledger.on_OnExpr [of _ D C m] False by (cases "\<exists>e. c = OnExpr e") auto
  with assms(4) run(1) have "ledger D C (vd_validator s')"
    by (metis keepsD of_validator_def snd_conv)
  with none show ?thesis by simp
qed

interpretation in_init: trail "validator_delegate m" fine "in_init f fts gts D C" for m f fts gts D C
proof unfold_locales
  show "keeps lost (validator_delegate m c)" for c by (rule lost_delegate)
next
  fix c s r s' xs
  assume run: "run_state (validator_delegate m c) s = (r, s')" "fine s'" and P: "in_init f fts gts D C xs s"
    and c: "real_call c"
  have "list_all (constant_expr f fts gts) (opened c)"
  proof (cases "opened c = []")
    case False
    with init_begin [OF run] P obtain e where e: "c = OnExpr e" by (auto simp: in_init_def)
    with init_expr_call [of m e s r s' f fts gts] run P c show ?thesis by (simp add: in_init_def)
  qed simp
  with delegate_ledger [OF run c, of "D \<union> set (ref_funcs xs)" C] delegate_steady [OF run(1)] P
    delegate_call_Ok [OF run]
  show "r = Ok \<and> in_init f fts gts D C (xs @ opened c) s'"
    by (auto simp: in_init_def Un_assoc steady_fields dest: placed_steady)
qed

interpretation in_body: trail "validator_delegate m" fine "in_body f fts gts D C" for m f fts gts D C
proof unfold_locales
  show "keeps lost (validator_delegate m c)" for c by (rule lost_delegate)
next
  fix c s r s' xs
  assume run: "run_state (validator_delegate m c) s = (r, s')" "fine s'" and P: "in_body f fts gts D C xs s"
    and c: "real_call c"
  with delegate_ledger [OF run c, of D "C \<union> set (ref_funcs xs)"] delegate_steady [OF run(1)]
    delegate_call_Ok [OF run]
  show "r = Ok \<and> in_body f fts gts D C (xs @ opened c) s'"
    by (auto simp: in_body_def Un_assoc steady_fields dest: placed_steady)
qed

section \<open>The loops over the fields\<close>

text \<open>Between two fields.\<close>

definition between ::
  "features \<Rightarrow> func_type list \<Rightarrow> global_type list \<Rightarrow> index set \<Rightarrow> index set \<Rightarrow> shared_validator \<Rightarrow> bool" where
  "between f fts gts D C s \<longleftrightarrow> \<not> in_init_expr s \<and> placed f fts gts s \<and> ledger D C s"

interpretation between: instruction_frame "between f fts gts D C" for f fts gts D C
  by unfold_locales (simp_all add: between_def placed_def ledger_def)

text \<open>
  An action that, from such a state and if all is fine afterwards, declares the functions \<open>ds\<close>, takes
  references to \<open>cs\<close> and has found the initializer expressions \<open>inits\<close> constant.
\<close>

definition collects :: "features \<Rightarrow> func_type list \<Rightarrow> global_type list \<Rightarrow> unit vd \<Rightarrow> index set \<Rightarrow> index set \<Rightarrow>
    expr list list \<Rightarrow> bool" where
  "collects f fts gts M ds cs inits \<longleftrightarrow> keeps lost M \<and>
     (\<forall>D C s s'. run_state M s = ((), s') \<longrightarrow> fine s' \<longrightarrow> between f fts gts D C (vd_validator s) \<longrightarrow>
        between f fts gts (D \<union> ds) (C \<union> cs) (vd_validator s') \<and>
        (\<forall>es \<in> set inits. list_all (constant_expr f fts gts) es))"

lemma collects_return: "collects f fts gts (State_Monad.return ()) {} {} []"
  by (auto simp: collects_def intro: keeps_return)

lemma collects_bind:
  assumes "collects f fts gts M ds cs ns" "collects f fts gts N ds' cs' ns'"
  shows "collects f fts gts (State_Monad.bind M (\<lambda>_. N)) (ds \<union> ds') (cs \<union> cs') (ns @ ns')"
  unfolding collects_def
proof (intro conjI allI impI)
  show "keeps lost (State_Monad.bind M (\<lambda>_. N))"
    using assms by (intro keeps_bind) (simp_all add: collects_def)
  fix D C s s'
  assume run: "run_state (State_Monad.bind M (\<lambda>_. N)) s = ((), s')" and f: "fine s'"
    and b: "between f fts gts D C (vd_validator s)"
  obtain s1 where s1: "run_state M s = ((), s1)" "run_state N s1 = ((), s')"
    using run_unit_bind [OF run] by blast
  have "fine s1" by (rule fine_before [OF _ s1(2) f]) (use assms(2) in \<open>simp add: collects_def\<close>)
  with assms(1) s1(1) b have 1: "between f fts gts (D \<union> ds) (C \<union> cs) (vd_validator s1)"
    "\<forall>es \<in> set ns. list_all (constant_expr f fts gts) es" unfolding collects_def by blast+
  with assms(2) s1(2) f have 2: "between f fts gts ((D \<union> ds) \<union> ds') ((C \<union> cs) \<union> cs') (vd_validator s')"
    "\<forall>es \<in> set ns'. list_all (constant_expr f fts gts) es" unfolding collects_def by blast+
  show "between f fts gts (D \<union> (ds \<union> ds')) (C \<union> (cs \<union> cs')) (vd_validator s')"
    using 2(1) by (simp add: Un_assoc)
  show "\<forall>es \<in> set (ns @ ns'). list_all (constant_expr f fts gts) es" using 1(2) 2(2) by auto
qed

lemma collects_cong:
  "\<lbrakk>collects f fts gts M ds cs ns; ds = ds'; cs = cs'; ns = ns'\<rbrakk> \<Longrightarrow> collects f fts gts M ds' cs' ns'"
  by simp

lemma collects_for_each:
  assumes "\<And>x. collects f fts gts (g x) (ds x) (cs x) (ns x)"
  shows "collects f fts gts (for_each g xs) (\<Union>(ds ` set xs)) (\<Union>(cs ` set xs)) (concat (map ns xs))"
proof (induction xs)
  case (Cons x xs)
  from collects_bind [OF assms [of x] Cons.IH] show ?case by simp
qed (auto intro: collects_cong [OF collects_return])

lemma collects_accrue:
  assumes "\<And>D C. keeps (between f fts gts D C) M"
  shows "collects f fts gts (accrue M) {} {} []"
  unfolding collects_def
proof (intro conjI allI impI)
  fix D C s s'
  assume "run_state (accrue M) s = ((), s')" "between f fts gts D C (vd_validator s)"
  with keepsD [OF assms, of D C "vd_validator s"] accrue_validator(1) [of M s]
  show "between f fts gts (D \<union> {}) (C \<union> {}) (vd_validator s')" by simp
qed (simp_all add: lost_accrue)

lemma between_operations:
  "keeps (between f fts gts D C) (OnGlobal loc t b)"
  "keeps (between f fts gts D C) (OnTag loc v)" "keeps (between f fts gts D C) (OnStart loc v)"
  "keeps (between f fts gts D C) (OnElemSegment loc v sk)"
  "keeps (between f fts gts D C) (OnElemSegmentElemType loc t)"
  "keeps (between f fts gts D C) (OnDataSegment loc v sk)"
  "keeps (between f fts gts D C) (OnLocalDecl loc n t)"
  "keeps (between f fts gts D C) (BeginFunctionBody loc i)"
  "keeps (between f fts gts D C) (EndFunctionBody loc)"
  "keeps (between f fts gts D C) (do { OnDataCount n; State_Monad.return Ok })"
  unfolding OnGlobal_def OnTag_def OnStart_def OnElemSegment_def OnElemSegmentElemType_def
    OnDataSegment_def OnLocalDecl_def BeginFunctionBody_def EndFunctionBody_def OnDataCount_def Let_def
  by (intro between.rules keeps_modify blind_intros; simp add: between_def placed_def ledger_def)+

lemma collects_init_expr:
  "collects f fts gts (check_init_expr m t es) (set (ref_funcs (all_exprs es))) {} [all_exprs es]"
  unfolding collects_def
proof (intro conjI allI impI lost_init_expr)
  fix D C s s'
  assume run: "run_state (check_init_expr m t es) s = ((), s')" and f: "fine s'"
    and b: "between f fts gts D C (vd_validator s)"
  obtain s1 s2 where s12: "run_state (accrue (BeginInitExpr_sv no_location t)) s = ((), s1)"
    "run_state (visit_exprs m es) s1 = ((), s2)" "run_state (accrue EndInitExpr_sv) s2 = ((), s')"
    using run unfolding check_init_expr_def by (blast dest!: run_unit_bind)
  have f2: "fine s2" by (rule fine_before [OF lost_accrue(1) s12(3) f])
  have f1: "fine s1" by (rule fine_before [OF lost_visit_exprs s12(2) f2])
  have "vd_validator s1 = snd (run_state (BeginInitExpr_sv no_location t) (vd_validator s))"
    using accrue_validator(1) [of "BeginInitExpr_sv no_location t" s] s12(1) by simp
  then have i1: "in_init f fts gts D C [] s1"
    using b by (simp add: in_init_def between_def placed_def ledger_def BeginInitExpr_sv_def call_tc_def split_beta Let_def)
  obtain s3 where s3: "run_state (traverse_exprs (validator_delegate m) es) s1 = (Ok, s3)" "fine s3"
    "vd_validator s2 = vd_validator s3" using visit_exprs_fine [OF s12(2) f2] by blast
  have "in_init f fts gts D C ([] @ all_exprs es) s3"
    using in_init.follows_traverse(2) [of f fts gts D C m es] s3(1,2) i1 unfolding in_init.follows_def by blast
  then have i2: "in_init f fts gts D C (all_exprs es) s2" using s3(3) by (simp add: in_init_def)
  have "vd_validator s' = snd (run_state EndInitExpr_sv (vd_validator s2))"
    using accrue_validator(1) [of EndInitExpr_sv s2] s12(3) by simp
  then show "between f fts gts (D \<union> set (ref_funcs (all_exprs es))) (C \<union> {}) (vd_validator s')"
    using i2 by (simp add: in_init_def between_def placed_def ledger_def EndInitExpr_sv_def call_tc_def split_beta Let_def)
  show "\<forall>es \<in> set [all_exprs es]. list_all (constant_expr f fts gts) es" using i2 by (simp add: in_init_def)
qed

lemma collects_visit_exprs:
  "collects f fts gts (visit_exprs m es) {} (set (ref_funcs (all_exprs es))) []"
  unfolding collects_def
proof (intro conjI allI impI lost_visit_exprs)
  fix D C s s'
  assume run: "run_state (visit_exprs m es) s = ((), s')" and f: "fine s'"
    and b: "between f fts gts D C (vd_validator s)"
  obtain s3 where s3: "run_state (traverse_exprs (validator_delegate m) es) s = (Ok, s3)" "fine s3"
    "vd_validator s' = vd_validator s3" using visit_exprs_fine [OF run f] by blast
  have "in_body f fts gts D C [] s" using b by (simp add: in_body_def between_def)
  then have "in_body f fts gts D C ([] @ all_exprs es) s3"
    using in_body.follows_traverse(2) [of f fts gts D C m es] s3(1,2) unfolding in_body.follows_def by blast
  then show "between f fts gts (D \<union> {}) (C \<union> set (ref_funcs (all_exprs es))) (vd_validator s')"
    using s3(3) by (simp add: in_body_def between_def)
qed simp

section \<open>The fields\<close>

text \<open>The initializer expressions, the exports and the imported globals of a field.\<close>

fun field_inits :: "module_field \<Rightarrow> expr list list" where
  "field_inits (GlobalField g) = [init_expr g]"
| "field_inits (ElemSegmentField seg) =
     (if elem_kind seg = SkActive then [elem_offset seg] else []) @ elem_exprs seg"
| "field_inits (DataSegmentField seg) = (if data_kind seg = SkActive then [data_offset seg] else [])"
| "field_inits x = []"

fun field_exports :: "module_field \<Rightarrow> export list" where
  "field_exports (ExportField e) = [e]"
| "field_exports x = []"

fun field_imported_globals :: "module_field \<Rightarrow> global_type list" where
  "field_imported_globals (ImportField i) =
     (case import_desc i of
        GlobalImport g \<Rightarrow> [\<lparr>gt_type = global_type g, gt_mutable = global_mutable g\<rparr>]
      | _ \<Rightarrow> [])"
| "field_imported_globals x = []"

definition module_inits :: "module \<Rightarrow> expr list list" where
  "module_inits m = concat (map field_inits (fields_of m))"

definition module_exports :: "module \<Rightarrow> export list" where
  "module_exports m = concat (map field_exports (fields_of m))"

definition imported_globals :: "module \<Rightarrow> global_type list" where
  "imported_globals m = concat (map field_imported_globals (fields_of m))"

text \<open>The functions that a module declares, and those its bodies take references to.\<close>

definition exported_funcs :: "export list \<Rightarrow> index list" where
  "exported_funcs es = map (\<lambda>e. idx (export_var e)) (filter (\<lambda>e. export_kind e = EkFunc) es)"

definition declared_by :: "module \<Rightarrow> index list" where
  "declared_by m = exported_funcs (module_exports m) @ concat (map (\<lambda>es. ref_funcs (all_exprs es)) (module_inits m))"

definition referenced_by :: "module \<Rightarrow> index list" where
  "referenced_by m = concat (map (\<lambda>fn. ref_funcs (all_exprs (func_exprs fn))) (func_fields (fields_of m)))"

definition init_refs :: "expr list list \<Rightarrow> index set" where
  "init_refs inits = (\<Union>es \<in> set inits. set (ref_funcs (all_exprs es)))"

fun global_inits :: "module_field \<Rightarrow> expr list list" where
  "global_inits (GlobalField g) = [init_expr g]"
| "global_inits x = []"

fun elem_inits :: "module_field \<Rightarrow> expr list list" where
  "elem_inits (ElemSegmentField seg) =
     (if elem_kind seg = SkActive then [elem_offset seg] else []) @ elem_exprs seg"
| "elem_inits x = []"

fun data_inits :: "module_field \<Rightarrow> expr list list" where
  "data_inits (DataSegmentField seg) = (if data_kind seg = SkActive then [data_offset seg] else [])"
| "data_inits x = []"

lemma field_inits_parts: "field_inits x = global_inits x @ elem_inits x @ data_inits x"
  by (cases x) simp_all

lemma init_refs_simps [simp]: "init_refs [] = {}" "init_refs (es # inits) = set (ref_funcs (all_exprs es)) \<union> init_refs inits"
  "init_refs (xs @ ys) = init_refs xs \<union> init_refs ys"
  by (auto simp: init_refs_def)

lemma collects_init_list:
  "collects f fts gts (for_each (check_init_expr m t) inits) (init_refs inits) {} (map all_exprs inits)"
proof (induction inits)
  case (Cons es inits)
  from collects_bind [OF collects_init_expr Cons.IH] show ?case by simp
qed (auto intro: collects_return)

lemma collects_active:
  "collects f fts gts (if b then check_init_expr m t es else State_Monad.return ())
     (init_refs (if b then [es] else [])) {} (map all_exprs (if b then [es] else []))"
  using collects_init_expr collects_return by (cases b) simp_all

lemma collects_fields:
  "collects f fts gts (check_global_field m x) (init_refs (global_inits x)) {} (map all_exprs (global_inits x))"
  "collects f fts gts (check_tag_field m x) {} {} []"
  "collects f fts gts (check_start_field x) {} {} []"
  "collects f fts gts (check_elem_field m x) (init_refs (elem_inits x)) {} (map all_exprs (elem_inits x))"
  "collects f fts gts (check_data_field m x) (init_refs (data_inits x)) {} (map all_exprs (data_inits x))"
  subgoal by (cases x) (auto intro!: collects_return collects_cong [OF collects_bind [OF
      collects_accrue [OF between_operations(1)] collects_init_expr]])
  subgoal by (cases x) (auto intro!: collects_return collects_accrue between_operations)
  subgoal by (cases x) (auto intro!: collects_return collects_accrue between_operations)
  subgoal
  proof (cases "\<exists>seg. x = ElemSegmentField seg")
    case True
    then obtain seg where x: "x = ElemSegmentField seg" ..
    show ?thesis unfolding x check_elem_field.simps
      by (rule collects_cong [OF collects_bind [OF collects_accrue [OF between_operations(4)] collects_bind [OF
        collects_accrue [OF between_operations(5)] collects_bind [OF collects_active collects_init_list]]]]) auto
  qed (cases x; auto intro: collects_return)
  subgoal
  proof (cases "\<exists>seg. x = DataSegmentField seg")
    case True
    then obtain seg where x: "x = DataSegmentField seg" ..
    show ?thesis unfolding x check_data_field.simps
      by (rule collects_cong [OF collects_bind [OF collects_accrue [OF between_operations(6)] collects_active]]) auto
  qed (cases x; auto intro: collects_return)
  done

lemma collects_body:
  "collects f fts gts (check_body_field m (i, fn)) {} (set (ref_funcs (all_exprs (func_exprs fn)))) []"
proof -
  have locals: "collects f fts gts (declare_all ds) {} {} []" for ds
    by (rule collects_cong [OF collects_for_each [where ds = "\<lambda>_. {}" and cs = "\<lambda>_. {}" and ns = "\<lambda>_. []"]])
      (auto intro!: collects_accrue between_operations)
  show ?thesis
    by (auto intro!: collects_cong [OF collects_bind [OF collects_accrue [OF between_operations(8)] collects_bind
        [OF locals collects_bind [OF collects_visit_exprs collects_accrue [OF between_operations(9)]]]]])
qed

text \<open>What an accepted export does; its item is in its index space.\<close>

fun item_in :: "env \<Rightarrow> external_kind \<Rightarrow> index \<Rightarrow> bool" where
  "item_in E EkFunc i \<longleftrightarrow> unat i < length (env_funcs E)"
| "item_in E EkTable i \<longleftrightarrow> unat i < length (env_tables E)"
| "item_in E EkMemory i \<longleftrightarrow> unat i < length (env_memories E)"
| "item_in E EkGlobal i \<longleftrightarrow> unat i < length (env_globals E)"
| "item_in E EkTag i \<longleftrightarrow> unat i < length (env_tags E)"

lemma OnExport_Ok:
  assumes "run_state (OnExport loc k v nm) s = (Ok, s')"
  shows "nm \<notin> export_names s \<and> item_in (entries s) k (var_index v) \<and>
    s' = s\<lparr>export_names := insert nm (export_names s),
      declared_funcs := (if k = EkFunc then insert (var_index v) (declared_funcs s) else declared_funcs s)\<rparr>"
  using assms
  by (cases k) (auto simp: OnExport_def entries_def env_of_def lookup_def
      dest!: error_if_Ok Check_entries_Ok split: prod.splits if_splits)

lemma collects_export:
  "collects f fts gts (check_export_field x) (set (exported_funcs (field_exports x))) {} []"
proof (cases "\<exists>e. x = ExportField e")
  case True
  then obtain e where x: "x = ExportField e" ..
  show ?thesis
    unfolding collects_def
  proof (intro conjI allI impI lost_fields)
    fix D C s s'
    assume run: "run_state (check_export_field x) s = ((), s')" "fine s'"
      and b: "between f fts gts D C (vd_validator s)"
    from run have "run_state (OnExport no_location (export_kind e) (sv_var (export_var e)) (export_name e))
        (vd_validator s) = (Ok, vd_validator s')" by (auto simp: x dest: accrue_fine)
    from OnExport_Ok [OF this] b
    show "between f fts gts (D \<union> set (exported_funcs (field_exports x))) (C \<union> {}) (vd_validator s')"
      by (simp add: x exported_funcs_def between_def placed_def ledger_def)
  qed simp
next
  case False
  then show ?thesis by (cases x) (auto simp: exported_funcs_def intro: collects_return)
qed

section \<open>The module\<close>

text \<open>Before the initializer expressions: the index spaces and the imported globals.\<close>

definition gathered :: "features \<Rightarrow> global_type list \<Rightarrow> shared_validator \<Rightarrow> bool" where
  "gathered f gts s \<longleftrightarrow> \<not> in_init_expr s \<and> sv_features s = f \<and> ledger {} {} s \<and>
     Shared_Validator.globals s = gts \<and> num_imported_globals s = of_nat (length gts)"

interpretation gathered: instruction_frame "gathered f gts" for f gts
  by unfold_locales (simp_all add: gathered_def ledger_def)

lemma gathered_operations:
  "keeps (gathered f gts) (OnFuncType loc ps rs i)" "keeps (gathered f gts) (OnStructType loc fs)"
  "keeps (gathered f gts) (OnArrayType loc x)" "keeps (gathered f gts) (OnFunction loc v)"
  "keeps (gathered f gts) (OnTable loc t l)" "keeps (gathered f gts) (OnMemory loc l)"
  "keeps (gathered f gts) (OnTag loc v)"
  unfolding OnFuncType_def OnStructType_def OnArrayType_def OnFunction_def OnTable_def OnMemory_def
    OnTag_def Let_def
  by (intro gathered.rules keeps_modify blind_intros; simp add: gathered_def ledger_def)+

lemma gathered_fields:
  "keeps (of_validator (gathered f gts)) (check_type_field m x)"
  "keeps (of_validator (gathered f gts)) (check_func_field m x)"
  "keeps (of_validator (gathered f gts)) (check_table_field x)"
  "keeps (of_validator (gathered f gts)) (check_memory_field x)"
  subgoal by (cases "(m, x)" rule: check_type_field.cases)
    (auto intro!: keeps_return keeps_accrue gathered_operations)
  by (cases x; auto intro!: keeps_return keeps_accrue gathered_operations)+

lemma import_gathers:
  assumes "of_validator (gathered f gts) s"
  shows "of_validator (gathered f (gts @ field_imported_globals x)) (snd (run_state (check_import_field m x) s))"
proof (cases "\<exists>i g. x = ImportField i \<and> import_desc i = GlobalImport g")
  case True
  then obtain i g where x: "x = ImportField i" "import_desc i = GlobalImport g" by blast
  then show ?thesis
    using assms by (simp add: of_validator_def accrue_validator OnGlobalImport_def gathered_def ledger_def error_if_def PrintError_sv_def)
next
  case False
  then have "field_imported_globals x = []" by (cases x) (auto split: import_desc.splits)
  moreover have "keeps (of_validator (gathered f gts)) (check_import_field m x)"
    using False by (cases x) (auto intro!: keeps_return keeps_accrue gathered_operations split: import_desc.splits)
  ultimately show ?thesis using assms by (simp add: keepsD)
qed

lemma imports_gather:
  "run_state (for_each (check_import_field m) fs) s = ((), s') \<Longrightarrow> of_validator (gathered f gts) s \<Longrightarrow>
     of_validator (gathered f (gts @ concat (map field_imported_globals fs))) s'"
proof (induction fs arbitrary: s gts)
  case (Cons x fs)
  from Cons.prems(1) obtain s1 where s1: "run_state (check_import_field m x) s = ((), s1)"
    "run_state (for_each (check_import_field m) fs) s1 = ((), s')" by (auto split: prod.splits)
  with import_gathers [OF Cons.prems(2), of x m] Cons.IH [OF s1(2), of "gts @ field_imported_globals x"]
  show ?case by simp
qed simp

lemma env_funcs_first: "env_funcs (first_entries m) = env_funcs (module_env m)"
  by (simp add: module_env_first env_funcs_add_all env_funcs_others)

lemma length_imported_globals: "length (imported_globals m) \<le> length (fields_of m)"
proof -
  have one: "length (field_imported_globals x) \<le> 1" for x by (cases x) (auto split: import_desc.splits)
  have "length (concat (map field_imported_globals fs)) \<le> length fs" for fs
  proof (induction fs)
    case (Cons x fs)
    then show ?case using one [of x] by simp
  qed simp
  then show ?thesis by (simp add: imported_globals_def)
qed

lemma CheckSpaces_between:
  assumes "run_state (CheckSpaces m) (Validator f) = ((), s)" "fine s" "length (fields_of m) < 2 ^ 32"
  shows "between f (env_funcs (module_env m)) (imported_globals m) {} {} (vd_validator s)"
proof -
  obtain s1 s2 s3 s4 where run:
    "run_state (for_each (check_type_field m) (fields_of m)) (Validator f) = ((), s1)"
    "run_state (for_each (check_import_field m) (fields_of m)) s1 = ((), s2)"
    "run_state (for_each (check_func_field m) (fields_of m)) s2 = ((), s3)"
    "run_state (for_each check_table_field (fields_of m)) s3 = ((), s4)"
    "run_state (for_each check_memory_field (fields_of m)) s4 = ((), s)"
    using assms(1) unfolding CheckSpaces_def by (blast dest!: run_unit_bind)
  have keep: "of_validator (gathered f gts) b" if "run_state (for_each g (fields_of m)) a = ((), b)"
    "\<And>x. keeps (of_validator (gathered f gts)) (g x)" "of_validator (gathered f gts) a" for g a b gts
    using keepsD [OF keeps_for_each [of "of_validator (gathered f gts)" g "fields_of m"] that(3)] that(1,2) by simp
  have "of_validator (gathered f []) (Validator f)"
    by (simp add: of_validator_def gathered_def ledger_def Validator_def SharedValidator_def)
  from keep [OF run(1) gathered_fields(1) this] have "of_validator (gathered f []) s1" .
  from imports_gather [OF run(2) this] have "of_validator (gathered f (imported_globals m)) s2"
    by (simp add: imported_globals_def)
  from keep [OF run(3) gathered_fields(2) this] have "of_validator (gathered f (imported_globals m)) s3" .
  from keep [OF run(4) gathered_fields(3) this] have "of_validator (gathered f (imported_globals m)) s4" .
  from keep [OF run(5) gathered_fields(4) this] have "of_validator (gathered f (imported_globals m)) s" .
  moreover have "Shared_Validator.funcs (vd_validator s) = env_funcs (entries (vd_validator s))"
    by (simp add: entries_def env_of_def)
  ultimately show ?thesis
    using CheckSpaces_enter [OF assms] length_imported_globals [of m] assms(3)
    by (simp add: of_validator_def gathered_def between_def placed_def env_funcs_first)
qed

text \<open>The rest up to \<open>EndModule\<close>.\<close>

definition CheckRest :: "module \<Rightarrow> unit vd" where
  "CheckRest m = do {
     for_each (check_global_field m) (fields_of m);
     for_each (check_tag_field m) (fields_of m);
     for_each check_export_field (fields_of m);
     for_each check_start_field (fields_of m);
     for_each (check_elem_field m) (fields_of m);
     accrue (do { OnDataCount (of_nat (length (IR.data_segments m))); State_Monad.return Ok });
     for_each (check_body_field m) (numbered_funcs m);
     for_each (check_data_field m) (fields_of m)
   }"

lemma CheckFields_rest: "CheckFields m = do { CheckSpaces m; CheckRest m }"
  by (simp add: CheckFields_def CheckEntries_def CheckRest_def)

lemma numbered_funcs_set: "snd ` set (numbered_funcs m) = set (func_fields (fields_of m))"
proof -
  have "map snd (numbered_funcs m) = map snd (enumerate 0 (func_fields (fields_of m)))"
    by (simp add: numbered_funcs_def case_prod_unfold comp_def)
  then show ?thesis by (metis list.set_map map_snd_enumerate)
qed

lemma collects_bodies:
  "collects f fts gts (for_each (check_body_field m) (numbered_funcs m)) {} (set (referenced_by m)) []"
proof (rule collects_cong [OF collects_for_each])
  show "collects f fts gts (check_body_field m x) {} (set (ref_funcs (all_exprs (func_exprs (snd x))))) []" for x
    using collects_body by (cases x) simp
  have "(\<Union>x \<in> set (numbered_funcs m). set (ref_funcs (all_exprs (func_exprs (snd x))))) =
      (\<Union>fn \<in> snd ` set (numbered_funcs m). set (ref_funcs (all_exprs (func_exprs fn))))" by simp
  then show "(\<Union>x \<in> set (numbered_funcs m). set (ref_funcs (all_exprs (func_exprs (snd x))))) = set (referenced_by m)"
    by (simp add: numbered_funcs_set referenced_by_def)
qed simp_all

lemma declared_parts:
  "(\<Union>x \<in> set (fields_of m). init_refs (global_inits x)) \<union> ((\<Union>x \<in> set (fields_of m). set (exported_funcs (field_exports x))) \<union>
     ((\<Union>x \<in> set (fields_of m). init_refs (elem_inits x)) \<union> (\<Union>x \<in> set (fields_of m). init_refs (data_inits x)))) =
   set (declared_by m)"
  unfolding declared_by_def module_inits_def module_exports_def exported_funcs_def init_refs_def field_inits_parts
  by auto

lemma collects_rest:
  "collects f fts gts (CheckRest m) (set (declared_by m)) (set (referenced_by m))
     (concat (map (map all_exprs \<circ> global_inits) (fields_of m)) @
      concat (map (map all_exprs \<circ> elem_inits) (fields_of m)) @
      concat (map (map all_exprs \<circ> data_inits) (fields_of m)))"
  unfolding CheckRest_def
  by (rule collects_cong [OF
      collects_bind [OF collects_for_each [OF collects_fields(1)]
      collects_bind [OF collects_for_each [OF collects_fields(2)]
      collects_bind [OF collects_for_each [OF collects_export]
      collects_bind [OF collects_for_each [OF collects_fields(3)]
      collects_bind [OF collects_for_each [OF collects_fields(4)]
      collects_bind [OF collects_accrue [OF between_operations(10)]
      collects_bind [OF collects_bodies
      collects_for_each [OF collects_fields(5)]]]]]]]]])
    (simp_all add: declared_parts [symmetric] comp_def)

lemma module_init_in:
  assumes "es \<in> set (module_inits m)"
  shows "all_exprs es \<in> set (concat (map (map all_exprs \<circ> global_inits) (fields_of m)) @
      concat (map (map all_exprs \<circ> elem_inits) (fields_of m)) @
      concat (map (map all_exprs \<circ> data_inits) (fields_of m)))"
  using assms unfolding module_inits_def field_inits_parts by auto

lemma CheckFields_collects:
  assumes "run_state (CheckFields m) (Validator f) = ((), s)" "fine s" "length (fields_of m) < 2 ^ 32"
  shows "declared_funcs (vd_validator s) = set (declared_by m) \<and>
    var_index ` set (check_declared_funcs (vd_validator s)) = set (referenced_by m) \<and>
    (\<forall>es \<in> set (module_inits m). list_all (constant_expr f (env_funcs (module_env m)) (imported_globals m)) es)"
proof -
  let ?fts = "env_funcs (module_env m)" and ?gts = "imported_globals m"
  obtain s1 where s1: "run_state (CheckSpaces m) (Validator f) = ((), s1)" "run_state (CheckRest m) s1 = ((), s)"
    using assms(1) unfolding CheckFields_rest by (blast dest!: run_unit_bind)
  have "fine s1" by (rule fine_before [OF _ s1(2) assms(2)]) (use collects_rest in \<open>simp add: collects_def\<close>)
  from CheckSpaces_between [OF s1(1) this assms(3)] have b: "between f ?fts ?gts {} {} (vd_validator s1)" .
  with collects_rest [of f ?fts ?gts m] s1(2) assms(2)
  have 1: "between f ?fts ?gts ({} \<union> set (declared_by m)) ({} \<union> set (referenced_by m)) (vd_validator s)"
    and 2: "\<forall>es \<in> set (concat (map (map all_exprs \<circ> global_inits) (fields_of m)) @
      concat (map (map all_exprs \<circ> elem_inits) (fields_of m)) @
      concat (map (map all_exprs \<circ> data_inits) (fields_of m))). list_all (constant_expr f ?fts ?gts) es"
    unfolding collects_def by blast+
  have "list_all (constant_expr f ?fts ?gts) es" if "es \<in> set (module_inits m)" for es
  proof -
    have "list_all (constant_expr f ?fts ?gts) (all_exprs es)" using 2 module_init_in [OF that] by blast
    then show ?thesis using set_all_exprs [of es] unfolding list_all_iff by blast
  qed
  then show ?thesis using 1 by (simp add: between_def ledger_def)
qed

lemma exports_loop:
  "run_state (for_each check_export_field fs) s = ((), s') \<Longrightarrow> fine s' \<Longrightarrow>
     distinct (map export_name (concat (map field_exports fs))) \<and>
     (\<forall>e \<in> set (concat (map field_exports fs)). export_name e \<notin> export_names (vd_validator s) \<and>
        item_in (entries (vd_validator s)) (export_kind e) (idx (export_var e)))"
proof (induction fs arbitrary: s)
  case (Cons x fs)
  from Cons.prems(1) obtain s1 where s1: "run_state (check_export_field x) s = ((), s1)"
    "run_state (for_each check_export_field fs) s1 = ((), s')" by (auto split: prod.splits)
  have f1: "fine s1" by (rule fine_before [OF lost_loops(7) s1(2) Cons.prems(2)])
  note IH = Cons.IH [OF s1(2) Cons.prems(2)]
  show ?case
  proof (cases "\<exists>e. x = ExportField e")
    case True
    then obtain e where x: "x = ExportField e" ..
    from s1(1) f1 have "run_state (OnExport no_location (export_kind e) (sv_var (export_var e)) (export_name e))
        (vd_validator s) = (Ok, vd_validator s1)" by (auto simp: x dest: accrue_fine)
    from OnExport_Ok [OF this] have new: "export_name e \<notin> export_names (vd_validator s)"
      "item_in (entries (vd_validator s)) (export_kind e) (idx (export_var e))"
      "export_names (vd_validator s1) = insert (export_name e) (export_names (vd_validator s))"
      by simp_all
    have "entries (vd_validator s1) = entries (vd_validator s)"
      by (rule settled_run [OF s1(1) settled_fields(1)])
    with IH new show ?thesis by (auto simp: x) blast
  next
    case False
    then have "s1 = s" "field_exports x = []" using s1(1) by (cases x; simp)+
    with IH show ?thesis by simp
  qed
qed simp

lemma ValidateModule_fields:
  assumes "ValidateModule m f = Some (Ok, errs)"
  shows "\<exists>s. run_state (CheckFields m) (Validator f) = ((), s) \<and> fine s"
proof -
  obtain s where s: "run_state (CheckModule m) (Validator f) = (Ok, s)" "fine s"
    using ValidateModule_fine [OF assms] by blast
  then obtain s1 where s1: "run_state (CheckFields m) (Validator f) = ((), s1)"
    "run_state (accrue EndModule) s1 = ((), s)"
    unfolding CheckModule_fields by (auto split: prod.splits)
  have "fine s1" by (rule fine_before [OF lost_accrue(1) s1(2) s(2)])
  with s1(1) show ?thesis by blast
qed

text \<open>A module with an imported global, a function that is exported and referred to, and a memory.\<close>

definition checked_fields :: "module_field list" where
  "checked_fields = [TypeField (IR.FuncType [] (func_signature.make [] [])),
     ImportField (import.make [101] [103] (GlobalImport (global.make [] I32 False []))),
     FuncField (func.make [] (func_declaration.make True (VIndex 0) (func_signature.make [] [])) [] []
       [VarExpr RefFuncT (VIndex 0), SimpleExpr DropT]),
     GlobalField (global.make [] I32 True [VarExpr GlobalGetT (VIndex 0)]),
     MemoryField (memory.make [] default_limits)]"

definition checked_exports :: "module_field list" where
  "checked_exports = [ExportField (export.make [102] EkFunc (VIndex 0)),
     ExportField (export.make [109] EkMemory (VIndex 0))]"

definition checked_module :: module where
  "checked_module = AppendFields (checked_fields @ checked_exports) empty_module"

lemma checked_module_fields: "fields_of checked_module = checked_fields @ checked_exports"
  by (simp add: checked_module_def fields_of_AppendFields empty_module_def)

lemma length_checked: "length (fields_of checked_module) < 2 ^ 32"
  by (simp add: checked_module_fields checked_fields_def checked_exports_def)

lemma checked_valid: "ValidateModule checked_module default_features = Some (Ok, [])"
  by code_simp

text \<open>
  C23. In a module that \<open>ValidateModule\<close> accepts, with fewer than \<open>2 ^ 32\<close> fields, the names of the
  exports are pairwise different, and the item of every export is in the index space of its kind.
\<close>

theorem exports_valid:
  assumes "ValidateModule m f = Some (Ok, errs)" "length (fields_of m) < 2 ^ 32"
  shows "distinct (map export_name (module_exports m)) \<and>
    (\<forall>e \<in> set (module_exports m). item_in (module_env m) (export_kind e) (idx (export_var e)))"
proof -
  obtain s where s: "run_state (CheckFields m) (Validator f) = ((), s)" "fine s"
    using ValidateModule_fields [OF assms(1)] by blast
  then obtain s1 s2 where run: "run_state (CheckEntries m) (Validator f) = ((), s1)"
    "run_state (for_each (check_body_field m) (numbered_funcs m)) s1 = ((), s2)"
    "run_state (for_each (check_data_field m) (fields_of m)) s2 = ((), s)"
    unfolding CheckFields_def by (blast dest!: run_unit_bind)
  have "fine s1"
    by (rule fine_before [OF lost_loops(11) run(2) fine_before [OF lost_loops(10) run(3) s(2)]])
  from CheckEntries_states [OF run(1) this assms(2)] obtain s7 s8 where
    "run_state (for_each check_export_field (fields_of m)) s7 = ((), s8)" "fine s8"
    "entries (vd_validator s7) = module_env m" by blast
  with exports_loop show ?thesis unfolding module_exports_def by metis
qed

theorem exports_valid_witness:
  "map export_name (module_exports checked_module) = [[102], [109]] \<and>
     distinct (map export_name (module_exports checked_module)) \<and>
     item_in (module_env checked_module) EkMemory 0"
proof (intro conjI)
  have es: "module_exports checked_module = [export.make [102] EkFunc (VIndex 0), export.make [109] EkMemory (VIndex 0)]"
    by (simp add: module_exports_def checked_module_fields checked_fields_def checked_exports_def)
  then show "map export_name (module_exports checked_module) = [[102], [109]]" by (simp add: export.make_def)
  note valid = exports_valid [OF checked_valid length_checked]
  then show "distinct (map export_name (module_exports checked_module))" by blast
  from valid es have "item_in (module_env checked_module) (export_kind (export.make [109] EkMemory (VIndex 0)))
      (idx (export_var (export.make [109] EkMemory (VIndex 0))))" by simp
  then show "item_in (module_env checked_module) EkMemory 0"
    by (simp only: export.make_def export.select_convs idx_def sv_var.simps Var_def var.select_convs)
qed

text \<open>
  C24. \<open>ValidateModule\<close> accepts a module with fewer than \<open>2 ^ 32\<close> fields exactly if nothing is found
  before \<open>EndModule\<close> and each function that a \<open>ref.func\<close> in a body refers to is declared: exported, or
  referred to by a \<open>ref.func\<close> in an initializer expression of a global or in an element or an active
  data segment.
\<close>

theorem ref_funcs_declared:
  assumes "length (fields_of m) < 2 ^ 32"
  shows "ValidateModule m f = Some (Ok, errs) \<longleftrightarrow>
    (let s = snd (run_state (CheckFields m) (Validator f)) in
     fine s \<and> errs = sv_errors (vd_validator s) \<and> set (referenced_by m) \<subseteq> set (declared_by m))"
proof -
  obtain s where s: "run_state (CheckFields m) (Validator f) = ((), s)"
    by (cases "run_state (CheckFields m) (Validator f)") simp
  have check: "var_index ` set (check_declared_funcs (vd_validator s)) \<subseteq> declared_funcs (vd_validator s) \<longleftrightarrow>
      set (referenced_by m) \<subseteq> set (declared_by m)" if "fine s"
    using CheckFields_collects [OF s that assms] by simp
  show ?thesis
  proof
    assume ok: "ValidateModule m f = Some (Ok, errs)"
    with s have "fine s" using ValidateModule_fields [OF ok] by auto
    moreover have end_ok: "fst (run_state EndModule (vd_validator s)) = Ok"
      using ok s by (auto simp: ValidateModule_def CheckModule_fields accrue_def Let_def split: prod.splits if_splits)
    moreover have "run_state EndModule (vd_validator s) = (Ok, vd_validator s)"
      using end_ok by (intro EndModule_same) (simp add: EndModule_iff)
    moreover have "set (referenced_by m) \<subseteq> set (declared_by m)"
      using end_ok check [OF \<open>fine s\<close>] by (simp add: EndModule_iff)
    ultimately show "let s = snd (run_state (CheckFields m) (Validator f)) in
       fine s \<and> errs = sv_errors (vd_validator s) \<and> set (referenced_by m) \<subseteq> set (declared_by m)"
      using ok s by (simp add: ValidateModule_def CheckModule_fields accrue_def split: if_splits)
  next
    assume "let s = snd (run_state (CheckFields m) (Validator f)) in
       fine s \<and> errs = sv_errors (vd_validator s) \<and> set (referenced_by m) \<subseteq> set (declared_by m)"
    with s check have "fine s" "errs = sv_errors (vd_validator s)"
      "run_state EndModule (vd_validator s) = (Ok, vd_validator s)" by (simp_all add: EndModule_same)
    with s show "ValidateModule m f = Some (Ok, errs)"
      by (simp add: ValidateModule_def CheckModule_fields accrue_def fine_def)
  qed
qed

theorem ref_funcs_declared_witness:
  "ValidateModule checked_module default_features = Some (Ok, []) \<and>
     ValidateModule (AppendFields checked_fields empty_module) default_features \<noteq> Some (Ok, [])"
proof
  let ?m = "AppendFields checked_fields empty_module"
  have "set (referenced_by ?m) = {0}" "set (declared_by ?m) = {}"
    by code_simp+
  moreover have "length (fields_of ?m) < 2 ^ 32"
    by (simp add: fields_of_AppendFields empty_module_def checked_fields_def)
  ultimately show "ValidateModule ?m default_features \<noteq> Some (Ok, [])"
    using ref_funcs_declared [of ?m] by (simp add: Let_def)
qed (rule checked_valid)

text \<open>
  C25. In a module that \<open>ValidateModule\<close> accepts, with fewer than \<open>2 ^ 32\<close> fields, the initializer
  expressions of the globals and of the element and active data segments consist of constant
  expressions: constants, null references, references to functions of the module, reads of imported
  immutable globals, and operators that are allowed there.
\<close>

theorem init_exprs_constant:
  assumes "ValidateModule m f = Some (Ok, errs)" "length (fields_of m) < 2 ^ 32" "es \<in> set (module_inits m)"
  shows "list_all (constant_expr f (env_funcs (module_env m)) (imported_globals m)) es"
proof -
  obtain s where "run_state (CheckFields m) (Validator f) = ((), s)" "fine s"
    using ValidateModule_fields [OF assms(1)] by blast
  from CheckFields_collects [OF this assms(2)] assms(3) show ?thesis by blast
qed

theorem init_exprs_constant_witness:
  "list_all (constant_expr default_features (env_funcs (module_env checked_module))
     [\<lparr>gt_type = I32, gt_mutable = False\<rparr>]) [VarExpr GlobalGetT (VIndex 0)]"
proof -
  have inits: "[VarExpr GlobalGetT (VIndex 0)] \<in> set (module_inits checked_module)"
    by (simp add: module_inits_def checked_module_fields checked_fields_def checked_exports_def global.make_def)
  have gts: "imported_globals checked_module = [\<lparr>gt_type = I32, gt_mutable = False\<rparr>]"
    by (simp add: imported_globals_def checked_module_fields checked_fields_def checked_exports_def
      global.make_def import.make_def)
  show ?thesis using init_exprs_constant [OF checked_valid length_checked inits] by (simp only: gts)
qed

end
