(* ===== verification/Expr_Rewrite.thy ===== *)
theory Expr_Rewrite
  imports Expr_Visitor
begin

text \<open>
  Delegates of the expression visitor that write to the expressions they are called with: the
  passes that resolve, apply and generate names. Such a member function changes variables, labels and
  declarations, never a list that an iterator of the visitor stands on, so an expression after the
  pass is the same expression with these parts replaced. \<open>rewrite_expr\<close> is the traversal that puts
  the new parts in place; \<open>rewrite_traverses\<close> shows that its calls are those of the visitor.
\<close>

section \<open>Delegates that write\<close>

datatype construct = CBlock | CLoop | CIf | CTry

text \<open>
  \<open>rw_begin\<close> is called with the label and the declaration of the block, \<open>rw_catch\<close> with the variable
  of the catch, \<open>rw_delegate\<close> with the target of the delegate. Each yields the part as it leaves it.
\<close>

record 's rewriter =
  rw_expr :: "expr \<Rightarrow> ('s, result \<times> expr) state"
  rw_begin :: "construct \<Rightarrow> name \<times> func_declaration \<Rightarrow> ('s, result \<times> name \<times> func_declaration) state"
  rw_end :: "construct \<Rightarrow> ('s, result) state"
  rw_catch :: "IR.var \<Rightarrow> ('s, result \<times> IR.var) state"
  rw_delegate :: "IR.var \<Rightarrow> ('s, result \<times> IR.var) state"

text \<open>\<open>CHECK_RESULT\<close> of a step that writes: on failure the rest stays as it is.\<close>

definition and_write ::
  "('s, result \<times> 'a) state \<Rightarrow> ('a \<Rightarrow> 'b) \<Rightarrow> ('a \<Rightarrow> ('s, result \<times> 'b) state) \<Rightarrow> ('s, result \<times> 'b) state" where
  "and_write M put k = do { (r, x) \<leftarrow> M; if Failed r then State_Monad.return (Error, put x) else k x }"

definition writes :: "('s, result \<times> 'a) state \<Rightarrow> ('a \<Rightarrow> 'b) \<Rightarrow> ('s, result \<times> 'b) state" where
  "writes M put = do { (r, x) \<leftarrow> M; State_Monad.return (r, put x) }"

definition ends :: "('s, result) state \<Rightarrow> 'b \<Rightarrow> ('s, result \<times> 'b) state" where
  "ends M x = do { r \<leftarrow> M; State_Monad.return (r, x) }"

text \<open>A step that writes and does not fail.\<close>

definition change :: "('a \<Rightarrow> 'b) \<Rightarrow> ('s, 'a) state \<Rightarrow> ('s, 'b) state" where
  "change put M = do { x \<leftarrow> M; State_Monad.return (put x) }"

definition is_ok :: "('s, 'a) state \<Rightarrow> ('s, result \<times> 'a) state" where
  "is_ok M = do { x \<leftarrow> M; State_Monad.return (Ok, x) }"

lemma and_write_is_ok: "and_write (is_ok M) put k = State_Monad.bind M k"
  by (rule state.expand) (auto simp: and_write_def is_ok_def Failed_def fun_eq_iff split: prod.splits)

lemma writes_is_ok: "writes (is_ok M) put = is_ok (change put M)"
  by (rule state.expand) (auto simp: writes_def is_ok_def change_def fun_eq_iff split: prod.splits)

lemma bind_is_ok: "State_Monad.bind M (\<lambda>x. is_ok (k x)) = is_ok (State_Monad.bind M k)"
  by (rule state.expand) (auto simp: is_ok_def fun_eq_iff split: prod.splits)

primrec construct_of :: "block_type \<Rightarrow> construct" where
  "construct_of BlockT = CBlock"
| "construct_of LoopT = CLoop"

fun rewrite_expr :: "'s rewriter \<Rightarrow> expr \<Rightarrow> ('s, result \<times> expr) state"
  and rewrite_exprs :: "'s rewriter \<Rightarrow> expr list \<Rightarrow> ('s, result \<times> expr list) state"
  and rewrite_catches :: "'s rewriter \<Rightarrow> catch list \<Rightarrow> ('s, result \<times> catch list) state"
where
  "rewrite_expr rw (BlockExprBase k (Block l decl es)) =
     and_write (rw_begin rw (construct_of k) (l, decl)) (\<lambda>(l, decl). BlockExprBase k (Block l decl es))
       (\<lambda>(l, decl).
     and_write (rewrite_exprs rw es) (\<lambda>es. BlockExprBase k (Block l decl es))
       (\<lambda>es. ends (rw_end rw (construct_of k)) (BlockExprBase k (Block l decl es))))"
| "rewrite_expr rw (IfExpr (Block l decl es) es') =
     and_write (rw_begin rw CIf (l, decl)) (\<lambda>(l, decl). IfExpr (Block l decl es) es') (\<lambda>(l, decl).
     and_write (rewrite_exprs rw es) (\<lambda>es. IfExpr (Block l decl es) es') (\<lambda>es.
     and_write (rewrite_exprs rw es') (\<lambda>es'. IfExpr (Block l decl es) es')
       (\<lambda>es'. ends (rw_end rw CIf) (IfExpr (Block l decl es) es'))))"
| "rewrite_expr rw (TryExpr kind (Block l decl es) cs t) =
     and_write (rw_begin rw CTry (l, decl)) (\<lambda>(l, decl). TryExpr kind (Block l decl es) cs t)
       (\<lambda>(l, decl).
     and_write (rewrite_exprs rw es) (\<lambda>es. TryExpr kind (Block l decl es) cs t) (\<lambda>es.
       case kind of
         TryCatch \<Rightarrow> and_write (rewrite_catches rw cs) (\<lambda>cs. TryExpr kind (Block l decl es) cs t)
           (\<lambda>cs. ends (rw_end rw CTry) (TryExpr kind (Block l decl es) cs t))
       | TryDelegate \<Rightarrow> writes (rw_delegate rw t) (TryExpr kind (Block l decl es) cs)
       | TryPlain \<Rightarrow> ends (rw_end rw CTry) (TryExpr kind (Block l decl es) cs t)))"
| "rewrite_expr rw e = rw_expr rw e"
| "rewrite_exprs rw [] = State_Monad.return (Ok, [])"
| "rewrite_exprs rw (e # es) =
     and_write (rewrite_expr rw e) (\<lambda>e. e # es) (\<lambda>e. writes (rewrite_exprs rw es) ((#) e))"
| "rewrite_catches rw [] = State_Monad.return (Ok, [])"
| "rewrite_catches rw (Catch v es # cs) =
     and_write (rw_catch rw v) (\<lambda>v. Catch v es # cs) (\<lambda>v.
     and_write (rewrite_exprs rw es) (\<lambda>es. Catch v es # cs)
       (\<lambda>es. writes (rewrite_catches rw cs) ((#) (Catch v es))))"

section \<open>The calls of the visitor\<close>

text \<open>The delegate as the visitor sees it: the calls and their results.\<close>

abbreviation expr_head :: "expr \<Rightarrow> name \<times> func_declaration" where
  "expr_head e \<equiv> (expr_label e, expr_decl e)"

definition result_of :: "('s, result \<times> 'a) state \<Rightarrow> ('s, result) state" where
  "result_of M = do { (r, x) \<leftarrow> M; State_Monad.return r }"

primrec seen :: "'s rewriter \<Rightarrow> 's delegate" where
  "seen rw (OnExpr e) = result_of (rw_expr rw e)"
| "seen rw (BeginBlockExpr e) = result_of (rw_begin rw CBlock (expr_head e))"
| "seen rw (EndBlockExpr e) = rw_end rw CBlock"
| "seen rw (BeginIfExpr e) = result_of (rw_begin rw CIf (expr_head e))"
| "seen rw (AfterIfTrueExpr e) = State_Monad.return Ok"
| "seen rw (EndIfExpr e) = rw_end rw CIf"
| "seen rw (BeginLoopExpr e) = result_of (rw_begin rw CLoop (expr_head e))"
| "seen rw (EndLoopExpr e) = rw_end rw CLoop"
| "seen rw (BeginTryExpr e) = result_of (rw_begin rw CTry (expr_head e))"
| "seen rw (OnCatchExpr e c) = result_of (rw_catch rw (catch_var c))"
| "seen rw (OnDelegateExpr e) = result_of (rw_delegate rw (delegate_target e))"
| "seen rw (EndTryExpr e) = rw_end rw CTry"

lemma run_result_of [simp]:
  "run_state (result_of M) s = (let ((r, x), s') = run_state M s in (r, s'))"
  by (simp add: result_of_def split: prod.splits)

lemma run_and_write [simp]:
  "run_state (and_write M put k) s =
     (let ((r, x), s') = run_state M s in if r = Error then ((Error, put x), s') else run_state (k x) s')"
  by (simp add: and_write_def Failed_def split: prod.splits)

lemma run_writes [simp]:
  "run_state (writes M put) s = (let ((r, x), s') = run_state M s in ((r, put x), s'))"
  by (simp add: writes_def split: prod.splits)

lemma run_ends [simp]: "run_state (ends M x) s = (let (r, s') = run_state M s in ((r, x), s'))"
  by (simp add: ends_def split: prod.splits)

lemma traverse_rewrite:
  "run_state (traverse_expr (seen rw) e) s = (let ((r, x), s') = run_state (rewrite_expr rw e) s in (r, s'))"
  "run_state (traverse_exprs (seen rw) es) s = (let ((r, x), s') = run_state (rewrite_exprs rw es) s in (r, s'))"
  "run_state (traverse_catches (seen rw) e' cs) s =
     (let ((r, x), s') = run_state (rewrite_catches rw cs) s in (r, s'))"
proof (induction "seen rw" e and "seen rw" es and "seen rw" e' cs arbitrary: s and s and s
    rule: traverse_expr_traverse_exprs_traverse_catches.induct)
  case (4 kind l decl es cs t)
  then show ?case by (cases kind) (simp_all split: prod.splits)
qed (auto split: prod.splits)

text \<open>
  The pass makes the calls that the visitor makes to the delegate, in the same order, with the
  same results and the same effect on the state of the pass.
\<close>

lemma rewrite_traverses:
  "VisitExprList (seen rw) es s = Some (run_state (result_of (rewrite_exprs rw es)) s)"
  by (simp add: VisitExprList_traverses traverse_rewrite(2))

end
