(* ===== verification/Module_Update.thy ===== *)
theory Module_Update
  imports Expr_Rewrite
begin

text \<open>
  Entities that are changed in place. The vectors of a module (\<open>module->funcs\<close> and so on) hold
  pointers into its fields and imports, so a pass that changes an entity through a vector changes
  the field as well. Here vectors hold values: a loop over a vector is a loop over the fields that
  hold its entities, in their order, and \<open>from_fields\<close> brings the vectors up to date afterwards.
\<close>

section \<open>Parts of a list\<close>

text \<open>The fields for which \<open>get\<close> has a value hold an entity, which \<open>put\<close> replaces.\<close>

definition parts :: "('f \<Rightarrow> 'a option) \<Rightarrow> 'f list \<Rightarrow> 'a list" where
  "parts get fs = List.map_filter get fs"

primrec rewrite_parts ::
  "('f \<Rightarrow> 'a option) \<Rightarrow> ('a \<Rightarrow> 'f \<Rightarrow> 'f) \<Rightarrow> ('a \<Rightarrow> ('s, result \<times> 'a) state) \<Rightarrow> 'f list \<Rightarrow>
     ('s, result \<times> 'f list) state" where
  "rewrite_parts get put act [] = State_Monad.return (Ok, [])"
| "rewrite_parts get put act (f # fs) =
     (case get f of
        None \<Rightarrow> writes (rewrite_parts get put act fs) ((#) f)
      | Some x \<Rightarrow> and_write (act x) (\<lambda>x. put x f # fs)
          (\<lambda>x. writes (rewrite_parts get put act fs) ((#) (put x f))))"

text \<open>The entity number \<open>k\<close> of a kind, in the field that holds it.\<close>

primrec update_part :: "('f \<Rightarrow> 'a option) \<Rightarrow> ('a \<Rightarrow> 'f \<Rightarrow> 'f) \<Rightarrow> nat \<Rightarrow> ('a \<Rightarrow> 'a) \<Rightarrow> 'f list \<Rightarrow> 'f list" where
  "update_part get put k g [] = []"
| "update_part get put k g (f # fs) =
     (case get f of
        None \<Rightarrow> f # update_part get put k g fs
      | Some x \<Rightarrow> (case k of 0 \<Rightarrow> put (g x) f # fs | Suc k' \<Rightarrow> f # update_part get put k' g fs))"

definition over :: "('f \<Rightarrow> 'a option) \<Rightarrow> ('a \<Rightarrow> 'f \<Rightarrow> 'f) \<Rightarrow> ('a \<Rightarrow> 'a) \<Rightarrow> 'f \<Rightarrow> 'f" where
  "over get put g f = (case get f of Some x \<Rightarrow> put (g x) f | None \<Rightarrow> f)"

lemma parts_simps [simp]:
  "parts get [] = []"
  "parts get (f # fs) = (case get f of Some x \<Rightarrow> x # parts get fs | None \<Rightarrow> parts get fs)"
  by (simp_all add: parts_def List.map_filter_simps split: option.splits)

lemma parts_append: "parts get (fs @ gs) = parts get fs @ parts get gs"
  by (induction fs) (auto split: option.splits)

text \<open>An entity of a field can be read back and is all that changes.\<close>

locale field_part =
  fixes get :: "'f \<Rightarrow> 'a option" and put :: "'a \<Rightarrow> 'f \<Rightarrow> 'f"
  assumes get_put: "get f = Some y \<Longrightarrow> get (put x f) = Some x"
    and put_get: "get f = Some x \<Longrightarrow> put x f = f"
    and put_put: "get f = Some z \<Longrightarrow> put x (put y f) = put x f"
begin

lemma parts_map: "parts get (map (over get put g) fs) = map g (parts get fs)"
  by (induction fs) (auto simp: over_def get_put split: option.splits)

lemma over_over: "over get put g (over get put h f) = over get put (\<lambda>x. g (h x)) f"
  by (simp add: over_def get_put put_put split: option.splits)

lemma over_id: "(\<And>x. get f = Some x \<Longrightarrow> g x = x) \<Longrightarrow> over get put g f = f"
  by (simp add: over_def put_get split: option.splits)

end

section \<open>The entities of a field\<close>

definition put_import :: "import_desc \<Rightarrow> module_field \<Rightarrow> module_field" where
  "put_import d f = (case f of ImportField i \<Rightarrow> ImportField (i\<lparr>import_desc := d\<rparr>) | _ \<Rightarrow> f)"

fun the_func :: "module_field \<Rightarrow> func option" where
  "the_func (FuncField f) = Some f"
| "the_func (ImportField i) = (case import_desc i of FuncImport f \<Rightarrow> Some f | _ \<Rightarrow> None)"
| "the_func x = None"

fun put_func :: "func \<Rightarrow> module_field \<Rightarrow> module_field" where
  "put_func f (FuncField g) = FuncField f"
| "put_func f x = put_import (FuncImport f) x"

fun the_table :: "module_field \<Rightarrow> table option" where
  "the_table (TableField t) = Some t"
| "the_table (ImportField i) = (case import_desc i of TableImport t \<Rightarrow> Some t | _ \<Rightarrow> None)"
| "the_table x = None"

fun put_table :: "table \<Rightarrow> module_field \<Rightarrow> module_field" where
  "put_table t (TableField u) = TableField t"
| "put_table t x = put_import (TableImport t) x"

fun the_memory :: "module_field \<Rightarrow> memory option" where
  "the_memory (MemoryField m) = Some m"
| "the_memory (ImportField i) = (case import_desc i of MemoryImport m \<Rightarrow> Some m | _ \<Rightarrow> None)"
| "the_memory x = None"

fun put_memory :: "memory \<Rightarrow> module_field \<Rightarrow> module_field" where
  "put_memory m (MemoryField u) = MemoryField m"
| "put_memory m x = put_import (MemoryImport m) x"

fun the_global :: "module_field \<Rightarrow> global option" where
  "the_global (GlobalField g) = Some g"
| "the_global (ImportField i) = (case import_desc i of GlobalImport g \<Rightarrow> Some g | _ \<Rightarrow> None)"
| "the_global x = None"

fun put_global :: "global \<Rightarrow> module_field \<Rightarrow> module_field" where
  "put_global g (GlobalField u) = GlobalField g"
| "put_global g x = put_import (GlobalImport g) x"

fun the_tag :: "module_field \<Rightarrow> tag option" where
  "the_tag (TagField t) = Some t"
| "the_tag (ImportField i) = (case import_desc i of TagImport t \<Rightarrow> Some t | _ \<Rightarrow> None)"
| "the_tag x = None"

fun put_tag :: "tag \<Rightarrow> module_field \<Rightarrow> module_field" where
  "put_tag t (TagField u) = TagField t"
| "put_tag t x = put_import (TagImport t) x"

definition the_type :: "module_field \<Rightarrow> type_entry option" where
  "the_type x = (case x of TypeField t \<Rightarrow> Some t | _ \<Rightarrow> None)"

fun rename_entry :: "name \<Rightarrow> type_entry \<Rightarrow> type_entry" where
  "rename_entry str (FuncType nm sig) = FuncType str sig"
| "rename_entry str (StructType nm fs) = StructType str fs"
| "rename_entry str (ArrayType nm f) = ArrayType str f"

definition put_type :: "type_entry \<Rightarrow> module_field \<Rightarrow> module_field" where
  "put_type t x = TypeField t"

definition the_export :: "module_field \<Rightarrow> export option" where
  "the_export x = (case x of ExportField e \<Rightarrow> Some e | _ \<Rightarrow> None)"

definition put_export :: "export \<Rightarrow> module_field \<Rightarrow> module_field" where
  "put_export e x = ExportField e"

definition the_elem :: "module_field \<Rightarrow> elem_segment option" where
  "the_elem x = (case x of ElemSegmentField e \<Rightarrow> Some e | _ \<Rightarrow> None)"

definition put_elem :: "elem_segment \<Rightarrow> module_field \<Rightarrow> module_field" where
  "put_elem e x = ElemSegmentField e"

definition the_data :: "module_field \<Rightarrow> data_segment option" where
  "the_data x = (case x of DataSegmentField d \<Rightarrow> Some d | _ \<Rightarrow> None)"

definition put_data :: "data_segment \<Rightarrow> module_field \<Rightarrow> module_field" where
  "put_data d x = DataSegmentField d"

definition the_start :: "module_field \<Rightarrow> IR.var option" where
  "the_start x = (case x of StartField v \<Rightarrow> Some v | _ \<Rightarrow> None)"

definition put_start :: "IR.var \<Rightarrow> module_field \<Rightarrow> module_field" where
  "put_start v x = StartField v"

definition the_import :: "module_field \<Rightarrow> import option" where
  "the_import x = (case x of ImportField i \<Rightarrow> Some i | _ \<Rightarrow> None)"

lemmas entity_parts = the_type_def put_type_def the_export_def put_export_def the_elem_def put_elem_def
  the_data_def put_data_def the_start_def put_start_def the_import_def put_import_def

interpretation func_part: field_part the_func put_func
  by unfold_locales (auto simp: put_import_def elim!: the_func.elims split: import_desc.splits)

interpretation table_part: field_part the_table put_table
  by unfold_locales (auto simp: put_import_def elim!: the_table.elims split: import_desc.splits)

interpretation memory_part: field_part the_memory put_memory
  by unfold_locales (auto simp: put_import_def elim!: the_memory.elims split: import_desc.splits)

interpretation global_part: field_part the_global put_global
  by unfold_locales (auto simp: put_import_def elim!: the_global.elims split: import_desc.splits)

interpretation tag_part: field_part the_tag put_tag
  by unfold_locales (auto simp: put_import_def elim!: the_tag.elims split: import_desc.splits)

interpretation type_part: field_part the_type put_type
  by unfold_locales (auto simp: entity_parts split: module_field.splits)

interpretation export_part: field_part the_export put_export
  by unfold_locales (auto simp: entity_parts split: module_field.splits)

interpretation elem_part: field_part the_elem put_elem
  by unfold_locales (auto simp: entity_parts split: module_field.splits)

interpretation data_part: field_part the_data put_data
  by unfold_locales (auto simp: entity_parts split: module_field.splits)

interpretation start_part: field_part the_start put_start
  by unfold_locales (auto simp: entity_parts split: module_field.splits)

section \<open>The module\<close>

definition from_fields :: "module_field list \<Rightarrow> module \<Rightarrow> module" where
  "from_fields fs m = m\<lparr>fields_of := fs, funcs := parts the_func fs, tables := parts the_table fs,
     memories := parts the_memory fs, globals := parts the_global fs, tags := parts the_tag fs,
     types := parts the_type fs, exports := parts the_export fs, elem_segments := parts the_elem fs,
     data_segments := parts the_data fs, starts := parts the_start fs,
     mod_imports := parts the_import fs\<rparr>"

text \<open>The vectors point to the fields: so it is for every module that has been built field by field.\<close>

definition aliased :: "module \<Rightarrow> bool" where
  "aliased m \<longleftrightarrow> from_fields (fields_of m) m = m"

lemma from_fields_from_fields [simp]: "from_fields fs (from_fields gs m) = from_fields fs m"
  by (simp add: from_fields_def)

lemma fields_of_from_fields [simp]: "fields_of (from_fields fs m) = fs"
  by (simp add: from_fields_def)

lemma aliased_from_fields [simp]: "aliased (from_fields fs m)"
  by (simp add: aliased_def)

lemma aliased_empty [simp]: "aliased empty_module"
  by (simp add: aliased_def from_fields_def empty_module_def)

lemma aliased_AppendField: "aliased m \<Longrightarrow> aliased (AppendField f m)"
  unfolding aliased_def from_fields_def
  by (cases m; cases f) (auto simp: parts_append AppendImport_def entity_parts Let_def
    split: import_desc.splits)

lemma aliased_AppendFields: "aliased m \<Longrightarrow> aliased (AppendFields fs m)"
  by (induction fs arbitrary: m) (simp_all add: AppendFields_def aliased_AppendField)

end
