(* ===== verification/Resolve_Names.thy ===== *)
theory Resolve_Names
  imports Module_Update
begin

text \<open>
  The resolver of names (src/resolve-names.cc): a delegate of the expression visitor that writes the
  index of an entity, a local or a label in the place of its name, and the loops over the entities of
  the module. The definitions with the suffix \<open>_nr\<close> are the member functions of the resolver; all of
  them return \<open>Ok\<close> to the visitor, errors are collected in \<open>result_\<close>. Scripts are left out.
\<close>

section \<open>State\<close>

text \<open>
  The errors with the names they are about: a redefinition, with what is redefined, or an undefined
  variable, with its kind. The module and the function that the resolver is in are parameters.
\<close>

datatype name_error = Redefinition string name | Undefined string name

record name_resolver =
  nr_errors :: "name_error list"
  nr_labels :: "name list"
  nr_result :: result

type_synonym 'a nr = "(name_resolver, 'a) state"

definition NameResolver :: name_resolver where
  "NameResolver = \<lparr>nr_errors = [], nr_labels = [], nr_result = Ok\<rparr>"

definition PrintError_nr :: "name_error \<Rightarrow> unit nr" where
  "PrintError_nr e = modify (\<lambda>s. s\<lparr>nr_result := Error, nr_errors := nr_errors s @ [e]\<rparr>)"

definition PushLabel_nr :: "name \<Rightarrow> unit nr" where
  "PushLabel_nr l = modify (\<lambda>s. s\<lparr>nr_labels := nr_labels s @ [l]\<rparr>)"

definition PopLabel_nr :: "unit nr" where
  "PopLabel_nr = modify (\<lambda>s. s\<lparr>nr_labels := butlast (nr_labels s)\<rparr>)"

section \<open>Duplicates\<close>

text \<open>
  The calls of \<open>FindDuplicates\<close>: the first binding of a name with each further one. The source sorts
  them by their locations, which the bindings do not have here; they come in the order in which
  they were bound.
\<close>

fun duplicates_from :: "binding_hash \<Rightarrow> binding_hash \<Rightarrow> ((name \<times> index) \<times> (name \<times> index)) list" where
  "duplicates_from known [] = []"
| "duplicates_from known ((nm, i) # bs) =
     (case map_of known nm of
        Some j \<Rightarrow> ((nm, j), (nm, i)) # duplicates_from known bs
      | None \<Rightarrow> duplicates_from (known @ [(nm, i)]) bs)"

definition FindDuplicates :: "binding_hash \<Rightarrow> ((name \<times> index) \<times> (name \<times> index)) list" where
  "FindDuplicates b = duplicates_from [] b"

definition PrintDuplicateBindingsError_nr ::
  "name \<times> index \<Rightarrow> name \<times> index \<Rightarrow> string \<Rightarrow> unit nr" where
  "PrintDuplicateBindingsError_nr a b desc = PrintError_nr (Redefinition desc (fst a))"

primrec print_duplicates ::
  "(index \<Rightarrow> string) \<Rightarrow> ((name \<times> index) \<times> (name \<times> index)) list \<Rightarrow> unit nr" where
  "print_duplicates desc [] = State_Monad.return ()"
| "print_duplicates desc (d # ds) = do {
     PrintDuplicateBindingsError_nr (fst d) (snd d) (desc (snd (snd d)));
     print_duplicates desc ds
   }"

definition CheckDuplicateBindings_nr :: "binding_hash \<Rightarrow> string \<Rightarrow> unit nr" where
  "CheckDuplicateBindings_nr hash desc = print_duplicates (\<lambda>i. desc) (FindDuplicates hash)"

section \<open>Variables\<close>

text \<open>The loop over the labels from the innermost, at the back, on; \<open>n\<close> labels are left to try.\<close>

fun find_label :: "name list \<Rightarrow> nat \<Rightarrow> name \<Rightarrow> nat option" where
  "find_label labels 0 nm = None"
| "find_label labels (Suc n) nm = (if labels ! n = nm then Some n else find_label labels n nm)"

definition ResolveLabelVar :: "IR.var \<Rightarrow> IR.var nr" where
  "ResolveLabelVar v = (case v of
     VIndex i \<Rightarrow> State_Monad.return v
   | VName nm \<Rightarrow> do {
       labels \<leftarrow> gets nr_labels;
       case find_label labels (length labels) nm of
         Some i \<Rightarrow> State_Monad.return (VIndex (of_nat (length labels - i - 1)))
       | None \<Rightarrow> do { PrintError_nr (Undefined ''label'' nm); State_Monad.return v }
     })"

definition ResolveVar :: "binding_hash \<Rightarrow> string \<Rightarrow> IR.var \<Rightarrow> IR.var nr" where
  "ResolveVar hash desc v = (case v of
     VIndex i \<Rightarrow> State_Monad.return v
   | VName nm \<Rightarrow>
       (let i = FindIndex hash v in
        if i = kInvalidIndex
        then do { PrintError_nr (Undefined desc nm); State_Monad.return v }
        else State_Monad.return (VIndex i)))"

definition ResolveFuncVar :: "module \<Rightarrow> IR.var \<Rightarrow> IR.var nr" where
  "ResolveFuncVar m v = ResolveVar (func_bindings m) ''function'' v"

definition ResolveGlobalVar :: "module \<Rightarrow> IR.var \<Rightarrow> IR.var nr" where
  "ResolveGlobalVar m v = ResolveVar (global_bindings m) ''global'' v"

definition ResolveFuncTypeVar :: "module \<Rightarrow> IR.var \<Rightarrow> IR.var nr" where
  "ResolveFuncTypeVar m v = ResolveVar (type_bindings m) ''type'' v"

definition ResolveTableVar :: "module \<Rightarrow> IR.var \<Rightarrow> IR.var nr" where
  "ResolveTableVar m v = ResolveVar (table_bindings m) ''table'' v"

definition ResolveMemoryVar :: "module \<Rightarrow> IR.var \<Rightarrow> IR.var nr" where
  "ResolveMemoryVar m v = ResolveVar (memory_bindings m) ''memory'' v"

definition ResolveTagVar :: "module \<Rightarrow> IR.var \<Rightarrow> IR.var nr" where
  "ResolveTagVar m v = ResolveVar (tag_bindings m) ''tag'' v"

definition ResolveDataSegmentVar :: "module \<Rightarrow> IR.var \<Rightarrow> IR.var nr" where
  "ResolveDataSegmentVar m v = ResolveVar (data_segment_bindings m) ''data segment'' v"

definition ResolveElemSegmentVar :: "module \<Rightarrow> IR.var \<Rightarrow> IR.var nr" where
  "ResolveElemSegmentVar m v = ResolveVar (elem_segment_bindings m) ''elem segment'' v"

text \<open>Outside of a function a local stays as it is, without an error.\<close>

definition ResolveLocalVar :: "func option \<Rightarrow> IR.var \<Rightarrow> IR.var nr" where
  "ResolveLocalVar f v = (case v of
     VIndex i \<Rightarrow> State_Monad.return v
   | VName nm \<Rightarrow>
       (case f of
          None \<Rightarrow> State_Monad.return v
        | Some f' \<Rightarrow>
            (let i = GetLocalIndex f' v in
             if i = kInvalidIndex
             then do { PrintError_nr (Undefined ''local'' nm); State_Monad.return v }
             else State_Monad.return (VIndex i))))"

definition resolve_decl :: "module \<Rightarrow> func_declaration \<Rightarrow> func_declaration nr" where
  "resolve_decl m decl =
     (if has_func_type decl
      then do { v \<leftarrow> ResolveFuncTypeVar m (type_var decl); State_Monad.return (decl\<lparr>type_var := v\<rparr>) }
      else State_Monad.return decl)"

definition ResolveBlockDeclarationVar :: "module \<Rightarrow> func_declaration \<Rightarrow> func_declaration nr" where
  "ResolveBlockDeclarationVar m decl = resolve_decl m decl"

section \<open>The delegate\<close>

definition OnBrExpr_nr :: "IR.var \<Rightarrow> IR.var nr" where
  "OnBrExpr_nr v = ResolveLabelVar v"

definition OnBrIfExpr_nr :: "IR.var \<Rightarrow> IR.var nr" where
  "OnBrIfExpr_nr v = ResolveLabelVar v"

definition OnCallExpr_nr :: "module \<Rightarrow> IR.var \<Rightarrow> IR.var nr" where
  "OnCallExpr_nr m v = ResolveFuncVar m v"

definition OnRefFuncExpr_nr :: "module \<Rightarrow> IR.var \<Rightarrow> IR.var nr" where
  "OnRefFuncExpr_nr m v = ResolveFuncVar m v"

definition OnGlobalGetExpr_nr :: "module \<Rightarrow> IR.var \<Rightarrow> IR.var nr" where
  "OnGlobalGetExpr_nr m v = ResolveGlobalVar m v"

definition OnGlobalSetExpr_nr :: "module \<Rightarrow> IR.var \<Rightarrow> IR.var nr" where
  "OnGlobalSetExpr_nr m v = ResolveGlobalVar m v"

definition OnLocalGetExpr_nr :: "func option \<Rightarrow> IR.var \<Rightarrow> IR.var nr" where
  "OnLocalGetExpr_nr f v = ResolveLocalVar f v"

definition OnLocalSetExpr_nr :: "func option \<Rightarrow> IR.var \<Rightarrow> IR.var nr" where
  "OnLocalSetExpr_nr f v = ResolveLocalVar f v"

definition OnLocalTeeExpr_nr :: "func option \<Rightarrow> IR.var \<Rightarrow> IR.var nr" where
  "OnLocalTeeExpr_nr f v = ResolveLocalVar f v"

definition OnReturnCallExpr_nr :: "module \<Rightarrow> IR.var \<Rightarrow> IR.var nr" where
  "OnReturnCallExpr_nr m v = ResolveFuncVar m v"

definition OnThrowExpr_nr :: "module \<Rightarrow> IR.var \<Rightarrow> IR.var nr" where
  "OnThrowExpr_nr m v = ResolveTagVar m v"

definition OnRethrowExpr_nr :: "IR.var \<Rightarrow> IR.var nr" where
  "OnRethrowExpr_nr v = ResolveLabelVar v"

definition OnDataDropExpr_nr :: "module \<Rightarrow> IR.var \<Rightarrow> IR.var nr" where
  "OnDataDropExpr_nr m v = ResolveDataSegmentVar m v"

definition OnElemDropExpr_nr :: "module \<Rightarrow> IR.var \<Rightarrow> IR.var nr" where
  "OnElemDropExpr_nr m v = ResolveElemSegmentVar m v"

definition OnTableGetExpr_nr :: "module \<Rightarrow> IR.var \<Rightarrow> IR.var nr" where
  "OnTableGetExpr_nr m v = ResolveTableVar m v"

definition OnTableSetExpr_nr :: "module \<Rightarrow> IR.var \<Rightarrow> IR.var nr" where
  "OnTableSetExpr_nr m v = ResolveTableVar m v"

definition OnTableGrowExpr_nr :: "module \<Rightarrow> IR.var \<Rightarrow> IR.var nr" where
  "OnTableGrowExpr_nr m v = ResolveTableVar m v"

definition OnTableSizeExpr_nr :: "module \<Rightarrow> IR.var \<Rightarrow> IR.var nr" where
  "OnTableSizeExpr_nr m v = ResolveTableVar m v"

definition OnTableFillExpr_nr :: "module \<Rightarrow> IR.var \<Rightarrow> IR.var nr" where
  "OnTableFillExpr_nr m v = ResolveTableVar m v"

definition OnMemoryGrowExpr_nr :: "module \<Rightarrow> IR.var \<Rightarrow> IR.var nr" where
  "OnMemoryGrowExpr_nr m memidx = ResolveMemoryVar m memidx"

definition OnMemorySizeExpr_nr :: "module \<Rightarrow> IR.var \<Rightarrow> IR.var nr" where
  "OnMemorySizeExpr_nr m memidx = ResolveMemoryVar m memidx"

definition OnMemoryFillExpr_nr :: "module \<Rightarrow> IR.var \<Rightarrow> IR.var nr" where
  "OnMemoryFillExpr_nr m memidx = ResolveMemoryVar m memidx"

definition OnLoadExpr_nr :: "module \<Rightarrow> IR.var \<Rightarrow> IR.var nr" where
  "OnLoadExpr_nr m memidx = ResolveMemoryVar m memidx"

definition OnStoreExpr_nr :: "module \<Rightarrow> IR.var \<Rightarrow> IR.var nr" where
  "OnStoreExpr_nr m memidx = ResolveMemoryVar m memidx"

definition OnSimdLoadLaneExpr_nr :: "module \<Rightarrow> IR.var \<Rightarrow> IR.var nr" where
  "OnSimdLoadLaneExpr_nr m memidx = ResolveMemoryVar m memidx"

definition OnSimdStoreLaneExpr_nr :: "module \<Rightarrow> IR.var \<Rightarrow> IR.var nr" where
  "OnSimdStoreLaneExpr_nr m memidx = ResolveMemoryVar m memidx"

definition OnMemoryCopyExpr_nr :: "module \<Rightarrow> IR.var \<Rightarrow> IR.var \<Rightarrow> (IR.var \<times> IR.var) nr" where
  "OnMemoryCopyExpr_nr m v w = do { v \<leftarrow> ResolveMemoryVar m v; w \<leftarrow> ResolveMemoryVar m w; State_Monad.return (v, w) }"

definition OnMemoryInitExpr_nr :: "module \<Rightarrow> IR.var \<Rightarrow> IR.var \<Rightarrow> (IR.var \<times> IR.var) nr" where
  "OnMemoryInitExpr_nr m v w = do { v \<leftarrow> ResolveDataSegmentVar m v; w \<leftarrow> ResolveMemoryVar m w; State_Monad.return (v, w) }"

definition OnTableCopyExpr_nr :: "module \<Rightarrow> IR.var \<Rightarrow> IR.var \<Rightarrow> (IR.var \<times> IR.var) nr" where
  "OnTableCopyExpr_nr m v w = do { v \<leftarrow> ResolveTableVar m v; w \<leftarrow> ResolveTableVar m w; State_Monad.return (v, w) }"

definition OnTableInitExpr_nr :: "module \<Rightarrow> IR.var \<Rightarrow> IR.var \<Rightarrow> (IR.var \<times> IR.var) nr" where
  "OnTableInitExpr_nr m v w = do { v \<leftarrow> ResolveElemSegmentVar m v; w \<leftarrow> ResolveTableVar m w; State_Monad.return (v, w) }"

definition OnCallIndirectExpr_nr ::
  "module \<Rightarrow> func_declaration \<Rightarrow> IR.var \<Rightarrow> (func_declaration \<times> IR.var) nr" where
  "OnCallIndirectExpr_nr m decl v = do {
     decl \<leftarrow> resolve_decl m decl;
     v \<leftarrow> ResolveTableVar m v;
     State_Monad.return (decl, v)
   }"

definition OnReturnCallIndirectExpr_nr ::
  "module \<Rightarrow> func_declaration \<Rightarrow> IR.var \<Rightarrow> (func_declaration \<times> IR.var) nr" where
  "OnReturnCallIndirectExpr_nr m decl v = do {
     decl \<leftarrow> resolve_decl m decl;
     v \<leftarrow> ResolveTableVar m v;
     State_Monad.return (decl, v)
   }"

primrec each :: "('a \<Rightarrow> 'a nr) \<Rightarrow> 'a list \<Rightarrow> 'a list nr" where
  "each f [] = State_Monad.return []"
| "each f (x # xs) = do { x \<leftarrow> f x; xs \<leftarrow> each f xs; State_Monad.return (x # xs) }"

definition OnBrTableExpr_nr :: "IR.var list \<Rightarrow> IR.var \<Rightarrow> (IR.var list \<times> IR.var) nr" where
  "OnBrTableExpr_nr targets default_target = do {
     targets \<leftarrow> each ResolveLabelVar targets;
     default_target \<leftarrow> ResolveLabelVar default_target;
     State_Monad.return (targets, default_target)
   }"

definition OnCatchExpr_nr :: "module \<Rightarrow> IR.var \<Rightarrow> IR.var nr" where
  "OnCatchExpr_nr m v = (if \<not> IsCatchAll (Catch v []) then ResolveTagVar m v else State_Monad.return v)"

definition OnDelegateExpr_nr :: "IR.var \<Rightarrow> IR.var nr" where
  "OnDelegateExpr_nr v = do { PopLabel_nr; ResolveLabelVar v }"

text \<open>\<open>BeginBlockExpr\<close>, \<open>BeginLoopExpr\<close>, \<open>BeginIfExpr\<close> and \<open>BeginTryExpr\<close> have one body, and so have the
  ends.\<close>

definition BeginExpr_nr :: "module \<Rightarrow> name \<times> func_declaration \<Rightarrow> (name \<times> func_declaration) nr" where
  "BeginExpr_nr m b = do {
     PushLabel_nr (fst b);
     decl \<leftarrow> ResolveBlockDeclarationVar m (snd b);
     State_Monad.return (fst b, decl)
   }"

definition EndExpr_nr :: "unit nr" where
  "EndExpr_nr = PopLabel_nr"

text \<open>The member functions by the type of the expression; what has none of its own stays as it is.\<close>

primrec var_expr_nr :: "module \<Rightarrow> func option \<Rightarrow> var_type \<Rightarrow> IR.var \<Rightarrow> IR.var nr" where
  "var_expr_nr m f BrT = OnBrExpr_nr"
| "var_expr_nr m f BrIfT = OnBrIfExpr_nr"
| "var_expr_nr m f CallT = OnCallExpr_nr m"
| "var_expr_nr m f RefFuncT = OnRefFuncExpr_nr m"
| "var_expr_nr m f GlobalGetT = OnGlobalGetExpr_nr m"
| "var_expr_nr m f GlobalSetT = OnGlobalSetExpr_nr m"
| "var_expr_nr m f LocalGetT = OnLocalGetExpr_nr f"
| "var_expr_nr m f LocalSetT = OnLocalSetExpr_nr f"
| "var_expr_nr m f LocalTeeT = OnLocalTeeExpr_nr f"
| "var_expr_nr m f ReturnCallT = OnReturnCallExpr_nr m"
| "var_expr_nr m f ThrowT = OnThrowExpr_nr m"
| "var_expr_nr m f RethrowT = OnRethrowExpr_nr"
| "var_expr_nr m f DataDropT = OnDataDropExpr_nr m"
| "var_expr_nr m f ElemDropT = OnElemDropExpr_nr m"
| "var_expr_nr m f TableGetT = OnTableGetExpr_nr m"
| "var_expr_nr m f TableSetT = OnTableSetExpr_nr m"
| "var_expr_nr m f TableGrowT = OnTableGrowExpr_nr m"
| "var_expr_nr m f TableSizeT = OnTableSizeExpr_nr m"
| "var_expr_nr m f TableFillT = OnTableFillExpr_nr m"

primrec memory_expr_nr :: "module \<Rightarrow> memory_expr_type \<Rightarrow> IR.var \<Rightarrow> IR.var nr" where
  "memory_expr_nr m MemoryGrowT = OnMemoryGrowExpr_nr m"
| "memory_expr_nr m MemorySizeT = OnMemorySizeExpr_nr m"
| "memory_expr_nr m MemoryFillT = OnMemoryFillExpr_nr m"

text \<open>Only plain loads and stores have a member function: the memory of an atomic, of a splat and of a
  zero-extending load is not resolved.\<close>

definition load_store_expr_nr :: "module \<Rightarrow> load_store_type \<Rightarrow> IR.var \<Rightarrow> IR.var nr" where
  "load_store_expr_nr m k memidx = (case k of
     LoadT \<Rightarrow> OnLoadExpr_nr m memidx
   | StoreT \<Rightarrow> OnStoreExpr_nr m memidx
   | _ \<Rightarrow> State_Monad.return memidx)"

fun OnExpr_nr :: "module \<Rightarrow> func option \<Rightarrow> expr \<Rightarrow> expr nr" where
  "OnExpr_nr m f (VarExpr k v) = change (VarExpr k) (var_expr_nr m f k v)"
| "OnExpr_nr m f (MemoryExpr k v) = change (MemoryExpr k) (memory_expr_nr m k v)"
| "OnExpr_nr m f (LoadStoreExpr k op v a z) =
     change (\<lambda>v. LoadStoreExpr k op v a z) (load_store_expr_nr m k v)"
| "OnExpr_nr m f (SimdLaneMemoryExpr k op v a z i) =
     change (\<lambda>v. SimdLaneMemoryExpr k op v a z i)
       ((case k of SimdLoadLaneT \<Rightarrow> OnSimdLoadLaneExpr_nr | SimdStoreLaneT \<Rightarrow> OnSimdStoreLaneExpr_nr) m v)"
| "OnExpr_nr m f (MemoryCopyExpr v w) = change (\<lambda>(v, w). MemoryCopyExpr v w) (OnMemoryCopyExpr_nr m v w)"
| "OnExpr_nr m f (MemoryInitExpr v w) = change (\<lambda>(v, w). MemoryInitExpr v w) (OnMemoryInitExpr_nr m v w)"
| "OnExpr_nr m f (TableCopyExpr v w) = change (\<lambda>(v, w). TableCopyExpr v w) (OnTableCopyExpr_nr m v w)"
| "OnExpr_nr m f (TableInitExpr v w) = change (\<lambda>(v, w). TableInitExpr v w) (OnTableInitExpr_nr m v w)"
| "OnExpr_nr m f (IndirectExpr k decl v) =
     change (\<lambda>(decl, v). IndirectExpr k decl v)
       ((case k of CallIndirectT \<Rightarrow> OnCallIndirectExpr_nr | ReturnCallIndirectT \<Rightarrow> OnReturnCallIndirectExpr_nr)
         m decl v)"
| "OnExpr_nr m f (BrTableExpr vs v) = change (\<lambda>(vs, v). BrTableExpr vs v) (OnBrTableExpr_nr vs v)"
| "OnExpr_nr m f e = State_Monad.return e"

definition resolver :: "module \<Rightarrow> func option \<Rightarrow> name_resolver rewriter" where
  "resolver m f = \<lparr>rw_expr = \<lambda>e. is_ok (OnExpr_nr m f e), rw_begin = \<lambda>c b. is_ok (BeginExpr_nr m b),
     rw_end = \<lambda>c. do { EndExpr_nr; State_Monad.return Ok }, rw_catch = \<lambda>v. is_ok (OnCatchExpr_nr m v),
     rw_delegate = \<lambda>v. is_ok (OnDelegateExpr_nr v)\<rparr>"

section \<open>The module\<close>

text \<open>\<open>visitor_.VisitExprList(exprs)\<close>, whose result is dropped.\<close>

definition visit_exprs_nr :: "module \<Rightarrow> func option \<Rightarrow> expr list \<Rightarrow> expr list nr" where
  "visit_exprs_nr m f es = do { (r, es) \<leftarrow> rewrite_exprs (resolver m f) es; State_Monad.return es }"

definition VisitFunc_nr :: "module \<Rightarrow> func \<Rightarrow> func nr" where
  "VisitFunc_nr m f = do {
     decl \<leftarrow> resolve_decl m (func_decl f);
     print_duplicates (\<lambda>i. if i < GetNumParams f then ''parameter'' else ''local'')
       (FindDuplicates (bindings f));
     es \<leftarrow> visit_exprs_nr m (Some f) (func_exprs f);
     State_Monad.return (f\<lparr>func_decl := decl, func_exprs := es\<rparr>)
   }"

definition VisitExport_nr :: "module \<Rightarrow> export \<Rightarrow> export nr" where
  "VisitExport_nr m e = do {
     v \<leftarrow> (case export_kind e of
            EkFunc \<Rightarrow> ResolveFuncVar m (export_var e)
          | EkTable \<Rightarrow> ResolveTableVar m (export_var e)
          | EkMemory \<Rightarrow> ResolveMemoryVar m (export_var e)
          | EkGlobal \<Rightarrow> ResolveGlobalVar m (export_var e)
          | EkTag \<Rightarrow> ResolveTagVar m (export_var e));
     State_Monad.return (e\<lparr>export_var := v\<rparr>)
   }"

definition VisitGlobal_nr :: "module \<Rightarrow> global \<Rightarrow> global nr" where
  "VisitGlobal_nr m g = do {
     es \<leftarrow> visit_exprs_nr m None (init_expr g);
     State_Monad.return (g\<lparr>init_expr := es\<rparr>)
   }"

definition VisitTag_nr :: "module \<Rightarrow> tag \<Rightarrow> tag nr" where
  "VisitTag_nr m t = do {
     decl \<leftarrow> resolve_decl m (tag_decl t);
     State_Monad.return (t\<lparr>tag_decl := decl\<rparr>)
   }"

text \<open>Of the element expressions only those are resolved that are a single \<open>ref.func\<close>.\<close>

fun resolve_elem_expr :: "module \<Rightarrow> expr list \<Rightarrow> expr list nr" where
  "resolve_elem_expr m [VarExpr RefFuncT v] = do {
     v \<leftarrow> ResolveFuncVar m v;
     State_Monad.return [VarExpr RefFuncT v]
   }"
| "resolve_elem_expr m es = State_Monad.return es"

definition VisitElemSegment_nr :: "module \<Rightarrow> elem_segment \<Rightarrow> elem_segment nr" where
  "VisitElemSegment_nr m seg = do {
     v \<leftarrow> ResolveTableVar m (table_var seg);
     es \<leftarrow> visit_exprs_nr m None (elem_offset seg);
     ees \<leftarrow> each (resolve_elem_expr m) (elem_exprs seg);
     State_Monad.return (seg\<lparr>table_var := v, elem_offset := es, elem_exprs := ees\<rparr>)
   }"

definition VisitDataSegment_nr :: "module \<Rightarrow> data_segment \<Rightarrow> data_segment nr" where
  "VisitDataSegment_nr m seg = do {
     v \<leftarrow> ResolveMemoryVar m (memory_var seg);
     es \<leftarrow> visit_exprs_nr m None (data_offset seg);
     State_Monad.return (seg\<lparr>memory_var := v, data_offset := es\<rparr>)
   }"

text \<open>A loop over the entities of one kind.\<close>

definition loop_nr :: "('f \<Rightarrow> 'a option) \<Rightarrow> ('a \<Rightarrow> 'f \<Rightarrow> 'f) \<Rightarrow> ('a \<Rightarrow> 'a nr) \<Rightarrow> 'f list \<Rightarrow> 'f list nr" where
  "loop_nr get put visit fs = do {
     (r, fs) \<leftarrow> rewrite_parts get put (\<lambda>x. is_ok (visit x)) fs;
     State_Monad.return fs
   }"

definition VisitModule_nr :: "module \<Rightarrow> (result \<times> module) nr" where
  "VisitModule_nr m = do {
     CheckDuplicateBindings_nr (elem_segment_bindings m) ''elem'';
     CheckDuplicateBindings_nr (func_bindings m) ''function'';
     CheckDuplicateBindings_nr (global_bindings m) ''global'';
     CheckDuplicateBindings_nr (type_bindings m) ''type'';
     CheckDuplicateBindings_nr (table_bindings m) ''table'';
     CheckDuplicateBindings_nr (memory_bindings m) ''memory'';
     CheckDuplicateBindings_nr (tag_bindings m) ''tag'';
     fs \<leftarrow> loop_nr the_func put_func (VisitFunc_nr m) (fields_of m);
     fs \<leftarrow> loop_nr the_export put_export (VisitExport_nr m) fs;
     fs \<leftarrow> loop_nr the_global put_global (VisitGlobal_nr m) fs;
     fs \<leftarrow> loop_nr the_tag put_tag (VisitTag_nr m) fs;
     fs \<leftarrow> loop_nr the_elem put_elem (VisitElemSegment_nr m) fs;
     fs \<leftarrow> loop_nr the_data put_data (VisitDataSegment_nr m) fs;
     fs \<leftarrow> loop_nr the_start put_start (ResolveFuncVar m) fs;
     result \<leftarrow> gets nr_result;
     State_Monad.return (result, from_fields fs m)
   }"

definition ResolveNamesModule :: "module \<Rightarrow> result \<times> module \<times> name_error list" where
  "ResolveNamesModule m =
     (let ((r, m'), s) = run_state (VisitModule_nr m) NameResolver in (r, m', nr_errors s))"

end
