(* ===== verification/Apply_Names.thy ===== *)
theory Apply_Names
  imports Resolve_Names
begin

text \<open>
  The pass that writes names in the place of indices (src/apply-names.cc), before a module is printed.
  The definitions with the suffix \<open>_na\<close> are the member functions of \<open>NameApplier\<close>. Unlike the resolver
  it stops at the first variable that stands for nothing.
\<close>

section \<open>State\<close>

text \<open>
  The labels and the names of the parameters and locals of the current function. The module and
  the function that the pass is in are parameters: it changes neither names nor bindings.
\<close>

record name_applier =
  na_labels :: "name list"
  param_and_local_index_to_name :: "name list"

type_synonym 'a na = "(name_applier, result \<times> 'a) state"

definition NameApplier :: name_applier where
  "NameApplier = \<lparr>na_labels = [], param_and_local_index_to_name = []\<rparr>"

definition PushLabel_na :: "name \<Rightarrow> (name_applier, unit) state" where
  "PushLabel_na l = modify (\<lambda>s. s\<lparr>na_labels := na_labels s @ [l]\<rparr>)"

definition PopLabel_na :: "(name_applier, unit) state" where
  "PopLabel_na = modify (\<lambda>s. s\<lparr>na_labels := butlast (na_labels s)\<rparr>)"

section \<open>Names of variables\<close>

text \<open>The name of a label, empty if there is none. The positions in a vector are words of 64 bits.\<close>

definition FindLabelByVar :: "IR.var \<Rightarrow> (name_applier, name) state" where
  "FindLabelByVar v = do {
     labels \<leftarrow> gets na_labels;
     State_Monad.return (case v of
       VName nm \<Rightarrow> (case find_label labels (length labels) nm of Some i \<Rightarrow> labels ! i | None \<Rightarrow> [])
     | VIndex i \<Rightarrow> (if length labels \<le> unat i then [] else labels ! (length labels - 1 - unat i)))
   }"

text \<open>A variable that is a name stays as it is; that it is the same name is an assertion.\<close>

definition UseNameForVar :: "name \<Rightarrow> IR.var \<Rightarrow> IR.var" where
  "UseNameForVar nm v = (case v of VName x \<Rightarrow> v | VIndex i \<Rightarrow> if nm \<noteq> [] then VName nm else v)"

definition UseNameForFuncVar :: "module \<Rightarrow> IR.var \<Rightarrow> result \<times> IR.var" where
  "UseNameForFuncVar m v = (case GetFunc m v of None \<Rightarrow> (Error, v) | Some x \<Rightarrow> (Ok, UseNameForVar (func_name x) v))"

definition UseNameForGlobalVar :: "module \<Rightarrow> IR.var \<Rightarrow> result \<times> IR.var" where
  "UseNameForGlobalVar m v = (case GetGlobal m v of None \<Rightarrow> (Error, v) | Some x \<Rightarrow> (Ok, UseNameForVar (global_name x) v))"

definition UseNameForTableVar :: "module \<Rightarrow> IR.var \<Rightarrow> result \<times> IR.var" where
  "UseNameForTableVar m v = (case GetTable m v of None \<Rightarrow> (Error, v) | Some x \<Rightarrow> (Ok, UseNameForVar (table_name x) v))"

definition UseNameForMemoryVar :: "module \<Rightarrow> IR.var \<Rightarrow> result \<times> IR.var" where
  "UseNameForMemoryVar m v = (case GetMemory m v of None \<Rightarrow> (Error, v) | Some x \<Rightarrow> (Ok, UseNameForVar (memory_name x) v))"

definition UseNameForTagVar :: "module \<Rightarrow> IR.var \<Rightarrow> result \<times> IR.var" where
  "UseNameForTagVar m v = (case GetTag m v of None \<Rightarrow> (Error, v) | Some x \<Rightarrow> (Ok, UseNameForVar (tag_name x) v))"

definition UseNameForDataSegmentVar :: "module \<Rightarrow> IR.var \<Rightarrow> result \<times> IR.var" where
  "UseNameForDataSegmentVar m v = (case GetDataSegment m v of None \<Rightarrow> (Error, v) | Some x \<Rightarrow> (Ok, UseNameForVar (data_name x) v))"

definition UseNameForElemSegmentVar :: "module \<Rightarrow> IR.var \<Rightarrow> result \<times> IR.var" where
  "UseNameForElemSegmentVar m v = (case GetElemSegment m v of None \<Rightarrow> (Error, v) | Some x \<Rightarrow> (Ok, UseNameForVar (elem_name x) v))"

definition UseNameForFuncTypeVar :: "module \<Rightarrow> IR.var \<Rightarrow> result \<times> IR.var" where
  "UseNameForFuncTypeVar m v =
     (case entity (types m) (GetFuncTypeIndex_var m v) of
        Some (FuncType nm sig) \<Rightarrow> (Ok, UseNameForVar nm v)
      | _ \<Rightarrow> (Error, v))"

text \<open>
  The names are those of the function that the pass is in. In an initializer there is none, and the
  source dereferences a null pointer; here the variable stays as it is, with an error.
\<close>

definition UseNameForParamAndLocalVar :: "func option \<Rightarrow> IR.var \<Rightarrow> IR.var na" where
  "UseNameForParamAndLocalVar f v = (case f of
     None \<Rightarrow> State_Monad.return (Error, v)
   | Some f' \<Rightarrow>
       (let local_index = GetLocalIndex f' v in
        if GetNumParamsAndLocals f' \<le> local_index then State_Monad.return (Error, v)
        else do {
          names \<leftarrow> gets param_and_local_index_to_name;
          State_Monad.return (Ok, UseNameForVar (names ! unat local_index) v)
        }))"

definition use_label :: "IR.var \<Rightarrow> IR.var na" where
  "use_label v = do { label \<leftarrow> FindLabelByVar v; State_Monad.return (Ok, UseNameForVar label v) }"

definition use_type :: "module \<Rightarrow> func_declaration \<Rightarrow> func_declaration na" where
  "use_type m decl =
     (if has_func_type decl
      then writes (State_Monad.return (UseNameForFuncTypeVar m (type_var decl))) (\<lambda>v. decl\<lparr>type_var := v\<rparr>)
      else State_Monad.return (Ok, decl))"

text \<open>Two steps under \<open>CHECK_RESULT\<close>, the second on a variable of its own.\<close>

definition both :: "'a na \<Rightarrow> 'a \<Rightarrow> ('b \<Rightarrow> 'b na) \<Rightarrow> 'b \<Rightarrow> ('a \<times> 'b) na" where
  "both M v N w = and_write M (\<lambda>v. (v, w)) (\<lambda>v. writes (N w) (Pair v))"

section \<open>The delegate\<close>

definition OnBrExpr_na :: "IR.var \<Rightarrow> IR.var na" where
  "OnBrExpr_na v = use_label v"

definition OnBrIfExpr_na :: "IR.var \<Rightarrow> IR.var na" where
  "OnBrIfExpr_na v = use_label v"

definition OnCallExpr_na :: "module \<Rightarrow> IR.var \<Rightarrow> IR.var na" where
  "OnCallExpr_na m v = State_Monad.return (UseNameForFuncVar m v)"

definition OnRefFuncExpr_na :: "module \<Rightarrow> IR.var \<Rightarrow> IR.var na" where
  "OnRefFuncExpr_na m v = State_Monad.return (UseNameForFuncVar m v)"

definition OnGlobalGetExpr_na :: "module \<Rightarrow> IR.var \<Rightarrow> IR.var na" where
  "OnGlobalGetExpr_na m v = State_Monad.return (UseNameForGlobalVar m v)"

definition OnGlobalSetExpr_na :: "module \<Rightarrow> IR.var \<Rightarrow> IR.var na" where
  "OnGlobalSetExpr_na m v = State_Monad.return (UseNameForGlobalVar m v)"

definition OnLocalGetExpr_na :: "func option \<Rightarrow> IR.var \<Rightarrow> IR.var na" where
  "OnLocalGetExpr_na f v = UseNameForParamAndLocalVar f v"

definition OnLocalSetExpr_na :: "func option \<Rightarrow> IR.var \<Rightarrow> IR.var na" where
  "OnLocalSetExpr_na f v = UseNameForParamAndLocalVar f v"

definition OnLocalTeeExpr_na :: "func option \<Rightarrow> IR.var \<Rightarrow> IR.var na" where
  "OnLocalTeeExpr_na f v = UseNameForParamAndLocalVar f v"

definition OnReturnCallExpr_na :: "module \<Rightarrow> IR.var \<Rightarrow> IR.var na" where
  "OnReturnCallExpr_na m v = State_Monad.return (UseNameForFuncVar m v)"

definition OnThrowExpr_na :: "module \<Rightarrow> IR.var \<Rightarrow> IR.var na" where
  "OnThrowExpr_na m v = State_Monad.return (UseNameForTagVar m v)"

definition OnRethrowExpr_na :: "IR.var \<Rightarrow> IR.var na" where
  "OnRethrowExpr_na v = use_label v"

definition OnDataDropExpr_na :: "module \<Rightarrow> IR.var \<Rightarrow> IR.var na" where
  "OnDataDropExpr_na m v = State_Monad.return (UseNameForDataSegmentVar m v)"

definition OnElemDropExpr_na :: "module \<Rightarrow> IR.var \<Rightarrow> IR.var na" where
  "OnElemDropExpr_na m v = State_Monad.return (UseNameForElemSegmentVar m v)"

definition OnTableGetExpr_na :: "module \<Rightarrow> IR.var \<Rightarrow> IR.var na" where
  "OnTableGetExpr_na m v = State_Monad.return (UseNameForTableVar m v)"

definition OnTableSetExpr_na :: "module \<Rightarrow> IR.var \<Rightarrow> IR.var na" where
  "OnTableSetExpr_na m v = State_Monad.return (UseNameForTableVar m v)"

definition OnTableGrowExpr_na :: "module \<Rightarrow> IR.var \<Rightarrow> IR.var na" where
  "OnTableGrowExpr_na m v = State_Monad.return (UseNameForTableVar m v)"

definition OnTableSizeExpr_na :: "module \<Rightarrow> IR.var \<Rightarrow> IR.var na" where
  "OnTableSizeExpr_na m v = State_Monad.return (UseNameForTableVar m v)"

definition OnTableFillExpr_na :: "module \<Rightarrow> IR.var \<Rightarrow> IR.var na" where
  "OnTableFillExpr_na m v = State_Monad.return (UseNameForTableVar m v)"

definition OnMemoryGrowExpr_na :: "module \<Rightarrow> IR.var \<Rightarrow> IR.var na" where
  "OnMemoryGrowExpr_na m memidx = State_Monad.return (UseNameForMemoryVar m memidx)"

definition OnMemorySizeExpr_na :: "module \<Rightarrow> IR.var \<Rightarrow> IR.var na" where
  "OnMemorySizeExpr_na m memidx = State_Monad.return (UseNameForMemoryVar m memidx)"

definition OnMemoryFillExpr_na :: "module \<Rightarrow> IR.var \<Rightarrow> IR.var na" where
  "OnMemoryFillExpr_na m memidx = State_Monad.return (UseNameForMemoryVar m memidx)"

definition OnLoadExpr_na :: "module \<Rightarrow> IR.var \<Rightarrow> IR.var na" where
  "OnLoadExpr_na m memidx = State_Monad.return (UseNameForMemoryVar m memidx)"

definition OnStoreExpr_na :: "module \<Rightarrow> IR.var \<Rightarrow> IR.var na" where
  "OnStoreExpr_na m memidx = State_Monad.return (UseNameForMemoryVar m memidx)"

definition OnSimdLoadLaneExpr_na :: "module \<Rightarrow> IR.var \<Rightarrow> IR.var na" where
  "OnSimdLoadLaneExpr_na m memidx = State_Monad.return (UseNameForMemoryVar m memidx)"

definition OnSimdStoreLaneExpr_na :: "module \<Rightarrow> IR.var \<Rightarrow> IR.var na" where
  "OnSimdStoreLaneExpr_na m memidx = State_Monad.return (UseNameForMemoryVar m memidx)"

definition OnMemoryCopyExpr_na :: "module \<Rightarrow> IR.var \<Rightarrow> IR.var \<Rightarrow> (IR.var \<times> IR.var) na" where
  "OnMemoryCopyExpr_na m v w = both (State_Monad.return (UseNameForMemoryVar m v)) v (\<lambda>w. State_Monad.return (UseNameForMemoryVar m w)) w"

definition OnMemoryInitExpr_na :: "module \<Rightarrow> IR.var \<Rightarrow> IR.var \<Rightarrow> (IR.var \<times> IR.var) na" where
  "OnMemoryInitExpr_na m v w = both (State_Monad.return (UseNameForDataSegmentVar m v)) v (\<lambda>w. State_Monad.return (UseNameForMemoryVar m w)) w"

definition OnTableCopyExpr_na :: "module \<Rightarrow> IR.var \<Rightarrow> IR.var \<Rightarrow> (IR.var \<times> IR.var) na" where
  "OnTableCopyExpr_na m v w = both (State_Monad.return (UseNameForTableVar m v)) v (\<lambda>w. State_Monad.return (UseNameForTableVar m w)) w"

definition OnTableInitExpr_na :: "module \<Rightarrow> IR.var \<Rightarrow> IR.var \<Rightarrow> (IR.var \<times> IR.var) na" where
  "OnTableInitExpr_na m v w = both (State_Monad.return (UseNameForElemSegmentVar m v)) v (\<lambda>w. State_Monad.return (UseNameForTableVar m w)) w"

definition OnCallIndirectExpr_na ::
  "module \<Rightarrow> func_declaration \<Rightarrow> IR.var \<Rightarrow> (func_declaration \<times> IR.var) na" where
  "OnCallIndirectExpr_na m decl v =
     both (use_type m decl) decl (\<lambda>v. State_Monad.return (UseNameForTableVar m v)) v"

definition OnReturnCallIndirectExpr_na ::
  "module \<Rightarrow> func_declaration \<Rightarrow> IR.var \<Rightarrow> (func_declaration \<times> IR.var) na" where
  "OnReturnCallIndirectExpr_na m decl v =
     both (use_type m decl) decl (\<lambda>v. State_Monad.return (UseNameForTableVar m v)) v"

primrec use_labels :: "IR.var list \<Rightarrow> IR.var list na" where
  "use_labels [] = State_Monad.return (Ok, [])"
| "use_labels (v # vs) = and_write (use_label v) (\<lambda>v. v # vs) (\<lambda>v. writes (use_labels vs) ((#) v))"

definition OnBrTableExpr_na :: "IR.var list \<Rightarrow> IR.var \<Rightarrow> (IR.var list \<times> IR.var) na" where
  "OnBrTableExpr_na targets default_target = both (use_labels targets) targets use_label default_target"

definition OnCatchExpr_na :: "module \<Rightarrow> IR.var \<Rightarrow> IR.var na" where
  "OnCatchExpr_na m v =
     State_Monad.return (if \<not> IsCatchAll (Catch v []) then UseNameForTagVar m v else (Ok, v))"

definition OnDelegateExpr_na :: "IR.var \<Rightarrow> IR.var na" where
  "OnDelegateExpr_na v = do { PopLabel_na; use_label v }"

text \<open>\<open>BeginBlockExpr\<close>, \<open>BeginLoopExpr\<close>, \<open>BeginIfExpr\<close> and \<open>BeginTryExpr\<close> have one body, and so have the
  ends. The types of blocks keep their indices.\<close>

definition BeginExpr_na :: "name \<times> func_declaration \<Rightarrow> (name \<times> func_declaration) na" where
  "BeginExpr_na b = do { PushLabel_na (fst b); State_Monad.return (Ok, b) }"

definition EndExpr_na :: "(name_applier, result) state" where
  "EndExpr_na = do { PopLabel_na; State_Monad.return Ok }"

primrec var_expr_na :: "module \<Rightarrow> func option \<Rightarrow> var_type \<Rightarrow> IR.var \<Rightarrow> IR.var na" where
  "var_expr_na m f BrT = OnBrExpr_na"
| "var_expr_na m f BrIfT = OnBrIfExpr_na"
| "var_expr_na m f CallT = OnCallExpr_na m"
| "var_expr_na m f RefFuncT = OnRefFuncExpr_na m"
| "var_expr_na m f GlobalGetT = OnGlobalGetExpr_na m"
| "var_expr_na m f GlobalSetT = OnGlobalSetExpr_na m"
| "var_expr_na m f LocalGetT = OnLocalGetExpr_na f"
| "var_expr_na m f LocalSetT = OnLocalSetExpr_na f"
| "var_expr_na m f LocalTeeT = OnLocalTeeExpr_na f"
| "var_expr_na m f ReturnCallT = OnReturnCallExpr_na m"
| "var_expr_na m f ThrowT = OnThrowExpr_na m"
| "var_expr_na m f RethrowT = OnRethrowExpr_na"
| "var_expr_na m f DataDropT = OnDataDropExpr_na m"
| "var_expr_na m f ElemDropT = OnElemDropExpr_na m"
| "var_expr_na m f TableGetT = OnTableGetExpr_na m"
| "var_expr_na m f TableSetT = OnTableSetExpr_na m"
| "var_expr_na m f TableGrowT = OnTableGrowExpr_na m"
| "var_expr_na m f TableSizeT = OnTableSizeExpr_na m"
| "var_expr_na m f TableFillT = OnTableFillExpr_na m"

primrec memory_expr_na :: "module \<Rightarrow> memory_expr_type \<Rightarrow> IR.var \<Rightarrow> IR.var na" where
  "memory_expr_na m MemoryGrowT = OnMemoryGrowExpr_na m"
| "memory_expr_na m MemorySizeT = OnMemorySizeExpr_na m"
| "memory_expr_na m MemoryFillT = OnMemoryFillExpr_na m"

definition load_store_expr_na :: "module \<Rightarrow> load_store_type \<Rightarrow> IR.var \<Rightarrow> IR.var na" where
  "load_store_expr_na m k memidx = (case k of
     LoadT \<Rightarrow> OnLoadExpr_na m memidx
   | StoreT \<Rightarrow> OnStoreExpr_na m memidx
   | _ \<Rightarrow> State_Monad.return (Ok, memidx))"

fun OnExpr_na :: "module \<Rightarrow> func option \<Rightarrow> expr \<Rightarrow> expr na" where
  "OnExpr_na m f (VarExpr k v) = writes (var_expr_na m f k v) (VarExpr k)"
| "OnExpr_na m f (MemoryExpr k v) = writes (memory_expr_na m k v) (MemoryExpr k)"
| "OnExpr_na m f (LoadStoreExpr k op v a z) =
     writes (load_store_expr_na m k v) (\<lambda>v. LoadStoreExpr k op v a z)"
| "OnExpr_na m f (SimdLaneMemoryExpr k op v a z i) =
     writes ((case k of SimdLoadLaneT \<Rightarrow> OnSimdLoadLaneExpr_na | SimdStoreLaneT \<Rightarrow> OnSimdStoreLaneExpr_na) m v)
       (\<lambda>v. SimdLaneMemoryExpr k op v a z i)"
| "OnExpr_na m f (MemoryCopyExpr v w) = writes (OnMemoryCopyExpr_na m v w) (\<lambda>(v, w). MemoryCopyExpr v w)"
| "OnExpr_na m f (MemoryInitExpr v w) = writes (OnMemoryInitExpr_na m v w) (\<lambda>(v, w). MemoryInitExpr v w)"
| "OnExpr_na m f (TableCopyExpr v w) = writes (OnTableCopyExpr_na m v w) (\<lambda>(v, w). TableCopyExpr v w)"
| "OnExpr_na m f (TableInitExpr v w) = writes (OnTableInitExpr_na m v w) (\<lambda>(v, w). TableInitExpr v w)"
| "OnExpr_na m f (IndirectExpr k decl v) =
     writes ((case k of CallIndirectT \<Rightarrow> OnCallIndirectExpr_na | ReturnCallIndirectT \<Rightarrow> OnReturnCallIndirectExpr_na)
         m decl v)
       (\<lambda>(decl, v). IndirectExpr k decl v)"
| "OnExpr_na m f (BrTableExpr vs v) = writes (OnBrTableExpr_na vs v) (\<lambda>(vs, v). BrTableExpr vs v)"
| "OnExpr_na m f e = State_Monad.return (Ok, e)"

definition applier :: "module \<Rightarrow> func option \<Rightarrow> name_applier rewriter" where
  "applier m f = \<lparr>rw_expr = OnExpr_na m f, rw_begin = \<lambda>c. BeginExpr_na, rw_end = \<lambda>c. EndExpr_na,
     rw_catch = OnCatchExpr_na m, rw_delegate = OnDelegateExpr_na\<rparr>"

section \<open>The module\<close>

definition VisitFunc_na :: "module \<Rightarrow> func \<Rightarrow> func na" where
  "VisitFunc_na m f =
     and_write (use_type m (func_decl f)) (\<lambda>decl. f\<lparr>func_decl := decl\<rparr>) (\<lambda>decl. do {
       modify (\<lambda>s. s\<lparr>param_and_local_index_to_name :=
         MakeTypeBindingReverseMapping (unat (GetNumParamsAndLocals f)) (bindings f)\<rparr>);
       writes (rewrite_exprs (applier m (Some f)) (func_exprs f)) (\<lambda>es. f\<lparr>func_decl := decl, func_exprs := es\<rparr>)
     })"

definition VisitGlobal_na :: "module \<Rightarrow> global \<Rightarrow> global na" where
  "VisitGlobal_na m g = writes (rewrite_exprs (applier m None) (init_expr g)) (\<lambda>es. g\<lparr>init_expr := es\<rparr>)"

definition VisitTag_na :: "module \<Rightarrow> tag \<Rightarrow> tag na" where
  "VisitTag_na m t = writes (use_type m (tag_decl t)) (\<lambda>decl. t\<lparr>tag_decl := decl\<rparr>)"

text \<open>The result of the look-up is dropped.\<close>

definition VisitExport_na :: "module \<Rightarrow> export \<Rightarrow> export na" where
  "VisitExport_na m e =
     (let (r, v) = (case export_kind e of
            EkFunc \<Rightarrow> UseNameForFuncVar m (export_var e)
          | EkTable \<Rightarrow> UseNameForTableVar m (export_var e)
          | EkMemory \<Rightarrow> UseNameForMemoryVar m (export_var e)
          | EkGlobal \<Rightarrow> UseNameForGlobalVar m (export_var e)
          | EkTag \<Rightarrow> UseNameForTagVar m (export_var e))
      in State_Monad.return (Ok, e\<lparr>export_var := v\<rparr>))"

text \<open>An element without instructions, on which \<open>front()\<close> is undefined, stays as it is here.\<close>

fun use_elem :: "module \<Rightarrow> expr list \<Rightarrow> expr list na" where
  "use_elem m (VarExpr RefFuncT v # es) =
     writes (State_Monad.return (UseNameForFuncVar m v)) (\<lambda>v. VarExpr RefFuncT v # es)"
| "use_elem m es = State_Monad.return (Ok, es)"

primrec use_elems :: "module \<Rightarrow> expr list list \<Rightarrow> expr list list na" where
  "use_elems m [] = State_Monad.return (Ok, [])"
| "use_elems m (es # ess) =
     and_write (use_elem m es) (\<lambda>es. es # ess) (\<lambda>es. writes (use_elems m ess) ((#) es))"

definition VisitElemSegment_na :: "module \<Rightarrow> elem_segment \<Rightarrow> elem_segment na" where
  "VisitElemSegment_na m seg =
     and_write (State_Monad.return (UseNameForTableVar m (table_var seg))) (\<lambda>v. seg\<lparr>table_var := v\<rparr>) (\<lambda>v.
     and_write (rewrite_exprs (applier m None) (elem_offset seg)) (\<lambda>es. seg\<lparr>table_var := v, elem_offset := es\<rparr>)
       (\<lambda>es. writes (use_elems m (elem_exprs seg))
         (\<lambda>ees. seg\<lparr>table_var := v, elem_offset := es, elem_exprs := ees\<rparr>)))"

definition VisitDataSegment_na :: "module \<Rightarrow> data_segment \<Rightarrow> data_segment na" where
  "VisitDataSegment_na m seg =
     and_write (State_Monad.return (UseNameForMemoryVar m (memory_var seg))) (\<lambda>v. seg\<lparr>memory_var := v\<rparr>)
       (\<lambda>v. writes (rewrite_exprs (applier m None) (data_offset seg))
         (\<lambda>es. seg\<lparr>memory_var := v, data_offset := es\<rparr>))"

definition VisitStart :: "module \<Rightarrow> IR.var \<Rightarrow> IR.var na" where
  "VisitStart m v = State_Monad.return (UseNameForFuncVar m v)"

definition VisitModule_na :: "module \<Rightarrow> module na" where
  "VisitModule_na m =
     writes
       (and_write (rewrite_parts the_func put_func (VisitFunc_na m) (fields_of m)) id (\<lambda>fs.
        and_write (rewrite_parts the_global put_global (VisitGlobal_na m) fs) id (\<lambda>fs.
        and_write (rewrite_parts the_tag put_tag (VisitTag_na m) fs) id (\<lambda>fs.
        and_write (rewrite_parts the_export put_export (VisitExport_na m) fs) id (\<lambda>fs.
        and_write (rewrite_parts the_elem put_elem (VisitElemSegment_na m) fs) id (\<lambda>fs.
        and_write (rewrite_parts the_data put_data (VisitDataSegment_na m) fs) id (\<lambda>fs.
        rewrite_parts the_start put_start (VisitStart m) fs)))))))
       (\<lambda>fs. from_fields fs m)"

definition ApplyNames :: "module \<Rightarrow> result \<times> module" where
  "ApplyNames m = fst (run_state (VisitModule_na m) NameApplier)"

end
