(* ===== verification/Generate_Names.thy ===== *)
theory Generate_Names
  imports Apply_Names Binary_Reader_Sections
begin

text \<open>
  The pass that makes up names for everything that has none (src/generate-names.cc). The definitions
  with the suffix \<open>_ng\<close> are the member functions of \<open>NameGenerator\<close>; none of them fails.
\<close>

section \<open>Names\<close>

definition AlphaNames :: u32 where
  "AlphaNames = 1"

text \<open>The most frequently changing character comes first.\<close>

function IndexToAlphaName :: "index \<Rightarrow> name" where
  "IndexToAlphaName i =
     (97 + ucast (i mod 26)) # (if i div 26 \<noteq> 0 then IndexToAlphaName (i div 26 - 1) else [])"
  by pat_completeness auto
termination
proof (relation "measure unat")
  fix i :: index
  assume "i div 26 \<noteq> 0"
  then have "unat (i div 26 - 1) < unat (i div 26)" by (rule measure_unat)
  moreover have "unat (i div 26) \<le> unat i" by (simp add: unat_div)
  ultimately show "(i div 26 - 1, i) \<in> measure unat" by simp
qed simp

declare IndexToAlphaName.simps [simp del]

text \<open>A string as it is read from a \<open>const char*\<close>.\<close>

definition c_str :: "name \<Rightarrow> name" where
  "c_str s = takeWhile (\<lambda>c. c \<noteq> 0) s"

text \<open>
  The disambiguator, an \<open>unsigned\<close>, is a natural number: it counts names that are bound already, so it
  wraps only if there are \<open>2 ^ 32\<close> of them.
\<close>

definition GenerateName :: "u32 \<Rightarrow> name \<Rightarrow> index \<Rightarrow> nat \<Rightarrow> name" where
  "GenerateName opts pre i disambiguator =
     (let str = 0x24 # c_str pre;
          str = (if i \<noteq> kInvalidIndex then
                   if opts AND AlphaNames \<noteq> 0 then
                     (if c_str pre = ascii ''p'' \<or> c_str pre = ascii ''l'' then butlast str else str @ ascii ''_'') @
                       IndexToAlphaName i
                   else str @ decimal (unat i)
                 else str)
      in if disambiguator \<noteq> 0 then str @ ascii ''_'' @ decimal disambiguator else str)"

definition HasName :: "name \<Rightarrow> bool" where
  "HasName str \<longleftrightarrow> str \<noteq> []"

definition MaybeGenerateName :: "u32 \<Rightarrow> name \<Rightarrow> index \<Rightarrow> name \<Rightarrow> name" where
  "MaybeGenerateName opts pre i str = (if \<not> HasName str then GenerateName opts pre i 0 else str)"

section \<open>Names that are free\<close>

lemma GenerateName_disambiguated:
  "GenerateName opts pre i d = GenerateName opts pre i 0 @ (if d = 0 then [] else ascii ''_'' @ decimal d)"
  by (simp add: GenerateName_def Let_def)

lemma GenerateName_inj: "GenerateName opts pre i d = GenerateName opts pre i d' \<longleftrightarrow> d = d'"
  by (subst (1 2) GenerateName_disambiguated) (auto simp: decimal_inject ascii_def)

text \<open>The loop that looks for a name that is not bound yet, from a disambiguator on.\<close>

function free_name :: "u32 \<Rightarrow> name \<Rightarrow> index \<Rightarrow> binding_hash \<Rightarrow> nat \<Rightarrow> name" where
  "free_name opts pre i hash d =
     (let str = GenerateName opts pre i d in
      if map_of hash str = None then str else free_name opts pre i hash (d + 1))"
  by pat_completeness auto
termination
  by (relation "measure (\<lambda>(opts, pre, i, hash, d). taken (GenerateName opts pre i) (fst ` set hash) d)")
    (auto simp: GenerateName_inj map_of_eq_None_iff inj_def intro!: taken_less)

declare free_name.simps [simp del]

definition GenerateAndBindName :: "u32 \<Rightarrow> binding_hash \<Rightarrow> name \<Rightarrow> index \<Rightarrow> name \<times> binding_hash" where
  "GenerateAndBindName opts hash pre i = (let str = free_name opts pre i hash 0 in (str, emplace str i hash))"

definition MaybeGenerateAndBindName ::
  "u32 \<Rightarrow> binding_hash \<Rightarrow> name \<Rightarrow> index \<Rightarrow> name \<Rightarrow> name \<times> binding_hash" where
  "MaybeGenerateAndBindName opts hash pre i str =
     (if \<not> HasName str then GenerateAndBindName opts hash pre i else (str, hash))"

definition MaybeUseAndBindName ::
  "u32 \<Rightarrow> binding_hash \<Rightarrow> name \<Rightarrow> index \<Rightarrow> name \<Rightarrow> name \<times> binding_hash" where
  "MaybeUseAndBindName opts hash nm i str =
     (if \<not> HasName str
      then (let str = free_name opts nm kInvalidIndex hash 0 in (str, emplace str i hash))
      else (str, hash))"

section \<open>State\<close>

record name_generator =
  module_ng :: module
  label_count :: index
  num_func_imports :: index
  num_table_imports :: index
  num_memory_imports :: index
  num_global_imports :: index
  num_tag_imports :: index

type_synonym 'a ng = "(name_generator, 'a) state"

definition NameGenerator :: "module \<Rightarrow> name_generator" where
  "NameGenerator m = \<lparr>module_ng = m, label_count = 0, num_func_imports = 0, num_table_imports = 0,
     num_memory_imports = 0, num_global_imports = 0, num_tag_imports = 0\<rparr>"

text \<open>A step on one of the bindings of the module.\<close>

definition on_bindings :: "(module \<Rightarrow> binding_hash) \<Rightarrow> ((binding_hash \<Rightarrow> binding_hash) \<Rightarrow> module \<Rightarrow> module) \<Rightarrow>
    (binding_hash \<Rightarrow> name \<times> binding_hash) \<Rightarrow> name ng" where
  "on_bindings get upd f = do {
     m \<leftarrow> gets module_ng;
     let (str, hash) = f (get m);
     modify (\<lambda>s. s\<lparr>module_ng := upd (\<lambda>h. hash) (module_ng s)\<rparr>);
     State_Monad.return str
   }"

section \<open>Functions\<close>

text \<open>\<open>n\<close> is the number of parameters, the list holds the names from index \<open>i\<close> on.\<close>

primrec bind_locals :: "u32 \<Rightarrow> index \<Rightarrow> name list \<Rightarrow> nat \<Rightarrow> binding_hash \<Rightarrow> binding_hash" where
  "bind_locals opts n [] i hash = hash"
| "bind_locals opts n (old_name # names) i hash =
     bind_locals opts n names (i + 1)
       (if old_name \<noteq> [] then hash
        else snd (GenerateAndBindName opts hash (if i < unat n then ascii ''p'' else ascii ''l'') (of_nat i)))"

definition GenerateAndBindLocalNames :: "u32 \<Rightarrow> func \<Rightarrow> func" where
  "GenerateAndBindLocalNames opts f = f\<lparr>bindings := bind_locals opts (GetNumParams f)
     (MakeTypeBindingReverseMapping (unat (GetNumParamsAndLocals f)) (bindings f)) 0 (bindings f)\<rparr>"

primrec label_prefix :: "construct \<Rightarrow> name" where
  "label_prefix CBlock = ascii ''B''"
| "label_prefix CTry = ascii ''T''"
| "label_prefix CLoop = ascii ''L''"
| "label_prefix CIf = ascii ''I''"

text \<open>\<open>BeginBlockExpr\<close>, \<open>BeginTryExpr\<close>, \<open>BeginLoopExpr\<close> and \<open>BeginIfExpr\<close>.\<close>

definition BeginExpr_ng :: "u32 \<Rightarrow> construct \<Rightarrow> name \<times> func_declaration \<Rightarrow> (name \<times> func_declaration) ng" where
  "BeginExpr_ng opts c b = do {
     n \<leftarrow> gets label_count;
     modify (\<lambda>s. s\<lparr>label_count := n + 1\<rparr>);
     State_Monad.return (MaybeGenerateName opts (label_prefix c) n (fst b), snd b)
   }"

definition generator :: "u32 \<Rightarrow> name_generator rewriter" where
  "generator opts = \<lparr>rw_expr = \<lambda>e. State_Monad.return (Ok, e), rw_begin = \<lambda>c b. is_ok (BeginExpr_ng opts c b),
     rw_end = \<lambda>c. State_Monad.return Ok, rw_catch = \<lambda>v. State_Monad.return (Ok, v),
     rw_delegate = \<lambda>v. State_Monad.return (Ok, v)\<rparr>"

definition VisitFunc_ng :: "u32 \<Rightarrow> index \<Rightarrow> func \<Rightarrow> (result \<times> func) ng" where
  "VisitFunc_ng opts i f = do {
     str \<leftarrow> on_bindings func_bindings func_bindings_update
       (\<lambda>hash. MaybeGenerateAndBindName opts hash (ascii ''f'') i (func_name f));
     let f = GenerateAndBindLocalNames opts (f\<lparr>func_name := str\<rparr>);
     modify (\<lambda>s. s\<lparr>label_count := 0\<rparr>);
     writes (rewrite_exprs (generator opts) (func_exprs f)) (\<lambda>es. f\<lparr>func_exprs := es\<rparr>)
   }"

section \<open>The other entities\<close>

definition VisitGlobal_ng :: "u32 \<Rightarrow> index \<Rightarrow> global \<Rightarrow> global ng" where
  "VisitGlobal_ng opts i g = change (\<lambda>str. g\<lparr>global_name := str\<rparr>)
     (on_bindings global_bindings global_bindings_update
       (\<lambda>hash. MaybeGenerateAndBindName opts hash (ascii ''g'') i (global_name g)))"

definition VisitType_ng :: "u32 \<Rightarrow> index \<Rightarrow> type_entry \<Rightarrow> type_entry ng" where
  "VisitType_ng opts i t = change (\<lambda>str. rename_entry str t)
     (on_bindings type_bindings type_bindings_update
       (\<lambda>hash. MaybeGenerateAndBindName opts hash (ascii ''t'') i (entry_name t)))"

definition VisitTable_ng :: "u32 \<Rightarrow> index \<Rightarrow> table \<Rightarrow> table ng" where
  "VisitTable_ng opts i t = change (\<lambda>str. t\<lparr>table_name := str\<rparr>)
     (on_bindings table_bindings table_bindings_update
       (\<lambda>hash. MaybeGenerateAndBindName opts hash (ascii ''T'') i (table_name t)))"

definition VisitMemory_ng :: "u32 \<Rightarrow> index \<Rightarrow> memory \<Rightarrow> memory ng" where
  "VisitMemory_ng opts i x = change (\<lambda>str. x\<lparr>memory_name := str\<rparr>)
     (on_bindings memory_bindings memory_bindings_update
       (\<lambda>hash. MaybeGenerateAndBindName opts hash (ascii ''M'') i (memory_name x)))"

definition VisitTag_ng :: "u32 \<Rightarrow> index \<Rightarrow> tag \<Rightarrow> tag ng" where
  "VisitTag_ng opts i t = change (\<lambda>str. t\<lparr>tag_name := str\<rparr>)
     (on_bindings tag_bindings tag_bindings_update
       (\<lambda>hash. MaybeGenerateAndBindName opts hash (ascii ''e'') i (tag_name t)))"

definition VisitDataSegment_ng :: "u32 \<Rightarrow> index \<Rightarrow> data_segment \<Rightarrow> data_segment ng" where
  "VisitDataSegment_ng opts i d = change (\<lambda>str. d\<lparr>data_name := str\<rparr>)
     (on_bindings data_segment_bindings data_segment_bindings_update
       (\<lambda>hash. MaybeGenerateAndBindName opts hash (ascii ''d'') i (data_name d)))"

definition VisitElemSegment_ng :: "u32 \<Rightarrow> index \<Rightarrow> elem_segment \<Rightarrow> elem_segment ng" where
  "VisitElemSegment_ng opts i e = change (\<lambda>str. e\<lparr>elem_name := str\<rparr>)
     (on_bindings elem_segment_bindings elem_segment_bindings_update
       (\<lambda>hash. MaybeGenerateAndBindName opts hash (ascii ''e'') i (elem_name e)))"

section \<open>Imports and exports\<close>

text \<open>The number of an import among those of its kind, which the counter moves past.\<close>

definition next_import :: "(name_generator \<Rightarrow> index) \<Rightarrow> (index \<Rightarrow> name_generator \<Rightarrow> name_generator) \<Rightarrow> index ng" where
  "next_import get put = do { i \<leftarrow> gets get; modify (put (i + 1)); State_Monad.return i }"

definition VisitImport_ng :: "u32 \<Rightarrow> import \<Rightarrow> import ng" where
  "VisitImport_ng opts i =
     (let new_name = import_module i @ ascii ''.'' @ import_field i;
          use = (\<lambda>get upd j str. on_bindings get upd (\<lambda>hash. MaybeUseAndBindName opts hash new_name j str))
      in change (\<lambda>d. i\<lparr>import_desc := d\<rparr>) (case import_desc i of
        FuncImport f \<Rightarrow> do {
          j \<leftarrow> next_import num_func_imports (\<lambda>n s. s\<lparr>num_func_imports := n\<rparr>);
          change (\<lambda>str. FuncImport (f\<lparr>func_name := str\<rparr>)) (use func_bindings func_bindings_update j (func_name f))
        }
      | TableImport t \<Rightarrow> do {
          j \<leftarrow> next_import num_table_imports (\<lambda>n s. s\<lparr>num_table_imports := n\<rparr>);
          change (\<lambda>str. TableImport (t\<lparr>table_name := str\<rparr>)) (use table_bindings table_bindings_update j (table_name t))
        }
      | MemoryImport x \<Rightarrow> do {
          j \<leftarrow> next_import num_memory_imports (\<lambda>n s. s\<lparr>num_memory_imports := n\<rparr>);
          change (\<lambda>str. MemoryImport (x\<lparr>memory_name := str\<rparr>)) (use memory_bindings memory_bindings_update j (memory_name x))
        }
      | GlobalImport g \<Rightarrow> do {
          j \<leftarrow> next_import num_global_imports (\<lambda>n s. s\<lparr>num_global_imports := n\<rparr>);
          change (\<lambda>str. GlobalImport (g\<lparr>global_name := str\<rparr>)) (use global_bindings global_bindings_update j (global_name g))
        }
      | TagImport t \<Rightarrow> do {
          j \<leftarrow> next_import num_tag_imports (\<lambda>n s. s\<lparr>num_tag_imports := n\<rparr>);
          change (\<lambda>str. TagImport (t\<lparr>tag_name := str\<rparr>)) (use tag_bindings tag_bindings_update j (tag_name t))
        }))"

definition set_fields :: "module_field list \<Rightarrow> unit ng" where
  "set_fields fs = modify (\<lambda>s. s\<lparr>module_ng := from_fields fs (module_ng s)\<rparr>)"

definition name_entity :: "(module \<Rightarrow> binding_hash) \<Rightarrow> ((binding_hash \<Rightarrow> binding_hash) \<Rightarrow> module \<Rightarrow> module) \<Rightarrow>
    (module_field \<Rightarrow> 'a option) \<Rightarrow> ('a \<Rightarrow> module_field \<Rightarrow> module_field) \<Rightarrow> (name \<Rightarrow> 'a \<Rightarrow> 'a) \<Rightarrow>
    u32 \<Rightarrow> name \<Rightarrow> index \<Rightarrow> name \<Rightarrow> unit ng" where
  "name_entity hash_of upd get put rename opts nm i old = do {
     str \<leftarrow> on_bindings hash_of upd (\<lambda>hash. MaybeUseAndBindName opts hash nm i old);
     m \<leftarrow> gets module_ng;
     set_fields (update_part get put (unat i) (rename str) (fields_of m))
   }"

definition VisitExport_ng :: "u32 \<Rightarrow> export \<Rightarrow> unit ng" where
  "VisitExport_ng opts e = do {
     m \<leftarrow> gets module_ng;
     let v = export_var e;
     case export_kind e of
       EkFunc \<Rightarrow> (case GetFunc m v of None \<Rightarrow> State_Monad.return () | Some f \<Rightarrow>
         name_entity func_bindings func_bindings_update the_func put_func (\<lambda>str f. f\<lparr>func_name := str\<rparr>)
           opts (export_name e) (GetFuncIndex m v) (func_name f))
     | EkTable \<Rightarrow> (case GetTable m v of None \<Rightarrow> State_Monad.return () | Some t \<Rightarrow>
         name_entity table_bindings table_bindings_update the_table put_table (\<lambda>str t. t\<lparr>table_name := str\<rparr>)
           opts (export_name e) (GetTableIndex m v) (table_name t))
     | EkMemory \<Rightarrow> (case GetMemory m v of None \<Rightarrow> State_Monad.return () | Some x \<Rightarrow>
         name_entity memory_bindings memory_bindings_update the_memory put_memory (\<lambda>str x. x\<lparr>memory_name := str\<rparr>)
           opts (export_name e) (GetMemoryIndex m v) (memory_name x))
     | EkGlobal \<Rightarrow> (case GetGlobal m v of None \<Rightarrow> State_Monad.return () | Some g \<Rightarrow>
         name_entity global_bindings global_bindings_update the_global put_global (\<lambda>str g. g\<lparr>global_name := str\<rparr>)
           opts (export_name e) (GetGlobalIndex m v) (global_name g))
     | EkTag \<Rightarrow> (case GetTag m v of None \<Rightarrow> State_Monad.return () | Some t \<Rightarrow>
         name_entity tag_bindings tag_bindings_update the_tag put_tag (\<lambda>str t. t\<lparr>tag_name := str\<rparr>)
           opts (export_name e) (GetTagIndex m v) (tag_name t))
   }"

section \<open>The module\<close>

text \<open>\<open>VisitAll\<close>: a loop over the entities of a kind with their indices.\<close>

primrec rewrite_numbered ::
  "('f \<Rightarrow> 'a option) \<Rightarrow> ('a \<Rightarrow> 'f \<Rightarrow> 'f) \<Rightarrow> (index \<Rightarrow> 'a \<Rightarrow> ('s, result \<times> 'a) state) \<Rightarrow> index \<Rightarrow> 'f list \<Rightarrow>
     ('s, result \<times> 'f list) state" where
  "rewrite_numbered get put act i [] = State_Monad.return (Ok, [])"
| "rewrite_numbered get put act i (f # fs) =
     (case get f of
        None \<Rightarrow> writes (rewrite_numbered get put act i fs) ((#) f)
      | Some x \<Rightarrow> and_write (act i x) (\<lambda>x. put x f # fs)
          (\<lambda>x. writes (rewrite_numbered get put act (i + 1) fs) ((#) (put x f))))"

definition VisitAll :: "(module_field \<Rightarrow> 'a option) \<Rightarrow> ('a \<Rightarrow> module_field \<Rightarrow> module_field) \<Rightarrow>
    (index \<Rightarrow> 'a \<Rightarrow> (result \<times> 'a) ng) \<Rightarrow> unit ng" where
  "VisitAll get put act = do {
     m \<leftarrow> gets module_ng;
     (r, fs) \<leftarrow> rewrite_numbered get put act 0 (fields_of m);
     set_fields fs
   }"

primrec VisitExports_ng :: "u32 \<Rightarrow> export list \<Rightarrow> unit ng" where
  "VisitExports_ng opts [] = State_Monad.return ()"
| "VisitExports_ng opts (e # es) = do { VisitExport_ng opts e; VisitExports_ng opts es }"

definition put_whole_import :: "import \<Rightarrow> module_field \<Rightarrow> module_field" where
  "put_whole_import i f = ImportField i"

definition VisitModule_ng :: "u32 \<Rightarrow> unit ng" where
  "VisitModule_ng opts = do {
     VisitAll the_import put_whole_import (\<lambda>i x. is_ok (VisitImport_ng opts x));
     m \<leftarrow> gets module_ng;
     VisitExports_ng opts (exports m);
     VisitAll the_global put_global (\<lambda>i x. is_ok (VisitGlobal_ng opts i x));
     VisitAll the_type put_type (\<lambda>i x. is_ok (VisitType_ng opts i x));
     VisitAll the_func put_func (VisitFunc_ng opts);
     VisitAll the_table put_table (\<lambda>i x. is_ok (VisitTable_ng opts i x));
     VisitAll the_memory put_memory (\<lambda>i x. is_ok (VisitMemory_ng opts i x));
     VisitAll the_tag put_tag (\<lambda>i x. is_ok (VisitTag_ng opts i x));
     VisitAll the_data put_data (\<lambda>i x. is_ok (VisitDataSegment_ng opts i x));
     VisitAll the_elem put_elem (\<lambda>i x. is_ok (VisitElemSegment_ng opts i x))
   }"

definition GenerateNames :: "module \<Rightarrow> u32 \<Rightarrow> result \<times> module" where
  "GenerateNames m opts = (Ok, module_ng (snd (run_state (VisitModule_ng opts) (NameGenerator m))))"

end
