(* ===== verification/Resolve_Names_Facts.thy ===== *)
theory Resolve_Names_Facts
  imports Resolve_Names
begin

text \<open>
  What the resolver does, stated without its state: a name stands for the first binding of its kind,
  a label for the innermost enclosing block of that label, by its depth. \<open>resolve_module\<close> has no value
  if some name stands for nothing. The resolver accepts exactly the modules with such a value and
  without duplicate bindings, and leaves them as \<open>resolve_module\<close> says.
\<close>

section \<open>Specification\<close>

definition resolve_in :: "binding_hash \<Rightarrow> IR.var \<Rightarrow> IR.var option" where
  "resolve_in hash v = (case v of
     VIndex i \<Rightarrow> Some v
   | VName nm \<Rightarrow> (if FindIndex_name hash nm = kInvalidIndex then None else Some (VIndex (FindIndex_name hash nm))))"

text \<open>The labels with the innermost first.\<close>

fun depth_of :: "name list \<Rightarrow> name \<Rightarrow> nat option" where
  "depth_of [] nm = None"
| "depth_of (l # ls) nm = (if l = nm then Some 0 else map_option Suc (depth_of ls nm))"

definition resolve_label :: "name list \<Rightarrow> IR.var \<Rightarrow> IR.var option" where
  "resolve_label L v = (case v of
     VIndex i \<Rightarrow> Some v
   | VName nm \<Rightarrow> map_option (\<lambda>d. VIndex (of_nat d)) (depth_of L nm))"

definition resolve_local :: "func option \<Rightarrow> IR.var \<Rightarrow> IR.var option" where
  "resolve_local f v = (case f of None \<Rightarrow> Some v | Some f' \<Rightarrow> resolve_in (bindings f') v)"

definition resolve_type_of :: "module \<Rightarrow> func_declaration \<Rightarrow> func_declaration option" where
  "resolve_type_of m decl =
     (if has_func_type decl
      then map_option (\<lambda>v. decl\<lparr>type_var := v\<rparr>) (resolve_in (type_bindings m) (type_var decl))
      else Some decl)"

datatype var_kind = KLabel | KFunc | KGlobal | KLocal | KTag | KData | KElem | KTable

primrec var_kind_of :: "var_type \<Rightarrow> var_kind" where
  "var_kind_of BrT = KLabel"
| "var_kind_of BrIfT = KLabel"
| "var_kind_of CallT = KFunc"
| "var_kind_of RefFuncT = KFunc"
| "var_kind_of GlobalGetT = KGlobal"
| "var_kind_of GlobalSetT = KGlobal"
| "var_kind_of LocalGetT = KLocal"
| "var_kind_of LocalSetT = KLocal"
| "var_kind_of LocalTeeT = KLocal"
| "var_kind_of ReturnCallT = KFunc"
| "var_kind_of ThrowT = KTag"
| "var_kind_of RethrowT = KLabel"
| "var_kind_of DataDropT = KData"
| "var_kind_of ElemDropT = KElem"
| "var_kind_of TableGetT = KTable"
| "var_kind_of TableSetT = KTable"
| "var_kind_of TableGrowT = KTable"
| "var_kind_of TableSizeT = KTable"
| "var_kind_of TableFillT = KTable"

definition resolve_kind :: "module \<Rightarrow> func option \<Rightarrow> name list \<Rightarrow> var_kind \<Rightarrow> IR.var \<Rightarrow> IR.var option" where
  "resolve_kind m f L k = (case k of
     KLabel \<Rightarrow> resolve_label L
   | KLocal \<Rightarrow> resolve_local f
   | KFunc \<Rightarrow> resolve_in (func_bindings m)
   | KGlobal \<Rightarrow> resolve_in (global_bindings m)
   | KTag \<Rightarrow> resolve_in (tag_bindings m)
   | KData \<Rightarrow> resolve_in (data_segment_bindings m)
   | KElem \<Rightarrow> resolve_in (elem_segment_bindings m)
   | KTable \<Rightarrow> resolve_in (table_bindings m))"

abbreviation resolve_memory :: "module \<Rightarrow> IR.var \<Rightarrow> IR.var option" where
  "resolve_memory m \<equiv> resolve_in (memory_bindings m)"

abbreviation resolve_table :: "module \<Rightarrow> IR.var \<Rightarrow> IR.var option" where
  "resolve_table m \<equiv> resolve_in (table_bindings m)"

definition pair :: "('a \<Rightarrow> 'b \<Rightarrow> 'c) \<Rightarrow> 'a option \<Rightarrow> 'b option \<Rightarrow> 'c option" where
  "pair g a b = Option.bind a (\<lambda>x. map_option (g x) b)"

primrec all_some :: "('a \<Rightarrow> 'b option) \<Rightarrow> 'a list \<Rightarrow> 'b list option" where
  "all_some g [] = Some []"
| "all_some g (x # xs) = pair (#) (g x) (all_some g xs)"

fun resolve_expr :: "module \<Rightarrow> func option \<Rightarrow> name list \<Rightarrow> expr \<Rightarrow> expr option"
  and resolve_exprs :: "module \<Rightarrow> func option \<Rightarrow> name list \<Rightarrow> expr list \<Rightarrow> expr list option"
  and resolve_catches :: "module \<Rightarrow> func option \<Rightarrow> name list \<Rightarrow> catch list \<Rightarrow> catch list option"
where
  "resolve_expr m f L (VarExpr k v) = map_option (VarExpr k) (resolve_kind m f L (var_kind_of k) v)"
| "resolve_expr m f L (MemoryExpr k v) = map_option (MemoryExpr k) (resolve_memory m v)"
| "resolve_expr m f L (LoadStoreExpr k op v a z) =
     map_option (\<lambda>v. LoadStoreExpr k op v a z)
       (if k \<in> {LoadT, StoreT} then resolve_memory m v else Some v)"
| "resolve_expr m f L (SimdLaneMemoryExpr k op v a z i) =
     map_option (\<lambda>v. SimdLaneMemoryExpr k op v a z i) (resolve_memory m v)"
| "resolve_expr m f L (MemoryCopyExpr v w) = pair MemoryCopyExpr (resolve_memory m v) (resolve_memory m w)"
| "resolve_expr m f L (MemoryInitExpr v w) =
     pair MemoryInitExpr (resolve_in (data_segment_bindings m) v) (resolve_memory m w)"
| "resolve_expr m f L (TableCopyExpr v w) = pair TableCopyExpr (resolve_table m v) (resolve_table m w)"
| "resolve_expr m f L (TableInitExpr v w) =
     pair TableInitExpr (resolve_in (elem_segment_bindings m) v) (resolve_table m w)"
| "resolve_expr m f L (IndirectExpr k decl v) =
     pair (IndirectExpr k) (resolve_type_of m decl) (resolve_table m v)"
| "resolve_expr m f L (BrTableExpr vs v) =
     pair BrTableExpr (all_some (resolve_label L) vs) (resolve_label L v)"
| "resolve_expr m f L (BlockExprBase k (Block l decl es)) =
     pair (\<lambda>decl es. BlockExprBase k (Block l decl es))
       (resolve_type_of m decl) (resolve_exprs m f (l # L) es)"
| "resolve_expr m f L (IfExpr (Block l decl es) es') =
     pair (\<lambda>decl (es, es'). IfExpr (Block l decl es) es') (resolve_type_of m decl)
       (pair Pair (resolve_exprs m f (l # L) es) (resolve_exprs m f (l # L) es'))"
| "resolve_expr m f L (TryExpr kind (Block l decl es) cs t) =
     pair (\<lambda>decl (es, cs, t). TryExpr kind (Block l decl es) cs t) (resolve_type_of m decl)
       (pair Pair (resolve_exprs m f (l # L) es)
         (pair Pair (if kind = TryCatch then resolve_catches m f (l # L) cs else Some cs)
           (if kind = TryDelegate then resolve_label L t else Some t)))"
| "resolve_expr m f L e = Some e"
| "resolve_exprs m f L [] = Some []"
| "resolve_exprs m f L (e # es) = pair (#) (resolve_expr m f L e) (resolve_exprs m f L es)"
| "resolve_catches m f L [] = Some []"
| "resolve_catches m f L (Catch v es # cs) =
     pair (#) (pair Catch (if IsCatchAll (Catch v []) then Some v else resolve_in (tag_bindings m) v)
         (resolve_exprs m f L es))
       (resolve_catches m f L cs)"

definition resolve_func :: "module \<Rightarrow> func \<Rightarrow> func option" where
  "resolve_func m f =
     pair (\<lambda>decl es. f\<lparr>func_decl := decl, func_exprs := es\<rparr>) (resolve_type_of m (func_decl f))
       (if distinct (map fst (bindings f)) then resolve_exprs m (Some f) [] (func_exprs f) else None)"

definition resolve_export :: "module \<Rightarrow> export \<Rightarrow> export option" where
  "resolve_export m e = map_option (\<lambda>v. e\<lparr>export_var := v\<rparr>)
     (resolve_in (case export_kind e of EkFunc \<Rightarrow> func_bindings m | EkTable \<Rightarrow> table_bindings m
        | EkMemory \<Rightarrow> memory_bindings m | EkGlobal \<Rightarrow> global_bindings m | EkTag \<Rightarrow> tag_bindings m)
       (export_var e))"

definition resolve_global :: "module \<Rightarrow> global \<Rightarrow> global option" where
  "resolve_global m g = map_option (\<lambda>es. g\<lparr>init_expr := es\<rparr>) (resolve_exprs m None [] (init_expr g))"

definition resolve_tag :: "module \<Rightarrow> tag \<Rightarrow> tag option" where
  "resolve_tag m t = map_option (\<lambda>decl. t\<lparr>tag_decl := decl\<rparr>) (resolve_type_of m (tag_decl t))"

fun resolve_elem :: "module \<Rightarrow> expr list \<Rightarrow> expr list option" where
  "resolve_elem m [VarExpr RefFuncT v] = map_option (\<lambda>v. [VarExpr RefFuncT v]) (resolve_in (func_bindings m) v)"
| "resolve_elem m es = Some es"

definition resolve_elem_segment :: "module \<Rightarrow> elem_segment \<Rightarrow> elem_segment option" where
  "resolve_elem_segment m seg =
     pair (\<lambda>v (es, ees). seg\<lparr>table_var := v, elem_offset := es, elem_exprs := ees\<rparr>)
       (resolve_table m (table_var seg))
       (pair Pair (resolve_exprs m None [] (elem_offset seg)) (all_some (resolve_elem m) (elem_exprs seg)))"

definition resolve_data_segment :: "module \<Rightarrow> data_segment \<Rightarrow> data_segment option" where
  "resolve_data_segment m seg =
     pair (\<lambda>v es. seg\<lparr>memory_var := v, data_offset := es\<rparr>)
       (resolve_memory m (memory_var seg)) (resolve_exprs m None [] (data_offset seg))"

text \<open>A field with its entity resolved.\<close>

fun resolve_field :: "module \<Rightarrow> module_field \<Rightarrow> module_field option" where
  "resolve_field m (FuncField f) = map_option FuncField (resolve_func m f)"
| "resolve_field m (GlobalField g) = map_option GlobalField (resolve_global m g)"
| "resolve_field m (ImportField i) =
     (case import_desc i of
        FuncImport f \<Rightarrow> map_option (\<lambda>f. ImportField (i\<lparr>import_desc := FuncImport f\<rparr>)) (resolve_func m f)
      | GlobalImport g \<Rightarrow> map_option (\<lambda>g. ImportField (i\<lparr>import_desc := GlobalImport g\<rparr>)) (resolve_global m g)
      | TagImport t \<Rightarrow> map_option (\<lambda>t. ImportField (i\<lparr>import_desc := TagImport t\<rparr>)) (resolve_tag m t)
      | _ \<Rightarrow> Some (ImportField i))"
| "resolve_field m (ExportField e) = map_option ExportField (resolve_export m e)"
| "resolve_field m (TagField t) = map_option TagField (resolve_tag m t)"
| "resolve_field m (ElemSegmentField seg) = map_option ElemSegmentField (resolve_elem_segment m seg)"
| "resolve_field m (DataSegmentField seg) = map_option DataSegmentField (resolve_data_segment m seg)"
| "resolve_field m (StartField v) = map_option StartField (resolve_in (func_bindings m) v)"
| "resolve_field m x = Some x"

definition names_distinct :: "module \<Rightarrow> bool" where
  "names_distinct m \<longleftrightarrow> (\<forall>hash \<in> {elem_segment_bindings m, func_bindings m, global_bindings m,
     type_bindings m, table_bindings m, memory_bindings m, tag_bindings m}. distinct (map fst hash))"

definition resolve_module :: "module \<Rightarrow> module option" where
  "resolve_module m =
     (if names_distinct m
      then map_option (\<lambda>fs. from_fields fs m) (all_some (resolve_field m) (fields_of m))
      else None)"

section \<open>Actions of the resolver\<close>

text \<open>
  \<open>resolves M p\<close>: with the labels \<open>L\<close> on the stack, \<open>M\<close> yields the value of \<open>p L\<close> and changes nothing,
  or \<open>p L\<close> has none and \<open>M\<close> leaves an error. The labels are as before, and errors are never forgotten.
\<close>

definition resolves :: "'a nr \<Rightarrow> (name list \<Rightarrow> 'a option) \<Rightarrow> bool" where
  "resolves M p \<longleftrightarrow> (\<forall>s x s'. run_state M s = (x, s') \<longrightarrow>
     nr_labels s' = nr_labels s \<and> (nr_result s = Error \<longrightarrow> nr_result s' = Error) \<and>
     (case p (rev (nr_labels s)) of Some y \<Rightarrow> x = y \<and> s' = s | None \<Rightarrow> nr_result s' = Error))"

lemma resolvesI:
  assumes "\<And>s. nr_labels (snd (run_state M s)) = nr_labels s"
    "\<And>s. nr_result s = Error \<Longrightarrow> nr_result (snd (run_state M s)) = Error"
    "\<And>s. case p (rev (nr_labels s)) of Some y \<Rightarrow> run_state M s = (y, s)
       | None \<Rightarrow> nr_result (snd (run_state M s)) = Error"
  shows "resolves M p"
  unfolding resolves_def
proof (intro allI impI)
  fix s x s'
  assume "run_state M s = (x, s')"
  with assms [of s] show "nr_labels s' = nr_labels s \<and> (nr_result s = Error \<longrightarrow> nr_result s' = Error) \<and>
     (case p (rev (nr_labels s)) of Some y \<Rightarrow> x = y \<and> s' = s | None \<Rightarrow> nr_result s' = Error)"
    by (auto split: option.splits)
qed

lemma resolves_return: "resolves (State_Monad.return x) (\<lambda>L. Some x)"
  by (rule resolvesI) simp_all

lemma resolves_bind:
  assumes M: "resolves M p" and k: "\<And>x. resolves (k x) (q x)"
  shows "resolves (State_Monad.bind M k) (\<lambda>L. Option.bind (p L) (\<lambda>x. q x L))"
proof (rule resolvesI)
  fix s
  obtain x s1 where run: "run_state M s = (x, s1)" by force
  obtain y s2 where run': "run_state (k x) s1 = (y, s2)" by force
  note m = M [unfolded resolves_def, rule_format, OF run]
  note n = k [of x, unfolded resolves_def, rule_format, OF run']
  show "nr_labels (snd (run_state (State_Monad.bind M k) s)) = nr_labels s"
    using m n by (simp add: run run')
  show "nr_result s = Error \<Longrightarrow> nr_result (snd (run_state (State_Monad.bind M k) s)) = Error"
    using m n by (simp add: run run')
  show "case Option.bind (p (rev (nr_labels s))) (\<lambda>x. q x (rev (nr_labels s))) of
      Some y \<Rightarrow> run_state (State_Monad.bind M k) s = (y, s)
    | None \<Rightarrow> nr_result (snd (run_state (State_Monad.bind M k) s)) = Error"
    using m n by (auto simp: run run' split: option.splits)
qed

lemma resolves_cong: "resolves M p \<Longrightarrow> (\<And>L. p L = q L) \<Longrightarrow> resolves M q"
  by (metis ext)

lemma resolves_change: "resolves M p \<Longrightarrow> resolves (change g M) (\<lambda>L. map_option g (p L))"
  unfolding change_def
  by (rule resolves_cong [OF resolves_bind [OF _ resolves_return]])
    (auto simp: map_option_case split: Option.bind_splits option.splits)

lemma resolves_pair:
  "resolves M p \<Longrightarrow> resolves N q \<Longrightarrow>
     resolves (do { x \<leftarrow> M; y \<leftarrow> N; State_Monad.return (g x y) }) (\<lambda>L. pair g (p L) (q L))"
  by (rule resolves_cong [OF resolves_bind [OF _ resolves_bind [OF _ resolves_return]]])
    (auto simp: pair_def map_option_case split: Option.bind_splits option.splits)

section \<open>Variables\<close>

lemma find_label_depth:
  "n \<le> length labels \<Longrightarrow> find_label labels n nm =
     map_option (\<lambda>d. n - d - 1) (depth_of (rev (take n labels)) nm)"
proof (induction n)
  case (Suc n)
  have "d < n" if "depth_of (rev (take n labels)) nm = Some d" for d
  proof -
    have "depth_of L nm = Some d \<Longrightarrow> d < length L" for L d
      by (induction L arbitrary: d) (auto split: if_splits)
    from this [OF that] Suc.prems show ?thesis by simp
  qed
  with Suc show ?case
    by (auto simp: take_Suc_conv_app_nth option.map_comp comp_def intro!: option.map_cong0)
qed simp

lemma depth_of_less: "depth_of L nm = Some d \<Longrightarrow> d < length L"
  by (induction L arbitrary: d) (auto split: if_splits)

lemma resolves_label: "resolves (ResolveLabelVar v) (\<lambda>L. resolve_label L v)"
proof (rule resolvesI)
  fix s
  note find = find_label_depth [of "length (nr_labels s)" "nr_labels s", simplified]
  show "nr_labels (snd (run_state (ResolveLabelVar v) s)) = nr_labels s"
    by (auto simp: ResolveLabelVar_def PrintError_nr_def split: var.splits option.splits)
  show "nr_result s = Error \<Longrightarrow> nr_result (snd (run_state (ResolveLabelVar v) s)) = Error"
    by (auto simp: ResolveLabelVar_def PrintError_nr_def split: var.splits option.splits)
  show "case resolve_label (rev (nr_labels s)) v of Some y \<Rightarrow> run_state (ResolveLabelVar v) s = (y, s)
    | None \<Rightarrow> nr_result (snd (run_state (ResolveLabelVar v) s)) = Error"
    by (auto simp: ResolveLabelVar_def resolve_label_def PrintError_nr_def find
        split: var.splits option.splits dest: depth_of_less)
qed

lemma resolves_var: "resolves (ResolveVar hash desc v) (\<lambda>L. resolve_in hash v)"
  by (rule resolvesI)
    (auto simp: ResolveVar_def resolve_in_def PrintError_nr_def Let_def split: var.splits)

lemma resolves_entities:
  "resolves (ResolveFuncVar m v) (\<lambda>L. resolve_in (func_bindings m) v)"
  "resolves (ResolveGlobalVar m v) (\<lambda>L. resolve_in (global_bindings m) v)"
  "resolves (ResolveFuncTypeVar m v) (\<lambda>L. resolve_in (type_bindings m) v)"
  "resolves (ResolveTableVar m v) (\<lambda>L. resolve_table m v)"
  "resolves (ResolveMemoryVar m v) (\<lambda>L. resolve_memory m v)"
  "resolves (ResolveTagVar m v) (\<lambda>L. resolve_in (tag_bindings m) v)"
  "resolves (ResolveDataSegmentVar m v) (\<lambda>L. resolve_in (data_segment_bindings m) v)"
  "resolves (ResolveElemSegmentVar m v) (\<lambda>L. resolve_in (elem_segment_bindings m) v)"
  unfolding ResolveFuncVar_def ResolveGlobalVar_def ResolveFuncTypeVar_def ResolveTableVar_def
    ResolveMemoryVar_def ResolveTagVar_def ResolveDataSegmentVar_def ResolveElemSegmentVar_def
  by (rule resolves_var)+

lemma resolves_local: "resolves (ResolveLocalVar f v) (\<lambda>L. resolve_local f v)"
  by (rule resolvesI)
    (auto simp: ResolveLocalVar_def resolve_local_def resolve_in_def PrintError_nr_def Let_def
      GetLocalIndex_def split: var.splits option.splits)

lemma resolves_decl:
  "resolves (resolve_decl m decl) (\<lambda>L. resolve_type_of m decl)"
  "resolves (ResolveBlockDeclarationVar m decl) (\<lambda>L. resolve_type_of m decl)"
proof -
  show *: "resolves (resolve_decl m decl) (\<lambda>L. resolve_type_of m decl)"
    unfolding resolve_decl_def resolve_type_of_def
    using resolves_change [OF resolves_entities(3), of "\<lambda>v. decl\<lparr>type_var := v\<rparr>"]
    by (simp add: resolves_return change_def)
  show "resolves (ResolveBlockDeclarationVar m decl) (\<lambda>L. resolve_type_of m decl)"
    unfolding ResolveBlockDeclarationVar_def by (rule *)
qed

lemma resolves_each: "(\<And>x. resolves (g x) (\<lambda>L. p L x)) \<Longrightarrow> resolves (each g xs) (\<lambda>L. all_some (p L) xs)"
  by (induction xs) (auto intro: resolves_return resolves_pair)

section \<open>Expressions\<close>

lemma resolves_var_expr:
  "resolves (var_expr_nr m f k v) (\<lambda>L. resolve_kind m f L (var_kind_of k) v)"
  by (cases k)
    (simp_all add: OnBrExpr_nr_def OnBrIfExpr_nr_def OnCallExpr_nr_def OnRefFuncExpr_nr_def
      OnGlobalGetExpr_nr_def OnGlobalSetExpr_nr_def OnLocalGetExpr_nr_def OnLocalSetExpr_nr_def
      OnLocalTeeExpr_nr_def OnReturnCallExpr_nr_def OnThrowExpr_nr_def OnRethrowExpr_nr_def
      OnDataDropExpr_nr_def OnElemDropExpr_nr_def OnTableGetExpr_nr_def OnTableSetExpr_nr_def
      OnTableGrowExpr_nr_def OnTableSizeExpr_nr_def OnTableFillExpr_nr_def
      resolve_kind_def resolves_label resolves_entities resolves_local)

lemma resolves_memory_expr: "resolves (memory_expr_nr m k v) (\<lambda>L. resolve_memory m v)"
  by (cases k; simp add: OnMemoryGrowExpr_nr_def OnMemorySizeExpr_nr_def OnMemoryFillExpr_nr_def
      resolves_entities)

lemma resolves_load_store: "resolves (load_store_expr_nr m k v)
    (\<lambda>L. if k \<in> {LoadT, StoreT} then resolve_memory m v else Some v)"
  by (cases k; simp add: load_store_expr_nr_def OnLoadExpr_nr_def OnStoreExpr_nr_def resolves_entities
      resolves_return)

lemma resolves_lanes:
  "resolves (OnSimdLoadLaneExpr_nr m v) (\<lambda>L. resolve_memory m v)"
  "resolves (OnSimdStoreLaneExpr_nr m v) (\<lambda>L. resolve_memory m v)"
  by (simp_all add: OnSimdLoadLaneExpr_nr_def OnSimdStoreLaneExpr_nr_def resolves_entities)

lemma resolves_change_pair:
  "resolves (do { x \<leftarrow> M; y \<leftarrow> N; State_Monad.return (x, y) }) (\<lambda>L. pair Pair (p L) (q L)) \<Longrightarrow>
     resolves (change (\<lambda>(x, y). g x y) (do { x \<leftarrow> M; y \<leftarrow> N; State_Monad.return (x, y) }))
       (\<lambda>L. pair g (p L) (q L))"
  by (drule resolves_change [where g = "\<lambda>(x, y). g x y"], erule resolves_cong)
    (auto simp: pair_def map_option_case split: Option.bind_splits option.splits)

lemmas resolves_two = resolves_change_pair [OF resolves_pair]

lemma resolves_OnExpr:
  assumes "\<not> (\<exists>k b es cs t kd. e = BlockExprBase k b \<or> e = IfExpr b es \<or> e = TryExpr kd b cs t)"
  shows "resolves (OnExpr_nr m f e) (\<lambda>L. resolve_expr m f L e)"
proof (cases e)
  case (LoadStoreExpr k op v a z)
  then show ?thesis
    using resolves_change [OF resolves_load_store, of "\<lambda>v. LoadStoreExpr k op v a z" m k v] by simp
qed (use assms in \<open>auto simp: OnMemoryCopyExpr_nr_def OnMemoryInitExpr_nr_def OnTableCopyExpr_nr_def
      OnTableInitExpr_nr_def OnCallIndirectExpr_nr_def OnReturnCallIndirectExpr_nr_def OnBrTableExpr_nr_def
      intro!: resolves_return resolves_change resolves_var_expr resolves_memory_expr resolves_lanes
        resolves_two resolves_entities resolves_decl resolves_each resolves_label
      split: lane_type.splits indirect_type.splits\<close>)

text \<open>The traversal: no member function fails, so the visitor goes through, and a block is resolved with its label.\<close>

text \<open>Between the push and the pop of a label the rest is resolved with that label on the stack.\<close>

lemma resolves_scope:
  assumes "resolves M p"
  shows "resolves (do { PushLabel_nr l; x \<leftarrow> M; PopLabel_nr; State_Monad.return x }) (\<lambda>L. p (l # L))"
proof (rule resolvesI)
  fix s :: name_resolver
  let ?s = "s\<lparr>nr_labels := nr_labels s @ [l]\<rparr>"
  obtain x s' where run: "run_state M ?s = (x, s')" by force
  note m = assms [unfolded resolves_def, rule_format, OF run]
  let ?N = "do { PushLabel_nr l; x \<leftarrow> M; PopLabel_nr; State_Monad.return x }"
  have N: "run_state ?N s = (x, s'\<lparr>nr_labels := butlast (nr_labels s')\<rparr>)"
    by (simp add: PushLabel_nr_def PopLabel_nr_def run)
  show "nr_labels (snd (run_state ?N s)) = nr_labels s" using m by (simp only: N) simp
  show "nr_result s = Error \<Longrightarrow> nr_result (snd (run_state ?N s)) = Error" using m by (simp only: N) simp
  show "case p (l # rev (nr_labels s)) of Some y \<Rightarrow> run_state ?N s = (y, s)
      | None \<Rightarrow> nr_result (snd (run_state ?N s)) = Error"
    using m by (simp only: N) (auto split: option.splits)
qed

lemma tree_actions:
  fixes N N' :: "expr list nr" and K :: "catch list nr"
  shows
  "and_write (rw_begin (resolver m f) c (l, decl)) put (\<lambda>(l, decl). and_write (is_ok N) (put' l decl)
       (\<lambda>es. ends (rw_end (resolver m f) c) (X l decl es))) =
     is_ok (do { PushLabel_nr l; x \<leftarrow> do { decl \<leftarrow> ResolveBlockDeclarationVar m decl; es \<leftarrow> N;
       State_Monad.return (X l decl es) }; PopLabel_nr; State_Monad.return x })"
  "and_write (rw_begin (resolver m f) c (l, decl)) put (\<lambda>(l, decl). and_write (is_ok N) (put' l decl)
       (\<lambda>es. and_write (is_ok N') (put'' l decl es) (\<lambda>es'. ends (rw_end (resolver m f) c) (Y l decl es es')))) =
     is_ok (do { PushLabel_nr l; x \<leftarrow> do { decl \<leftarrow> ResolveBlockDeclarationVar m decl;
       p \<leftarrow> do { es \<leftarrow> N; es' \<leftarrow> N'; State_Monad.return (es, es') };
       State_Monad.return (case p of (es, es') \<Rightarrow> Y l decl es es') }; PopLabel_nr; State_Monad.return x })"
  "and_write (rw_begin (resolver m f) c (l, decl)) put (\<lambda>(l, decl). and_write (is_ok N) (put' l decl)
       (\<lambda>es. and_write (is_ok K) (put3 l decl es) (\<lambda>cs. ends (rw_end (resolver m f) c) (Z l decl es cs)))) =
     is_ok (do { PushLabel_nr l; x \<leftarrow> do { decl \<leftarrow> ResolveBlockDeclarationVar m decl;
       p \<leftarrow> do { es \<leftarrow> N; cs \<leftarrow> K; State_Monad.return (es, cs) };
       State_Monad.return (case p of (es, cs) \<Rightarrow> Z l decl es cs) }; PopLabel_nr; State_Monad.return x })"
  "and_write (rw_begin (resolver m f) c (l, decl)) put (\<lambda>(l, decl). and_write (is_ok N) (put' l decl)
       (\<lambda>es. writes (rw_delegate (resolver m f) t) (W l decl es))) =
     is_ok (do { x \<leftarrow> do { PushLabel_nr l; x \<leftarrow> do { decl \<leftarrow> ResolveBlockDeclarationVar m decl; es \<leftarrow> N;
       State_Monad.return (decl, es) }; PopLabel_nr; State_Monad.return x };
       t \<leftarrow> ResolveLabelVar t; State_Monad.return (case x of (decl, es) \<Rightarrow> W l decl es t) })"
  by (rule state.expand; simp add: resolver_def and_write_def writes_def ends_def is_ok_def Failed_def
      BeginExpr_nr_def EndExpr_nr_def OnDelegateExpr_nr_def fun_eq_iff split: prod.splits)+

lemmas pair_cases = pair_def map_option_case

lemma resolves_plain:
  assumes "\<not> (\<exists>k b es cs t kd. e = BlockExprBase k b \<or> e = IfExpr b es \<or> e = TryExpr kd b cs t)"
  shows "\<exists>N. rewrite_expr (resolver m f) e = is_ok N \<and> resolves N (\<lambda>L. resolve_expr m f L e)"
proof (rule exI [of _ "OnExpr_nr m f e"], rule conjI [OF _ resolves_OnExpr [OF assms]])
  have "rewrite_expr rw e = rw_expr rw e" for rw :: "name_resolver rewriter"
    using assms by (cases e) simp_all
  then show "rewrite_expr (resolver m f) e = is_ok (OnExpr_nr m f e)" by (simp add: resolver_def)
qed

lemma resolves_tree:
  "\<exists>N. rewrite_expr (resolver m f) e = is_ok N \<and> resolves N (\<lambda>L. resolve_expr m f L e)"
  "\<exists>N. rewrite_exprs (resolver m f) es = is_ok N \<and> resolves N (\<lambda>L. resolve_exprs m f L es)"
  "\<exists>N. rewrite_catches (resolver m f) cs = is_ok N \<and> resolves N (\<lambda>L. resolve_catches m f L cs)"
proof (induction "resolver m f" e and "resolver m f" es and "resolver m f" cs
    rule: rewrite_expr_rewrite_exprs_rewrite_catches.induct)
  case (1 k l decl es)
  then obtain N where N: "rewrite_exprs (resolver m f) es = is_ok N" "resolves N (\<lambda>L. resolve_exprs m f L es)"
    by blast
  show ?case
    unfolding rewrite_expr.simps N(1) tree_actions resolve_expr.simps
    by (rule exI, rule conjI [OF refl], rule resolves_scope [OF resolves_pair [OF resolves_decl(2) N(2)]])
next
  case (2 l decl es es')
  then obtain N N' where N: "rewrite_exprs (resolver m f) es = is_ok N" "resolves N (\<lambda>L. resolve_exprs m f L es)"
    "rewrite_exprs (resolver m f) es' = is_ok N'" "resolves N' (\<lambda>L. resolve_exprs m f L es')"
    by blast
  show ?case
    unfolding rewrite_expr.simps N(1,3) tree_actions resolve_expr.simps
    by (rule exI, rule conjI [OF refl], rule resolves_scope [OF resolves_pair [OF resolves_decl(2)
      resolves_pair [OF N(2,4)]]])
next
  case (3 kind l decl es cs t)
  then obtain N where N: "rewrite_exprs (resolver m f) es = is_ok N" "resolves N (\<lambda>L. resolve_exprs m f L es)"
    by blast
  show ?case
  proof (cases kind)
    case TryPlain
    show ?thesis
      unfolding rewrite_expr.simps N(1) TryPlain try_kind.case tree_actions
      by (rule exI, rule conjI [OF refl], rule resolves_cong [OF resolves_scope [OF resolves_pair [OF resolves_decl(2) N(2)]]],
        auto simp: pair_cases split: Option.bind_splits option.splits)
  next
    case TryCatch
    with 3 obtain K where K: "rewrite_catches (resolver m f) cs = is_ok K"
      "resolves K (\<lambda>L. resolve_catches m f L cs)" by blast
    show ?thesis
      unfolding rewrite_expr.simps N(1) K(1) TryCatch try_kind.case tree_actions
      by (rule exI, rule conjI [OF refl], rule resolves_cong [OF resolves_scope [OF resolves_pair [OF resolves_decl(2)
          resolves_pair [OF N(2) K(2)]]]],
        auto simp: pair_cases split: Option.bind_splits option.splits)
  next
    case TryDelegate
    show ?thesis
      unfolding rewrite_expr.simps N(1) TryDelegate try_kind.case tree_actions
      by (rule exI, rule conjI [OF refl], rule resolves_cong [OF resolves_pair [OF resolves_scope [OF resolves_pair [OF
          resolves_decl(2) N(2)]] resolves_label]],
        auto simp: pair_cases split: Option.bind_splits option.splits)
  qed
next
  case 5
  show ?case by (rule exI [of _ "State_Monad.return []"])
    (simp add: resolves_return is_ok_def)
next
  case (6 e es)
  then obtain M N where M: "rewrite_expr (resolver m f) e = is_ok M" "resolves M (\<lambda>L. resolve_expr m f L e)"
    and N: "rewrite_exprs (resolver m f) es = is_ok N" "resolves N (\<lambda>L. resolve_exprs m f L es)" by blast
  show ?case
    unfolding rewrite_exprs.simps M(1) N(1) and_write_is_ok writes_is_ok bind_is_ok change_def resolve_exprs.simps
    by (rule exI, rule conjI [OF refl], rule resolves_pair [OF M(2) N(2)])
next
  case 7
  show ?case by (rule exI [of _ "State_Monad.return []"])
    (simp add: resolves_return is_ok_def)
next
  case (8 v es cs)
  then obtain N K where N: "rewrite_exprs (resolver m f) es = is_ok N" "resolves N (\<lambda>L. resolve_exprs m f L es)"
    and K: "rewrite_catches (resolver m f) cs = is_ok K" "resolves K (\<lambda>L. resolve_catches m f L cs)" by blast
  have c: "rw_catch (resolver m f) v = is_ok (OnCatchExpr_nr m v)" by (simp add: resolver_def)
  have v: "resolves (OnCatchExpr_nr m v)
      (\<lambda>L. if IsCatchAll (Catch v []) then Some v else resolve_in (tag_bindings m) v)"
    by (simp add: OnCatchExpr_nr_def resolves_return resolves_entities)
  show ?case
    unfolding rewrite_catches.simps c N(1) K(1) and_write_is_ok writes_is_ok bind_is_ok change_def
    by (rule exI, rule conjI [OF refl], rule resolves_cong [OF resolves_bind [OF v resolves_pair [OF N(2) K(2)]]],
      auto simp: pair_cases split: Option.bind_splits option.splits)
qed (rule resolves_plain, simp)+

section \<open>The module\<close>

text \<open>Outside of every block, with no label on the stack, an action of the resolver \<open>settles\<close> for one value.\<close>

definition settles :: "'a nr \<Rightarrow> 'a option \<Rightarrow> bool" where
  "settles M v \<longleftrightarrow> (\<exists>p. resolves M p \<and> p [] = v)"

lemma settles_resolves: "resolves M p \<Longrightarrow> settles M (p [])"
  unfolding settles_def by blast

lemma settles_bind:
  assumes "settles M v" "\<And>x. settles (k x) (w x)"
  shows "settles (State_Monad.bind M k) (Option.bind v w)"
proof -
  from assms(1) obtain p where p: "resolves M p" "p [] = v" unfolding settles_def by blast
  from assms(2) obtain q where q: "\<And>x. resolves (k x) (q x)" "\<And>x. q x [] = w x"
    unfolding settles_def by metis
  from settles_resolves [OF resolves_bind [OF p(1) q(1)]] show ?thesis by (simp add: p(2) q(2))
qed

lemma settles_return: "settles (State_Monad.return x) (Some x)"
  by (rule settles_resolves [OF resolves_return])

lemma settles_change: "settles M v \<Longrightarrow> settles (change g M) (map_option g v)"
  unfolding change_def map_conv_bind_option comp_def by (rule settles_bind [OF _ settles_return])

lemma settles_pair: "settles M v \<Longrightarrow> settles N w \<Longrightarrow>
    settles (do { x \<leftarrow> M; y \<leftarrow> N; State_Monad.return (g x y) }) (pair g v w)"
  unfolding pair_def map_conv_bind_option comp_def
  by (intro settles_bind settles_return)

lemma settles_each: "(\<And>x. settles (g x) (p x)) \<Longrightarrow> settles (each g xs) (all_some p xs)"
  by (induction xs) (auto intro: settles_return settles_pair)

lemma settles_exprs: "settles (visit_exprs_nr m f es) (resolve_exprs m f [] es)"
proof -
  obtain N where "rewrite_exprs (resolver m f) es = is_ok N" and N: "resolves N (\<lambda>L. resolve_exprs m f L es)"
    using resolves_tree(2) by blast
  then have "visit_exprs_nr m f es = N"
    by (intro state.expand) (simp add: visit_exprs_nr_def is_ok_def fun_eq_iff split: prod.splits)
  with settles_resolves [OF N] show ?thesis by simp
qed

lemma resolves_duplicates:
  "resolves (print_duplicates desc ds) (\<lambda>L. if ds = [] then Some () else None)"
proof (induction ds)
  case (Cons d ds)
  have "resolves (PrintError_nr e) (\<lambda>L. None)" for e
    by (rule resolvesI) (simp_all add: PrintError_nr_def)
  from resolves_bind [OF this Cons.IH] show ?case
    by (simp add: PrintDuplicateBindingsError_nr_def)
qed (simp add: resolves_return)

lemma duplicates_from_empty:
  "duplicates_from known bs = [] \<longleftrightarrow> distinct (map fst bs) \<and> fst ` set known \<inter> fst ` set bs = {}"
proof (induction known bs rule: duplicates_from.induct)
  case (2 known nm i bs)
  show ?case
  proof (cases "map_of known nm")
    case None
    then have "nm \<notin> fst ` set known" by (simp add: map_of_eq_None_iff)
    then show ?thesis using 2(1) [OF None] by (simp add: None) blast
  next
    case (Some j)
    then have "nm \<in> fst ` set known" by (force dest: map_of_SomeD)
    with Some show ?thesis by simp
  qed
qed simp

lemma FindDuplicates_empty: "FindDuplicates b = [] \<longleftrightarrow> distinct (map fst b)"
  by (simp add: FindDuplicates_def duplicates_from_empty)

lemma settles_duplicates:
  "settles (print_duplicates desc (FindDuplicates b)) (if distinct (map fst b) then Some () else None)"
  using settles_resolves [OF resolves_duplicates, of desc "FindDuplicates b"]
  by (simp add: FindDuplicates_empty cong: if_cong)

lemma settles_check:
  "settles (CheckDuplicateBindings_nr hash desc) (if distinct (map fst hash) then Some () else None)"
  unfolding CheckDuplicateBindings_nr_def by (rule settles_duplicates)

lemma settles_func: "settles (VisitFunc_nr m f) (resolve_func m f)"
proof -
  have "settles (VisitFunc_nr m f) (Option.bind (resolve_type_of m (func_decl f)) (\<lambda>decl.
      Option.bind (if distinct (map fst (bindings f)) then Some () else None) (\<lambda>u.
      Option.bind (resolve_exprs m (Some f) [] (func_exprs f)) (\<lambda>es.
      Some (f\<lparr>func_decl := decl, func_exprs := es\<rparr>)))))"
    unfolding VisitFunc_nr_def
    by (intro settles_bind settles_return settles_exprs settles_resolves [OF resolves_decl(1)]
      settles_duplicates)
  then show ?thesis
    by (rule back_subst [of "settles (VisitFunc_nr m f)"])
      (simp add: resolve_func_def pair_def map_conv_bind_option comp_def)
qed

lemma settles_entities:
  "settles (VisitExport_nr m e) (resolve_export m e)"
  "settles (VisitGlobal_nr m g) (resolve_global m g)"
  "settles (VisitTag_nr m t) (resolve_tag m t)"
  "settles (ResolveFuncVar m v) (resolve_in (func_bindings m) v)"
proof -
  note change = settles_change [unfolded change_def]
  show "settles (VisitExport_nr m e) (resolve_export m e)"
    by (cases "export_kind e") (simp_all add: VisitExport_nr_def resolve_export_def change
      resolves_entities [THEN settles_resolves])
  show "settles (VisitGlobal_nr m g) (resolve_global m g)"
    unfolding VisitGlobal_nr_def resolve_global_def by (rule change [OF settles_exprs])
  show "settles (VisitTag_nr m t) (resolve_tag m t)"
    unfolding VisitTag_nr_def resolve_tag_def by (rule change [OF resolves_decl(1) [THEN settles_resolves]])
  show "settles (ResolveFuncVar m v) (resolve_in (func_bindings m) v)"
    by (rule resolves_entities [THEN settles_resolves])
qed

lemma settles_elem: "settles (resolve_elem_expr m es) (resolve_elem m es)"
  by (cases "(m, es)" rule: resolve_elem_expr.cases)
    (auto intro: settles_return settles_change [unfolded change_def] settles_entities)

lemma settles_segments:
  "settles (VisitElemSegment_nr m seg) (resolve_elem_segment m seg)"
  "settles (VisitDataSegment_nr m d) (resolve_data_segment m d)"
proof -
  have "settles (VisitElemSegment_nr m seg) (Option.bind (resolve_table m (table_var seg)) (\<lambda>v.
      Option.bind (resolve_exprs m None [] (elem_offset seg)) (\<lambda>es.
      Option.bind (all_some (resolve_elem m) (elem_exprs seg)) (\<lambda>ees.
      Some (seg\<lparr>table_var := v, elem_offset := es, elem_exprs := ees\<rparr>)))))"
    unfolding VisitElemSegment_nr_def
    by (intro settles_bind settles_return settles_exprs settles_each settles_elem
      settles_resolves [OF resolves_entities(4)])
  then show "settles (VisitElemSegment_nr m seg) (resolve_elem_segment m seg)"
    by (rule back_subst [of "settles (VisitElemSegment_nr m seg)"])
      (auto simp: resolve_elem_segment_def pair_cases split: Option.bind_splits option.splits)
  show "settles (VisitDataSegment_nr m d) (resolve_data_segment m d)"
    unfolding VisitDataSegment_nr_def resolve_data_segment_def
    by (rule settles_pair [OF settles_resolves [OF resolves_entities(5)] settles_exprs])
qed

section \<open>The loops\<close>

definition part_value :: "('f \<Rightarrow> 'a option) \<Rightarrow> ('a \<Rightarrow> 'f \<Rightarrow> 'f) \<Rightarrow> ('a \<Rightarrow> 'a option) \<Rightarrow> 'f \<Rightarrow> 'f option" where
  "part_value get put g f = (case get f of None \<Rightarrow> Some f | Some x \<Rightarrow> map_option (\<lambda>x. put x f) (g x))"

lemma settles_loop:
  assumes "\<And>x. settles (visit x) (g x)"
  shows "settles (loop_nr get put visit fs) (all_some (part_value get put g) fs)"
proof -
  let ?step = "\<lambda>f. case get f of None \<Rightarrow> State_Monad.return f | Some x \<Rightarrow> change (\<lambda>x. put x f) (visit x)"
  have "rewrite_parts get put (\<lambda>x. is_ok (visit x)) fs = is_ok (each ?step fs)"
  proof (induction fs)
    case (Cons f fs)
    then show ?case
      by (cases "get f") (simp_all add: and_write_is_ok writes_is_ok bind_is_ok change_def)
  qed (simp add: is_ok_def)
  then have "loop_nr get put visit fs = each ?step fs"
    by (intro state.expand) (simp add: loop_nr_def is_ok_def fun_eq_iff split: prod.splits)
  moreover have "settles (?step f) (part_value get put g f)" for f
    by (cases "get f") (simp_all add: part_value_def settles_return settles_change assms)
  ultimately show ?thesis by (simp add: settles_each)
qed

lemma all_some_bind:
  "Option.bind (all_some g xs) (all_some h) = all_some (\<lambda>x. Option.bind (g x) h) xs"
  by (induction xs) (auto simp: pair_cases split: Option.bind_splits option.splits)

text \<open>Each of the seven loops leaves the entities of the other kinds alone, so a field goes through one of them.\<close>

lemma field_loops:
  "Option.bind (part_value the_func put_func (resolve_func m) x) (\<lambda>x.
   Option.bind (part_value the_export put_export (resolve_export m) x) (\<lambda>x.
   Option.bind (part_value the_global put_global (resolve_global m) x) (\<lambda>x.
   Option.bind (part_value the_tag put_tag (resolve_tag m) x) (\<lambda>x.
   Option.bind (part_value the_elem put_elem (resolve_elem_segment m) x) (\<lambda>x.
   Option.bind (part_value the_data put_data (resolve_data_segment m) x)
     (part_value the_start put_start (resolve_in (func_bindings m)))))))) = resolve_field m x"
  by (cases x; (simp split: import_desc.splits)?;
      auto simp: part_value_def entity_parts put_import_def map_conv_bind_option comp_def
        split: Option.bind_splits import_desc.splits)

section \<open>The pass\<close>

lemma settles_fields:
  "settles (do {
     fs \<leftarrow> loop_nr the_func put_func (VisitFunc_nr m) fs;
     fs \<leftarrow> loop_nr the_export put_export (VisitExport_nr m) fs;
     fs \<leftarrow> loop_nr the_global put_global (VisitGlobal_nr m) fs;
     fs \<leftarrow> loop_nr the_tag put_tag (VisitTag_nr m) fs;
     fs \<leftarrow> loop_nr the_elem put_elem (VisitElemSegment_nr m) fs;
     fs \<leftarrow> loop_nr the_data put_data (VisitDataSegment_nr m) fs;
     loop_nr the_start put_start (ResolveFuncVar m) fs
   }) (all_some (resolve_field m) fs)"
proof -
  note loops = settles_loop [OF settles_func] settles_loop [OF settles_entities(1)]
    settles_loop [OF settles_entities(2)] settles_loop [OF settles_entities(3)]
    settles_loop [OF settles_segments(1)] settles_loop [OF settles_segments(2)]
    settles_loop [OF settles_entities(4)]
  show ?thesis
    unfolding field_loops [of m, abs_def, symmetric] all_some_bind [symmetric]
    by (intro settles_bind loops)
qed

lemma settles_cong: "settles M v \<Longrightarrow> v = w \<Longrightarrow> settles M w"
  by simp

lemma settles_first:
  "settles M v \<Longrightarrow> settles (do { CheckDuplicateBindings_nr hash desc; M })
     (if distinct (map fst hash) then v else None)"
  by (rule settles_cong [OF settles_bind [OF settles_check, where w = "\<lambda>u. v"]]) simp_all

lemma settles_checks:
  assumes "settles M v"
  shows "settles (do {
     CheckDuplicateBindings_nr (elem_segment_bindings m) a;
     CheckDuplicateBindings_nr (func_bindings m) b;
     CheckDuplicateBindings_nr (global_bindings m) c;
     CheckDuplicateBindings_nr (type_bindings m) d;
     CheckDuplicateBindings_nr (table_bindings m) e;
     CheckDuplicateBindings_nr (memory_bindings m) f;
     CheckDuplicateBindings_nr (tag_bindings m) g;
     M }) (if names_distinct m then v else None)"
  by (rule settles_cong [OF settles_first [OF settles_first [OF settles_first [OF settles_first [OF
      settles_first [OF settles_first [OF settles_first [OF assms]]]]]]]])
    (simp add: names_distinct_def)

lemma settles_run:
  assumes "settles M v" "run_state M NameResolver = (x, s)"
  shows "case v of Some y \<Rightarrow> x = y \<and> s = NameResolver | None \<Rightarrow> nr_result s = Error"
  using assms unfolding settles_def resolves_def NameResolver_def by fastforce

lemma run_after: "run_state M s = (x, s') \<Longrightarrow> run_state (State_Monad.bind M k) s = run_state (k x) s'"
  by simp

lemma ResolveNames_spec:
  "ResolveNamesModule m = (r, m', errs) \<Longrightarrow>
     (r = Ok \<longleftrightarrow> resolve_module m \<noteq> None) \<and> (r = Ok \<longrightarrow> resolve_module m = Some m' \<and> errs = [])"
proof -
  assume run: "ResolveNamesModule m = (r, m', errs)"
  let ?fields = "do {
     fs \<leftarrow> loop_nr the_func put_func (VisitFunc_nr m) (fields_of m);
     fs \<leftarrow> loop_nr the_export put_export (VisitExport_nr m) fs;
     fs \<leftarrow> loop_nr the_global put_global (VisitGlobal_nr m) fs;
     fs \<leftarrow> loop_nr the_tag put_tag (VisitTag_nr m) fs;
     fs \<leftarrow> loop_nr the_elem put_elem (VisitElemSegment_nr m) fs;
     fs \<leftarrow> loop_nr the_data put_data (VisitDataSegment_nr m) fs;
     loop_nr the_start put_start (ResolveFuncVar m) fs }"
  let ?M = "do {
     CheckDuplicateBindings_nr (elem_segment_bindings m) ''elem'';
     CheckDuplicateBindings_nr (func_bindings m) ''function'';
     CheckDuplicateBindings_nr (global_bindings m) ''global'';
     CheckDuplicateBindings_nr (type_bindings m) ''type'';
     CheckDuplicateBindings_nr (table_bindings m) ''table'';
     CheckDuplicateBindings_nr (memory_bindings m) ''memory'';
     CheckDuplicateBindings_nr (tag_bindings m) ''tag'';
     ?fields }"
  obtain fs s where M: "run_state ?M NameResolver = (fs, s)" by force
  have "VisitModule_nr m = do { fs \<leftarrow> ?M; result \<leftarrow> gets nr_result; State_Monad.return (result, from_fields fs m) }"
    by (simp add: VisitModule_nr_def)
  then have "run_state (VisitModule_nr m) NameResolver = ((nr_result s, from_fields fs m), s)"
    by (simp only: run_after [OF M]) simp
  with run have r: "r = nr_result s" "m' = from_fields fs m" "errs = nr_errors s"
    by (simp_all add: ResolveNamesModule_def)
  from settles_run [OF settles_checks [OF settles_fields] M] show ?thesis
    by (auto simp: r resolve_module_def NameResolver_def split: option.splits if_splits)
qed

text \<open>
  C29. The resolver accepts a module exactly when its bindings bind every name once, apart from those
  of the data segments, and every name of an entity, a local or a label in a place that it visits
  stands for one; then the module it leaves is the one in which each name in these places is replaced
  by the index of the binding of its kind (of the first of that name, for a data segment), and each
  label by the depth of the innermost block that has it. It does not visit, and leaves as they are,
  the memories of atomic, splat and zero-extending accesses, element expressions other than a single
  \<open>ref.func\<close>, and locals outside functions.
\<close>

theorem ResolveNamesModule_iff:
  "ResolveNamesModule m = (r, m', errs) \<Longrightarrow>
     (r = Ok \<longleftrightarrow> resolve_module m \<noteq> None) \<and> (r = Ok \<longrightarrow> resolve_module m = Some m' \<and> errs = [])"
  by (rule ResolveNames_spec)

section \<open>An example\<close>

text \<open>A function \<open>$f\<close> with a parameter \<open>$x\<close> and a block \<open>$b\<close>, and what the names in it stand for.\<close>

definition named_module :: module where
  "named_module = AppendFields
     [FuncField (func.make [102] no_decl [] [([120], 0)]
        [BlockExprBase BlockT (IR.Block [98] no_decl
           [VarExpr LocalGetT (VName [120]), VarExpr CallT (VName [102]), VarExpr BrT (VName [98])])]),
      StartField (VName [102])] empty_module"
definition resolved_module :: module where
  "resolved_module = from_fields
     [FuncField (func.make [102] no_decl [] [([120], 0)]
        [BlockExprBase BlockT (IR.Block [98] no_decl
           [VarExpr LocalGetT (VIndex 0), VarExpr CallT (VIndex 0), VarExpr BrT (VIndex 0)])]),
      StartField (VIndex 0)] named_module"

lemma named_module_run: "ResolveNamesModule named_module = (Ok, resolved_module, [])"
  by code_simp

theorem ResolveNamesModule_iff_witness: "resolve_module named_module = Some resolved_module"
  using ResolveNamesModule_iff [OF named_module_run] by simp

end
