(* ===== verification/Apply_Names_Facts.thy ===== *)
theory Apply_Names_Facts
  imports Apply_Names Resolve_Names_Facts
begin

text \<open>
  The resolver undoes the pass that applies names: in a module whose variables are indices, whose
  names are bound to the entities that have them, and whose labels are not shadowed, each name that
  is written stands for the index it has replaced.
\<close>

section \<open>Modules that can be named\<close>

text \<open>A nonempty name of an entity leads to its index.\<close>

definition bound :: "('a \<Rightarrow> name) \<Rightarrow> 'a list \<Rightarrow> binding_hash \<Rightarrow> bool" where
  "bound name_of xs hash \<longleftrightarrow> length xs < 2 ^ 32 \<and>
     (\<forall>i<length xs. name_of (xs ! i) \<noteq> [] \<longrightarrow> map_of hash (name_of (xs ! i)) = Some (of_nat i))"

text \<open>The entities of \<open>m\<close> with the bindings of \<open>n\<close>.\<close>

definition names_bound :: "module \<Rightarrow> module \<Rightarrow> bool" where
  "names_bound m n \<longleftrightarrow> bound func_name (funcs m) (func_bindings n) \<and>
     bound table_name (tables m) (table_bindings n) \<and> bound memory_name (memories m) (memory_bindings n) \<and>
     bound global_name (globals m) (global_bindings n) \<and> bound tag_name (tags m) (tag_bindings n) \<and>
     bound entry_name (types m) (type_bindings n) \<and>
     bound elem_name (elem_segments m) (elem_segment_bindings n) \<and>
     bound data_name (data_segments m) (data_segment_bindings n)"

definition is_index :: "IR.var \<Rightarrow> bool" where
  "is_index v = (case v of VIndex i \<Rightarrow> True | VName nm \<Rightarrow> False)"

definition indexed_decl :: "func_declaration \<Rightarrow> bool" where
  "indexed_decl decl \<longleftrightarrow> (has_func_type decl \<longrightarrow> is_index (type_var decl))"

text \<open>No two enclosing blocks have the same label; an empty label is none.\<close>

fun apart :: "name list \<Rightarrow> bool" where
  "apart [] = True"
| "apart (l # L) \<longleftrightarrow> (l = [] \<or> l \<notin> set L) \<and> apart L"

text \<open>All variables are indices, and the labels of blocks differ from those around them, \<open>L\<close>.\<close>

fun indexed_expr :: "name list \<Rightarrow> expr \<Rightarrow> bool"
  and indexed_exprs :: "name list \<Rightarrow> expr list \<Rightarrow> bool"
  and indexed_catches :: "name list \<Rightarrow> catch list \<Rightarrow> bool"
where
  "indexed_expr L (VarExpr k v) = is_index v"
| "indexed_expr L (MemoryExpr k v) = is_index v"
| "indexed_expr L (LoadStoreExpr k op v a z) = is_index v"
| "indexed_expr L (SimdLaneMemoryExpr k op v a z i) = is_index v"
| "indexed_expr L (MemoryCopyExpr v w) \<longleftrightarrow> is_index v \<and> is_index w"
| "indexed_expr L (MemoryInitExpr v w) \<longleftrightarrow> is_index v \<and> is_index w"
| "indexed_expr L (TableCopyExpr v w) \<longleftrightarrow> is_index v \<and> is_index w"
| "indexed_expr L (TableInitExpr v w) \<longleftrightarrow> is_index v \<and> is_index w"
| "indexed_expr L (IndirectExpr k decl v) \<longleftrightarrow> indexed_decl decl \<and> is_index v"
| "indexed_expr L (BrTableExpr vs v) \<longleftrightarrow> list_all is_index vs \<and> is_index v"
| "indexed_expr L (BlockExprBase k (Block l decl es)) \<longleftrightarrow>
     apart (l # L) \<and> indexed_decl decl \<and> indexed_exprs (l # L) es"
| "indexed_expr L (IfExpr (Block l decl es) es') \<longleftrightarrow>
     apart (l # L) \<and> indexed_decl decl \<and> indexed_exprs (l # L) es \<and> indexed_exprs (l # L) es'"
| "indexed_expr L (TryExpr kind (Block l decl es) cs t) \<longleftrightarrow>
     apart (l # L) \<and> indexed_decl decl \<and> indexed_exprs (l # L) es \<and> indexed_catches (l # L) cs \<and>
     is_index t"
| "indexed_expr L e = True"
| "indexed_exprs L [] = True"
| "indexed_exprs L (e # es) \<longleftrightarrow> indexed_expr L e \<and> indexed_exprs L es"
| "indexed_catches L [] = True"
| "indexed_catches L (Catch v es # cs) \<longleftrightarrow> is_index v \<and> indexed_exprs L es \<and> indexed_catches L cs"

text \<open>Where an element begins with a \<open>ref.func\<close> there is nothing after it.\<close>

fun indexed_elem :: "expr list \<Rightarrow> bool" where
  "indexed_elem (VarExpr RefFuncT v # es) \<longleftrightarrow> is_index v \<and> es = []"
| "indexed_elem es = True"

definition indexed_func :: "func \<Rightarrow> bool" where
  "indexed_func f \<longleftrightarrow> indexed_decl (func_decl f) \<and> distinct (map fst (bindings f)) \<and>
     indexed_exprs [] (func_exprs f)"

fun indexed_field :: "module_field \<Rightarrow> bool" where
  "indexed_field (FuncField f) = indexed_func f"
| "indexed_field (GlobalField g) = indexed_exprs [] (init_expr g)"
| "indexed_field (ImportField i) =
     (case import_desc i of
        FuncImport f \<Rightarrow> indexed_func f
      | GlobalImport g \<Rightarrow> indexed_exprs [] (init_expr g)
      | TagImport t \<Rightarrow> indexed_decl (tag_decl t)
      | _ \<Rightarrow> True)"
| "indexed_field (ExportField e) = is_index (export_var e)"
| "indexed_field (TagField t) = indexed_decl (tag_decl t)"
| "indexed_field (ElemSegmentField seg) \<longleftrightarrow>
     is_index (table_var seg) \<and> indexed_exprs [] (elem_offset seg) \<and> list_all indexed_elem (elem_exprs seg)"
| "indexed_field (DataSegmentField seg) \<longleftrightarrow> is_index (memory_var seg) \<and> indexed_exprs [] (data_offset seg)"
| "indexed_field (StartField v) = is_index v"
| "indexed_field x = True"

section \<open>Variables\<close>

lemma entity_SomeD:
  assumes "length xs < 2 ^ 32" "entity xs i = Some x"
  shows "unat i < length xs" "x = xs ! unat i"
proof -
  have "unat (of_nat (length xs) :: u64) = length xs" "unat (ucast i :: u64) = unat i"
    using assms(1) unsigned_less [of i, where 'a = nat]
    by (simp_all add: unsigned_of_nat take_bit_nat_eq_self unsigned_ucast_eq unsigned_take_bit_eq)
  with assms(2) show "unat i < length xs" "x = xs ! unat i"
    by (auto simp: entity_def word_le_nat_alt split: if_splits)
qed

lemma index_not_invalid: "unat (i :: index) < n \<Longrightarrow> n < 2 ^ 32 \<Longrightarrow> i \<noteq> kInvalidIndex"
  by (auto simp: kInvalidIndex_def unsigned_minus_1_eq_mask mask_eq_exp_minus_1)

lemma resolve_in_used:
  "map_of hash nm = Some i \<or> nm = [] \<Longrightarrow> i \<noteq> kInvalidIndex \<Longrightarrow>
     resolve_in hash (UseNameForVar nm (VIndex i)) = Some (VIndex i)"
  by (auto simp: UseNameForVar_def resolve_in_def FindIndex_name_def)

lemma bound_index:
  assumes "bound name_of xs hash" "entity xs i = Some x"
  shows "resolve_in hash (UseNameForVar (name_of x) (VIndex i)) = Some (VIndex i)"
proof -
  from assms(1) have n: "length xs < 2 ^ 32" by (simp add: bound_def)
  note i = entity_SomeD [OF n assms(2)]
  from assms(1) i show ?thesis
    by (intro resolve_in_used index_not_invalid [OF _ n]) (auto simp: bound_def)
qed

lemma is_indexE: "is_index v \<Longrightarrow> (\<And>i. v = VIndex i \<Longrightarrow> P) \<Longrightarrow> P"
  by (cases v) (simp_all add: is_index_def)

text \<open>What is written for the index of an entity resolves to it.\<close>

lemma used_entities:
  assumes "names_bound m n" "is_index v"
  shows
    "UseNameForFuncVar m v = (Ok, w) \<Longrightarrow> resolve_in (func_bindings n) w = Some v"
    "UseNameForTableVar m v = (Ok, w) \<Longrightarrow> resolve_table n w = Some v"
    "UseNameForMemoryVar m v = (Ok, w) \<Longrightarrow> resolve_memory n w = Some v"
    "UseNameForGlobalVar m v = (Ok, w) \<Longrightarrow> resolve_in (global_bindings n) w = Some v"
    "UseNameForTagVar m v = (Ok, w) \<Longrightarrow> resolve_in (tag_bindings n) w = Some v"
    "UseNameForDataSegmentVar m v = (Ok, w) \<Longrightarrow> resolve_in (data_segment_bindings n) w = Some v"
    "UseNameForElemSegmentVar m v = (Ok, w) \<Longrightarrow> resolve_in (elem_segment_bindings n) w = Some v"
    "UseNameForFuncTypeVar m v = (Ok, w) \<Longrightarrow> resolve_in (type_bindings n) w = Some v"
proof -
  from assms(2) obtain i where v: "v = VIndex i" by (rule is_indexE)
  have type: "bound entry_name xs hash \<Longrightarrow> entity xs i = Some (FuncType nm sig) \<Longrightarrow>
      resolve_in hash (UseNameForVar nm (VIndex i)) = Some (VIndex i)" for xs hash nm sig
    using bound_index [of entry_name xs hash i "FuncType nm sig"] by simp
  show
    "UseNameForFuncVar m v = (Ok, w) \<Longrightarrow> resolve_in (func_bindings n) w = Some v"
    "UseNameForTableVar m v = (Ok, w) \<Longrightarrow> resolve_table n w = Some v"
    "UseNameForMemoryVar m v = (Ok, w) \<Longrightarrow> resolve_memory n w = Some v"
    "UseNameForGlobalVar m v = (Ok, w) \<Longrightarrow> resolve_in (global_bindings n) w = Some v"
    "UseNameForTagVar m v = (Ok, w) \<Longrightarrow> resolve_in (tag_bindings n) w = Some v"
    "UseNameForDataSegmentVar m v = (Ok, w) \<Longrightarrow> resolve_in (data_segment_bindings n) w = Some v"
    "UseNameForElemSegmentVar m v = (Ok, w) \<Longrightarrow> resolve_in (elem_segment_bindings n) w = Some v"
    "UseNameForFuncTypeVar m v = (Ok, w) \<Longrightarrow> resolve_in (type_bindings n) w = Some v"
  using assms(1) unfolding names_bound_def v
  by (auto dest: bound_index type
    simp: UseNameForFuncVar_def UseNameForTableVar_def UseNameForMemoryVar_def UseNameForGlobalVar_def
      UseNameForTagVar_def UseNameForDataSegmentVar_def UseNameForElemSegmentVar_def UseNameForFuncTypeVar_def
      GetFunc_def GetTable_def GetMemory_def GetGlobal_def GetTag_def GetDataSegment_def GetElemSegment_def
      GetFuncIndex_def GetGlobalIndex_def GetTableIndex_def GetMemoryIndex_def GetTagIndex_def
      GetDataSegmentIndex_def GetElemSegmentIndex_def GetFuncTypeIndex_var_def
    split: option.splits type_entry.splits)
qed

lemma depth_of_nth: "apart L \<Longrightarrow> i < length L \<Longrightarrow> L ! i \<noteq> [] \<Longrightarrow> depth_of L (L ! i) = Some i"
  by (induction L arbitrary: i) (auto simp: nth_Cons split: nat.splits)

lemma reverse_mapping:
  assumes "j < n" "MakeTypeBindingReverseMapping n b ! j = nm" "nm \<noteq> []"
  shows "\<exists>i. (nm, i) \<in> set b \<and> unat i = j"
proof -
  have "length xs = n \<Longrightarrow> fold (\<lambda>(nm, i) names. names[unat i := nm]) b xs ! j = nm \<Longrightarrow>
      (\<exists>i. (nm, i) \<in> set b \<and> unat i = j) \<or> xs ! j = nm" for xs
    using \<open>j < n\<close>
  proof (induction b arbitrary: xs)
    case (Cons p b)
    show ?case
    proof (cases p)
      case (Pair x i)
      with Cons.IH [of "xs[unat i := x]"] Cons.prems
      have "(\<exists>i. (nm, i) \<in> set b \<and> unat i = j) \<or> xs[unat i := x] ! j = nm" by simp
      with Pair Cons.prems(1) \<open>j < n\<close> show ?thesis by (cases "unat i = j") auto
    qed
  qed simp
  from this [of "replicate n []"] assms show ?thesis
    by (auto simp: MakeTypeBindingReverseMapping_def)
qed

section \<open>Actions of the pass\<close>

text \<open>
  \<open>applies f L M L' Q\<close>: in the function \<open>f\<close> and with the labels \<open>L\<close>, the innermost first, an \<open>M\<close> that
  does not fail ends with the labels \<open>L'\<close> and a value for which \<open>Q\<close> holds.
\<close>

definition local_names :: "func \<Rightarrow> name list" where
  "local_names f = MakeTypeBindingReverseMapping (unat (GetNumParamsAndLocals f)) (bindings f)"

definition in_context :: "func option \<Rightarrow> name list \<Rightarrow> name_applier \<Rightarrow> bool" where
  "in_context f L s \<longleftrightarrow> rev (na_labels s) = L \<and>
     (\<forall>g. f = Some g \<longrightarrow> param_and_local_index_to_name s = local_names g)"

definition applies :: "func option \<Rightarrow> name list \<Rightarrow> 'a na \<Rightarrow> name list \<Rightarrow> ('a \<Rightarrow> bool) \<Rightarrow> bool" where
  "applies f L M L' Q \<longleftrightarrow>
     (\<forall>s y s'. in_context f L s \<longrightarrow> run_state M s = ((Ok, y), s') \<longrightarrow> in_context f L' s' \<and> Q y)"

lemma appliesI:
  "(\<And>s y s'. in_context f L s \<Longrightarrow> run_state M s = ((Ok, y), s') \<Longrightarrow> in_context f L' s' \<and> Q y) \<Longrightarrow>
     applies f L M L' Q"
  unfolding applies_def by blast

lemma applies_return: "(fst p = Ok \<Longrightarrow> Q (snd p)) \<Longrightarrow> applies f L (State_Monad.return p) L Q"
  by (rule appliesI) auto

lemma applies_and_write:
  assumes M: "applies f L M L1 P" and k: "\<And>y. P y \<Longrightarrow> applies f L1 (k y) L' Q"
  shows "applies f L (and_write M put k) L' Q"
proof (rule appliesI)
  fix s y s'
  assume s: "in_context f L s" and run: "run_state (and_write M put k) s = ((Ok, y), s')"
  obtain r x s1 where M': "run_state M s = ((r, x), s1)" by (metis surj_pair)
  with run have "r = Ok" "run_state (k x) s1 = ((Ok, y), s')"
    by (cases r; simp)+
  with M s M' k show "in_context f L' s' \<and> Q y" unfolding applies_def by blast
qed

lemma applies_writes:
  assumes M: "applies f L M L' P" and g: "\<And>y. P y \<Longrightarrow> Q (g y)"
  shows "applies f L (writes M g) L' Q"
  using assms unfolding applies_def by (fastforce simp: Let_def split: prod.splits)

lemma applies_mono: "applies f L M L' P \<Longrightarrow> (\<And>y. P y \<Longrightarrow> Q y) \<Longrightarrow> applies f L M L' Q"
  unfolding applies_def by blast

lemma applies_both:
  assumes "applies f L M L P" "applies f L (N w) L Q"
  shows "applies f L (both M v N w) L (\<lambda>(x, y). P x \<and> Q y)"
  unfolding both_def by (rule applies_and_write [OF assms(1) applies_writes [OF assms(2)]]) simp

text \<open>The value resolves, with the labels \<open>L\<close>, to the one that there was.\<close>

abbreviation reverts :: "func option \<Rightarrow> name list \<Rightarrow> 'a na \<Rightarrow> ('a \<Rightarrow> 'a option) \<Rightarrow> 'a \<Rightarrow> bool" where
  "reverts f L M q x \<equiv> applies f L M L (\<lambda>y. q y = Some x)"

lemma reverts_label:
  assumes "apart L" "is_index v"
  shows "reverts f L (use_label v) (resolve_label L) v"
proof (rule appliesI)
  fix s y s'
  assume s: "in_context f L s" and run: "run_state (use_label v) s = ((Ok, y), s')"
  from assms(2) obtain i where v: "v = VIndex i" by (rule is_indexE)
  from s have L: "na_labels s = rev L" by (auto simp: in_context_def)
  have "y = UseNameForVar (if length L \<le> unat i then [] else L ! unat i) v" "s' = s"
    using run by (auto simp: use_label_def FindLabelByVar_def v L rev_nth)
  with s depth_of_nth [OF assms(1), of "unat i"]
  show "in_context f L s' \<and> resolve_label L y = Some v"
    by (auto simp: v UseNameForVar_def resolve_label_def)
qed

text \<open>The function after the pass, in which names are looked up, has the bindings of the one before.\<close>

definition same_locals :: "func option \<Rightarrow> func option \<Rightarrow> bool" where
  "same_locals f f' \<longleftrightarrow>
     (\<forall>g. f = Some g \<longrightarrow> distinct (map fst (bindings g)) \<and> (\<exists>h. f' = Some h \<and> bindings h = bindings g))"

lemma reverts_local:
  assumes "is_index v" "same_locals f f'"
  shows "reverts f L (UseNameForParamAndLocalVar f v) (resolve_local f') v"
proof (rule appliesI)
  fix s y s'
  assume s: "in_context f L s" and run: "run_state (UseNameForParamAndLocalVar f v) s = ((Ok, y), s')"
  from assms(1) obtain i where v: "v = VIndex i" by (rule is_indexE)
  note same = assms(2) [unfolded same_locals_def, rule_format]
  from run obtain g where f: "f = Some g" by (cases f) (auto simp: UseNameForParamAndLocalVar_def)
  with run have i: "i < GetNumParamsAndLocals g" and y: "s' = s" "y = UseNameForVar (local_names g ! unat i) v"
    using s by (auto simp: UseNameForParamAndLocalVar_def Let_def GetLocalIndex_def v in_context_def split: if_splits)
  from i have i': "unat i < unat (GetNumParamsAndLocals g)" by (simp add: word_less_nat_alt)
  have valid: "i \<noteq> kInvalidIndex"
    using index_not_invalid [OF i'] unsigned_less [of "GetNumParamsAndLocals g", where 'a = nat] by simp
  have "map_of (bindings g) (local_names g ! unat i) = Some i \<or> local_names g ! unat i = []"
    using reverse_mapping [OF i' local_names_def [THEN arg_cong, of "\<lambda>xs. xs ! unat i", symmetric]] same [OF f]
    by (auto dest: word_unat_eq_iff [THEN iffD2])
  with i same [OF f] s y show "in_context f L s' \<and> resolve_local f' y = Some v"
    using valid by (auto simp: resolve_local_def v intro!: resolve_in_used)
qed

section \<open>Expressions\<close>

lemma reverts_entities:
  assumes "names_bound m n" "is_index v"
  shows
    "reverts f L (State_Monad.return (UseNameForFuncVar m v)) (resolve_in (func_bindings n)) v"
    "reverts f L (State_Monad.return (UseNameForTableVar m v)) (resolve_table n) v"
    "reverts f L (State_Monad.return (UseNameForMemoryVar m v)) (resolve_memory n) v"
    "reverts f L (State_Monad.return (UseNameForGlobalVar m v)) (resolve_in (global_bindings n)) v"
    "reverts f L (State_Monad.return (UseNameForTagVar m v)) (resolve_in (tag_bindings n)) v"
    "reverts f L (State_Monad.return (UseNameForDataSegmentVar m v)) (resolve_in (data_segment_bindings n)) v"
    "reverts f L (State_Monad.return (UseNameForElemSegmentVar m v)) (resolve_in (elem_segment_bindings n)) v"
    "reverts f L (State_Monad.return (UseNameForFuncTypeVar m v)) (resolve_in (type_bindings n)) v"
  by (rule applies_return, metis used_entities [OF assms] prod.collapse)+

lemma reverts_type:
  assumes "names_bound m n" "indexed_decl decl"
  shows "reverts f L (use_type m decl) (resolve_type_of n) decl"
  using assms(2) applies_writes [OF reverts_entities(8) [OF assms(1)]]
  by (auto simp: use_type_def resolve_type_of_def indexed_decl_def intro: applies_return
    intro!: applies_writes [OF reverts_entities(8) [OF assms(1)]])

lemma resolve_index: "is_index v \<Longrightarrow> resolve_in hash v = Some v"
  by (auto simp: resolve_in_def elim: is_indexE)

lemma resolve_indexed_type: "indexed_decl decl \<Longrightarrow> resolve_type_of n decl = Some decl"
  by (simp add: resolve_type_of_def indexed_decl_def resolve_index)

lemma reverts_labels:
  "apart L \<Longrightarrow> list_all is_index vs \<Longrightarrow> reverts f L (use_labels vs) (all_some (resolve_label L)) vs"
proof (induction vs)
  case (Cons v vs)
  then show ?case
    by (auto simp: pair_def intro!: applies_and_write [OF reverts_label] applies_writes [OF Cons.IH])
qed (simp add: applies_return)

lemma reverts_var_expr:
  assumes "names_bound m n" "is_index v" "apart L" "same_locals f f'"
  shows "reverts f L (var_expr_na m f k v) (resolve_kind n f' L (var_kind_of k)) v"
  using assms
  by (cases k)
    (simp_all add: OnBrExpr_na_def OnBrIfExpr_na_def OnCallExpr_na_def OnRefFuncExpr_na_def
      OnGlobalGetExpr_na_def OnGlobalSetExpr_na_def OnLocalGetExpr_na_def OnLocalSetExpr_na_def
      OnLocalTeeExpr_na_def OnReturnCallExpr_na_def OnThrowExpr_na_def OnRethrowExpr_na_def
      OnDataDropExpr_na_def OnElemDropExpr_na_def OnTableGetExpr_na_def OnTableSetExpr_na_def
      OnTableGrowExpr_na_def OnTableSizeExpr_na_def OnTableFillExpr_na_def
      resolve_kind_def reverts_label reverts_entities reverts_local)

lemma reverts_memory_expr:
  "names_bound m n \<Longrightarrow> is_index v \<Longrightarrow> reverts f L (memory_expr_na m k v) (resolve_memory n) v"
  by (cases k; simp add: OnMemoryGrowExpr_na_def OnMemorySizeExpr_na_def OnMemoryFillExpr_na_def
      reverts_entities)

lemma reverts_load_store: "names_bound m n \<Longrightarrow> is_index v \<Longrightarrow>
    reverts f L (load_store_expr_na m k v) (\<lambda>v. if k \<in> {LoadT, StoreT} then resolve_memory n v else Some v) v"
  by (cases k; simp add: load_store_expr_na_def OnLoadExpr_na_def OnStoreExpr_na_def reverts_entities
      applies_return)

lemma pair_Some: "a = Some x \<Longrightarrow> b = Some y \<Longrightarrow> pair g a b = Some (g x y)"
  by (simp add: pair_def)

lemma reverts_OnExpr:
  assumes "names_bound m n" "apart L" "same_locals f f'" "indexed_expr L e"
    "\<not> (\<exists>k b es cs t kd. e = BlockExprBase k b \<or> e = IfExpr b es \<or> e = TryExpr kd b cs t)"
  shows "reverts f L (OnExpr_na m f e) (resolve_expr n f' L) e"
proof (cases e)
  case (LoadStoreExpr k op v a z)
  with assms(4) show ?thesis
    by (auto intro!: applies_writes [OF reverts_load_store [OF assms(1)]])
next
  case (VarExpr k v)
  with assms show ?thesis by (auto intro!: applies_writes [OF reverts_var_expr])
next
  case (IndirectExpr k decl v)
  with assms(4) show ?thesis
    by (cases k) (auto simp: OnCallIndirectExpr_na_def OnReturnCallIndirectExpr_na_def pair_Some
      intro!: applies_writes [OF applies_both [OF reverts_type [OF assms(1)] reverts_entities(2) [OF assms(1)]]])
next
  case (BrTableExpr vs v)
  with assms(2,4) show ?thesis
    by (auto simp: OnBrTableExpr_na_def pair_Some
      intro!: applies_writes [OF applies_both [OF reverts_labels reverts_label]])
next
  case (SimdLaneMemoryExpr k op v a z i)
  with assms(4) show ?thesis
    by (cases k) (auto simp: OnSimdLoadLaneExpr_na_def OnSimdStoreLaneExpr_na_def
      intro!: applies_writes [OF reverts_entities(3) [OF assms(1)]])
qed (use assms(4,5) in \<open>auto simp: OnMemoryCopyExpr_na_def OnMemoryInitExpr_na_def OnTableCopyExpr_na_def
      OnTableInitExpr_na_def pair_Some
      intro!: applies_return applies_writes [OF reverts_memory_expr [OF assms(1)]]
        applies_writes [OF applies_both [OF reverts_entities(3) [OF assms(1)] reverts_entities(3) [OF assms(1)]]]
        applies_writes [OF applies_both [OF reverts_entities(6) [OF assms(1)] reverts_entities(3) [OF assms(1)]]]
        applies_writes [OF applies_both [OF reverts_entities(2) [OF assms(1)] reverts_entities(2) [OF assms(1)]]]
        applies_writes [OF applies_both [OF reverts_entities(7) [OF assms(1)] reverts_entities(2) [OF assms(1)]]]\<close>)

lemma applies_begin: "applies f L (BeginExpr_na b) (fst b # L) (\<lambda>b'. b' = b)"
  by (rule appliesI) (auto simp: BeginExpr_na_def PushLabel_na_def in_context_def)

lemma applies_end: "Q x \<Longrightarrow> applies f (l # L) (ends EndExpr_na x) L Q"
  by (rule appliesI) (auto simp: EndExpr_na_def PopLabel_na_def in_context_def butlast_rev [symmetric] rev_swap)

lemma applies_delegate:
  assumes "apart L" "is_index t"
  shows "applies f (l # L) (OnDelegateExpr_na t) L (\<lambda>t'. resolve_label L t' = Some t)"
proof (rule appliesI)
  fix s y s'
  assume s: "in_context f (l # L) s" and run: "run_state (OnDelegateExpr_na t) s = ((Ok, y), s')"
  let ?s = "s\<lparr>na_labels := butlast (na_labels s)\<rparr>"
  from s have "in_context f L ?s" by (auto simp: in_context_def rev_swap)
  moreover from run have "run_state (use_label t) ?s = ((Ok, y), s')"
    by (simp add: OnDelegateExpr_na_def PopLabel_na_def)
  ultimately show "in_context f L s' \<and> resolve_label L y = Some t"
    using reverts_label [OF assms, of f] unfolding applies_def by blast
qed

lemma applier_simps [simp]:
  "rw_expr (applier m f) = OnExpr_na m f" "rw_begin (applier m f) c = BeginExpr_na"
  "rw_end (applier m f) c = EndExpr_na" "rw_catch (applier m f) = OnCatchExpr_na m"
  "rw_delegate (applier m f) = OnDelegateExpr_na"
  by (simp_all add: applier_def)

lemma reverts_catch:
  "names_bound m n \<Longrightarrow> is_index v \<Longrightarrow> applies f L (OnCatchExpr_na m v) L
     (\<lambda>w. (if IsCatchAll (Catch w []) then Some w else resolve_in (tag_bindings n) w) = Some v)"
  using used_entities(5) [of m n v "snd (UseNameForTagVar m v)"]
  by (cases "UseNameForTagVar m v")
    (auto simp: OnCatchExpr_na_def IsCatchAll_def resolve_in_def intro!: applies_return split: var.splits)

lemma reverts_plain:
  assumes "names_bound m n" "same_locals f f'" "apart L" "indexed_expr L e"
    "\<not> (\<exists>k b es cs t kd. e = BlockExprBase k b \<or> e = IfExpr b es \<or> e = TryExpr kd b cs t)"
  shows "reverts f L (rewrite_expr (applier m f) e) (resolve_expr n f' L) e"
proof -
  have "rewrite_expr rw e = rw_expr rw e" for rw :: "name_applier rewriter"
    using assms(5) by (cases e) simp_all
  then show ?thesis using reverts_OnExpr [OF assms(1,3,2,4,5)] by simp
qed

lemma reverts_tree:
  fixes e :: expr and es :: "expr list" and cs :: "catch list"
  assumes "names_bound m n" "same_locals f f'"
  shows
  "apart L \<Longrightarrow> indexed_expr L e \<Longrightarrow>
     reverts f L (rewrite_expr (applier m f) e) (resolve_expr n f' L) e"
  "apart L \<Longrightarrow> indexed_exprs L es \<Longrightarrow>
     reverts f L (rewrite_exprs (applier m f) es) (resolve_exprs n f' L) es"
  "apart L \<Longrightarrow> indexed_catches L cs \<Longrightarrow>
     reverts f L (rewrite_catches (applier m f) cs) (resolve_catches n f' L) cs"
proof (induction "applier m f" e and "applier m f" es and "applier m f" cs arbitrary: L and L and L
    rule: rewrite_expr_rewrite_exprs_rewrite_catches.induct)
  case (1 k l decl es)
  then show ?case
    by (auto simp: pair_Some resolve_indexed_type intro!: applies_and_write [OF applies_begin]
      applies_and_write [OF 1(1)] applies_end)
next
  case (2 l decl es es')
  then show ?case
    by (auto simp: pair_Some resolve_indexed_type intro!: applies_and_write [OF applies_begin]
      applies_and_write [OF 2(1)] applies_and_write [OF 2(2)] applies_end)
next
  case (3 kind l decl es cs t)
  then show ?case
    by (cases kind) (auto simp: pair_Some resolve_indexed_type intro!: applies_and_write [OF applies_begin]
      applies_and_write [OF 3(1)] applies_and_write [OF 3(2)] applies_writes [OF applies_delegate] applies_end)
next
  case (6 e es)
  then show ?case
    by (auto simp: pair_Some intro!: applies_and_write [OF 6(1)] applies_writes [OF 6(2)])
next
  case (8 v es cs)
  then show ?case
    by (auto simp: pair_Some intro!: applies_and_write [OF reverts_catch [OF assms(1)]]
      applies_and_write [OF 8(1)] applies_writes [OF 8(2)])
next
  case 5
  show ?case by (simp add: applies_return)
next
  case 7
  show ?case by (simp add: applies_return)
qed (erule (1) reverts_plain [OF assms], simp)+

section \<open>The module\<close>

lemma reverts_exprs:
  "names_bound m n \<Longrightarrow> indexed_exprs [] es \<Longrightarrow>
     reverts None [] (rewrite_exprs (applier m None) es) (resolve_exprs n None []) es"
  by (rule reverts_tree(2)) (simp_all add: same_locals_def)

lemma reverts_func:
  assumes n: "names_bound m n" and f: "indexed_func f"
  shows "reverts None [] (VisitFunc_na m f) (resolve_func n) f"
proof -
  let ?body = "\<lambda>decl. do {
      modify (\<lambda>s. s\<lparr>param_and_local_index_to_name := local_names f\<rparr>);
      writes (rewrite_exprs (applier m (Some f)) (func_exprs f)) (\<lambda>es. f\<lparr>func_decl := decl, func_exprs := es\<rparr>) }"
  have "applies None [] (?body decl) [] (\<lambda>f'. resolve_func n f' = Some f)"
    if decl: "resolve_type_of n decl = Some (func_decl f)" for decl
  proof (rule appliesI)
    fix s f' s'
    assume s: "in_context None [] s" and run: "run_state (?body decl) s = ((Ok, f'), s')"
    let ?s = "s\<lparr>param_and_local_index_to_name := local_names f\<rparr>"
    from run obtain es where es: "run_state (rewrite_exprs (applier m (Some f)) (func_exprs f)) ?s = ((Ok, es), s')"
      and f': "f' = f\<lparr>func_decl := decl, func_exprs := es\<rparr>"
      by (auto simp: Let_def split: prod.splits)
    from f have "indexed_exprs [] (func_exprs f)" "same_locals (Some f) (Some f')"
      by (simp_all add: indexed_func_def same_locals_def f')
    then have tree: "reverts (Some f) [] (rewrite_exprs (applier m (Some f)) (func_exprs f))
        (resolve_exprs n (Some f') []) (func_exprs f)"
      by (intro reverts_tree(2) [OF n]) simp_all
    have "in_context (Some f) [] ?s" using s by (simp add: in_context_def)
    with tree es have "in_context (Some f) [] s' \<and> resolve_exprs n (Some f') [] es = Some (func_exprs f)"
      unfolding applies_def by blast
    with f decl show "in_context None [] s' \<and> resolve_func n f' = Some f"
      by (auto simp: in_context_def resolve_func_def f' pair_def indexed_func_def)
  qed
  with f show ?thesis
    unfolding VisitFunc_na_def local_names_def [symmetric]
    by (intro applies_and_write [OF reverts_type [OF n]]) (auto simp: indexed_func_def)
qed

lemma reverts_export:
  assumes n: "names_bound m n" and e: "is_index (export_var e)"
  shows "reverts None [] (VisitExport_na m e) (resolve_export n) e"
proof -
  have keep: "fst (UseNameForFuncVar m v) = Error \<Longrightarrow> snd (UseNameForFuncVar m v) = v"
    "fst (UseNameForTableVar m v) = Error \<Longrightarrow> snd (UseNameForTableVar m v) = v"
    "fst (UseNameForMemoryVar m v) = Error \<Longrightarrow> snd (UseNameForMemoryVar m v) = v"
    "fst (UseNameForGlobalVar m v) = Error \<Longrightarrow> snd (UseNameForGlobalVar m v) = v"
    "fst (UseNameForTagVar m v) = Error \<Longrightarrow> snd (UseNameForTagVar m v) = v" for v
    by (auto simp: UseNameForFuncVar_def UseNameForTableVar_def UseNameForMemoryVar_def
      UseNameForGlobalVar_def UseNameForTagVar_def split: option.splits)
  have "resolve_in hash (snd p) = Some v"
    if "fst p = Error \<Longrightarrow> snd p = v" "p = (Ok, snd p) \<Longrightarrow> resolve_in hash (snd p) = Some v" "is_index v"
    for p :: "result \<times> IR.var" and v hash
    using that by (cases p; cases "fst p") (simp_all add: resolve_index)
  note used = this [OF keep(1) used_entities(1) [OF n e] e] this [OF keep(2) used_entities(2) [OF n e] e]
    this [OF keep(3) used_entities(3) [OF n e] e] this [OF keep(4) used_entities(4) [OF n e] e]
    this [OF keep(5) used_entities(5) [OF n e] e]
  show ?thesis
    unfolding VisitExport_na_def Let_def split_beta
    by (rule applies_return) (cases "export_kind e"; simp add: resolve_export_def used)
qed

lemma reverts_elem:
  "names_bound m n \<Longrightarrow> indexed_elem es \<Longrightarrow> reverts None [] (use_elem m es) (resolve_elem n) es"
  by (cases "(m, es)" rule: use_elem.cases)
    (auto intro!: applies_return applies_writes [OF reverts_entities(1)])

lemma reverts_elems:
  "names_bound m n \<Longrightarrow> list_all indexed_elem ess \<Longrightarrow>
     reverts None [] (use_elems m ess) (all_some (resolve_elem n)) ess"
proof (induction ess)
  case (Cons es ess)
  then show ?case
    by (auto simp: pair_Some intro!: applies_and_write [OF reverts_elem] applies_writes [OF Cons.IH])
qed (simp add: applies_return)

lemma reverts_segments:
  assumes n: "names_bound m n"
  shows "indexed_field (ElemSegmentField seg) \<Longrightarrow>
      reverts None [] (VisitElemSegment_na m seg) (resolve_elem_segment n) seg"
    "indexed_field (DataSegmentField d) \<Longrightarrow>
      reverts None [] (VisitDataSegment_na m d) (resolve_data_segment n) d"
  unfolding VisitElemSegment_na_def VisitDataSegment_na_def
  by (auto simp: resolve_elem_segment_def resolve_data_segment_def pair_Some
    intro!: applies_and_write [OF reverts_entities(2) [OF n]] applies_and_write [OF reverts_entities(3) [OF n]]
      applies_and_write [OF reverts_exprs [OF n]] applies_writes [OF reverts_exprs [OF n]]
      applies_writes [OF reverts_elems [OF n]])

section \<open>The loops\<close>

text \<open>The loop of \<open>VisitModule\<close> that a field goes through.\<close>

fun loop_of :: "module_field \<Rightarrow> nat" where
  "loop_of (FuncField f) = 0"
| "loop_of (GlobalField g) = 1"
| "loop_of (TagField t) = 2"
| "loop_of (ExportField e) = 3"
| "loop_of (ElemSegmentField seg) = 4"
| "loop_of (DataSegmentField seg) = 5"
| "loop_of (StartField v) = 6"
| "loop_of (ImportField i) =
     (case import_desc i of FuncImport f \<Rightarrow> 0 | GlobalImport g \<Rightarrow> 1 | TagImport t \<Rightarrow> 2 | _ \<Rightarrow> 7)"
| "loop_of x = 7"

text \<open>After \<open>k\<close> loops the fields of these loops resolve to what they were, the others are what they were.\<close>

definition visited :: "module \<Rightarrow> nat \<Rightarrow> module_field \<Rightarrow> module_field \<Rightarrow> bool" where
  "visited n k x y \<longleftrightarrow> indexed_field x \<and> loop_of y = loop_of x \<and>
     (if loop_of x < k then resolve_field n y = Some x else y = x)"

lemma applies_parts:
  assumes part: "(\<forall>x. get x \<noteq> None \<longleftrightarrow> loop_of x = k) \<and> (\<forall>x a b. get x = Some a \<longrightarrow> loop_of (put b x) = loop_of x)"
    and act: "\<forall>x a. indexed_field x \<longrightarrow> get x = Some a \<longrightarrow>
      applies None [] (act a) [] (\<lambda>b. resolve_field n (put b x) = Some x)"
  shows "list_all2 (visited n k) xs ys \<Longrightarrow>
    applies None [] (rewrite_parts get put act ys) [] (list_all2 (visited n (Suc k)) xs)"
proof (induction xs ys rule: list_all2_induct)
  case (Cons x xs y ys)
  show ?case
  proof (cases "get y")
    case None
    with part [THEN conjunct1, rule_format, of y] Cons.hyps(1) have "visited n (Suc k) x y"
      by (auto simp: visited_def less_Suc_eq)
    with None Cons.IH show ?thesis by (auto intro!: applies_writes)
  next
    case (Some a)
    with part [THEN conjunct1, rule_format, of y] have "loop_of y = k" by simp
    with Cons.hyps(1) have y: "y = x" "indexed_field x" by (auto simp: visited_def split: if_splits)
    have "visited n (Suc k) x (put b y)" if "resolve_field n (put b x) = Some x" for b
      using that part [THEN conjunct2, rule_format, OF Some] \<open>loop_of y = k\<close> by (simp add: visited_def y)
    with Some Cons.IH y show ?thesis
      by (auto intro!: applies_and_write [OF act [rule_format]] applies_writes)
  qed
qed (simp add: applies_return)

lemma loop_parts:
  "(\<forall>x. the_func x \<noteq> None \<longleftrightarrow> loop_of x = 0) \<and> (\<forall>x a b. the_func x = Some a \<longrightarrow> loop_of (put_func b x) = loop_of x)"
  "(\<forall>x. the_global x \<noteq> None \<longleftrightarrow> loop_of x = 1) \<and> (\<forall>x a b. the_global x = Some a \<longrightarrow> loop_of (put_global b x) = loop_of x)"
  "(\<forall>x. the_tag x \<noteq> None \<longleftrightarrow> loop_of x = 2) \<and> (\<forall>x a b. the_tag x = Some a \<longrightarrow> loop_of (put_tag b x) = loop_of x)"
  "(\<forall>x. the_export x \<noteq> None \<longleftrightarrow> loop_of x = 3) \<and> (\<forall>x a b. the_export x = Some a \<longrightarrow> loop_of (put_export b x) = loop_of x)"
  "(\<forall>x. the_elem x \<noteq> None \<longleftrightarrow> loop_of x = 4) \<and> (\<forall>x a b. the_elem x = Some a \<longrightarrow> loop_of (put_elem b x) = loop_of x)"
  "(\<forall>x. the_data x \<noteq> None \<longleftrightarrow> loop_of x = 5) \<and> (\<forall>x a b. the_data x = Some a \<longrightarrow> loop_of (put_data b x) = loop_of x)"
  "(\<forall>x. the_start x \<noteq> None \<longleftrightarrow> loop_of x = 6) \<and> (\<forall>x a b. the_start x = Some a \<longrightarrow> loop_of (put_start b x) = loop_of x)"
  by (auto simp: entity_parts put_import_def elim!: the_func.elims the_global.elims the_tag.elims loop_of.elims
    split: import_desc.splits module_field.splits)

lemma reverts_parts:
  assumes n: "names_bound m n"
  shows
    "\<forall>x f. indexed_field x \<longrightarrow> the_func x = Some f \<longrightarrow>
      applies None [] (VisitFunc_na m f) [] (\<lambda>f. resolve_field n (put_func f x) = Some x)"
    "\<forall>x g. indexed_field x \<longrightarrow> the_global x = Some g \<longrightarrow>
      applies None [] (VisitGlobal_na m g) [] (\<lambda>g. resolve_field n (put_global g x) = Some x)"
    "\<forall>x t. indexed_field x \<longrightarrow> the_tag x = Some t \<longrightarrow>
      applies None [] (VisitTag_na m t) [] (\<lambda>t. resolve_field n (put_tag t x) = Some x)"
    "\<forall>x e. indexed_field x \<longrightarrow> the_export x = Some e \<longrightarrow>
      applies None [] (VisitExport_na m e) [] (\<lambda>e. resolve_field n (put_export e x) = Some x)"
    "\<forall>x es. indexed_field x \<longrightarrow> the_elem x = Some es \<longrightarrow>
      applies None [] (VisitElemSegment_na m es) [] (\<lambda>es. resolve_field n (put_elem es x) = Some x)"
    "\<forall>x d. indexed_field x \<longrightarrow> the_data x = Some d \<longrightarrow>
      applies None [] (VisitDataSegment_na m d) [] (\<lambda>d. resolve_field n (put_data d x) = Some x)"
    "\<forall>x v. indexed_field x \<longrightarrow> the_start x = Some v \<longrightarrow>
      applies None [] (VisitStart m v) [] (\<lambda>v. resolve_field n (put_start v x) = Some x)"
proof -
  have global: "reverts None [] (VisitGlobal_na m g) (resolve_global n) g" if "indexed_exprs [] (init_expr g)" for g
    using that by (auto simp: VisitGlobal_na_def resolve_global_def intro!: applies_writes [OF reverts_exprs [OF n]])
  have tag: "reverts None [] (VisitTag_na m t) (resolve_tag n) t" if "indexed_decl (tag_decl t)" for t
    using that by (auto simp: VisitTag_na_def resolve_tag_def intro!: applies_writes [OF reverts_type [OF n]])
  show "\<forall>x f. indexed_field x \<longrightarrow> the_func x = Some f \<longrightarrow>
      applies None [] (VisitFunc_na m f) [] (\<lambda>f. resolve_field n (put_func f x) = Some x)"
    by (auto simp: put_import_def elim!: the_func.elims intro!: applies_mono [OF reverts_func [OF n]] split: import_desc.splits)
  show "\<forall>x g. indexed_field x \<longrightarrow> the_global x = Some g \<longrightarrow>
      applies None [] (VisitGlobal_na m g) [] (\<lambda>g. resolve_field n (put_global g x) = Some x)"
    by (auto simp: put_import_def elim!: the_global.elims intro!: applies_mono [OF global] split: import_desc.splits)
  show "\<forall>x t. indexed_field x \<longrightarrow> the_tag x = Some t \<longrightarrow>
      applies None [] (VisitTag_na m t) [] (\<lambda>t. resolve_field n (put_tag t x) = Some x)"
    by (auto simp: put_import_def elim!: the_tag.elims intro!: applies_mono [OF tag] split: import_desc.splits)
  show "\<forall>x e. indexed_field x \<longrightarrow> the_export x = Some e \<longrightarrow>
      applies None [] (VisitExport_na m e) [] (\<lambda>e. resolve_field n (put_export e x) = Some x)"
    by (auto simp: entity_parts intro!: applies_mono [OF reverts_export [OF n]] split: module_field.splits)
  show "\<forall>x es. indexed_field x \<longrightarrow> the_elem x = Some es \<longrightarrow>
      applies None [] (VisitElemSegment_na m es) [] (\<lambda>es. resolve_field n (put_elem es x) = Some x)"
    by (auto simp: entity_parts intro!: applies_mono [OF reverts_segments(1) [OF n]] split: module_field.splits)
  show "\<forall>x d. indexed_field x \<longrightarrow> the_data x = Some d \<longrightarrow>
      applies None [] (VisitDataSegment_na m d) [] (\<lambda>d. resolve_field n (put_data d x) = Some x)"
    by (auto simp: entity_parts intro!: applies_mono [OF reverts_segments(2) [OF n]] split: module_field.splits)
  show "\<forall>x v. indexed_field x \<longrightarrow> the_start x = Some v \<longrightarrow>
      applies None [] (VisitStart m v) [] (\<lambda>v. resolve_field n (put_start v x) = Some x)"
    by (auto simp: entity_parts VisitStart_def intro!: applies_mono [OF reverts_entities(1) [OF n]] split: module_field.splits)
qed

section \<open>The round trip\<close>

lemma visited_all: "list_all2 (visited n 7) xs ys \<Longrightarrow> all_some (resolve_field n) ys = Some xs"
proof (induction xs ys rule: list_all2_induct)
  case (Cons x xs y ys)
  have "resolve_field n y = Some x"
  proof (cases "loop_of x < 7")
    case False
    with Cons.hyps(1) have "y = x" "\<not> loop_of x < 7" by (simp_all add: visited_def)
    then show ?thesis by (cases x) (simp_all split: import_desc.splits)
  qed (use Cons.hyps(1) in \<open>simp add: visited_def\<close>)
  with Cons.IH show ?case by (simp add: pair_Some)
qed simp

lemma applies_fields:
  assumes n: "names_bound m n" and xs: "list_all indexed_field xs"
  shows "applies None []
     (and_write (rewrite_parts the_func put_func (VisitFunc_na m) xs) id (\<lambda>fs.
      and_write (rewrite_parts the_global put_global (VisitGlobal_na m) fs) id (\<lambda>fs.
      and_write (rewrite_parts the_tag put_tag (VisitTag_na m) fs) id (\<lambda>fs.
      and_write (rewrite_parts the_export put_export (VisitExport_na m) fs) id (\<lambda>fs.
      and_write (rewrite_parts the_elem put_elem (VisitElemSegment_na m) fs) id (\<lambda>fs.
      and_write (rewrite_parts the_data put_data (VisitDataSegment_na m) fs) id (\<lambda>fs.
      rewrite_parts the_start put_start (VisitStart m) fs))))))) [] (list_all2 (visited n 7) xs)"
proof -
  have start: "list_all2 (visited n 0) xs xs"
    using xs by (auto simp: list_all2_conv_all_nth visited_def list_all_length)
  have parts: "list_all2 (visited n j) xs ys \<Longrightarrow> j = k \<Longrightarrow>
      applies None [] (rewrite_parts get put act ys) [] (list_all2 (visited n (Suc k)) xs)"
    if "(\<forall>x. get x \<noteq> None \<longleftrightarrow> loop_of x = k) \<and> (\<forall>x a b. get x = Some a \<longrightarrow> loop_of (put b x) = loop_of x)"
      "\<forall>x a. indexed_field x \<longrightarrow> get x = Some a \<longrightarrow>
        applies None [] (act a) [] (\<lambda>b. resolve_field n (put b x) = Some x)"
    for j k ys get and put :: "'a \<Rightarrow> module_field \<Rightarrow> module_field" and act
    using applies_parts [OF that] by simp
  show ?thesis
    apply (rule applies_and_write, rule parts [OF loop_parts(1) reverts_parts(1) [OF n] start], simp)
    apply (rule applies_and_write, erule parts [OF loop_parts(2) reverts_parts(2) [OF n]], simp)
    apply (rule applies_and_write, erule parts [OF loop_parts(3) reverts_parts(3) [OF n]], simp)
    apply (rule applies_and_write, erule parts [OF loop_parts(4) reverts_parts(4) [OF n]], simp)
    apply (rule applies_and_write, erule parts [OF loop_parts(5) reverts_parts(5) [OF n]], simp)
    apply (rule applies_and_write, erule parts [OF loop_parts(6) reverts_parts(6) [OF n]], simp)
    apply (rule applies_mono, erule parts [OF loop_parts(7) reverts_parts(7) [OF n]], simp)
    by (simp add: numeral_eq_Suc)
qed

lemma ApplyNames_reverts:
  assumes m: "aliased m" "names_bound m m" "names_distinct m" "list_all indexed_field (fields_of m)"
    and run: "ApplyNames m = (Ok, m')"
  shows "resolve_module m' = Some m"
proof -
  let ?M = "and_write (rewrite_parts the_func put_func (VisitFunc_na m) (fields_of m)) id (\<lambda>fs.
      and_write (rewrite_parts the_global put_global (VisitGlobal_na m) fs) id (\<lambda>fs.
      and_write (rewrite_parts the_tag put_tag (VisitTag_na m) fs) id (\<lambda>fs.
      and_write (rewrite_parts the_export put_export (VisitExport_na m) fs) id (\<lambda>fs.
      and_write (rewrite_parts the_elem put_elem (VisitElemSegment_na m) fs) id (\<lambda>fs.
      and_write (rewrite_parts the_data put_data (VisitDataSegment_na m) fs) id (\<lambda>fs.
      rewrite_parts the_start put_start (VisitStart m) fs))))))"
  obtain fs s where M: "run_state ?M NameApplier = ((Ok, fs), s)" and m': "m' = from_fields fs m"
  proof -
    obtain r fs s where "run_state ?M NameApplier = ((r, fs), s)" by (metis surj_pair)
    with run show thesis
      by (intro that [of fs s]) (simp_all only: ApplyNames_def VisitModule_na_def run_writes Let_def
        split_conv fst_conv prod.inject)
  qed
  have bind: "names_bound m m'" "names_distinct m'"
    using m(2,3) by (simp_all add: m' names_bound_def names_distinct_def from_fields_def)
  have "in_context None [] NameApplier" by (simp add: in_context_def NameApplier_def)
  then have "list_all2 (visited m' 7) (fields_of m) fs"
    using applies_fields [OF bind(1) m(4)] M unfolding applies_def by blast
  from visited_all [OF this] bind(2) show ?thesis
    using m(1) by (simp add: resolve_module_def m' aliased_def)
qed


section \<open>Examples\<close>

definition one_func :: "expr list \<Rightarrow> module" where
  "one_func es = AppendFields
     [FuncField (func.make [102] (func_declaration.make False (VIndex kInvalidIndex) (func_signature.make [I32] []))
        [] [([120], 0)] es), StartField (VIndex 0)] empty_module"

definition index_body :: "expr list" where
  "index_body = [BlockExprBase BlockT (Block [98] no_decl
     [VarExpr LocalGetT (VIndex 0), VarExpr CallT (VIndex 0), VarExpr BrT (VIndex 0), VarExpr BrT (VIndex 1)])]"

definition name_body :: "expr list" where
  "name_body = [BlockExprBase BlockT (Block [98] no_decl
     [VarExpr LocalGetT (VName [120]), VarExpr CallT (VName [102]), VarExpr BrT (VName [98]), VarExpr BrT (VIndex 1)])]"

lemma one_func_run: "ApplyNames (one_func index_body) =
    (Ok, from_fields
       [FuncField (func.make [102] (func_declaration.make False (VIndex kInvalidIndex) (func_signature.make [I32] []))
          [] [([120], 0)] name_body), StartField (VName [102])] (one_func index_body))"
  by code_simp


text \<open>
  Without the condition on labels the pass changes the meaning of a branch: of two nested blocks
  with one label, a branch to the outer gets that label, which then means the inner.
\<close>

lemma shadowed_label_captured:
  "(case ApplyNames (one_func [BlockExprBase BlockT (Block [98] no_decl
       [BlockExprBase BlockT (Block [98] no_decl [VarExpr BrT (VIndex 1)])])]) of
      (r, m) \<Rightarrow> (r, ResolveNamesModule m)) =
   (Ok, Ok, one_func [BlockExprBase BlockT (Block [98] no_decl
       [BlockExprBase BlockT (Block [98] no_decl [VarExpr BrT (VIndex 0)])])], [])"
  by code_simp

end
