(* ===== verification/Generate_Names_Facts.thy ===== *)
theory Generate_Names_Facts
  imports Generate_Names Apply_Names_Facts
begin

text \<open>
  The pass that makes up names names everything, binds each name to the entity that has it, and
  changes nothing but names and labels. With the passes that apply and resolve names it is the way
  of a module through its text: the indices come back.
\<close>

section \<open>Fresh names\<close>

text \<open>An entity with the index \<open>i\<close> and the name \<open>old\<close> takes the name \<open>nm\<close>: its own, or one that was free.\<close>

definition takes :: "binding_hash \<Rightarrow> index \<Rightarrow> name \<Rightarrow> name \<times> binding_hash \<Rightarrow> bool" where
  "takes hash i old p \<longleftrightarrow> (case p of (nm, hash') \<Rightarrow>
     if old \<noteq> [] then nm = old \<and> hash' = hash
     else nm \<noteq> [] \<and> nm \<notin> fst ` set hash \<and> hash' = hash @ [(nm, i)])"

lemma IndexToAlphaName_not_Nil [simp]: "IndexToAlphaName i \<noteq> []"
  by (subst IndexToAlphaName.simps) simp

lemma GenerateName_not_Nil [simp]: "GenerateName opts pre i d \<noteq> []"
  by (simp add: GenerateName_def Let_def)

lemma free_name_fresh: "free_name opts pre i hash d \<noteq> [] \<and> free_name opts pre i hash d \<notin> fst ` set hash"
proof (induction opts pre i hash d rule: free_name.induct)
  case (1 opts pre i hash d)
  then show ?case
    by (subst (1 2) free_name.simps) (auto simp: Let_def map_of_eq_None_iff)
qed

lemma takes_names:
  "takes hash i str (MaybeGenerateAndBindName opts hash pre i str)"
  "takes hash i str (MaybeUseAndBindName opts hash pre i str)"
  by (auto simp: takes_def MaybeGenerateAndBindName_def MaybeUseAndBindName_def GenerateAndBindName_def
    HasName_def Let_def emplace_def free_name_fresh [THEN conjunct1] free_name_fresh [THEN conjunct2])

text \<open>The bindings of a kind: every name once, and each entity under its name.\<close>

definition good :: "('a \<Rightarrow> name) \<Rightarrow> 'a list \<Rightarrow> binding_hash \<Rightarrow> bool" where
  "good name_of xs hash \<longleftrightarrow> bound name_of xs hash \<and> distinct (map fst hash)"

lemma good_takes:
  assumes good: "good name_of (xs @ x # ys) hash" and takes: "takes hash (of_nat (length xs)) (name_of x) (nm, hash')"
    and x': "name_of x' = nm"
  shows "good name_of (xs @ x' # ys) hash'" "nm \<noteq> []"
proof -
  let ?zs = "xs @ x # ys" and ?zs' = "xs @ x' # ys"
  have other: "?zs' ! i = ?zs ! i" if "i \<noteq> length xs" for i
    using that by (auto simp: nth_append nth_Cons split: nat.splits)
  have "map_of hash' (name_of (?zs' ! i)) = Some (of_nat i)"
    if i: "i < length ?zs'" "name_of (?zs' ! i) \<noteq> []" for i
  proof (cases "i = length xs")
    case True
    with good takes x' i show ?thesis
      by (cases "name_of x = []") (auto simp: takes_def good_def bound_def map_of_append map_add_def map_of_eq_None_iff
        image_iff dest: spec [of _ "length xs"] split: option.splits)
  next
    case False
    from good i other [OF False] have "map_of hash (name_of (?zs ! i)) = Some (of_nat i)"
      by (simp add: good_def bound_def)
    with takes other [OF False] show ?thesis
      by (auto simp: takes_def map_add_def split: if_splits option.splits)
  qed
  with good takes show "good name_of ?zs' hash'"
    by (auto simp: good_def bound_def takes_def split: if_splits)
  from takes show "nm \<noteq> []" by (auto simp: takes_def split: if_splits)
qed

section \<open>Locals\<close>

lemma reverse_mapping_length [simp]: "length (MakeTypeBindingReverseMapping n b) = n"
proof -
  have "length (fold (\<lambda>(nm, i) names. names[unat i := nm]) b xs) = length xs" for xs
    by (induction b arbitrary: xs) (auto split: prod.splits)
  then show ?thesis by (simp add: MakeTypeBindingReverseMapping_def)
qed

lemma reverse_mapping_snoc:
  "MakeTypeBindingReverseMapping n (b @ [(nm, i)]) = (MakeTypeBindingReverseMapping n b)[unat i := nm]"
  by (simp add: MakeTypeBindingReverseMapping_def)

lemma bind_locals_names:
  assumes "n < 2 ^ 32" "names = drop i (MakeTypeBindingReverseMapping n b)" "distinct (map fst b)"
    "\<forall>j<i. j < n \<longrightarrow> MakeTypeBindingReverseMapping n b ! j \<noteq> []"
  shows "distinct (map fst (bind_locals opts np names i b)) \<and>
    list_all (\<lambda>nm. nm \<noteq> []) (MakeTypeBindingReverseMapping n (bind_locals opts np names i b))"
  using assms(2-)
proof (induction names arbitrary: i b)
  case Nil
  then have "n \<le> i" by simp
  with Nil show ?case by (auto simp: list_all_length)
next
  case (Cons nm names)
  let ?R = "MakeTypeBindingReverseMapping n"
  from Cons.prems(1) have i: "i < n" and nm: "?R b ! i = nm" and names: "names = drop (Suc i) (?R b)"
    by (metis drop_eq_Nil list.distinct(1) not_le reverse_mapping_length,
        metis nth_via_drop, metis drop_Suc drop_tl list.sel(3))
  show ?case
  proof (cases "nm = []")
    case False
    with Cons.IH [OF names Cons.prems(2)] Cons.prems(3) nm show ?thesis by (simp add: less_Suc_eq all_conj_distrib)
  next
    case True
    let ?new = "\<lambda>pre. free_name opts pre (of_nat i) b 0"
    have "distinct (map fst (bind_locals opts np names (Suc i) (b @ [(?new pre, of_nat i)]))) \<and>
        list_all (\<lambda>nm. nm \<noteq> []) (?R (bind_locals opts np names (Suc i) (b @ [(?new pre, of_nat i)])))" for pre
    proof (rule Cons.IH)
      have ui: "unat (of_nat i :: index) = i" using i assms(1) by (simp add: unsigned_of_nat take_bit_nat_eq_self)
      show "names = drop (Suc i) (?R (b @ [(?new pre, of_nat i)]))" using names by (simp add: reverse_mapping_snoc ui)
      show "distinct (map fst (b @ [(?new pre, of_nat i)]))"
        using Cons.prems(2) free_name_fresh [of opts pre "of_nat i" b 0] by simp
      show "\<forall>j<Suc i. j < n \<longrightarrow> ?R (b @ [(?new pre, of_nat i)]) ! j \<noteq> []"
        using Cons.prems(3) free_name_fresh [of opts pre "of_nat i" b 0]
        by (auto simp: reverse_mapping_snoc ui nth_list_update less_Suc_eq)
    qed
    with True show ?thesis by (simp add: GenerateAndBindName_def Let_def emplace_def)
  qed
qed

section \<open>Labels\<close>

text \<open>No block has a label; the number of blocks.\<close>

fun unlabelled_expr :: "expr \<Rightarrow> bool"
  and unlabelled_exprs :: "expr list \<Rightarrow> bool"
  and unlabelled_catches :: "catch list \<Rightarrow> bool"
where
  "unlabelled_expr (BlockExprBase k (Block l decl es)) \<longleftrightarrow> l = [] \<and> unlabelled_exprs es"
| "unlabelled_expr (IfExpr (Block l decl es) es') \<longleftrightarrow> l = [] \<and> unlabelled_exprs es \<and> unlabelled_exprs es'"
| "unlabelled_expr (TryExpr kind (Block l decl es) cs t) \<longleftrightarrow>
     l = [] \<and> unlabelled_exprs es \<and> (kind = TryCatch \<longrightarrow> unlabelled_catches cs) \<and> (kind \<noteq> TryCatch \<longrightarrow> cs = [])"
| "unlabelled_expr e = True"
| "unlabelled_exprs [] = True"
| "unlabelled_exprs (e # es) \<longleftrightarrow> unlabelled_expr e \<and> unlabelled_exprs es"
| "unlabelled_catches [] = True"
| "unlabelled_catches (Catch v es # cs) \<longleftrightarrow> unlabelled_exprs es \<and> unlabelled_catches cs"

fun blocks_expr :: "expr \<Rightarrow> nat" and blocks_exprs :: "expr list \<Rightarrow> nat" and blocks_catches :: "catch list \<Rightarrow> nat"
where
  "blocks_expr (BlockExprBase k (Block l decl es)) = Suc (blocks_exprs es)"
| "blocks_expr (IfExpr (Block l decl es) es') = Suc (blocks_exprs es + blocks_exprs es')"
| "blocks_expr (TryExpr kind (Block l decl es) cs t) = Suc (blocks_exprs es + blocks_catches cs)"
| "blocks_expr e = 0"
| "blocks_exprs [] = 0"
| "blocks_exprs (e # es) = blocks_expr e + blocks_exprs es"
| "blocks_catches [] = 0"
| "blocks_catches (Catch v es # cs) = blocks_exprs es + blocks_catches cs"

text \<open>An expression without its labels.\<close>

fun erase_expr :: "expr \<Rightarrow> expr" and erase_exprs :: "expr list \<Rightarrow> expr list" and erase_catches :: "catch list \<Rightarrow> catch list"
where
  "erase_expr (BlockExprBase k (Block l decl es)) = BlockExprBase k (Block [] decl (erase_exprs es))"
| "erase_expr (IfExpr (Block l decl es) es') = IfExpr (Block [] decl (erase_exprs es)) (erase_exprs es')"
| "erase_expr (TryExpr kind (Block l decl es) cs t) =
     TryExpr kind (Block [] decl (erase_exprs es)) (erase_catches cs) t"
| "erase_expr e = e"
| "erase_exprs [] = []"
| "erase_exprs (e # es) = erase_expr e # erase_exprs es"
| "erase_catches [] = []"
| "erase_catches (Catch v es # cs) = Catch v (erase_exprs es) # erase_catches cs"

lemma IndexToAlphaName_inject: "IndexToAlphaName i = IndexToAlphaName j \<longleftrightarrow> i = j"
proof
  show "IndexToAlphaName i = IndexToAlphaName j \<Longrightarrow> i = j"
  proof (induction i arbitrary: j rule: IndexToAlphaName.induct)
    case (1 i)
    have split: "unat i = 26 * (unat i div 26) + unat i mod 26" "unat j = 26 * (unat j div 26) + unat j mod 26"
      by simp_all
    have less: "unat x mod 26 < 26" for x :: index by simp
    from "1.prems" have h: "(97 + ucast (i mod 26) :: u8) = 97 + ucast (j mod 26)"
      and t: "(i div 26 \<noteq> 0) = (j div 26 \<noteq> 0)" "i div 26 \<noteq> 0 \<Longrightarrow> IndexToAlphaName (i div 26 - 1) = IndexToAlphaName (j div 26 - 1)"
      by (subst (asm) (1 2) IndexToAlphaName.simps, auto split: if_splits)+
    from h have "unat (ucast (i mod 26) :: u8) = unat (ucast (j mod 26) :: u8)" by simp
    then have "unat i mod 26 = unat j mod 26"
      using less [of i] less [of j]
      by (simp add: unsigned_ucast_eq unsigned_take_bit_eq unat_mod take_bit_nat_eq_self)
    moreover have "i div 26 = j div 26"
      using t "1.IH" [of "j div 26 - 1"] by (cases "i div 26 = 0") auto
    from arg_cong [OF this, of unat] have "unat i div 26 = unat j div 26" by (simp add: unat_div)
    ultimately show ?case using split by (metis word_unat_eq_iff)
  qed
qed simp

lemma label_names_inject:
  assumes "GenerateName opts (label_prefix c) (of_nat i) 0 = GenerateName opts (label_prefix c') (of_nat j) 0"
    "i < 2 ^ 32" "j < 2 ^ 32"
  shows "i = j"
proof -
  have of_nat: "(of_nat i :: index) = of_nat j \<longleftrightarrow> i = j"
    using assms(2,3) by (simp add: word_of_nat_eq_iff take_bit_nat_eq_self)
  have "unat (of_nat i :: index) = i" "unat (of_nat j :: index) = j"
    using assms(2,3) by (simp_all add: unsigned_of_nat take_bit_nat_eq_self)
  with assms(1) of_nat show ?thesis
    by (cases c; cases c')
      (auto simp: GenerateName_def Let_def c_str_def ascii_def IndexToAlphaName_inject decimal_inject split: if_splits)
qed

text \<open>The labels made before the block number \<open>n\<close> of a function.\<close>

definition made :: "u32 \<Rightarrow> nat \<Rightarrow> name set" where
  "made opts n = {GenerateName opts (label_prefix c) (of_nat k) 0 | c k. k < n}"

lemma made_fresh: "n < 2 ^ 32 \<Longrightarrow> GenerateName opts (label_prefix c) (of_nat n) 0 \<notin> made opts n"
  by (auto simp: made_def dest: label_names_inject)

lemma made_Suc: "made opts n \<subseteq> made opts (Suc n)" "GenerateName opts (label_prefix c) (of_nat n) 0 \<in> made opts (Suc n)"
  by (auto simp: made_def less_Suc_eq)

lemma made_mono: "m \<le> n \<Longrightarrow> made opts m \<subseteq> made opts n"
  unfolding made_def by (blast intro: less_le_trans)

lemma made_scope:
  assumes "apart L" "set L \<subseteq> made opts n" "n < 2 ^ 32"
  shows "apart (GenerateName opts (label_prefix c) (of_nat n) 0 # L)"
    "set (GenerateName opts (label_prefix c) (of_nat n) 0 # L) \<subseteq> made opts (Suc n)"
  using assms made_fresh [of n opts c] made_Suc(1) [of opts n] made_Suc(2) [of opts c n] by auto

lemma generator_simps [simp]:
  "rw_expr (generator opts) e = State_Monad.return (Ok, e)"
  "rw_begin (generator opts) c b = is_ok (BeginExpr_ng opts c b)"
  "rw_end (generator opts) c = State_Monad.return Ok"
  "rw_catch (generator opts) v = State_Monad.return (Ok, v)"
  "rw_delegate (generator opts) v = State_Monad.return (Ok, v)"
  by (simp_all add: generator_def)

lemma run_begin [simp]:
  "run_state (is_ok (BeginExpr_ng opts c ([], decl))) s =
     ((Ok, GenerateName opts (label_prefix c) (label_count s) 0, decl), s\<lparr>label_count := label_count s + 1\<rparr>)"
  by (simp add: is_ok_def BeginExpr_ng_def MaybeGenerateName_def HasName_def)

abbreviation labelled :: "(name_generator, result \<times> 'a) state \<Rightarrow> nat \<Rightarrow> nat \<Rightarrow> name_generator \<Rightarrow> ('a \<Rightarrow> bool) \<Rightarrow> bool" where
  "labelled M n k s Q \<equiv>
     (\<exists>y. run_state M (s\<lparr>label_count := of_nat n\<rparr>) = ((Ok, y), s\<lparr>label_count := of_nat (n + k)\<rparr>) \<and> Q y)"

lemma labelled_tree:
  fixes e :: expr and es :: "expr list" and cs :: "catch list"
  shows
  "unlabelled_expr e \<Longrightarrow> indexed_expr L0 e \<Longrightarrow> apart L \<Longrightarrow> set L \<subseteq> made opts n \<Longrightarrow> n + blocks_expr e \<le> 2 ^ 32 \<Longrightarrow>
     labelled (rewrite_expr (generator opts) e) n (blocks_expr e) s
       (\<lambda>y. indexed_expr L y \<and> erase_expr y = erase_expr e)"
  "unlabelled_exprs es \<Longrightarrow> indexed_exprs L0 es \<Longrightarrow> apart L \<Longrightarrow> set L \<subseteq> made opts n \<Longrightarrow> n + blocks_exprs es \<le> 2 ^ 32 \<Longrightarrow>
     labelled (rewrite_exprs (generator opts) es) n (blocks_exprs es) s
       (\<lambda>y. indexed_exprs L y \<and> erase_exprs y = erase_exprs es)"
  "unlabelled_catches cs \<Longrightarrow> indexed_catches L0 cs \<Longrightarrow> apart L \<Longrightarrow> set L \<subseteq> made opts n \<Longrightarrow> n + blocks_catches cs \<le> 2 ^ 32 \<Longrightarrow>
     labelled (rewrite_catches (generator opts) cs) n (blocks_catches cs) s
       (\<lambda>y. indexed_catches L y \<and> erase_catches y = erase_catches cs)"
proof (induction "generator opts" e and "generator opts" es and "generator opts" cs
    arbitrary: L0 L n and L0 L n and L0 L n rule: rewrite_expr_rewrite_exprs_rewrite_catches.induct)
  case (1 k l decl es)
  let ?l = "GenerateName opts (label_prefix (construct_of k)) (of_nat n) 0"
  from 1(6) have n: "n < 2 ^ 32" "Suc n + blocks_exprs es \<le> 2 ^ 32" by simp_all
  have "labelled (rewrite_exprs (generator opts) es) (Suc n) (blocks_exprs es) s
      (\<lambda>y. indexed_exprs (?l # L) y \<and> erase_exprs y = erase_exprs es)"
    using 1(2,3) by (intro 1(1) [of "l # L0"] made_scope 1(4,5) n) simp_all
  then obtain y where y: "run_state (rewrite_exprs (generator opts) es) (s\<lparr>label_count := of_nat (Suc n)\<rparr>) =
      ((Ok, y), s\<lparr>label_count := of_nat (Suc n + blocks_exprs es)\<rparr>)"
      "indexed_exprs (?l # L) y" "erase_exprs y = erase_exprs es" by blast
  with 1(2,3) made_scope(1) [OF 1(4,5) n(1)] show ?case
    by (intro exI [of _ "BlockExprBase k (Block ?l decl y)"]) (simp add: add.commute)
next
  case (2 l decl es es')
  let ?l = "GenerateName opts (label_prefix CIf) (of_nat n) 0"
  from 2(7) have n: "n < 2 ^ 32" "Suc n + blocks_exprs es \<le> 2 ^ 32" "Suc n + blocks_exprs es + blocks_exprs es' \<le> 2 ^ 32"
    by simp_all
  note L = made_scope [OF 2(5,6) n(1), of CIf]
  have L': "set (?l # L) \<subseteq> made opts (Suc n + blocks_exprs es)"
    using L(2) made_mono [of "Suc n" "Suc n + blocks_exprs es" opts] by (simp only: le_add1) blast
  have "labelled (rewrite_exprs (generator opts) es) (Suc n) (blocks_exprs es) s
      (\<lambda>y. indexed_exprs (?l # L) y \<and> erase_exprs y = erase_exprs es)"
    using 2(3,4) by (intro 2(1) [of "l # L0"] L n) simp_all
  then obtain y where y: "run_state (rewrite_exprs (generator opts) es) (s\<lparr>label_count := of_nat (Suc n)\<rparr>) =
      ((Ok, y), s\<lparr>label_count := of_nat (Suc n + blocks_exprs es)\<rparr>)"
      "indexed_exprs (?l # L) y" "erase_exprs y = erase_exprs es" by blast
  have "labelled (rewrite_exprs (generator opts) es') (Suc n + blocks_exprs es) (blocks_exprs es') s
      (\<lambda>y. indexed_exprs (?l # L) y \<and> erase_exprs y = erase_exprs es')"
    using 2(3,4) by (intro 2(2) [of "l # L0"] L L' n) simp_all
  then obtain z where z: "run_state (rewrite_exprs (generator opts) es') (s\<lparr>label_count := of_nat (Suc n + blocks_exprs es)\<rparr>) =
      ((Ok, z), s\<lparr>label_count := of_nat (Suc n + blocks_exprs es + blocks_exprs es')\<rparr>)"
      "indexed_exprs (?l # L) z" "erase_exprs z = erase_exprs es'" by blast
  from y z 2(3,4) L(1) show ?case
    by (intro exI [of _ "IfExpr (Block ?l decl y) z"]) (simp add: add.commute add.left_commute)
next
  case (3 kind l decl es cs t)
  let ?l = "GenerateName opts (label_prefix CTry) (of_nat n) 0"
  from 3(7) have n: "n < 2 ^ 32" "Suc n + blocks_exprs es \<le> 2 ^ 32" "Suc n + blocks_exprs es + blocks_catches cs \<le> 2 ^ 32"
    by simp_all
  note L = made_scope [OF 3(5,6) n(1), of CTry]
  have L': "set (?l # L) \<subseteq> made opts (Suc n + blocks_exprs es)"
    using L(2) made_mono [of "Suc n" "Suc n + blocks_exprs es" opts] by (simp only: le_add1) blast
  have "labelled (rewrite_exprs (generator opts) es) (Suc n) (blocks_exprs es) s
      (\<lambda>y. indexed_exprs (?l # L) y \<and> erase_exprs y = erase_exprs es)"
    using 3(3,4) by (intro 3(1) [of "l # L0"] L n) simp_all
  then obtain y where y: "run_state (rewrite_exprs (generator opts) es) (s\<lparr>label_count := of_nat (Suc n)\<rparr>) =
      ((Ok, y), s\<lparr>label_count := of_nat (Suc n + blocks_exprs es)\<rparr>)"
      "indexed_exprs (?l # L) y" "erase_exprs y = erase_exprs es" by blast
  show ?case
  proof (cases "kind = TryCatch")
    case True
    have "labelled (rewrite_catches (generator opts) cs) (Suc n + blocks_exprs es) (blocks_catches cs) s
        (\<lambda>y. indexed_catches (?l # L) y \<and> erase_catches y = erase_catches cs)"
      using 3(3,4) True by (intro 3(2) [of "l # L0"] L L' n) simp_all
    then obtain z where z: "run_state (rewrite_catches (generator opts) cs) (s\<lparr>label_count := of_nat (Suc n + blocks_exprs es)\<rparr>) =
      ((Ok, z), s\<lparr>label_count := of_nat (Suc n + blocks_exprs es + blocks_catches cs)\<rparr>)"
      "indexed_catches (?l # L) z" "erase_catches z = erase_catches cs" by blast
    from y z 3(3,4) L(1) True show ?thesis
      by (intro exI [of _ "TryExpr kind (Block ?l decl y) z t"]) (simp add: add.commute add.left_commute)
  next
    case False
    with 3(3) have "cs = []" by simp
    with y 3(3,4) L(1) False show ?thesis
      by (intro exI [of _ "TryExpr kind (Block ?l decl y) cs t"]) (cases kind; simp add: add.commute)
  qed
next
  case (6 e es)
  from 6(7) have n: "n + blocks_expr e \<le> 2 ^ 32" "(n + blocks_expr e) + blocks_exprs es \<le> 2 ^ 32" by simp_all
  have L: "set L \<subseteq> made opts (n + blocks_expr e)" using 6(6) made_mono [of n "n + blocks_expr e" opts] by (simp only: le_add1) blast
  have "labelled (rewrite_expr (generator opts) e) n (blocks_expr e) s
      (\<lambda>y. indexed_expr L y \<and> erase_expr y = erase_expr e)"
    using 6(3,4) by (intro 6(1) [of L0] 6(5,6) n) simp_all
  then obtain y where y: "run_state (rewrite_expr (generator opts) e) (s\<lparr>label_count := of_nat (n)\<rparr>) =
      ((Ok, y), s\<lparr>label_count := of_nat (n + blocks_expr e)\<rparr>)"
      "indexed_expr (L) y" "erase_expr y = erase_expr e" by blast
  have "labelled (rewrite_exprs (generator opts) es) (n + blocks_expr e) (blocks_exprs es) s
      (\<lambda>y. indexed_exprs L y \<and> erase_exprs y = erase_exprs es)"
    using 6(3,4) by (intro 6(2) [of L0] 6(5) L n) simp_all
  then obtain z where z: "run_state (rewrite_exprs (generator opts) es) (s\<lparr>label_count := of_nat (n + blocks_expr e)\<rparr>) =
      ((Ok, z), s\<lparr>label_count := of_nat (n + blocks_expr e + blocks_exprs es)\<rparr>)"
      "indexed_exprs (L) z" "erase_exprs z = erase_exprs es" by blast
  from y z show ?case by (intro exI [of _ "y # z"]) (simp add: add.assoc)
next
  case (8 v es cs)
  from 8(7) have n: "n + blocks_exprs es \<le> 2 ^ 32" "(n + blocks_exprs es) + blocks_catches cs \<le> 2 ^ 32" by simp_all
  have L: "set L \<subseteq> made opts (n + blocks_exprs es)" using 8(6) made_mono [of n "n + blocks_exprs es" opts] by (simp only: le_add1) blast
  have "labelled (rewrite_exprs (generator opts) es) n (blocks_exprs es) s
      (\<lambda>y. indexed_exprs L y \<and> erase_exprs y = erase_exprs es)"
    using 8(3,4) by (intro 8(1) [of L0] 8(5,6) n) simp_all
  then obtain y where y: "run_state (rewrite_exprs (generator opts) es) (s\<lparr>label_count := of_nat (n)\<rparr>) =
      ((Ok, y), s\<lparr>label_count := of_nat (n + blocks_exprs es)\<rparr>)"
      "indexed_exprs (L) y" "erase_exprs y = erase_exprs es" by blast
  have "labelled (rewrite_catches (generator opts) cs) (n + blocks_exprs es) (blocks_catches cs) s
      (\<lambda>y. indexed_catches L y \<and> erase_catches y = erase_catches cs)"
    using 8(3,4) by (intro 8(2) [of L0] 8(5) L n) simp_all
  then obtain z where z: "run_state (rewrite_catches (generator opts) cs) (s\<lparr>label_count := of_nat (n + blocks_exprs es)\<rparr>) =
      ((Ok, z), s\<lparr>label_count := of_nat (n + blocks_exprs es + blocks_catches cs)\<rparr>)"
      "indexed_catches (L) z" "erase_catches z = erase_catches cs" by blast
  from y z 8(4) show ?case by (intro exI [of _ "Catch v y # z"]) (simp add: add.assoc)
qed simp_all

section \<open>Kinds of entities\<close>

datatype entity_kind = GlobalE | TypeE | FuncE | TableE | MemoryE | TagE | DataE | ElemE

text \<open>The kind and the name of the entity that a field holds.\<close>

fun kind_name :: "module_field \<Rightarrow> (entity_kind \<times> name) option" where
  "kind_name (FuncField f) = Some (FuncE, func_name f)"
| "kind_name (GlobalField g) = Some (GlobalE, global_name g)"
| "kind_name (TypeField t) = Some (TypeE, entry_name t)"
| "kind_name (TableField t) = Some (TableE, table_name t)"
| "kind_name (MemoryField x) = Some (MemoryE, memory_name x)"
| "kind_name (TagField t) = Some (TagE, tag_name t)"
| "kind_name (DataSegmentField d) = Some (DataE, data_name d)"
| "kind_name (ElemSegmentField e) = Some (ElemE, elem_name e)"
| "kind_name (ImportField i) = (case import_desc i of
     FuncImport f \<Rightarrow> Some (FuncE, func_name f)
   | GlobalImport g \<Rightarrow> Some (GlobalE, global_name g)
   | TableImport t \<Rightarrow> Some (TableE, table_name t)
   | MemoryImport x \<Rightarrow> Some (MemoryE, memory_name x)
   | TagImport t \<Rightarrow> Some (TagE, tag_name t))"
| "kind_name x = None"

definition names_of :: "entity_kind \<Rightarrow> module_field list \<Rightarrow> name list" where
  "names_of k fs = map snd (filter (\<lambda>p. fst p = k) (List.map_filter kind_name fs))"

lemma names_of_simps [simp]:
  "names_of k [] = []"
  "names_of k (x # fs) = (case kind_name x of
     Some (k', nm) \<Rightarrow> if k' = k then nm # names_of k fs else names_of k fs
   | None \<Rightarrow> names_of k fs)"
  by (simp_all add: names_of_def List.map_filter_simps split: option.splits prod.splits)

lemma names_of_append: "names_of k (fs @ gs) = names_of k fs @ names_of k gs"
  by (induction fs) (auto split: option.splits prod.splits)

primrec bindings_of :: "entity_kind \<Rightarrow> module \<Rightarrow> binding_hash" where
  "bindings_of GlobalE m = global_bindings m"
| "bindings_of TypeE m = type_bindings m"
| "bindings_of FuncE m = func_bindings m"
| "bindings_of TableE m = table_bindings m"
| "bindings_of MemoryE m = memory_bindings m"
| "bindings_of TagE m = tag_bindings m"
| "bindings_of DataE m = data_segment_bindings m"
| "bindings_of ElemE m = elem_segment_bindings m"

text \<open>Of every kind the names of the entities are bound to them, and every name is bound once.\<close>

definition well_named :: "module_field list \<Rightarrow> module \<Rightarrow> bool" where
  "well_named fs m \<longleftrightarrow> (\<forall>k. good id (names_of k fs) (bindings_of k m))"

text \<open>The modules \<open>m'\<close> and \<open>m\<close> differ in the bindings of the kind \<open>k\<close>, which are \<open>hash\<close> in \<open>m'\<close>.\<close>

definition rebinds :: "entity_kind \<Rightarrow> binding_hash \<Rightarrow> module \<Rightarrow> module \<Rightarrow> bool" where
  "rebinds k hash m m' \<longleftrightarrow> fields_of m' = fields_of m \<and>
     (\<forall>k'. bindings_of k' m' = (if k' = k then hash else bindings_of k' m))"

lemma well_named_takes:
  assumes "well_named (pre @ x # post) m" "kind_name x = Some (k, old)"
    "takes (bindings_of k m) (of_nat (length (names_of k pre))) old (nm, hash)"
    "kind_name y = Some (k, nm)" "rebinds k hash m m'"
  shows "well_named (pre @ y # post) m'" "nm \<noteq> []"
proof -
  have good: "good id (names_of k' (pre @ x # post)) (bindings_of k' m)" for k'
    using assms(1) by (simp add: well_named_def)
  from good [of k] assms(2) have k: "good id (names_of k pre @ old # names_of k post) (bindings_of k m)"
    by (simp add: names_of_append)
  have "good id (names_of k' (pre @ y # post)) (bindings_of k' m')" for k'
  proof (cases "k' = k")
    case True
    with good_takes(1) [OF k, of nm hash nm] assms show ?thesis by (simp add: rebinds_def names_of_append)
  next
    case False
    with good [of k'] assms show ?thesis by (simp add: rebinds_def names_of_append)
  qed
  then show "well_named (pre @ y # post) m'" by (simp add: well_named_def)
  show "nm \<noteq> []" using good_takes(2) [OF k, of nm hash nm] assms(3) by simp
qed

section \<open>What the pass keeps\<close>

definition erase_func :: "func \<Rightarrow> func" where
  "erase_func f = f\<lparr>func_name := [], bindings := [], func_exprs := erase_exprs (func_exprs f)\<rparr>"

text \<open>A field without the names of its entity, its locals and its labels.\<close>

fun erase_field :: "module_field \<Rightarrow> module_field" where
  "erase_field (FuncField f) = FuncField (erase_func f)"
| "erase_field (GlobalField g) = GlobalField (g\<lparr>global_name := []\<rparr>)"
| "erase_field (TypeField t) = TypeField (rename_entry [] t)"
| "erase_field (TableField t) = TableField (t\<lparr>table_name := []\<rparr>)"
| "erase_field (MemoryField x) = MemoryField (x\<lparr>memory_name := []\<rparr>)"
| "erase_field (TagField t) = TagField (t\<lparr>tag_name := []\<rparr>)"
| "erase_field (DataSegmentField d) = DataSegmentField (d\<lparr>data_name := []\<rparr>)"
| "erase_field (ElemSegmentField e) = ElemSegmentField (e\<lparr>elem_name := []\<rparr>)"
| "erase_field (ImportField i) = ImportField (i\<lparr>import_desc := (case import_desc i of
     FuncImport f \<Rightarrow> FuncImport (erase_func f)
   | GlobalImport g \<Rightarrow> GlobalImport (g\<lparr>global_name := []\<rparr>)
   | TableImport t \<Rightarrow> TableImport (t\<lparr>table_name := []\<rparr>)
   | MemoryImport x \<Rightarrow> MemoryImport (x\<lparr>memory_name := []\<rparr>)
   | TagImport t \<Rightarrow> TagImport (t\<lparr>tag_name := []\<rparr>))\<rparr>)"
| "erase_field x = x"

text \<open>All variables are indices, and no block has a label.\<close>

definition unlabelled_func :: "func \<Rightarrow> bool" where
  "unlabelled_func f \<longleftrightarrow> unlabelled_exprs (func_exprs f) \<and> blocks_exprs (func_exprs f) \<le> 2 ^ 32"

definition bare_field :: "module_field \<Rightarrow> bool" where
  "bare_field x \<longleftrightarrow> indexed_field x \<and> (\<forall>f. the_func x = Some f \<longrightarrow> unlabelled_func f)"

text \<open>The entity of the field has a name, and so have the locals of a function.\<close>

definition named_field :: "module_field \<Rightarrow> bool" where
  "named_field x \<longleftrightarrow> (\<forall>k. kind_name x \<noteq> Some (k, [])) \<and>
     (\<forall>f. the_func x = Some f \<longrightarrow> list_all (\<lambda>nm. nm \<noteq> []) (local_names f))"

text \<open>The number of the loop of \<open>VisitAll\<close> that a field goes through.\<close>

primrec rank :: "entity_kind \<Rightarrow> nat" where
  "rank GlobalE = 0"
| "rank TypeE = 1"
| "rank FuncE = 2"
| "rank TableE = 3"
| "rank MemoryE = 4"
| "rank TagE = 5"
| "rank DataE = 6"
| "rank ElemE = 7"

lemma rank_inject: "rank k = rank k' \<longleftrightarrow> k = k'"
  by (cases k; cases k') simp_all

definition stage :: "nat \<Rightarrow> module_field \<Rightarrow> bool" where
  "stage n x \<longleftrightarrow> (case kind_name x of
     Some (k, nm) \<Rightarrow> if rank k < n then indexed_field x \<and> named_field x else bare_field x
   | None \<Rightarrow> bare_field x)"

lemma stage_Suc: "(\<And>nm. kind_name x \<noteq> Some (k, nm)) \<Longrightarrow> stage (Suc (rank k)) x = stage (rank k) x"
  by (auto simp: stage_def less_Suc_eq rank_inject split: option.splits)

lemma stage_all: "stage 8 x \<Longrightarrow> indexed_field x \<and> named_field x"
proof -
  assume x: "stage 8 x"
  have "rank k < 8" for k by (cases k) simp_all
  with x show ?thesis
    by (auto simp: stage_def bare_field_def named_field_def split: option.splits elim!: the_func.elims
      split: import_desc.splits)
qed

section \<open>The loops over the entities of a kind\<close>

definition keeps_names :: "nat \<Rightarrow> module_field list \<Rightarrow> name_generator \<Rightarrow> bool" where
  "keeps_names n E s \<longleftrightarrow> aliased (module_ng s) \<and> well_named (fields_of (module_ng s)) (module_ng s) \<and>
     list_all (stage n) (fields_of (module_ng s)) \<and> map erase_field (fields_of (module_ng s)) = E"

lemma bindings_of_from_fields [simp]: "bindings_of k (from_fields fs m) = bindings_of k m"
  by (cases k) (simp_all add: from_fields_def)

lemma well_named_from_fields [simp]: "well_named fs (from_fields gs m) = well_named fs m"
  by (simp add: well_named_def)

lemma part_split:
  "n < length (parts get fs) \<Longrightarrow> \<exists>pre x post. fs = pre @ x # post \<and> get x = Some (parts get fs ! n) \<and>
     length (parts get pre) = n \<and> (\<forall>g. update_part get put n g fs = pre @ put (g (parts get fs ! n)) x # post)"
proof (induction fs arbitrary: n)
  case (Cons f fs)
  show ?case
  proof (cases "get f")
    case None
    with Cons.IH [of n] Cons.prems obtain pre x post where
      "fs = pre @ x # post" "get x = Some (parts get fs ! n)" "length (parts get pre) = n"
      "\<forall>g. update_part get put n g fs = pre @ put (g (parts get fs ! n)) x # post" by auto
    with None show ?thesis by (intro exI [of _ "f # pre"] exI [of _ x] exI [of _ post]) simp
  next
    case (Some a)
    show ?thesis
    proof (cases n)
      case 0
      with Some show ?thesis by (intro exI [of _ "[]"] exI [of _ f] exI [of _ fs]) simp
    next
      case (Suc k)
      with Cons.IH [of k] Cons.prems Some obtain pre x post where
        "fs = pre @ x # post" "get x = Some (parts get fs ! k)" "length (parts get pre) = k"
        "\<forall>g. update_part get put k g fs = pre @ put (g (parts get fs ! k)) x # post" by auto
      with Some Suc show ?thesis by (intro exI [of _ "f # pre"] exI [of _ x] exI [of _ post]) simp
    qed
  qed
qed simp

text \<open>The entities of a kind: how they are found in fields, their names, and their bindings in a module.\<close>

locale named_kind = field_part get put
  for get :: "module_field \<Rightarrow> 'a option" and put :: "'a \<Rightarrow> module_field \<Rightarrow> module_field" +
  fixes k :: entity_kind and name_of :: "'a \<Rightarrow> name" and hash_of :: "module \<Rightarrow> binding_hash"
    and upd :: "(binding_hash \<Rightarrow> binding_hash) \<Rightarrow> module \<Rightarrow> module"
  assumes kind_get: "get x = Some a \<Longrightarrow> kind_name x = Some (k, name_of a)"
    and kind_None: "get x = None \<Longrightarrow> kind_name x \<noteq> Some (k, nm)"
    and kind_put: "get x = Some a \<Longrightarrow> kind_name (put b x) = Some (k, name_of b)"
    and hash_of: "hash_of m = bindings_of k m"
    and upd: "rebinds k h m (upd (\<lambda>h'. h) m)"
begin

lemma names_parts: "names_of k fs = map name_of (parts get fs)"
proof (induction fs)
  case (Cons x fs)
  have "\<forall>nm. kind_name x \<noteq> Some (k, nm)" if "get x = None" using kind_None [OF that] by blast
  with Cons kind_get [of x] show ?case by (cases "get x") (auto split: option.splits)
qed simp

lemma good_parts: "well_named fs m \<Longrightarrow> good name_of (parts get fs) (hash_of m)"
  by (auto simp: well_named_def good_def bound_def names_parts hash_of dest!: spec [of _ k])

text \<open>A step that gives the entity number \<open>i\<close> a name, and a field what it is to have after the loop.\<close>

definition names_entity :: "(index \<Rightarrow> 'a \<Rightarrow> (result \<times> 'a) ng) \<Rightarrow> bool" where
  "names_entity act \<longleftrightarrow> (\<forall>i a x s. get x = Some a \<longrightarrow> bare_field x \<longrightarrow>
     (\<exists>b s' h. run_state (act i a) s = ((Ok, b), s') \<and>
       takes (hash_of (module_ng s)) i (name_of a) (name_of b, h) \<and> rebinds k h (module_ng s) (module_ng s') \<and>
       (name_of b \<noteq> [] \<longrightarrow> indexed_field (put b x) \<and> named_field (put b x)) \<and>
       erase_field (put b x) = erase_field x))"

lemma on_bindings_takes:
  assumes "takes (hash_of (module_ng s)) i old (f (hash_of (module_ng s)))"
  shows "\<exists>nm h m. run_state (on_bindings hash_of upd f) s = (nm, s\<lparr>module_ng := m\<rparr>) \<and>
    takes (hash_of (module_ng s)) i old (nm, h) \<and> rebinds k h (module_ng s) m"
  using assms upd by (cases "f (hash_of (module_ng s))") (auto simp: on_bindings_def)

lemma numbered:
  assumes act: "names_entity act"
  shows "well_named (pre @ fs) (module_ng s) \<Longrightarrow> list_all (stage (rank k)) fs \<Longrightarrow>
    i = of_nat (length (parts get pre)) \<Longrightarrow>
    \<exists>fs' s'. run_state (rewrite_numbered get put act i fs) s = ((Ok, fs'), s') \<and>
      well_named (pre @ fs') (module_ng s') \<and> list_all (stage (Suc (rank k))) fs' \<and>
      map erase_field fs' = map erase_field fs"
proof (induction fs arbitrary: pre s i)
  case (Cons x fs)
  show ?case
  proof (cases "get x")
    case None
    from Cons.IH [of "pre @ [x]" s i] Cons.prems None obtain fs' s' where
      "run_state (rewrite_numbered get put act i fs) s = ((Ok, fs'), s')" "well_named (pre @ x # fs') (module_ng s')"
      "list_all (stage (Suc (rank k))) fs'" "map erase_field fs' = map erase_field fs"
      by (auto simp: parts_append)
    with None Cons.prems(2) stage_Suc [of x k] kind_None [OF None] show ?thesis by auto
  next
    case (Some a)
    from Cons.prems(2) have "bare_field x" by (simp add: stage_def kind_get [OF Some])
    with act Some obtain b s1 h where b: "run_state (act i a) s = ((Ok, b), s1)"
      "takes (hash_of (module_ng s)) i (name_of a) (name_of b, h)" "rebinds k h (module_ng s) (module_ng s1)"
      "name_of b \<noteq> [] \<Longrightarrow> indexed_field (put b x) \<and> named_field (put b x)"
      "erase_field (put b x) = erase_field x"
      unfolding names_entity_def by blast
    note kinds = kind_get [OF Some] kind_put [OF Some, of b]
    have "takes (bindings_of k (module_ng s)) (of_nat (length (names_of k pre))) (name_of a) (name_of b, h)"
      using b(2) by (simp add: hash_of names_parts Cons.prems(3))
    from well_named_takes [OF Cons.prems(1) kinds(1) this kinds(2) b(3)]
    have "well_named ((pre @ [put b x]) @ fs) (module_ng s1)" and "name_of b \<noteq> []" by simp_all
    with Cons.IH [of "pre @ [put b x]" s1 "i + 1"] Cons.prems Some obtain fs' s' where
      "run_state (rewrite_numbered get put act (i + 1) fs) s1 = ((Ok, fs'), s')"
      "well_named (pre @ put b x # fs') (module_ng s')"
      "list_all (stage (Suc (rank k))) fs'" "map erase_field fs' = map erase_field fs"
      by (auto simp: parts_append get_put [OF Some])
    moreover have "stage (Suc (rank k)) (put b x)" using b(4) \<open>name_of b \<noteq> []\<close> by (simp add: stage_def kinds(2))
    ultimately show ?thesis using Some b(1,5) by auto
  qed
qed simp

lemma visits_all:
  assumes "names_entity act" "keeps_names (rank k) E s"
  shows "\<exists>s'. run_state (VisitAll get put act) s = ((), s') \<and> keeps_names (Suc (rank k)) E s'"
proof -
  from assms(2) have "well_named ([] @ fields_of (module_ng s)) (module_ng s)"
    "list_all (stage (rank k)) (fields_of (module_ng s))" by (simp_all add: keeps_names_def)
  from numbered [OF assms(1) this, of 0] obtain fs s' where
    "run_state (rewrite_numbered get put act 0 (fields_of (module_ng s))) s = ((Ok, fs), s')"
    "well_named fs (module_ng s')" "list_all (stage (Suc (rank k))) fs"
    "map erase_field fs = map erase_field (fields_of (module_ng s))" by auto
  with assms(2) show ?thesis by (simp add: VisitAll_def set_fields_def keeps_names_def)
qed

lemma names_entity_renames:
  assumes name: "\<And>str a. name_of (ren str a) = str"
    and keep: "\<And>x a str. get x = Some a \<Longrightarrow> bare_field x \<Longrightarrow> str \<noteq> [] \<Longrightarrow>
      indexed_field (put (ren str a) x) \<and> named_field (put (ren str a) x)"
    and erase: "\<And>x a str. get x = Some a \<Longrightarrow> erase_field (put (ren str a) x) = erase_field x"
  shows "names_entity (\<lambda>i a. is_ok (change (\<lambda>str. ren str a)
    (on_bindings hash_of upd (\<lambda>hash. MaybeGenerateAndBindName opts hash pre i (name_of a)))))"
  unfolding names_entity_def
proof (intro allI impI)
  fix i a x s
  assume x: "get x = Some a" "bare_field x"
  from on_bindings_takes [where f = "\<lambda>hash. MaybeGenerateAndBindName opts hash pre i (name_of a)", OF takes_names(1)]
  obtain nm h m where "run_state (on_bindings hash_of upd (\<lambda>hash. MaybeGenerateAndBindName opts hash pre i (name_of a))) s =
      (nm, s\<lparr>module_ng := m\<rparr>)" "takes (hash_of (module_ng s)) i (name_of a) (nm, h)" "rebinds k h (module_ng s) m"
    by blast
  with keep [OF x] erase [OF x(1)] name show "\<exists>b s' h. run_state (is_ok (change (\<lambda>str. ren str a)
      (on_bindings hash_of upd (\<lambda>hash. MaybeGenerateAndBindName opts hash pre i (name_of a))))) s = ((Ok, b), s') \<and>
      takes (hash_of (module_ng s)) i (name_of a) (name_of b, h) \<and> rebinds k h (module_ng s) (module_ng s') \<and>
      (name_of b \<noteq> [] \<longrightarrow> indexed_field (put b x) \<and> named_field (put b x)) \<and> erase_field (put b x) = erase_field x"
    by (intro exI [of _ "ren nm a"] exI [of _ "s\<lparr>module_ng := m\<rparr>"] exI [of _ h]) (simp add: is_ok_def change_def)
qed

text \<open>An entity takes a name through an export.\<close>

lemma name_entity_keeps:
  assumes name: "\<And>str a. name_of (ren str a) = str"
    and keep: "\<And>x a str. get x = Some a \<Longrightarrow> bare_field x \<Longrightarrow> bare_field (put (ren str a) x)"
    and erase: "\<And>x a str. get x = Some a \<Longrightarrow> erase_field (put (ren str a) x) = erase_field x"
    and s: "keeps_names 0 E s" and a: "entity (parts get (fields_of (module_ng s))) i = Some a"
  shows "keeps_names 0 E (snd (run_state (name_entity hash_of upd get put ren opts nm i (name_of a)) s))"
proof -
  let ?fs = "fields_of (module_ng s)"
  from s have well: "well_named ?fs (module_ng s)" by (simp add: keeps_names_def)
  then have "length (parts get ?fs) < 2 ^ 32"
    by (auto simp: well_named_def good_def bound_def names_parts dest: spec [of _ k])
  from entity_SomeD [OF this a] part_split [of "unat i" get ?fs put] obtain pre x post where
    fs: "?fs = pre @ x # post" "get x = Some a" "length (parts get pre) = unat i"
    "\<And>g. update_part get put (unat i) g ?fs = pre @ put (g a) x # post" by auto
  have i: "i = of_nat (length (names_of k pre))" by (simp add: names_parts fs(3))
  let ?name = "\<lambda>hash. MaybeUseAndBindName opts hash nm i (name_of a)"
  obtain str h m where str: "run_state (on_bindings hash_of upd ?name) s = (str, s\<lparr>module_ng := m\<rparr>)"
    "takes (hash_of (module_ng s)) i (name_of a) (str, h)" "rebinds k h (module_ng s) m"
    using on_bindings_takes [where f = ?name, OF takes_names(2)] by blast
  have "well_named (pre @ put (ren str a) x # post) m"
    using str(2) by (intro well_named_takes(1) [OF well [unfolded fs(1)] kind_get [OF fs(2)] _ _ str(3)])
      (simp_all add: hash_of i kind_put [OF fs(2)] name)
  moreover have "list_all (stage 0) (pre @ put (ren str a) x # post)"
    using s keep [OF fs(2), of str] kind_put [OF fs(2), of "ren str a"] kind_get [OF fs(2)]
    by (simp add: keeps_names_def fs(1) stage_def)
  moreover have "fields_of m = ?fs" using str(3) by (simp add: rebinds_def)
  ultimately show ?thesis
    using s erase [OF fs(2), of str]
    by (simp add: name_entity_def str(1) set_fields_def keeps_names_def fs(4)) (simp add: fs(1))
qed

end

lemma all_kinds: "(\<forall>k. P k) \<longleftrightarrow> P GlobalE \<and> P TypeE \<and> P FuncE \<and> P TableE \<and> P MemoryE \<and> P TagE \<and> P DataE \<and> P ElemE"
  by (metis entity_kind.exhaust)

lemma rebinds_update:
  "rebinds GlobalE h m (global_bindings_update (\<lambda>h'. h) m)"
  "rebinds TypeE h m (type_bindings_update (\<lambda>h'. h) m)"
  "rebinds FuncE h m (func_bindings_update (\<lambda>h'. h) m)"
  "rebinds TableE h m (table_bindings_update (\<lambda>h'. h) m)"
  "rebinds MemoryE h m (memory_bindings_update (\<lambda>h'. h) m)"
  "rebinds TagE h m (tag_bindings_update (\<lambda>h'. h) m)"
  "rebinds DataE h m (data_segment_bindings_update (\<lambda>h'. h) m)"
  "rebinds ElemE h m (elem_segment_bindings_update (\<lambda>h'. h) m)"
  by (simp_all add: rebinds_def all_kinds)

interpretation global_kind: named_kind the_global put_global GlobalE global_name global_bindings global_bindings_update
  by unfold_locales (auto simp: put_import_def rebinds_update elim!: the_global.elims kind_name.elims split: import_desc.splits)

interpretation type_kind: named_kind the_type put_type TypeE entry_name type_bindings type_bindings_update
  by unfold_locales (auto simp: entity_parts rebinds_update split: module_field.splits import_desc.splits)

interpretation func_kind: named_kind the_func put_func FuncE func_name func_bindings func_bindings_update
  by unfold_locales (auto simp: put_import_def rebinds_update elim!: the_func.elims kind_name.elims split: import_desc.splits)

interpretation table_kind: named_kind the_table put_table TableE table_name table_bindings table_bindings_update
  by unfold_locales (auto simp: put_import_def rebinds_update elim!: the_table.elims kind_name.elims split: import_desc.splits)

interpretation memory_kind: named_kind the_memory put_memory MemoryE memory_name memory_bindings memory_bindings_update
  by unfold_locales (auto simp: put_import_def rebinds_update elim!: the_memory.elims kind_name.elims split: import_desc.splits)

interpretation tag_kind: named_kind the_tag put_tag TagE tag_name tag_bindings tag_bindings_update
  by unfold_locales (auto simp: put_import_def rebinds_update elim!: the_tag.elims kind_name.elims split: import_desc.splits)

interpretation data_kind: named_kind the_data put_data DataE data_name data_segment_bindings data_segment_bindings_update
  by unfold_locales (auto simp: entity_parts rebinds_update split: module_field.splits import_desc.splits)

interpretation elem_kind: named_kind the_elem put_elem ElemE elem_name elem_segment_bindings elem_segment_bindings_update
  by unfold_locales (auto simp: entity_parts rebinds_update split: module_field.splits import_desc.splits)

lemma rename_entry_simps [simp]:
  "entry_name (rename_entry str t) = str" "rename_entry str (rename_entry str' t) = rename_entry str t"
  by (cases t; simp)+

lemmas field_facts = bare_field_def named_field_def put_import_def entity_parts

lemma names_global: "global_kind.names_entity (\<lambda>i x. is_ok (VisitGlobal_ng opts i x))"
  unfolding VisitGlobal_ng_def
  by (rule global_kind.names_entity_renames [where ren = "\<lambda>str a. a\<lparr>global_name := str\<rparr>"])
    (auto simp: field_facts elim!: the_global.elims split: import_desc.splits module_field.splits)

lemma names_type: "type_kind.names_entity (\<lambda>i x. is_ok (VisitType_ng opts i x))"
  unfolding VisitType_ng_def
  by (rule type_kind.names_entity_renames [where ren = "rename_entry"])
    (auto simp: field_facts split: import_desc.splits module_field.splits)

lemma names_table: "table_kind.names_entity (\<lambda>i x. is_ok (VisitTable_ng opts i x))"
  unfolding VisitTable_ng_def
  by (rule table_kind.names_entity_renames [where ren = "\<lambda>str a. a\<lparr>table_name := str\<rparr>"])
    (auto simp: field_facts elim!: the_table.elims split: import_desc.splits module_field.splits)

lemma names_memory: "memory_kind.names_entity (\<lambda>i x. is_ok (VisitMemory_ng opts i x))"
  unfolding VisitMemory_ng_def
  by (rule memory_kind.names_entity_renames [where ren = "\<lambda>str a. a\<lparr>memory_name := str\<rparr>"])
    (auto simp: field_facts elim!: the_memory.elims split: import_desc.splits module_field.splits)

lemma names_tag: "tag_kind.names_entity (\<lambda>i x. is_ok (VisitTag_ng opts i x))"
  unfolding VisitTag_ng_def
  by (rule tag_kind.names_entity_renames [where ren = "\<lambda>str a. a\<lparr>tag_name := str\<rparr>"])
    (auto simp: field_facts elim!: the_tag.elims split: import_desc.splits module_field.splits)

lemma names_data: "data_kind.names_entity (\<lambda>i x. is_ok (VisitDataSegment_ng opts i x))"
  unfolding VisitDataSegment_ng_def
  by (rule data_kind.names_entity_renames [where ren = "\<lambda>str a. a\<lparr>data_name := str\<rparr>"])
    (auto simp: field_facts split: import_desc.splits module_field.splits)

lemma names_elem: "elem_kind.names_entity (\<lambda>i x. is_ok (VisitElemSegment_ng opts i x))"
  unfolding VisitElemSegment_ng_def
  by (rule elem_kind.names_entity_renames [where ren = "\<lambda>str a. a\<lparr>elem_name := str\<rparr>"])
    (auto simp: field_facts split: import_desc.splits module_field.splits)

text \<open>A function with names for itself, its locals and its labels.\<close>

lemma bound_locals:
  assumes "distinct (map fst (bindings f))"
  shows "distinct (map fst (bindings (GenerateAndBindLocalNames opts f)))"
    "list_all (\<lambda>nm. nm \<noteq> []) (local_names (GenerateAndBindLocalNames opts f))"
proof -
  have "unat (GetNumParamsAndLocals f) < 2 ^ 32"
    using unsigned_less [of "GetNumParamsAndLocals f", where 'a = nat] by simp
  from bind_locals_names [OF this, of _ 0 "bindings f" opts "GetNumParams f"] assms
  show "distinct (map fst (bindings (GenerateAndBindLocalNames opts f)))"
    "list_all (\<lambda>nm. nm \<noteq> []) (local_names (GenerateAndBindLocalNames opts f))"
    by (simp_all add: GenerateAndBindLocalNames_def local_names_def GetNumParamsAndLocals_def GetNumParams_def)
qed

lemma names_func: "func_kind.names_entity (VisitFunc_ng opts)"
  unfolding func_kind.names_entity_def
proof (intro allI impI)
  fix i f x s
  assume x: "the_func x = Some f" "bare_field x"
  then have f: "indexed_func f" "unlabelled_func f"
    by (auto simp: bare_field_def elim!: the_func.elims split: import_desc.splits)
  let ?name = "\<lambda>hash. MaybeGenerateAndBindName opts hash (ascii ''f'') i (func_name f)"
  obtain nm h m where name: "run_state (on_bindings func_bindings func_bindings_update ?name) s = (nm, s\<lparr>module_ng := m\<rparr>)"
    "takes (func_bindings (module_ng s)) i (func_name f) (nm, h)" "rebinds FuncE h (module_ng s) m"
    using func_kind.on_bindings_takes [where f = ?name, OF takes_names(1)] by blast
  define g where "g = GenerateAndBindLocalNames opts (f\<lparr>func_name := nm\<rparr>)"
  have g: "distinct (map fst (bindings g))" "list_all (\<lambda>nm. nm \<noteq> []) (local_names g)"
    using bound_locals [of "f\<lparr>func_name := nm\<rparr>" opts] f(1) by (simp_all add: g_def indexed_func_def)
  let ?s = "s\<lparr>module_ng := m\<rparr>"
  have "labelled (rewrite_exprs (generator opts) (func_exprs f)) 0 (blocks_exprs (func_exprs f)) ?s
      (\<lambda>y. indexed_exprs [] y \<and> erase_exprs y = erase_exprs (func_exprs f))"
    using f by (intro labelled_tree(2) [of _ "[]"]) (simp_all add: indexed_func_def unlabelled_func_def)
  then obtain y where y: "run_state (rewrite_exprs (generator opts) (func_exprs f)) (?s\<lparr>label_count := 0\<rparr>) =
      ((Ok, y), ?s\<lparr>label_count := of_nat (blocks_exprs (func_exprs f))\<rparr>)"
    "indexed_exprs [] y" "erase_exprs y = erase_exprs (func_exprs f)" by auto
  let ?g = "g\<lparr>func_exprs := y\<rparr>" and ?s' = "?s\<lparr>label_count := of_nat (blocks_exprs (func_exprs f))\<rparr>"
  have g_simps: "func_exprs g = func_exprs f" "func_name g = nm" "func_decl g = func_decl f"
    by (simp_all add: g_def GenerateAndBindLocalNames_def)
  have "run_state (VisitFunc_ng opts i f) s = ((Ok, ?g), ?s')"
    using y(1) by (simp add: VisitFunc_ng_def name(1) Let_def g_def [symmetric] g_simps)
  moreover have "erase_func ?g = erase_func f"
    by (simp add: erase_func_def y(3) g_def GenerateAndBindLocalNames_def)
  then have "erase_field (put_func ?g x) = erase_field x"
    using x(1) by (auto simp: put_import_def elim!: the_func.elims split: import_desc.splits)
  moreover have "indexed_func ?g" "local_names ?g = local_names g"
    using f(1) g(1) y(2) by (simp_all add: indexed_func_def g_simps local_names_def GetNumParamsAndLocals_def GetNumParams_def)
  then have "nm \<noteq> [] \<Longrightarrow> indexed_field (put_func ?g x) \<and> named_field (put_func ?g x)"
    using x(1) g(2) g_simps(2)
    by (auto simp: put_import_def named_field_def elim!: the_func.elims split: import_desc.splits)
  ultimately show "\<exists>b s' h. run_state (VisitFunc_ng opts i f) s = ((Ok, b), s') \<and>
      takes (func_bindings (module_ng s)) i (func_name f) (func_name b, h) \<and> rebinds FuncE h (module_ng s) (module_ng s') \<and>
      (func_name b \<noteq> [] \<longrightarrow> indexed_field (put_func b x) \<and> named_field (put_func b x)) \<and>
      erase_field (put_func b x) = erase_field x"
    using name(2,3) g_simps(2) by (intro exI [of _ ?g] exI [of _ ?s'] exI [of _ h]) simp
qed

section \<open>Imports\<close>

primrec counter :: "entity_kind \<Rightarrow> name_generator \<Rightarrow> index" where
  "counter FuncE s = num_func_imports s"
| "counter TableE s = num_table_imports s"
| "counter MemoryE s = num_memory_imports s"
| "counter GlobalE s = num_global_imports s"
| "counter TagE s = num_tag_imports s"
| "counter TypeE s = 0"
| "counter DataE s = 0"
| "counter ElemE s = 0"

lemma VisitImport_takes:
  assumes "kind_name (ImportField i) = Some (k, old)"
  shows "\<exists>i' nm h s'. run_state (VisitImport_ng opts i) s = (i', s') \<and>
    takes (bindings_of k (module_ng s)) (counter k s) old (nm, h) \<and> rebinds k h (module_ng s) (module_ng s') \<and>
    kind_name (ImportField i') = Some (k, nm) \<and> erase_field (ImportField i') = erase_field (ImportField i) \<and>
    (bare_field (ImportField i) \<longrightarrow> bare_field (ImportField i')) \<and>
    counter k s' = counter k s + 1 \<and> (\<forall>k'. k' \<noteq> k \<longrightarrow> counter k' s' = counter k' s)"
proof -
  let ?name = "import_module i @ ascii ''.'' @ import_field i"
  let ?use = "\<lambda>hash. MaybeUseAndBindName opts hash ?name (counter k s) old"
  obtain nm h where use: "?use (bindings_of k (module_ng s)) = (nm, h)" by force
  have t: "takes (bindings_of k (module_ng s)) (counter k s) old (nm, h)"
    using takes_names(2) [of "bindings_of k (module_ng s)" "counter k s" old opts ?name] unfolding use .
  show ?thesis
  proof (cases "import_desc i")
    case (FuncImport f)
    with assms use t show ?thesis
      by (auto simp: VisitImport_ng_def Let_def next_import_def on_bindings_def change_def rebinds_update all_kinds
        erase_func_def bare_field_def unlabelled_func_def indexed_func_def intro!: exI [of _ nm] exI [of _ h])
  next
    case (TableImport x)
    with assms use t show ?thesis
      by (auto simp: VisitImport_ng_def Let_def next_import_def on_bindings_def change_def rebinds_update all_kinds
        bare_field_def intro!: exI [of _ nm] exI [of _ h])
  next
    case (MemoryImport x)
    with assms use t show ?thesis
      by (auto simp: VisitImport_ng_def Let_def next_import_def on_bindings_def change_def rebinds_update all_kinds
        bare_field_def intro!: exI [of _ nm] exI [of _ h])
  next
    case (GlobalImport x)
    with assms use t show ?thesis
      by (auto simp: VisitImport_ng_def Let_def next_import_def on_bindings_def change_def rebinds_update all_kinds
        bare_field_def intro!: exI [of _ nm] exI [of _ h])
  next
    case (TagImport x)
    with assms use t show ?thesis
      by (auto simp: VisitImport_ng_def Let_def next_import_def on_bindings_def change_def rebinds_update all_kinds
        bare_field_def intro!: exI [of _ nm] exI [of _ h])
  qed
qed

lemma stage_0 [simp]: "stage 0 = bare_field"
  by (rule ext) (simp add: stage_def split: option.splits)

text \<open>
  The imports come before the definitions of functions, tables, memories, globals and tags; types,
  exports and segments may come anywhere.
\<close>

definition importable :: "entity_kind \<Rightarrow> bool" where
  "importable k \<longleftrightarrow> k \<notin> {TypeE, DataE, ElemE}"

definition defines_importable :: "module_field \<Rightarrow> bool" where
  "defines_importable x \<longleftrightarrow> the_import x = None \<and>
     (case kind_name x of Some (k, nm) \<Rightarrow> importable k | None \<Rightarrow> False)"

definition imports_first :: "module_field list \<Rightarrow> bool" where
  "imports_first fs \<longleftrightarrow>
     list_all (\<lambda>x. the_import x = None) (dropWhile (\<lambda>x. \<not> defines_importable x) fs)"

lemma no_imports: "list_all (\<lambda>x. the_import x = None) fs \<Longrightarrow>
    rewrite_numbered the_import put act i fs = State_Monad.return (Ok, fs)"
  by (induction fs) (auto simp: writes_def intro!: state.expand)

lemma imports_numbered:
  "well_named (pre @ fs) (module_ng s) \<Longrightarrow>
   (\<forall>k. importable k \<longrightarrow> counter k s = of_nat (length (names_of k pre))) \<Longrightarrow>
   list_all bare_field fs \<Longrightarrow> imports_first fs \<Longrightarrow>
   \<exists>fs' s'. run_state (rewrite_numbered the_import put_whole_import (\<lambda>i x. is_ok (VisitImport_ng opts x)) j fs) s =
       ((Ok, fs'), s') \<and> well_named (pre @ fs') (module_ng s') \<and> list_all bare_field fs' \<and>
     map erase_field fs' = map erase_field fs"
proof (induction fs arbitrary: pre s j)
  case (Cons x fs)
  show ?case
  proof (cases "the_import x")
    case None
    show ?thesis
    proof (cases "defines_importable x")
      case True
      with None Cons.prems show ?thesis by (simp add: imports_first_def no_imports writes_def)
    next
      case False
      then have "names_of k (pre @ [x]) = names_of k pre" if "importable k" for k
        using that None by (auto simp: names_of_append defines_importable_def split: option.splits)
      then have "\<forall>k. importable k \<longrightarrow> counter k s = of_nat (length (names_of k (pre @ [x])))"
        using Cons.prems(2) by simp
      with Cons.IH [of "pre @ [x]" s j] Cons.prems False obtain fs' s' where
        "run_state (rewrite_numbered the_import put_whole_import (\<lambda>i x. is_ok (VisitImport_ng opts x)) j fs) s = ((Ok, fs'), s')"
        "well_named (pre @ x # fs') (module_ng s')" "list_all bare_field fs'"
        "map erase_field fs' = map erase_field fs" by (auto simp: imports_first_def)
      with None Cons.prems(3) show ?thesis
        by (intro exI [of _ "x # fs'"] exI [of _ s']) (simp add: writes_def)
    qed
  next
    case (Some i)
    then have x: "x = ImportField i" by (simp add: the_import_def split: module_field.splits)
    obtain k old where kind: "kind_name (ImportField i) = Some (k, old)" and k: "importable k"
      by (cases "import_desc i") (auto simp: importable_def)
    from VisitImport_takes [OF kind, of opts s] Cons.prems(2) k obtain i' nm h s1 where run: "run_state (VisitImport_ng opts i) s = (i', s1)"
      and t: "takes (bindings_of k (module_ng s)) (of_nat (length (names_of k pre))) old (nm, h)"
      and rebinds: "rebinds k h (module_ng s) (module_ng s1)"
      and i': "kind_name (ImportField i') = Some (k, nm)" "erase_field (ImportField i') = erase_field (ImportField i)"
        "bare_field (ImportField i) \<Longrightarrow> bare_field (ImportField i')"
      and counters: "counter k s1 = counter k s + 1" "\<And>k'. k' \<noteq> k \<Longrightarrow> counter k' s1 = counter k' s" by auto
    from well_named_takes(1) [OF Cons.prems(1) [unfolded x] kind t i'(1) rebinds]
    have "well_named ((pre @ [ImportField i']) @ fs) (module_ng s1)" by simp
    moreover have "\<forall>k'. importable k' \<longrightarrow> counter k' s1 = of_nat (length (names_of k' (pre @ [ImportField i'])))"
      using counters Cons.prems(2) i'(1) k by (auto simp: names_of_append)
    moreover have "imports_first fs"
      using Cons.prems(4) Some by (simp add: imports_first_def defines_importable_def)
    ultimately obtain fs' s' where
      "run_state (rewrite_numbered the_import put_whole_import (\<lambda>i x. is_ok (VisitImport_ng opts x)) (j + 1) fs) s1 = ((Ok, fs'), s')"
      "well_named (pre @ ImportField i' # fs') (module_ng s')" "list_all bare_field fs'"
      "map erase_field fs' = map erase_field fs"
      using Cons.IH [of "pre @ [ImportField i']" s1 "j + 1"] Cons.prems(3) by auto
    moreover have "run_state (is_ok (VisitImport_ng opts i)) s = ((Ok, i'), s1)" by (simp add: is_ok_def run)
    moreover have "put_whole_import i' x = ImportField i'" by (simp add: put_whole_import_def)
    ultimately show ?thesis using i'(2,3) Cons.prems(3) Some x
      by (intro exI [of _ "ImportField i' # fs'"] exI [of _ s']) simp
  qed
qed simp

lemma imports_keep:
  assumes "aliased m" "well_named (fields_of m) m" "list_all bare_field (fields_of m)" "imports_first (fields_of m)"
  shows "\<exists>s'. run_state (VisitAll the_import put_whole_import (\<lambda>i x. is_ok (VisitImport_ng opts x))) (NameGenerator m) = ((), s') \<and>
    keeps_names 0 (map erase_field (fields_of m)) s'"
proof -
  have "\<forall>k. importable k \<longrightarrow> counter k (NameGenerator m) = of_nat (length (names_of k []))"
    by (simp add: all_kinds NameGenerator_def)
  moreover have "module_ng (NameGenerator m) = m" by (simp add: NameGenerator_def)
  ultimately show ?thesis
    using imports_numbered [of "[]" "fields_of m" "NameGenerator m" opts 0] assms
    by (auto simp: VisitAll_def set_fields_def keeps_names_def)
qed

section \<open>Exports\<close>

lemma bare_renamed:
  "the_func x = Some f \<Longrightarrow> bare_field x \<Longrightarrow> bare_field (put_func (f\<lparr>func_name := str\<rparr>) x)"
  "the_table x = Some t \<Longrightarrow> bare_field x \<Longrightarrow> bare_field (put_table (t\<lparr>table_name := str\<rparr>) x)"
  "the_memory x = Some y \<Longrightarrow> bare_field x \<Longrightarrow> bare_field (put_memory (y\<lparr>memory_name := str\<rparr>) x)"
  "the_global x = Some g \<Longrightarrow> bare_field x \<Longrightarrow> bare_field (put_global (g\<lparr>global_name := str\<rparr>) x)"
  "the_tag x = Some u \<Longrightarrow> bare_field x \<Longrightarrow> bare_field (put_tag (u\<lparr>tag_name := str\<rparr>) x)"
  by (auto simp: bare_field_def put_import_def indexed_func_def unlabelled_func_def elim!: the_func.elims the_table.elims
    the_memory.elims the_global.elims the_tag.elims split: import_desc.splits)

lemma erase_renamed:
  "the_func x = Some f \<Longrightarrow> erase_field (put_func (f\<lparr>func_name := str\<rparr>) x) = erase_field x"
  "the_table x = Some t \<Longrightarrow> erase_field (put_table (t\<lparr>table_name := str\<rparr>) x) = erase_field x"
  "the_memory x = Some y \<Longrightarrow> erase_field (put_memory (y\<lparr>memory_name := str\<rparr>) x) = erase_field x"
  "the_global x = Some g \<Longrightarrow> erase_field (put_global (g\<lparr>global_name := str\<rparr>) x) = erase_field x"
  "the_tag x = Some u \<Longrightarrow> erase_field (put_tag (u\<lparr>tag_name := str\<rparr>) x) = erase_field x"
  by (auto simp: put_import_def erase_func_def elim!: the_func.elims the_table.elims
    the_memory.elims the_global.elims the_tag.elims split: import_desc.splits)

lemma aliased_parts:
  assumes "aliased m"
  shows "funcs m = parts the_func (fields_of m)" "tables m = parts the_table (fields_of m)"
    "memories m = parts the_memory (fields_of m)" "globals m = parts the_global (fields_of m)"
    "tags m = parts the_tag (fields_of m)" "types m = parts the_type (fields_of m)"
    "elem_segments m = parts the_elem (fields_of m)" "data_segments m = parts the_data (fields_of m)"
  using assms by (auto simp: aliased_def from_fields_def elim!: subst)

lemma export_keeps:
  assumes "keeps_names 0 E s"
  shows "keeps_names 0 E (snd (run_state (VisitExport_ng opts e) s))"
proof -
  from assms have "aliased (module_ng s)" by (simp add: keeps_names_def)
  note parts = aliased_parts [OF this]
  note keeps = func_kind.name_entity_keeps [where ren = "\<lambda>str a. a\<lparr>func_name := str\<rparr>", OF _ bare_renamed(1) erase_renamed(1) assms]
    table_kind.name_entity_keeps [where ren = "\<lambda>str a. a\<lparr>table_name := str\<rparr>", OF _ bare_renamed(2) erase_renamed(2) assms]
    memory_kind.name_entity_keeps [where ren = "\<lambda>str a. a\<lparr>memory_name := str\<rparr>", OF _ bare_renamed(3) erase_renamed(3) assms]
    global_kind.name_entity_keeps [where ren = "\<lambda>str a. a\<lparr>global_name := str\<rparr>", OF _ bare_renamed(4) erase_renamed(4) assms]
    tag_kind.name_entity_keeps [where ren = "\<lambda>str a. a\<lparr>tag_name := str\<rparr>", OF _ bare_renamed(5) erase_renamed(5) assms]
  show ?thesis
    using assms keeps
    by (cases "export_kind e") (auto simp: VisitExport_ng_def Let_def GetFunc_def GetTable_def GetMemory_def GetGlobal_def
      GetTag_def parts split: option.splits)
qed

lemma exports_keep: "keeps_names 0 E s \<Longrightarrow> keeps_names 0 E (snd (run_state (VisitExports_ng opts es) s))"
proof (induction es arbitrary: s)
  case (Cons e es)
  obtain s1 where "run_state (VisitExport_ng opts e) s = ((), s1)" by (metis old.unit.exhaust surj_pair)
  with Cons.IH [of s1] export_keeps [OF Cons.prems, of opts e] show ?case by simp
qed simp

section \<open>The pass\<close>

lemma generated:
  assumes "aliased m" "well_named (fields_of m) m" "imports_first (fields_of m)" "list_all bare_field (fields_of m)"
  shows "keeps_names 8 (map erase_field (fields_of m)) (snd (run_state (VisitModule_ng opts) (NameGenerator m)))"
proof -
  let ?E = "map erase_field (fields_of m)"
  obtain s0 where s0: "run_state (VisitAll the_import put_whole_import (\<lambda>i x. is_ok (VisitImport_ng opts x))) (NameGenerator m) = ((), s0)"
    "keeps_names 0 ?E s0" using imports_keep [OF assms(1,2,4,3)] by blast
  obtain s1 where s1: "run_state (VisitExports_ng opts (exports (module_ng s0))) s0 = ((), s1)"
    by (metis old.unit.exhaust surj_pair)
  with exports_keep [OF s0(2), of opts "exports (module_ng s0)"] have k1: "keeps_names 0 ?E s1" by simp
  note loops = global_kind.visits_all [OF names_global, unfolded rank.simps] type_kind.visits_all [OF names_type, unfolded rank.simps]
    func_kind.visits_all [OF names_func, unfolded rank.simps] table_kind.visits_all [OF names_table, unfolded rank.simps]
    memory_kind.visits_all [OF names_memory, unfolded rank.simps] tag_kind.visits_all [OF names_tag, unfolded rank.simps]
    data_kind.visits_all [OF names_data, unfolded rank.simps] elem_kind.visits_all [OF names_elem, unfolded rank.simps]
  obtain s2 where s2: "run_state (VisitAll the_global put_global (\<lambda>i x. is_ok (VisitGlobal_ng opts i x))) s1 = ((), s2)"
    "keeps_names (Suc 0) ?E s2" using loops(1) [OF k1, of opts] by blast
  obtain s3 where s3: "run_state (VisitAll the_type put_type (\<lambda>i x. is_ok (VisitType_ng opts i x))) s2 = ((), s3)"
    "keeps_names 2 ?E s3" using loops(2) [OF s2(2) [folded One_nat_def], of opts] by (auto simp: numeral_eq_Suc)
  obtain s4 where s4: "run_state (VisitAll the_func put_func (VisitFunc_ng opts)) s3 = ((), s4)"
    "keeps_names 3 ?E s4" using loops(3) [OF s3(2), of opts] by (auto simp: numeral_eq_Suc)
  obtain s5 where s5: "run_state (VisitAll the_table put_table (\<lambda>i x. is_ok (VisitTable_ng opts i x))) s4 = ((), s5)"
    "keeps_names 4 ?E s5" using loops(4) [OF s4(2), of opts] by (auto simp: numeral_eq_Suc)
  obtain s6 where s6: "run_state (VisitAll the_memory put_memory (\<lambda>i x. is_ok (VisitMemory_ng opts i x))) s5 = ((), s6)"
    "keeps_names 5 ?E s6" using loops(5) [OF s5(2), of opts] by (auto simp: numeral_eq_Suc)
  obtain s7 where s7: "run_state (VisitAll the_tag put_tag (\<lambda>i x. is_ok (VisitTag_ng opts i x))) s6 = ((), s7)"
    "keeps_names 6 ?E s7" using loops(6) [OF s6(2), of opts] by (auto simp: numeral_eq_Suc)
  obtain s8 where s8: "run_state (VisitAll the_data put_data (\<lambda>i x. is_ok (VisitDataSegment_ng opts i x))) s7 = ((), s8)"
    "keeps_names 7 ?E s8" using loops(7) [OF s7(2), of opts] by (auto simp: numeral_eq_Suc)
  obtain s9 where s9: "run_state (VisitAll the_elem put_elem (\<lambda>i x. is_ok (VisitElemSegment_ng opts i x))) s8 = ((), s9)"
    "keeps_names 8 ?E s9" using loops(8) [OF s8(2), of opts] by (auto simp: numeral_eq_Suc)
  have "run_state (VisitModule_ng opts) (NameGenerator m) = ((), s9)"
    by (simp add: VisitModule_ng_def s0(1) s1 s2(1) s3(1) s4(1) s5(1) s6(1) s7(1) s8(1) s9(1))
  then show ?thesis using s9(2) by simp
qed

lemma GenerateNames_spec:
  assumes "aliased m" "well_named (fields_of m) m" "imports_first (fields_of m)" "list_all bare_field (fields_of m)"
    "GenerateNames m opts = (r, m')"
  shows "r = Ok" "aliased m'" "well_named (fields_of m') m'" "list_all indexed_field (fields_of m')"
    "list_all named_field (fields_of m')" "map erase_field (fields_of m') = map erase_field (fields_of m)"
proof -
  let ?s = "snd (run_state (VisitModule_ng opts) (NameGenerator m))"
  from assms(5) have "r = Ok" and m': "m' = module_ng ?s" by (simp_all add: GenerateNames_def)
  then show "r = Ok" by simp
  from generated [OF assms(1-4), of opts]
  show "aliased m'" "well_named (fields_of m') m'" "list_all indexed_field (fields_of m')"
    "list_all named_field (fields_of m')" "map erase_field (fields_of m') = map erase_field (fields_of m)"
    by (auto simp: m' keeps_names_def list_all_iff dest: stage_all)
qed

lemma well_named_bound:
  assumes "aliased m" "well_named (fields_of m) m"
  shows "names_bound m m" "names_distinct m"
proof -
  note good = func_kind.good_parts [OF assms(2)] global_kind.good_parts [OF assms(2)] type_kind.good_parts [OF assms(2)]
    table_kind.good_parts [OF assms(2)] memory_kind.good_parts [OF assms(2)] tag_kind.good_parts [OF assms(2)]
    data_kind.good_parts [OF assms(2)] elem_kind.good_parts [OF assms(2)]
  then show "names_bound m m" "names_distinct m"
    by (simp_all add: names_bound_def names_distinct_def good_def aliased_parts [OF assms(1)])
qed

text \<open>
  C31. Assumed of a module: its vectors consist of the entities of its fields (\<open>aliased\<close>); of every
  kind, the names its entities have are bound to them and bound once, and so are the names of the
  locals of a function (\<open>well_named\<close>, \<open>bare_field\<close>); no import comes after a definition of a function,
  table, memory, global or tag (\<open>imports_first\<close>); all variables are indices, no block has a label, and
  no function has more than \<open>2 ^ 32\<close> blocks (\<open>bare_field\<close>). Then after the pass every entity and every
  parameter and local has a name, every name of a kind is still bound once and to the entity that has
  it, and nothing has changed but names, the bindings of locals and labels.
\<close>

theorem GenerateNames_names:
  "aliased m \<Longrightarrow> well_named (fields_of m) m \<Longrightarrow> imports_first (fields_of m) \<Longrightarrow> list_all bare_field (fields_of m) \<Longrightarrow>
     GenerateNames m opts = (r, m') \<Longrightarrow>
     r = Ok \<and> aliased m' \<and> well_named (fields_of m') m' \<and> list_all named_field (fields_of m') \<and>
       map erase_field (fields_of m') = map erase_field (fields_of m)"
  by (intro conjI) (rule GenerateNames_spec; assumption)+

text \<open>
  C32. Under the hypotheses of \<open>GenerateNames_names\<close> a module goes through its text and comes back:
  with names for everything, written in the place of indices (where \<open>ApplyNames\<close> succeeds) and resolved
  again, it has the indices it had. So in such a module, whose blocks have no labels before, no name
  that is made up is that of another entity or local of the function, or of a label on the way to the
  block that is meant. (A block labelled like a made up label would capture it.)
\<close>

theorem names_roundtrip:
  "aliased m \<Longrightarrow> well_named (fields_of m) m \<Longrightarrow> imports_first (fields_of m) \<Longrightarrow> list_all bare_field (fields_of m) \<Longrightarrow>
     GenerateNames m opts = (Ok, m1) \<Longrightarrow> ApplyNames m1 = (Ok, m2) \<Longrightarrow>
     ResolveNamesModule m2 = (Ok, m1, []) \<and> map erase_field (fields_of m1) = map erase_field (fields_of m)"
  using GenerateNames_spec [of m opts Ok m1] well_named_bound [of m1] ApplyNames_reverts [of m1 m2]
    ResolveNames_spec [of m2] by (cases "ResolveNamesModule m2") auto

section \<open>Examples\<close>

definition nameless :: module where
  "nameless = AppendFields
     [FuncField (func.make [] (func_declaration.make False (VIndex kInvalidIndex) (func_signature.make [I32] [])) [] []
        [BlockExprBase BlockT (Block [] no_decl [BlockExprBase LoopT (Block [] no_decl
           [VarExpr LocalGetT (VIndex 0), VarExpr CallT (VIndex 0), VarExpr BrT (VIndex 1)])])]),
      ExportField (export.make [109] EkFunc (VIndex 0)), StartField (VIndex 0)] empty_module"


definition named :: module where
  "named = snd (GenerateNames nameless AlphaNames)"

lemma nameless_hypotheses:
  "aliased nameless" "well_named (fields_of nameless) nameless" "imports_first (fields_of nameless)"
  "list_all bare_field (fields_of nameless)"
proof -
  show "aliased nameless" by (simp add: nameless_def aliased_AppendFields)
  show "well_named (fields_of nameless) nameless"
    by (simp add: well_named_def all_kinds good_def bound_def nameless_def AppendFields_def empty_module_def
      bind_name_def emplace_def func.make_def export.make_def)
  show "imports_first (fields_of nameless)"
    by (simp add: imports_first_def defines_importable_def importable_def nameless_def AppendFields_def
      empty_module_def the_import_def)
  show "list_all bare_field (fields_of nameless)"
    by (simp add: bare_field_def nameless_def AppendFields_def empty_module_def indexed_func_def indexed_decl_def is_index_def
      no_decl_def func.make_def func_declaration.make_def export.make_def the_func.simps unlabelled_func_def)
qed

lemma named_body: "map func_name (funcs named) = [ascii ''$m''] \<and> map bindings (funcs named) = [[(ascii ''$a'', 0)]] \<and>
    map func_exprs (funcs named) = [[BlockExprBase BlockT (Block (ascii ''$B_a'') no_decl
      [BlockExprBase LoopT (Block (ascii ''$L_b'') no_decl
        [VarExpr LocalGetT (VIndex 0), VarExpr CallT (VIndex 0), VarExpr BrT (VIndex 1)])])]]"
  by code_simp

theorem GenerateNames_names_witness: "well_named (fields_of named) named \<and> list_all named_field (fields_of named)"
  using GenerateNames_names [OF nameless_hypotheses, of AlphaNames Ok named]
  by (simp add: named_def GenerateNames_def)

definition written :: module where
  "written = snd (ApplyNames named)"

lemma written_body: "fst (ApplyNames named) = Ok \<and> map func_exprs (funcs written) =
    [[BlockExprBase BlockT (Block (ascii ''$B_a'') no_decl
      [BlockExprBase LoopT (Block (ascii ''$L_b'') no_decl
        [VarExpr LocalGetT (VName (ascii ''$a'')), VarExpr CallT (VName (ascii ''$m'')),
         VarExpr BrT (VName (ascii ''$B_a''))])])]]"
  by code_simp

theorem names_roundtrip_witness: "ResolveNamesModule written = (Ok, named, [])"
proof -
  have "GenerateNames nameless AlphaNames = (Ok, named)" by (simp add: named_def GenerateNames_def)
  moreover have "ApplyNames named = (Ok, written)" using written_body by (simp add: written_def prod_eq_iff)
  ultimately show ?thesis using names_roundtrip [OF nameless_hypotheses] by blast
qed

end
