(* ===== verification/Spec2Isabelle.thy ===== *)
theory Spec2Isabelle
  imports Leb128 Utf8 Opcode_Table Type_Soundness Shared_Validator_Facts Binary_Reader_Values
    Binary_Writer_Correct IR_Facts Validator_Checks
    Generate_Names_Facts
begin

text \<open>
  A verification library for the core of wabt, the WebAssembly Binary Toolkit: the code that
  every tool of the repository runs on a module before it prints, translates or executes it.

  The parts and the theories that model them:

  \<^item> result codes, \<open>Type\<close>, \<open>Limits\<close> and \<open>Features\<close> (include/wabt/result.h, type.h, common.h,
    feature.h, src/feature.cc): \<open>Wabt_Base\<close>. A \<open>Type\<close> is its enumerator and its reference index;
    \<open>CHECK_RESULT\<close> is a combinator of the state monad.
  \<^item> \<open>Stream\<close> and \<open>MemoryStream\<close> (src/stream.cc): \<open>Stream_Out\<close>, a buffer with an offset.
  \<^item> LEB128 (src/leb128.cc): \<open>Leb128\<close>, every writer and reader on words of 32 and 64 bits.
  \<^item> UTF-8 (src/utf8.cc): \<open>Utf8\<close>.
  \<^item> opcodes (include/wabt/opcode.def, opcode.h, src/opcode.cc, src/opcode-code-table.c):
    \<open>Opcodes\<close> holds the table with every row, \<open>Opcode_Table\<close> the facts about it.
  \<^item> the type checker (src/type-checker.cc): \<open>Type_Checker\<close> holds the class, one definition per
    method, and \<open>tc_step\<close>, the public interface as one step function. \<open>Type_Checker_Facts\<close> has
    what each call does to the stacks, \<open>Type_Checker_Runs\<close> the accepting runs of the control
    instructions, \<open>Type_Soundness\<close> a declarative type system and the soundness of the checker.
  \<^item> the shared validator (src/shared-validator.cc): \<open>Shared_Validator\<close>, which calls the type
    checker as the code does, and \<open>Shared_Validator_Facts\<close>.

  \<^item> the binary reader (src/binary-reader.cc, include/wabt/binary.h): \<open>Binary_Reader\<close> has its state,
    the calls and reports, and the readers of values; \<open>Binary_Reader_Code\<close> the instruction loop with
    every opcode; \<open>Binary_Reader_Sections\<close> the sections, known and custom, up to \<open>ReadBinary\<close>. The
    delegate is a parameter: a function from the calls it has received to its answer, so the
    facts hold for every delegate. \<open>Binary_Reader_Facts\<close> has one judgement for all actions (the
    frame, the bounds of the offset, a report for each failure) and the locale \<open>reader_bound\<close> in
    which it is proved for any bound that advancing keeps; \<open>Binary_Reader_Bounds\<close> carries it to
    the instructions and sections, \<open>Binary_Reader_Module\<close> to the loop over the sections: the
    reader ends, agrees with its reports and reads all of the data. \<open>Binary_Reader_Protocol\<close>
    proves that the calls for an accepted module follow an automaton, and
    \<open>Binary_Reader_Values\<close> reads back what the writers of LEB128, strings and opcodes produce.

  \<^item> the intermediate representation (include/wabt/ir.h, src/ir.cc, binding-hash.h): \<open>IR\<close> has the
    expressions, the entities and the module with its look-ups, and \<open>AppendField\<close>, which fills it;
    \<open>IR_Facts\<close> shows that the bindings it makes name the entities, in whatever order the container
    of the bindings yields them; the model keeps them in the order of insertion, and no other
    property depends on the order of equal names but the resolver's, for data segments.
  \<^item> the binary writer (src/binary-writer.cc): \<open>Binary_Writer\<close> has its state, section headers with
    their placeholders and patches, symbols and relocations; \<open>Binary_Writer_Code\<close> the expressions,
    \<open>Binary_Writer_Module\<close> the sections up to \<open>WriteBinaryModule\<close>. \<open>Binary_Encoding\<close> is a functional
    encoding of modules, written without stream, offsets or patches. \<open>Binary_Writer_Facts\<close> has the
    judgement that an action appends given bytes, and \<open>Binary_Writer_Correct\<close> shows that the
    writer leaves exactly the encoding on the stream (\<open>WriteBinaryModule_encodes\<close>).

  \<^item> the expression visitor (src/expr-visitor.cc): \<open>Expr_Visitor\<close> has the loop over the four stacks and
    the proof that it is the recursive traversal, for every delegate.
  \<^item> the module validator (src/validator.cc): \<open>Validator\<close> is the delegate of the visitor that calls
    the shared validator, and \<open>CheckModule\<close>. \<open>Type_Checker_Frame\<close> and \<open>Shared_Validator_Runs\<close>
    say what the calls below it leave alone and what an accepted call has done.
    \<open>Validator_Instructions\<close> translates expressions to typed instructions, \<open>Validator_Bodies\<close>
    follows a body down to the calls of the type checker, and \<open>Validator_Soundness\<close> shows that
    the sections enter the index spaces of the module, and with that that every function body of
    an accepted module has a type (\<open>validated_bodies_typed\<close>). \<open>Validator_Checks\<close> has what else
    an accepted module satisfies: distinct exports of entities in range, initializer expressions
    that are constant, and a declaration for every function that a body refers to. The locales
    \<open>instruction_frame\<close> and \<open>module_frame\<close> prove once which invariants of the shared validator every
    operation keeps, and \<open>trail\<close> follows a delegate along the expressions it sees.

  \<^item> the resolver of names (src/resolve-names.cc): \<open>Expr_Rewrite\<close> is the traversal of the visitor for
    delegates that write to the expressions, \<open>Module_Update\<close> the loops over the vectors of a module,
    which point into its fields. \<open>Resolve_Names\<close> has every member function of \<open>NameResolver\<close>, and
    \<open>Resolve_Names_Facts\<close> says without its state what it accepts and what it leaves
    (\<open>ResolveNamesModule_iff\<close>).
  \<^item> the passes that apply and make up names (src/apply-names.cc, src/generate-names.cc):
    \<open>Apply_Names\<close> and \<open>Generate_Names\<close> have the member functions of \<open>NameApplier\<close> and
    \<open>NameGenerator\<close>. \<open>Apply_Names_Facts\<close> shows that the resolver undoes the applier where no label
    is shadowed, \<open>Generate_Names_Facts\<close> that the generator names everything without a clash, so
    that the three passes together keep every index (\<open>names_roundtrip\<close>). The search for a free
    name ends because the candidates differ and the bindings are finitely many.

  \<open>Prelude\<close> holds the integer types, the vector lemmas, the rules for actions that keep an
  invariant and the locale of step systems that the components interpret.

  Conventions. A class is a record, a method an action of HOL-Library's state monad with the
  source's name (with a suffix where two classes share it), an output parameter a component of
  the result, a message a format with its arguments. Sizes and positions in memory are natural
  numbers, values of the file format words of their width. Loops with a bound are structural
  recursions; the LEB128, UTF-8 and binary search loops are proved to terminate. A loop of the
  binary reader over the bytes of a section gets as many rounds as there are bytes left, and one
  more; each round reads at least one byte, so the rounds suffice (\<open>ReadModule_total\<close>).

  Not modelled yet: the builder of the IR, the validator of test scripts, the resolver on scripts,
  literals and the interpreter, which are planned; the text parser
  and the writers for text and C, the tools, bindings and generated sources, which are I/O, glue
  or text templates.
\<close>

end
